(* ===== verification/EM_Prelude.thy ===== *)
theory EM_Prelude
  imports Main "HOL-Library.Word"
begin

text \<open>
  Shared vocabulary of the development: the machine integer types of the sources, the
  \<open>esp_err_t\<close> error codes the data model returns, tests of flag bits, the little-endian
  view of a word as bytes, and the generic facts on lists and maps that the component
  theories use.  Nothing here is specific to one component.
\<close>

unbundle bit_operations_syntax

named_theorems em_simps \<open>rewrite rules for the model's accessors and state updates\<close>

named_theorems em_inv \<open>preservation lemmas of the data-model invariant\<close>

type_synonym u8 = "8 word"
type_synonym u16 = "16 word"
type_synonym u32 = "32 word"
type_synonym u64 = "64 word"
type_synonym addr = nat
type_synonym fnptr = nat

section \<open>Error codes\<close>

datatype esp_err =
    ESP_OK
  | ESP_FAIL
  | ESP_ERR_NO_MEM
  | ESP_ERR_INVALID_ARG
  | ESP_ERR_INVALID_STATE
  | ESP_ERR_NOT_FOUND
  | ESP_ERR_NOT_SUPPORTED
  | ESP_ERR_NOT_FINISHED
  | ESP_ERR_NVS_NOT_FOUND
  | ESP_ERR_NVS_INVALID_LENGTH
  | ESP_ERR_CODE int

section \<open>Flag tests\<close>

definition has_flag :: "'a::len word \<Rightarrow> 'a word \<Rightarrow> bool" where
  "has_flag w f \<longleftrightarrow> w AND f \<noteq> 0"

lemma has_flag_zero [simp]: "\<not> has_flag w 0" "\<not> has_flag 0 f"
  by (simp_all add: has_flag_def)

lemma has_flag_self [simp]: "has_flag w w \<longleftrightarrow> w \<noteq> 0"
  by (simp add: has_flag_def)

lemma has_flag_bit: "has_flag w f \<longleftrightarrow> (\<exists>n. bit w n \<and> bit f n)"
  by (auto simp: has_flag_def bit_eq_iff bit_and_iff dest: bit_imp_le_length)

lemma has_flag_or [simp]: "has_flag (a OR b) f \<longleftrightarrow> has_flag a f \<or> has_flag b f"
  by (auto simp: has_flag_bit bit_or_iff)

section \<open>Bytes of a word, least significant first\<close>

definition byte_at :: "'a::len word \<Rightarrow> nat \<Rightarrow> u8" where
  "byte_at w i = ucast (drop_bit (8 * i) w)"

definition le_bytes :: "nat \<Rightarrow> 'a::len word \<Rightarrow> u8 list" where
  "le_bytes n w = map (byte_at w) [0..<n]"

fun le_word :: "u8 list \<Rightarrow> 'a::len word" where
  "le_word [] = 0"
| "le_word (b # bs) = ucast b OR push_bit 8 (le_word bs)"

lemma length_le_bytes [simp]: "length (le_bytes n w) = n"
  by (simp add: le_bytes_def)

lemma bit_byte_at: "bit (byte_at w i) j \<longleftrightarrow> j < 8 \<and> bit w (8 * i + j)"
  by (auto simp: byte_at_def bit_ucast_iff bit_drop_bit_eq bit_imp_le_length)

lemma le_bytes_inj:
  fixes v w :: "'a::len word"
  assumes "le_bytes n v = le_bytes n w" and "LENGTH('a) \<le> 8 * n"
  shows "v = w"
proof (rule bit_word_eqI)
  fix k assume "k < LENGTH('a)"
  with assms(2) have "k div 8 < n" by linarith
  with assms(1) have "byte_at v (k div 8) = byte_at w (k div 8)"
    by (auto simp: le_bytes_def)
  then have "bit (byte_at v (k div 8)) (k mod 8) = bit (byte_at w (k div 8)) (k mod 8)"
    by simp
  then show "bit v k = bit w k" by (simp add: bit_byte_at)
qed

lemma bit_le_word:
  "bit (le_word bs :: 'a::len word) k \<longleftrightarrow>
     k < LENGTH('a) \<and> k div 8 < length bs \<and> bit (bs ! (k div 8)) (k mod 8)"
proof (induction bs arbitrary: k)
  case (Cons b bs)
  show ?case
  proof (cases "k < 8")
    case True
    then have "k div 8 = 0" "k mod 8 = k" by simp_all
    with True show ?thesis
      by (auto simp: bit_or_iff bit_push_bit_iff bit_ucast_iff)
  next
    case False
    then have k: "k div 8 = Suc ((k - 8) div 8)" "k mod 8 = (k - 8) mod 8"
      by (simp_all add: le_div_geq le_mod_geq)
    from False have "\<not> bit (ucast b :: 'a word) k"
      by (auto simp: bit_ucast_iff dest: bit_imp_le_length)
    with False k Cons.IH[of "k - 8"] show ?thesis
      by (auto simp: bit_or_iff bit_push_bit_iff)
  qed
qed simp

lemma le_word_le_bytes: "le_word (le_bytes n w) = take_bit (8 * n) (w :: 'a::len word)"
proof (rule bit_word_eqI)
  fix k assume "k < LENGTH('a)"
  then show "bit (le_word (le_bytes n w) :: 'a word) k = bit (take_bit (8 * n) w) k"
    by (auto simp: bit_le_word bit_take_bit_iff le_bytes_def bit_byte_at
        dest: bit_imp_le_length)
qed

section \<open>Searching lists of handles\<close>

lemma find_append: "find P (xs @ ys) = (case find P xs of None \<Rightarrow> find P ys | Some x \<Rightarrow> Some x)"
  by (induction xs) auto

lemma option_eqI: "(\<And>y. a = Some y \<longleftrightarrow> b = Some y) \<Longrightarrow> a = b"
  by (metis not_None_eq)

lemma find_SomeD: "find P xs = Some x \<Longrightarrow> x \<in> set xs \<and> P x"
  by (auto simp: find_Some_iff)

lemma find_None_cong: "(\<And>x. x \<in> set xs \<Longrightarrow> P x = Q x) \<Longrightarrow> find P xs = find Q xs"
  by (induction xs) auto

lemma find_unique:
  assumes "x \<in> set xs" and "P x" and "\<And>y. y \<in> set xs \<Longrightarrow> P y \<Longrightarrow> y = x"
  shows "find P xs = Some x"
proof (cases "find P xs")
  case None
  with assms(1,2) show ?thesis by (auto simp: find_None_iff)
next
  case (Some y)
  then have "y \<in> set xs" "P y" by (auto dest: find_SomeD)
  with assms(3) Some show ?thesis by simp
qed

lemma find_remove1:
  assumes "\<not> P x"
  shows "find P (remove1 x xs) = find P xs"
  using assms by (induction xs) auto

lemma set_remove1_distinct: "distinct xs \<Longrightarrow> set (remove1 x xs) = set xs - {x}"
  by simp

section \<open>Allocation\<close>

text \<open>
  \<open>esp_matter_mem_calloc\<close> either returns a block at an address not handed out before or fails;
  which of the two is up to \<open>mem_fail\<close>, on which no assumption is made.
\<close>

record mem =
  mem_next :: nat
  mem_fail :: "nat \<Rightarrow> bool"

definition mem_calloc :: "mem \<Rightarrow> addr option \<times> mem" where
  "mem_calloc m =
     (if mem_fail m (mem_next m) then None else Some (mem_next m),
      m\<lparr>mem_next := Suc (mem_next m)\<rparr>)"

lemma mem_calloc_simps [simp]:
  "mem_next (snd (mem_calloc m)) = Suc (mem_next m)"
  "mem_fail (snd (mem_calloc m)) = mem_fail m"
  by (simp_all add: mem_calloc_def)

lemma mem_calloc_Some: "mem_calloc m = (Some a, m') \<Longrightarrow> a = mem_next m \<and> m' = m\<lparr>mem_next := Suc a\<rparr>"
  by (auto simp: mem_calloc_def split: if_splits)

end
