(* ===== verification/EM_LinkedList.thy ===== *)
theory EM_LinkedList
  imports EM_Prelude "HOL-Library.Monad_Syntax"
begin

text \<open>
  The intrusive singly linked list of \<open>data_model/private/singly_linked_list.h\<close>, at the
  level of its \<open>next\<close> pointers.  A list is a head pointer and a store of nodes; a
  \<open>T **\<close> of the code is a \<open>slot\<close> (the head, or the \<open>next\<close> field of a node).  A loop that
  follows \<open>next\<close> pointers is a \<open>partial_function\<close>: \<open>None\<close> stands for a run that never
  returns (a cyclic list) or that reads through a null or dangling pointer.  The theorems say
  that on a well-formed list the operations return and act on the sequence of nodes as
  appending, removing one element and emptying, so the rest of the development may keep the
  lists of endpoints, clusters, attributes, commands and events as Isabelle lists of handles.
\<close>

section \<open>The list in memory\<close>

datatype slot = Head | NextOf addr

record 'f llist =
  head :: "addr option"
  nexts :: "addr \<rightharpoonup> addr option"
  flags_of :: "addr \<Rightarrow> 'f"

definition read_slot :: "'f llist \<Rightarrow> slot \<Rightarrow> addr option option" where
  "read_slot l p = (case p of Head \<Rightarrow> Some (head l) | NextOf a \<Rightarrow> nexts l a)"

definition write_slot :: "'f llist \<Rightarrow> slot \<Rightarrow> addr option \<Rightarrow> 'f llist" where
  "write_slot l p v =
     (case p of Head \<Rightarrow> l\<lparr>head := v\<rparr> | NextOf a \<Rightarrow> l\<lparr>nexts := (nexts l)(a \<mapsto> v)\<rparr>)"

definition free_node :: "'f llist \<Rightarrow> addr \<Rightarrow> 'f llist" where
  "free_node l a = l\<lparr>nexts := (nexts l)(a := None)\<rparr>"

section \<open>The operations\<close>

partial_function (option) append_loop :: "'f llist \<Rightarrow> slot \<Rightarrow> slot option" where
  "append_loop l p =
     do { v \<leftarrow> read_slot l p;
          case v of None \<Rightarrow> Some p | Some a \<Rightarrow> append_loop l (NextOf a) }"

definition ll_append :: "'f llist \<Rightarrow> addr \<Rightarrow> 'f llist option" where
  "ll_append l newNode = do { p \<leftarrow> append_loop l Head; Some (write_slot l p (Some newNode)) }"

partial_function (option) remove_loop :: "'f llist \<Rightarrow> addr \<Rightarrow> slot \<Rightarrow> slot option" where
  "remove_loop l target p =
     do { v \<leftarrow> read_slot l p;
          if v = Some target then Some p
          else case v of None \<Rightarrow> None | Some a \<Rightarrow> remove_loop l target (NextOf a) }"

definition ll_remove :: "'f llist \<Rightarrow> addr \<Rightarrow> 'f llist option" where
  "ll_remove l target =
     do { p \<leftarrow> remove_loop l target Head;
          n \<leftarrow> nexts l target;
          Some (free_node (write_slot l p n) target) }"

partial_function (option) delete_loop :: "'f llist \<Rightarrow> addr option \<Rightarrow> 'f llist option" where
  "delete_loop l current =
     (case current of
        None \<Rightarrow> Some l
      | Some a \<Rightarrow> do { n \<leftarrow> nexts l a; delete_loop (free_node l a) n })"

definition ll_delete_list :: "'f llist \<Rightarrow> 'f llist option" where
  "ll_delete_list l = do { l' \<leftarrow> delete_loop l (head l); Some (l'\<lparr>head := None\<rparr>) }"

partial_function (option) count_loop :: "'f llist \<Rightarrow> addr option \<Rightarrow> u32 \<Rightarrow> u32 option" where
  "count_loop l p cnt =
     (case p of None \<Rightarrow> Some cnt
      | Some a \<Rightarrow> do { n \<leftarrow> nexts l a; count_loop l n (cnt + 1) })"

definition ll_count :: "'f llist \<Rightarrow> u32 option" where
  "ll_count l = count_loop l (head l) 0"

partial_function (option) count_with_flag_loop ::
    "u32 llist \<Rightarrow> u32 \<Rightarrow> addr option \<Rightarrow> u32 \<Rightarrow> u32 option" where
  "count_with_flag_loop l flag p cnt =
     (case p of None \<Rightarrow> Some cnt
      | Some a \<Rightarrow> do { n \<leftarrow> nexts l a;
                       count_with_flag_loop l flag n
                         (if has_flag (flags_of l a) flag then cnt + 1 else cnt) })"

definition ll_count_with_flag :: "u32 llist \<Rightarrow> u32 \<Rightarrow> u32 option" where
  "ll_count_with_flag l flag = count_with_flag_loop l flag (head l) 0"

section \<open>The sequence of nodes\<close>

fun chain :: "(addr \<rightharpoonup> addr option) \<Rightarrow> addr option \<Rightarrow> addr list \<Rightarrow> bool" where
  "chain nx p [] \<longleftrightarrow> p = None"
| "chain nx p (a # as) \<longleftrightarrow>
     p = Some a \<and> (case nx a of None \<Rightarrow> False | Some n \<Rightarrow> chain nx n as)"

definition nodes :: "'f llist \<Rightarrow> addr list \<Rightarrow> bool" where
  "nodes l xs \<longleftrightarrow> chain (nexts l) (head l) xs"

lemma chain_det: "chain nx p xs \<Longrightarrow> chain nx p ys \<Longrightarrow> xs = ys"
proof (induction xs arbitrary: p ys)
  case Nil
  then show ?case by (cases ys) auto
next
  case (Cons a as)
  then show ?case by (cases ys) (auto split: option.splits)
qed

lemma chain_split:
  "chain nx p (xs @ a # ys) \<Longrightarrow> chain nx (Some a) (a # ys)"
proof (induction xs arbitrary: p)
  case (Cons b xs)
  then obtain n where "chain nx n (xs @ a # ys)" by (auto split: option.splits)
  then show ?case by (rule Cons.IH)
qed auto

lemma chain_distinct: "chain nx p xs \<Longrightarrow> distinct xs"
proof (induction xs arbitrary: p)
  case (Cons a as)
  then obtain n where n: "nx a = Some n" "chain nx n as" "p = Some a"
    by (auto split: option.splits)
  have "a \<notin> set as"
  proof
    assume "a \<in> set as"
    then obtain us vs where as: "as = us @ a # vs" by (auto dest: split_list)
    with n(2) have "chain nx (Some a) (a # vs)" by (simp only: chain_split)
    with Cons.prems have "a # as = a # vs"
      by (intro chain_det[of nx "Some a"]) (auto simp: n(3) split: option.splits)
    with as show False by simp
  qed
  with Cons.IH n show ?case by auto
qed simp

lemma chain_cong:
  "(\<And>a. a \<in> set xs \<Longrightarrow> nx a = ny a) \<Longrightarrow> chain nx p xs = chain ny p xs"
  by (induction xs arbitrary: p) (auto split: option.splits)

lemma chain_dom: "chain nx p xs \<Longrightarrow> a \<in> set xs \<Longrightarrow> a \<in> dom nx"
  by (induction xs arbitrary: p) (auto split: option.splits)

section \<open>Appending\<close>

text \<open>The slot in which a walk down \<open>xs\<close> from \<open>p\<close> ends.\<close>

fun last_slot :: "slot \<Rightarrow> addr list \<Rightarrow> slot" where
  "last_slot p [] = p"
| "last_slot p (a # as) = last_slot (NextOf a) as"

lemma append_loop_chain:
  "read_slot l p = Some q \<Longrightarrow> chain (nexts l) q xs \<Longrightarrow> append_loop l p = Some (last_slot p xs)"
proof (induction xs arbitrary: p q)
  case Nil
  then show ?case by (subst append_loop.simps) simp
next
  case (Cons a as)
  then obtain n where n: "nexts l a = Some n" "chain (nexts l) n as" "q = Some a"
    by (auto split: option.splits)
  then have "append_loop l (NextOf a) = Some (last_slot (NextOf a) as)"
    by (intro Cons.IH) (auto simp: read_slot_def)
  with Cons.prems n show ?case by (subst append_loop.simps) simp
qed

lemma last_slot_NextOf: "xs \<noteq> [] \<Longrightarrow> last_slot p xs = NextOf (last xs)"
  by (induction xs arbitrary: p) auto

lemma chain_append_last:
  "chain nx p xs \<Longrightarrow> xs \<noteq> [] \<Longrightarrow> x \<notin> set xs \<Longrightarrow> nx x = Some None \<Longrightarrow>
   chain (nx(last xs \<mapsto> Some x)) p (xs @ [x])"
proof (induction xs arbitrary: p)
  case (Cons a as)
  then obtain n where n: "nx a = Some n" "chain nx n as" "p = Some a"
    by (auto split: option.splits)
  show ?case
  proof (cases "as = []")
    case True
    with Cons.prems n show ?thesis by auto
  next
    case False
    with Cons.prems n have "chain (nx(last as \<mapsto> Some x)) n (as @ [x])"
      by (intro Cons.IH) auto
    moreover from chain_distinct[OF Cons.prems(1)] False have "a \<noteq> last as" by auto
    ultimately show ?thesis using n False by (simp add: fun_upd_def)
  qed
qed simp

lemma ll_append_nodes:
  assumes "nodes l xs" and "x \<notin> set xs" and "nexts l x = Some None"
  shows "\<exists>l'. ll_append l x = Some l' \<and> nodes l' (xs @ [x])
           \<and> dom (nexts l') = dom (nexts l)
           \<and> (\<forall>a. a \<notin> set xs \<longrightarrow> nexts l' a = nexts l a)"
proof -
  from assms(1) have loop: "append_loop l Head = Some (last_slot Head xs)"
    by (intro append_loop_chain[where q = "head l"]) (auto simp: nodes_def read_slot_def)
  show ?thesis
  proof (cases "xs = []")
    case True
    with loop assms show ?thesis
      by (auto simp: ll_append_def write_slot_def nodes_def)
  next
    case False
    with assms(1) have "last xs \<in> dom (nexts l)"
      by (intro chain_dom[of _ "head l" xs]) (simp_all add: nodes_def)
    with False loop assms chain_append_last[of "nexts l" "head l" xs x] show ?thesis
      by (auto simp: ll_append_def write_slot_def nodes_def last_slot_NextOf)
  qed
qed


section \<open>Removing\<close>

text \<open>The slot that holds the pointer to \<open>x\<close> on a walk down \<open>xs\<close> from \<open>p\<close>.\<close>

fun slot_before :: "slot \<Rightarrow> addr list \<Rightarrow> addr \<Rightarrow> slot" where
  "slot_before p [] x = p"
| "slot_before p (a # as) x = (if a = x then p else slot_before (NextOf a) as x)"

lemma remove_loop_chain:
  "read_slot l p = Some q \<Longrightarrow> chain (nexts l) q xs \<Longrightarrow> x \<in> set xs \<Longrightarrow>
   remove_loop l x p = Some (slot_before p xs x)"
proof (induction xs arbitrary: p q)
  case (Cons a as)
  then obtain n where n: "nexts l a = Some n" "chain (nexts l) n as" "q = Some a"
    by (auto split: option.splits)
  show ?case
  proof (cases "a = x")
    case True
    with Cons.prems n show ?thesis by (subst remove_loop.simps) simp
  next
    case False
    with Cons.prems n have "remove_loop l x (NextOf a) = Some (slot_before (NextOf a) as x)"
      by (intro Cons.IH) (auto simp: read_slot_def)
    with False Cons.prems n show ?thesis by (subst remove_loop.simps) simp
  qed
qed simp

lemma remove_loop_absent:
  "read_slot l p = Some q \<Longrightarrow> chain (nexts l) q xs \<Longrightarrow> x \<notin> set xs \<Longrightarrow>
   remove_loop l x p = None"
proof (induction xs arbitrary: p q)
  case Nil
  then show ?case by (subst remove_loop.simps) simp
next
  case (Cons a as)
  then obtain n where n: "nexts l a = Some n" "chain (nexts l) n as" "q = Some a"
    by (auto split: option.splits)
  with Cons.prems have "remove_loop l x (NextOf a) = None"
    by (intro Cons.IH) (auto simp: read_slot_def)
  with Cons.prems n show ?case by (subst remove_loop.simps) simp
qed

lemma slot_before_cases:
  assumes "x \<in> set xs"
  shows "(slot_before p xs x = p \<and> hd xs = x) \<or>
         (\<exists>b \<in> set xs. b \<noteq> x \<and> slot_before p xs x = NextOf b)"
  using assms
proof (induction xs arbitrary: p)
  case (Cons a as)
  show ?case
  proof (cases "a = x")
    case False
    with Cons.prems have "x \<in> set as" by simp
    from Cons.IH[OF this, of "NextOf a"] False show ?thesis by auto
  qed simp
qed simp

lemma chain_unlink:
  "chain nx p xs \<Longrightarrow> nx x = Some n \<Longrightarrow> slot_before Head xs x = NextOf b \<Longrightarrow> x \<in> set xs \<Longrightarrow>
   chain (nx(b \<mapsto> n, x := None)) p (remove1 x xs)"
proof (induction xs arbitrary: p)
  case (Cons a as)
  from Cons.prems obtain m where m: "nx a = Some m" "chain nx m as" "p = Some a"
    by (auto split: option.splits)
  from Cons.prems(3) have ax: "a \<noteq> x" by (auto split: if_splits)
  with Cons.prems have x: "x \<in> set as" by simp
  then obtain c cs where as: "as = c # cs" by (cases as) auto
  have dist: "a \<notin> set as" using chain_distinct[OF Cons.prems(1)] by simp
  show ?case
  proof (cases "c = x")
    case True
    with ax as Cons.prems(3) have "b = a" by simp
    from m as True Cons.prems(2) have cs: "chain nx n cs" by simp
    have "x \<notin> set cs" "a \<notin> set cs"
      using chain_distinct[OF Cons.prems(1)] as True by auto
    then have "chain (nx(a \<mapsto> n, x := None)) n cs"
      using cs by (subst chain_cong[of cs _ nx]) auto
    with \<open>b = a\<close> ax as True m show ?thesis by (simp add: fun_upd_def)
  next
    case False
    with as x have "slot_before Head as x = slot_before (NextOf a) as x" by simp
    with ax Cons.prems(3) have sb: "slot_before Head as x = NextOf b" by simp
    then have "chain (nx(b \<mapsto> n, x := None)) m (remove1 x as)"
      using Cons.IH m Cons.prems x by blast
    moreover have "b \<in> set as"
      using slot_before_cases[OF x, of Head] sb by auto
    ultimately show ?thesis using m ax dist by (auto simp: fun_upd_def)
  qed
qed simp

lemma ll_remove_nodes:
  assumes "nodes l xs" and "x \<in> set xs"
  shows "\<exists>l'. ll_remove l x = Some l' \<and> nodes l' (remove1 x xs)
           \<and> dom (nexts l') = dom (nexts l) - {x}
           \<and> (\<forall>a. a \<notin> set xs \<longrightarrow> nexts l' a = nexts l a)"
proof -
  from assms have loop: "remove_loop l x Head = Some (slot_before Head xs x)"
    by (intro remove_loop_chain[where q = "head l"]) (auto simp: nodes_def read_slot_def)
  from assms obtain n where n: "nexts l x = Some n"
    using chain_dom[of "nexts l" "head l" xs x] by (auto simp: nodes_def)
  from slot_before_cases[OF assms(2), of Head]
  consider (hd) "slot_before Head xs x = Head" "hd xs = x"
    | (mid) b where "b \<in> set xs" "b \<noteq> x" "slot_before Head xs x = NextOf b"
    by auto
  then show ?thesis
  proof cases
    case hd
    with assms(2) obtain as where xs: "xs = x # as" by (cases xs) auto
    from assms(1) xs n have "chain (nexts l) n as" by (simp add: nodes_def)
    moreover have "x \<notin> set as"
      using chain_distinct[of "nexts l" "head l" xs] assms(1) xs by (simp add: nodes_def)
    ultimately have "chain ((nexts l)(x := None)) n as"
      by (subst chain_cong[of as _ "nexts l"]) auto
    with hd xs n loop show ?thesis
      by (auto simp: ll_remove_def write_slot_def free_node_def nodes_def)
  next
    case mid
    with assms n have "chain ((nexts l)(b \<mapsto> n, x := None)) (head l) (remove1 x xs)"
      by (intro chain_unlink) (auto simp: nodes_def)
    moreover from mid assms have "b \<in> dom (nexts l)"
      by (intro chain_dom[of _ "head l" xs]) (simp_all add: nodes_def)
    ultimately show ?thesis using mid n loop assms(2)
      by (auto simp: ll_remove_def write_slot_def free_node_def nodes_def)
  qed
qed

lemma ll_remove_absent: "nodes l xs \<Longrightarrow> x \<notin> set xs \<Longrightarrow> ll_remove l x = None"
  by (simp add: ll_remove_def nodes_def read_slot_def
      remove_loop_absent[of l Head "head l" xs x])

section \<open>Deleting and counting\<close>

lemma delete_loop_chain:
  "chain (nexts l) p xs \<Longrightarrow>
   \<exists>l'. delete_loop l p = Some l' \<and> nexts l' = (\<lambda>a. if a \<in> set xs then None else nexts l a)"
proof (induction xs arbitrary: l p)
  case Nil
  then show ?case by (subst delete_loop.simps) auto
next
  case (Cons a as)
  then obtain n where n: "nexts l a = Some n" "chain (nexts l) n as" "p = Some a"
    by (auto split: option.splits)
  have "a \<notin> set as" using chain_distinct[OF Cons.prems] by simp
  with n(2) have "chain (nexts (free_node l a)) n as"
    by (subst chain_cong[of as _ "nexts l"]) (auto simp: free_node_def)
  from Cons.IH[OF this] n show ?case
    by (subst delete_loop.simps) (auto simp: free_node_def fun_eq_iff)
qed

lemma ll_delete_list_nodes:
  assumes "nodes l xs"
  shows "\<exists>l'. ll_delete_list l = Some l' \<and> nodes l' []
           \<and> (\<forall>a. nexts l' a = (if a \<in> set xs then None else nexts l a))"
  using delete_loop_chain[of l "head l" xs] assms
  by (auto simp: ll_delete_list_def nodes_def)

lemma count_loop_chain:
  "chain (nexts l) p xs \<Longrightarrow> count_loop l p c = Some (c + of_nat (length xs))"
proof (induction xs arbitrary: p c)
  case Nil
  then show ?case by (subst count_loop.simps) auto
next
  case (Cons a as)
  then obtain n where "nexts l a = Some n" "chain (nexts l) n as" "p = Some a"
    by (auto split: option.splits)
  with Cons.IH[of n "c + 1"] show ?case by (subst count_loop.simps) (simp add: ac_simps)
qed

lemma ll_count_nodes: "nodes l xs \<Longrightarrow> ll_count l = Some (of_nat (length xs))"
  by (simp add: ll_count_def nodes_def count_loop_chain)

lemma count_with_flag_loop_chain:
  "chain (nexts l) p xs \<Longrightarrow>
   count_with_flag_loop l f p c =
     Some (c + of_nat (length (filter (\<lambda>a. has_flag (flags_of l a) f) xs)))"
proof (induction xs arbitrary: p c)
  case Nil
  then show ?case by (subst count_with_flag_loop.simps) auto
next
  case (Cons a as)
  then obtain n where "nexts l a = Some n" "chain (nexts l) n as" "p = Some a"
    by (auto split: option.splits)
  with Cons.IH[of n "c + 1"] Cons.IH[of n c] show ?case
    by (subst count_with_flag_loop.simps) (simp add: ac_simps)
qed

lemma ll_count_with_flag_nodes:
  "nodes l xs \<Longrightarrow>
   ll_count_with_flag l f = Some (of_nat (length (filter (\<lambda>a. has_flag (flags_of l a) f) xs)))"
  by (simp add: ll_count_with_flag_def nodes_def count_with_flag_loop_chain)

section \<open>The interface the data model relies on\<close>

text \<open>
  What \<open>create\<close> and \<open>destroy\<close> of every data-model object rely on: the handles of a list, in
  order, and how appending, removing and deleting change them.
\<close>

locale handle_list =
  fixes rep :: "'h \<Rightarrow> addr list \<Rightarrow> bool"
    and fresh :: "'h \<Rightarrow> addr \<Rightarrow> bool"
    and app :: "'h \<Rightarrow> addr \<Rightarrow> 'h option"
    and rem :: "'h \<Rightarrow> addr \<Rightarrow> 'h option"
    and del :: "'h \<Rightarrow> 'h option"
  assumes rep_det: "rep h xs \<Longrightarrow> rep h ys \<Longrightarrow> xs = ys"
    and rep_distinct: "rep h xs \<Longrightarrow> distinct xs"
    and app_rep: "rep h xs \<Longrightarrow> x \<notin> set xs \<Longrightarrow> fresh h x \<Longrightarrow>
          \<exists>h'. app h x = Some h' \<and> rep h' (xs @ [x]) \<and>
               (\<forall>y. y \<notin> set xs \<longrightarrow> fresh h y \<longrightarrow> fresh h' y)"
    and rem_rep: "rep h xs \<Longrightarrow> x \<in> set xs \<Longrightarrow> \<exists>h'. rem h x = Some h' \<and> rep h' (remove1 x xs)"
    and rem_absent: "rep h xs \<Longrightarrow> x \<notin> set xs \<Longrightarrow> rem h x = None"
    and del_rep: "rep h xs \<Longrightarrow> \<exists>h'. del h = Some h' \<and> rep h' []"
begin

lemma app_then_rem:
  assumes "rep h xs" and "x \<notin> set xs" and "fresh h x"
  shows "\<exists>h'. (app h x \<bind> (\<lambda>g. rem g x)) = Some h' \<and> rep h' xs"
proof -
  from app_rep[OF assms] obtain g where g: "app h x = Some g" "rep g (xs @ [x])" by blast
  from rem_rep[OF g(2), of x] obtain h' where "rem g x = Some h'" "rep h' (remove1 x (xs @ [x]))"
    by auto
  with g assms(2) show ?thesis by (auto simp: remove1_append)
qed

lemma rem_forgets:
  assumes "rep h xs" and "x \<in> set xs"
  shows "\<exists>h'. rem h x = Some h' \<and> rem h' x = None"
proof -
  from rem_rep[OF assms] obtain h' where h': "rem h x = Some h'" "rep h' (remove1 x xs)" by blast
  from rep_distinct[OF assms(1)] have "x \<notin> set (remove1 x xs)" by simp
  with h' rem_absent show ?thesis by blast
qed

lemma app_all_rep:
  "rep h xs \<Longrightarrow> distinct ys \<Longrightarrow> set ys \<inter> set xs = {} \<Longrightarrow> (\<And>y. y \<in> set ys \<Longrightarrow> fresh h y) \<Longrightarrow>
   \<exists>h'. foldl (\<lambda>g y. g \<bind> (\<lambda>g'. app g' y)) (Some h) ys = Some h' \<and> rep h' (xs @ ys)"
proof (induction ys arbitrary: h xs)
  case (Cons y ys)
  then obtain g where g: "app h y = Some g" "rep g (xs @ [y])"
      "\<forall>z. z \<notin> set xs \<longrightarrow> fresh h z \<longrightarrow> fresh g z"
    using app_rep[of h xs y] by auto
  have "\<exists>h'. foldl (\<lambda>g y. g \<bind> (\<lambda>g'. app g' y)) (Some g) ys = Some h' \<and> rep h' ((xs @ [y]) @ ys)"
    using Cons.prems g by (intro Cons.IH) auto
  with g(1) show ?case by simp
qed simp

end

definition ll_fresh :: "'f llist \<Rightarrow> addr \<Rightarrow> bool" where
  "ll_fresh l a \<longleftrightarrow> nexts l a = Some None"

interpretation sll: handle_list nodes ll_fresh ll_append ll_remove ll_delete_list
proof (unfold_locales, goal_cases)
  case (1 h xs ys)
  then show ?case by (auto simp: nodes_def intro: chain_det)
next
  case (2 h xs)
  then show ?case by (auto simp: nodes_def intro: chain_distinct)
next
  case (3 h xs x)
  then show ?case using ll_append_nodes[of h xs x] by (fastforce simp: ll_fresh_def)
next
  case (4 h xs x)
  then show ?case using ll_remove_nodes by blast
next
  case (5 h xs x)
  then show ?case by (rule ll_remove_absent)
next
  case (6 h xs)
  then show ?case using ll_delete_list_nodes by blast
qed

section \<open>Properties\<close>

text \<open>C26: \<open>SinglyLinkedList::remove\<close> on a well-formed list unlinks exactly the target node,
  frees it, leaves every node outside the list alone and returns; when the target is not in
  the list the loop runs off the end and reads through a null pointer (modelled as \<open>None\<close>).\<close>

theorem ll_remove_correct:
  assumes "nodes l xs"
  shows "(if x \<in> set xs
          then \<exists>l'. ll_remove l x = Some l' \<and> nodes l' (remove1 x xs)
                 \<and> dom (nexts l') = dom (nexts l) - {x}
                 \<and> (\<forall>a. a \<notin> set xs \<longrightarrow> nexts l' a = nexts l a)
          else ll_remove l x = None)"
  using ll_remove_nodes[OF assms] ll_remove_absent[OF assms] by simp

definition example_list :: "u32 llist" where
  "example_list = \<lparr>head = Some 1, nexts = [1 \<mapsto> Some 2, 2 \<mapsto> Some 3, 3 \<mapsto> None, 9 \<mapsto> None],
     flags_of = (\<lambda>_. 0)\<rparr>"

theorem ll_remove_correct_witness:
  "nodes example_list [1, 2, 3] \<and>
   (\<exists>l'. ll_remove example_list 2 = Some l' \<and> nodes l' [1, 3]) \<and> ll_remove example_list 9 = None"
proof -
  have n: "nodes example_list [1, 2, 3]" by (simp add: nodes_def example_list_def)
  show ?thesis
    using n ll_remove_correct[OF n, of 2] ll_remove_correct[OF n, of 9] by auto
qed

text \<open>A list built by \<open>SinglyLinkedList::append\<close> from freshly allocated nodes holds them
  after the old nodes, in the order of the calls, and every call returns.\<close>

theorem ll_append_order:
  assumes "nodes l xs" and "distinct ys" and "set ys \<inter> set xs = {}"
    and "\<And>y. y \<in> set ys \<Longrightarrow> ll_fresh l y"
  shows "\<exists>l'. foldl (\<lambda>g y. g \<bind> (\<lambda>g'. ll_append g' y)) (Some l) ys = Some l' \<and> nodes l' (xs @ ys)"
  using assms by (rule sll.app_all_rep)

theorem ll_append_order_witness:
  "nodes example_list [1, 2, 3] \<and> ll_fresh example_list 9 \<and>
   (\<exists>l'. foldl (\<lambda>g y. g \<bind> (\<lambda>g'. ll_append g' y)) (Some example_list) [9] = Some l' \<and>
         nodes l' ([1, 2, 3] @ [9]))"
proof -
  have n: "nodes example_list [1, 2, 3]" by (simp add: nodes_def example_list_def)
  have f: "ll_fresh example_list 9" by (simp add: ll_fresh_def example_list_def)
  have "\<exists>l'. foldl (\<lambda>g y. g \<bind> (\<lambda>g'. ll_append g' y)) (Some example_list) [9] = Some l' \<and>
         nodes l' ([1, 2, 3] @ [9])"
    by (rule ll_append_order[OF n]) (auto simp: f)
  with n f show ?thesis by blast
qed

end
