(* ===== verification/EM_Values.thy ===== *)
theory EM_Values
  imports EM_Prelude
begin

text \<open>
  Attribute values: \<open>data_model/esp_matter_attribute_utils.h\<close> and \<open>.cpp\<close>.  The tag
  \<open>esp_matter_val_type_t\<close> is the datatype \<open>val_type\<close>.  The union \<open>esp_matter_val_t\<close> is a
  record: its numeric members share the 64 low bits \<open>v_num\<close> (little-endian, so the member of
  kind \<open>k\<close> is the low \<open>kind_bits k\<close> bits), and its array member \<open>a\<close> is kept beside them,
  since every operation selects the member by the tag.  A buffer pointer is the content it
  points to, or \<open>None\<close> for the null pointer.  \<open>int\<close> is 32 bits wide, a float is its IEEE
  single-precision bit pattern.

  \<open>chip::app::NumericAttributeTraits\<close> belongs to connectedhomeip, so its null test and null
  value are a parameter, the record \<open>traits\<close>.
\<close>

section \<open>Value types\<close>

datatype val_type =
    VT_INVALID | VT_BOOLEAN | VT_INTEGER | VT_FLOAT
  | VT_ARRAY | VT_CHAR_STRING | VT_OCTET_STRING | VT_INT8
  | VT_UINT8 | VT_INT16 | VT_UINT16 | VT_INT32
  | VT_UINT32 | VT_INT64 | VT_UINT64 | VT_ENUM8
  | VT_BITMAP8 | VT_BITMAP16 | VT_BITMAP32 | VT_ENUM16
  | VT_LONG_CHAR_STRING | VT_LONG_OCTET_STRING | VT_NULLABLE_BOOLEAN | VT_NULLABLE_INTEGER
  | VT_NULLABLE_FLOAT | VT_NULLABLE_INT8 | VT_NULLABLE_UINT8 | VT_NULLABLE_INT16
  | VT_NULLABLE_UINT16 | VT_NULLABLE_INT32 | VT_NULLABLE_UINT32 | VT_NULLABLE_INT64
  | VT_NULLABLE_UINT64 | VT_NULLABLE_ENUM8 | VT_NULLABLE_BITMAP8 | VT_NULLABLE_BITMAP16
  | VT_NULLABLE_BITMAP32 | VT_NULLABLE_ENUM16

primrec type_code :: "val_type \<Rightarrow> u8" where
  "type_code VT_INVALID = 0"
| "type_code VT_BOOLEAN = 1"
| "type_code VT_INTEGER = 2"
| "type_code VT_FLOAT = 3"
| "type_code VT_ARRAY = 4"
| "type_code VT_CHAR_STRING = 5"
| "type_code VT_OCTET_STRING = 6"
| "type_code VT_INT8 = 7"
| "type_code VT_UINT8 = 8"
| "type_code VT_INT16 = 9"
| "type_code VT_UINT16 = 10"
| "type_code VT_INT32 = 11"
| "type_code VT_UINT32 = 12"
| "type_code VT_INT64 = 13"
| "type_code VT_UINT64 = 14"
| "type_code VT_ENUM8 = 15"
| "type_code VT_BITMAP8 = 16"
| "type_code VT_BITMAP16 = 17"
| "type_code VT_BITMAP32 = 18"
| "type_code VT_ENUM16 = 19"
| "type_code VT_LONG_CHAR_STRING = 20"
| "type_code VT_LONG_OCTET_STRING = 21"
| "type_code VT_NULLABLE_BOOLEAN = 129"
| "type_code VT_NULLABLE_INTEGER = 130"
| "type_code VT_NULLABLE_FLOAT = 131"
| "type_code VT_NULLABLE_INT8 = 135"
| "type_code VT_NULLABLE_UINT8 = 136"
| "type_code VT_NULLABLE_INT16 = 137"
| "type_code VT_NULLABLE_UINT16 = 138"
| "type_code VT_NULLABLE_INT32 = 139"
| "type_code VT_NULLABLE_UINT32 = 140"
| "type_code VT_NULLABLE_INT64 = 141"
| "type_code VT_NULLABLE_UINT64 = 142"
| "type_code VT_NULLABLE_ENUM8 = 143"
| "type_code VT_NULLABLE_BITMAP8 = 144"
| "type_code VT_NULLABLE_BITMAP16 = 145"
| "type_code VT_NULLABLE_BITMAP32 = 146"
| "type_code VT_NULLABLE_ENUM16 = 147"

primrec base_type :: "val_type \<Rightarrow> val_type" where
  "base_type VT_INVALID = VT_INVALID"
| "base_type VT_BOOLEAN = VT_BOOLEAN"
| "base_type VT_INTEGER = VT_INTEGER"
| "base_type VT_FLOAT = VT_FLOAT"
| "base_type VT_ARRAY = VT_ARRAY"
| "base_type VT_CHAR_STRING = VT_CHAR_STRING"
| "base_type VT_OCTET_STRING = VT_OCTET_STRING"
| "base_type VT_INT8 = VT_INT8"
| "base_type VT_UINT8 = VT_UINT8"
| "base_type VT_INT16 = VT_INT16"
| "base_type VT_UINT16 = VT_UINT16"
| "base_type VT_INT32 = VT_INT32"
| "base_type VT_UINT32 = VT_UINT32"
| "base_type VT_INT64 = VT_INT64"
| "base_type VT_UINT64 = VT_UINT64"
| "base_type VT_ENUM8 = VT_ENUM8"
| "base_type VT_BITMAP8 = VT_BITMAP8"
| "base_type VT_BITMAP16 = VT_BITMAP16"
| "base_type VT_BITMAP32 = VT_BITMAP32"
| "base_type VT_ENUM16 = VT_ENUM16"
| "base_type VT_LONG_CHAR_STRING = VT_LONG_CHAR_STRING"
| "base_type VT_LONG_OCTET_STRING = VT_LONG_OCTET_STRING"
| "base_type VT_NULLABLE_BOOLEAN = VT_BOOLEAN"
| "base_type VT_NULLABLE_INTEGER = VT_INTEGER"
| "base_type VT_NULLABLE_FLOAT = VT_FLOAT"
| "base_type VT_NULLABLE_INT8 = VT_INT8"
| "base_type VT_NULLABLE_UINT8 = VT_UINT8"
| "base_type VT_NULLABLE_INT16 = VT_INT16"
| "base_type VT_NULLABLE_UINT16 = VT_UINT16"
| "base_type VT_NULLABLE_INT32 = VT_INT32"
| "base_type VT_NULLABLE_UINT32 = VT_UINT32"
| "base_type VT_NULLABLE_INT64 = VT_INT64"
| "base_type VT_NULLABLE_UINT64 = VT_UINT64"
| "base_type VT_NULLABLE_ENUM8 = VT_ENUM8"
| "base_type VT_NULLABLE_BITMAP8 = VT_BITMAP8"
| "base_type VT_NULLABLE_BITMAP16 = VT_BITMAP16"
| "base_type VT_NULLABLE_BITMAP32 = VT_BITMAP32"
| "base_type VT_NULLABLE_ENUM16 = VT_ENUM16"

definition nullable_type :: "val_type \<Rightarrow> bool" where
  "nullable_type t \<longleftrightarrow> has_flag (type_code t) 0x80"

text \<open>The switch of \<open>val_compare\<close> is on the tag with the nullable bit cleared.\<close>

lemma type_code_base: "type_code (base_type t) = type_code t AND NOT 0x80"
  by (cases t) simp_all

lemma nullable_type_simps [simp]:
  "\<not> nullable_type VT_INVALID"
  "\<not> nullable_type VT_BOOLEAN"
  "\<not> nullable_type VT_INTEGER"
  "\<not> nullable_type VT_FLOAT"
  "\<not> nullable_type VT_ARRAY"
  "\<not> nullable_type VT_CHAR_STRING"
  "\<not> nullable_type VT_OCTET_STRING"
  "\<not> nullable_type VT_INT8"
  "\<not> nullable_type VT_UINT8"
  "\<not> nullable_type VT_INT16"
  "\<not> nullable_type VT_UINT16"
  "\<not> nullable_type VT_INT32"
  "\<not> nullable_type VT_UINT32"
  "\<not> nullable_type VT_INT64"
  "\<not> nullable_type VT_UINT64"
  "\<not> nullable_type VT_ENUM8"
  "\<not> nullable_type VT_BITMAP8"
  "\<not> nullable_type VT_BITMAP16"
  "\<not> nullable_type VT_BITMAP32"
  "\<not> nullable_type VT_ENUM16"
  "\<not> nullable_type VT_LONG_CHAR_STRING"
  "\<not> nullable_type VT_LONG_OCTET_STRING"
  "nullable_type VT_NULLABLE_BOOLEAN"
  "nullable_type VT_NULLABLE_INTEGER"
  "nullable_type VT_NULLABLE_FLOAT"
  "nullable_type VT_NULLABLE_INT8"
  "nullable_type VT_NULLABLE_UINT8"
  "nullable_type VT_NULLABLE_INT16"
  "nullable_type VT_NULLABLE_UINT16"
  "nullable_type VT_NULLABLE_INT32"
  "nullable_type VT_NULLABLE_UINT32"
  "nullable_type VT_NULLABLE_INT64"
  "nullable_type VT_NULLABLE_UINT64"
  "nullable_type VT_NULLABLE_ENUM8"
  "nullable_type VT_NULLABLE_BITMAP8"
  "nullable_type VT_NULLABLE_BITMAP16"
  "nullable_type VT_NULLABLE_BITMAP32"
  "nullable_type VT_NULLABLE_ENUM16"
  by (simp_all add: nullable_type_def has_flag_def)

abbreviation string_types :: "val_type set" where
  "string_types \<equiv> {VT_CHAR_STRING, VT_LONG_CHAR_STRING, VT_OCTET_STRING, VT_LONG_OCTET_STRING}"

section \<open>Numeric kinds\<close>

datatype num_kind = KBool | KInt | KFloat | KI8 | KU8 | KI16 | KU16 | KI32 | KU32 | KI64 | KU64

primrec kind_bits :: "num_kind \<Rightarrow> nat" where
  "kind_bits KBool = 8"
| "kind_bits KInt = 32"
| "kind_bits KFloat = 32"
| "kind_bits KI8 = 8"
| "kind_bits KU8 = 8"
| "kind_bits KI16 = 16"
| "kind_bits KU16 = 16"
| "kind_bits KI32 = 32"
| "kind_bits KU32 = 32"
| "kind_bits KI64 = 64"
| "kind_bits KU64 = 64"

primrec kind_signed :: "num_kind \<Rightarrow> bool" where
  "kind_signed KBool = False"
| "kind_signed KInt = True"
| "kind_signed KFloat = False"
| "kind_signed KI8 = True"
| "kind_signed KU8 = False"
| "kind_signed KI16 = True"
| "kind_signed KU16 = False"
| "kind_signed KI32 = True"
| "kind_signed KU32 = False"
| "kind_signed KI64 = True"
| "kind_signed KU64 = False"

text \<open>The numeric member a tag selects, if it selects one.\<close>

primrec type_kind :: "val_type \<Rightarrow> num_kind option" where
  "type_kind VT_INVALID = None"
| "type_kind VT_BOOLEAN = Some KBool"
| "type_kind VT_INTEGER = Some KInt"
| "type_kind VT_FLOAT = Some KFloat"
| "type_kind VT_ARRAY = None"
| "type_kind VT_CHAR_STRING = None"
| "type_kind VT_OCTET_STRING = None"
| "type_kind VT_INT8 = Some KI8"
| "type_kind VT_UINT8 = Some KU8"
| "type_kind VT_INT16 = Some KI16"
| "type_kind VT_UINT16 = Some KU16"
| "type_kind VT_INT32 = Some KI32"
| "type_kind VT_UINT32 = Some KU32"
| "type_kind VT_INT64 = Some KI64"
| "type_kind VT_UINT64 = Some KU64"
| "type_kind VT_ENUM8 = Some KU8"
| "type_kind VT_BITMAP8 = Some KU8"
| "type_kind VT_BITMAP16 = Some KU16"
| "type_kind VT_BITMAP32 = Some KU32"
| "type_kind VT_ENUM16 = Some KU16"
| "type_kind VT_LONG_CHAR_STRING = None"
| "type_kind VT_LONG_OCTET_STRING = None"
| "type_kind VT_NULLABLE_BOOLEAN = Some KBool"
| "type_kind VT_NULLABLE_INTEGER = Some KInt"
| "type_kind VT_NULLABLE_FLOAT = Some KFloat"
| "type_kind VT_NULLABLE_INT8 = Some KI8"
| "type_kind VT_NULLABLE_UINT8 = Some KU8"
| "type_kind VT_NULLABLE_INT16 = Some KI16"
| "type_kind VT_NULLABLE_UINT16 = Some KU16"
| "type_kind VT_NULLABLE_INT32 = Some KI32"
| "type_kind VT_NULLABLE_UINT32 = Some KU32"
| "type_kind VT_NULLABLE_INT64 = Some KI64"
| "type_kind VT_NULLABLE_UINT64 = Some KU64"
| "type_kind VT_NULLABLE_ENUM8 = Some KU8"
| "type_kind VT_NULLABLE_BITMAP8 = Some KU8"
| "type_kind VT_NULLABLE_BITMAP16 = Some KU16"
| "type_kind VT_NULLABLE_BITMAP32 = Some KU32"
| "type_kind VT_NULLABLE_ENUM16 = Some KU16"

definition trunc :: "num_kind \<Rightarrow> u64 \<Rightarrow> u64" where
  "trunc k w = take_bit (kind_bits k) w"

lemma trunc_trunc [simp]: "trunc k (trunc k w) = trunc k w"
  by (simp add: trunc_def)

lemma trunc_0 [simp]: "trunc k 0 = 0"
  by (simp add: trunc_def)

definition int_of :: "num_kind \<Rightarrow> u64 \<Rightarrow> int" where
  "int_of k w =
     (if kind_signed k then signed_take_bit (kind_bits k - 1) (uint w)
      else take_bit (kind_bits k) (uint w))"

definition float_nan :: "u64 \<Rightarrow> bool" where
  "float_nan w \<longleftrightarrow> w AND 0x7F800000 = 0x7F800000 \<and> w AND 0x007FFFFF \<noteq> 0"

definition float_key :: "u64 \<Rightarrow> int" where
  "float_key w = (let m = uint (w AND 0x7FFFFFFF) in if bit w 31 then - m else m)"

definition num_lt :: "num_kind \<Rightarrow> u64 \<Rightarrow> u64 \<Rightarrow> bool" where
  "num_lt k a b =
     (if k = KFloat then \<not> float_nan a \<and> \<not> float_nan b \<and> float_key a < float_key b
      else int_of k a < int_of k b)"

definition num_eq :: "num_kind \<Rightarrow> u64 \<Rightarrow> u64 \<Rightarrow> bool" where
  "num_eq k a b =
     (if k = KFloat then \<not> float_nan a \<and> \<not> float_nan b \<and> float_key a = float_key b
      else trunc k a = trunc k b)"

section \<open>Values\<close>

record arr =
  a_b :: "u8 list option"
  a_s :: u16
  a_max :: u16
  a_t :: u16

definition zero_arr :: arr where
  "zero_arr = \<lparr>a_b = None, a_s = 0, a_max = 0, a_t = 0\<rparr>"

record val =
  v_num :: u64
  v_a :: arr

definition zero_val :: val where
  "zero_val = \<lparr>v_num = 0, v_a = zero_arr\<rparr>"

record attr_val =
  av_type :: val_type
  av_val :: val

record bounds =
  b_min :: attr_val
  b_max :: attr_val

definition num_member :: "num_kind \<Rightarrow> val \<Rightarrow> u64" where
  "num_member k v = trunc k (v_num v)"

definition set_member :: "num_kind \<Rightarrow> u64 \<Rightarrow> val \<Rightarrow> val" where
  "set_member k w v = v\<lparr>v_num := (v_num v AND NOT (mask (kind_bits k))) OR trunc k w\<rparr>"

lemma num_member_set_member [simp]: "num_member k (set_member k w v) = trunc k w"
  by (rule bit_word_eqI)
     (auto simp: num_member_def set_member_def trunc_def bit_take_bit_iff bit_or_iff bit_and_iff
        bit_not_iff bit_mask_iff)

lemma v_a_set_member [simp]: "v_a (set_member k w v) = v_a v"
  by (simp add: set_member_def)

definition num_attr_val :: "val_type \<Rightarrow> num_kind \<Rightarrow> u64 \<Rightarrow> attr_val" where
  "num_attr_val t k w = \<lparr>av_type = t, av_val = \<lparr>v_num = trunc k w, v_a = zero_arr\<rparr>\<rparr>"

definition arr_attr_val :: "val_type \<Rightarrow> u8 list option \<Rightarrow> u16 \<Rightarrow> u16 \<Rightarrow> attr_val" where
  "arr_attr_val t b s data_size_len =
     \<lparr>av_type = t,
      av_val = \<lparr>v_num = 0, v_a = \<lparr>a_b = b, a_s = s, a_max = 0, a_t = s + data_size_len\<rparr>\<rparr>\<rparr>"

section \<open>Nullable numbers\<close>

record traits =
  tr_is_null :: "num_kind \<Rightarrow> u64 \<Rightarrow> bool"
  tr_null :: "num_kind \<Rightarrow> u64"

text \<open>What the sources rely on: the value \<open>SetNull\<close> writes is one \<open>IsNullValue\<close> accepts.\<close>

definition traits_ok :: "traits \<Rightarrow> bool" where
  "traits_ok T \<longleftrightarrow> (\<forall>k. tr_is_null T k (trunc k (tr_null T k)))"

definition GetNullValue :: "num_kind \<Rightarrow> u64" where
  "GetNullValue k =
     (if k = KFloat then 0x7FC00000
      else if kind_signed k then push_bit (kind_bits k - 1) 1
      else mask (kind_bits k))"

definition nullable_of :: "traits \<Rightarrow> num_kind \<Rightarrow> u64 \<Rightarrow> u64" where
  "nullable_of T k value =
     (if tr_is_null T k (trunc k value) then trunc k (tr_null T k) else trunc k value)"

definition nullable_null :: "traits \<Rightarrow> num_kind \<Rightarrow> u64" where
  "nullable_null T k = trunc k (tr_null T k)"

definition nullable_is_null :: "traits \<Rightarrow> num_kind \<Rightarrow> u64 \<Rightarrow> bool" where
  "nullable_is_null T k n \<longleftrightarrow> tr_is_null T k (trunc k n)"

definition nullable_value :: "traits \<Rightarrow> num_kind \<Rightarrow> u64 \<Rightarrow> u64" where
  "nullable_value T k n = (if nullable_is_null T k n then GetNullValue k else n)"

definition nullable_value_or :: "traits \<Rightarrow> num_kind \<Rightarrow> u64 \<Rightarrow> u64 \<Rightarrow> u64" where
  "nullable_value_or T k n d = (if nullable_is_null T k n then d else n)"

text \<open>The specialisation for \<open>bool\<close> keeps one byte: 0, 1 or the null value.\<close>

definition nullable_bool_of :: "bool \<Rightarrow> u8" where
  "nullable_bool_of v = (if v then 1 else 0)"

definition nullable_bool_null :: "traits \<Rightarrow> u8" where
  "nullable_bool_null T = ucast (tr_null T KBool)"

definition nullable_bool_is_null :: "traits \<Rightarrow> u8 \<Rightarrow> bool" where
  "nullable_bool_is_null T n \<longleftrightarrow> tr_is_null T KBool (ucast n)"

definition nullable_bool_value :: "u8 \<Rightarrow> bool" where
  "nullable_bool_value n \<longleftrightarrow> n \<noteq> 0"

definition nullable_bool_value_or :: "traits \<Rightarrow> u8 \<Rightarrow> bool \<Rightarrow> bool" where
  "nullable_bool_value_or T n d = (if nullable_bool_is_null T n then d else nullable_bool_value n)"

section \<open>Constructors of values\<close>

definition esp_matter_invalid :: "u64 \<Rightarrow> attr_val" where
  "esp_matter_invalid p = \<lparr>av_type = VT_INVALID, av_val = \<lparr>v_num = p, v_a = zero_arr\<rparr>\<rparr>"

definition esp_matter_bool :: "bool \<Rightarrow> attr_val" where
  "esp_matter_bool b = num_attr_val VT_BOOLEAN KBool (if b then 1 else 0)"

definition esp_matter_int :: "u32 \<Rightarrow> attr_val" where
  "esp_matter_int v = num_attr_val VT_INTEGER KInt (ucast v)"

definition esp_matter_nullable_bool :: "traits \<Rightarrow> u8 \<Rightarrow> attr_val" where
  "esp_matter_nullable_bool T n =
     num_attr_val VT_NULLABLE_BOOLEAN KBool
       (if nullable_bool_is_null T n then tr_null T KBool
        else if nullable_bool_value n then 1 else 0)"

text \<open>The common body of the nullable constructors: a null argument sets the member null, any
  other one is stored.\<close>

definition nullable_attr_val :: "traits \<Rightarrow> val_type \<Rightarrow> num_kind \<Rightarrow> u64 \<Rightarrow> attr_val" where
  "nullable_attr_val T t k n =
     num_attr_val t k (if nullable_is_null T k n then tr_null T k else nullable_value T k n)"

definition esp_matter_nullable_int :: "traits \<Rightarrow> u64 \<Rightarrow> attr_val" where
  "esp_matter_nullable_int T n = nullable_attr_val T VT_NULLABLE_INTEGER KInt n"

definition esp_matter_float :: "u32 \<Rightarrow> attr_val" where
  "esp_matter_float v = num_attr_val VT_FLOAT KFloat (ucast v)"

definition esp_matter_nullable_float :: "traits \<Rightarrow> u64 \<Rightarrow> attr_val" where
  "esp_matter_nullable_float T n = nullable_attr_val T VT_NULLABLE_FLOAT KFloat n"

definition esp_matter_int8 :: "u8 \<Rightarrow> attr_val" where
  "esp_matter_int8 v = num_attr_val VT_INT8 KI8 (ucast v)"

definition esp_matter_nullable_int8 :: "traits \<Rightarrow> u64 \<Rightarrow> attr_val" where
  "esp_matter_nullable_int8 T n = nullable_attr_val T VT_NULLABLE_INT8 KI8 n"

definition esp_matter_uint8 :: "u8 \<Rightarrow> attr_val" where
  "esp_matter_uint8 v = num_attr_val VT_UINT8 KU8 (ucast v)"

definition esp_matter_nullable_uint8 :: "traits \<Rightarrow> u64 \<Rightarrow> attr_val" where
  "esp_matter_nullable_uint8 T n = nullable_attr_val T VT_NULLABLE_UINT8 KU8 n"

definition esp_matter_int16 :: "u16 \<Rightarrow> attr_val" where
  "esp_matter_int16 v = num_attr_val VT_INT16 KI16 (ucast v)"

definition esp_matter_nullable_int16 :: "traits \<Rightarrow> u64 \<Rightarrow> attr_val" where
  "esp_matter_nullable_int16 T n = nullable_attr_val T VT_NULLABLE_INT16 KI16 n"

definition esp_matter_uint16 :: "u16 \<Rightarrow> attr_val" where
  "esp_matter_uint16 v = num_attr_val VT_UINT16 KU16 (ucast v)"

definition esp_matter_nullable_uint16 :: "traits \<Rightarrow> u64 \<Rightarrow> attr_val" where
  "esp_matter_nullable_uint16 T n = nullable_attr_val T VT_NULLABLE_UINT16 KU16 n"

definition esp_matter_int32 :: "u32 \<Rightarrow> attr_val" where
  "esp_matter_int32 v = num_attr_val VT_INT32 KI32 (ucast v)"

definition esp_matter_nullable_int32 :: "traits \<Rightarrow> u64 \<Rightarrow> attr_val" where
  "esp_matter_nullable_int32 T n = nullable_attr_val T VT_NULLABLE_INT32 KI32 n"

definition esp_matter_uint32 :: "u32 \<Rightarrow> attr_val" where
  "esp_matter_uint32 v = num_attr_val VT_UINT32 KU32 (ucast v)"

definition esp_matter_nullable_uint32 :: "traits \<Rightarrow> u64 \<Rightarrow> attr_val" where
  "esp_matter_nullable_uint32 T n = nullable_attr_val T VT_NULLABLE_UINT32 KU32 n"

definition esp_matter_int64 :: "u64 \<Rightarrow> attr_val" where
  "esp_matter_int64 v = num_attr_val VT_INT64 KI64 v"

definition esp_matter_nullable_int64 :: "traits \<Rightarrow> u64 \<Rightarrow> attr_val" where
  "esp_matter_nullable_int64 T n = nullable_attr_val T VT_NULLABLE_INT64 KI64 n"

definition esp_matter_uint64 :: "u64 \<Rightarrow> attr_val" where
  "esp_matter_uint64 v = num_attr_val VT_UINT64 KU64 v"

definition esp_matter_nullable_uint64 :: "traits \<Rightarrow> u64 \<Rightarrow> attr_val" where
  "esp_matter_nullable_uint64 T n = nullable_attr_val T VT_NULLABLE_UINT64 KU64 n"

definition esp_matter_enum8 :: "u8 \<Rightarrow> attr_val" where
  "esp_matter_enum8 v = num_attr_val VT_ENUM8 KU8 (ucast v)"

definition esp_matter_nullable_enum8 :: "traits \<Rightarrow> u64 \<Rightarrow> attr_val" where
  "esp_matter_nullable_enum8 T n = nullable_attr_val T VT_NULLABLE_ENUM8 KU8 n"

definition esp_matter_enum16 :: "u16 \<Rightarrow> attr_val" where
  "esp_matter_enum16 v = num_attr_val VT_ENUM16 KU16 (ucast v)"

definition esp_matter_nullable_enum16 :: "traits \<Rightarrow> u64 \<Rightarrow> attr_val" where
  "esp_matter_nullable_enum16 T n = nullable_attr_val T VT_NULLABLE_ENUM16 KU16 n"

definition esp_matter_bitmap8 :: "u8 \<Rightarrow> attr_val" where
  "esp_matter_bitmap8 v = num_attr_val VT_BITMAP8 KU8 (ucast v)"

definition esp_matter_nullable_bitmap8 :: "traits \<Rightarrow> u64 \<Rightarrow> attr_val" where
  "esp_matter_nullable_bitmap8 T n = nullable_attr_val T VT_NULLABLE_BITMAP8 KU8 n"

definition esp_matter_bitmap16 :: "u16 \<Rightarrow> attr_val" where
  "esp_matter_bitmap16 v = num_attr_val VT_BITMAP16 KU16 (ucast v)"

definition esp_matter_nullable_bitmap16 :: "traits \<Rightarrow> u64 \<Rightarrow> attr_val" where
  "esp_matter_nullable_bitmap16 T n = nullable_attr_val T VT_NULLABLE_BITMAP16 KU16 n"

definition esp_matter_bitmap32 :: "u32 \<Rightarrow> attr_val" where
  "esp_matter_bitmap32 v = num_attr_val VT_BITMAP32 KU32 (ucast v)"

definition esp_matter_nullable_bitmap32 :: "traits \<Rightarrow> u64 \<Rightarrow> attr_val" where
  "esp_matter_nullable_bitmap32 T n = nullable_attr_val T VT_NULLABLE_BITMAP32 KU32 n"

definition esp_matter_char_str :: "u8 list option \<Rightarrow> u16 \<Rightarrow> attr_val" where
  "esp_matter_char_str b data_size = arr_attr_val VT_CHAR_STRING b data_size 1"

definition esp_matter_long_char_str :: "u8 list option \<Rightarrow> u16 \<Rightarrow> attr_val" where
  "esp_matter_long_char_str b data_size = arr_attr_val VT_LONG_CHAR_STRING b data_size 2"

definition esp_matter_octet_str :: "u8 list option \<Rightarrow> u16 \<Rightarrow> attr_val" where
  "esp_matter_octet_str b data_size = arr_attr_val VT_OCTET_STRING b data_size 1"

definition esp_matter_long_octet_str :: "u8 list option \<Rightarrow> u16 \<Rightarrow> attr_val" where
  "esp_matter_long_octet_str b data_size = arr_attr_val VT_LONG_OCTET_STRING b data_size 2"

definition esp_matter_array :: "u8 list option \<Rightarrow> u16 \<Rightarrow> u16 \<Rightarrow> attr_val" where
  "esp_matter_array b data_size count = arr_attr_val VT_ARRAY b data_size 2"

section \<open>Null test and comparison\<close>

definition val_is_null :: "traits \<Rightarrow> attr_val \<Rightarrow> bool" where
  "val_is_null T v =
     (let t = av_type v; is_null = (\<lambda>k. tr_is_null T k (num_member k (av_val v))) in
      if t = VT_NULLABLE_BOOLEAN then is_null KBool
      else if t = VT_NULLABLE_INTEGER then is_null KInt
      else if t \<in> {VT_NULLABLE_UINT8, VT_NULLABLE_ENUM8, VT_NULLABLE_BITMAP8} then is_null KU8
      else if t \<in> {VT_NULLABLE_UINT16, VT_NULLABLE_ENUM16, VT_NULLABLE_BITMAP16} then is_null KU16
      else if t \<in> {VT_NULLABLE_UINT32, VT_NULLABLE_BITMAP32} then is_null KU32
      else if t = VT_NULLABLE_UINT64 then is_null KU64
      else if t = VT_NULLABLE_INT8 then is_null KI8
      else if t = VT_NULLABLE_INT16 then is_null KI16
      else if t = VT_NULLABLE_INT32 then is_null KI32
      else if t = VT_NULLABLE_INT64 then is_null KI64
      else if t = VT_NULLABLE_FLOAT then is_null KFloat
      else False)"

definition buf_bytes :: "u8 list option \<Rightarrow> u8 list" where
  "buf_bytes b = (case b of None \<Rightarrow> [] | Some bs \<Rightarrow> bs)"

definition null_len :: "val_type \<Rightarrow> u16" where
  "null_len t = (if t = VT_CHAR_STRING \<or> t = VT_OCTET_STRING then 0xFF else 0xFFFF)"

definition val_compare :: "attr_val \<Rightarrow> attr_val \<Rightarrow> bool" where
  "val_compare v1 v2 =
     (let eq = (\<lambda>k. num_eq k (num_member k (av_val v1)) (num_member k (av_val v2)));
          a1 = v_a (av_val v1); a2 = v_a (av_val v2); t = base_type (av_type v1) in
      if av_type v1 \<noteq> av_type v2 then False
      else if t \<in> string_types then
        (if a_s a1 \<noteq> a_s a2 then False
         else if a_s a1 = null_len (av_type v1) \<or> a_s a1 = 0 then True
         else take (unat (a_s a1)) (buf_bytes (a_b a1)) = take (unat (a_s a1)) (buf_bytes (a_b a2)))
      else if t \<in> {VT_UINT8, VT_ENUM8, VT_BITMAP8} then eq KU8
      else if t \<in> {VT_UINT16, VT_ENUM16, VT_BITMAP16} then eq KU16
      else if t \<in> {VT_UINT32, VT_BITMAP32} then eq KU32
      else if t = VT_UINT64 then eq KU64
      else if t = VT_INT8 then eq KI8
      else if t = VT_INT16 then eq KI16
      else if t = VT_INT32 then eq KI32
      else if t = VT_INT64 then eq KI64
      else if t = VT_BOOLEAN then eq KBool
      else if t = VT_FLOAT then eq KFloat
      else False)"

section \<open>Properties of values\<close>

definition nullable_ctors :: "traits \<Rightarrow> (val_type \<times> num_kind \<times> (u64 \<Rightarrow> attr_val)) list" where
  "nullable_ctors T =
     [(VT_NULLABLE_INTEGER, KInt, esp_matter_nullable_int T),
      (VT_NULLABLE_FLOAT, KFloat, esp_matter_nullable_float T),
      (VT_NULLABLE_INT8, KI8, esp_matter_nullable_int8 T),
      (VT_NULLABLE_UINT8, KU8, esp_matter_nullable_uint8 T),
      (VT_NULLABLE_INT16, KI16, esp_matter_nullable_int16 T),
      (VT_NULLABLE_UINT16, KU16, esp_matter_nullable_uint16 T),
      (VT_NULLABLE_INT32, KI32, esp_matter_nullable_int32 T),
      (VT_NULLABLE_UINT32, KU32, esp_matter_nullable_uint32 T),
      (VT_NULLABLE_INT64, KI64, esp_matter_nullable_int64 T),
      (VT_NULLABLE_UINT64, KU64, esp_matter_nullable_uint64 T),
      (VT_NULLABLE_ENUM8, KU8, esp_matter_nullable_enum8 T),
      (VT_NULLABLE_ENUM16, KU16, esp_matter_nullable_enum16 T),
      (VT_NULLABLE_BITMAP8, KU8, esp_matter_nullable_bitmap8 T),
      (VT_NULLABLE_BITMAP16, KU16, esp_matter_nullable_bitmap16 T),
      (VT_NULLABLE_BITMAP32, KU32, esp_matter_nullable_bitmap32 T)]"

lemmas nullable_ctor_defs =
  esp_matter_nullable_int_def
  esp_matter_nullable_float_def
  esp_matter_nullable_int8_def
  esp_matter_nullable_uint8_def
  esp_matter_nullable_int16_def
  esp_matter_nullable_uint16_def
  esp_matter_nullable_int32_def
  esp_matter_nullable_uint32_def
  esp_matter_nullable_int64_def
  esp_matter_nullable_uint64_def
  esp_matter_nullable_enum8_def
  esp_matter_nullable_enum16_def
  esp_matter_nullable_bitmap8_def
  esp_matter_nullable_bitmap16_def
  esp_matter_nullable_bitmap32_def

lemma val_is_null_num [simp]:
  "nullable_type t \<Longrightarrow> type_kind t = Some k \<Longrightarrow>
   val_is_null T (num_attr_val t k w) \<longleftrightarrow> tr_is_null T k (trunc k w)"
  by (cases t) (auto simp: val_is_null_def num_attr_val_def num_member_def)

lemma val_is_null_nullable: "val_is_null T v \<Longrightarrow> nullable_type (av_type v)"
  by (cases "av_type v") (auto simp: val_is_null_def)

lemma nullable_ctors_body:
  "(t, k, f) \<in> set (nullable_ctors T) \<Longrightarrow>
   f = nullable_attr_val T t k \<and> nullable_type t \<and> type_kind t = Some k"
  by (auto simp: nullable_ctors_def nullable_ctor_defs fun_eq_iff)

text \<open>The constructors of nullable numeric values.  A null argument gives a value that
  \<open>val_is_null\<close> recognises, and any other argument is stored unchanged and is not null, for
  each of the fifteen nullable numeric types, under the documented behaviour of the numeric
  attribute traits.\<close>

theorem nullable_ctors_correct:
  assumes "traits_ok T" and "(t, k, f) \<in> set (nullable_ctors T)"
  shows "av_type (f n) = t \<and> (val_is_null T (f n) \<longleftrightarrow> nullable_is_null T k n)
         \<and> (\<not> nullable_is_null T k n \<longrightarrow> num_member k (av_val (f n)) = trunc k n)
         \<and> val_is_null T (f (nullable_null T k))"
proof -
  from nullable_ctors_body[OF assms(2)] have f: "f = nullable_attr_val T t k"
    and t: "nullable_type t" "type_kind t = Some k" by auto
  have null: "val_is_null T (f m) \<longleftrightarrow> nullable_is_null T k m" for m
    using assms(1) t
    by (auto simp: f nullable_attr_val_def nullable_is_null_def nullable_value_def traits_ok_def)
  have "nullable_is_null T k (nullable_null T k)"
    using assms(1) by (simp add: nullable_is_null_def nullable_null_def traits_ok_def)
  moreover have "av_type (f n) = t"
    by (simp add: f nullable_attr_val_def num_attr_val_def)
  moreover have "\<not> nullable_is_null T k n \<longrightarrow> num_member k (av_val (f n)) = trunc k n"
    by (simp add: f nullable_attr_val_def num_attr_val_def num_member_def nullable_value_def)
  ultimately show ?thesis using null by blast
qed

definition std_traits :: traits where
  "std_traits =
     \<lparr>tr_is_null = (\<lambda>k w. if k = KFloat then float_nan w else trunc k w = GetNullValue k),
      tr_null = GetNullValue\<rparr>"

lemma std_traits_ok: "traits_ok std_traits"
  unfolding traits_ok_def
proof
  fix k
  show "tr_is_null std_traits k (trunc k (tr_null std_traits k))"
    by (cases k) (simp_all add: std_traits_def GetNullValue_def trunc_def float_nan_def
        take_bit_eq_mask mask_numeral)
qed

theorem nullable_ctors_correct_witness:
  "traits_ok std_traits \<and> val_is_null std_traits (esp_matter_nullable_uint8 std_traits 255) \<and>
   \<not> val_is_null std_traits (esp_matter_nullable_uint8 std_traits 254)"
proof -
  have m: "(VT_NULLABLE_UINT8, KU8, esp_matter_nullable_uint8 std_traits)
            \<in> set (nullable_ctors std_traits)"
    by (simp add: nullable_ctors_def)
  have "nullable_is_null std_traits KU8 255" "\<not> nullable_is_null std_traits KU8 254"
    by (simp_all add: nullable_is_null_def std_traits_def GetNullValue_def trunc_def
        take_bit_eq_mask mask_numeral)
  with nullable_ctors_correct[OF std_traits_ok m, of 255]
    nullable_ctors_correct[OF std_traits_ok m, of 254] std_traits_ok
  show ?thesis by simp
qed

subsection \<open>Comparison\<close>

text \<open>What a value denotes for \<open>val_compare\<close>, and for which values it can answer yes.\<close>

definition comparable :: "attr_val \<Rightarrow> bool" where
  "comparable v \<longleftrightarrow>
     av_type v \<in> string_types \<or>
     (case type_kind (av_type v) of
        None \<Rightarrow> False
      | Some k \<Rightarrow> k \<noteq> KInt \<and> (k = KFloat \<longrightarrow> \<not> float_nan (num_member k (av_val v))))"

definition content :: "attr_val \<Rightarrow> (u16 \<times> u8 list) + int" where
  "content v =
     (let a = v_a (av_val v) in
      if av_type v \<in> string_types then
        Inl (a_s a, if a_s a = null_len (av_type v) \<or> a_s a = 0 then []
                    else take (unat (a_s a)) (buf_bytes (a_b a)))
      else case type_kind (av_type v) of
        None \<Rightarrow> Inr 0
      | Some k \<Rightarrow> Inr (if k = KFloat then float_key (num_member k (av_val v))
                      else uint (num_member k (av_val v))))"

lemma num_eq_content:
  "num_eq k (trunc k a) (trunc k b) \<longleftrightarrow>
     (if k = KFloat then \<not> float_nan (trunc k a) \<and> \<not> float_nan (trunc k b) \<and>
        float_key (trunc k a) = float_key (trunc k b)
      else uint (trunc k a) = uint (trunc k b))"
  by (simp add: num_eq_def word_uint_eq_iff)

lemma val_compare_content:
  "val_compare v w \<longleftrightarrow>
     av_type v = av_type w \<and> comparable v \<and> comparable w \<and> content v = content w"
proof (cases "av_type v = av_type w")
  case True
  then show ?thesis
    by (cases "av_type w")
       (simp_all add: val_compare_def comparable_def content_def num_member_def num_eq_content
          Let_def)
qed (simp add: val_compare_def)



end
