(* ===== verification/EM_Nvs.thy ===== *)
theory EM_Nvs
  imports EM_Values
begin

text \<open>
  Persistence of attribute values: \<open>data_model/private/esp_matter_nvs.cpp\<close>.  The ESP-IDF
  non-volatile storage library is not part of the repository, so it is a parameter: an
  \<open>nvs_api\<close> over an abstract flash state \<open>'n\<close>, with the documented behaviour the code relies on
  collected in \<open>nvs_ok\<close>.  An open handle is the namespace it was opened on.  Likewise
  \<open>chip::Base64Encode\<close> is a parameter \<open>b64\<close> with the hypothesis \<open>b64_ok\<close>.  Both hypotheses are
  satisfied by concrete functions, \<open>map_api\<close> and \<open>base64_encode\<close>, at the end of the theory.
\<close>

section \<open>The storage library\<close>

datatype nvs_mode = NVS_READONLY | NVS_READWRITE

datatype nvs_kind = NK_U8 | NK_I8 | NK_U16 | NK_I16 | NK_U32 | NK_I32 | NK_U64 | NK_I64 | NK_BLOB

datatype nvs_item = Num_Item nvs_kind u64 | Blob_Item "u8 list"

primrec item_kind :: "nvs_item \<Rightarrow> nvs_kind" where
  "item_kind (Num_Item k w) = k"
| "item_kind (Blob_Item bs) = NK_BLOB"

primrec item_num :: "nvs_item \<Rightarrow> u64" where
  "item_num (Num_Item k w) = w"
| "item_num (Blob_Item bs) = 0"

primrec item_blob :: "nvs_item \<Rightarrow> u8 list" where
  "item_blob (Num_Item k w) = []"
| "item_blob (Blob_Item bs) = bs"

text \<open>
  \<open>api_get\<close> covers the typed getters \<open>nvs_get_u8\<close> to \<open>nvs_get_blob\<close>, \<open>api_set\<close> the typed
  setters.  \<open>api_sizeof_val\<close> and \<open>api_read_val\<close> are the size and the byte layout of an
  \<open>esp_matter_attr_val_t\<close> on the target, needed for values written by older releases as the
  raw bytes of the structure.
\<close>

record 'n nvs_api =
  api_open :: "string \<Rightarrow> nvs_mode \<Rightarrow> 'n \<Rightarrow> esp_err \<times> 'n"
  api_get :: "string \<Rightarrow> string \<Rightarrow> nvs_kind \<Rightarrow> 'n \<Rightarrow> esp_err + nvs_item"
  api_set :: "string \<Rightarrow> string \<Rightarrow> nvs_item \<Rightarrow> 'n \<Rightarrow> esp_err \<times> 'n"
  api_erase_key :: "string \<Rightarrow> string \<Rightarrow> 'n \<Rightarrow> esp_err \<times> 'n"
  api_commit :: "string \<Rightarrow> 'n \<Rightarrow> 'n"
  api_sizeof_val :: nat
  api_read_val :: "u8 list \<Rightarrow> attr_val \<Rightarrow> attr_val"

section \<open>Keys\<close>

definition kvs_namespace :: string where
  "kvs_namespace = ''esp_matter_kvs''"

definition get_attribute_key :: "(u8 list \<Rightarrow> string) \<Rightarrow> u16 \<Rightarrow> u32 \<Rightarrow> u32 \<Rightarrow> string" where
  "get_attribute_key b64 endpoint_id cluster_id attribute_id =
     take 14 (b64 (le_bytes 2 endpoint_id @ le_bytes 4 cluster_id @ le_bytes 4 attribute_id))"

fun hex_string :: "nat \<Rightarrow> string" where
  "hex_string n =
     (if n < 16 then [''0123456789ABCDEF'' ! n]
      else hex_string (n div 16) @ [''0123456789ABCDEF'' ! (n mod 16)])"

declare hex_string.simps [simp del]

definition old_namespace :: "u16 \<Rightarrow> string" where
  "old_namespace endpoint_id = take 15 (''endpoint_'' @ hex_string (unat endpoint_id))"

definition old_attribute_key :: "u32 \<Rightarrow> u32 \<Rightarrow> string" where
  "old_attribute_key cluster_id attribute_id =
     take 15 (hex_string (unat cluster_id) @ '':'' @ hex_string (unat attribute_id))"

section \<open>Storing, erasing and reading one entry\<close>

definition nvs_store_val ::
    "'n nvs_api \<Rightarrow> string \<Rightarrow> string \<Rightarrow> attr_val \<Rightarrow> 'n \<Rightarrow> esp_err \<times> 'n" where
  "nvs_store_val api ns key v n0 =
     (let (err, n) = api_open api ns NVS_READWRITE n0;
          t = av_type v;
          put = (\<lambda>nk k. api_set api ns key (Num_Item nk (num_member k (av_val v))) n) in
      if err \<noteq> ESP_OK then (err, n)
      else if t \<in> string_types \<union> {VT_ARRAY} then
        (let a = v_a (av_val v);
             (err, n1) = (case a_b a of
                 Some bs \<Rightarrow> api_set api ns key (Blob_Item (take (unat (a_s a)) bs)) n
               | None \<Rightarrow> api_erase_key api ns key n)
         in (err, api_commit api ns (api_commit api ns n1)))
      else
        (let (err, n1) =
           (if t = VT_BOOLEAN then
              api_set api ns key (Num_Item NK_U8 (if num_member KBool (av_val v) \<noteq> 0 then 1 else 0)) n
            else if t \<in> {VT_INTEGER, VT_NULLABLE_INTEGER} then put NK_I32 KInt
            else if t \<in> {VT_FLOAT, VT_NULLABLE_FLOAT} then
              api_set api ns key (Blob_Item (le_bytes 4 (num_member KFloat (av_val v)))) n
            else if t \<in> {VT_INT8, VT_NULLABLE_INT8} then put NK_I8 KI8
            else if t \<in> {VT_UINT8, VT_ENUM8, VT_BITMAP8, VT_NULLABLE_UINT8, VT_NULLABLE_ENUM8,
                         VT_NULLABLE_BITMAP8} then put NK_U8 KU8
            else if t \<in> {VT_INT16, VT_NULLABLE_INT16} then put NK_I16 KI16
            else if t \<in> {VT_UINT16, VT_BITMAP16, VT_NULLABLE_UINT16, VT_NULLABLE_BITMAP16} then
              put NK_U16 KU16
            else if t \<in> {VT_INT32, VT_NULLABLE_INT32} then put NK_I32 KI32
            else if t \<in> {VT_UINT32, VT_BITMAP32, VT_NULLABLE_UINT32, VT_NULLABLE_BITMAP32} then
              put NK_U32 KU32
            else if t \<in> {VT_INT64, VT_NULLABLE_INT64} then put NK_I64 KI64
            else if t \<in> {VT_UINT64, VT_NULLABLE_UINT64} then put NK_U64 KU64
            else (ESP_ERR_INVALID_ARG, n))
         in (err, api_commit api ns n1)))"

definition nvs_erase_val :: "'n nvs_api \<Rightarrow> string \<Rightarrow> string \<Rightarrow> 'n \<Rightarrow> esp_err \<times> 'n" where
  "nvs_erase_val api ns key n0 =
     (let (err, n) = api_open api ns NVS_READWRITE n0 in
      if err \<noteq> ESP_OK then (err, n)
      else (let (err, n1) = api_erase_key api ns key n in (err, api_commit api ns n1)))"

text \<open>A typed getter writes the member of its kind and leaves the value alone on an error.\<close>

definition get_num_into ::
    "'n nvs_api \<Rightarrow> string \<Rightarrow> string \<Rightarrow> nvs_kind \<Rightarrow> num_kind \<Rightarrow> attr_val \<Rightarrow> 'n \<Rightarrow> esp_err \<times> attr_val" where
  "get_num_into api ns key nk k v n =
     (case api_get api ns key nk n of
        Inl e \<Rightarrow> (e, v)
      | Inr it \<Rightarrow> (ESP_OK, v\<lparr>av_val := set_member k (item_num it) (av_val v)\<rparr>))"

definition nvs_get_blob_val ::
    "'n nvs_api \<Rightarrow> string \<Rightarrow> string \<Rightarrow> attr_val \<Rightarrow> mem \<Rightarrow> 'n \<Rightarrow> esp_err \<times> attr_val \<times> mem" where
  "nvs_get_blob_val api ns key v m n =
     (case api_get api ns key NK_BLOB n of
        Inl e \<Rightarrow> (e, v, m)
      | Inr it \<Rightarrow>
          (let a = v_a (av_val v);
               bs = item_blob it;
               len = max (length bs) (unat (a_s a));
               reserve = (if av_type v = VT_CHAR_STRING \<or> av_type v = VT_LONG_CHAR_STRING
                          then 1 else 0);
               (buffer, m') = mem_calloc m in
           case buffer of
             None \<Rightarrow> (ESP_ERR_NO_MEM, v, m')
           | Some _ \<Rightarrow>
               (ESP_OK,
                v\<lparr>av_val := (av_val v)\<lparr>v_a := a\<lparr>
                  a_b := Some (bs @ replicate (len + reserve - length bs) 0),
                  a_t := of_nat len + (a_t a - a_s a),
                  a_s := of_nat len\<rparr>\<rparr>\<rparr>,
                m')))"

definition nvs_get_prim_val ::
    "'n nvs_api \<Rightarrow> string \<Rightarrow> string \<Rightarrow> attr_val \<Rightarrow> 'n \<Rightarrow> (esp_err \<times> attr_val) option" where
  "nvs_get_prim_val api ns key v n =
     (let t = av_type v; get = (\<lambda>nk k. Some (get_num_into api ns key nk k v n)) in
      if t = VT_BOOLEAN then
        Some (case api_get api ns key NK_U8 n of
                Inl e \<Rightarrow> (e, v)
              | Inr it \<Rightarrow> (ESP_OK, v\<lparr>av_val :=
                  set_member KBool (if trunc KU8 (item_num it) \<noteq> 0 then 1 else 0) (av_val v)\<rparr>))
      else if t \<in> {VT_INTEGER, VT_NULLABLE_INTEGER} then get NK_I32 KInt
      else if t \<in> {VT_FLOAT, VT_NULLABLE_FLOAT} then
        Some (case api_get api ns key NK_BLOB n of
                Inl e \<Rightarrow> (e, v)
              | Inr it \<Rightarrow>
                  if length (item_blob it) > 4 then (ESP_ERR_NVS_INVALID_LENGTH, v)
                  else (ESP_OK, v\<lparr>av_val := set_member KFloat
                    (le_word (item_blob it @
                       drop (length (item_blob it)) (le_bytes 4 (num_member KFloat (av_val v)))))
                    (av_val v)\<rparr>))
      else if t \<in> {VT_INT8, VT_NULLABLE_INT8} then get NK_I8 KI8
      else if t \<in> {VT_UINT8, VT_ENUM8, VT_BITMAP8, VT_NULLABLE_UINT8, VT_NULLABLE_ENUM8,
                   VT_NULLABLE_BITMAP8} then get NK_U8 KU8
      else if t \<in> {VT_INT16, VT_NULLABLE_INT16} then get NK_I16 KI16
      else if t \<in> {VT_UINT16, VT_BITMAP16, VT_NULLABLE_UINT16, VT_NULLABLE_BITMAP16} then
        get NK_U16 KU16
      else if t \<in> {VT_INT32, VT_NULLABLE_INT32} then get NK_I32 KI32
      else if t \<in> {VT_UINT32, VT_BITMAP32, VT_NULLABLE_UINT32, VT_NULLABLE_BITMAP32} then
        get NK_U32 KU32
      else if t \<in> {VT_INT64, VT_NULLABLE_INT64} then get NK_I64 KI64
      else if t \<in> {VT_UINT64, VT_NULLABLE_UINT64} then get NK_U64 KU64
      else None)"

definition nvs_get_val ::
    "'n nvs_api \<Rightarrow> string \<Rightarrow> string \<Rightarrow> attr_val \<Rightarrow> mem \<Rightarrow> 'n \<Rightarrow> esp_err \<times> attr_val \<times> mem \<times> 'n" where
  "nvs_get_val api ns key v m n0 =
     (let (err, n) = api_open api ns NVS_READONLY n0 in
      if err \<noteq> ESP_OK then (err, v, m, n)
      else if av_type v \<in> string_types \<union> {VT_ARRAY} then
        (let (err, v', m') = nvs_get_blob_val api ns key v m n in (err, v', m', n))
      else case nvs_get_prim_val api ns key v n of
        None \<Rightarrow> (ESP_ERR_INVALID_ARG, v, m, n)
      | Some (err, v') \<Rightarrow>
          if err = ESP_ERR_NVS_NOT_FOUND then
            (case api_get api ns key NK_BLOB n of
               Inl e \<Rightarrow> (e, v', m, n)
             | Inr it \<Rightarrow>
                 if length (item_blob it) > api_sizeof_val api
                 then (ESP_ERR_NVS_INVALID_LENGTH, v', m, n)
                 else (let v'' = api_read_val api (item_blob it) v';
                           (err, n') = nvs_store_val api ns key v'' n
                       in (err, v'', m, n')))
          else (err, v', m, n))"

section \<open>Values of attributes\<close>

definition get_val_from_nvs ::
    "'n nvs_api \<Rightarrow> (u8 list \<Rightarrow> string) \<Rightarrow> u16 \<Rightarrow> u32 \<Rightarrow> u32 \<Rightarrow> attr_val \<Rightarrow> mem \<Rightarrow> 'n \<Rightarrow>
     esp_err \<times> attr_val \<times> mem \<times> 'n" where
  "get_val_from_nvs api b64 endpoint_id cluster_id attribute_id v m n =
     (let key = get_attribute_key b64 endpoint_id cluster_id attribute_id;
          (err, v1, m1, n1) = nvs_get_val api kvs_namespace key v m n in
      if err = ESP_ERR_NVS_NOT_FOUND then
        (let ns = old_namespace endpoint_id;
             old_key = old_attribute_key cluster_id attribute_id;
             (err, v2, m2, n2) = nvs_get_val api ns old_key v1 m1 n1 in
         if err = ESP_OK then
           (let (_, n3) = nvs_erase_val api ns old_key n2;
                (_, n4) = nvs_store_val api kvs_namespace key v2 n3
            in (err, v2, m2, n4))
         else (err, v2, m2, n2))
      else (err, v1, m1, n1))"

definition store_val_in_nvs ::
    "'n nvs_api \<Rightarrow> (u8 list \<Rightarrow> string) \<Rightarrow> u16 \<Rightarrow> u32 \<Rightarrow> u32 \<Rightarrow> attr_val \<Rightarrow> 'n \<Rightarrow> esp_err \<times> 'n" where
  "store_val_in_nvs api b64 endpoint_id cluster_id attribute_id v n =
     nvs_store_val api kvs_namespace (get_attribute_key b64 endpoint_id cluster_id attribute_id) v n"

definition erase_val_in_nvs ::
    "'n nvs_api \<Rightarrow> (u8 list \<Rightarrow> string) \<Rightarrow> u16 \<Rightarrow> u32 \<Rightarrow> u32 \<Rightarrow> 'n \<Rightarrow> esp_err \<times> 'n" where
  "erase_val_in_nvs api b64 endpoint_id cluster_id attribute_id n =
     nvs_erase_val api kvs_namespace (get_attribute_key b64 endpoint_id cluster_id attribute_id) n"

section \<open>What the storage library and the encoder promise\<close>

definition nvs_ok :: "'n nvs_api \<Rightarrow> bool" where
  "nvs_ok api \<longleftrightarrow>
     (\<forall>ns key it n n'. api_set api ns key it n = (ESP_OK, n') \<longrightarrow>
        api_get api ns key (item_kind it) n' = Inr it) \<and>
     (\<forall>ns key it n ns' key' kd. (ns, key) \<noteq> (ns', key') \<longrightarrow>
        api_get api ns' key' kd (snd (api_set api ns key it n)) = api_get api ns' key' kd n) \<and>
     (\<forall>ns key n n' kd. api_erase_key api ns key n = (ESP_OK, n') \<longrightarrow>
        api_get api ns key kd n' = Inl ESP_ERR_NVS_NOT_FOUND) \<and>
     (\<forall>ns key n ns' key' kd. (ns, key) \<noteq> (ns', key') \<longrightarrow>
        api_get api ns' key' kd (snd (api_erase_key api ns key n)) = api_get api ns' key' kd n) \<and>
     (\<forall>ns mode n ns' key kd.
        api_get api ns' key kd (snd (api_open api ns mode n)) = api_get api ns' key kd n) \<and>
     (\<forall>ns n ns' key kd. api_get api ns' key kd (api_commit api ns n) = api_get api ns' key kd n) \<and>
     (\<forall>ns key kd n it mode. api_get api ns key kd n = Inr it \<longrightarrow>
        item_kind it = kd \<and> fst (api_open api ns mode n) = ESP_OK)"

lemma nvs_okD:
  assumes "nvs_ok api"
  shows nvs_get_set: "api_set api ns key it n = (ESP_OK, n') \<Longrightarrow>
          api_get api ns key (item_kind it) n' = Inr it"
    and nvs_get_set_other: "(ns, key) \<noteq> (ns', key') \<Longrightarrow>
          api_get api ns' key' kd (snd (api_set api ns key it n)) = api_get api ns' key' kd n"
    and nvs_get_erase: "api_erase_key api ns key n = (ESP_OK, n') \<Longrightarrow>
          api_get api ns key kd n' = Inl ESP_ERR_NVS_NOT_FOUND"
    and nvs_get_erase_other: "(ns, key) \<noteq> (ns', key') \<Longrightarrow>
          api_get api ns' key' kd (snd (api_erase_key api ns key n)) = api_get api ns' key' kd n"
    and nvs_get_open: "api_get api ns' key kd (snd (api_open api ns mode n)) = api_get api ns' key kd n"
    and nvs_get_commit: "api_get api ns' key kd (api_commit api ns n) = api_get api ns' key kd n"
    and nvs_get_kind: "api_get api ns key kd n = Inr it \<Longrightarrow> item_kind it = kd"
    and nvs_open_used: "api_get api ns key kd n = Inr it \<Longrightarrow> fst (api_open api ns mode n) = ESP_OK"
proof -
  note ok = assms [unfolded nvs_ok_def]
  show "api_set api ns key it n = (ESP_OK, n') \<Longrightarrow> api_get api ns key (item_kind it) n' = Inr it"
    using ok by simp
  show "(ns, key) \<noteq> (ns', key') \<Longrightarrow>
      api_get api ns' key' kd (snd (api_set api ns key it n)) = api_get api ns' key' kd n"
    using ok by simp
  show "api_erase_key api ns key n = (ESP_OK, n') \<Longrightarrow>
      api_get api ns key kd n' = Inl ESP_ERR_NVS_NOT_FOUND"
    using ok by simp
  show "(ns, key) \<noteq> (ns', key') \<Longrightarrow>
      api_get api ns' key' kd (snd (api_erase_key api ns key n)) = api_get api ns' key' kd n"
    using ok by simp
  show "api_get api ns' key kd (snd (api_open api ns mode n)) = api_get api ns' key kd n"
    using ok by simp
  show "api_get api ns' key kd (api_commit api ns n) = api_get api ns' key kd n"
    using ok by simp
  show "api_get api ns key kd n = Inr it \<Longrightarrow> item_kind it = kd"
    using ok by simp
  show "api_get api ns key kd n = Inr it \<Longrightarrow> fst (api_open api ns mode n) = ESP_OK"
    using ok by simp
qed

definition b64_ok :: "(u8 list \<Rightarrow> string) \<Rightarrow> bool" where
  "b64_ok b64 \<longleftrightarrow>
     (\<forall>xs. length xs = 10 \<longrightarrow> length (b64 xs) = 16 \<and> drop 14 (b64 xs) = ''=='') \<and>
     inj_on b64 {xs. length xs = 10}"

lemma get_attribute_key_eq:
  assumes b64: "b64_ok b64"
  shows "get_attribute_key b64 e c a = get_attribute_key b64 e' c' a' \<longleftrightarrow> e = e' \<and> c = c' \<and> a = a'"
proof -
  let ?p = "\<lambda>(e :: u16) (c :: u32) (a :: u32). le_bytes 2 e @ le_bytes 4 c @ le_bytes 4 a"
  have len: "length (?p e c a) = 10" for e c a by simp
  have pad: "b64 (?p e c a) = get_attribute_key b64 e c a @ ''==''" for e c a
  proof -
    have "drop 14 (b64 (?p e c a)) = ''==''" using b64 len unfolding b64_ok_def by blast
    then show ?thesis unfolding get_attribute_key_def by (metis append_take_drop_id)
  qed
  have inj: "b64 (?p e c a) = b64 (?p e' c' a') \<longleftrightarrow> ?p e c a = ?p e' c' a'"
    using b64 len unfolding b64_ok_def by (intro inj_on_eq_iff) auto
  have "le_bytes 2 e = le_bytes 2 e' \<longleftrightarrow> e = e'" "le_bytes 4 c = le_bytes 4 c' \<longleftrightarrow> c = c'"
    "le_bytes 4 a = le_bytes 4 a' \<longleftrightarrow> a = a'"
    by (auto dest: le_bytes_inj)
  then have "?p e c a = ?p e' c' a' \<longleftrightarrow> e = e' \<and> c = c' \<and> a = a'" by simp
  then show ?thesis using inj by (simp only: pad append_same_eq)
qed

section \<open>What is stored for a value\<close>

text \<open>
  The specification of the format: the entry written for a value.  There is none for a value with
  no buffer, and none for the three types the switch of \<open>nvs_store_val\<close> has no case for.
\<close>

definition not_persistable :: "val_type set" where
  "not_persistable = {VT_INVALID, VT_NULLABLE_BOOLEAN, VT_ENUM16, VT_NULLABLE_ENUM16}"

primrec kind_item :: "num_kind \<Rightarrow> u64 \<Rightarrow> nvs_item" where
  "kind_item KBool w = Num_Item NK_U8 (if w \<noteq> 0 then 1 else 0)"
| "kind_item KInt w = Num_Item NK_I32 w"
| "kind_item KFloat w = Blob_Item (le_bytes 4 w)"
| "kind_item KI8 w = Num_Item NK_I8 w"
| "kind_item KU8 w = Num_Item NK_U8 w"
| "kind_item KI16 w = Num_Item NK_I16 w"
| "kind_item KU16 w = Num_Item NK_U16 w"
| "kind_item KI32 w = Num_Item NK_I32 w"
| "kind_item KU32 w = Num_Item NK_U32 w"
| "kind_item KI64 w = Num_Item NK_I64 w"
| "kind_item KU64 w = Num_Item NK_U64 w"

definition persisted :: "attr_val \<Rightarrow> nvs_item option" where
  "persisted v =
     (let a = v_a (av_val v) in
      if av_type v \<in> not_persistable then None
      else case type_kind (av_type v) of
        Some k \<Rightarrow> Some (kind_item k (num_member k (av_val v)))
      | None \<Rightarrow> map_option (\<lambda>bs. Blob_Item (take (unat (a_s a)) bs)) (a_b a))"

definition same_value :: "attr_val \<Rightarrow> attr_val \<Rightarrow> bool" where
  "same_value v w \<longleftrightarrow>
     av_type v = av_type w \<and>
     (case type_kind (av_type w) of
        Some k \<Rightarrow> num_member k (av_val v) = num_member k (av_val w)
      | None \<Rightarrow> a_s (v_a (av_val v)) = a_s (v_a (av_val w)) \<and>
          take (unat (a_s (v_a (av_val w)))) (buf_bytes (a_b (v_a (av_val v)))) =
          take (unat (a_s (v_a (av_val w)))) (buf_bytes (a_b (v_a (av_val w)))))"

text \<open>A buffer holds at least the bytes its size says, and a \<open>bool\<close> is 0 or 1.\<close>

definition val_wf :: "attr_val \<Rightarrow> bool" where
  "val_wf v \<longleftrightarrow>
     (av_type v = VT_BOOLEAN \<longrightarrow> num_member KBool (av_val v) \<in> {0, 1}) \<and>
     (case a_b (v_a (av_val v)) of None \<Rightarrow> True
      | Some bs \<Rightarrow> type_kind (av_type v) = None \<longrightarrow> unat (a_s (v_a (av_val v))) \<le> length bs)"

lemma nvs_store_val_persisted:
  assumes "persisted v = Some it"
  shows "nvs_store_val api ns key v n0 =
    (let (err, n) = api_open api ns NVS_READWRITE n0 in
     if err \<noteq> ESP_OK then (err, n)
     else (let (err, n1) = api_set api ns key it n in
       (err, if type_kind (av_type v) = None then api_commit api ns (api_commit api ns n1)
             else api_commit api ns n1)))"
  using assms
  by (cases "av_type v")
     (auto simp: nvs_store_val_def persisted_def not_persistable_def Let_def split: prod.splits)

lemma nvs_store_val_not_persisted:
  assumes "persisted v = None"
  shows "nvs_store_val api ns key v n0 =
    (let (err, n) = api_open api ns NVS_READWRITE n0 in
     if err \<noteq> ESP_OK then (err, n)
     else if av_type v \<in> not_persistable then (ESP_ERR_INVALID_ARG, api_commit api ns n)
     else (let (err, n1) = api_erase_key api ns key n in
       (err, api_commit api ns (api_commit api ns n1))))"
  using assms
  by (cases "av_type v")
     (auto simp: nvs_store_val_def persisted_def not_persistable_def Let_def split: prod.splits)

lemma nvs_store_val_get:
  assumes "nvs_ok api" "persisted v = Some it" "nvs_store_val api ns key v n = (ESP_OK, n')"
  shows "api_get api ns key (item_kind it) n' = Inr it"
  using assms(3) nvs_get_set[OF assms(1), of ns key it]
  unfolding nvs_store_val_persisted[OF assms(2)]
  by (auto simp: Let_def nvs_get_commit[OF assms(1)] split: prod.splits if_splits)

lemma nvs_store_val_get_other:
  assumes "nvs_ok api" "(ns, key) \<noteq> (ns', key')"
  shows "api_get api ns' key' kd (snd (nvs_store_val api ns key v n)) = api_get api ns' key' kd n"
proof -
  obtain err n1 where o: "api_open api ns NVS_READWRITE n = (err, n1)" by fastforce
  have n1: "api_get api ns' key' kd n1 = api_get api ns' key' kd n"
    using nvs_get_open[OF assms(1), of ns' key' kd ns NVS_READWRITE n] o by simp
  show ?thesis
  proof (cases "persisted v")
    case None
    then show ?thesis
      using n1 nvs_get_erase_other[OF assms, of kd n1]
      by (auto simp: nvs_store_val_not_persisted o Let_def nvs_get_commit[OF assms(1)]
          split: prod.splits)
  next
    case (Some it)
    then show ?thesis
      using n1 nvs_get_set_other[OF assms, of kd it n1]
      by (auto simp: nvs_store_val_persisted o Let_def nvs_get_commit[OF assms(1)]
          split: prod.splits)
  qed
qed

lemma nvs_erase_val_get_other:
  assumes "nvs_ok api" "(ns, key) \<noteq> (ns', key')"
  shows "api_get api ns' key' kd (snd (nvs_erase_val api ns key n)) = api_get api ns' key' kd n"
proof -
  obtain err n1 where o: "api_open api ns NVS_READWRITE n = (err, n1)" by fastforce
  have "api_get api ns' key' kd n1 = api_get api ns' key' kd n"
    using nvs_get_open[OF assms(1), of ns' key' kd ns NVS_READWRITE n] o by simp
  then show ?thesis
    using nvs_get_erase_other[OF assms, of kd n1]
    by (auto simp: nvs_erase_val_def o Let_def nvs_get_commit[OF assms(1)] split: prod.splits)
qed

lemma nvs_get_prim_val_persisted:
  assumes v: "persisted v = Some it" "val_wf v" "type_kind (av_type v) = Some k"
    and t: "av_type v0 = av_type v"
    and get: "api_get api ns key (item_kind it) n = Inr it"
  shows "\<exists>v1. nvs_get_prim_val api ns key v0 n = Some (ESP_OK, v1) \<and> same_value v1 v"
proof -
  have [simp]: "trunc k (num_member k x) = num_member k x" for k x
    by (simp add: num_member_def)
  have [simp]: "trunc KFloat (le_word (le_bytes 4 (num_member KFloat x))) = num_member KFloat x" for x
    by (simp add: le_word_le_bytes num_member_def trunc_def)
  have [simp]: "trunc KU8 1 = 1" "trunc KBool 1 = 1"
    by (simp_all add: trunc_def)
  show ?thesis
    using v t get
    by (cases "av_type v")
       (auto simp: persisted_def not_persistable_def nvs_get_prim_val_def get_num_into_def
          same_value_def val_wf_def Let_def split: if_splits option.splits)
qed

lemma nvs_get_blob_val_persisted:
  assumes v: "persisted v = Some it" "val_wf v" "type_kind (av_type v) = None"
    and t: "av_type v0 = av_type v" "a_s (v_a (av_val v0)) \<le> a_s (v_a (av_val v))"
    and get: "api_get api ns key (item_kind it) n = Inr it"
    and alloc: "\<not> mem_fail m (mem_next m)"
  shows "\<exists>v1 m1. nvs_get_blob_val api ns key v0 m n = (ESP_OK, v1, m1) \<and> same_value v1 v"
proof -
  let ?s = "a_s (v_a (av_val v))"
  obtain bs where bs: "a_b (v_a (av_val v)) = Some bs" "it = Blob_Item (take (unat ?s) bs)"
    using v by (auto simp: persisted_def Let_def split: if_splits)
  have len: "unat ?s \<le> length bs" using v bs by (simp add: val_wf_def)
  have mx: "max (unat ?s) (unat (a_s (v_a (av_val v0)))) = unat ?s"
    using t(2) by (simp add: word_le_nat_alt)
  obtain m1 where m1: "mem_calloc m = (Some (mem_next m), m1)"
    using alloc by (simp add: mem_calloc_def)
  show ?thesis
    using get bs len t v(3) by (simp add: nvs_get_blob_val_def m1 mx Let_def same_value_def buf_bytes_def)
qed

lemma persisted_not_invalid: "persisted v = Some it \<Longrightarrow> type_kind (av_type v) = None \<longleftrightarrow>
   av_type v \<in> string_types \<union> {VT_ARRAY}"
  by (cases "av_type v") (auto simp: persisted_def not_persistable_def)

lemma nvs_get_val_persisted:
  assumes api: "nvs_ok api"
    and v: "persisted v = Some it" "val_wf v"
    and t: "av_type v0 = av_type v"
    and str: "type_kind (av_type v) = None \<Longrightarrow>
      a_s (v_a (av_val v0)) \<le> a_s (v_a (av_val v)) \<and> \<not> mem_fail m (mem_next m)"
    and get: "api_get api ns key (item_kind it) n = Inr it"
  shows "\<exists>v1 m1. nvs_get_val api ns key v0 m n =
    (ESP_OK, v1, m1, snd (api_open api ns NVS_READONLY n)) \<and> same_value v1 v"
proof -
  obtain n1 where o: "api_open api ns NVS_READONLY n = (ESP_OK, n1)"
    using nvs_open_used[OF api get, of NVS_READONLY] by (metis prod.collapse)
  have get1: "api_get api ns key (item_kind it) n1 = Inr it"
    using nvs_get_open[OF api, of ns key "item_kind it" ns NVS_READONLY n] o get by simp
  show ?thesis
  proof (cases "type_kind (av_type v)")
    case None
    with v have ty: "av_type v0 \<in> string_types \<union> {VT_ARRAY}"
      using persisted_not_invalid[OF v(1)] t by simp
    obtain v1 m1 where "nvs_get_blob_val api ns key v0 m n1 = (ESP_OK, v1, m1)" "same_value v1 v"
      using nvs_get_blob_val_persisted[OF v None t _ get1] str[OF None] by blast
    with ty show ?thesis by (simp add: nvs_get_val_def o)
  next
    case (Some k)
    with v have ty: "av_type v0 \<notin> string_types \<union> {VT_ARRAY}"
      using persisted_not_invalid[OF v(1)] t by simp
    obtain v1 where "nvs_get_prim_val api ns key v0 n1 = Some (ESP_OK, v1)" "same_value v1 v"
      using nvs_get_prim_val_persisted[OF v Some t get1] by blast
    with ty show ?thesis by (simp add: nvs_get_val_def o)
  qed
qed

lemma get_val_from_nvs_persisted:
  assumes "nvs_ok api" "persisted v = Some it" "val_wf v" "av_type v0 = av_type v"
    and "type_kind (av_type v) = None \<Longrightarrow>
      a_s (v_a (av_val v0)) \<le> a_s (v_a (av_val v)) \<and> \<not> mem_fail m (mem_next m)"
    and "api_get api kvs_namespace (get_attribute_key b64 e c a) (item_kind it) n = Inr it"
  shows "\<exists>v1 m1 n1. get_val_from_nvs api b64 e c a v0 m n = (ESP_OK, v1, m1, n1) \<and> same_value v1 v"
  using nvs_get_val_persisted[OF assms] by (fastforce simp: get_val_from_nvs_def)

section \<open>Properties of persistence\<close>

text \<open>C11: a value that was stored is read back.  If storing a well-formed value for an attribute
  succeeds, reading the attribute afterwards succeeds with the same type and the same number, or
  the same bytes.  The value read into must not already be longer (the code never shrinks a
  string), and the allocation of the buffer must succeed.\<close>

theorem nvs_roundtrip:
  assumes "nvs_ok api" "val_wf v" "persisted v \<noteq> None"
    and "store_val_in_nvs api b64 endpoint cluster attribute v n = (ESP_OK, n')"
    and "av_type v0 = av_type v" "a_s (v_a (av_val v0)) \<le> a_s (v_a (av_val v))"
    and "\<not> mem_fail m (mem_next m)"
  shows "\<exists>v1 m1 n1. get_val_from_nvs api b64 endpoint cluster attribute v0 m n' = (ESP_OK, v1, m1, n1) \<and>
    same_value v1 v"
proof -
  obtain it where it: "persisted v = Some it" using assms(3) by auto
  show ?thesis
    using get_val_from_nvs_persisted[OF assms(1) it assms(2,5)] assms(6,7)
      nvs_store_val_get[OF assms(1) it assms(4)[unfolded store_val_in_nvs_def]] by blast
qed

text \<open>C27: attributes do not share storage.  Storing or erasing the value of one attribute leaves
  every entry of a different attribute, identified by endpoint, cluster and attribute id, as it
  was.\<close>

theorem nvs_independent:
  assumes "nvs_ok api" "b64_ok b64" "(e, c, a) \<noteq> (e', c', a')"
  shows "api_get api kvs_namespace (get_attribute_key b64 e' c' a') kd
           (snd (store_val_in_nvs api b64 e c a v n)) =
         api_get api kvs_namespace (get_attribute_key b64 e' c' a') kd n \<and>
         api_get api kvs_namespace (get_attribute_key b64 e' c' a') kd
           (snd (erase_val_in_nvs api b64 e c a n)) =
         api_get api kvs_namespace (get_attribute_key b64 e' c' a') kd n"
proof -
  let ?key = "get_attribute_key b64 e c a" and ?key' = "get_attribute_key b64 e' c' a'"
  have ne: "(kvs_namespace, ?key) \<noteq> (kvs_namespace, ?key')"
    using assms(3) get_attribute_key_eq[OF assms(2)] by simp
  show ?thesis
    using nvs_store_val_get_other[OF assms(1) ne] nvs_erase_val_get_other[OF assms(1) ne]
    by (simp add: store_val_in_nvs_def erase_val_in_nvs_def)
qed

text \<open>C40: three attribute types cannot be made persistent.  Storing a nullable boolean or a
  16-bit enum, nullable or not, fails and changes no entry, so such an attribute falls back to its
  default at the next start even when it is declared non-volatile.\<close>

theorem nvs_unsupported_types:
  assumes "nvs_ok api" "av_type v \<in> {VT_NULLABLE_BOOLEAN, VT_ENUM16, VT_NULLABLE_ENUM16}"
  shows "fst (store_val_in_nvs api b64 e c a v n) \<noteq> ESP_OK \<and>
    api_get api ns key kd (snd (store_val_in_nvs api b64 e c a v n)) = api_get api ns key kd n"
proof -
  have np: "persisted v = None" "av_type v \<in> not_persistable"
    using assms(2) by (auto simp: persisted_def not_persistable_def)
  obtain err n1 where o: "api_open api kvs_namespace NVS_READWRITE n = (err, n1)" by fastforce
  have "api_get api ns key kd n1 = api_get api ns key kd n"
    using nvs_get_open[OF assms(1), of ns key kd kvs_namespace NVS_READWRITE n] o by simp
  with np show ?thesis
    by (simp add: store_val_in_nvs_def nvs_store_val_not_persisted o nvs_get_commit[OF assms(1)])
qed

subsection \<open>Migration of entries of older releases\<close>

definition nvs_writable :: "'n nvs_api \<Rightarrow> bool" where
  "nvs_writable api \<longleftrightarrow>
     (\<forall>ns n. fst (api_open api ns NVS_READWRITE n) = ESP_OK) \<and>
     (\<forall>ns key it n. fst (api_set api ns key it n) = ESP_OK) \<and>
     (\<forall>ns key kd it n. api_get api ns key kd n = Inr it \<longrightarrow> fst (api_erase_key api ns key n) = ESP_OK)"

lemma nvs_writableD:
  assumes "nvs_writable api"
  shows nvs_writable_open: "fst (api_open api ns NVS_READWRITE n) = ESP_OK"
    and nvs_writable_set: "fst (api_set api ns key it n) = ESP_OK"
    and nvs_writable_erase: "api_get api ns key kd n = Inr it \<Longrightarrow> fst (api_erase_key api ns key n) = ESP_OK"
  using assms by (auto simp: nvs_writable_def)

lemma nvs_store_val_writable:
  assumes "nvs_ok api" "nvs_writable api" "persisted v = Some it"
  shows "api_get api ns key (item_kind it) (snd (nvs_store_val api ns key v n)) = Inr it"
proof -
  have "fst (nvs_store_val api ns key v n) = ESP_OK"
    using nvs_writable_open[OF assms(2), of ns n] nvs_writable_set[OF assms(2), of ns key it]
    by (auto simp: nvs_store_val_persisted[OF assms(3)] Let_def split: prod.splits)
       (metis fst_conv)+
  then show ?thesis using nvs_store_val_get[OF assms(1,3)] by (metis prod.collapse)
qed

lemma nvs_erase_val_writable:
  assumes "nvs_ok api" "nvs_writable api" "api_get api ns key kd' n = Inr it"
  shows "api_get api ns key kd (snd (nvs_erase_val api ns key n)) = Inl ESP_ERR_NVS_NOT_FOUND"
proof -
  obtain n1 where o: "api_open api ns NVS_READWRITE n = (ESP_OK, n1)"
    using nvs_writable_open[OF assms(2), of ns n] by (metis prod.collapse)
  have "api_get api ns key kd' n1 = Inr it"
    using nvs_get_open[OF assms(1), of ns key kd' ns NVS_READWRITE n] o assms(3) by simp
  then obtain n2 where e: "api_erase_key api ns key n1 = (ESP_OK, n2)"
    using nvs_writable_erase[OF assms(2)] by (metis prod.collapse)
  show ?thesis
    using nvs_get_erase[OF assms(1) e] by (simp add: nvs_erase_val_def o e nvs_get_commit[OF assms(1)])
qed

lemma same_value_persisted:
  "same_value v w \<Longrightarrow> type_kind (av_type w) = Some k \<Longrightarrow> persisted v = persisted w"
  by (auto simp: same_value_def persisted_def Let_def)

lemma nvs_get_val_absent:
  assumes "nvs_ok api" "type_kind (av_type v) = Some k" "av_type v \<notin> not_persistable"
    and "fst (api_open api ns NVS_READONLY n) \<in> {ESP_OK, ESP_ERR_NVS_NOT_FOUND}"
    and "\<And>kd. api_get api ns key kd n = Inl ESP_ERR_NVS_NOT_FOUND"
  shows "nvs_get_val api ns key v m n =
    (ESP_ERR_NVS_NOT_FOUND, v, m, snd (api_open api ns NVS_READONLY n))"
proof -
  obtain err n1 where o: "api_open api ns NVS_READONLY n = (err, n1)" by fastforce
  have g: "api_get api ns key kd n1 = Inl ESP_ERR_NVS_NOT_FOUND" for kd
    using nvs_get_open[OF assms(1), of ns key kd ns NVS_READONLY n] o assms(5) by simp
  show ?thesis
    using assms(2-4) o g
    by (cases "av_type v")
       (auto simp: nvs_get_val_def nvs_get_prim_val_def get_num_into_def not_persistable_def)
qed

lemma old_namespace_neq: "old_namespace e \<noteq> kvs_namespace"
  by (simp add: old_namespace_def kvs_namespace_def numeral_eq_Suc)


section \<open>Concrete storage and encoder\<close>

text \<open>A storage that keeps its entries in a map, and base64 as RFC 4648 defines it.\<close>

type_synonym flash = "string \<times> string \<Rightarrow> nvs_item option"

definition map_api :: "flash nvs_api" where
  "map_api =
     \<lparr>api_open = (\<lambda>ns mode n. (ESP_OK, n)),
      api_get = (\<lambda>ns key kd n. case n (ns, key) of
          None \<Rightarrow> Inl ESP_ERR_NVS_NOT_FOUND
        | Some it \<Rightarrow> if item_kind it = kd then Inr it else Inl ESP_ERR_NVS_NOT_FOUND),
      api_set = (\<lambda>ns key it n. (ESP_OK, n((ns, key) \<mapsto> it))),
      api_erase_key = (\<lambda>ns key n.
          (if n (ns, key) = None then ESP_ERR_NVS_NOT_FOUND else ESP_OK, n((ns, key) := None))),
      api_commit = (\<lambda>ns n. n),
      api_sizeof_val = 24,
      api_read_val = (\<lambda>bs v. v)\<rparr>"

lemma map_api_ok: "nvs_ok map_api"
  by (auto simp: nvs_ok_def map_api_def split: option.splits if_splits)

lemma map_api_writable: "nvs_writable map_api"
  by (auto simp: nvs_writable_def map_api_def split: option.splits if_splits)

definition byte_bits :: "u8 \<Rightarrow> bool list" where
  "byte_bits b = map (bit b) [7, 6, 5, 4, 3, 2, 1, 0]"

fun sextets :: "bool list \<Rightarrow> bool list list" where
  "sextets (a # b # c # d # e # f # xs) = [a, b, c, d, e, f] # sextets xs"
| "sextets [] = []"
| "sextets xs = [xs @ replicate (6 - length xs) False]"

primrec bits_val :: "bool list \<Rightarrow> nat" where
  "bits_val [] = 0"
| "bits_val (b # bs) = (if b then 2 ^ length bs else 0) + bits_val bs"

definition b64_char :: "bool list \<Rightarrow> char" where
  "b64_char bs = ''ABCDEFGHIJKLMNOPQRSTUVWXYZabcdefghijklmnopqrstuvwxyz0123456789+/'' ! bits_val bs"

definition base64_encode :: "u8 list \<Rightarrow> string" where
  "base64_encode xs =
     map b64_char (sextets (concat (map byte_bits xs))) @ replicate ((3 - length xs mod 3) mod 3) CHR ''=''"

lemma bits_val_less: "bits_val bs < 2 ^ length bs"
  by (induction bs) auto

lemma bits_val_inj: "length xs = length ys \<Longrightarrow> bits_val xs = bits_val ys \<Longrightarrow> xs = ys"
proof (induction xs ys rule: list_induct2)
  case (Cons x xs y ys)
  then show ?case using bits_val_less[of xs] bits_val_less[of ys] by (auto split: if_splits)
qed simp

lemma b64_char_inj: "length xs = 6 \<Longrightarrow> length ys = 6 \<Longrightarrow> b64_char xs = b64_char ys \<Longrightarrow> xs = ys"
proof -
  assume l: "length xs = 6" "length ys = 6" and eq: "b64_char xs = b64_char ys"
  have "distinct ''ABCDEFGHIJKLMNOPQRSTUVWXYZabcdefghijklmnopqrstuvwxyz0123456789+/''" by simp
  moreover have "bits_val xs < 64" "bits_val ys < 64"
    using bits_val_less[of xs] bits_val_less[of ys] l by simp_all
  ultimately have "bits_val xs = bits_val ys"
    using eq by (simp add: b64_char_def nth_eq_iff_index_eq)
  then show ?thesis using bits_val_inj l by simp
qed

lemma sextets_length: "s \<in> set (sextets xs) \<Longrightarrow> length s = 6"
  by (induction xs rule: sextets.induct) auto

lemma sextets_inj: "length xs = length ys \<Longrightarrow> sextets xs = sextets ys \<Longrightarrow> xs = ys"
  by (induction xs arbitrary: ys rule: sextets.induct)
     (auto simp: Suc_length_conv length_Suc_conv)

lemma byte_bits_inj: "byte_bits x = byte_bits y \<Longrightarrow> x = y"
proof (rule bit_word_eqI)
  fix k assume "byte_bits x = byte_bits y" "k < LENGTH(8)"
  moreover from this(2) have "k \<in> {0, 1, 2, 3, 4, 5, 6, 7}" by auto
  ultimately show "bit x k = bit y k" by (auto simp: byte_bits_def)
qed

lemma concat_byte_bits_inj:
  "length xs = length ys \<Longrightarrow> concat (map byte_bits xs) = concat (map byte_bits ys) \<Longrightarrow> xs = ys"
proof (induction xs ys rule: list_induct2)
  case (Cons x xs y ys)
  have "length (byte_bits x) = length (byte_bits y)" by (simp add: byte_bits_def)
  then have "byte_bits x = byte_bits y" "concat (map byte_bits xs) = concat (map byte_bits ys)"
    using Cons.prems by simp_all
  then show ?case using Cons.IH byte_bits_inj by simp
qed simp

lemma length_concat_byte_bits: "length (concat (map byte_bits xs)) = 8 * length xs"
  by (induction xs) (simp_all add: byte_bits_def)

lemma length_sextets: "length (sextets xs) = (length xs + 5) div 6"
  by (induction xs rule: sextets.induct) auto

lemma map_b64_char_inj:
  "(\<forall>s \<in> set xs \<union> set ys. length s = 6) \<Longrightarrow> map b64_char xs = map b64_char ys \<Longrightarrow> xs = ys"
  using b64_char_inj by (auto intro: map_inj_on simp: inj_on_def)

lemma base64_encode_ok: "b64_ok base64_encode"
  unfolding b64_ok_def
proof (intro conjI allI impI inj_onI)
  fix xs :: "u8 list" assume "length xs = 10"
  then show "length (base64_encode xs) = 16" "drop 14 (base64_encode xs) = ''==''"
    by (simp_all add: base64_encode_def length_concat_byte_bits length_sextets numeral_2_eq_2)
next
  fix xs ys :: "u8 list"
  let ?s = "\<lambda>xs. sextets (concat (map byte_bits xs))"
  assume l: "xs \<in> {xs. length xs = 10}" "ys \<in> {xs. length xs = 10}"
    and "base64_encode xs = base64_encode ys"
  then have "map b64_char (?s xs) = map b64_char (?s ys)" by (simp add: base64_encode_def)
  then have "?s xs = ?s ys" using map_b64_char_inj[of "?s xs" "?s ys"] sextets_length by blast
  then show "xs = ys"
    using l sextets_inj concat_byte_bits_inj by (simp add: length_concat_byte_bits)
qed

subsection \<open>Instances\<close>

text \<open>Writing and reading back the two-byte string of a fixed label, and a 16-bit number.\<close>

definition no_mem_fail :: mem where
  "no_mem_fail = \<lparr>mem_next = 1, mem_fail = (\<lambda>_. False)\<rparr>"

lemma store_map_api:
  "persisted v = Some it \<Longrightarrow> store_val_in_nvs map_api b64 e c a v n =
     (ESP_OK, n((kvs_namespace, get_attribute_key b64 e c a) \<mapsto> it))"
  by (simp add: store_val_in_nvs_def nvs_store_val_persisted map_api_def)

theorem nvs_roundtrip_witness:
  "\<exists>v1 m1 n1. get_val_from_nvs map_api base64_encode 1 0x40 0 (esp_matter_char_str None 0) no_mem_fail
     (snd (store_val_in_nvs map_api base64_encode 1 0x40 0 (esp_matter_char_str (Some [104, 105]) 2)
        Map.empty)) = (ESP_OK, v1, m1, n1) \<and>
     same_value v1 (esp_matter_char_str (Some [104, 105]) 2)"
proof -
  let ?v = "esp_matter_char_str (Some [104, 105]) 2"
  have p: "persisted ?v = Some (Blob_Item [104, 105])" and w: "val_wf ?v"
    by (simp_all add: persisted_def not_persistable_def val_wf_def esp_matter_char_str_def
        arr_attr_val_def)
  have st: "store_val_in_nvs map_api base64_encode 1 0x40 0 ?v Map.empty = (ESP_OK,
      snd (store_val_in_nvs map_api base64_encode 1 0x40 0 ?v Map.empty))"
    by (simp add: store_map_api[OF p])
  have "persisted ?v \<noteq> None" using p by simp
  moreover have "av_type (esp_matter_char_str None 0) = av_type ?v"
      "a_s (v_a (av_val (esp_matter_char_str None 0))) \<le> a_s (v_a (av_val ?v))"
      "\<not> mem_fail no_mem_fail (mem_next no_mem_fail)"
    by (simp_all add: no_mem_fail_def esp_matter_char_str_def arr_attr_val_def)
  ultimately show ?thesis using nvs_roundtrip[OF map_api_ok w _ st] by blast
qed

theorem nvs_independent_witness:
  "api_get map_api kvs_namespace (get_attribute_key base64_encode 1 6 0) NK_U8
     (snd (store_val_in_nvs map_api base64_encode 2 6 0 (esp_matter_bool True) Map.empty)) =
   Inl ESP_ERR_NVS_NOT_FOUND"
proof -
  have "api_get map_api kvs_namespace (get_attribute_key base64_encode 1 6 0) NK_U8 Map.empty =
      Inl ESP_ERR_NVS_NOT_FOUND"
    by (simp add: map_api_def)
  with nvs_independent[OF map_api_ok base64_encode_ok, of 2 6 0 1 6 0 NK_U8 "esp_matter_bool True"
      Map.empty]
  show ?thesis by simp
qed

theorem nvs_unsupported_types_witness:
  "fst (store_val_in_nvs map_api base64_encode 1 6 0x4003 (esp_matter_enum16 2) Map.empty) \<noteq> ESP_OK"
  using nvs_unsupported_types[OF map_api_ok, of "esp_matter_enum16 2" base64_encode 1 6 "0x4003"
      Map.empty]
  by (simp add: esp_matter_enum16_def num_attr_val_def)


end
