(* ===== verification/EM_State.thy ===== *)
theory EM_State
  imports EM_Nvs "HOL-Library.Monad_Syntax"
begin

text \<open>
  The data model store: the structures of \<open>data_model/esp_matter_data_model.cpp\<close> and the lookups
  over them.  A handle is an address or \<open>None\<close> for \<open>NULL\<close>; each kind of structure has a map
  from the addresses of its live objects.  The intrusive lists are kept as lists of addresses,
  which \<open>EM_LinkedList\<close> shows to be what the pointer code implements.

  Operations take the state and return \<open>Some\<close> of a result and the new state.  \<open>None\<close> stands for
  a run that goes wrong: reading through a dangling pointer or past the end of an object, or a
  loop that never ends.  Error codes are ordinary results.

  The callbacks of the application and of connectedhomeip are not part of the repository.  A call
  is recorded in \<open>log\<close>; where the code uses its result, the environment provides it.  They are
  assumed not to call back into the data model.
\<close>

section \<open>Structures\<close>

type_synonym handle = "addr option"

record attr_ext =
  x_val :: val
  x_bounds :: "bounds option"
  x_ep :: u16
  x_cl :: u32
  x_override :: "fnptr option"

text \<open>\<open>_attribute_base_t\<close> is an attribute without the extension \<open>_attribute_t\<close> adds.\<close>

record attribute_t =
  at_flags :: u16
  at_type :: val_type
  at_id :: u32
  at_ext :: "attr_ext option"

record command_t =
  cm_id :: u32
  cm_flags :: u16
  cm_callback :: "fnptr option"
  cm_user_callback :: "fnptr option"

record event_t =
  ev_id :: u32

record cluster_t =
  cl_id :: u32
  cl_ep :: u16
  cl_flags :: u8
  cl_functions :: "fnptr option list option"
  cl_plugin_init :: "fnptr option"
  cl_delegate_init :: "fnptr option"
  cl_delegate :: handle
  cl_add_bounds :: "fnptr option"
  cl_init :: "fnptr option"
  cl_shutdown :: "fnptr option"
  cl_version :: u32
  cl_attributes :: "addr list"
  cl_commands :: "addr list"
  cl_events :: "addr list"

record device_type =
  dt_version :: u8
  dt_id :: u32

datatype composition_pattern = kFullFamily | kTree

record semantic_tag =
  tag_mfg :: "u16 option"
  tag_namespace :: u8
  tag_tag :: u8
  tag_label :: "string option"

record endpoint_t =
  ep_id :: u16
  ep_enabled :: bool
  ep_device_type_count :: u8
  ep_device_types :: "device_type list"
  ep_flags :: u16
  ep_parent :: u16
  ep_priv :: handle
  ep_identify :: handle
  ep_pattern :: composition_pattern
  ep_tag_count :: u8
  ep_tags :: "semantic_tag list"
  ep_clusters :: "addr list"

record node_t =
  nd_addr :: addr
  nd_endpoints :: "addr list"
  nd_min_unused :: u16

section \<open>Effects and state\<close>

datatype callback_type = PRE_UPDATE | POST_UPDATE | READ | WRITE

datatype effect =
    Attribute_Callback fnptr callback_type u16 u32 u32 attr_val handle
  | Attribute_Changed_Function fnptr u16 u32 u32
  | Report_Attribute u16 u32 u32
  | Report_Endpoint u16
  | Delegate_Init_Callback fnptr handle u16
  | Add_Bounds_Callback fnptr addr
  | Plugin_Server_Init_Callback fnptr
  | Init_Callback fnptr u16
  | Init_Function fnptr u16
  | Shutdown_Callback fnptr u16
  | Shutdown_Function fnptr u16
  | Identify_New u16 u8
  | Identify_Delete addr
  | Pre_Attribute_Change u16 u32 u32 "u8 list"
  | Pre_Attribute_Function fnptr u16 u32 u32 "u8 list"
  | Post_Attribute_Change u16 u32 u32 "u8 list"
  | Mark_Dirty u16 u32 u32
  | Command_User_Callback fnptr u16 u32 u32
  | Command_Callback fnptr u16 u32 u32
  | Command_Status u16 u32 u32 bool

record 'n dm =
  node :: "node_t option"
  eps :: "addr \<Rightarrow> endpoint_t option"
  cls :: "addr \<Rightarrow> cluster_t option"
  ats :: "addr \<Rightarrow> attribute_t option"
  cms :: "addr \<Rightarrow> command_t option"
  evs :: "addr \<Rightarrow> event_t option"
  mem :: mem
  nvs :: 'n
  started :: bool
  attribute_callback :: "fnptr option"
  identification_callback :: "fnptr option"
  timers :: "addr list"
  log :: "effect list"

text \<open>
  The environment.  An attribute callback sees the calls made so far and may change the value it
  is given; \<open>e_bounds\<close> is what the bounds callback of a cluster decides for one attribute;
  \<open>e_junk\<close> is the content of a value the code leaves uninitialised; \<open>e_max_endpoints\<close> and
  \<open>e_max_device_types\<close> are the limits of the build configuration.
\<close>

record 'n env =
  e_nvs :: "'n nvs_api"
  e_b64 :: "u8 list \<Rightarrow> string"
  e_traits :: traits
  e_attribute_cb :: "effect list \<Rightarrow> fnptr \<Rightarrow> callback_type \<Rightarrow> u16 \<Rightarrow> u32 \<Rightarrow> u32 \<Rightarrow> attr_val \<Rightarrow> handle \<Rightarrow>
                     esp_err \<times> attr_val"
  e_bounds :: "fnptr \<Rightarrow> 'n dm \<Rightarrow> addr \<Rightarrow> u32 \<Rightarrow> (attr_val \<times> attr_val) option"
  e_random :: "nat \<Rightarrow> u32"
  e_junk :: val
  e_max_endpoints :: nat
  e_max_device_types :: nat

definition emit :: "effect \<Rightarrow> 'n dm \<Rightarrow> 'n dm" where
  "emit x s = s\<lparr>log := log s @ [x]\<rparr>"

lemma emit_simps [simp]:
  "node (emit x s) = node s" "eps (emit x s) = eps s" "cls (emit x s) = cls s"
  "ats (emit x s) = ats s" "cms (emit x s) = cms s" "evs (emit x s) = evs s"
  "mem (emit x s) = mem s" "nvs (emit x s) = nvs s" "started (emit x s) = started s"
  "attribute_callback (emit x s) = attribute_callback s"
  "identification_callback (emit x s) = identification_callback s"
  "timers (emit x s) = timers s" "log (emit x s) = log s @ [x]"
  by (simp_all add: emit_def)

definition alloc :: "'n dm \<Rightarrow> addr option \<times> 'n dm" where
  "alloc s = (let (a, m) = mem_calloc (mem s) in (a, s\<lparr>mem := m\<rparr>))"

section \<open>Flags\<close>

definition "ENDPOINT_FLAG_DESTROYABLE = (0x01 :: u16)"
definition "CLUSTER_FLAG_INIT_FUNCTION = (0x01 :: u8)"
definition "CLUSTER_FLAG_ATTRIBUTE_CHANGED_FUNCTION = (0x02 :: u8)"
definition "CLUSTER_FLAG_SHUTDOWN_FUNCTION = (0x10 :: u8)"
definition "CLUSTER_FLAG_PRE_ATTRIBUTE_CHANGED_FUNCTION = (0x20 :: u8)"
definition "CLUSTER_FLAG_SERVER = (0x40 :: u8)"
definition "CLUSTER_FLAG_CLIENT = (0x80 :: u8)"
definition "ATTRIBUTE_FLAG_WRITABLE = (0x01 :: u16)"
definition "ATTRIBUTE_FLAG_NONVOLATILE = (0x02 :: u16)"
definition "ATTRIBUTE_FLAG_MIN_MAX = (0x04 :: u16)"
definition "ATTRIBUTE_FLAG_MUST_USE_TIMED_WRITE = (0x08 :: u16)"
definition "ATTRIBUTE_FLAG_NULLABLE = (0x40 :: u16)"
definition "ATTRIBUTE_FLAG_OVERRIDE = (0x80 :: u16)"
definition "ATTRIBUTE_FLAG_DEFERRED = (0x100 :: u16)"
definition "ATTRIBUTE_FLAG_MANAGED_INTERNALLY = (0x200 :: u16)"
definition "COMMAND_FLAG_CUSTOM = (0x01 :: u16)"
definition "COMMAND_FLAG_ACCEPTED = (0x02 :: u16)"
definition "COMMAND_FLAG_GENERATED = (0x04 :: u16)"

lemmas flag_defs =
  ENDPOINT_FLAG_DESTROYABLE_def CLUSTER_FLAG_INIT_FUNCTION_def
  CLUSTER_FLAG_ATTRIBUTE_CHANGED_FUNCTION_def CLUSTER_FLAG_SHUTDOWN_FUNCTION_def
  CLUSTER_FLAG_PRE_ATTRIBUTE_CHANGED_FUNCTION_def CLUSTER_FLAG_SERVER_def CLUSTER_FLAG_CLIENT_def ATTRIBUTE_FLAG_WRITABLE_def
  ATTRIBUTE_FLAG_NONVOLATILE_def ATTRIBUTE_FLAG_MIN_MAX_def ATTRIBUTE_FLAG_MUST_USE_TIMED_WRITE_def
  ATTRIBUTE_FLAG_NULLABLE_def ATTRIBUTE_FLAG_OVERRIDE_def ATTRIBUTE_FLAG_DEFERRED_def
  ATTRIBUTE_FLAG_MANAGED_INTERNALLY_def COMMAND_FLAG_CUSTOM_def COMMAND_FLAG_ACCEPTED_def COMMAND_FLAG_GENERATED_def

definition kInvalidEndpointId :: u16 where "kInvalidEndpointId = 0xFFFF"
definition kInvalidClusterId :: u32 where "kInvalidClusterId = 0xFFFFFFFF"
definition kInvalidAttributeId :: u32 where "kInvalidAttributeId = 0xFFFFFFFF"
definition kInvalidCommandId :: u32 where "kInvalidCommandId = 0xFFFFFFFF"
definition kInvalidEventId :: u32 where "kInvalidEventId = 0xFFFFFFFF"

section \<open>Lookups\<close>

text \<open>A walk along a list for the first object that satisfies a test; reading an object that is
  not there goes wrong.\<close>

primrec find_m :: "(addr \<Rightarrow> bool option) \<Rightarrow> addr list \<Rightarrow> addr option option" where
  "find_m p [] = Some None"
| "find_m p (x # xs) = do { b \<leftarrow> p x; if b then Some (Some x) else find_m p xs }"

lemma find_m_find: "(\<And>x. x \<in> set xs \<Longrightarrow> p x = Some (q x)) \<Longrightarrow> find_m p xs = Some (find q xs)"
  by (induction xs) auto

definition node_get :: "'n dm \<Rightarrow> handle" where
  "node_get s = map_option nd_addr (node s)"

definition node_at :: "'n dm \<Rightarrow> addr \<Rightarrow> node_t option" where
  "node_at s a = do { nd \<leftarrow> node s; if nd_addr nd = a then Some nd else None }"

definition endpoint_get :: "'n dm \<Rightarrow> handle \<Rightarrow> u16 \<Rightarrow> handle option" where
  "endpoint_get s nh endpoint_id =
     (case nh of
        None \<Rightarrow> Some None
      | Some n \<Rightarrow> do {
          nd \<leftarrow> node_at s n;
          find_m (\<lambda>a. do { e \<leftarrow> eps s a; Some (ep_id e = endpoint_id) }) (nd_endpoints nd) })"

definition endpoint_get_by_id :: "'n dm \<Rightarrow> u16 \<Rightarrow> handle option" where
  "endpoint_get_by_id s endpoint_id = endpoint_get s (node_get s) endpoint_id"

definition cluster_get :: "'n dm \<Rightarrow> handle \<Rightarrow> u32 \<Rightarrow> handle option" where
  "cluster_get s eh cluster_id =
     (case eh of
        None \<Rightarrow> Some None
      | Some a \<Rightarrow> do {
          e \<leftarrow> eps s a;
          find_m (\<lambda>c. do { cl \<leftarrow> cls s c; Some (cl_id cl = cluster_id) }) (ep_clusters e) })"

definition cluster_get_by_id :: "'n dm \<Rightarrow> u16 \<Rightarrow> u32 \<Rightarrow> handle option" where
  "cluster_get_by_id s endpoint_id cluster_id =
     do { eh \<leftarrow> endpoint_get_by_id s endpoint_id; cluster_get s eh cluster_id }"

definition attribute_get :: "'n dm \<Rightarrow> handle \<Rightarrow> u32 \<Rightarrow> handle option" where
  "attribute_get s ch attribute_id =
     (case ch of
        None \<Rightarrow> Some None
      | Some c \<Rightarrow> do {
          cl \<leftarrow> cls s c;
          find_m (\<lambda>a. do { at \<leftarrow> ats s a; Some (at_id at = attribute_id) }) (cl_attributes cl) })"

definition attribute_get_by_path :: "'n dm \<Rightarrow> u16 \<Rightarrow> u32 \<Rightarrow> u32 \<Rightarrow> handle option" where
  "attribute_get_by_path s endpoint_id cluster_id attribute_id = do {
     ch \<leftarrow> cluster_get_by_id s endpoint_id cluster_id;
     if ch = None then Some None else attribute_get s ch attribute_id }"

definition command_get :: "'n dm \<Rightarrow> handle \<Rightarrow> u32 \<Rightarrow> u16 \<Rightarrow> handle option" where
  "command_get s ch command_id flags =
     (case ch of
        None \<Rightarrow> Some None
      | Some c \<Rightarrow> do {
          cl \<leftarrow> cls s c;
          find_m (\<lambda>a. do { cm \<leftarrow> cms s a; Some (cm_id cm = command_id \<and> has_flag (cm_flags cm) flags) })
            (cl_commands cl) })"

definition command_get_by_path :: "'n dm \<Rightarrow> u16 \<Rightarrow> u32 \<Rightarrow> u32 \<Rightarrow> handle option" where
  "command_get_by_path s endpoint_id cluster_id command_id = do {
     ch \<leftarrow> cluster_get_by_id s endpoint_id cluster_id;
     (case ch of
        None \<Rightarrow> Some None
      | Some c \<Rightarrow> do {
          cl \<leftarrow> cls s c;
          find_m (\<lambda>a. do { cm \<leftarrow> cms s a; Some (cm_id cm = command_id) }) (cl_commands cl) }) }"

definition event_get :: "'n dm \<Rightarrow> handle \<Rightarrow> u32 \<Rightarrow> handle option" where
  "event_get s ch event_id =
     (case ch of
        None \<Rightarrow> Some None
      | Some c \<Rightarrow> do {
          cl \<leftarrow> cls s c;
          find_m (\<lambda>a. do { ev \<leftarrow> evs s a; Some (ev_id ev = event_id) }) (cl_events cl) })"

definition is_attribute_enabled :: "'n dm \<Rightarrow> u16 \<Rightarrow> u32 \<Rightarrow> u32 \<Rightarrow> bool option" where
  "is_attribute_enabled s endpoint_id cluster_id attribute_id =
     do { attr \<leftarrow> attribute_get_by_path s endpoint_id cluster_id attribute_id; Some (attr \<noteq> None) }"

definition is_command_enabled :: "'n dm \<Rightarrow> u16 \<Rightarrow> u32 \<Rightarrow> u32 \<Rightarrow> bool option" where
  "is_command_enabled s endpoint_id cluster_id command_id =
     do { cmd \<leftarrow> command_get_by_path s endpoint_id cluster_id command_id; Some (cmd \<noteq> None) }"

end
