(* ===== verification/EM_Tree.thy ===== *)
theory EM_Tree
  imports EM_State
begin

text \<open>
  The shape of the store.  Endpoints belong to the node, clusters to endpoints, and attributes,
  commands and events to clusters.  One predicate, \<open>owns\<close>, says this for a single layer: the
  children of a parent are live and distinct, no child has two parents, no live child is without a
  parent, each child agrees with its parent, and siblings can be told apart.  The invariant \<open>dm_inv\<close>
  of the data model is its conjunction over the five layers.
\<close>

section \<open>One layer\<close>

definition owns ::
    "('p \<Rightarrow> 'c \<Rightarrow> bool) \<Rightarrow> ('c \<Rightarrow> 'c \<Rightarrow> bool) \<Rightarrow> ('p \<Rightarrow> addr list) \<Rightarrow> ('k \<Rightarrow> 'p option) \<Rightarrow>
     (addr \<Rightarrow> 'c option) \<Rightarrow> bool" where
  "owns rel sep kids ps cs \<longleftrightarrow>
     (\<forall>k p. ps k = Some p \<longrightarrow> distinct (kids p) \<and> set (kids p) \<subseteq> dom cs) \<and>
     (\<forall>k p k' p' x. ps k = Some p \<longrightarrow> ps k' = Some p' \<longrightarrow> x \<in> set (kids p) \<longrightarrow> x \<in> set (kids p') \<longrightarrow>
        k = k') \<and>
     (\<forall>x. cs x \<noteq> None \<longrightarrow> (\<exists>k p. ps k = Some p \<and> x \<in> set (kids p))) \<and>
     (\<forall>k p x c. ps k = Some p \<longrightarrow> x \<in> set (kids p) \<longrightarrow> cs x = Some c \<longrightarrow> rel p c) \<and>
     (\<forall>k p x y c d. ps k = Some p \<longrightarrow> x \<in> set (kids p) \<longrightarrow> y \<in> set (kids p) \<longrightarrow> x \<noteq> y \<longrightarrow>
        cs x = Some c \<longrightarrow> cs y = Some d \<longrightarrow> sep c d)"

lemma ownsD:
  assumes "owns rel sep kids ps cs" "ps k = Some p"
  shows owns_distinct: "distinct (kids p)"
    and owns_live: "x \<in> set (kids p) \<Longrightarrow> \<exists>c. cs x = Some c"
    and owns_one_parent: "ps k' = Some p' \<Longrightarrow> x \<in> set (kids p) \<Longrightarrow> x \<in> set (kids p') \<Longrightarrow> k = k'"
    and owns_rel: "x \<in> set (kids p) \<Longrightarrow> cs x = Some c \<Longrightarrow> rel p c"
    and owns_sep: "x \<in> set (kids p) \<Longrightarrow> y \<in> set (kids p) \<Longrightarrow> x \<noteq> y \<Longrightarrow> cs x = Some c \<Longrightarrow>
      cs y = Some d \<Longrightarrow> sep c d"
proof -
  note own = assms(1)[unfolded owns_def]
  show "distinct (kids p)" using own assms(2) by simp
  show "x \<in> set (kids p) \<Longrightarrow> \<exists>c. cs x = Some c" using own assms(2) by blast
  show "ps k' = Some p' \<Longrightarrow> x \<in> set (kids p) \<Longrightarrow> x \<in> set (kids p') \<Longrightarrow> k = k'"
    using own assms(2) by (elim conjE) metis
  show "x \<in> set (kids p) \<Longrightarrow> cs x = Some c \<Longrightarrow> rel p c" using own assms(2) by (elim conjE) metis
  show "x \<in> set (kids p) \<Longrightarrow> y \<in> set (kids p) \<Longrightarrow> x \<noteq> y \<Longrightarrow> cs x = Some c \<Longrightarrow> cs y = Some d \<Longrightarrow> sep c d"
    using own assms(2) by (elim conjE) metis
qed

lemma owns_parent:
  assumes "owns rel sep kids ps cs" "cs x = Some c"
  obtains k p where "ps k = Some p" "x \<in> set (kids p)"
proof -
  have "\<exists>k p. ps k = Some p \<and> x \<in> set (kids p)" using assms unfolding owns_def by simp
  then show thesis using that by blast
qed

lemma ownsI:
  assumes "\<And>k p. ps k = Some p \<Longrightarrow> distinct (kids p)"
    and "\<And>k p x. ps k = Some p \<Longrightarrow> x \<in> set (kids p) \<Longrightarrow> cs x \<noteq> None"
    and "\<And>k p k' p' x. ps k = Some p \<Longrightarrow> ps k' = Some p' \<Longrightarrow> x \<in> set (kids p) \<Longrightarrow> x \<in> set (kids p') \<Longrightarrow>
      k = k'"
    and "\<And>x. cs x \<noteq> None \<Longrightarrow> \<exists>k p. ps k = Some p \<and> x \<in> set (kids p)"
    and "\<And>k p x c. ps k = Some p \<Longrightarrow> x \<in> set (kids p) \<Longrightarrow> cs x = Some c \<Longrightarrow> rel p c"
    and "\<And>k p x y c d. ps k = Some p \<Longrightarrow> x \<in> set (kids p) \<Longrightarrow> y \<in> set (kids p) \<Longrightarrow> x \<noteq> y \<Longrightarrow>
      cs x = Some c \<Longrightarrow> cs y = Some d \<Longrightarrow> sep c d"
  shows "owns rel sep kids ps cs"
  unfolding owns_def
proof (intro conjI allI impI)
  show "set (kids p) \<subseteq> dom cs" if "ps k = Some p" for k p using assms(2)[OF that] by auto
qed (use assms in auto)

lemma owns_add_child:
  assumes own: "owns rel sep kids ps cs" and k: "ps k = Some p" and x: "cs x = None"
    and p': "kids p' = kids p @ [x]" and rel: "rel p' c" "\<And>d. rel p d \<Longrightarrow> rel p' d"
    and sep: "\<And>y d. y \<in> set (kids p) \<Longrightarrow> cs y = Some d \<Longrightarrow> sep c d \<and> sep d c"
  shows "owns rel sep kids (ps(k \<mapsto> p')) (cs(x \<mapsto> c))"
proof -
  have notin: "x \<notin> set (kids q)" if "ps j = Some q" for j q
    using owns_live[OF own that, of x] x by auto
  show ?thesis
  proof (rule ownsI)
    fix j q assume "(ps(k \<mapsto> p')) j = Some q"
    then show "distinct (kids q)"
      using owns_distinct[OF own] k p' notin[OF k] by (auto split: if_splits)
  next
    fix j q y assume "(ps(k \<mapsto> p')) j = Some q" "y \<in> set (kids q)"
    then show "(cs(x \<mapsto> c)) y \<noteq> None"
      using owns_live[OF own] k p' by (auto split: if_splits)
  next
    fix j q j' q' y
    assume "(ps(k \<mapsto> p')) j = Some q" "(ps(k \<mapsto> p')) j' = Some q'" "y \<in> set (kids q)" "y \<in> set (kids q')"
    then show "j = j'"
      using owns_one_parent[OF own] k p' notin by (auto split: if_splits)
  next
    fix y assume "(cs(x \<mapsto> c)) y \<noteq> None"
    then show "\<exists>j q. (ps(k \<mapsto> p')) j = Some q \<and> y \<in> set (kids q)"
    proof (cases "y = x")
      case True then show ?thesis using p' by auto
    next
      case False
      with \<open>(cs(x \<mapsto> c)) y \<noteq> None\<close> obtain j q where "ps j = Some q" "y \<in> set (kids q)"
        using owns_parent[OF own] by (metis fun_upd_other not_None_eq)
      then show ?thesis using k p' by (cases "j = k") auto
    qed
  next
    fix j q y d assume "(ps(k \<mapsto> p')) j = Some q" "y \<in> set (kids q)" "(cs(x \<mapsto> c)) y = Some d"
    then show "rel q d"
      using owns_rel[OF own] k p' rel notin by (auto split: if_splits)
  next
    fix j q y z d e
    assume "(ps(k \<mapsto> p')) j = Some q" "y \<in> set (kids q)" "z \<in> set (kids q)" "y \<noteq> z"
      "(cs(x \<mapsto> c)) y = Some d" "(cs(x \<mapsto> c)) z = Some e"
    then show "sep d e"
      using owns_sep[OF own] k p' sep notin by (auto split: if_splits)
  qed
qed

text \<open>The other updates are instances of replacing one parent by another with fewer children.\<close>

lemma owns_shrink:
  assumes own: "owns rel sep kids ps cs"
    and old: "\<And>j q. ps' j = Some q \<Longrightarrow> \<exists>r. ps j = Some r \<and> set (kids q) \<subseteq> set (kids r) \<and>
      distinct (kids q) \<and> (\<forall>d. rel r d \<longrightarrow> rel q d)"
    and keep: "\<And>j q y. ps j = Some q \<Longrightarrow> y \<in> set (kids q) \<Longrightarrow> cs' y \<noteq> None \<Longrightarrow>
      \<exists>r. ps' j = Some r \<and> y \<in> set (kids r)"
    and cs': "\<And>y. cs' y = None \<or> cs' y = cs y"
    and live: "\<And>j q y. ps' j = Some q \<Longrightarrow> y \<in> set (kids q) \<Longrightarrow> cs' y \<noteq> None"
  shows "owns rel sep kids ps' cs'"
proof (rule ownsI)
  fix j q assume q: "ps' j = Some q"
  then obtain r where r: "ps j = Some r" "set (kids q) \<subseteq> set (kids r)" "distinct (kids q)"
      "\<And>d. rel r d \<Longrightarrow> rel q d"
    using old by blast
  show "distinct (kids q)" by (fact r(3))
  show "cs' y \<noteq> None" if "y \<in> set (kids q)" for y using live[OF q that] .
  show "rel q d" if "y \<in> set (kids q)" "cs' y = Some d" for y d
    using that cs'[of y] owns_rel[OF own r(1), of y d] r(2,4) by auto
  show "sep d e" if "y \<in> set (kids q)" "z \<in> set (kids q)" "y \<noteq> z" "cs' y = Some d" "cs' z = Some e"
    for y z d e
    using that cs'[of y] cs'[of z] owns_sep[OF own r(1), of y z d e] r(2) by auto
  show "j = j'" if a: "ps' j' = Some q'" "y \<in> set (kids q)" "y \<in> set (kids q')" for j' q' y
  proof -
    obtain r' where "ps j' = Some r'" "set (kids q') \<subseteq> set (kids r')" using old[OF a(1)] by blast
    then show ?thesis using owns_one_parent[OF own r(1), of j' r' y] a r(2) by blast
  qed
next
  fix y assume y: "cs' y \<noteq> None"
  then have "cs y \<noteq> None" using cs'[of y] by auto
  then obtain j q where "ps j = Some q" "y \<in> set (kids q)"
    using owns_parent[OF own] by (metis not_None_eq)
  then show "\<exists>j q. ps' j = Some q \<and> y \<in> set (kids q)" using keep y by blast
qed

lemma owns_drop_children:
  assumes own: "owns rel sep kids ps cs" and k: "ps k = Some p"
    and p': "distinct (kids p')" "set (kids p') \<subseteq> set (kids p)" and rel: "\<And>d. rel p d \<Longrightarrow> rel p' d"
    and cs': "\<And>x. cs' x = (if x \<in> set (kids p) - set (kids p') then None else cs x)"
  shows "owns rel sep kids (ps(k \<mapsto> p')) cs'"
proof (rule owns_shrink[OF own])
  fix j q assume q: "(ps(k \<mapsto> p')) j = Some q"
  show "\<exists>r. ps j = Some r \<and> set (kids q) \<subseteq> set (kids r) \<and> distinct (kids q) \<and> (\<forall>d. rel r d \<longrightarrow> rel q d)"
  proof (cases "j = k")
    case True then show ?thesis using q k p' rel by simp
  next
    case False then show ?thesis using q owns_distinct[OF own] by auto
  qed
  show "cs' y \<noteq> None" if y: "y \<in> set (kids q)" for y
  proof (cases "j = k")
    case True then show ?thesis using q y owns_live[OF own k, of y] p'(2) cs' by auto
  next
    case False
    then have "ps j = Some q" using q by simp
    then show ?thesis
      using owns_live[OF own, of j q y] owns_one_parent[OF own k, of j q y] y False cs' by auto
  qed
next
  fix j q y assume q: "ps j = Some q" "y \<in> set (kids q)" "cs' y \<noteq> None"
  show "\<exists>r. (ps(k \<mapsto> p')) j = Some r \<and> y \<in> set (kids r)"
  proof (cases "j = k")
    case True then show ?thesis using q k cs'[of y] by (simp split: if_splits)
  qed (use q in simp)
qed (simp add: cs')

lemma owns_update_parent:
  assumes "owns rel sep kids ps cs" "ps k = Some p" "kids p' = kids p" "\<And>d. rel p d \<Longrightarrow> rel p' d"
  shows "owns rel sep kids (ps(k \<mapsto> p')) cs"
  using assms owns_distinct[OF assms(1,2)] by (intro owns_drop_children[OF assms(1,2)]) auto

lemma owns_remove_child:
  assumes "owns rel sep kids ps cs" "ps k = Some p" "x \<in> set (kids p)"
    and "kids p' = remove1 x (kids p)" "\<And>d. rel p d \<Longrightarrow> rel p' d"
  shows "owns rel sep kids (ps(k \<mapsto> p')) (cs(x := None))"
  using assms owns_distinct[OF assms(1,2)]
  by (intro owns_drop_children[OF assms(1,2)]) (auto simp: set_remove1_distinct)

lemma owns_remove_parent:
  assumes own: "owns rel sep kids ps cs" and k: "ps k = Some p" and p: "kids p = []"
  shows "owns rel sep kids (ps(k := None)) cs"
proof (rule owns_shrink[OF own])
  show "\<exists>r. ps j = Some r \<and> set (kids q) \<subseteq> set (kids r) \<and> distinct (kids q) \<and> (\<forall>d. rel r d \<longrightarrow> rel q d)"
    if "(ps(k := None)) j = Some q" for j q
    using that owns_distinct[OF own] by (auto split: if_splits)
  show "\<exists>r. (ps(k := None)) j = Some r \<and> y \<in> set (kids r)"
    if "ps j = Some q" "y \<in> set (kids q)" for j q y
    using that k p by (cases "j = k") auto
  show "cs y \<noteq> None" if "(ps(k := None)) j = Some q" "y \<in> set (kids q)" for j q y
    using that owns_live[OF own, of j q y] by (auto split: if_splits)
qed simp

lemma owns_add_parent:
  assumes own: "owns rel sep kids ps cs" and k: "ps k = None" and p: "kids p = []"
  shows "owns rel sep kids (ps(k \<mapsto> p)) cs"
proof (rule ownsI)
  fix j q assume q: "(ps(k \<mapsto> p)) j = Some q"
  show "distinct (kids q)" using q p owns_distinct[OF own, of j q] by (auto split: if_splits)
  fix y assume y: "y \<in> set (kids q)"
  with q p have j: "j \<noteq> k" "ps j = Some q" by (auto split: if_splits)
  show "cs y \<noteq> None" using owns_live[OF own j(2) y] by auto
  show "rel q c" if "cs y = Some c" for c using owns_rel[OF own j(2) y that] .
  show "sep c d" if "z \<in> set (kids q)" "y \<noteq> z" "cs y = Some c" "cs z = Some d" for z c d
    using owns_sep[OF own j(2) y that] .
  show "j = j'" if "(ps(k \<mapsto> p)) j' = Some q'" "y \<in> set (kids q')" for j' q'
    using that p owns_one_parent[OF own j(2) _ y, of j' q'] by (auto split: if_splits)
next
  fix y assume "cs y \<noteq> None"
  then obtain j q where "ps j = Some q" "y \<in> set (kids q)"
    using owns_parent[OF own] by (metis not_None_eq)
  then show "\<exists>j q. (ps(k \<mapsto> p)) j = Some q \<and> y \<in> set (kids q)"
    using k by (metis fun_upd_other option.distinct(1))
qed

lemma owns_update_child:
  assumes own: "owns rel sep kids ps cs" and x: "cs x = Some c"
    and rel: "\<And>p. rel p c \<Longrightarrow> rel p c'" and sep: "\<And>d. sep c d \<Longrightarrow> sep c' d" "\<And>d. sep d c \<Longrightarrow> sep d c'"
  shows "owns rel sep kids ps (cs(x \<mapsto> c'))"
proof (rule ownsI)
  fix j q assume q: "ps j = Some q"
  show "distinct (kids q)" using owns_distinct[OF own q] .
  fix y assume y: "y \<in> set (kids q)"
  show "(cs(x \<mapsto> c')) y \<noteq> None" using owns_live[OF own q y] by auto
  show "rel q d" if "(cs(x \<mapsto> c')) y = Some d" for d
    using that owns_rel[OF own q y] x rel by (cases "y = x") auto
  show "sep d e" if "z \<in> set (kids q)" "y \<noteq> z" "(cs(x \<mapsto> c')) y = Some d" "(cs(x \<mapsto> c')) z = Some e"
    for z d e
    using that owns_sep[OF own q y that(1,2)] x sep by (cases "y = x"; cases "z = x") auto
  show "j = j'" if "ps j' = Some q'" "y \<in> set (kids q')" for j' q'
    using owns_one_parent[OF own q that(1) y that(2)] .
next
  fix y assume "(cs(x \<mapsto> c')) y \<noteq> None"
  then show "\<exists>j q. ps j = Some q \<and> y \<in> set (kids q)"
    using x owns_parent[OF own] by (metis fun_upd_other not_None_eq)
qed

section \<open>The invariant\<close>

definition ep_layer :: "'n dm \<Rightarrow> bool" where
  "ep_layer s \<longleftrightarrow>
     owns (\<lambda>_ _. True) (\<lambda>e f. ep_id e \<noteq> ep_id f) nd_endpoints (\<lambda>_ :: unit. node s) (eps s)"

definition cl_layer :: "'n dm \<Rightarrow> bool" where
  "cl_layer s \<longleftrightarrow>
     owns (\<lambda>e c. cl_ep c = ep_id e) (\<lambda>c d. cl_id c \<noteq> cl_id d) ep_clusters (eps s) (cls s)"

text \<open>An attribute has the extended part unless connectedhomeip manages it, and the path kept in
  that part is the one of the cluster it belongs to.\<close>

definition at_ok :: "cluster_t \<Rightarrow> attribute_t \<Rightarrow> bool" where
  "at_ok cl at \<longleftrightarrow>
     (at_ext at = None \<longleftrightarrow> has_flag (at_flags at) ATTRIBUTE_FLAG_MANAGED_INTERNALLY) \<and>
     (\<forall>x. at_ext at = Some x \<longrightarrow> x_ep x = cl_ep cl \<and> x_cl x = cl_id cl)"

definition at_layer :: "'n dm \<Rightarrow> bool" where
  "at_layer s \<longleftrightarrow> owns at_ok (\<lambda>a b. at_id a \<noteq> at_id b) cl_attributes (cls s) (ats s)"

definition cm_sep :: "command_t \<Rightarrow> command_t \<Rightarrow> bool" where
  "cm_sep c d \<longleftrightarrow> cm_id c = cm_id d \<longrightarrow> \<not> has_flag (cm_flags c) (cm_flags d)"

definition cm_layer :: "'n dm \<Rightarrow> bool" where
  "cm_layer s \<longleftrightarrow> owns (\<lambda>_ _. True) cm_sep cl_commands (cls s) (cms s)"

definition ev_layer :: "'n dm \<Rightarrow> bool" where
  "ev_layer s \<longleftrightarrow> owns (\<lambda>_ _. True) (\<lambda>e f. ev_id e \<noteq> ev_id f) cl_events (cls s) (evs s)"

definition fresh_above :: "'n dm \<Rightarrow> bool" where
  "fresh_above s \<longleftrightarrow>
     (\<forall>a \<ge> mem_next (mem s). eps s a = None \<and> cls s a = None \<and> ats s a = None \<and> cms s a = None \<and>
        evs s a = None) \<and>
     (\<forall>nd. node s = Some nd \<longrightarrow> nd_addr nd < mem_next (mem s))"

definition dm_inv :: "'n dm \<Rightarrow> bool" where
  "dm_inv s \<longleftrightarrow> ep_layer s \<and> cl_layer s \<and> at_layer s \<and> cm_layer s \<and> ev_layer s \<and> fresh_above s"

text \<open>Endpoint ids are handed out in order, so all of them are below the counter.\<close>

definition ids_below :: "'n dm \<Rightarrow> bool" where
  "ids_below s \<longleftrightarrow>
     (\<forall>nd a e. node s = Some nd \<longrightarrow> eps s a = Some e \<longrightarrow> ep_id e < nd_min_unused nd)"

lemmas layer_defs = ep_layer_def cl_layer_def at_layer_def cm_layer_def ev_layer_def

lemma invD:
  assumes "dm_inv s"
  shows inv_ep: "ep_layer s" and inv_cl: "cl_layer s" and inv_at: "at_layer s"
    and inv_cm: "cm_layer s" and inv_ev: "ev_layer s" and inv_fresh: "fresh_above s"
  using assms by (simp_all add: dm_inv_def)

text \<open>The invariant only looks at the structures and at the next address.\<close>

lemma inv_cong:
  assumes "dm_inv s" "node t = node s" "eps t = eps s" "cls t = cls s" "ats t = ats s" "cms t = cms s"
    "evs t = evs s" "mem_next (mem s) \<le> mem_next (mem t)"
  shows "dm_inv t"
  using assms unfolding dm_inv_def layer_defs fresh_above_def by (auto intro: less_le_trans)

lemma inv_emit [simp]: "dm_inv (emit x s) \<longleftrightarrow> dm_inv s"
  by (auto intro: inv_cong[of _ "emit x s"] inv_cong[of "emit x s" s])

lemma ids_below_emit [simp]: "ids_below (emit x s) \<longleftrightarrow> ids_below s"
  by (simp add: ids_below_def)

section \<open>Lookups are exact\<close>

lemma find_m_exact:
  assumes "\<And>x. x \<in> set xs \<Longrightarrow> \<exists>c. cs x = Some c"
    and "\<And>x y c d. x \<in> set xs \<Longrightarrow> y \<in> set xs \<Longrightarrow> cs x = Some c \<Longrightarrow> cs y = Some d \<Longrightarrow> P c \<Longrightarrow> P d \<Longrightarrow> x = y"
  shows "\<exists>h. find_m (\<lambda>a. do { c \<leftarrow> cs a; Some (P c) }) xs = Some h \<and>
    (\<forall>a. h = Some a \<longleftrightarrow> a \<in> set xs \<and> (\<exists>c. cs a = Some c \<and> P c))"
proof -
  let ?q = "\<lambda>x. P (the (cs x))"
  have "find_m (\<lambda>a. do { c \<leftarrow> cs a; Some (P c) }) xs = Some (find ?q xs)"
    using assms(1) by (intro find_m_find) fastforce
  moreover have "find ?q xs = Some a \<longleftrightarrow> a \<in> set xs \<and> (\<exists>c. cs a = Some c \<and> P c)" for a
  proof
    assume "find ?q xs = Some a"
    then have "a \<in> set xs" "?q a" by (auto dest: find_SomeD)
    then show "a \<in> set xs \<and> (\<exists>c. cs a = Some c \<and> P c)" using assms(1) by fastforce
  next
    assume a: "a \<in> set xs \<and> (\<exists>c. cs a = Some c \<and> P c)"
    then obtain b where b: "find ?q xs = Some b"
      by (cases "find ?q xs") (auto simp: find_None_iff)
    then have "b \<in> set xs" "?q b" by (auto dest: find_SomeD)
    then show "find ?q xs = Some a" using b a assms by fastforce
  qed
  ultimately show ?thesis by blast
qed

lemma endpoint_get_by_id_exact:
  assumes "dm_inv s"
  shows "\<exists>h. endpoint_get_by_id s i = Some h \<and>
    (\<forall>a. h = Some a \<longleftrightarrow> (\<exists>e. eps s a = Some e \<and> ep_id e = i))"
proof (cases "node s")
  case None
  then have "eps s a = None" for a
    using owns_parent[OF inv_ep[OF assms, unfolded ep_layer_def], of a] by fastforce
  then show ?thesis using None by (simp add: endpoint_get_by_id_def node_get_def endpoint_get_def)
next
  case (Some nd)
  note own = inv_ep[OF assms, unfolded ep_layer_def]
  have all: "a \<in> set (nd_endpoints nd)" if "eps s a = Some e" for a e
    using owns_parent[OF own that] Some by fastforce
  have "\<exists>h. find_m (\<lambda>a. do { e \<leftarrow> eps s a; Some (ep_id e = i) }) (nd_endpoints nd) = Some h \<and>
    (\<forall>a. h = Some a \<longleftrightarrow> a \<in> set (nd_endpoints nd) \<and> (\<exists>e. eps s a = Some e \<and> ep_id e = i))"
    by (rule find_m_exact) (use owns_live[OF own] owns_sep[OF own] Some in blast)+
  then show ?thesis
    using Some all by (auto simp: endpoint_get_by_id_def node_get_def endpoint_get_def node_at_def)
qed

lemma cluster_get_exact:
  assumes "dm_inv s" "eps s a = Some e"
  shows "\<exists>h. cluster_get s (Some a) i = Some h \<and>
    (\<forall>c. h = Some c \<longleftrightarrow> c \<in> set (ep_clusters e) \<and> (\<exists>cl. cls s c = Some cl \<and> cl_id cl = i))"
proof -
  note own = inv_cl[OF assms(1), unfolded cl_layer_def]
  have "\<exists>h. find_m (\<lambda>c. do { cl \<leftarrow> cls s c; Some (cl_id cl = i) }) (ep_clusters e) = Some h \<and>
    (\<forall>c. h = Some c \<longleftrightarrow> c \<in> set (ep_clusters e) \<and> (\<exists>cl. cls s c = Some cl \<and> cl_id cl = i))"
    by (rule find_m_exact) (use owns_live[OF own assms(2)] owns_sep[OF own assms(2)] in blast)+
  then show ?thesis using assms(2) by (simp add: cluster_get_def)
qed

lemma cluster_get_by_id_exact:
  assumes "dm_inv s"
  shows "\<exists>h. cluster_get_by_id s i j = Some h \<and>
    (\<forall>c. h = Some c \<longleftrightarrow> (\<exists>cl. cls s c = Some cl \<and> cl_ep cl = i \<and> cl_id cl = j))"
proof -
  note own = inv_cl[OF assms(1), unfolded cl_layer_def]
  obtain h where h: "endpoint_get_by_id s i = Some h"
      "\<And>a. h = Some a \<longleftrightarrow> (\<exists>e. eps s a = Some e \<and> ep_id e = i)"
    using endpoint_get_by_id_exact[OF assms] by blast
  have up: "\<exists>a e. eps s a = Some e \<and> c \<in> set (ep_clusters e) \<and> ep_id e = cl_ep cl" if "cls s c = Some cl" for c cl
    using owns_parent[OF own that] owns_rel[OF own _ _ that] by metis
  show ?thesis
  proof (cases h)
    case None
    then have "cl_ep cl \<noteq> i" if "cls s c = Some cl" for c cl using up[OF that] h(2) by fastforce
    then show ?thesis using h(1) None by (auto simp: cluster_get_by_id_def cluster_get_def)
  next
    case (Some a)
    then obtain e where e: "eps s a = Some e" "ep_id e = i" using h(2) by blast
    have "c \<in> set (ep_clusters e) \<longleftrightarrow> cl_ep cl = i" if cl: "cls s c = Some cl" for c cl
    proof
      show "cl_ep cl = i" if "c \<in> set (ep_clusters e)" using owns_rel[OF own e(1) that cl] e by simp
      assume "cl_ep cl = i"
      with up[OF cl] obtain a' e' where "eps s a' = Some e'" "c \<in> set (ep_clusters e')" "ep_id e' = i"
        by auto
      moreover from this have "h = Some a'" using h(2) by blast
      ultimately show "c \<in> set (ep_clusters e)" using Some e by simp
    qed
    then show ?thesis
      using cluster_get_exact[OF assms e(1), of j] h(1) Some by (auto simp: cluster_get_by_id_def)
  qed
qed

lemma attribute_get_exact:
  assumes "dm_inv s" "cls s c = Some cl"
  shows "\<exists>h. attribute_get s (Some c) i = Some h \<and>
    (\<forall>a. h = Some a \<longleftrightarrow> a \<in> set (cl_attributes cl) \<and> (\<exists>at. ats s a = Some at \<and> at_id at = i))"
proof -
  note own = inv_at[OF assms(1), unfolded at_layer_def]
  have "\<exists>h. find_m (\<lambda>a. do { at \<leftarrow> ats s a; Some (at_id at = i) }) (cl_attributes cl) = Some h \<and>
    (\<forall>a. h = Some a \<longleftrightarrow> a \<in> set (cl_attributes cl) \<and> (\<exists>at. ats s a = Some at \<and> at_id at = i))"
    by (rule find_m_exact) (use owns_live[OF own assms(2)] owns_sep[OF own assms(2)] in blast)+
  then show ?thesis using assms(2) by (simp add: attribute_get_def)
qed

lemma event_get_exact:
  assumes "dm_inv s" "cls s c = Some cl"
  shows "\<exists>h. event_get s (Some c) i = Some h \<and>
    (\<forall>a. h = Some a \<longleftrightarrow> a \<in> set (cl_events cl) \<and> (\<exists>ev. evs s a = Some ev \<and> ev_id ev = i))"
proof -
  note own = inv_ev[OF assms(1), unfolded ev_layer_def]
  have "\<exists>h. find_m (\<lambda>a. do { ev \<leftarrow> evs s a; Some (ev_id ev = i) }) (cl_events cl) = Some h \<and>
    (\<forall>a. h = Some a \<longleftrightarrow> a \<in> set (cl_events cl) \<and> (\<exists>ev. evs s a = Some ev \<and> ev_id ev = i))"
    by (rule find_m_exact) (use owns_live[OF own assms(2)] owns_sep[OF own assms(2)] in blast)+
  then show ?thesis using assms(2) by (simp add: event_get_def)
qed

end
