(* ===== verification/EM_Interfaces.thy ===== *)
theory EM_Interfaces
  imports EM_Tree
begin

text \<open>
  The contract shared by the tables of children: the attributes, events and clusters of a parent
  are created by id and found by id.  Clients that declare a whole table, as the cluster and
  endpoint code does, rely on this contract only.  Attributes and events also satisfy the stronger
  contract that declaring an existing child is without effect; clusters do not, since their flags
  are merged.
\<close>

primrec create_all ::
    "('k \<Rightarrow> 'x \<Rightarrow> 's \<Rightarrow> (handle \<times> 's) option) \<Rightarrow> ('k \<times> 'x) list \<Rightarrow> 's \<Rightarrow> (handle list \<times> 's) option" where
  "create_all create [] s = Some ([], s)"
| "create_all create (d # ds) s = do {
     (h, s1) \<leftarrow> create (fst d) (snd d) s;
     (hs, s2) \<leftarrow> create_all create ds s1;
     Some (h # hs, s2) }"

locale child_table =
  fixes ok :: "'s \<Rightarrow> bool"
    and lookup :: "'s \<Rightarrow> 'k \<Rightarrow> handle option"
    and create :: "'k \<Rightarrow> 'x \<Rightarrow> 's \<Rightarrow> (handle \<times> 's) option"
  assumes create_ok: "ok s \<Longrightarrow> create k x s = Some (h, s') \<Longrightarrow> ok s'"
    and create_found: "ok s \<Longrightarrow> create k x s = Some (Some a, s') \<Longrightarrow> lookup s' k = Some (Some a)"
    and create_other: "ok s \<Longrightarrow> create k x s = Some (h, s') \<Longrightarrow> j \<noteq> k \<Longrightarrow> lookup s' j = lookup s j"
    and create_same: "ok s \<Longrightarrow> lookup s k = Some (Some a) \<Longrightarrow> create k x s = Some (h, s') \<Longrightarrow> h = Some a"
begin

lemma create_keeps:
  assumes "ok s" "create k x s = Some (h, s')" "lookup s j = Some (Some a)"
  shows "lookup s' j = Some (Some a)"
proof (cases "j = k")
  case True
  then have "h = Some a" using create_same assms by blast
  then show ?thesis using create_found assms(1,2) True by simp
next
  case False
  then show ?thesis using create_other assms by simp
qed

lemma create_all_ok: "ok s \<Longrightarrow> create_all create ds s = Some (hs, s') \<Longrightarrow> ok s'"
proof (induction ds arbitrary: s hs)
  case (Cons d ds)
  then show ?case using create_ok by (fastforce split: bind_splits)
qed simp

lemma create_all_keeps:
  "ok s \<Longrightarrow> create_all create ds s = Some (hs, s') \<Longrightarrow> lookup s j = Some (Some a) \<Longrightarrow>
   lookup s' j = Some (Some a)"
proof (induction ds arbitrary: s hs)
  case (Cons d ds)
  obtain h s1 hs1 where d: "create (fst d) (snd d) s = Some (h, s1)"
      "create_all create ds s1 = Some (hs1, s')"
    using Cons.prems(2) by (auto split: bind_splits)
  then show ?case
    using Cons.IH[OF create_ok[OF Cons.prems(1) d(1)] d(2)] create_keeps[OF Cons.prems(1) d(1)]
      Cons.prems(3) by blast
qed simp

lemma create_all_other:
  "ok s \<Longrightarrow> create_all create ds s = Some (hs, s') \<Longrightarrow> j \<notin> fst ` set ds \<Longrightarrow> lookup s' j = lookup s j"
proof (induction ds arbitrary: s hs)
  case (Cons d ds)
  obtain h s1 hs1 where d: "create (fst d) (snd d) s = Some (h, s1)"
      "create_all create ds s1 = Some (hs1, s')"
    using Cons.prems(2) by (auto split: bind_splits)
  then show ?case
    using Cons.IH[OF create_ok[OF Cons.prems(1) d(1)] d(2)] create_other[OF Cons.prems(1) d(1), of j]
      Cons.prems(3) by auto
qed simp

lemma create_all_found:
  assumes "ok s" "create_all create ds s = Some (hs, s')" "None \<notin> set hs"
  shows "list_all2 (\<lambda>d h. lookup s' (fst d) = Some h) ds hs"
  using assms
proof (induction ds arbitrary: s hs)
  case (Cons d ds)
  obtain h s1 hs1 where d: "create (fst d) (snd d) s = Some (h, s1)"
      "create_all create ds s1 = Some (hs1, s')" "hs = h # hs1"
    using Cons.prems(2) by (auto split: bind_splits)
  obtain a where h: "h = Some a" using Cons.prems(3) d(3) by (cases h) auto
  note ok1 = create_ok[OF Cons.prems(1) d(1)]
  have "lookup s' (fst d) = Some h"
    using create_all_keeps[OF ok1 d(2)] create_found[OF Cons.prems(1)] d(1) h by blast
  then show ?case using Cons.IH[OF ok1 d(2)] Cons.prems(3) d(3) by auto
qed simp

end

text \<open>Tables whose creation of an existing child changes nothing at all.\<close>

locale quiet_child_table = child_table +
  assumes create_existing: "ok s \<Longrightarrow> lookup s k = Some (Some a) \<Longrightarrow> create k x s = Some (Some a, s)"
begin

lemma create_all_again:
  assumes "ok s" "list_all2 (\<lambda>d h. lookup s (fst d) = Some h) ds hs" "None \<notin> set hs"
  shows "create_all create ds s = Some (hs, s)"
  using assms(2,3)
proof (induction ds hs rule: list_all2_induct)
  case (Cons d ds h hs)
  then obtain a where "h = Some a" by (cases h) auto
  then show ?case using Cons create_existing[OF assms(1), of "fst d" a "snd d"] by simp
qed simp

text \<open>Declaring a table twice is declaring it once.\<close>

lemma create_all_idem:
  assumes "ok s" "create_all create ds s = Some (hs, s')" "None \<notin> set hs"
  shows "create_all create ds s' = Some (hs, s')"
  by (rule create_all_again[OF create_all_ok[OF assms(1,2)] create_all_found[OF assms] assms(3)])

end

end
