(* ===== verification/EM_Attribute.thy ===== *)
theory EM_Attribute
  imports EM_Tree
begin

text \<open>
  Attributes: namespace \<open>attribute\<close> of \<open>data_model/esp_matter_data_model.cpp\<close>, with the function
  table of a cluster that \<open>set_val_internal\<close> consults.  Creation, destruction, bounds, storage of a
  value with its callbacks and its persistence, and the timer of deferred persistence.
\<close>

section \<open>Application callback and function table\<close>

definition set_callback :: "fnptr option \<Rightarrow> 'n dm \<Rightarrow> esp_err \<times> 'n dm" where
  "set_callback callback s = (ESP_OK, s\<lparr>attribute_callback := callback\<rparr>)"

definition get_priv_data :: "'n dm \<Rightarrow> u16 \<Rightarrow> handle option" where
  "get_priv_data s endpoint_id = do {
     eh \<leftarrow> endpoint_get_by_id s endpoint_id;
     (case eh of None \<Rightarrow> Some None | Some a \<Rightarrow> do { e \<leftarrow> eps s a; Some (ep_priv e) }) }"

definition execute_callback ::
    "'n env \<Rightarrow> callback_type \<Rightarrow> u16 \<Rightarrow> u32 \<Rightarrow> u32 \<Rightarrow> attr_val \<Rightarrow> 'n dm \<Rightarrow> (esp_err \<times> attr_val \<times> 'n dm) option" where
  "execute_callback E ty endpoint_id cluster_id attribute_id v s =
     (case attribute_callback s of
        None \<Rightarrow> Some (ESP_OK, v, s)
      | Some f \<Rightarrow> do {
          priv_data \<leftarrow> get_priv_data s endpoint_id;
          let (err, v') = e_attribute_cb E (log s) f ty endpoint_id cluster_id attribute_id v priv_data;
          Some (err, v', emit (Attribute_Callback f ty endpoint_id cluster_id attribute_id v priv_data) s) })"

partial_function (option) function_index :: "u8 \<Rightarrow> u8 \<Rightarrow> u8 \<Rightarrow> u8 \<Rightarrow> u8 option" where
  "function_index flags function_flag flag index =
     (if flag < function_flag then
        function_index flags function_flag (push_bit 1 flag)
          (if flags AND flag \<noteq> 0 then index + 1 else index)
      else Some index)"

definition get_function :: "'n dm \<Rightarrow> handle \<Rightarrow> u8 \<Rightarrow> fnptr option option" where
  "get_function s ch function_flag =
     (case ch of
        None \<Rightarrow> Some None
      | Some c \<Rightarrow> do {
          cl \<leftarrow> cls s c;
          if \<not> has_flag (cl_flags cl) function_flag then Some None
          else do {
            index \<leftarrow> function_index (cl_flags cl) function_flag 0x01 0;
            functions \<leftarrow> cl_functions cl;
            if unat index < length functions then Some (functions ! unat index) else None } })"

section \<open>Bounds\<close>

text \<open>The body of every numeric case of \<open>compare_attr_val_with_bounds\<close>.\<close>

definition compare_num :: "traits \<Rightarrow> num_kind \<Rightarrow> attr_val \<Rightarrow> bounds \<Rightarrow> int" where
  "compare_num T k v b =
     (let n = num_member k (av_val v) in
      if nullable_type (av_type v) \<and> tr_is_null T k n then 0
      else if num_lt k n (num_member k (av_val (b_min b))) then - 1
      else if num_lt k (num_member k (av_val (b_max b))) n then 1
      else 0)"

definition compare_attr_val_with_bounds :: "traits \<Rightarrow> attr_val \<Rightarrow> bounds \<Rightarrow> int" where
  "compare_attr_val_with_bounds T v b =
     (let t = av_type v in
      if t \<in> {VT_UINT8, VT_ENUM8, VT_BITMAP8, VT_NULLABLE_UINT8, VT_NULLABLE_ENUM8,
              VT_NULLABLE_BITMAP8} then compare_num T KU8 v b
      else if t \<in> {VT_UINT16, VT_ENUM16, VT_BITMAP16, VT_NULLABLE_UINT16, VT_NULLABLE_ENUM16,
              VT_NULLABLE_BITMAP16} then compare_num T KU16 v b
      else if t \<in> {VT_UINT32, VT_BITMAP32, VT_NULLABLE_UINT32, VT_NULLABLE_BITMAP32} then
        compare_num T KU32 v b
      else if t \<in> {VT_UINT64, VT_NULLABLE_UINT64} then compare_num T KU64 v b
      else if t \<in> {VT_INT8, VT_NULLABLE_INT8} then compare_num T KI8 v b
      else if t \<in> {VT_INT16, VT_NULLABLE_INT16} then compare_num T KI16 v b
      else if t \<in> {VT_INT32, VT_NULLABLE_INT32} then compare_num T KI32 v b
      else if t \<in> {VT_INT64, VT_NULLABLE_INT64} then compare_num T KI64 v b
      else if t \<in> {VT_FLOAT, VT_NULLABLE_FLOAT} then compare_num T KFloat v b
      else - 2)"

definition attr_val_of :: "attribute_t \<Rightarrow> attr_ext \<Rightarrow> attr_val" where
  "attr_val_of at x = \<lparr>av_type = at_type at, av_val = x_val x\<rparr>"

definition put_attr :: "addr \<Rightarrow> attribute_t \<Rightarrow> 'n dm \<Rightarrow> 'n dm" where
  "put_attr a at s = s\<lparr>ats := (ats s)(a \<mapsto> at)\<rparr>"

definition bound_attribute_val :: "'n env \<Rightarrow> addr \<Rightarrow> 'n dm \<Rightarrow> (esp_err \<times> 'n dm) option" where
  "bound_attribute_val E a s = do {
     at \<leftarrow> ats s a;
     x \<leftarrow> at_ext at;
     b \<leftarrow> x_bounds x;
     let compare_result = compare_attr_val_with_bounds (e_traits E) (attr_val_of at x) b;
     if compare_result = 1 then
       Some (ESP_OK, put_attr a (at\<lparr>at_ext := Some (x\<lparr>x_val := av_val (b_max b)\<rparr>)\<rparr>) s)
     else if compare_result = - 1 then
       Some (ESP_OK, put_attr a (at\<lparr>at_ext := Some (x\<lparr>x_val := av_val (b_min b)\<rparr>)\<rparr>) s)
     else if compare_result \<noteq> 0 then Some (ESP_ERR_INVALID_ARG, s)
     else Some (ESP_OK, s) }"

definition add_bounds ::
    "'n env \<Rightarrow> handle \<Rightarrow> attr_val \<Rightarrow> attr_val \<Rightarrow> 'n dm \<Rightarrow> (esp_err \<times> 'n dm) option" where
  "add_bounds E h mn mx s =
     (case h of
        None \<Rightarrow> Some (ESP_ERR_INVALID_ARG, s)
      | Some a \<Rightarrow> do {
          at \<leftarrow> ats s a;
          if has_flag (at_flags at) ATTRIBUTE_FLAG_MANAGED_INTERNALLY then
            Some (ESP_ERR_NOT_SUPPORTED, s)
          else if at_type at \<in> string_types \<union> {VT_ARRAY, VT_BOOLEAN} then Some (ESP_ERR_INVALID_ARG, s)
          else if \<not> (at_type at = av_type mn \<and> at_type at = av_type mx) then
            Some (ESP_ERR_INVALID_ARG, s)
          else do {
            x \<leftarrow> at_ext at;
            let (p, s1) = alloc s;
            (case p of
               None \<Rightarrow> Some (ESP_ERR_NO_MEM, put_attr a (at\<lparr>at_ext := Some (x\<lparr>x_bounds := None\<rparr>)\<rparr>) s1)
             | Some _ \<Rightarrow>
                 bound_attribute_val E a
                   (put_attr a (at\<lparr>at_flags := at_flags at OR ATTRIBUTE_FLAG_MIN_MAX,
                      at_ext := Some (x\<lparr>x_bounds := Some \<lparr>b_min = mn, b_max = mx\<rparr>\<rparr>)\<rparr>) s1)) } })"

text \<open>The out parameter is written only when the result is \<open>ESP_OK\<close>.\<close>

definition get_bounds :: "'n dm \<Rightarrow> handle \<Rightarrow> (esp_err \<times> bounds option) option" where
  "get_bounds s h =
     (case h of
        None \<Rightarrow> Some (ESP_ERR_INVALID_ARG, None)
      | Some a \<Rightarrow> do {
          at \<leftarrow> ats s a;
          if has_flag (at_flags at) ATTRIBUTE_FLAG_MANAGED_INTERNALLY then
            Some (ESP_ERR_INVALID_ARG, None)
          else if \<not> has_flag (at_flags at) ATTRIBUTE_FLAG_MIN_MAX then Some (ESP_ERR_INVALID_ARG, None)
          else do {
            x \<leftarrow> at_ext at;
            b \<leftarrow> x_bounds x;
            Some (ESP_OK, Some b) } })"

section \<open>Storing a value\<close>

definition set_string :: "attr_val \<Rightarrow> attr_ext \<Rightarrow> mem \<Rightarrow> (esp_err \<times> attr_ext \<times> mem) option" where
  "set_string v x m =
     (let a = v_a (av_val v);
          cur = v_a (x_val x);
          put = (\<lambda>b m. (ESP_OK, x\<lparr>x_val := (x_val x)\<lparr>v_a := cur\<lparr>a_b := b, a_s := a_s a, a_t := a_t a\<rparr>\<rparr>\<rparr>, m)) in
      if a_s a > 0 then
        if a_s a \<noteq> null_len (av_type v) then
          if a_s a > a_max cur then Some (ESP_ERR_NO_MEM, x, m)
          else
            (let freed = x\<lparr>x_val := (x_val x)\<lparr>v_a := cur\<lparr>a_b := None\<rparr>\<rparr>\<rparr>;
                 reserve = (if av_type v = VT_LONG_CHAR_STRING \<or> av_type v = VT_CHAR_STRING
                            then [0] else []);
                 (p, m1) = mem_calloc m in
             case p of
               None \<Rightarrow> Some (ESP_ERR_NO_MEM, freed, m1)
             | Some _ \<Rightarrow> do {
                 bs \<leftarrow> a_b a;
                 if length bs < unat (a_s a) then None
                 else Some (put (Some (take (unat (a_s a)) bs @ reserve)) m1) })
        else Some (put None m)
      else Some (ESP_OK, x, m))"

definition store_value :: "attr_val \<Rightarrow> attr_ext \<Rightarrow> mem \<Rightarrow> (esp_err \<times> attr_ext \<times> mem) option" where
  "store_value v x m =
     (if av_type v \<in> string_types then set_string v x m
      else Some (ESP_OK, x\<lparr>x_val := av_val v\<rparr>, m))"

definition post_update ::
    "'n env \<Rightarrow> u16 \<Rightarrow> u32 \<Rightarrow> u32 \<Rightarrow> attr_val \<Rightarrow> 'n dm \<Rightarrow> (attr_val \<times> 'n dm) option" where
  "post_update E endpoint_id cluster_id attribute_id v s = do {
     (_, v', s1) \<leftarrow> execute_callback E POST_UPDATE endpoint_id cluster_id attribute_id v s;
     cluster \<leftarrow> cluster_get_by_id s1 endpoint_id cluster_id;
     attr_change_function \<leftarrow> get_function s1 cluster CLUSTER_FLAG_ATTRIBUTE_CHANGED_FUNCTION;
     Some (v', case attr_change_function of
                 None \<Rightarrow> s1
               | Some f \<Rightarrow> emit (Attribute_Changed_Function f endpoint_id cluster_id attribute_id) s1) }"

definition persist :: "'n env \<Rightarrow> addr \<Rightarrow> attribute_t \<Rightarrow> attr_ext \<Rightarrow> 'n dm \<Rightarrow> 'n dm" where
  "persist E a at x s =
     (if has_flag (at_flags at) ATTRIBUTE_FLAG_NONVOLATILE then
        if has_flag (at_flags at) ATTRIBUTE_FLAG_DEFERRED then
          (if a \<in> set (timers s) then s else s\<lparr>timers := timers s @ [a]\<rparr>)
        else s\<lparr>nvs := snd (store_val_in_nvs (e_nvs E) (e_b64 E) (x_ep x) (x_cl x) (at_id at)
                             (attr_val_of at x) (nvs s))\<rparr>
      else s)"

definition set_val_internal ::
    "'n env \<Rightarrow> handle \<Rightarrow> attr_val option \<Rightarrow> bool \<Rightarrow> 'n dm \<Rightarrow> (esp_err \<times> attr_val option \<times> 'n dm) option" where
  "set_val_internal E h vo call_callbacks s =
     (case (h, vo) of
        (Some a, Some v) \<Rightarrow> do {
          at \<leftarrow> ats s a;
          if has_flag (at_flags at) ATTRIBUTE_FLAG_MANAGED_INTERNALLY then
            Some (ESP_ERR_NOT_SUPPORTED, vo, s)
          else do {
            x \<leftarrow> at_ext at;
            if at_type at \<noteq> av_type v then Some (ESP_ERR_INVALID_ARG, vo, s)
            else if has_flag (at_flags at) ATTRIBUTE_FLAG_MIN_MAX \<and>
                (case x_bounds x of None \<Rightarrow> False
                 | Some b \<Rightarrow> compare_attr_val_with_bounds (e_traits E) v b \<noteq> 0) then
              Some (ESP_ERR_INVALID_ARG, vo, s)
            else if val_compare v (attr_val_of at x) then Some (ESP_ERR_NOT_FINISHED, vo, s)
            else do {
              (err, v1, s1) \<leftarrow> (if call_callbacks
                 then execute_callback E PRE_UPDATE (x_ep x) (x_cl x) (at_id at) v s
                 else Some (ESP_OK, v, s));
              if err \<noteq> ESP_OK then Some (err, Some v1, s1)
              else do {
                (err, x1, m1) \<leftarrow> store_value v1 x (mem s1);
                let s2 = put_attr a (at\<lparr>at_ext := Some x1\<rparr>) (s1\<lparr>mem := m1\<rparr>);
                if err \<noteq> ESP_OK then Some (err, Some v1, s2)
                else do {
                  (v2, s3) \<leftarrow> (if call_callbacks
                     then post_update E (x_ep x) (x_cl x) (at_id at) v1 s2 else Some (v1, s2));
                  Some (ESP_OK, Some v2, persist E a at x1 s3) } } } } }
      | _ \<Rightarrow> Some (ESP_ERR_INVALID_ARG, vo, s))"

section \<open>Creation and destruction\<close>

definition put_cluster :: "addr \<Rightarrow> cluster_t \<Rightarrow> 'n dm \<Rightarrow> 'n dm" where
  "put_cluster c cl s = s\<lparr>cls := (cls s)(c \<mapsto> cl)\<rparr>"

text \<open>A new attribute with storage of its own, before its value is set.\<close>

definition new_attribute :: "cluster_t \<Rightarrow> u32 \<Rightarrow> u16 \<Rightarrow> val_type \<Rightarrow> u16 \<Rightarrow> attribute_t" where
  "new_attribute cl attribute_id flags t max_val_size =
     \<lparr>at_flags = flags, at_type = t, at_id = attribute_id,
      at_ext = Some \<lparr>x_val = (if t \<in> string_types then zero_val\<lparr>v_a := zero_arr\<lparr>a_max := max_val_size\<rparr>\<rparr>
                              else zero_val),
                    x_bounds = None, x_ep = cl_ep cl, x_cl = cl_id cl, x_override = None\<rparr>\<rparr>"

text \<open>Recovery of a non-volatile value: the value read into is not initialised.\<close>

definition recover_value :: "'n env \<Rightarrow> addr \<Rightarrow> 'n dm \<Rightarrow> (bool \<times> 'n dm) option" where
  "recover_value E a s = do {
     at \<leftarrow> ats s a;
     x \<leftarrow> at_ext at;
     let (err, temp_val, m, n) = get_val_from_nvs (e_nvs E) (e_b64 E) (x_ep x) (x_cl x) (at_id at)
           \<lparr>av_type = at_type at, av_val = e_junk E\<rparr> (mem s) (nvs s);
     let s1 = s\<lparr>mem := m, nvs := n\<rparr>;
     if err = ESP_OK then
       Some (True, put_attr a (at\<lparr>at_ext := Some (x\<lparr>x_val := av_val temp_val\<rparr>)\<rparr>) s1)
     else Some (False, s1) }"

definition init_value :: "'n env \<Rightarrow> addr \<Rightarrow> u16 \<Rightarrow> attr_val \<Rightarrow> 'n dm \<Rightarrow> 'n dm option" where
  "init_value E a flags v s = do {
     (attribute_updated, s1) \<leftarrow>
       (if has_flag flags ATTRIBUTE_FLAG_NONVOLATILE then recover_value E a s else Some (False, s));
     if attribute_updated then Some s1
     else do {
       (_, _, s2) \<leftarrow> set_val_internal E (Some a) (Some v) False s1;
       Some s2 } }"

definition with_max_size :: "attr_val \<Rightarrow> u16 \<Rightarrow> attr_val" where
  "with_max_size v max_val_size =
     (if av_type v \<in> string_types
      then v\<lparr>av_val := (av_val v)\<lparr>v_a := (v_a (av_val v))\<lparr>a_max := max_val_size\<rparr>\<rparr>\<rparr> else v)"

definition attribute_create ::
    "'n env \<Rightarrow> handle \<Rightarrow> u32 \<Rightarrow> u16 \<Rightarrow> attr_val \<Rightarrow> u16 \<Rightarrow> 'n dm \<Rightarrow> (handle \<times> 'n dm) option" where
  "attribute_create E ch attribute_id flags v max_val_size s =
     (case ch of
        None \<Rightarrow> Some (None, s)
      | Some c \<Rightarrow> do {
          cl \<leftarrow> cls s c;
          existing_attribute \<leftarrow> attribute_get s ch attribute_id;
          if existing_attribute \<noteq> None then Some (existing_attribute, s)
          else
            (let (p, s1) = alloc s in
             case p of
               None \<Rightarrow> Some (None, s1)
             | Some a \<Rightarrow> do {
                 s2 \<leftarrow>
                   (if has_flag flags ATTRIBUTE_FLAG_MANAGED_INTERNALLY then
                      Some (put_attr a \<lparr>at_flags = flags, at_type = av_type v, at_id = attribute_id,
                              at_ext = None\<rparr> s1)
                    else
                      init_value E a flags (with_max_size v max_val_size)
                        (put_attr a (new_attribute cl attribute_id flags (av_type v) max_val_size) s1));
                 Some (Some a, put_cluster c (cl\<lparr>cl_attributes := cl_attributes cl @ [a]\<rparr>) s2) }) })"

definition free_attribute :: "'n env \<Rightarrow> handle \<Rightarrow> 'n dm \<Rightarrow> (esp_err \<times> 'n dm) option" where
  "free_attribute E h s =
     (case h of
        None \<Rightarrow> Some (ESP_ERR_INVALID_ARG, s)
      | Some a \<Rightarrow> do {
          at \<leftarrow> ats s a;
          if has_flag (at_flags at) ATTRIBUTE_FLAG_MANAGED_INTERNALLY then
            Some (ESP_OK, s\<lparr>ats := (ats s)(a := None)\<rparr>)
          else do {
            x \<leftarrow> at_ext at;
            let n = (if has_flag (at_flags at) ATTRIBUTE_FLAG_NONVOLATILE
                     then snd (erase_val_in_nvs (e_nvs E) (e_b64 E) (x_ep x) (x_cl x) (at_id at) (nvs s))
                     else nvs s);
            Some (ESP_OK, s\<lparr>nvs := n, ats := (ats s)(a := None)\<rparr>) } })"

definition attribute_destroy :: "'n env \<Rightarrow> handle \<Rightarrow> handle \<Rightarrow> 'n dm \<Rightarrow> (esp_err \<times> 'n dm) option" where
  "attribute_destroy E ch h s =
     (case (ch, h) of
        (Some c, Some a) \<Rightarrow> do {
          cl \<leftarrow> cls s c;
          if a \<notin> set (cl_attributes cl) then Some (ESP_ERR_NOT_FOUND, s)
          else free_attribute E h
                 (put_cluster c (cl\<lparr>cl_attributes := remove1 a (cl_attributes cl)\<rparr>) s) }
      | _ \<Rightarrow> Some (ESP_ERR_INVALID_ARG, s))"

section \<open>Accessors\<close>

definition attribute_get_id :: "'n dm \<Rightarrow> handle \<Rightarrow> u32 option" where
  "attribute_get_id s h =
     (case h of None \<Rightarrow> Some kInvalidAttributeId | Some a \<Rightarrow> do { at \<leftarrow> ats s a; Some (at_id at) })"

definition get_val_type :: "'n dm \<Rightarrow> handle \<Rightarrow> val_type option" where
  "get_val_type s h =
     (case h of None \<Rightarrow> Some VT_INVALID | Some a \<Rightarrow> do { at \<leftarrow> ats s a; Some (at_type at) })"

definition get_val_type_by_path :: "'n dm \<Rightarrow> u16 \<Rightarrow> u32 \<Rightarrow> u32 \<Rightarrow> val_type option" where
  "get_val_type_by_path s endpoint_id cluster_id attribute_id =
     do { h \<leftarrow> attribute_get_by_path s endpoint_id cluster_id attribute_id; get_val_type s h }"

definition attribute_get_flags :: "'n dm \<Rightarrow> handle \<Rightarrow> u16 option" where
  "attribute_get_flags s h =
     (case h of None \<Rightarrow> Some 0 | Some a \<Rightarrow> do { at \<leftarrow> ats s a; Some (at_flags at) })"

definition get_val_internal :: "'n dm \<Rightarrow> handle \<Rightarrow> (esp_err \<times> attr_val option) option" where
  "get_val_internal s h =
     (case h of
        None \<Rightarrow> Some (ESP_ERR_INVALID_ARG, None)
      | Some a \<Rightarrow> do {
          at \<leftarrow> ats s a;
          if has_flag (at_flags at) ATTRIBUTE_FLAG_MANAGED_INTERNALLY then Some (ESP_ERR_NOT_SUPPORTED, None)
          else do { x \<leftarrow> at_ext at; Some (ESP_OK, Some (attr_val_of at x)) } })"

definition set_override_callback :: "handle \<Rightarrow> fnptr option \<Rightarrow> 'n dm \<Rightarrow> (esp_err \<times> 'n dm) option" where
  "set_override_callback h callback s =
     (case h of
        None \<Rightarrow> Some (ESP_ERR_INVALID_ARG, s)
      | Some a \<Rightarrow> do {
          at \<leftarrow> ats s a;
          if has_flag (at_flags at) ATTRIBUTE_FLAG_MANAGED_INTERNALLY then Some (ESP_ERR_NOT_SUPPORTED, s)
          else if at_type at \<in> string_types \<union> {VT_ARRAY} then Some (ESP_ERR_NOT_SUPPORTED, s)
          else do {
            x \<leftarrow> at_ext at;
            Some (ESP_OK, put_attr a (at\<lparr>at_flags := at_flags at OR ATTRIBUTE_FLAG_OVERRIDE,
              at_ext := Some (x\<lparr>x_override := callback\<rparr>)\<rparr>) s) } })"

definition get_override_callback :: "'n dm \<Rightarrow> handle \<Rightarrow> fnptr option option" where
  "get_override_callback s h =
     (case h of
        None \<Rightarrow> Some None
      | Some a \<Rightarrow> do {
          at \<leftarrow> ats s a;
          if has_flag (at_flags at) ATTRIBUTE_FLAG_MANAGED_INTERNALLY then Some None
          else do { x \<leftarrow> at_ext at; Some (x_override x) } })"

definition set_deferred_persistence :: "handle \<Rightarrow> 'n dm \<Rightarrow> (esp_err \<times> 'n dm) option" where
  "set_deferred_persistence h s =
     (case h of
        None \<Rightarrow> Some (ESP_ERR_INVALID_ARG, s)
      | Some a \<Rightarrow> do {
          at \<leftarrow> ats s a;
          if has_flag (at_flags at) ATTRIBUTE_FLAG_MANAGED_INTERNALLY then Some (ESP_ERR_NOT_SUPPORTED, s)
          else if \<not> has_flag (at_flags at) ATTRIBUTE_FLAG_NONVOLATILE then Some (ESP_ERR_INVALID_ARG, s)
          else Some (ESP_OK, put_attr a (at\<lparr>at_flags := at_flags at OR ATTRIBUTE_FLAG_DEFERRED\<rparr>) s) })"

text \<open>The timer of deferred persistence fires.\<close>

definition deferred_attribute_write :: "'n env \<Rightarrow> addr \<Rightarrow> 'n dm \<Rightarrow> 'n dm option" where
  "deferred_attribute_write E a s = do {
     at \<leftarrow> ats s a;
     x \<leftarrow> at_ext at;
     Some (s\<lparr>timers := remove1 a (timers s),
             nvs := snd (store_val_in_nvs (e_nvs E) (e_b64 E) (x_ep x) (x_cl x) (at_id at)
                           (attr_val_of at x) (nvs s))\<rparr>) }"

section \<open>From a handle to a path\<close>

primrec find_in_clusters :: "'n dm \<Rightarrow> addr \<Rightarrow> addr list \<Rightarrow> u32 option option" where
  "find_in_clusters s a [] = Some None"
| "find_in_clusters s a (c # cs) = do {
     cl \<leftarrow> cls s c;
     if a \<in> set (cl_attributes cl) then Some (Some (cl_id cl)) else find_in_clusters s a cs }"

primrec find_in_endpoints :: "'n dm \<Rightarrow> addr \<Rightarrow> addr list \<Rightarrow> (u16 \<times> u32) option option" where
  "find_in_endpoints s a [] = Some None"
| "find_in_endpoints s a (p # ps) = do {
     e \<leftarrow> eps s p;
     r \<leftarrow> find_in_clusters s a (ep_clusters e);
     (case r of Some j \<Rightarrow> Some (Some (ep_id e, j)) | None \<Rightarrow> find_in_endpoints s a ps) }"

definition find_cluster_and_endpoint_id :: "'n dm \<Rightarrow> addr \<Rightarrow> (esp_err \<times> (u16 \<times> u32) option) option" where
  "find_cluster_and_endpoint_id s a =
     (case node s of
        None \<Rightarrow> Some (ESP_ERR_INVALID_STATE, None)
      | Some nd \<Rightarrow> do {
          r \<leftarrow> find_in_endpoints s a (nd_endpoints nd);
          Some (case r of None \<Rightarrow> (ESP_ERR_NOT_FOUND, None) | Some p \<Rightarrow> (ESP_OK, Some p)) })"

definition get_path_from_attribute_handle ::
    "'n dm \<Rightarrow> addr \<Rightarrow> (esp_err \<times> (u16 \<times> u32) option \<times> u32) option" where
  "get_path_from_attribute_handle s a = do {
     at \<leftarrow> ats s a;
     if has_flag (at_flags at) ATTRIBUTE_FLAG_MANAGED_INTERNALLY then do {
       (err, p) \<leftarrow> find_cluster_and_endpoint_id s a;
       Some (err, p, at_id at) }
     else do { x \<leftarrow> at_ext at; Some (ESP_OK, Some (x_ep x, x_cl x), at_id at) } }"

text \<open>
  Setting a value by path or by handle.  An attribute managed by connectedhomeip is written
  through the data model provider, which is the argument \<open>write\<close>.
\<close>

type_synonym 'n writer = "u16 \<Rightarrow> u32 \<Rightarrow> u32 \<Rightarrow> attr_val \<Rightarrow> 'n dm \<Rightarrow> (esp_err \<times> 'n dm) option"

definition set_val_by_path ::
    "'n env \<Rightarrow> 'n writer \<Rightarrow> u16 \<Rightarrow> u32 \<Rightarrow> u32 \<Rightarrow> attr_val option \<Rightarrow> bool \<Rightarrow> 'n dm \<Rightarrow>
     (esp_err \<times> attr_val option \<times> 'n dm) option" where
  "set_val_by_path E write endpoint_id cluster_id attribute_id vo call_callbacks s =
     (case vo of
        None \<Rightarrow> Some (ESP_ERR_INVALID_ARG, vo, s)
      | Some v \<Rightarrow>
          if av_type v = VT_INVALID then Some (ESP_ERR_INVALID_ARG, vo, s)
          else if av_type v = VT_ARRAY then Some (ESP_ERR_NOT_SUPPORTED, vo, s)
          else do {
            attr \<leftarrow> attribute_get_by_path s endpoint_id cluster_id attribute_id;
            if attr = None then Some (ESP_ERR_NOT_FOUND, vo, s)
            else do {
              t \<leftarrow> get_val_type s attr;
              if t \<noteq> av_type v then Some (ESP_ERR_INVALID_ARG, vo, s)
              else do {
                flags \<leftarrow> attribute_get_flags s attr;
                if \<not> has_flag flags ATTRIBUTE_FLAG_MANAGED_INTERNALLY then
                  set_val_internal E attr vo call_callbacks s
                else if has_flag flags ATTRIBUTE_FLAG_WRITABLE then do {
                  (err, s') \<leftarrow> write endpoint_id cluster_id attribute_id v s;
                  Some (err, vo, s') }
                else Some (ESP_ERR_NOT_SUPPORTED, vo, s) } } })"

definition set_val ::
    "'n env \<Rightarrow> 'n writer \<Rightarrow> handle \<Rightarrow> attr_val option \<Rightarrow> bool \<Rightarrow> 'n dm \<Rightarrow>
     (esp_err \<times> attr_val option \<times> 'n dm) option" where
  "set_val E write h vo call_callbacks s =
     (case (h, vo) of
        (Some a, Some v) \<Rightarrow> do {
          (err, p, attribute_id) \<leftarrow> get_path_from_attribute_handle s a;
          if err \<noteq> ESP_OK then Some (err, vo, s)
          else (case p of
             None \<Rightarrow> set_val_by_path E write kInvalidEndpointId kInvalidClusterId attribute_id vo call_callbacks s
           | Some (endpoint_id, cluster_id) \<Rightarrow>
               set_val_by_path E write endpoint_id cluster_id attribute_id vo call_callbacks s) }
      | _ \<Rightarrow> Some (ESP_ERR_INVALID_ARG, vo, s))"

end
