(* ===== verification/EM_Example.thy ===== *)
theory EM_Example
  imports EM_Attribute
begin

text \<open>
  A small store used to show that the hypotheses of the properties can hold: one endpoint with an
  on/off cluster that has a number, a string and an attribute managed by connectedhomeip, a command
  and an event.  Storage is the map of \<open>EM_Nvs\<close>.
\<close>

definition demo_env :: "flash env" where
  "demo_env =
     \<lparr>e_nvs = map_api, e_b64 = base64_encode, e_traits = std_traits,
      e_attribute_cb = (\<lambda>l f ty i j k v p. (ESP_OK, v)),
      e_bounds = (\<lambda>f s c i. None), e_random = (\<lambda>n. 7), e_junk = zero_val,
      e_max_endpoints = 16, e_max_device_types = 16\<rparr>"

definition demo_number :: attribute_t where
  "demo_number =
     \<lparr>at_flags = 0x23, at_type = VT_UINT8, at_id = 0,
      at_ext = Some \<lparr>x_val = av_val (esp_matter_uint8 5), x_bounds = None, x_ep = 1, x_cl = 6,
        x_override = None\<rparr>\<rparr>"

definition demo_string :: attribute_t where
  "demo_string =
     \<lparr>at_flags = 0x21, at_type = VT_CHAR_STRING, at_id = 1,
      at_ext = Some \<lparr>x_val = \<lparr>v_num = 0, v_a = \<lparr>a_b = Some [104, 105, 0], a_s = 2, a_max = 8, a_t = 3\<rparr>\<rparr>,
        x_bounds = None, x_ep = 1, x_cl = 6, x_override = None\<rparr>\<rparr>"

definition demo_managed :: attribute_t where
  "demo_managed = \<lparr>at_flags = 0x221, at_type = VT_BITMAP32, at_id = 0xFFFC, at_ext = None\<rparr>"

definition demo_cluster :: cluster_t where
  "demo_cluster =
     \<lparr>cl_id = 6, cl_ep = 1, cl_flags = 0x42, cl_functions = Some [Some 77], cl_plugin_init = None,
      cl_delegate_init = None, cl_delegate = None, cl_add_bounds = None, cl_init = Some 70,
      cl_shutdown = Some 71, cl_version = 9, cl_attributes = [4, 5, 6], cl_commands = [7],
      cl_events = [8]\<rparr>"

definition demo_endpoint :: endpoint_t where
  "demo_endpoint =
     \<lparr>ep_id = 1, ep_enabled = True, ep_device_type_count = 0, ep_device_types = replicate 16 \<lparr>dt_version = 0, dt_id = 0\<rparr>,
      ep_flags = 1,
      ep_parent = 0xFFFF, ep_priv = None, ep_identify = None, ep_pattern = kFullFamily,
      ep_tag_count = 0,
      ep_tags = replicate 3 \<lparr>tag_mfg = None, tag_namespace = 0, tag_tag = 0, tag_label = None\<rparr>, ep_clusters = [3]\<rparr>"

definition demo :: "flash dm" where
  "demo =
     \<lparr>node = Some \<lparr>nd_addr = 1, nd_endpoints = [2], nd_min_unused = 2\<rparr>,
      eps = [2 \<mapsto> demo_endpoint], cls = [3 \<mapsto> demo_cluster],
      ats = [4 \<mapsto> demo_number, 5 \<mapsto> demo_string, 6 \<mapsto> demo_managed],
      cms = [7 \<mapsto> \<lparr>cm_id = 0, cm_flags = 2, cm_callback = None, cm_user_callback = None\<rparr>],
      evs = [8 \<mapsto> \<lparr>ev_id = 0\<rparr>],
      mem = \<lparr>mem_next = 9, mem_fail = (\<lambda>_. False)\<rparr>, nvs = Map.empty, started = True,
      attribute_callback = Some 99, identification_callback = None, timers = [], log = []\<rparr>"

lemmas demo_attr_defs = demo_number_def demo_string_def demo_managed_def
lemmas demo_defs = demo_def demo_cluster_def demo_endpoint_def demo_attr_defs

lemma demo_simps [simp]:
  "node demo = Some \<lparr>nd_addr = 1, nd_endpoints = [2], nd_min_unused = 2\<rparr>"
  "eps demo = [2 \<mapsto> demo_endpoint]" "cls demo = [3 \<mapsto> demo_cluster]"
  "ats demo = [4 \<mapsto> demo_number, 5 \<mapsto> demo_string, 6 \<mapsto> demo_managed]"
  "cms demo = [7 \<mapsto> \<lparr>cm_id = 0, cm_flags = 2, cm_callback = None, cm_user_callback = None\<rparr>]"
  "evs demo = [8 \<mapsto> \<lparr>ev_id = 0\<rparr>]" "mem demo = \<lparr>mem_next = 9, mem_fail = (\<lambda>_. False)\<rparr>"
  "nvs demo = Map.empty" "started demo" "attribute_callback demo = Some 99" "timers demo = []"
  "log demo = []"
  by (simp_all add: demo_def)

lemma demo_inv: "dm_inv demo"
proof -
  have flags: "\<not> has_flag (0x23 :: u16) ATTRIBUTE_FLAG_MANAGED_INTERNALLY"
    "\<not> has_flag (0x21 :: u16) ATTRIBUTE_FLAG_MANAGED_INTERNALLY"
    "has_flag (0x221 :: u16) ATTRIBUTE_FLAG_MANAGED_INTERNALLY"
    by (simp_all add: has_flag_def flag_defs)
  have "ep_layer demo" unfolding ep_layer_def
    by (rule ownsI) (auto split: if_splits)
  moreover have "cl_layer demo" unfolding cl_layer_def
    by (rule ownsI) (auto simp: demo_endpoint_def demo_cluster_def split: if_splits)
  moreover have "at_layer demo" unfolding at_layer_def
    by (rule ownsI) (auto simp: demo_cluster_def demo_attr_defs at_ok_def flags split: if_splits)
  moreover have "cm_layer demo" unfolding cm_layer_def
    by (rule ownsI) (auto simp: demo_cluster_def split: if_splits)
  moreover have "ev_layer demo" unfolding ev_layer_def
    by (rule ownsI) (auto simp: demo_cluster_def split: if_splits)
  moreover have "fresh_above demo" by (auto simp: fresh_above_def)
  ultimately show ?thesis by (simp add: dm_inv_def)
qed

lemma demo_flags [simp]:
  "\<not> has_flag (0x23 :: u16) ATTRIBUTE_FLAG_MANAGED_INTERNALLY"
  "\<not> has_flag (0x21 :: u16) ATTRIBUTE_FLAG_MANAGED_INTERNALLY"
  "has_flag (0x221 :: u16) ATTRIBUTE_FLAG_MANAGED_INTERNALLY"
  "has_flag (0x23 :: u16) ATTRIBUTE_FLAG_NONVOLATILE"
  "\<not> has_flag (0x21 :: u16) ATTRIBUTE_FLAG_NONVOLATILE"
  "\<not> has_flag (0x23 :: u16) ATTRIBUTE_FLAG_MIN_MAX" "\<not> has_flag (0x21 :: u16) ATTRIBUTE_FLAG_MIN_MAX"
  "\<not> has_flag (0x23 :: u16) ATTRIBUTE_FLAG_DEFERRED" "\<not> has_flag (0x21 :: u16) ATTRIBUTE_FLAG_DEFERRED"
  by (simp_all add: has_flag_def flag_defs)

lemma demo_env_simps [simp]:
  "e_nvs demo_env = map_api" "e_b64 demo_env = base64_encode" "e_traits demo_env = std_traits"
  "e_attribute_cb demo_env l f ty i j k v p = (ESP_OK, v)" "e_junk demo_env = zero_val"
  "e_random demo_env n = 7" "e_max_endpoints demo_env = 16" "e_max_device_types demo_env = 16"
  "e_bounds demo_env f s c k = None"
  by (simp_all add: demo_env_def)

end
