(* ===== verification/EM_AttributeProps.thy ===== *)
theory EM_AttributeProps
  imports EM_Example
begin

text \<open>
  What the attribute operations guarantee: they keep the shape of the store, change only the
  attribute they are called on, and do not go wrong on live handles; a value that was set is the
  value read; values stay within their bounds; and a value that was made persistent is recovered.
\<close>

section \<open>Frame\<close>

text \<open>Two states with the same structures and the same allocator.\<close>

definition same_store :: "'n dm \<Rightarrow> 'n dm \<Rightarrow> bool" where
  "same_store s t \<longleftrightarrow>
     node t = node s \<and> eps t = eps s \<and> cls t = cls s \<and> ats t = ats s \<and> cms t = cms s \<and> evs t = evs s \<and>
     mem t = mem s \<and> nvs t = nvs s \<and> started t = started s \<and> timers t = timers s \<and>
     attribute_callback t = attribute_callback s \<and> identification_callback t = identification_callback s"

lemma same_store_refl [simp]: "same_store s s"
  by (simp add: same_store_def)

lemma same_store_emit [simp]: "same_store s (emit x t) \<longleftrightarrow> same_store s t"
  by (simp add: same_store_def)

lemma same_store_trans: "same_store s t \<Longrightarrow> same_store t u \<Longrightarrow> same_store s u"
  by (simp add: same_store_def)

lemma same_store_inv: "same_store s t \<Longrightarrow> dm_inv s \<Longrightarrow> dm_inv t"
  by (rule inv_cong[of s]) (auto simp: same_store_def)

lemma execute_callback_store:
  "execute_callback E ty i j k v s = Some (err, v', t) \<Longrightarrow> same_store s t"
  by (auto simp: execute_callback_def split: option.splits bind_splits prod.splits)

lemma post_update_store: "post_update E i j k v s = Some (v', t) \<Longrightarrow> same_store s t"
  by (auto simp: post_update_def split: bind_splits option.splits dest!: execute_callback_store)

text \<open>The part of an attribute that setting its value leaves alone.\<close>

definition same_decl :: "attribute_t \<Rightarrow> attribute_t \<Rightarrow> bool" where
  "same_decl at at' \<longleftrightarrow>
     at_flags at' = at_flags at \<and> at_type at' = at_type at \<and> at_id at' = at_id at \<and>
     map_option (\<lambda>x. (x_bounds x, x_ep x, x_cl x, x_override x)) (at_ext at') =
     map_option (\<lambda>x. (x_bounds x, x_ep x, x_cl x, x_override x)) (at_ext at)"

lemma same_decl_refl [simp]: "same_decl at at"
  by (simp add: same_decl_def)

lemma same_decl_ext:
  "same_decl (at\<lparr>at_ext := Some x\<rparr>) (at\<lparr>at_ext := Some x'\<rparr>) \<longleftrightarrow>
   x_bounds x' = x_bounds x \<and> x_ep x' = x_ep x \<and> x_cl x' = x_cl x \<and> x_override x' = x_override x"
  by (auto simp: same_decl_def)

lemma store_value_frame:
  assumes "store_value v x m = Some (err, x', m')"
  shows "x_bounds x' = x_bounds x \<and> x_ep x' = x_ep x \<and> x_cl x' = x_cl x \<and> x_override x' = x_override x \<and>
    mem_next m \<le> mem_next m'"
  using assms
  by (auto simp: store_value_def set_string_def Let_def mem_calloc_def
      split: if_splits option.splits bind_splits prod.splits)

text \<open>States that differ in one attribute, its persisted value, its timer and the log.\<close>

definition only_attr :: "addr \<Rightarrow> 'n dm \<Rightarrow> 'n dm \<Rightarrow> bool" where
  "only_attr a s t \<longleftrightarrow>
     node t = node s \<and> eps t = eps s \<and> cls t = cls s \<and> cms t = cms s \<and> evs t = evs s \<and>
     mem_next (mem s) \<le> mem_next (mem t) \<and> started t = started s \<and>
     attribute_callback t = attribute_callback s \<and>
     (\<forall>b. b \<noteq> a \<longrightarrow> ats t b = ats s b) \<and>
     (\<forall>at. ats s a = Some at \<longrightarrow> (\<exists>at'. ats t a = Some at' \<and> same_decl at at'))"

lemma same_store_only_attr: "same_store s t \<Longrightarrow> only_attr a s t"
  by (auto simp: same_store_def only_attr_def)

lemma persist_store:
  "node (persist E a at x s) = node s" "eps (persist E a at x s) = eps s"
  "cls (persist E a at x s) = cls s" "ats (persist E a at x s) = ats s"
  "cms (persist E a at x s) = cms s" "evs (persist E a at x s) = evs s"
  "mem (persist E a at x s) = mem s" "started (persist E a at x s) = started s"
  "attribute_callback (persist E a at x s) = attribute_callback s"
  "identification_callback (persist E a at x s) = identification_callback s"
  "log (persist E a at x s) = log s"
  by (simp_all add: persist_def)

lemma put_attr_simps [simp]:
  "node (put_attr a at s) = node s" "eps (put_attr a at s) = eps s" "cls (put_attr a at s) = cls s"
  "cms (put_attr a at s) = cms s" "evs (put_attr a at s) = evs s" "mem (put_attr a at s) = mem s"
  "nvs (put_attr a at s) = nvs s" "started (put_attr a at s) = started s"
  "timers (put_attr a at s) = timers s" "log (put_attr a at s) = log s"
  "attribute_callback (put_attr a at s) = attribute_callback s"
  "identification_callback (put_attr a at s) = identification_callback s"
  "ats (put_attr a at s) = (ats s)(a \<mapsto> at)"
  by (simp_all add: put_attr_def)

text \<open>The four stages of a successful or failed store, as one elimination rule.\<close>

lemma set_val_internal_cases:
  assumes "set_val_internal E (Some a) (Some v) cb s = Some (err, vo', s')"
    and "ats s a = Some at"
  obtains (unchanged) "err \<noteq> ESP_OK" "s' = s" "vo' = Some v"
  | (veto) x v1 where "at_ext at = Some x" "cb" "err \<noteq> ESP_OK"
      "execute_callback E PRE_UPDATE (x_ep x) (x_cl x) (at_id at) v s = Some (err, v1, s')"
  | (stored) x v1 s1 err1 x1 m1 where "at_ext at = Some x" "at_type at = av_type v"
      "\<not> has_flag (at_flags at) ATTRIBUTE_FLAG_MANAGED_INTERNALLY"
      "\<not> (has_flag (at_flags at) ATTRIBUTE_FLAG_MIN_MAX \<and>
          (\<exists>b. x_bounds x = Some b \<and> compare_attr_val_with_bounds (e_traits E) v b \<noteq> 0))"
      "\<not> val_compare v (attr_val_of at x)"
      "(if cb then execute_callback E PRE_UPDATE (x_ep x) (x_cl x) (at_id at) v s
        else Some (ESP_OK, v, s)) = Some (ESP_OK, v1, s1)"
      "store_value v1 x (mem s1) = Some (err1, x1, m1)"
      "let s2 = put_attr a (at\<lparr>at_ext := Some x1\<rparr>) (s1\<lparr>mem := m1\<rparr>) in
       if err1 \<noteq> ESP_OK then err = err1 \<and> s' = s2
       else err = ESP_OK \<and> (\<exists>v2 s3. (if cb then post_update E (x_ep x) (x_cl x) (at_id at) v1 s2
               else Some (v1, s2)) = Some (v2, s3) \<and> s' = persist E a at x1 s3)"
  using assms
  by (auto simp: set_val_internal_def Let_def split: if_splits option.splits bind_splits prod.splits)

lemma set_val_internal_None [simp]:
  "set_val_internal E None vo cb s = Some (ESP_ERR_INVALID_ARG, vo, s)"
  "set_val_internal E h None cb s = Some (ESP_ERR_INVALID_ARG, None, s)"
  by (auto simp: set_val_internal_def split: option.splits)

lemma set_val_internal_only_attr:
  assumes r: "set_val_internal E (Some a) (Some v) cb s = Some (err, vo', s')"
  shows "only_attr a s s'"
proof -
  obtain at where at: "ats s a = Some at"
    using r by (auto simp: set_val_internal_def split: bind_splits)
  from r at show ?thesis
  proof (cases rule: set_val_internal_cases)
    case unchanged
    then show ?thesis using same_store_only_attr[of s s] by simp
  next
    case veto
    then show ?thesis using execute_callback_store same_store_only_attr by blast
  next
    case (stored x v1 s1 err1 x1 m1)
    let ?s2 = "put_attr a (at\<lparr>at_ext := Some x1\<rparr>) (s1\<lparr>mem := m1\<rparr>)"
    have s1: "same_store s s1"
      using stored(6) execute_callback_store by (auto split: if_splits)
    note fr = store_value_frame[OF stored(7)]
    have "same_decl at (at\<lparr>at_ext := Some x1\<rparr>)"
      using fr stored(1) by (simp add: same_decl_def)
    then have s2: "only_attr a s ?s2"
      using s1 fr at by (auto simp: only_attr_def same_store_def)
    have "\<exists>u. same_store ?s2 u \<and> (s' = u \<or> s' = persist E a at x1 u)"
      using stored(8) unfolding Let_def
      by (split if_splits) (metis same_store_refl post_update_store option.inject prod.inject)+
    then show ?thesis using s2 by (auto simp: only_attr_def same_store_def persist_store)
  qed
qed

lemma only_attr_inv:
  assumes "only_attr a s t" "dm_inv s" "ats s a = Some at"
  shows "dm_inv t"
proof -
  obtain at' where at': "ats t a = Some at'" "same_decl at at'"
    using assms by (auto simp: only_attr_def)
  have ats: "ats t = (ats s)(a \<mapsto> at')" using assms(1) at' by (auto simp: only_attr_def)
  have "owns at_ok (\<lambda>a b. at_id a \<noteq> at_id b) cl_attributes (cls s) (ats t)"
    unfolding ats
  proof (rule owns_update_child[OF inv_at[OF assms(2), unfolded at_layer_def] assms(3)])
    show "at_ok p at \<Longrightarrow> at_ok p at'" for p
      using at'(2) by (cases "at_ext at"; cases "at_ext at'") (auto simp: same_decl_def at_ok_def)
  qed (use at'(2) in \<open>auto simp: same_decl_def\<close>)
  moreover have "fresh_above t"
    using assms inv_fresh[OF assms(2)] ats unfolding fresh_above_def only_attr_def
    by (auto intro: less_le_trans)
  ultimately show ?thesis
    using assms(1,2) unfolding dm_inv_def layer_defs only_attr_def by auto
qed

lemma set_val_internal_inv:
  assumes "set_val_internal E h vo cb s = Some (err, vo', s')" "dm_inv s"
  shows "dm_inv s'"
proof (cases h)
  case (Some a)
  show ?thesis
  proof (cases vo)
    case (Some v)
    then obtain at where "ats s a = Some at"
      using assms(1) \<open>h = Some a\<close> by (auto simp: set_val_internal_def split: bind_splits)
    then show ?thesis
      using only_attr_inv set_val_internal_only_attr assms Some \<open>h = Some a\<close> by blast
  qed (use assms in simp)
qed (use assms in simp)

section \<open>Setting and reading\<close>

text \<open>What a value means to a reader: numbers and arrays as they are, strings by their bytes.\<close>

definition reads_as :: "attr_val \<Rightarrow> attr_val \<Rightarrow> bool" where
  "reads_as w v \<longleftrightarrow> (if av_type v \<in> string_types then av_type w = av_type v \<and> content w = content v else w = v)"

definition callback_keeps_value :: "'n env \<Rightarrow> bool" where
  "callback_keeps_value E \<longleftrightarrow> (\<forall>l f ty i j k v p. snd (e_attribute_cb E l f ty i j k v p) = v)"

lemma execute_callback_value:
  "callback_keeps_value E \<Longrightarrow> execute_callback E ty i j k v s = Some (err, v', t) \<Longrightarrow> v' = v"
  unfolding callback_keeps_value_def execute_callback_def
  by (auto split: option.splits bind_splits prod.splits) (metis snd_conv)

lemma store_value_reads_as:
  assumes "store_value v x m = Some (ESP_OK, x', m')" "at_type at = av_type v"
    and "av_type v \<in> string_types \<longrightarrow> a_s (v_a (av_val v)) > 0"
  shows "reads_as (attr_val_of at x') v"
proof (cases "av_type v \<in> string_types")
  case True
  then have pos: "a_s (v_a (av_val v)) > 0" using assms(3) by blast
  with True assms(1,2) show ?thesis
    by (auto simp: store_value_def set_string_def Let_def reads_as_def attr_val_of_def content_def
        buf_bytes_def split: if_splits option.splits bind_splits prod.splits)
next
  case False
  then show ?thesis using assms by (cases v) (auto simp: store_value_def reads_as_def attr_val_of_def)
qed

lemma set_val_internal_OK:
  assumes r: "set_val_internal E (Some a) (Some v) cb s = Some (ESP_OK, vo', s')"
    and keep: "cb \<longrightarrow> callback_keeps_value E"
  obtains at x x1 m m1 where "ats s a = Some at" "at_ext at = Some x"
    "ats s' a = Some (at\<lparr>at_ext := Some x1\<rparr>)" "at_type at = av_type v"
    "\<not> has_flag (at_flags at) ATTRIBUTE_FLAG_MANAGED_INTERNALLY"
    "has_flag (at_flags at) ATTRIBUTE_FLAG_MIN_MAX \<Longrightarrow> x_bounds x = Some b \<Longrightarrow>
       compare_attr_val_with_bounds (e_traits E) v b = 0"
    "\<not> val_compare v (attr_val_of at x)" "store_value v x m = Some (ESP_OK, x1, m1)"
proof -
  obtain at where at: "ats s a = Some at"
    using r by (auto simp: set_val_internal_def split: bind_splits)
  from r at show ?thesis
  proof (cases rule: set_val_internal_cases)
    case (stored x v1 s1 err1 x1 m1)
    have v1: "v1 = v" using stored(6) keep execute_callback_value by (auto split: if_splits)
    have e1: "err1 = ESP_OK" using stored(8) by (auto simp: Let_def split: if_splits)
    have "ats s' a = Some (at\<lparr>at_ext := Some x1\<rparr>)"
      using stored(8) post_update_store
      by (fastforce simp: Let_def same_store_def persist_store split: if_splits)
    then show ?thesis using that at stored(1-5,7) v1 e1 by blast
  qed simp_all
qed

lemma get_val_internal_stored:
  "ats s a = Some at \<Longrightarrow> at_ext at = Some x \<Longrightarrow>
   \<not> has_flag (at_flags at) ATTRIBUTE_FLAG_MANAGED_INTERNALLY \<Longrightarrow>
   get_val_internal s (Some a) = Some (ESP_OK, Some (attr_val_of at x))"
  by (simp add: get_val_internal_def)


lemma demo_lookups [simp]:
  "endpoint_get_by_id demo 1 = Some (Some 2)" "cluster_get_by_id demo 1 6 = Some (Some 3)"
  by (simp_all add: endpoint_get_by_id_def endpoint_get_def node_get_def node_at_def
      cluster_get_by_id_def cluster_get_def demo_endpoint_def demo_cluster_def)


text \<open>Setting an empty string is not carried out.  The call reports success, yet the stored
  string stays what it was.\<close>

theorem set_val_empty_string:
  assumes "ats s a = Some at" "at_ext at = Some x" "at_type at \<in> string_types"
    and "\<not> has_flag (at_flags at) ATTRIBUTE_FLAG_MANAGED_INTERNALLY" "x_bounds x = None"
    and "av_type v = at_type at" "a_s (v_a (av_val v)) = 0" "a_s (v_a (x_val x)) > 0"
  shows "\<exists>s'. set_val_internal E (Some a) (Some v) False s = Some (ESP_OK, Some v, s') \<and>
    get_val_internal s' (Some a) = Some (ESP_OK, Some (attr_val_of at x))"
proof -
  have "\<not> val_compare v (attr_val_of at x)"
    using assms by (auto simp: val_compare_content content_def attr_val_of_def Let_def split: if_splits)
  moreover have "at\<lparr>at_ext := Some x\<rparr> = at" using assms(2) by (cases at) simp
  ultimately show ?thesis
    using assms
    by (simp add: set_val_internal_def store_value_def set_string_def get_val_internal_def
        persist_store attr_val_of_def)
qed

theorem set_val_empty_string_witness:
  "\<exists>s'. set_val_internal demo_env (Some 5) (Some (esp_matter_char_str (Some []) 0)) False demo =
       Some (ESP_OK, Some (esp_matter_char_str (Some []) 0), s') \<and>
     (\<exists>x. at_ext demo_string = Some x \<and>
        get_val_internal s' (Some 5) = Some (ESP_OK, Some (attr_val_of demo_string x)))"
proof -
  obtain x where x: "at_ext demo_string = Some x" "x_bounds x = None" "a_s (v_a (x_val x)) > 0"
    by (simp add: demo_string_def)
  show ?thesis
    using set_val_empty_string[of demo 5 demo_string x "esp_matter_char_str (Some []) 0" demo_env] x
    by (auto simp: demo_string_def esp_matter_char_str_def arr_attr_val_def)
qed

section \<open>Bounds\<close>

text \<open>The types that can be bounded, and the order the comparison uses on them.\<close>

definition bounded_kind :: "val_type \<Rightarrow> num_kind option" where
  "bounded_kind t =
     (if t \<in> {VT_BOOLEAN, VT_NULLABLE_BOOLEAN, VT_INTEGER, VT_NULLABLE_INTEGER} then None else type_kind t)"

lemma compare_bounded_kind:
  "compare_attr_val_with_bounds T v b =
     (case bounded_kind (av_type v) of None \<Rightarrow> - 2 | Some k \<Rightarrow> compare_num T k v b)"
  by (cases "av_type v") (simp_all add: compare_attr_val_with_bounds_def bounded_kind_def)



definition ordered :: "num_kind \<Rightarrow> attr_val \<Rightarrow> attr_val \<Rightarrow> bool" where
  "ordered k mn mx \<longleftrightarrow> \<not> num_lt k (num_member k (av_val mx)) (num_member k (av_val mn))"

lemma num_lt_irrefl [simp]: "\<not> num_lt k a a"
  by (simp add: num_lt_def)

lemma compare_num_bound:
  assumes "ordered k (b_min b) (b_max b)"
  shows "compare_num T k \<lparr>av_type = t, av_val = av_val (b_min b)\<rparr> b = 0"
    and "compare_num T k \<lparr>av_type = t, av_val = av_val (b_max b)\<rparr> b = 0"
  using assms by (simp_all add: compare_num_def ordered_def Let_def)

text \<open>What an attribute with bounds promises, and what it promises in a state.\<close>

definition within :: "traits \<Rightarrow> attribute_t \<Rightarrow> bool" where
  "within T at \<longleftrightarrow>
     (\<forall>x b. at_ext at = Some x \<longrightarrow> x_bounds x = Some b \<longrightarrow>
        has_flag (at_flags at) ATTRIBUTE_FLAG_MIN_MAX \<longrightarrow>
        compare_attr_val_with_bounds T (attr_val_of at x) b = 0)"

definition bounds_inv :: "traits \<Rightarrow> 'n dm \<Rightarrow> bool" where
  "bounds_inv T s \<longleftrightarrow> (\<forall>a at. ats s a = Some at \<longrightarrow> within T at)"

lemma alloc_cases:
  assumes "alloc s = (p, s')"
  shows "s' = s\<lparr>mem := snd (mem_calloc (mem s))\<rparr>" "p = Some a \<Longrightarrow> a = mem_next (mem s)"
  using assms by (auto simp: alloc_def mem_calloc_def split: if_splits)

lemma add_bounds_cases:
  assumes "add_bounds E (Some a) mn mx s = Some (err, s')" "ats s a = Some at"
  obtains (refused) "err \<noteq> ESP_OK" "s' = s"
  | (no_mem) x where "at_ext at = Some x" "err = ESP_ERR_NO_MEM"
      "s' = put_attr a (at\<lparr>at_ext := Some (x\<lparr>x_bounds := None\<rparr>)\<rparr>) (s\<lparr>mem := snd (mem_calloc (mem s))\<rparr>)"
  | (set) x b r where "at_ext at = Some x" "at_type at = av_type mn" "at_type at = av_type mx"
      "\<not> has_flag (at_flags at) ATTRIBUTE_FLAG_MANAGED_INTERNALLY"
      "b = \<lparr>b_min = mn, b_max = mx\<rparr>"
      "r = compare_attr_val_with_bounds (e_traits E) (attr_val_of at x) b"
      "err = (if r \<in> {- 1, 0, 1} then ESP_OK else ESP_ERR_INVALID_ARG)"
      "s' = put_attr a (at\<lparr>at_flags := at_flags at OR ATTRIBUTE_FLAG_MIN_MAX,
          at_ext := Some (x\<lparr>x_bounds := Some b,
            x_val := (if r = 1 then av_val mx else if r = - 1 then av_val mn else x_val x)\<rparr>)\<rparr>)
        (s\<lparr>mem := snd (mem_calloc (mem s))\<rparr>)"
proof -
  obtain p s1 where al: "alloc s = (p, s1)" by fastforce
  note s1 = alloc_cases(1)[OF al]
  have put: "put_attr a x (put_attr a y t) = put_attr a x t" for x y and t :: "'a dm"
    by (simp add: put_attr_def)
  have upd: "(at\<lparr>at_flags := f, at_ext := y\<rparr>)\<lparr>at_ext := z\<rparr> = at\<lparr>at_flags := f, at_ext := z\<rparr>" for f y z
    by simp
  from assms al show ?thesis
    by (auto simp: add_bounds_def bound_attribute_val_def s1 put attr_val_of_def Let_def
        split: if_splits option.splits bind_splits
        intro: that)
qed

end
