(* ===== verification/EM_AttributeLife.thy ===== *)
theory EM_AttributeLife
  imports EM_AttributeProps EM_Interfaces
begin

text \<open>
  The life of an attribute: creation with recovery of a persisted value, bounds, changes of value
  and destruction.  Every operation keeps the shape of the store, and the steps together keep all
  bounded values within their bounds.
\<close>

section \<open>Creation\<close>

lemma nvs_get_val_mem:
  "nvs_get_val api ns key v m n = (err, v', m', n') \<Longrightarrow> mem_next m \<le> mem_next m'"
  by (auto simp: nvs_get_val_def nvs_get_blob_val_def mem_calloc_def Let_def
      split: if_splits option.splits prod.splits sum.splits)

lemma get_val_from_nvs_mem:
  "get_val_from_nvs api b64 i j k v m n = (err, v', m', n') \<Longrightarrow> mem_next m \<le> mem_next m'"
  by (auto simp: get_val_from_nvs_def Let_def split: if_splits prod.splits dest!: nvs_get_val_mem)

lemma recover_value_only_attr:
  assumes "recover_value E a s = Some (b, s')"
  shows "only_attr a s s'"
proof -
  obtain at x where at: "ats s a = Some at" "at_ext at = Some x"
    using assms by (auto simp: recover_value_def split: bind_splits)
  obtain err v m n where g: "get_val_from_nvs (e_nvs E) (e_b64 E) (x_ep x) (x_cl x) (at_id at)
      \<lparr>av_type = at_type at, av_val = e_junk E\<rparr> (mem s) (nvs s) = (err, v, m, n)"
    by (metis prod_cases4)
  have "same_decl at (at\<lparr>at_ext := Some (x\<lparr>x_val := w\<rparr>)\<rparr>)" for w
    using at(2) by (simp add: same_decl_def)
  then show ?thesis
    using assms at get_val_from_nvs_mem[OF g]
    by (auto simp: recover_value_def g only_attr_def Let_def split: if_splits)
qed

lemma only_attr_trans: "only_attr a s t \<Longrightarrow> only_attr a t u \<Longrightarrow> only_attr a s u"
  unfolding only_attr_def same_decl_def by (intro conjI; fastforce)

lemma put_cluster_simps [simp]:
  "node (put_cluster c cl s) = node s" "eps (put_cluster c cl s) = eps s"
  "cls (put_cluster c cl s) = (cls s)(c \<mapsto> cl)" "ats (put_cluster c cl s) = ats s"
  "cms (put_cluster c cl s) = cms s" "evs (put_cluster c cl s) = evs s"
  "mem (put_cluster c cl s) = mem s" "nvs (put_cluster c cl s) = nvs s"
  "started (put_cluster c cl s) = started s" "timers (put_cluster c cl s) = timers s"
  "log (put_cluster c cl s) = log s"
  "attribute_callback (put_cluster c cl s) = attribute_callback s"
  "identification_callback (put_cluster c cl s) = identification_callback s"
  by (simp_all add: put_cluster_def)

lemma init_value_only_attr:
  assumes "init_value E a flags v s = Some s'"
  shows "only_attr a s s'"
proof -
  obtain r s1 where r: "(if has_flag flags ATTRIBUTE_FLAG_NONVOLATILE then recover_value E a s
      else Some (False, s)) = Some (r, s1)"
    and st: "s' = s1 \<or> (\<exists>e vo. set_val_internal E (Some a) (Some v) False s1 = Some (e, vo, s'))"
    using assms unfolding init_value_def by (auto split: bind_splits if_splits)
  have "only_attr a s s1"
    using r recover_value_only_attr same_store_only_attr[OF same_store_refl] by (auto split: if_splits)
  then show ?thesis using st set_val_internal_only_attr only_attr_trans by blast
qed

text \<open>The three outcomes of creation: the attribute exists, there is no memory, or it is new.\<close>

lemma attribute_create_cases:
  assumes "attribute_create E (Some c) i flags v mx s = Some (h, s')" "cls s c = Some cl"
  obtains (existing) a where "h = Some a" "attribute_get s (Some c) i = Some (Some a)" "s' = s"
  | (no_mem) "h = None" "attribute_get s (Some c) i = Some None"
      "s' = s\<lparr>mem := snd (mem_calloc (mem s))\<rparr>"
  | (created) a at where "h = Some a" "attribute_get s (Some c) i = Some None" "a = mem_next (mem s)"
      "ats s' = (ats s)(a \<mapsto> at)" "at_id at = i" "at_type at = av_type v" "at_flags at = flags"
      "at_ok cl at" "\<And>x. at_ext at = Some x \<Longrightarrow> x_bounds x = None"
      "cls s' = (cls s)(c \<mapsto> cl\<lparr>cl_attributes := cl_attributes cl @ [a]\<rparr>)"
      "node s' = node s" "eps s' = eps s" "cms s' = cms s" "evs s' = evs s"
      "mem_next (mem s) < mem_next (mem s')"
proof -
  obtain h0 where h0: "attribute_get s (Some c) i = Some h0"
    using assms by (auto simp: attribute_create_def split: bind_splits)
  show ?thesis
  proof (cases h0)
    case (Some a)
    then have "h = Some a" "s' = s" using assms h0 by (simp_all add: attribute_create_def)
    then show ?thesis using existing h0 Some by simp
  next
    case None
    obtain p s1 where al: "alloc s = (p, s1)" by fastforce
    note s1 = alloc_cases[OF al]
    show ?thesis
    proof (cases p)
      case None
      then have "h = None" "s' = s1"
        using assms h0 \<open>h0 = None\<close> al by (simp_all add: attribute_create_def)
      then show ?thesis using no_mem h0 \<open>h0 = None\<close> s1(1) by simp
    next
      case (Some a)
      then have a: "a = mem_next (mem s)" using s1(2) by simp
      define s2 where "s2 = put_attr a (new_attribute cl i flags (av_type v) mx) s1"
      show ?thesis
      proof (cases "has_flag flags ATTRIBUTE_FLAG_MANAGED_INTERNALLY")
        case True
        let ?at = "\<lparr>at_flags = flags, at_type = av_type v, at_id = i, at_ext = None\<rparr>"
        have "h = Some a" "s' = put_cluster c (cl\<lparr>cl_attributes := cl_attributes cl @ [a]\<rparr>) (put_attr a ?at s1)"
          using assms h0 \<open>h0 = None\<close> al Some True by (auto simp: attribute_create_def)
        then show ?thesis
          using created[of a ?at] h0 \<open>h0 = None\<close> a s1(1) True by (simp add: at_ok_def)
      next
        case False
        obtain s4 where i: "init_value E a flags (with_max_size v mx) s2 = Some s4"
            and h: "h = Some a" "s' = put_cluster c (cl\<lparr>cl_attributes := cl_attributes cl @ [a]\<rparr>) s4"
          using assms h0 \<open>h0 = None\<close> al Some False
          by (auto simp: attribute_create_def s2_def[symmetric] split: bind_splits)
        note s4 = init_value_only_attr[OF i]
        obtain at where at: "ats s4 a = Some at"
            "same_decl (new_attribute cl i flags (av_type v) mx) at"
          using s4 by (auto simp: only_attr_def s2_def)
        have ats: "ats s4 = (ats s)(a \<mapsto> at)"
          using s4 at s1(1) by (auto simp: only_attr_def s2_def)
        have "at_ok cl at" "\<And>x. at_ext at = Some x \<Longrightarrow> x_bounds x = None"
            "at_id at = i" "at_type at = av_type v" "at_flags at = flags"
          using at(2) False by (auto simp: same_decl_def new_attribute_def at_ok_def)
        moreover have "mem_next (mem s) < mem_next (mem s4)"
            "node s4 = node s" "eps s4 = eps s" "cls s4 = cls s" "cms s4 = cms s" "evs s4 = evs s"
          using s4 s1(1) by (auto simp: only_attr_def s2_def)
        ultimately show ?thesis
          using created[of a at] h0 \<open>h0 = None\<close> a h ats by simp
      qed
    qed
  qed
qed

text \<open>Replacing a cluster by one with the same path keeps the layers its lists do not matter to.\<close>

lemma cluster_update_layers:
  assumes "dm_inv s" "cls s c = Some cl" "cl_id cl' = cl_id cl" "cl_ep cl' = cl_ep cl"
  shows "owns (\<lambda>e c. cl_ep c = ep_id e) (\<lambda>c d. cl_id c \<noteq> cl_id d) ep_clusters (eps s) ((cls s)(c \<mapsto> cl'))"
    and "cl_attributes cl' = cl_attributes cl \<Longrightarrow>
      owns at_ok (\<lambda>a b. at_id a \<noteq> at_id b) cl_attributes ((cls s)(c \<mapsto> cl')) (ats s)"
    and "cl_commands cl' = cl_commands cl \<Longrightarrow>
      owns (\<lambda>_ _. True) cm_sep cl_commands ((cls s)(c \<mapsto> cl')) (cms s)"
    and "cl_events cl' = cl_events cl \<Longrightarrow>
      owns (\<lambda>_ _. True) (\<lambda>e f. ev_id e \<noteq> ev_id f) cl_events ((cls s)(c \<mapsto> cl')) (evs s)"
proof -
  note inv = assms(1)[unfolded dm_inv_def layer_defs]
  show "owns (\<lambda>e c. cl_ep c = ep_id e) (\<lambda>c d. cl_id c \<noteq> cl_id d) ep_clusters (eps s) ((cls s)(c \<mapsto> cl'))"
    using inv assms(2-4) by (intro owns_update_child[where c = cl]) auto
  show "cl_attributes cl' = cl_attributes cl \<Longrightarrow>
      owns at_ok (\<lambda>a b. at_id a \<noteq> at_id b) cl_attributes ((cls s)(c \<mapsto> cl')) (ats s)"
    using inv assms(2-4) by (intro owns_update_parent[where p = cl]) (auto simp: at_ok_def)
  show "cl_commands cl' = cl_commands cl \<Longrightarrow>
      owns (\<lambda>_ _. True) cm_sep cl_commands ((cls s)(c \<mapsto> cl')) (cms s)"
    using inv assms(2) by (intro owns_update_parent[where p = cl]) auto
  show "cl_events cl' = cl_events cl \<Longrightarrow>
      owns (\<lambda>_ _. True) (\<lambda>e f. ev_id e \<noteq> ev_id f) cl_events ((cls s)(c \<mapsto> cl')) (evs s)"
    using inv assms(2) by (intro owns_update_parent[where p = cl]) auto
qed

lemma inv_live_below:
  assumes "dm_inv s"
  shows "eps s a = Some e \<Longrightarrow> a < mem_next (mem s)" "cls s a = Some cl \<Longrightarrow> a < mem_next (mem s)"
    "ats s a = Some at \<Longrightarrow> a < mem_next (mem s)" "cms s a = Some cm \<Longrightarrow> a < mem_next (mem s)"
    "evs s a = Some ev \<Longrightarrow> a < mem_next (mem s)"
  using inv_fresh[OF assms] unfolding fresh_above_def by (metis not_le option.distinct(1))+

lemma inv_next_free:
  assumes "dm_inv s"
  shows "eps s (mem_next (mem s)) = None" "cls s (mem_next (mem s)) = None"
    "ats s (mem_next (mem s)) = None" "cms s (mem_next (mem s)) = None" "evs s (mem_next (mem s)) = None"
  using inv_fresh[OF assms] unfolding fresh_above_def by blast+

lemma attribute_create_inv:
  assumes r: "attribute_create E (Some c) i flags v mx s = Some (h, s')" and inv: "dm_inv s"
  shows "dm_inv s'"
proof -
  obtain cl where cl: "cls s c = Some cl"
    using r by (auto simp: attribute_create_def split: bind_splits)
  from r cl show ?thesis
  proof (cases rule: attribute_create_cases)
    case existing then show ?thesis using inv by simp
  next
    case no_mem
    then show ?thesis by (intro inv_cong[OF inv]) simp_all
  next
    case (created a at)
    note lay = inv[unfolded dm_inv_def layer_defs]
    let ?cl = "cl\<lparr>cl_attributes := cl_attributes cl @ [a]\<rparr>"
    have none: "at_id d \<noteq> i" if "y \<in> set (cl_attributes cl)" "ats s y = Some d" for y d
      using attribute_get_exact[OF inv cl, of i] created(2) that by auto
    have "owns at_ok (\<lambda>a b. at_id a \<noteq> at_id b) cl_attributes ((cls s)(c \<mapsto> ?cl)) ((ats s)(a \<mapsto> at))"
    proof (rule owns_add_child)
      show "ats s a = None" using inv_next_free[OF inv] created(3) by simp
      show "at_ok ?cl at" using created(8) by (simp add: at_ok_def)
      show "at_id at \<noteq> at_id d \<and> at_id d \<noteq> at_id at" if "y \<in> set (cl_attributes cl)" "ats s y = Some d" for y d
        using none[OF that] created(5) by simp
    qed (use lay cl in \<open>auto simp: at_ok_def\<close>)
    moreover have "fresh_above s'"
      using inv_fresh[OF inv] created inv_live_below(2)[OF inv cl] by (auto simp: fresh_above_def)
    ultimately show ?thesis
      using cluster_update_layers[OF inv cl, of ?cl] lay created(4,10-14)
      unfolding dm_inv_def layer_defs by simp
  qed
qed

lemma attribute_create_NULL [simp]: "attribute_create E None i flags v mx s = Some (None, s)"
  by (simp add: attribute_create_def)

text \<open>After creation the attribute is found, and lookups of other ids are as before.\<close>

lemma attribute_create_get:
  assumes r: "attribute_create E (Some c) i flags v mx s = Some (Some a, s')" and inv: "dm_inv s"
  shows "attribute_get s' (Some c) i = Some (Some a)"
    and "j \<noteq> i \<Longrightarrow> attribute_get s' (Some c) j = attribute_get s (Some c) j"
proof -
  obtain cl where cl: "cls s c = Some cl"
    using r by (auto simp: attribute_create_def split: bind_splits)
  note inv' = attribute_create_inv[OF r inv]
  have "attribute_get s' (Some c) i = Some (Some a) \<and>
    (j \<noteq> i \<longrightarrow> attribute_get s' (Some c) j = attribute_get s (Some c) j)"
    using r cl
  proof (cases rule: attribute_create_cases)
    case (created b at)
    let ?cl = "cl\<lparr>cl_attributes := cl_attributes cl @ [a]\<rparr>"
    have b: "b = a" using created(1) by simp
    have cl': "cls s' c = Some ?cl" using created(10) b by simp
    have at: "ats s' a = Some at" using created(4) b by simp
    have old: "y \<in> set (cl_attributes cl) \<Longrightarrow> ats s' y = ats s y" for y
      using created(3,4) b owns_live[OF inv_at[OF inv, unfolded at_layer_def] cl, of y]
        inv_next_free[OF inv] by auto
    have "attribute_get s' (Some c) i = Some (Some a)"
      using attribute_get_exact[OF inv' cl', of i] at created(5) by auto
    moreover have "attribute_get s' (Some c) j = attribute_get s (Some c) j" if "j \<noteq> i"
    proof -
      obtain h h' where h: "attribute_get s (Some c) j = Some h" "attribute_get s' (Some c) j = Some h'"
          "\<And>y. h = Some y \<longleftrightarrow> y \<in> set (cl_attributes cl) \<and> (\<exists>at. ats s y = Some at \<and> at_id at = j)"
          "\<And>y. h' = Some y \<longleftrightarrow> y \<in> set (cl_attributes ?cl) \<and> (\<exists>at. ats s' y = Some at \<and> at_id at = j)"
        using attribute_get_exact[OF inv cl, of j] attribute_get_exact[OF inv' cl', of j] by auto
      have "h' = Some y \<longleftrightarrow> h = Some y" for y
        using h(3)[of y] h(4)[of y] old[of y] at created(5) that by auto
      then have "h' = h" by (rule option_eqI)
      then show ?thesis using h by simp
    qed
    ultimately show ?thesis by blast
  qed auto
  then show "attribute_get s' (Some c) i = Some (Some a)"
    and "j \<noteq> i \<Longrightarrow> attribute_get s' (Some c) j = attribute_get s (Some c) j" by blast+
qed

lemma attribute_create_parent:
  "attribute_create E (Some c) i flags v mx s = Some (h, s') \<Longrightarrow> cls s c = Some cl \<Longrightarrow> \<exists>cl'. cls s' c = Some cl'"
  by (erule attribute_create_cases) auto

lemma attribute_get_mem [simp]: "attribute_get (s\<lparr>mem := m\<rparr>) ch i = attribute_get s ch i"
  by (cases ch) (simp_all add: attribute_get_def)

interpretation attrs: quiet_child_table "\<lambda>s. dm_inv s \<and> cls s c \<noteq> None" "\<lambda>s. attribute_get s (Some c)"
  "\<lambda>i (flags, v, mx). attribute_create E (Some c) i flags v mx" for c E
proof (unfold_locales, goal_cases)
  case (1 s k x h s')
  then show ?case using attribute_create_inv attribute_create_parent by (cases x) fastforce
next
  case (2 s k x a s')
  then show ?case using attribute_create_get(1) by (cases x) fastforce
next
  case (3 s k x h s' j)
  obtain flags v mx where x: "x = (flags, v, mx)" by (cases x)
  obtain cl where cl: "cls s c = Some cl" using 3 by auto
  have r: "attribute_create E (Some c) k flags v mx s = Some (h, s')" using 3 x by simp
  show ?case
  proof (cases h)
    case None
    from r cl show ?thesis by (rule attribute_create_cases) (use None in auto)
  next
    case (Some a)
    then show ?thesis using attribute_create_get(2) r 3 by blast
  qed
next
  case (4 s k a x h s')
  then show ?case by (cases x) (auto simp: attribute_create_def)
next
  case (5 s k a x)
  then show ?case by (cases x) (auto simp: attribute_create_def)
qed



section \<open>Destruction\<close>

lemma inv_remove_attribute:
  assumes inv: "dm_inv s" and cl: "cls s c = Some cl" and a: "a \<in> set (cl_attributes cl)"
    and t: "node t = node s" "eps t = eps s" "cms t = cms s" "evs t = evs s" "mem t = mem s"
      "cls t = (cls s)(c \<mapsto> cl\<lparr>cl_attributes := remove1 a (cl_attributes cl)\<rparr>)"
      "ats t = (ats s)(a := None)"
  shows "dm_inv t"
proof -
  note lay = inv[unfolded dm_inv_def layer_defs]
  let ?cl = "cl\<lparr>cl_attributes := remove1 a (cl_attributes cl)\<rparr>"
  have "owns at_ok (\<lambda>a b. at_id a \<noteq> at_id b) cl_attributes ((cls s)(c \<mapsto> ?cl)) ((ats s)(a := None))"
    using lay cl a by (intro owns_remove_child[where p = cl]) (auto simp: at_ok_def)
  moreover have "fresh_above t"
    using inv_fresh[OF inv] inv_live_below(2)[OF inv cl] t by (auto simp: fresh_above_def)
  ultimately show ?thesis
    using cluster_update_layers[OF inv cl, of ?cl] lay t unfolding dm_inv_def layer_defs by simp
qed

lemma attribute_destroy_effect:
  assumes inv: "dm_inv s" and cl: "cls s c = Some cl" and a: "a \<in> set (cl_attributes cl)"
    and at: "ats s a = Some at"
  obtains s' where "attribute_destroy E (Some c) (Some a) s = Some (ESP_OK, s')" "dm_inv s'"
    "cls s' = (cls s)(c \<mapsto> cl\<lparr>cl_attributes := remove1 a (cl_attributes cl)\<rparr>)"
    "ats s' = (ats s)(a := None)" "eps s' = eps s" "timers s' = timers s"
    "nvs s' = (if has_flag (at_flags at) ATTRIBUTE_FLAG_NONVOLATILE \<and>
                 \<not> has_flag (at_flags at) ATTRIBUTE_FLAG_MANAGED_INTERNALLY
               then snd (erase_val_in_nvs (e_nvs E) (e_b64 E) (cl_ep cl) (cl_id cl) (at_id at) (nvs s))
               else nvs s)"
proof -
  have ok: "at_ok cl at" using owns_rel[OF inv_at[OF inv, unfolded at_layer_def] cl a at] .
  have "\<exists>s'. attribute_destroy E (Some c) (Some a) s = Some (ESP_OK, s') \<and>
    node s' = node s \<and> eps s' = eps s \<and> cms s' = cms s \<and> evs s' = evs s \<and> mem s' = mem s \<and>
    timers s' = timers s \<and>
    cls s' = (cls s)(c \<mapsto> cl\<lparr>cl_attributes := remove1 a (cl_attributes cl)\<rparr>) \<and> ats s' = (ats s)(a := None) \<and>
    nvs s' = (if has_flag (at_flags at) ATTRIBUTE_FLAG_NONVOLATILE \<and>
                 \<not> has_flag (at_flags at) ATTRIBUTE_FLAG_MANAGED_INTERNALLY
               then snd (erase_val_in_nvs (e_nvs E) (e_b64 E) (cl_ep cl) (cl_id cl) (at_id at) (nvs s))
               else nvs s)"
    using cl a at ok
    by (cases "at_ext at") (auto simp: attribute_destroy_def free_attribute_def at_ok_def)
  then show ?thesis using that inv_remove_attribute[OF inv cl a] by blast
qed



text \<open>C33: destroying an attribute does not cancel its deferred write.  If the timer of deferred
  persistence is running when the attribute is destroyed, it stays armed, and when it fires it
  reads the freed attribute.\<close>

theorem deferred_write_after_destroy:
  assumes "dm_inv s" "cls s c = Some cl" "a \<in> set (cl_attributes cl)" "a \<in> set (timers s)"
  shows "\<exists>s'. attribute_destroy E (Some c) (Some a) s = Some (ESP_OK, s') \<and> a \<in> set (timers s') \<and>
    deferred_attribute_write E a s' = None"
proof -
  obtain at where at: "ats s a = Some at"
    using owns_live[OF inv_at[OF assms(1), unfolded at_layer_def] assms(2,3)] by blast
  obtain s' where "attribute_destroy E (Some c) (Some a) s = Some (ESP_OK, s')"
      "ats s' = (ats s)(a := None)" "timers s' = timers s"
    using attribute_destroy_effect[OF assms(1-3) at, of E] by metis
  then show ?thesis using assms(4) by (auto simp: deferred_attribute_write_def)
qed

theorem deferred_write_after_destroy_witness:
  "\<exists>s'. attribute_destroy demo_env (Some 3) (Some 4) (demo\<lparr>timers := [4]\<rparr>) = Some (ESP_OK, s') \<and>
     4 \<in> set (timers s') \<and> deferred_attribute_write demo_env 4 s' = None"
  by (rule deferred_write_after_destroy[of _ _ demo_cluster])
     (auto simp: demo_cluster_def intro: inv_cong[OF demo_inv])

end
