(* ===== verification/EM_Command.thy ===== *)
theory EM_Command
  imports EM_AttributeLife
begin

text \<open>
  Commands and events: namespaces \<open>command\<close> and \<open>event\<close> of \<open>data_model/esp_matter_data_model.cpp\<close>.
  A command is identified by its id together with its direction flags, an event by its id.
  Removal follows \<open>SinglyLinkedList::remove\<close>, which goes wrong on a node that is not in the list.
\<close>

section \<open>Commands\<close>

definition command_create ::
    "handle \<Rightarrow> u32 \<Rightarrow> u8 \<Rightarrow> fnptr option \<Rightarrow> 'n dm \<Rightarrow> (handle \<times> 'n dm) option" where
  "command_create ch command_id flags callback s =
     (case ch of
        None \<Rightarrow> Some (None, s)
      | Some c \<Rightarrow> do {
          cl \<leftarrow> cls s c;
          existing_command \<leftarrow> command_get s ch command_id (ucast flags);
          if existing_command \<noteq> None then Some (existing_command, s)
          else
            (let (p, s1) = alloc s in
             case p of
               None \<Rightarrow> Some (None, s1)
             | Some a \<Rightarrow>
                 Some (Some a,
                   put_cluster c (cl\<lparr>cl_commands := cl_commands cl @ [a]\<rparr>)
                     (s1\<lparr>cms := (cms s1)(a \<mapsto> \<lparr>cm_id = command_id, cm_flags = ucast flags,
                        cm_callback = callback, cm_user_callback = None\<rparr>)\<rparr>))) })"

definition command_destroy :: "handle \<Rightarrow> handle \<Rightarrow> 'n dm \<Rightarrow> (esp_err \<times> 'n dm) option" where
  "command_destroy ch h s =
     (case (ch, h) of
        (Some c, Some a) \<Rightarrow> do {
          cl \<leftarrow> cls s c;
          if a \<in> set (cl_commands cl) then
            Some (ESP_OK, put_cluster c (cl\<lparr>cl_commands := remove1 a (cl_commands cl)\<rparr>)
                            (s\<lparr>cms := (cms s)(a := None)\<rparr>))
          else None }
      | _ \<Rightarrow> Some (ESP_ERR_INVALID_ARG, s))"

definition command_get_id :: "'n dm \<Rightarrow> handle \<Rightarrow> u32 option" where
  "command_get_id s h =
     (case h of None \<Rightarrow> Some kInvalidCommandId | Some a \<Rightarrow> do { cm \<leftarrow> cms s a; Some (cm_id cm) })"

definition command_get_callback :: "'n dm \<Rightarrow> handle \<Rightarrow> fnptr option option" where
  "command_get_callback s h =
     (case h of None \<Rightarrow> Some None | Some a \<Rightarrow> do { cm \<leftarrow> cms s a; Some (cm_callback cm) })"

definition command_get_user_callback :: "'n dm \<Rightarrow> handle \<Rightarrow> fnptr option option" where
  "command_get_user_callback s h =
     (case h of None \<Rightarrow> Some None | Some a \<Rightarrow> do { cm \<leftarrow> cms s a; Some (cm_user_callback cm) })"

text \<open>A \<open>NULL\<close> handle is logged but then written through.\<close>

definition command_set_user_callback :: "handle \<Rightarrow> fnptr option \<Rightarrow> 'n dm \<Rightarrow> 'n dm option" where
  "command_set_user_callback h user_callback s = do {
     a \<leftarrow> h;
     cm \<leftarrow> cms s a;
     Some (s\<lparr>cms := (cms s)(a \<mapsto> cm\<lparr>cm_user_callback := user_callback\<rparr>)\<rparr>) }"

definition command_get_flags :: "'n dm \<Rightarrow> handle \<Rightarrow> u16 option" where
  "command_get_flags s h =
     (case h of None \<Rightarrow> Some 0 | Some a \<Rightarrow> do { cm \<leftarrow> cms s a; Some (cm_flags cm) })"

section \<open>Events\<close>

definition event_create :: "handle \<Rightarrow> u32 \<Rightarrow> 'n dm \<Rightarrow> (handle \<times> 'n dm) option" where
  "event_create ch event_id s =
     (case ch of
        None \<Rightarrow> Some (None, s)
      | Some c \<Rightarrow> do {
          cl \<leftarrow> cls s c;
          existing_event \<leftarrow> event_get s ch event_id;
          if existing_event \<noteq> None then Some (existing_event, s)
          else
            (let (p, s1) = alloc s in
             case p of
               None \<Rightarrow> Some (None, s1)
             | Some a \<Rightarrow>
                 Some (Some a,
                   put_cluster c (cl\<lparr>cl_events := cl_events cl @ [a]\<rparr>)
                     (s1\<lparr>evs := (evs s1)(a \<mapsto> \<lparr>ev_id = event_id\<rparr>)\<rparr>))) })"

definition event_destroy :: "handle \<Rightarrow> handle \<Rightarrow> 'n dm \<Rightarrow> (esp_err \<times> 'n dm) option" where
  "event_destroy ch h s =
     (case (ch, h) of
        (Some c, Some a) \<Rightarrow> do {
          cl \<leftarrow> cls s c;
          if a \<in> set (cl_events cl) then
            Some (ESP_OK, put_cluster c (cl\<lparr>cl_events := remove1 a (cl_events cl)\<rparr>)
                            (s\<lparr>evs := (evs s)(a := None)\<rparr>))
          else None }
      | _ \<Rightarrow> Some (ESP_ERR_INVALID_ARG, s))"

definition event_get_id :: "'n dm \<Rightarrow> handle \<Rightarrow> u32 option" where
  "event_get_id s h =
     (case h of None \<Rightarrow> Some kInvalidEventId | Some a \<Rightarrow> do { ev \<leftarrow> evs s a; Some (ev_id ev) })"

section \<open>The shape of the store\<close>

lemma alloc_Some:
  "alloc s = (Some a, s1) \<Longrightarrow> s1 = s\<lparr>mem := snd (mem_calloc (mem s))\<rparr> \<and> a = mem_next (mem s)"
  using alloc_cases by blast

lemma command_get_exact:
  assumes "dm_inv s" "cls s c = Some cl"
  shows "\<exists>h. command_get s (Some c) i f = Some h \<and>
    (h = None \<longleftrightarrow> (\<forall>a \<in> set (cl_commands cl). \<forall>cm. cms s a = Some cm \<longrightarrow>
       \<not> (cm_id cm = i \<and> has_flag (cm_flags cm) f)))"
proof -
  let ?q = "\<lambda>a. cm_id (the (cms s a)) = i \<and> has_flag (cm_flags (the (cms s a))) f"
  have live: "\<exists>cm. cms s a = Some cm" if "a \<in> set (cl_commands cl)" for a
    using owns_live[OF inv_cm[OF assms(1), unfolded cm_layer_def] assms(2) that] .
  have "find_m (\<lambda>a. do { cm \<leftarrow> cms s a; Some (cm_id cm = i \<and> has_flag (cm_flags cm) f) }) (cl_commands cl) =
      Some (find ?q (cl_commands cl))"
    using live by (intro find_m_find) fastforce
  moreover have "find ?q (cl_commands cl) = None \<longleftrightarrow> (\<forall>a \<in> set (cl_commands cl). \<forall>cm. cms s a = Some cm \<longrightarrow>
       \<not> (cm_id cm = i \<and> has_flag (cm_flags cm) f))"
    unfolding find_None_iff using live by (metis option.sel)
  ultimately show ?thesis using assms(2) by (simp add: command_get_def)
qed

lemma command_create_inv:
  assumes r: "command_create (Some c) i flags callback s = Some (h, s')" and inv: "dm_inv s"
  shows "dm_inv s'"
proof -
  obtain cl h0 where cl: "cls s c = Some cl" and g: "command_get s (Some c) i (ucast flags) = Some h0"
    using r by (auto simp: command_create_def split: bind_splits)
  obtain p s1 where al: "alloc s = (p, s1)" by fastforce
  consider "s' = s" | "s' = s1" "p = None" | a where "h0 = None" "p = Some a"
      "s' = put_cluster c (cl\<lparr>cl_commands := cl_commands cl @ [a]\<rparr>)
         (s1\<lparr>cms := (cms s1)(a \<mapsto> \<lparr>cm_id = i, cm_flags = ucast flags,
            cm_callback = callback, cm_user_callback = None\<rparr>)\<rparr>)"
    using r cl g al by (cases p) (auto simp: command_create_def split: if_splits)
  then show ?thesis
  proof cases
    case 1 then show ?thesis using inv by simp
  next
    case 2 then show ?thesis using alloc_cases(1)[OF al] by (intro inv_cong[OF inv]) simp_all
  next
    case (3 a)
    have s1: "s1 = s\<lparr>mem := snd (mem_calloc (mem s))\<rparr>" "a = mem_next (mem s)"
      using alloc_Some al 3(2) by blast+
    note lay = inv[unfolded dm_inv_def layer_defs]
    let ?cl = "cl\<lparr>cl_commands := cl_commands cl @ [a]\<rparr>"
    let ?cm = "\<lparr>cm_id = i, cm_flags = ucast flags, cm_callback = callback, cm_user_callback = None\<rparr>"
    have "\<not> (cm_id d = i \<and> has_flag (cm_flags d) (ucast flags))"
      if "y \<in> set (cl_commands cl)" "cms s y = Some d" for y d
      using command_get_exact[OF inv cl, of i "ucast flags"] g 3(1) that by auto
    then have sep: "cm_sep ?cm d \<and> cm_sep d ?cm" if "y \<in> set (cl_commands cl)" "cms s y = Some d" for y d
      using that by (fastforce simp: cm_sep_def has_flag_def and.commute)
    have "owns (\<lambda>_ _. True) cm_sep cl_commands ((cls s)(c \<mapsto> ?cl)) ((cms s)(a \<mapsto> ?cm))"
      by (rule owns_add_child[where p = cl])
         (use lay cl inv_next_free[OF inv] s1(2) sep in auto)
    moreover have "fresh_above s'"
      using inv_fresh[OF inv] inv_live_below(2)[OF inv cl] 3(3) s1 by (auto simp: fresh_above_def)
    ultimately show ?thesis
      using cluster_update_layers[OF inv cl, of ?cl] lay 3(3) s1
      unfolding dm_inv_def layer_defs by simp
  qed
qed

lemma event_create_cases:
  assumes r: "event_create (Some c) i s = Some (h, s')" and cl: "cls s c = Some cl"
  obtains (existing) a where "h = Some a" "event_get s (Some c) i = Some (Some a)" "s' = s"
  | (no_mem) "h = None" "event_get s (Some c) i = Some None" "s' = s\<lparr>mem := snd (mem_calloc (mem s))\<rparr>"
  | (created) a where "h = Some a" "event_get s (Some c) i = Some None" "a = mem_next (mem s)"
      "s' = put_cluster c (cl\<lparr>cl_events := cl_events cl @ [a]\<rparr>)
         (s\<lparr>mem := snd (mem_calloc (mem s)), evs := (evs s)(a \<mapsto> \<lparr>ev_id = i\<rparr>)\<rparr>)"
proof -
  obtain h0 where g: "event_get s (Some c) i = Some h0"
    using r by (auto simp: event_create_def split: bind_splits)
  obtain p s1 where al: "alloc s = (p, s1)" by fastforce
  show ?thesis
  proof (cases h0)
    case (Some a)
    then have "h = Some a" "s' = s" using r cl g by (simp_all add: event_create_def)
    then show ?thesis using existing g Some by simp
  next
    case None
    show ?thesis
    proof (cases p)
      case None
      then have "h = None" "s' = s1"
        using r cl g \<open>h0 = None\<close> al by (simp_all add: event_create_def)
      then show ?thesis using no_mem g \<open>h0 = None\<close> alloc_cases(1)[OF al] by simp
    next
      case (Some a)
      have s1: "s1 = s\<lparr>mem := snd (mem_calloc (mem s))\<rparr>" "a = mem_next (mem s)"
        using alloc_Some al Some by blast+
      have "h = Some a" "s' = put_cluster c (cl\<lparr>cl_events := cl_events cl @ [a]\<rparr>)
         (s\<lparr>mem := snd (mem_calloc (mem s)), evs := (evs s)(a \<mapsto> \<lparr>ev_id = i\<rparr>)\<rparr>)"
        using r cl g \<open>h0 = None\<close> al Some s1(1) by (simp_all add: event_create_def)
      then show ?thesis using created g \<open>h0 = None\<close> s1(2) by simp
    qed
  qed
qed

lemma event_create_inv:
  assumes r: "event_create (Some c) i s = Some (h, s')" and inv: "dm_inv s"
  shows "dm_inv s'"
proof -
  obtain cl where cl: "cls s c = Some cl"
    using r by (auto simp: event_create_def split: bind_splits)
  from r cl show ?thesis
  proof (cases rule: event_create_cases)
    case existing then show ?thesis using inv by simp
  next
    case no_mem then show ?thesis by (intro inv_cong[OF inv]) simp_all
  next
    case (created a)
    note lay = inv[unfolded dm_inv_def layer_defs]
    let ?cl = "cl\<lparr>cl_events := cl_events cl @ [a]\<rparr>"
    have none: "ev_id d \<noteq> i" if "y \<in> set (cl_events cl)" "evs s y = Some d" for y d
      using event_get_exact[OF inv cl, of i] created(2) that by auto
    have "owns (\<lambda>_ _. True) (\<lambda>e f. ev_id e \<noteq> ev_id f) cl_events ((cls s)(c \<mapsto> ?cl))
        ((evs s)(a \<mapsto> \<lparr>ev_id = i\<rparr>))"
    proof (rule owns_add_child[where p = cl])
      show "ev_id \<lparr>ev_id = i\<rparr> \<noteq> ev_id d \<and> ev_id d \<noteq> ev_id \<lparr>ev_id = i\<rparr>"
        if "y \<in> set (cl_events cl)" "evs s y = Some d" for y d
        using none[OF that] by simp
    qed (use lay cl inv_next_free[OF inv] created(3) in auto)
    moreover have "fresh_above s'"
      using inv_fresh[OF inv] inv_live_below(2)[OF inv cl] created(3,4) by (auto simp: fresh_above_def)
    ultimately show ?thesis
      using cluster_update_layers[OF inv cl, of ?cl] lay created(4)
      unfolding dm_inv_def layer_defs by simp
  qed
qed

lemma event_create_get:
  assumes r: "event_create (Some c) i s = Some (h, s')" and inv: "dm_inv s" and cl: "cls s c = Some cl"
  shows "h = Some a \<Longrightarrow> event_get s' (Some c) i = Some (Some a)"
    and "j \<noteq> i \<Longrightarrow> event_get s' (Some c) j = event_get s (Some c) j"
proof -
  note inv' = event_create_inv[OF r inv]
  have "(h = Some a \<longrightarrow> event_get s' (Some c) i = Some (Some a)) \<and>
    (j \<noteq> i \<longrightarrow> event_get s' (Some c) j = event_get s (Some c) j)"
    using r cl
  proof (cases rule: event_create_cases)
    case (created b)
    let ?cl = "cl\<lparr>cl_events := cl_events cl @ [b]\<rparr>"
    have cl': "cls s' c = Some ?cl" and ev: "evs s' b = Some \<lparr>ev_id = i\<rparr>" using created(4) by simp_all
    have old: "evs s' y = evs s y" if "y \<in> set (cl_events cl)" for y
      using created(3,4) owns_live[OF inv_ev[OF inv, unfolded ev_layer_def] cl that]
        inv_next_free[OF inv] by auto
    have "event_get s' (Some c) i = Some (Some b)"
      using event_get_exact[OF inv' cl', of i] ev by auto
    moreover have "event_get s' (Some c) j = event_get s (Some c) j" if "j \<noteq> i"
    proof -
      obtain h h' where h: "event_get s (Some c) j = Some h" "event_get s' (Some c) j = Some h'"
          "\<And>y. h = Some y \<longleftrightarrow> y \<in> set (cl_events cl) \<and> (\<exists>ev. evs s y = Some ev \<and> ev_id ev = j)"
          "\<And>y. h' = Some y \<longleftrightarrow> y \<in> set (cl_events ?cl) \<and> (\<exists>ev. evs s' y = Some ev \<and> ev_id ev = j)"
        using event_get_exact[OF inv cl, of j] event_get_exact[OF inv' cl', of j] by auto
      have "h' = h"
        by (rule option_eqI) (use h(3,4) old ev that in auto)
      then show ?thesis using h by simp
    qed
    ultimately show ?thesis using created(1) by auto
  qed (auto simp: event_get_def)
  then show "h = Some a \<Longrightarrow> event_get s' (Some c) i = Some (Some a)"
    and "j \<noteq> i \<Longrightarrow> event_get s' (Some c) j = event_get s (Some c) j" by blast+
qed

interpretation events: quiet_child_table "\<lambda>s. dm_inv s \<and> cls s c \<noteq> None" "\<lambda>s. event_get s (Some c)"
  "\<lambda>i (_ :: unit). event_create (Some c) i" for c
proof (unfold_locales, goal_cases)
  case (1 s k x h s')
  then obtain cl where cl: "cls s c = Some cl" by auto
  have "cls s' c \<noteq> None" by (rule event_create_cases[OF _ cl]) (use 1 cl in auto)
  then show ?case using 1 event_create_inv by blast
next
  case (2 s k x a s')
  then show ?case using event_create_get(1) by blast
next
  case (3 s k x h s' j)
  then show ?case using event_create_get(2) by blast
next
  case (4 s k a x h s')
  then show ?case by (auto simp: event_create_def)
next
  case (5 s k a x)
  then show ?case by (auto simp: event_create_def)
qed

text \<open>Declaring the events of a cluster.  Creating events one after the other makes each of
  them reachable under its id, and declaring the same events again changes nothing.\<close>

theorem event_table:
  assumes "dm_inv s" "cls s c \<noteq> None"
    and "create_all (\<lambda>i (_ :: unit). event_create (Some c) i) ds s = Some (hs, s')" "None \<notin> set hs"
  shows "list_all2 (\<lambda>d h. event_get s' (Some c) (fst d) = Some h) ds hs \<and> dm_inv s' \<and>
    create_all (\<lambda>i (_ :: unit). event_create (Some c) i) ds s' = Some (hs, s')"
  using events.create_all_found[of s c ds hs s'] events.create_all_ok[of s c ds hs s']
    events.create_all_idem[of s c ds hs s'] assms by blast

theorem event_table_witness:
  "\<exists>h s'. create_all (\<lambda>i (_ :: unit). event_create (Some 3) i) [(4, ())] demo = Some ([Some h], s') \<and>
     event_get s' (Some 3) 4 = Some (Some h)"
proof -
  obtain h s' where r: "create_all (\<lambda>i (_ :: unit). event_create (Some 3) i) [(4, ())] demo = Some ([Some h], s')"
    by (auto simp: event_create_def event_get_def demo_cluster_def alloc_def mem_calloc_def)
  show ?thesis using event_table[OF demo_inv _ r] r by auto
qed

section \<open>Creating and destroying commands\<close>

lemma command_create_new:
  assumes r: "command_create (Some c) i flags callback s = Some (Some a, s')" and cl: "cls s c = Some cl"
    and new: "command_get s (Some c) i (ucast flags) = Some None"
  shows "a = mem_next (mem s)"
    and "s' = put_cluster c (cl\<lparr>cl_commands := cl_commands cl @ [a]\<rparr>)
      (s\<lparr>mem := snd (mem_calloc (mem s)), cms := (cms s)(a \<mapsto> \<lparr>cm_id = i, cm_flags = ucast flags,
         cm_callback = callback, cm_user_callback = None\<rparr>)\<rparr>)"
proof -
  obtain p s1 where al: "alloc s = (p, s1)" by fastforce
  have p: "p = Some a" using r cl new al by (cases p) (simp_all add: command_create_def)
  note s1 = alloc_Some[OF al[unfolded p]]
  then show "a = mem_next (mem s)" by simp
  show "s' = put_cluster c (cl\<lparr>cl_commands := cl_commands cl @ [a]\<rparr>)
      (s\<lparr>mem := snd (mem_calloc (mem s)), cms := (cms s)(a \<mapsto> \<lparr>cm_id = i, cm_flags = ucast flags,
         cm_callback = callback, cm_user_callback = None\<rparr>)\<rparr>)"
    using r cl new al p s1 by (simp add: command_create_def)
qed

lemma ucast_flags: "has_flag (ucast (flags :: u8) :: u16) (ucast flags) \<longleftrightarrow> flags \<noteq> 0"
proof -
  have "flags = 0" if z: "(ucast flags :: u16) = 0"
  proof (rule bit_word_eqI)
    fix n assume "n < LENGTH(8)"
    then have "bit flags n \<longleftrightarrow> bit (ucast flags :: u16) n" by (simp add: bit_unsigned_iff)
    then show "bit flags n = bit 0 n" using z by simp
  qed
  then have "(ucast flags :: u16) = 0 \<longleftrightarrow> flags = 0" by auto
  then show ?thesis by simp
qed



end
