(* ===== verification/EM_Cluster.thy ===== *)
theory EM_Cluster
  imports EM_Command
begin

text \<open>
  Clusters: namespace \<open>cluster\<close> of \<open>data_model/esp_matter_data_model.cpp\<close>.  Creation merges the
  flags of an existing cluster; destruction frees the commands, attributes and events of the
  cluster and takes it out of the endpoint that holds it.
\<close>

section \<open>Operations\<close>

definition put_endpoint :: "addr \<Rightarrow> endpoint_t \<Rightarrow> 'n dm \<Rightarrow> 'n dm" where
  "put_endpoint a e s = s\<lparr>eps := (eps s)(a \<mapsto> e)\<rparr>"

lemma put_endpoint_simps [simp]:
  "node (put_endpoint a e s) = node s" "eps (put_endpoint a e s) = (eps s)(a \<mapsto> e)"
  "cls (put_endpoint a e s) = cls s" "ats (put_endpoint a e s) = ats s"
  "cms (put_endpoint a e s) = cms s" "evs (put_endpoint a e s) = evs s"
  "mem (put_endpoint a e s) = mem s" "nvs (put_endpoint a e s) = nvs s"
  "started (put_endpoint a e s) = started s" "timers (put_endpoint a e s) = timers s"
  "log (put_endpoint a e s) = log s" "attribute_callback (put_endpoint a e s) = attribute_callback s"
  "identification_callback (put_endpoint a e s) = identification_callback s"
  by (simp_all add: put_endpoint_def)

definition new_cluster :: "u32 \<Rightarrow> u16 \<Rightarrow> u8 \<Rightarrow> u32 \<Rightarrow> cluster_t" where
  "new_cluster cluster_id endpoint_id flags version =
     \<lparr>cl_id = cluster_id, cl_ep = endpoint_id, cl_flags = flags, cl_functions = None,
      cl_plugin_init = None, cl_delegate_init = None, cl_delegate = None, cl_add_bounds = None,
      cl_init = None, cl_shutdown = None, cl_version = version, cl_attributes = [],
      cl_commands = [], cl_events = []\<rparr>"

definition cluster_create ::
    "'n env \<Rightarrow> handle \<Rightarrow> u32 \<Rightarrow> u8 \<Rightarrow> 'n dm \<Rightarrow> (handle \<times> 'n dm) option" where
  "cluster_create E eh cluster_id flags s =
     (case eh of
        None \<Rightarrow> Some (None, s)
      | Some p \<Rightarrow>
          if \<not> (has_flag flags CLUSTER_FLAG_SERVER \<or> has_flag flags CLUSTER_FLAG_CLIENT) then Some (None, s)
          else do {
            e \<leftarrow> eps s p;
            existing_cluster \<leftarrow> cluster_get s eh cluster_id;
            (case existing_cluster of
               Some c \<Rightarrow> do {
                 cl \<leftarrow> cls s c;
                 Some (Some c, put_cluster c (cl\<lparr>cl_flags := cl_flags cl OR flags\<rparr>) s) }
             | None \<Rightarrow>
                 (let (q, s1) = alloc s in
                  case q of
                    None \<Rightarrow> Some (None, s1)
                  | Some c \<Rightarrow>
                      Some (Some c,
                        put_endpoint p (e\<lparr>ep_clusters := ep_clusters e @ [c]\<rparr>)
                          (put_cluster c
                             (new_cluster cluster_id (ep_id e) flags (e_random E (mem_next (mem s)))) s1)))) })"

text \<open>Freeing the nodes of a list one after the other.\<close>

definition delete_list :: "addr list \<Rightarrow> (addr \<Rightarrow> 'a option) \<Rightarrow> (addr \<Rightarrow> 'a option) option" where
  "delete_list xs m =
     (if list_all (\<lambda>x. m x \<noteq> None) xs then Some (\<lambda>x. if x \<in> set xs then None else m x) else None)"

primrec free_attributes :: "'n env \<Rightarrow> addr list \<Rightarrow> 'n dm \<Rightarrow> 'n dm option" where
  "free_attributes E [] s = Some s"
| "free_attributes E (a # as) s = do {
     (_, s1) \<leftarrow> free_attribute E (Some a) s;
     free_attributes E as s1 }"

definition cluster_destroy :: "'n env \<Rightarrow> handle \<Rightarrow> 'n dm \<Rightarrow> (esp_err \<times> 'n dm) option" where
  "cluster_destroy E ch s =
     (case ch of
        None \<Rightarrow> Some (ESP_ERR_INVALID_ARG, s)
      | Some c \<Rightarrow> do {
          cl \<leftarrow> cls s c;
          cms1 \<leftarrow> delete_list (cl_commands cl) (cms s);
          s1 \<leftarrow> free_attributes E (cl_attributes cl) (s\<lparr>cms := cms1\<rparr>);
          evs1 \<leftarrow> delete_list (cl_events cl) (evs s1);
          let s2 = s1\<lparr>evs := evs1\<rparr>;
          parent_endpoint \<leftarrow> endpoint_get_by_id s2 (cl_ep cl);
          (case parent_endpoint of
             Some p \<Rightarrow> do {
               e \<leftarrow> eps s2 p;
               if c \<in> set (ep_clusters e) then
                 Some (ESP_OK, put_endpoint p (e\<lparr>ep_clusters := remove1 c (ep_clusters e)\<rparr>)
                                 (s2\<lparr>cls := (cls s2)(c := None)\<rparr>))
               else None }
           | None \<Rightarrow> Some (ESP_OK, s2\<lparr>cls := (cls s2)(c := None)\<rparr>)) })"

definition cluster_get_id :: "'n dm \<Rightarrow> handle \<Rightarrow> u32 option" where
  "cluster_get_id s ch =
     (case ch of None \<Rightarrow> Some kInvalidClusterId | Some c \<Rightarrow> do { cl \<leftarrow> cls s c; Some (cl_id cl) })"

definition cluster_get_flags :: "'n dm \<Rightarrow> handle \<Rightarrow> u8 option" where
  "cluster_get_flags s ch =
     (case ch of None \<Rightarrow> Some 0 | Some c \<Rightarrow> do { cl \<leftarrow> cls s c; Some (cl_flags cl) })"

definition get_data_version :: "'n dm \<Rightarrow> handle \<Rightarrow> (esp_err \<times> u32 option) option" where
  "get_data_version s ch =
     (case ch of
        None \<Rightarrow> Some (ESP_ERR_INVALID_ARG, None)
      | Some c \<Rightarrow> do { cl \<leftarrow> cls s c; Some (ESP_OK, Some (cl_version cl)) })"

definition update_cluster ::
    "(cluster_t \<Rightarrow> cluster_t) \<Rightarrow> handle \<Rightarrow> 'n dm \<Rightarrow> (esp_err \<times> 'n dm) option" where
  "update_cluster f ch s =
     (case ch of
        None \<Rightarrow> Some (ESP_ERR_INVALID_ARG, s)
      | Some c \<Rightarrow> do { cl \<leftarrow> cls s c; Some (ESP_OK, put_cluster c (f cl) s) })"

definition increase_data_version :: "handle \<Rightarrow> 'n dm \<Rightarrow> (esp_err \<times> 'n dm) option" where
  "increase_data_version = update_cluster (\<lambda>cl. cl\<lparr>cl_version := cl_version cl + 1\<rparr>)"

definition get_delegate_impl :: "'n dm \<Rightarrow> handle \<Rightarrow> handle option" where
  "get_delegate_impl s ch =
     (case ch of None \<Rightarrow> Some None | Some c \<Rightarrow> do { cl \<leftarrow> cls s c; Some (cl_delegate cl) })"

definition set_plugin_server_init_callback ::
    "fnptr option \<Rightarrow> handle \<Rightarrow> 'n dm \<Rightarrow> (esp_err \<times> 'n dm) option" where
  "set_plugin_server_init_callback callback = update_cluster (\<lambda>cl. cl\<lparr>cl_plugin_init := callback\<rparr>)"

definition get_plugin_server_init_callback :: "'n dm \<Rightarrow> handle \<Rightarrow> fnptr option option" where
  "get_plugin_server_init_callback s ch =
     (case ch of None \<Rightarrow> Some None | Some c \<Rightarrow> do { cl \<leftarrow> cls s c; Some (cl_plugin_init cl) })"

definition set_delegate_and_init_callback ::
    "fnptr option \<Rightarrow> handle \<Rightarrow> handle \<Rightarrow> 'n dm \<Rightarrow> (esp_err \<times> 'n dm) option" where
  "set_delegate_and_init_callback callback delegate =
     update_cluster (\<lambda>cl. cl\<lparr>cl_delegate_init := callback, cl_delegate := delegate\<rparr>)"

definition get_delegate_init_callback :: "'n dm \<Rightarrow> handle \<Rightarrow> fnptr option option" where
  "get_delegate_init_callback s ch =
     (case ch of None \<Rightarrow> Some None | Some c \<Rightarrow> do { cl \<leftarrow> cls s c; Some (cl_delegate_init cl) })"

definition set_add_bounds_callback :: "fnptr option \<Rightarrow> handle \<Rightarrow> 'n dm \<Rightarrow> (esp_err \<times> 'n dm) option" where
  "set_add_bounds_callback callback = update_cluster (\<lambda>cl. cl\<lparr>cl_add_bounds := callback\<rparr>)"

definition get_add_bounds_callback :: "'n dm \<Rightarrow> handle \<Rightarrow> fnptr option option" where
  "get_add_bounds_callback s ch =
     (case ch of None \<Rightarrow> Some None | Some c \<Rightarrow> do { cl \<leftarrow> cls s c; Some (cl_add_bounds cl) })"

text \<open>The flags are an \<open>int\<close> in the source and are narrowed to the byte of the cluster.\<close>

definition add_function_list ::
    "fnptr option list option \<Rightarrow> u32 \<Rightarrow> handle \<Rightarrow> 'n dm \<Rightarrow> (esp_err \<times> 'n dm) option" where
  "add_function_list function_list function_flags =
     update_cluster (\<lambda>cl. cl\<lparr>cl_flags := ucast (ucast (cl_flags cl) OR function_flags),
                             cl_functions := function_list\<rparr>)"

definition set_init_and_shutdown_callbacks ::
    "fnptr option \<Rightarrow> fnptr option \<Rightarrow> handle \<Rightarrow> 'n dm \<Rightarrow> (esp_err \<times> 'n dm) option" where
  "set_init_and_shutdown_callbacks init_callback shutdown_callback =
     update_cluster (\<lambda>cl. cl\<lparr>cl_init := init_callback, cl_shutdown := shutdown_callback\<rparr>)"

definition get_init_callback :: "'n dm \<Rightarrow> handle \<Rightarrow> fnptr option option" where
  "get_init_callback s ch =
     (case ch of None \<Rightarrow> Some None | Some c \<Rightarrow> do { cl \<leftarrow> cls s c; Some (cl_init cl) })"

definition get_shutdown_callback :: "'n dm \<Rightarrow> handle \<Rightarrow> fnptr option option" where
  "get_shutdown_callback s ch =
     (case ch of None \<Rightarrow> Some None | Some c \<Rightarrow> do { cl \<leftarrow> cls s c; Some (cl_shutdown cl) })"

section \<open>Creation\<close>

text \<open>Replacing a cluster by one with the same path and the same lists keeps the invariant.\<close>

lemma inv_cluster_redeclare:
  assumes "dm_inv s" "cls s c = Some cl" "cl_id cl' = cl_id cl" "cl_ep cl' = cl_ep cl"
    "cl_attributes cl' = cl_attributes cl" "cl_commands cl' = cl_commands cl" "cl_events cl' = cl_events cl"
  shows "dm_inv (put_cluster c cl' s)"
proof -
  have "fresh_above (put_cluster c cl' s)"
    using inv_fresh[OF assms(1)] inv_live_below(2)[OF assms(1,2)] by (auto simp: fresh_above_def)
  then show ?thesis
    using cluster_update_layers[OF assms(1-4)] assms(5-7) assms(1)
    unfolding dm_inv_def layer_defs by simp
qed

lemma update_cluster_inv:
  assumes "update_cluster f ch s = Some (err, s')" "dm_inv s"
    and "\<And>cl. cl_id (f cl) = cl_id cl \<and> cl_ep (f cl) = cl_ep cl \<and> cl_attributes (f cl) = cl_attributes cl \<and>
      cl_commands (f cl) = cl_commands cl \<and> cl_events (f cl) = cl_events cl"
  shows "dm_inv s'"
  using assms by (auto simp: update_cluster_def split: option.splits bind_splits intro: inv_cluster_redeclare)

lemma inv_add_cluster:
  assumes inv: "dm_inv s" and e: "eps s p = Some e"
    and new: "\<And>y d. y \<in> set (ep_clusters e) \<Longrightarrow> cls s y = Some d \<Longrightarrow> cl_id d \<noteq> i"
    and cl: "cl_id cl = i" "cl_ep cl = ep_id e" "cl_attributes cl = []" "cl_commands cl = []" "cl_events cl = []"
    and c: "c = mem_next (mem s)"
  shows "dm_inv (put_endpoint p (e\<lparr>ep_clusters := ep_clusters e @ [c]\<rparr>)
    (put_cluster c cl (s\<lparr>mem := snd (mem_calloc (mem s))\<rparr>)))" (is "dm_inv ?t")
proof -
  note lay = inv[unfolded dm_inv_def layer_defs]
  let ?e = "e\<lparr>ep_clusters := ep_clusters e @ [c]\<rparr>"
  have free: "cls s c = None" using inv_next_free[OF inv] c by simp
  have "owns (\<lambda>_ _. True) (\<lambda>e f. ep_id e \<noteq> ep_id f) nd_endpoints (\<lambda>_ :: unit. node s) ((eps s)(p \<mapsto> ?e))"
    using lay e by (intro owns_update_child[where c = e]) auto
  moreover have "owns (\<lambda>e c. cl_ep c = ep_id e) (\<lambda>c d. cl_id c \<noteq> cl_id d) ep_clusters
      ((eps s)(p \<mapsto> ?e)) ((cls s)(c \<mapsto> cl))"
  proof (rule owns_add_child[where p = e])
    show "cl_id cl \<noteq> cl_id d \<and> cl_id d \<noteq> cl_id cl" if "y \<in> set (ep_clusters e)" "cls s y = Some d" for y d
      using new[OF that] cl(1) by simp
  qed (use lay e free cl in auto)
  moreover have "owns at_ok (\<lambda>a b. at_id a \<noteq> at_id b) cl_attributes ((cls s)(c \<mapsto> cl)) (ats s)"
    "owns (\<lambda>_ _. True) cm_sep cl_commands ((cls s)(c \<mapsto> cl)) (cms s)"
    "owns (\<lambda>_ _. True) (\<lambda>e f. ev_id e \<noteq> ev_id f) cl_events ((cls s)(c \<mapsto> cl)) (evs s)"
    using lay free cl by (auto intro: owns_add_parent)
  moreover have "fresh_above ?t"
    using inv_fresh[OF inv] inv_live_below(1)[OF inv e] c by (auto simp: fresh_above_def)
  ultimately show ?thesis unfolding dm_inv_def layer_defs by simp
qed

lemma cluster_create_cases:
  assumes r: "cluster_create E (Some p) i flags s = Some (h, s')" and inv: "dm_inv s" and e: "eps s p = Some e"
  obtains (refused) "h = None" "s' = s"
  | (existing) c cl where "h = Some c" "cluster_get s (Some p) i = Some (Some c)" "cls s c = Some cl"
      "s' = put_cluster c (cl\<lparr>cl_flags := cl_flags cl OR flags\<rparr>) s"
  | (no_mem) "h = None" "s' = s\<lparr>mem := snd (mem_calloc (mem s))\<rparr>"
  | (created) c where "h = Some c" "cluster_get s (Some p) i = Some None" "c = mem_next (mem s)"
      "s' = put_endpoint p (e\<lparr>ep_clusters := ep_clusters e @ [c]\<rparr>)
         (put_cluster c (new_cluster i (ep_id e) flags (e_random E (mem_next (mem s))))
            (s\<lparr>mem := snd (mem_calloc (mem s))\<rparr>))"
proof (cases "has_flag flags CLUSTER_FLAG_SERVER \<or> has_flag flags CLUSTER_FLAG_CLIENT")
  case False
  then show ?thesis using refused r by (simp add: cluster_create_def)
next
  case True
  obtain h0 where g: "cluster_get s (Some p) i = Some h0" using cluster_get_exact[OF inv e, of i] by blast
  show ?thesis
  proof (cases h0)
    case (Some c)
    obtain cl where "cls s c = Some cl" using cluster_get_exact[OF inv e, of i] g Some by auto
    moreover from this have "h = Some c" "s' = put_cluster c (cl\<lparr>cl_flags := cl_flags cl OR flags\<rparr>) s"
      using r True e g Some by (simp_all add: cluster_create_def)
    ultimately show ?thesis using existing g Some by blast
  next
    case None
    obtain q s1 where al: "alloc s = (q, s1)" by fastforce
    show ?thesis
    proof (cases q)
      case None
      then have "h = None" "s' = s1"
        using r True e g \<open>h0 = None\<close> al by (simp_all add: cluster_create_def)
      then show ?thesis using no_mem alloc_cases(1)[OF al] by simp
    next
      case (Some c)
      have s1: "s1 = s\<lparr>mem := snd (mem_calloc (mem s))\<rparr>" "c = mem_next (mem s)"
        using alloc_Some al Some by blast+
      have "h = Some c" "s' = put_endpoint p (e\<lparr>ep_clusters := ep_clusters e @ [c]\<rparr>)
         (put_cluster c (new_cluster i (ep_id e) flags (e_random E (mem_next (mem s)))) s1)"
        using r True e g \<open>h0 = None\<close> al Some by (simp_all add: cluster_create_def)
      then show ?thesis using created[of c] g \<open>h0 = None\<close> s1 by simp
    qed
  qed
qed

lemma cluster_create_inv:
  assumes r: "cluster_create E (Some p) i flags s = Some (h, s')" and inv: "dm_inv s" and e: "eps s p = Some e"
  shows "dm_inv s'"
  using r inv e
proof (cases rule: cluster_create_cases)
  case refused then show ?thesis using inv by simp
next
  case (existing c cl)
  then show ?thesis using inv_cluster_redeclare[OF inv existing(3)] by simp
next
  case no_mem then show ?thesis by (intro inv_cong[OF inv]) simp_all
next
  case (created c)
  have "cl_id d \<noteq> i" if "y \<in> set (ep_clusters e)" "cls s y = Some d" for y d
    using cluster_get_exact[OF inv e, of i] created(2) that by auto
  then show ?thesis
    unfolding created(4)
    by (intro inv_add_cluster[OF inv e _ _ _ _ _ _ created(3), of i]) (simp_all add: new_cluster_def)
qed

lemma cluster_create_get:
  assumes r: "cluster_create E (Some p) i flags s = Some (h, s')" and inv: "dm_inv s" and e: "eps s p = Some e"
  shows "h = Some c \<Longrightarrow> cluster_get s' (Some p) i = Some (Some c)"
    and "j \<noteq> i \<Longrightarrow> cluster_get s' (Some p) j = cluster_get s (Some p) j"
    and "\<exists>e'. eps s' p = Some e'"
proof -
  note inv' = cluster_create_inv[OF r inv e]
  have "(h = Some c \<longrightarrow> cluster_get s' (Some p) i = Some (Some c)) \<and>
    (j \<noteq> i \<longrightarrow> cluster_get s' (Some p) j = cluster_get s (Some p) j) \<and> (\<exists>e'. eps s' p = Some e')"
    using r inv e
  proof (cases rule: cluster_create_cases)
    case refused then show ?thesis using e by simp
  next
    case (existing b cl)
    have e': "eps s' p = Some e" using e existing(4) by simp
    have "cluster_get s' (Some p) k = cluster_get s (Some p) k" for k
    proof -
      obtain g g' where g: "cluster_get s (Some p) k = Some g" "cluster_get s' (Some p) k = Some g'"
          "\<And>y. g = Some y \<longleftrightarrow> y \<in> set (ep_clusters e) \<and> (\<exists>cl. cls s y = Some cl \<and> cl_id cl = k)"
          "\<And>y. g' = Some y \<longleftrightarrow> y \<in> set (ep_clusters e) \<and> (\<exists>cl. cls s' y = Some cl \<and> cl_id cl = k)"
        using cluster_get_exact[OF inv e, of k] cluster_get_exact[OF inv' e', of k] by auto
      have "g' = g" by (rule option_eqI) (use g(3,4) existing(3,4) in auto)
      then show ?thesis using g by simp
    qed
    then show ?thesis using existing(1,2) e' by simp
  next
    case no_mem then show ?thesis using e by (simp add: cluster_get_def)
  next
    case (created b)
    let ?e = "e\<lparr>ep_clusters := ep_clusters e @ [b]\<rparr>"
    have e': "eps s' p = Some ?e" using created(4) by simp
    have b: "cls s' b = Some (new_cluster i (ep_id e) flags (e_random E (mem_next (mem s))))"
      using created(4) by simp
    have id: "cl_id (new_cluster i (ep_id e) flags w) = i" for w by (simp add: new_cluster_def)
    have old: "cls s' y = cls s y" if "y \<in> set (ep_clusters e)" for y
      using created(3,4) owns_live[OF inv_cl[OF inv, unfolded cl_layer_def] e that]
        inv_next_free[OF inv] by auto
    have "cluster_get s' (Some p) i = Some (Some b)"
      using cluster_get_exact[OF inv' e', of i] b id by auto
    moreover have "cluster_get s' (Some p) j = cluster_get s (Some p) j" if "j \<noteq> i"
    proof -
      obtain g g' where g: "cluster_get s (Some p) j = Some g" "cluster_get s' (Some p) j = Some g'"
          "\<And>y. g = Some y \<longleftrightarrow> y \<in> set (ep_clusters e) \<and> (\<exists>cl. cls s y = Some cl \<and> cl_id cl = j)"
          "\<And>y. g' = Some y \<longleftrightarrow> y \<in> set (ep_clusters ?e) \<and> (\<exists>cl. cls s' y = Some cl \<and> cl_id cl = j)"
        using cluster_get_exact[OF inv e, of j] cluster_get_exact[OF inv' e', of j] by auto
      have "g' = g" by (rule option_eqI) (use g(3,4) old b id that in auto)
      then show ?thesis using g by simp
    qed
    ultimately show ?thesis using created(1) e' by auto
  qed
  then show "h = Some c \<Longrightarrow> cluster_get s' (Some p) i = Some (Some c)"
    and "j \<noteq> i \<Longrightarrow> cluster_get s' (Some p) j = cluster_get s (Some p) j"
    and "\<exists>e'. eps s' p = Some e'" by blast+
qed

interpretation clusters: child_table "\<lambda>s. dm_inv s \<and> eps s p \<noteq> None" "\<lambda>s. cluster_get s (Some p)"
  "\<lambda>i flags s. if has_flag flags CLUSTER_FLAG_SERVER \<or> has_flag flags CLUSTER_FLAG_CLIENT
     then cluster_create E (Some p) i flags s else None" for p E
proof (unfold_locales, goal_cases)
  case (1 s k x h s')
  then show ?case using cluster_create_inv cluster_create_get(3) by (fastforce split: if_splits)
next
  case (2 s k x a s')
  then obtain e where "eps s p = Some e" by auto
  with 2 show ?case using cluster_create_get(1)[of E p k x s "Some a" s'] by (simp split: if_splits)
next
  case (3 s k x h s' j)
  then obtain e where "eps s p = Some e" by auto
  with 3 show ?case using cluster_create_get(2)[of E p k x s h s'] by (simp split: if_splits)
next
  case (4 s k a x h s')
  then obtain e where e: "eps s p = Some e" by auto
  have r: "cluster_create E (Some p) k x s = Some (h, s')" "dm_inv s"
    and fl: "has_flag x CLUSTER_FLAG_SERVER \<or> has_flag x CLUSTER_FLAG_CLIENT"
    using 4 by (auto split: if_splits)
  obtain cl where "cls s a = Some cl" using cluster_get_exact[OF r(2) e, of k] 4(2) by auto
  then show ?case using r(1) fl e 4(2) by (auto simp: cluster_create_def)
qed

text \<open>C18: declaring the clusters of an endpoint.  Creating clusters with a server or client flag
  one after the other makes each of them reachable under its id, keeps the shape of the store and
  leaves the other cluster ids of the endpoint alone.\<close>

theorem cluster_table:
  assumes "dm_inv s" "eps s p \<noteq> None"
    and "create_all (\<lambda>i flags s. if has_flag flags CLUSTER_FLAG_SERVER \<or> has_flag flags CLUSTER_FLAG_CLIENT
           then cluster_create E (Some p) i flags s else None) ds s = Some (hs, s')" "None \<notin> set hs"
  shows "list_all2 (\<lambda>d h. cluster_get s' (Some p) (fst d) = Some h) ds hs \<and> dm_inv s' \<and>
    (\<forall>j. j \<notin> fst ` set ds \<longrightarrow> cluster_get s' (Some p) j = cluster_get s (Some p) j)"
  using clusters.create_all_found[of s p E ds hs s'] clusters.create_all_ok[of s p E ds hs s']
    clusters.create_all_other[of s p E ds hs s'] assms by blast

theorem cluster_table_witness:
  "\<exists>h s'. create_all (\<lambda>i flags s. if has_flag flags CLUSTER_FLAG_SERVER \<or> has_flag flags CLUSTER_FLAG_CLIENT
       then cluster_create demo_env (Some 2) i flags s else None) [(8, 0x40)] demo = Some ([Some h], s') \<and>
     cluster_get s' (Some 2) 8 = Some (Some h) \<and> cluster_get s' (Some 2) 6 = Some (Some 3)"
proof -
  have fl: "has_flag (0x40 :: u8) CLUSTER_FLAG_SERVER" by (simp add: has_flag_def flag_defs)
  obtain h s' where r: "create_all (\<lambda>i flags s. if has_flag flags CLUSTER_FLAG_SERVER \<or> has_flag flags CLUSTER_FLAG_CLIENT
       then cluster_create demo_env (Some 2) i flags s else None) [(8, 0x40)] demo = Some ([Some h], s')"
    using fl by (auto simp: cluster_create_def cluster_get_def demo_endpoint_def demo_cluster_def alloc_def
        mem_calloc_def)
  have "cluster_get demo (Some 2) 6 = Some (Some 3)"
    by (simp add: cluster_get_def demo_endpoint_def demo_cluster_def)
  then show ?thesis using cluster_table[OF demo_inv _ r] r by auto
qed

section \<open>Destruction\<close>

lemma free_attributes_effect:
  assumes "distinct as"
    and "\<And>a. a \<in> set as \<Longrightarrow> \<exists>at. ats s a = Some at \<and>
      (at_ext at = None \<longleftrightarrow> has_flag (at_flags at) ATTRIBUTE_FLAG_MANAGED_INTERNALLY)"
  shows "\<exists>n. free_attributes E as s =
    Some (s\<lparr>nvs := n, ats := (\<lambda>x. if x \<in> set as then None else ats s x)\<rparr>)"
  using assms
proof (induction as arbitrary: s)
  case Nil
  show ?case by (intro exI[of _ "nvs s"]) simp
next
  case (Cons a as)
  obtain at where at: "ats s a = Some at"
      "at_ext at = None \<longleftrightarrow> has_flag (at_flags at) ATTRIBUTE_FLAG_MANAGED_INTERNALLY"
    using Cons.prems(2)[of a] by auto
  obtain n1 where f: "free_attribute E (Some a) s = Some (ESP_OK, s\<lparr>nvs := n1, ats := (ats s)(a := None)\<rparr>)"
  proof (cases "at_ext at")
    case None
    have "s\<lparr>ats := (ats s)(a := None)\<rparr> = s\<lparr>nvs := nvs s, ats := (ats s)(a := None)\<rparr>" by simp
    then show ?thesis using that[of "nvs s"] at None by (simp add: free_attribute_def)
  next
    case (Some x)
    then show ?thesis using that at by (simp add: free_attribute_def)
  qed
  let ?s1 = "s\<lparr>nvs := n1, ats := (ats s)(a := None)\<rparr>"
  have "\<exists>n. free_attributes E as ?s1 =
      Some (?s1\<lparr>nvs := n, ats := (\<lambda>x. if x \<in> set as then None else ats ?s1 x)\<rparr>)"
    using Cons.prems by (intro Cons.IH) auto
  then obtain n where n: "free_attributes E as ?s1 =
      Some (?s1\<lparr>nvs := n, ats := (\<lambda>x. if x \<in> set as then None else ats ?s1 x)\<rparr>)" by blast
  have "(\<lambda>x. if x \<in> set as then None else ats ?s1 x) = (\<lambda>x. if x \<in> set (a # as) then None else ats s x)"
    by auto
  then show ?case using f n by auto
qed

lemma owns_remove_family:
  assumes "owns rel sep kids ps cs" "ps k = Some p" "\<And>d. rel p d \<Longrightarrow> rel p' d" "kids p' = []"
  shows "owns rel sep kids (ps(k := None)) (\<lambda>x. if x \<in> set (kids p) then None else cs x)"
proof -
  have "owns rel sep kids (ps(k \<mapsto> p')) (\<lambda>x. if x \<in> set (kids p) then None else cs x)"
    using assms by (intro owns_drop_children[OF assms(1,2)]) auto
  from owns_remove_parent[OF this, of k p'] show ?thesis using assms(4) by simp
qed

text \<open>What is left after a cluster has been destroyed.\<close>

definition without_cluster :: "addr \<Rightarrow> cluster_t \<Rightarrow> addr \<Rightarrow> endpoint_t \<Rightarrow> 'n \<Rightarrow> 'n dm \<Rightarrow> 'n dm" where
  "without_cluster c cl p e n s =
     s\<lparr>eps := (eps s)(p \<mapsto> e\<lparr>ep_clusters := remove1 c (ep_clusters e)\<rparr>),
       cls := (cls s)(c := None),
       ats := (\<lambda>x. if x \<in> set (cl_attributes cl) then None else ats s x),
       cms := (\<lambda>x. if x \<in> set (cl_commands cl) then None else cms s x),
       evs := (\<lambda>x. if x \<in> set (cl_events cl) then None else evs s x),
       nvs := n\<rparr>"

lemma without_cluster_inv:
  assumes inv: "dm_inv s" and cl: "cls s c = Some cl" and e: "eps s p = Some e" "c \<in> set (ep_clusters e)"
  shows "dm_inv (without_cluster c cl p e n s)"
proof -
  note lay = inv[unfolded dm_inv_def layer_defs]
  let ?e = "e\<lparr>ep_clusters := remove1 c (ep_clusters e)\<rparr>"
  have "owns (\<lambda>_ _. True) (\<lambda>e f. ep_id e \<noteq> ep_id f) nd_endpoints (\<lambda>_ :: unit. node s) ((eps s)(p \<mapsto> ?e))"
    using lay e by (intro owns_update_child[where c = e]) auto
  moreover have "owns (\<lambda>e c. cl_ep c = ep_id e) (\<lambda>c d. cl_id c \<noteq> cl_id d) ep_clusters
      ((eps s)(p \<mapsto> ?e)) ((cls s)(c := None))"
    using lay e by (intro owns_remove_child[where p = e]) auto
  moreover have "owns at_ok (\<lambda>a b. at_id a \<noteq> at_id b) cl_attributes ((cls s)(c := None))
      (\<lambda>x. if x \<in> set (cl_attributes cl) then None else ats s x)"
    using lay cl by (intro owns_remove_family[where p' = "cl\<lparr>cl_attributes := []\<rparr>"]) (auto simp: at_ok_def)
  moreover have "owns (\<lambda>_ _. True) cm_sep cl_commands ((cls s)(c := None))
      (\<lambda>x. if x \<in> set (cl_commands cl) then None else cms s x)"
    using lay cl by (intro owns_remove_family[where p' = "cl\<lparr>cl_commands := []\<rparr>"]) auto
  moreover have "owns (\<lambda>_ _. True) (\<lambda>e f. ev_id e \<noteq> ev_id f) cl_events ((cls s)(c := None))
      (\<lambda>x. if x \<in> set (cl_events cl) then None else evs s x)"
    using lay cl by (intro owns_remove_family[where p' = "cl\<lparr>cl_events := []\<rparr>"]) auto
  moreover have "fresh_above (without_cluster c cl p e n s)"
    using inv_fresh[OF inv] inv_live_below(1)[OF inv e(1)] by (auto simp: fresh_above_def without_cluster_def)
  ultimately show ?thesis unfolding dm_inv_def layer_defs by (simp add: without_cluster_def)
qed

lemma cluster_parent:
  assumes "dm_inv s" "cls s c = Some cl"
  obtains p e where "eps s p = Some e" "c \<in> set (ep_clusters e)" "ep_id e = cl_ep cl"
    "endpoint_get_by_id s (cl_ep cl) = Some (Some p)"
proof -
  note own = inv_cl[OF assms(1), unfolded cl_layer_def]
  obtain p e where pe: "eps s p = Some e" "c \<in> set (ep_clusters e)" by (rule owns_parent[OF own assms(2)])
  have "ep_id e = cl_ep cl" using owns_rel[OF own pe assms(2)] by simp
  moreover from this have "endpoint_get_by_id s (cl_ep cl) = Some (Some p)"
    using endpoint_get_by_id_exact[OF assms(1), of "cl_ep cl"] pe by auto
  ultimately show ?thesis using that pe by blast
qed

lemma endpoint_get_by_id_cong:
  "node t = node s \<Longrightarrow> eps t = eps s \<Longrightarrow> endpoint_get_by_id t i = endpoint_get_by_id s i"
  by (cases "node s") (simp_all add: endpoint_get_by_id_def endpoint_get_def node_get_def node_at_def)

lemma endpoint_get_by_id_frame [simp]:
  "endpoint_get_by_id (s\<lparr>cms := a\<rparr>) i = endpoint_get_by_id s i"
  "endpoint_get_by_id (s\<lparr>nvs := b\<rparr>) i = endpoint_get_by_id s i"
  "endpoint_get_by_id (s\<lparr>ats := c\<rparr>) i = endpoint_get_by_id s i"
  "endpoint_get_by_id (s\<lparr>evs := d\<rparr>) i = endpoint_get_by_id s i"
  "endpoint_get_by_id (s\<lparr>cls := e\<rparr>) i = endpoint_get_by_id s i"
  by (rule endpoint_get_by_id_cong; simp)+

lemma cluster_destroy_effect:
  assumes inv: "dm_inv s" and cl: "cls s c = Some cl"
  obtains p e n where "eps s p = Some e" "c \<in> set (ep_clusters e)"
    "cluster_destroy E (Some c) s = Some (ESP_OK, without_cluster c cl p e n s)"
    "dm_inv (without_cluster c cl p e n s)"
proof -
  obtain p e where pe: "eps s p = Some e" "c \<in> set (ep_clusters e)"
      "endpoint_get_by_id s (cl_ep cl) = Some (Some p)"
    using cluster_parent[OF inv cl] by metis
  note at = inv_at[OF inv, unfolded at_layer_def]
  let ?cms = "\<lambda>x. if x \<in> set (cl_commands cl) then None else cms s x"
  have "list_all (\<lambda>x. cms s x \<noteq> None) (cl_commands cl)" "list_all (\<lambda>x. evs s x \<noteq> None) (cl_events cl)"
    using owns_live[OF inv_cm[OF inv, unfolded cm_layer_def] cl] owns_live[OF inv_ev[OF inv, unfolded ev_layer_def] cl]
    by (auto simp: list_all_iff)
  moreover have "\<exists>at. ats s a = Some at \<and>
      (at_ext at = None \<longleftrightarrow> has_flag (at_flags at) ATTRIBUTE_FLAG_MANAGED_INTERNALLY)"
    if a: "a \<in> set (cl_attributes cl)" for a
  proof -
    obtain at' where at': "ats s a = Some at'" using owns_live[OF at cl a] by blast
    then show ?thesis using owns_rel[OF at cl a at'] by (simp add: at_ok_def)
  qed
  then obtain n where "free_attributes E (cl_attributes cl) (s\<lparr>cms := ?cms\<rparr>) =
      Some (s\<lparr>cms := ?cms, nvs := n, ats := (\<lambda>x. if x \<in> set (cl_attributes cl) then None else ats s x)\<rparr>)"
    using free_attributes_effect[OF owns_distinct[OF at cl], of "s\<lparr>cms := ?cms\<rparr>" E]
    by (auto cong: if_cong)
  ultimately have "cluster_destroy E (Some c) s = Some (ESP_OK, without_cluster c cl p e n s)"
    using cl pe
    by (simp add: cluster_destroy_def delete_list_def without_cluster_def put_endpoint_def Let_def cong: if_cong)
  then show ?thesis using that pe(1,2) without_cluster_inv[OF inv cl pe(1,2)] by blast
qed

text \<open>C16: destroying a cluster.  In a well-formed store the destruction always succeeds, the store
  stays well formed, and exactly the cluster, its attributes, its commands and its events are
  freed: every other structure is as it was, except that the endpoint no longer lists the cluster,
  so that looking the cluster up gives NULL.\<close>

theorem cluster_destroy_correct:
  assumes "dm_inv s" "cls s c = Some cl"
  shows "\<exists>s'. cluster_destroy E (Some c) s = Some (ESP_OK, s') \<and> dm_inv s' \<and>
    cluster_get_by_id s' (cl_ep cl) (cl_id cl) = Some None \<and>
    cls s' = (cls s)(c := None) \<and>
    (\<forall>a. ats s' a = (if a \<in> set (cl_attributes cl) then None else ats s a)) \<and>
    (\<forall>a. cms s' a = (if a \<in> set (cl_commands cl) then None else cms s a)) \<and>
    (\<forall>a. evs s' a = (if a \<in> set (cl_events cl) then None else evs s a)) \<and>
    (\<forall>p e. eps s p = Some e \<longrightarrow> eps s' p = Some (e\<lparr>ep_clusters := remove1 c (ep_clusters e)\<rparr>))"
proof -
  obtain p e n where d: "eps s p = Some e" "c \<in> set (ep_clusters e)"
    "cluster_destroy E (Some c) s = Some (ESP_OK, without_cluster c cl p e n s)"
    "dm_inv (without_cluster c cl p e n s)" by (rule cluster_destroy_effect[OF assms])
  note own = inv_cl[OF assms(1), unfolded cl_layer_def]
  let ?s = "without_cluster c cl p e n s"
  have sole: "d = c" if "cls s d = Some cd" "cl_ep cd = cl_ep cl" "cl_id cd = cl_id cl" for d cd
  proof -
    obtain h where h: "\<And>x. h = Some x \<longleftrightarrow>
        (\<exists>cx. cls s x = Some cx \<and> cl_ep cx = cl_ep cl \<and> cl_id cx = cl_id cl)"
      using cluster_get_by_id_exact[OF assms(1), of "cl_ep cl" "cl_id cl"] by blast
    have "h = Some d" "h = Some c" using h assms(2) that by blast+
    then show ?thesis by simp
  qed
  have "cluster_get_by_id ?s (cl_ep cl) (cl_id cl) = Some None"
  proof -
    obtain h where h: "cluster_get_by_id ?s (cl_ep cl) (cl_id cl) = Some h"
      "\<And>d. h = Some d \<longleftrightarrow> (\<exists>cd. cls ?s d = Some cd \<and> cl_ep cd = cl_ep cl \<and> cl_id cd = cl_id cl)"
      using cluster_get_by_id_exact[OF d(4), of "cl_ep cl" "cl_id cl"] by blast
    have "h = None"
    proof (cases h)
      case (Some d)
      then obtain cd where "cls ?s d = Some cd" "cl_ep cd = cl_ep cl" "cl_id cd = cl_id cl" using h(2) by blast
      then show ?thesis using sole[of d cd] by (auto simp: without_cluster_def split: if_splits)
    qed
    then show ?thesis using h(1) by simp
  qed
  moreover have "eps ?s q = Some (f\<lparr>ep_clusters := remove1 c (ep_clusters f)\<rparr>)" if "eps s q = Some f" for q f
  proof (cases "q = p")
    case True
    then show ?thesis using that d(1) by (simp add: without_cluster_def)
  next
    case False
    then have "c \<notin> set (ep_clusters f)" using owns_one_parent[OF own d(1) that d(2)] by auto
    then show ?thesis using that False by (cases f) (simp add: without_cluster_def remove1_idem)
  qed
  ultimately show ?thesis using d(3,4) by (intro exI[of _ ?s]) (auto simp: without_cluster_def)
qed

theorem cluster_destroy_correct_witness:
  "\<exists>s'. cluster_destroy demo_env (Some 3) demo = Some (ESP_OK, s') \<and> dm_inv s' \<and>
     cluster_get_by_id s' 1 6 = Some None \<and> ats s' 4 = None \<and> cms s' 7 = None \<and> evs s' 8 = None"
  using cluster_destroy_correct[OF demo_inv, of 3 demo_cluster demo_env] by (auto simp: demo_cluster_def)

section \<open>The function table\<close>

text \<open>The slot of a function is the number of function flags below its own.\<close>

definition function_slot :: "u8 \<Rightarrow> nat \<Rightarrow> nat" where
  "function_slot flags k = length (filter (bit flags) [0..<k])"

lemma push_bit_power: "push_bit 1 ((2 :: u8) ^ i) = 2 ^ Suc i"
  by (simp add: push_bit_eq_mult)

lemma unat_u8: "n < 256 \<Longrightarrow> unat (of_nat n :: u8) = n"
  by (simp add: unsigned_of_nat take_bit_nat_eq_self)

lemma power_less_u8:
  assumes "i < k" "k < 8"
  shows "(2 :: u8) ^ i < 2 ^ k"
proof -
  have unat_pow: "unat ((2 :: u8) ^ j) = 2 ^ j" if "j < 8" for j
    using unat_u8[of "2 ^ j"] power_strict_increasing[OF that, of "2 :: nat"] by simp
  show ?thesis using assms by (simp add: word_less_nat_alt unat_pow)
qed

lemma and_power_u8: "(flags :: u8) AND 2 ^ i \<noteq> 0 \<longleftrightarrow> bit flags i"
  using bit_iff_odd_drop_bit[of flags i] by (auto simp: and_exp_eq_0_iff_not_bit)

lemma function_index_from:
  assumes "i \<le> k" "k < 8"
  shows "function_index flags (2 ^ k) (2 ^ i) index =
    Some (index + of_nat (length (filter (bit flags) [i..<k])))"
  using assms
proof (induction "k - i" arbitrary: i index)
  case 0
  then show ?case by (subst function_index.simps) simp
next
  case (Suc d)
  then have i: "i < k" "[i..<k] = i # [Suc i..<k]" by (auto simp: upt_conv_Cons)
  have "function_index flags (2 ^ k) (2 ^ i) index =
      function_index flags (2 ^ k) (2 ^ Suc i) (if bit flags i then index + 1 else index)"
    using power_less_u8[OF i(1) Suc.prems(2)]
    by (subst function_index.simps) (simp only: push_bit_power and_power_u8 if_True)
  also have "\<dots> = Some ((if bit flags i then index + 1 else index) +
      of_nat (length (filter (bit flags) [Suc i..<k])))"
    using Suc.hyps(2) Suc.prems i(1) by (intro Suc.hyps(1)) auto
  finally show ?case using i(2) by simp
qed

lemma function_slot_le: "function_slot flags k \<le> k"
  unfolding function_slot_def using length_filter_le[of "bit flags" "[0..<k]"] by simp

lemma function_index_slot:
  assumes "k < 8"
  shows "function_index flags (2 ^ k) 0x01 0 = Some (of_nat (function_slot flags k))"
  using function_index_from[of 0 k flags 0] assms by (simp add: function_slot_def)

lemma function_index_stuck:
  "function_index flags f flag index = Some r \<Longrightarrow> flag = 0 \<longrightarrow> f = 0"
proof (erule function_index.raw_induct[where P = "\<lambda>_ f flag _ _. flag = 0 \<longrightarrow> f = 0", rotated], goal_cases)
  case (1 rec flags f flag index r)
  then show ?case using 1(1)[of flags f "push_bit 1 flag" _ r]
    by (cases "f = 0") (auto simp: word_gt_0 split: if_splits)
qed

lemma get_function_slot:
  assumes "cls s c = Some cl" "cl_functions cl = Some fs" "k < 8"
    "bit (cl_flags cl) k \<Longrightarrow> function_slot (cl_flags cl) k < length fs"
  shows "get_function s (Some c) (2 ^ k) =
    Some (if bit (cl_flags cl) k then fs ! function_slot (cl_flags cl) k else None)"
proof -
  have "unat (of_nat (function_slot (cl_flags cl) k) :: u8) = function_slot (cl_flags cl) k"
    using function_slot_le[of "cl_flags cl" k] assms(3) by (intro unat_u8) simp
  then show ?thesis using assms function_index_slot[of k "cl_flags cl"]
    by (simp add: get_function_def has_flag_def and_power_u8)
qed

text \<open>C32: the function table.  For a single function flag the lookup ends, and gives the entry
  whose position is the number of function flags of the cluster below it, or NULL when the cluster
  does not have the flag.\<close>

theorem get_function_spec:
  assumes "cls s c = Some cl" "cl_functions cl = Some fs" "k < 8"
    "bit (cl_flags cl) k \<Longrightarrow> function_slot (cl_flags cl) k < length fs"
  shows "get_function s (Some c) (2 ^ k) =
    Some (if bit (cl_flags cl) k then fs ! function_slot (cl_flags cl) k else None)"
  using get_function_slot[OF assms(1,2,3)] assms(4) by blast

theorem get_function_spec_witness:
  "get_function demo (Some 3) (2 ^ 1) = Some (Some 77) \<and> get_function demo (Some 3) (2 ^ 0) = Some None"
  using get_function_spec[of demo 3 demo_cluster "[Some 77]" 1]
    get_function_spec[of demo 3 demo_cluster "[Some 77]" 0]
  by (simp add: demo_cluster_def function_slot_def upt_rec bit_numeral_rec)

text \<open>C36: a combination of flags above 0x80 is never reached by the shifted flag, which becomes 0
  after eight shifts: the loop of the lookup does not end.\<close>

theorem get_function_diverges:
  assumes "cls s c = Some cl" "has_flag (cl_flags cl) f" "0x80 < f"
  shows "get_function s (Some c) f = None"
proof -
  have step: "function_index (cl_flags cl) f (2 ^ i) index =
      function_index (cl_flags cl) f (push_bit 1 (2 ^ i)) (if cl_flags cl AND 2 ^ i \<noteq> 0 then index + 1 else index)"
    if "i < 8" for i index
  proof -
    have "(2 :: u8) ^ i \<le> 0x80" using that power_less_u8[of i 7] by (cases "i = 7") auto
    then have "(2 :: u8) ^ i < f" using assms(3) by (rule order_le_less_trans)
    then show ?thesis by (subst function_index.simps) simp
  qed
  have "function_index (cl_flags cl) f (2 ^ i) index = None" if "i \<le> 8" for i index
    using that
  proof (induction "8 - i" arbitrary: i index)
    case 0
    then have "(2 :: u8) ^ i = 0" by simp
    then show ?case using function_index_stuck[of "cl_flags cl" f "2 ^ i" index] assms(3)
      by (cases "function_index (cl_flags cl) f (2 ^ i) index") auto
  next
    case (Suc d)
    then have "i < 8" "d = 8 - Suc i" "Suc i \<le> 8" by auto
    then show ?case using Suc.hyps(1)[of "Suc i"] step[of i index] by (simp only: push_bit_power)
  qed
  from this[of 0] show ?thesis using assms by (simp add: get_function_def)
qed

theorem get_function_diverges_witness:
  "get_function (demo\<lparr>cls := [3 \<mapsto> demo_cluster\<lparr>cl_flags := 0x81\<rparr>]\<rparr>) (Some 3) 0x81 = None"
  by (rule get_function_diverges[of _ _ "demo_cluster\<lparr>cl_flags := 0x81\<rparr>"]) (simp_all add: has_flag_def)

end
