(* ===== verification/EM_Endpoint.thy ===== *)
theory EM_Endpoint
  imports EM_Cluster
begin

text \<open>
  Endpoints and the node: namespaces \<open>endpoint\<close> and \<open>node\<close> of
  \<open>data_model/esp_matter_data_model.cpp\<close> and the part of \<open>esp_matter_identify.cpp\<close> they call.
  Walks along the parents of an endpoint may not end, so that loop is a partial function.  The
  chip stack lock is not modelled.
\<close>

section \<open>The counter of endpoint ids\<close>

definition min_unused_key :: string where
  "min_unused_key = ''min_uu_ep_id''"

definition put_node :: "node_t option \<Rightarrow> 'n dm \<Rightarrow> 'n dm" where
  "put_node nd s = s\<lparr>node := nd\<rparr>"

lemma put_node_simps [simp]:
  "node (put_node nd s) = nd" "eps (put_node nd s) = eps s" "cls (put_node nd s) = cls s"
  "ats (put_node nd s) = ats s" "cms (put_node nd s) = cms s" "evs (put_node nd s) = evs s"
  "mem (put_node nd s) = mem s" "nvs (put_node nd s) = nvs s" "started (put_node nd s) = started s"
  "timers (put_node nd s) = timers s" "log (put_node nd s) = log s"
  "attribute_callback (put_node nd s) = attribute_callback s"
  "identification_callback (put_node nd s) = identification_callback s"
  by (simp_all add: put_node_def)

definition store_min_unused_endpoint_id :: "'n env \<Rightarrow> 'n dm \<Rightarrow> esp_err \<times> 'n dm" where
  "store_min_unused_endpoint_id E s =
     (case node s of
        Some nd \<Rightarrow>
          if \<not> started s then (ESP_ERR_INVALID_STATE, s)
          else
            (let (err, n) = api_open (e_nvs E) kvs_namespace NVS_READWRITE (nvs s) in
             if err \<noteq> ESP_OK then (err, s\<lparr>nvs := n\<rparr>)
             else
               (let (err, n1) = api_set (e_nvs E) kvs_namespace min_unused_key
                      (Num_Item NK_U16 (ucast (nd_min_unused nd))) n
                in (err, s\<lparr>nvs := api_commit (e_nvs E) kvs_namespace n1\<rparr>)))
      | None \<Rightarrow> (ESP_ERR_INVALID_STATE, s))"

text \<open>\<open>nvs_get_u16\<close> into the counter of the node.\<close>

definition load_min_unused :: "'n env \<Rightarrow> string \<Rightarrow> node_t \<Rightarrow> 'n dm \<Rightarrow> esp_err \<times> 'n dm" where
  "load_min_unused E ns nd s =
     (case api_get (e_nvs E) ns min_unused_key NK_U16 (nvs s) of
        Inl err \<Rightarrow> (err, s)
      | Inr it \<Rightarrow> (ESP_OK, put_node (Some (nd\<lparr>nd_min_unused := ucast (item_num it)\<rparr>)) s))"

definition read_min_unused_endpoint_id :: "'n env \<Rightarrow> 'n dm \<Rightarrow> esp_err \<times> 'n dm" where
  "read_min_unused_endpoint_id E s0 =
     (case node s0 of
        Some nd \<Rightarrow>
          if \<not> started s0 then (ESP_ERR_INVALID_STATE, s0)
          else
            (let (err, n) = api_open (e_nvs E) kvs_namespace NVS_READONLY (nvs s0);
                 s = s0\<lparr>nvs := n\<rparr>;
                 (err, s) = (if err = ESP_OK then load_min_unused E kvs_namespace nd s else (err, s))
             in if err \<noteq> ESP_ERR_NVS_NOT_FOUND then (err, s)
             else
               (let (err, n) = api_open (e_nvs E) ''node'' NVS_READONLY (nvs s); s = s\<lparr>nvs := n\<rparr> in
                if err \<noteq> ESP_OK then (err, s)
                else
                  (let (err, s) = load_min_unused E ''node'' nd s in
                   if err \<noteq> ESP_OK then (err, s)
                   else
                     (let (err, n) = api_open (e_nvs E) ''node'' NVS_READWRITE (nvs s);
                          n1 = (if err = ESP_OK then
                                  (let (err, n) = api_erase_key (e_nvs E) ''node'' min_unused_key n
                                   in if err \<noteq> ESP_OK then n else api_commit (e_nvs E) ''node'' n)
                                else n)
                      in store_min_unused_endpoint_id E (s\<lparr>nvs := n1\<rparr>)))))
      | None \<Rightarrow> (ESP_ERR_INVALID_STATE, s0))"

section \<open>Creation and accessors\<close>

definition endpoint_get_count :: "'n dm \<Rightarrow> handle \<Rightarrow> u16 option" where
  "endpoint_get_count s nh =
     (case nh of
        None \<Rightarrow> Some 0
      | Some n \<Rightarrow> do {
          nd \<leftarrow> node_at s n;
          if list_all (\<lambda>a. eps s a \<noteq> None) (nd_endpoints nd) then Some (of_nat (length (nd_endpoints nd)))
          else None })"

definition MAX_SEMANTIC_TAG_COUNT :: nat where
  "MAX_SEMANTIC_TAG_COUNT = 3"

text \<open>What \<open>calloc\<close> gives, with the fields both \<open>create\<close> and \<open>resume\<close> set.\<close>

definition new_endpoint :: "'n env \<Rightarrow> u16 \<Rightarrow> u8 \<Rightarrow> handle \<Rightarrow> endpoint_t" where
  "new_endpoint E endpoint_id flags priv_data =
     \<lparr>ep_id = endpoint_id, ep_enabled = False, ep_device_type_count = 0,
      ep_device_types = replicate (e_max_device_types E) \<lparr>dt_version = 0, dt_id = 0\<rparr>,
      ep_flags = ucast flags, ep_parent = 0, ep_priv = priv_data, ep_identify = None,
      ep_pattern = kFullFamily, ep_tag_count = 0,
      ep_tags = replicate MAX_SEMANTIC_TAG_COUNT
        \<lparr>tag_mfg = None, tag_namespace = 0, tag_tag = 0, tag_label = None\<rparr>,
      ep_clusters = []\<rparr>"

definition link_endpoint :: "addr \<Rightarrow> node_t \<Rightarrow> 'n dm \<Rightarrow> 'n dm" where
  "link_endpoint a nd s = put_node (Some (nd\<lparr>nd_endpoints := nd_endpoints nd @ [a]\<rparr>)) s"

definition endpoint_create ::
    "'n env \<Rightarrow> handle \<Rightarrow> u8 \<Rightarrow> handle \<Rightarrow> 'n dm \<Rightarrow> (handle \<times> 'n dm) option" where
  "endpoint_create E nh flags priv_data s =
     (case nh of
        None \<Rightarrow> Some (None, s)
      | Some n \<Rightarrow> do {
          nd \<leftarrow> node_at s n;
          count \<leftarrow> endpoint_get_count s nh;
          if \<not> unat count < e_max_endpoints E then Some (None, s)
          else
            (let (q, s1) = alloc s in
             case q of
               None \<Rightarrow> Some (None, s1)
             | Some a \<Rightarrow>
                 (let nd1 = nd\<lparr>nd_min_unused := nd_min_unused nd + 1\<rparr>;
                      s2 = put_endpoint a
                        ((new_endpoint E (nd_min_unused nd) flags priv_data)
                           \<lparr>ep_parent := kInvalidEndpointId, ep_enabled := True\<rparr>) (put_node (Some nd1) s1);
                      s3 = (if started s2 then snd (store_min_unused_endpoint_id E s2) else s2)
                  in Some (Some a, link_endpoint a nd1 s3))) })"

definition endpoint_resume ::
    "'n env \<Rightarrow> handle \<Rightarrow> u8 \<Rightarrow> u16 \<Rightarrow> handle \<Rightarrow> 'n dm \<Rightarrow> (handle \<times> 'n dm) option" where
  "endpoint_resume E nh flags endpoint_id priv_data s =
     (case nh of
        None \<Rightarrow> Some (None, s)
      | Some n \<Rightarrow> do {
          nd \<leftarrow> node_at s n;
          present \<leftarrow> find_m (\<lambda>a. do { e \<leftarrow> eps s a; Some (ep_id e = endpoint_id) }) (nd_endpoints nd);
          if present \<noteq> None then Some (None, s)
          else if \<not> endpoint_id < nd_min_unused nd then Some (None, s)
          else
            (let (q, s1) = alloc s in
             case q of
               None \<Rightarrow> Some (None, s1)
             | Some a \<Rightarrow>
                 Some (Some a, link_endpoint a nd
                   (put_endpoint a (new_endpoint E endpoint_id flags priv_data) s1))) })"

definition update_endpoint ::
    "(endpoint_t \<Rightarrow> endpoint_t) \<Rightarrow> handle \<Rightarrow> 'n dm \<Rightarrow> (esp_err \<times> 'n dm) option" where
  "update_endpoint f eh s =
     (case eh of
        None \<Rightarrow> Some (ESP_ERR_INVALID_ARG, s)
      | Some p \<Rightarrow> do { e \<leftarrow> eps s p; Some (ESP_OK, put_endpoint p (f e) s) })"

definition read_endpoint :: "'b \<Rightarrow> (endpoint_t \<Rightarrow> 'b) \<Rightarrow> 'n dm \<Rightarrow> handle \<Rightarrow> 'b option" where
  "read_endpoint d f s eh = (case eh of None \<Rightarrow> Some d | Some p \<Rightarrow> do { e \<leftarrow> eps s p; Some (f e) })"

definition endpoint_get_id :: "'n dm \<Rightarrow> handle \<Rightarrow> u16 option" where
  "endpoint_get_id = read_endpoint kInvalidEndpointId ep_id"

definition add_device_type ::
    "'n env \<Rightarrow> handle \<Rightarrow> u32 \<Rightarrow> u8 \<Rightarrow> 'n dm \<Rightarrow> (esp_err \<times> 'n dm) option" where
  "add_device_type E eh device_type_id device_type_version s =
     (case eh of
        None \<Rightarrow> Some (ESP_ERR_INVALID_ARG, s)
      | Some p \<Rightarrow> do {
          e \<leftarrow> eps s p;
          let i = unat (ep_device_type_count e);
          if \<not> i < e_max_device_types E then Some (ESP_FAIL, s)
          else if \<not> i < length (ep_device_types e) then None
          else Some (ESP_OK, put_endpoint p
                 (e\<lparr>ep_device_types :=
                      (ep_device_types e)[i := \<lparr>dt_version = device_type_version, dt_id = device_type_id\<rparr>],
                    ep_device_type_count := ep_device_type_count e + 1\<rparr>) s) })"

definition get_device_type_count :: "'n dm \<Rightarrow> handle \<Rightarrow> nat option" where
  "get_device_type_count = read_endpoint 0 (\<lambda>e. unat (ep_device_type_count e))"

definition get_device_type_at_index :: "'n dm \<Rightarrow> handle \<Rightarrow> nat \<Rightarrow> (esp_err + u32 \<times> u8) option" where
  "get_device_type_at_index s eh index =
     (case eh of
        None \<Rightarrow> Some (Inl ESP_ERR_INVALID_ARG)
      | Some p \<Rightarrow> do {
          e \<leftarrow> eps s p;
          if \<not> index < unat (ep_device_type_count e) then Some (Inl ESP_ERR_INVALID_ARG)
          else if \<not> index < length (ep_device_types e) then None
          else Some (Inr (dt_id (ep_device_types e ! index), dt_version (ep_device_types e ! index))) })"

definition set_parent_endpoint :: "handle \<Rightarrow> handle \<Rightarrow> 'n dm \<Rightarrow> (esp_err \<times> 'n dm) option" where
  "set_parent_endpoint eh ph s =
     (case (eh, ph) of
        (Some p, Some q) \<Rightarrow> do {
          e \<leftarrow> eps s p;
          parent \<leftarrow> eps s q;
          Some (ESP_OK, put_endpoint p (e\<lparr>ep_parent := ep_id parent\<rparr>) s) }
      | _ \<Rightarrow> Some (ESP_ERR_INVALID_ARG, s))"

definition get_parent_endpoint_id :: "'n dm \<Rightarrow> handle \<Rightarrow> u16 option" where
  "get_parent_endpoint_id = read_endpoint 0xFFFF ep_parent"

definition get_composition_pattern :: "'n dm \<Rightarrow> handle \<Rightarrow> composition_pattern option" where
  "get_composition_pattern = read_endpoint kFullFamily ep_pattern"

text \<open>The tags are given by a pointer, possibly NULL, and a count.\<close>

definition set_semantic_tags ::
    "handle \<Rightarrow> semantic_tag list option \<Rightarrow> nat \<Rightarrow> 'n dm \<Rightarrow> (esp_err \<times> 'n dm) option" where
  "set_semantic_tags eh tags tag_count s =
     (case eh of
        None \<Rightarrow> Some (ESP_ERR_INVALID_ARG, s)
      | Some p \<Rightarrow>
          if \<not> tag_count \<le> MAX_SEMANTIC_TAG_COUNT then Some (ESP_ERR_INVALID_ARG, s)
          else do {
            e \<leftarrow> eps s p;
            (case tags of
               Some ts \<Rightarrow>
                 if tag_count \<le> length ts \<and> tag_count \<le> length (ep_tags e) then
                   Some (ESP_OK, put_endpoint p
                     (e\<lparr>ep_tags := take tag_count ts @ drop tag_count (ep_tags e),
                        ep_tag_count := of_nat tag_count\<rparr>) s)
                 else None
             | None \<Rightarrow> Some (ESP_OK, put_endpoint p (e\<lparr>ep_tag_count := 0\<rparr>) s)) })"

definition get_semantic_tag_count :: "'n dm \<Rightarrow> handle \<Rightarrow> int option" where
  "get_semantic_tag_count = read_endpoint (- 1) (\<lambda>e. uint (ep_tag_count e))"

definition get_semantic_tag_at_index :: "'n dm \<Rightarrow> handle \<Rightarrow> nat \<Rightarrow> (esp_err + semantic_tag) option" where
  "get_semantic_tag_at_index s eh index =
     (case eh of
        None \<Rightarrow> Some (Inl ESP_ERR_INVALID_ARG)
      | Some p \<Rightarrow> do {
          e \<leftarrow> eps s p;
          if index \<ge> unat (ep_tag_count e) then Some (Inl ESP_ERR_NOT_FOUND)
          else if \<not> index < length (ep_tags e) then None
          else Some (Inr (ep_tags e ! index)) })"

definition set_priv_data :: "u16 \<Rightarrow> handle \<Rightarrow> 'n dm \<Rightarrow> (esp_err \<times> 'n dm) option" where
  "set_priv_data endpoint_id priv_data s = do {
     eh \<leftarrow> endpoint_get_by_id s endpoint_id;
     if eh = None then Some (ESP_ERR_NOT_FOUND, s)
     else update_endpoint (\<lambda>e. e\<lparr>ep_priv := priv_data\<rparr>) eh s }"

definition set_identify :: "u16 \<Rightarrow> handle \<Rightarrow> 'n dm \<Rightarrow> (esp_err \<times> 'n dm) option" where
  "set_identify endpoint_id identify s = do {
     eh \<leftarrow> endpoint_get_by_id s endpoint_id;
     update_endpoint (\<lambda>e. e\<lparr>ep_identify := identify\<rparr>) eh s }"

text \<open>The error code returned for NULL is not 0, so that as a boolean it is true.\<close>

definition is_enabled :: "'n dm \<Rightarrow> handle \<Rightarrow> bool option" where
  "is_enabled = read_endpoint True ep_enabled"

section \<open>Enabling and disabling\<close>

definition Descriptor_Id :: u32 where "Descriptor_Id = 0x1D"
definition PartsList_Id :: u32 where "PartsList_Id = 0x3"
definition Identify_Id :: u32 where "Identify_Id = 0x3"
definition IdentifyType_Id :: u32 where "IdentifyType_Id = 0x1"

text \<open>The loop over the parents does not end when an endpoint is its own ancestor.\<close>

partial_function (option) report_parents :: "u16 \<Rightarrow> 'n dm \<Rightarrow> 'n dm option" where
  "report_parents parent_endpoint_id s =
     (if parent_endpoint_id \<noteq> kInvalidEndpointId then do {
        let s1 = emit (Report_Attribute parent_endpoint_id Descriptor_Id PartsList_Id) s;
        parent \<leftarrow> endpoint_get_by_id s1 parent_endpoint_id;
        next_id \<leftarrow> get_parent_endpoint_id s1 parent;
        report_parents next_id s1 }
      else Some s)"

definition report_parts_list_change_internal :: "handle \<Rightarrow> 'n dm \<Rightarrow> 'n dm option" where
  "report_parts_list_change_internal eh s = do {
     parent_endpoint_id \<leftarrow> get_parent_endpoint_id s eh;
     s1 \<leftarrow> report_parents parent_endpoint_id s;
     Some (emit (Report_Attribute 0 Descriptor_Id PartsList_Id) s1) }"

primrec shutdown_callbacks :: "u16 \<Rightarrow> addr list \<Rightarrow> 'n dm \<Rightarrow> 'n dm option" where
  "shutdown_callbacks endpoint_id [] s = Some s"
| "shutdown_callbacks endpoint_id (c # cs) s = do {
     cb \<leftarrow> get_shutdown_callback s (Some c);
     shutdown_callbacks endpoint_id cs
       (case cb of None \<Rightarrow> s | Some f \<Rightarrow> emit (Shutdown_Callback f endpoint_id) s) }"

definition endpoint_disable :: "handle \<Rightarrow> 'n dm \<Rightarrow> (esp_err \<times> 'n dm) option" where
  "endpoint_disable eh s =
     (case eh of
        None \<Rightarrow> Some (ESP_ERR_INVALID_ARG, s)
      | Some p \<Rightarrow> do {
          e \<leftarrow> eps s p;
          s1 \<leftarrow> report_parts_list_change_internal eh (put_endpoint p (e\<lparr>ep_enabled := False\<rparr>) s);
          s2 \<leftarrow> shutdown_callbacks (ep_id e) (ep_clusters e) s1;
          Some (ESP_OK, s2) })"

text \<open>\<open>identification::init\<close>: the object is connectedhomeip's, the model keeps its address.\<close>

definition identification_init :: "u16 \<Rightarrow> u8 \<Rightarrow> 'n dm \<Rightarrow> (esp_err \<times> 'n dm) option" where
  "identification_init endpoint_id identify_type s =
     (let (q, s1) = alloc s in
      case q of
        None \<Rightarrow> Some (ESP_FAIL, s1)
      | Some a \<Rightarrow> do {
          (_, s2) \<leftarrow> set_identify endpoint_id (Some a) (emit (Identify_New endpoint_id identify_type) s1);
          Some (ESP_OK, s2) })"

text \<open>The attribute is cast to one with a value without a look at its flags.\<close>

definition init_identification :: "handle \<Rightarrow> 'n dm \<Rightarrow> (esp_err \<times> 'n dm) option" where
  "init_identification eh s =
     (case eh of
        None \<Rightarrow> Some (ESP_ERR_INVALID_ARG, s)
      | Some p \<Rightarrow> do {
          identify_cluster \<leftarrow> cluster_get s eh Identify_Id;
          e \<leftarrow> eps s p;
          if identify_cluster \<noteq> None \<and> ep_identify e = None then do {
            identify_type_attr \<leftarrow> attribute_get s identify_cluster IdentifyType_Id;
            (case identify_type_attr of
               Some a \<Rightarrow> do {
                 at \<leftarrow> ats s a;
                 x \<leftarrow> at_ext at;
                 identification_init (ep_id e) (ucast (num_member KU8 (x_val x))) s }
             | None \<Rightarrow> Some (ESP_ERR_INVALID_STATE, s)) }
          else Some (ESP_OK, s) })"

text \<open>A bounds callback walks over the attributes of the cluster and adds the bounds it has for
  them.\<close>

primrec add_bounds_to :: "'n env \<Rightarrow> fnptr \<Rightarrow> addr \<Rightarrow> addr list \<Rightarrow> 'n dm \<Rightarrow> 'n dm option" where
  "add_bounds_to E f c [] s = Some s"
| "add_bounds_to E f c (a # as) s = do {
     at \<leftarrow> ats s a;
     s1 \<leftarrow> (case e_bounds E f s c (at_id at) of
              None \<Rightarrow> Some s
            | Some (mn, mx) \<Rightarrow> do { (_, s1) \<leftarrow> add_bounds E (Some a) mn mx s; Some s1 });
     add_bounds_to E f c as s1 }"

definition add_bounds_callback :: "'n env \<Rightarrow> fnptr \<Rightarrow> addr \<Rightarrow> 'n dm \<Rightarrow> 'n dm option" where
  "add_bounds_callback E f c s = do {
     cl \<leftarrow> cls s c;
     add_bounds_to E f c (cl_attributes cl) (emit (Add_Bounds_Callback f c) s) }"

text \<open>One round of the loop of \<open>invoke_init_callbacks_internal\<close>.\<close>

definition init_cluster :: "'n env \<Rightarrow> u16 \<Rightarrow> addr \<Rightarrow> 'n dm \<Rightarrow> 'n dm option" where
  "init_cluster E endpoint_id c s = do {
     delegate_init_callback \<leftarrow> get_delegate_init_callback s (Some c);
     delegate \<leftarrow> get_delegate_impl s (Some c);
     let s1 = (case delegate_init_callback of
                 None \<Rightarrow> s | Some f \<Rightarrow> emit (Delegate_Init_Callback f delegate endpoint_id) s);
     bounds_callback \<leftarrow> get_add_bounds_callback s1 (Some c);
     s2 \<leftarrow> (case bounds_callback of None \<Rightarrow> Some s1 | Some f \<Rightarrow> add_bounds_callback E f c s1);
     plugin_server_init_callback \<leftarrow> get_plugin_server_init_callback s2 (Some c);
     let s3 = (case plugin_server_init_callback of
                 None \<Rightarrow> s2 | Some f \<Rightarrow> emit (Plugin_Server_Init_Callback f) s2);
     flags \<leftarrow> cluster_get_flags s3 (Some c);
     init_callback \<leftarrow> get_init_callback s3 (Some c);
     let s4 = (case init_callback of None \<Rightarrow> s3 | Some f \<Rightarrow> emit (Init_Callback f endpoint_id) s3);
     if has_flag flags CLUSTER_FLAG_SERVER \<and> has_flag flags CLUSTER_FLAG_INIT_FUNCTION then do {
       init_function \<leftarrow> get_function s4 (Some c) CLUSTER_FLAG_INIT_FUNCTION;
       Some (case init_function of None \<Rightarrow> s4 | Some f \<Rightarrow> emit (Init_Function f endpoint_id) s4) }
     else Some s4 }"

primrec init_clusters :: "'n env \<Rightarrow> u16 \<Rightarrow> addr list \<Rightarrow> 'n dm \<Rightarrow> 'n dm option" where
  "init_clusters E endpoint_id [] s = Some s"
| "init_clusters E endpoint_id (c # cs) s =
     do { s1 \<leftarrow> init_cluster E endpoint_id c s; init_clusters E endpoint_id cs s1 }"

definition invoke_init_callbacks_internal :: "'n env \<Rightarrow> handle \<Rightarrow> 'n dm \<Rightarrow> 'n dm option" where
  "invoke_init_callbacks_internal E eh s =
     (case eh of
        None \<Rightarrow> Some s
      | Some p \<Rightarrow> do { e \<leftarrow> eps s p; init_clusters E (ep_id e) (ep_clusters e) s })"

definition endpoint_enable :: "'n env \<Rightarrow> handle \<Rightarrow> 'n dm \<Rightarrow> (esp_err \<times> 'n dm) option" where
  "endpoint_enable E eh s =
     (case eh of
        None \<Rightarrow> Some (ESP_ERR_INVALID_ARG, s)
      | Some p \<Rightarrow> do {
          e \<leftarrow> eps s p;
          (_, s1) \<leftarrow> init_identification eh (put_endpoint p (e\<lparr>ep_enabled := True\<rparr>) s);
          if started s1 then do {
            s2 \<leftarrow> invoke_init_callbacks_internal E eh s1;
            s3 \<leftarrow> report_parts_list_change_internal eh (emit (Report_Endpoint (ep_id e)) s2);
            Some (ESP_OK, s3) }
          else Some (ESP_OK, s1) })"

primrec enable_list :: "'n env \<Rightarrow> addr list \<Rightarrow> 'n dm \<Rightarrow> 'n dm option" where
  "enable_list E [] s = Some s"
| "enable_list E (p # ps) s = do { (_, s1) \<leftarrow> endpoint_enable E (Some p) s; enable_list E ps s1 }"

definition enable_all :: "'n env \<Rightarrow> 'n dm \<Rightarrow> (esp_err \<times> 'n dm) option" where
  "enable_all E s =
     (case node s of
        None \<Rightarrow> Some (ESP_OK, s)
      | Some nd \<Rightarrow> do { s1 \<leftarrow> enable_list E (nd_endpoints nd) s; Some (ESP_OK, s1) })"

section \<open>Destruction\<close>

primrec shutdown_functions :: "u16 \<Rightarrow> addr list \<Rightarrow> 'n dm \<Rightarrow> 'n dm option" where
  "shutdown_functions endpoint_id [] s = Some s"
| "shutdown_functions endpoint_id (c # cs) s = do {
     flags \<leftarrow> cluster_get_flags s (Some c);
     s1 \<leftarrow> (if has_flag flags CLUSTER_FLAG_SERVER \<and> has_flag flags CLUSTER_FLAG_SHUTDOWN_FUNCTION then do {
              shutdown_function \<leftarrow> get_function s (Some c) CLUSTER_FLAG_SHUTDOWN_FUNCTION;
              Some (case shutdown_function of None \<Rightarrow> s | Some f \<Rightarrow> emit (Shutdown_Function f endpoint_id) s) }
            else Some s);
     shutdown_functions endpoint_id cs s1 }"

text \<open>The list of the endpoint is moved on after each cluster.\<close>

primrec destroy_clusters :: "'n env \<Rightarrow> addr \<Rightarrow> addr list \<Rightarrow> 'n dm \<Rightarrow> 'n dm option" where
  "destroy_clusters E p [] s = Some s"
| "destroy_clusters E p (c # cs) s = do {
     (_, s1) \<leftarrow> cluster_destroy E (Some c) s;
     e \<leftarrow> eps s1 p;
     destroy_clusters E p cs (put_endpoint p (e\<lparr>ep_clusters := cs\<rparr>) s1) }"

definition free_endpoint :: "addr \<Rightarrow> node_t \<Rightarrow> 'n dm \<Rightarrow> 'n dm option" where
  "free_endpoint p nd s = do {
     e \<leftarrow> eps s p;
     let s1 = put_node (Some (nd\<lparr>nd_endpoints := remove1 p (nd_endpoints nd)\<rparr>)) s;
     let s2 = (case ep_identify e of None \<Rightarrow> s1 | Some i \<Rightarrow> emit (Identify_Delete i) s1);
     Some (s2\<lparr>eps := (eps s2)(p := None)\<rparr>) }"

definition endpoint_destroy :: "'n env \<Rightarrow> handle \<Rightarrow> handle \<Rightarrow> 'n dm \<Rightarrow> (esp_err \<times> 'n dm) option" where
  "endpoint_destroy E nh eh s =
     (case (nh, eh) of
        (Some n, Some p) \<Rightarrow> do {
          e \<leftarrow> eps s p;
          if \<not> has_flag (ep_flags e) ENDPOINT_FLAG_DESTROYABLE then Some (ESP_FAIL, s)
          else do {
            (_, s1) \<leftarrow> endpoint_disable eh s;
            nd \<leftarrow> node_at s1 n;
            if p \<notin> set (nd_endpoints nd) then Some (ESP_FAIL, s1)
            else do {
              s2 \<leftarrow> shutdown_functions (ep_id e) (ep_clusters e) s1;
              s3 \<leftarrow> destroy_clusters E p (ep_clusters e) s2;
              s4 \<leftarrow> free_endpoint p nd s3;
              Some (ESP_OK, s4) } } }
      | _ \<Rightarrow> Some (ESP_ERR_INVALID_ARG, s))"

section \<open>Counting clusters\<close>

definition check_cluster_flags :: "u8 \<Rightarrow> 'n dm \<Rightarrow> handle \<Rightarrow> u32 option" where
  "check_cluster_flags cluster_flags s ch =
     (case ch of
        None \<Rightarrow> Some 0
      | Some c \<Rightarrow> do { cl \<leftarrow> cls s c; Some (if has_flag (cl_flags cl) cluster_flags then 1 else 0) })"

primrec sum_m :: "('a \<Rightarrow> u32 option) \<Rightarrow> 'a list \<Rightarrow> u32 option" where
  "sum_m f [] = Some 0"
| "sum_m f (x # xs) = do { n \<leftarrow> f x; m \<leftarrow> sum_m f xs; Some (n + m) }"

definition count_on_endpoint :: "'n dm \<Rightarrow> u32 \<Rightarrow> u8 \<Rightarrow> addr \<Rightarrow> u32 option" where
  "count_on_endpoint s cluster_id cluster_flags p = do {
     e \<leftarrow> eps s p;
     if \<not> ep_enabled e then Some 0
     else if cluster_id = kInvalidClusterId then
       sum_m (\<lambda>c. check_cluster_flags cluster_flags s (Some c)) (ep_clusters e)
     else do { c \<leftarrow> cluster_get s (Some p) cluster_id; check_cluster_flags cluster_flags s c } }"

text \<open>The 32-bit endpoint id is cut to 16 bits by the functions it is handed to.\<close>

definition get_cluster_count :: "'n dm \<Rightarrow> u32 \<Rightarrow> u32 \<Rightarrow> u8 \<Rightarrow> u32 option" where
  "get_cluster_count s endpoint_id cluster_id cluster_flags =
     (case node s of
        None \<Rightarrow> Some 0
      | Some nd \<Rightarrow>
          if (ucast endpoint_id :: u16) = kInvalidEndpointId then
            sum_m (count_on_endpoint s cluster_id cluster_flags) (nd_endpoints nd)
          else do {
            eh \<leftarrow> endpoint_get_by_id s (ucast endpoint_id);
            (case eh of None \<Rightarrow> Some 0 | Some p \<Rightarrow> count_on_endpoint s cluster_id cluster_flags p) })"

section \<open>The node\<close>

definition create_raw :: "'n dm \<Rightarrow> handle \<times> 'n dm" where
  "create_raw s =
     (case node s of
        Some nd \<Rightarrow> (Some (nd_addr nd), s)
      | None \<Rightarrow>
          (let (q, s1) = alloc s in
           case q of
             None \<Rightarrow> (None, s1)
           | Some a \<Rightarrow> (Some a, put_node (Some \<lparr>nd_addr = a, nd_endpoints = [], nd_min_unused = 0\<rparr>) s1)))"

definition destroy_raw :: "'n dm \<Rightarrow> esp_err \<times> 'n dm" where
  "destroy_raw s =
     (case node s of None \<Rightarrow> (ESP_ERR_INVALID_STATE, s) | Some _ \<Rightarrow> (ESP_OK, put_node None s))"

definition identification_set_callback :: "fnptr option \<Rightarrow> 'n dm \<Rightarrow> 'n dm" where
  "identification_set_callback callback s = s\<lparr>identification_callback := callback\<rparr>"

primrec destroy_endpoints :: "'n env \<Rightarrow> handle \<Rightarrow> addr list \<Rightarrow> 'n dm \<Rightarrow> 'n dm option" where
  "destroy_endpoints E nh [] s = Some s"
| "destroy_endpoints E nh (p # ps) s = do {
     e \<leftarrow> eps s p;
     (_, s1) \<leftarrow> endpoint_destroy E nh (Some p)
       (put_endpoint p (e\<lparr>ep_flags := ep_flags e OR ENDPOINT_FLAG_DESTROYABLE\<rparr>) s);
     destroy_endpoints E nh ps s1 }"

definition node_destroy :: "'n env \<Rightarrow> 'n dm \<Rightarrow> (esp_err \<times> 'n dm) option" where
  "node_destroy E s =
     (case node s of
        None \<Rightarrow> Some (ESP_ERR_INVALID_STATE, s)
      | Some nd \<Rightarrow> do {
          s1 \<leftarrow> destroy_endpoints E (Some (nd_addr nd)) (nd_endpoints nd)
            (identification_set_callback None (snd (set_callback None s)));
          Some (destroy_raw s1) })"

definition get_server_cluster_endpoint_count :: "'n dm \<Rightarrow> u32 \<Rightarrow> u32 option" where
  "get_server_cluster_endpoint_count s cluster_id =
     get_cluster_count s (ucast kInvalidEndpointId) cluster_id CLUSTER_FLAG_SERVER"

definition get_client_cluster_endpoint_count :: "'n dm \<Rightarrow> u32 \<Rightarrow> u32 option" where
  "get_client_cluster_endpoint_count s cluster_id =
     get_cluster_count s (ucast kInvalidEndpointId) cluster_id CLUSTER_FLAG_CLIENT"

end
