(* ===== verification/EM_EndpointProps.thy ===== *)
theory EM_EndpointProps
  imports EM_Endpoint
begin

text \<open>
  What the endpoint and node operations keep and establish: creation hands out fresh ids,
  reporting ends when the parent relation has no cycle, destruction frees exactly what the endpoint
  owns, and the counts of clusters are cardinalities.
\<close>

section \<open>Updates of an endpoint\<close>

lemma inv_endpoint_redeclare:
  assumes inv: "dm_inv s" and e: "eps s p = Some e" and e': "ep_id e' = ep_id e" "ep_clusters e' = ep_clusters e"
  shows "dm_inv (put_endpoint p e' s)"
proof -
  note lay = inv[unfolded dm_inv_def layer_defs]
  have "owns (\<lambda>_ _. True) (\<lambda>e f. ep_id e \<noteq> ep_id f) nd_endpoints (\<lambda>_ :: unit. node s) ((eps s)(p \<mapsto> e'))"
    using lay e e' by (intro owns_update_child[where c = e]) auto
  moreover have "owns (\<lambda>e c. cl_ep c = ep_id e) (\<lambda>c d. cl_id c \<noteq> cl_id d) ep_clusters
      ((eps s)(p \<mapsto> e')) (cls s)"
    using lay e e' by (intro owns_update_parent[where p = e]) auto
  moreover have "fresh_above (put_endpoint p e' s)"
    using inv_fresh[OF inv] inv_live_below(1)[OF inv e] by (auto simp: fresh_above_def)
  ultimately show ?thesis using lay unfolding dm_inv_def layer_defs by simp
qed

lemma ids_below_redeclare:
  assumes "ids_below s" "eps s p = Some e" "ep_id e' = ep_id e"
  shows "ids_below (put_endpoint p e' s)"
  using assms by (auto simp: ids_below_def split: if_splits)

lemma inv_node_redeclare:
  assumes inv: "dm_inv s" and nd: "node s = Some nd" "nd_endpoints nd' = nd_endpoints nd" "nd_addr nd' = nd_addr nd"
    and t: "node t = Some nd'" "eps t = eps s" "cls t = cls s" "ats t = ats s" "cms t = cms s" "evs t = evs s"
      "mem t = mem s"
  shows "dm_inv t"
proof -
  note lay = inv[unfolded dm_inv_def layer_defs]
  have "owns (\<lambda>_ _. True) (\<lambda>e f. ep_id e \<noteq> ep_id f) nd_endpoints ((\<lambda>_ :: unit. node s)(() \<mapsto> nd')) (eps s)"
    using lay nd by (intro owns_update_parent[where p = nd]) auto
  moreover have "(\<lambda>_ :: unit. node s)(() \<mapsto> nd') = (\<lambda>_. node t)" using t(1) by auto
  moreover have "fresh_above t" using inv_fresh[OF inv] t nd by (auto simp: fresh_above_def)
  ultimately show ?thesis using lay unfolding dm_inv_def layer_defs by (simp add: t)
qed

lemma update_endpoint_inv:
  assumes "update_endpoint f eh s = Some (err, s')" "dm_inv s"
    "\<And>e. ep_id (f e) = ep_id e" "\<And>e. ep_clusters (f e) = ep_clusters e"
  shows "dm_inv s'"
  using assms by (auto simp: update_endpoint_def intro!: inv_endpoint_redeclare split: option.splits bind_splits)

section \<open>Creation\<close>

text \<open>Adding an endpoint with an id that is not in use, with the counter moved or not.\<close>

lemma inv_add_endpoint:
  assumes inv: "dm_inv s" and nd: "node s = Some nd" and a: "a = mem_next (mem s)"
    and e: "ep_clusters e = []" and new: "\<And>p f. eps s p = Some f \<Longrightarrow> ep_id f \<noteq> ep_id e"
    and nd': "nd_endpoints nd' = nd_endpoints nd @ [a]" "nd_addr nd' = nd_addr nd"
    and s': "node s' = Some nd'" "eps s' = (eps s)(a \<mapsto> e)" "cls s' = cls s" "ats s' = ats s"
      "cms s' = cms s" "evs s' = evs s" "mem_next (mem s') = Suc (mem_next (mem s))"
  shows "dm_inv s'"
proof -
  note lay = inv[unfolded dm_inv_def layer_defs]
  have free: "eps s a = None" using inv_next_free[OF inv] a by simp
  have "owns (\<lambda>_ _. True) (\<lambda>e f. ep_id e \<noteq> ep_id f) nd_endpoints ((\<lambda>_ :: unit. node s)(() \<mapsto> nd'))
      ((eps s)(a \<mapsto> e))"
    using lay nd free nd' new by (intro owns_add_child[where p = nd]) (auto dest: new)
  moreover have "(\<lambda>_ :: unit. node s)(() \<mapsto> nd') = (\<lambda>_. node s')" using s'(1) by auto
  moreover have "owns (\<lambda>e c. cl_ep c = ep_id e) (\<lambda>c d. cl_id c \<noteq> cl_id d) ep_clusters ((eps s)(a \<mapsto> e)) (cls s)"
    using lay free e by (intro owns_add_parent) auto
  moreover have "fresh_above s'"
    using inv_fresh[OF inv] s' nd nd' a by (auto simp: fresh_above_def)
  ultimately show ?thesis using lay unfolding dm_inv_def layer_defs by (simp add: s')
qed

lemma store_min_unused_frame [simp]:
  "node (snd (store_min_unused_endpoint_id E s)) = node s" "eps (snd (store_min_unused_endpoint_id E s)) = eps s"
  "cls (snd (store_min_unused_endpoint_id E s)) = cls s" "ats (snd (store_min_unused_endpoint_id E s)) = ats s"
  "cms (snd (store_min_unused_endpoint_id E s)) = cms s" "evs (snd (store_min_unused_endpoint_id E s)) = evs s"
  "mem (snd (store_min_unused_endpoint_id E s)) = mem s"
  "started (snd (store_min_unused_endpoint_id E s)) = started s"
  "log (snd (store_min_unused_endpoint_id E s)) = log s"
  "timers (snd (store_min_unused_endpoint_id E s)) = timers s"
  by (auto simp: store_min_unused_endpoint_id_def split: option.splits prod.splits)

lemma alloc_mem:
  assumes "alloc s = (Some a, s1)"
  shows "mem_next (mem s1) = Suc (mem_next (mem s))"
  using assms by (auto simp: alloc_def mem_calloc_def split: if_splits)

lemma endpoints_live:
  assumes "dm_inv s" "node s = Some nd"
  shows "list_all (\<lambda>a. eps s a \<noteq> None) (nd_endpoints nd)" "distinct (nd_endpoints nd)"
proof -
  note own = inv_ep[OF assms(1), unfolded ep_layer_def]
  show "list_all (\<lambda>a. eps s a \<noteq> None) (nd_endpoints nd)"
    using owns_live[OF own assms(2)] by (auto simp: list_all_iff)
  show "distinct (nd_endpoints nd)" by (rule owns_distinct[OF own assms(2)])
qed

lemma endpoint_create_cases:
  assumes r: "endpoint_create E (Some (nd_addr nd)) flags pd s = Some (h, s')"
    and inv: "dm_inv s" and nd: "node s = Some nd"
  obtains (full) "h = None" "s' = s" "\<not> unat (of_nat (length (nd_endpoints nd)) :: u16) < e_max_endpoints E"
  | (no_mem) "h = None" "s' = s\<lparr>mem := snd (mem_calloc (mem s))\<rparr>"
  | (created) a where "h = Some a" "a = mem_next (mem s)"
      "unat (of_nat (length (nd_endpoints nd)) :: u16) < e_max_endpoints E"
      "node s' = Some (nd\<lparr>nd_min_unused := nd_min_unused nd + 1, nd_endpoints := nd_endpoints nd @ [a]\<rparr>)"
      "eps s' = (eps s)(a \<mapsto> (new_endpoint E (nd_min_unused nd) flags pd)
         \<lparr>ep_parent := kInvalidEndpointId, ep_enabled := True\<rparr>)"
      "cls s' = cls s" "ats s' = ats s" "cms s' = cms s" "evs s' = evs s"
      "mem_next (mem s') = Suc (mem_next (mem s))" "log s' = log s" "started s' = started s"
proof -
  have count: "endpoint_get_count s (Some (nd_addr nd)) = Some (of_nat (length (nd_endpoints nd)))"
    using endpoints_live(1)[OF inv nd] nd by (simp add: endpoint_get_count_def node_at_def)
  obtain q s1 where al: "alloc s = (q, s1)" by fastforce
  note s1 = alloc_cases(1)[OF al]
  have nat: "node_at s (nd_addr nd) = Some nd" using nd by (simp add: node_at_def)
  show ?thesis
  proof (cases "unat (of_nat (length (nd_endpoints nd)) :: u16) < e_max_endpoints E")
    case False
    then show ?thesis using full r count nat by (simp add: endpoint_create_def)
  next
    case room: True
    show ?thesis
    proof (cases q)
      case None
      then show ?thesis using no_mem r count nat room al s1 by (simp add: endpoint_create_def)
    next
      case (Some a)
      have "h = Some a" "s' = link_endpoint a (nd\<lparr>nd_min_unused := nd_min_unused nd + 1\<rparr>)
          (let s2 = put_endpoint a
             ((new_endpoint E (nd_min_unused nd) flags pd)\<lparr>ep_parent := kInvalidEndpointId, ep_enabled := True\<rparr>)
             (put_node (Some (nd\<lparr>nd_min_unused := nd_min_unused nd + 1\<rparr>)) s1)
           in if started s2 then snd (store_min_unused_endpoint_id E s2) else s2)"
        using r count nat room al Some by (simp_all add: endpoint_create_def Let_def)
      moreover have "a = mem_next (mem s)" using alloc_cases(2)[OF al Some] .
      moreover have "mem_next (mem s1) = Suc (mem_next (mem s))" using alloc_mem al Some by blast
      ultimately show ?thesis using room s1 by (intro created[of a]) (auto simp: link_endpoint_def Let_def)
    qed
  qed
qed

lemma endpoint_get_by_id_iff:
  assumes "dm_inv s"
  shows "endpoint_get_by_id s i = Some (Some a) \<longleftrightarrow> (\<exists>e. eps s a = Some e \<and> ep_id e = i)"
    and "endpoint_get_by_id s i = Some None \<longleftrightarrow> (\<forall>a e. eps s a = Some e \<longrightarrow> ep_id e \<noteq> i)"
proof -
  obtain h where h: "endpoint_get_by_id s i = Some h"
      "\<And>a. h = Some a \<longleftrightarrow> (\<exists>e. eps s a = Some e \<and> ep_id e = i)"
    using endpoint_get_by_id_exact[OF assms, of i] by blast
  show "endpoint_get_by_id s i = Some (Some a) \<longleftrightarrow> (\<exists>e. eps s a = Some e \<and> ep_id e = i)"
    using h(1) h(2)[of a] by simp
  show "endpoint_get_by_id s i = Some None \<longleftrightarrow> (\<forall>a e. eps s a = Some e \<longrightarrow> ep_id e \<noteq> i)"
    using h(1) h(2) by (cases h) (simp_all, blast+)
qed

lemma endpoint_get_by_id_other:
  assumes "dm_inv s" "dm_inv s'" "\<And>a e. eps s' a = Some e \<and> ep_id e = j \<longleftrightarrow> eps s a = Some e \<and> ep_id e = j"
  shows "endpoint_get_by_id s' j = endpoint_get_by_id s j"
proof -
  obtain h where h: "endpoint_get_by_id s j = Some h" using endpoint_get_by_id_exact[OF assms(1)] by blast
  show ?thesis
  proof (cases h)
    case None
    then have "\<forall>a e. eps s' a = Some e \<longrightarrow> ep_id e \<noteq> j"
      using endpoint_get_by_id_iff(2)[OF assms(1), of j] assms(3) h by blast
    then show ?thesis using endpoint_get_by_id_iff(2)[OF assms(2), of j] h None by simp
  next
    case (Some a)
    then have "\<exists>e. eps s' a = Some e \<and> ep_id e = j"
      using endpoint_get_by_id_iff(1)[OF assms(1), of j a] assms(3) h by blast
    then show ?thesis using endpoint_get_by_id_iff(1)[OF assms(2), of j a] h Some by simp
  qed
qed

lemma u16_less_suc:
  assumes "(m :: u16) < 0xFFFF"
  shows "m < m + 1"
proof -
  have "unat m < 65535" using assms by (simp add: word_less_nat_alt)
  then have "unat (m + 1) = unat m + 1" by (simp add: unat_plus_if')
  then show ?thesis by (simp add: word_less_nat_alt)
qed

lemma endpoint_create_inv:
  assumes r: "endpoint_create E (Some (nd_addr nd)) flags pd s = Some (h, s')"
    and inv: "dm_inv s" "ids_below s" and nd: "node s = Some nd"
  shows "dm_inv s'" "nd_min_unused nd < 0xFFFF \<Longrightarrow> ids_below s'"
proof -
  have new: "ep_id f \<noteq> nd_min_unused nd" if "eps s p = Some f" for p f
    using inv(2) nd that by (fastforce simp: ids_below_def)
  from r inv(1) nd have "dm_inv s' \<and> (nd_min_unused nd < 0xFFFF \<longrightarrow> ids_below s')"
  proof (cases rule: endpoint_create_cases)
    case full
    then show ?thesis using inv by simp
  next
    case no_mem
    then show ?thesis using inv inv_cong[OF inv(1), of s'] by (auto simp: ids_below_def mem_calloc_def)
  next
    case (created a)
    have "ids_below s'" if m: "nd_min_unused nd < 0xFFFF"
    proof -
      have "nd_min_unused nd < nd_min_unused nd + 1"
        by (rule u16_less_suc[OF m])
      then show ?thesis using inv(2) nd created(4,5)
        by (auto simp: ids_below_def new_endpoint_def split: if_splits intro: order_less_trans)
    qed
    moreover have "dm_inv s'"
      by (rule inv_add_endpoint[OF inv(1) nd created(2) _ _ _ _ created(4-10)])
        (use new in \<open>auto simp: new_endpoint_def\<close>)
    ultimately show ?thesis by blast
  qed
  then show "dm_inv s'" "nd_min_unused nd < 0xFFFF \<Longrightarrow> ids_below s'" by blast+
qed

lemma endpoint_create_total:
  assumes "dm_inv s" "node s = Some nd"
  shows "\<exists>h s'. endpoint_create E (Some (nd_addr nd)) flags pd s = Some (h, s')"
  using endpoints_live(1)[OF assms] assms(2)
  by (auto simp: endpoint_create_def endpoint_get_count_def node_at_def Let_def split: prod.splits option.splits)

text \<open>C17: creating an endpoint.  The operation always ends; while the 16-bit counter has not run
  out it keeps the shape of the store and the rule that ids in use are below the counter, so that
  a new endpoint is the only one found under its id, and it never exceeds the configured number
  of endpoints.  When there is no room or no memory no endpoint appears.\<close>

theorem endpoint_create_correct:
  assumes inv: "dm_inv s" "ids_below s" and nd: "node s = Some nd" "nd_min_unused nd < 0xFFFF"
    and max: "length (nd_endpoints nd) \<le> e_max_endpoints E" "e_max_endpoints E < 65536"
  shows "\<exists>h s' nd'. endpoint_create E (Some (nd_addr nd)) flags pd s = Some (h, s') \<and>
    dm_inv s' \<and> ids_below s' \<and> node s' = Some nd' \<and> length (nd_endpoints nd') \<le> e_max_endpoints E \<and>
    (h = None \<longrightarrow> eps s' = eps s) \<and>
    (\<forall>a. h = Some a \<longrightarrow> eps s a = None \<and> endpoint_get_by_id s (nd_min_unused nd) = Some None \<and>
       endpoint_get_by_id s' (nd_min_unused nd) = Some (Some a) \<and>
       (\<forall>j. j \<noteq> nd_min_unused nd \<longrightarrow> endpoint_get_by_id s' j = endpoint_get_by_id s j))"
proof -
  obtain h s' where r: "endpoint_create E (Some (nd_addr nd)) flags pd s = Some (h, s')"
    using endpoint_create_total[OF inv(1) nd(1)] by blast
  note ok = endpoint_create_inv[OF r inv nd(1)]
  have small: "unat (of_nat (length (nd_endpoints nd)) :: u16) = length (nd_endpoints nd)"
    using max by (simp add: unsigned_of_nat take_bit_nat_eq_self)
  have new: "\<forall>a e. eps s a = Some e \<longrightarrow> ep_id e \<noteq> nd_min_unused nd"
    using inv(2) nd(1) by (fastforce simp: ids_below_def)
  from r inv(1) nd(1) show ?thesis
  proof (cases rule: endpoint_create_cases)
    case full
    then show ?thesis using r ok nd max by auto
  next
    case no_mem
    then show ?thesis using r ok nd max by auto
  next
    case (created a)
    have "endpoint_get_by_id s' j = endpoint_get_by_id s j" if "j \<noteq> nd_min_unused nd" for j
      using that inv_next_free(1)[OF inv(1)]
      by (intro endpoint_get_by_id_other[OF inv(1) ok(1)]) (auto simp: created(2,5) new_endpoint_def)
    moreover have "endpoint_get_by_id s' (nd_min_unused nd) = Some (Some a)"
      using endpoint_get_by_id_iff(1)[OF ok(1)] by (simp add: created(5) new_endpoint_def)
    moreover have "endpoint_get_by_id s (nd_min_unused nd) = Some None"
      using endpoint_get_by_id_iff(2)[OF inv(1)] new by simp
    moreover have "eps s a = None" using inv_next_free(1)[OF inv(1)] created(2) by simp
    ultimately show ?thesis using r ok nd created(1,3,4) small by auto
  qed
qed

theorem endpoint_create_correct_witness:
  "\<exists>h s' nd'. endpoint_create demo_env (Some 1) 0 None demo = Some (h, s') \<and> dm_inv s' \<and> ids_below s' \<and>
     node s' = Some nd' \<and> length (nd_endpoints nd') \<le> 16 \<and>
     (\<forall>a. h = Some a \<longrightarrow> endpoint_get_by_id s' 2 = Some (Some a))"
proof -
  have ids: "ids_below demo" by (auto simp: ids_below_def demo_endpoint_def split: if_splits)
  let ?nd = "\<lparr>nd_addr = 1, nd_endpoints = [2], nd_min_unused = 2\<rparr>"
  obtain h s' nd' where "endpoint_create demo_env (Some (nd_addr ?nd)) 0 None demo = Some (h, s')"
    "dm_inv s'" "ids_below s'" "node s' = Some nd'" "length (nd_endpoints nd') \<le> e_max_endpoints demo_env"
    "\<forall>a. h = Some a \<longrightarrow> endpoint_get_by_id s' (nd_min_unused ?nd) = Some (Some a)"
    using endpoint_create_correct[OF demo_inv ids, of ?nd demo_env 0 None] by auto
  then show ?thesis by auto
qed

lemma endpoint_resume_inv:
  assumes r: "endpoint_resume E (Some (nd_addr nd)) flags i pd s = Some (h, s')"
    and inv: "dm_inv s" "ids_below s" and nd: "node s = Some nd"
  shows "dm_inv s' \<and> ids_below s' \<and>
    (\<forall>a. h = Some a \<longrightarrow> endpoint_get_by_id s i = Some None \<and> endpoint_get_by_id s' i = Some (Some a))"
proof -
  have nat: "node_at s (nd_addr nd) = Some nd" using nd by (simp add: node_at_def)
  obtain g' where g': "endpoint_get_by_id s i = Some g'" using endpoint_get_by_id_exact[OF inv(1)] by blast
  then have g: "find_m (\<lambda>a. do { e \<leftarrow> eps s a; Some (ep_id e = i) }) (nd_endpoints nd) = Some g'"
    using nat nd by (simp add: endpoint_get_by_id_def endpoint_get_def node_get_def)
  obtain q s1 where al: "alloc s = (q, s1)" by fastforce
  note s1 = alloc_cases(1)[OF al]
  have s1': "dm_inv s1" "ids_below s1"
    using inv inv_cong[OF inv(1), of s1] s1 by (auto simp: ids_below_def mem_calloc_def)
  show ?thesis
  proof (cases "g' = None \<and> i < nd_min_unused nd \<and> q \<noteq> None")
    case False
    then have "h = None" "s' = s \<or> s' = s1"
      using r nat g al by (auto simp: endpoint_resume_def split: if_splits option.splits)
    then show ?thesis using inv s1' by auto
  next
    case True
    then obtain a where a: "q = Some a" by blast
    let ?e = "new_endpoint E i flags pd"
    have h: "h = Some a" "s' = link_endpoint a nd (put_endpoint a ?e s1)"
      using r nat g al True a by (simp_all add: endpoint_resume_def)
    have a': "a = mem_next (mem s)" "mem_next (mem s1) = Suc (mem_next (mem s))"
      using alloc_cases(2)[OF al a] alloc_mem al a by blast+
    have "dm_inv s'"
    proof (rule inv_add_endpoint[OF inv(1) nd a'(1), where e = ?e and nd' = "nd\<lparr>nd_endpoints := nd_endpoints nd @ [a]\<rparr>"])
      show "ep_id f \<noteq> ep_id ?e" if "eps s p = Some f" for p f
        using that endpoint_get_by_id_iff(2)[OF inv(1), of i] g' True by (auto simp: new_endpoint_def)
    qed (use h s1 a' in \<open>auto simp: new_endpoint_def link_endpoint_def\<close>)
    moreover have "ids_below s'"
      using inv(2) nd True s1 by (auto simp: h link_endpoint_def ids_below_def new_endpoint_def split: if_splits)
    moreover from calculation have "endpoint_get_by_id s' i = Some (Some a)"
      using endpoint_get_by_id_iff(1)[of s' i a] by (simp add: h link_endpoint_def new_endpoint_def)
    ultimately show ?thesis using g' True h(1) by simp
  qed
qed

section \<open>The persistent counter\<close>

lemma ucast_u16 [simp]: "(ucast (ucast (x :: u16) :: u64) :: u16) = x"
  by (rule bit_word_eqI) (simp add: bit_unsigned_iff)

lemma find_m_append_found: "find_m p xs = Some (Some a) \<Longrightarrow> find_m p (xs @ ys) = Some (Some a)"
  by (induction xs) (auto split: bind_splits if_splits)

lemma find_m_cong: "(\<And>x. x \<in> set xs \<Longrightarrow> p x = q x) \<Longrightarrow> find_m p xs = find_m q xs"
  by (induction xs) (simp_all cong: if_cong)

text \<open>The counter of endpoint ids survives a restart.  What was stored successfully is what the
  next start reads back into its node.\<close>

theorem endpoint_counter_roundtrip:
  assumes api: "nvs_ok (e_nvs E)" and st: "store_min_unused_endpoint_id E s = (ESP_OK, s1)"
    and nd: "node s = Some nd" and t: "nvs t = nvs s1" "started t" "node t = Some nd'"
  shows "\<exists>t'. read_min_unused_endpoint_id E t = (ESP_OK, t') \<and>
    node t' = Some (nd'\<lparr>nd_min_unused := nd_min_unused nd\<rparr>)"
proof -
  let ?api = "e_nvs E" and ?it = "Num_Item NK_U16 (ucast (nd_min_unused nd))"
  obtain err n n1 where n: "api_open ?api kvs_namespace NVS_READWRITE (nvs s) = (err, n)" "err = ESP_OK"
      "api_set ?api kvs_namespace min_unused_key ?it n = (ESP_OK, n1)"
      "nvs s1 = api_commit ?api kvs_namespace n1"
    using st nd by (auto simp: store_min_unused_endpoint_id_def split: if_splits prod.splits)
  have g: "api_get ?api kvs_namespace min_unused_key NK_U16 (nvs t) = Inr ?it"
    using nvs_get_set[OF api n(3)] nvs_get_commit[OF api] n(4) t(1) by simp
  obtain m where m: "api_open ?api kvs_namespace NVS_READONLY (nvs t) = (ESP_OK, m)"
    using nvs_open_used[OF api g, of NVS_READONLY] by (metis prod.collapse)
  then have "api_get ?api kvs_namespace min_unused_key NK_U16 m = Inr ?it"
    using nvs_get_open[OF api, of kvs_namespace min_unused_key NK_U16 kvs_namespace NVS_READONLY "nvs t"] g by simp
  then show ?thesis using m t by (simp add: read_min_unused_endpoint_id_def load_min_unused_def)
qed

theorem endpoint_counter_roundtrip_witness:
  "\<exists>s1 t'. store_min_unused_endpoint_id demo_env demo = (ESP_OK, s1) \<and>
     read_min_unused_endpoint_id demo_env (demo\<lparr>nvs := nvs s1, node := Some \<lparr>nd_addr = 1, nd_endpoints = [2],
       nd_min_unused = 0\<rparr>\<rparr>) = (ESP_OK, t') \<and>
     node t' = Some \<lparr>nd_addr = 1, nd_endpoints = [2], nd_min_unused = 2\<rparr>"
proof -
  have api: "nvs_ok (e_nvs demo_env)" using map_api_ok by simp
  obtain s1 where s1: "store_min_unused_endpoint_id demo_env demo = (ESP_OK, s1)"
    by (simp add: store_min_unused_endpoint_id_def map_api_def)
  let ?nd = "\<lparr>nd_addr = 1, nd_endpoints = [2], nd_min_unused = 2\<rparr>"
    and ?blank = "\<lparr>nd_addr = 1, nd_endpoints = [2], nd_min_unused = 0\<rparr>"
  have "\<exists>t'. read_min_unused_endpoint_id demo_env (demo\<lparr>nvs := nvs s1, node := Some ?blank\<rparr>) = (ESP_OK, t') \<and>
      node t' = Some (?blank\<lparr>nd_min_unused := nd_min_unused ?nd\<rparr>)"
    by (rule endpoint_counter_roundtrip[OF api s1, where nd = ?nd and nd' = ?blank]) simp_all
  then show ?thesis using s1 by simp
qed

text \<open>C34: the start replaces the counter by the stored one even when endpoints with larger ids
  already exist.  If the stored counter is the id of an existing endpoint, the next created
  endpoint gets the same id, and is not found: a lookup still gives the old one.\<close>

theorem endpoint_counter_goes_back:
  assumes api: "nvs_ok (e_nvs E)" and inv: "dm_inv s" and nd: "node s = Some nd" "started s"
    and e: "eps s p = Some e"
    and stored: "api_get (e_nvs E) kvs_namespace min_unused_key NK_U16 (nvs s) =
      Inr (Num_Item NK_U16 (ucast (ep_id e)))"
    and ok: "endpoint_create E (Some (nd_addr nd)) flags pd
      (snd (read_min_unused_endpoint_id E s)) = Some (Some a, s')"
  shows "\<exists>f. eps s' a = Some f \<and> ep_id f = ep_id e \<and> a \<noteq> p \<and> eps s' p = Some e \<and>
    endpoint_get_by_id s' (ep_id e) = Some (Some p)"
proof -
  let ?api = "e_nvs E"
  obtain m where m: "api_open ?api kvs_namespace NVS_READONLY (nvs s) = (ESP_OK, m)"
    using nvs_open_used[OF api stored, of NVS_READONLY] by (metis prod.collapse)
  then have "api_get ?api kvs_namespace min_unused_key NK_U16 m = Inr (Num_Item NK_U16 (ucast (ep_id e)))"
    using nvs_get_open[OF api, of kvs_namespace min_unused_key NK_U16 kvs_namespace NVS_READONLY "nvs s"] stored
    by simp
  then have t: "snd (read_min_unused_endpoint_id E s) =
      put_node (Some (nd\<lparr>nd_min_unused := ep_id e\<rparr>)) (s\<lparr>nvs := m\<rparr>)" (is "_ = ?t")
    using m nd by (simp add: read_min_unused_endpoint_id_def load_min_unused_def)
  have "dm_inv ?t" by (rule inv_node_redeclare[OF inv nd(1)]) simp_all
  have r: "endpoint_create E (Some (nd_addr (nd\<lparr>nd_min_unused := ep_id e\<rparr>))) flags pd ?t = Some (Some a, s')"
    using ok t by simp
  from r \<open>dm_inv ?t\<close> have "\<exists>f. a = mem_next (mem s) \<and> eps s' = (eps s)(a \<mapsto> f) \<and> ep_id f = ep_id e \<and>
      node s' = Some (nd\<lparr>nd_min_unused := ep_id e + 1, nd_endpoints := nd_endpoints nd @ [a]\<rparr>)"
    by (rule endpoint_create_cases) (auto simp: new_endpoint_def)
  then obtain f where f: "a = mem_next (mem s)" "eps s' = (eps s)(a \<mapsto> f)" "ep_id f = ep_id e"
      "node s' = Some (nd\<lparr>nd_min_unused := ep_id e + 1, nd_endpoints := nd_endpoints nd @ [a]\<rparr>)" by blast
  have "a \<noteq> p" using f(1) inv_next_free(1)[OF inv] e by auto
  moreover have "endpoint_get_by_id s' (ep_id e) = Some (Some p)"
  proof -
    have "endpoint_get_by_id s (ep_id e) = Some (Some p)" using endpoint_get_by_id_iff(1)[OF inv] e by blast
    then have "find_m (\<lambda>a. do { f \<leftarrow> eps s a; Some (ep_id f = ep_id e) }) (nd_endpoints nd) = Some (Some p)"
      using nd by (simp add: endpoint_get_by_id_def endpoint_get_def node_get_def node_at_def)
    moreover have "eps s' x = eps s x" if "x \<in> set (nd_endpoints nd)" for x
      using endpoints_live(1)[OF inv nd(1)] that f(1,2) inv_next_free(1)[OF inv] by (auto simp: list_all_iff)
    ultimately have "find_m (\<lambda>a. do { f \<leftarrow> eps s' a; Some (ep_id f = ep_id e) }) (nd_endpoints nd) = Some (Some p)"
      using find_m_cong[of "nd_endpoints nd" "\<lambda>a. do { f \<leftarrow> eps s' a; Some (ep_id f = ep_id e) }"
          "\<lambda>a. do { f \<leftarrow> eps s a; Some (ep_id f = ep_id e) }"] by simp
    then show ?thesis using f(4) find_m_append_found
      by (simp add: endpoint_get_by_id_def endpoint_get_def node_get_def node_at_def)
  qed
  ultimately show ?thesis using f e by auto
qed

theorem endpoint_counter_goes_back_witness:
  "\<exists>a s' f. endpoint_create demo_env (Some 1) 0 None (snd (read_min_unused_endpoint_id demo_env
       (demo\<lparr>nvs := [(kvs_namespace, min_unused_key) \<mapsto> Num_Item NK_U16 1]\<rparr>))) = Some (Some a, s') \<and>
     eps s' a = Some f \<and> ep_id f = 1 \<and> a \<noteq> 2 \<and> endpoint_get_by_id s' 1 = Some (Some 2)"
proof -
  let ?s = "demo\<lparr>nvs := [(kvs_namespace, min_unused_key) \<mapsto> Num_Item NK_U16 1]\<rparr>"
  let ?nd = "\<lparr>nd_addr = 1, nd_endpoints = [2], nd_min_unused = 2\<rparr>"
  have inv: "dm_inv ?s" by (rule inv_cong[OF demo_inv]) simp_all
  have api: "nvs_ok (e_nvs demo_env)" using map_api_ok by simp
  obtain a s' where r: "endpoint_create demo_env (Some (nd_addr ?nd)) 0 None
      (snd (read_min_unused_endpoint_id demo_env ?s)) = Some (Some a, s')"
    by (auto simp: endpoint_create_def endpoint_get_count_def node_at_def read_min_unused_endpoint_id_def
        load_min_unused_def map_api_def alloc_def mem_calloc_def Let_def)
  have "\<exists>f. eps s' a = Some f \<and> ep_id f = ep_id demo_endpoint \<and> a \<noteq> 2 \<and> eps s' 2 = Some demo_endpoint \<and>
      endpoint_get_by_id s' (ep_id demo_endpoint) = Some (Some 2)"
    by (rule endpoint_counter_goes_back[OF api inv _ _ _ _ r])
      (simp_all add: map_api_def demo_endpoint_def)
  then show ?thesis using r by (auto simp: demo_endpoint_def)
qed

end
