(* ===== verification/EM_EndpointLife.thy ===== *)
theory EM_EndpointLife
  imports EM_EndpointProps
begin

text \<open>
  The life of endpoints: reports along the parents, enabling and disabling, destruction of an
  endpoint with everything it owns, and destruction of the node.
\<close>

lemma endpoint_unique:
  assumes "dm_inv s" "eps s q = Some f" "eps s p = Some e" "ep_id f = ep_id e"
  shows "q = p"
proof -
  have "endpoint_get_by_id s (ep_id e) = Some (Some q)" "endpoint_get_by_id s (ep_id e) = Some (Some p)"
    using endpoint_get_by_id_iff(1)[OF assms(1)] assms(2-4) by blast+
  then show ?thesis by simp
qed

section \<open>Steps that only write the log\<close>

definition log_ext :: "effect list \<Rightarrow> 'n dm \<Rightarrow> 'n dm" where
  "log_ext l s = s\<lparr>log := log s @ l\<rparr>"

lemma log_ext_simps [simp]:
  "node (log_ext l s) = node s" "eps (log_ext l s) = eps s" "cls (log_ext l s) = cls s"
  "ats (log_ext l s) = ats s" "cms (log_ext l s) = cms s" "evs (log_ext l s) = evs s"
  "mem (log_ext l s) = mem s" "nvs (log_ext l s) = nvs s" "started (log_ext l s) = started s"
  "attribute_callback (log_ext l s) = attribute_callback s"
  "identification_callback (log_ext l s) = identification_callback s"
  "timers (log_ext l s) = timers s" "log (log_ext l s) = log s @ l"
  "log_ext [] s = s" "log_ext k (log_ext l s) = log_ext (l @ k) s"
  by (simp_all add: log_ext_def)

lemma emit_log_ext: "emit x s = log_ext [x] s"
  by (simp add: emit_def log_ext_def)

lemma log_ext_inv [simp]: "dm_inv (log_ext l s) \<longleftrightarrow> dm_inv s"
  by (auto intro: inv_cong[of _ "log_ext l s"] inv_cong[of "log_ext l s" s])

lemma endpoint_get_by_id_log_ext [simp]: "endpoint_get_by_id (log_ext l s) i = endpoint_get_by_id s i"
  by (rule endpoint_get_by_id_cong) simp_all

section \<open>Reports along the parents\<close>

text \<open>The parent relation has no cycle: ranks decrease towards the parents.\<close>

definition acyclic_parents :: "'n dm \<Rightarrow> bool" where
  "acyclic_parents s \<longleftrightarrow>
     (\<exists>rank :: u16 \<Rightarrow> nat. \<forall>a e. eps s a = Some e \<longrightarrow> ep_parent e \<noteq> kInvalidEndpointId \<longrightarrow>
        rank (ep_parent e) < rank (ep_id e))"

text \<open>The chain of ids reported for an endpoint whose parent is given.\<close>

primrec parent_chain :: "'n dm \<Rightarrow> u16 \<Rightarrow> u16 list \<Rightarrow> bool" where
  "parent_chain s i [] \<longleftrightarrow> i = kInvalidEndpointId"
| "parent_chain s i (j # js) \<longleftrightarrow> i = j \<and> i \<noteq> kInvalidEndpointId \<and>
     (\<exists>eh k. endpoint_get_by_id s i = Some eh \<and> get_parent_endpoint_id s eh = Some k \<and> parent_chain s k js)"

definition parts_reports :: "u16 list \<Rightarrow> effect list" where
  "parts_reports is = map (\<lambda>i. Report_Attribute i Descriptor_Id PartsList_Id) is"

lemma get_parent_log_ext [simp]: "get_parent_endpoint_id (log_ext l s) eh = get_parent_endpoint_id s eh"
  by (cases eh) (simp_all add: get_parent_endpoint_id_def read_endpoint_def)

lemma parent_chain_log_ext [simp]: "parent_chain (log_ext l s) i js = parent_chain s i js"
  by (induction js arbitrary: i) auto

lemma report_parents_chain:
  "parent_chain s i js \<Longrightarrow> report_parents i s = Some (log_ext (parts_reports js) s)"
proof (induction js arbitrary: i s)
  case Nil
  then show ?case by (subst report_parents.simps) (simp add: parts_reports_def)
next
  case (Cons j js)
  then obtain eh k where k: "i = j" "i \<noteq> kInvalidEndpointId" "endpoint_get_by_id s i = Some eh"
      "get_parent_endpoint_id s eh = Some k" "parent_chain s k js" by auto
  let ?s = "log_ext [Report_Attribute i Descriptor_Id PartsList_Id] s"
  have "report_parents k ?s = Some (log_ext (parts_reports js) ?s)" using Cons.IH[of ?s k] k(5) by simp
  then show ?case using k by (subst report_parents.simps) (simp add: emit_log_ext parts_reports_def Let_def)
qed

lemma report_parents_only_chain: "report_parents i s = Some r \<Longrightarrow> \<exists>js. parent_chain s i js"
proof (erule report_parents.raw_induct[where P = "\<lambda>i s _. \<exists>js. parent_chain s i js", rotated], goal_cases)
  case (1 rec i s r)
  show ?case
  proof (cases "i = kInvalidEndpointId")
    case True
    then have "parent_chain s i []" by simp
    then show ?thesis by blast
  next
    case False
    let ?s = "log_ext [Report_Attribute i Descriptor_Id PartsList_Id] s"
    obtain eh k where k: "endpoint_get_by_id s i = Some eh" "get_parent_endpoint_id s eh = Some k" "rec k ?s = Some r"
      using 1(2) False by (auto simp: emit_log_ext Let_def split: bind_splits)
    then obtain js where "parent_chain s k js" using 1(1)[OF k(3)] by auto
    then have "parent_chain s i (i # js)" using False k by auto
    then show ?thesis by blast
  qed
qed

lemma parent_chain_exists:
  assumes inv: "dm_inv s" and rank: "\<And>a e. eps s a = Some e \<Longrightarrow> ep_parent e \<noteq> kInvalidEndpointId \<Longrightarrow>
      (rank (ep_parent e) :: nat) < rank (ep_id e)"
  shows "\<exists>js. parent_chain s i js"
proof (induction "rank i" arbitrary: i rule: less_induct)
  case less
  show ?case
  proof (cases "i = kInvalidEndpointId")
    case True
    then have "parent_chain s i []" by simp
    then show ?thesis by blast
  next
    case False
    obtain eh where eh: "endpoint_get_by_id s i = Some eh" using endpoint_get_by_id_exact[OF inv] by blast
    show ?thesis
    proof (cases eh)
      case None
      then have "parent_chain s i [i]"
        using False eh by (auto simp: get_parent_endpoint_id_def read_endpoint_def kInvalidEndpointId_def)
      then show ?thesis by blast
    next
      case (Some a)
      then obtain e where e: "eps s a = Some e" "ep_id e = i" using endpoint_get_by_id_iff(1)[OF inv] eh by blast
      have "\<exists>js. parent_chain s (ep_parent e) js"
      proof (cases "ep_parent e = kInvalidEndpointId")
        case True
        then have "parent_chain s (ep_parent e) []" by simp
        then show ?thesis by blast
      next
        case False
        then show ?thesis using less[of "ep_parent e"] rank[OF e(1)] e(2) by simp
      qed
      then obtain js where "parent_chain s (ep_parent e) js" ..
      then have "parent_chain s i (i # js)"
        using False eh Some e by (auto simp: get_parent_endpoint_id_def read_endpoint_def)
      then show ?thesis by blast
    qed
  qed
qed

lemma report_parts_list_total:
  assumes "dm_inv s" "acyclic_parents s" "eps s p = Some e"
  obtains js where "parent_chain s (ep_parent e) js"
    "report_parts_list_change_internal (Some p) s = Some (log_ext (parts_reports (js @ [0])) s)"
proof -
  obtain js where js: "parent_chain s (ep_parent e) js"
    using parent_chain_exists[OF assms(1)] assms(2) unfolding acyclic_parents_def by blast
  then show ?thesis using that report_parents_chain[OF js] assms(3)
    by (simp add: report_parts_list_change_internal_def get_parent_endpoint_id_def read_endpoint_def
        emit_log_ext parts_reports_def)
qed

section \<open>Disabling\<close>

definition shutdown_effects :: "u16 \<Rightarrow> cluster_t option \<Rightarrow> effect list" where
  "shutdown_effects i c =
     (case c of Some cl \<Rightarrow> (case cl_shutdown cl of Some f \<Rightarrow> [Shutdown_Callback f i] | None \<Rightarrow> []) | None \<Rightarrow> [])"

lemma shutdown_callbacks_effect:
  assumes "list_all (\<lambda>c. cls s c \<noteq> None) cs"
  shows "shutdown_callbacks i cs s = Some (log_ext (concat (map (\<lambda>c. shutdown_effects i (cls s c)) cs)) s)"
  using assms
proof (induction cs arbitrary: s)
  case (Cons c cs)
  then obtain cl where cl: "cls s c = Some cl" by auto
  let ?s = "log_ext (shutdown_effects i (cls s c)) s"
  have "shutdown_callbacks i cs ?s = Some (log_ext (concat (map (\<lambda>c. shutdown_effects i (cls s c)) cs)) ?s)"
    using Cons.IH[of ?s] Cons.prems by simp
  then show ?case using cl
    by (cases "cl_shutdown cl") (simp_all add: get_shutdown_callback_def shutdown_effects_def emit_log_ext)
qed simp

lemma clusters_live:
  assumes "dm_inv s" "eps s p = Some e"
  shows "list_all (\<lambda>c. cls s c \<noteq> None) (ep_clusters e)" "distinct (ep_clusters e)"
  using owns_live[OF inv_cl[OF assms(1), unfolded cl_layer_def] assms(2)]
    owns_distinct[OF inv_cl[OF assms(1), unfolded cl_layer_def] assms(2)] by (auto simp: list_all_iff)

lemma acyclic_parents_redeclare:
  assumes "acyclic_parents s" "eps s p = Some e" "ep_id e' = ep_id e" "ep_parent e' = ep_parent e"
  shows "acyclic_parents (put_endpoint p e' s)"
proof -
  obtain rank :: "u16 \<Rightarrow> nat" where r: "\<And>a e. eps s a = Some e \<Longrightarrow> ep_parent e \<noteq> kInvalidEndpointId \<Longrightarrow>
      rank (ep_parent e) < rank (ep_id e)" using assms(1) unfolding acyclic_parents_def by blast
  have "rank (ep_parent f) < rank (ep_id f)"
    if "eps (put_endpoint p e' s) a = Some f" "ep_parent f \<noteq> kInvalidEndpointId" for a f
    using that r[of a f] r[OF assms(2)] assms(3,4) by (cases "a = p") auto
  then show ?thesis unfolding acyclic_parents_def by blast
qed

lemma parent_chain_redeclare:
  assumes inv: "dm_inv s" and e: "eps s p = Some e" "ep_id e' = ep_id e" "ep_parent e' = ep_parent e"
    "ep_clusters e' = ep_clusters e"
  shows "parent_chain (put_endpoint p e' s) i js = parent_chain s i js"
proof -
  note inv' = inv_endpoint_redeclare[OF inv e(1,2,4)]
  have same: "endpoint_get_by_id (put_endpoint p e' s) i = endpoint_get_by_id s i" for i
  proof -
    obtain h where h: "endpoint_get_by_id s i = Some h" using endpoint_get_by_id_exact[OF inv] by blast
    show ?thesis
    proof (cases h)
      case None
      then show ?thesis
        using h e endpoint_get_by_id_iff(2)[OF inv, of i] endpoint_get_by_id_iff(2)[OF inv', of i]
        by (auto split: if_splits)
    next
      case (Some a)
      then show ?thesis
        using h e endpoint_get_by_id_iff(1)[OF inv, of i a] endpoint_get_by_id_iff(1)[OF inv', of i a]
        by (auto split: if_splits)
    qed
  qed
  have "get_parent_endpoint_id (put_endpoint p e' s) eh = get_parent_endpoint_id s eh" for eh
    using e by (cases eh) (auto simp: get_parent_endpoint_id_def read_endpoint_def)
  then show ?thesis by (induction js arbitrary: i) (auto simp: same)
qed

lemma endpoint_disable_effect:
  assumes inv: "dm_inv s" "acyclic_parents s" and e: "eps s p = Some e"
  obtains js where "parent_chain s (ep_parent e) js"
    "endpoint_disable (Some p) s = Some (ESP_OK,
       log_ext (parts_reports (js @ [0]) @
         concat (map (\<lambda>c. shutdown_effects (ep_id e) (cls s c)) (ep_clusters e)))
       (put_endpoint p (e\<lparr>ep_enabled := False\<rparr>) s))"
proof -
  let ?s = "put_endpoint p (e\<lparr>ep_enabled := False\<rparr>) s"
  have inv': "dm_inv ?s" "acyclic_parents ?s"
    using inv_endpoint_redeclare[OF inv(1) e] acyclic_parents_redeclare[OF inv(2) e] by simp_all
  obtain js where js: "parent_chain ?s (ep_parent e) js"
      "report_parts_list_change_internal (Some p) ?s = Some (log_ext (parts_reports (js @ [0])) ?s)"
    using report_parts_list_total[OF inv', of p "e\<lparr>ep_enabled := False\<rparr>"] by auto
  have "parent_chain s (ep_parent e) js"
    using js(1) parent_chain_redeclare[OF inv(1) e, of "e\<lparr>ep_enabled := False\<rparr>"] by simp
  then show ?thesis
    using that js(2) e shutdown_callbacks_effect[of "log_ext (parts_reports (js @ [0])) ?s" "ep_clusters e" "ep_id e"]
      clusters_live(1)[OF inv(1) e] by (simp add: endpoint_disable_def)
qed

text \<open>C14: disabling an endpoint ends when no endpoint is its own ancestor.  It reports a changed
  parts list for each ancestor from the parent upwards and for the root, then runs the shutdown
  callbacks of the clusters in their order, and apart from that only clears the enabled flag.\<close>

theorem endpoint_disable_correct:
  assumes "dm_inv s" "acyclic_parents s" "eps s p = Some e"
  shows "\<exists>s' js. endpoint_disable (Some p) s = Some (ESP_OK, s') \<and> dm_inv s' \<and>
    parent_chain s (ep_parent e) js \<and>
    log s' = log s @ parts_reports (js @ [0]) @
      concat (map (\<lambda>c. shutdown_effects (ep_id e) (cls s c)) (ep_clusters e)) \<and>
    eps s' = (eps s)(p \<mapsto> e\<lparr>ep_enabled := False\<rparr>) \<and> cls s' = cls s \<and> ats s' = ats s \<and> nvs s' = nvs s"
proof -
  obtain js where "parent_chain s (ep_parent e) js"
    "endpoint_disable (Some p) s = Some (ESP_OK,
       log_ext (parts_reports (js @ [0]) @
         concat (map (\<lambda>c. shutdown_effects (ep_id e) (cls s c)) (ep_clusters e)))
       (put_endpoint p (e\<lparr>ep_enabled := False\<rparr>) s))" by (rule endpoint_disable_effect[OF assms])
  moreover have "dm_inv (put_endpoint p (e\<lparr>ep_enabled := False\<rparr>) s)"
    by (rule inv_endpoint_redeclare[OF assms(1,3)]) simp_all
  ultimately show ?thesis by auto
qed

lemma demo_acyclic: "acyclic_parents demo"
  by (auto simp: acyclic_parents_def demo_endpoint_def kInvalidEndpointId_def)

theorem endpoint_disable_correct_witness:
  "\<exists>s' js. endpoint_disable (Some 2) demo = Some (ESP_OK, s') \<and>
     log s' = log demo @ parts_reports (js @ [0]) @
       concat (map (\<lambda>c. shutdown_effects 1 (cls demo c)) [3]) \<and> eps s' 2 \<noteq> eps demo 2"
proof -
  obtain s' js where "endpoint_disable (Some 2) demo = Some (ESP_OK, s')"
    "log s' = log demo @ parts_reports (js @ [0]) @
      concat (map (\<lambda>c. shutdown_effects (ep_id demo_endpoint) (cls demo c)) (ep_clusters demo_endpoint))"
    "eps s' = (eps demo)(2 \<mapsto> demo_endpoint\<lparr>ep_enabled := False\<rparr>)"
    using endpoint_disable_correct[OF demo_inv demo_acyclic, of 2 demo_endpoint] by auto
  then show ?thesis by (auto simp: demo_endpoint_def)
qed

text \<open>C35: an endpoint can be made its own parent.  From then on disabling it, and so destroying it,
  does not end: the loop over the parents reports the endpoint for ever.\<close>

theorem own_parent_hangs:
  assumes inv: "dm_inv s" and e: "eps s p = Some e" "ep_id e \<noteq> kInvalidEndpointId"
    and r: "set_parent_endpoint (Some p) (Some p) s = Some (err, s')"
  shows "err = ESP_OK \<and> endpoint_disable (Some p) s' = None"
proof -
  let ?e = "e\<lparr>ep_parent := ep_id e\<rparr>"
  have s': "s' = put_endpoint p ?e s" "err = ESP_OK" using r e by (auto simp: set_parent_endpoint_def)
  define t where "t = put_endpoint p (?e\<lparr>ep_enabled := False\<rparr>) s'"
  have inv_t: "dm_inv t"
    unfolding t_def s' using e by (auto intro!: inv_endpoint_redeclare[where e = ?e] inv_endpoint_redeclare[OF inv, where e = e])
  have t: "endpoint_get_by_id t (ep_id e) = Some (Some p)" "get_parent_endpoint_id t (Some p) = Some (ep_id e)"
    using endpoint_get_by_id_iff(1)[OF inv_t, of "ep_id e" p]
    by (simp_all add: t_def get_parent_endpoint_id_def read_endpoint_def)
  have no_chain: "\<not> parent_chain t (ep_id e) js" for js
    using t e(2) by (induction js) auto
  have "report_parents (ep_id e) t = None"
    using report_parents_only_chain[of "ep_id e" t] no_chain by (cases "report_parents (ep_id e) t") auto
  then have "endpoint_disable (Some p) s' = None"
    using t(2) by (simp add: endpoint_disable_def s'(1) report_parts_list_change_internal_def t_def)
  then show ?thesis using s'(2) by simp
qed

theorem own_parent_hangs_witness:
  "\<exists>s'. set_parent_endpoint (Some 2) (Some 2) demo = Some (ESP_OK, s') \<and> endpoint_disable (Some 2) s' = None"
proof -
  obtain err s' where r: "set_parent_endpoint (Some 2) (Some 2) demo = Some (err, s')"
    by (simp add: set_parent_endpoint_def)
  show ?thesis using own_parent_hangs[OF demo_inv _ _ r, of demo_endpoint] r
    by (auto simp: demo_endpoint_def kInvalidEndpointId_def)
qed

section \<open>Destruction of an endpoint\<close>

text \<open>Server clusters that announce an init or a shutdown function have it in their table.\<close>

definition functions_ok :: "cluster_t \<Rightarrow> bool" where
  "functions_ok cl \<longleftrightarrow> (\<forall>k \<in> {0, 4}. bit (cl_flags cl) k \<longrightarrow>
     (\<exists>fs. cl_functions cl = Some fs \<and> function_slot (cl_flags cl) k < length fs))"

definition tables_ok :: "'n dm \<Rightarrow> bool" where
  "tables_ok s \<longleftrightarrow> (\<forall>c cl. cls s c = Some cl \<longrightarrow> functions_ok cl)"

lemma get_function_total:
  assumes "cls s c = Some cl" "functions_ok cl" "k \<in> {0, 4}"
  shows "\<exists>f. get_function s (Some c) (2 ^ k) = Some f"
proof (cases "bit (cl_flags cl) k")
  case True
  then obtain fs where "cl_functions cl = Some fs" "function_slot (cl_flags cl) k < length fs"
    using assms(2,3) unfolding functions_ok_def by blast
  then show ?thesis using get_function_slot[OF assms(1), of fs k] assms(3) by auto
next
  case False
  then show ?thesis using assms(1) by (simp add: get_function_def has_flag_def and_power_u8)
qed

lemma function_flag_powers: "CLUSTER_FLAG_INIT_FUNCTION = 2 ^ 0" "CLUSTER_FLAG_SHUTDOWN_FUNCTION = 2 ^ 4"
  by (simp_all add: flag_defs)

lemma get_function_log_ext [simp]: "get_function (log_ext l s) ch f = get_function s ch f"
  by (cases ch) (simp_all add: get_function_def)

lemma cluster_get_flags_log_ext [simp]: "cluster_get_flags (log_ext l s) ch = cluster_get_flags s ch"
  by (cases ch) (simp_all add: cluster_get_flags_def)

lemma shutdown_functions_effect:
  assumes "list_all (\<lambda>c. cls s c \<noteq> None) cs" "tables_ok s"
  shows "\<exists>l. shutdown_functions i cs s = Some (log_ext l s)"
  using assms
proof (induction cs arbitrary: s)
  case Nil
  show ?case by (intro exI[of _ "[]"]) simp
next
  case (Cons c cs)
  then obtain cl where cl: "cls s c = Some cl" "functions_ok cl" by (auto simp: tables_ok_def)
  obtain f where f: "get_function s (Some c) CLUSTER_FLAG_SHUTDOWN_FUNCTION = Some f"
    using get_function_total[OF cl, of 4] unfolding function_flag_powers by auto
  let ?on = "has_flag (cl_flags cl) CLUSTER_FLAG_SERVER \<and> has_flag (cl_flags cl) CLUSTER_FLAG_SHUTDOWN_FUNCTION"
  define l where "l = (case f of Some h \<Rightarrow> if ?on then [Shutdown_Function h i] else [] | None \<Rightarrow> [])"
  have l: "(if ?on then do { g \<leftarrow> get_function s (Some c) CLUSTER_FLAG_SHUTDOWN_FUNCTION;
      Some (case g of None \<Rightarrow> s | Some h \<Rightarrow> emit (Shutdown_Function h i) s) } else Some s) = Some (log_ext l s)"
    using f by (cases f) (auto simp: emit_log_ext l_def)
  obtain k where "shutdown_functions i cs (log_ext l s) = Some (log_ext k (log_ext l s))"
    using Cons.IH[of "log_ext l s"] Cons.prems by (auto simp: tables_ok_def)
  then have "shutdown_functions i (c # cs) s = Some (log_ext (l @ k) s)"
    using cl l by (simp add: cluster_get_flags_def)
  then show ?case by blast
qed

text \<open>The children of a set of clusters.\<close>

definition children_of :: "(cluster_t \<Rightarrow> addr list) \<Rightarrow> 'n dm \<Rightarrow> addr list \<Rightarrow> addr set" where
  "children_of kids s cs = {x. \<exists>c \<in> set cs. \<exists>cl. cls s c = Some cl \<and> x \<in> set (kids cl)}"

lemma children_of_simps [simp]:
  "children_of kids (log_ext l s) cs = children_of kids s cs"
  "children_of kids (put_endpoint p e s) cs = children_of kids s cs"
  by (simp_all add: children_of_def)

lemma children_of_Cons:
  assumes "cls s c = Some cl" "c \<notin> set cs" "cls t = (cls s)(c := None)"
  shows "children_of kids s (c # cs) = set (kids cl) \<union> children_of kids t cs"
proof -
  have "cls t d = cls s d" if "d \<in> set cs" for d using assms(2,3) that by auto
  then show ?thesis using assms(1) by (auto simp: children_of_def)
qed

lemma destroy_clusters_effect:
  assumes "dm_inv s" "eps s p = Some e"
  shows "\<exists>s'. destroy_clusters E p (ep_clusters e) s = Some s' \<and> dm_inv s' \<and>
    node s' = node s \<and> mem s' = mem s \<and> log s' = log s \<and> started s' = started s \<and>
    eps s' = (eps s)(p \<mapsto> e\<lparr>ep_clusters := []\<rparr>) \<and>
    cls s' = (\<lambda>c. if c \<in> set (ep_clusters e) then None else cls s c) \<and>
    ats s' = (\<lambda>x. if x \<in> children_of cl_attributes s (ep_clusters e) then None else ats s x) \<and>
    cms s' = (\<lambda>x. if x \<in> children_of cl_commands s (ep_clusters e) then None else cms s x) \<and>
    evs s' = (\<lambda>x. if x \<in> children_of cl_events s (ep_clusters e) then None else evs s x)"
  using assms
proof (induction "ep_clusters e" arbitrary: s e)
  case Nil
  then have "e\<lparr>ep_clusters := []\<rparr> = e" by (cases e) simp
  then have "(eps s)(p \<mapsto> e\<lparr>ep_clusters := []\<rparr>) = eps s" using Nil.prems(2) by auto
  then show ?case using Nil by (simp flip: Nil.hyps add: children_of_def)
next
  case (Cons c cs)
  note inv = Cons.prems(1) and e = Cons.prems(2)
  have live: "list_all (\<lambda>c. cls s c \<noteq> None) (c # cs)" "distinct (c # cs)"
    using clusters_live[OF inv e] Cons.hyps(2) by simp_all
  then obtain cl where cl: "cls s c = Some cl" by auto
  obtain p' e' n where d: "eps s p' = Some e'" "c \<in> set (ep_clusters e')"
      "cluster_destroy E (Some c) s = Some (ESP_OK, without_cluster c cl p' e' n s)"
      "dm_inv (without_cluster c cl p' e' n s)" by (rule cluster_destroy_effect[OF inv cl])
  have "p' = p" using owns_one_parent[OF inv_cl[OF inv, unfolded cl_layer_def] d(1) e d(2)] Cons.hyps(2)
    by (metis list.set_intros(1))
  then have "e' = e" using d(1) e by simp
  let ?e = "e\<lparr>ep_clusters := cs\<rparr>" and ?s = "without_cluster c cl p e n s"
  have eps_s: "eps ?s = (eps s)(p \<mapsto> ?e)"
    using Cons.hyps(2)[symmetric] by (simp add: without_cluster_def)
  have same: "put_endpoint p ?e ?s = ?s" using eps_s by (simp add: put_endpoint_def)
  have step: "destroy_clusters E p (c # cs) s = destroy_clusters E p cs ?s"
    using d(3) \<open>p' = p\<close> \<open>e' = e\<close> eps_s by (simp add: same)
  obtain s' where s': "destroy_clusters E p cs ?s = Some s'" "dm_inv s'" "node s' = node ?s" "mem s' = mem ?s"
      "log s' = log ?s" "started s' = started ?s" "eps s' = (eps ?s)(p \<mapsto> ?e\<lparr>ep_clusters := []\<rparr>)"
      "cls s' = (\<lambda>c. if c \<in> set cs then None else cls ?s c)"
      "ats s' = (\<lambda>x. if x \<in> children_of cl_attributes ?s cs then None else ats ?s x)"
      "cms s' = (\<lambda>x. if x \<in> children_of cl_commands ?s cs then None else cms ?s x)"
      "evs s' = (\<lambda>x. if x \<in> children_of cl_events ?s cs then None else evs ?s x)"
    using Cons.hyps(1)[of ?e ?s] d(4) \<open>p' = p\<close> \<open>e' = e\<close> eps_s by auto
  have kids: "children_of kids s (c # cs) = set (kids cl) \<union> children_of kids ?s cs" for kids
    using live(2) by (intro children_of_Cons[OF cl]) (simp_all add: without_cluster_def)
  show ?case unfolding Cons.hyps(2)[symmetric] step kids
    using s' by (intro exI[of _ s']) (auto simp: without_cluster_def fun_eq_iff eps_s)
qed

lemma inv_remove_endpoint:
  assumes inv: "dm_inv s" and nd: "node s = Some nd" and e: "eps s p = Some e" "ep_clusters e = []"
    and t: "node t = Some (nd\<lparr>nd_endpoints := remove1 p (nd_endpoints nd)\<rparr>)" "eps t = (eps s)(p := None)"
      "cls t = cls s" "ats t = ats s" "cms t = cms s" "evs t = evs s" "mem t = mem s"
  shows "dm_inv t"
proof -
  note lay = inv[unfolded dm_inv_def layer_defs]
  let ?nd = "nd\<lparr>nd_endpoints := remove1 p (nd_endpoints nd)\<rparr>"
  have p: "p \<in> set (nd_endpoints nd)"
    using owns_parent[OF inv_ep[OF inv, unfolded ep_layer_def] e(1)] nd by auto
  have "owns (\<lambda>_ _. True) (\<lambda>e f. ep_id e \<noteq> ep_id f) nd_endpoints ((\<lambda>_ :: unit. node s)(() \<mapsto> ?nd))
      ((eps s)(p := None))"
    using lay nd p by (intro owns_remove_child[where p = nd]) auto
  moreover have "(\<lambda>_ :: unit. node s)(() \<mapsto> ?nd) = (\<lambda>_. node t)" using t(1) by auto
  moreover have "owns (\<lambda>e c. cl_ep c = ep_id e) (\<lambda>c d. cl_id c \<noteq> cl_id d) ep_clusters ((eps s)(p := None)) (cls s)"
    using lay e by (intro owns_remove_parent[where p = e]) auto
  moreover have "fresh_above t" using inv_fresh[OF inv] t nd by (auto simp: fresh_above_def)
  ultimately show ?thesis using lay unfolding dm_inv_def layer_defs by (simp add: t)
qed

text \<open>What destroying an endpoint leaves.\<close>

definition without_endpoint :: "addr \<Rightarrow> endpoint_t \<Rightarrow> node_t \<Rightarrow> 'n dm \<Rightarrow> 'n dm \<Rightarrow> bool" where
  "without_endpoint p e nd s s' \<longleftrightarrow>
     node s' = Some (nd\<lparr>nd_endpoints := remove1 p (nd_endpoints nd)\<rparr>) \<and> eps s' = (eps s)(p := None) \<and>
     cls s' = (\<lambda>c. if c \<in> set (ep_clusters e) then None else cls s c) \<and>
     ats s' = (\<lambda>x. if x \<in> children_of cl_attributes s (ep_clusters e) then None else ats s x) \<and>
     cms s' = (\<lambda>x. if x \<in> children_of cl_commands s (ep_clusters e) then None else cms s x) \<and>
     evs s' = (\<lambda>x. if x \<in> children_of cl_events s (ep_clusters e) then None else evs s x)"

lemma endpoint_destroy_effect:
  assumes inv: "dm_inv s" "acyclic_parents s" "tables_ok s" and nd: "node s = Some nd"
    and e: "eps s p = Some e" "has_flag (ep_flags e) ENDPOINT_FLAG_DESTROYABLE"
  shows "\<exists>s'. endpoint_destroy E (Some (nd_addr nd)) (Some p) s = Some (ESP_OK, s') \<and> dm_inv s' \<and>
    without_endpoint p e nd s s'"
proof -
  let ?e = "e\<lparr>ep_enabled := False\<rparr>"
  obtain l where dis: "endpoint_disable (Some p) s = Some (ESP_OK, log_ext l (put_endpoint p ?e s))" (is "_ = Some (_, ?s)")
    using endpoint_disable_effect[OF inv(1,2) e(1)] by metis
  have inv1: "dm_inv (log_ext k ?s)" for k
    using inv_endpoint_redeclare[OF inv(1) e(1)] by simp
  have tab: "tables_ok ?s" using inv(3) by (simp add: tables_ok_def)
  obtain k where sh: "shutdown_functions (ep_id e) (ep_clusters e) ?s = Some (log_ext k ?s)"
    using shutdown_functions_effect[of ?s "ep_clusters e" "ep_id e"] clusters_live(1)[OF inv(1) e(1)] tab by auto
  obtain s3 where s3: "destroy_clusters E p (ep_clusters e) (log_ext k ?s) = Some s3" "dm_inv s3"
      "node s3 = Some nd" "eps s3 = (eps s)(p \<mapsto> ?e\<lparr>ep_clusters := []\<rparr>)"
      "cls s3 = (\<lambda>c. if c \<in> set (ep_clusters e) then None else cls s c)"
      "ats s3 = (\<lambda>x. if x \<in> children_of cl_attributes s (ep_clusters e) then None else ats s x)"
      "cms s3 = (\<lambda>x. if x \<in> children_of cl_commands s (ep_clusters e) then None else cms s x)"
      "evs s3 = (\<lambda>x. if x \<in> children_of cl_events s (ep_clusters e) then None else evs s x)"
    using destroy_clusters_effect[OF inv1[of k], of p ?e E] nd by (auto cong: if_cong)
  obtain s4 where s4: "free_endpoint p nd s3 = Some s4" "node s4 = Some (nd\<lparr>nd_endpoints := remove1 p (nd_endpoints nd)\<rparr>)"
      "eps s4 = (eps s3)(p := None)" "cls s4 = cls s3" "ats s4 = ats s3" "cms s4 = cms s3" "evs s4 = evs s3" "mem s4 = mem s3"
    using s3(4) by (cases "ep_identify e") (auto simp: free_endpoint_def)
  have "p \<in> set (nd_endpoints nd)"
    using owns_parent[OF inv_ep[OF inv(1), unfolded ep_layer_def] e(1)] nd by auto
  then have "endpoint_destroy E (Some (nd_addr nd)) (Some p) s = Some (ESP_OK, s4)"
    using e dis sh s3(1) s4(1) nd by (simp add: endpoint_destroy_def node_at_def)
  moreover have "dm_inv s4"
    by (rule inv_remove_endpoint[OF s3(2,3) _ _ s4(2-8), where e = "?e\<lparr>ep_clusters := []\<rparr>"])
      (simp_all add: s3(4))
  ultimately show ?thesis using s3 s4 by (auto simp: without_endpoint_def)
qed

text \<open>C8: destroying a destroyable endpoint of a node whose parent relation has no cycle and whose
  function tables are complete always succeeds.  Exactly the endpoint, its clusters and their
  attributes, commands and events are freed, everything else is untouched, the store stays well
  formed and the id is no longer found.\<close>

theorem endpoint_destroy_correct:
  assumes "dm_inv s" "acyclic_parents s" "tables_ok s" "node s = Some nd" "eps s p = Some e"
    "has_flag (ep_flags e) ENDPOINT_FLAG_DESTROYABLE"
  shows "\<exists>s'. endpoint_destroy E (Some (nd_addr nd)) (Some p) s = Some (ESP_OK, s') \<and> dm_inv s' \<and>
    without_endpoint p e nd s s' \<and> endpoint_get_by_id s' (ep_id e) = Some None"
proof -
  obtain s' where s': "endpoint_destroy E (Some (nd_addr nd)) (Some p) s = Some (ESP_OK, s')" "dm_inv s'"
      "without_endpoint p e nd s s'" using endpoint_destroy_effect[OF assms] by blast
  have "q = p" if "eps s q = Some f" "ep_id f = ep_id e" for q f
    using endpoint_unique[OF assms(1) that(1) assms(5)] that(2) .
  then have "endpoint_get_by_id s' (ep_id e) = Some None"
    using endpoint_get_by_id_iff(2)[OF s'(2)] s'(3) by (auto simp: without_endpoint_def)
  then show ?thesis using s' by blast
qed

lemma demo_tables: "tables_ok demo"
  by (auto simp: tables_ok_def functions_ok_def demo_cluster_def bit_numeral_rec split: if_splits)

theorem endpoint_destroy_correct_witness:
  "\<exists>s'. endpoint_destroy demo_env (Some 1) (Some 2) demo = Some (ESP_OK, s') \<and> dm_inv s' \<and>
     endpoint_get_by_id s' 1 = Some None \<and> cls s' 3 = None \<and> ats s' 4 = None"
proof -
  let ?nd = "\<lparr>nd_addr = 1, nd_endpoints = [2], nd_min_unused = 2\<rparr>"
  have "\<exists>s'. endpoint_destroy demo_env (Some (nd_addr ?nd)) (Some 2) demo = Some (ESP_OK, s') \<and> dm_inv s' \<and>
      without_endpoint 2 demo_endpoint ?nd demo s' \<and> endpoint_get_by_id s' (ep_id demo_endpoint) = Some None"
    by (rule endpoint_destroy_correct[OF demo_inv demo_acyclic demo_tables])
      (simp_all add: demo_endpoint_def has_flag_def flag_defs)
  then show ?thesis
    by (auto simp: without_endpoint_def demo_endpoint_def demo_cluster_def children_of_def)
qed

section \<open>Destruction of the node\<close>

lemma acyclic_parents_subset:
  assumes "acyclic_parents s" "\<And>a e. eps t a = Some e \<Longrightarrow> \<exists>b f. eps s b = Some f \<and> ep_id f = ep_id e \<and> ep_parent f = ep_parent e"
  shows "acyclic_parents t"
proof -
  obtain rank :: "u16 \<Rightarrow> nat" where r: "\<And>a e. eps s a = Some e \<Longrightarrow> ep_parent e \<noteq> kInvalidEndpointId \<Longrightarrow>
      rank (ep_parent e) < rank (ep_id e)" using assms(1) unfolding acyclic_parents_def by blast
  have "rank (ep_parent e) < rank (ep_id e)" if "eps t a = Some e" "ep_parent e \<noteq> kInvalidEndpointId" for a e
    using assms(2)[OF that(1)] r that(2) by metis
  then show ?thesis unfolding acyclic_parents_def by blast
qed

lemma destroy_endpoints_effect:
  assumes "dm_inv s" "acyclic_parents s" "tables_ok s" "node s = Some nd"
  shows "\<exists>s'. destroy_endpoints E (Some (nd_addr nd)) (nd_endpoints nd) s = Some s' \<and> dm_inv s' \<and>
    node s' = Some (nd\<lparr>nd_endpoints := []\<rparr>)"
  using assms
proof (induction "nd_endpoints nd" arbitrary: s nd)
  case Nil
  then have "nd\<lparr>nd_endpoints := []\<rparr> = nd" by (cases nd) simp
  then show ?case using Nil by (simp flip: Nil.hyps)
next
  case (Cons p ps)
  then obtain e where e: "eps s p = Some e" using endpoints_live(1)[OF Cons.prems(1,4)] by (auto simp flip: Cons.hyps(2))
  let ?e = "e\<lparr>ep_flags := ep_flags e OR ENDPOINT_FLAG_DESTROYABLE\<rparr>"
  let ?s = "put_endpoint p ?e s" and ?nd = "nd\<lparr>nd_endpoints := ps\<rparr>"
  have flag: "has_flag (ep_flags ?e) ENDPOINT_FLAG_DESTROYABLE"
    by (simp add: has_flag_or flag_defs has_flag_def)
  have pre: "dm_inv ?s" "acyclic_parents ?s" "tables_ok ?s" "node ?s = Some nd"
    using Cons.prems inv_endpoint_redeclare[OF Cons.prems(1) e] acyclic_parents_redeclare[OF Cons.prems(2) e]
    by (simp_all add: tables_ok_def)
  obtain s1 where s1: "endpoint_destroy E (Some (nd_addr nd)) (Some p) ?s = Some (ESP_OK, s1)" "dm_inv s1"
      "without_endpoint p ?e nd ?s s1"
    using endpoint_destroy_effect[OF pre _ flag, of p E] by auto
  have node: "node s1 = Some ?nd" using s1(3) Cons.hyps(2)[symmetric] by (simp add: without_endpoint_def)
  have "acyclic_parents s1"
    by (rule acyclic_parents_subset[OF pre(2)]) (use s1(3) in \<open>auto simp: without_endpoint_def split: if_splits\<close>)
  moreover have "tables_ok s1" using s1(3) Cons.prems(3) by (auto simp: without_endpoint_def tables_ok_def split: if_splits)
  ultimately obtain s' where s': "destroy_endpoints E (Some (nd_addr ?nd)) (nd_endpoints ?nd) s1 = Some s'" "dm_inv s'"
      "node s' = Some (?nd\<lparr>nd_endpoints := []\<rparr>)"
    using Cons.hyps(1)[of ?nd s1] s1(2) node by auto
  then show ?case using s1(1) e by (auto simp flip: Cons.hyps(2))
qed

text \<open>Without endpoints nothing is left in a well-formed store.\<close>

lemma owns_empty:
  assumes "owns rel sep kids ps cs" "\<And>k p. ps k = Some p \<Longrightarrow> kids p = []"
  shows "cs = Map.empty"
proof
  fix x
  show "cs x = None"
  proof (rule ccontr)
    assume "cs x \<noteq> None"
    then obtain c where c: "cs x = Some c" by blast
    obtain k p where "ps k = Some p" "x \<in> set (kids p)" by (rule owns_parent[OF assms(1) c])
    then show False using assms(2) by fastforce
  qed
qed

lemma empty_store:
  assumes "dm_inv s" "\<And>nd. node s = Some nd \<Longrightarrow> nd_endpoints nd = []"
  shows "eps s = Map.empty" "cls s = Map.empty" "ats s = Map.empty" "cms s = Map.empty" "evs s = Map.empty"
proof -
  show eps: "eps s = Map.empty" by (rule owns_empty[OF inv_ep[OF assms(1), unfolded ep_layer_def]]) (use assms(2) in auto)
  show cls: "cls s = Map.empty" by (rule owns_empty[OF inv_cl[OF assms(1), unfolded cl_layer_def]]) (use eps in auto)
  show "ats s = Map.empty" by (rule owns_empty[OF inv_at[OF assms(1), unfolded at_layer_def]]) (use cls in auto)
  show "cms s = Map.empty" by (rule owns_empty[OF inv_cm[OF assms(1), unfolded cm_layer_def]]) (use cls in auto)
  show "evs s = Map.empty" by (rule owns_empty[OF inv_ev[OF assms(1), unfolded ev_layer_def]]) (use cls in auto)
qed



end
