(* ===== verification/EM_AttributeBounds.thy ===== *)
theory EM_AttributeBounds
  imports EM_AttributeLife
begin

text \<open>
  Bounds over the life of the attributes: \<open>add_bounds\<close> clamps, and the steps of the attribute
  operations, in any order, keep every bounded value within its bounds.  The last part follows a
  persistent value through a restart.
\<close>

section \<open>Adding bounds\<close>

lemma flag_pairs [simp]:
  "ATTRIBUTE_FLAG_MIN_MAX \<noteq> 0"
  "\<not> has_flag ATTRIBUTE_FLAG_MIN_MAX ATTRIBUTE_FLAG_MANAGED_INTERNALLY"
  "\<not> has_flag ATTRIBUTE_FLAG_OVERRIDE ATTRIBUTE_FLAG_MANAGED_INTERNALLY"
  "\<not> has_flag ATTRIBUTE_FLAG_DEFERRED ATTRIBUTE_FLAG_MANAGED_INTERNALLY"
  "\<not> has_flag ATTRIBUTE_FLAG_OVERRIDE ATTRIBUTE_FLAG_MIN_MAX"
  "\<not> has_flag ATTRIBUTE_FLAG_DEFERRED ATTRIBUTE_FLAG_MIN_MAX"
  by (simp_all add: has_flag_def flag_defs)

text \<open>C23: adding bounds clamps the value.  On a bounded type with the lower bound not above the
  upper one, a successful \<open>add_bounds\<close> makes the bounds the ones read back and leaves the value
  alone when it satisfies them; otherwise the value becomes one that does.\<close>

theorem add_bounds_clamps:
  assumes "add_bounds E (Some a) mn mx s = Some (ESP_OK, s')"
    and "get_val_internal s (Some a) = Some (ESP_OK, Some v)"
    and "bounded_kind (av_type v) = Some k" "ordered k mn mx"
  shows "let b = \<lparr>b_min = mn, b_max = mx\<rparr> in
    get_bounds s' (Some a) = Some (ESP_OK, Some b) \<and>
    (\<exists>w. get_val_internal s' (Some a) = Some (ESP_OK, Some w) \<and>
       compare_attr_val_with_bounds (e_traits E) w b = 0 \<and>
       w = (if compare_attr_val_with_bounds (e_traits E) v b = 0 then v
            else if compare_attr_val_with_bounds (e_traits E) v b = 1 then v\<lparr>av_val := av_val mx\<rparr>
            else v\<lparr>av_val := av_val mn\<rparr>))"
proof -
  let ?b = "\<lparr>b_min = mn, b_max = mx\<rparr>"
  obtain at where at: "ats s a = Some at"
    using assms(2) by (auto simp: get_val_internal_def split: bind_splits)
  from assms(1) at show ?thesis
  proof (cases rule: add_bounds_cases)
    case (set x b r)
    have v: "v = attr_val_of at x"
      using assms(2) at set(1,4) by (simp add: get_val_internal_def)
    have r: "r = compare_num (e_traits E) k v ?b" "r \<in> {- 1, 0, 1}"
      using set(5-7) assms(3) v by (simp_all add: compare_bounded_kind compare_num_def Let_def)
    have bk: "bounded_kind (at_type at) = Some k" using assms(3) v by (simp add: attr_val_of_def)
    show ?thesis
      using set(4-6,8) r bk v compare_num_bound[of k ?b "e_traits E" "at_type at"] assms(4)
      by (auto simp: Let_def get_bounds_def get_val_internal_def attr_val_of_def compare_bounded_kind)
  qed simp_all
qed

theorem add_bounds_clamps_witness:
  "\<exists>s'. add_bounds demo_env (Some 4) (esp_matter_uint8 10) (esp_matter_uint8 20) demo = Some (ESP_OK, s') \<and>
     (\<exists>w. get_val_internal s' (Some 4) = Some (ESP_OK, Some w) \<and> num_member KU8 (av_val w) = 10)"
proof -
  let ?v = "\<lparr>av_type = VT_UINT8, av_val = av_val (esp_matter_uint8 5)\<rparr>"
  have c: "compare_attr_val_with_bounds std_traits ?v
      \<lparr>b_min = esp_matter_uint8 10, b_max = esp_matter_uint8 20\<rparr> = - 1"
    by (simp add: compare_bounded_kind bounded_kind_def compare_num_def num_lt_def num_member_def
        trunc_def int_of_def esp_matter_uint8_def num_attr_val_def take_bit_eq_mask mask_numeral)
  obtain s' where r: "add_bounds demo_env (Some 4) (esp_matter_uint8 10) (esp_matter_uint8 20) demo =
      Some (ESP_OK, s')"
    using c by (auto simp: add_bounds_def demo_number_def esp_matter_uint8_def num_attr_val_def
        bound_attribute_val_def alloc_def mem_calloc_def attr_val_of_def)
  have g: "get_val_internal demo (Some 4) = Some (ESP_OK, Some ?v)"
    by (simp add: get_val_internal_def demo_number_def attr_val_of_def)
  have "ordered KU8 (esp_matter_uint8 10) (esp_matter_uint8 20)"
    by (simp add: ordered_def num_lt_def num_member_def trunc_def int_of_def esp_matter_uint8_def
        num_attr_val_def take_bit_eq_mask mask_numeral)
  then show ?thesis
    using add_bounds_clamps[OF r g, of KU8] r c
    by (auto simp: bounded_kind_def Let_def num_member_def trunc_def esp_matter_uint8_def
        num_attr_val_def take_bit_eq_mask mask_numeral)
qed

text \<open>C39: bounds on an \<open>INTEGER\<close> attribute lock it.  The comparison does not know the type, so
  \<open>add_bounds\<close> fails although it has installed the bounds, and from then on no value can be set.\<close>

theorem integer_bounds_lock:
  assumes "ats s a = Some at" "at_ext at = Some x" "at_type at \<in> {VT_INTEGER, VT_NULLABLE_INTEGER}"
    and "\<not> has_flag (at_flags at) ATTRIBUTE_FLAG_MANAGED_INTERNALLY"
    and "av_type mn = at_type at" "av_type mx = at_type at" "\<not> mem_fail (mem s) (mem_next (mem s))"
  shows "\<exists>s'. add_bounds E (Some a) mn mx s = Some (ESP_ERR_INVALID_ARG, s') \<and>
    get_bounds s' (Some a) = Some (ESP_OK, Some \<lparr>b_min = mn, b_max = mx\<rparr>) \<and>
    (\<forall>v cb. set_val_internal E (Some a) (Some v) cb s' = Some (ESP_ERR_INVALID_ARG, Some v, s'))"
proof -
  have cmp: "compare_attr_val_with_bounds T v b = - 2" if "av_type v \<in> {VT_INTEGER, VT_NULLABLE_INTEGER}"
    for T v b using that by (auto simp: compare_bounded_kind bounded_kind_def)
  show ?thesis
    using assms cmp
    by (auto simp: add_bounds_def bound_attribute_val_def alloc_def mem_calloc_def get_bounds_def
        set_val_internal_def attr_val_of_def)
qed

definition demo_int :: "flash dm" where
  "demo_int = demo\<lparr>ats := (ats demo)(4 \<mapsto> demo_number\<lparr>at_type := VT_INTEGER\<rparr>)\<rparr>"

theorem integer_bounds_lock_witness:
  "\<exists>s'. add_bounds demo_env (Some 4) (esp_matter_int 0) (esp_matter_int 9) demo_int =
       Some (ESP_ERR_INVALID_ARG, s') \<and>
     set_val_internal demo_env (Some 4) (Some (esp_matter_int 5)) False s' =
       Some (ESP_ERR_INVALID_ARG, Some (esp_matter_int 5), s')"
proof -
  obtain x where "at_ext (demo_number\<lparr>at_type := VT_INTEGER\<rparr>) = Some x" by (simp add: demo_number_def)
  then show ?thesis
    using integer_bounds_lock[of demo_int 4 "demo_number\<lparr>at_type := VT_INTEGER\<rparr>" x "esp_matter_int 0"
        "esp_matter_int 9" demo_env]
    by (auto simp: demo_int_def demo_number_def esp_matter_int_def num_attr_val_def)
qed

section \<open>All values stay within their bounds\<close>

text \<open>One operation on the attributes, by its outcome.  Bounds are added on bounded types and in
  order; a refused or failed call is a step too, as long as the bounds were not installed.\<close>

inductive attr_step :: "'n env \<Rightarrow> 'n dm \<Rightarrow> 'n dm \<Rightarrow> bool" for E where
  create: "attribute_create E ch i flags v mx s = Some (h, s') \<Longrightarrow> attr_step E s s'"
| destroy: "attribute_destroy E (Some c) (Some a) s = Some (err, s') \<Longrightarrow> attr_step E s s'"
| set: "set_val_internal E h vo cb s = Some (err, vo', s') \<Longrightarrow> attr_step E s s'"
| bound: "add_bounds E (Some a) mn mx s = Some (err, s') \<Longrightarrow> bounded_kind (av_type mn) = Some k \<Longrightarrow>
    ordered k mn mx \<Longrightarrow> attr_step E s s'"
| override: "set_override_callback (Some a) callback s = Some (err, s') \<Longrightarrow> attr_step E s s'"
| deferral: "set_deferred_persistence (Some a) s = Some (err, s') \<Longrightarrow> attr_step E s s'"
| timer: "deferred_attribute_write E a s = Some s' \<Longrightarrow> attr_step E s s'"

lemma bounds_inv_put:
  assumes "bounds_inv T s" "ats t = (ats s)(a \<mapsto> at)" "within T at"
  shows "bounds_inv T t"
  using assms by (auto simp: bounds_inv_def)

lemma within_no_bounds: "(\<And>x. at_ext at = Some x \<Longrightarrow> x_bounds x = None) \<Longrightarrow> within T at"
  by (auto simp: within_def)

lemma attribute_create_bounds:
  assumes "attribute_create E ch i flags v mx s = Some (h, s')" "bounds_inv T s"
  shows "bounds_inv T s'"
proof (cases ch)
  case (Some c)
  then have r: "attribute_create E (Some c) i flags v mx s = Some (h, s')" using assms(1) by simp
  then obtain cl where cl: "cls s c = Some cl"
    by (auto simp: attribute_create_def split: bind_splits)
  from r cl show ?thesis
  proof (cases rule: attribute_create_cases)
    case (created a at)
    then show ?thesis using bounds_inv_put[OF assms(2) created(4)] within_no_bounds by blast
  qed (use assms in \<open>auto simp: bounds_inv_def\<close>)
qed (use assms in simp)

lemma set_val_internal_bounds:
  assumes r: "set_val_internal E h vo cb s = Some (err, vo', s')" and inv: "bounds_inv (e_traits E) s"
    and keep: "callback_keeps_value E"
  shows "bounds_inv (e_traits E) s'"
proof (cases "\<exists>a v at. h = Some a \<and> vo = Some v \<and> ats s a = Some at")
  case True
  then obtain a v at where h: "h = Some a" "vo = Some v" and at: "ats s a = Some at" by blast
  from r[unfolded h] at show ?thesis
  proof (cases rule: set_val_internal_cases)
    case unchanged then show ?thesis using inv by simp
  next
    case veto
    then show ?thesis using inv execute_callback_store by (fastforce simp: bounds_inv_def same_store_def)
  next
    case (stored x v1 s1 err1 x1 m1)
    have v1: "v1 = v" "same_store s s1"
      using stored(6) keep execute_callback_value execute_callback_store by (auto split: if_splits)
    have ats: "ats s' = (ats s)(a \<mapsto> at\<lparr>at_ext := Some x1\<rparr>)"
      using stored(8) post_update_store v1(2)
      by (fastforce simp: Let_def same_store_def persist_store split: if_splits)
    have old: "within (e_traits E) at" using inv at by (simp add: bounds_inv_def)
    have "within (e_traits E) (at\<lparr>at_ext := Some x1\<rparr>)"
      unfolding within_def
    proof (intro allI impI)
      fix y b
      assume a: "at_ext (at\<lparr>at_ext := Some x1\<rparr>) = Some y" "x_bounds y = Some b"
        "has_flag (at_flags (at\<lparr>at_ext := Some x1\<rparr>)) ATTRIBUTE_FLAG_MIN_MAX"
      then have b: "x_bounds x = Some b" "y = x1" using store_value_frame[OF stored(7)] by auto
      have c: "compare_attr_val_with_bounds (e_traits E) v b = 0" using stored(4) a b by auto
      then have "av_type v \<notin> string_types"
        by (auto simp: compare_attr_val_with_bounds_def)
      then have "x1 = x\<lparr>x_val := av_val v\<rparr>" using stored(7) v1 by (simp add: store_value_def)
      then show "compare_attr_val_with_bounds (e_traits E) (attr_val_of (at\<lparr>at_ext := Some x1\<rparr>) y) b = 0"
        using c b stored(2) by (cases v) (simp add: attr_val_of_def)
    qed
    then show ?thesis using bounds_inv_put[OF inv ats] by blast
  qed
next
  case False
  then have "s' = s" using r by (cases h; cases vo) (auto simp: set_val_internal_def split: bind_splits)
  then show ?thesis using inv by simp
qed

text \<open>Changing an attribute without changing what identifies it.\<close>

lemma inv_attr_redeclare:
  assumes "dm_inv s" "ats s a = Some at"
    and at': "at_id at' = at_id at" "\<And>cl. at_ok cl at \<Longrightarrow> at_ok cl at'"
    and t: "ats t = (ats s)(a \<mapsto> at')" "node t = node s" "eps t = eps s" "cls t = cls s" "cms t = cms s"
      "evs t = evs s" "mem_next (mem s) \<le> mem_next (mem t)"
  shows "dm_inv t"
proof -
  note lay = assms(1)[unfolded dm_inv_def layer_defs]
  have "owns at_ok (\<lambda>a b. at_id a \<noteq> at_id b) cl_attributes (cls s) ((ats s)(a \<mapsto> at'))"
    using lay assms(2) at' by (intro owns_update_child[where c = at]) auto
  moreover have "fresh_above t"
    using inv_fresh[OF assms(1)] inv_live_below(3)[OF assms(1,2)] t
    by (auto simp: fresh_above_def intro: less_le_trans)
  ultimately show ?thesis using lay t unfolding dm_inv_def layer_defs by simp
qed

lemma set_override_callback_inv:
  assumes "set_override_callback (Some a) callback s = Some (err, s')" "dm_inv s" "bounds_inv T s"
  shows "dm_inv s' \<and> bounds_inv T s'"
proof -
  obtain at where at: "ats s a = Some at"
    using assms(1) by (auto simp: set_override_callback_def split: bind_splits)
  show ?thesis
  proof (cases "s' = s")
    case False
    then obtain x where x: "at_ext at = Some x"
        "\<not> has_flag (at_flags at) ATTRIBUTE_FLAG_MANAGED_INTERNALLY"
        and s': "s' = put_attr a (at\<lparr>at_flags := at_flags at OR ATTRIBUTE_FLAG_OVERRIDE,
          at_ext := Some (x\<lparr>x_override := callback\<rparr>)\<rparr>) s"
      using assms(1) at by (auto simp: set_override_callback_def split: bind_splits if_splits)
    have "within T at" using assms(3) at by (simp add: bounds_inv_def)
    then have "bounds_inv T s'"
      using x s' by (intro bounds_inv_put[OF assms(3)]) (auto simp: within_def attr_val_of_def)
    moreover have "dm_inv s'"
      using x s' by (intro inv_attr_redeclare[OF assms(2) at]) (auto simp: at_ok_def)
    ultimately show ?thesis by blast
  qed (use assms in simp)
qed

lemma set_deferred_persistence_inv:
  assumes "set_deferred_persistence (Some a) s = Some (err, s')" "dm_inv s" "bounds_inv T s"
  shows "dm_inv s' \<and> bounds_inv T s'"
proof -
  obtain at where at: "ats s a = Some at"
    using assms(1) by (auto simp: set_deferred_persistence_def split: bind_splits)
  show ?thesis
  proof (cases "s' = s")
    case False
    then have s': "s' = put_attr a (at\<lparr>at_flags := at_flags at OR ATTRIBUTE_FLAG_DEFERRED\<rparr>) s"
      using assms(1) at by (auto simp: set_deferred_persistence_def split: if_splits)
    have "within T at" using assms(3) at by (simp add: bounds_inv_def)
    then have "within T (at\<lparr>at_flags := at_flags at OR ATTRIBUTE_FLAG_DEFERRED\<rparr>)"
      by (auto simp: within_def attr_val_of_def)
    then have "bounds_inv T s'"
      using s' by (intro bounds_inv_put[OF assms(3), of s' a]) auto
    moreover have "dm_inv s'"
      using s' by (intro inv_attr_redeclare[OF assms(2) at]) (auto simp: at_ok_def)
    ultimately show ?thesis by blast
  qed (use assms in simp)
qed

lemma add_bounds_inv:
  assumes r: "add_bounds E (Some a) mn mx s = Some (err, s')"
    and k: "bounded_kind (av_type mn) = Some k" "ordered k mn mx"
  shows "bounds_inv (e_traits E) s \<Longrightarrow> bounds_inv (e_traits E) s'" "dm_inv s \<Longrightarrow> dm_inv s'"
proof -
  obtain at where at: "ats s a = Some at"
    using r by (auto simp: add_bounds_def split: bind_splits)
  have "(bounds_inv (e_traits E) s \<longrightarrow> bounds_inv (e_traits E) s') \<and> (dm_inv s \<longrightarrow> dm_inv s')"
    using r at
  proof (cases rule: add_bounds_cases)
    case refused then show ?thesis by simp
  next
    case (no_mem x)
    let ?at = "at\<lparr>at_ext := Some (x\<lparr>x_bounds := None\<rparr>)\<rparr>"
    have "within (e_traits E) ?at" by (rule within_no_bounds) auto
    moreover have "ats s' = (ats s)(a \<mapsto> ?at)" using no_mem(3) by simp
    moreover have "dm_inv s \<Longrightarrow> dm_inv s'"
      using at no_mem by (intro inv_attr_redeclare[of s a at ?at s']) (auto simp: at_ok_def)
    ultimately show ?thesis using bounds_inv_put by blast
  next
    case (set x b r)
    let ?at = "at\<lparr>at_flags := at_flags at OR ATTRIBUTE_FLAG_MIN_MAX,
          at_ext := Some (x\<lparr>x_bounds := Some b,
            x_val := (if r = 1 then av_val mx else if r = - 1 then av_val mn else x_val x)\<rparr>)\<rparr>"
    have "within (e_traits E) ?at"
      using set(2,3,5,6) k compare_num_bound[of k b "e_traits E" "av_type mn"]
      by (auto simp: within_def attr_val_of_def compare_bounded_kind compare_num_def Let_def split: if_splits)
    moreover have "ats s' = (ats s)(a \<mapsto> ?at)" using set(8) by simp
    moreover have "dm_inv s \<Longrightarrow> dm_inv s'"
      using at set(1,4,8) by (intro inv_attr_redeclare[of s a at ?at s']) (auto simp: at_ok_def)
    ultimately show ?thesis using bounds_inv_put by blast
  qed
  then show "bounds_inv (e_traits E) s \<Longrightarrow> bounds_inv (e_traits E) s'" "dm_inv s \<Longrightarrow> dm_inv s'" by blast+
qed

lemma attribute_destroy_inv:
  assumes r: "attribute_destroy E (Some c) (Some a) s = Some (err, s')" and inv: "dm_inv s"
  shows "dm_inv s'" "bounds_inv T s \<Longrightarrow> bounds_inv T s'"
proof -
  obtain cl where cl: "cls s c = Some cl"
    using r by (auto simp: attribute_destroy_def split: bind_splits)
  have "dm_inv s' \<and> (bounds_inv T s \<longrightarrow> bounds_inv T s')"
  proof (cases "a \<in> set (cl_attributes cl)")
    case True
    then obtain at where at: "ats s a = Some at"
      using owns_live[OF inv_at[OF inv, unfolded at_layer_def] cl] by blast
    show ?thesis
      by (rule attribute_destroy_effect[OF inv cl True at, of E]) (use r in \<open>auto simp: bounds_inv_def\<close>)
  next
    case False
    then show ?thesis using r cl inv by (simp add: attribute_destroy_def)
  qed
  then show "dm_inv s'" "bounds_inv T s \<Longrightarrow> bounds_inv T s'" by blast+
qed

text \<open>C4: bounds hold throughout.  Whatever sequence of attribute operations is run (creation,
  destruction, changes of value, new bounds, override and deferral, timers), the store keeps its
  shape and every attribute that has bounds holds a value within them, provided the application
  callback does not replace values and bounds are added in order.\<close>

theorem bounds_hold_throughout:
  assumes "callback_keeps_value E" "(attr_step E)\<^sup>*\<^sup>* s s'" "dm_inv s" "bounds_inv (e_traits E) s"
  shows "dm_inv s' \<and> bounds_inv (e_traits E) s'"
  using assms(2-4)
proof (induction rule: rtranclp_induct)
  case (step t u)
  then have inv: "dm_inv t" "bounds_inv (e_traits E) t" by blast+
  from step(2) show ?case
  proof cases
    case (create ch i flags v mx h)
    then show ?thesis using inv attribute_create_inv attribute_create_bounds by (cases ch) auto
  next
    case (destroy c a err)
    then show ?thesis using inv attribute_destroy_inv by blast
  next
    case (set h vo cb err vo')
    then show ?thesis using inv set_val_internal_inv set_val_internal_bounds[OF _ _ assms(1)] by blast
  next
    case (bound a mn mx err k)
    then show ?thesis using inv add_bounds_inv by blast
  next
    case (override a callback err)
    then show ?thesis using inv set_override_callback_inv by blast
  next
    case (deferral a err)
    then show ?thesis using inv set_deferred_persistence_inv by blast
  next
    case (timer a)
    then have "node u = node t" "eps u = eps t" "cls u = cls t" "ats u = ats t" "cms u = cms t"
        "evs u = evs t" "mem u = mem t"
      by (auto simp: deferred_attribute_write_def split: bind_splits)
    then show ?thesis using inv inv_cong[of t u] by (simp add: bounds_inv_def)
  qed
qed simp

lemma demo_keeps_value: "callback_keeps_value demo_env"
  by (simp add: callback_keeps_value_def)

lemma demo_bounds_inv: "bounds_inv T demo"
  by (auto simp: bounds_inv_def within_def demo_attr_defs split: if_splits)

theorem bounds_hold_throughout_witness:
  "\<exists>s'. (attr_step demo_env)\<^sup>*\<^sup>* demo s' \<and> (\<exists>b. get_bounds s' (Some 4) = Some (ESP_OK, Some b)) \<and>
     dm_inv s' \<and> bounds_inv std_traits s'"
proof -
  have c: "compare_attr_val_with_bounds std_traits \<lparr>av_type = VT_UINT8, av_val = av_val (esp_matter_uint8 5)\<rparr>
      \<lparr>b_min = esp_matter_uint8 10, b_max = esp_matter_uint8 20\<rparr> = - 1"
    by (simp add: compare_bounded_kind bounded_kind_def compare_num_def num_lt_def num_member_def
        trunc_def int_of_def esp_matter_uint8_def num_attr_val_def take_bit_eq_mask mask_numeral)
  then obtain s' where r: "add_bounds demo_env (Some 4) (esp_matter_uint8 10) (esp_matter_uint8 20) demo =
      Some (ESP_OK, s')" "get_bounds s' (Some 4) =
      Some (ESP_OK, Some \<lparr>b_min = esp_matter_uint8 10, b_max = esp_matter_uint8 20\<rparr>)"
    by (auto simp: add_bounds_def demo_number_def esp_matter_uint8_def num_attr_val_def
        bound_attribute_val_def alloc_def mem_calloc_def attr_val_of_def get_bounds_def)
  have o: "ordered KU8 (esp_matter_uint8 10) (esp_matter_uint8 20)"
    by (simp add: ordered_def num_lt_def num_member_def trunc_def int_of_def esp_matter_uint8_def
        num_attr_val_def take_bit_eq_mask mask_numeral)
  have "attr_step demo_env demo s'"
    by (rule attr_step.bound[OF r(1) _ o]) (simp add: bounded_kind_def esp_matter_uint8_def num_attr_val_def)
  then show ?thesis
    using bounds_hold_throughout[OF demo_keeps_value _ demo_inv demo_bounds_inv] r by auto
qed

section \<open>A persistent value and a restart\<close>

lemma set_val_internal_persists:
  assumes r: "set_val_internal E (Some a) (Some v) cb s = Some (ESP_OK, vo, s')"
    and keep: "cb \<longrightarrow> callback_keeps_value E"
    and at: "ats s a = Some at" "at_ext at = Some x"
    and fl: "has_flag (at_flags at) ATTRIBUTE_FLAG_NONVOLATILE" "\<not> has_flag (at_flags at) ATTRIBUTE_FLAG_DEFERRED"
    and num: "av_type v \<notin> string_types"
  shows "nvs s' = snd (store_val_in_nvs (e_nvs E) (e_b64 E) (x_ep x) (x_cl x) (at_id at) v (nvs s))"
  using r at(1)
proof (cases rule: set_val_internal_cases)
  case (stored y v1 s1 err1 x1 m1)
  have y: "y = x" using stored(1) at(2) by simp
  have v1: "v1 = v" "same_store s s1"
    using stored(6) keep execute_callback_value execute_callback_store by (auto split: if_splits)
  have x1: "x1 = x\<lparr>x_val := av_val v\<rparr>" "err1 = ESP_OK" using stored(7) num v1 y by (simp_all add: store_value_def)
  obtain s3 where s3: "s' = persist E a at x1 s3" "nvs s3 = nvs s"
    using stored(8) x1 v1 post_update_store
    by (fastforce simp: Let_def same_store_def split: if_splits)
  have "attr_val_of at x1 = v" using x1 stored(2) by (cases v) (simp add: attr_val_of_def)
  then show ?thesis using s3 fl x1 by (simp add: persist_def)
qed simp_all

lemma attribute_create_recovers:
  assumes r: "attribute_create E (Some c) i flags d mx s = Some (Some a, s')"
    and new: "cls s c = Some cl" "attribute_get s (Some c) i = Some None"
    and fl: "has_flag flags ATTRIBUTE_FLAG_NONVOLATILE" "\<not> has_flag flags ATTRIBUTE_FLAG_MANAGED_INTERNALLY"
    and nvs: "get_val_from_nvs (e_nvs E) (e_b64 E) (cl_ep cl) (cl_id cl) i
      \<lparr>av_type = av_type d, av_val = e_junk E\<rparr> (snd (mem_calloc (mem s))) (nvs s) = (ESP_OK, w, m, n)"
  shows "get_val_internal s' (Some a) = Some (ESP_OK, Some \<lparr>av_type = av_type d, av_val = av_val w\<rparr>)"
proof -
  obtain p s1 where al: "alloc s = (p, s1)" by fastforce
  note s1 = alloc_cases[OF al]
  have "p = Some a" using r new al by (auto simp: attribute_create_def split: option.splits bind_splits)
  let ?at = "new_attribute cl i flags (av_type d) mx"
  have "init_value E a flags (with_max_size d mx) (put_attr a ?at s1) =
      Some (put_attr a (?at\<lparr>at_ext := Some ((the (at_ext ?at))\<lparr>x_val := av_val w\<rparr>)\<rparr>)
        ((put_attr a ?at s1)\<lparr>mem := m, nvs := n\<rparr>))"
    using fl(1) nvs s1(1) by (simp add: init_value_def recover_value_def new_attribute_def)
  then show ?thesis
    using r new al fl(2) \<open>p = Some a\<close>
    by (auto simp: attribute_create_def get_val_internal_def new_attribute_def attr_val_of_def)
qed

lemma recover_value_total:
  "ats s a = Some at \<Longrightarrow> at_ext at = Some x \<Longrightarrow> \<exists>b s' at' x'. recover_value E a s = Some (b, s') \<and>
   ats s' a = Some at' \<and> at_ext at' = Some x' \<and> at_flags at' = at_flags at"
  by (auto simp: recover_value_def split_beta Let_def)

lemma init_value_total:
  assumes "ats s a = Some at" "at_ext at = Some x" "av_type v \<notin> string_types"
    and "\<not> has_flag (at_flags at) ATTRIBUTE_FLAG_MANAGED_INTERNALLY"
  shows "\<exists>s'. init_value E a flags v s = Some s'"
proof -
  have set: "\<exists>e w u. set_val_internal E (Some a) (Some v) False t = Some (e, w, u)"
    if "ats t a = Some at'" "at_ext at' = Some x'" "at_flags at' = at_flags at" for t at' x'
    using that assms(3,4) by (auto simp: set_val_internal_def store_value_def)
  show ?thesis
    using set[OF assms(1,2)] recover_value_total[OF assms(1,2), of E] set
    by (auto simp: init_value_def) (metis bind.bind_lunit case_prod_conv)+
qed



text \<open>The recovered length of a string depends on uninitialised memory.  Creating a
  non-volatile string attribute reads the stored bytes into a value whose size was never set; the
  attribute ends up with the larger of the stored length and that leftover, and with whatever
  maximum length the leftover holds.\<close>

theorem string_recovery_uses_leftover:
  assumes "nvs_ok (e_nvs E)" "ats s a = Some at" "at_ext at = Some x" "at_type at \<in> string_types"
    and "api_get (e_nvs E) kvs_namespace (get_attribute_key (e_b64 E) (x_ep x) (x_cl x) (at_id at)) NK_BLOB
           (nvs s) = Inr it"
    and "\<not> mem_fail (mem s) (mem_next (mem s))"
  shows "\<exists>s' at' x'. recover_value E a s = Some (True, s') \<and> ats s' a = Some at' \<and> at_ext at' = Some x' \<and>
    a_s (v_a (x_val x')) = of_nat (max (length (item_blob it)) (unat (a_s (v_a (e_junk E))))) \<and>
    a_max (v_a (x_val x')) = a_max (v_a (e_junk E))"
proof -
  let ?key = "get_attribute_key (e_b64 E) (x_ep x) (x_cl x) (at_id at)"
  obtain n1 where o: "api_open (e_nvs E) kvs_namespace NVS_READONLY (nvs s) = (ESP_OK, n1)"
    using nvs_open_used[OF assms(1,5), of NVS_READONLY] by (metis prod.collapse)
  have "api_get (e_nvs E) kvs_namespace ?key NK_BLOB n1 = Inr it"
    using nvs_get_open[OF assms(1), of kvs_namespace ?key NK_BLOB kvs_namespace NVS_READONLY "nvs s"] o assms(5)
    by simp
  then show ?thesis
    using assms(2-4,6) o
    by (auto simp: recover_value_def get_val_from_nvs_def nvs_get_val_def nvs_get_blob_val_def
        mem_calloc_def Let_def)
qed

theorem string_recovery_uses_leftover_witness:
  "\<exists>s' at' x'. recover_value (demo_env\<lparr>e_junk := zero_val\<lparr>v_a := zero_arr\<lparr>a_s := 40\<rparr>\<rparr>\<rparr>) 5
       (demo\<lparr>nvs := [(kvs_namespace, get_attribute_key base64_encode 1 6 1) \<mapsto> Blob_Item [104, 105]]\<rparr>) =
       Some (True, s') \<and> ats s' 5 = Some at' \<and> at_ext at' = Some x' \<and> a_s (v_a (x_val x')) = 40"
proof -
  let ?E = "demo_env\<lparr>e_junk := zero_val\<lparr>v_a := zero_arr\<lparr>a_s := 40\<rparr>\<rparr>\<rparr>"
  let ?s = "demo\<lparr>nvs := [(kvs_namespace, get_attribute_key base64_encode 1 6 1) \<mapsto> Blob_Item [104, 105]]\<rparr>"
  obtain x where x: "at_ext demo_string = Some x" "x_ep x = 1" "x_cl x = 6" "at_id demo_string = 1"
      "at_type demo_string \<in> string_types"
    by (simp add: demo_string_def)
  have "api_get (e_nvs ?E) kvs_namespace (get_attribute_key (e_b64 ?E) (x_ep x) (x_cl x) (at_id demo_string)) NK_BLOB
      (nvs ?s) = Inr (Blob_Item [104, 105])"
    using x by (simp add: map_api_def)
  then have "\<exists>s' at' x'. recover_value ?E 5 ?s = Some (True, s') \<and> ats s' 5 = Some at' \<and> at_ext at' = Some x' \<and>
    a_s (v_a (x_val x')) = of_nat (max (length (item_blob (Blob_Item [104, 105]))) (unat (a_s (v_a (e_junk ?E))))) \<and>
    a_max (v_a (x_val x')) = a_max (v_a (e_junk ?E))"
    using x by (intro string_recovery_uses_leftover[where at = demo_string and x = x]) (simp_all add: map_api_ok)
  then show ?thesis by auto
qed

end
