(* ===== verification/EM_EndpointEnable.thy ===== *)
theory EM_EndpointEnable
  imports EM_EndpointLife EM_AttributeBounds
begin

text \<open>
  Enabling an endpoint runs the callbacks of its clusters in a fixed order and adds the bounds of
  their attributes.  Counting clusters by id and flags gives the size of the set of matching
  clusters on enabled endpoints.
\<close>

section \<open>Adding bounds changes attributes only\<close>

definition bounds_frame :: "'n dm \<Rightarrow> 'n dm \<Rightarrow> bool" where
  "bounds_frame s t \<longleftrightarrow> node t = node s \<and> eps t = eps s \<and> cls t = cls s \<and> cms t = cms s \<and> evs t = evs s \<and>
     log t = log s \<and> started t = started s \<and> nvs t = nvs s \<and> dom (ats t) = dom (ats s)"

lemma bounds_frame_refl [simp]: "bounds_frame s s"
  by (simp add: bounds_frame_def)

lemma bounds_frame_trans: "bounds_frame s t \<Longrightarrow> bounds_frame t u \<Longrightarrow> bounds_frame s u"
  by (simp add: bounds_frame_def)

lemma attribute_ext:
  assumes "dm_inv s" "ats s a = Some at"
  shows "at_ext at = None \<longleftrightarrow> has_flag (at_flags at) ATTRIBUTE_FLAG_MANAGED_INTERNALLY"
proof -
  note own = inv_at[OF assms(1), unfolded at_layer_def]
  obtain c cl where "cls s c = Some cl" "a \<in> set (cl_attributes cl)" by (rule owns_parent[OF own assms(2)])
  then show ?thesis using owns_rel[OF own _ _ assms(2)] by (auto simp: at_ok_def)
qed

lemma add_bounds_total:
  assumes inv: "dm_inv s" and at: "ats s a = Some at"
  obtains err s' where "add_bounds E (Some a) mn mx s = Some (err, s')" "dm_inv s'" "bounds_frame s s'"
proof -
  have "add_bounds E (Some a) mn mx s \<noteq> None"
    using at attribute_ext[OF inv at]
    by (cases "at_ext at")
      (auto simp: add_bounds_def bound_attribute_val_def Let_def split: prod.splits option.splits if_splits)
  then obtain err s' where r: "add_bounds E (Some a) mn mx s = Some (err, s')" by fastforce
  from r at have "dm_inv s' \<and> bounds_frame s s'"
  proof (cases rule: add_bounds_cases)
    case refused
    then show ?thesis using inv by simp
  next
    case (no_mem x)
    have "dm_inv s'"
      using at no_mem by (intro inv_attr_redeclare[OF inv at, of "at\<lparr>at_ext := Some (x\<lparr>x_bounds := None\<rparr>)\<rparr>"])
        (auto simp: at_ok_def)
    then show ?thesis using at no_mem(3) by (auto simp: bounds_frame_def)
  next
    case (set x b r)
    have "dm_inv s'"
      using at set(1,4,8) by (intro inv_attr_redeclare[OF inv at, of "at\<lparr>at_flags := at_flags at OR ATTRIBUTE_FLAG_MIN_MAX,
          at_ext := Some (x\<lparr>x_bounds := Some b,
            x_val := (if r = 1 then av_val mx else if r = - 1 then av_val mn else x_val x)\<rparr>)\<rparr>"])
        (auto simp: at_ok_def)
    then show ?thesis using at set(8) by (auto simp: bounds_frame_def)
  qed
  then show ?thesis using that r by blast
qed

lemma add_bounds_to_effect:
  assumes "dm_inv s" "list_all (\<lambda>a. ats s a \<noteq> None) as"
  shows "\<exists>s'. add_bounds_to E f c as s = Some s' \<and> dm_inv s' \<and> bounds_frame s s'"
  using assms
proof (induction as arbitrary: s)
  case (Cons a as)
  then obtain at where at: "ats s a = Some at" by auto
  obtain s1 where s1: "(case e_bounds E f s c (at_id at) of None \<Rightarrow> Some s
      | Some (mn, mx) \<Rightarrow> do { (_, s1) \<leftarrow> add_bounds E (Some a) mn mx s; Some s1 }) = Some s1"
      "dm_inv s1" "bounds_frame s s1"
  proof (cases "e_bounds E f s c (at_id at)")
    case None
    then show ?thesis using that Cons.prems(1) by simp
  next
    case (Some mm)
    obtain err s1 where "add_bounds E (Some a) (fst mm) (snd mm) s = Some (err, s1)" "dm_inv s1" "bounds_frame s s1"
      by (rule add_bounds_total[OF Cons.prems(1) at])
    then show ?thesis using that Some by (cases mm) simp
  qed
  have "list_all (\<lambda>a. ats s1 a \<noteq> None) as"
    using Cons.prems(2) s1(3) by (auto simp: list_all_iff bounds_frame_def domIff set_eq_iff)
  then obtain s2 where "add_bounds_to E f c as s1 = Some s2" "dm_inv s2" "bounds_frame s1 s2"
    using Cons.IH[OF s1(2)] by blast
  then show ?case using at s1 bounds_frame_trans by auto
qed simp

lemma attributes_live:
  assumes "dm_inv s" "cls s c = Some cl"
  shows "list_all (\<lambda>a. ats s a \<noteq> None) (cl_attributes cl)"
  using owns_live[OF inv_at[OF assms(1), unfolded at_layer_def] assms(2)] by (auto simp: list_all_iff)

section \<open>Initialisation of the clusters\<close>

definition opt_effect :: "('a \<Rightarrow> effect) \<Rightarrow> 'a option \<Rightarrow> effect list" where
  "opt_effect f x = (case x of None \<Rightarrow> [] | Some a \<Rightarrow> [f a])"

text \<open>The calls made for one cluster: delegate, bounds, plugin server, init callback, init function.\<close>

definition init_effects :: "'n dm \<Rightarrow> u16 \<Rightarrow> addr \<Rightarrow> effect list" where
  "init_effects s i c =
     (case cls s c of
        None \<Rightarrow> []
      | Some cl \<Rightarrow>
          opt_effect (\<lambda>f. Delegate_Init_Callback f (cl_delegate cl) i) (cl_delegate_init cl) @
          opt_effect (\<lambda>f. Add_Bounds_Callback f c) (cl_add_bounds cl) @
          opt_effect Plugin_Server_Init_Callback (cl_plugin_init cl) @
          opt_effect (\<lambda>f. Init_Callback f i) (cl_init cl) @
          (if has_flag (cl_flags cl) CLUSTER_FLAG_SERVER \<and> has_flag (cl_flags cl) CLUSTER_FLAG_INIT_FUNCTION
           then opt_effect (\<lambda>f. Init_Function f i) (the (get_function s (Some c) CLUSTER_FLAG_INIT_FUNCTION))
           else []))"

definition init_frame :: "'n dm \<Rightarrow> 'n dm \<Rightarrow> bool" where
  "init_frame s t \<longleftrightarrow> node t = node s \<and> eps t = eps s \<and> cls t = cls s \<and> cms t = cms s \<and> evs t = evs s \<and>
     started t = started s \<and> nvs t = nvs s \<and> dom (ats t) = dom (ats s)"

lemma bounds_init_frame: "bounds_frame s t \<Longrightarrow> init_frame s t"
  by (simp add: bounds_frame_def init_frame_def)

lemma init_frame_trans: "init_frame s t \<Longrightarrow> init_frame t u \<Longrightarrow> init_frame s u"
  by (simp add: init_frame_def)

lemma init_frame_log [simp]: "init_frame s (log_ext l t) \<longleftrightarrow> init_frame s t"
  by (simp add: init_frame_def)

lemma opt_emit: "(case x of None \<Rightarrow> s | Some a \<Rightarrow> emit (f a) s) = log_ext (opt_effect f x) s"
  by (cases x) (simp_all add: opt_effect_def emit_log_ext)

lemma init_cluster_effect:
  assumes inv: "dm_inv s" and cl: "cls s c = Some cl" "functions_ok cl"
  shows "\<exists>s'. init_cluster E i c s = Some s' \<and> dm_inv s' \<and> init_frame s s' \<and> log s' = log s @ init_effects s i c"
proof -
  let ?s1 = "log_ext (opt_effect (\<lambda>f. Delegate_Init_Callback f (cl_delegate cl) i) (cl_delegate_init cl)) s"
  obtain s2 where s2: "(case cl_add_bounds cl of None \<Rightarrow> Some ?s1 | Some f \<Rightarrow> add_bounds_callback E f c ?s1) = Some s2"
      "dm_inv s2" "bounds_frame (log_ext (opt_effect (\<lambda>f. Add_Bounds_Callback f c) (cl_add_bounds cl)) ?s1) s2"
  proof (cases "cl_add_bounds cl")
    case None
    then show ?thesis using that[of ?s1] inv by (simp add: opt_effect_def)
  next
    case (Some f)
    let ?t = "log_ext [Add_Bounds_Callback f c] ?s1"
    obtain s2 where "add_bounds_to E f c (cl_attributes cl) ?t = Some s2" "dm_inv s2" "bounds_frame ?t s2"
      using add_bounds_to_effect[of ?t "cl_attributes cl" E f c] inv attributes_live[OF inv cl(1)] by auto
    then show ?thesis using that[of s2] Some cl(1) by (simp add: add_bounds_callback_def emit_log_ext opt_effect_def)
  qed
  have fr: "cls s2 = cls s" "init_frame s s2" "log s2 = log ?s1 @ opt_effect (\<lambda>f. Add_Bounds_Callback f c) (cl_add_bounds cl)"
    using s2(3) by (simp_all add: bounds_frame_def init_frame_def)
  obtain g where g: "get_function s2 (Some c) CLUSTER_FLAG_INIT_FUNCTION = Some g"
    using get_function_total[of s2 c cl 0] cl fr(1) unfolding function_flag_powers by auto
  have gs: "get_function s (Some c) CLUSTER_FLAG_INIT_FUNCTION = Some g"
    using g fr(1) by (simp add: get_function_def)
  let ?on = "has_flag (cl_flags cl) CLUSTER_FLAG_SERVER \<and> has_flag (cl_flags cl) CLUSTER_FLAG_INIT_FUNCTION"
  let ?l = "opt_effect Plugin_Server_Init_Callback (cl_plugin_init cl) @ opt_effect (\<lambda>f. Init_Callback f i) (cl_init cl) @
      (if ?on then opt_effect (\<lambda>f. Init_Function f i) g else [])"
  have "init_cluster E i c s = Some (log_ext ?l s2)"
    using s2(1) cl(1) fr(1) g
    by (simp add: init_cluster_def get_delegate_init_callback_def get_delegate_impl_def get_add_bounds_callback_def
        get_plugin_server_init_callback_def cluster_get_flags_def get_init_callback_def opt_emit Let_def)
  moreover have "log (log_ext ?l s2) = log s @ init_effects s i c"
    using fr(3) cl(1) gs by (simp add: init_effects_def)
  ultimately show ?thesis using s2(2) fr(2) by (intro exI[of _ "log_ext ?l s2"]) (simp add: init_effects_def cl(1) gs)
qed

lemma init_effects_cong: "cls t = cls s \<Longrightarrow> init_effects t i c = init_effects s i c"
  by (cases "cls s c") (simp_all add: init_effects_def get_function_def)

lemma init_clusters_effect:
  assumes "dm_inv s" "tables_ok s" "list_all (\<lambda>c. cls s c \<noteq> None) cs"
  shows "\<exists>s'. init_clusters E i cs s = Some s' \<and> dm_inv s' \<and> init_frame s s' \<and>
    log s' = log s @ concat (map (init_effects s i) cs)"
  using assms
proof (induction cs arbitrary: s)
  case Nil
  then show ?case by (simp add: init_frame_def)
next
  case (Cons c cs)
  then obtain cl where cl: "cls s c = Some cl" "functions_ok cl" by (auto simp: tables_ok_def)
  obtain s1 where s1: "init_cluster E i c s = Some s1" "dm_inv s1" "init_frame s s1" "log s1 = log s @ init_effects s i c"
    using init_cluster_effect[OF Cons.prems(1) cl] by blast
  have cls: "cls s1 = cls s" using s1(3) by (simp add: init_frame_def)
  obtain s2 where "init_clusters E i cs s1 = Some s2" "dm_inv s2" "init_frame s1 s2"
      "log s2 = log s1 @ concat (map (init_effects s1 i) cs)"
    using Cons.IH[OF s1(2)] Cons.prems(2,3) cls by (auto simp: tables_ok_def)
  moreover have "init_effects s1 i = init_effects s i" using init_effects_cong[OF cls] by blast
  ultimately show ?case using s1 init_frame_trans by auto
qed

lemma parent_chain_cong:
  assumes "node t = node s" "eps t = eps s"
  shows "parent_chain t i js = parent_chain s i js"
proof -
  have "get_parent_endpoint_id t eh = get_parent_endpoint_id s eh" for eh
    using assms by (cases eh) (simp_all add: get_parent_endpoint_id_def read_endpoint_def)
  then show ?thesis using endpoint_get_by_id_cong[OF assms] by (induction js arbitrary: i) auto
qed



section \<open>Counting clusters\<close>

definition matches :: "u32 \<Rightarrow> u8 \<Rightarrow> cluster_t \<Rightarrow> bool" where
  "matches cluster_id cluster_flags cl \<longleftrightarrow>
     (cluster_id = kInvalidClusterId \<or> cl_id cl = cluster_id) \<and> has_flag (cl_flags cl) cluster_flags"

definition matching :: "'n dm \<Rightarrow> u32 \<Rightarrow> u8 \<Rightarrow> addr \<Rightarrow> addr set" where
  "matching s cluster_id cluster_flags p =
     {c. \<exists>e cl. eps s p = Some e \<and> ep_enabled e \<and> c \<in> set (ep_clusters e) \<and> cls s c = Some cl \<and>
        matches cluster_id cluster_flags cl}"

lemma sum_m_card:
  assumes "distinct xs" "\<And>x. x \<in> set xs \<Longrightarrow> f x = Some (of_nat (card (A x)))" "\<And>x. x \<in> set xs \<Longrightarrow> finite (A x)"
    "\<And>x y. x \<in> set xs \<Longrightarrow> y \<in> set xs \<Longrightarrow> x \<noteq> y \<Longrightarrow> A x \<inter> A y = {}"
  shows "sum_m f xs = Some (of_nat (card (\<Union>x \<in> set xs. A x)))"
  using assms
proof (induction xs)
  case (Cons x xs)
  have "A x \<inter> (\<Union>y \<in> set xs. A y) = {}" using Cons.prems(1,4) by fastforce
  then have "card (\<Union>y \<in> set (x # xs). A y) = card (A x) + card (\<Union>y \<in> set xs. A y)"
    using Cons.prems(3) by (simp add: card_Un_disjoint)
  then show ?case using Cons by simp
qed simp

lemma count_on_endpoint_card:
  assumes inv: "dm_inv s" and e: "eps s p = Some e"
  shows "count_on_endpoint s i f p = Some (of_nat (card (matching s i f p)))" "finite (matching s i f p)"
proof -
  have sub: "matching s i f p \<subseteq> set (ep_clusters e)" using e by (auto simp: matching_def)
  then show "finite (matching s i f p)" by (rule finite_subset) simp
  have live: "\<exists>cl. cls s c = Some cl" if "c \<in> set (ep_clusters e)" for c
    using clusters_live(1)[OF inv e] that by (auto simp: list_all_iff)
  show "count_on_endpoint s i f p = Some (of_nat (card (matching s i f p)))"
  proof (cases "ep_enabled e")
    case False
    then have "matching s i f p = {}" using e by (simp add: matching_def)
    then show ?thesis using e False by (simp add: count_on_endpoint_def)
  next
    case on: True
    show ?thesis
    proof (cases "i = kInvalidClusterId")
      case True
      let ?A = "\<lambda>c. {c} \<inter> matching s i f p"
      have "sum_m (\<lambda>c. check_cluster_flags f s (Some c)) (ep_clusters e) =
          Some (of_nat (card (\<Union>c \<in> set (ep_clusters e). ?A c)))"
      proof (rule sum_m_card[OF clusters_live(2)[OF inv e]])
        show "check_cluster_flags f s (Some c) = Some (of_nat (card (?A c)))" if c: "c \<in> set (ep_clusters e)" for c
        proof -
          obtain cl where "cls s c = Some cl" using live[OF c] by blast
          then show ?thesis using e on c True by (auto simp: check_cluster_flags_def matching_def matches_def)
        qed
      qed auto
      moreover have "(\<Union>c \<in> set (ep_clusters e). ?A c) = matching s i f p" using sub by auto
      ultimately show ?thesis using e on True by (simp add: count_on_endpoint_def)
    next
      case False
      obtain h where h: "cluster_get s (Some p) i = Some h"
          "\<And>c. h = Some c \<longleftrightarrow> c \<in> set (ep_clusters e) \<and> (\<exists>cl. cls s c = Some cl \<and> cl_id cl = i)"
        using cluster_get_exact[OF inv e] by blast
      show ?thesis
      proof (cases h)
        case None
        then have "matching s i f p = {}" using h(2) e False by (auto simp: matching_def matches_def)
        then show ?thesis using e on False h(1) None by (simp add: count_on_endpoint_def check_cluster_flags_def)
      next
        case (Some c)
        then obtain cl where cl: "cls s c = Some cl" "c \<in> set (ep_clusters e)" "cl_id cl = i" using h(2) by blast
        have only: "d = c" if "d \<in> set (ep_clusters e)" "cls s d = Some cd" "cl_id cd = i" for d cd
          using h(2)[of d] Some that by auto
        have "matching s i f p = (if has_flag (cl_flags cl) f then {c} else {})"
          using e on False cl by (auto simp: matching_def matches_def dest: only)
        then show ?thesis using e on False h(1) Some cl(1)
          by (simp add: count_on_endpoint_def check_cluster_flags_def)
      qed
    qed
  qed
qed

lemma cluster_count_card:
  assumes inv: "dm_inv s"
  shows "get_cluster_count s 0xFFFF i f = Some (of_nat (card (\<Union>p. matching s i f p)))"
proof (cases "node s")
  case None
  then have "eps s = Map.empty" using empty_store(1)[OF inv] by simp
  then have "(\<Union>p. matching s i f p) = {}" by (auto simp: matching_def)
  then show ?thesis using None by (simp add: get_cluster_count_def)
next
  case (Some nd)
  note own = inv_cl[OF inv, unfolded cl_layer_def]
  have live: "\<exists>e. eps s p = Some e" if "p \<in> set (nd_endpoints nd)" for p
    using endpoints_live(1)[OF inv Some] that by (auto simp: list_all_iff)
  have "sum_m (count_on_endpoint s i f) (nd_endpoints nd) =
      Some (of_nat (card (\<Union>p \<in> set (nd_endpoints nd). matching s i f p)))"
  proof (rule sum_m_card[OF endpoints_live(2)[OF inv Some]])
    show "count_on_endpoint s i f p = Some (of_nat (card (matching s i f p)))" "finite (matching s i f p)"
      if "p \<in> set (nd_endpoints nd)" for p
      using live[OF that] count_on_endpoint_card[OF inv] by blast+
    show "matching s i f p \<inter> matching s i f q = {}" if pq: "p \<noteq> q" for p q
    proof (rule ccontr)
      assume "matching s i f p \<inter> matching s i f q \<noteq> {}"
      then obtain c e e' where "eps s p = Some e" "eps s q = Some e'" "c \<in> set (ep_clusters e)" "c \<in> set (ep_clusters e')"
        by (auto simp: matching_def)
      then show False using owns_one_parent[OF own, of p e q e' c] pq by simp
    qed
  qed
  moreover have "(\<Union>p \<in> set (nd_endpoints nd). matching s i f p) = (\<Union>p. matching s i f p)"
  proof -
    have "p \<in> set (nd_endpoints nd)" if m: "matching s i f p \<noteq> {}" for p
    proof -
      obtain e where "eps s p = Some e" using m by (auto simp: matching_def)
      from owns_parent[OF inv_ep[OF inv, unfolded ep_layer_def] this] show ?thesis using Some by auto
    qed
    then show ?thesis by auto
  qed
  ultimately show ?thesis using Some by (simp add: get_cluster_count_def kInvalidEndpointId_def)
qed



end
