(* ===== verification/EM_DataBuffer.thy ===== *)
theory EM_DataBuffer
  imports EM_Nvs
begin

text \<open>
  Values on the wire: \<open>data_model_provider/esp_matter_attr_data_buffer.cpp\<close>.  The TLV reader and
  writer of connectedhomeip are a parameter: an element of type \<open>'t\<close> is what a writer produces
  and a reader is positioned at.
\<close>

section \<open>Errors of connectedhomeip\<close>

datatype im_status =
    Success | Failure | UnsupportedEndpoint | UnsupportedCluster | UnsupportedAttribute
  | UnsupportedEvent | UnsupportedCommand | ResourceExhausted | InvalidDataType
  | DataVersionMismatch | UnsupportedRead | WriteIgnored | Other_Status u8

datatype chip_error =
    CHIP_NO_ERROR | CHIP_ERROR_INVALID_ARGUMENT | CHIP_ERROR_NO_MEMORY | CHIP_ERROR_INTERNAL
  | CHIP_ERROR_NOT_IMPLEMENTED | CHIP_ERROR_BUFFER_TOO_SMALL | IM_GLOBAL_STATUS im_status | Other_Error u32

section \<open>Reader and writer\<close>

record 't tlv_api =
  tlv_is_null :: "'t \<Rightarrow> bool"
  tlv_get_num :: "num_kind \<Rightarrow> 't \<Rightarrow> chip_error + u64"
  tlv_length :: "'t \<Rightarrow> u32"
  tlv_get_string :: "'t \<Rightarrow> nat \<Rightarrow> chip_error + u8 list"
  tlv_get_bytes :: "'t \<Rightarrow> nat \<Rightarrow> chip_error + u8 list"
  tlv_put_null :: "chip_error + 't"
  tlv_put_num :: "num_kind \<Rightarrow> u64 \<Rightarrow> chip_error + 't"
  tlv_put_string :: "u8 list \<Rightarrow> chip_error + 't"
  tlv_put_bytes :: "u8 list \<Rightarrow> chip_error + 't"

text \<open>What the sources rely on: an element reads back as it was written.  Strings are written
  from and read into zero-terminated buffers.\<close>

definition tlv_ok :: "'t tlv_api \<Rightarrow> bool" where
  "tlv_ok api \<longleftrightarrow>
     (\<forall>e. tlv_put_null api = Inr e \<longrightarrow> tlv_is_null api e) \<and>
     (\<forall>k w e. tlv_put_num api k w = Inr e \<longrightarrow> \<not> tlv_is_null api e \<and> tlv_get_num api k e = Inr (trunc k w)) \<and>
     (\<forall>bs e. tlv_put_string api bs = Inr e \<longrightarrow> length bs < 2 ^ 32 \<longrightarrow>
        \<not> tlv_is_null api e \<and> tlv_length api e = of_nat (length bs) \<and>
        tlv_get_string api e (length bs + 1) = Inr (bs @ [0])) \<and>
     (\<forall>bs e. tlv_put_bytes api bs = Inr e \<longrightarrow> length bs < 2 ^ 32 \<longrightarrow>
        \<not> tlv_is_null api e \<and> tlv_length api e = of_nat (length bs) \<and>
        tlv_get_bytes api e (length bs) = Inr bs)"

section \<open>Decoding and encoding\<close>

text \<open>The numeric cases of the two switches: neither has one for \<open>INTEGER\<close>.\<close>

definition wire_kind :: "val_type \<Rightarrow> num_kind option" where
  "wire_kind t = (if t = VT_INTEGER \<or> t = VT_NULLABLE_INTEGER then None else type_kind t)"

definition decode_init :: "val_type \<Rightarrow> attr_val" where
  "decode_init t = \<lparr>av_type = t, av_val = zero_val\<rparr>"

definition with_arr :: "val_type \<Rightarrow> u8 list option \<Rightarrow> u16 \<Rightarrow> u16 \<Rightarrow> attr_val" where
  "with_arr t b s tot = \<lparr>av_type = t, av_val = \<lparr>v_num = 0, v_a = \<lparr>a_b = b, a_s = s, a_max = 0, a_t = tot\<rparr>\<rparr>\<rparr>"

definition short_string :: "val_type \<Rightarrow> bool" where
  "short_string t \<longleftrightarrow> t = VT_CHAR_STRING \<or> t = VT_OCTET_STRING"

definition char_string :: "val_type \<Rightarrow> bool" where
  "char_string t \<longleftrightarrow> t = VT_CHAR_STRING \<or> t = VT_LONG_CHAR_STRING"

definition decode_string :: "'t tlv_api \<Rightarrow> val_type \<Rightarrow> 't \<Rightarrow> mem \<Rightarrow> chip_error \<times> attr_val \<times> mem" where
  "decode_string api t e m =
     (if tlv_is_null api e then (CHIP_NO_ERROR, with_arr t None (null_len t) (null_len t), m)
      else
        (let len = tlv_length api e in
         if len > 0xFF \<and> short_string t then (CHIP_ERROR_INVALID_ARGUMENT, decode_init t, m)
         else
           (let size = unat len + (if char_string t then 1 else 0); (p, m1) = mem_calloc m in
            case p of
              None \<Rightarrow> (CHIP_ERROR_NO_MEMORY, decode_init t, m1)
            | Some _ \<Rightarrow>
                (case (if char_string t then tlv_get_string api e size else tlv_get_bytes api e size) of
                   Inl err \<Rightarrow> (err, with_arr t (Some (replicate size 0)) 0 0, m1)
                 | Inr bs \<Rightarrow>
                     (CHIP_NO_ERROR,
                      with_arr t (Some bs) (ucast len) (ucast len + (if short_string t then 1 else 2)), m1)))))"

definition decode :: "'t tlv_api \<Rightarrow> traits \<Rightarrow> val_type \<Rightarrow> 't \<Rightarrow> mem \<Rightarrow> chip_error \<times> attr_val \<times> mem" where
  "decode api T t e m =
     (case wire_kind t of
        Some k \<Rightarrow>
          if nullable_type t \<and> tlv_is_null api e
          then (CHIP_NO_ERROR, \<lparr>av_type = t, av_val = set_member k (tr_null T k) zero_val\<rparr>, m)
          else
            (case tlv_get_num api k e of
               Inl err \<Rightarrow> (err, decode_init t, m)
             | Inr w \<Rightarrow> (CHIP_NO_ERROR, \<lparr>av_type = t, av_val = set_member k w zero_val\<rparr>, m))
      | None \<Rightarrow>
          if t \<in> string_types then decode_string api t e m
          else (CHIP_ERROR_INVALID_ARGUMENT, decode_init t, m))"

text \<open>The bytes in front of the terminating zero; reading past the buffer goes wrong.\<close>

definition c_string :: "u8 list \<Rightarrow> u8 list option" where
  "c_string bs = (if 0 \<in> set bs then Some (takeWhile (\<lambda>b. b \<noteq> 0) bs) else None)"

definition encode_string :: "'t tlv_api \<Rightarrow> attr_val \<Rightarrow> (chip_error + 't) option" where
  "encode_string api v =
     (let a = v_a (av_val v) in
      if a_b a = None \<and> a_s a = null_len (av_type v) then Some (tlv_put_null api)
      else if char_string (av_type v) then
        (case a_b a of
           None \<Rightarrow> Some (tlv_put_string api [])
         | Some bs \<Rightarrow> map_option (tlv_put_string api) (c_string bs))
      else if length (buf_bytes (a_b a)) < unat (a_s a) then None
      else Some (tlv_put_bytes api (take (unat (a_s a)) (buf_bytes (a_b a)))))"

text \<open>The boolean is read as a \<open>bool\<close>, for which only 0 and 1 are defined.\<close>

definition encode :: "'t tlv_api \<Rightarrow> traits \<Rightarrow> attr_val \<Rightarrow> (chip_error + 't) option" where
  "encode api T v =
     (case wire_kind (av_type v) of
        Some k \<Rightarrow>
          (let w = num_member k (av_val v) in
           if k = KBool \<and> w \<notin> {0, 1} then None
           else if nullable_type (av_type v) \<and> tr_is_null T k w then Some (tlv_put_null api)
           else Some (tlv_put_num api k w))
      | None \<Rightarrow>
          if av_type v \<in> string_types then encode_string api v
          else Some (Inl CHIP_ERROR_INVALID_ARGUMENT))"

section \<open>Round trip\<close>

text \<open>Values whose buffers are what the attribute code keeps: a character string is zero
  terminated at its size, an octet string has at least its size, short strings have at most 255
  bytes.\<close>

definition string_wf :: "val_type \<Rightarrow> arr \<Rightarrow> bool" where
  "string_wf t a \<longleftrightarrow>
     (short_string t \<longrightarrow> a_s a \<le> 0xFF) \<and>
     (case a_b a of
        None \<Rightarrow> a_s a = null_len t \<or> a_s a = 0
      | Some bs \<Rightarrow>
          unat (a_s a) \<le> length bs \<and> (char_string t \<longrightarrow> c_string bs = Some (take (unat (a_s a)) bs)))"

definition wire_wf :: "attr_val \<Rightarrow> bool" where
  "wire_wf v \<longleftrightarrow> (av_type v \<in> string_types \<longrightarrow> string_wf (av_type v) (v_a (av_val v)))"

lemma wire_wfD: "wire_wf v \<Longrightarrow> av_type v \<in> string_types \<Longrightarrow> string_wf (av_type v) (v_a (av_val v))"
  unfolding wire_wf_def by blast

lemma tlv_okD:
  assumes "tlv_ok api"
  shows "tlv_put_null api = Inr e \<Longrightarrow> tlv_is_null api e"
    and "tlv_put_num api k w = Inr e \<Longrightarrow> \<not> tlv_is_null api e"
    and "tlv_put_num api k w = Inr e \<Longrightarrow> tlv_get_num api k e = Inr (trunc k w)"
    and "tlv_put_string api bs = Inr e \<Longrightarrow> length bs < 2 ^ 32 \<Longrightarrow> \<not> tlv_is_null api e"
    and "tlv_put_string api bs = Inr e \<Longrightarrow> length bs < 2 ^ 32 \<Longrightarrow> tlv_length api e = of_nat (length bs)"
    and "tlv_put_string api bs = Inr e \<Longrightarrow> length bs < 2 ^ 32 \<Longrightarrow> tlv_get_string api e (length bs + 1) = Inr (bs @ [0])"
    and "tlv_put_bytes api bs = Inr e \<Longrightarrow> length bs < 2 ^ 32 \<Longrightarrow> \<not> tlv_is_null api e"
    and "tlv_put_bytes api bs = Inr e \<Longrightarrow> length bs < 2 ^ 32 \<Longrightarrow> tlv_length api e = of_nat (length bs)"
    and "tlv_put_bytes api bs = Inr e \<Longrightarrow> length bs < 2 ^ 32 \<Longrightarrow> tlv_get_bytes api e (length bs) = Inr bs"
  using assms unfolding tlv_ok_def by simp_all

lemma wire_kind_type: "wire_kind t = Some k \<Longrightarrow> type_kind t = Some k \<and> t \<notin> string_types"
  by (cases t) (auto simp: wire_kind_def)

lemma val_is_null_kind:
  "wire_kind (av_type v) = Some k \<Longrightarrow>
   val_is_null T v \<longleftrightarrow> nullable_type (av_type v) \<and> tr_is_null T k (num_member k (av_val v))"
  by (cases "av_type v") (auto simp: wire_kind_def val_is_null_def nullable_type_def has_flag_def)

lemma num_member_trunc: "trunc k (num_member k v) = num_member k v"
  by (simp add: num_member_def)

lemma num_roundtrip:
  assumes api: "tlv_ok api" and T: "traits_ok T" and k: "wire_kind (av_type v) = Some k"
    and e: "encode api T v = Some (Inr e)"
  shows "\<exists>v'. decode api T (av_type v) e m = (CHIP_NO_ERROR, v', m) \<and>
    (val_is_null T v \<and> val_is_null T v' \<or> same_value v' v)"
proof (cases "nullable_type (av_type v) \<and> tr_is_null T k (num_member k (av_val v))")
  case True
  then have "tlv_is_null api e"
    using e k tlv_okD(1)[OF api] by (auto simp: encode_def Let_def split: if_splits)
  moreover have "tr_is_null T k (trunc k (tr_null T k))" using T by (simp add: traits_ok_def)
  ultimately show ?thesis using True k
    by (simp add: decode_def val_is_null_kind[of _ k])
next
  case False
  then have "tlv_put_num api k (num_member k (av_val v)) = Inr e"
    using e k by (auto simp: encode_def Let_def split: if_splits)
  then have "\<not> tlv_is_null api e" "tlv_get_num api k e = Inr (num_member k (av_val v))"
    using tlv_okD(2,3)[OF api] by (auto simp: num_member_def)
  then show ?thesis using k wire_kind_type[OF k] by (simp add: decode_def same_value_def num_member_trunc)
qed

lemma null_string_roundtrip:
  assumes "tlv_ok api" "av_type v \<in> string_types" "a_b (v_a (av_val v)) = None"
    "a_s (v_a (av_val v)) = null_len (av_type v)" "encode api T v = Some (Inr e)"
  shows "\<exists>v'. decode api T (av_type v) e m = (CHIP_NO_ERROR, v', m) \<and> same_value v' v"
proof -
  have k: "wire_kind (av_type v) = None" "type_kind (av_type v) = None" using assms(2) by (auto simp: wire_kind_def)
  then have "tlv_is_null api e"
    using assms tlv_okD(1)[OF assms(1)] by (simp add: encode_def encode_string_def Let_def)
  then show ?thesis using assms k
    by (simp add: decode_def decode_string_def same_value_def with_arr_def buf_bytes_def)
qed

lemma ucast_len: "(n :: nat) < 65536 \<Longrightarrow> (ucast (of_nat n :: u32) :: u16) = of_nat n"
  by (simp add: unsigned_of_nat take_bit_nat_eq_self)

text \<open>The bytes a string is sent as.\<close>

definition string_payload :: "attr_val \<Rightarrow> u8 list" where
  "string_payload v = take (unat (a_s (v_a (av_val v)))) (buf_bytes (a_b (v_a (av_val v))))"

lemma string_payload_length:
  assumes "wire_wf v" "av_type v \<in> string_types"
    "\<not> (a_b (v_a (av_val v)) = None \<and> a_s (v_a (av_val v)) = null_len (av_type v))"
  shows "length (string_payload v) = unat (a_s (v_a (av_val v)))"
    "short_string (av_type v) \<Longrightarrow> length (string_payload v) \<le> 255"
proof -
  let ?a = "v_a (av_val v)"
  have "unat (a_s ?a) \<le> length (buf_bytes (a_b ?a))"
  proof (cases "a_b ?a")
    case None
    then have "a_s ?a = 0" using wire_wfD[OF assms(1,2)] assms(3) by (auto simp: string_wf_def)
    then show ?thesis by simp
  next
    case (Some bs)
    then show ?thesis using wire_wfD[OF assms(1,2)] by (simp add: string_wf_def buf_bytes_def)
  qed
  then show len: "length (string_payload v) = unat (a_s ?a)" by (simp add: string_payload_def)
  show "length (string_payload v) \<le> 255" if "short_string (av_type v)"
    using wire_wfD[OF assms(1,2)] that len by (simp add: string_wf_def word_le_nat_alt)
qed

lemma encode_payload:
  assumes "wire_wf v" "av_type v \<in> string_types"
    "\<not> (a_b (v_a (av_val v)) = None \<and> a_s (v_a (av_val v)) = null_len (av_type v))"
  shows "encode api T v = Some (if char_string (av_type v) then tlv_put_string api (string_payload v)
    else tlv_put_bytes api (string_payload v))"
proof -
  let ?a = "v_a (av_val v)"
  have k: "wire_kind (av_type v) = None" using assms(2) by (auto simp: wire_kind_def)
  have e: "encode api T v = encode_string api v" using k assms(2) by (simp add: encode_def)
  have len: "unat (a_s ?a) \<le> length (buf_bytes (a_b ?a))"
    using string_payload_length(1)[OF assms] by (simp add: string_payload_def)
  show ?thesis
  proof (cases "a_b ?a")
    case None
    then have "a_s ?a = 0" "string_payload v = []"
      using wire_wfD[OF assms(1,2)] assms(3) by (auto simp: string_wf_def string_payload_def buf_bytes_def)
    then show ?thesis using e None assms(3) by (simp add: encode_string_def Let_def buf_bytes_def)
  next
    case (Some bs)
    show ?thesis
    proof (cases "char_string (av_type v)")
      case True
      then have "c_string bs = Some (string_payload v)"
        using wire_wfD[OF assms(1,2)] Some by (simp add: string_wf_def string_payload_def buf_bytes_def)
      then show ?thesis using e Some True by (simp add: encode_string_def Let_def)
    next
      case False
      then show ?thesis using e Some len by (simp add: encode_string_def Let_def string_payload_def)
    qed
  qed
qed

lemma string_decodes:
  assumes api: "tlv_ok api" and wf: "wire_wf v" and t: "av_type v \<in> string_types"
    and nn: "\<not> (a_b (v_a (av_val v)) = None \<and> a_s (v_a (av_val v)) = null_len (av_type v))"
    and e: "encode api T v = Some (Inr e)" and m: "\<not> mem_fail m (mem_next m)"
  shows "decode api T (av_type v) e m =
    (CHIP_NO_ERROR, with_arr (av_type v) (Some (string_payload v @ (if char_string (av_type v) then [0] else [])))
       (a_s (v_a (av_val v))) (a_s (v_a (av_val v)) + (if short_string (av_type v) then 1 else 2)), snd (mem_calloc m))"
proof -
  let ?s = "a_s (v_a (av_val v))" and ?bs = "string_payload v" and ?t = "av_type v"
  have k: "wire_kind ?t = None" using t by (auto simp: wire_kind_def)
  note len = string_payload_length[OF wf t nn]
  have "unat ?s < 2 ^ 16" using unsigned_less[of ?s] by simp
  then have small: "length ?bs < 65536" using len(1) by simp
  have size: "unat (of_nat (length ?bs) :: u32) = length ?bs"
    using small by (simp add: unsigned_of_nat take_bit_nat_eq_self)
  have cut: "(ucast (of_nat (length ?bs) :: u32) :: u16) = ?s" using ucast_len[OF small] len(1) by simp
  have le: "\<not> (of_nat (length ?bs) :: u32) > 0xFF" if "short_string ?t"
    using len(2)[OF that] size by (simp add: word_less_nat_alt)
  have put: "(if char_string ?t then tlv_put_string api ?bs else tlv_put_bytes api ?bs) = Inr e"
    using e encode_payload[OF wf t nn, of api T] by simp
  have r: "\<not> tlv_is_null api e" "tlv_length api e = of_nat (length ?bs)"
    "(if char_string ?t then tlv_get_string api e (length ?bs + 1) else tlv_get_bytes api e (length ?bs)) =
       Inr (?bs @ (if char_string ?t then [0] else []))"
    using put small tlv_okD(4-9)[OF api, of ?bs e] by (auto split: if_splits)
  show ?thesis
    using t k r le size cut m
    by (cases "char_string ?t") (auto simp: decode_def decode_string_def Let_def mem_calloc_def)
qed

lemma string_roundtrip:
  assumes "tlv_ok api" and "wire_wf v" and t: "av_type v \<in> string_types"
    and "\<not> (a_b (v_a (av_val v)) = None \<and> a_s (v_a (av_val v)) = null_len (av_type v))"
    and "encode api T v = Some (Inr e)" and "\<not> mem_fail m (mem_next m)"
  shows "\<exists>v' m'. decode api T (av_type v) e m = (CHIP_NO_ERROR, v', m') \<and> same_value v' v"
proof -
  have "type_kind (av_type v) = None" using t by auto
  then have "same_value (with_arr (av_type v) (Some (string_payload v @ xs)) (a_s (v_a (av_val v))) n) v" for xs n
    using string_payload_length(1)[OF assms(2-4)]
    by (simp add: same_value_def with_arr_def buf_bytes_def string_payload_def)
  then show ?thesis using string_decodes[OF assms] by blast
qed

text \<open>An instance of the parameter: elements that keep what was written.\<close>

datatype tlv_elem = E_Null | E_Num u64 | E_String "u8 list" | E_Bytes "u8 list"

definition elem_api :: "tlv_elem tlv_api" where
  "elem_api =
     \<lparr>tlv_is_null = (\<lambda>e. e = E_Null),
      tlv_get_num = (\<lambda>k e. case e of E_Num w \<Rightarrow> if trunc k w = w then Inr w else Inl (Other_Error 2) | _ \<Rightarrow> Inl (Other_Error 1)),
      tlv_length = (\<lambda>e. case e of E_String bs \<Rightarrow> of_nat (length bs) | E_Bytes bs \<Rightarrow> of_nat (length bs) | _ \<Rightarrow> 0),
      tlv_get_string = (\<lambda>e n. case e of
          E_String bs \<Rightarrow> if length bs < n then Inr (bs @ [0]) else Inl CHIP_ERROR_BUFFER_TOO_SMALL
        | _ \<Rightarrow> Inl (Other_Error 1)),
      tlv_get_bytes = (\<lambda>e n. case e of
          E_Bytes bs \<Rightarrow> if length bs \<le> n then Inr bs else Inl CHIP_ERROR_BUFFER_TOO_SMALL
        | E_String bs \<Rightarrow> if length bs \<le> n then Inr bs else Inl CHIP_ERROR_BUFFER_TOO_SMALL
        | _ \<Rightarrow> Inl (Other_Error 1)),
      tlv_put_null = Inr E_Null, tlv_put_num = (\<lambda>k w. Inr (E_Num (trunc k w))),
      tlv_put_string = (\<lambda>bs. Inr (E_String bs)), tlv_put_bytes = (\<lambda>bs. Inr (E_Bytes bs))\<rparr>"

lemma elem_api_ok: "tlv_ok elem_api"
  by (simp add: tlv_ok_def elem_api_def)

lemma encode_decodes:
  assumes "tlv_ok api" "traits_ok T" "wire_wf v" "encode api T v = Some (Inr e)" "\<not> mem_fail m (mem_next m)"
  shows "\<exists>v' m'. decode api T (av_type v) e m = (CHIP_NO_ERROR, v', m') \<and>
    (val_is_null T v \<and> val_is_null T v' \<or> same_value v' v)"
proof (cases "wire_kind (av_type v)")
  case (Some k)
  then show ?thesis using num_roundtrip[OF assms(1,2) Some assms(4), of m] by blast
next
  case None
  then have t: "av_type v \<in> string_types" using assms(4) by (auto simp: encode_def split: if_splits)
  show ?thesis
  proof (cases "a_b (v_a (av_val v)) = None \<and> a_s (v_a (av_val v)) = null_len (av_type v)")
    case True
    then show ?thesis using null_string_roundtrip[OF assms(1) t _ _ assms(4), of m] by blast
  next
    case False
    then show ?thesis using string_roundtrip[OF assms(1,3) t False assms(4,5)] by blast
  qed
qed

text \<open>C10: a value that was encoded decodes to the same value: equal numbers, equal strings, null
  for null.  The only other outcome is a failed allocation of a string buffer.\<close>

theorem encode_decode:
  assumes "tlv_ok api" "traits_ok T" "wire_wf v" "encode api T v = Some (Inr e)" "\<not> mem_fail m (mem_next m)"
  shows "\<exists>v' m'. decode api T (av_type v) e m = (CHIP_NO_ERROR, v', m') \<and>
    (val_is_null T v \<and> val_is_null T v' \<or> same_value v' v)"
  by (rule encode_decodes[OF assms])

theorem encode_decode_witness:
  "\<exists>v' m'. decode elem_api std_traits VT_CHAR_STRING (E_String [104, 105])
       \<lparr>mem_next = 0, mem_fail = (\<lambda>_. False)\<rparr> = (CHIP_NO_ERROR, v', m') \<and>
     same_value v' (esp_matter_char_str (Some [104, 105, 0]) 2)"
proof -
  let ?v = "esp_matter_char_str (Some [104, 105, 0]) 2"
  have wf: "wire_wf ?v"
    by (simp add: wire_wf_def string_wf_def esp_matter_char_str_def arr_attr_val_def c_string_def char_string_def)
  have e: "encode elem_api std_traits ?v = Some (Inr (E_String [104, 105]))"
    by (simp add: encode_def wire_kind_def encode_string_def esp_matter_char_str_def arr_attr_val_def c_string_def
        char_string_def elem_api_def null_len_def)
  have "\<not> val_is_null std_traits ?v"
    by (simp add: val_is_null_def esp_matter_char_str_def arr_attr_val_def)
  then show ?thesis
    using encode_decode[OF elem_api_ok std_traits_ok wf e, of "\<lparr>mem_next = 0, mem_fail = (\<lambda>_. False)\<rparr>"]
    by (simp add: esp_matter_char_str_def arr_attr_val_def)
qed

end
