(* ===== verification/EM_Ember.thy ===== *)
theory EM_Ember
  imports EM_EndpointEnable EM_DataBuffer
begin

text \<open>
  The functions of the ember interface that connectedhomeip code still calls:
  \<open>data_model_provider/esp_matter_ember_stubs.cpp\<close>.  Raw buffers are lists of bytes in little
  endian order; a write past the end of a buffer or a read past it goes wrong.
\<close>

section \<open>Raw buffers\<close>

definition kind_size :: "num_kind \<Rightarrow> nat" where
  "kind_size k = kind_bits k div 8"

definition put_bytes :: "u8 list \<Rightarrow> u8 list \<Rightarrow> u8 list option" where
  "put_bytes bs buf = (if length bs \<le> length buf then Some (bs @ drop (length bs) buf) else None)"

text \<open>The byte pattern stored for a number: the null pattern for a null value of a nullable
  type; a \<open>bool\<close> that is neither 0 nor 1 has no defined value.\<close>

definition storage_bytes :: "traits \<Rightarrow> val_type \<Rightarrow> num_kind \<Rightarrow> u64 \<Rightarrow> u8 list option" where
  "storage_bytes T t k w =
     (if nullable_type t \<and> tr_is_null T k w then Some (le_bytes (kind_size k) (tr_null T k))
      else if k = KBool \<and> w \<notin> {0, 1} then None
      else Some (le_bytes (kind_size k) w))"

text \<open>The size each numeric case asks for before it writes: for \<open>UINT64\<close> that of a byte.\<close>

definition checked_size :: "num_kind \<Rightarrow> nat" where
  "checked_size k = (if k = KU64 then 1 else kind_size k)"

definition raw_string :: "val_type \<Rightarrow> arr \<Rightarrow> u8 list option" where
  "raw_string t a =
     (if short_string t then
        (let len = (ucast (a_s a) :: u8) in
         if len = 0xFF then Some [len]
         else if length (buf_bytes (a_b a)) < unat len then None
         else Some (len # take (unat len) (buf_bytes (a_b a))))
      else if a_s a = 0xFFFF then Some (le_bytes 2 (a_s a))
      else if length (buf_bytes (a_b a)) < unat (a_s a) then None
      else Some (le_bytes 2 (a_s a) @ take (unat (a_s a)) (buf_bytes (a_b a))))"

definition get_raw_data_buffer_from_attr_val ::
    "traits \<Rightarrow> attr_val \<Rightarrow> u8 list option \<Rightarrow> u16 \<Rightarrow> (im_status \<times> u8 list option) option" where
  "get_raw_data_buffer_from_attr_val T v dataPtr readLength =
     (case wire_kind (av_type v) of
        Some k \<Rightarrow>
          (case dataPtr of
             None \<Rightarrow> Some (ResourceExhausted, dataPtr)
           | Some buf \<Rightarrow>
               if unat readLength < checked_size k then Some (ResourceExhausted, dataPtr)
               else do {
                 bs \<leftarrow> storage_bytes T (av_type v) k (num_member k (av_val v));
                 buf1 \<leftarrow> put_bytes bs buf;
                 Some (Success, Some buf1) })
      | None \<Rightarrow>
          if av_type v \<notin> string_types then Some (InvalidDataType, dataPtr)
          else
            (case dataPtr of
               None \<Rightarrow> Some (ResourceExhausted, dataPtr)
             | Some buf \<Rightarrow>
                 if readLength < a_t (v_a (av_val v)) then Some (ResourceExhausted, dataPtr)
                 else do {
                   bs \<leftarrow> raw_string (av_type v) (v_a (av_val v));
                   buf1 \<leftarrow> put_bytes bs buf;
                   Some (Success, Some buf1) }))"

section \<open>Ember attribute types\<close>

datatype zcl_type =
    ZCL_NO_DATA | ZCL_BOOLEAN | ZCL_CHAR_STRING | ZCL_LONG_CHAR_STRING | ZCL_OCTET_STRING | ZCL_IPADR
  | ZCL_IPV4ADR | ZCL_IPV6ADR | ZCL_IPV6PRE | ZCL_HWADR | ZCL_LONG_OCTET_STRING | ZCL_INT8S | ZCL_INT8U
  | ZCL_ACTION_ID | ZCL_TAG | ZCL_NAMESPACE | ZCL_FABRIC_IDX | ZCL_PERCENT | ZCL_INT16S | ZCL_TEMPERATURE
  | ZCL_INT16U | ZCL_ENTRY_IDX | ZCL_GROUP_ID | ZCL_ENDPOINT_NO | ZCL_VENDOR_ID | ZCL_PERCENT100THS
  | ZCL_INT32S | ZCL_INT24S | ZCL_INT32U | ZCL_TRANS_ID | ZCL_CLUSTER_ID | ZCL_ATTRIB_ID | ZCL_FIELD_ID
  | ZCL_EVENT_ID | ZCL_COMMAND_ID | ZCL_EPOCH_S | ZCL_ELAPSED_S | ZCL_DATA_VER | ZCL_DEVTYPE_ID | ZCL_INT24U
  | ZCL_INT64S | ZCL_ENERGY_MWH | ZCL_AMPERAGE_MA | ZCL_POWER_MW | ZCL_INT56S | ZCL_INT48S | ZCL_INT40S
  | ZCL_INT64U | ZCL_FABRIC_ID | ZCL_NODE_ID | ZCL_POSIX_MS | ZCL_EPOCH_US | ZCL_SYSTIME_US | ZCL_SYSTIME_MS
  | ZCL_EVENT_NO | ZCL_INT56U | ZCL_INT48U | ZCL_INT40U | ZCL_ENUM8 | ZCL_STATUS | ZCL_PRIORITY | ZCL_ENUM16
  | ZCL_BITMAP8 | ZCL_BITMAP16 | ZCL_BITMAP32 | ZCL_SINGLE | ZCL_OTHER u8

text \<open>The plain and the nullable type a numeric ember type is read as, and the member used.\<close>

definition zcl_number :: "zcl_type \<Rightarrow> (val_type \<times> val_type \<times> num_kind) option" where
  "zcl_number t =
     (if t = ZCL_INT8S then Some (VT_INT8, VT_NULLABLE_INT8, KI8)
      else if t \<in> {ZCL_INT8U, ZCL_ACTION_ID, ZCL_TAG, ZCL_NAMESPACE, ZCL_FABRIC_IDX, ZCL_PERCENT}
      then Some (VT_UINT8, VT_NULLABLE_UINT8, KU8)
      else if t \<in> {ZCL_INT16S, ZCL_TEMPERATURE} then Some (VT_INT16, VT_NULLABLE_INT16, KI16)
      else if t \<in> {ZCL_INT16U, ZCL_ENTRY_IDX, ZCL_GROUP_ID, ZCL_ENDPOINT_NO, ZCL_VENDOR_ID, ZCL_PERCENT100THS}
      then Some (VT_UINT16, VT_NULLABLE_UINT16, KU16)
      else if t \<in> {ZCL_INT32S, ZCL_INT24S} then Some (VT_INT32, VT_NULLABLE_INT32, KI32)
      else if t \<in> {ZCL_INT32U, ZCL_TRANS_ID, ZCL_CLUSTER_ID, ZCL_ATTRIB_ID, ZCL_FIELD_ID, ZCL_EVENT_ID,
          ZCL_COMMAND_ID, ZCL_EPOCH_S, ZCL_ELAPSED_S, ZCL_DATA_VER, ZCL_DEVTYPE_ID, ZCL_INT24U}
      then Some (VT_UINT32, VT_NULLABLE_UINT32, KU32)
      else if t \<in> {ZCL_INT64S, ZCL_ENERGY_MWH, ZCL_AMPERAGE_MA, ZCL_POWER_MW, ZCL_INT56S, ZCL_INT48S, ZCL_INT40S}
      then Some (VT_INT64, VT_NULLABLE_INT64, KI64)
      else if t \<in> {ZCL_INT64U, ZCL_FABRIC_ID, ZCL_NODE_ID, ZCL_POSIX_MS, ZCL_EPOCH_US, ZCL_SYSTIME_US,
          ZCL_SYSTIME_MS, ZCL_EVENT_NO, ZCL_INT56U, ZCL_INT48U, ZCL_INT40U}
      then Some (VT_UINT64, VT_NULLABLE_UINT64, KU64)
      else if t \<in> {ZCL_ENUM8, ZCL_STATUS, ZCL_PRIORITY} then Some (VT_ENUM8, VT_NULLABLE_ENUM8, KU8)
      else if t = ZCL_ENUM16 then Some (VT_ENUM16, VT_NULLABLE_ENUM16, KU16)
      else if t = ZCL_BITMAP8 then Some (VT_BITMAP8, VT_NULLABLE_BITMAP8, KU8)
      else if t = ZCL_BITMAP16 then Some (VT_BITMAP16, VT_NULLABLE_BITMAP16, KU16)
      else if t = ZCL_BITMAP32 then Some (VT_BITMAP32, VT_NULLABLE_BITMAP32, KU32)
      else if t = ZCL_SINGLE then Some (VT_FLOAT, VT_NULLABLE_FLOAT, KFloat)
      else None)"

definition octet_zcl :: "zcl_type set" where
  "octet_zcl = {ZCL_OCTET_STRING, ZCL_IPADR, ZCL_IPV4ADR, ZCL_IPV6ADR, ZCL_IPV6PRE, ZCL_HWADR}"

text \<open>A string in a raw buffer: a length of one or two bytes, then the bytes.  Whatever the type,
  a null string is read as a null \<open>CHAR_STRING\<close>; a reserved length of an attribute that is not
  nullable leaves the value as it was.\<close>

definition string_from_raw ::
    "nat \<Rightarrow> u16 \<Rightarrow> (u8 list option \<Rightarrow> u16 \<Rightarrow> attr_val) \<Rightarrow> u8 list \<Rightarrow> bool \<Rightarrow> attr_val \<Rightarrow> attr_val option" where
  "string_from_raw header null_count mk buf is_nullable v =
     (if length buf < header then None
      else
        (let data_count = (le_word (take header buf) :: u16) in
         if is_nullable \<and> data_count = null_count then Some (esp_matter_char_str None data_count)
         else if data_count < null_count then Some (mk (Some (drop header buf)) data_count)
         else Some v))"

definition get_attr_val_from_raw_data_buffer ::
    "traits \<Rightarrow> u8 list \<Rightarrow> zcl_type \<Rightarrow> attr_val \<Rightarrow> bool \<Rightarrow> (im_status \<times> attr_val) option" where
  "get_attr_val_from_raw_data_buffer T buf dataType v0 is_nullable = do {
     v \<leftarrow> (if dataType = ZCL_BOOLEAN then
            (case buf of [] \<Rightarrow> None | b # _ \<Rightarrow> Some (esp_matter_bool (b \<noteq> 0)))
          else if dataType = ZCL_CHAR_STRING then string_from_raw 1 0xFF esp_matter_char_str buf is_nullable v0
          else if dataType = ZCL_LONG_CHAR_STRING then
            string_from_raw 2 0xFFFF esp_matter_long_char_str buf is_nullable v0
          else if dataType \<in> octet_zcl then string_from_raw 1 0xFF esp_matter_octet_str buf is_nullable v0
          else if dataType = ZCL_LONG_OCTET_STRING then
            string_from_raw 2 0xFFFF esp_matter_long_octet_str buf is_nullable v0
          else
            (case zcl_number dataType of
               None \<Rightarrow> Some (esp_matter_invalid 0)
             | Some (t, nt, k) \<Rightarrow>
                 if length buf < kind_size k then None
                 else
                   (let w = le_word (take (kind_size k) buf) in
                    if is_nullable then
                      Some (nullable_attr_val T nt k
                              (if tr_is_null T k w then nullable_null T k else nullable_of T k w))
                    else Some (num_attr_val t k w))));
     Some (if av_type v = VT_INVALID then InvalidDataType else Success, v) }"

definition get_ember_attr_type_from_val_type :: "val_type \<Rightarrow> zcl_type" where
  "get_ember_attr_type_from_val_type t =
     (case base_type t of
        VT_BOOLEAN \<Rightarrow> ZCL_BOOLEAN | VT_FLOAT \<Rightarrow> ZCL_SINGLE
      | VT_OCTET_STRING \<Rightarrow> ZCL_OCTET_STRING | VT_CHAR_STRING \<Rightarrow> ZCL_CHAR_STRING
      | VT_LONG_OCTET_STRING \<Rightarrow> ZCL_LONG_OCTET_STRING | VT_LONG_CHAR_STRING \<Rightarrow> ZCL_LONG_CHAR_STRING
      | VT_INT8 \<Rightarrow> ZCL_INT8S | VT_BITMAP8 \<Rightarrow> ZCL_BITMAP8 | VT_ENUM8 \<Rightarrow> ZCL_ENUM8 | VT_UINT8 \<Rightarrow> ZCL_INT8U
      | VT_INT16 \<Rightarrow> ZCL_INT16S | VT_BITMAP16 \<Rightarrow> ZCL_BITMAP16 | VT_ENUM16 \<Rightarrow> ZCL_ENUM16
      | VT_UINT16 \<Rightarrow> ZCL_INT16U | VT_INT32 \<Rightarrow> ZCL_INT32S | VT_BITMAP32 \<Rightarrow> ZCL_BITMAP32
      | VT_UINT32 \<Rightarrow> ZCL_INT32U | VT_INT64 \<Rightarrow> ZCL_INT64S | VT_UINT64 \<Rightarrow> ZCL_INT64U
      | _ \<Rightarrow> ZCL_NO_DATA)"

text \<open>The size of a string is that of its present value; the long strings count one byte for
  their length, as the short ones do.\<close>

definition get_ember_attr_size_from_val :: "attr_val \<Rightarrow> u16" where
  "get_ember_attr_size_from_val v =
     (case wire_kind (av_type v) of
        Some k \<Rightarrow> of_nat (kind_size k)
      | None \<Rightarrow>
          if av_type v \<in> string_types then
            (let s = a_s (v_a (av_val v)) in (if s = null_len (av_type v) then 0 else s) + 1)
          else 0)"

datatype default_value = DV_Word u16 | DV_Ptr "u8 list" | DV_Null

definition get_default_attr_value_from_val :: "attr_val \<Rightarrow> default_value option" where
  "get_default_attr_value_from_val v =
     (case wire_kind (av_type v) of
        None \<Rightarrow> Some DV_Null
      | Some k \<Rightarrow>
          (let w = num_member k (av_val v) in
           if k = KBool \<and> w \<notin> {0, 1} then None
           else if k \<in> {KFloat, KI32, KU32, KI64, KU64} then Some (DV_Ptr (le_bytes (kind_size k) w))
           else Some (DV_Word (of_int (int_of k w)))))"

section \<open>Endpoints with a cluster\<close>

definition first_endpoints :: "'n dm \<Rightarrow> addr list" where
  "first_endpoints s = (case node s of None \<Rightarrow> [] | Some nd \<Rightarrow> nd_endpoints nd)"

primrec endpoint_at :: "u16 \<Rightarrow> u16 \<Rightarrow> addr list \<Rightarrow> handle" where
  "endpoint_at idx index [] = None"
| "endpoint_at idx index (p # ps) = (if idx < index then endpoint_at (idx + 1) index ps else Some p)"

definition get_endpoint_at_index :: "'n dm \<Rightarrow> u16 \<Rightarrow> handle" where
  "get_endpoint_at_index s index = endpoint_at 0 index (first_endpoints s)"

record enabled_endpoints =
  it_index :: u16
  it_count :: u16
  it_cluster :: u32

text \<open>Whether the loop stops at an index: the endpoint there is enabled and has the cluster.\<close>

definition endpoint_matches :: "'n dm \<Rightarrow> u32 \<Rightarrow> u16 \<Rightarrow> bool option" where
  "endpoint_matches s cluster_id index =
     (let ep = get_endpoint_at_index s index in do {
        enabled \<leftarrow> is_enabled s ep;
        if \<not> enabled then Some False
        else do { ch \<leftarrow> cluster_get s ep cluster_id; Some (ch \<noteq> None) } })"

function ensure_matching :: "'n dm \<Rightarrow> u32 \<Rightarrow> u16 \<Rightarrow> u16 \<Rightarrow> u16 option" where
  "ensure_matching s cluster_id count index =
     (if index < count then
        (case endpoint_matches s cluster_id index of
           None \<Rightarrow> None
         | Some True \<Rightarrow> Some index
         | Some False \<Rightarrow> ensure_matching s cluster_id count (index + 1))
      else Some index)"
  by pat_completeness auto
termination
proof (relation "measure (\<lambda>(s, cluster_id, count, index). unat count - unat index)", goal_cases)
  case (2 s cluster_id count index)
  then have less: "unat index < unat count" by (simp add: word_less_nat_alt)
  moreover have "unat count < 2 ^ 16" using unsigned_less[of count] by simp
  ultimately have "unat (index + 1) = unat index + 1" by (simp add: unat_plus_if')
  then show ?case using less by simp
qed simp

declare ensure_matching.simps [simp del]

definition EnsureMatchingEndpoint :: "'n dm \<Rightarrow> enabled_endpoints \<Rightarrow> enabled_endpoints option" where
  "EnsureMatchingEndpoint s it = do {
     i \<leftarrow> ensure_matching s (it_cluster it) (it_count it) (it_index it);
     Some (it\<lparr>it_index := i\<rparr>) }"

definition EnabledEndpointsWithServerCluster :: "'n dm \<Rightarrow> u32 \<Rightarrow> enabled_endpoints option" where
  "EnabledEndpointsWithServerCluster s cluster_id = do {
     n \<leftarrow> endpoint_get_count s (node_get s);
     EnsureMatchingEndpoint s \<lparr>it_index = 0, it_count = n, it_cluster = cluster_id\<rparr> }"

definition enabled_endpoints_current :: "'n dm \<Rightarrow> enabled_endpoints \<Rightarrow> u16 option" where
  "enabled_endpoints_current s it = endpoint_get_id s (get_endpoint_at_index s (it_index it))"

definition enabled_endpoints_next :: "'n dm \<Rightarrow> enabled_endpoints \<Rightarrow> enabled_endpoints option" where
  "enabled_endpoints_next s it = EnsureMatchingEndpoint s (it\<lparr>it_index := it_index it + 1\<rparr>)"

primrec index_before :: "'n dm \<Rightarrow> u16 \<Rightarrow> u32 \<Rightarrow> u16 \<Rightarrow> addr list \<Rightarrow> u16 option" where
  "index_before s endpoint cluster_id ret [] = Some ret"
| "index_before s endpoint cluster_id ret (p # ps) = do {
     i \<leftarrow> endpoint_get_id s (Some p);
     if i = endpoint then Some ret
     else do {
       ch \<leftarrow> cluster_get s (Some p) cluster_id;
       index_before s endpoint cluster_id (if ch \<noteq> None then ret + 1 else ret) ps } }"

definition emberAfGetClusterServerEndpointIndex :: "'n dm \<Rightarrow> u16 \<Rightarrow> u32 \<Rightarrow> u16 option" where
  "emberAfGetClusterServerEndpointIndex s endpoint cluster_id = do {
     ep \<leftarrow> endpoint_get_by_id s endpoint;
     if ep = None then Some 0xFFFF
     else do {
       ch \<leftarrow> cluster_get s ep cluster_id;
       if ch = None then Some 0xFFFF
       else index_before s endpoint cluster_id 0 (first_endpoints s) } }"

definition emberAfIsKnownVolatileAttribute :: "'n dm \<Rightarrow> u16 \<Rightarrow> u32 \<Rightarrow> u32 \<Rightarrow> bool option" where
  "emberAfIsKnownVolatileAttribute s endpoint cluster_id attribute_id = do {
     attr \<leftarrow> attribute_get_by_path s endpoint cluster_id attribute_id;
     if attr = None then Some False
     else do {
       flags \<leftarrow> attribute_get_flags s attr;
       Some (\<not> has_flag flags ATTRIBUTE_FLAG_NONVOLATILE) } }"

definition emberAfContainsServer :: "'n dm \<Rightarrow> u16 \<Rightarrow> u32 \<Rightarrow> bool option" where
  "emberAfContainsServer s endpoint cluster_id = do {
     cluster \<leftarrow> cluster_get_by_id s endpoint cluster_id;
     if cluster = None then Some False
     else do {
       flags \<leftarrow> cluster_get_flags s cluster;
       Some (has_flag flags CLUSTER_FLAG_SERVER) } }"

definition emberAfContainsAttribute :: "'n dm \<Rightarrow> u16 \<Rightarrow> u32 \<Rightarrow> u32 \<Rightarrow> bool option" where
  "emberAfContainsAttribute s endpoint cluster_id attribute_id = do {
     attr \<leftarrow> attribute_get_by_path s endpoint cluster_id attribute_id;
     Some (attr \<noteq> None) }"

section \<open>Metadata, reading and writing\<close>

record metadata =
  md_id :: u32
  md_type :: zcl_type
  md_size :: u16
  md_mask :: u8
  md_minmax :: "(default_value \<times> default_value) option"

text \<open>The metadata is one static variable: a lookup overwrites it and the previous bounds stay when
  the attribute has none.\<close>

definition emberAfLocateAttributeMetadata ::
    "'n dm \<Rightarrow> u16 \<Rightarrow> u32 \<Rightarrow> u32 \<Rightarrow> metadata \<Rightarrow> metadata option option" where
  "emberAfLocateAttributeMetadata s endpoint_id cluster_id attribute_id s_metadata = do {
     attribute \<leftarrow> attribute_get_by_path s endpoint_id cluster_id attribute_id;
     if attribute = None then Some None
     else do {
       (err, vo) \<leftarrow> get_val_internal s attribute;
       (case vo of
          None \<Rightarrow> Some None
        | Some v \<Rightarrow> do {
            flags \<leftarrow> attribute_get_flags s attribute;
            let md = s_metadata\<lparr>md_id := attribute_id, md_type := get_ember_attr_type_from_val_type (av_type v),
                       md_mask := ucast flags, md_size := get_ember_attr_size_from_val v\<rparr>;
            if \<not> has_flag (md_mask md) (ucast ATTRIBUTE_FLAG_MIN_MAX) then Some (Some md)
            else do {
              (err, bo) \<leftarrow> get_bounds s attribute;
              (case bo of
                 None \<Rightarrow> Some (Some md)
               | Some b \<Rightarrow> do {
                   lo \<leftarrow> get_default_attr_value_from_val (b_min b);
                   hi \<leftarrow> get_default_attr_value_from_val (b_max b);
                   Some (Some (md\<lparr>md_minmax := Some (lo, hi)\<rparr>)) }) } }) } }"

definition emberAfReadAttribute ::
    "'n env \<Rightarrow> u16 \<Rightarrow> u32 \<Rightarrow> u32 \<Rightarrow> u8 list option \<Rightarrow> u16 \<Rightarrow> 'n dm \<Rightarrow> (im_status \<times> u8 list option) option" where
  "emberAfReadAttribute E endpointId clusterId attributeId dataPtr readLength s = do {
     endpoint \<leftarrow> endpoint_get_by_id s endpointId;
     if endpoint = None then Some (UnsupportedEndpoint, dataPtr)
     else do {
       cluster \<leftarrow> cluster_get s endpoint clusterId;
       if cluster = None then Some (UnsupportedCluster, dataPtr)
       else do {
         attribute \<leftarrow> attribute_get s cluster attributeId;
         if attribute = None then Some (UnsupportedAttribute, dataPtr)
         else do {
           (err, vo) \<leftarrow> get_val_internal s attribute;
           (case vo of
              None \<Rightarrow> Some (Failure, dataPtr)
            | Some v \<Rightarrow> get_raw_data_buffer_from_attr_val (e_traits E) v dataPtr readLength) } } } }"

text \<open>
  The change callbacks of connectedhomeip: what they answer, and the buffer as they leave it.  The
  repository has the first as a weak symbol that answers \<open>Success\<close>; a cluster may bring the second
  in its function table.
\<close>

type_synonym pre_change = "u16 \<Rightarrow> u32 \<Rightarrow> u32 \<Rightarrow> zcl_type \<Rightarrow> u16 \<Rightarrow> u8 list \<Rightarrow> im_status \<times> u8 list"

record change_env =
  c_pre_change :: pre_change
  c_pre_function :: "fnptr \<Rightarrow> pre_change"

definition MatterPreAttributeChangeCallback :: pre_change where
  "MatterPreAttributeChangeCallback ep cl at t attr_size buf = (Success, buf)"

definition emAfClusterPreAttributeChangedCallback ::
    "change_env \<Rightarrow> u16 \<Rightarrow> u32 \<Rightarrow> u32 \<Rightarrow> handle \<Rightarrow> zcl_type \<Rightarrow> u16 \<Rightarrow> u8 list \<Rightarrow> 'n dm \<Rightarrow>
     (im_status \<times> u8 list \<times> 'n dm) option" where
  "emAfClusterPreAttributeChangedCallback C ep cl at cluster t attr_size buf s = do {
     f \<leftarrow> get_function s cluster CLUSTER_FLAG_PRE_ATTRIBUTE_CHANGED_FUNCTION;
     (case f of
        None \<Rightarrow> Some (Success, buf, s)
      | Some g \<Rightarrow>
          (let (status, buf1) = c_pre_function C g ep cl at t attr_size buf in
           Some (status, buf1, emit (Pre_Attribute_Function g ep cl at buf) s))) }"

datatype mark_dirty = MD_IfChanged | MD_No | MD_Yes

record write_input =
  in_data :: "u8 list"
  in_type :: zcl_type
  in_mark :: mark_dirty

text \<open>Storing the decoded value; \<open>ESP_ERR_NOT_FINISHED\<close> says that it was the stored one.\<close>

definition ember_store ::
    "'n env \<Rightarrow> u16 \<Rightarrow> u32 \<Rightarrow> u32 \<Rightarrow> handle \<Rightarrow> attr_val \<Rightarrow> mark_dirty \<Rightarrow> 'n dm \<Rightarrow> (im_status \<times> 'n dm) option" where
  "ember_store E ep cl at attribute v mark s = do {
     (err, _, s1) \<leftarrow> set_val_internal E attribute (Some v) True s;
     let status = (if err \<noteq> ESP_OK \<and> err \<noteq> ESP_ERR_NOT_FINISHED then Failure else Success);
     Some (status,
           if status = Success \<and> (mark = MD_Yes \<or> err = ESP_OK \<and> mark \<noteq> MD_No)
           then emit (Mark_Dirty ep cl at) s1 else s1) }"

definition emberAfWriteAttribute ::
    "'n env \<Rightarrow> change_env \<Rightarrow> u16 \<Rightarrow> u32 \<Rightarrow> u32 \<Rightarrow> write_input \<Rightarrow> metadata \<Rightarrow> 'n dm \<Rightarrow> (im_status \<times> 'n dm) option" where
  "emberAfWriteAttribute E C ep cl at input s_metadata s = do {
     endpoint \<leftarrow> endpoint_get_by_id s ep;
     if endpoint = None then Some (UnsupportedEndpoint, s)
     else do {
       cluster \<leftarrow> cluster_get s endpoint cl;
       if cluster = None then Some (UnsupportedCluster, s)
       else do {
         attribute \<leftarrow> attribute_get s cluster at;
         if attribute = None then Some (UnsupportedAttribute, s)
         else do {
           metadata \<leftarrow> emberAfLocateAttributeMetadata s ep cl at s_metadata;
           (case metadata of
              None \<Rightarrow> Some (UnsupportedAttribute, s)
            | Some md \<Rightarrow>
                (let (status, buf) = c_pre_change C ep cl at (in_type input) (md_size md) (in_data input);
                     s1 = emit (Pre_Attribute_Change ep cl at (in_data input)) s in
                 if status \<noteq> Success then Some (status, s1)
                 else do {
                   (status, buf, s2) \<leftarrow> emAfClusterPreAttributeChangedCallback C ep cl at cluster (in_type input)
                      (md_size md) buf s1;
                   if status = WriteIgnored then Some (Success, s2)
                   else if status \<noteq> Success then Some (status, s2)
                   else do {
                     flags \<leftarrow> attribute_get_flags s2 attribute;
                     (status, v) \<leftarrow> get_attr_val_from_raw_data_buffer (e_traits E) buf (in_type input)
                        (esp_matter_invalid 0) (has_flag flags ATTRIBUTE_FLAG_NULLABLE);
                     if status \<noteq> Success then Some (status, s2)
                     else do {
                       (status, s3) \<leftarrow> ember_store E ep cl at attribute v (in_mark input) s2;
                       Some (status, emit (Post_Attribute_Change ep cl at buf) s3) } } })) } } } }"

text \<open>The form with a buffer and a type: the reporting engine is told when the value changed.\<close>

definition emberAfWriteAttribute_data ::
    "'n env \<Rightarrow> change_env \<Rightarrow> u16 \<Rightarrow> u32 \<Rightarrow> u32 \<Rightarrow> u8 list \<Rightarrow> zcl_type \<Rightarrow> metadata \<Rightarrow> 'n dm \<Rightarrow> (im_status \<times> 'n dm) option" where
  "emberAfWriteAttribute_data E C ep cl at buf t =
     emberAfWriteAttribute E C ep cl at \<lparr>in_data = buf, in_type = t, in_mark = MD_IfChanged\<rparr>"

end
