(* ===== verification/EM_Provider.thy ===== *)
theory EM_Provider
  imports EM_Ember
begin

text \<open>
  The data model provider: \<open>data_model_provider/esp_matter_data_model_provider.cpp\<close>, the functions of
  namespace \<open>attribute\<close> that go through it, and the dispatch of commands.  The registry of server
  clusters, attribute access interfaces, command handlers and access tables belong to connectedhomeip
  and make up the record \<open>prov\<close>; what they store is not part of the data model.
\<close>

section \<open>Interface to connectedhomeip\<close>

datatype action_status = AS im_status | AE chip_error

definition action_ok :: "action_status \<Rightarrow> bool" where
  "action_ok r \<longleftrightarrow> r = AS Success \<or> r = AE CHIP_NO_ERROR"

datatype privilege = kView | kProxyView | kOperate | kManage | kAdminister

type_synonym access_table = "(u32 \<times> u32 \<times> privilege) list"

text \<open>
  A read gives a status and the element that was encoded, if one was; \<open>p_aai_read\<close> and
  \<open>p_aai_write\<close> say in addition whether the interface tried to encode or decode.  \<open>p_context\<close> holds
  once \<open>Startup\<close> has run.
\<close>

record 't prov =
  p_tlv :: "'t tlv_api"
  p_context :: bool
  p_registered :: "u16 \<Rightarrow> u32 \<Rightarrow> bool"
  p_cluster_read :: "u16 \<Rightarrow> u32 \<Rightarrow> u32 \<Rightarrow> action_status \<times> 't option"
  p_cluster_write :: "u16 \<Rightarrow> u32 \<Rightarrow> u32 \<Rightarrow> 't \<Rightarrow> action_status"
  p_cluster_invoke :: "u16 \<Rightarrow> u32 \<Rightarrow> u32 \<Rightarrow> 't \<Rightarrow> action_status option"
  p_cluster_flags :: "u16 \<Rightarrow> u32 \<Rightarrow> u8"
  p_cluster_version :: "u16 \<Rightarrow> u32 \<Rightarrow> u32"
  p_cluster_event :: "u16 \<Rightarrow> u32 \<Rightarrow> u32 \<Rightarrow> chip_error \<times> privilege option"
  p_aai :: "u16 \<Rightarrow> u32 \<Rightarrow> bool"
  p_aai_read :: "u16 \<Rightarrow> u32 \<Rightarrow> u32 \<Rightarrow> chip_error \<times> bool \<times> 't option"
  p_aai_write :: "u16 \<Rightarrow> u32 \<Rightarrow> u32 \<Rightarrow> 't \<Rightarrow> chip_error \<times> bool"
  p_handler :: "u16 \<Rightarrow> u32 \<Rightarrow> bool"
  p_handler_invoke :: "u16 \<Rightarrow> u32 \<Rightarrow> u32 \<Rightarrow> 't \<Rightarrow> bool"
  p_command_cb :: "fnptr \<Rightarrow> u16 \<Rightarrow> u32 \<Rightarrow> u32 \<Rightarrow> 't \<Rightarrow> esp_err"
  p_read_attribute_table :: access_table
  p_write_attribute_table :: access_table
  p_invoke_command_table :: access_table
  p_read_event_table :: access_table
  p_fabric_scoped :: "u32 \<Rightarrow> u32 \<Rightarrow> bool"
  p_timed_invoke :: "u32 \<Rightarrow> u32 \<Rightarrow> bool"
  p_large_payload :: "u32 \<Rightarrow> u32 \<Rightarrow> bool"

text \<open>A list builder: reserving room and appending an entry, both of which may fail.\<close>

record ('x, 'b) builder_api =
  b_reserve :: "nat \<Rightarrow> 'b \<Rightarrow> chip_error + 'b"
  b_append :: "'x \<Rightarrow> 'b \<Rightarrow> chip_error + 'b"

section \<open>Buffers\<close>

text \<open>The string cases copy no more than fits into the buffer.\<close>

definition build_string :: "val_type \<Rightarrow> arr \<Rightarrow> nat \<Rightarrow> u8 list option" where
  "build_string t a bufferSize =
     (let len = (if short_string t then ucast (ucast (a_s a) :: u8) else a_s a);
          header = (if short_string t then 1 else 2);
          copy_len = min (unat len) (bufferSize - header) in
      if len = null_len t then Some (le_bytes header len)
      else if length (buf_bytes (a_b a)) < copy_len then None
      else Some (le_bytes header len @ take copy_len (buf_bytes (a_b a))))"

definition BuildEmberBufferFromAttrVal ::
    "traits \<Rightarrow> attr_val \<Rightarrow> u8 list option \<Rightarrow> u16 \<Rightarrow> (im_status \<times> u8 list option) option" where
  "BuildEmberBufferFromAttrVal T v dataPtr bufferSize =
     (case wire_kind (av_type v) of
        Some k \<Rightarrow>
          (case dataPtr of
             None \<Rightarrow> Some (ResourceExhausted, dataPtr)
           | Some buf \<Rightarrow>
               if unat bufferSize < kind_size k then Some (ResourceExhausted, dataPtr)
               else do {
                 bs \<leftarrow> storage_bytes T (av_type v) k (num_member k (av_val v));
                 buf1 \<leftarrow> put_bytes bs buf;
                 Some (Success, Some buf1) })
      | None \<Rightarrow>
          if av_type v \<notin> string_types then Some (InvalidDataType, dataPtr)
          else
            (case dataPtr of
               None \<Rightarrow> Some (ResourceExhausted, dataPtr)
             | Some buf \<Rightarrow>
                 if bufferSize < a_t (v_a (av_val v)) then Some (ResourceExhausted, dataPtr)
                 else if unat bufferSize < (if short_string (av_type v) then 1 else 2)
                 then Some (ResourceExhausted, dataPtr)
                 else do {
                   bs \<leftarrow> build_string (av_type v) (v_a (av_val v)) (unat bufferSize);
                   buf1 \<leftarrow> put_bytes bs buf;
                   Some (Success, Some buf1) }))"

section \<open>Paths and privileges\<close>

primrec privilege_for :: "access_table \<Rightarrow> privilege \<Rightarrow> u32 \<Rightarrow> u32 \<Rightarrow> privilege" where
  "privilege_for [] d cluster item = d"
| "privilege_for (row # rows) d cluster item =
     (case row of (c, i, p) \<Rightarrow> if c = cluster \<and> i = item then p else privilege_for rows d cluster item)"

definition MatterGetAccessPrivilegeForReadAttribute :: "'t prov \<Rightarrow> u32 \<Rightarrow> u32 \<Rightarrow> privilege" where
  "MatterGetAccessPrivilegeForReadAttribute P = privilege_for (p_read_attribute_table P) kView"

definition MatterGetAccessPrivilegeForWriteAttribute :: "'t prov \<Rightarrow> u32 \<Rightarrow> u32 \<Rightarrow> privilege" where
  "MatterGetAccessPrivilegeForWriteAttribute P = privilege_for (p_write_attribute_table P) kOperate"

definition MatterGetAccessPrivilegeForInvokeCommand :: "'t prov \<Rightarrow> u32 \<Rightarrow> u32 \<Rightarrow> privilege" where
  "MatterGetAccessPrivilegeForInvokeCommand P = privilege_for (p_invoke_command_table P) kOperate"

definition MatterGetAccessPrivilegeForReadEvent :: "'t prov \<Rightarrow> u32 \<Rightarrow> u32 \<Rightarrow> privilege" where
  "MatterGetAccessPrivilegeForReadEvent P = privilege_for (p_read_event_table P) kView"

definition check_endpoint_path :: "'n dm \<Rightarrow> u16 \<Rightarrow> im_status option" where
  "check_endpoint_path s ep = do {
     endpoint \<leftarrow> endpoint_get_by_id s ep;
     Some (if endpoint = None then UnsupportedEndpoint else Success) }"

definition check_cluster_path :: "'n dm \<Rightarrow> u16 \<Rightarrow> u32 \<Rightarrow> im_status option" where
  "check_cluster_path s ep cl = do {
     endpoint \<leftarrow> endpoint_get_by_id s ep;
     if endpoint = None then Some UnsupportedEndpoint
     else do {
       cluster \<leftarrow> cluster_get_by_id s ep cl;
       Some (if cluster = None then UnsupportedCluster else Success) } }"

text \<open>The three checks with a part of a cluster differ in the lookup and in the last status.\<close>

definition check_item_path ::
    "('n dm \<Rightarrow> handle \<Rightarrow> handle option) \<Rightarrow> im_status \<Rightarrow> 'n dm \<Rightarrow> u16 \<Rightarrow> u32 \<Rightarrow> im_status option" where
  "check_item_path look missing s ep cl = do {
     endpoint \<leftarrow> endpoint_get_by_id s ep;
     if endpoint = None then Some UnsupportedEndpoint
     else do {
       cluster \<leftarrow> cluster_get s endpoint cl;
       if cluster = None then Some UnsupportedCluster
       else do {
         item \<leftarrow> look s cluster;
         Some (if item = None then missing else Success) } } }"

definition check_attribute_path :: "'n dm \<Rightarrow> u16 \<Rightarrow> u32 \<Rightarrow> u32 \<Rightarrow> im_status option" where
  "check_attribute_path s ep cl at =
     check_item_path (\<lambda>s ch. attribute_get s ch at) UnsupportedAttribute s ep cl"

definition check_event_path :: "'n dm \<Rightarrow> u16 \<Rightarrow> u32 \<Rightarrow> u32 \<Rightarrow> im_status option" where
  "check_event_path s ep cl ev =
     check_item_path (\<lambda>s ch. event_get s ch ev) UnsupportedEvent s ep cl"

definition check_command_path :: "'n dm \<Rightarrow> u16 \<Rightarrow> u32 \<Rightarrow> u32 \<Rightarrow> im_status option" where
  "check_command_path s ep cl cm =
     check_item_path (\<lambda>s ch. command_get s ch cm (COMMAND_FLAG_ACCEPTED OR COMMAND_FLAG_GENERATED))
       UnsupportedCommand s ep cl"

section \<open>Reading and writing attributes\<close>

record request =
  rq_ep :: u16
  rq_cl :: u32
  rq_at :: u32
  rq_expanded :: bool
  rq_version :: "u32 option"

text \<open>No result means that the value is to be taken from the data model.\<close>

definition TryReadViaAccessInterface :: "'t prov \<Rightarrow> request \<Rightarrow> (chip_error \<times> 't option) option" where
  "TryReadViaAccessInterface P rq =
     (if \<not> p_aai P (rq_ep rq) (rq_cl rq) then None
      else
        (let (err, tried, e) = p_aai_read P (rq_ep rq) (rq_cl rq) (rq_at rq) in
         if err \<noteq> CHIP_NO_ERROR then
           if rq_expanded rq \<and> err = IM_GLOBAL_STATUS UnsupportedRead then Some (CHIP_NO_ERROR, e)
           else Some (err, e)
         else if tried then Some (CHIP_NO_ERROR, e)
         else None))"

definition TryWriteViaAccessInterface :: "'t prov \<Rightarrow> request \<Rightarrow> 't \<Rightarrow> chip_error option" where
  "TryWriteViaAccessInterface P rq e =
     (if \<not> p_aai P (rq_ep rq) (rq_cl rq) then None
      else
        (let (err, tried) = p_aai_write P (rq_ep rq) (rq_cl rq) (rq_at rq) e in
         if err \<noteq> CHIP_NO_ERROR then Some err
         else if tried then Some CHIP_NO_ERROR
         else None))"

definition ReadAttribute :: "'n env \<Rightarrow> 't prov \<Rightarrow> request \<Rightarrow> 'n dm \<Rightarrow> (action_status \<times> 't option) option" where
  "ReadAttribute E P rq s =
     (if p_registered P (rq_ep rq) (rq_cl rq) then Some (p_cluster_read P (rq_ep rq) (rq_cl rq) (rq_at rq))
      else do {
        status \<leftarrow> check_attribute_path s (rq_ep rq) (rq_cl rq) (rq_at rq);
        if status \<noteq> Success then Some (AE (IM_GLOBAL_STATUS status), None)
        else do {
          attribute \<leftarrow> attribute_get_by_path s (rq_ep rq) (rq_cl rq) (rq_at rq);
          (case TryReadViaAccessInterface P rq of
             Some (err, e) \<Rightarrow> Some (AE err, e)
           | None \<Rightarrow> do {
               (_, vo) \<leftarrow> get_val_internal s attribute;
               (case vo of
                  None \<Rightarrow> Some (AS Failure, None)
                | Some v \<Rightarrow> do {
                    r \<leftarrow> encode (p_tlv P) (e_traits E) v;
                    Some (case r of Inl err \<Rightarrow> (AE err, None) | Inr e \<Rightarrow> (AE CHIP_NO_ERROR, Some e)) }) }) } })"

text \<open>The end of a successful write: the data version grows, the path is marked and the
  application is called.  The listener is reached through the context of \<open>Startup\<close>.\<close>

definition post_write :: "'n env \<Rightarrow> request \<Rightarrow> attr_val \<Rightarrow> 'n dm \<Rightarrow> 'n dm option" where
  "post_write E rq new_val s = do {
     (_, _, s1) \<leftarrow> execute_callback E POST_UPDATE (rq_ep rq) (rq_cl rq) (rq_at rq) new_val s;
     Some s1 }"

definition written :: "'n env \<Rightarrow> 't prov \<Rightarrow> request \<Rightarrow> attr_val \<Rightarrow> handle \<Rightarrow> 'n dm \<Rightarrow> 'n dm option" where
  "written E P rq new_val cluster s = do {
     (_, s1) \<leftarrow> increase_data_version cluster s;
     if \<not> p_context P then None
     else post_write E rq new_val (emit (Mark_Dirty (rq_ep rq) (rq_cl rq) (rq_at rq)) s1) }"

text \<open>The value in the data model is written through the ember interface, with a buffer of the size
  the metadata gives.\<close>

definition write_stored ::
    "'n env \<Rightarrow> 't prov \<Rightarrow> change_env \<Rightarrow> metadata \<Rightarrow> request \<Rightarrow> 't \<Rightarrow> handle \<Rightarrow> attr_val \<Rightarrow> handle \<Rightarrow> 'n dm \<Rightarrow>
     (action_status \<times> 'n dm) option" where
  "write_stored E P C s_metadata rq e attribute new_val cluster s = do {
     metadata \<leftarrow> emberAfLocateAttributeMetadata s (rq_ep rq) (rq_cl rq) (rq_at rq) s_metadata;
     (case metadata of
        None \<Rightarrow> Some (AS Failure, s)
      | Some md \<Rightarrow> do {
          (_, vo) \<leftarrow> get_val_internal s attribute;
          (case vo of
             None \<Rightarrow> Some (AS Failure, s)
           | Some v \<Rightarrow>
               (let (err, decoded, m1) = decode (p_tlv P) (e_traits E) (av_type v) e (mem s);
                    s1 = s\<lparr>mem := m1\<rparr> in
                if err \<noteq> CHIP_NO_ERROR then Some (AE err, s1)
                else do {
                  (status, buf) \<leftarrow> BuildEmberBufferFromAttrVal (e_traits E) decoded
                     (Some (replicate (unat (md_size md)) 0)) (md_size md);
                  if status \<noteq> Success then Some (AS status, s1)
                  else if \<not> p_context P then None
                  else do {
                    (status, s2) \<leftarrow> emberAfWriteAttribute E C (rq_ep rq) (rq_cl rq) (rq_at rq)
                       \<lparr>in_data = buf_bytes buf, in_type = md_type md, in_mark = MD_IfChanged\<rparr> md s1;
                    if status \<noteq> Success then Some (AS status, s2)
                    else do {
                      s3 \<leftarrow> written E P rq new_val cluster s2;
                      Some (AS Success, s3) } } })) }) }"

definition version_matches :: "'n dm \<Rightarrow> handle \<Rightarrow> u32 option \<Rightarrow> bool option" where
  "version_matches s cluster version =
     (case version of
        None \<Rightarrow> Some True
      | Some w \<Rightarrow> do { (err, data_version) \<leftarrow> get_data_version s cluster; Some (data_version = Some w) })"

text \<open>What follows the registry of server clusters.\<close>

definition write_data_model ::
    "'n env \<Rightarrow> 't prov \<Rightarrow> change_env \<Rightarrow> metadata \<Rightarrow> request \<Rightarrow> 't \<Rightarrow> handle \<Rightarrow> attr_val \<Rightarrow> 'n dm \<Rightarrow>
     (action_status \<times> 'n dm) option" where
  "write_data_model E P C s_metadata rq e attribute new_val s = do {
     status \<leftarrow> check_attribute_path s (rq_ep rq) (rq_cl rq) (rq_at rq);
     if status \<noteq> Success then Some (AE (IM_GLOBAL_STATUS status), s)
     else do {
       cluster \<leftarrow> cluster_get_by_id s (rq_ep rq) (rq_cl rq);
       same \<leftarrow> version_matches s cluster (rq_version rq);
       if \<not> same then Some (AS DataVersionMismatch, s)
       else
         (case TryWriteViaAccessInterface P rq e of
            Some err \<Rightarrow>
              if err = CHIP_NO_ERROR then do {
                s1 \<leftarrow> written E P rq new_val cluster s;
                Some (AE err, s1) }
              else Some (AE err, s)
          | None \<Rightarrow> write_stored E P C s_metadata rq e attribute new_val cluster s) } }"

definition WriteAttribute ::
    "'n env \<Rightarrow> 't prov \<Rightarrow> change_env \<Rightarrow> metadata \<Rightarrow> request \<Rightarrow> 't \<Rightarrow> 'n dm \<Rightarrow> (action_status \<times> 'n dm) option" where
  "WriteAttribute E P C s_metadata rq e s = do {
     attribute \<leftarrow> attribute_get_by_path s (rq_ep rq) (rq_cl rq) (rq_at rq);
     if attribute = None then Some (AS UnsupportedAttribute, s)
     else do {
       current_val_type \<leftarrow> get_val_type s attribute;
       let (err, decoded, m1) = decode (p_tlv P) (e_traits E) current_val_type e (mem s);
       let s1 = s\<lparr>mem := m1\<rparr>;
       (veto, new_val, s2) \<leftarrow>
         (if err = CHIP_NO_ERROR
          then execute_callback E PRE_UPDATE (rq_ep rq) (rq_cl rq) (rq_at rq) decoded s1
          else Some (ESP_OK, esp_matter_invalid 0, s1));
       if veto \<noteq> ESP_OK then Some (AS Failure, s2)
       else if p_registered P (rq_ep rq) (rq_cl rq) then
         (let ret = p_cluster_write P (rq_ep rq) (rq_cl rq) (rq_at rq) e in
          if action_ok ret then do { s3 \<leftarrow> post_write E rq new_val s2; Some (ret, s3) }
          else Some (ret, s2))
       else write_data_model E P C s_metadata rq e attribute new_val s2 } }"

section \<open>Listing the data model\<close>

text \<open>The loops of the listings: an entry is skipped, appended, or ends the loop with an error.\<close>

primrec append_each ::
    "('x, 'b) builder_api \<Rightarrow> ('a \<Rightarrow> (chip_error + 'x option) option) \<Rightarrow> 'a list \<Rightarrow> 'b \<Rightarrow> (chip_error \<times> 'b) option" where
  "append_each B entry [] b = Some (CHIP_NO_ERROR, b)"
| "append_each B entry (a # as) b = do {
     r \<leftarrow> entry a;
     (case r of
        Inl err \<Rightarrow> Some (err, b)
      | Inr None \<Rightarrow> append_each B entry as b
      | Inr (Some x) \<Rightarrow>
          (case b_append B x b of
             Inl err \<Rightarrow> Some (err, b)
           | Inr b1 \<Rightarrow> append_each B entry as b1)) }"

definition reserve_and_append ::
    "('x, 'b) builder_api \<Rightarrow> nat \<Rightarrow> ('a \<Rightarrow> (chip_error + 'x option) option) \<Rightarrow> 'a list \<Rightarrow> 'b \<Rightarrow> (chip_error \<times> 'b) option" where
  "reserve_and_append B count entry as b =
     (case b_reserve B count b of
        Inl err \<Rightarrow> Some (err, b)
      | Inr b1 \<Rightarrow> append_each B entry as b1)"

record endpoint_entry =
  ee_id :: u16
  ee_parent :: u16
  ee_pattern :: composition_pattern

definition endpoint_entry_of :: "'n dm \<Rightarrow> addr \<Rightarrow> (chip_error + endpoint_entry option) option" where
  "endpoint_entry_of s p = do {
     enabled \<leftarrow> is_enabled s (Some p);
     if \<not> enabled then Some (Inr None)
     else do {
       i \<leftarrow> endpoint_get_id s (Some p);
       parent \<leftarrow> get_parent_endpoint_id s (Some p);
       pattern \<leftarrow> get_composition_pattern s (Some p);
       Some (Inr (Some \<lparr>ee_id = i, ee_parent = parent, ee_pattern = pattern\<rparr>)) } }"

definition Endpoints :: "(endpoint_entry, 'b) builder_api \<Rightarrow> 'n dm \<Rightarrow> 'b \<Rightarrow> (chip_error \<times> 'b) option" where
  "Endpoints B s b = do {
     ep_count \<leftarrow> endpoint_get_count s (node_get s);
     reserve_and_append B (unat ep_count) (endpoint_entry_of s) (first_endpoints s) b }"

definition DeviceTypes :: "(u32 \<times> u8, 'b) builder_api \<Rightarrow> u16 \<Rightarrow> 'n dm \<Rightarrow> 'b \<Rightarrow> (chip_error \<times> 'b) option" where
  "DeviceTypes B endpointId s b = do {
     status \<leftarrow> check_endpoint_path s endpointId;
     if status \<noteq> Success then Some (IM_GLOBAL_STATUS status, b)
     else do {
       ep \<leftarrow> endpoint_get_by_id s endpointId;
       count \<leftarrow> get_device_type_count s ep;
       reserve_and_append B count
         (\<lambda>idx. do {
            r \<leftarrow> get_device_type_at_index s ep idx;
            Some (case r of Inl _ \<Rightarrow> Inl CHIP_ERROR_INTERNAL | Inr x \<Rightarrow> Inr (Some x)) })
         [0..<count] b } }"

definition clusters_of :: "'n dm \<Rightarrow> handle \<Rightarrow> addr list option" where
  "clusters_of s eh = (case eh of None \<Rightarrow> Some [] | Some p \<Rightarrow> do { e \<leftarrow> eps s p; Some (ep_clusters e) })"

definition client_cluster_entry :: "'n dm \<Rightarrow> addr \<Rightarrow> (chip_error + u32 option) option" where
  "client_cluster_entry s c = do {
     flags \<leftarrow> cluster_get_flags s (Some c);
     i \<leftarrow> cluster_get_id s (Some c);
     Some (Inr (if has_flag flags CLUSTER_FLAG_CLIENT then Some i else None)) }"

definition ClientClusters :: "(u32, 'b) builder_api \<Rightarrow> u16 \<Rightarrow> 'n dm \<Rightarrow> 'b \<Rightarrow> (chip_error \<times> 'b) option" where
  "ClientClusters B endpointId s b = do {
     status \<leftarrow> check_endpoint_path s endpointId;
     if status \<noteq> Success then Some (IM_GLOBAL_STATUS status, b)
     else do {
       ep \<leftarrow> endpoint_get_by_id s endpointId;
       count \<leftarrow> get_cluster_count s (ucast endpointId) kInvalidClusterId CLUSTER_FLAG_CLIENT;
       cs \<leftarrow> clusters_of s ep;
       reserve_and_append B (unat count) (client_cluster_entry s) cs b } }"

record server_cluster_entry =
  se_id :: u32
  se_version :: u32
  se_flags :: u8

definition server_cluster_entry_of ::
    "'t prov \<Rightarrow> u16 \<Rightarrow> 'n dm \<Rightarrow> addr \<Rightarrow> (chip_error + server_cluster_entry option) option" where
  "server_cluster_entry_of P endpointId s c = do {
     flags \<leftarrow> cluster_get_flags s (Some c);
     if \<not> has_flag flags CLUSTER_FLAG_SERVER then Some (Inr None)
     else do {
       i \<leftarrow> cluster_get_id s (Some c);
       if p_registered P endpointId i then
         Some (Inr (Some \<lparr>se_id = i, se_version = p_cluster_version P endpointId i,
                          se_flags = p_cluster_flags P endpointId i\<rparr>))
       else do {
         (_, version) \<leftarrow> get_data_version s (Some c);
         Some (case version of
                 None \<Rightarrow> Inl CHIP_ERROR_INTERNAL
               | Some w \<Rightarrow> Inr (Some \<lparr>se_id = i, se_version = w, se_flags = 0\<rparr>)) } } }"

definition ServerClusters ::
    "'t prov \<Rightarrow> (server_cluster_entry, 'b) builder_api \<Rightarrow> u16 \<Rightarrow> 'n dm \<Rightarrow> 'b \<Rightarrow> (chip_error \<times> 'b) option" where
  "ServerClusters P B endpointId s b = do {
     status \<leftarrow> check_endpoint_path s endpointId;
     if status \<noteq> Success then Some (IM_GLOBAL_STATUS status, b)
     else do {
       ep \<leftarrow> endpoint_get_by_id s endpointId;
       count \<leftarrow> get_cluster_count s (ucast endpointId) kInvalidClusterId CLUSTER_FLAG_SERVER;
       cs \<leftarrow> clusters_of s ep;
       reserve_and_append B (unat count) (server_cluster_entry_of P endpointId s) cs b } }"

definition EventInfo :: "'t prov \<Rightarrow> u16 \<Rightarrow> u32 \<Rightarrow> u32 \<Rightarrow> chip_error \<times> privilege option" where
  "EventInfo P ep cl ev =
     (if p_registered P ep cl then p_cluster_event P ep cl ev
      else (CHIP_NO_ERROR, Some (MatterGetAccessPrivilegeForReadEvent P cl ev)))"

primrec count_flagged :: "'n dm \<Rightarrow> u16 \<Rightarrow> addr list \<Rightarrow> nat option" where
  "count_flagged s flag [] = Some 0"
| "count_flagged s flag (a # as) = do {
     flags \<leftarrow> command_get_flags s (Some a);
     n \<leftarrow> count_flagged s flag as;
     Some (if has_flag flags flag then Suc n else n) }"

definition commands_of :: "'n dm \<Rightarrow> handle \<Rightarrow> addr list option" where
  "commands_of s ch = (case ch of None \<Rightarrow> Some [] | Some c \<Rightarrow> do { cl \<leftarrow> cls s c; Some (cl_commands cl) })"

definition get_command_count :: "'n dm \<Rightarrow> handle \<Rightarrow> u8 \<Rightarrow> nat option" where
  "get_command_count s cluster flag = do { as \<leftarrow> commands_of s cluster; count_flagged s (ucast flag) as }"

definition generated_entry :: "'n dm \<Rightarrow> addr \<Rightarrow> (chip_error + u32 option) option" where
  "generated_entry s a = do {
     flags \<leftarrow> command_get_flags s (Some a);
     i \<leftarrow> command_get_id s (Some a);
     Some (Inr (if has_flag flags COMMAND_FLAG_GENERATED then Some i else None)) }"

text \<open>\<open>reg\<close> is what the registered server cluster does with the builder, if there is one.\<close>

definition GeneratedCommands ::
    "('b \<Rightarrow> chip_error \<times> 'b) option \<Rightarrow> (u32, 'b) builder_api \<Rightarrow> u16 \<Rightarrow> u32 \<Rightarrow> 'n dm \<Rightarrow> 'b \<Rightarrow>
     (chip_error \<times> 'b) option" where
  "GeneratedCommands reg B ep cl s b =
     (case reg of
        Some f \<Rightarrow> Some (f b)
      | None \<Rightarrow> do {
          status \<leftarrow> check_cluster_path s ep cl;
          if status \<noteq> Success then Some (IM_GLOBAL_STATUS status, b)
          else do {
            cluster \<leftarrow> cluster_get_by_id s ep cl;
            count \<leftarrow> get_command_count s cluster (ucast COMMAND_FLAG_GENERATED);
            as \<leftarrow> commands_of s cluster;
            reserve_and_append B count (generated_entry s) as b } })"

record accepted_entry =
  ac_id :: u32
  ac_fabric_scoped :: bool
  ac_timed :: bool
  ac_large :: bool
  ac_privilege :: privilege

definition accepted_entry_of ::
    "'t prov \<Rightarrow> u32 \<Rightarrow> 'n dm \<Rightarrow> addr \<Rightarrow> (chip_error + accepted_entry option) option" where
  "accepted_entry_of P cl s a = do {
     flags \<leftarrow> command_get_flags s (Some a);
     i \<leftarrow> command_get_id s (Some a);
     Some (Inr (if has_flag flags COMMAND_FLAG_ACCEPTED
       then Some \<lparr>ac_id = i, ac_fabric_scoped = p_fabric_scoped P cl i, ac_timed = p_timed_invoke P cl i,
                  ac_large = p_large_payload P cl i,
                  ac_privilege = MatterGetAccessPrivilegeForInvokeCommand P cl i\<rparr>
       else None)) }"

definition AcceptedCommands ::
    "('b \<Rightarrow> chip_error \<times> 'b) option \<Rightarrow> ('b \<Rightarrow> chip_error \<times> 'b) option \<Rightarrow> 't prov \<Rightarrow>
     (accepted_entry, 'b) builder_api \<Rightarrow> u16 \<Rightarrow> u32 \<Rightarrow> 'n dm \<Rightarrow> 'b \<Rightarrow> (chip_error \<times> 'b) option" where
  "AcceptedCommands reg interface P B ep cl s b =
     (case reg of
        Some f \<Rightarrow> Some (f b)
      | None \<Rightarrow> do {
          status \<leftarrow> check_cluster_path s ep cl;
          if status \<noteq> Success then Some (IM_GLOBAL_STATUS status, b)
          else
            (let (err, b1) = (case interface of None \<Rightarrow> (CHIP_ERROR_NOT_IMPLEMENTED, b) | Some f \<Rightarrow> f b) in
             if err \<noteq> CHIP_ERROR_NOT_IMPLEMENTED then Some (err, b1)
             else do {
               cluster \<leftarrow> cluster_get_by_id s ep cl;
               count \<leftarrow> get_command_count s cluster (ucast COMMAND_FLAG_ACCEPTED);
               as \<leftarrow> commands_of s cluster;
               reserve_and_append B count (accepted_entry_of P cl s) as b1 }) })"

definition k_global_attributes_not_in_metadata :: "u32 list" where
  "k_global_attributes_not_in_metadata = [0xFFFB, 0xFFF9, 0xFFF8]"

record attribute_entry =
  ae_id :: u32
  ae_timed :: bool
  ae_read :: privilege
  ae_write :: "privilege option"

definition attribute_entry_of ::
    "'t prov \<Rightarrow> u32 \<Rightarrow> 'n dm \<Rightarrow> addr \<Rightarrow> (chip_error + attribute_entry option) option" where
  "attribute_entry_of P cl s a = do {
     i \<leftarrow> attribute_get_id s (Some a);
     flags \<leftarrow> attribute_get_flags s (Some a);
     Some (Inr (Some \<lparr>ae_id = i, ae_timed = has_flag flags ATTRIBUTE_FLAG_MUST_USE_TIMED_WRITE,
       ae_read = MatterGetAccessPrivilegeForReadAttribute P cl i,
       ae_write = (if has_flag flags ATTRIBUTE_FLAG_WRITABLE
                   then Some (MatterGetAccessPrivilegeForWriteAttribute P cl i) else None)\<rparr>)) }"

definition global_entry :: "u32 \<Rightarrow> attribute_entry" where
  "global_entry i = \<lparr>ae_id = i, ae_timed = False, ae_read = kView, ae_write = None\<rparr>"

definition get_attribute_count :: "'n dm \<Rightarrow> handle \<Rightarrow> nat option" where
  "get_attribute_count s cluster =
     (case cluster of None \<Rightarrow> Some 0 | Some c \<Rightarrow> do { cl \<leftarrow> cls s c; Some (length (cl_attributes cl)) })"

definition Attributes ::
    "('b \<Rightarrow> chip_error \<times> 'b) option \<Rightarrow> 't prov \<Rightarrow> (attribute_entry, 'b) builder_api \<Rightarrow> u16 \<Rightarrow> u32 \<Rightarrow> 'n dm \<Rightarrow>
     'b \<Rightarrow> (chip_error \<times> 'b) option" where
  "Attributes reg P B ep cl s b =
     (case reg of
        Some f \<Rightarrow> Some (f b)
      | None \<Rightarrow> do {
          status \<leftarrow> check_cluster_path s ep cl;
          if status \<noteq> Success then Some (IM_GLOBAL_STATUS status, b)
          else do {
            cluster \<leftarrow> cluster_get_by_id s ep cl;
            count \<leftarrow> get_attribute_count s cluster;
            as \<leftarrow> (case cluster of None \<Rightarrow> Some [] | Some c \<Rightarrow> map_option cl_attributes (cls s c));
            (err, b1) \<leftarrow> reserve_and_append B (count + length k_global_attributes_not_in_metadata)
               (attribute_entry_of P cl s) as b;
            if err \<noteq> CHIP_NO_ERROR then Some (err, b1)
            else append_each B (\<lambda>i. Some (Inr (Some (global_entry i)))) k_global_attributes_not_in_metadata b1 } })"

section \<open>Commands\<close>

text \<open>The callback of the application comes first and may keep the default callback from running;
  a custom command is answered here.  \<open>handler\<close> says whether there is a command handler.\<close>

definition dispatch_single_cluster_command ::
    "'t prov \<Rightarrow> u16 \<Rightarrow> u32 \<Rightarrow> u32 \<Rightarrow> 't \<Rightarrow> bool \<Rightarrow> 'n dm \<Rightarrow> 'n dm option" where
  "dispatch_single_cluster_command P ep cl cm e handler s = do {
     cluster \<leftarrow> cluster_get_by_id s ep cl;
     command \<leftarrow> command_get s cluster cm COMMAND_FLAG_ACCEPTED;
     if cluster = None \<or> command = None then Some s
     else do {
       user_callback \<leftarrow> command_get_user_callback s command;
       callback \<leftarrow> command_get_callback s command;
       flags \<leftarrow> command_get_flags s command;
       let (err, s1) = (case user_callback of None \<Rightarrow> (ESP_OK, s)
         | Some f \<Rightarrow> (p_command_cb P f ep cl cm e, emit (Command_User_Callback f ep cl cm) s));
       let (err, s2) = (case callback of None \<Rightarrow> (err, s1)
         | Some f \<Rightarrow> if err = ESP_OK then (p_command_cb P f ep cl cm e, emit (Command_Callback f ep cl cm) s1)
                   else (err, s1));
       Some (if has_flag flags COMMAND_FLAG_CUSTOM \<and> handler
             then emit (Command_Status ep cl cm (err = ESP_OK)) s2 else s2) } }"

definition InvokeCommand ::
    "'t prov \<Rightarrow> u16 \<Rightarrow> u32 \<Rightarrow> u32 \<Rightarrow> 't \<Rightarrow> bool \<Rightarrow> 'n dm \<Rightarrow> (action_status option \<times> 'n dm) option" where
  "InvokeCommand P ep cl cm e handler s =
     (if p_registered P ep cl then Some (p_cluster_invoke P ep cl cm e, s)
      else do {
        status \<leftarrow> check_command_path s ep cl cm;
        if status \<noteq> Success then Some (Some (AE (IM_GLOBAL_STATUS status)), s)
        else if p_handler P ep cl \<and> p_handler_invoke P ep cl cm e then Some (None, s)
        else do {
          s1 \<leftarrow> dispatch_single_cluster_command P ep cl cm e handler s;
          Some (None, s1) } })"

section \<open>Start and reports\<close>

primrec init_endpoints :: "'n env \<Rightarrow> addr list \<Rightarrow> 'n dm \<Rightarrow> 'n dm option" where
  "init_endpoints E [] s = Some s"
| "init_endpoints E (p # ps) s = do {
     s1 \<leftarrow> invoke_init_callbacks_internal E (Some p) s;
     init_endpoints E ps s1 }"

text \<open>\<open>base\<close> and \<open>persistence\<close> are the results of the calls into connectedhomeip that come first;
  \<open>registry\<close> is that of the registry at the end.\<close>

definition Startup ::
    "'n env \<Rightarrow> chip_error \<Rightarrow> chip_error \<Rightarrow> chip_error \<Rightarrow> 't prov \<Rightarrow> 'n dm \<Rightarrow> (chip_error \<times> 't prov \<times> 'n dm) option" where
  "Startup E base persistence registry P s =
     (if base \<noteq> CHIP_NO_ERROR then Some (base, P, s)
      else
        (let P1 = P\<lparr>p_context := True\<rparr> in
         if persistence \<noteq> CHIP_NO_ERROR then Some (persistence, P1, s)
         else do {
           s1 \<leftarrow> init_endpoints E (first_endpoints s) s;
           Some (registry, P1, s1) }))"

definition Temporary_ReportAttributeChanged ::
    "'t prov \<Rightarrow> u16 \<Rightarrow> u32 \<Rightarrow> u32 \<Rightarrow> 'n dm \<Rightarrow> 'n dm option" where
  "Temporary_ReportAttributeChanged P ep cl at s =
     (let mark = (\<lambda>s. if p_context P then Some (emit (Mark_Dirty ep cl at) s) else None) in
      if ep = kInvalidEndpointId then Some s
      else if cl \<noteq> kInvalidClusterId then do {
        cluster \<leftarrow> cluster_get_by_id s ep cl;
        if cluster = None then Some s
        else do {
          (err, s1) \<leftarrow> increase_data_version cluster s;
          if err \<noteq> ESP_OK then Some s1 else mark s1 } }
      else mark s)"

section \<open>Values by path\<close>

text \<open>A string is copied into a buffer of its own before the decoded one is freed.\<close>

definition get_val_from_tlv_data ::
    "'n env \<Rightarrow> 't tlv_api \<Rightarrow> 't option \<Rightarrow> val_type \<Rightarrow> 'n dm \<Rightarrow> (esp_err \<times> attr_val option \<times> 'n dm) option" where
  "get_val_from_tlv_data E api data t s =
     (case data of
        None \<Rightarrow> Some (ESP_FAIL, None, s)
      | Some e \<Rightarrow>
          (let (err, v, m1) = decode api (e_traits E) t e (mem s);
               s1 = s\<lparr>mem := m1\<rparr> in
           if err \<noteq> CHIP_NO_ERROR then Some (ESP_FAIL, None, s1)
           else if t \<notin> string_types then Some (ESP_OK, Some v, s1)
           else
             (let bytes_to_copy = unat (a_s (v_a (av_val v))) + (if char_string t then 1 else 0) in
              case a_b (v_a (av_val v)) of
                None \<Rightarrow> Some (ESP_OK, Some v, s1)
              | Some bs \<Rightarrow>
                  if bytes_to_copy = 0 then Some (ESP_OK, Some v, s1)
                  else
                    (let (p, s2) = alloc s1 in
                     if p = None then Some (ESP_ERR_NO_MEM, None, s2)
                     else if length bs < bytes_to_copy then None
                     else Some (ESP_OK,
                       Some (v\<lparr>av_val := (av_val v)\<lparr>v_a := (v_a (av_val v))\<lparr>a_b := Some (take bytes_to_copy bs)\<rparr>\<rparr>\<rparr>),
                       s2)))))"

definition path_request :: "u16 \<Rightarrow> u32 \<Rightarrow> u32 \<Rightarrow> request" where
  "path_request ep cl at = \<lparr>rq_ep = ep, rq_cl = cl, rq_at = at, rq_expanded = False, rq_version = None\<rparr>"

definition get_val_by_path ::
    "'n env \<Rightarrow> 't prov \<Rightarrow> u16 \<Rightarrow> u32 \<Rightarrow> u32 \<Rightarrow> 'n dm \<Rightarrow> (esp_err \<times> attr_val option \<times> 'n dm) option" where
  "get_val_by_path E P ep cl at s = do {
     val_type \<leftarrow> get_val_type_by_path s ep cl at;
     if val_type = VT_INVALID then Some (ESP_ERR_INVALID_ARG, None, s)
     else if val_type = VT_ARRAY then Some (ESP_ERR_NOT_SUPPORTED, None, s)
     else
       (let (p, s1) = alloc s in
        if p = None then Some (ESP_ERR_NO_MEM, None, s1)
        else do {
          (status, e) \<leftarrow> ReadAttribute E P (path_request ep cl at) s1;
          if \<not> action_ok status then Some (ESP_FAIL, None, s1)
          else get_val_from_tlv_data E (p_tlv P) e val_type s1 }) }"

definition get_val ::
    "'n env \<Rightarrow> 't prov \<Rightarrow> handle \<Rightarrow> 'n dm \<Rightarrow> (esp_err \<times> attr_val option \<times> 'n dm) option" where
  "get_val E P h s =
     (case h of
        None \<Rightarrow> Some (ESP_ERR_INVALID_ARG, None, s)
      | Some a \<Rightarrow> do {
          (err, p, attribute_id) \<leftarrow> get_path_from_attribute_handle s a;
          if err \<noteq> ESP_OK then Some (err, None, s)
          else (case p of
             None \<Rightarrow> get_val_by_path E P kInvalidEndpointId kInvalidClusterId attribute_id s
           | Some (endpoint_id, cluster_id) \<Rightarrow> get_val_by_path E P endpoint_id cluster_id attribute_id s) })"

definition set_val_via_write_attribute :: "'n env \<Rightarrow> 't prov \<Rightarrow> change_env \<Rightarrow> metadata \<Rightarrow> 'n writer" where
  "set_val_via_write_attribute E P C s_metadata ep cl at v s =
     (let (p, s1) = alloc s in
      if p = None then Some (ESP_ERR_NO_MEM, s1)
      else do {
        r \<leftarrow> encode (p_tlv P) (e_traits E) v;
        (case r of
           Inl _ \<Rightarrow> Some (ESP_FAIL, s1)
         | Inr e \<Rightarrow> do {
             (status, s2) \<leftarrow> WriteAttribute E P C s_metadata (path_request ep cl at) e s1;
             Some (if action_ok status then ESP_OK else ESP_FAIL, s2) }) })"

definition update_or_report ::
    "'n env \<Rightarrow> 't prov \<Rightarrow> change_env \<Rightarrow> metadata \<Rightarrow> u16 \<Rightarrow> u32 \<Rightarrow> u32 \<Rightarrow> attr_val option \<Rightarrow> bool \<Rightarrow> 'n dm \<Rightarrow>
     (esp_err \<times> 'n dm) option" where
  "update_or_report E P C s_metadata ep cl at vo call_attribute_callbacks s =
     (if vo = None then Some (ESP_ERR_INVALID_ARG, s)
      else do {
        attr \<leftarrow> attribute_get_by_path s ep cl at;
        if attr = None then Some (ESP_ERR_INVALID_ARG, s)
        else do {
          (err, _, s1) \<leftarrow> set_val E (set_val_via_write_attribute E P C s_metadata) attr vo call_attribute_callbacks s;
          if err = ESP_OK then do {
            s2 \<leftarrow> Temporary_ReportAttributeChanged P ep cl at s1;
            Some (ESP_OK, s2) }
          else if err = ESP_ERR_NOT_FINISHED then Some (ESP_OK, s1)
          else Some (err, s1) } })"

definition update where
  "update E P C s_metadata ep cl at vo = update_or_report E P C s_metadata ep cl at vo True"

definition report where
  "report E P C s_metadata ep cl at vo = update_or_report E P C s_metadata ep cl at vo False"

end
