(* ===== verification/EM_EmberProps.thy ===== *)
theory EM_EmberProps
  imports EM_Provider
begin

text \<open>
  What the ember interface guarantees: a value written to a raw buffer is read back, and the index
  of an endpoint among those with a cluster.
\<close>

section \<open>Raw buffers\<close>

lemma kind_size_bits: "8 * kind_size k = kind_bits k" "kind_size k \<noteq> 0"
  by (cases k; simp add: kind_size_def)+

lemma le_word_storage: "le_word (le_bytes (kind_size k) w) = trunc k (w :: u64)"
  by (simp add: le_word_le_bytes trunc_def kind_size_bits)

lemma put_bytesD: "put_bytes bs buf = Some buf' \<Longrightarrow> \<exists>rest. buf' = bs @ rest"
  by (auto simp: put_bytes_def split: if_splits)

text \<open>The type metadata gives for a number leads back to the type and member of the number.\<close>

lemma zcl_number_of_type:
  assumes "wire_kind t = Some k" "k \<noteq> KBool"
  obtains nt where "zcl_number (get_ember_attr_type_from_val_type t) = Some (base_type t, nt, k)"
    "nullable_type t \<longrightarrow> nt = t" "\<not> nullable_type t \<longrightarrow> base_type t = t"
    "get_ember_attr_type_from_val_type t \<notin> octet_zcl \<union>
       {ZCL_BOOLEAN, ZCL_CHAR_STRING, ZCL_LONG_CHAR_STRING, ZCL_LONG_OCTET_STRING}"
  using assms that
  by (cases t)
     (simp_all add: wire_kind_def get_ember_attr_type_from_val_type_def zcl_number_def octet_zcl_def)

lemma number_type:
  "wire_kind t = Some k \<Longrightarrow> base_type t \<noteq> VT_INVALID \<and> t \<noteq> VT_INVALID \<and> type_kind t = Some k"
  by (cases t) (simp_all add: wire_kind_def split: if_splits)

lemma num_types [simp]: "av_type (num_attr_val t k w) = t" "av_type (nullable_attr_val T t k w) = t"
  by (simp_all add: nullable_attr_val_def num_attr_val_def)

lemma num_raw_roundtrip:
  assumes T: "traits_ok T" and k: "wire_kind (av_type v) = Some k" "k \<noteq> KBool"
    and bs: "storage_bytes T (av_type v) k (num_member k (av_val v)) = Some bs"
  shows "\<exists>v'. get_attr_val_from_raw_data_buffer T (bs @ rest) (get_ember_attr_type_from_val_type (av_type v)) v0
      (nullable_type (av_type v)) = Some (Success, v') \<and>
    (val_is_null T v \<and> val_is_null T v' \<or> same_value v' v)"
proof -
  let ?t = "av_type v" and ?w = "num_member k (av_val v)"
  obtain nt where z: "zcl_number (get_ember_attr_type_from_val_type ?t) = Some (base_type ?t, nt, k)"
      "nullable_type ?t \<longrightarrow> nt = ?t" "\<not> nullable_type ?t \<longrightarrow> base_type ?t = ?t"
      "get_ember_attr_type_from_val_type ?t \<notin> octet_zcl \<union>
         {ZCL_BOOLEAN, ZCL_CHAR_STRING, ZCL_LONG_CHAR_STRING, ZCL_LONG_OCTET_STRING}"
    by (rule zcl_number_of_type[OF k])
  define w where "w = (if nullable_type ?t \<and> tr_is_null T k ?w then tr_null T k else ?w)"
  have b: "bs = le_bytes (kind_size k) w" using bs k(2) by (auto simp: storage_bytes_def w_def split: if_splits)
  then have len: "\<not> length (bs @ rest) < kind_size k" "take (kind_size k) (bs @ rest) = le_bytes (kind_size k) w"
    by simp_all
  have null: "tr_is_null T k (trunc k (tr_null T k))" using T by (simp add: traits_ok_def)
  let ?v' = "if nullable_type ?t
      then nullable_attr_val T nt k (if tr_is_null T k (trunc k w) then nullable_null T k else nullable_of T k (trunc k w))
      else num_attr_val (base_type ?t) k (trunc k w)"
  have ty: "av_type ?v' = ?t" using z(2,3) by simp
  have r: "get_attr_val_from_raw_data_buffer T (bs @ rest) (get_ember_attr_type_from_val_type ?t) v0 (nullable_type ?t) =
      Some (Success, ?v')"
    using z len number_type[OF k(1)]
    by (simp add: get_attr_val_from_raw_data_buffer_def le_word_storage Let_def)
  show ?thesis
  proof (cases "nullable_type ?t \<and> tr_is_null T k ?w")
    case True
    then have "num_member k (av_val ?v') = trunc k (tr_null T k)"
      using null by (simp add: w_def nullable_attr_val_def num_attr_val_def num_member_def nullable_is_null_def nullable_null_def)
    then have "val_is_null T ?v'" using val_is_null_kind[of ?v' k] k(1) ty True null by simp
    moreover have "val_is_null T v" using val_is_null_kind[of v k] k(1) True by simp
    ultimately show ?thesis using r by blast
  next
    case False
    then have w: "w = ?w" "trunc k w = ?w" by (auto simp: w_def num_member_def)
    have "num_member k (av_val ?v') = ?w"
      using False w by (auto simp: nullable_attr_val_def num_attr_val_def num_member_def nullable_is_null_def nullable_of_def
          nullable_value_def)
    then show ?thesis using r ty number_type[OF k(1)] by (auto simp: same_value_def)
  qed
qed

lemma u16_below_max: "(n :: u16) \<noteq> 0xFFFF \<Longrightarrow> unat n < 65535"
proof -
  assume n: "n \<noteq> 0xFFFF"
  have "unat n < 2 ^ 16" using unsigned_less[of n] by simp
  moreover have "unat n \<noteq> 65535"
  proof
    assume "unat n = 65535"
    then have "of_nat (unat n) = (0xFFFF :: u16)" by simp
    then show False using n by simp
  qed
  ultimately show ?thesis by simp
qed

lemma string_raw_roundtrip:
  assumes t: "av_type v \<in> string_types" and wf: "wire_wf v" and n: "a_s (v_a (av_val v)) \<noteq> null_len (av_type v)"
    and bs: "raw_string (av_type v) (v_a (av_val v)) = Some bs"
  shows "\<exists>v'. get_attr_val_from_raw_data_buffer T (bs @ rest) (get_ember_attr_type_from_val_type (av_type v)) v0 b =
    Some (Success, v') \<and> same_value v' v"
proof -
  let ?a = "v_a (av_val v)"
  have short: "unat (a_s ?a) < 255" "(ucast (ucast (a_s ?a) :: u8) :: u16) = a_s ?a" "(ucast (a_s ?a) :: u8) \<noteq> 0xFF"
      "unat (ucast (a_s ?a) :: u8) = unat (a_s ?a)"
    if "short_string (av_type v)"
  proof -
    have "a_s ?a \<le> 0xFF" "a_s ?a \<noteq> 0xFF"
      using wire_wfD[OF wf t] n that by (auto simp: string_wf_def null_len_def short_string_def)
    then have "a_s ?a < 0xFF" by simp
    then show l: "unat (a_s ?a) < 255" by (simp add: word_less_nat_alt)
    show u: "unat (ucast (a_s ?a) :: u8) = unat (a_s ?a)" using l by (simp add: unsigned_ucast_eq take_bit_nat_eq_self)
    then show "(ucast (ucast (a_s ?a) :: u8) :: u16) = a_s ?a"
      by (simp add: word_unat_eq_iff unsigned_ucast_eq unsigned_take_bit_eq)
    show "(ucast (a_s ?a) :: u8) \<noteq> 0xFF" using u l by (auto simp: word_unat_eq_iff)
  qed
  have one: "(le_word [b] :: u16) = ucast b" for b :: u8 by simp
  have two: "(le_word (le_bytes 2 (a_s ?a)) :: u16) = a_s ?a"
    by (rule bit_word_eqI) (simp add: le_word_le_bytes bit_take_bit_iff)
  have pay: "unat (a_s ?a) \<le> length (buf_bytes (a_b ?a))"
    and raw: "bs = (if short_string (av_type v) then [ucast (a_s ?a)] else le_bytes 2 (a_s ?a)) @
      take (unat (a_s ?a)) (buf_bytes (a_b ?a))"
    using bs short n by (auto simp: raw_string_def Let_def null_len_def short_string_def split: if_splits)
  have null_less: "a_s ?a < null_len (av_type v)"
    using short(1) n u16_below_max[of "a_s ?a"] by (cases "short_string (av_type v)")
      (auto simp: null_len_def short_string_def word_less_nat_alt)
  have read: "string_from_raw header null_count mk (bs @ rest) b v0 =
      Some (mk (Some (take (unat (a_s ?a)) (buf_bytes (a_b ?a)) @ rest)) (a_s ?a))"
    if "header = (if short_string (av_type v) then 1 else 2)" "null_count = null_len (av_type v)" for header null_count mk
    using raw that short n two null_less
    by (cases "short_string (av_type v)") (auto simp: string_from_raw_def Let_def)
  show ?thesis
    using t read pay
    by (elim insertE)
       (simp_all add: get_attr_val_from_raw_data_buffer_def get_ember_attr_type_from_val_type_def octet_zcl_def
          short_string_def null_len_def same_value_def buf_bytes_def esp_matter_char_str_def esp_matter_long_char_str_def
          esp_matter_octet_str_def esp_matter_long_octet_str_def arr_attr_val_def)
qed

lemma bool_raw_roundtrip:
  assumes k: "wire_kind (av_type v) = Some KBool"
    and bs: "storage_bytes T (av_type v) KBool (num_member KBool (av_val v)) = Some bs"
  shows "\<exists>v'. get_attr_val_from_raw_data_buffer T (bs @ rest) (get_ember_attr_type_from_val_type (av_type v)) v0 b =
      Some (Success, v') \<and> av_type v' = VT_BOOLEAN \<and> (av_type v = VT_BOOLEAN \<longrightarrow> same_value v' v)"
proof -
  let ?w = "num_member KBool (av_val v)"
  have t: "av_type v = VT_BOOLEAN \<or> av_type v = VT_NULLABLE_BOOLEAN"
    using k by (cases "av_type v") (simp_all add: wire_kind_def)
  then have z: "get_ember_attr_type_from_val_type (av_type v) = ZCL_BOOLEAN"
    by (auto simp: get_ember_attr_type_from_val_type_def)
  have size: "kind_size KBool = Suc 0" by (simp add: kind_size_def)
  then obtain c where c: "bs = [c]"
    using bs by (auto simp: storage_bytes_def le_bytes_def split: if_splits)
  have "c = (if ?w = 0 then 0 else 1) \<and> ?w \<in> {0, 1}" if "av_type v = VT_BOOLEAN"
    using bs c that size by (auto simp: storage_bytes_def le_bytes_def byte_at_def split: if_splits)
  then show ?thesis using z c
    by (auto simp: get_attr_val_from_raw_data_buffer_def esp_matter_bool_def same_value_def num_attr_val_def num_member_def
        trunc_def)
qed

text \<open>C22: a value that was written to a raw buffer is read back from it: the same number or the same
  bytes, null for null.  The exception is the nullable boolean, whose type is lost: it is read as a
  boolean that is never null.\<close>

theorem raw_roundtrip:
  assumes "traits_ok T" "wire_wf v" "av_type v \<in> string_types \<longrightarrow> a_s (v_a (av_val v)) \<noteq> null_len (av_type v)"
    "get_raw_data_buffer_from_attr_val T v (Some buf) n = Some (Success, Some buf')"
  shows "\<exists>v'. get_attr_val_from_raw_data_buffer T buf' (get_ember_attr_type_from_val_type (av_type v)) v0
      (nullable_type (av_type v)) = Some (Success, v') \<and>
    (if av_type v = VT_NULLABLE_BOOLEAN then av_type v' = VT_BOOLEAN
     else val_is_null T v \<and> val_is_null T v' \<or> same_value v' v)"
proof (cases "wire_kind (av_type v)")
  case (Some k)
  then obtain bs rest where b: "storage_bytes T (av_type v) k (num_member k (av_val v)) = Some bs" "buf' = bs @ rest"
    using assms(4) by (auto simp: get_raw_data_buffer_from_attr_val_def split: if_splits bind_splits dest!: put_bytesD)
  show ?thesis
  proof (cases "k = KBool")
    case True
    then have "av_type v = VT_BOOLEAN \<or> av_type v = VT_NULLABLE_BOOLEAN"
      using Some by (cases "av_type v") (simp_all add: wire_kind_def)
    then show ?thesis using bool_raw_roundtrip[of v T bs rest v0] Some True b by fastforce
  next
    case False
    then have "av_type v \<noteq> VT_NULLABLE_BOOLEAN" using Some by (auto simp: wire_kind_def)
    then show ?thesis using num_raw_roundtrip[OF assms(1) Some False b(1), of rest v0] b(2) by simp
  qed
next
  case None
  then have t: "av_type v \<in> string_types"
    using assms(4) by (auto simp: get_raw_data_buffer_from_attr_val_def split: if_splits)
  then obtain bs rest where b: "raw_string (av_type v) (v_a (av_val v)) = Some bs" "buf' = bs @ rest"
    using assms(4) None by (auto simp: get_raw_data_buffer_from_attr_val_def split: if_splits bind_splits dest!: put_bytesD)
  have "a_s (v_a (av_val v)) \<noteq> null_len (av_type v)" using assms(3) t by blast
  from string_raw_roundtrip[OF t assms(2) this b(1), of T rest v0 "nullable_type (av_type v)"]
  show ?thesis using b(2) t by auto
qed

theorem raw_roundtrip_witness:
  "\<exists>buf'. get_raw_data_buffer_from_attr_val std_traits (esp_matter_int16 0xFFFE) (Some [1, 2, 3]) 3 = Some (Success, Some buf') \<and>
     (\<exists>v'. get_attr_val_from_raw_data_buffer std_traits buf' ZCL_INT16S (esp_matter_invalid 0) False = Some (Success, v') \<and>
        same_value v' (esp_matter_int16 0xFFFE))"
proof -
  let ?v = "esp_matter_int16 0xFFFE"
  have v: "av_type ?v = VT_INT16" by (simp add: esp_matter_int16_def)
  have "length (le_bytes (kind_size KI16) w) = 2" for w :: u64 by (simp add: kind_size_def)
  then obtain buf' where r: "get_raw_data_buffer_from_attr_val std_traits ?v (Some [1, 2, 3]) 3 = Some (Success, Some buf')"
    using v by (simp add: get_raw_data_buffer_from_attr_val_def wire_kind_def storage_bytes_def put_bytes_def checked_size_def
        kind_size_def)
  have "wire_wf ?v" "\<not> val_is_null std_traits ?v" using v by (simp_all add: wire_wf_def val_is_null_def)
  then show ?thesis
    using raw_roundtrip[OF std_traits_ok _ _ r, of "esp_matter_invalid 0"] r v
    by (simp add: get_ember_attr_type_from_val_type_def)
qed

section \<open>The index of an endpoint\<close>

definition has_cluster :: "'n dm \<Rightarrow> u32 \<Rightarrow> addr \<Rightarrow> bool" where
  "has_cluster s j p \<longleftrightarrow> (\<exists>e c cl. eps s p = Some e \<and> c \<in> set (ep_clusters e) \<and> cls s c = Some cl \<and> cl_id cl = j)"

lemma cluster_get_has:
  assumes "dm_inv s" "eps s p = Some e"
  shows "\<exists>h. cluster_get s (Some p) j = Some h \<and> (h \<noteq> None \<longleftrightarrow> has_cluster s j p)"
proof -
  obtain h where h: "cluster_get s (Some p) j = Some h"
      "\<And>c. h = Some c \<longleftrightarrow> c \<in> set (ep_clusters e) \<and> (\<exists>cl. cls s c = Some cl \<and> cl_id cl = j)"
    using cluster_get_exact[OF assms] by blast
  then have "h \<noteq> None \<longleftrightarrow> has_cluster s j p" using assms(2) unfolding has_cluster_def by auto
  then show ?thesis using h(1) by blast
qed

lemma index_before_position:
  assumes inv: "dm_inv s" and e: "eps s p = Some e" and p: "p \<in> set ps" and live: "\<forall>q \<in> set ps. eps s q \<noteq> None"
  shows "index_before s (ep_id e) j ret ps =
    Some (ret + of_nat (length (filter (has_cluster s j) (takeWhile (\<lambda>q. q \<noteq> p) ps))))"
  using p live
proof (induction ps arbitrary: ret)
  case (Cons q ps)
  obtain f where f: "eps s q = Some f" using Cons.prems(2) by auto
  then have i: "endpoint_get_id s (Some q) = Some (ep_id f)" by (simp add: endpoint_get_id_def read_endpoint_def)
  show ?case
  proof (cases "q = p")
    case True
    then show ?thesis using i e f by simp
  next
    case False
    then have "ep_id f \<noteq> ep_id e" using endpoint_unique[OF inv f e] by blast
    moreover obtain h where "cluster_get s (Some q) j = Some h" "h \<noteq> None \<longleftrightarrow> has_cluster s j q"
      using cluster_get_has[OF inv f] by blast
    ultimately show ?thesis using Cons False i by (auto simp: add.assoc)
  qed
qed simp

lemma filter_position:
  assumes "distinct xs" "n < length (filter P xs)"
  shows "length (filter P (takeWhile (\<lambda>x. x \<noteq> filter P xs ! n) xs)) = n"
  using assms
proof (induction xs arbitrary: n)
  case (Cons y ys)
  show ?case
  proof (cases "P y")
    case True
    show ?thesis
    proof (cases n)
      case (Suc m)
      then have m: "m < length (filter P ys)" using Cons.prems True by simp
      then have "filter P ys ! m \<in> set ys" using nth_mem[of m "filter P ys"] by auto
      then have "y \<noteq> filter P ys ! m" using Cons.prems(1) by auto
      then show ?thesis using Cons.IH[of m] Cons.prems(1) m True Suc by simp
    qed (use True in simp)
  next
    case False
    then have "filter P ys ! n \<in> set ys" using Cons.prems nth_mem[of n "filter P ys"] by auto
    then have "y \<noteq> filter P ys ! n" using Cons.prems(1) by auto
    then show ?thesis using Cons False by simp
  qed
qed simp

text \<open>C30: the index of an endpoint for a cluster is its position among the endpoints of the node that
  have the cluster, in the order of the list.  Tables indexed with it have one slot per endpoint, and
  no slot is shared; an endpoint without the cluster gets the reserved index.\<close>

theorem endpoint_index_position:
  assumes inv: "dm_inv s" and nd: "node s = Some nd"
  shows "(\<forall>n e. n < length (filter (has_cluster s j) (nd_endpoints nd)) \<longrightarrow>
      eps s (filter (has_cluster s j) (nd_endpoints nd) ! n) = Some e \<longrightarrow>
      emberAfGetClusterServerEndpointIndex s (ep_id e) j = Some (of_nat n)) \<and>
    (\<forall>p e. eps s p = Some e \<longrightarrow> \<not> has_cluster s j p \<longrightarrow> emberAfGetClusterServerEndpointIndex s (ep_id e) j = Some 0xFFFF)"
proof (intro conjI allI impI)
  note live = endpoints_live[OF inv nd]
  fix n e
  let ?ps = "filter (has_cluster s j) (nd_endpoints nd)"
  assume n: "n < length ?ps" and e: "eps s (?ps ! n) = Some e"
  let ?p = "?ps ! n"
  have p: "?p \<in> set (nd_endpoints nd)" "has_cluster s j ?p" using nth_mem[OF n] by auto
  obtain h where "cluster_get s (Some ?p) j = Some h" "h \<noteq> None" using cluster_get_has[OF inv e] p(2) by blast
  moreover have "endpoint_get_by_id s (ep_id e) = Some (Some ?p)" using endpoint_get_by_id_iff(1)[OF inv] e by blast
  moreover have "\<forall>q \<in> set (nd_endpoints nd). eps s q \<noteq> None" using live(1) by (simp add: list_all_iff)
  ultimately show "emberAfGetClusterServerEndpointIndex s (ep_id e) j = Some (of_nat n)"
    using index_before_position[OF inv e p(1), of j 0] filter_position[OF live(2) n] nd
    by (auto simp: emberAfGetClusterServerEndpointIndex_def first_endpoints_def)
next
  fix p e
  assume e: "eps s p = Some e" and no: "\<not> has_cluster s j p"
  have "endpoint_get_by_id s (ep_id e) = Some (Some p)" using endpoint_get_by_id_iff(1)[OF inv] e by blast
  moreover have "cluster_get s (Some p) j = Some None" using cluster_get_has[OF inv e, of j] no by auto
  ultimately show "emberAfGetClusterServerEndpointIndex s (ep_id e) j = Some 0xFFFF"
    by (simp add: emberAfGetClusterServerEndpointIndex_def)
qed

theorem endpoint_index_position_witness:
  "emberAfGetClusterServerEndpointIndex demo 1 6 = Some 0 \<and> emberAfGetClusterServerEndpointIndex demo 1 7 = Some 0xFFFF"
proof -
  have "has_cluster demo 6 2" "\<not> has_cluster demo 7 2"
    by (auto simp: has_cluster_def demo_endpoint_def demo_cluster_def)
  moreover have "ep_id demo_endpoint = 1" by (simp add: demo_endpoint_def)
  moreover have "emberAfGetClusterServerEndpointIndex demo (ep_id demo_endpoint) 7 = Some 0xFFFF" if "\<not> has_cluster demo 7 2"
    using endpoint_index_position[OF demo_inv demo_simps(1), of 7] that by (auto dest!: conjunct2 spec[of _ 2] spec[of _ demo_endpoint])
  ultimately show ?thesis using endpoint_index_position[OF demo_inv demo_simps(1), of 6] by simp
qed

end
