(* ===== verification/EM_ProviderProps.thy ===== *)
theory EM_ProviderProps
  imports EM_EmberProps
begin

text \<open>
  What the provider guarantees: a reported value is the value read by path and marks the attribute
  exactly when it changed; what a client may write to a string; and the listings of the data model.
\<close>

section \<open>Paths\<close>

text \<open>States in which every path leads to the same attribute.\<close>

definition same_paths :: "'n dm \<Rightarrow> 'n dm \<Rightarrow> bool" where
  "same_paths s t \<longleftrightarrow>
     node t = node s \<and> eps t = eps s \<and>
     (\<forall>c. map_option cl_id (cls t c) = map_option cl_id (cls s c) \<and>
          map_option cl_attributes (cls t c) = map_option cl_attributes (cls s c)) \<and>
     (\<forall>a. map_option at_id (ats t a) = map_option at_id (ats s a))"

lemma bind_test: "do { x \<leftarrow> m; Some (f x = i) } = map_option (\<lambda>j. j = i) (map_option f m)"
  by (cases m) simp_all

lemma same_paths_endpoint: "same_paths s t \<Longrightarrow> endpoint_get_by_id t i = endpoint_get_by_id s i"
  by (rule endpoint_get_by_id_cong) (simp_all add: same_paths_def)

lemma same_paths_cluster:
  assumes "same_paths s t"
  shows "cluster_get t h j = cluster_get s h j" "cluster_get_by_id t i j = cluster_get_by_id s i j"
proof -
  show c: "cluster_get t h j = cluster_get s h j" for h
    using assms by (simp add: cluster_get_def same_paths_def bind_test cong: option.case_cong)
  show "cluster_get_by_id t i j = cluster_get_by_id s i j"
    using c same_paths_endpoint[OF assms] by (simp add: cluster_get_by_id_def)
qed

lemma same_paths_attribute:
  assumes "same_paths s t"
  shows "attribute_get t h k = attribute_get s h k"
    "attribute_get_by_path t i j k = attribute_get_by_path s i j k"
proof -
  show a: "attribute_get t h k = attribute_get s h k" for h
  proof (cases h)
    case (Some c)
    have "map_option cl_attributes (cls t c) = map_option cl_attributes (cls s c)"
      using assms by (simp add: same_paths_def)
    then show ?thesis using assms Some
      by (cases "cls t c"; cases "cls s c") (simp_all add: attribute_get_def same_paths_def bind_test)
  qed (simp add: attribute_get_def)
  show "attribute_get_by_path t i j k = attribute_get_by_path s i j k"
    using a same_paths_cluster[OF assms] by (simp add: attribute_get_by_path_def cong: if_cong)
qed

lemma same_paths_check: "same_paths s t \<Longrightarrow> check_attribute_path t i j k = check_attribute_path s i j k"
  by (simp add: check_attribute_path_def check_item_path_def same_paths_endpoint same_paths_cluster
      same_paths_attribute cong: if_cong)

text \<open>A path that leads to an attribute passes the check, and the attribute knows its path.\<close>

lemma path_attribute:
  assumes "dm_inv s" "attribute_get_by_path s i j k = Some (Some a)"
  obtains c cl at where "cluster_get_by_id s i j = Some (Some c)" "cls s c = Some cl"
    "ats s a = Some at" "at_id at = k" "at_ok cl at" "cl_ep cl = i" "cl_id cl = j"
    "check_attribute_path s i j k = Some Success"
proof -
  obtain h where h: "cluster_get_by_id s i j = Some h"
      "\<And>c. h = Some c \<longleftrightarrow> (\<exists>cl. cls s c = Some cl \<and> cl_ep cl = i \<and> cl_id cl = j)"
    using cluster_get_by_id_exact[OF assms(1)] by blast
  then obtain c where c: "h = Some c" "attribute_get s (Some c) k = Some (Some a)"
    using assms(2) by (cases h) (auto simp: attribute_get_by_path_def)
  then obtain cl where cl: "cls s c = Some cl" "cl_ep cl = i" "cl_id cl = j" using h(2) by blast
  obtain at where at: "a \<in> set (cl_attributes cl)" "ats s a = Some at" "at_id at = k"
    using attribute_get_exact[OF assms(1) cl(1), of k] c(2) by auto
  have "at_ok cl at" using owns_rel[OF inv_at[OF assms(1), unfolded at_layer_def] cl(1) at(1,2)] .
  moreover have "check_attribute_path s i j k = Some Success"
  proof -
    obtain eh where eh: "endpoint_get_by_id s i = Some eh" "cluster_get s eh j = Some (Some c)"
      using h(1) c(1) by (cases "endpoint_get_by_id s i") (auto simp: cluster_get_by_id_def)
    moreover have "eh \<noteq> None" using eh(2) by (cases eh) (simp_all add: cluster_get_def)
    ultimately show ?thesis using c(2) by (auto simp: check_attribute_path_def check_item_path_def)
  qed
  ultimately show thesis using that h(1) c(1) cl at by blast
qed

section \<open>Reading what was set\<close>

text \<open>Values for which equality of what they denote is equality of what is sent: numbers other than
  floats, and strings that are neither empty nor null.\<close>

definition plain_value :: "attr_val \<Rightarrow> bool" where
  "plain_value v \<longleftrightarrow>
     (case wire_kind (av_type v) of
        Some k \<Rightarrow> k \<noteq> KFloat
      | None \<Rightarrow> av_type v \<in> string_types \<and> 0 < a_s (v_a (av_val v)) \<and> a_s (v_a (av_val v)) \<noteq> null_len (av_type v))"

lemma wire_kind_string: "wire_kind t = Some k \<Longrightarrow> t \<notin> string_types" "t \<in> string_types \<Longrightarrow> wire_kind t = None \<and> type_kind t = None"
  by (cases t; auto simp: wire_kind_def)+

lemma same_value_content:
  assumes "plain_value v" "av_type w = av_type v" "content w = content v"
  shows "same_value w v"
proof (cases "wire_kind (av_type v)")
  case (Some k)
  then show ?thesis using assms wire_kind_type[OF Some]
    by (simp add: plain_value_def content_def same_value_def word_uint_eq_iff)
next
  case None
  then have "av_type v \<in> string_types" using assms(1) by (simp add: plain_value_def)
  then have "type_kind (av_type v) = None" using wire_kind_string(2) by blast
  moreover have "a_s (v_a (av_val v)) \<noteq> 0" using None assms(1) by (auto simp: plain_value_def)
  ultimately show ?thesis using None assms
    by (auto simp: plain_value_def content_def same_value_def Let_def)
qed

lemma encode_same_value:
  assumes "same_value w v" "plain_value v" "wire_wf v" "wire_wf w"
  shows "encode api T w = encode api T v"
proof (cases "wire_kind (av_type v)")
  case (Some k)
  then show ?thesis using assms(1) wire_kind_type[OF Some] by (simp add: same_value_def encode_def Let_def)
next
  case None
  then have t: "av_type v \<in> string_types" and s: "a_s (v_a (av_val v)) \<noteq> null_len (av_type v)"
    using assms(2) by (simp_all add: plain_value_def)
  then have w: "av_type w = av_type v" "a_s (v_a (av_val w)) = a_s (v_a (av_val v))"
      "string_payload w = string_payload v"
    using assms(1) wire_kind_string(2)[OF t] by (simp_all add: same_value_def string_payload_def)
  then show ?thesis using encode_payload[of v api T] encode_payload[of w api T] t s assms(3,4) by simp
qed

lemma takeWhile_take: "takeWhile P bs = take n bs \<Longrightarrow> takeWhile P (take n bs) = take n bs"
  by (metis takeWhile_eq_all_conv set_takeWhileD)

text \<open>The string that is stored is well formed again.\<close>

lemma store_value_wire_wf:
  assumes r: "store_value v x m = Some (ESP_OK, x1, m1)" and v: "wire_wf v" "plain_value v"
    and t: "at_type at = av_type v"
  shows "wire_wf (attr_val_of at x1)"
proof (cases "av_type v \<in> string_types")
  case True
  let ?a = "v_a (av_val v)" and ?n = "unat (a_s (v_a (av_val v)))"
  have k: "wire_kind (av_type v) = None" using wire_kind_string(2)[OF True] by simp
  then have pos: "0 < a_s ?a" "a_s ?a \<noteq> null_len (av_type v)" using v(2) by (simp_all add: plain_value_def)
  obtain bs where bs: "a_b ?a = Some bs" "?n \<le> length bs"
      "v_a (x_val x1) = (v_a (x_val x))\<lparr>a_b := Some (take ?n bs @
         (if av_type v = VT_LONG_CHAR_STRING \<or> av_type v = VT_CHAR_STRING then [0] else [])),
         a_s := a_s ?a, a_t := a_t ?a\<rparr>"
    using r True pos
    by (auto simp: store_value_def set_string_def Let_def not_less split: if_splits option.splits bind_splits prod.splits)
  have wf: "string_wf (av_type v) ?a" using wire_wfD[OF v(1) True] .
  have "c_string (take ?n bs @ [0]) = Some (take ?n bs)" if "char_string (av_type v)"
  proof -
    have "takeWhile (\<lambda>b. b \<noteq> 0) bs = take ?n bs"
      using wf bs that by (simp add: string_wf_def c_string_def split: if_splits)
    then have "takeWhile (\<lambda>b. b \<noteq> 0) (take ?n bs) = take ?n bs" by (rule takeWhile_take)
    then have "\<forall>b \<in> set (take ?n bs). b \<noteq> 0" by (simp only: takeWhile_eq_all_conv)
    then show ?thesis by (simp add: c_string_def takeWhile_append2)
  qed
  moreover have "char_string (av_type v) \<longleftrightarrow> av_type v = VT_LONG_CHAR_STRING \<or> av_type v = VT_CHAR_STRING"
    by (auto simp: char_string_def)
  ultimately have "string_wf (av_type v) (v_a (x_val x1))"
    using wf bs by (simp add: string_wf_def)
  then show ?thesis using t by (simp add: wire_wf_def attr_val_of_def)
next
  case False
  then show ?thesis using t by (simp add: wire_wf_def attr_val_of_def)
qed

text \<open>Paths that connectedhomeip leaves to the data model.\<close>

definition plain_path :: "'t prov \<Rightarrow> u16 \<Rightarrow> u32 \<Rightarrow> bool" where
  "plain_path P i j \<longleftrightarrow> \<not> p_registered P i j \<and> \<not> p_aai P i j"

definition never_fails :: "mem \<Rightarrow> bool" where
  "never_fails m \<longleftrightarrow> (\<forall>n. \<not> mem_fail m n)"

lemma never_fails_alloc:
  assumes "never_fails (mem s)"
  obtains p s1 where "alloc s = (Some p, s1)" "same_paths s s1" "ats s1 = ats s" "never_fails (mem s1)" "cls s1 = cls s"
    "log s1 = log s" "attribute_callback s1 = attribute_callback s"
  using assms that by (simp add: alloc_def mem_calloc_def never_fails_def Let_def same_paths_def)

lemma never_fails_decode:
  assumes "never_fails m" "decode api T t e m = (err, v, m1)"
  shows "never_fails m1"
  using assms
  by (auto simp: decode_def decode_string_def mem_calloc_def never_fails_def Let_def
      split: option.splits sum.splits if_splits)

lemma read_attribute_stored:
  assumes "check_attribute_path s i j k = Some Success" "attribute_get_by_path s i j k = Some (Some a)"
    "plain_path P i j" "ats s a = Some at" "at_ext at = Some x"
    "\<not> has_flag (at_flags at) ATTRIBUTE_FLAG_MANAGED_INTERNALLY"
    "encode (p_tlv P) (e_traits E) (attr_val_of at x) = Some (Inr e)"
  shows "ReadAttribute E P (path_request i j k) s = Some (AE CHIP_NO_ERROR, Some e)"
  using assms get_val_internal_stored[of s a at x]
  by (simp add: ReadAttribute_def path_request_def plain_path_def TryReadViaAccessInterface_def)

lemma tlv_data_value:
  assumes api: "tlv_ok api" "traits_ok (e_traits E)" and v: "wire_wf v" "plain_value v"
    and e: "encode api (e_traits E) v = Some (Inr e)" and m: "never_fails (mem s)"
  shows "\<exists>w s'. get_val_from_tlv_data E api (Some e) (av_type v) s = Some (ESP_OK, Some w, s') \<and>
    (val_is_null (e_traits E) v \<and> val_is_null (e_traits E) w \<or> same_value w v)"
proof (cases "av_type v \<in> string_types")
  case False
  obtain w m1 where w: "decode api (e_traits E) (av_type v) e (mem s) = (CHIP_NO_ERROR, w, m1)"
      "val_is_null (e_traits E) v \<and> val_is_null (e_traits E) w \<or> same_value w v"
    using encode_decodes[OF api v(1) e, of "mem s"] m unfolding never_fails_def by blast
  then show ?thesis using False by (simp add: get_val_from_tlv_data_def)
next
  case True
  let ?t = "av_type v" and ?s = "a_s (v_a (av_val v))"
  let ?bs = "string_payload v @ (if char_string ?t then [0] else [])"
  have nn: "\<not> (a_b (v_a (av_val v)) = None \<and> ?s = null_len ?t)"
    using v(2) True wire_kind_string(2)[OF True] by (simp add: plain_value_def)
  have pos: "0 < unat ?s"
    using v(2) wire_kind_string(2)[OF True] by (simp add: plain_value_def word_less_nat_alt)
  have len: "length (string_payload v) = unat ?s" using string_payload_length(1)[OF v(1) True nn] .
  note d = string_decodes[OF api(1) v(1) True nn e, of "mem s"]
  have "never_fails (mem (s\<lparr>mem := snd (mem_calloc (mem s))\<rparr>))"
    using m by (auto simp: never_fails_def mem_calloc_def Let_def)
  then obtain p s2 where "alloc (s\<lparr>mem := snd (mem_calloc (mem s))\<rparr>) = (Some p, s2)"
    by (rule never_fails_alloc)
  then have "\<exists>w. get_val_from_tlv_data E api (Some e) ?t s = Some (ESP_OK, Some w, s2) \<and>
      av_type w = ?t \<and> a_s (v_a (av_val w)) = ?s \<and> a_b (v_a (av_val w)) = Some ?bs"
    using True d m pos len
    by (simp add: get_val_from_tlv_data_def never_fails_def with_arr_def Let_def)
  moreover have "type_kind ?t = None" using wire_kind_string(2)[OF True] by simp
  ultimately show ?thesis using len
    by (auto simp: same_value_def buf_bytes_def string_payload_def)
qed

lemma same_value_null: "same_value w v \<Longrightarrow> val_is_null T w = val_is_null T v"
  by (cases "av_type v") (simp_all add: same_value_def val_is_null_def)

lemma same_value_trans:
  assumes "same_value u w" "same_value w v"
  shows "same_value u v"
  using assms by (cases "type_kind (av_type v)") (simp_all add: same_value_def)

lemma same_value_plain: "same_value w v \<Longrightarrow> plain_value v \<Longrightarrow> plain_value w"
  using wire_kind_string(2)[of "av_type v"] by (auto simp: same_value_def plain_value_def split: option.splits)

lemma plain_value_type: "plain_value v \<Longrightarrow> av_type v \<noteq> VT_INVALID \<and> av_type v \<noteq> VT_ARRAY"
  by (auto simp: plain_value_def wire_kind_def)

text \<open>An attribute that holds a plain value: a read by path gives it.\<close>

lemma get_val_by_path_reads:
  assumes api: "tlv_ok (p_tlv P)" "traits_ok (e_traits E)" and path: "check_attribute_path s i j k = Some Success"
      "attribute_get_by_path s i j k = Some (Some a)" "plain_path P i j"
    and at: "ats s a = Some at" "at_ext at = Some x" "\<not> has_flag (at_flags at) ATTRIBUTE_FLAG_MANAGED_INTERNALLY"
    and v: "wire_wf (attr_val_of at x)" "same_value (attr_val_of at x) v" "plain_value v"
    and e: "encode (p_tlv P) (e_traits E) (attr_val_of at x) = Some (Inr e)" and m: "never_fails (mem s)"
  shows "\<exists>w s'. get_val_by_path E P i j k s = Some (ESP_OK, Some w, s') \<and>
    (val_is_null (e_traits E) v \<and> val_is_null (e_traits E) w \<or> same_value w v)"
proof -
  let ?v = "attr_val_of at x"
  have pv: "plain_value ?v" using same_value_plain[OF v(2,3)] .
  obtain p s1 where s1: "alloc s = (Some p, s1)" "same_paths s s1" "ats s1 = ats s" "never_fails (mem s1)"
    by (rule never_fails_alloc[OF m])
  have r: "ReadAttribute E P (path_request i j k) s1 = Some (AE CHIP_NO_ERROR, Some e)"
    using read_attribute_stored[of s1 i j k a P at x E e] path at e s1(3)
      same_paths_check[OF s1(2)] same_paths_attribute[OF s1(2)] by simp
  obtain w s' where w: "get_val_from_tlv_data E (p_tlv P) (Some e) (av_type ?v) s1 = Some (ESP_OK, Some w, s')"
      "val_is_null (e_traits E) ?v \<and> val_is_null (e_traits E) w \<or> same_value w ?v"
    using tlv_data_value[OF api v(1) pv e s1(4)] by blast
  have "get_val_type_by_path s i j k = Some (av_type ?v)"
    using path(2) at(1) by (simp add: get_val_type_by_path_def get_val_type_def attr_val_of_def)
  then have "get_val_by_path E P i j k s = Some (ESP_OK, Some w, s')"
    using plain_value_type[OF pv] s1(1) r w(1) by (simp add: get_val_by_path_def action_ok_def)
  moreover have "val_is_null (e_traits E) v \<and> val_is_null (e_traits E) w \<or> same_value w v"
    using w(2) same_value_null[OF v(2)] same_value_trans[OF _ v(2)] by blast
  ultimately show ?thesis by blast
qed

text \<open>The two ways in which a report succeeds.\<close>

lemma set_val_internal_quiet:
  assumes "set_val_internal E (Some a) (Some v) False s = Some (err, vo, s')" "ats s a = Some at" "at_ext at = Some x"
  shows "log s' = log s" and "mem_fail (mem s') = mem_fail (mem s)"
    and "err = ESP_ERR_NOT_FINISHED \<Longrightarrow> s' = s \<and> val_compare v (attr_val_of at x)"
  using assms
  by (auto simp: set_val_internal_def store_value_def set_string_def Let_def persist_store mem_calloc_def
      split: if_splits option.splits bind_splits prod.splits)

lemma report_cases:
  assumes inv: "dm_inv s" and path: "attribute_get_by_path s i j k = Some (Some a)"
    and at: "ats s a = Some at" "at_ext at = Some x" "\<not> has_flag (at_flags at) ATTRIBUTE_FLAG_MANAGED_INTERNALLY"
    and v: "plain_value v" and i: "i \<noteq> kInvalidEndpointId" "j \<noteq> kInvalidClusterId"
    and r: "report E P C md i j k (Some v) s = Some (ESP_OK, s')"
  obtains (same) "s' = s" "val_compare v (attr_val_of at x)"
  | (changed) c cl vo s1 where "set_val_internal E (Some a) (Some v) False s = Some (ESP_OK, vo, s1)"
      "cluster_get_by_id s i j = Some (Some c)" "cls s c = Some cl"
      "s' = emit (Mark_Dirty i j k) (put_cluster c (cl\<lparr>cl_version := cl_version cl + 1\<rparr>) s1)"
proof -
  obtain c cl where p: "cluster_get_by_id s i j = Some (Some c)" "cls s c = Some cl" "at_id at = k"
      "at_ok cl at" "cl_ep cl = i" "cl_id cl = j"
    using path_attribute[OF inv path] at(1) by (metis option.inject)
  have x: "x_ep x = i" "x_cl x = j" using p(4-6) at(2) by (auto simp: at_ok_def)
  let ?set = "set_val_internal E (Some a) (Some v) False s"
  have "get_path_from_attribute_handle s a = Some (ESP_OK, Some (i, j), k)"
    using at x p(3) by (simp add: get_path_from_attribute_handle_def)
  then have set: "set_val E w (Some a) (Some v) False s =
      (if at_type at \<noteq> av_type v then Some (ESP_ERR_INVALID_ARG, Some v, s) else ?set)" for w
    using path at plain_value_type[OF v]
    by (simp add: set_val_def set_val_by_path_def get_val_type_def attribute_get_flags_def)
  obtain err vo s1 where s1: "?set = Some (err, vo, s1)" "err = ESP_OK \<or> err = ESP_ERR_NOT_FINISHED"
      "if err = ESP_OK then Temporary_ReportAttributeChanged P i j k s1 = Some s' else s' = s1"
    using r path set
    by (auto simp: report_def update_or_report_def split: if_splits bind_splits)
  show thesis
  proof (cases "err = ESP_OK")
    case True
    have o: "only_attr a s s1" using set_val_internal_only_attr s1(1) by blast
    have "same_paths s s1" using o at(1) unfolding only_attr_def same_paths_def same_decl_def
      by (metis option.simps(9))
    then have "cluster_get_by_id s1 i j = Some (Some c)" "cls s1 c = Some cl"
      using same_paths_cluster(2)[of s s1] p o by (simp_all add: only_attr_def)
    then have "s' = emit (Mark_Dirty i j k) (put_cluster c (cl\<lparr>cl_version := cl_version cl + 1\<rparr>) s1)"
      using s1(3) True i
      by (auto simp: Temporary_ReportAttributeChanged_def increase_data_version_def update_cluster_def
          split: if_splits)
    then show thesis using changed s1(1) True p by blast
  next
    case False
    then show thesis using same set_val_internal_quiet(3)[OF s1(1) at(1,2)] s1(2,3) by auto
  qed
qed

lemma only_attr_paths: "only_attr a s t \<Longrightarrow> ats s a = Some at \<Longrightarrow> same_paths s t"
  unfolding only_attr_def same_paths_def same_decl_def by (metis option.simps(9))

lemma same_paths_version:
  assumes "same_paths s t" "cls t c = Some cl"
  shows "same_paths s (emit y (put_cluster c (cl\<lparr>cl_version := n\<rparr>) t))"
proof -
  have "map_option cl_id (cls s c) = Some (cl_id cl)" "map_option cl_attributes (cls s c) = Some (cl_attributes cl)"
    using assms unfolding same_paths_def by (metis option.simps(9))+
  then show ?thesis using assms by (cases "cls s c") (simp_all add: same_paths_def put_cluster_def)
qed

text \<open>What a successful report leaves behind.\<close>

lemma report_effect:
  assumes inv: "dm_inv s" and path: "attribute_get_by_path s i j k = Some (Some a)"
    and at: "ats s a = Some at" "at_ext at = Some x" "\<not> has_flag (at_flags at) ATTRIBUTE_FLAG_MANAGED_INTERNALLY"
    and v: "plain_value v" "wire_wf v" "wire_wf (attr_val_of at x)" and i: "i \<noteq> kInvalidEndpointId" "j \<noteq> kInvalidClusterId"
    and r: "report E P C md i j k (Some v) s = Some (ESP_OK, s')"
  obtains x' where "same_paths s s'" "ats s' a = Some (at\<lparr>at_ext := Some x'\<rparr>)" "mem_fail (mem s') = mem_fail (mem s)"
    "same_value (attr_val_of at x') v" "wire_wf (attr_val_of at x')"
    "if val_compare v (attr_val_of at x) then s' = s else log s' = log s @ [Mark_Dirty i j k]"
  using inv path at v(1) i r
proof (cases rule: report_cases)
  case same
  have "same_value (attr_val_of at x) v"
    using same_value_content[OF v(1)] same(2) by (simp add: val_compare_content)
  moreover have "at\<lparr>at_ext := Some x\<rparr> = at" using at(2) by (cases at) simp
  moreover have "same_paths s s" by (simp add: same_paths_def)
  ultimately show ?thesis using that[of x] same at v(3) by simp
next
  case (changed c cl vo s1)
  obtain at' y x1 m m1 where o: "ats s a = Some at'" "at_ext at' = Some y" "ats s1 a = Some (at'\<lparr>at_ext := Some x1\<rparr>)"
      "at_type at' = av_type v" "\<not> val_compare v (attr_val_of at' y)" "store_value v y m = Some (ESP_OK, x1, m1)"
    using set_val_internal_OK[OF changed(1)] by metis
  then have "at' = at" "y = x" using at by simp_all
  note o = o[unfolded this]
  have oa: "only_attr a s s1" using set_val_internal_only_attr[OF changed(1)] .
  then have "cls s1 c = Some cl" using changed(3) by (simp add: only_attr_def)
  then have paths: "same_paths s s'"
    using same_paths_version only_attr_paths[OF oa at(1)] changed(4) by simp
  have pos: "av_type v \<in> string_types \<longrightarrow> a_s (v_a (av_val v)) > 0"
    using v(1) wire_kind_string(2)[of "av_type v"] unfolding plain_value_def by (auto split: option.splits)
  have "reads_as (attr_val_of at x1) v" using store_value_reads_as[OF o(6,4) pos] .
  then have "same_value (attr_val_of at x1) v"
    using same_value_content[OF v(1)] by (auto simp: reads_as_def split: if_splits)
  moreover have "wire_wf (attr_val_of at x1)" using store_value_wire_wf[OF o(6) v(2,1) o(4)] .
  ultimately show ?thesis
    using that[of x1] paths changed(4) o set_val_internal_quiet(1,2)[OF changed(1) at(1,2)]
    by (simp add: put_cluster_def)
qed


text \<open>An instance of the interface to connectedhomeip.\<close>

definition demo_prov :: "tlv_elem prov" where
  "demo_prov =
     \<lparr>p_tlv = elem_api, p_context = True, p_registered = (\<lambda>i j. j = 0x1D), p_cluster_read = (\<lambda>i j k. (AS Success, None)),
      p_cluster_write = (\<lambda>i j k e. AS Success), p_cluster_invoke = (\<lambda>i j k e. None), p_cluster_flags = (\<lambda>i j. 0),
      p_cluster_version = (\<lambda>i j. 0), p_cluster_event = (\<lambda>i j k. (CHIP_NO_ERROR, Some kView)),
      p_aai = (\<lambda>i j. False), p_aai_read = (\<lambda>i j k. (CHIP_NO_ERROR, False, None)),
      p_aai_write = (\<lambda>i j k e. (CHIP_NO_ERROR, False)), p_handler = (\<lambda>i j. False),
      p_handler_invoke = (\<lambda>i j k e. False), p_command_cb = (\<lambda>f i j k e. ESP_OK),
      p_read_attribute_table = [], p_write_attribute_table = [], p_invoke_command_table = [], p_read_event_table = [],
      p_fabric_scoped = (\<lambda>i j. False), p_timed_invoke = (\<lambda>i j. False), p_large_payload = (\<lambda>i j. False)\<rparr>"

lemma demo_prov_simps [simp]:
  "p_tlv demo_prov = elem_api" "p_context demo_prov" "p_registered demo_prov i j \<longleftrightarrow> j = 0x1D"
  "\<not> p_aai demo_prov i j"
  by (simp_all add: demo_prov_def)

definition demo_change :: change_env where
  "demo_change = \<lparr>c_pre_change = MatterPreAttributeChangeCallback, c_pre_function = (\<lambda>f. MatterPreAttributeChangeCallback)\<rparr>"

definition demo_metadata :: metadata where
  "demo_metadata = \<lparr>md_id = 0, md_type = ZCL_NO_DATA, md_size = 0, md_mask = 0, md_minmax = None\<rparr>"

lemma demo_paths [simp]:
  "attribute_get_by_path demo 1 6 0 = Some (Some 4)" "attribute_get_by_path demo 1 6 1 = Some (Some 5)"
  by (simp_all add: attribute_get_by_path_def attribute_get_def demo_cluster_def demo_attr_defs)

lemma demo_never_fails [simp]: "never_fails (mem demo)"
  by (simp add: never_fails_def)


section \<open>Writing strings\<close>

definition app_accepts :: "'n env \<Rightarrow> bool" where
  "app_accepts E \<longleftrightarrow> (\<forall>l f ty i j k v p. fst (e_attribute_cb E l f ty i j k v p) = ESP_OK)"

lemma execute_callback_total:
  assumes "dm_inv s" "app_accepts E"
  obtains v' t where "execute_callback E ty i j k v s = Some (ESP_OK, v', t)" "same_store s t"
proof -
  obtain h where h: "endpoint_get_by_id s i = Some h" "\<And>a. h = Some a \<longleftrightarrow> (\<exists>e. eps s a = Some e \<and> ep_id e = i)"
    using endpoint_get_by_id_exact[OF assms(1)] by blast
  have "\<exists>p. get_priv_data s i = Some p"
  proof (cases h)
    case (Some a)
    then obtain e where "eps s a = Some e" using h(2) by blast
    then show ?thesis using Some h(1) by (simp add: get_priv_data_def)
  qed (use h(1) in \<open>simp add: get_priv_data_def\<close>)
  then obtain p where p: "get_priv_data s i = Some p" by blast
  have "\<exists>v' t. execute_callback E ty i j k v s = Some (ESP_OK, v', t)"
  proof (cases "attribute_callback s")
    case (Some f)
    obtain v' where "e_attribute_cb E (log s) f ty i j k v p = (ESP_OK, v')"
      using assms(2) unfolding app_accepts_def by (metis prod.collapse)
    then show ?thesis using Some p by (simp add: execute_callback_def)
  qed (simp add: execute_callback_def)
  then show thesis using that execute_callback_store by blast
qed

lemma has_flag_low: "has_flag (ucast f :: u8) (ucast ATTRIBUTE_FLAG_MIN_MAX) \<longleftrightarrow> has_flag f ATTRIBUTE_FLAG_MIN_MAX"
proof -
  have four: "(4 :: 'b::len word) = 2 ^ 2" by simp
  have "has_flag f (4 :: u16) \<longleftrightarrow> bit f 2" for f
    unfolding has_flag_def four and_exp_eq_0_iff_not_bit by simp
  moreover have "has_flag f (4 :: u8) \<longleftrightarrow> bit f 2" for f
    unfolding has_flag_def four and_exp_eq_0_iff_not_bit by simp
  ultimately show ?thesis by (simp add: ATTRIBUTE_FLAG_MIN_MAX_def bit_simps)
qed

lemma string_metadata:
  assumes "attribute_get_by_path s i j k = Some (Some a)" "ats s a = Some at" "at_ext at = Some x"
    "\<not> has_flag (at_flags at) ATTRIBUTE_FLAG_MANAGED_INTERNALLY" "\<not> has_flag (at_flags at) ATTRIBUTE_FLAG_MIN_MAX"
  obtains md' where "emberAfLocateAttributeMetadata s i j k md = Some (Some md')"
    "md_size md' = get_ember_attr_size_from_val (attr_val_of at x)"
  using assms that get_val_internal_stored[of s a at x]
  by (simp add: emberAfLocateAttributeMetadata_def attribute_get_flags_def has_flag_low Let_def)

text \<open>How much room the buffer of a write has: the length of the stored string and one byte.\<close>

definition stored_len :: "val_type \<Rightarrow> arr \<Rightarrow> nat" where
  "stored_len t a = (if a_s a = null_len t then 0 else unat (a_s a))"

lemma unat_u16_Suc: "(n :: u16) \<noteq> 0xFFFF \<Longrightarrow> unat (n + 1) = unat n + 1"
  using u16_below_max[of n] by (simp add: unat_plus_if')

lemma string_size:
  assumes "av_type v \<in> string_types" "wire_wf v"
  shows "unat (get_ember_attr_size_from_val v) = stored_len (av_type v) (v_a (av_val v)) + 1"
proof -
  let ?n = "a_s (v_a (av_val v))"
  have k: "wire_kind (av_type v) = None" using wire_kind_string(2)[OF assms(1)] by simp
  have "?n \<noteq> 0xFFFF" if "?n \<noteq> null_len (av_type v)"
    using that wire_wfD[OF assms(2,1)] by (auto simp: string_wf_def null_len_def short_string_def split: if_splits)
  then show ?thesis using k assms(1) unat_u16_Suc[of ?n]
    by (auto simp: get_ember_attr_size_from_val_def stored_len_def Let_def)
qed

text \<open>The buffer is refused when the string needs more, its length counted with one byte or two.\<close>

lemma build_refused:
  assumes t: "t \<in> string_types" and n: "unat (n :: u16) + 2 < 65536"
    and size: "unat bufferSize < unat n + (if short_string t then 1 else 2)"
  shows "BuildEmberBufferFromAttrVal T (with_arr t b n (n + (if short_string t then 1 else 2))) (Some buf) bufferSize =
    Some (ResourceExhausted, Some buf)"
proof -
  have k: "wire_kind t = None" using wire_kind_string(2)[OF t] by simp
  have "unat (n + (if short_string t then 1 else 2)) = unat n + (if short_string t then 1 else 2)"
    using n by (simp add: unat_plus_if')
  then have "bufferSize < n + (if short_string t then 1 else 2)" using size by (simp add: word_less_nat_alt)
  then show ?thesis using k t by (auto simp: BuildEmberBufferFromAttrVal_def with_arr_def)
qed

text \<open>C37: a client cannot lengthen a string.  A write of a string longer than the stored one, or for
  the long string types at least as long, is answered with \<open>ResourceExhausted\<close> and changes no
  attribute, even when the string is within the size the attribute was declared with: the buffer of
  the write has the size of the present value.\<close>

theorem write_string_refused:
  assumes "tlv_ok (p_tlv P)" "app_accepts E" "dm_inv s" "never_fails (mem s)"
    "attribute_get_by_path s i j k = Some (Some a)" "plain_path P i j" "ats s a = Some at" "at_ext at = Some x"
    "\<not> has_flag (at_flags at) ATTRIBUTE_FLAG_MIN_MAX" "wire_wf (attr_val_of at x)"
    "av_type v \<in> string_types" "at_type at = av_type v" "plain_value v" "wire_wf v" "unat (a_s (v_a (av_val v))) + 2 < 65536"
    "encode (p_tlv P) (e_traits E) v = Some (Inr e)"
    and longer: "stored_len (at_type at) (v_a (x_val x)) <
      unat (a_s (v_a (av_val v))) + (if short_string (at_type at) then 0 else 1)"
  shows "\<exists>s'. WriteAttribute E P C md (path_request i j k) e s = Some (AS ResourceExhausted, s') \<and> ats s' = ats s"
proof -
  let ?w = "with_arr (av_type v) (Some (string_payload v @ (if char_string (av_type v) then [0] else [])))
     (a_s (v_a (av_val v))) (a_s (v_a (av_val v)) + (if short_string (av_type v) then 1 else 2))"
  obtain c cl at' where p: "cluster_get_by_id s i j = Some (Some c)" "ats s a = Some at'" "at_ok cl at'"
      "check_attribute_path s i j k = Some Success" by (rule path_attribute[OF assms(3,5)])
  then have man: "\<not> has_flag (at_flags at) ATTRIBUTE_FLAG_MANAGED_INTERNALLY" using assms(7,8) by (auto simp: at_ok_def)
  have nn: "\<not> (a_b (v_a (av_val v)) = None \<and> a_s (v_a (av_val v)) = null_len (av_type v))"
    using assms(13) wire_kind_string(2)[OF assms(11)] by (simp add: plain_value_def)
  have d: "decode (p_tlv P) (e_traits E) (av_type v) e m = (CHIP_NO_ERROR, ?w, snd (mem_calloc m))" if "never_fails m" for m
    using string_decodes[OF assms(1,14,11) nn assms(16)] that by (simp add: never_fails_def)
  let ?s = "s\<lparr>mem := snd (mem_calloc (mem s))\<rparr>"
  have s1: "same_paths s ?s" "never_fails (mem ?s)" "dm_inv ?s"
    using assms(4) inv_cong[OF assms(3), of ?s] by (simp_all add: same_paths_def never_fails_def mem_calloc_def Let_def)
  obtain v' t where cb: "execute_callback E PRE_UPDATE i j k ?w ?s = Some (ESP_OK, v', t)" "same_store ?s t"
    by (rule execute_callback_total[OF s1(3) assms(2)])
  have t: "same_paths s t" "ats t = ats s" "never_fails (mem t)"
    using cb(2) s1(2) by (simp_all add: same_store_def same_paths_def)
  obtain md' where md': "emberAfLocateAttributeMetadata t i j k md = Some (Some md')"
      "md_size md' = get_ember_attr_size_from_val (attr_val_of at x)"
    by (rule string_metadata[of t i j k a at x md])
       (use assms t man same_paths_attribute(2)[OF t(1)] in simp_all)
  have "unat (md_size md') < unat (a_s (v_a (av_val v))) + (if short_string (av_type v) then 1 else 2)"
    using string_size[of "attr_val_of at x"] assms(10-12) longer md'(2) by (auto simp: attr_val_of_def)
  note b = build_refused[OF assms(11,15) this]
  have g: "get_val_internal t (Some a) = Some (ESP_OK, Some (attr_val_of at x))"
    using get_val_internal_stored[of t a at x] assms(7,8) t(2) man by simp
  have "write_stored E P C md (path_request i j k) e (Some a) v' (Some c) t =
      Some (AS ResourceExhausted, t\<lparr>mem := snd (mem_calloc (mem t))\<rparr>)"
    using md'(1) g d[OF t(3)] b assms(12) by (simp add: write_stored_def path_request_def attr_val_of_def)
  then have "write_data_model E P C md (path_request i j k) e (Some a) v' t =
      Some (AS ResourceExhausted, t\<lparr>mem := snd (mem_calloc (mem t))\<rparr>)"
    using same_paths_check[OF t(1)] same_paths_cluster(2)[OF t(1)] p assms(6)
    by (simp add: write_data_model_def version_matches_def TryWriteViaAccessInterface_def plain_path_def path_request_def)
  then have "WriteAttribute E P C md (path_request i j k) e s = Some (AS ResourceExhausted, t\<lparr>mem := snd (mem_calloc (mem t))\<rparr>)"
    using assms(5-7,12) d[OF assms(4)] cb(1)
    by (simp add: WriteAttribute_def get_val_type_def path_request_def plain_path_def)
  then show ?thesis using t(2) by simp
qed

theorem write_string_refused_witness:
  "\<exists>s'. WriteAttribute demo_env demo_prov demo_change demo_metadata (path_request 1 6 1) (E_String [104, 101, 121]) demo =
       Some (AS ResourceExhausted, s') \<and> ats s' 5 = Some demo_string"
proof -
  let ?v = "esp_matter_char_str (Some [104, 101, 121, 0]) 3"
  obtain x where x: "at_ext demo_string = Some x" "v_a (x_val x) = \<lparr>a_b = Some [104, 105, 0], a_s = 2, a_max = 8, a_t = 3\<rparr>"
    by (simp add: demo_string_def)
  have v: "wire_wf ?v" "plain_value ?v" "av_type ?v = VT_CHAR_STRING" "a_s (v_a (av_val ?v)) = 3"
    by (simp_all add: wire_wf_def string_wf_def plain_value_def wire_kind_def esp_matter_char_str_def arr_attr_val_def
        c_string_def char_string_def null_len_def)
  have w: "wire_wf (attr_val_of demo_string x)"
    using x by (simp add: wire_wf_def attr_val_of_def string_wf_def c_string_def demo_string_def)
  have e: "encode (p_tlv demo_prov) (e_traits demo_env) ?v = Some (Inr (E_String [104, 101, 121]))"
    by (simp add: encode_def wire_kind_def encode_string_def esp_matter_char_str_def arr_attr_val_def c_string_def
        char_string_def elem_api_def null_len_def)
  have "at_type demo_string = VT_CHAR_STRING" "at_flags demo_string = 0x21" "app_accepts demo_env"
    by (simp_all add: demo_string_def app_accepts_def)
  then show ?thesis
    using write_string_refused[OF _ _ demo_inv demo_never_fails demo_paths(2) _ _ x(1) _ w _ _ v(2,1) _ e, of demo_change demo_metadata] v(3,4) x(2) elem_api_ok
    by (auto simp: plain_path_def stored_len_def null_len_def short_string_def)
qed

section \<open>Listings\<close>

text \<open>What the sources rely on for a list builder: room that was reserved can be used.  \<open>items\<close> and
  \<open>room\<close> are the content of a builder and what can still be appended.\<close>

definition builder_ok :: "('x, 'b) builder_api \<Rightarrow> ('b \<Rightarrow> 'x list) \<Rightarrow> ('b \<Rightarrow> nat) \<Rightarrow> bool" where
  "builder_ok B items room \<longleftrightarrow>
     (\<forall>n b b'. b_reserve B n b = Inr b' \<longrightarrow> items b' = items b \<and> n \<le> room b') \<and>
     (\<forall>x b. 0 < room b \<longrightarrow> (\<exists>b'. b_append B x b = Inr b' \<and> items b' = items b @ [x] \<and> room b' = room b - 1)) \<and>
     (\<forall>x b. room b = 0 \<longrightarrow> (\<exists>err. b_append B x b = Inl err \<and> err \<noteq> CHIP_NO_ERROR))"

lemma builder_append:
  assumes "builder_ok B items room" "0 < room b"
  obtains b' where "b_append B x b = Inr b'" "items b' = items b @ [x]" "room b' = room b - 1"
  using assms unfolding builder_ok_def by blast

lemma append_each_ok:
  assumes B: "builder_ok B items room" and e: "\<And>a. a \<in> set as \<Longrightarrow> entry a = Some (Inr (f a))"
    and r: "length (List.map_filter f as) \<le> room b"
  shows "\<exists>b'. append_each B entry as b = Some (CHIP_NO_ERROR, b') \<and> items b' = items b @ List.map_filter f as \<and>
    room b' = room b - length (List.map_filter f as)"
  using e r
proof (induction as arbitrary: b)
  case Nil
  then show ?case by (simp add: List.map_filter_simps)
next
  case (Cons a as)
  show ?case
  proof (cases "f a")
    case None
    then show ?thesis using Cons by (simp add: List.map_filter_simps)
  next
    case (Some y)
    then have pos: "0 < room b" using Cons.prems(2) by (simp add: List.map_filter_simps)
    obtain b1 where b1: "b_append B y b = Inr b1" "items b1 = items b @ [y]" "room b1 = room b - 1"
      by (rule builder_append[OF B pos])
    then have "length (List.map_filter f as) \<le> room b1" using Some Cons.prems(2) by (simp add: List.map_filter_simps)
    then show ?thesis using Cons.IH[of b1] Cons.prems(1) Some b1 by (simp add: List.map_filter_simps)
  qed
qed

lemma append_each_full:
  assumes B: "builder_ok B items room" and e: "\<And>a. a \<in> set as \<Longrightarrow> entry a = Some (Inr (f a))"
    and r: "room b = 0" "List.map_filter f as \<noteq> []"
  shows "\<exists>err. append_each B entry as b = Some (err, b) \<and> err \<noteq> CHIP_NO_ERROR"
  using e r(2)
proof (induction as)
  case (Cons a as)
  show ?case
  proof (cases "f a")
    case (Some y)
    obtain err where "b_append B y b = Inl err" "err \<noteq> CHIP_NO_ERROR"
      using B r(1) unfolding builder_ok_def by blast
    then show ?thesis using Cons.prems(1) Some by simp
  qed (use Cons in \<open>simp add: List.map_filter_simps\<close>)
qed (simp add: List.map_filter_simps)

lemma map_map_filter: "map g (List.map_filter f xs) = List.map_filter (\<lambda>x. map_option g (f x)) xs"
  by (induction xs) (simp_all add: List.map_filter_simps split: option.splits)

lemma length_map_filter: "length (List.map_filter f xs) = length (filter (\<lambda>x. f x \<noteq> None) xs)"
  by (induction xs) (auto simp: List.map_filter_simps split: option.splits)

lemma map_filter_cong: "(\<And>x. x \<in> set xs \<Longrightarrow> f x = g x) \<Longrightarrow> List.map_filter f xs = List.map_filter g xs"
  by (induction xs) (simp_all add: List.map_filter_simps split: option.splits)

definition server_id :: "'n dm \<Rightarrow> addr \<Rightarrow> u32 option" where
  "server_id s c = do { cl \<leftarrow> cls s c; if has_flag (cl_flags cl) CLUSTER_FLAG_SERVER then Some (cl_id cl) else None }"

definition server_ids :: "'n dm \<Rightarrow> endpoint_t \<Rightarrow> u32 list" where
  "server_ids s e = List.map_filter (server_id s) (ep_clusters e)"

lemma server_entries:
  assumes "cls s c = Some cl"
  obtains x where "server_cluster_entry_of P i s c = Some (Inr x)" "map_option se_id x = server_id s c"
  using assms that
  by (cases "has_flag (cl_flags cl) CLUSTER_FLAG_SERVER"; cases "p_registered P i (cl_id cl)")
     (simp_all add: server_cluster_entry_of_def server_id_def cluster_get_flags_def cluster_get_id_def get_data_version_def)

lemma server_count:
  assumes inv: "dm_inv s" and e: "eps s p = Some e" "ep_id e \<noteq> kInvalidEndpointId" and n: "length (ep_clusters e) < 2 ^ 32"
  shows "\<exists>count. get_cluster_count s (ucast (ep_id e)) kInvalidClusterId CLUSTER_FLAG_SERVER = Some count \<and>
    unat count = (if ep_enabled e then length (server_ids s e) else 0)"
proof -
  obtain nd where nd: "node s = Some nd"
    using owns_parent[OF inv_ep[OF inv, unfolded ep_layer_def] e(1)] by blast
  have "endpoint_get_by_id s (ep_id e) = Some (Some p)" using endpoint_get_by_id_iff(1)[OF inv] e(1) by blast
  moreover have "(ucast (ucast (ep_id e) :: u32) :: u16) = ep_id e" by (rule bit_word_eqI) (simp add: bit_unsigned_iff)
  ultimately have "get_cluster_count s (ucast (ep_id e)) kInvalidClusterId CLUSTER_FLAG_SERVER =
      Some (of_nat (card (matching s kInvalidClusterId CLUSTER_FLAG_SERVER p)))"
    using nd e(2) count_on_endpoint_card(1)[OF inv e(1)] by (simp add: get_cluster_count_def)
  moreover have "card (matching s kInvalidClusterId CLUSTER_FLAG_SERVER p) =
      (if ep_enabled e then length (server_ids s e) else 0)"
  proof (cases "ep_enabled e")
    case True
    have "matching s kInvalidClusterId CLUSTER_FLAG_SERVER p = set (filter (\<lambda>c. server_id s c \<noteq> None) (ep_clusters e))"
      using e(1) True by (auto simp: matching_def matches_def server_id_def split: bind_splits if_splits)
    moreover have "distinct (filter (\<lambda>c. server_id s c \<noteq> None) (ep_clusters e))"
      using clusters_live(2)[OF inv e(1)] by simp
    ultimately show ?thesis using True distinct_card[of "filter (\<lambda>c. server_id s c \<noteq> None) (ep_clusters e)"]
      by (simp only: server_ids_def length_map_filter if_True)
  qed (use e(1) in \<open>simp add: matching_def\<close>)
  moreover have "length (server_ids s e) < 2 ^ 32"
    unfolding server_ids_def length_map_filter using n by (rule le_less_trans[OF length_filter_le])
  ultimately show ?thesis by (auto simp: unsigned_of_nat take_bit_nat_eq_self)
qed

text \<open>C21: the server clusters of an endpoint are listed completely, in their order and within the
  room that was reserved, when the endpoint is enabled.  A disabled endpoint passes the check of the
  path, but the count behind the reservation is then 0, so the listing ends with the error of a full
  list as soon as there is a server cluster.\<close>

theorem server_clusters_listed:
  assumes "dm_inv s" "eps s p = Some e" "ep_id e \<noteq> kInvalidEndpointId" "length (ep_clusters e) < 2 ^ 32"
    "builder_ok B items room" and reserve: "\<And>n. \<exists>b'. b_reserve B n b = Inr b' \<and> room b' = n"
  shows "\<exists>err b'. ServerClusters P B (ep_id e) s b = Some (err, b') \<and>
    (if ep_enabled e \<or> server_ids s e = []
     then err = CHIP_NO_ERROR \<and> map se_id (items b') = map se_id (items b) @ server_ids s e
     else err \<noteq> CHIP_NO_ERROR)"
proof -
  let ?entry = "server_cluster_entry_of P (ep_id e) s"
  define f where "f c = (case ?entry c of Some (Inr x) \<Rightarrow> x | _ \<Rightarrow> None)" for c
  have entry: "?entry c = Some (Inr (f c))" "map_option se_id (f c) = server_id s c" if c: "c \<in> set (ep_clusters e)" for c
  proof -
    obtain cl where "cls s c = Some cl" using clusters_live(1)[OF assms(1,2)] c by (auto simp: list_all_iff)
    then obtain x where "?entry c = Some (Inr x)" "map_option se_id x = server_id s c" by (rule server_entries)
    then show "?entry c = Some (Inr (f c))" "map_option se_id (f c) = server_id s c" by (simp_all add: f_def)
  qed
  have ids: "map se_id (List.map_filter f (ep_clusters e)) = server_ids s e"
    unfolding map_map_filter server_ids_def by (rule map_filter_cong) (simp add: entry(2))
  then have len: "length (List.map_filter f (ep_clusters e)) = length (server_ids s e)" by (metis length_map)
  obtain count where count: "get_cluster_count s (ucast (ep_id e)) kInvalidClusterId CLUSTER_FLAG_SERVER = Some count"
      "unat count = (if ep_enabled e then length (server_ids s e) else 0)"
    using server_count[OF assms(1-4)] by blast
  obtain b1 where b1: "b_reserve B (unat count) b = Inr b1" "room b1 = unat count" using reserve by blast
  have items: "items b1 = items b" using assms(5) b1(1) unfolding builder_ok_def by blast
  have get: "endpoint_get_by_id s (ep_id e) = Some (Some p)" using endpoint_get_by_id_iff(1)[OF assms(1)] assms(2) by blast
  have run: "ServerClusters P B (ep_id e) s b = append_each B ?entry (ep_clusters e) b1"
    using get count(1) b1(1) assms(2)
    by (simp add: ServerClusters_def check_endpoint_path_def clusters_of_def reserve_and_append_def)
  show ?thesis
  proof (cases "ep_enabled e \<or> server_ids s e = []")
    case True
    then have "length (List.map_filter f (ep_clusters e)) \<le> room b1" using len count(2) b1(2) by auto
    from append_each_ok[OF assms(5) entry(1) this] obtain b' where
      "append_each B ?entry (ep_clusters e) b1 = Some (CHIP_NO_ERROR, b')"
      "items b' = items b1 @ List.map_filter f (ep_clusters e)" by blast
    then show ?thesis using True run items ids by simp
  next
    case False
    then have "room b1 = 0" "List.map_filter f (ep_clusters e) \<noteq> []" using len count(2) b1(2) ids by auto
    from append_each_full[OF assms(5) entry(1) this] show ?thesis using False run by auto
  qed
qed

text \<open>An instance of the builder: a list with a limit that reserving sets.\<close>

definition list_builder :: "('x, 'x list \<times> nat) builder_api" where
  "list_builder =
     \<lparr>b_reserve = (\<lambda>n b. Inr (fst b, n)),
      b_append = (\<lambda>x b. if snd b = 0 then Inl CHIP_ERROR_BUFFER_TOO_SMALL else Inr (fst b @ [x], snd b - 1))\<rparr>"

lemma list_builder_ok: "builder_ok list_builder fst snd"
  by (auto simp: builder_ok_def list_builder_def)

theorem server_clusters_listed_witness:
  "(\<exists>b'. ServerClusters demo_prov list_builder 1 demo ([], 0) = Some (CHIP_NO_ERROR, b') \<and> map se_id (fst b') = [6]) \<and>
   (\<exists>err b'. ServerClusters demo_prov list_builder 1 (put_endpoint 2 (demo_endpoint\<lparr>ep_enabled := False\<rparr>) demo) ([], 0) =
      Some (err, b') \<and> err \<noteq> CHIP_NO_ERROR)"
proof -
  let ?e = "demo_endpoint\<lparr>ep_enabled := False\<rparr>"
  let ?s = "put_endpoint 2 ?e demo"
  have inv: "dm_inv ?s" by (rule inv_endpoint_redeclare[OF demo_inv, where e = demo_endpoint]) simp_all
  have res: "\<exists>b'. b_reserve list_builder n b = Inr b' \<and> snd b' = n" for n and b :: "server_cluster_entry list \<times> nat"
    by (simp add: list_builder_def)
  have ids: "server_ids demo demo_endpoint = [6]" "server_ids ?s ?e = [6]"
    by (simp_all add: server_ids_def server_id_def demo_endpoint_def demo_cluster_def List.map_filter_simps has_flag_def flag_defs)
  have e: "ep_id demo_endpoint = 1" "ep_enabled demo_endpoint" "length (ep_clusters demo_endpoint) = 1"
    by (simp_all add: demo_endpoint_def)
  show ?thesis
    using server_clusters_listed[OF demo_inv _ _ _ list_builder_ok res, of 2 demo_endpoint demo_prov "([], 0)"]
      server_clusters_listed[OF inv _ _ _ list_builder_ok res, of 2 ?e demo_prov "([], 0)"] e ids
    by (auto simp: kInvalidEndpointId_def)
qed

end
