(* ===== verification/EM_System.thy ===== *)
theory EM_System
  imports EM_ProviderProps
begin

text \<open>
  Runs of the data model.  A step is one call of an operation that returns; the theory shows that
  every operation keeps the shape of the store and the counter of endpoint ids ahead of the ids.
\<close>

section \<open>Keeping the invariant\<close>

definition ids_sub :: "'n dm \<Rightarrow> 'n dm \<Rightarrow> bool" where
  "ids_sub s t \<longleftrightarrow>
     (\<forall>nd'. node t = Some nd' \<longrightarrow> (\<exists>nd. node s = Some nd \<and> nd_min_unused nd = nd_min_unused nd')) \<and>
     (\<forall>a e'. eps t a = Some e' \<longrightarrow> (\<exists>b e. eps s b = Some e \<and> ep_id e = ep_id e'))"

definition keeps :: "'n dm \<Rightarrow> 'n dm \<Rightarrow> bool" where
  "keeps s t \<longleftrightarrow> (dm_inv s \<longrightarrow> dm_inv t \<and> ids_sub s t)"

lemma ids_sub_update:
  assumes "node t = node s" "eps t = (eps s)(p \<mapsto> e')" "eps s p = Some e" "ep_id e' = ep_id e"
  shows "ids_sub s t"
  unfolding ids_sub_def
proof (intro conjI allI impI)
  fix a f assume "eps t a = Some f"
  then show "\<exists>b e. eps s b = Some e \<and> ep_id e = ep_id f" using assms(2-4) by (cases "a = p") auto
qed (use assms(1) in simp)

lemma ids_sub_below: "ids_sub s t \<Longrightarrow> ids_below s \<Longrightarrow> ids_below t"
  unfolding ids_sub_def ids_below_def by metis

lemma keeps_refl [simp]: "keeps s s"
  by (auto simp: keeps_def ids_sub_def)

lemma keeps_trans [trans]: "keeps s t \<Longrightarrow> keeps t u \<Longrightarrow> keeps s u"
  unfolding keeps_def ids_sub_def by metis

lemma keepsI:
  assumes "dm_inv s \<Longrightarrow> dm_inv t" "dm_inv s \<Longrightarrow> node t = node s" "dm_inv s \<Longrightarrow> eps t = eps s"
  shows "keeps s t"
  using assms by (auto simp: keeps_def ids_sub_def)

lemma keeps_emit [simp]: "keeps s (emit x s)"
  by (rule keepsI) simp_all

lemma keeps_log_ext [simp]: "keeps s (log_ext l s)"
  by (rule keepsI) simp_all

lemma keeps_mem: "mem_next (mem s) \<le> mem_next m \<Longrightarrow> keeps s (s\<lparr>mem := m\<rparr>)"
  by (rule keepsI) (auto intro: inv_cong)

lemma keeps_nvs: "keeps s (s\<lparr>nvs := n\<rparr>)" "keeps s (s\<lparr>timers := ts, nvs := n\<rparr>)" "keeps s (s\<lparr>timers := ts\<rparr>)"
  by (rule keepsI; auto intro: inv_cong)+

lemma keeps_same_store: "same_store s t \<Longrightarrow> keeps s t"
  by (rule keepsI) (auto simp: same_store_inv same_store_def)

lemma keeps_alloc: "alloc s = (p, t) \<Longrightarrow> keeps s t"
  by (auto simp: alloc_def mem_calloc_def Let_def split: if_splits intro!: keeps_mem)

lemma keeps_put_endpoint:
  assumes "eps s p = Some e" "ep_id e' = ep_id e" "ep_clusters e' = ep_clusters e"
  shows "keeps s (put_endpoint p e' s)"
  using assms inv_endpoint_redeclare[of s p e e'] by (fastforce simp: keeps_def ids_sub_def)

section \<open>Attributes, commands and events\<close>

lemma keeps_attribute_create:
  assumes "attribute_create E ch i flags v mx s = Some (h, s')"
  shows "keeps s s'"
proof (cases ch)
  case (Some c)
  then obtain cl where cl: "cls s c = Some cl" using assms by (auto simp: attribute_create_def split: bind_splits)
  note r = assms[unfolded Some]
  from r cl have "node s' = node s \<and> eps s' = eps s" by (cases rule: attribute_create_cases) simp_all
  then show ?thesis using attribute_create_inv[OF r] by (intro keepsI) simp_all
qed (use assms in simp)

lemma keeps_attribute_destroy:
  assumes "attribute_destroy E ch h s = Some (err, s')"
  shows "keeps s s'"
proof (cases "\<exists>c a cl. ch = Some c \<and> h = Some a \<and> cls s c = Some cl \<and> a \<in> set (cl_attributes cl)")
  case False
  then have "s' = s" using assms by (auto simp: attribute_destroy_def split: option.splits bind_splits if_splits)
  then show ?thesis by simp
next
  case True
  then obtain c a cl where c: "ch = Some c" "h = Some a" "cls s c = Some cl" "a \<in> set (cl_attributes cl)" by blast
  then obtain at where at: "ats s a = Some at"
    using assms by (auto simp: attribute_destroy_def free_attribute_def split: bind_splits)
  have fr: "node s' = node s" "eps s' = eps s" "cms s' = cms s" "evs s' = evs s" "mem s' = mem s"
      "cls s' = (cls s)(c \<mapsto> cl\<lparr>cl_attributes := remove1 a (cl_attributes cl)\<rparr>)" "ats s' = (ats s)(a := None)"
    using assms c at
    by (auto simp: attribute_destroy_def free_attribute_def Let_def put_cluster_def split: if_splits bind_splits)
  show ?thesis using inv_remove_attribute[OF _ c(3,4) fr(1-7)] fr(1,2) by (intro keepsI) simp_all
qed

lemma keeps_set_val_internal:
  assumes "set_val_internal E h vo cb s = Some (err, vo', s')"
  shows "keeps s s'"
proof (cases "h = None \<or> vo = None")
  case True
  then show ?thesis using assms by auto
next
  case False
  then obtain a v where "h = Some a" "vo = Some v" by auto
  then have "only_attr a s s'" using set_val_internal_only_attr assms by simp
  then show ?thesis using set_val_internal_inv[OF assms] by (intro keepsI) (simp_all add: only_attr_def)
qed

lemma keeps_add_bounds:
  assumes "add_bounds E h mn mx s = Some (err, s')"
  shows "keeps s s'"
proof (cases h)
  case (Some a)
  then obtain at where at: "ats s a = Some at" using assms by (auto simp: add_bounds_def split: bind_splits)
  have "dm_inv s' \<and> bounds_frame s s'" if inv: "dm_inv s"
  proof -
    obtain err1 s1 where "add_bounds E (Some a) mn mx s = Some (err1, s1)" "dm_inv s1" "bounds_frame s s1"
      by (rule add_bounds_total[OF inv at])
    then show ?thesis using assms Some by simp
  qed
  then show ?thesis by (intro keepsI) (auto simp: bounds_frame_def)
qed (use assms in \<open>simp add: add_bounds_def\<close>)

lemma keeps_put_attr:
  assumes "ats s a = Some at" "at_id at' = at_id at" "\<And>cl. at_ok cl at \<Longrightarrow> at_ok cl at'"
  shows "keeps s (put_attr a at' s)"
  by (rule keepsI) (auto intro: inv_attr_redeclare[OF _ assms])

lemma not_managed_flags:
  "\<not> has_flag ATTRIBUTE_FLAG_OVERRIDE ATTRIBUTE_FLAG_MANAGED_INTERNALLY"
  "\<not> has_flag ATTRIBUTE_FLAG_DEFERRED ATTRIBUTE_FLAG_MANAGED_INTERNALLY"
  by (simp_all add: has_flag_def flag_defs)

lemma keeps_set_override_callback:
  assumes "set_override_callback h callback s = Some (err, s')"
  shows "keeps s s'"
  using assms
  by (auto simp: set_override_callback_def split: option.splits bind_splits if_splits intro!: keeps_put_attr)
     (auto simp: at_ok_def has_flag_or not_managed_flags)

lemma keeps_set_deferred_persistence:
  assumes "set_deferred_persistence h s = Some (err, s')"
  shows "keeps s s'"
  using assms
  by (auto simp: set_deferred_persistence_def split: option.splits bind_splits if_splits intro!: keeps_put_attr)
     (auto simp: at_ok_def has_flag_or not_managed_flags)

lemma keeps_deferred_attribute_write: "deferred_attribute_write E a s = Some s' \<Longrightarrow> keeps s s'"
  by (auto simp: deferred_attribute_write_def split: bind_splits intro: keeps_nvs)

lemma keeps_command_create:
  assumes "command_create ch i flags callback s = Some (h, s')"
  shows "keeps s s'"
proof (cases ch)
  case (Some c)
  have "node s' = node s \<and> eps s' = eps s"
    using assms Some
    by (auto simp: command_create_def alloc_def mem_calloc_def Let_def put_cluster_def
        split: option.splits bind_splits if_splits prod.splits)
  then show ?thesis using command_create_inv assms Some by (intro keepsI) auto
qed (use assms in \<open>simp add: command_create_def\<close>)

lemma keeps_event_create:
  assumes "event_create ch i s = Some (h, s')"
  shows "keeps s s'"
proof (cases ch)
  case (Some c)
  have "node s' = node s \<and> eps s' = eps s"
    using assms Some
    by (auto simp: event_create_def alloc_def mem_calloc_def Let_def put_cluster_def
        split: option.splits bind_splits if_splits prod.splits)
  then show ?thesis using event_create_inv assms Some by (intro keepsI) auto
qed (use assms in \<open>simp add: event_create_def\<close>)

lemma inv_remove_command:
  assumes inv: "dm_inv s" and cl: "cls s c = Some cl" and a: "a \<in> set (cl_commands cl)"
  shows "dm_inv (put_cluster c (cl\<lparr>cl_commands := remove1 a (cl_commands cl)\<rparr>) (s\<lparr>cms := (cms s)(a := None)\<rparr>))" (is "dm_inv ?t")
proof -
  note lay = inv[unfolded dm_inv_def layer_defs]
  let ?cl = "cl\<lparr>cl_commands := remove1 a (cl_commands cl)\<rparr>"
  have "owns (\<lambda>_ _. True) cm_sep cl_commands ((cls s)(c \<mapsto> ?cl)) ((cms s)(a := None))"
    using lay cl a by (intro owns_remove_child[where p = cl]) auto
  moreover have "fresh_above ?t"
    using inv_fresh[OF inv] inv_live_below(2)[OF inv cl] by (auto simp: fresh_above_def put_cluster_def)
  ultimately show ?thesis using lay cluster_update_layers(1,2,4)[OF inv cl, of ?cl]
    unfolding dm_inv_def layer_defs by (simp add: put_cluster_def)
qed

lemma inv_remove_event:
  assumes inv: "dm_inv s" and cl: "cls s c = Some cl" and a: "a \<in> set (cl_events cl)"
  shows "dm_inv (put_cluster c (cl\<lparr>cl_events := remove1 a (cl_events cl)\<rparr>) (s\<lparr>evs := (evs s)(a := None)\<rparr>))" (is "dm_inv ?t")
proof -
  note lay = inv[unfolded dm_inv_def layer_defs]
  let ?cl = "cl\<lparr>cl_events := remove1 a (cl_events cl)\<rparr>"
  have "owns (\<lambda>_ _. True) (\<lambda>e f. ev_id e \<noteq> ev_id f) cl_events ((cls s)(c \<mapsto> ?cl)) ((evs s)(a := None))"
    using lay cl a by (intro owns_remove_child[where p = cl]) auto
  moreover have "fresh_above ?t"
    using inv_fresh[OF inv] inv_live_below(2)[OF inv cl] by (auto simp: fresh_above_def put_cluster_def)
  ultimately show ?thesis using lay cluster_update_layers(1-3)[OF inv cl, of ?cl]
    unfolding dm_inv_def layer_defs by (simp add: put_cluster_def)
qed

lemma keeps_command_destroy: "command_destroy ch h s = Some (err, s') \<Longrightarrow> keeps s s'"
  by (auto simp: command_destroy_def split: option.splits bind_splits if_splits intro!: keepsI inv_remove_command)

lemma keeps_event_destroy: "event_destroy ch h s = Some (err, s') \<Longrightarrow> keeps s s'"
  by (auto simp: event_destroy_def split: option.splits bind_splits if_splits intro!: keepsI inv_remove_event)

lemma keeps_command_set_user_callback:
  assumes "command_set_user_callback h callback s = Some s'"
  shows "keeps s s'"
proof (rule keepsI)
  obtain a cm where s': "cms s a = Some cm" "s' = s\<lparr>cms := (cms s)(a \<mapsto> cm\<lparr>cm_user_callback := callback\<rparr>)\<rparr>"
    using assms by (auto simp: command_set_user_callback_def split: bind_splits)
  then show "node s' = node s" "eps s' = eps s" by simp_all
  assume inv: "dm_inv s"
  note lay = inv[unfolded dm_inv_def layer_defs]
  have "owns (\<lambda>_ _. True) cm_sep cl_commands (cls s) ((cms s)(a \<mapsto> cm\<lparr>cm_user_callback := callback\<rparr>))"
    using lay s'(1) by (intro owns_update_child[where c = cm]) (auto simp: cm_sep_def)
  moreover have "fresh_above s'" using inv_fresh[OF inv] s' by (auto simp: fresh_above_def)
  ultimately show "dm_inv s'" using lay s'(2) unfolding dm_inv_def layer_defs by simp
qed

section \<open>Clusters\<close>

lemma keeps_cluster_create:
  assumes "cluster_create E eh i flags s = Some (h, s')"
  shows "keeps s s'"
proof (cases eh)
  case (Some p)
  note r = assms[unfolded Some]
  show ?thesis
  proof (cases "eps s p")
    case None
    then have "s' = s" using r by (auto simp: cluster_create_def cluster_get_def split: if_splits)
    then show ?thesis by simp
  next
    case e: (Some e)
    have "dm_inv s' \<and> ids_sub s s'" if inv: "dm_inv s"
    proof
      show "dm_inv s'" by (rule cluster_create_inv[OF r inv e])
      from r inv e show "ids_sub s s'"
        by (cases rule: cluster_create_cases) (use e in \<open>auto simp: ids_sub_def put_cluster_def\<close>)
    qed
    then show ?thesis by (simp add: keeps_def)
  qed
qed (use assms in \<open>auto simp: cluster_create_def split: if_splits\<close>)

lemma keeps_cluster_destroy:
  assumes "cluster_destroy E ch s = Some (err, s')"
  shows "keeps s s'"
proof (cases ch)
  case (Some c)
  then obtain cl where cl: "cls s c = Some cl" using assms by (auto simp: cluster_destroy_def split: bind_splits)
  have "dm_inv s' \<and> ids_sub s s'" if inv: "dm_inv s"
  proof -
    obtain p e n where d: "eps s p = Some e" "cluster_destroy E (Some c) s = Some (ESP_OK, without_cluster c cl p e n s)"
        "dm_inv (without_cluster c cl p e n s)" by (rule cluster_destroy_effect[OF inv cl])
    have "ids_sub s (without_cluster c cl p e n s)"
      by (rule ids_sub_update[where p = p and e = e and e' = "e\<lparr>ep_clusters := remove1 c (ep_clusters e)\<rparr>"])
        (use d(1) in \<open>simp_all add: without_cluster_def\<close>)
    then show ?thesis using d assms Some by simp
  qed
  then show ?thesis by (simp add: keeps_def)
qed (use assms in \<open>simp add: cluster_destroy_def\<close>)

lemma keeps_update_cluster:
  assumes "update_cluster f ch s = Some (err, s')"
    and "\<And>cl. cl_id (f cl) = cl_id cl \<and> cl_ep (f cl) = cl_ep cl \<and> cl_attributes (f cl) = cl_attributes cl \<and>
      cl_commands (f cl) = cl_commands cl \<and> cl_events (f cl) = cl_events cl"
  shows "keeps s s'"
proof -
  have "node s' = node s \<and> eps s' = eps s"
    using assms(1) by (auto simp: update_cluster_def put_cluster_def split: option.splits bind_splits)
  then show ?thesis using update_cluster_inv[OF assms(1) _ assms(2)] by (intro keepsI) auto
qed


section \<open>Endpoints\<close>

text \<open>Operations that only run callbacks leave everything but the log.\<close>

definition only_logs :: "'n dm \<Rightarrow> 'n dm \<Rightarrow> bool" where
  "only_logs s t \<longleftrightarrow> (\<exists>l. t = log_ext l s)"

lemma only_logs_refl [simp]: "only_logs s s"
  unfolding only_logs_def by (rule exI[of _ "[]"]) simp

lemma only_logs_trans [trans]: "only_logs s t \<Longrightarrow> only_logs t u \<Longrightarrow> only_logs s u"
  by (auto simp: only_logs_def)

lemma only_logs_emit [simp]: "only_logs s (emit x s)"
  unfolding only_logs_def by (metis emit_log_ext)

lemma only_logs_opt [simp]: "only_logs s (case h of None \<Rightarrow> s | Some f \<Rightarrow> emit (x f) s)"
  by (cases h) simp_all

lemma only_logs_keeps: "only_logs s t \<Longrightarrow> keeps s t"
  by (auto simp: only_logs_def)

lemma only_logs_store:
  "only_logs s t \<Longrightarrow> node t = node s \<and> eps t = eps s \<and> cls t = cls s \<and> ats t = ats s \<and> cms t = cms s \<and> evs t = evs s
    \<and> mem t = mem s \<and> (dm_inv t \<longleftrightarrow> dm_inv s)"
  by (auto simp: only_logs_def)

lemma report_parts_list_logs:
  assumes "report_parts_list_change_internal eh s = Some t"
  shows "only_logs s t"
proof -
  obtain i s1 where i: "report_parents i s = Some s1" "t = emit (Report_Attribute 0 Descriptor_Id PartsList_Id) s1"
    using assms by (auto simp: report_parts_list_change_internal_def split: bind_splits)
  obtain js where "parent_chain s i js" using report_parents_only_chain[OF i(1)] by blast
  then have "only_logs s s1" using report_parents_chain i(1) by (fastforce simp: only_logs_def)
  then show ?thesis using i(2) only_logs_trans only_logs_emit by blast
qed

lemma shutdown_callbacks_logs: "shutdown_callbacks i cs s = Some t \<Longrightarrow> only_logs s t"
proof (induction cs arbitrary: s)
  case (Cons c cs)
  then obtain x where x: "shutdown_callbacks i cs (case x of None \<Rightarrow> s | Some f \<Rightarrow> emit (Shutdown_Callback f i) s) = Some t"
    by (auto split: bind_splits)
  show ?case by (rule only_logs_trans[OF only_logs_opt Cons.IH[OF x]])
qed simp

lemma shutdown_functions_logs: "shutdown_functions i cs s = Some t \<Longrightarrow> only_logs s t"
proof (induction cs arbitrary: s)
  case (Cons c cs)
  then consider "shutdown_functions i cs s = Some t"
    | x where "shutdown_functions i cs (case x of None \<Rightarrow> s | Some f \<Rightarrow> emit (Shutdown_Function f i) s) = Some t"
    by (auto split: bind_splits if_splits)
  then show ?case
  proof cases
    case (2 x)
    show ?thesis by (rule only_logs_trans[OF only_logs_opt Cons.IH[OF 2]])
  qed (rule Cons.IH)
qed simp

lemma endpoint_disable_frame:
  assumes "endpoint_disable (Some p) s = Some (err, t)"
  obtains e where "eps s p = Some e" "only_logs (put_endpoint p (e\<lparr>ep_enabled := False\<rparr>) s) t"
  using assms by (auto simp: endpoint_disable_def split: bind_splits
      dest!: report_parts_list_logs shutdown_callbacks_logs intro: only_logs_trans)

lemma keeps_endpoint_disable:
  assumes "endpoint_disable eh s = Some (err, t)"
  shows "keeps s t"
proof (cases eh)
  case (Some p)
  then obtain e where e: "eps s p = Some e" "only_logs (put_endpoint p (e\<lparr>ep_enabled := False\<rparr>) s) t"
    using assms by (blast elim: endpoint_disable_frame)
  show ?thesis by (rule keeps_trans[OF keeps_put_endpoint only_logs_keeps[OF e(2)]]) (use e(1) in auto)
qed (use assms in \<open>simp add: endpoint_disable_def\<close>)

lemma keeps_update_endpoint:
  assumes "update_endpoint f eh s = Some (err, s')"
    "\<And>e. ep_id (f e) = ep_id e" "\<And>e. ep_clusters (f e) = ep_clusters e"
  shows "keeps s s'"
  using assms by (auto simp: update_endpoint_def split: option.splits bind_splits intro!: keeps_put_endpoint)

lemma keeps_endpoint_setters:
  "set_parent_endpoint eh ph s = Some (err, s') \<Longrightarrow> keeps s s'"
  "add_device_type E eh i v s = Some (err, s') \<Longrightarrow> keeps s s'"
  "set_semantic_tags eh tags n s = Some (err, s') \<Longrightarrow> keeps s s'"
  by (auto simp: set_parent_endpoint_def add_device_type_def set_semantic_tags_def Let_def
      split: option.splits bind_splits if_splits intro!: keeps_put_endpoint)

lemma keeps_set_priv_data: "set_priv_data i d s = Some (err, s') \<Longrightarrow> keeps s s'"
  by (auto simp: set_priv_data_def split: bind_splits if_splits elim!: keeps_update_endpoint)

lemma keeps_set_identify: "set_identify i d s = Some (err, s') \<Longrightarrow> keeps s s'"
  by (auto simp: set_identify_def split: bind_splits elim!: keeps_update_endpoint)

lemma keeps_identification_init:
  assumes "identification_init i t s = Some (err, s')"
  shows "keeps s s'"
proof -
  obtain q s1 where al: "alloc s = (q, s1)" by fastforce
  show ?thesis
  proof (cases q)
    case None
    then show ?thesis using assms al keeps_alloc[OF al] by (simp add: identification_init_def)
  next
    case (Some a)
    then obtain r where "set_identify i (Some a) (emit (Identify_New i t) s1) = Some (r, s')"
      using assms al by (auto simp: identification_init_def split: bind_splits)
    then show ?thesis using keeps_alloc[OF al] keeps_set_identify keeps_emit keeps_trans by blast
  qed
qed

lemma keeps_init_identification: "init_identification eh s = Some (err, s') \<Longrightarrow> keeps s s'"
  by (auto simp: init_identification_def split: option.splits bind_splits if_splits elim!: keeps_identification_init)

lemma keeps_add_bounds_to: "add_bounds_to E f c as s = Some t \<Longrightarrow> keeps s t"
proof (induction as arbitrary: s)
  case (Cons a as)
  then consider "add_bounds_to E f c as s = Some t"
    | err mn mx s1 where "add_bounds E (Some a) mn mx s = Some (err, s1)" "add_bounds_to E f c as s1 = Some t"
    by (auto split: bind_splits option.splits)
  then show ?case
  proof cases
    case (2 err mn mx s1)
    show ?thesis by (rule keeps_trans[OF keeps_add_bounds[OF 2(1)] Cons.IH[OF 2(2)]])
  qed (rule Cons.IH)
qed simp

lemma keeps_add_bounds_callback: "add_bounds_callback E f c s = Some t \<Longrightarrow> keeps s t"
  by (auto simp: add_bounds_callback_def split: bind_splits intro: keeps_trans[OF keeps_emit keeps_add_bounds_to])

lemma keeps_init_cluster:
  assumes "init_cluster E i c s = Some t"
  shows "keeps s t"
proof -
  obtain m h s2 l where s2: "(case h of None \<Rightarrow> Some (log_ext m s) | Some f \<Rightarrow> add_bounds_callback E f c (log_ext m s)) = Some s2"
      and t: "t = log_ext l s2"
    using assms by (auto simp: init_cluster_def opt_emit Let_def split: bind_splits if_splits)
  have "keeps (log_ext m s) s2" using s2 by (auto split: option.splits intro: keeps_add_bounds_callback)
  then show ?thesis unfolding t using keeps_trans keeps_log_ext by blast
qed

lemma keeps_init_clusters: "init_clusters E i cs s = Some t \<Longrightarrow> keeps s t"
  by (induction cs arbitrary: s) (auto split: bind_splits intro: keeps_trans[OF keeps_init_cluster])

lemma keeps_invoke_init: "invoke_init_callbacks_internal E eh s = Some t \<Longrightarrow> keeps s t"
  by (auto simp: invoke_init_callbacks_internal_def split: option.splits bind_splits intro: keeps_init_clusters)

lemma keeps_endpoint_enable:
  assumes "endpoint_enable E eh s = Some (err, t)"
  shows "keeps s t"
proof (cases eh)
  case (Some p)
  then obtain e r s1 where e: "eps s p = Some e"
      and s1: "init_identification eh (put_endpoint p (e\<lparr>ep_enabled := True\<rparr>) s) = Some (r, s1)"
    using assms by (auto simp: endpoint_enable_def split: bind_splits)
  have k: "keeps s s1" by (rule keeps_trans[OF keeps_put_endpoint keeps_init_identification[OF s1]]) (use e in simp_all)
  show ?thesis
  proof (cases "started s1")
    case True
    then obtain s2 where s2: "invoke_init_callbacks_internal E eh s1 = Some s2"
        "report_parts_list_change_internal eh (emit (Report_Endpoint (ep_id e)) s2) = Some t"
      using assms e s1 Some by (auto simp: endpoint_enable_def split: bind_splits)
    have "keeps s2 t" using keeps_trans[OF keeps_emit only_logs_keeps[OF report_parts_list_logs[OF s2(2)]]] .
    then show ?thesis using keeps_trans[OF k] keeps_trans[OF keeps_invoke_init[OF s2(1)]] by blast
  qed (use assms e s1 k Some in \<open>auto simp: endpoint_enable_def\<close>)
qed (use assms in \<open>simp add: endpoint_enable_def\<close>)

lemma keeps_enable_list: "enable_list E ps s = Some t \<Longrightarrow> keeps s t"
  by (induction ps arbitrary: s) (auto split: bind_splits intro: keeps_trans[OF keeps_endpoint_enable])

lemma keeps_enable_all: "enable_all E s = Some (err, t) \<Longrightarrow> keeps s t"
  by (auto simp: enable_all_def split: option.splits bind_splits intro: keeps_enable_list)

text \<open>An endpoint that is destroyed leaves with all it owns.\<close>

lemma endpoint_destroy_frame:
  assumes r: "endpoint_destroy E (Some n) (Some p) s = Some (err, t)" and inv: "dm_inv s" and e: "eps s p = Some e"
    and nd: "node s = Some nd"
  shows "dm_inv t \<and> ids_sub s t \<and>
    (has_flag (ep_flags e) ENDPOINT_FLAG_DESTROYABLE \<longrightarrow> node t = Some (nd\<lparr>nd_endpoints := remove1 p (nd_endpoints nd)\<rparr>))"
proof (cases "has_flag (ep_flags e) ENDPOINT_FLAG_DESTROYABLE")
  case True
  let ?e = "e\<lparr>ep_enabled := False\<rparr>"
  obtain r1 s1 where dis: "endpoint_disable (Some p) s = Some (r1, s1)"
    using r e True by (auto simp: endpoint_destroy_def split: bind_splits)
  have s1: "only_logs (put_endpoint p ?e s) s1" using dis by (rule endpoint_disable_frame) (use e in auto)
  have in_node: "p \<in> set (nd_endpoints nd)"
    using owns_parent[OF inv_ep[OF inv, unfolded ep_layer_def] e] nd by auto
  obtain nd1 s2 s3 s4 where nd1: "node_at s1 n = Some nd1" and s2: "shutdown_functions (ep_id e) (ep_clusters e) s1 = Some s2"
      and s3: "destroy_clusters E p (ep_clusters e) s2 = Some s3" and s4: "free_endpoint p nd1 s3 = Some s4" and t: "t = s4"
    using r e True dis in_node nd only_logs_store[OF s1]
    by (auto simp: endpoint_destroy_def node_at_def split: bind_splits if_splits)
  have "nd1 = nd" using nd1 nd only_logs_store[OF s1] by (auto simp: node_at_def split: if_splits option.splits)
  have logs: "only_logs (put_endpoint p ?e s) s2" using s1 shutdown_functions_logs[OF s2] by (rule only_logs_trans)
  have inv2: "dm_inv s2" "eps s2 p = Some ?e" "node s2 = Some nd" "eps s2 = (eps s)(p \<mapsto> ?e)"
    using only_logs_store[OF logs] inv_endpoint_redeclare[OF inv e, of ?e] nd by simp_all
  have s3': "dm_inv s3" "node s3 = Some nd" "eps s3 = (eps s)(p \<mapsto> ?e\<lparr>ep_clusters := []\<rparr>)"
    using destroy_clusters_effect[OF inv2(1,2), of E] s3 inv2 by auto
  have s4': "node t = Some (nd\<lparr>nd_endpoints := remove1 p (nd_endpoints nd)\<rparr>)" "eps t = (eps s3)(p := None)"
      "cls t = cls s3" "ats t = ats s3" "cms t = cms s3" "evs t = evs s3" "mem t = mem s3"
    using s4 s3'(3) t \<open>nd1 = nd\<close> by (auto simp: free_endpoint_def Let_def split: option.splits)
  have "dm_inv t"
    by (rule inv_remove_endpoint[OF s3'(1,2) _ _ s4', where e = "?e\<lparr>ep_clusters := []\<rparr>"]) (simp_all add: s3'(3))
  moreover have "ids_sub s t" using s4'(1,2) s3'(3) nd by (auto simp: ids_sub_def split: if_splits)
  ultimately show ?thesis using s4' by simp
next
  case False
  then have "t = s" using r e by (simp add: endpoint_destroy_def)
  then show ?thesis using inv False by (auto simp: ids_sub_def)
qed

lemma keeps_endpoint_destroy:
  assumes "endpoint_destroy E nh eh s = Some (err, t)"
  shows "keeps s t"
proof (cases "\<exists>n p. nh = Some n \<and> eh = Some p")
  case True
  then obtain n p where np: "nh = Some n" "eh = Some p" by blast
  then obtain e where e: "eps s p = Some e" using assms by (auto simp: endpoint_destroy_def split: bind_splits)
  have "dm_inv t \<and> ids_sub s t" if inv: "dm_inv s"
  proof -
    obtain nd where "node s = Some nd" by (rule owns_parent[OF inv_ep[OF inv, unfolded ep_layer_def] e])
    then show ?thesis using endpoint_destroy_frame[OF assms[unfolded np] inv e] by blast
  qed
  then show ?thesis by (simp add: keeps_def)
qed (use assms in \<open>auto simp: endpoint_destroy_def split: option.splits\<close>)

end
