(* ===== verification/EM_Runs.thy ===== *)
theory EM_Runs
  imports EM_System
begin

text \<open>
  Runs: the operations of the node, of the ember interface and of the provider keep the invariant as
  well, so that it holds in every state a sequence of calls leads to.  A step is a call that returns;
  what external code answers may differ from call to call.
\<close>

section \<open>The node\<close>

lemma destroy_endpoints_frame:
  assumes "destroy_endpoints E (Some (nd_addr nd)) (nd_endpoints nd) s = Some t" "dm_inv s" "node s = Some nd"
  shows "dm_inv t \<and> node t = Some (nd\<lparr>nd_endpoints := []\<rparr>)"
  using assms
proof (induction "nd_endpoints nd" arbitrary: s nd)
  case Nil
  then have "nd\<lparr>nd_endpoints := []\<rparr> = nd" by (cases nd) simp
  then show ?case using Nil by (simp flip: Nil.hyps)
next
  case (Cons p ps)
  note r = Cons.prems(1)[folded Cons.hyps(2)]
  obtain e where e: "eps s p = Some e" using r by (auto split: bind_splits)
  let ?e = "e\<lparr>ep_flags := ep_flags e OR ENDPOINT_FLAG_DESTROYABLE\<rparr>"
  let ?s = "put_endpoint p ?e s" and ?nd = "nd\<lparr>nd_endpoints := ps\<rparr>"
  obtain err s1 where s1: "endpoint_destroy E (Some (nd_addr nd)) (Some p) ?s = Some (err, s1)"
      "destroy_endpoints E (Some (nd_addr nd)) ps s1 = Some t"
    using r e by (auto split: bind_splits)
  have "has_flag (ep_flags ?e) ENDPOINT_FLAG_DESTROYABLE" by (simp add: flag_defs has_flag_def)
  then have "dm_inv s1 \<and> node s1 = Some ?nd"
    using endpoint_destroy_frame[OF s1(1) inv_endpoint_redeclare[OF Cons.prems(2) e], of ?e nd] Cons.prems(3)
    by (simp flip: Cons.hyps(2))
  then have "dm_inv t \<and> node t = Some (?nd\<lparr>nd_endpoints := []\<rparr>)"
    using Cons.hyps(1)[of ?nd s1] s1(2) by simp
  then show ?case by simp
qed

lemma inv_no_node:
  assumes "dm_inv s" "\<And>nd. node s = Some nd \<Longrightarrow> nd_endpoints nd = []"
    and "eps t = eps s" "cls t = cls s" "ats t = ats s" "cms t = cms s" "evs t = evs s"
    and "mem_next (mem s) \<le> mem_next (mem t)" "\<And>nd. node t = Some nd \<Longrightarrow> nd_endpoints nd = [] \<and> nd_addr nd < mem_next (mem t)"
  shows "dm_inv t"
proof -
  have none: "eps t = Map.empty" "cls t = Map.empty" "ats t = Map.empty" "cms t = Map.empty" "evs t = Map.empty"
    using empty_store[OF assms(1,2)] assms(3-7) by simp_all
  have "ep_layer t" unfolding ep_layer_def by (rule ownsI) (use none assms(9) in auto)
  then show ?thesis using inv_cl[OF assms(1)] inv_at[OF assms(1)] inv_cm[OF assms(1)] inv_ev[OF assms(1)] assms(9) none assms(3-7)
    by (auto simp: dm_inv_def layer_defs fresh_above_def)
qed

lemma keeps_node_destroy:
  assumes "node_destroy E s = Some (err, t)"
  shows "keeps s t"
proof (cases "node s")
  case (Some nd)
  let ?s = "identification_set_callback None (snd (set_callback None s))"
  obtain s1 where s1: "destroy_endpoints E (Some (nd_addr nd)) (nd_endpoints nd) ?s = Some s1" "t = snd (destroy_raw s1)"
    using assms Some by (auto simp: node_destroy_def split: bind_splits)
  have "dm_inv t \<and> ids_sub s t" if inv: "dm_inv s"
  proof -
    have "dm_inv ?s" "node ?s = Some nd"
      using inv_cong[OF inv, of ?s] Some by (simp_all add: identification_set_callback_def set_callback_def)
    then have i1: "dm_inv s1" "node s1 = Some (nd\<lparr>nd_endpoints := []\<rparr>)" using destroy_endpoints_frame[OF s1(1)] by simp_all
    then have "dm_inv t" "node t = None" "eps t = eps s1"
      using inv_no_node[OF i1(1), of t] s1(2) by (simp_all add: destroy_raw_def)
    then show ?thesis using empty_store(1)[OF i1(1)] i1(2) by (simp add: ids_sub_def)
  qed
  then show ?thesis by (simp add: keeps_def)
qed (use assms in \<open>simp add: node_destroy_def\<close>)

text \<open>The shape of the store together with the counter of endpoint ids.\<close>

definition dm_ok :: "'n dm \<Rightarrow> bool" where
  "dm_ok s \<longleftrightarrow> dm_inv s \<and> ids_below s"

lemma keeps_ok: "keeps s t \<Longrightarrow> dm_ok s \<Longrightarrow> dm_ok t"
  using ids_sub_below by (auto simp: keeps_def dm_ok_def)

lemma create_raw_ok:
  assumes "create_raw s = (h, t)" "dm_ok s"
  shows "dm_ok t"
proof (cases "node s")
  case None
  obtain q s1 where al: "alloc s = (q, s1)" by fastforce
  have eps: "eps s = Map.empty" using empty_store(1)[of s] assms(2) None by (simp add: dm_ok_def)
  note s1 = alloc_cases(1)[OF al] keeps_ok[OF keeps_alloc[OF al] assms(2)]
  show ?thesis
  proof (cases q)
    case q: (Some a)
    have a: "a = mem_next (mem s)" "mem_next (mem s1) = Suc (mem_next (mem s))"
      using alloc_cases(2)[OF al q] alloc_mem al q by blast+
    have "t = put_node (Some \<lparr>nd_addr = a, nd_endpoints = [], nd_min_unused = 0\<rparr>) s1"
      using assms(1) None al q by (simp add: create_raw_def)
    then show ?thesis using inv_no_node[of s1 t] s1 None eps a by (simp add: dm_ok_def ids_below_def)
  qed (use assms None al s1 in \<open>simp add: create_raw_def\<close>)
qed (use assms in \<open>simp add: create_raw_def\<close>)

lemma keeps_store_min_unused: "store_min_unused_endpoint_id E s = (err, t) \<Longrightarrow> keeps s t"
  by (auto simp: store_min_unused_endpoint_id_def Let_def split: option.splits if_splits prod.splits intro!: keeps_nvs)

text \<open>Reading the counter changes nothing else.\<close>

definition counter_frame :: "'n dm \<Rightarrow> 'n dm \<Rightarrow> bool" where
  "counter_frame s t \<longleftrightarrow>
     eps t = eps s \<and> cls t = cls s \<and> ats t = ats s \<and> cms t = cms s \<and> evs t = evs s \<and> mem t = mem s \<and>
     (\<exists>k. node t = map_option (\<lambda>nd. nd\<lparr>nd_min_unused := k nd\<rparr>) (node s))"

lemma counter_frame_node: "node t = node s \<Longrightarrow> \<exists>k. node t = map_option (\<lambda>nd. nd\<lparr>nd_min_unused := k nd\<rparr>) (node s)"
  by (intro exI[of _ nd_min_unused]) (simp add: option.map_ident)

lemma counter_frame_nvs: "counter_frame s t \<Longrightarrow> counter_frame s (t\<lparr>nvs := n\<rparr>)"
  by (auto simp: counter_frame_def)

lemma counter_frame_refl: "counter_frame s s"
  by (simp add: counter_frame_def counter_frame_node)

lemma counter_frame_store: "counter_frame s t \<Longrightarrow> counter_frame s (snd (store_min_unused_endpoint_id E t))"
  by (auto simp: counter_frame_def)

lemma counter_frame_load:
  "counter_frame s t \<Longrightarrow> node s = Some nd \<Longrightarrow> counter_frame s (snd (load_min_unused E ns nd t))"
  by (auto simp: load_min_unused_def counter_frame_def split: sum.splits)

lemma read_min_unused_frame: "counter_frame s (snd (read_min_unused_endpoint_id E s))"
proof (cases "node s")
  case (Some nd)
  note load = counter_frame_load[OF _ Some]
  show ?thesis
    unfolding read_min_unused_endpoint_id_def Some option.case Let_def case_prod_beta
    by (simp only: if_distrib[where f = snd] fst_conv snd_conv split: if_split,
        intro conjI impI counter_frame_store counter_frame_nvs counter_frame_refl load)
qed (simp add: read_min_unused_endpoint_id_def counter_frame_refl)

lemma counter_frame_inv:
  assumes "counter_frame s t" "dm_inv s"
  shows "dm_inv t"
proof (cases "node s")
  case None
  then show ?thesis using assms inv_cong[OF assms(2), of t] by (simp add: counter_frame_def)
next
  case (Some nd)
  then obtain k where "node t = Some (nd\<lparr>nd_min_unused := k\<rparr>)" using assms(1) by (auto simp: counter_frame_def)
  then show ?thesis using assms(1) by (intro inv_node_redeclare[OF assms(2) Some]) (auto simp: counter_frame_def)
qed

section \<open>The ember interface and the provider\<close>

lemma keeps_increase_data_version: "increase_data_version ch s = Some (err, t) \<Longrightarrow> keeps s t"
  unfolding increase_data_version_def by (erule keeps_update_cluster) simp

lemma decode_mem: "decode api T ty e m = (err, v, m') \<Longrightarrow> mem_next m \<le> mem_next m'"
  by (auto simp: decode_def decode_string_def mem_calloc_def Let_def split: option.splits if_splits sum.splits)

lemma keeps_execute_callback: "execute_callback E ty i j k v s = Some (err, v', t) \<Longrightarrow> keeps s t"
  by (rule keeps_same_store[OF execute_callback_store])

lemma keeps_ember_store:
  assumes "ember_store E i j k a v m s = Some (st, t)"
  shows "keeps s t"
proof -
  obtain err vo s1 where s1: "set_val_internal E a (Some v) True s = Some (err, vo, s1)" "t = s1 \<or> t = emit (Mark_Dirty i j k) s1"
    using assms by (auto simp: ember_store_def Let_def split: bind_splits if_splits)
  have "keeps s1 t" using s1(2) by auto
  then show ?thesis by (rule keeps_trans[OF keeps_set_val_internal[OF s1(1)]])
qed

lemma keeps_pre_change:
  "emAfClusterPreAttributeChangedCallback C i j k c ty n buf s = Some (st, b, t) \<Longrightarrow> keeps s t"
  by (auto simp: emAfClusterPreAttributeChangedCallback_def Let_def split: bind_splits option.splits prod.splits)

lemma keeps_ember_steps:
  assumes "emAfClusterPreAttributeChangedCallback C i j k c ty n b (emit x s) = Some (st, b', s2)"
  shows "keeps s s2" "ember_store E i j k a v m s2 = Some (st', s3) \<Longrightarrow> keeps s (emit y s3)"
proof -
  show s2: "keeps s s2" by (rule keeps_trans[OF keeps_emit keeps_pre_change[OF assms]])
  assume "ember_store E i j k a v m s2 = Some (st', s3)"
  from keeps_trans[OF s2 keeps_trans[OF keeps_ember_store[OF this] keeps_emit]] show "keeps s (emit y s3)" .
qed

lemma keeps_emberAfWriteAttribute:
  assumes "emberAfWriteAttribute E C i j k input md0 s = Some (st, t)"
  shows "keeps s t"
  using assms
  by (auto simp: emberAfWriteAttribute_def Let_def case_prod_beta bind_eq_Some_conv split: if_splits option.splits
      dest: keeps_ember_steps)

lemma keeps_post_write: "post_write E rq v s = Some t \<Longrightarrow> keeps s t"
  by (auto simp: post_write_def split: bind_splits intro: keeps_execute_callback)

lemma keeps_written: "written E P rq v c s = Some t \<Longrightarrow> keeps s t"
  by (auto simp: written_def split: bind_splits if_splits
      intro: keeps_trans[OF keeps_increase_data_version keeps_trans[OF keeps_emit keeps_post_write]])


lemma keeps_decode: "decode api T ty e (mem s) = (err, v, m) \<Longrightarrow> keeps s (s\<lparr>mem := m\<rparr>)"
  using decode_mem keeps_mem by metis

lemma keeps_decoded: "keeps s (s\<lparr>mem := snd (snd (decode api T ty e (mem s)))\<rparr>)"
  by (rule keeps_decode[where err = "fst (decode api T ty e (mem s))" and v = "fst (snd (decode api T ty e (mem s)))"]) simp

lemma keeps_write_stored:
  assumes "write_stored E P C md rq e a v c s = Some (st, t)"
  shows "keeps s t"
proof -
  have "keeps s t" if "emberAfWriteAttribute E C i j k input md' (s\<lparr>mem := snd (snd (decode api T ty e (mem s)))\<rparr>) = Some (st', s2)"
      "s2 = t \<or> written E P rq v c s2 = Some t" for i j k input md' api T ty st' s2
    using that keeps_trans[OF keeps_decoded keeps_emberAfWriteAttribute[OF that(1)]] keeps_written keeps_trans by blast
  then show ?thesis using assms
    by (auto simp: write_stored_def Let_def case_prod_beta keeps_decoded split: bind_splits if_splits option.splits)
qed

lemma keeps_write_data_model: "write_data_model E P C md rq e a v s = Some (st, t) \<Longrightarrow> keeps s t"
  by (auto simp: write_data_model_def bind_eq_Some_conv split: if_splits option.splits
      intro: keeps_written keeps_write_stored)

lemma keeps_write_after_veto:
  assumes "(if veto \<noteq> ESP_OK then Some (AS Failure, s2)
      else if p_registered P (rq_ep rq) (rq_cl rq) then
        (let ret = p_cluster_write P (rq_ep rq) (rq_cl rq) (rq_at rq) e in
         if action_ok ret then do { s3 \<leftarrow> post_write E rq v s2; Some (ret, s3) } else Some (ret, s2))
      else write_data_model E P C md rq e a v s2) = Some (st, t)"
  shows "keeps s2 t"
  using assms by (auto simp: Let_def split: if_splits bind_splits intro: keeps_post_write keeps_write_data_model)

lemma keeps_WriteAttribute:
  assumes "WriteAttribute E P C md rq e s = Some (st, t)"
  shows "keeps s t"
proof -
  obtain a where a: "attribute_get_by_path s (rq_ep rq) (rq_cl rq) (rq_at rq) = Some a"
    using assms by (auto simp: WriteAttribute_def split: bind_splits)
  show ?thesis
  proof (cases "a = None")
    case False
    then obtain ty where ty: "get_val_type s a = Some ty" using assms a by (auto simp: WriteAttribute_def split: bind_splits)
    define d where "d = decode (p_tlv P) (e_traits E) ty e (mem s)"
    let ?s1 = "s\<lparr>mem := snd (snd d)\<rparr>"
    let ?pre = "if fst d = CHIP_NO_ERROR then execute_callback E PRE_UPDATE (rq_ep rq) (rq_cl rq) (rq_at rq) (fst (snd d)) ?s1
        else Some (ESP_OK, esp_matter_invalid 0, ?s1)"
    have "?pre \<noteq> None"
    proof
      assume "?pre = None"
      then show False using assms a ty False by (simp add: WriteAttribute_def Let_def case_prod_beta d_def cong: if_cong)
    qed
    then obtain veto v s2 where s2: "?pre = Some (veto, v, s2)" by (cases ?pre) auto
    have "keeps s s2" using s2 keeps_trans[OF keeps_decoded keeps_execute_callback] keeps_decoded[of s]
      by (auto simp: d_def split: if_splits)
    moreover have "keeps s2 t"
      by (rule keeps_write_after_veto[where veto = veto and v = v and a = a])
        (use assms a ty False s2 in \<open>simp add: WriteAttribute_def Let_def case_prod_beta d_def cong: if_cong\<close>)
    ultimately show ?thesis by (rule keeps_trans)
  qed (use assms a in \<open>simp add: WriteAttribute_def\<close>)
qed

lemma keeps_set_val_via_write: "set_val_via_write_attribute E P C md i j k v s = Some (err, t) \<Longrightarrow> keeps s t"
  by (auto simp: set_val_via_write_attribute_def Let_def case_prod_beta split: bind_splits if_splits sum.splits
      intro: keeps_trans[OF keeps_alloc keeps_WriteAttribute] keeps_alloc simp: prod_eq_iff)


lemma keeps_set_val_by_path:
  assumes "set_val_by_path E w i j k vo cb s = Some (err, vo', t)"
    and w: "\<And>v err t. w i j k v s = Some (err, t) \<Longrightarrow> keeps s t"
  shows "keeps s t"
  using assms(1) by (auto simp: set_val_by_path_def split: bind_splits if_splits option.splits
      intro: keeps_set_val_internal w)

lemma keeps_set_val:
  assumes "set_val E w h vo cb s = Some (err, vo', t)" "\<And>i j k v err t. w i j k v s = Some (err, t) \<Longrightarrow> keeps s t"
  shows "keeps s t"
  using assms(1) by (auto simp: set_val_def split: option.splits bind_splits if_splits
      dest!: keeps_set_val_by_path[OF _ assms(2)])

lemma keeps_Temporary_ReportAttributeChanged: "Temporary_ReportAttributeChanged P i j k s = Some t \<Longrightarrow> keeps s t"
  by (auto simp: Temporary_ReportAttributeChanged_def Let_def split: bind_splits if_splits
      intro: keeps_increase_data_version keeps_trans[OF keeps_increase_data_version keeps_emit])

lemma keeps_update_or_report:
  assumes "update_or_report E P C md i j k vo cb s = Some (err, t)"
  shows "keeps s t"
proof -
  have "keeps s t" if "set_val E (set_val_via_write_attribute E P C md) h vo cb s = Some (r, v, s1)"
      "t = s1 \<or> Temporary_ReportAttributeChanged P i j k s1 = Some t" for h r v s1
  proof -
    have "keeps s s1" by (rule keeps_set_val[OF that(1)]) (rule keeps_set_val_via_write)
    then show ?thesis using that(2) keeps_Temporary_ReportAttributeChanged keeps_trans by blast
  qed
  then show ?thesis using assms by (auto simp: update_or_report_def split: bind_splits if_splits)
qed

lemma keeps_get_val_from_tlv_data: "get_val_from_tlv_data E api d ty s = Some (err, vo, t) \<Longrightarrow> keeps s t"
  by (auto simp: get_val_from_tlv_data_def Let_def case_prod_beta keeps_decoded split: option.splits if_splits
      intro: keeps_trans[OF keeps_decoded keeps_alloc] simp: prod_eq_iff)

lemma keeps_get_val_by_path: "get_val_by_path E P i j k s = Some (err, vo, t) \<Longrightarrow> keeps s t"
  by (auto simp: get_val_by_path_def Let_def case_prod_beta split: bind_splits if_splits
      intro: keeps_trans[OF keeps_alloc keeps_get_val_from_tlv_data] keeps_alloc simp: prod_eq_iff)

lemma keeps_dispatch: "dispatch_single_cluster_command P i j k e h s = Some t \<Longrightarrow> keeps s t"
  by (auto simp: dispatch_single_cluster_command_def Let_def case_prod_beta split: bind_splits if_splits option.splits
      intro: keeps_trans[OF keeps_emit keeps_emit] keeps_trans[OF keeps_emit keeps_trans[OF keeps_emit keeps_emit]])

lemma keeps_InvokeCommand: "InvokeCommand P i j k e h s = Some (st, t) \<Longrightarrow> keeps s t"
  by (auto simp: InvokeCommand_def split: bind_splits if_splits intro: keeps_dispatch)

lemma keeps_Startup: "Startup E b p r P s = Some (err, P', t) \<Longrightarrow> keeps s t"
proof -
  have "keeps s t" if "init_endpoints E ps s = Some t" for ps s
    using that by (induction ps arbitrary: s) (auto split: bind_splits intro: keeps_trans[OF keeps_invoke_init])
  then show "Startup E b p r P s = Some (err, P', t) \<Longrightarrow> keeps s t"
    by (auto simp: Startup_def Let_def split: bind_splits if_splits)
qed


section \<open>Steps and reachable states\<close>

text \<open>
  One call of an operation by the application or by connectedhomeip.  Two of them are restricted: an
  endpoint is created while the 16-bit counter of ids has not run out, and the stored counter read at
  the start is above the ids in use (what happens otherwise is shown with the endpoints).
\<close>

definition counter_left :: "'n dm \<Rightarrow> bool" where
  "counter_left s \<longleftrightarrow> (\<forall>nd. node s = Some nd \<longrightarrow> nd_min_unused nd < 0xFFFF)"

inductive dm_step :: "'t prov \<Rightarrow> 'n dm \<Rightarrow> 'n dm \<Rightarrow> bool" for P where
  "create_raw s = (h, t) \<Longrightarrow> dm_step P s t"
| "node_destroy E s = Some (err, t) \<Longrightarrow> dm_step P s t"
| "set_callback cb s = (err, t) \<Longrightarrow> dm_step P s t"
| "dm_step P s (identification_set_callback cb s)"
| "dm_step P s (s\<lparr>started := b\<rparr>)"
| "read_min_unused_endpoint_id E s = (err, t) \<Longrightarrow> ids_below t \<Longrightarrow> dm_step P s t"
| "store_min_unused_endpoint_id E s = (err, t) \<Longrightarrow> dm_step P s t"
| "endpoint_create E nh flags pd s = Some (h, t) \<Longrightarrow> counter_left s \<Longrightarrow> dm_step P s t"
| "endpoint_resume E nh flags i pd s = Some (h, t) \<Longrightarrow> dm_step P s t"
| "endpoint_destroy E nh eh s = Some (err, t) \<Longrightarrow> dm_step P s t"
| "endpoint_enable E eh s = Some (err, t) \<Longrightarrow> dm_step P s t"
| "enable_all E s = Some (err, t) \<Longrightarrow> dm_step P s t"
| "endpoint_disable eh s = Some (err, t) \<Longrightarrow> dm_step P s t"
| "add_device_type E eh i ver s = Some (err, t) \<Longrightarrow> dm_step P s t"
| "set_parent_endpoint eh ph s = Some (err, t) \<Longrightarrow> dm_step P s t"
| "set_semantic_tags eh tags n s = Some (err, t) \<Longrightarrow> dm_step P s t"
| "set_priv_data i d s = Some (err, t) \<Longrightarrow> dm_step P s t"
| "set_identify i d s = Some (err, t) \<Longrightarrow> dm_step P s t"
| "cluster_create E eh i fl s = Some (h, t) \<Longrightarrow> dm_step P s t"
| "cluster_destroy E ch s = Some (err, t) \<Longrightarrow> dm_step P s t"
| "increase_data_version ch s = Some (err, t) \<Longrightarrow> dm_step P s t"
| "set_plugin_server_init_callback f ch s = Some (err, t) \<Longrightarrow> dm_step P s t"
| "set_delegate_and_init_callback f d ch s = Some (err, t) \<Longrightarrow> dm_step P s t"
| "set_add_bounds_callback f ch s = Some (err, t) \<Longrightarrow> dm_step P s t"
| "add_function_list fs fl ch s = Some (err, t) \<Longrightarrow> dm_step P s t"
| "set_init_and_shutdown_callbacks f g ch s = Some (err, t) \<Longrightarrow> dm_step P s t"
| "attribute_create E ch i fl v mx s = Some (h, t) \<Longrightarrow> dm_step P s t"
| "attribute_destroy E ch h s = Some (err, t) \<Longrightarrow> dm_step P s t"
| "set_val_internal E h vo cb s = Some (err, vo', t) \<Longrightarrow> dm_step P s t"
| "add_bounds E h mn mx s = Some (err, t) \<Longrightarrow> dm_step P s t"
| "set_override_callback h f s = Some (err, t) \<Longrightarrow> dm_step P s t"
| "set_deferred_persistence h s = Some (err, t) \<Longrightarrow> dm_step P s t"
| "deferred_attribute_write E a s = Some t \<Longrightarrow> dm_step P s t"
| "command_create ch i fl f s = Some (h, t) \<Longrightarrow> dm_step P s t"
| "command_destroy ch h s = Some (err, t) \<Longrightarrow> dm_step P s t"
| "command_set_user_callback h f s = Some t \<Longrightarrow> dm_step P s t"
| "event_create ch i s = Some (h, t) \<Longrightarrow> dm_step P s t"
| "event_destroy ch h s = Some (err, t) \<Longrightarrow> dm_step P s t"
| "emberAfWriteAttribute E C i j k input md s = Some (st, t) \<Longrightarrow> dm_step P s t"
| "WriteAttribute E P C md rq e s = Some (st, t) \<Longrightarrow> dm_step P s t"
| "update_or_report E P C md i j k vo cb s = Some (err, t) \<Longrightarrow> dm_step P s t"
| "get_val_by_path E P i j k s = Some (err, vo, t) \<Longrightarrow> dm_step P s t"
| "Temporary_ReportAttributeChanged P i j k s = Some t \<Longrightarrow> dm_step P s t"
| "InvokeCommand P i j k e handler s = Some (ast, t) \<Longrightarrow> dm_step P s t"
| "Startup E b p r P s = Some (err, P', t) \<Longrightarrow> dm_step P s t"

definition initial :: "'n dm \<Rightarrow> bool" where
  "initial s \<longleftrightarrow> node s = None \<and> eps s = Map.empty \<and> cls s = Map.empty \<and> ats s = Map.empty \<and> cms s = Map.empty \<and> evs s = Map.empty"

text \<open>\<open>Ps\<close> are the ways connectedhomeip may behave.\<close>

inductive reachable :: "'t prov set \<Rightarrow> 'n dm \<Rightarrow> bool" for Ps where
  reachable_init: "initial s \<Longrightarrow> reachable Ps s"
| reachable_step: "reachable Ps s \<Longrightarrow> P \<in> Ps \<Longrightarrow> dm_step P s t \<Longrightarrow> reachable Ps t"


lemma endpoint_create_ok:
  assumes "endpoint_create E nh flags pd s = Some (h, t)" "counter_left s" "dm_ok s"
  shows "dm_ok t"
proof (cases nh)
  case (Some n)
  then obtain nd where nd: "node s = Some nd" "n = nd_addr nd"
    using assms(1) by (auto simp: endpoint_create_def node_at_def split: bind_splits option.splits if_splits)
  then show ?thesis using endpoint_create_inv[OF assms(1)[unfolded Some nd(2)]] assms(2,3) nd(1)
    by (auto simp: dm_ok_def counter_left_def)
qed (use assms in \<open>simp add: endpoint_create_def\<close>)

lemma endpoint_resume_ok:
  assumes "endpoint_resume E nh flags i pd s = Some (h, t)" "dm_ok s"
  shows "dm_ok t"
proof (cases nh)
  case (Some n)
  then obtain nd where nd: "node s = Some nd" "n = nd_addr nd"
    using assms(1) by (auto simp: endpoint_resume_def node_at_def split: bind_splits option.splits if_splits)
  then show ?thesis using endpoint_resume_inv[OF assms(1)[unfolded Some nd(2)]] assms(2) nd(1) by (auto simp: dm_ok_def)
qed (use assms in \<open>simp add: endpoint_resume_def\<close>)

lemma keeps_flags: "keeps s (identification_set_callback cb s)" "keeps s (s\<lparr>started := b\<rparr>)" "set_callback cb s = (err, t) \<Longrightarrow> keeps s t"
  by (rule keepsI; auto simp: identification_set_callback_def set_callback_def intro: inv_cong)+

lemma keeps_cluster_setters:
  "set_plugin_server_init_callback f ch s = Some (err, t) \<Longrightarrow> keeps s t"
  "set_delegate_and_init_callback f d ch s = Some (err, t) \<Longrightarrow> keeps s t"
  "set_add_bounds_callback f ch s = Some (err, t) \<Longrightarrow> keeps s t"
  "add_function_list fs fl ch s = Some (err, t) \<Longrightarrow> keeps s t"
  "set_init_and_shutdown_callbacks f g ch s = Some (err, t) \<Longrightarrow> keeps s t"
  unfolding set_plugin_server_init_callback_def set_delegate_and_init_callback_def set_add_bounds_callback_def
    add_function_list_def set_init_and_shutdown_callbacks_def
  by (erule keeps_update_cluster; simp)+

lemmas step_keeps = keeps_node_destroy keeps_flags keeps_store_min_unused keeps_endpoint_destroy keeps_endpoint_enable
  keeps_enable_all keeps_endpoint_disable keeps_endpoint_setters keeps_set_priv_data keeps_set_identify keeps_cluster_create
  keeps_cluster_destroy keeps_increase_data_version keeps_cluster_setters keeps_attribute_create keeps_attribute_destroy
  keeps_set_val_internal keeps_add_bounds keeps_set_override_callback keeps_set_deferred_persistence
  keeps_deferred_attribute_write keeps_command_create keeps_command_destroy keeps_command_set_user_callback keeps_event_create
  keeps_event_destroy keeps_emberAfWriteAttribute keeps_WriteAttribute keeps_update_or_report keeps_get_val_by_path
  keeps_Temporary_ReportAttributeChanged keeps_InvokeCommand keeps_Startup

lemma dm_step_ok:
  assumes "dm_step P s t" "dm_ok s"
  shows "dm_ok t"
  using assms
proof (cases rule: dm_step.cases)
  case (1 h)
  then show ?thesis using create_raw_ok assms(2) by blast
next
  case (6 E err)
  then show ?thesis using counter_frame_inv[OF read_min_unused_frame[of s E]] assms(2) by (simp add: dm_ok_def)
next
  case (8 E nh flags pd h)
  then show ?thesis using endpoint_create_ok assms(2) by blast
next
  case (9 E nh flags i pd h)
  then show ?thesis using endpoint_resume_ok assms(2) by blast
qed (rule keeps_ok[OF _ assms(2)]; (erule step_keeps | simp add: step_keeps))+

lemma initial_ok: "initial s \<Longrightarrow> dm_ok s"
  by (auto simp: initial_def dm_ok_def dm_inv_def layer_defs fresh_above_def ids_below_def intro!: ownsI)

lemma reachable_ok: "reachable Ps s \<Longrightarrow> dm_ok s"
  by (induction rule: reachable.induct) (simp_all add: initial_ok dm_step_ok)

lemma attribute_path_exact:
  assumes "dm_inv s"
  shows "\<exists>h. attribute_get_by_path s i j k = Some h \<and>
    (\<forall>a. h = Some a \<longleftrightarrow> (\<exists>c cl at. cls s c = Some cl \<and> cl_ep cl = i \<and> cl_id cl = j \<and> a \<in> set (cl_attributes cl) \<and>
       ats s a = Some at \<and> at_id at = k))"
proof -
  obtain ch where ch: "cluster_get_by_id s i j = Some ch"
      "\<And>c. ch = Some c \<longleftrightarrow> (\<exists>cl. cls s c = Some cl \<and> cl_ep cl = i \<and> cl_id cl = j)"
    using cluster_get_by_id_exact[OF assms] by blast
  show ?thesis
  proof (cases ch)
    case None
    then show ?thesis using ch by (auto simp: attribute_get_by_path_def)
  next
    case (Some c)
    then obtain cl where cl: "cls s c = Some cl" "cl_ep cl = i" "cl_id cl = j" using ch(2) by blast
    have only: "c' = c" if "cls s c' = Some cl'" "cl_ep cl' = i" "cl_id cl' = j" for c' cl' using ch(2)[of c'] Some that by auto
    obtain h where h: "attribute_get s (Some c) k = Some h"
        "\<And>a. h = Some a \<longleftrightarrow> a \<in> set (cl_attributes cl) \<and> (\<exists>at. ats s a = Some at \<and> at_id at = k)"
      using attribute_get_exact[OF assms cl(1)] by blast
    have "h = Some a \<longleftrightarrow> (\<exists>c cl at. cls s c = Some cl \<and> cl_ep cl = i \<and> cl_id cl = j \<and> a \<in> set (cl_attributes cl) \<and>
        ats s a = Some at \<and> at_id at = k)" for a
    proof
      assume "h = Some a"
      then show "\<exists>c cl at. cls s c = Some cl \<and> cl_ep cl = i \<and> cl_id cl = j \<and> a \<in> set (cl_attributes cl) \<and>
          ats s a = Some at \<and> at_id at = k" using h(2)[of a] cl by blast
    next
      assume "\<exists>c cl at. cls s c = Some cl \<and> cl_ep cl = i \<and> cl_id cl = j \<and> a \<in> set (cl_attributes cl) \<and>
          ats s a = Some at \<and> at_id at = k"
      then obtain c' cl' at where a: "cls s c' = Some cl'" "cl_ep cl' = i" "cl_id cl' = j" "a \<in> set (cl_attributes cl')"
          "ats s a = Some at" "at_id at = k" by blast
      then have "cl' = cl" using only[OF a(1-3)] cl(1) by simp
      then show "h = Some a" using h(2)[of a] a by simp
    qed
    then show ?thesis using h(1) ch(1) Some by (simp add: attribute_get_by_path_def)
  qed
qed


definition empty_dm :: "flash dm" where
  "empty_dm = demo\<lparr>node := None, eps := Map.empty, cls := Map.empty, ats := Map.empty, cms := Map.empty, evs := Map.empty\<rparr>"

text \<open>A node with one endpoint.\<close>

definition small_dm :: "flash dm" where
  "small_dm = snd (the (endpoint_create demo_env (Some 9) 0 None (snd (create_raw empty_dm))))"


end
