(* ===== verification/EM_Generated.thy ===== *)
theory EM_Generated
  imports EM_System
begin

text \<open>
  The generated data model: \<open>data_model/generated\<close>.  The files under \<open>clusters\<close> and
  \<open>device_types\<close> are produced from one template, so each generated function is a value that holds
  what the template filled in, and this theory gives the template its meaning on the store.

  \<^item> \<open>attr_fn\<close>, \<open>cmd_fn\<close>, \<open>event_fn\<close>: a function \<open>attribute::create_x\<close>, \<open>command::create_x\<close>,
    \<open>event::create_x\<close>;
  \<^item> \<open>feature_fn\<close>: a function \<open>feature::x::add\<close>, its body a list of \<open>stmt\<close>;
  \<^item> \<open>cluster_fn\<close>: a function \<open>create\<close> of a cluster, its body a list of \<open>cstmt\<close>.

  The configuration structures are maps from field names to values.  Function pointers and
  preprocessor conditions are named; what they stand for is part of the record \<open>gen\<close>.
\<close>

section \<open>Environment and arguments\<close>

record ('n, 't) gen =
  g_env :: "'n env"
  g_prov :: "'t prov"
  g_write :: "'n writer"
  g_symbol :: "string \<Rightarrow> fnptr"
  g_built :: "string \<Rightarrow> bool"
  g_asserts :: bool

text \<open>An argument of a generated function: a number (for a nullable parameter the number it stores),
  a string with its length, or an array with length and count.\<close>

datatype arg = Num u64 | Str "u8 list option" u16 | Arr "u8 list option" u16 u16

type_synonym fields = "string \<Rightarrow> arg"

record config =
  co_fields :: fields
  co_features :: "string \<Rightarrow> fields"
  co_feature_flags :: u32
  co_delegate :: handle

primrec arg_num :: "arg \<Rightarrow> u64" where
  "arg_num (Num w) = w"
| "arg_num (Str b l) = 0"
| "arg_num (Arr b l n) = 0"

primrec arg_bytes :: "arg \<Rightarrow> u8 list option" where
  "arg_bytes (Num w) = None"
| "arg_bytes (Str b l) = b"
| "arg_bytes (Arr b l n) = b"

primrec arg_length :: "arg \<Rightarrow> u16" where
  "arg_length (Num w) = 0"
| "arg_length (Str b l) = l"
| "arg_length (Arr b l n) = l"

primrec arg_count :: "arg \<Rightarrow> u16" where
  "arg_count (Num w) = 0"
| "arg_count (Str b l) = 0"
| "arg_count (Arr b l n) = n"

text \<open>The constructor of a value of the given type, applied to the parameters of the function.\<close>

primrec attr_ctor :: "traits \<Rightarrow> val_type \<Rightarrow> arg \<Rightarrow> attr_val" where
  "attr_ctor T VT_INVALID = (\<lambda>x. esp_matter_invalid (arg_num x))"
| "attr_ctor T VT_BOOLEAN = (\<lambda>x. esp_matter_bool (arg_num x \<noteq> 0))"
| "attr_ctor T VT_INTEGER = (\<lambda>x. esp_matter_int (ucast (arg_num x)))"
| "attr_ctor T VT_FLOAT = (\<lambda>x. esp_matter_float (ucast (arg_num x)))"
| "attr_ctor T VT_ARRAY = (\<lambda>x. esp_matter_array (arg_bytes x) (arg_length x) (arg_count x))"
| "attr_ctor T VT_CHAR_STRING = (\<lambda>x. esp_matter_char_str (arg_bytes x) (arg_length x))"
| "attr_ctor T VT_OCTET_STRING = (\<lambda>x. esp_matter_octet_str (arg_bytes x) (arg_length x))"
| "attr_ctor T VT_INT8 = (\<lambda>x. esp_matter_int8 (ucast (arg_num x)))"
| "attr_ctor T VT_UINT8 = (\<lambda>x. esp_matter_uint8 (ucast (arg_num x)))"
| "attr_ctor T VT_INT16 = (\<lambda>x. esp_matter_int16 (ucast (arg_num x)))"
| "attr_ctor T VT_UINT16 = (\<lambda>x. esp_matter_uint16 (ucast (arg_num x)))"
| "attr_ctor T VT_INT32 = (\<lambda>x. esp_matter_int32 (ucast (arg_num x)))"
| "attr_ctor T VT_UINT32 = (\<lambda>x. esp_matter_uint32 (ucast (arg_num x)))"
| "attr_ctor T VT_INT64 = (\<lambda>x. esp_matter_int64 (arg_num x))"
| "attr_ctor T VT_UINT64 = (\<lambda>x. esp_matter_uint64 (arg_num x))"
| "attr_ctor T VT_ENUM8 = (\<lambda>x. esp_matter_enum8 (ucast (arg_num x)))"
| "attr_ctor T VT_BITMAP8 = (\<lambda>x. esp_matter_bitmap8 (ucast (arg_num x)))"
| "attr_ctor T VT_BITMAP16 = (\<lambda>x. esp_matter_bitmap16 (ucast (arg_num x)))"
| "attr_ctor T VT_BITMAP32 = (\<lambda>x. esp_matter_bitmap32 (ucast (arg_num x)))"
| "attr_ctor T VT_ENUM16 = (\<lambda>x. esp_matter_enum16 (ucast (arg_num x)))"
| "attr_ctor T VT_LONG_CHAR_STRING = (\<lambda>x. esp_matter_long_char_str (arg_bytes x) (arg_length x))"
| "attr_ctor T VT_LONG_OCTET_STRING = (\<lambda>x. esp_matter_long_octet_str (arg_bytes x) (arg_length x))"
| "attr_ctor T VT_NULLABLE_BOOLEAN = (\<lambda>x. esp_matter_nullable_bool T (ucast (arg_num x)))"
| "attr_ctor T VT_NULLABLE_INTEGER = (\<lambda>x. esp_matter_nullable_int T (arg_num x))"
| "attr_ctor T VT_NULLABLE_FLOAT = (\<lambda>x. esp_matter_nullable_float T (arg_num x))"
| "attr_ctor T VT_NULLABLE_INT8 = (\<lambda>x. esp_matter_nullable_int8 T (arg_num x))"
| "attr_ctor T VT_NULLABLE_UINT8 = (\<lambda>x. esp_matter_nullable_uint8 T (arg_num x))"
| "attr_ctor T VT_NULLABLE_INT16 = (\<lambda>x. esp_matter_nullable_int16 T (arg_num x))"
| "attr_ctor T VT_NULLABLE_UINT16 = (\<lambda>x. esp_matter_nullable_uint16 T (arg_num x))"
| "attr_ctor T VT_NULLABLE_INT32 = (\<lambda>x. esp_matter_nullable_int32 T (arg_num x))"
| "attr_ctor T VT_NULLABLE_UINT32 = (\<lambda>x. esp_matter_nullable_uint32 T (arg_num x))"
| "attr_ctor T VT_NULLABLE_INT64 = (\<lambda>x. esp_matter_nullable_int64 T (arg_num x))"
| "attr_ctor T VT_NULLABLE_UINT64 = (\<lambda>x. esp_matter_nullable_uint64 T (arg_num x))"
| "attr_ctor T VT_NULLABLE_ENUM8 = (\<lambda>x. esp_matter_nullable_enum8 T (arg_num x))"
| "attr_ctor T VT_NULLABLE_BITMAP8 = (\<lambda>x. esp_matter_nullable_bitmap8 T (arg_num x))"
| "attr_ctor T VT_NULLABLE_BITMAP16 = (\<lambda>x. esp_matter_nullable_bitmap16 T (arg_num x))"
| "attr_ctor T VT_NULLABLE_BITMAP32 = (\<lambda>x. esp_matter_nullable_bitmap32 T (arg_num x))"
| "attr_ctor T VT_NULLABLE_ENUM16 = (\<lambda>x. esp_matter_nullable_enum16 T (arg_num x))"

text \<open>A literal argument: for a nullable parameter it passes through the constructor of \<open>nullable\<close>.\<close>

definition literal :: "traits \<Rightarrow> val_type \<Rightarrow> int \<Rightarrow> arg" where
  "literal T t n =
     (case type_kind t of
        Some k \<Rightarrow> Num (if t = VT_NULLABLE_BOOLEAN then ucast (nullable_bool_of (n \<noteq> 0))
                      else if nullable_type t then nullable_of T k (word_of_int n) else word_of_int n)
      | None \<Rightarrow> Num (word_of_int n))"

datatype argx = Lit int | Null_Str | Null_Arr | Field string

primrec eval_arg :: "traits \<Rightarrow> val_type \<Rightarrow> fields \<Rightarrow> argx \<Rightarrow> arg" where
  "eval_arg T t config (Lit n) = literal T t n"
| "eval_arg T t config Null_Str = Str None 0"
| "eval_arg T t config Null_Arr = Arr None 0 0"
| "eval_arg T t config (Field f) = config f"

section \<open>The feature map\<close>

definition FeatureMap_Id :: u32 where "FeatureMap_Id = 0xFFFC"
definition ClusterRevision_Id :: u32 where "ClusterRevision_Id = 0xFFFD"

definition create_cluster_revision ::
    "('n, 't) gen \<Rightarrow> handle \<Rightarrow> u16 \<Rightarrow> 'n dm \<Rightarrow> (handle \<times> 'n dm) option" where
  "create_cluster_revision G ch value =
     attribute_create (g_env G) ch ClusterRevision_Id 0 (esp_matter_uint16 value) 0"

definition create_feature_map ::
    "('n, 't) gen \<Rightarrow> handle \<Rightarrow> u32 \<Rightarrow> 'n dm \<Rightarrow> (handle \<times> 'n dm) option" where
  "create_feature_map G ch value =
     attribute_create (g_env G) ch FeatureMap_Id 0 (esp_matter_bitmap32 value) 0"

text \<open>
  What \<open>get_val\<close> leaves in a value that was \<open>esp_matter_invalid(NULL)\<close>: the value read, or after a
  failure the invalid value, whose type is that of the attribute once the read itself has succeeded.
\<close>

definition read_reached :: "'n env \<Rightarrow> 't prov \<Rightarrow> addr \<Rightarrow> 'n dm \<Rightarrow> bool option" where
  "read_reached E P a s = do {
     (err, p, attribute_id) \<leftarrow> get_path_from_attribute_handle s a;
     (case p of
        Some (ep, cl) \<Rightarrow>
          (let (q, s1) = alloc s in
           if q = None then Some False
           else do {
             (status, _) \<leftarrow> ReadAttribute E P (path_request ep cl attribute_id) s1;
             Some (action_ok status) })
      | None \<Rightarrow> Some False) }"

definition get_val_out ::
    "('n, 't) gen \<Rightarrow> addr \<Rightarrow> 'n dm \<Rightarrow> (attr_val \<times> 'n dm) option" where
  "get_val_out G a s = do {
     (_, vo, s1) \<leftarrow> get_val (g_env G) (g_prov G) (Some a) s;
     (case vo of
        Some v \<Rightarrow> Some (v, s1)
      | None \<Rightarrow> do {
          reached \<leftarrow> read_reached (g_env G) (g_prov G) a s;
          t \<leftarrow> get_val_type s (Some a);
          Some ((esp_matter_invalid 0)\<lparr>av_type := (if reached \<and> t \<noteq> VT_ARRAY then t else VT_INVALID)\<rparr>, s1) }) }"

definition val_u32 :: "attr_val \<Rightarrow> u32" where
  "val_u32 v = ucast (num_member KU32 (av_val v))"

definition update_feature_map ::
    "('n, 't) gen \<Rightarrow> handle \<Rightarrow> u32 \<Rightarrow> 'n dm \<Rightarrow> (esp_err \<times> 'n dm) option" where
  "update_feature_map G ch value s =
     (if ch = None then Some (ESP_ERR_INVALID_ARG, s)
      else do {
        attribute \<leftarrow> attribute_get s ch FeatureMap_Id;
        (case attribute of
           None \<Rightarrow> Some (ESP_ERR_INVALID_STATE, s)
         | Some a \<Rightarrow> do {
             (v, s1) \<leftarrow> get_val_out G a s;
             let w = v\<lparr>av_val := set_member KU32 (ucast (val_u32 v OR value)) (av_val v)\<rparr>;
             (err, _, s2) \<leftarrow> set_val (g_env G) (g_write G) (Some a) (Some w) True s1;
             Some (err, s2) }) })"

definition get_feature_map_value :: "('n, 't) gen \<Rightarrow> handle \<Rightarrow> 'n dm \<Rightarrow> (u32 \<times> 'n dm) option" where
  "get_feature_map_value G ch s = do {
     attribute \<leftarrow> attribute_get s ch FeatureMap_Id;
     (case attribute of
        None \<Rightarrow> Some (0, s)
      | Some a \<Rightarrow> do { (v, s1) \<leftarrow> get_val_out G a s; Some (val_u32 v, s1) }) }"

section \<open>Conditions\<close>

datatype guard =
    Has_Feature u32
  | Has_Attribute u32
  | Has_Command u32 u16
  | Not guard
  | And guard guard
  | Or guard guard

primrec guard_holds :: "'n dm \<Rightarrow> handle \<Rightarrow> u32 \<Rightarrow> guard \<Rightarrow> bool option" where
  "guard_holds s ch fm (Has_Feature f) = Some (has_flag fm f)"
| "guard_holds s ch fm (Has_Attribute i) = do { h \<leftarrow> attribute_get s ch i; Some (h \<noteq> None) }"
| "guard_holds s ch fm (Has_Command i f) = do { h \<leftarrow> command_get s ch i f; Some (h \<noteq> None) }"
| "guard_holds s ch fm (Not g) = do { b \<leftarrow> guard_holds s ch fm g; Some (\<not> b) }"
| "guard_holds s ch fm (And g h) =
     do { b \<leftarrow> guard_holds s ch fm g; if b then guard_holds s ch fm h else Some False }"
| "guard_holds s ch fm (Or g h) =
     do { b \<leftarrow> guard_holds s ch fm g; if b then Some True else guard_holds s ch fm h }"

primrec reads_feature_map :: "guard \<Rightarrow> bool" where
  "reads_feature_map (Has_Feature f) = True"
| "reads_feature_map (Has_Attribute i) = False"
| "reads_feature_map (Has_Command i f) = False"
| "reads_feature_map (Not g) = reads_feature_map g"
| "reads_feature_map (And g h) = (reads_feature_map g \<or> reads_feature_map h)"
| "reads_feature_map (Or g h) = (reads_feature_map g \<or> reads_feature_map h)"

text \<open>The feature map is read once, before a condition that mentions a feature.\<close>

definition check_guard ::
    "('n, 't) gen \<Rightarrow> guard \<Rightarrow> handle \<Rightarrow> 'n dm \<Rightarrow> (bool \<times> 'n dm) option" where
  "check_guard G g ch s = do {
     (fm, s1) \<leftarrow> (if reads_feature_map g then get_feature_map_value G ch s else Some (0, s));
     b \<leftarrow> guard_holds s1 ch fm g;
     Some (b, s1) }"

definition check_guard_opt ::
    "('n, 't) gen \<Rightarrow> guard option \<Rightarrow> handle \<Rightarrow> 'n dm \<Rightarrow> (bool \<times> 'n dm) option" where
  "check_guard_opt G go ch s = (case go of None \<Rightarrow> Some (True, s) | Some g \<Rightarrow> check_guard G g ch s)"

section \<open>Functions that create an attribute, a command or an event\<close>

record attr_fn =
  af_guard :: "guard option"
  af_max_length :: "u16 option"
  af_id :: u32
  af_flags :: u16
  af_type :: val_type
  af_max_size :: u16
  af_bounds :: "(int \<times> int) option"

definition attr :: "u32 \<Rightarrow> u16 \<Rightarrow> val_type \<Rightarrow> attr_fn" where
  "attr i flags t =
     \<lparr>af_guard = None, af_max_length = None, af_id = i, af_flags = flags, af_type = t, af_max_size = 0,
      af_bounds = None\<rparr>"

definition guarded :: "guard \<Rightarrow> attr_fn \<Rightarrow> attr_fn" where
  "guarded g f = f\<lparr>af_guard := Some g\<rparr>"

definition at_most :: "u16 \<Rightarrow> attr_fn \<Rightarrow> attr_fn" where
  "at_most n f = f\<lparr>af_max_length := Some n\<rparr>"

definition sized :: "u16 \<Rightarrow> attr_fn \<Rightarrow> attr_fn" where
  "sized n f = f\<lparr>af_max_size := n\<rparr>"

definition bounded :: "int \<Rightarrow> int \<Rightarrow> attr_fn \<Rightarrow> attr_fn" where
  "bounded lo hi f = f\<lparr>af_bounds := Some (lo, hi)\<rparr>"

lemmas attr_fn_defs = attr_def guarded_def at_most_def sized_def bounded_def

definition bound_val :: "traits \<Rightarrow> val_type \<Rightarrow> int \<Rightarrow> attr_val" where
  "bound_val T t n = attr_ctor T t (literal T t n)"

definition create_attribute ::
    "('n, 't) gen \<Rightarrow> attr_fn \<Rightarrow> handle \<Rightarrow> arg \<Rightarrow> 'n dm \<Rightarrow> (handle \<times> 'n dm) option" where
  "create_attribute G f ch x s = do {
     let T = e_traits (g_env G);
     (ok, s1) \<leftarrow> check_guard_opt G (af_guard f) ch s;
     if \<not> ok then Some (None, s1)
     else if (case af_max_length f of None \<Rightarrow> False | Some n \<Rightarrow> n < arg_length x) then Some (None, s1)
     else do {
       (h, s2) \<leftarrow> attribute_create (g_env G) ch (af_id f) (af_flags f) (attr_ctor T (af_type f) x)
         (af_max_size f) s1;
       (case af_bounds f of
          None \<Rightarrow> Some (h, s2)
        | Some (lo, hi) \<Rightarrow> do {
            (_, s3) \<leftarrow> add_bounds (g_env G) h (bound_val T (af_type f) lo) (bound_val T (af_type f) hi) s2;
            Some (h, s3) }) } }"

record cmd_fn =
  mf_guard :: "guard option"
  mf_id :: u32
  mf_flags :: u16
  mf_callback :: "string option"

definition cmd :: "u32 \<Rightarrow> u16 \<Rightarrow> string option \<Rightarrow> cmd_fn" where
  "cmd i flags callback = \<lparr>mf_guard = None, mf_id = i, mf_flags = flags, mf_callback = callback\<rparr>"

definition guarded_cmd :: "guard \<Rightarrow> cmd_fn \<Rightarrow> cmd_fn" where
  "guarded_cmd g f = f\<lparr>mf_guard := Some g\<rparr>"

definition create_command ::
    "('n, 't) gen \<Rightarrow> cmd_fn \<Rightarrow> handle \<Rightarrow> 'n dm \<Rightarrow> (handle \<times> 'n dm) option" where
  "create_command G f ch s = do {
     (ok, s1) \<leftarrow> check_guard_opt G (mf_guard f) ch s;
     if \<not> ok then Some (None, s1)
     else command_create ch (mf_id f) (ucast (mf_flags f)) (map_option (g_symbol G) (mf_callback f)) s1 }"

record event_fn =
  vf_guard :: "guard option"
  vf_id :: u32

definition event :: "u32 \<Rightarrow> event_fn" where
  "event i = \<lparr>vf_guard = None, vf_id = i\<rparr>"

definition guarded_event :: "guard \<Rightarrow> event_fn \<Rightarrow> event_fn" where
  "guarded_event g f = f\<lparr>vf_guard := Some g\<rparr>"

lemmas element_fn_defs = attr_fn_defs cmd_def guarded_cmd_def event_def guarded_event_def

definition create_event ::
    "('n, 't) gen \<Rightarrow> event_fn \<Rightarrow> handle \<Rightarrow> 'n dm \<Rightarrow> (handle \<times> 'n dm) option" where
  "create_event G f ch s = do {
     (ok, s1) \<leftarrow> check_guard_opt G (vf_guard f) ch s;
     if \<not> ok then Some (None, s1) else event_create ch (vf_id f) s1 }"

section \<open>Features\<close>

datatype stmt =
    Require guard
  | Update_Feature_Map
  | Attribute attr_fn argx
  | Command cmd_fn
  | Event event_fn
  | Destroy_Attribute u32
  | Destroy_Command u32
  | Destroy_Event u32
  | If_Built string stmt

text \<open>
  One statement of a body; \<open>i\<close> is the id of the feature and \<open>config\<close> its configuration.  The result
  is the error of a requirement that does not hold; the results of the calls are ignored, as in
  the source.
\<close>

primrec exec :: "('n, 't) gen \<Rightarrow> u32 \<Rightarrow> fields \<Rightarrow> handle \<Rightarrow> stmt \<Rightarrow> 'n dm \<Rightarrow> (esp_err \<times> 'n dm) option" where
  "exec G i config ch (Require g) s =
     do { (b, s1) \<leftarrow> check_guard G g ch s; Some (if b then ESP_OK else ESP_ERR_INVALID_ARG, s1) }"
| "exec G i config ch Update_Feature_Map s =
     do { (_, s1) \<leftarrow> update_feature_map G ch i s; Some (ESP_OK, s1) }"
| "exec G i config ch (Attribute f x) s =
     do { (_, s1) \<leftarrow> create_attribute G f ch (eval_arg (e_traits (g_env G)) (af_type f) config x) s;
          Some (ESP_OK, s1) }"
| "exec G i config ch (Command f) s = do { (_, s1) \<leftarrow> create_command G f ch s; Some (ESP_OK, s1) }"
| "exec G i config ch (Event f) s = do { (_, s1) \<leftarrow> create_event G f ch s; Some (ESP_OK, s1) }"
| "exec G i config ch (Destroy_Attribute j) s = do {
     h \<leftarrow> attribute_get s ch j;
     if h = None then Some (ESP_OK, s)
     else do { (_, s1) \<leftarrow> attribute_destroy (g_env G) ch h s; Some (ESP_OK, s1) } }"
| "exec G i config ch (Destroy_Command j) s = do {
     h \<leftarrow> command_get s ch j COMMAND_FLAG_ACCEPTED;
     if h = None then Some (ESP_OK, s)
     else do { (_, s1) \<leftarrow> command_destroy ch h s; Some (ESP_OK, s1) } }"
| "exec G i config ch (Destroy_Event j) s = do {
     h \<leftarrow> event_get s ch j;
     if h = None then Some (ESP_OK, s)
     else do { (_, s1) \<leftarrow> event_destroy ch h s; Some (ESP_OK, s1) } }"
| "exec G i config ch (If_Built m st) s =
     (if g_built G m then exec G i config ch st s else Some (ESP_OK, s))"

primrec execs :: "('n, 't) gen \<Rightarrow> u32 \<Rightarrow> fields \<Rightarrow> handle \<Rightarrow> stmt list \<Rightarrow> 'n dm \<Rightarrow> (esp_err \<times> 'n dm) option" where
  "execs G i config ch [] s = Some (ESP_OK, s)"
| "execs G i config ch (st # sts) s = do {
     (err, s1) \<leftarrow> exec G i config ch st s;
     if err \<noteq> ESP_OK then Some (err, s1) else execs G i config ch sts s1 }"

record feature_fn =
  ff_id :: u32
  ff_config :: bool
  ff_body :: "stmt list"

definition feature :: "u32 \<Rightarrow> bool \<Rightarrow> stmt list \<Rightarrow> feature_fn" where
  "feature i c body = \<lparr>ff_id = i, ff_config = c, ff_body = body\<rparr>"

definition add_feature ::
    "('n, 't) gen \<Rightarrow> feature_fn \<Rightarrow> handle \<Rightarrow> fields option \<Rightarrow> 'n dm \<Rightarrow> (esp_err \<times> 'n dm) option" where
  "add_feature G f ch config s =
     (if ch = None then Some (ESP_ERR_INVALID_ARG, s)
      else if ff_config f \<and> config = None then Some (ESP_ERR_INVALID_ARG, s)
      else execs G (ff_id f) (case config of None \<Rightarrow> (\<lambda>_. Num 0) | Some c \<Rightarrow> c) ch (ff_body f) s)"

section \<open>Clusters\<close>

datatype feature_policy = k_exact_one | k_at_least_one

definition validate_features :: "u32 \<Rightarrow> feature_policy \<Rightarrow> u32 list \<Rightarrow> bool" where
  "validate_features feature_flag policy features =
     (let count = foldl (\<lambda>count feature. if has_flag feature feature_flag then count + 1 else count) (0 :: u8) features in
      case policy of k_exact_one \<Rightarrow> count = 1 | k_at_least_one \<Rightarrow> 1 \<le> count)"

text \<open>
  The statements of a cluster's \<open>create\<close>.  \<open>Config_Feature_Map\<close> creates the feature map with
  \<open>config->feature_flags\<close>, \<open>Feature_Map\<close> with a literal.
\<close>

datatype cstmt =
    Step stmt
  | Delegate string
  | Plugin string
  | Functions
  | Callbacks string string
  | Feature_Map u32
  | Config_Feature_Map
  | Cluster_Revision
  | Add_Feature feature_fn string
  | Validate feature_policy "u32 list"
  | If_Feature u32 "cstmt list" "cstmt list"
  | If_Built_All string "cstmt list"

record cluster_fn =
  kf_id :: u32
  kf_revision :: u16
  kf_functions :: "string list option"
  kf_function_flags :: u8
  kf_body :: "cstmt list"
  kf_binding :: bool

text \<open>The result is false when the statement gives up, which makes \<open>create\<close> abort.\<close>

fun exec_create :: "('n, 't) gen \<Rightarrow> cluster_fn \<Rightarrow> config \<Rightarrow> handle \<Rightarrow> cstmt \<Rightarrow> 'n dm \<Rightarrow> (bool \<times> 'n dm) option"
and execs_create :: "('n, 't) gen \<Rightarrow> cluster_fn \<Rightarrow> config \<Rightarrow> handle \<Rightarrow> cstmt list \<Rightarrow> 'n dm \<Rightarrow> (bool \<times> 'n dm) option" where
  "exec_create G k config ch (Step st) s =
     do { (_, s1) \<leftarrow> exec G 0 (co_fields config) ch st s; Some (True, s1) }"
| "exec_create G k config ch (Delegate f) s =
     (if co_delegate config = None then Some (True, s)
      else do {
        (_, s1) \<leftarrow> set_delegate_and_init_callback (Some (g_symbol G f)) (co_delegate config) ch s;
        Some (True, s1) })"
| "exec_create G k config ch (Plugin f) s =
     do { (_, s1) \<leftarrow> set_plugin_server_init_callback (Some (g_symbol G f)) ch s; Some (True, s1) }"
| "exec_create G k config ch Functions s = do {
     (_, s1) \<leftarrow> add_function_list (map_option (map (\<lambda>f. Some (g_symbol G f))) (kf_functions k))
       (ucast (kf_function_flags k)) ch s;
     Some (True, s1) }"
| "exec_create G k config ch (Callbacks f g) s = do {
     (_, s1) \<leftarrow> set_init_and_shutdown_callbacks (Some (g_symbol G f)) (Some (g_symbol G g)) ch s;
     Some (True, s1) }"
| "exec_create G k config ch (Feature_Map v) s =
     do { (_, s1) \<leftarrow> create_feature_map G ch v s; Some (True, s1) }"
| "exec_create G k config ch Config_Feature_Map s =
     do { (_, s1) \<leftarrow> create_feature_map G ch (co_feature_flags config) s; Some (True, s1) }"
| "exec_create G k config ch Cluster_Revision s =
     do { (_, s1) \<leftarrow> create_cluster_revision G ch (kf_revision k) s; Some (True, s1) }"
| "exec_create G k config ch (Add_Feature f name) s = do {
     (err, s1) \<leftarrow> add_feature G f ch (Some (co_features config name)) s;
     Some (err = ESP_OK, s1) }"
| "exec_create G k config ch (Validate p fs) s =
     Some (validate_features (co_feature_flags config) p fs, s)"
| "exec_create G k config ch (If_Feature f ts es) s =
     (if has_flag (co_feature_flags config) f then execs_create G k config ch ts s
      else execs_create G k config ch es s)"
| "exec_create G k config ch (If_Built_All m ts) s =
     (if g_built G m then execs_create G k config ch ts s else Some (True, s))"
| "execs_create G k config ch [] s = Some (True, s)"
| "execs_create G k config ch (st # sts) s = do {
     (ok, s1) \<leftarrow> exec_create G k config ch st s;
     if ok then execs_create G k config ch sts s1 else Some (False, s1) }"

text \<open>\<open>assert(false)\<close> ends the program unless assertions are compiled out.\<close>

definition ABORT_CLUSTER_CREATE :: "('n, 't) gen \<Rightarrow> handle \<Rightarrow> 'n dm \<Rightarrow> (handle \<times> 'n dm) option" where
  "ABORT_CLUSTER_CREATE G ch s = do {
     (_, s1) \<leftarrow> cluster_destroy (g_env G) ch s;
     if g_asserts G then None else Some (None, s1) }"

text \<open>The part of \<open>create\<close> for the server side, and the whole function.  On the client side a binding
  cluster is created; \<open>binding\<close> is its \<open>create\<close> function.\<close>

definition create_server ::
    "('n, 't) gen \<Rightarrow> cluster_fn \<Rightarrow> handle \<Rightarrow> config option \<Rightarrow> 'n dm \<Rightarrow> (handle \<times> 'n dm) option" where
  "create_server G k ch config s =
     (case config of
        None \<Rightarrow> ABORT_CLUSTER_CREATE G ch s
      | Some c \<Rightarrow> do {
          (ok, s1) \<leftarrow> execs_create G k c ch (kf_body k) s;
          if ok then Some (ch, s1) else ABORT_CLUSTER_CREATE G ch s1 })"

definition create_side ::
    "('n, 't) gen \<Rightarrow> cluster_fn \<Rightarrow> handle \<Rightarrow> config option \<Rightarrow> u8 \<Rightarrow> 'n dm \<Rightarrow> (handle \<times> 'n dm) option" where
  "create_side G k eh config flags s = do {
     (ch, s1) \<leftarrow> cluster_create (g_env G) eh (kf_id k) flags s;
     if ch = None then Some (None, s1)
     else if has_flag flags CLUSTER_FLAG_SERVER then create_server G k ch config s1
     else Some (ch, s1) }"

definition empty_config :: config where
  "empty_config = \<lparr>co_fields = (\<lambda>_. Num 0), co_features = (\<lambda>_ _. Num 0), co_feature_flags = 0, co_delegate = None\<rparr>"

definition create ::
    "('n, 't) gen \<Rightarrow> cluster_fn \<Rightarrow> cluster_fn \<Rightarrow> handle \<Rightarrow> config option \<Rightarrow> u8 \<Rightarrow> 'n dm \<Rightarrow> (handle \<times> 'n dm) option" where
  "create G binding k eh config flags s = do {
     (ch, s1) \<leftarrow> create_side G k eh config flags s;
     if ch \<noteq> None \<and> has_flag flags CLUSTER_FLAG_CLIENT \<and> kf_binding k then do {
       (_, s2) \<leftarrow> create_side G binding eh (Some empty_config) CLUSTER_FLAG_SERVER s1;
       Some (ch, s2) }
     else Some (ch, s1) }"

section \<open>Command callbacks\<close>

text \<open>
  The callback a generated command is created with: it decodes the payload as \<open>cb_type\<close> and hands it to
  the ember function \<open>cb_handler\<close> of connectedhomeip.  With \<open>cb_fabric\<close> the decoder is given the fabric
  of the command handler, which has to be there.  The result is \<open>ESP_OK\<close> in any case.  \<open>decodes\<close> says
  whether \<open>Decode\<close> succeeds.
\<close>

record callback_fn =
  cb_type :: string
  cb_fabric :: bool
  cb_handler :: string

definition decodes_to :: "string \<Rightarrow> string \<Rightarrow> callback_fn" where
  "decodes_to t h = \<lparr>cb_type = t, cb_fabric = False, cb_handler = h\<rparr>"

definition decodes_in_fabric :: "string \<Rightarrow> string \<Rightarrow> callback_fn" where
  "decodes_in_fabric t h = \<lparr>cb_type = t, cb_fabric = True, cb_handler = h\<rparr>"

definition command_callback ::
    "(string \<Rightarrow> u8 option \<Rightarrow> 'd \<Rightarrow> bool) \<Rightarrow> callback_fn \<Rightarrow> 'd \<Rightarrow> u8 option \<Rightarrow> string list \<Rightarrow> (esp_err \<times> string list) option" where
  "command_callback decodes cb payload fabric called =
     (if cb_fabric cb \<and> fabric = None then None
      else Some (ESP_OK,
        if decodes (cb_type cb) (if cb_fabric cb then fabric else None) payload then called @ [cb_handler cb] else called))"

section \<open>Descriptions of clusters\<close>

text \<open>The ids a cluster declares in its \<open>_ids.h\<close>, and the functions of its file.\<close>

type_synonym id_table = "(string \<times> u32) list"

record cluster_ids =
  ci_cluster :: u32
  ci_features :: id_table
  ci_attributes :: id_table
  ci_commands :: id_table
  ci_events :: id_table

record cluster_decl =
  cd_ids :: cluster_ids
  cd_callbacks :: "(string \<times> callback_fn) list"
  cd_features :: "feature_fn list"
  cd_attributes :: "attr_fn list"
  cd_commands :: "cmd_fn list"
  cd_events :: "event_fn list"
  cd_create :: "cluster_fn option"

end
