(* ===== verification/EM_Shape.thy ===== *)
theory EM_Shape
  imports EM_Generated
begin

text \<open>
  What the generated functions do to a cluster, without the store.  The shape of a cluster is its
  feature map with the declarations of its attributes, commands and events.  The functions
  \<open>sh_exec\<close>, \<open>sh_execs\<close> and \<open>sh_add_feature\<close> give the template a meaning on shapes, and the theory
  shows that the code on the store computes exactly this: it ends, keeps the shape of the store,
  touches no other cluster, and \<open>shape\<close> of the result is the result on \<open>shape\<close>.
\<close>

section \<open>Shapes\<close>

record shape =
  sh_feature_map :: "u32 option"
  sh_attributes :: "(u32 \<times> val_type \<times> u16) list"
  sh_commands :: "(u32 \<times> u16) list"
  sh_events :: "u32 list"

definition attr_decl :: "attribute_t \<Rightarrow> u32 \<times> val_type \<times> u16" where
  "attr_decl at = (at_id at, at_type at, at_flags at)"

definition stored_u32 :: "attribute_t \<Rightarrow> u32" where
  "stored_u32 at = (case at_ext at of None \<Rightarrow> 0 | Some x \<Rightarrow> ucast (num_member KU32 (x_val x)))"

definition shape_of :: "attribute_t list \<Rightarrow> command_t list \<Rightarrow> event_t list \<Rightarrow> shape" where
  "shape_of as cs es =
     \<lparr>sh_feature_map = map_option stored_u32 (find (\<lambda>at. at_id at = FeatureMap_Id) as),
      sh_attributes = map attr_decl as, sh_commands = map (\<lambda>cm. (cm_id cm, cm_flags cm)) cs,
      sh_events = map ev_id es\<rparr>"

definition shape :: "'n dm \<Rightarrow> addr \<Rightarrow> shape" where
  "shape s c =
     (let cl = the (cls s c) in
      shape_of (map (\<lambda>a. the (ats s a)) (cl_attributes cl)) (map (\<lambda>a. the (cms s a)) (cl_commands cl))
        (map (\<lambda>a. the (evs s a)) (cl_events cl)))"

section \<open>Statements on shapes\<close>

definition sh_fm :: "shape \<Rightarrow> u32" where
  "sh_fm sh = (case sh_feature_map sh of None \<Rightarrow> 0 | Some v \<Rightarrow> v)"

definition sh_attr_ids :: "shape \<Rightarrow> u32 set" where
  "sh_attr_ids sh = fst ` set (sh_attributes sh)"

definition sh_has_command :: "shape \<Rightarrow> u32 \<Rightarrow> u16 \<Rightarrow> bool" where
  "sh_has_command sh i f \<longleftrightarrow> list_ex (\<lambda>(j, g). j = i \<and> has_flag g f) (sh_commands sh)"

primrec sh_guard :: "shape \<Rightarrow> guard \<Rightarrow> bool" where
  "sh_guard sh (Has_Feature f) = has_flag (sh_fm sh) f"
| "sh_guard sh (Has_Attribute i) = (i \<in> sh_attr_ids sh)"
| "sh_guard sh (Has_Command i f) = sh_has_command sh i f"
| "sh_guard sh (Not g) = (\<not> sh_guard sh g)"
| "sh_guard sh (And g h) = (sh_guard sh g \<and> sh_guard sh h)"
| "sh_guard sh (Or g h) = (sh_guard sh g \<or> sh_guard sh h)"

definition sh_guard_opt :: "shape \<Rightarrow> guard option \<Rightarrow> bool" where
  "sh_guard_opt sh go = (case go of None \<Rightarrow> True | Some g \<Rightarrow> sh_guard sh g)"

text \<open>The types that can have bounds, and the effect of bounds on the declarations.\<close>

definition boundable :: "val_type \<Rightarrow> bool" where
  "boundable t \<longleftrightarrow> t \<notin> string_types \<union> {VT_ARRAY, VT_BOOLEAN}"

definition sh_bound :: "u32 \<Rightarrow> val_type \<Rightarrow> (u32 \<times> val_type \<times> u16) list \<Rightarrow> (u32 \<times> val_type \<times> u16) list" where
  "sh_bound i t as =
     map (\<lambda>(j, u, f). if j = i \<and> u = t \<and> boundable t \<and> \<not> has_flag f ATTRIBUTE_FLAG_MANAGED_INTERNALLY
                      then (j, u, f OR ATTRIBUTE_FLAG_MIN_MAX) else (j, u, f)) as"

definition sh_attribute :: "attr_fn \<Rightarrow> u16 \<Rightarrow> shape \<Rightarrow> shape" where
  "sh_attribute f l sh =
     (if \<not> sh_guard_opt sh (af_guard f) then sh
      else if (case af_max_length f of None \<Rightarrow> False | Some n \<Rightarrow> n < l) then sh
      else
        (let as = (if af_id f \<in> sh_attr_ids sh then sh_attributes sh
                   else sh_attributes sh @ [(af_id f, af_type f, af_flags f)]) in
         sh\<lparr>sh_attributes := (if af_bounds f = None then as else sh_bound (af_id f) (af_type f) as)\<rparr>))"

definition sh_command :: "cmd_fn \<Rightarrow> shape \<Rightarrow> shape" where
  "sh_command f sh =
     (let fl = ucast (ucast (mf_flags f) :: u8) in
      if \<not> sh_guard_opt sh (mf_guard f) \<or> sh_has_command sh (mf_id f) fl then sh
      else sh\<lparr>sh_commands := sh_commands sh @ [(mf_id f, fl)]\<rparr>)"

definition sh_event :: "event_fn \<Rightarrow> shape \<Rightarrow> shape" where
  "sh_event f sh =
     (if \<not> sh_guard_opt sh (vf_guard f) \<or> vf_id f \<in> set (sh_events sh) then sh
      else sh\<lparr>sh_events := sh_events sh @ [vf_id f]\<rparr>)"

primrec argx_length :: "fields \<Rightarrow> argx \<Rightarrow> u16" where
  "argx_length config (Lit n) = 0"
| "argx_length config Null_Str = 0"
| "argx_length config Null_Arr = 0"
| "argx_length config (Field f) = arg_length (config f)"

primrec sh_exec :: "(string \<Rightarrow> bool) \<Rightarrow> u32 \<Rightarrow> fields \<Rightarrow> stmt \<Rightarrow> shape \<Rightarrow> bool \<times> shape" where
  "sh_exec built i config (Require g) sh = (sh_guard sh g, sh)"
| "sh_exec built i config Update_Feature_Map sh =
     (True, sh\<lparr>sh_feature_map := map_option (\<lambda>v. v OR i) (sh_feature_map sh)\<rparr>)"
| "sh_exec built i config (Attribute f x) sh = (True, sh_attribute f (argx_length config x) sh)"
| "sh_exec built i config (Command f) sh = (True, sh_command f sh)"
| "sh_exec built i config (Event f) sh = (True, sh_event f sh)"
| "sh_exec built i config (Destroy_Attribute j) sh =
     (True, sh\<lparr>sh_attributes := filter (\<lambda>d. fst d \<noteq> j) (sh_attributes sh)\<rparr>)"
| "sh_exec built i config (Destroy_Command j) sh =
     (True, sh\<lparr>sh_commands := filter (\<lambda>(k, f). \<not> (k = j \<and> has_flag f COMMAND_FLAG_ACCEPTED)) (sh_commands sh)\<rparr>)"
| "sh_exec built i config (Destroy_Event j) sh =
     (True, sh\<lparr>sh_events := filter (\<lambda>k. k \<noteq> j) (sh_events sh)\<rparr>)"
| "sh_exec built i config (If_Built m st) sh =
     (if built m then sh_exec built i config st sh else (True, sh))"

primrec sh_execs :: "(string \<Rightarrow> bool) \<Rightarrow> u32 \<Rightarrow> fields \<Rightarrow> stmt list \<Rightarrow> shape \<Rightarrow> bool \<times> shape" where
  "sh_execs built i config [] sh = (True, sh)"
| "sh_execs built i config (st # sts) sh =
     (let (ok, sh1) = sh_exec built i config st sh in
      if ok then sh_execs built i config sts sh1 else (False, sh1))"

definition sh_add_feature :: "(string \<Rightarrow> bool) \<Rightarrow> feature_fn \<Rightarrow> fields \<Rightarrow> shape \<Rightarrow> bool \<times> shape" where
  "sh_add_feature built f config = sh_execs built (ff_id f) config (ff_body f)"

section \<open>States in which a cluster can be extended\<close>

text \<open>What the generated code relies on: an encoder and decoder that agree and take every number, and an
  application callback that accepts changes as they are.\<close>

definition gen_ok :: "('n, 't) gen \<Rightarrow> bool" where
  "gen_ok G \<longleftrightarrow>
     tlv_ok (p_tlv (g_prov G)) \<and> traits_ok (e_traits (g_env G)) \<and> app_accepts (g_env G) \<and>
     callback_keeps_value (g_env G) \<and> (\<forall>w. \<exists>e. tlv_put_num (p_tlv (g_prov G)) KU32 w = Inr e)"

definition changed_ok :: "cluster_t \<Rightarrow> bool" where
  "changed_ok cl \<longleftrightarrow> (bit (cl_flags cl) 1 \<longrightarrow>
     (\<exists>fs. cl_functions cl = Some fs \<and> function_slot (cl_flags cl) 1 < length fs))"

definition plain_feature_map :: "'n dm \<Rightarrow> cluster_t \<Rightarrow> bool" where
  "plain_feature_map s cl \<longleftrightarrow>
     (\<forall>a \<in> set (cl_attributes cl). \<forall>at. ats s a = Some at \<longrightarrow> at_id at = FeatureMap_Id \<longrightarrow>
        at_type at = VT_BITMAP32 \<and> at_flags at = 0)"

definition ready :: "('n, 't) gen \<Rightarrow> 'n dm \<Rightarrow> addr \<Rightarrow> bool" where
  "ready G s c \<longleftrightarrow>
     dm_inv s \<and> never_fails (mem s) \<and>
     (\<exists>cl. cls s c = Some cl \<and> plain_path (g_prov G) (cl_ep cl) (cl_id cl) \<and> changed_ok cl \<and>
        plain_feature_map s cl)"

text \<open>A change of a list of children and of the store of the children that leaves the others alone.\<close>

definition grows :: "addr list \<Rightarrow> addr list \<Rightarrow> (addr \<Rightarrow> 'a option) \<Rightarrow> (addr \<Rightarrow> 'a option) \<Rightarrow> bool" where
  "grows xs ys m m' \<longleftrightarrow> (\<forall>a. m a \<noteq> None \<longrightarrow> a \<notin> set xs \<longrightarrow> m' a = m a \<and> a \<notin> set ys)"

definition inside :: "addr \<Rightarrow> 'n dm \<Rightarrow> 'n dm \<Rightarrow> bool" where
  "inside c s t \<longleftrightarrow>
     node t = node s \<and> eps t = eps s \<and>
     (\<exists>cl cl'. cls s c = Some cl \<and> cls t = (cls s)(c \<mapsto> cl') \<and> cl_id cl' = cl_id cl \<and> cl_ep cl' = cl_ep cl \<and>
        grows (cl_attributes cl) (cl_attributes cl') (ats s) (ats t) \<and>
        grows (cl_commands cl) (cl_commands cl') (cms s) (cms t) \<and>
        grows (cl_events cl) (cl_events cl') (evs s) (evs t))"

definition same_head :: "addr \<Rightarrow> 'n dm \<Rightarrow> 'n dm \<Rightarrow> bool" where
  "same_head c s t \<longleftrightarrow>
     map_option (\<lambda>cl. (cl_flags cl, cl_functions cl)) (cls t c) =
     map_option (\<lambda>cl. (cl_flags cl, cl_functions cl)) (cls s c)"

definition refines :: "('n, 't) gen \<Rightarrow> addr \<Rightarrow> 'n dm \<Rightarrow> ('r \<times> 'n dm) option \<Rightarrow> 'r \<Rightarrow> shape \<Rightarrow> bool" where
  "refines G c s p r sh \<longleftrightarrow>
     (\<exists>s'. p = Some (r, s') \<and> ready G s' c \<and> inside c s s' \<and> same_head c s s' \<and> shape s' c = sh)"

lemma grows_refl [simp]: "grows xs xs m m"
  by (simp add: grows_def)

lemma grows_trans: "grows xs ys m m' \<Longrightarrow> grows ys zs m' m'' \<Longrightarrow> grows xs zs m m''"
  by (simp add: grows_def)

lemma inside_refl: "cls s c = Some cl \<Longrightarrow> inside c s s"
  by (auto simp: inside_def fun_upd_idem intro!: exI[of _ cl])

lemma insideI:
  assumes "node t = node s" "eps t = eps s" "cls s c = Some cl" "cls t = (cls s)(c \<mapsto> cl')" "cl_id cl' = cl_id cl"
    "cl_ep cl' = cl_ep cl" "grows (cl_attributes cl) (cl_attributes cl') (ats s) (ats t)"
    "grows (cl_commands cl) (cl_commands cl') (cms s) (cms t)" "grows (cl_events cl) (cl_events cl') (evs s) (evs t)"
  shows "inside c s t"
  using assms unfolding inside_def by blast

lemma inside_trans:
  assumes "inside c s t" "inside c t u"
  shows "inside c s u"
proof -
  from assms(1) obtain cl cl' where 1: "node t = node s" "eps t = eps s" "cls s c = Some cl" "cls t = (cls s)(c \<mapsto> cl')"
      "cl_id cl' = cl_id cl" "cl_ep cl' = cl_ep cl" "grows (cl_attributes cl) (cl_attributes cl') (ats s) (ats t)"
      "grows (cl_commands cl) (cl_commands cl') (cms s) (cms t)" "grows (cl_events cl) (cl_events cl') (evs s) (evs t)"
    unfolding inside_def by blast
  from assms(2) 1 obtain cl'' where "node u = node t" "eps u = eps t" "cls u = (cls t)(c \<mapsto> cl'')"
      "cl_id cl'' = cl_id cl'" "cl_ep cl'' = cl_ep cl'" "grows (cl_attributes cl') (cl_attributes cl'') (ats t) (ats u)"
      "grows (cl_commands cl') (cl_commands cl'') (cms t) (cms u)" "grows (cl_events cl') (cl_events cl'') (evs t) (evs u)"
    unfolding inside_def by auto
  then show ?thesis using 1 by (intro insideI[of u s c cl cl'']) (auto intro: grows_trans)
qed

lemma same_head_refl [simp]: "same_head c s s"
  by (simp add: same_head_def)

lemma same_head_trans: "same_head c s t \<Longrightarrow> same_head c t u \<Longrightarrow> same_head c s u"
  by (simp add: same_head_def)

lemma refines_return: "ready G s c \<Longrightarrow> shape s c = sh \<Longrightarrow> refines G c s (Some (r, s)) r sh"
  by (auto simp: refines_def ready_def intro: inside_refl)

lemma refines_bind:
  assumes "refines G c s p r sh"
    and "\<And>s'. ready G s' c \<Longrightarrow> shape s' c = sh \<Longrightarrow> refines G c s' (q r s') r' sh'"
  shows "refines G c s (do { (x, t) \<leftarrow> p; q x t }) r' sh'"
proof -
  obtain s1 where s1: "p = Some (r, s1)" "ready G s1 c" "inside c s s1" "same_head c s s1" "shape s1 c = sh"
    using assms(1) by (auto simp: refines_def)
  obtain s2 where "q r s1 = Some (r', s2)" "ready G s2 c" "inside c s1 s2" "same_head c s1 s2" "shape s2 c = sh'"
    using assms(2)[OF s1(2,5)] by (auto simp: refines_def)
  then show ?thesis
    using s1 inside_trans[of c s s1 s2] same_head_trans[of c s s1 s2] by (auto simp: refines_def)
qed

text \<open>Nothing inside one cluster shows in the shape of another.\<close>

lemma grows_frame:
  assumes "owns rel sep kids ps m" "ps c = Some p" "ps d = Some q" "d \<noteq> c" "grows (kids p) ys m m'" "x \<in> set (kids q)"
  shows "m' x = m x"
proof -
  have "m x \<noteq> None" using owns_live[OF assms(1,3,6)] by auto
  moreover have "x \<notin> set (kids p)" using owns_one_parent[OF assms(1,3,2,6)] assms(4) by blast
  ultimately show ?thesis using assms(5) by (simp add: grows_def)
qed

lemma inside_shape:
  assumes "inside c s t" "dm_inv s" "d \<noteq> c" "cls s d = Some dl"
  shows "shape t d = shape s d"
proof -
  obtain cl cl' where cl: "cls s c = Some cl" "cls t = (cls s)(c \<mapsto> cl')"
      "grows (cl_attributes cl) (cl_attributes cl') (ats s) (ats t)"
      "grows (cl_commands cl) (cl_commands cl') (cms s) (cms t)"
      "grows (cl_events cl) (cl_events cl') (evs s) (evs t)"
    using assms(1) by (auto simp: inside_def)
  note lay = assms(2)[unfolded dm_inv_def layer_defs]
  have "ats t x = ats s x" if "x \<in> set (cl_attributes dl)" for x
    using grows_frame[OF _ cl(1) assms(4,3) cl(3) that] lay by blast
  moreover have "cms t x = cms s x" if "x \<in> set (cl_commands dl)" for x
    using grows_frame[OF _ cl(1) assms(4,3) cl(4) that] lay by blast
  moreover have "evs t x = evs s x" if "x \<in> set (cl_events dl)" for x
    using grows_frame[OF _ cl(1) assms(4,3) cl(5) that] lay by blast
  ultimately show ?thesis using assms(3,4) cl(2)
    by (simp add: shape_def shape_of_def cong: map_cong)
qed

section \<open>Reading the feature map\<close>

lemma ready_cluster:
  assumes "ready G s c"
  obtains cl where "cls s c = Some cl" "dm_inv s" "never_fails (mem s)" "plain_path (g_prov G) (cl_ep cl) (cl_id cl)"
    "changed_ok cl" "plain_feature_map s cl"
  using assms that by (auto simp: ready_def)

text \<open>The lookup of an attribute, in the store and in the shape.\<close>

lemma attribute_get_find:
  assumes "dm_inv s" "cls s c = Some cl"
  shows "attribute_get s (Some c) i = Some (find (\<lambda>a. at_id (the (ats s a)) = i) (cl_attributes cl))"
proof -
  have "find_m (\<lambda>a. do { at \<leftarrow> ats s a; Some (at_id at = i) }) (cl_attributes cl) =
      Some (find (\<lambda>a. at_id (the (ats s a)) = i) (cl_attributes cl))"
    using owns_live[OF inv_at[OF assms(1), unfolded at_layer_def] assms(2)]
    by (intro find_m_find) fastforce
  then show ?thesis using assms(2) by (simp add: attribute_get_def)
qed

lemma find_map: "find P (map f xs) = map_option f (find (P \<circ> f) xs)"
  by (induction xs) auto

lemma shape_feature_map:
  assumes "dm_inv s" "cls s c = Some cl"
  shows "attribute_get s (Some c) FeatureMap_Id = Some h \<Longrightarrow>
    sh_feature_map (shape s c) = map_option (\<lambda>a. stored_u32 (the (ats s a))) h"
  using assms by (simp add: attribute_get_find shape_def shape_of_def find_map comp_def option.map_comp)

lemma shape_attr_ids:
  assumes "dm_inv s" "cls s c = Some cl" "attribute_get s (Some c) i = Some h"
  shows "i \<in> sh_attr_ids (shape s c) \<longleftrightarrow> h \<noteq> None"
proof -
  have "h = None \<longleftrightarrow> \<not> (\<exists>a. a \<in> set (cl_attributes cl) \<and> at_id (the (ats s a)) = i)"
    using assms attribute_get_find[OF assms(1,2), of i] by (auto simp: find_None_iff)
  then show ?thesis using assms(2)
    by (auto simp: shape_def shape_of_def sh_attr_ids_def attr_decl_def image_image)
qed

text \<open>Memory that was allocated and freed again does not show.\<close>

lemma shape_mem [simp]: "shape (s\<lparr>mem := m\<rparr>) c = shape s c"
  by (simp add: shape_def)

lemma refines_mem:
  assumes "ready G s c" "mem_next (mem s) \<le> mem_next m" "never_fails m"
  shows "refines G c s (Some (r, s\<lparr>mem := m\<rparr>)) r (shape s c)"
proof -
  obtain cl where cl: "cls s c = Some cl" "dm_inv s" "plain_path (g_prov G) (cl_ep cl) (cl_id cl)" "changed_ok cl"
      "plain_feature_map s cl"
    using assms(1) by (rule ready_cluster)
  have "dm_inv (s\<lparr>mem := m\<rparr>)" by (rule inv_cong[OF cl(2)]) (use assms(2) in simp_all)
  then have "ready G (s\<lparr>mem := m\<rparr>) c" using cl assms(3) by (auto simp: ready_def plain_feature_map_def)
  moreover have "inside c s (s\<lparr>mem := m\<rparr>)" using cl(1) by (intro insideI[of _ _ _ cl cl]) (simp_all add: fun_upd_idem)
  ultimately show ?thesis by (simp add: refines_def same_head_def)
qed

lemma never_fails_calloc:
  assumes "never_fails m"
  shows "fst (mem_calloc m) = Some (mem_next m)" "never_fails (snd (mem_calloc m))"
    "mem_next m < mem_next (snd (mem_calloc m))"
  using assms by (auto simp: never_fails_def mem_calloc_def Let_def)

lemma never_fails_alloc_eq:
  "never_fails (mem s) \<Longrightarrow> alloc s = (Some (mem_next (mem s)), s\<lparr>mem := snd (mem_calloc (mem s))\<rparr>)"
  by (simp add: alloc_def split_beta never_fails_calloc)

lemma feature_map_attribute:
  assumes "ready G s c" "cls s c = Some cl" "attribute_get s (Some c) FeatureMap_Id = Some (Some a)"
  obtains at x where "ats s a = Some at" "at_ext at = Some x" "at_id at = FeatureMap_Id" "at_type at = VT_BITMAP32"
    "at_flags at = 0" "x_ep x = cl_ep cl" "x_cl x = cl_id cl" "a \<in> set (cl_attributes cl)"
    "attribute_get_by_path s (cl_ep cl) (cl_id cl) FeatureMap_Id = Some (Some a)"
    "check_attribute_path s (cl_ep cl) (cl_id cl) FeatureMap_Id = Some Success"
proof -
  have inv: "dm_inv s" and plain: "plain_feature_map s cl" using assms(1,2) by (auto simp: ready_def)
  obtain at where at: "a \<in> set (cl_attributes cl)" "ats s a = Some at" "at_id at = FeatureMap_Id"
    using attribute_get_exact[OF inv assms(2), of FeatureMap_Id] assms(3) by auto
  have ok: "at_ok cl at" using owns_rel[OF inv_at[OF inv, unfolded at_layer_def] assms(2) at(1,2)] .
  have t: "at_type at = VT_BITMAP32" "at_flags at = 0" using plain at by (auto simp: plain_feature_map_def)
  then obtain x where x: "at_ext at = Some x" "x_ep x = cl_ep cl" "x_cl x = cl_id cl"
    using ok by (cases "at_ext at") (auto simp: at_ok_def)
  have "cluster_get_by_id s (cl_ep cl) (cl_id cl) = Some (Some c)"
    using cluster_get_by_id_exact[OF inv, of "cl_ep cl" "cl_id cl"] assms(2) by auto
  then have p: "attribute_get_by_path s (cl_ep cl) (cl_id cl) FeatureMap_Id = Some (Some a)"
    using assms(3) by (simp add: attribute_get_by_path_def)
  then have "check_attribute_path s (cl_ep cl) (cl_id cl) FeatureMap_Id = Some Success"
    by (rule path_attribute[OF inv])
  then show thesis using that at t x p by blast
qed

lemma get_val_out_feature_map:
  assumes G: "gen_ok G" and r: "ready G s c" "cls s c = Some cl" "attribute_get s (Some c) FeatureMap_Id = Some (Some a)"
    and at: "ats s a = Some at"
  obtains v where "get_val_out G a s = Some (v, s\<lparr>mem := snd (mem_calloc (mem s))\<rparr>)" "av_type v = VT_BITMAP32"
    "val_u32 v = stored_u32 at"
proof -
  obtain at' x where a: "ats s a = Some at'" "at_ext at' = Some x" "at_id at' = FeatureMap_Id" "at_type at' = VT_BITMAP32"
      "at_flags at' = 0" "x_ep x = cl_ep cl" "x_cl x = cl_id cl"
      "attribute_get_by_path s (cl_ep cl) (cl_id cl) FeatureMap_Id = Some (Some a)"
      "check_attribute_path s (cl_ep cl) (cl_id cl) FeatureMap_Id = Some Success"
    by (rule feature_map_attribute[OF r])
  have "at' = at" using a(1) at by simp
  note a = a[unfolded this]
  let ?P = "g_prov G" and ?E = "g_env G" and ?s = "s\<lparr>mem := snd (mem_calloc (mem s))\<rparr>"
  have nf: "never_fails (mem s)" and pp: "plain_path ?P (cl_ep cl) (cl_id cl)" using r by (auto simp: ready_def)
  note al = never_fails_alloc_eq[OF nf]
  have k: "wire_kind VT_BITMAP32 = Some KU32" by (simp add: wire_kind_def)
  obtain e where e: "encode (p_tlv ?P) (e_traits ?E) (attr_val_of at x) = Some (Inr e)"
    using G a(4) k by (auto simp: gen_ok_def encode_def attr_val_of_def Let_def)
  have sp: "same_paths s ?s" by (simp add: same_paths_def)
  have "ReadAttribute ?E ?P (path_request (cl_ep cl) (cl_id cl) FeatureMap_Id) ?s = Some (AE CHIP_NO_ERROR, Some e)"
    using read_attribute_stored[of ?s "cl_ep cl" "cl_id cl" FeatureMap_Id a ?P at x ?E e] a e pp
      same_paths_check[OF sp] same_paths_attribute[OF sp] by simp
  moreover obtain v where v: "decode (p_tlv ?P) (e_traits ?E) VT_BITMAP32 e (mem ?s) = (CHIP_NO_ERROR, v, mem ?s)"
      "same_value v (attr_val_of at x)"
  proof -
    have t: "av_type (attr_val_of at x) = VT_BITMAP32" using a(4) by (simp add: attr_val_of_def)
    have "\<not> val_is_null (e_traits ?E) (attr_val_of at x)" using val_is_null_kind[of "attr_val_of at x" KU32] t k by simp
    moreover have "tlv_ok (p_tlv ?P)" "traits_ok (e_traits ?E)" using G by (simp_all add: gen_ok_def)
    ultimately show thesis using that num_roundtrip[OF _ _ _ e, of KU32 "mem ?s"] t k by metis
  qed
  ultimately have "get_val_by_path ?E ?P (cl_ep cl) (cl_id cl) FeatureMap_Id s = Some (ESP_OK, Some v, ?s)"
    using a al by (simp add: get_val_by_path_def get_val_type_by_path_def get_val_type_def action_ok_def
        get_val_from_tlv_data_def)
  then have "get_val_out G a s = Some (v, ?s)"
    using a by (simp add: get_val_out_def get_val_def get_path_from_attribute_handle_def)
  moreover have "av_type v = VT_BITMAP32" "num_member KU32 (av_val v) = num_member KU32 (x_val x)"
    using v(2) a(4) by (simp_all add: same_value_def attr_val_of_def)
  ultimately show thesis using that a(2) by (simp add: val_u32_def stored_u32_def)
qed

lemma get_feature_map_value_refines:
  assumes "gen_ok G" "ready G s c"
  shows "refines G c s (get_feature_map_value G (Some c) s) (sh_fm (shape s c)) (shape s c)"
proof -
  obtain cl where cl: "cls s c = Some cl" "dm_inv s" "never_fails (mem s)" using assms(2) by (rule ready_cluster)
  obtain h where h: "attribute_get s (Some c) FeatureMap_Id = Some h" using attribute_get_find[OF cl(2,1)] by blast
  note fm = shape_feature_map[OF cl(2,1) h]
  show ?thesis
  proof (cases h)
    case None
    then show ?thesis using h fm refines_return[OF assms(2) refl]
      by (simp add: get_feature_map_value_def sh_fm_def)
  next
    case (Some a)
    obtain at where at: "ats s a = Some at" using feature_map_attribute[OF assms(2) cl(1) h[unfolded Some]] .
    obtain v where v: "get_val_out G a s = Some (v, s\<lparr>mem := snd (mem_calloc (mem s))\<rparr>)" "val_u32 v = stored_u32 at"
      using get_val_out_feature_map[OF assms cl(1) h[unfolded Some] at] .
    have "get_feature_map_value G (Some c) s = Some (sh_fm (shape s c), s\<lparr>mem := snd (mem_calloc (mem s))\<rparr>)"
      using h Some v fm at by (simp add: get_feature_map_value_def sh_fm_def)
    then show ?thesis using refines_mem[OF assms(2) less_imp_le[OF never_fails_calloc(3)[OF cl(3)]] never_fails_calloc(2)[OF cl(3)]] by simp
  qed
qed

section \<open>Conditions\<close>

lemma command_get_shape:
  assumes "dm_inv s" "cls s c = Some cl"
  shows "\<exists>h. command_get s (Some c) i f = Some h \<and> (h \<noteq> None \<longleftrightarrow> sh_has_command (shape s c) i f)"
proof -
  have live: "\<exists>cm. cms s a = Some cm" if "a \<in> set (cl_commands cl)" for a
    using owns_live[OF inv_cm[OF assms(1), unfolded cm_layer_def] assms(2) that] .
  obtain h where h: "command_get s (Some c) i f = Some h"
      "h = None \<longleftrightarrow> (\<forall>a \<in> set (cl_commands cl). \<forall>cm. cms s a = Some cm \<longrightarrow> \<not> (cm_id cm = i \<and> has_flag (cm_flags cm) f))"
    using command_get_exact[OF assms, of i f] by blast
  have "sh_has_command (shape s c) i f \<longleftrightarrow> h \<noteq> None"
    unfolding h(2) using assms(2) live
    by (auto simp: sh_has_command_def shape_def shape_of_def list_ex_iff) (metis option.sel)+
  then show ?thesis using h(1) by blast
qed

lemma guard_holds_shape:
  assumes "dm_inv s" "cls s c = Some cl" "reads_feature_map g \<longrightarrow> fm = sh_fm (shape s c)"
  shows "guard_holds s (Some c) fm g = Some (sh_guard (shape s c) g)"
  using assms(3)
proof (induction g)
  case (Has_Attribute i)
  then show ?case using attribute_get_find[OF assms(1,2), of i] shape_attr_ids[OF assms(1,2)] by simp
next
  case (Has_Command i f)
  then show ?case using command_get_shape[OF assms(1,2), of i f] by auto
qed auto

lemma check_guard_refines:
  assumes "gen_ok G" "ready G s c"
  shows "refines G c s (check_guard G g (Some c) s) (sh_guard (shape s c) g) (shape s c)"
proof -
  have g: "refines G c t (do { b \<leftarrow> guard_holds t (Some c) fm g; Some (b, t) }) (sh_guard (shape s c) g) (shape s c)"
    if "ready G t c" "shape t c = shape s c" "reads_feature_map g \<longrightarrow> fm = sh_fm (shape t c)" for t fm
    using that guard_holds_shape[of t c _ g fm] ready_cluster[OF that(1)] refines_return[OF that(1,2)] by (metis bind.bind_lunit)
  show ?thesis
  proof (cases "reads_feature_map g")
    case True
    have "refines G c s (do { (fm, t) \<leftarrow> get_feature_map_value G (Some c) s;
        (do { b \<leftarrow> guard_holds t (Some c) fm g; Some (b, t) }) }) (sh_guard (shape s c) g) (shape s c)"
      by (rule refines_bind[OF get_feature_map_value_refines[OF assms]]) (use g in simp)
    then show ?thesis using True by (simp add: check_guard_def)
  next
    case False
    then show ?thesis using g[OF assms(2) refl, of 0] by (simp add: check_guard_def)
  qed
qed

lemma check_guard_opt_refines:
  assumes "gen_ok G" "ready G s c"
  shows "refines G c s (check_guard_opt G g (Some c) s) (sh_guard_opt (shape s c) g) (shape s c)"
  using check_guard_refines[OF assms] refines_return[OF assms(2) refl]
  by (cases g) (simp_all add: check_guard_opt_def sh_guard_opt_def)

section \<open>Updating the feature map\<close>

lemma shape_values:
  assumes "cls t = cls s" "cms t = cms s" "evs t = evs s" "cls s c = Some cl" "dm_inv s"
    and "\<And>b. map_option attr_decl (ats t b) = map_option attr_decl (ats s b)"
  shows "shape t c = (shape s c)\<lparr>sh_feature_map := sh_feature_map (shape t c)\<rparr>"
proof -
  have "attr_decl (the (ats t b)) = attr_decl (the (ats s b))" if b: "b \<in> set (cl_attributes cl)" for b
  proof -
    obtain at where "ats s b = Some at"
      using owns_live[OF inv_at[OF assms(5), unfolded at_layer_def] assms(4) b] by blast
    then show ?thesis using assms(6)[of b] by (cases "ats t b") auto
  qed
  then show ?thesis using assms(1-4) by (simp add: shape_def shape_of_def)
qed

lemma post_update_total:
  assumes "dm_inv s" "app_accepts E" "callback_keeps_value E" "cls s c = Some cl" "changed_ok cl" "i = cl_ep cl" "j = cl_id cl"
  shows "\<exists>t. post_update E i j k v s = Some (v, t) \<and> same_store s t"
proof -
  obtain v' t where e: "execute_callback E POST_UPDATE i j k v s = Some (ESP_OK, v', t)" "same_store s t"
    by (rule execute_callback_total[OF assms(1,2)])
  then have v: "v' = v" using execute_callback_value[OF assms(3)] by blast
  have t: "dm_inv t" "cls t c = Some cl" using same_store_inv[OF e(2) assms(1)] e(2) assms(4) by (simp_all add: same_store_def)
  have g: "cluster_get_by_id t i j = Some (Some c)" using cluster_get_by_id_exact[OF t(1), of i j] t(2) assms(6,7) by auto
  have "\<exists>f. get_function t (Some c) (2 ^ 1) = Some f"
  proof (cases "bit (cl_flags cl) 1")
    case True
    then obtain fs where "cl_functions cl = Some fs" "function_slot (cl_flags cl) 1 < length fs"
      using assms(5) by (auto simp: changed_ok_def)
    then show ?thesis using get_function_slot[OF t(2), of fs 1] by auto
  next
    case False
    then show ?thesis using t(2) and_power_u8[of "cl_flags cl" 1] by (simp add: get_function_def has_flag_def)
  qed
  then obtain f where "get_function t (Some c) CLUSTER_FLAG_ATTRIBUTE_CHANGED_FUNCTION = Some f"
    by (auto simp: flag_defs)
  then show ?thesis using e g v by (auto simp: post_update_def split: option.splits)
qed

lemma set_feature_map:
  assumes G: "gen_ok G" and r: "ready G s c" "cls s c = Some cl" "attribute_get s (Some c) FeatureMap_Id = Some (Some a)"
    and v: "av_type v = VT_BITMAP32"
  shows "\<exists>err vo s'. set_val_internal (g_env G) (Some a) (Some v) True s = Some (err, vo, s') \<and>
    ready G s' c \<and> inside c s s' \<and> same_head c s s' \<and> shape s' c = (shape s c)\<lparr>sh_feature_map := Some (val_u32 v)\<rparr>"
proof -
  obtain at x where at: "ats s a = Some at" "at_ext at = Some x" "at_id at = FeatureMap_Id" "at_type at = VT_BITMAP32"
      "at_flags at = 0" "x_ep x = cl_ep cl" "x_cl x = cl_id cl" "a \<in> set (cl_attributes cl)"
    by (rule feature_map_attribute[OF r])
  obtain cl' where "cls s c = Some cl'" and inv: "dm_inv s" and nf: "never_fails (mem s)"
      and pp: "plain_path (g_prov G) (cl_ep cl') (cl_id cl')" and ch: "changed_ok cl'" and pf: "plain_feature_map s cl'"
    using r(1) by (rule ready_cluster)
  then have "cl' = cl" using r(2) by simp
  note pp = pp[unfolded this] and ch = ch[unfolded this] and pf = pf[unfolded this]
  have fm: "sh_feature_map (shape s c) = Some (stored_u32 at)" using shape_feature_map[OF inv r(2,3)] at(1) by simp
  let ?E = "g_env G"
  have ok: "app_accepts ?E" "callback_keeps_value ?E" using G by (simp_all add: gen_ok_def)
  show ?thesis
  proof (cases "val_compare v (attr_val_of at x)")
    case True
    then have "num_member KU32 (av_val v) = num_member KU32 (x_val x)"
      using v at(4) by (simp add: val_compare_def attr_val_of_def num_eq_def num_member_trunc)
    then have "shape s c = (shape s c)\<lparr>sh_feature_map := Some (val_u32 v)\<rparr>"
      using fm at(2) by (simp add: val_u32_def stored_u32_def)
    moreover have "set_val_internal ?E (Some a) (Some v) True s = Some (ESP_ERR_NOT_FINISHED, Some v, s)"
      using at v True by (simp add: set_val_internal_def)
    ultimately show ?thesis using r inside_refl by fastforce
  next
    case False
    obtain v1 s1 where e: "execute_callback ?E PRE_UPDATE (x_ep x) (x_cl x) (at_id at) v s = Some (ESP_OK, v1, s1)"
        "same_store s s1"
      by (rule execute_callback_total[OF inv ok(1)])
    have v1: "v1 = v" using execute_callback_value[OF ok(2) e(1)] .
    let ?at = "at\<lparr>at_ext := Some (x\<lparr>x_val := av_val v\<rparr>)\<rparr>"
    let ?s2 = "put_attr a ?at s1"
    have s1: "ats s1 = ats s" "cls s1 = cls s" "node s1 = node s" "eps s1 = eps s" "cms s1 = cms s" "evs s1 = evs s"
        "mem s1 = mem s"
      using e(2) by (simp_all add: same_store_def)
    have oa: "only_attr a s ?s2" using s1 at(1,2) e(2) by (auto simp: only_attr_def same_store_def same_decl_def)
    have inv2: "dm_inv ?s2" using only_attr_inv[OF oa inv at(1)] .
    obtain t where t: "post_update ?E (x_ep x) (x_cl x) (at_id at) v ?s2 = Some (v, t)" "same_store ?s2 t"
      using post_update_total[OF inv2 ok, of c cl "x_ep x" "x_cl x"] r(2) s1 ch at(6,7) by auto
    have set: "set_val_internal ?E (Some a) (Some v) True s = Some (ESP_OK, Some v, t)"
      using at v False e(1) v1 t(1) by (simp add: set_val_internal_def store_value_def persist_def)
    have tt: "node t = node s" "eps t = eps s" "cls t = cls s" "ats t = (ats s)(a \<mapsto> ?at)" "cms t = cms s" "evs t = evs s"
        "mem t = mem s" using t(2) s1 by (simp_all add: same_store_def)
    have invt: "dm_inv t" using same_store_inv[OF t(2) inv2] .
    have "plain_feature_map t cl"
      unfolding plain_feature_map_def
    proof (intro ballI allI impI)
      fix b bt assume b: "b \<in> set (cl_attributes cl)" "ats t b = Some bt" "at_id bt = FeatureMap_Id"
      show "at_type bt = VT_BITMAP32 \<and> at_flags bt = 0"
      proof (cases "b = a")
        case True
        then have "bt = ?at" using b(2) tt(4) by simp
        then show ?thesis using at(4,5) by simp
      next
        case False
        then have "ats s b = Some bt" using b(2) tt(4) by simp
        then show ?thesis using pf b(1,3) unfolding plain_feature_map_def by blast
      qed
    qed
    then have "ready G t c" unfolding ready_def tt(3,7) using invt nf pp ch r(2) by blast
    moreover have "inside c s t"
      by (rule insideI[OF tt(1,2) r(2), of cl]) (use at(8) tt r(2) in \<open>simp_all add: grows_def fun_upd_idem\<close>)
    moreover have "shape t c = (shape s c)\<lparr>sh_feature_map := Some (val_u32 v)\<rparr>"
    proof -
      have sp: "same_paths s t" using tt at(1) by (simp add: same_paths_def)
      have "sh_feature_map (shape t c) = Some (val_u32 v)"
        using shape_feature_map[OF invt, of c cl "Some a"] r(2,3) tt same_paths_attribute(1)[OF sp]
        by (simp add: stored_u32_def val_u32_def)
      moreover have "map_option attr_decl (ats t b) = map_option attr_decl (ats s b)" for b
        using tt(4) at(1) by (simp add: attr_decl_def)
      ultimately show ?thesis using shape_values[OF tt(3,5,6) r(2) inv] by metis
    qed
    ultimately show ?thesis using set tt(3) by (auto simp: same_head_def)
  qed
qed

lemma ucast_trunc_u32: "ucast (trunc KU32 (ucast (w :: u32))) = w"
  by (rule bit_word_eqI) (simp add: trunc_def bit_unsigned_iff bit_take_bit_iff)

lemma update_feature_map_refines:
  assumes G: "gen_ok G" and r: "ready G s c"
  shows "\<exists>err. refines G c s (update_feature_map G (Some c) i s) err
    ((shape s c)\<lparr>sh_feature_map := map_option (\<lambda>v. v OR i) (sh_feature_map (shape s c))\<rparr>)"
proof -
  obtain cl where cl: "cls s c = Some cl" "dm_inv s" "never_fails (mem s)" using r by (rule ready_cluster)
  obtain h where h: "attribute_get s (Some c) FeatureMap_Id = Some h" using attribute_get_find[OF cl(2,1)] by blast
  note fm = shape_feature_map[OF cl(2,1) h]
  show ?thesis
  proof (cases h)
    case None
    then have "(shape s c)\<lparr>sh_feature_map := map_option (\<lambda>v. v OR i) (sh_feature_map (shape s c))\<rparr> = shape s c"
      using fm by simp
    then show ?thesis using h None refines_return[OF r refl, of ESP_ERR_INVALID_STATE] by (auto simp: update_feature_map_def)
  next
    case (Some a)
    obtain at x where at: "ats s a = Some at" "at_ext at = Some x" "x_ep x = cl_ep cl" "x_cl x = cl_id cl"
        "at_id at = FeatureMap_Id" "at_type at = VT_BITMAP32" "at_flags at = 0"
      by (rule feature_map_attribute[OF r cl(1) h[unfolded Some]])
    let ?s = "s\<lparr>mem := snd (mem_calloc (mem s))\<rparr>"
    obtain v where v: "get_val_out G a s = Some (v, ?s)" "av_type v = VT_BITMAP32" "val_u32 v = stored_u32 at"
      by (rule get_val_out_feature_map[OF G r cl(1) h[unfolded Some] at(1)])
    have mm: "refines G c s (Some ((), ?s)) () (shape s c)"
      using refines_mem[OF r less_imp_le[OF never_fails_calloc(3)[OF cl(3)]] never_fails_calloc(2)[OF cl(3)]] .
    then have r': "ready G ?s c" by (simp add: refines_def)
    define w where "w = v\<lparr>av_val := set_member KU32 (ucast (val_u32 v OR i)) (av_val v)\<rparr>"
    have w: "av_type w = VT_BITMAP32" "val_u32 w = stored_u32 at OR i"
      using v by (simp_all add: w_def val_u32_def ucast_trunc_u32)
    obtain err vo s' where s': "set_val_internal (g_env G) (Some a) (Some w) True ?s = Some (err, vo, s')"
        "ready G s' c" "inside c ?s s'" "same_head c ?s s'" "shape s' c = (shape s c)\<lparr>sh_feature_map := Some (val_u32 w)\<rparr>"
      using set_feature_map[OF G r' _ _ w(1), of cl a] cl(1) h Some by auto
    have "attribute_get_by_path ?s (cl_ep cl) (cl_id cl) FeatureMap_Id = Some (Some a)"
      using feature_map_attribute[OF r', of cl a] cl(1) h Some by auto
    then have "set_val (g_env G) (g_write G) (Some a) (Some w) True ?s = Some (err, vo, s')"
      using at w(1) s'(1)
      by (simp add: set_val_def get_path_from_attribute_handle_def set_val_by_path_def get_val_type_def attribute_get_flags_def)
    then have "update_feature_map G (Some c) i s = Some (err, s')"
      using h Some v(1) by (simp add: update_feature_map_def w_def)
    moreover have "inside c s s'" using mm s'(3) inside_trans[of c s ?s s'] by (simp add: refines_def)
    moreover have "same_head c s s'" using s'(4) by (simp add: same_head_def)
    ultimately show ?thesis using s'(2,5) w(2) fm Some at(1) by (auto simp: refines_def)
  qed
qed

section \<open>Creating attributes\<close>

text \<open>Allocation that never fails stays that way.\<close>

lemma get_val_from_nvs_fail:
  "get_val_from_nvs api b64 i j k v m n = (err, v', m', n') \<Longrightarrow> mem_fail m' = mem_fail m"
proof -
  have "nvs_get_val api ns key v m n = (err, v', m', n') \<Longrightarrow> mem_fail m' = mem_fail m" for ns key v m n err v' m' n'
    by (auto simp: nvs_get_val_def nvs_get_blob_val_def mem_calloc_def Let_def
        split: if_splits option.splits prod.splits sum.splits)
  then show "get_val_from_nvs api b64 i j k v m n = (err, v', m', n') \<Longrightarrow> mem_fail m' = mem_fail m"
    by (auto simp: get_val_from_nvs_def Let_def split: if_splits prod.splits)
qed

lemma recover_value_fail:
  assumes "recover_value E a s = Some (b, s')"
  shows "mem_fail (mem s') = mem_fail (mem s)"
proof -
  obtain at x where at: "ats s a = Some at" "at_ext at = Some x"
    using assms by (auto simp: recover_value_def split: bind_splits)
  obtain err v m n where g: "get_val_from_nvs (e_nvs E) (e_b64 E) (x_ep x) (x_cl x) (at_id at)
      \<lparr>av_type = at_type at, av_val = e_junk E\<rparr> (mem s) (nvs s) = (err, v, m, n)"
    by (metis prod_cases4)
  show ?thesis
    using assms at get_val_from_nvs_fail[OF g] by (auto simp: recover_value_def g Let_def split: if_splits)
qed

text \<open>Values whose buffers are at least as long as they say.\<close>

definition val_ok :: "attr_val \<Rightarrow> bool" where
  "val_ok v \<longleftrightarrow> (av_type v \<in> string_types \<longrightarrow> unat (a_s (v_a (av_val v))) \<le> length (buf_bytes (a_b (v_a (av_val v)))))"

lemma set_string_total:
  assumes "unat (a_s (v_a (av_val v))) \<le> length (buf_bytes (a_b (v_a (av_val v))))"
  shows "set_string v x m \<noteq> None"
proof (cases "a_s (v_a (av_val v)) > 0")
  case True
  then obtain bs where bs: "a_b (v_a (av_val v)) = Some bs" "unat (a_s (v_a (av_val v))) \<le> length bs"
    using assms by (cases "a_b (v_a (av_val v))") (simp_all add: buf_bytes_def word_less_nat_alt)
  then have "\<not> length bs < unat (a_s (v_a (av_val v)))" by simp
  then show ?thesis using bs(1)
    by (simp only: set_string_def Let_def split_beta bind.bind_lunit if_False split: if_split option.split) simp
qed (simp add: set_string_def Let_def)

lemma store_value_total: "val_ok v \<Longrightarrow> \<exists>r. store_value v x m = Some r"
  using set_string_total[of v x m] by (simp add: store_value_def val_ok_def del: insert_iff)

lemma init_value_ok:
  assumes a: "ats s a = Some at" "at_ext at = Some x" "\<not> has_flag (at_flags at) ATTRIBUTE_FLAG_MANAGED_INTERNALLY"
    and v: "val_ok v"
  shows "\<exists>s'. init_value E a flags v s = Some s' \<and> mem_fail (mem s') = mem_fail (mem s)"
proof -
  have set: "\<exists>e w u. set_val_internal E (Some a) (Some v) False t = Some (e, w, u) \<and> mem_fail (mem u) = mem_fail (mem t)"
    if t: "ats t a = Some at'" "at_ext at' = Some x'" "at_flags at' = at_flags at" for t at' x'
  proof -
    obtain r where "store_value v x' (mem t) = Some r" using store_value_total[OF v] by blast
    then have "\<exists>y. set_val_internal E (Some a) (Some v) False t = Some y"
      using t a(3) by (cases r) (simp add: set_val_internal_def Let_def cong: if_cong)
    then obtain e w u where u: "set_val_internal E (Some a) (Some v) False t = Some (e, w, u)" by auto
    then show ?thesis using set_val_internal_quiet(2)[OF u t(1,2)] by blast
  qed
  obtain b s1 at' x' where r: "recover_value E a s = Some (b, s1)" "ats s1 a = Some at'" "at_ext at' = Some x'"
      "at_flags at' = at_flags at"
    using recover_value_total[OF a(1,2), of E] by blast
  obtain e w u where u: "set_val_internal E (Some a) (Some v) False s = Some (e, w, u)" "mem_fail (mem u) = mem_fail (mem s)"
    using set[OF a(1,2) refl] by blast
  obtain e' w' u' where u': "set_val_internal E (Some a) (Some v) False s1 = Some (e', w', u')" "mem_fail (mem u') = mem_fail (mem s1)"
    using set[OF r(2-4)] by blast
  show ?thesis using r(1) u u' recover_value_fail[OF r(1)] by (simp add: init_value_def)
qed

lemma val_ok_max_size [simp]: "val_ok (with_max_size v n) = val_ok v"
  by (simp add: val_ok_def with_max_size_def)

lemma attribute_create_total:
  assumes inv: "dm_inv s" "never_fails (mem s)" and cl: "cls s c = Some cl" and v: "val_ok v"
  shows "\<exists>a s'. attribute_create E (Some c) i flags v mx s = Some (Some a, s') \<and> never_fails (mem s')"
proof -
  obtain h where h: "attribute_get s (Some c) i = Some h" using attribute_get_find[OF inv(1) cl] by blast
  show ?thesis
  proof (cases "h = None")
    case False
    then show ?thesis using h cl inv(2) by (auto simp: attribute_create_def)
  next
    case True
    let ?a = "mem_next (mem s)" and ?s = "s\<lparr>mem := snd (mem_calloc (mem s))\<rparr>"
    let ?t = "put_attr ?a (new_attribute cl i flags (av_type v) mx) ?s"
    note al = never_fails_alloc_eq[OF inv(2)]
    have nf: "never_fails (mem ?s)" using never_fails_calloc(2)[OF inv(2)] by simp
    show ?thesis
    proof (cases "has_flag flags ATTRIBUTE_FLAG_MANAGED_INTERNALLY")
      case True
      then show ?thesis using h \<open>h = None\<close> cl al nf by (auto simp: attribute_create_def)
    next
      case False
      obtain u where u: "init_value E ?a flags (with_max_size v mx) ?t = Some u" "mem_fail (mem u) = mem_fail (mem ?t)"
        using init_value_ok[of ?t ?a "new_attribute cl i flags (av_type v) mx" _ "with_max_size v mx" E flags] v False
        by (auto simp: new_attribute_def)
      then have "never_fails (mem u)" using nf by (simp add: never_fails_def)
      then show ?thesis using h \<open>h = None\<close> cl al u(1) False by (auto simp: attribute_create_def)
    qed
  qed
qed

definition sh_new_attribute :: "u32 \<Rightarrow> val_type \<Rightarrow> u16 \<Rightarrow> shape \<Rightarrow> shape" where
  "sh_new_attribute i t fl sh =
     (if i \<in> sh_attr_ids sh then sh else sh\<lparr>sh_attributes := sh_attributes sh @ [(i, t, fl)]\<rparr>)"

text \<open>The shape with one more attribute, given the fate of the feature map.\<close>

lemma shape_of_append:
  assumes "at_id at = FeatureMap_Id \<longrightarrow> find (\<lambda>b. at_id b = FeatureMap_Id) as = None"
  shows "shape_of (as @ [at]) cs es = (shape_of as cs es)\<lparr>sh_attributes := map attr_decl as @ [attr_decl at],
    sh_feature_map := (if at_id at = FeatureMap_Id then Some (stored_u32 at)
                       else map_option stored_u32 (find (\<lambda>b. at_id b = FeatureMap_Id) as))\<rparr>"
proof -
  have "find P (xs @ [x]) = (case find P xs of Some y \<Rightarrow> Some y | None \<Rightarrow> if P x then Some x else None)" for P xs and x :: attribute_t
    by (induction xs) auto
  then show ?thesis using assms by (auto simp: shape_of_def split: option.splits)
qed

lemma shape_append_attribute:
  assumes "dm_inv s" "cls s c = Some cl" "cls t c = Some (cl\<lparr>cl_attributes := cl_attributes cl @ [a]\<rparr>)"
    "ats t = (ats s)(a \<mapsto> at)" "cms t = cms s" "evs t = evs s" "ats s a = None" "attribute_get s (Some c) (at_id at) = Some None"
  shows "shape t c = (shape s c)\<lparr>sh_attributes := sh_attributes (shape s c) @ [attr_decl at],
    sh_feature_map := (if at_id at = FeatureMap_Id then Some (stored_u32 at) else sh_feature_map (shape s c))\<rparr>"
proof -
  let ?as = "map (\<lambda>b. the (ats s b)) (cl_attributes cl)" and ?cs = "map (\<lambda>b. the (cms s b)) (cl_commands cl)"
    and ?es = "map (\<lambda>b. the (evs s b)) (cl_events cl)"
  have "b \<noteq> a" if "b \<in> set (cl_attributes cl)" for b
    using owns_live[OF inv_at[OF assms(1), unfolded at_layer_def] assms(2) that] assms(7) by auto
  then have "map (\<lambda>b. the (ats t b)) (cl_attributes cl @ [a]) = ?as @ [at]" using assms(4) by simp
  then have t: "shape t c = shape_of (?as @ [at]) ?cs ?es" using assms(3,5,6) by (simp add: shape_def cong: map_cong)
  have s: "shape s c = shape_of ?as ?cs ?es" using assms(2) by (simp add: shape_def)
  have "find (\<lambda>b. at_id (the (ats s b)) = at_id at) (cl_attributes cl) = None"
    using assms(8) attribute_get_find[OF assms(1,2), of "at_id at"] by simp
  then have "at_id at = FeatureMap_Id \<longrightarrow> find (\<lambda>b. at_id b = FeatureMap_Id) ?as = None"
    by (auto simp: find_map comp_def)
  from shape_of_append[OF this] show ?thesis unfolding t s by (simp add: shape_of_def)
qed

text \<open>The value a new feature map starts with.\<close>

lemma set_u32_quiet:
  assumes "ats t a = Some n" "at_ext n = Some x" "at_flags n = 0" "at_type n = VT_BITMAP32" "av_type v = VT_BITMAP32"
    and "set_val_internal E (Some a) (Some v) False t = Some (e, vo, u)" "ats u a = Some at"
  shows "stored_u32 at = val_u32 v"
proof (cases "val_compare v (attr_val_of n x)")
  case True
  then have "num_member KU32 (av_val v) = num_member KU32 (x_val x)"
    using assms(4,5) by (simp add: val_compare_def attr_val_of_def num_eq_def num_member_trunc)
  moreover have "u = t" using assms True by (simp add: set_val_internal_def)
  ultimately show ?thesis using assms(1,2,7) by (simp add: stored_u32_def val_u32_def)
next
  case False
  then have "u = put_attr a (n\<lparr>at_ext := Some (x\<lparr>x_val := av_val v\<rparr>)\<rparr>) t"
    using assms by (simp add: set_val_internal_def store_value_def persist_def)
  then show ?thesis using assms(7) by (auto simp: stored_u32_def val_u32_def)
qed

lemma new_feature_map_value:
  assumes r: "attribute_create E (Some c) i 0 v mx s = Some (Some a, s')" and g: "attribute_get s (Some c) i = Some None"
    and cl: "cls s c = Some cl" and nf: "never_fails (mem s)" and v: "av_type v = VT_BITMAP32" and at: "ats s' a = Some at"
  shows "stored_u32 at = val_u32 v"
proof -
  define n where "n = new_attribute cl i 0 (av_type v) mx"
  let ?a = "mem_next (mem s)" and ?t = "put_attr (mem_next (mem s)) n (s\<lparr>mem := snd (mem_calloc (mem s))\<rparr>)"
  have w: "with_max_size v mx = v" using v by (simp add: with_max_size_def)
  obtain e vo u where u: "set_val_internal E (Some ?a) (Some v) False ?t = Some (e, vo, u)" "a = ?a" "ats s' = ats u"
    using r g cl never_fails_alloc_eq[OF nf] w by (auto simp: attribute_create_def init_value_def n_def split: bind_splits)
  obtain x where x: "at_ext n = Some x" "at_flags n = 0" "at_type n = VT_BITMAP32"
    using v by (simp add: n_def new_attribute_def)
  show ?thesis using set_u32_quiet[OF _ x v u(1)] at u(2,3) by simp
qed

text \<open>Creation on the store and on shapes.  The feature map itself has type \<open>BITMAP32\<close> and no flags.\<close>

lemma attribute_create_refines:
  assumes r: "ready G s c" and v: "val_ok v" and fm: "i = FeatureMap_Id \<longrightarrow> av_type v = VT_BITMAP32 \<and> flags = 0"
  shows "\<exists>a. refines G c s (attribute_create (g_env G) (Some c) i flags v mx s) (Some a)
    ((sh_new_attribute i (av_type v) flags (shape s c))
       \<lparr>sh_feature_map := (if i = FeatureMap_Id \<and> i \<notin> sh_attr_ids (shape s c) then Some (val_u32 v)
                          else sh_feature_map (shape s c))\<rparr>)"
proof -
  obtain cl where cl: "cls s c = Some cl" "dm_inv s" "never_fails (mem s)" "plain_path (g_prov G) (cl_ep cl) (cl_id cl)"
      "changed_ok cl" "plain_feature_map s cl"
    using r by (rule ready_cluster)
  obtain a s' where s': "attribute_create (g_env G) (Some c) i flags v mx s = Some (Some a, s')" "never_fails (mem s')"
    using attribute_create_total[OF cl(2,3,1) v] by blast
  note inv' = attribute_create_inv[OF s'(1) cl(2)]
  from s'(1) cl(1) show ?thesis
  proof (cases rule: attribute_create_cases)
    case (existing b)
    then have "i \<in> sh_attr_ids (shape s c)" using shape_attr_ids[OF cl(2,1)] by simp
    then have "sh_new_attribute i (av_type v) flags (shape s c) = shape s c" by (simp add: sh_new_attribute_def)
    then show ?thesis
      using refines_return[OF r refl, of "Some a"] s'(1) existing(3) \<open>i \<in> sh_attr_ids (shape s c)\<close> by (intro exI[of _ a]) simp
  next
    case no_mem
    then show ?thesis by simp
  next
    case (created b at)
    have a: "b = a" using created(1) by simp
    note created = created[unfolded a]
    have free: "ats s a = None" using created(3) inv_next_free(3)[OF cl(2)] by simp
    have nin: "i \<notin> sh_attr_ids (shape s c)" using shape_attr_ids[OF cl(2,1) created(2)] by simp
    let ?cl = "cl\<lparr>cl_attributes := cl_attributes cl @ [a]\<rparr>"
    have cls': "cls s' c = Some ?cl" using created(10) by simp
    have "plain_feature_map s' ?cl"
      unfolding plain_feature_map_def
    proof (intro ballI allI impI)
      fix y bt assume y: "y \<in> set (cl_attributes ?cl)" "ats s' y = Some bt" "at_id bt = FeatureMap_Id"
      show "at_type bt = VT_BITMAP32 \<and> at_flags bt = 0"
      proof (cases "y = a")
        case True
        then have "bt = at" using y(2) created(4) by simp
        then show ?thesis using y(3) created(5-7) fm by simp
      next
        case False
        then have "ats s y = Some bt" "y \<in> set (cl_attributes cl)" using y created(4) by simp_all
        then show ?thesis using cl(6) y(3) unfolding plain_feature_map_def by blast
      qed
    qed
    then have "ready G s' c"
      unfolding ready_def using inv' s'(2) cls' cl(4,5) by (auto simp: changed_ok_def)
    moreover have "inside c s s'"
      by (rule insideI[OF created(11,12) cl(1) created(10)]) (use created free in \<open>auto simp: grows_def\<close>)
    moreover have "same_head c s s'" using cls' cl(1) by (simp add: same_head_def)
    moreover have "shape s' c = (shape s c)\<lparr>sh_attributes := sh_attributes (shape s c) @ [attr_decl at],
      sh_feature_map := (if at_id at = FeatureMap_Id then Some (stored_u32 at) else sh_feature_map (shape s c))\<rparr>"
      using shape_append_attribute[OF cl(2,1) cls' created(4,13,14) free] created(2,5) by simp
    moreover have "stored_u32 at = val_u32 v" if "i = FeatureMap_Id"
      using new_feature_map_value[OF _ created(2) cl(1,3)] s'(1) fm that created(4) by simp
    ultimately show ?thesis
      using s'(1) nin created(5-7)
      by (intro exI[of _ a]) (auto simp: refines_def sh_new_attribute_def attr_decl_def)
  qed
qed

text \<open>Bounds change the flags of one declaration.\<close>

lemma same_attr_id:
  assumes "dm_inv s" "cls s c = Some cl" "a \<in> set (cl_attributes cl)" "ats s a = Some at" "b \<in> set (cl_attributes cl)"
  shows "at_id (the (ats s b)) = at_id at \<longleftrightarrow> b = a"
proof -
  note own = inv_at[OF assms(1), unfolded at_layer_def]
  obtain bt where "ats s b = Some bt" using owns_live[OF own assms(2,5)] by blast
  then show ?thesis using owns_sep[OF own assms(2,5,3), of bt at] assms(4) by auto
qed

lemma bound_attribute_val_total:
  assumes "ats s a = Some at" "at_ext at = Some x" "x_bounds x = Some b"
  shows "\<exists>err at'. bound_attribute_val E a s = Some (err, put_attr a at' s) \<and> attr_decl at' = attr_decl at"
proof -
  let ?r = "compare_attr_val_with_bounds (e_traits E) (attr_val_of at x) b"
  have id: "put_attr a at s = s" using assms(1) by (simp add: put_attr_def fun_upd_idem)
  have d: "attr_decl (at\<lparr>at_ext := y\<rparr>) = attr_decl at" for y by (simp add: attr_decl_def)
  consider "?r = 1" | "?r = - 1" | "?r \<noteq> 1" "?r \<noteq> - 1" by blast
  then show ?thesis
  proof cases
    case 1
    then show ?thesis using assms d by (simp add: bound_attribute_val_def) blast
  next
    case 2
    then show ?thesis using assms d by (simp add: bound_attribute_val_def) blast
  next
    case 3
    then show ?thesis using assms id by (intro exI[of _ "if ?r = 0 then ESP_OK else ESP_ERR_INVALID_ARG"] exI[of _ at]) (simp add: bound_attribute_val_def)
  qed
qed

lemma add_bounds_outcome:
  assumes "ats s a = Some at" "at_ok cl at" "never_fails (mem s)" "av_type mn = t" "av_type mx = t"
  shows "if boundable t \<and> at_type at = t \<and> \<not> has_flag (at_flags at) ATTRIBUTE_FLAG_MANAGED_INTERNALLY
    then \<exists>err at'. add_bounds E (Some a) mn mx s = Some (err, put_attr a at' (s\<lparr>mem := snd (mem_calloc (mem s))\<rparr>)) \<and>
      attr_decl at' = (at_id at, t, at_flags at OR ATTRIBUTE_FLAG_MIN_MAX)
    else \<exists>err. add_bounds E (Some a) mn mx s = Some (err, s)"
proof (cases "boundable t \<and> at_type at = t \<and> \<not> has_flag (at_flags at) ATTRIBUTE_FLAG_MANAGED_INTERNALLY")
  case True
  then obtain x where x: "at_ext at = Some x" using assms(2) by (cases "at_ext at") (auto simp: at_ok_def)
  let ?x = "x\<lparr>x_bounds := Some \<lparr>b_min = mn, b_max = mx\<rparr>\<rparr>"
  define bt where "bt = at\<lparr>at_flags := at_flags at OR ATTRIBUTE_FLAG_MIN_MAX, at_ext := Some ?x\<rparr>"
  let ?s = "s\<lparr>mem := snd (mem_calloc (mem s))\<rparr>"
  have "add_bounds E (Some a) mn mx s = bound_attribute_val E a (put_attr a bt ?s)"
    using True x assms(1,4,5) never_fails_alloc_eq[OF assms(3)] by (simp add: add_bounds_def boundable_def bt_def)
  moreover obtain err at' where "bound_attribute_val E a (put_attr a bt ?s) = Some (err, put_attr a at' (put_attr a bt ?s))"
      "attr_decl at' = attr_decl bt"
    using bound_attribute_val_total[of "put_attr a bt ?s" a bt ?x _ E] by (auto simp: bt_def)
  moreover have "put_attr a at' (put_attr a bt ?s) = put_attr a at' ?s" by (simp add: put_attr_def)
  ultimately have "add_bounds E (Some a) mn mx s = Some (err, put_attr a at' ?s) \<and>
      attr_decl at' = (at_id at, t, at_flags at OR ATTRIBUTE_FLAG_MIN_MAX)"
    using True by (simp add: bt_def attr_decl_def)
  then show ?thesis using True by auto
next
  case False
  then have "\<exists>err. add_bounds E (Some a) mn mx s = Some (err, s)"
    using assms(1,4,5) by (auto simp: add_bounds_def boundable_def)
  then show ?thesis using False by auto
qed

lemma add_bounds_refines:
  assumes r: "ready G s c" "cls s c = Some cl" and a: "a \<in> set (cl_attributes cl)" "ats s a = Some at"
    "at_id at \<noteq> FeatureMap_Id" and t: "av_type mn = t" "av_type mx = t"
  shows "\<exists>err. refines G c s (add_bounds (g_env G) (Some a) mn mx s) err
    ((shape s c)\<lparr>sh_attributes := sh_bound (at_id at) t (sh_attributes (shape s c))\<rparr>)"
proof -
  have inv: "dm_inv s" and nf: "never_fails (mem s)" and ok: "plain_path (g_prov G) (cl_ep cl) (cl_id cl)" "changed_ok cl"
      "plain_feature_map s cl"
    using r by (auto simp: ready_def)
  have at: "at_ok cl at" using owns_rel[OF inv_at[OF inv, unfolded at_layer_def] r(2) a(1,2)] .
  note same = same_attr_id[OF inv r(2) a(1,2)]
  let ?C = "boundable t \<and> at_type at = t \<and> \<not> has_flag (at_flags at) ATTRIBUTE_FLAG_MANAGED_INTERNALLY"
  let ?f = "\<lambda>(j, u, f). if j = at_id at \<and> u = t \<and> boundable t \<and> \<not> has_flag f ATTRIBUTE_FLAG_MANAGED_INTERNALLY
    then (j, u, f OR ATTRIBUTE_FLAG_MIN_MAX) else (j, u, f)"
  have sb: "sh_bound (at_id at) t (sh_attributes (shape s c)) = map (\<lambda>b. ?f (attr_decl (the (ats s b)))) (cl_attributes cl)"
    using r(2) by (simp add: sh_bound_def shape_def shape_of_def)
  show ?thesis
  proof (cases ?C)
    case False
    then obtain err where err: "add_bounds (g_env G) (Some a) mn mx s = Some (err, s)"
      using add_bounds_outcome[OF a(2) at nf t, of "g_env G"] by auto
    have "?f (attr_decl (the (ats s b))) = attr_decl (the (ats s b))" if "b \<in> set (cl_attributes cl)" for b
      using same[OF that] False a(2) by (auto simp: attr_decl_def)
    then have "sh_bound (at_id at) t (sh_attributes (shape s c)) = sh_attributes (shape s c)"
      unfolding sb using r(2) by (simp add: shape_def shape_of_def)
    then show ?thesis using refines_return[OF r(1) refl, of err] err by auto
  next
    case True
    let ?s = "s\<lparr>mem := snd (mem_calloc (mem s))\<rparr>"
    obtain err at' where e: "add_bounds (g_env G) (Some a) mn mx s = Some (err, put_attr a at' ?s)"
        "attr_decl at' = (at_id at, t, at_flags at OR ATTRIBUTE_FLAG_MIN_MAX)"
      using add_bounds_outcome[OF a(2) at nf t, of "g_env G"] True by auto
    let ?t = "put_attr a at' ?s"
    have invt: "dm_inv ?t" using keeps_add_bounds[OF e(1)] inv by (simp add: keeps_def)
    have id': "at_id at' = at_id at" using e(2) by (simp add: attr_decl_def)
    have "plain_feature_map ?t cl"
      unfolding plain_feature_map_def
    proof (intro ballI allI impI)
      fix b bt assume b: "b \<in> set (cl_attributes cl)" "ats ?t b = Some bt" "at_id bt = FeatureMap_Id"
      then have "b \<noteq> a" using id' a(3) by auto
      then have "ats s b = Some bt" using b(2) by simp
      then show "at_type bt = VT_BITMAP32 \<and> at_flags bt = 0" using ok(3) b(1,3) unfolding plain_feature_map_def by blast
    qed
    then have "ready G ?t c" unfolding ready_def using invt never_fails_calloc(2)[OF nf] ok(1,2) r(2) by simp
    moreover have "inside c s ?t"
      by (rule insideI[OF _ _ r(2), of _ cl]) (use a(1) r(2) in \<open>auto simp: grows_def fun_upd_idem\<close>)
    moreover have "shape ?t c = (shape s c)\<lparr>sh_attributes := sh_bound (at_id at) t (sh_attributes (shape s c))\<rparr>"
    proof -
      have "attr_decl (the (ats ?t b)) = ?f (attr_decl (the (ats s b)))" if "b \<in> set (cl_attributes cl)" for b
        using same[OF that] True a(2) e(2) by (auto simp: attr_decl_def)
      then have 1: "sh_attributes (shape ?t c) = sh_bound (at_id at) t (sh_attributes (shape s c))"
        unfolding sb using r(2) by (simp add: shape_def shape_of_def)
      have "attribute_get ?t (Some c) FeatureMap_Id = attribute_get s (Some c) FeatureMap_Id"
        using id' a(2) by (intro same_paths_attribute(1)) (simp add: same_paths_def)
      then obtain h where h: "attribute_get s (Some c) FeatureMap_Id = Some h" "attribute_get ?t (Some c) FeatureMap_Id = Some h"
        using attribute_get_find[OF inv r(2)] by metis
      have "h \<noteq> Some a" using attribute_get_exact[OF inv r(2), of FeatureMap_Id] h(1) a(2,3) by auto
      then have "sh_feature_map (shape ?t c) = sh_feature_map (shape s c)"
        using shape_feature_map[OF inv r(2) h(1)] shape_feature_map[OF invt _ h(2), of cl] r(2) by (cases h) simp_all
      then show ?thesis using 1 r(2) by (simp add: shape_def shape_of_def)
    qed
    ultimately show ?thesis using e(1) by (auto simp: refines_def same_head_def)
  qed
qed

text \<open>Arguments whose buffers are long enough.\<close>

definition arg_ok :: "val_type \<Rightarrow> arg \<Rightarrow> bool" where
  "arg_ok t x \<longleftrightarrow> (t \<in> string_types \<longrightarrow> unat (arg_length x) \<le> length (buf_bytes (arg_bytes x)))"

lemmas ctor_defs =
  esp_matter_invalid_def esp_matter_bool_def esp_matter_int_def esp_matter_nullable_bool_def esp_matter_nullable_int_def
  esp_matter_float_def esp_matter_nullable_float_def esp_matter_int8_def esp_matter_nullable_int8_def esp_matter_uint8_def
  esp_matter_nullable_uint8_def esp_matter_int16_def esp_matter_nullable_int16_def esp_matter_uint16_def
  esp_matter_nullable_uint16_def esp_matter_int32_def esp_matter_nullable_int32_def esp_matter_uint32_def
  esp_matter_nullable_uint32_def esp_matter_int64_def esp_matter_nullable_int64_def esp_matter_uint64_def
  esp_matter_nullable_uint64_def esp_matter_enum8_def esp_matter_nullable_enum8_def esp_matter_enum16_def
  esp_matter_nullable_enum16_def esp_matter_bitmap8_def esp_matter_nullable_bitmap8_def esp_matter_bitmap16_def
  esp_matter_nullable_bitmap16_def esp_matter_bitmap32_def esp_matter_nullable_bitmap32_def esp_matter_char_str_def
  esp_matter_long_char_str_def esp_matter_octet_str_def esp_matter_long_octet_str_def esp_matter_array_def
  nullable_attr_val_def arr_attr_val_def

lemma attr_ctor_type [simp]: "av_type (attr_ctor T t x) = t"
  by (cases t) (simp_all add: ctor_defs)

lemma attr_ctor_ok: "arg_ok t x \<Longrightarrow> val_ok (attr_ctor T t x)"
  by (cases t) (simp_all add: ctor_defs arg_ok_def val_ok_def)

lemma create_attribute_refines:
  assumes G: "gen_ok G" and r: "ready G s c" and f: "af_id f \<noteq> FeatureMap_Id" "arg_ok (af_type f) x"
  shows "\<exists>h. refines G c s (create_attribute G f (Some c) x s) h (sh_attribute f (arg_length x) (shape s c))"
proof -
  let ?E = "g_env G" and ?T = "e_traits (g_env G)"
  let ?long = "case af_max_length f of None \<Rightarrow> False | Some n \<Rightarrow> n < arg_length x"
  obtain s1 where s1: "check_guard_opt G (af_guard f) (Some c) s = Some (sh_guard_opt (shape s c) (af_guard f), s1)"
      "ready G s1 c" "inside c s s1" "same_head c s s1" "shape s1 c = shape s c"
    using check_guard_opt_refines[OF G r, of "af_guard f"] by (auto simp: refines_def)
  show ?thesis
  proof (cases "sh_guard_opt (shape s c) (af_guard f) \<and> \<not> ?long")
    case False
    then have "create_attribute G f (Some c) x s = Some (None, s1)" "sh_attribute f (arg_length x) (shape s c) = shape s c"
      using s1(1) by (auto simp: create_attribute_def sh_attribute_def Let_def)
    then show ?thesis using s1 by (auto simp: refines_def)
  next
    case True
    let ?n = "sh_new_attribute (af_id f) (af_type f) (af_flags f) (shape s c)"
    obtain a s2 where s2: "attribute_create ?E (Some c) (af_id f) (af_flags f) (attr_ctor ?T (af_type f) x) (af_max_size f) s1 =
        Some (Some a, s2)" "ready G s2 c" "inside c s1 s2" "same_head c s1 s2"
        "shape s2 c = ?n\<lparr>sh_feature_map := sh_feature_map (shape s c)\<rparr>"
      using attribute_create_refines[OF s1(2) attr_ctor_ok[OF f(2)], of "af_id f" ?T "af_flags f" "af_max_size f"] f(1) s1(5)
      by (auto simp: refines_def)
    have n: "shape s2 c = ?n" unfolding s2(5) by (simp add: sh_new_attribute_def)
    have both: "inside c s s2" "same_head c s s2"
      using inside_trans[OF s1(3) s2(3)] same_head_trans[OF s1(4) s2(4)] .
    show ?thesis
    proof (cases "af_bounds f")
      case None
      then have "create_attribute G f (Some c) x s = Some (Some a, s2)"
        using s1(1) s2(1) True by (auto simp: create_attribute_def Let_def)
      moreover have "sh_attribute f (arg_length x) (shape s c) = ?n"
        using True None by (auto simp: sh_attribute_def sh_new_attribute_def Let_def)
      ultimately show ?thesis using s2(2) both n by (auto simp: refines_def)
    next
      case (Some lh)
      obtain lo hi where lh: "lh = (lo, hi)" by (cases lh)
      obtain cl2 where cl2: "cls s2 c = Some cl2" "dm_inv s2" using s2(2) by (auto simp: ready_def)
      have "dm_inv s1" using s1(2) by (simp add: ready_def)
      then have "attribute_get s2 (Some c) (af_id f) = Some (Some a)" using attribute_create_get(1)[OF s2(1)] by blast
      then obtain at where at: "a \<in> set (cl_attributes cl2)" "ats s2 a = Some at" "at_id at = af_id f"
        using attribute_get_exact[OF cl2(2,1), of "af_id f"] by auto
      obtain err s3 where s3: "add_bounds ?E (Some a) (bound_val ?T (af_type f) lo) (bound_val ?T (af_type f) hi) s2 = Some (err, s3)"
          "ready G s3 c" "inside c s2 s3" "same_head c s2 s3"
          "shape s3 c = ?n\<lparr>sh_attributes := sh_bound (af_id f) (af_type f) (sh_attributes ?n)\<rparr>"
        using add_bounds_refines[OF s2(2) cl2(1) at(1,2), of "bound_val ?T (af_type f) lo" "af_type f" "bound_val ?T (af_type f) hi"]
          at(3) f(1) n by (auto simp: refines_def bound_val_def)
      have "create_attribute G f (Some c) x s = Some (Some a, s3)"
        using s1(1) s2(1) s3(1) True Some lh by (auto simp: create_attribute_def Let_def)
      moreover have "sh_attribute f (arg_length x) (shape s c) = ?n\<lparr>sh_attributes := sh_bound (af_id f) (af_type f) (sh_attributes ?n)\<rparr>"
        using True Some by (auto simp: sh_attribute_def sh_new_attribute_def Let_def)
      ultimately show ?thesis
        using s3 inside_trans[OF both(1) s3(3)] same_head_trans[OF both(2) s3(4)] by (auto simp: refines_def)
    qed
  qed
qed

end
