(* ===== verification/EM_Refine.thy ===== *)
theory EM_Refine
  imports EM_Shape
begin

text \<open>
  The rest of the refinement: commands, events, destruction, the bodies of features and of the
  \<open>create\<close> functions of clusters.
\<close>

section \<open>Commands and events\<close>

text \<open>Changes of the lists of commands and events leave the attributes alone.\<close>

lemma refines_children:
  assumes r: "ready G s c" "cls s c = Some cl" and t: "dm_inv t" "never_fails (mem t)" "node t = node s" "eps t = eps s"
    "cls t = (cls s)(c \<mapsto> cl\<lparr>cl_commands := cs, cl_events := es\<rparr>)" "ats t = ats s"
    "grows (cl_commands cl) cs (cms s) (cms t)" "grows (cl_events cl) es (evs s) (evs t)"
    and sh: "map (\<lambda>a. (cm_id (the (cms t a)), cm_flags (the (cms t a)))) cs = sh_commands sh"
    "map (\<lambda>a. ev_id (the (evs t a))) es = sh_events sh" "sh_attributes sh = sh_attributes (shape s c)"
    "sh_feature_map sh = sh_feature_map (shape s c)"
  shows "refines G c s (Some (h, t)) h sh"
proof -
  have "ready G t c" using r t(1,2,5,6) by (auto simp: ready_def changed_ok_def plain_feature_map_def)
  moreover have "inside c s t" by (rule insideI[OF t(3,4) r(2) t(5)]) (use t(6-8) in simp_all)
  moreover have "same_head c s t" using t(5) r(2) by (simp add: same_head_def)
  moreover have "shape t c = sh"
    using sh t(5,6) r(2) by (cases sh) (simp add: shape_def shape_of_def comp_def)
  ultimately show ?thesis by (simp add: refines_def)
qed

lemma command_create_refines:
  assumes r: "ready G s c"
  shows "\<exists>h. refines G c s (command_create (Some c) i flags callback s) h
    (if sh_has_command (shape s c) i (ucast flags) then shape s c
     else (shape s c)\<lparr>sh_commands := sh_commands (shape s c) @ [(i, ucast flags)]\<rparr>)"
proof -
  obtain cl where cl: "cls s c = Some cl" "dm_inv s" "never_fails (mem s)" using r by (rule ready_cluster)
  obtain h where h: "command_get s (Some c) i (ucast flags) = Some h" "h \<noteq> None \<longleftrightarrow> sh_has_command (shape s c) i (ucast flags)"
    using command_get_shape[OF cl(2,1)] by blast
  show ?thesis
  proof (cases "h = None")
    case False
    then show ?thesis using h cl(1) refines_return[OF r refl, of h] by (auto simp: command_create_def)
  next
    case True
    let ?a = "mem_next (mem s)"
    let ?t = "put_cluster c (cl\<lparr>cl_commands := cl_commands cl @ [?a]\<rparr>) (s\<lparr>mem := snd (mem_calloc (mem s)),
      cms := (cms s)(?a \<mapsto> \<lparr>cm_id = i, cm_flags = ucast flags, cm_callback = callback, cm_user_callback = None\<rparr>)\<rparr>)"
    have e: "command_create (Some c) i flags callback s = Some (Some ?a, ?t)"
      using True h(1) cl(1) never_fails_alloc_eq[OF cl(3)] by (simp add: command_create_def)
    have ne: "x \<noteq> ?a" if "x \<in> set (cl_commands cl)" for x
      using owns_live[OF inv_cm[OF cl(2), unfolded cm_layer_def] cl(1) that] inv_next_free(4)[OF cl(2)] by auto
    have "dm_inv ?t" using command_create_inv[OF e cl(2)] .
    then have "refines G c s (Some (Some ?a, ?t)) (Some ?a) ((shape s c)\<lparr>sh_commands := sh_commands (shape s c) @ [(i, ucast flags)]\<rparr>)"
      using ne cl never_fails_calloc(2)[OF cl(3)] inv_next_free(4)[OF cl(2)]
      by (intro refines_children[OF r cl(1), where cs = "cl_commands cl @ [?a]" and es = "cl_events cl"])
         (auto simp: grows_def shape_def shape_of_def)
    then show ?thesis using e True h(2) by auto
  qed
qed

lemma event_get_shape:
  assumes "dm_inv s" "cls s c = Some cl"
  shows "\<exists>h. event_get s (Some c) i = Some h \<and> (h \<noteq> None \<longleftrightarrow> i \<in> set (sh_events (shape s c)))"
proof -
  obtain h where h: "event_get s (Some c) i = Some h"
      "\<And>a. h = Some a \<longleftrightarrow> a \<in> set (cl_events cl) \<and> (\<exists>ev. evs s a = Some ev \<and> ev_id ev = i)"
    using event_get_exact[OF assms] by blast
  have "\<exists>ev. evs s a = Some ev" if "a \<in> set (cl_events cl)" for a
    using owns_live[OF inv_ev[OF assms(1), unfolded ev_layer_def] assms(2) that] .
  then have "i \<in> set (sh_events (shape s c)) \<longleftrightarrow> (\<exists>a. h = Some a)"
    unfolding h(2) using assms(2) by (auto simp: shape_def shape_of_def image_iff) (metis option.sel)+
  then show ?thesis using h(1) by auto
qed

lemma event_create_refines:
  assumes r: "ready G s c"
  shows "\<exists>h. refines G c s (event_create (Some c) i s) h
    (if i \<in> set (sh_events (shape s c)) then shape s c else (shape s c)\<lparr>sh_events := sh_events (shape s c) @ [i]\<rparr>)"
proof -
  obtain cl where cl: "cls s c = Some cl" "dm_inv s" "never_fails (mem s)" using r by (rule ready_cluster)
  obtain h where h: "event_get s (Some c) i = Some h" "h \<noteq> None \<longleftrightarrow> i \<in> set (sh_events (shape s c))"
    using event_get_shape[OF cl(2,1)] by blast
  show ?thesis
  proof (cases "h = None")
    case False
    then show ?thesis using h cl(1) refines_return[OF r refl, of h] by (auto simp: event_create_def)
  next
    case True
    let ?a = "mem_next (mem s)"
    let ?t = "put_cluster c (cl\<lparr>cl_events := cl_events cl @ [?a]\<rparr>) (s\<lparr>mem := snd (mem_calloc (mem s)),
      evs := (evs s)(?a \<mapsto> \<lparr>ev_id = i\<rparr>)\<rparr>)"
    have e: "event_create (Some c) i s = Some (Some ?a, ?t)"
      using True h(1) cl(1) never_fails_alloc_eq[OF cl(3)] by (simp add: event_create_def)
    have ne: "x \<noteq> ?a" if "x \<in> set (cl_events cl)" for x
      using owns_live[OF inv_ev[OF cl(2), unfolded ev_layer_def] cl(1) that] inv_next_free(5)[OF cl(2)] by auto
    have "dm_inv ?t" using keeps_event_create[OF e] cl(2) by (simp add: keeps_def)
    then have "refines G c s (Some (Some ?a, ?t)) (Some ?a) ((shape s c)\<lparr>sh_events := sh_events (shape s c) @ [i]\<rparr>)"
      using ne cl never_fails_calloc(2)[OF cl(3)] inv_next_free(5)[OF cl(2)]
      by (intro refines_children[OF r cl(1), where cs = "cl_commands cl" and es = "cl_events cl @ [?a]"])
         (auto simp: grows_def shape_def shape_of_def)
    then show ?thesis using e True h(2) by auto
  qed
qed

section \<open>Destroying\<close>

lemma map_remove1:
  assumes "distinct xs" "\<And>b. b \<in> set xs \<Longrightarrow> q (f b) \<longleftrightarrow> b = a"
  shows "map f (remove1 a xs) = filter (\<lambda>y. \<not> q y) (map f xs)"
proof -
  have "remove1 a xs = filter (\<lambda>b. \<not> q (f b)) xs"
    unfolding distinct_remove1_removeAll[OF assms(1)] removeAll_filter_not_eq
    by (rule filter_cong) (use assms(2) in auto)
  then show ?thesis by (simp add: filter_map comp_def)
qed

lemma accepted_bit: "has_flag (f :: u16) COMMAND_FLAG_ACCEPTED \<longleftrightarrow> bit f 1"
  using and_exp_eq_0_iff_not_bit[of f 1] by (simp add: has_flag_def flag_defs)

lemma destroy_command_refines:
  assumes r: "ready G s c"
  shows "refines G c s (exec G i config (Some c) (Destroy_Command j) s) ESP_OK (snd (sh_exec built i config (Destroy_Command j) (shape s c)))"
proof -
  obtain cl where cl: "cls s c = Some cl" "dm_inv s" "never_fails (mem s)" using r by (rule ready_cluster)
  note own = inv_cm[OF cl(2), unfolded cm_layer_def]
  have live: "\<exists>cm. cms s a = Some cm" if "a \<in> set (cl_commands cl)" for a using owns_live[OF own cl(1) that] .
  let ?q = "\<lambda>(k, f). k = j \<and> has_flag f COMMAND_FLAG_ACCEPTED"
  let ?f = "\<lambda>a. (cm_id (the (cms s a)), cm_flags (the (cms s a)))"
  have shc: "sh_commands (shape s c) = map ?f (cl_commands cl)" using cl(1) by (simp add: shape_def shape_of_def)
  obtain h where h: "command_get s (Some c) j COMMAND_FLAG_ACCEPTED = Some h" "h = find (\<lambda>a. ?q (?f a)) (cl_commands cl)"
  proof -
    have "do { cm \<leftarrow> cms s a; Some (cm_id cm = j \<and> has_flag (cm_flags cm) COMMAND_FLAG_ACCEPTED) } = Some (?q (?f a))"
      if "a \<in> set (cl_commands cl)" for a using live[OF that] by auto
    then have "find_m (\<lambda>a. do { cm \<leftarrow> cms s a; Some (cm_id cm = j \<and> has_flag (cm_flags cm) COMMAND_FLAG_ACCEPTED) }) (cl_commands cl) =
        Some (find (\<lambda>a. ?q (?f a)) (cl_commands cl))"
      by (rule find_m_find)
    then show thesis using that cl(1) by (simp only: command_get_def option.case bind.bind_lunit)
  qed
  show ?thesis
  proof (cases h)
    case None
    then have "\<forall>a \<in> set (cl_commands cl). \<not> ?q (?f a)" using h(2) find_None_iff[of "\<lambda>a. ?q (?f a)" "cl_commands cl"] by auto
    then have "filter (\<lambda>y. \<not> ?q y) (sh_commands (shape s c)) = sh_commands (shape s c)"
      unfolding shc by (auto simp: filter_id_conv)
    then show ?thesis using None h(1) refines_return[OF r, of _ ESP_OK] by (simp add: case_prod_unfold)
  next
    case (Some a)
    then have a: "a \<in> set (cl_commands cl)" "?q (?f a)" using h(2) by (auto dest: find_SomeD)
    have uniq: "?q (?f b) \<longleftrightarrow> b = a" if b: "b \<in> set (cl_commands cl)" for b
    proof
      assume q: "?q (?f b)"
      obtain x y where xy: "cms s a = Some x" "cms s b = Some y" using live a(1) b by blast
      show "b = a"
      proof (rule ccontr)
        assume "b \<noteq> a"
        then have "cm_sep x y" using owns_sep[OF own cl(1) a(1) b _ xy] by blast
        moreover have "bit (cm_flags x) 1" "bit (cm_flags y) 1" "cm_id x = cm_id y" using q a(2) xy by (simp_all add: accepted_bit)
        ultimately show False unfolding cm_sep_def has_flag_bit by blast
      qed
    qed (use a in simp)
    let ?t = "put_cluster c (cl\<lparr>cl_commands := remove1 a (cl_commands cl)\<rparr>) (s\<lparr>cms := (cms s)(a := None)\<rparr>)"
    have e: "command_destroy (Some c) (Some a) s = Some (ESP_OK, ?t)" using a(1) cl(1) by (simp add: command_destroy_def)
    have "distinct (cl_commands cl)" using owns_distinct[OF own cl(1)] .
    then have m: "map ?f (remove1 a (cl_commands cl)) = filter (\<lambda>y. \<not> ?q y) (sh_commands (shape s c))"
      unfolding shc using map_remove1[of "cl_commands cl" ?q ?f a] uniq by blast
    have na: "x \<noteq> a" if "x \<in> set (remove1 a (cl_commands cl))" for x
      using that \<open>distinct (cl_commands cl)\<close> by auto
    have "dm_inv ?t" using keeps_command_destroy[OF e] cl(2) by (simp add: keeps_def)
    then have "refines G c s (Some (ESP_OK, ?t)) ESP_OK ((shape s c)\<lparr>sh_commands := filter (\<lambda>y. \<not> ?q y) (sh_commands (shape s c))\<rparr>)"
      using cl a(1) na m
      by (intro refines_children[OF r cl(1), where cs = "remove1 a (cl_commands cl)" and es = "cl_events cl"])
         (auto simp: grows_def shape_def shape_of_def dest: notin_set_remove1 cong: map_cong)
    then show ?thesis using e h(1) Some by (simp add: case_prod_unfold)
  qed
qed

lemma destroy_event_refines:
  assumes r: "ready G s c"
  shows "refines G c s (exec G i config (Some c) (Destroy_Event j) s) ESP_OK (snd (sh_exec built i config (Destroy_Event j) (shape s c)))"
proof -
  obtain cl where cl: "cls s c = Some cl" "dm_inv s" "never_fails (mem s)" using r by (rule ready_cluster)
  note own = inv_ev[OF cl(2), unfolded ev_layer_def]
  let ?f = "\<lambda>a. ev_id (the (evs s a))"
  have she: "sh_events (shape s c) = map ?f (cl_events cl)" using cl(1) by (simp add: shape_def shape_of_def)
  obtain h where h: "event_get s (Some c) j = Some h"
      "\<And>a. h = Some a \<longleftrightarrow> a \<in> set (cl_events cl) \<and> (\<exists>ev. evs s a = Some ev \<and> ev_id ev = j)"
    using event_get_exact[OF cl(2,1)] by blast
  have live: "\<exists>ev. evs s a = Some ev" if "a \<in> set (cl_events cl)" for a using owns_live[OF own cl(1) that] .
  have uniq: "?f b = j \<longleftrightarrow> h = Some b" if "b \<in> set (cl_events cl)" for b
    using h(2)[of b] live[OF that] that by auto
  show ?thesis
  proof (cases h)
    case None
    then have "filter (\<lambda>k. k \<noteq> j) (sh_events (shape s c)) = sh_events (shape s c)"
      unfolding she using uniq by (auto simp: filter_id_conv)
    then show ?thesis using None h(1) refines_return[OF r, of _ ESP_OK] by simp
  next
    case (Some a)
    then have a: "a \<in> set (cl_events cl)" using h(2) by blast
    let ?t = "put_cluster c (cl\<lparr>cl_events := remove1 a (cl_events cl)\<rparr>) (s\<lparr>evs := (evs s)(a := None)\<rparr>)"
    have e: "event_destroy (Some c) (Some a) s = Some (ESP_OK, ?t)" using a cl(1) by (simp add: event_destroy_def)
    have "distinct (cl_events cl)" using owns_distinct[OF own cl(1)] .
    then have m: "map ?f (remove1 a (cl_events cl)) = filter (\<lambda>k. k \<noteq> j) (sh_events (shape s c))"
      unfolding she using map_remove1[of "cl_events cl" "\<lambda>k. k = j" ?f a] uniq Some by auto
    have na: "x \<noteq> a" if "x \<in> set (remove1 a (cl_events cl))" for x
      using that \<open>distinct (cl_events cl)\<close> by auto
    have "dm_inv ?t" using keeps_event_destroy[OF e] cl(2) by (simp add: keeps_def)
    then have "refines G c s (Some (ESP_OK, ?t)) ESP_OK ((shape s c)\<lparr>sh_events := filter (\<lambda>k. k \<noteq> j) (sh_events (shape s c))\<rparr>)"
      using cl a na m
      by (intro refines_children[OF r cl(1), where cs = "cl_commands cl" and es = "remove1 a (cl_events cl)"])
         (auto simp: grows_def shape_def shape_of_def dest: notin_set_remove1 cong: map_cong)
    then show ?thesis using e h(1) Some by simp
  qed
qed

lemma plain_feature_map_shrink:
  assumes "plain_feature_map s cl" "\<And>b. b \<in> set ys \<Longrightarrow> b \<in> set (cl_attributes cl) \<and> ats t b = ats s b"
  shows "plain_feature_map t (cl\<lparr>cl_attributes := ys\<rparr>)"
  using assms by (simp add: plain_feature_map_def) blast

lemma grows_remove1:
  assumes "a \<in> set xs"
  shows "grows xs (remove1 a xs) m (m(a := None))"
  unfolding grows_def
proof (intro allI impI conjI)
  fix b assume b: "b \<notin> set xs"
  then show "(m(a := None)) b = m b" using assms by (cases "b = a") simp_all
  show "b \<notin> set (remove1 a xs)" using notin_set_remove1[OF b] .
qed

lemma find_filter:
  assumes "\<And>x. x \<in> set xs \<Longrightarrow> p x \<Longrightarrow> q x"
  shows "find p (filter q xs) = find p xs"
  using assms by (induction xs) auto

text \<open>The attributes of the shape after removing one that is not the feature map.\<close>

lemma shape_of_filter:
  assumes "j \<noteq> FeatureMap_Id"
  shows "shape_of (filter (\<lambda>at. at_id at \<noteq> j) as) cs es =
    (shape_of as cs es)\<lparr>sh_attributes := filter (\<lambda>d. fst d \<noteq> j) (map attr_decl as)\<rparr>"
proof -
  have "find (\<lambda>at. at_id at = FeatureMap_Id) (filter (\<lambda>at. at_id at \<noteq> j) as) = find (\<lambda>at. at_id at = FeatureMap_Id) as"
    using assms by (intro find_filter) auto
  then show ?thesis by (simp add: shape_of_def filter_map comp_def attr_decl_def)
qed

lemma destroy_attribute_refines:
  assumes r: "ready G s c" and j: "j \<noteq> FeatureMap_Id"
  shows "refines G c s (exec G i config (Some c) (Destroy_Attribute j) s) ESP_OK (snd (sh_exec built i config (Destroy_Attribute j) (shape s c)))"
proof -
  obtain cl where cl: "cls s c = Some cl" "dm_inv s" "never_fails (mem s)" "plain_path (g_prov G) (cl_ep cl) (cl_id cl)"
      "changed_ok cl" "plain_feature_map s cl" using r by (rule ready_cluster)
  note own = inv_at[OF cl(2), unfolded at_layer_def]
  let ?f = "\<lambda>a. the (ats s a)"
  let ?cs = "map (\<lambda>a. the (cms s a)) (cl_commands cl)" and ?es = "map (\<lambda>a. the (evs s a)) (cl_events cl)"
  have sh: "shape s c = shape_of (map ?f (cl_attributes cl)) ?cs ?es" using cl(1) by (simp add: shape_def)
  obtain h where h: "attribute_get s (Some c) j = Some h"
      "\<And>a. h = Some a \<longleftrightarrow> a \<in> set (cl_attributes cl) \<and> (\<exists>at. ats s a = Some at \<and> at_id at = j)"
    using attribute_get_exact[OF cl(2,1)] by blast
  have uniq: "at_id (?f b) = j \<longleftrightarrow> h = Some b" if b: "b \<in> set (cl_attributes cl)" for b
  proof -
    obtain at where "ats s b = Some at" using owns_live[OF own cl(1) b] by blast
    then show ?thesis using h(2)[of b] b by simp
  qed
  show ?thesis
  proof (cases h)
    case None
    then have "filter (\<lambda>d. fst d \<noteq> j) (sh_attributes (shape s c)) = sh_attributes (shape s c)"
      unfolding sh using uniq by (simp add: shape_of_def filter_id_conv attr_decl_def)
    then show ?thesis using None h(1) refines_return[OF r, of _ ESP_OK] by simp
  next
    case (Some a)
    then obtain at where a: "a \<in> set (cl_attributes cl)" "ats s a = Some at" using h(2) by blast
    let ?ys = "remove1 a (cl_attributes cl)"
    obtain t where t: "attribute_destroy (g_env G) (Some c) (Some a) s = Some (ESP_OK, t)" "dm_inv t"
        "cls t = (cls s)(c \<mapsto> cl\<lparr>cl_attributes := ?ys\<rparr>)" "ats t = (ats s)(a := None)" "eps t = eps s"
      by (rule attribute_destroy_effect[OF cl(2,1) a(1,2), of "g_env G"])
    have rest: "node t = node s" "cms t = cms s" "evs t = evs s" "mem t = mem s"
      using t(1) cl(1) a(1,2)
      by (auto simp: attribute_destroy_def free_attribute_def split: if_splits bind_splits)
    have d: "distinct (cl_attributes cl)" using owns_distinct[OF own cl(1)] .
    have ys: "b \<in> set (cl_attributes cl) \<and> ats t b = ats s b" if "b \<in> set ?ys" for b
      using that t(4) unfolding set_remove1_eq[OF d] by simp
    have "ready G t c"
      unfolding ready_def
    proof (intro conjI exI)
      show "cls t c = Some (cl\<lparr>cl_attributes := ?ys\<rparr>)" using t(3) by simp
      show "plain_feature_map t (cl\<lparr>cl_attributes := ?ys\<rparr>)" by (rule plain_feature_map_shrink[OF cl(6) ys])
    qed (use t(2) rest(4) cl(3-5) in \<open>simp_all add: changed_ok_def\<close>)
    moreover have "inside c s t"
      by (rule insideI[OF rest(1) t(5) cl(1) t(3)]) (simp_all add: grows_remove1[OF a(1)] t(4) rest)
    moreover have "same_head c s t" using t(3) cl(1) by (simp add: same_head_def)
    moreover have "shape t c = (shape s c)\<lparr>sh_attributes := filter (\<lambda>d. fst d \<noteq> j) (sh_attributes (shape s c))\<rparr>"
    proof -
      have "map (\<lambda>b. the (ats t b)) ?ys = map ?f ?ys" by (rule map_cong[OF refl]) (use ys in simp)
      also have "\<dots> = filter (\<lambda>at. \<not> at_id at = j) (map ?f (cl_attributes cl))"
        by (rule map_remove1[OF d]) (use uniq Some in auto)
      finally show ?thesis unfolding sh
        using shape_of_filter[OF j, of "map ?f (cl_attributes cl)" ?cs ?es] t(3) rest by (simp add: shape_def) (simp add: shape_of_def)
    qed
    ultimately show ?thesis using t(1) h(1) Some by (simp add: refines_def)
  qed
qed

section \<open>Features\<close>

text \<open>Statements that do not declare the feature map themselves, with arguments that are long enough.\<close>

primrec stmt_ok :: "stmt \<Rightarrow> bool" where
  "stmt_ok (Require g) = True"
| "stmt_ok Update_Feature_Map = True"
| "stmt_ok (Attribute f x) = (af_id f \<noteq> FeatureMap_Id)"
| "stmt_ok (Command f) = True"
| "stmt_ok (Event f) = True"
| "stmt_ok (Destroy_Attribute j) = (j \<noteq> FeatureMap_Id)"
| "stmt_ok (Destroy_Command j) = True"
| "stmt_ok (Destroy_Event j) = True"
| "stmt_ok (If_Built m st) = stmt_ok st"

primrec args_ok :: "fields \<Rightarrow> stmt \<Rightarrow> bool" where
  "args_ok config (Require g) = True"
| "args_ok config Update_Feature_Map = True"
| "args_ok config (Attribute f x) = (case x of Field n \<Rightarrow> arg_ok (af_type f) (config n) | _ \<Rightarrow> True)"
| "args_ok config (Command f) = True"
| "args_ok config (Event f) = True"
| "args_ok config (Destroy_Attribute j) = True"
| "args_ok config (Destroy_Command j) = True"
| "args_ok config (Destroy_Event j) = True"
| "args_ok config (If_Built m st) = args_ok config st"

lemma eval_arg_ok:
  assumes "args_ok config (Attribute f x)"
  shows "arg_ok (af_type f) (eval_arg T (af_type f) config x)"
    and "arg_length (eval_arg T (af_type f) config x) = argx_length config x"
  using assms by (cases x; simp add: arg_ok_def literal_def split: option.split)+

text \<open>A call whose result is ignored.\<close>

lemma refines_ignore:
  assumes "\<exists>h. refines G c s p h sh"
  shows "refines G c s (do { (_, t) \<leftarrow> p; Some (r, t) }) r sh"
  using assms by (auto simp: refines_def)

lemma refines_map: "refines G c s p r sh \<Longrightarrow> refines G c s (do { (x, t) \<leftarrow> p; Some (f x, t) }) (f r) sh"
  by (auto simp: refines_def)

definition ok_result :: "bool \<Rightarrow> esp_err" where
  "ok_result b = (if b then ESP_OK else ESP_ERR_INVALID_ARG)"

lemma create_command_refines:
  assumes "gen_ok G" "ready G s c"
  shows "\<exists>h. refines G c s (create_command G f (Some c) s) h (sh_command f (shape s c))"
proof -
  obtain s1 where s1: "check_guard_opt G (mf_guard f) (Some c) s = Some (sh_guard_opt (shape s c) (mf_guard f), s1)"
      "ready G s1 c" "inside c s s1" "same_head c s s1" "shape s1 c = shape s c"
    using check_guard_opt_refines[OF assms, of "mf_guard f"] by (auto simp: refines_def)
  obtain h s2 where "command_create (Some c) (mf_id f) (ucast (mf_flags f)) (map_option (g_symbol G) (mf_callback f)) s1 = Some (h, s2)"
      "ready G s2 c" "inside c s1 s2" "same_head c s1 s2"
      "shape s2 c = (if sh_has_command (shape s c) (mf_id f) (ucast (ucast (mf_flags f) :: u8)) then shape s c
        else (shape s c)\<lparr>sh_commands := sh_commands (shape s c) @ [(mf_id f, ucast (ucast (mf_flags f) :: u8))]\<rparr>)"
    using command_create_refines[OF s1(2), of "mf_id f" "ucast (mf_flags f)" "map_option (g_symbol G) (mf_callback f)"] s1(5)
    by (auto simp: refines_def)
  then show ?thesis
    using s1 inside_trans[of c s s1 s2] same_head_trans[of c s s1 s2]
    by (cases "sh_guard_opt (shape s c) (mf_guard f)") (auto simp: refines_def create_command_def sh_command_def Let_def)
qed

lemma create_event_refines:
  assumes "gen_ok G" "ready G s c"
  shows "\<exists>h. refines G c s (create_event G f (Some c) s) h (sh_event f (shape s c))"
proof -
  obtain s1 where s1: "check_guard_opt G (vf_guard f) (Some c) s = Some (sh_guard_opt (shape s c) (vf_guard f), s1)"
      "ready G s1 c" "inside c s s1" "same_head c s s1" "shape s1 c = shape s c"
    using check_guard_opt_refines[OF assms, of "vf_guard f"] by (auto simp: refines_def)
  obtain h s2 where "event_create (Some c) (vf_id f) s1 = Some (h, s2)"
      "ready G s2 c" "inside c s1 s2" "same_head c s1 s2"
      "shape s2 c = (if vf_id f \<in> set (sh_events (shape s c)) then shape s c
        else (shape s c)\<lparr>sh_events := sh_events (shape s c) @ [vf_id f]\<rparr>)"
    using event_create_refines[OF s1(2), of "vf_id f"] s1(5) by (auto simp: refines_def)
  then show ?thesis
    using s1 inside_trans[of c s s1 s2] same_head_trans[of c s s1 s2]
    by (cases "sh_guard_opt (shape s c) (vf_guard f)") (auto simp: refines_def create_event_def sh_event_def)
qed

lemma exec_refines:
  assumes "gen_ok G" "ready G s c" "stmt_ok st" "args_ok config st"
  shows "refines G c s (exec G i config (Some c) st s) (ok_result (fst (sh_exec (g_built G) i config st (shape s c))))
    (snd (sh_exec (g_built G) i config st (shape s c)))"
  using assms(3,4)
proof (induction st)
  case (Require g)
  show ?case using refines_map[OF check_guard_refines[OF assms(1,2), of g], of ok_result] by (simp add: ok_result_def)
next
  case Update_Feature_Map
  then show ?case using refines_ignore[OF update_feature_map_refines[OF assms(1,2), of i]] by (simp add: ok_result_def)
next
  case (Attribute f x)
  let ?x = "eval_arg (e_traits (g_env G)) (af_type f) config x"
  note x = eval_arg_ok[OF Attribute.prems(2), of "e_traits (g_env G)"]
  show ?case using refines_ignore[OF create_attribute_refines[OF assms(1,2) _ x(1)]] Attribute.prems(1) x(2)
    by (simp add: ok_result_def)
next
  case (Command f)
  then show ?case using refines_ignore[OF create_command_refines[OF assms(1,2)]] by (simp add: ok_result_def)
next
  case (Event f)
  then show ?case using refines_ignore[OF create_event_refines[OF assms(1,2)]] by (simp add: ok_result_def)
next
  case (Destroy_Attribute j)
  then show ?case using destroy_attribute_refines[OF assms(2), of j i config "g_built G"] by (simp add: ok_result_def)
next
  case (Destroy_Command j)
  then show ?case using destroy_command_refines[OF assms(2), of i config j "g_built G"] by (simp add: ok_result_def)
next
  case (Destroy_Event j)
  then show ?case using destroy_event_refines[OF assms(2), of i config j "g_built G"] by (simp add: ok_result_def)
next
  case (If_Built m st)
  then show ?case using refines_return[OF assms(2) refl, of ESP_OK]
    by (cases "g_built G m") (simp_all add: ok_result_def[of True])
qed

lemma execs_refines:
  assumes "gen_ok G" "ready G s c" "list_all stmt_ok sts" "list_all (args_ok config) sts"
  shows "refines G c s (execs G i config (Some c) sts s) (ok_result (fst (sh_execs (g_built G) i config sts (shape s c))))
    (snd (sh_execs (g_built G) i config sts (shape s c)))"
  using assms(2-4)
proof (induction sts arbitrary: s)
  case Nil
  then show ?case using refines_return[OF Nil(1) refl, of ESP_OK] by (simp add: ok_result_def)
next
  case (Cons st sts)
  obtain ok sh where sh: "sh_exec (g_built G) i config st (shape s c) = (ok, sh)" by fastforce
  have step: "refines G c s (exec G i config (Some c) st s) (ok_result ok) sh"
    using exec_refines[OF assms(1) Cons.prems(1), of st config i] Cons.prems(2,3) sh by simp
  let ?q = "\<lambda>err t. if err \<noteq> ESP_OK then Some (err, t) else execs G i config (Some c) sts t"
  show ?case
  proof (cases ok)
    case True
    have "refines G c s (do { (err, t) \<leftarrow> exec G i config (Some c) st s; ?q err t })
      (ok_result (fst (sh_execs (g_built G) i config sts sh))) (snd (sh_execs (g_built G) i config sts sh))"
    proof (rule refines_bind[OF step])
      fix t assume "ready G t c" "shape t c = sh"
      then show "refines G c t (?q (ok_result ok) t) (ok_result (fst (sh_execs (g_built G) i config sts sh))) (snd (sh_execs (g_built G) i config sts sh))"
        using Cons.IH[of t] Cons.prems(2,3) True by (simp add: ok_result_def)
    qed
    then show ?thesis using sh True by simp
  next
    case False
    have "refines G c s (do { (err, t) \<leftarrow> exec G i config (Some c) st s; ?q err t }) (ok_result False) sh"
      by (rule refines_bind[OF step]) (use False refines_return in \<open>simp add: ok_result_def\<close>)
    then show ?thesis using sh False by simp
  qed
qed

end
