(* ===== verification/EM_Create.thy ===== *)
theory EM_Create
  imports EM_Refine
begin

text \<open>
  Creation of a cluster as a whole: the \<open>create\<close> function of a generated cluster on shapes, and the
  proof that the code on the store computes it, aborts exactly when it gives up, and leaves every
  other cluster as it was.
\<close>

section \<open>Creation on shapes\<close>

definition sh_new_feature_map :: "u32 \<Rightarrow> shape \<Rightarrow> shape" where
  "sh_new_feature_map v sh =
     (if FeatureMap_Id \<in> sh_attr_ids sh then sh
      else sh\<lparr>sh_attributes := sh_attributes sh @ [(FeatureMap_Id, VT_BITMAP32, 0)], sh_feature_map := Some v\<rparr>)"

fun sh_exec_create :: "(string \<Rightarrow> bool) \<Rightarrow> config \<Rightarrow> cstmt \<Rightarrow> shape \<Rightarrow> bool \<times> shape"
and sh_execs_create :: "(string \<Rightarrow> bool) \<Rightarrow> config \<Rightarrow> cstmt list \<Rightarrow> shape \<Rightarrow> bool \<times> shape" where
  "sh_exec_create built config (Step st) sh = (True, snd (sh_exec built 0 (co_fields config) st sh))"
| "sh_exec_create built config (Delegate f) sh = (True, sh)"
| "sh_exec_create built config (Plugin f) sh = (True, sh)"
| "sh_exec_create built config Functions sh = (True, sh)"
| "sh_exec_create built config (Callbacks f g) sh = (True, sh)"
| "sh_exec_create built config (Feature_Map v) sh = (True, sh_new_feature_map v sh)"
| "sh_exec_create built config Config_Feature_Map sh = (True, sh_new_feature_map (co_feature_flags config) sh)"
| "sh_exec_create built config Cluster_Revision sh = (True, sh_new_attribute ClusterRevision_Id VT_UINT16 0 sh)"
| "sh_exec_create built config (Add_Feature f name) sh = sh_add_feature built f (co_features config name) sh"
| "sh_exec_create built config (Validate p fs) sh = (validate_features (co_feature_flags config) p fs, sh)"
| "sh_exec_create built config (If_Feature f ts es) sh =
     (if has_flag (co_feature_flags config) f then sh_execs_create built config ts sh
      else sh_execs_create built config es sh)"
| "sh_exec_create built config (If_Built_All m ts) sh =
     (if built m then sh_execs_create built config ts sh else (True, sh))"
| "sh_execs_create built config [] sh = (True, sh)"
| "sh_execs_create built config (st # sts) sh =
     (let (ok, sh1) = sh_exec_create built config st sh in
      if ok then sh_execs_create built config sts sh1 else (False, sh1))"

definition empty_shape :: shape where
  "empty_shape = \<lparr>sh_feature_map = None, sh_attributes = [], sh_commands = [], sh_events = []\<rparr>"

definition sh_create :: "(string \<Rightarrow> bool) \<Rightarrow> cluster_fn \<Rightarrow> config \<Rightarrow> bool \<times> shape" where
  "sh_create built k config = sh_execs_create built config (kf_body k) empty_shape"

section \<open>Well-formed descriptions\<close>

fun cstmt_ok :: "cstmt \<Rightarrow> bool" where
  "cstmt_ok (Step st) = stmt_ok st"
| "cstmt_ok (Add_Feature f name) = list_all stmt_ok (ff_body f)"
| "cstmt_ok (If_Feature f ts es) = (list_all cstmt_ok ts \<and> list_all cstmt_ok es)"
| "cstmt_ok (If_Built_All m ts) = list_all cstmt_ok ts"
| "cstmt_ok _ = True"

fun cargs_ok :: "config \<Rightarrow> cstmt \<Rightarrow> bool" where
  "cargs_ok config (Step st) = args_ok (co_fields config) st"
| "cargs_ok config (Add_Feature f name) = list_all (args_ok (co_features config name)) (ff_body f)"
| "cargs_ok config (If_Feature f ts es) = (list_all (cargs_ok config) ts \<and> list_all (cargs_ok config) es)"
| "cargs_ok config (If_Built_All m ts) = list_all (cargs_ok config) ts"
| "cargs_ok config _ = True"

text \<open>A cluster that announces an attribute-changed function has it in its table.\<close>

definition table_ok :: "cluster_fn \<Rightarrow> bool" where
  "table_ok k \<longleftrightarrow> (bit (kf_function_flags k) 1 \<longrightarrow>
     (case kf_functions k of None \<Rightarrow> False
      | Some fs \<Rightarrow> (if bit (kf_function_flags k) 0 then 1 else 0) < length fs))"

definition cluster_ok :: "cluster_fn \<Rightarrow> bool" where
  "cluster_ok k \<longleftrightarrow> table_ok k \<and> list_all cstmt_ok (kf_body k)"

text \<open>The function flags of the cluster are none yet, or those of its description.\<close>

definition low_flags :: "u8 \<Rightarrow> u8" where
  "low_flags w = w AND 0x3F"

definition fn_ok :: "('n, 't) gen \<Rightarrow> cluster_fn \<Rightarrow> cluster_t \<Rightarrow> bool" where
  "fn_ok G k cl \<longleftrightarrow> low_flags (cl_flags cl) = 0 \<or>
     (low_flags (cl_flags cl) = low_flags (kf_function_flags k) \<and>
      cl_functions cl = map_option (map (\<lambda>f. Some (g_symbol G f))) (kf_functions k))"

definition refines_create ::
    "('n, 't) gen \<Rightarrow> cluster_fn \<Rightarrow> addr \<Rightarrow> 'n dm \<Rightarrow> (bool \<times> 'n dm) option \<Rightarrow> bool \<times> shape \<Rightarrow> bool" where
  "refines_create G k c s p r \<longleftrightarrow>
     (\<exists>s'. p = Some (fst r, s') \<and> ready G s' c \<and> fn_ok G k (the (cls s' c)) \<and> inside c s s' \<and> shape s' c = snd r)"

lemma low_flags_mask: "low_flags w = w AND mask 6"
  by (simp add: low_flags_def mask_eq_exp_minus_1)

lemma low_flags_bit: "n < 6 \<Longrightarrow> bit (low_flags w) n \<longleftrightarrow> bit w n"
  by (simp add: low_flags_mask bit_and_iff bit_mask_iff)

lemma low_flags_or: "low_flags (v OR w) = low_flags v OR low_flags w"
  by (simp add: low_flags_mask bit.conj_disj_distrib2)

lemma function_slot_1: "function_slot f (Suc 0) = (if bit f 0 then 1 else 0)"
  by (simp add: function_slot_def)

lemma fn_changed_ok:
  assumes "fn_ok G k cl" "table_ok k"
  shows "changed_ok cl"
proof -
  have b: "bit (cl_flags cl) n \<longleftrightarrow> bit (low_flags (cl_flags cl)) n" if "n < 6" for n using low_flags_bit[OF that] by blast
  show ?thesis
  proof (cases "low_flags (cl_flags cl) = 0")
    case True
    then show ?thesis using b[of 1] by (simp add: changed_ok_def)
  next
    case False
    then have "low_flags (cl_flags cl) = low_flags (kf_function_flags k)"
        and fs: "cl_functions cl = map_option (map (\<lambda>f. Some (g_symbol G f))) (kf_functions k)"
      using assms(1) by (auto simp: fn_ok_def)
    then have "bit (cl_flags cl) n \<longleftrightarrow> bit (kf_function_flags k) n" if "n < 6" for n
      using that b low_flags_bit by simp
    from this[of 0] this[of 1] show ?thesis using fs assms(2)
      by (auto simp: changed_ok_def table_ok_def function_slot_1 split: option.splits if_splits)
  qed
qed

section \<open>Statements of create\<close>

lemma refines_create_of:
  assumes "refines G c s p r sh" "fn_ok G k (the (cls s c))" "q = do { (x, t) \<leftarrow> p; Some (f x, t) }"
  shows "refines_create G k c s q (f r, sh)"
proof -
  obtain s' where s': "p = Some (r, s')" "ready G s' c" "inside c s s'" "same_head c s s'" "shape s' c = sh"
    using assms(1) by (auto simp: refines_def)
  obtain cl cl' where "cls s c = Some cl" "cls s' c = Some cl'" using s'(2,3) by (auto simp: inside_def ready_def)
  then have "fn_ok G k (the (cls s' c))" using assms(2) s'(4) by (simp add: fn_ok_def same_head_def)
  then show ?thesis using s' assms(3) by (auto simp: refines_create_def)
qed

text \<open>Changes of the head of the cluster.\<close>

lemma head_refines:
  assumes r: "ready G s c" "cls s c = Some cl" and f: "cl_id (f cl) = cl_id cl" "cl_ep (f cl) = cl_ep cl"
      "cl_attributes (f cl) = cl_attributes cl" "cl_commands (f cl) = cl_commands cl" "cl_events (f cl) = cl_events cl"
    and k: "fn_ok G k (f cl)" "table_ok k"
  shows "refines_create G k c s (do { (_, t) \<leftarrow> update_cluster f (Some c) s; Some (True, t) }) (True, shape s c)"
proof -
  have inv: "dm_inv s" and rd: "never_fails (mem s)" "plain_path (g_prov G) (cl_ep cl) (cl_id cl)" "plain_feature_map s cl"
    using r by (auto simp: ready_def)
  let ?t = "put_cluster c (f cl) s"
  have "dm_inv ?t" using inv_cluster_redeclare[OF inv r(2) f(1,2,3,4,5)] .
  moreover have "plain_feature_map ?t (f cl)" using rd(3) f(3) by (simp add: plain_feature_map_def)
  ultimately have "ready G ?t c" using rd f fn_changed_ok[OF k] by (simp add: ready_def)
  moreover have "inside c s ?t" by (rule insideI[of _ _ _ cl "f cl"]) (simp_all add: r(2) f)
  moreover have "shape ?t c = shape s c" using r(2) f by (simp add: shape_def)
  ultimately show ?thesis using k(1) r(2) by (simp add: refines_create_def update_cluster_def)
qed

lemma functions_refines:
  assumes r: "ready G s c" "fn_ok G k (the (cls s c))" and k: "table_ok k"
  shows "refines_create G k c s (exec_create G k config (Some c) Functions s) (True, shape s c)"
proof -
  obtain cl where cl: "cls s c = Some cl" using r(1) by (rule ready_cluster)
  let ?fs = "map_option (map (\<lambda>f. Some (g_symbol G f))) (kf_functions k)"
  let ?f = "\<lambda>cl. cl\<lparr>cl_flags := ucast (ucast (cl_flags cl) OR ucast (kf_function_flags k) :: u32), cl_functions := ?fs\<rparr>"
  have "ucast (ucast v OR ucast w :: u32) = v OR w" for v w :: u8
    by (rule bit_word_eqI) (auto simp: bit_unsigned_iff bit_or_iff)
  then have "low_flags (cl_flags (?f cl)) = low_flags (kf_function_flags k)"
    using r(2) cl by (auto simp: fn_ok_def low_flags_or)
  then have "fn_ok G k (?f cl)" by (simp add: fn_ok_def)
  then show ?thesis using head_refines[OF r(1) cl, of ?f k] k by (simp add: add_function_list_def)
qed

lemma feature_map_refines:
  assumes r: "ready G s c" "fn_ok G k (the (cls s c))"
  shows "refines_create G k c s (do { (_, t) \<leftarrow> create_feature_map G (Some c) v s; Some (True, t) })
    (True, sh_new_feature_map v (shape s c))"
proof -
  have t: "av_type (esp_matter_bitmap32 v) = VT_BITMAP32" "val_ok (esp_matter_bitmap32 v)" "val_u32 (esp_matter_bitmap32 v) = v"
    by (simp_all add: ctor_defs val_ok_def val_u32_def num_attr_val_def num_member_def ucast_trunc_u32)
  obtain a where "refines G c s (attribute_create (g_env G) (Some c) FeatureMap_Id 0 (esp_matter_bitmap32 v) 0 s) (Some a)
    ((sh_new_attribute FeatureMap_Id VT_BITMAP32 0 (shape s c))
       \<lparr>sh_feature_map := (if FeatureMap_Id \<notin> sh_attr_ids (shape s c) then Some v else sh_feature_map (shape s c))\<rparr>)"
    using attribute_create_refines[OF r(1) t(2), of FeatureMap_Id 0 0, unfolded t(1,3)] by auto
  moreover have "(sh_new_attribute FeatureMap_Id VT_BITMAP32 0 (shape s c))
       \<lparr>sh_feature_map := (if FeatureMap_Id \<notin> sh_attr_ids (shape s c) then Some v else sh_feature_map (shape s c))\<rparr> =
      sh_new_feature_map v (shape s c)"
    by (simp add: sh_new_attribute_def sh_new_feature_map_def)
  ultimately show ?thesis
    using refines_create_of[of G c s _ _ _ k _ "\<lambda>_. True", OF _ r(2) refl] by (simp add: create_feature_map_def)
qed

lemma revision_refines:
  assumes r: "ready G s c" "fn_ok G k (the (cls s c))"
  shows "refines_create G k c s (do { (_, t) \<leftarrow> create_cluster_revision G (Some c) v s; Some (True, t) })
    (True, sh_new_attribute ClusterRevision_Id VT_UINT16 0 (shape s c))"
proof -
  have t: "av_type (esp_matter_uint16 v) = VT_UINT16" "val_ok (esp_matter_uint16 v)" "ClusterRevision_Id \<noteq> FeatureMap_Id"
    by (simp_all add: ctor_defs val_ok_def num_attr_val_def ClusterRevision_Id_def FeatureMap_Id_def)
  obtain a where "refines G c s (attribute_create (g_env G) (Some c) ClusterRevision_Id 0 (esp_matter_uint16 v) 0 s) (Some a)
    ((sh_new_attribute ClusterRevision_Id VT_UINT16 0 (shape s c))\<lparr>sh_feature_map := sh_feature_map (shape s c)\<rparr>)"
    using attribute_create_refines[OF r(1) t(2), of ClusterRevision_Id 0 0, unfolded t(1)] t(3) by auto
  moreover have "(sh_new_attribute i u f sh)\<lparr>sh_feature_map := sh_feature_map sh\<rparr> = sh_new_attribute i u f sh" for i u f sh
    by (simp add: sh_new_attribute_def)
  ultimately show ?thesis
    using refines_create_of[of G c s _ _ _ k _ "\<lambda>_. True", OF _ r(2) refl] by (simp add: create_cluster_revision_def)
qed

lemma add_feature_refines:
  assumes "gen_ok G" "ready G s c" "list_all stmt_ok (ff_body f)" "list_all (args_ok config) (ff_body f)"
  shows "refines G c s (add_feature G f (Some c) (Some config) s)
    (ok_result (fst (sh_add_feature (g_built G) f config (shape s c)))) (snd (sh_add_feature (g_built G) f config (shape s c)))"
  using execs_refines[OF assms(1,2,3,4)] by (simp add: add_feature_def sh_add_feature_def)

text \<open>A list of statements, given the refinement of each.\<close>

lemma execs_create_refines_from:
  assumes step: "\<And>st t. st \<in> set sts \<Longrightarrow> ready G t c \<Longrightarrow> fn_ok G k (the (cls t c)) \<Longrightarrow>
      refines_create G k c t (exec_create G k config (Some c) st t) (sh_exec_create (g_built G) config st (shape t c))"
    and "ready G s c" "fn_ok G k (the (cls s c))"
  shows "refines_create G k c s (execs_create G k config (Some c) sts s) (sh_execs_create (g_built G) config sts (shape s c))"
  using assms
proof (induction sts arbitrary: s)
  case Nil
  then show ?case using inside_refl by (auto simp: refines_create_def ready_def)
next
  case (Cons st sts)
  obtain ok sh where sh: "sh_exec_create (g_built G) config st (shape s c) = (ok, sh)" by fastforce
  obtain s1 where s1: "exec_create G k config (Some c) st s = Some (ok, s1)" "ready G s1 c" "fn_ok G k (the (cls s1 c))"
      "inside c s s1" "shape s1 c = sh"
    using Cons.prems(1)[OF _ Cons.prems(2,3), of st] sh by (auto simp: refines_create_def)
  have "refines_create G k c s1 (execs_create G k config (Some c) sts s1) (sh_execs_create (g_built G) config sts sh)"
    using Cons.IH[OF Cons.prems(1) s1(2,3)] s1(5) by simp
  then obtain s2 where "execs_create G k config (Some c) sts s1 = Some (fst (sh_execs_create (g_built G) config sts sh), s2)"
      "ready G s2 c" "fn_ok G k (the (cls s2 c))" "inside c s1 s2" "shape s2 c = snd (sh_execs_create (g_built G) config sts sh)"
    by (auto simp: refines_create_def)
  then show ?case using s1 sh inside_trans[OF s1(4)] by (cases ok) (auto simp: refines_create_def)
qed

lemma exec_create_refines:
  assumes G: "gen_ok G" and k: "table_ok k"
    and "ready G s c" "fn_ok G k (the (cls s c))" "cstmt_ok st" "cargs_ok config st"
  shows "refines_create G k c s (exec_create G k config (Some c) st s) (sh_exec_create (g_built G) config st (shape s c))"
  using assms(3-6)
proof (induction st arbitrary: s)
  case (Step st)
  then show ?case
    using refines_create_of[OF exec_refines[OF G, of s c st "co_fields config" 0] _ refl, of k "\<lambda>_. True"] by simp
next
  case (Delegate f)
  obtain cl where cl: "cls s c = Some cl" using Delegate.prems(1) by (rule ready_cluster)
  let ?f = "\<lambda>cl. cl\<lparr>cl_delegate_init := Some (g_symbol G f), cl_delegate := co_delegate config\<rparr>"
  have "refines_create G k c s (Some (True, s)) (True, shape s c)"
    using Delegate.prems inside_refl[OF cl] by (simp add: refines_create_def)
  moreover have "refines_create G k c s (do { (_, t) \<leftarrow> update_cluster ?f (Some c) s; Some (True, t) }) (True, shape s c)"
    using head_refines[OF Delegate.prems(1) cl, of ?f k] k Delegate.prems(2) cl by (simp add: fn_ok_def)
  ultimately show ?case by (simp add: set_delegate_and_init_callback_def)
next
  case (Plugin f)
  obtain cl where cl: "cls s c = Some cl" using Plugin.prems(1) by (rule ready_cluster)
  show ?case
    using head_refines[OF Plugin.prems(1) cl, of "\<lambda>cl. cl\<lparr>cl_plugin_init := Some (g_symbol G f)\<rparr>" k] k Plugin.prems(2) cl
    by (simp add: fn_ok_def set_plugin_server_init_callback_def)
next
  case Functions
  then show ?case using functions_refines[OF _ _ k, of G s c config] by simp
next
  case (Callbacks f g)
  obtain cl where cl: "cls s c = Some cl" using Callbacks.prems(1) by (rule ready_cluster)
  show ?case
    using head_refines[OF Callbacks.prems(1) cl,
        of "\<lambda>cl. cl\<lparr>cl_init := Some (g_symbol G f), cl_shutdown := Some (g_symbol G g)\<rparr>" k] k Callbacks.prems(2) cl
    by (simp add: fn_ok_def set_init_and_shutdown_callbacks_def)
next
  case (Feature_Map v)
  then show ?case using feature_map_refines by simp
next
  case Config_Feature_Map
  then show ?case using feature_map_refines by simp
next
  case Cluster_Revision
  then show ?case using revision_refines by simp
next
  case (Add_Feature f name)
  obtain ok sh where sh: "sh_add_feature (g_built G) f (co_features config name) (shape s c) = (ok, sh)" by fastforce
  have "(ok_result ok = ESP_OK) = ok" by (simp add: ok_result_def)
  then show ?case
    using refines_create_of[OF add_feature_refines[OF G, of s c f "co_features config name"] _ refl, of k "\<lambda>e. e = ESP_OK"]
      Add_Feature.prems sh by simp
next
  case (Validate p fs)
  then show ?case using inside_refl by (auto simp: refines_create_def ready_def)
next
  case (If_Feature f ts es)
  then show ?case by (auto simp: list_all_iff intro!: execs_create_refines_from)
next
  case (If_Built_All m ts)
  then show ?case using inside_refl
    by (auto simp: list_all_iff refines_create_def[of G k c s "Some (True, s)"] ready_def intro!: execs_create_refines_from)
qed

section \<open>The whole function\<close>

text \<open>A cluster that has just been made.\<close>

lemma new_cluster_state:
  assumes inv: "dm_inv s" "never_fails (mem s)" and e: "eps s p = Some e" "cluster_get s (Some p) i = Some None"
    and fl: "has_flag flags CLUSTER_FLAG_SERVER" "low_flags flags = 0" and pp: "plain_path (g_prov G) (ep_id e) i"
  obtains c s1 where "cluster_create (g_env G) (Some p) i flags s = Some (Some c, s1)" "ready G s1 c"
    "fn_ok G k (the (cls s1 c))" "shape s1 c = empty_shape" "cls s c = None"
    "eps s1 = (eps s)(p \<mapsto> e\<lparr>ep_clusters := ep_clusters e @ [c]\<rparr>)"
    "\<forall>d dl. cls s d = Some dl \<longrightarrow> d \<noteq> c \<and> cls s1 d = Some dl \<and> shape s1 d = shape s d" "\<forall>d. d \<noteq> c \<longrightarrow> cls s1 d = cls s d"
    "cl_id (the (cls s1 c)) = i" "node s1 = node s"
proof -
  let ?c = "mem_next (mem s)"
  let ?cl = "new_cluster i (ep_id e) flags (e_random (g_env G) ?c)"
  let ?t = "put_endpoint p (e\<lparr>ep_clusters := ep_clusters e @ [?c]\<rparr>)
    (put_cluster ?c ?cl (s\<lparr>mem := snd (mem_calloc (mem s))\<rparr>))"
  have r: "cluster_create (g_env G) (Some p) i flags s = Some (Some ?c, ?t)"
    using e fl(1) never_fails_alloc_eq[OF inv(2)] by (simp add: cluster_create_def)
  have free: "cls s ?c = None" using inv_next_free[OF inv(1)] by simp
  have "dm_inv ?t" using keeps_cluster_create[OF r] inv(1) by (simp add: keeps_def)
  moreover have k': "fn_ok G k ?cl" using fl(2) by (simp add: fn_ok_def new_cluster_def)
  moreover have "changed_ok ?cl" using fl(2) low_flags_bit[of 1 flags] by (simp add: changed_ok_def new_cluster_def)
  ultimately have rd: "ready G ?t ?c"
    using never_fails_calloc(2)[OF inv(2)] pp by (auto simp: ready_def plain_feature_map_def new_cluster_def)
  have sh: "shape ?t ?c = empty_shape" by (simp add: shape_def shape_of_def empty_shape_def new_cluster_def)
  have "d \<noteq> ?c" if "cls s d = Some dl" for d dl using that free by auto
  then have old: "d \<noteq> ?c \<and> cls ?t d = Some dl \<and> shape ?t d = shape s d" if "cls s d = Some dl" for d dl
    using that by (simp add: shape_def)
  have "cl_id ?cl = i" by (simp add: new_cluster_def)
  then show thesis by (intro that[OF r rd _ sh free]) (use k' old in simp_all)
qed

text \<open>Removing a cluster does not change the others.\<close>

lemma without_cluster_shape:
  assumes inv: "dm_inv s" and cl: "cls s c = Some cl" and d: "cls s d = Some dl" "d \<noteq> c"
  shows "shape (without_cluster c cl p e n s) d = shape s d"
proof -
  have out: "x \<notin> set (kids cl)" if "owns rel sep kids (cls s) m" "x \<in> set (kids dl)"
    for rel sep kids x and m :: "addr \<Rightarrow> 'x option"
    using owns_one_parent[OF that(1) d(1) cl that(2)] d(2) by blast
  note lay = inv[unfolded dm_inv_def layer_defs]
  have "x \<notin> set (cl_attributes cl)" if "x \<in> set (cl_attributes dl)" for x
    using out[of _ _ cl_attributes _ x] lay that by blast
  moreover have "x \<notin> set (cl_commands cl)" if "x \<in> set (cl_commands dl)" for x
    using out[of _ _ cl_commands _ x] lay that by blast
  moreover have "x \<notin> set (cl_events cl)" if "x \<in> set (cl_events dl)" for x
    using out[of _ _ cl_events _ x] lay that by blast
  ultimately show ?thesis using d by (simp add: shape_def without_cluster_def cong: map_cong)
qed

lemma create_refines:
  assumes G: "gen_ok G" and inv: "dm_inv s" "never_fails (mem s)" and e: "eps s p = Some e" "cluster_get s (Some p) (kf_id k) = Some None"
    and pp: "plain_path (g_prov G) (ep_id e) (kf_id k)" and k: "cluster_ok k" "list_all (cargs_ok config) (kf_body k)"
    and fl: "has_flag flags CLUSTER_FLAG_SERVER" "low_flags flags = 0" "\<not> has_flag flags CLUSTER_FLAG_CLIENT"
  shows "if fst (sh_create (g_built G) k config) then
      \<exists>c s'. create G binding k (Some p) (Some config) flags s = Some (Some c, s') \<and> dm_inv s' \<and> cls s c = None \<and>
        eps s' = (eps s)(p \<mapsto> e\<lparr>ep_clusters := ep_clusters e @ [c]\<rparr>) \<and>
        ready G s' c \<and> cl_id (the (cls s' c)) = kf_id k \<and> node s' = node s \<and>
        shape s' c = snd (sh_create (g_built G) k config) \<and>
        (\<forall>d. cls s d \<noteq> None \<longrightarrow> cls s' d = cls s d \<and> shape s' d = shape s d)
    else if g_asserts G then create G binding k (Some p) (Some config) flags s = None
    else \<exists>s'. create G binding k (Some p) (Some config) flags s = Some (None, s') \<and> dm_inv s' \<and>
        eps s' = eps s \<and> cls s' = cls s \<and> (\<forall>d. cls s d \<noteq> None \<longrightarrow> shape s' d = shape s d)"
proof -
  obtain c s1 where s1: "cluster_create (g_env G) (Some p) (kf_id k) flags s = Some (Some c, s1)" "ready G s1 c"
      "fn_ok G k (the (cls s1 c))" "shape s1 c = empty_shape" "cls s c = None"
      "eps s1 = (eps s)(p \<mapsto> e\<lparr>ep_clusters := ep_clusters e @ [c]\<rparr>)"
      "\<forall>d dl. cls s d = Some dl \<longrightarrow> d \<noteq> c \<and> cls s1 d = Some dl \<and> shape s1 d = shape s d" "\<forall>d. d \<noteq> c \<longrightarrow> cls s1 d = cls s d"
      "cl_id (the (cls s1 c)) = kf_id k" "node s1 = node s"
    by (rule new_cluster_state[OF inv e fl(1,2) pp, of k])
  have inv1: "dm_inv s1" using s1(2) by (simp add: ready_def)
  have k': "table_ok k" "list_all cstmt_ok (kf_body k)" using k(1) by (simp_all add: cluster_ok_def)
  obtain ok sh where sh: "sh_create (g_built G) k config = (ok, sh)" by fastforce
  have "refines_create G k c s1 (execs_create G k config (Some c) (kf_body k) s1) (sh_create (g_built G) k config)"
    unfolding sh_create_def s1(4)[symmetric]
    by (rule execs_create_refines_from[OF exec_create_refines[OF G k'(1)] s1(2,3)]) (use k(2) k'(2) in \<open>auto simp: list_all_iff\<close>)
  then obtain s2 where s2: "execs_create G k config (Some c) (kf_body k) s1 = Some (ok, s2)" "ready G s2 c" "inside c s1 s2" "shape s2 c = sh"
    using sh by (auto simp: refines_create_def)
  have inv2: "dm_inv s2" using s2(2) by (simp add: ready_def)
  have eps2: "eps s2 = eps s1" and cls2: "\<And>d. d \<noteq> c \<Longrightarrow> cls s2 d = cls s d" using s2(3) s1(8) by (auto simp: inside_def)
  have old: "d \<noteq> c \<and> cls s2 d = cls s d \<and> shape s2 d = shape s d" if live: "cls s d \<noteq> None" for d
  proof -
    obtain dl where dl: "cls s d = Some dl" using live by blast
    then have d: "d \<noteq> c" "cls s1 d = Some dl" "shape s1 d = shape s d" using s1(7) by simp_all
    show ?thesis using d inside_shape[OF s2(3) inv1 d(1,2)] cls2[OF d(1)] by simp
  qed
  have cr: "create G binding k (Some p) (Some config) flags s = (if ok then Some (Some c, s2) else ABORT_CLUSTER_CREATE G (Some c) s2)"
  proof -
    have "create_side G k (Some p) (Some config) flags s = (if ok then Some (Some c, s2) else ABORT_CLUSTER_CREATE G (Some c) s2)"
      using s1(1) s2(1) fl(1) by (simp add: create_side_def create_server_def)
    moreover have "do { (ch, t) \<leftarrow> r; Some (ch, t) } = r" for r :: "(handle \<times> 'a dm) option" by (cases r) auto
    ultimately show ?thesis using fl(3) by (simp add: create_def)
  qed
  show ?thesis
  proof (cases ok)
    case True
    have "cl_id (the (cls s2 c)) = kf_id k" "node s2 = node s" using s2(3) s1(9,10) by (auto simp: inside_def)
    then show ?thesis using True cr sh s2(2,4) s1(5,6) eps2 inv2 old by auto
  next
    case False
    obtain cl where cl: "cls s2 c = Some cl" using s2(2) by (auto simp: ready_def)
    obtain q f n where d: "eps s2 q = Some f" "c \<in> set (ep_clusters f)"
        "cluster_destroy (g_env G) (Some c) s2 = Some (ESP_OK, without_cluster c cl q f n s2)" "dm_inv (without_cluster c cl q f n s2)"
      by (rule cluster_destroy_effect[OF inv2 cl])
    have own: "owns (\<lambda>e c. cl_ep c = ep_id e) (\<lambda>c d. cl_id c \<noteq> cl_id d) ep_clusters (eps s2) (cls s2)"
      using inv2 by (simp add: dm_inv_def cl_layer_def)
    let ?e = "e\<lparr>ep_clusters := ep_clusters e @ [c]\<rparr>"
    have ep: "eps s2 p = Some ?e" using eps2 s1(6) by simp
    have q: "q = p" "f = ?e" using owns_one_parent[OF own d(1) ep d(2)] ep d(1) by simp_all
    have "c \<notin> set (ep_clusters e)" using owns_distinct[OF own ep] by simp
    then have "e\<lparr>ep_clusters := remove1 c (ep_clusters e @ [c])\<rparr> = e" by (simp add: remove1_append)
    then have "eps (without_cluster c cl q f n s2) = eps s"
      using q eps2 s1(6) e(1) by (simp add: without_cluster_def fun_upd_idem)
    moreover have "cls (without_cluster c cl q f n s2) = cls s"
      using cls2 s1(5) by (auto simp: without_cluster_def fun_eq_iff)
    moreover have "shape (without_cluster c cl q f n s2) d = shape s d" if "cls s d \<noteq> None" for d
      using old[OF that] that without_cluster_shape[OF inv2 cl, of d] by auto
    ultimately show ?thesis using cr sh False d(3,4) by (auto simp: ABORT_CLUSTER_CREATE_def)
  qed
qed

end
