(* ===== verification/EM_Describe.thy ===== *)
theory EM_Describe
  imports EM_Create
begin

text \<open>
  What is checked of the description of a generated cluster: every attribute function declares a
  type that fits its flags and bounds that its type can hold, and every \<open>create\<close> function is one the
  refinement of \<open>EM_Create\<close> applies to.  The lemmas say what the checks give on the store.
\<close>

section \<open>Typing of attribute functions\<close>

definition in_range :: "num_kind \<Rightarrow> int \<Rightarrow> bool" where
  "in_range k n \<longleftrightarrow>
     (if kind_signed k then - (2 ^ (kind_bits k - 1)) \<le> n \<and> n < 2 ^ (kind_bits k - 1)
      else 0 \<le> n \<and> n < 2 ^ kind_bits k)"

definition bounds_ok :: "val_type \<Rightarrow> u16 \<Rightarrow> int \<Rightarrow> int \<Rightarrow> bool" where
  "bounds_ok t flags lo hi \<longleftrightarrow>
     \<not> has_flag flags ATTRIBUTE_FLAG_MANAGED_INTERNALLY \<and>
     (case bounded_kind t of None \<Rightarrow> False
      | Some k \<Rightarrow> k \<noteq> KFloat \<and> lo \<le> hi \<and> in_range k lo \<and> in_range k hi)"

definition attr_fn_ok :: "attr_fn \<Rightarrow> bool" where
  "attr_fn_ok f \<longleftrightarrow>
     af_id f \<noteq> FeatureMap_Id \<and>
     (nullable_type (af_type f) \<longrightarrow> has_flag (af_flags f) ATTRIBUTE_FLAG_NULLABLE) \<and>
     (has_flag (af_flags f) ATTRIBUTE_FLAG_NULLABLE \<longrightarrow>
        nullable_type (af_type f) \<or> af_type f \<in> string_types \<union> {VT_ARRAY}) \<and>
     (case af_bounds f of None \<Rightarrow> True | Some (lo, hi) \<Rightarrow> bounds_ok (af_type f) (af_flags f) lo hi)"

text \<open>The functions of a cluster create the declared ids, one function for each.\<close>

definition ids_ok :: "cluster_decl \<Rightarrow> bool" where
  "ids_ok d \<longleftrightarrow>
     map ff_id (cd_features d) = map snd (ci_features (cd_ids d)) \<and>
     map af_id (cd_attributes d) = map snd (ci_attributes (cd_ids d)) \<and>
     map mf_id (cd_commands d) = map snd (ci_commands (cd_ids d)) \<and>
     map vf_id (cd_events d) = map snd (ci_events (cd_ids d)) \<and>
     distinct (map snd (ci_attributes (cd_ids d))) \<and> distinct (map snd (ci_events (cd_ids d))) \<and>
     (case cd_create d of None \<Rightarrow> True | Some k \<Rightarrow> kf_id k = ci_cluster (cd_ids d))"

definition decl_ok :: "cluster_decl \<Rightarrow> bool" where
  "decl_ok d \<longleftrightarrow>
     ids_ok d \<and> list_all attr_fn_ok (cd_attributes d) \<and>
     list_all (\<lambda>f. list_all stmt_ok (ff_body f)) (cd_features d) \<and>
     (case cd_create d of None \<Rightarrow> True | Some k \<Rightarrow> cluster_ok k)"

section \<open>Bounds\<close>

lemma int_of_word:
  assumes "in_range k n" "k \<noteq> KFloat"
  shows "int_of k (trunc k (word_of_int n)) = n"
proof (cases "kind_signed k")
  case True
  then have "0 < kind_bits k" "kind_bits k \<le> 64" by (cases k; simp)+
  then show ?thesis
    using assms True by (auto simp: int_of_def trunc_def in_range_def unsigned_take_bit_eq unsigned_of_int
        signed_take_bit_take_bit signed_take_bit_int_eq_self)
next
  case False
  have "kind_bits k \<le> 64" by (cases k; simp)
  then show ?thesis
    using assms False by (simp add: int_of_def trunc_def in_range_def unsigned_take_bit_eq unsigned_of_int
        take_bit_int_eq_self)
qed

lemma std_is_null: "k \<noteq> KFloat \<Longrightarrow> tr_is_null std_traits k w \<longleftrightarrow> trunc k w = GetNullValue k"
  by (simp add: std_traits_def)

lemma std_null: "tr_null std_traits = GetNullValue"
  by (simp add: std_traits_def)

lemma std_nullable_val:
  assumes "k \<noteq> KFloat"
  shows "num_member k (av_val (nullable_attr_val std_traits t k (nullable_of std_traits k w))) = trunc k w"
proof (cases "trunc k w = GetNullValue k")
  case True
  then have "trunc k (GetNullValue k) = GetNullValue k" using trunc_trunc[of k w] by simp
  then show ?thesis using assms True
    by (simp add: nullable_attr_val_def num_attr_val_def num_member_def nullable_of_def nullable_is_null_def std_is_null std_null)
next
  case False
  then show ?thesis using assms
    by (simp add: nullable_attr_val_def num_attr_val_def num_member_def nullable_of_def nullable_is_null_def nullable_value_def
        std_is_null)
qed

lemma trunc_ucast:
  "trunc KU8 (ucast (ucast w :: u8)) = trunc KU8 w" "trunc KU16 (ucast (ucast w :: u16)) = trunc KU16 w"
  "trunc KU32 (ucast (ucast w :: u32)) = trunc KU32 w" "trunc KI8 (ucast (ucast w :: u8)) = trunc KI8 w"
  "trunc KI16 (ucast (ucast w :: u16)) = trunc KI16 w" "trunc KI32 (ucast (ucast w :: u32)) = trunc KI32 w"
  by (rule bit_word_eqI, auto simp: trunc_def bit_take_bit_iff bit_ucast_iff)+

lemma bound_val_int:
  assumes "bounded_kind t = Some k" "k \<noteq> KFloat" "in_range k n"
  shows "int_of k (num_member k (av_val (bound_val std_traits t n))) = n"
proof -
  have "num_member k (av_val (bound_val std_traits t n)) = trunc k (word_of_int n)"
    using assms(1,2)
    by (cases t; clarsimp simp: bounded_kind_def bound_val_def literal_def ctor_defs(1-36) num_attr_val_def num_member_def
        trunc_ucast std_nullable_val[unfolded num_attr_val_def num_member_def])
  then show ?thesis using int_of_word[OF assms(3,2)] by simp
qed

text \<open>What the attribute promises of its value: null, or a number from the lower to the upper bound.\<close>

definition value_between :: "int \<Rightarrow> int \<Rightarrow> attribute_t \<Rightarrow> bool" where
  "value_between lo hi at \<longleftrightarrow>
     (\<exists>x k. at_ext at = Some x \<and> bounded_kind (at_type at) = Some k \<and>
        (val_is_null std_traits (attr_val_of at x) \<or>
         lo \<le> int_of k (num_member k (x_val x)) \<and> int_of k (num_member k (x_val x)) \<le> hi))"

lemma compare_num_int:
  assumes "bounded_kind (av_type v) = Some k" "k \<noteq> KFloat"
  shows "compare_num T k v b =
    (let n = int_of k (num_member k (av_val v)) in
     if val_is_null T v then 0
     else if n < int_of k (num_member k (av_val (b_min b))) then - 1
     else if int_of k (num_member k (av_val (b_max b))) < n then 1 else 0)"
  using assms by (cases "av_type v") (auto simp: bounded_kind_def compare_num_def num_lt_def val_is_null_def Let_def)

lemma add_bounds_between:
  assumes at: "ats s a = Some at" "at_ok cl at" "at_type at = t" and nf: "never_fails (mem s)"
    and b: "bounds_ok t (at_flags at) lo hi" and E: "e_traits E = std_traits"
    and r: "add_bounds E (Some a) (bound_val std_traits t lo) (bound_val std_traits t hi) s = Some (err, s')"
  shows "err = ESP_OK \<and> (\<exists>at'. ats s' a = Some at' \<and> attr_decl at' = (at_id at, t, at_flags at OR ATTRIBUTE_FLAG_MIN_MAX) \<and>
    value_between lo hi at')"
proof -
  let ?mn = "bound_val std_traits t lo" and ?mx = "bound_val std_traits t hi"
  obtain k where k: "bounded_kind t = Some k" "k \<noteq> KFloat" "lo \<le> hi" "in_range k lo" "in_range k hi"
      "\<not> has_flag (at_flags at) ATTRIBUTE_FLAG_MANAGED_INTERNALLY"
    using b by (auto simp: bounds_ok_def split: option.splits)
  note int = bound_val_int[OF k(1,2,4)] bound_val_int[OF k(1,2,5)]
  have t: "boundable t" using k(1) by (cases t) (simp_all add: boundable_def bounded_kind_def)
  have ty: "av_type ?mn = t" "av_type ?mx = t" by (simp_all add: bound_val_def attr_ctor_type)
  obtain x where x: "at_ext at = Some x" using at(2) k(6) by (cases "at_ext at") (auto simp: at_ok_def)
  have "compare_attr_val_with_bounds T \<lparr>av_type = t, av_val = v\<rparr> c \<in> {- 1, 0, 1}" for T v c
    using k(1) by (simp add: compare_bounded_kind compare_num_def Let_def)
  then have ok: "err = ESP_OK"
    using r x at(1,3) ty t k(6) never_fails_alloc_eq[OF nf]
    by (auto simp: add_bounds_def boundable_def bound_attribute_val_def attr_val_of_def Let_def split: if_splits)
  from r at(1) show ?thesis
  proof (cases rule: add_bounds_cases)
    case (set x b r)
    let ?at = "at\<lparr>at_flags := at_flags at OR ATTRIBUTE_FLAG_MIN_MAX,
          at_ext := Some (x\<lparr>x_bounds := Some b,
            x_val := (if r = 1 then av_val ?mx else if r = - 1 then av_val ?mn else x_val x)\<rparr>)\<rparr>"
    have r': "r = (let n = int_of k (num_member k (x_val x)) in
        if val_is_null std_traits (attr_val_of at x) then 0 else if n < lo then - 1 else if hi < n then 1 else 0)"
      using set(5,6) k(1) at(3) int E compare_num_int[of "attr_val_of at x" k std_traits b] k(2)
      by (simp add: compare_bounded_kind attr_val_of_def Let_def)
    have "value_between lo hi ?at"
      using r' k(1,3) at(3) int by (auto simp: value_between_def attr_val_of_def Let_def split: if_splits)
    then show ?thesis using set(8) ok at(3) by (auto simp: attr_decl_def)
  qed (use ok in simp_all)
qed

section \<open>Creation of a declared attribute\<close>

definition fits :: "attr_fn \<Rightarrow> arg \<Rightarrow> bool" where
  "fits f x \<longleftrightarrow> (case af_max_length f of None \<Rightarrow> True | Some n \<Rightarrow> arg_length x \<le> n)"

lemma new_attribute_decl:
  assumes r: "ready G s c" and v: "val_ok v" "av_type v = t" and i: "i \<noteq> FeatureMap_Id" "i \<notin> sh_attr_ids (shape s c)"
  obtains a s' cl at where "attribute_create (g_env G) (Some c) i fl v mx s = Some (Some a, s')" "ready G s' c"
    "cls s' c = Some cl" "a \<in> set (cl_attributes cl)" "ats s' a = Some at" "attr_decl at = (i, t, fl)"
proof -
  obtain a s' where s': "attribute_create (g_env G) (Some c) i fl v mx s = Some (Some a, s')" "ready G s' c"
      "sh_attributes (shape s' c) = sh_attributes (shape s c) @ [(i, t, fl)]"
    using attribute_create_refines[OF r v(1), of i fl mx] i v(2) by (auto simp: refines_def sh_new_attribute_def)
  obtain cl where cl: "cls s' c = Some cl" "dm_inv s'" using s'(2) by (auto simp: ready_def)
  have "dm_inv s" using r by (auto simp: ready_def)
  then obtain at where at: "a \<in> set (cl_attributes cl)" "ats s' a = Some at" "at_id at = i"
    using attribute_create_get(1)[OF s'(1)] attribute_get_exact[OF cl(2,1), of i] by auto
  have "attr_decl at \<in> set (sh_attributes (shape s' c))" using at(1,2) cl(1) by (force simp: shape_def shape_of_def)
  then have "attr_decl at = (i, t, fl)"
    using s'(3) i(2) at(3) by (auto simp: sh_attr_ids_def attr_decl_def image_iff)
  then show ?thesis using that s'(1,2) cl(1) at(1,2) by blast
qed

lemma create_attribute_typed:
  assumes G: "gen_ok G" "e_traits (g_env G) = std_traits" and r: "ready G s c"
    and f: "attr_fn_ok f" "sh_guard_opt (shape s c) (af_guard f)" "af_id f \<notin> sh_attr_ids (shape s c)"
    and x: "arg_ok (af_type f) x" "fits f x"
  shows "\<exists>a s' at. create_attribute G f (Some c) x s = Some (Some a, s') \<and> ats s' a = Some at \<and>
    at_id at = af_id f \<and> at_type at = af_type f \<and>
    (nullable_type (at_type at) \<longrightarrow> has_flag (at_flags at) ATTRIBUTE_FLAG_NULLABLE) \<and>
    (case af_bounds f of None \<Rightarrow> True | Some (lo, hi) \<Rightarrow> value_between lo hi at)"
proof -
  let ?E = "g_env G" and ?t = "af_type f"
  have long: "\<not> (case af_max_length f of None \<Rightarrow> False | Some n \<Rightarrow> n < arg_length x)"
    using x(2) by (auto simp: fits_def split: option.splits)
  have ok: "af_id f \<noteq> FeatureMap_Id" "nullable_type ?t \<longrightarrow> has_flag (af_flags f) ATTRIBUTE_FLAG_NULLABLE"
    using f(1) by (simp_all add: attr_fn_ok_def)
  obtain s1 where s1: "check_guard_opt G (af_guard f) (Some c) s = Some (True, s1)" "ready G s1 c" "shape s1 c = shape s c"
    using check_guard_opt_refines[OF G(1) r, of "af_guard f"] f(2) by (auto simp: refines_def)
  obtain a s2 cl at where s2: "attribute_create ?E (Some c) (af_id f) (af_flags f) (attr_ctor std_traits ?t x) (af_max_size f) s1 =
        Some (Some a, s2)" "ready G s2 c"
      "cls s2 c = Some cl" "a \<in> set (cl_attributes cl)" "ats s2 a = Some at" "attr_decl at = (af_id f, ?t, af_flags f)"
    using new_attribute_decl[OF s1(2) attr_ctor_ok[OF x(1)] attr_ctor_type ok(1)] f(3) s1(3) by metis
  have at: "at_id at = af_id f" "at_type at = ?t" "at_flags at = af_flags f" using s2(6) by (simp_all add: attr_decl_def)
  show ?thesis
  proof (cases "af_bounds f")
    case None
    then show ?thesis using s1(1) s2(1,5) G(2) long at ok(2) by (auto simp: create_attribute_def Let_def)
  next
    case (Some lh)
    obtain lo hi where lh: "lh = (lo, hi)" by (cases lh)
    have b: "bounds_ok ?t (at_flags at) lo hi" using f(1) Some lh at(3) by (simp add: attr_fn_ok_def)
    have inv: "dm_inv s2" "never_fails (mem s2)" using s2(2) by (auto simp: ready_def)
    have aok: "at_ok cl at" using owns_rel[OF inv_at[OF inv(1), unfolded at_layer_def] s2(3,4,5)] .
    obtain err s3 where s3: "add_bounds ?E (Some a) (bound_val std_traits ?t lo) (bound_val std_traits ?t hi) s2 = Some (err, s3)"
      using add_bounds_refines[OF s2(2,3,4,5), of "bound_val std_traits ?t lo" ?t "bound_val std_traits ?t hi"] at(1) ok(1)
      by (auto simp: refines_def bound_val_def)
    obtain at' where "ats s3 a = Some at'" "attr_decl at' = (at_id at, ?t, at_flags at OR ATTRIBUTE_FLAG_MIN_MAX)"
        "value_between lo hi at'"
      using add_bounds_between[OF s2(5) aok at(2) inv(2) b G(2) s3] by auto
    moreover have "has_flag (at_flags at OR ATTRIBUTE_FLAG_MIN_MAX) ATTRIBUTE_FLAG_NULLABLE" if "nullable_type ?t"
      using ok(2) that at(3) by (simp add: has_flag_def bit.conj_disj_distrib2 or_eq_0_iff)
    ultimately show ?thesis using s1(1) s2(1) s3 G(2) long at Some lh by (auto simp: create_attribute_def Let_def attr_decl_def)
  qed
qed

end
