(* ===== verification/EM_Order.thy ===== *)
theory EM_Order
  imports EM_Describe
begin

text \<open>
  The order in which features are added.  A feature whose body only requires, sets its bit and
  creates elements is summarised by the elements it creates with their conditions.  When every
  condition is about features only, and each feature in the condition of an element creates that
  element too or is required by all that do, the elements at the end are determined by the set of
  features: an element exists exactly when one of the features creates it and its condition holds
  of the final feature map.
\<close>

section \<open>What a feature creates\<close>

datatype elem = Attribute_Elem u32 | Command_Elem u32 u16 | Event_Elem u32

type_synonym creation = "string list \<times> elem \<times> guard option"

primrec present :: "shape \<Rightarrow> elem \<Rightarrow> bool" where
  "present sh (Attribute_Elem i) = (i \<in> sh_attr_ids sh)"
| "present sh (Command_Elem i f) = sh_has_command sh i f"
| "present sh (Event_Elem i) = (i \<in> set (sh_events sh))"

primrec creates :: "stmt \<Rightarrow> creation option" where
  "creates (Require g) = None"
| "creates Update_Feature_Map = None"
| "creates (Attribute f x) = Some ([], Attribute_Elem (af_id f), af_guard f)"
| "creates (Command f) = Some ([], Command_Elem (mf_id f) (ucast (ucast (mf_flags f) :: u8)), mf_guard f)"
| "creates (Event f) = Some ([], Event_Elem (vf_id f), vf_guard f)"
| "creates (Destroy_Attribute j) = None"
| "creates (Destroy_Command j) = None"
| "creates (Destroy_Event j) = None"
| "creates (If_Built m st) = map_option (\<lambda>(ms, e, g). (m # ms, e, g)) (creates st)"

definition creations :: "stmt list \<Rightarrow> creation list" where
  "creations sts = List.map_filter creates sts"

definition command_ok :: "elem \<Rightarrow> bool" where
  "command_ok e \<longleftrightarrow> (case e of Command_Elem i f \<Rightarrow> f = COMMAND_FLAG_ACCEPTED \<or> f = COMMAND_FLAG_GENERATED | _ \<Rightarrow> True)"

text \<open>Conditions that are about features and only grow with them.\<close>

primrec monotone_guard :: "guard \<Rightarrow> bool" where
  "monotone_guard (Has_Feature f) = True"
| "monotone_guard (Has_Attribute i) = False"
| "monotone_guard (Has_Command i f) = False"
| "monotone_guard (Not g) = False"
| "monotone_guard (And g h) = (monotone_guard g \<and> monotone_guard h)"
| "monotone_guard (Or g h) = (monotone_guard g \<and> monotone_guard h)"

primrec guard_features :: "guard \<Rightarrow> u32 list" where
  "guard_features (Has_Feature f) = [f]"
| "guard_features (Has_Attribute i) = []"
| "guard_features (Has_Command i f) = []"
| "guard_features (Not g) = guard_features g"
| "guard_features (And g h) = guard_features g @ guard_features h"
| "guard_features (Or g h) = guard_features g @ guard_features h"

primrec fm_guard :: "u32 \<Rightarrow> guard \<Rightarrow> bool" where
  "fm_guard fm (Has_Feature f) = has_flag fm f"
| "fm_guard fm (Has_Attribute i) = False"
| "fm_guard fm (Has_Command i f) = False"
| "fm_guard fm (Not g) = (\<not> fm_guard fm g)"
| "fm_guard fm (And g h) = (fm_guard fm g \<and> fm_guard fm h)"
| "fm_guard fm (Or g h) = (fm_guard fm g \<or> fm_guard fm h)"

definition effective :: "(string \<Rightarrow> bool) \<Rightarrow> u32 \<Rightarrow> creation \<Rightarrow> bool" where
  "effective built fm = (\<lambda>(ms, e, go). list_all built ms \<and> (case go of None \<Rightarrow> True | Some g \<Rightarrow> fm_guard fm g))"

section \<open>The check\<close>

text \<open>The features a requirement surely asks for.\<close>

primrec guard_needs :: "guard \<Rightarrow> u32 list" where
  "guard_needs (Has_Feature f) = [f]"
| "guard_needs (Has_Attribute i) = []"
| "guard_needs (Has_Command i f) = []"
| "guard_needs (Not g) = []"
| "guard_needs (And g h) = guard_needs g @ guard_needs h"
| "guard_needs (Or g h) = []"

primrec stmt_needs :: "stmt \<Rightarrow> u32 list" where
  "stmt_needs (Require g) = guard_needs g"
| "stmt_needs Update_Feature_Map = []"
| "stmt_needs (Attribute f x) = []"
| "stmt_needs (Command f) = []"
| "stmt_needs (Event f) = []"
| "stmt_needs (Destroy_Attribute j) = []"
| "stmt_needs (Destroy_Command j) = []"
| "stmt_needs (Destroy_Event j) = []"
| "stmt_needs (If_Built m st) = []"

fun is_require :: "stmt \<Rightarrow> bool" where
  "is_require (Require g) = True"
| "is_require _ = False"

definition needs :: "feature_fn \<Rightarrow> u32 list" where
  "needs f = concat (map stmt_needs (takeWhile is_require (ff_body f)))"

definition plain_body :: "stmt list \<Rightarrow> bool" where
  "plain_body body =
     (case dropWhile is_require body of
        Update_Feature_Map # sts \<Rightarrow> list_all (\<lambda>st. creates st \<noteq> None) sts
      | _ \<Rightarrow> False)"

definition creation_ok :: "feature_fn list \<Rightarrow> creation \<Rightarrow> bool" where
  "creation_ok fs p \<longleftrightarrow> command_ok (fst (snd p)) \<and>
     (case snd (snd p) of None \<Rightarrow> True
      | Some g \<Rightarrow> monotone_guard g \<and>
          list_all (\<lambda>h. list_all (\<lambda>f. has_flag (ff_id f) h \<longrightarrow> p \<in> set (creations (ff_body f))) fs \<or>
                        list_all (\<lambda>f. p \<in> set (creations (ff_body f)) \<longrightarrow> h \<in> set (needs f)) fs)
            (guard_features g))"

definition order_ok :: "feature_fn list \<Rightarrow> bool" where
  "order_ok fs \<longleftrightarrow> list_all (\<lambda>f. plain_body (ff_body f) \<and> list_all (creation_ok fs) (creations (ff_body f))) fs"

text \<open>The same with the creations and needs of each feature computed once.\<close>

definition summary :: "feature_fn \<Rightarrow> u32 \<times> creation list \<times> u32 list" where
  "summary f = (ff_id f, creations (ff_body f), needs f)"

definition summary_ok :: "(u32 \<times> creation list \<times> u32 list) list \<Rightarrow> creation \<Rightarrow> bool" where
  "summary_ok ts p \<longleftrightarrow> command_ok (fst (snd p)) \<and>
     (case snd (snd p) of None \<Rightarrow> True
      | Some g \<Rightarrow> monotone_guard g \<and>
          list_all (\<lambda>h. list_all (\<lambda>(i, ps, ns). has_flag i h \<longrightarrow> p \<in> set ps) ts \<or>
                        list_all (\<lambda>(i, ps, ns). p \<in> set ps \<longrightarrow> h \<in> set ns) ts)
            (guard_features g))"

lemma creation_ok_summary: "summary_ok (map summary fs) p \<longleftrightarrow> creation_ok fs p"
  by (simp add: summary_ok_def creation_ok_def summary_def list.pred_map comp_def cong: option.case_cong)

lemma order_ok_code [code]:
  "order_ok fs \<longleftrightarrow>
     list_all (\<lambda>f. plain_body (ff_body f)) fs \<and>
     (let ts = map summary fs in list_all (\<lambda>(i, ps, ns). list_all (summary_ok ts) ps) ts)"
  by (auto simp: order_ok_def Let_def creation_ok_summary list.pred_map comp_def summary_def list_all_iff)

section \<open>One feature\<close>

primrec lengths_ok :: "fields \<Rightarrow> stmt \<Rightarrow> bool" where
  "lengths_ok config (Require g) = True"
| "lengths_ok config Update_Feature_Map = True"
| "lengths_ok config (Attribute f x) = (case af_max_length f of None \<Rightarrow> True | Some n \<Rightarrow> argx_length config x \<le> n)"
| "lengths_ok config (Command f) = True"
| "lengths_ok config (Event f) = True"
| "lengths_ok config (Destroy_Attribute j) = True"
| "lengths_ok config (Destroy_Command j) = True"
| "lengths_ok config (Destroy_Event j) = True"
| "lengths_ok config (If_Built m st) = lengths_ok config st"

lemma fm_guard_shape: "monotone_guard g \<Longrightarrow> sh_guard sh g \<longleftrightarrow> fm_guard (sh_fm sh) g"
  by (induction g) auto

lemma fm_guard_mono:
  assumes "monotone_guard g" "fm_guard fm g"
  shows "fm_guard (fm OR w) g"
  using assms by (induction g) (auto simp: has_flag_or)

lemma fm_guard_cong:
  assumes "\<forall>h \<in> set (guard_features g). has_flag v h \<longleftrightarrow> has_flag w h"
  shows "fm_guard v g \<longleftrightarrow> fm_guard w g"
  using assms by (induction g) auto

lemma guard_needs_holds: "sh_guard sh g \<Longrightarrow> h \<in> set (guard_needs g) \<Longrightarrow> has_flag (sh_fm sh) h"
  by (induction g) auto

lemma sh_bound_ids: "fst ` set (sh_bound i t as) = fst ` set as"
  by (force simp: sh_bound_def split: prod.splits if_splits)

text \<open>The change of one creation, and of a list of them.\<close>

definition adds :: "(string \<Rightarrow> bool) \<Rightarrow> u32 \<Rightarrow> creation list \<Rightarrow> shape \<Rightarrow> shape \<Rightarrow> bool" where
  "adds built fm ps sh sh' \<longleftrightarrow>
     sh_feature_map sh' = sh_feature_map sh \<and>
     (\<forall>e. command_ok e \<longrightarrow>
        (present sh' e \<longleftrightarrow> present sh e \<or> (\<exists>p \<in> set ps. fst (snd p) = e \<and> effective built fm p)))"

definition mono_creation :: "creation \<Rightarrow> bool" where
  "mono_creation p \<longleftrightarrow> command_ok (fst (snd p)) \<and> (case snd (snd p) of None \<Rightarrow> True | Some g \<Rightarrow> monotone_guard g)"

lemma adds_attribute:
  assumes "fm = sh_fm sh" "mono_creation ([], Attribute_Elem (af_id f), af_guard f)"
    and "case af_max_length f of None \<Rightarrow> True | Some n \<Rightarrow> l \<le> n"
  shows "adds built fm [([], Attribute_Elem (af_id f), af_guard f)] sh (sh_attribute f l sh)"
proof -
  have g: "effective built fm ([], Attribute_Elem (af_id f), af_guard f) \<longleftrightarrow> sh_guard_opt sh (af_guard f)"
    using assms(1,2) by (auto simp: effective_def mono_creation_def sh_guard_opt_def fm_guard_shape split: option.splits)
  have l: "\<not> (case af_max_length f of None \<Rightarrow> False | Some n \<Rightarrow> n < l)" using assms(3) by (auto split: option.splits)
  have "sh_attr_ids (sh_attribute f l sh) = sh_attr_ids sh \<union> (if sh_guard_opt sh (af_guard f) then {af_id f} else {})"
    using l by (auto simp: sh_attribute_def sh_attr_ids_def sh_bound_ids Let_def)
  moreover have "sh_commands (sh_attribute f l sh) = sh_commands sh" "sh_events (sh_attribute f l sh) = sh_events sh"
      "sh_feature_map (sh_attribute f l sh) = sh_feature_map sh"
    by (simp_all add: sh_attribute_def Let_def)
  ultimately have "present (sh_attribute f l sh) e \<longleftrightarrow>
      present sh e \<or> Attribute_Elem (af_id f) = e \<and> sh_guard_opt sh (af_guard f)" for e
    by (cases e) (auto simp: sh_has_command_def)
  then show ?thesis using g by (simp add: adds_def sh_attribute_def Let_def)
qed

lemma adds_command:
  assumes "fm = sh_fm sh" "mono_creation ([], Command_Elem (mf_id f) fl, mf_guard f)" "fl = ucast (ucast (mf_flags f) :: u8)"
  shows "adds built fm [([], Command_Elem (mf_id f) fl, mf_guard f)] sh (sh_command f sh)"
proof -
  have g: "effective built fm ([], Command_Elem (mf_id f) fl, mf_guard f) \<longleftrightarrow> sh_guard_opt sh (mf_guard f)"
    using assms(1,2) by (auto simp: effective_def mono_creation_def sh_guard_opt_def fm_guard_shape split: option.splits)
  have fl: "has_flag fl f' \<longleftrightarrow> fl = f'" if "command_ok (Command_Elem i f')" for i f'
    using that assms(2) by (auto simp: mono_creation_def command_ok_def has_flag_def COMMAND_FLAG_ACCEPTED_def COMMAND_FLAG_GENERATED_def)
  have "present (sh_command f sh) e \<longleftrightarrow> present sh e \<or> Command_Elem (mf_id f) fl = e \<and> sh_guard_opt sh (mf_guard f)"
    if "command_ok e" for e
    using that fl by (cases e) (auto simp: sh_command_def sh_has_command_def sh_attr_ids_def Let_def assms(3)[symmetric])
  then show ?thesis using g by (simp add: adds_def sh_command_def Let_def)
qed

lemma adds_event:
  assumes "fm = sh_fm sh" "mono_creation ([], Event_Elem (vf_id f), vf_guard f)"
  shows "adds built fm [([], Event_Elem (vf_id f), vf_guard f)] sh (sh_event f sh)"
proof -
  have g: "effective built fm ([], Event_Elem (vf_id f), vf_guard f) \<longleftrightarrow> sh_guard_opt sh (vf_guard f)"
    using assms by (auto simp: effective_def mono_creation_def sh_guard_opt_def fm_guard_shape split: option.splits)
  have "present (sh_event f sh) e \<longleftrightarrow> present sh e \<or> Event_Elem (vf_id f) = e \<and> sh_guard_opt sh (vf_guard f)" for e
    by (cases e) (auto simp: sh_event_def sh_has_command_def sh_attr_ids_def)
  then show ?thesis using g by (simp add: adds_def sh_event_def)
qed

lemma exec_adds:
  assumes "creates st = Some p" "mono_creation p" "lengths_ok config st"
  shows "fst (sh_exec built i config st sh)" "adds built (sh_fm sh) [p] sh (snd (sh_exec built i config st sh))"
proof -
  have "fst (sh_exec built i config st sh) \<and> adds built (sh_fm sh) [p] sh (snd (sh_exec built i config st sh))"
    using assms
  proof (induction st arbitrary: p)
    case (If_Built m st)
    then obtain q where q: "creates st = Some q" "p = (m # fst q, snd q)" by auto
    then have "mono_creation q" using If_Built.prems(2) by (simp add: mono_creation_def)
    with If_Built.IH[OF q(1)] If_Built.prems(3) q(2) show ?case
      by (auto simp: adds_def effective_def split: prod.splits)
  qed (auto intro: adds_attribute adds_command adds_event)
  then show "fst (sh_exec built i config st sh)" "adds built (sh_fm sh) [p] sh (snd (sh_exec built i config st sh))" by blast+
qed

lemma adds_trans:
  assumes "adds built fm ps s1 s2" "adds built fm qs s2 s3"
  shows "adds built fm (ps @ qs) s1 s3"
  using assms by (auto simp: adds_def)

lemma execs_adds:
  assumes "list_all (\<lambda>st. creates st \<noteq> None) sts" "list_all mono_creation (creations sts)" "list_all (lengths_ok config) sts"
  shows "fst (sh_execs built i config sts sh) \<and> adds built (sh_fm sh) (creations sts) sh (snd (sh_execs built i config sts sh))"
  using assms
proof (induction sts arbitrary: sh)
  case Nil
  show ?case by (simp add: adds_def creations_def map_filter_def)
next
  case (Cons st sts)
  obtain p where p: "creates st = Some p" using Cons.prems(1) by (cases "creates st") auto
  have cs: "creations (st # sts) = [p] @ creations sts" using p by (cases p) (simp add: creations_def map_filter_def)
  let ?t = "snd (sh_exec built i config st sh)"
  have st: "fst (sh_exec built i config st sh)" "adds built (sh_fm sh) [p] sh ?t"
    using exec_adds[OF p, where config = config] Cons.prems(2,3) cs by auto
  then have "sh_fm ?t = sh_fm sh" by (simp add: adds_def sh_fm_def)
  then have "fst (sh_execs built i config sts ?t)" "adds built (sh_fm sh) (creations sts) ?t (snd (sh_execs built i config sts ?t))"
    using Cons.IH[of ?t] Cons.prems cs by auto
  then show ?case unfolding cs using st adds_trans[OF st(2)] by (simp add: case_prod_beta)
qed

text \<open>The whole body: the requirements, the bit of the feature, the creations.\<close>

lemma execs_requires:
  assumes "list_all is_require rs" "fst (sh_execs built i config (rs @ sts) sh)"
  shows "sh_execs built i config (rs @ sts) sh = sh_execs built i config sts sh"
    and "h \<in> set (concat (map stmt_needs rs)) \<Longrightarrow> has_flag (sh_fm sh) h"
proof -
  have "sh_execs built i config (rs @ sts) sh = sh_execs built i config sts sh \<and>
      (\<forall>h \<in> set (concat (map stmt_needs rs)). has_flag (sh_fm sh) h)"
    using assms
  proof (induction rs)
    case (Cons r rs)
    obtain g where g: "r = Require g" using Cons.prems(1) by (cases r) auto
    then have "sh_guard sh g" "fst (sh_execs built i config (rs @ sts) sh)"
      using Cons.prems(2) by (auto split: if_splits)
    then show ?case using Cons g guard_needs_holds by (auto split: if_splits)
  qed simp
  then show "sh_execs built i config (rs @ sts) sh = sh_execs built i config sts sh"
    "h \<in> set (concat (map stmt_needs rs)) \<Longrightarrow> has_flag (sh_fm sh) h" by blast+
qed

lemma creations_requires: "list_all is_require rs \<Longrightarrow> creations (rs @ Update_Feature_Map # sts) = creations sts"
proof (induction rs)
  case (Cons r rs)
  then show ?case by (cases r) (auto simp: creations_def map_filter_def)
qed (simp add: creations_def map_filter_def)

lemma add_feature_adds:
  assumes ok: "sh_add_feature built f config sh = (True, sh')" and b: "plain_body (ff_body f)"
    and c: "list_all mono_creation (creations (ff_body f))" "list_all (lengths_ok config) (ff_body f)"
    and fm: "sh_feature_map sh = Some v"
  shows "sh_feature_map sh' = Some (v OR ff_id f)" "\<forall>h \<in> set (needs f). has_flag v h"
    and "command_ok e \<Longrightarrow> present sh' e \<longleftrightarrow> present sh e \<or>
      (\<exists>p \<in> set (creations (ff_body f)). fst (snd p) = e \<and> effective built (v OR ff_id f) p)"
proof -
  define rs where "rs = takeWhile is_require (ff_body f)"
  obtain sts where sts: "dropWhile is_require (ff_body f) = Update_Feature_Map # sts"
      "list_all (\<lambda>st. creates st \<noteq> None) sts"
    using b by (auto simp: plain_body_def split: list.splits stmt.splits)
  have body: "ff_body f = rs @ Update_Feature_Map # sts"
    using sts(1) takeWhile_dropWhile_id[of is_require "ff_body f"] by (simp add: rs_def)
  have rs: "list_all is_require rs" by (auto simp: rs_def list_all_iff dest: set_takeWhileD)
  let ?t = "sh\<lparr>sh_feature_map := Some (v OR ff_id f)\<rparr>"
  have run: "sh_execs built (ff_id f) config (rs @ Update_Feature_Map # sts) sh = (True, sh')"
    using ok by (simp add: sh_add_feature_def body)
  note req = execs_requires[OF rs, where built = built and i = "ff_id f" and config = config and sts = "Update_Feature_Map # sts" and sh = sh,
      unfolded run fst_conv, OF TrueI]
  have t: "sh_execs built (ff_id f) config sts ?t = (True, sh')" using req(1) fm by simp
  have cs: "creations (ff_body f) = creations sts" by (simp add: body creations_requires[OF rs])
  have a: "adds built (v OR ff_id f) (creations sts) ?t sh'"
    using execs_adds[OF sts(2), where config = config and built = built and i = "ff_id f" and sh = ?t] c[unfolded cs] t by (simp add: body sh_fm_def)
  then show "sh_feature_map sh' = Some (v OR ff_id f)" by (simp add: adds_def)
  have "sh_fm sh = v" by (simp add: sh_fm_def fm)
  then show "\<forall>h \<in> set (needs f). has_flag v h" using req(2) by (simp add: needs_def rs_def)
  have "present ?t e \<longleftrightarrow> present sh e" by (cases e) (simp_all add: sh_attr_ids_def sh_has_command_def)
  then show "command_ok e \<Longrightarrow> present sh' e \<longleftrightarrow> present sh e \<or>
      (\<exists>p \<in> set (creations (ff_body f)). fst (snd p) = e \<and> effective built (v OR ff_id f) p)"
    using a by (simp add: adds_def cs)
qed

section \<open>A sequence of features\<close>

primrec sh_add_features :: "(string \<Rightarrow> bool) \<Rightarrow> (feature_fn \<times> fields) list \<Rightarrow> shape \<Rightarrow> bool \<times> shape" where
  "sh_add_features built [] sh = (True, sh)"
| "sh_add_features built (fc # fs) sh =
     (let (ok, sh1) = sh_add_feature built (fst fc) (snd fc) sh in
      if ok then sh_add_features built fs sh1 else (False, sh1))"

definition lengths_fit :: "(feature_fn \<times> fields) list \<Rightarrow> bool" where
  "lengths_fit fs \<longleftrightarrow> (\<forall>fc \<in> set fs. list_all (lengths_ok (snd fc)) (ff_body (fst fc)))"

lemma sh_add_features_append:
  "sh_add_features built (fs @ gs) sh =
     (let (ok, sh1) = sh_add_features built fs sh in if ok then sh_add_features built gs sh1 else (False, sh1))"
  by (induction fs arbitrary: sh) (simp_all add: case_prod_beta Let_def)

lemma creation_ok_mono: "creation_ok fs p \<Longrightarrow> mono_creation p"
  by (auto simp: creation_ok_def mono_creation_def split: option.splits)

lemma effective_mono: "mono_creation p \<Longrightarrow> effective built fm p \<Longrightarrow> effective built (fm OR w) p"
  by (auto simp: effective_def mono_creation_def fm_guard_mono split: option.splits prod.splits)

text \<open>A creation that is effective at the end and not repeated by the last feature was effective before it.\<close>

lemma effective_before:
  assumes p: "creation_ok fs p" "p \<in> set (creations (ff_body f'))" "p \<notin> set (creations (ff_body f))"
    and f: "f \<in> set fs" "f' \<in> set fs" and n: "\<forall>h \<in> set (needs f'). has_flag v h"
    and e: "effective built (v OR ff_id f) p"
  shows "effective built v p"
proof (cases "snd (snd p)")
  case None
  then show ?thesis using e by (auto simp: effective_def split: prod.splits)
next
  case (Some g)
  have "has_flag (v OR ff_id f) h \<longleftrightarrow> has_flag v h" if "h \<in> set (guard_features g)" for h
  proof -
    have "(\<forall>f \<in> set fs. has_flag (ff_id f) h \<longrightarrow> p \<in> set (creations (ff_body f))) \<or>
        (\<forall>f \<in> set fs. p \<in> set (creations (ff_body f)) \<longrightarrow> h \<in> set (needs f))"
      using p(1) Some that by (auto simp: creation_ok_def list_all_iff)
    then show ?thesis using p(2,3) f n by (auto simp: has_flag_or)
  qed
  then have "fm_guard (v OR ff_id f) g \<longleftrightarrow> fm_guard v g" by (intro fm_guard_cong) blast
  then show ?thesis using e Some by (auto simp: effective_def split: prod.splits)
qed

text \<open>What a run of features leaves: the feature map, the requirements met, the elements.\<close>

lemma features_determine:
  assumes o: "order_ok ds" and "set (map fst fs) \<subseteq> set ds" "lengths_fit fs" and v: "sh_feature_map sh = Some v"
    and "sh_add_features built fs sh = (True, sh')"
  shows "\<exists>w. sh_feature_map sh' = Some w \<and>
    (\<forall>n. bit w n \<longleftrightarrow> bit v n \<or> (\<exists>fc \<in> set fs. bit (ff_id (fst fc)) n)) \<and>
    (\<forall>fc \<in> set fs. \<forall>h \<in> set (needs (fst fc)). has_flag w h) \<and>
    (\<forall>e. command_ok e \<longrightarrow> (present sh' e \<longleftrightarrow> present sh e \<or>
       (\<exists>fc \<in> set fs. \<exists>p \<in> set (creations (ff_body (fst fc))). fst (snd p) = e \<and> effective built w p)))"
  using assms(2-)
proof (induction fs arbitrary: sh' rule: rev_induct)
  case Nil
  then show ?case by simp
next
  case (snoc fc fs)
  let ?f = "fst fc"
  obtain sh1 where sh1: "sh_add_features built fs sh = (True, sh1)" "sh_add_feature built ?f (snd fc) sh1 = (True, sh')"
    using snoc.prems(4) by (auto simp: sh_add_features_append case_prod_beta Let_def split: if_splits)
      (metis prod.collapse)
  obtain u where u: "sh_feature_map sh1 = Some u" "\<forall>n. bit u n \<longleftrightarrow> bit v n \<or> (\<exists>fc \<in> set fs. bit (ff_id (fst fc)) n)"
      "\<forall>fc \<in> set fs. \<forall>h \<in> set (needs (fst fc)). has_flag u h"
      "\<forall>e. command_ok e \<longrightarrow> (present sh1 e \<longleftrightarrow> present sh e \<or>
         (\<exists>fc \<in> set fs. \<exists>p \<in> set (creations (ff_body (fst fc))). fst (snd p) = e \<and> effective built u p))"
    using snoc.IH[OF _ _ v sh1(1)] snoc.prems(1,2) by (auto simp: lengths_fit_def)
  let ?w = "u OR ff_id ?f"
  have mem: "?f \<in> set ds" "\<And>fc'. fc' \<in> set fs \<Longrightarrow> fst fc' \<in> set ds" using snoc.prems(1) by auto
  have cok: "creation_ok ds p" if "p \<in> set (creations (ff_body f))" "f \<in> set ds" for f p
    using o that by (auto simp: order_ok_def list_all_iff)
  have "plain_body (ff_body ?f)" using o mem(1) by (auto simp: order_ok_def list_all_iff)
  moreover have "list_all mono_creation (creations (ff_body ?f))" unfolding list_all_iff using creation_ok_mono[OF cok[OF _ mem(1)]] by blast
  moreover have "list_all (lengths_ok (snd fc)) (ff_body ?f)" using snoc.prems(2) by (simp add: lengths_fit_def)
  ultimately have w: "sh_feature_map sh' = Some ?w" "\<forall>h \<in> set (needs ?f). has_flag u h"
      "\<And>e. command_ok e \<Longrightarrow> present sh' e \<longleftrightarrow> present sh1 e \<or>
        (\<exists>p \<in> set (creations (ff_body ?f)). fst (snd p) = e \<and> effective built ?w p)"
    using add_feature_adds[OF sh1(2) _ _ _ u(1)] by blast+
  have step: "(\<exists>fc' \<in> set fs. \<exists>p \<in> set (creations (ff_body (fst fc'))). fst (snd p) = e \<and> effective built u p) \<or>
        (\<exists>p \<in> set (creations (ff_body ?f)). fst (snd p) = e \<and> effective built ?w p) \<longleftrightarrow>
      (\<exists>fc' \<in> set (fs @ [fc]). \<exists>p \<in> set (creations (ff_body (fst fc'))). fst (snd p) = e \<and> effective built ?w p)" (is "?l \<longleftrightarrow> ?r") for e
  proof
    assume ?l
    then consider fc' p where "fc' \<in> set fs" "p \<in> set (creations (ff_body (fst fc')))" "fst (snd p) = e" "effective built u p"
      | p where "p \<in> set (creations (ff_body ?f))" "fst (snd p) = e" "effective built ?w p" by blast
    then show ?r
    proof cases
      case (1 fc' p)
      then show ?thesis using effective_mono[OF creation_ok_mono[OF cok[OF 1(2) mem(2)]]] by (intro bexI[of _ fc'] bexI[of _ p]) auto
    next
      case 2
      then show ?thesis by (intro bexI[of _ fc]) auto
    qed
  next
    assume ?r
    then obtain fc' p where p: "fc' \<in> set (fs @ [fc])" "p \<in> set (creations (ff_body (fst fc')))" "fst (snd p) = e" "effective built ?w p"
      by blast
    show ?l
    proof (cases "p \<in> set (creations (ff_body ?f))")
      case True
      then show ?thesis using p(3,4) by blast
    next
      case False
      then have fc': "fc' \<in> set fs" using p(1,2) by auto
      have "effective built u p"
        using effective_before[OF cok[OF p(2) mem(2)[OF fc']] p(2) False mem(1) mem(2)[OF fc'] _ p(4)] u(3) fc' by blast
      then show ?thesis using fc' p(2,3) by blast
    qed
  qed
  have "\<forall>n. bit ?w n \<longleftrightarrow> bit v n \<or> (\<exists>fc \<in> set (fs @ [fc]). bit (ff_id (fst fc)) n)" using u(2) by (auto simp: bit_or_iff)
  moreover have "\<forall>fc \<in> set (fs @ [fc]). \<forall>h \<in> set (needs (fst fc)). has_flag ?w h" using u(3) w(2) by (auto simp: has_flag_or)
  moreover have "present sh' e \<longleftrightarrow> present sh e \<or>
      (\<exists>fc' \<in> set (fs @ [fc]). \<exists>p \<in> set (creations (ff_body (fst fc'))). fst (snd p) = e \<and> effective built ?w p)" if "command_ok e" for e
    using w(3)[OF that] u(4) that step[of e] by blast
  ultimately show ?case using w(1) by blast
qed

text \<open>Hence the result does not depend on the order.\<close>

definition same_elements :: "shape \<Rightarrow> shape \<Rightarrow> bool" where
  "same_elements sh sh' \<longleftrightarrow>
     sh_feature_map sh = sh_feature_map sh' \<and> (\<forall>e. command_ok e \<longrightarrow> present sh e = present sh' e)"

lemma features_order:
  assumes "order_ok ds" "set (map fst fs) \<subseteq> set ds" "lengths_fit fs" "sh_feature_map sh \<noteq> None" "set gs = set fs"
    and f: "sh_add_features built fs sh = (True, sh1)" and g: "sh_add_features built gs sh = (True, sh2)"
  shows "same_elements sh1 sh2"
proof -
  obtain v where v: "sh_feature_map sh = Some v" using assms(4) by blast
  have gs: "set (map fst gs) \<subseteq> set ds" "lengths_fit gs" using assms(2,3,5) by (auto simp: lengths_fit_def)
  obtain w1 where w1: "sh_feature_map sh1 = Some w1" "\<forall>n. bit w1 n \<longleftrightarrow> bit v n \<or> (\<exists>fc \<in> set fs. bit (ff_id (fst fc)) n)"
      "\<forall>e. command_ok e \<longrightarrow> (present sh1 e \<longleftrightarrow> present sh e \<or>
       (\<exists>fc \<in> set fs. \<exists>p \<in> set (creations (ff_body (fst fc))). fst (snd p) = e \<and> effective built w1 p))"
    using features_determine[OF assms(1,2,3) v f] by blast
  obtain w2 where w2: "sh_feature_map sh2 = Some w2" "\<forall>n. bit w2 n \<longleftrightarrow> bit v n \<or> (\<exists>fc \<in> set gs. bit (ff_id (fst fc)) n)"
      "\<forall>e. command_ok e \<longrightarrow> (present sh2 e \<longleftrightarrow> present sh e \<or>
       (\<exists>fc \<in> set gs. \<exists>p \<in> set (creations (ff_body (fst fc))). fst (snd p) = e \<and> effective built w2 p))"
    using features_determine[OF assms(1) gs v g] by blast
  have "w1 = w2" by (rule bit_word_eqI) (use w1(2) w2(2) assms(5) in simp)
  then show ?thesis using w1 w2 assms(5) by (simp add: same_elements_def)
qed

section \<open>On the store\<close>

primrec add_features ::
    "('n, 't) gen \<Rightarrow> (feature_fn \<times> fields) list \<Rightarrow> handle \<Rightarrow> 'n dm \<Rightarrow> (esp_err \<times> 'n dm) option" where
  "add_features G [] ch s = Some (ESP_OK, s)"
| "add_features G (fc # fs) ch s = do {
     (err, s1) \<leftarrow> add_feature G (fst fc) ch (Some (snd fc)) s;
     if err = ESP_OK then add_features G fs ch s1 else Some (err, s1) }"

lemma add_features_refines:
  assumes "gen_ok G" "ready G s c"
    and "\<forall>fc \<in> set fs. list_all stmt_ok (ff_body (fst fc)) \<and> list_all (args_ok (snd fc)) (ff_body (fst fc))"
  shows "refines G c s (add_features G fs (Some c) s)
    (ok_result (fst (sh_add_features (g_built G) fs (shape s c)))) (snd (sh_add_features (g_built G) fs (shape s c)))"
  using assms(2,3)
proof (induction fs arbitrary: s)
  case Nil
  then show ?case using refines_return[OF Nil.prems(1) refl, of ESP_OK] by (simp add: ok_result_def)
next
  case (Cons fc fs)
  let ?r = "sh_add_feature (g_built G) (fst fc) (snd fc) (shape s c)"
  obtain s1 where s1: "add_feature G (fst fc) (Some c) (Some (snd fc)) s = Some (ok_result (fst ?r), s1)"
      "ready G s1 c" "inside c s s1" "same_head c s s1" "shape s1 c = snd ?r"
    using add_feature_refines[OF assms(1) Cons.prems(1), of "fst fc" "snd fc"] Cons.prems(2) by (auto simp: refines_def)
  show ?case
  proof (cases "fst ?r")
    case False
    then show ?thesis using s1 by (auto simp: refines_def ok_result_def case_prod_beta)
  next
    case True
    have "refines G c s1 (add_features G fs (Some c) s1)
        (ok_result (fst (sh_add_features (g_built G) fs (snd ?r)))) (snd (sh_add_features (g_built G) fs (snd ?r)))"
      using Cons.IH[OF s1(2)] Cons.prems(2) s1(5) by simp
    then show ?thesis using True s1(1) inside_trans[OF s1(3)] same_head_trans[OF s1(4)]
      by (auto simp: refines_def case_prod_beta ok_result_def)
  qed
qed

end
