(* ===== verification/EM_Clusters_01.thy ===== *)
theory EM_Clusters_01
  imports EM_Order
begin

text \<open>
  The generated clusters \<open>access_control\<close> to \<open>bridged_device_basic_information\<close>:
  one definition for each function and id table of their files, and the checks of the descriptions.
\<close>

section \<open>\<open>access_control\<close>\<close>

definition access_control_extension_id :: u32 where
  "access_control_extension_id = 0x1"

definition access_control_managed_device_id :: u32 where
  "access_control_managed_device_id = 0x2"

definition access_control_attribute_acl :: attr_fn where
  "access_control_attribute_acl =
     attr 0x0000 (ATTRIBUTE_FLAG_WRITABLE OR ATTRIBUTE_FLAG_MANAGED_INTERNALLY) VT_ARRAY"

definition access_control_attribute_extension :: attr_fn where
  "access_control_attribute_extension =
     guarded (Has_Feature access_control_extension_id) (attr 0x0001 (ATTRIBUTE_FLAG_WRITABLE OR
          ATTRIBUTE_FLAG_MANAGED_INTERNALLY) VT_ARRAY)"

definition access_control_attribute_subjects_per_access_control_entry :: attr_fn where
  "access_control_attribute_subjects_per_access_control_entry =
     bounded 4 65534 (attr 0x0002 0 VT_UINT16)"

definition access_control_attribute_targets_per_access_control_entry :: attr_fn where
  "access_control_attribute_targets_per_access_control_entry =
     bounded 3 65534 (attr 0x0003 0 VT_UINT16)"

definition access_control_attribute_access_control_entries_per_fabric :: attr_fn where
  "access_control_attribute_access_control_entries_per_fabric =
     bounded 4 65534 (attr 0x0004 0 VT_UINT16)"

definition access_control_attribute_commissioning_arl :: attr_fn where
  "access_control_attribute_commissioning_arl =
     guarded (Has_Feature access_control_managed_device_id) (attr 0x0005 ATTRIBUTE_FLAG_MANAGED_INTERNALLY VT_ARRAY)"

definition access_control_attribute_arl :: attr_fn where
  "access_control_attribute_arl =
     guarded (Has_Feature access_control_managed_device_id) (attr 0x0006 ATTRIBUTE_FLAG_MANAGED_INTERNALLY VT_ARRAY)"

definition access_control_command_review_fabric_restrictions :: cmd_fn where
  "access_control_command_review_fabric_restrictions =
     guarded_cmd (Has_Feature access_control_managed_device_id) (cmd 0x00 COMMAND_FLAG_ACCEPTED None)"

definition access_control_command_review_fabric_restrictions_response :: cmd_fn where
  "access_control_command_review_fabric_restrictions_response =
     guarded_cmd (Has_Feature access_control_managed_device_id) (cmd 0x01 COMMAND_FLAG_GENERATED None)"

definition access_control_event_access_control_entry_changed :: event_fn where
  "access_control_event_access_control_entry_changed =
     event 0x00"

definition access_control_event_access_control_extension_changed :: event_fn where
  "access_control_event_access_control_extension_changed =
     guarded_event (Has_Feature access_control_extension_id) (event 0x01)"

definition access_control_event_fabric_restriction_review_update :: event_fn where
  "access_control_event_fabric_restriction_review_update =
     guarded_event (Has_Feature access_control_managed_device_id) (event 0x02)"

definition access_control_feature_extension :: feature_fn where
  "access_control_feature_extension =
     feature access_control_extension_id False [Update_Feature_Map,
        Attribute access_control_attribute_extension Null_Arr,
        Event access_control_event_access_control_extension_changed]"

definition access_control_feature_managed_device :: feature_fn where
  "access_control_feature_managed_device =
     feature access_control_managed_device_id False [Update_Feature_Map,
        If_Built ''CHIP_CONFIG_USE_ACCESS_RESTRICTIONS'' (Attribute access_control_attribute_commissioning_arl
          Null_Arr),
        If_Built ''CHIP_CONFIG_USE_ACCESS_RESTRICTIONS'' (Attribute access_control_attribute_arl Null_Arr),
        If_Built ''CHIP_CONFIG_USE_ACCESS_RESTRICTIONS'' (Command
          access_control_command_review_fabric_restrictions),
        Command access_control_command_review_fabric_restrictions_response,
        Event access_control_event_fabric_restriction_review_update]"

definition access_control_create :: cluster_fn where
  "access_control_create =
     \<lparr>kf_id = 0x001F,
      kf_revision = 2,
      kf_functions = None,
      kf_function_flags = 0,
      kf_body = [Plugin ''MatterAccessControlPluginServerInitCallback'', Functions, Feature_Map 0,
        Cluster_Revision,
        Step (Attribute access_control_attribute_subjects_per_access_control_entry (Field
          ''subjects_per_access_control_entry'')),
        Step (Attribute access_control_attribute_targets_per_access_control_entry (Field
          ''targets_per_access_control_entry'')),
        Step (Attribute access_control_attribute_access_control_entries_per_fabric (Field
          ''access_control_entries_per_fabric'')), Step (Attribute access_control_attribute_acl Null_Arr),
        Step (Event access_control_event_access_control_entry_changed),
        Callbacks ''ESPMatterAccessControlClusterServerInitCallback''
          ''ESPMatterAccessControlClusterServerShutdownCallback''],
      kf_binding = False\<rparr>"

definition access_control_ids :: cluster_ids where
  "access_control_ids =
     \<lparr>ci_cluster = 0x001F,
      ci_features = [(''Extension'', 0x1), (''ManagedDevice'', 0x2)],
      ci_attributes = [(''ACL'', 0x0000), (''Extension'', 0x0001), (''SubjectsPerAccessControlEntry'', 0x0002),
        (''TargetsPerAccessControlEntry'', 0x0003), (''AccessControlEntriesPerFabric'', 0x0004),
        (''CommissioningARL'', 0x0005), (''ARL'', 0x0006)],
      ci_commands = [(''ReviewFabricRestrictions'', 0x00), (''ReviewFabricRestrictionsResponse'', 0x01)],
      ci_events = [(''AccessControlEntryChanged'', 0x00), (''AccessControlExtensionChanged'', 0x01),
        (''FabricRestrictionReviewUpdate'', 0x02)]\<rparr>"

definition access_control_features :: "feature_fn list" where
  "access_control_features =
     [access_control_feature_extension, access_control_feature_managed_device]"

definition access_control_attributes :: "attr_fn list" where
  "access_control_attributes =
     [access_control_attribute_acl, access_control_attribute_extension,
        access_control_attribute_subjects_per_access_control_entry,
        access_control_attribute_targets_per_access_control_entry,
        access_control_attribute_access_control_entries_per_fabric, access_control_attribute_commissioning_arl,
        access_control_attribute_arl]"

definition access_control_commands :: "cmd_fn list" where
  "access_control_commands =
     [access_control_command_review_fabric_restrictions, access_control_command_review_fabric_restrictions_response]"

definition access_control_events :: "event_fn list" where
  "access_control_events =
     [access_control_event_access_control_entry_changed, access_control_event_access_control_extension_changed,
        access_control_event_fabric_restriction_review_update]"

definition access_control_cluster :: cluster_decl where
  "access_control_cluster =
     \<lparr>cd_ids = access_control_ids,
      cd_callbacks = [],
      cd_features = access_control_features,
      cd_attributes = access_control_attributes,
      cd_commands = access_control_commands,
      cd_events = access_control_events,
      cd_create = Some access_control_create\<rparr>"

section \<open>\<open>account_login\<close>\<close>

definition account_login_callback_get_setup_pin :: callback_fn where
  "account_login_callback_get_setup_pin =
     decodes_in_fabric ''AccountLogin::Commands::GetSetupPIN'' ''emberAfAccountLoginClusterGetSetupPINCallback''"

definition account_login_callback_login :: callback_fn where
  "account_login_callback_login =
     decodes_in_fabric ''AccountLogin::Commands::Login'' ''emberAfAccountLoginClusterLoginCallback''"

definition account_login_callback_logout :: callback_fn where
  "account_login_callback_logout =
     decodes_in_fabric ''AccountLogin::Commands::Logout'' ''emberAfAccountLoginClusterLogoutCallback''"

definition account_login_command_get_setup_pin :: cmd_fn where
  "account_login_command_get_setup_pin =
     cmd 0x00 COMMAND_FLAG_ACCEPTED (Some ''account_login.esp_matter_command_callback_get_setup_pin'')"

definition account_login_command_get_setup_pin_response :: cmd_fn where
  "account_login_command_get_setup_pin_response =
     cmd 0x01 COMMAND_FLAG_GENERATED None"

definition account_login_command_login :: cmd_fn where
  "account_login_command_login =
     cmd 0x02 COMMAND_FLAG_ACCEPTED (Some ''account_login.esp_matter_command_callback_login'')"

definition account_login_command_logout :: cmd_fn where
  "account_login_command_logout =
     cmd 0x03 COMMAND_FLAG_ACCEPTED (Some ''account_login.esp_matter_command_callback_logout'')"

definition account_login_event_logged_out :: event_fn where
  "account_login_event_logged_out =
     event 0x00"

definition account_login_create :: cluster_fn where
  "account_login_create =
     \<lparr>kf_id = 0x050E,
      kf_revision = 2,
      kf_functions = None,
      kf_function_flags = 0,
      kf_body = [Delegate ''AccountLoginDelegateInitCB'', Plugin ''MatterAccountLoginPluginServerInitCallback'',
        Functions, Feature_Map 0, Cluster_Revision, Step (Command account_login_command_get_setup_pin),
        Step (Command account_login_command_get_setup_pin_response), Step (Command account_login_command_login),
        Step (Command account_login_command_logout)],
      kf_binding = True\<rparr>"

definition account_login_ids :: cluster_ids where
  "account_login_ids =
     \<lparr>ci_cluster = 0x050E,
      ci_features = [],
      ci_attributes = [],
      ci_commands = [(''GetSetupPIN'', 0x00), (''GetSetupPINResponse'', 0x01), (''Login'', 0x02), (''Logout'',
        0x03)],
      ci_events = [(''LoggedOut'', 0x00)]\<rparr>"

definition account_login_commands :: "cmd_fn list" where
  "account_login_commands =
     [account_login_command_get_setup_pin, account_login_command_get_setup_pin_response, account_login_command_login,
        account_login_command_logout]"

definition account_login_events :: "event_fn list" where
  "account_login_events =
     [account_login_event_logged_out]"

definition account_login_callbacks :: "(string \<times> callback_fn) list" where
  "account_login_callbacks =
     [(''account_login.esp_matter_command_callback_get_setup_pin'', account_login_callback_get_setup_pin),
        (''account_login.esp_matter_command_callback_login'', account_login_callback_login),
        (''account_login.esp_matter_command_callback_logout'', account_login_callback_logout)]"

definition account_login_cluster :: cluster_decl where
  "account_login_cluster =
     \<lparr>cd_ids = account_login_ids,
      cd_callbacks = account_login_callbacks,
      cd_features = [],
      cd_attributes = [],
      cd_commands = account_login_commands,
      cd_events = account_login_events,
      cd_create = Some account_login_create\<rparr>"

section \<open>\<open>actions\<close>\<close>

definition actions_attribute_action_list :: attr_fn where
  "actions_attribute_action_list =
     attr 0x0000 ATTRIBUTE_FLAG_MANAGED_INTERNALLY VT_ARRAY"

definition actions_attribute_endpoint_lists :: attr_fn where
  "actions_attribute_endpoint_lists =
     attr 0x0001 ATTRIBUTE_FLAG_MANAGED_INTERNALLY VT_ARRAY"

definition actions_attribute_setup_url :: attr_fn where
  "actions_attribute_setup_url =
     at_most 513 (sized 513 (attr 0x0002 0 VT_CHAR_STRING))"

definition actions_command_instant_action :: cmd_fn where
  "actions_command_instant_action =
     cmd 0x00 COMMAND_FLAG_ACCEPTED None"

definition actions_command_instant_action_with_transition :: cmd_fn where
  "actions_command_instant_action_with_transition =
     cmd 0x01 COMMAND_FLAG_ACCEPTED None"

definition actions_command_start_action :: cmd_fn where
  "actions_command_start_action =
     cmd 0x02 COMMAND_FLAG_ACCEPTED None"

definition actions_command_start_action_with_duration :: cmd_fn where
  "actions_command_start_action_with_duration =
     cmd 0x03 COMMAND_FLAG_ACCEPTED None"

definition actions_command_stop_action :: cmd_fn where
  "actions_command_stop_action =
     cmd 0x04 COMMAND_FLAG_ACCEPTED None"

definition actions_command_pause_action :: cmd_fn where
  "actions_command_pause_action =
     cmd 0x05 COMMAND_FLAG_ACCEPTED None"

definition actions_command_pause_action_with_duration :: cmd_fn where
  "actions_command_pause_action_with_duration =
     cmd 0x06 COMMAND_FLAG_ACCEPTED None"

definition actions_command_resume_action :: cmd_fn where
  "actions_command_resume_action =
     cmd 0x07 COMMAND_FLAG_ACCEPTED None"

definition actions_command_enable_action :: cmd_fn where
  "actions_command_enable_action =
     cmd 0x08 COMMAND_FLAG_ACCEPTED None"

definition actions_command_enable_action_with_duration :: cmd_fn where
  "actions_command_enable_action_with_duration =
     cmd 0x09 COMMAND_FLAG_ACCEPTED None"

definition actions_command_disable_action :: cmd_fn where
  "actions_command_disable_action =
     cmd 0x0A COMMAND_FLAG_ACCEPTED None"

definition actions_command_disable_action_with_duration :: cmd_fn where
  "actions_command_disable_action_with_duration =
     cmd 0x0B COMMAND_FLAG_ACCEPTED None"

definition actions_event_state_changed :: event_fn where
  "actions_event_state_changed =
     event 0x00"

definition actions_event_action_failed :: event_fn where
  "actions_event_action_failed =
     event 0x01"

definition actions_create :: cluster_fn where
  "actions_create =
     \<lparr>kf_id = 0x0025,
      kf_revision = 1,
      kf_functions = None,
      kf_function_flags = 0,
      kf_body = [Delegate ''ActionsDelegateInitCB'', Plugin ''MatterActionsPluginServerInitCallback'',
        Functions, Feature_Map 0, Cluster_Revision, Step (Attribute actions_attribute_action_list Null_Arr),
        Step (Attribute actions_attribute_endpoint_lists Null_Arr), Step (Event actions_event_state_changed),
        Step (Event actions_event_action_failed)],
      kf_binding = True\<rparr>"

definition actions_ids :: cluster_ids where
  "actions_ids =
     \<lparr>ci_cluster = 0x0025,
      ci_features = [],
      ci_attributes = [(''ActionList'', 0x0000), (''EndpointLists'', 0x0001), (''SetupURL'', 0x0002)],
      ci_commands = [(''InstantAction'', 0x00), (''InstantActionWithTransition'', 0x01), (''StartAction'',
        0x02), (''StartActionWithDuration'', 0x03), (''StopAction'', 0x04), (''PauseAction'', 0x05),
        (''PauseActionWithDuration'', 0x06), (''ResumeAction'', 0x07), (''EnableAction'', 0x08),
        (''EnableActionWithDuration'', 0x09), (''DisableAction'', 0x0A), (''DisableActionWithDuration'', 0x0B)],
      ci_events = [(''StateChanged'', 0x00), (''ActionFailed'', 0x01)]\<rparr>"

definition actions_attributes :: "attr_fn list" where
  "actions_attributes =
     [actions_attribute_action_list, actions_attribute_endpoint_lists, actions_attribute_setup_url]"

definition actions_commands :: "cmd_fn list" where
  "actions_commands =
     [actions_command_instant_action, actions_command_instant_action_with_transition, actions_command_start_action,
        actions_command_start_action_with_duration, actions_command_stop_action, actions_command_pause_action,
        actions_command_pause_action_with_duration, actions_command_resume_action,
        actions_command_enable_action, actions_command_enable_action_with_duration,
        actions_command_disable_action, actions_command_disable_action_with_duration]"

definition actions_events :: "event_fn list" where
  "actions_events =
     [actions_event_state_changed, actions_event_action_failed]"

definition actions_cluster :: cluster_decl where
  "actions_cluster =
     \<lparr>cd_ids = actions_ids,
      cd_callbacks = [],
      cd_features = [],
      cd_attributes = actions_attributes,
      cd_commands = actions_commands,
      cd_events = actions_events,
      cd_create = Some actions_create\<rparr>"

section \<open>\<open>activated_carbon_filter_monitoring\<close>\<close>

definition activated_carbon_filter_monitoring_condition_id :: u32 where
  "activated_carbon_filter_monitoring_condition_id = 0x1"

definition activated_carbon_filter_monitoring_warning_id :: u32 where
  "activated_carbon_filter_monitoring_warning_id = 0x2"

definition activated_carbon_filter_monitoring_replacement_product_list_id :: u32 where
  "activated_carbon_filter_monitoring_replacement_product_list_id = 0x4"

definition activated_carbon_filter_monitoring_attribute_condition :: attr_fn where
  "activated_carbon_filter_monitoring_attribute_condition =
     guarded (Has_Feature activated_carbon_filter_monitoring_condition_id) (bounded 0 254 (attr 0x0000 0 VT_UINT8))"

definition activated_carbon_filter_monitoring_attribute_degradation_direction :: attr_fn where
  "activated_carbon_filter_monitoring_attribute_degradation_direction =
     guarded (Has_Feature activated_carbon_filter_monitoring_condition_id) (bounded 0 1 (attr 0x0001 0 VT_ENUM8))"

definition activated_carbon_filter_monitoring_attribute_change_indication :: attr_fn where
  "activated_carbon_filter_monitoring_attribute_change_indication =
     bounded 0 2 (attr 0x0002 0 VT_ENUM8)"

definition activated_carbon_filter_monitoring_attribute_in_place_indicator :: attr_fn where
  "activated_carbon_filter_monitoring_attribute_in_place_indicator =
     attr 0x0003 0 VT_BOOLEAN"

definition activated_carbon_filter_monitoring_attribute_last_changed_time :: attr_fn where
  "activated_carbon_filter_monitoring_attribute_last_changed_time =
     bounded 0 4294967294 (attr 0x0004 (ATTRIBUTE_FLAG_WRITABLE OR ATTRIBUTE_FLAG_NULLABLE OR
          ATTRIBUTE_FLAG_NONVOLATILE) VT_NULLABLE_UINT32)"

definition activated_carbon_filter_monitoring_attribute_replacement_product_list :: attr_fn where
  "activated_carbon_filter_monitoring_attribute_replacement_product_list =
     guarded (Has_Feature activated_carbon_filter_monitoring_replacement_product_list_id) (attr 0x0005
          ATTRIBUTE_FLAG_MANAGED_INTERNALLY VT_ARRAY)"

definition activated_carbon_filter_monitoring_command_reset_condition :: cmd_fn where
  "activated_carbon_filter_monitoring_command_reset_condition =
     cmd 0x00 COMMAND_FLAG_ACCEPTED None"

definition activated_carbon_filter_monitoring_feature_condition :: feature_fn where
  "activated_carbon_filter_monitoring_feature_condition =
     feature activated_carbon_filter_monitoring_condition_id True [Update_Feature_Map,
        Attribute activated_carbon_filter_monitoring_attribute_condition (Field ''condition''),
        Attribute activated_carbon_filter_monitoring_attribute_degradation_direction (Field
          ''degradation_direction'')]"

definition activated_carbon_filter_monitoring_feature_warning :: feature_fn where
  "activated_carbon_filter_monitoring_feature_warning =
     feature activated_carbon_filter_monitoring_warning_id False [Update_Feature_Map]"

definition activated_carbon_filter_monitoring_feature_replacement_product_list :: feature_fn where
  "activated_carbon_filter_monitoring_feature_replacement_product_list =
     feature activated_carbon_filter_monitoring_replacement_product_list_id False [Update_Feature_Map,
        Attribute activated_carbon_filter_monitoring_attribute_replacement_product_list Null_Arr]"

definition activated_carbon_filter_monitoring_create :: cluster_fn where
  "activated_carbon_filter_monitoring_create =
     \<lparr>kf_id = 0x0072,
      kf_revision = 1,
      kf_functions = None,
      kf_function_flags = 0,
      kf_body = [Plugin ''MatterActivatedCarbonFilterMonitoringPluginServerInitCallback'', Functions,
        Feature_Map 0, Cluster_Revision,
        Step (Attribute activated_carbon_filter_monitoring_attribute_change_indication (Field
          ''change_indication'')),
        Callbacks ''ESPMatterActivatedCarbonFilterMonitoringClusterServerInitCallback''
          ''ESPMatterActivatedCarbonFilterMonitoringClusterServerShutdownCallback''],
      kf_binding = True\<rparr>"

definition activated_carbon_filter_monitoring_ids :: cluster_ids where
  "activated_carbon_filter_monitoring_ids =
     \<lparr>ci_cluster = 0x0072,
      ci_features = [(''Condition'', 0x1), (''Warning'', 0x2), (''ReplacementProductList'', 0x4)],
      ci_attributes = [(''Condition'', 0x0000), (''DegradationDirection'', 0x0001), (''ChangeIndication'',
        0x0002), (''InPlaceIndicator'', 0x0003), (''LastChangedTime'', 0x0004), (''ReplacementProductList'',
        0x0005)],
      ci_commands = [(''ResetCondition'', 0x00)],
      ci_events = []\<rparr>"

definition activated_carbon_filter_monitoring_features :: "feature_fn list" where
  "activated_carbon_filter_monitoring_features =
     [activated_carbon_filter_monitoring_feature_condition, activated_carbon_filter_monitoring_feature_warning,
        activated_carbon_filter_monitoring_feature_replacement_product_list]"

definition activated_carbon_filter_monitoring_attributes :: "attr_fn list" where
  "activated_carbon_filter_monitoring_attributes =
     [activated_carbon_filter_monitoring_attribute_condition,
        activated_carbon_filter_monitoring_attribute_degradation_direction,
        activated_carbon_filter_monitoring_attribute_change_indication,
        activated_carbon_filter_monitoring_attribute_in_place_indicator,
        activated_carbon_filter_monitoring_attribute_last_changed_time,
        activated_carbon_filter_monitoring_attribute_replacement_product_list]"

definition activated_carbon_filter_monitoring_commands :: "cmd_fn list" where
  "activated_carbon_filter_monitoring_commands =
     [activated_carbon_filter_monitoring_command_reset_condition]"

definition activated_carbon_filter_monitoring_cluster :: cluster_decl where
  "activated_carbon_filter_monitoring_cluster =
     \<lparr>cd_ids = activated_carbon_filter_monitoring_ids,
      cd_callbacks = [],
      cd_features = activated_carbon_filter_monitoring_features,
      cd_attributes = activated_carbon_filter_monitoring_attributes,
      cd_commands = activated_carbon_filter_monitoring_commands,
      cd_events = [],
      cd_create = Some activated_carbon_filter_monitoring_create\<rparr>"

section \<open>\<open>administrator_commissioning\<close>\<close>

definition administrator_commissioning_basic_id :: u32 where
  "administrator_commissioning_basic_id = 0x1"

definition administrator_commissioning_attribute_window_status :: attr_fn where
  "administrator_commissioning_attribute_window_status =
     bounded 0 2 (attr 0x0000 0 VT_ENUM8)"

definition administrator_commissioning_attribute_admin_fabric_index :: attr_fn where
  "administrator_commissioning_attribute_admin_fabric_index =
     bounded 0 254 (attr 0x0001 ATTRIBUTE_FLAG_NULLABLE VT_NULLABLE_UINT8)"

definition administrator_commissioning_attribute_admin_vendor_id :: attr_fn where
  "administrator_commissioning_attribute_admin_vendor_id =
     bounded 0 65534 (attr 0x0002 ATTRIBUTE_FLAG_NULLABLE VT_NULLABLE_UINT16)"

definition administrator_commissioning_command_open_commissioning_window :: cmd_fn where
  "administrator_commissioning_command_open_commissioning_window =
     cmd 0x00 COMMAND_FLAG_ACCEPTED None"

definition administrator_commissioning_command_open_basic_commissioning_window :: cmd_fn where
  "administrator_commissioning_command_open_basic_commissioning_window =
     guarded_cmd (Has_Feature administrator_commissioning_basic_id) (cmd 0x01 COMMAND_FLAG_ACCEPTED None)"

definition administrator_commissioning_command_revoke_commissioning :: cmd_fn where
  "administrator_commissioning_command_revoke_commissioning =
     cmd 0x02 COMMAND_FLAG_ACCEPTED None"

definition administrator_commissioning_feature_basic :: feature_fn where
  "administrator_commissioning_feature_basic =
     feature administrator_commissioning_basic_id False [Update_Feature_Map,
        Command administrator_commissioning_command_open_basic_commissioning_window]"

definition administrator_commissioning_create :: cluster_fn where
  "administrator_commissioning_create =
     \<lparr>kf_id = 0x003C,
      kf_revision = 1,
      kf_functions = None,
      kf_function_flags = 0,
      kf_body = [Plugin ''MatterAdministratorCommissioningPluginServerInitCallback'', Functions, Feature_Map 0,
        Cluster_Revision,
        Step (Attribute administrator_commissioning_attribute_window_status (Field ''window_status'')),
        Step (Attribute administrator_commissioning_attribute_admin_fabric_index (Field
          ''admin_fabric_index'')),
        Step (Attribute administrator_commissioning_attribute_admin_vendor_id (Field ''admin_vendor_id'')),
        Step (Command administrator_commissioning_command_open_commissioning_window),
        Step (Command administrator_commissioning_command_revoke_commissioning),
        Callbacks ''ESPMatterAdministratorCommissioningClusterServerInitCallback''
          ''ESPMatterAdministratorCommissioningClusterServerShutdownCallback''],
      kf_binding = False\<rparr>"

definition administrator_commissioning_ids :: cluster_ids where
  "administrator_commissioning_ids =
     \<lparr>ci_cluster = 0x003C,
      ci_features = [(''Basic'', 0x1)],
      ci_attributes = [(''WindowStatus'', 0x0000), (''AdminFabricIndex'', 0x0001), (''AdminVendorId'', 0x0002)],
      ci_commands = [(''OpenCommissioningWindow'', 0x00), (''OpenBasicCommissioningWindow'', 0x01),
        (''RevokeCommissioning'', 0x02)],
      ci_events = []\<rparr>"

definition administrator_commissioning_features :: "feature_fn list" where
  "administrator_commissioning_features =
     [administrator_commissioning_feature_basic]"

definition administrator_commissioning_attributes :: "attr_fn list" where
  "administrator_commissioning_attributes =
     [administrator_commissioning_attribute_window_status, administrator_commissioning_attribute_admin_fabric_index,
        administrator_commissioning_attribute_admin_vendor_id]"

definition administrator_commissioning_commands :: "cmd_fn list" where
  "administrator_commissioning_commands =
     [administrator_commissioning_command_open_commissioning_window,
        administrator_commissioning_command_open_basic_commissioning_window,
        administrator_commissioning_command_revoke_commissioning]"

definition administrator_commissioning_cluster :: cluster_decl where
  "administrator_commissioning_cluster =
     \<lparr>cd_ids = administrator_commissioning_ids,
      cd_callbacks = [],
      cd_features = administrator_commissioning_features,
      cd_attributes = administrator_commissioning_attributes,
      cd_commands = administrator_commissioning_commands,
      cd_events = [],
      cd_create = Some administrator_commissioning_create\<rparr>"

section \<open>\<open>air_quality\<close>\<close>

definition air_quality_fair_id :: u32 where
  "air_quality_fair_id = 0x1"

definition air_quality_moderate_id :: u32 where
  "air_quality_moderate_id = 0x2"

definition air_quality_very_poor_id :: u32 where
  "air_quality_very_poor_id = 0x4"

definition air_quality_extremely_poor_id :: u32 where
  "air_quality_extremely_poor_id = 0x8"

definition air_quality_attribute_air_quality :: attr_fn where
  "air_quality_attribute_air_quality =
     bounded 0 6 (attr 0x0000 0 VT_ENUM8)"

definition air_quality_feature_fair :: feature_fn where
  "air_quality_feature_fair =
     feature air_quality_fair_id False [Update_Feature_Map]"

definition air_quality_feature_moderate :: feature_fn where
  "air_quality_feature_moderate =
     feature air_quality_moderate_id False [Update_Feature_Map]"

definition air_quality_feature_very_poor :: feature_fn where
  "air_quality_feature_very_poor =
     feature air_quality_very_poor_id False [Update_Feature_Map]"

definition air_quality_feature_extremely_poor :: feature_fn where
  "air_quality_feature_extremely_poor =
     feature air_quality_extremely_poor_id False [Update_Feature_Map]"

definition air_quality_create :: cluster_fn where
  "air_quality_create =
     \<lparr>kf_id = 0x005B,
      kf_revision = 1,
      kf_functions = None,
      kf_function_flags = 0,
      kf_body = [Plugin ''MatterAirQualityPluginServerInitCallback'', Functions, Feature_Map 0,
        Cluster_Revision, Step (Attribute air_quality_attribute_air_quality (Field ''air_quality''))],
      kf_binding = True\<rparr>"

definition air_quality_ids :: cluster_ids where
  "air_quality_ids =
     \<lparr>ci_cluster = 0x005B,
      ci_features = [(''Fair'', 0x1), (''Moderate'', 0x2), (''VeryPoor'', 0x4), (''ExtremelyPoor'', 0x8)],
      ci_attributes = [(''AirQuality'', 0x0000)],
      ci_commands = [],
      ci_events = []\<rparr>"

definition air_quality_features :: "feature_fn list" where
  "air_quality_features =
     [air_quality_feature_fair, air_quality_feature_moderate, air_quality_feature_very_poor,
        air_quality_feature_extremely_poor]"

definition air_quality_attributes :: "attr_fn list" where
  "air_quality_attributes =
     [air_quality_attribute_air_quality]"

definition air_quality_cluster :: cluster_decl where
  "air_quality_cluster =
     \<lparr>cd_ids = air_quality_ids,
      cd_callbacks = [],
      cd_features = air_quality_features,
      cd_attributes = air_quality_attributes,
      cd_commands = [],
      cd_events = [],
      cd_create = Some air_quality_create\<rparr>"

section \<open>\<open>alarm_base\<close>\<close>

definition alarm_base_reset_id :: u32 where
  "alarm_base_reset_id = 0x1"

definition alarm_base_attribute_mask :: attr_fn where
  "alarm_base_attribute_mask =
     bounded 0 4294967295 (attr 0x0000 0 VT_BITMAP32)"

definition alarm_base_attribute_latch :: attr_fn where
  "alarm_base_attribute_latch =
     guarded (Has_Feature alarm_base_reset_id) (bounded 0 4294967295 (attr 0x0001 0 VT_BITMAP32))"

definition alarm_base_attribute_state :: attr_fn where
  "alarm_base_attribute_state =
     bounded 0 4294967295 (attr 0x0002 0 VT_BITMAP32)"

definition alarm_base_attribute_supported :: attr_fn where
  "alarm_base_attribute_supported =
     bounded 0 4294967295 (attr 0x0003 0 VT_BITMAP32)"

definition alarm_base_command_reset :: cmd_fn where
  "alarm_base_command_reset =
     guarded_cmd (Has_Feature alarm_base_reset_id) (cmd 0x00 COMMAND_FLAG_ACCEPTED None)"

definition alarm_base_command_modify_enabled_alarms :: cmd_fn where
  "alarm_base_command_modify_enabled_alarms =
     cmd 0x01 COMMAND_FLAG_ACCEPTED None"

definition alarm_base_event_notify :: event_fn where
  "alarm_base_event_notify =
     event 0x00"

definition alarm_base_feature_reset :: feature_fn where
  "alarm_base_feature_reset =
     feature alarm_base_reset_id True [Update_Feature_Map, Attribute alarm_base_attribute_latch (Field ''latch''),
        Command alarm_base_command_reset]"

definition alarm_base_ids :: cluster_ids where
  "alarm_base_ids =
     \<lparr>ci_cluster = 0xFFFF,
      ci_features = [(''Reset'', 0x1)],
      ci_attributes = [(''Mask'', 0x0000), (''Latch'', 0x0001), (''State'', 0x0002), (''Supported'', 0x0003)],
      ci_commands = [(''Reset'', 0x00), (''ModifyEnabledAlarms'', 0x01)],
      ci_events = [(''Notify'', 0x00)]\<rparr>"

definition alarm_base_features :: "feature_fn list" where
  "alarm_base_features =
     [alarm_base_feature_reset]"

definition alarm_base_attributes :: "attr_fn list" where
  "alarm_base_attributes =
     [alarm_base_attribute_mask, alarm_base_attribute_latch, alarm_base_attribute_state,
        alarm_base_attribute_supported]"

definition alarm_base_commands :: "cmd_fn list" where
  "alarm_base_commands =
     [alarm_base_command_reset, alarm_base_command_modify_enabled_alarms]"

definition alarm_base_events :: "event_fn list" where
  "alarm_base_events =
     [alarm_base_event_notify]"

definition alarm_base_cluster :: cluster_decl where
  "alarm_base_cluster =
     \<lparr>cd_ids = alarm_base_ids,
      cd_callbacks = [],
      cd_features = alarm_base_features,
      cd_attributes = alarm_base_attributes,
      cd_commands = alarm_base_commands,
      cd_events = alarm_base_events,
      cd_create = None\<rparr>"

section \<open>\<open>application_basic\<close>\<close>

definition application_basic_attribute_vendor_name :: attr_fn where
  "application_basic_attribute_vendor_name =
     attr 0x0000 ATTRIBUTE_FLAG_MANAGED_INTERNALLY VT_CHAR_STRING"

definition application_basic_attribute_vendor_id :: attr_fn where
  "application_basic_attribute_vendor_id =
     attr 0x0001 ATTRIBUTE_FLAG_MANAGED_INTERNALLY VT_UINT16"

definition application_basic_attribute_application_name :: attr_fn where
  "application_basic_attribute_application_name =
     attr 0x0002 ATTRIBUTE_FLAG_MANAGED_INTERNALLY VT_CHAR_STRING"

definition application_basic_attribute_product_id :: attr_fn where
  "application_basic_attribute_product_id =
     attr 0x0003 ATTRIBUTE_FLAG_MANAGED_INTERNALLY VT_UINT16"

definition application_basic_attribute_application :: attr_fn where
  "application_basic_attribute_application =
     attr 0x0004 ATTRIBUTE_FLAG_MANAGED_INTERNALLY VT_ARRAY"

definition application_basic_attribute_status :: attr_fn where
  "application_basic_attribute_status =
     attr 0x0005 ATTRIBUTE_FLAG_MANAGED_INTERNALLY VT_ENUM8"

definition application_basic_attribute_application_version :: attr_fn where
  "application_basic_attribute_application_version =
     attr 0x0006 ATTRIBUTE_FLAG_MANAGED_INTERNALLY VT_CHAR_STRING"

definition application_basic_attribute_allowed_vendor_list :: attr_fn where
  "application_basic_attribute_allowed_vendor_list =
     attr 0x0007 ATTRIBUTE_FLAG_MANAGED_INTERNALLY VT_ARRAY"

definition application_basic_create :: cluster_fn where
  "application_basic_create =
     \<lparr>kf_id = 0x050D,
      kf_revision = 1,
      kf_functions = None,
      kf_function_flags = 0,
      kf_body = [Delegate ''ApplicationBasicDelegateInitCB'',
        Plugin ''MatterApplicationBasicPluginServerInitCallback'', Functions, Feature_Map 0, Cluster_Revision,
        Step (Attribute application_basic_attribute_application_name Null_Str),
        Step (Attribute application_basic_attribute_application Null_Arr),
        Step (Attribute application_basic_attribute_status (Lit 0)),
        Step (Attribute application_basic_attribute_application_version Null_Str),
        Step (Attribute application_basic_attribute_allowed_vendor_list Null_Arr)],
      kf_binding = True\<rparr>"

definition application_basic_ids :: cluster_ids where
  "application_basic_ids =
     \<lparr>ci_cluster = 0x050D,
      ci_features = [],
      ci_attributes = [(''VendorName'', 0x0000), (''VendorID'', 0x0001), (''ApplicationName'', 0x0002),
        (''ProductID'', 0x0003), (''Application'', 0x0004), (''Status'', 0x0005), (''ApplicationVersion'',
        0x0006), (''AllowedVendorList'', 0x0007)],
      ci_commands = [],
      ci_events = []\<rparr>"

definition application_basic_attributes :: "attr_fn list" where
  "application_basic_attributes =
     [application_basic_attribute_vendor_name, application_basic_attribute_vendor_id,
        application_basic_attribute_application_name, application_basic_attribute_product_id,
        application_basic_attribute_application, application_basic_attribute_status,
        application_basic_attribute_application_version, application_basic_attribute_allowed_vendor_list]"

definition application_basic_cluster :: cluster_decl where
  "application_basic_cluster =
     \<lparr>cd_ids = application_basic_ids,
      cd_callbacks = [],
      cd_features = [],
      cd_attributes = application_basic_attributes,
      cd_commands = [],
      cd_events = [],
      cd_create = Some application_basic_create\<rparr>"

section \<open>\<open>application_launcher\<close>\<close>

definition application_launcher_application_platform_id :: u32 where
  "application_launcher_application_platform_id = 0x1"

definition application_launcher_attribute_catalog_list :: attr_fn where
  "application_launcher_attribute_catalog_list =
     guarded (Has_Feature application_launcher_application_platform_id) (attr 0x0000
          (ATTRIBUTE_FLAG_MANAGED_INTERNALLY OR ATTRIBUTE_FLAG_NONVOLATILE) VT_ARRAY)"

definition application_launcher_attribute_current_app :: attr_fn where
  "application_launcher_attribute_current_app =
     attr 0x0001 (ATTRIBUTE_FLAG_MANAGED_INTERNALLY OR ATTRIBUTE_FLAG_NULLABLE) VT_ARRAY"

definition application_launcher_callback_launch_app :: callback_fn where
  "application_launcher_callback_launch_app =
     decodes_to ''ApplicationLauncher::Commands::LaunchApp'' ''emberAfApplicationLauncherClusterLaunchAppCallback''"

definition application_launcher_callback_stop_app :: callback_fn where
  "application_launcher_callback_stop_app =
     decodes_to ''ApplicationLauncher::Commands::StopApp'' ''emberAfApplicationLauncherClusterStopAppCallback''"

definition application_launcher_callback_hide_app :: callback_fn where
  "application_launcher_callback_hide_app =
     decodes_to ''ApplicationLauncher::Commands::HideApp'' ''emberAfApplicationLauncherClusterHideAppCallback''"

definition application_launcher_command_launch_app :: cmd_fn where
  "application_launcher_command_launch_app =
     cmd 0x00 COMMAND_FLAG_ACCEPTED (Some ''application_launcher.esp_matter_command_callback_launch_app'')"

definition application_launcher_command_stop_app :: cmd_fn where
  "application_launcher_command_stop_app =
     cmd 0x01 COMMAND_FLAG_ACCEPTED (Some ''application_launcher.esp_matter_command_callback_stop_app'')"

definition application_launcher_command_hide_app :: cmd_fn where
  "application_launcher_command_hide_app =
     cmd 0x02 COMMAND_FLAG_ACCEPTED (Some ''application_launcher.esp_matter_command_callback_hide_app'')"

definition application_launcher_command_launcher_response :: cmd_fn where
  "application_launcher_command_launcher_response =
     cmd 0x03 COMMAND_FLAG_GENERATED None"

definition application_launcher_feature_application_platform :: feature_fn where
  "application_launcher_feature_application_platform =
     feature application_launcher_application_platform_id False [Update_Feature_Map,
        Attribute application_launcher_attribute_catalog_list Null_Arr]"

definition application_launcher_create :: cluster_fn where
  "application_launcher_create =
     \<lparr>kf_id = 0x050C,
      kf_revision = 2,
      kf_functions = None,
      kf_function_flags = 0,
      kf_body = [Delegate ''ApplicationLauncherDelegateInitCB'',
        Plugin ''MatterApplicationLauncherPluginServerInitCallback'', Functions, Feature_Map 0,
        Cluster_Revision, Step (Command application_launcher_command_launch_app),
        Step (Command application_launcher_command_stop_app),
        Step (Command application_launcher_command_hide_app),
        Step (Command application_launcher_command_launcher_response)],
      kf_binding = True\<rparr>"

definition application_launcher_ids :: cluster_ids where
  "application_launcher_ids =
     \<lparr>ci_cluster = 0x050C,
      ci_features = [(''ApplicationPlatform'', 0x1)],
      ci_attributes = [(''CatalogList'', 0x0000), (''CurrentApp'', 0x0001)],
      ci_commands = [(''LaunchApp'', 0x00), (''StopApp'', 0x01), (''HideApp'', 0x02), (''LauncherResponse'',
        0x03)],
      ci_events = []\<rparr>"

definition application_launcher_features :: "feature_fn list" where
  "application_launcher_features =
     [application_launcher_feature_application_platform]"

definition application_launcher_attributes :: "attr_fn list" where
  "application_launcher_attributes =
     [application_launcher_attribute_catalog_list, application_launcher_attribute_current_app]"

definition application_launcher_commands :: "cmd_fn list" where
  "application_launcher_commands =
     [application_launcher_command_launch_app, application_launcher_command_stop_app,
        application_launcher_command_hide_app, application_launcher_command_launcher_response]"

definition application_launcher_callbacks :: "(string \<times> callback_fn) list" where
  "application_launcher_callbacks =
     [(''application_launcher.esp_matter_command_callback_launch_app'', application_launcher_callback_launch_app),
        (''application_launcher.esp_matter_command_callback_stop_app'', application_launcher_callback_stop_app),
        (''application_launcher.esp_matter_command_callback_hide_app'', application_launcher_callback_hide_app)]"

definition application_launcher_cluster :: cluster_decl where
  "application_launcher_cluster =
     \<lparr>cd_ids = application_launcher_ids,
      cd_callbacks = application_launcher_callbacks,
      cd_features = application_launcher_features,
      cd_attributes = application_launcher_attributes,
      cd_commands = application_launcher_commands,
      cd_events = [],
      cd_create = Some application_launcher_create\<rparr>"

section \<open>\<open>audio_output\<close>\<close>

definition audio_output_name_updates_id :: u32 where
  "audio_output_name_updates_id = 0x1"

definition audio_output_attribute_output_list :: attr_fn where
  "audio_output_attribute_output_list =
     attr 0x0000 ATTRIBUTE_FLAG_MANAGED_INTERNALLY VT_ARRAY"

definition audio_output_attribute_current_output :: attr_fn where
  "audio_output_attribute_current_output =
     attr 0x0001 ATTRIBUTE_FLAG_MANAGED_INTERNALLY VT_UINT8"

definition audio_output_callback_select_output :: callback_fn where
  "audio_output_callback_select_output =
     decodes_to ''AudioOutput::Commands::SelectOutput'' ''emberAfAudioOutputClusterSelectOutputCallback''"

definition audio_output_callback_rename_output :: callback_fn where
  "audio_output_callback_rename_output =
     decodes_to ''AudioOutput::Commands::RenameOutput'' ''emberAfAudioOutputClusterRenameOutputCallback''"

definition audio_output_command_select_output :: cmd_fn where
  "audio_output_command_select_output =
     cmd 0x00 COMMAND_FLAG_ACCEPTED (Some ''audio_output.esp_matter_command_callback_select_output'')"

definition audio_output_command_rename_output :: cmd_fn where
  "audio_output_command_rename_output =
     guarded_cmd (Has_Feature audio_output_name_updates_id) (cmd 0x01 COMMAND_FLAG_ACCEPTED (Some
          ''audio_output.esp_matter_command_callback_rename_output''))"

definition audio_output_feature_name_updates :: feature_fn where
  "audio_output_feature_name_updates =
     feature audio_output_name_updates_id False [Update_Feature_Map, Command audio_output_command_rename_output]"

definition audio_output_create :: cluster_fn where
  "audio_output_create =
     \<lparr>kf_id = 0x050B,
      kf_revision = 1,
      kf_functions = None,
      kf_function_flags = 0,
      kf_body = [Delegate ''AudioOutputDelegateInitCB'', Plugin ''MatterAudioOutputPluginServerInitCallback'',
        Functions, Feature_Map 0, Cluster_Revision,
        Step (Attribute audio_output_attribute_output_list Null_Arr),
        Step (Attribute audio_output_attribute_current_output (Lit 0)),
        Step (Command audio_output_command_select_output)],
      kf_binding = True\<rparr>"

definition audio_output_ids :: cluster_ids where
  "audio_output_ids =
     \<lparr>ci_cluster = 0x050B,
      ci_features = [(''NameUpdates'', 0x1)],
      ci_attributes = [(''OutputList'', 0x0000), (''CurrentOutput'', 0x0001)],
      ci_commands = [(''SelectOutput'', 0x00), (''RenameOutput'', 0x01)],
      ci_events = []\<rparr>"

definition audio_output_features :: "feature_fn list" where
  "audio_output_features =
     [audio_output_feature_name_updates]"

definition audio_output_attributes :: "attr_fn list" where
  "audio_output_attributes =
     [audio_output_attribute_output_list, audio_output_attribute_current_output]"

definition audio_output_commands :: "cmd_fn list" where
  "audio_output_commands =
     [audio_output_command_select_output, audio_output_command_rename_output]"

definition audio_output_callbacks :: "(string \<times> callback_fn) list" where
  "audio_output_callbacks =
     [(''audio_output.esp_matter_command_callback_select_output'', audio_output_callback_select_output),
        (''audio_output.esp_matter_command_callback_rename_output'', audio_output_callback_rename_output)]"

definition audio_output_cluster :: cluster_decl where
  "audio_output_cluster =
     \<lparr>cd_ids = audio_output_ids,
      cd_callbacks = audio_output_callbacks,
      cd_features = audio_output_features,
      cd_attributes = audio_output_attributes,
      cd_commands = audio_output_commands,
      cd_events = [],
      cd_create = Some audio_output_create\<rparr>"

section \<open>\<open>basic_information\<close>\<close>

definition basic_information_attribute_data_model_revision :: attr_fn where
  "basic_information_attribute_data_model_revision =
     bounded 0 65534 (attr 0x0000 0 VT_UINT16)"

definition basic_information_attribute_vendor_name :: attr_fn where
  "basic_information_attribute_vendor_name =
     at_most 33 (sized 33 (attr 0x0001 0 VT_CHAR_STRING))"

definition basic_information_attribute_vendor_id :: attr_fn where
  "basic_information_attribute_vendor_id =
     bounded 0 65534 (attr 0x0002 0 VT_UINT16)"

definition basic_information_attribute_product_name :: attr_fn where
  "basic_information_attribute_product_name =
     at_most 33 (sized 33 (attr 0x0003 0 VT_CHAR_STRING))"

definition basic_information_attribute_product_id :: attr_fn where
  "basic_information_attribute_product_id =
     bounded 0 65534 (attr 0x0004 0 VT_UINT16)"

definition basic_information_attribute_node_label :: attr_fn where
  "basic_information_attribute_node_label =
     at_most 33 (sized 33 (attr 0x0005 (ATTRIBUTE_FLAG_WRITABLE OR ATTRIBUTE_FLAG_NONVOLATILE) VT_CHAR_STRING))"

definition basic_information_attribute_location :: attr_fn where
  "basic_information_attribute_location =
     sized 3 (attr 0x0006 (ATTRIBUTE_FLAG_WRITABLE OR ATTRIBUTE_FLAG_NONVOLATILE) VT_CHAR_STRING)"

definition basic_information_attribute_hardware_version :: attr_fn where
  "basic_information_attribute_hardware_version =
     bounded 0 65534 (attr 0x0007 0 VT_UINT16)"

definition basic_information_attribute_hardware_version_string :: attr_fn where
  "basic_information_attribute_hardware_version_string =
     sized 65 (attr 0x0008 0 VT_CHAR_STRING)"

definition basic_information_attribute_software_version :: attr_fn where
  "basic_information_attribute_software_version =
     bounded 0 4294967294 (attr 0x0009 0 VT_UINT32)"

definition basic_information_attribute_software_version_string :: attr_fn where
  "basic_information_attribute_software_version_string =
     sized 65 (attr 0x000A 0 VT_CHAR_STRING)"

definition basic_information_attribute_manufacturing_date :: attr_fn where
  "basic_information_attribute_manufacturing_date =
     sized 17 (attr 0x000B 0 VT_CHAR_STRING)"

definition basic_information_attribute_part_number :: attr_fn where
  "basic_information_attribute_part_number =
     at_most 33 (sized 33 (attr 0x000C 0 VT_CHAR_STRING))"

definition basic_information_attribute_product_url :: attr_fn where
  "basic_information_attribute_product_url =
     at_most 257 (sized 257 (attr 0x000D 0 VT_CHAR_STRING))"

definition basic_information_attribute_product_label :: attr_fn where
  "basic_information_attribute_product_label =
     at_most 65 (sized 65 (attr 0x000E 0 VT_CHAR_STRING))"

definition basic_information_attribute_serial_number :: attr_fn where
  "basic_information_attribute_serial_number =
     at_most 33 (sized 33 (attr 0x000F 0 VT_CHAR_STRING))"

definition basic_information_attribute_local_config_disabled :: attr_fn where
  "basic_information_attribute_local_config_disabled =
     attr 0x0010 (ATTRIBUTE_FLAG_WRITABLE OR ATTRIBUTE_FLAG_NONVOLATILE) VT_BOOLEAN"

definition basic_information_attribute_reachable :: attr_fn where
  "basic_information_attribute_reachable =
     attr 0x0011 0 VT_BOOLEAN"

definition basic_information_attribute_unique_id :: attr_fn where
  "basic_information_attribute_unique_id =
     at_most 33 (sized 33 (attr 0x0012 0 VT_CHAR_STRING))"

definition basic_information_attribute_capability_minima :: attr_fn where
  "basic_information_attribute_capability_minima =
     attr 0x0013 ATTRIBUTE_FLAG_MANAGED_INTERNALLY VT_ARRAY"

definition basic_information_attribute_product_appearance :: attr_fn where
  "basic_information_attribute_product_appearance =
     attr 0x0014 ATTRIBUTE_FLAG_MANAGED_INTERNALLY VT_ARRAY"

definition basic_information_attribute_specification_version :: attr_fn where
  "basic_information_attribute_specification_version =
     bounded 0 4294967294 (attr 0x0015 0 VT_UINT32)"

definition basic_information_attribute_max_paths_per_invoke :: attr_fn where
  "basic_information_attribute_max_paths_per_invoke =
     bounded 1 65534 (attr 0x0016 0 VT_UINT16)"

definition basic_information_event_start_up :: event_fn where
  "basic_information_event_start_up =
     event 0x00"

definition basic_information_event_shut_down :: event_fn where
  "basic_information_event_shut_down =
     event 0x01"

definition basic_information_event_leave :: event_fn where
  "basic_information_event_leave =
     event 0x02"

definition basic_information_event_reachable_changed :: event_fn where
  "basic_information_event_reachable_changed =
     guarded_event (Has_Attribute 0x0011) (event 0x03)"

definition basic_information_create :: cluster_fn where
  "basic_information_create =
     \<lparr>kf_id = 0x0028,
      kf_revision = 5,
      kf_functions = None,
      kf_function_flags = 0,
      kf_body = [Plugin ''MatterBasicInformationPluginServerInitCallback'', Functions, Feature_Map 0,
        Cluster_Revision,
        Step (Attribute basic_information_attribute_data_model_revision (Field ''data_model_revision'')),
        Step (Attribute basic_information_attribute_vendor_name (Field ''vendor_name'')),
        Step (Attribute basic_information_attribute_vendor_id (Field ''vendor_id'')),
        Step (Attribute basic_information_attribute_product_name (Field ''product_name'')),
        Step (Attribute basic_information_attribute_product_id (Field ''product_id'')),
        Step (Attribute basic_information_attribute_node_label (Field ''node_label'')),
        Step (Attribute basic_information_attribute_location (Field ''location'')),
        Step (Attribute basic_information_attribute_hardware_version (Field ''hardware_version'')),
        Step (Attribute basic_information_attribute_hardware_version_string (Field
          ''hardware_version_string'')),
        Step (Attribute basic_information_attribute_software_version (Field ''software_version'')),
        Step (Attribute basic_information_attribute_software_version_string (Field
          ''software_version_string'')),
        Step (Attribute basic_information_attribute_unique_id (Field ''unique_id'')),
        Step (Attribute basic_information_attribute_specification_version (Field ''specification_version'')),
        Step (Attribute basic_information_attribute_max_paths_per_invoke (Field ''max_paths_per_invoke'')),
        Step (Attribute basic_information_attribute_capability_minima Null_Arr),
        Step (Event basic_information_event_start_up),
        Callbacks ''ESPMatterBasicInformationClusterServerInitCallback''
          ''ESPMatterBasicInformationClusterServerShutdownCallback''],
      kf_binding = False\<rparr>"

definition basic_information_ids :: cluster_ids where
  "basic_information_ids =
     \<lparr>ci_cluster = 0x0028,
      ci_features = [],
      ci_attributes = [(''DataModelRevision'', 0x0000), (''VendorName'', 0x0001), (''VendorID'', 0x0002),
        (''ProductName'', 0x0003), (''ProductID'', 0x0004), (''NodeLabel'', 0x0005), (''Location'', 0x0006),
        (''HardwareVersion'', 0x0007), (''HardwareVersionString'', 0x0008), (''SoftwareVersion'', 0x0009),
        (''SoftwareVersionString'', 0x000A), (''ManufacturingDate'', 0x000B), (''PartNumber'', 0x000C),
        (''ProductURL'', 0x000D), (''ProductLabel'', 0x000E), (''SerialNumber'', 0x000F),
        (''LocalConfigDisabled'', 0x0010), (''Reachable'', 0x0011), (''UniqueID'', 0x0012),
        (''CapabilityMinima'', 0x0013), (''ProductAppearance'', 0x0014), (''SpecificationVersion'', 0x0015),
        (''MaxPathsPerInvoke'', 0x0016)],
      ci_commands = [],
      ci_events = [(''StartUp'', 0x00), (''ShutDown'', 0x01), (''Leave'', 0x02), (''ReachableChanged'',
        0x03)]\<rparr>"

definition basic_information_attributes :: "attr_fn list" where
  "basic_information_attributes =
     [basic_information_attribute_data_model_revision, basic_information_attribute_vendor_name,
        basic_information_attribute_vendor_id, basic_information_attribute_product_name,
        basic_information_attribute_product_id, basic_information_attribute_node_label,
        basic_information_attribute_location, basic_information_attribute_hardware_version,
        basic_information_attribute_hardware_version_string, basic_information_attribute_software_version,
        basic_information_attribute_software_version_string, basic_information_attribute_manufacturing_date,
        basic_information_attribute_part_number, basic_information_attribute_product_url,
        basic_information_attribute_product_label, basic_information_attribute_serial_number,
        basic_information_attribute_local_config_disabled, basic_information_attribute_reachable,
        basic_information_attribute_unique_id, basic_information_attribute_capability_minima,
        basic_information_attribute_product_appearance, basic_information_attribute_specification_version,
        basic_information_attribute_max_paths_per_invoke]"

definition basic_information_events :: "event_fn list" where
  "basic_information_events =
     [basic_information_event_start_up, basic_information_event_shut_down, basic_information_event_leave,
        basic_information_event_reachable_changed]"

definition basic_information_cluster :: cluster_decl where
  "basic_information_cluster =
     \<lparr>cd_ids = basic_information_ids,
      cd_callbacks = [],
      cd_features = [],
      cd_attributes = basic_information_attributes,
      cd_commands = [],
      cd_events = basic_information_events,
      cd_create = Some basic_information_create\<rparr>"

section \<open>\<open>binding\<close>\<close>

definition binding_attribute_binding :: attr_fn where
  "binding_attribute_binding =
     attr 0x0000 (ATTRIBUTE_FLAG_WRITABLE OR ATTRIBUTE_FLAG_MANAGED_INTERNALLY OR ATTRIBUTE_FLAG_NONVOLATILE)
          VT_ARRAY"

definition binding_create :: cluster_fn where
  "binding_create =
     \<lparr>kf_id = 0x001E,
      kf_revision = 1,
      kf_functions = None,
      kf_function_flags = 0,
      kf_body = [Plugin ''MatterBindingPluginServerInitCallback'', Functions, Feature_Map 0, Cluster_Revision,
        Step (Attribute binding_attribute_binding Null_Arr),
        Callbacks ''ESPMatterBindingClusterServerInitCallback''
          ''ESPMatterBindingClusterServerShutdownCallback''],
      kf_binding = False\<rparr>"

definition binding_ids :: cluster_ids where
  "binding_ids =
     \<lparr>ci_cluster = 0x001E,
      ci_features = [],
      ci_attributes = [(''Binding'', 0x0000)],
      ci_commands = [],
      ci_events = []\<rparr>"

definition binding_attributes :: "attr_fn list" where
  "binding_attributes =
     [binding_attribute_binding]"

definition binding_cluster :: cluster_decl where
  "binding_cluster =
     \<lparr>cd_ids = binding_ids,
      cd_callbacks = [],
      cd_features = [],
      cd_attributes = binding_attributes,
      cd_commands = [],
      cd_events = [],
      cd_create = Some binding_create\<rparr>"

section \<open>\<open>boolean_state\<close>\<close>

definition boolean_state_attribute_state_value :: attr_fn where
  "boolean_state_attribute_state_value =
     attr 0x0000 0 VT_BOOLEAN"

definition boolean_state_event_state_change :: event_fn where
  "boolean_state_event_state_change =
     event 0x00"

definition boolean_state_create :: cluster_fn where
  "boolean_state_create =
     \<lparr>kf_id = 0x0045,
      kf_revision = 1,
      kf_functions = None,
      kf_function_flags = 0,
      kf_body = [Functions, Feature_Map 0, Cluster_Revision,
        Step (Attribute boolean_state_attribute_state_value (Field ''state_value'')),
        Callbacks ''ESPMatterBooleanStateClusterServerInitCallback''
          ''ESPMatterBooleanStateClusterServerShutdownCallback''],
      kf_binding = True\<rparr>"

definition boolean_state_ids :: cluster_ids where
  "boolean_state_ids =
     \<lparr>ci_cluster = 0x0045,
      ci_features = [],
      ci_attributes = [(''StateValue'', 0x0000)],
      ci_commands = [],
      ci_events = [(''StateChange'', 0x00)]\<rparr>"

definition boolean_state_attributes :: "attr_fn list" where
  "boolean_state_attributes =
     [boolean_state_attribute_state_value]"

definition boolean_state_events :: "event_fn list" where
  "boolean_state_events =
     [boolean_state_event_state_change]"

definition boolean_state_cluster :: cluster_decl where
  "boolean_state_cluster =
     \<lparr>cd_ids = boolean_state_ids,
      cd_callbacks = [],
      cd_features = [],
      cd_attributes = boolean_state_attributes,
      cd_commands = [],
      cd_events = boolean_state_events,
      cd_create = Some boolean_state_create\<rparr>"

section \<open>\<open>boolean_state_configuration\<close>\<close>

definition boolean_state_configuration_visual_id :: u32 where
  "boolean_state_configuration_visual_id = 0x1"

definition boolean_state_configuration_audible_id :: u32 where
  "boolean_state_configuration_audible_id = 0x2"

definition boolean_state_configuration_alarm_suppress_id :: u32 where
  "boolean_state_configuration_alarm_suppress_id = 0x4"

definition boolean_state_configuration_sensitivity_level_id :: u32 where
  "boolean_state_configuration_sensitivity_level_id = 0x8"

definition boolean_state_configuration_attribute_current_sensitivity_level :: attr_fn where
  "boolean_state_configuration_attribute_current_sensitivity_level =
     guarded (Has_Feature boolean_state_configuration_sensitivity_level_id) (bounded 0 254 (attr 0x0000
          (ATTRIBUTE_FLAG_WRITABLE OR ATTRIBUTE_FLAG_NONVOLATILE) VT_UINT8))"

definition boolean_state_configuration_attribute_supported_sensitivity_levels :: attr_fn where
  "boolean_state_configuration_attribute_supported_sensitivity_levels =
     guarded (Has_Feature boolean_state_configuration_sensitivity_level_id) (bounded 2 10 (attr 0x0001 0 VT_UINT8))"

definition boolean_state_configuration_attribute_default_sensitivity_level :: attr_fn where
  "boolean_state_configuration_attribute_default_sensitivity_level =
     bounded 0 254 (attr 0x0002 0 VT_UINT8)"

definition boolean_state_configuration_attribute_alarms_active :: attr_fn where
  "boolean_state_configuration_attribute_alarms_active =
     guarded (Or (Has_Feature boolean_state_configuration_visual_id) (Has_Feature
          boolean_state_configuration_audible_id)) (bounded 0 3 (attr 0x0003 0 VT_BITMAP8))"

definition boolean_state_configuration_attribute_alarms_suppressed :: attr_fn where
  "boolean_state_configuration_attribute_alarms_suppressed =
     guarded (Has_Feature boolean_state_configuration_alarm_suppress_id) (bounded 0 3 (attr 0x0004 0 VT_BITMAP8))"

definition boolean_state_configuration_attribute_alarms_enabled :: attr_fn where
  "boolean_state_configuration_attribute_alarms_enabled =
     bounded 0 3 (attr 0x0005 ATTRIBUTE_FLAG_NONVOLATILE VT_BITMAP8)"

definition boolean_state_configuration_attribute_alarms_supported :: attr_fn where
  "boolean_state_configuration_attribute_alarms_supported =
     guarded (Or (Has_Feature boolean_state_configuration_visual_id) (Has_Feature
          boolean_state_configuration_audible_id)) (bounded 0 3 (attr 0x0006 0 VT_BITMAP8))"

definition boolean_state_configuration_attribute_sensor_fault :: attr_fn where
  "boolean_state_configuration_attribute_sensor_fault =
     bounded 0 1 (attr 0x0007 0 VT_BITMAP8)"

definition boolean_state_configuration_command_suppress_alarm :: cmd_fn where
  "boolean_state_configuration_command_suppress_alarm =
     guarded_cmd (Has_Feature boolean_state_configuration_alarm_suppress_id) (cmd 0x00 COMMAND_FLAG_ACCEPTED None)"

definition boolean_state_configuration_command_enable_disable_alarm :: cmd_fn where
  "boolean_state_configuration_command_enable_disable_alarm =
     guarded_cmd (Or (Has_Feature boolean_state_configuration_visual_id) (Has_Feature
          boolean_state_configuration_audible_id)) (cmd 0x01 COMMAND_FLAG_ACCEPTED None)"

definition boolean_state_configuration_event_alarms_state_changed :: event_fn where
  "boolean_state_configuration_event_alarms_state_changed =
     guarded_event (Or (Has_Feature boolean_state_configuration_visual_id) (Has_Feature
          boolean_state_configuration_audible_id)) (event 0x00)"

definition boolean_state_configuration_event_sensor_fault :: event_fn where
  "boolean_state_configuration_event_sensor_fault =
     event 0x01"

definition boolean_state_configuration_feature_visual :: feature_fn where
  "boolean_state_configuration_feature_visual =
     feature boolean_state_configuration_visual_id True [Update_Feature_Map,
        Attribute boolean_state_configuration_attribute_alarms_active (Field ''alarms_active''),
        Attribute boolean_state_configuration_attribute_alarms_supported (Field ''alarms_supported''),
        Command boolean_state_configuration_command_enable_disable_alarm,
        Event boolean_state_configuration_event_alarms_state_changed]"

definition boolean_state_configuration_feature_audible :: feature_fn where
  "boolean_state_configuration_feature_audible =
     feature boolean_state_configuration_audible_id True [Update_Feature_Map,
        Attribute boolean_state_configuration_attribute_alarms_active (Field ''alarms_active''),
        Attribute boolean_state_configuration_attribute_alarms_supported (Field ''alarms_supported''),
        Command boolean_state_configuration_command_enable_disable_alarm,
        Event boolean_state_configuration_event_alarms_state_changed]"

definition boolean_state_configuration_feature_alarm_suppress :: feature_fn where
  "boolean_state_configuration_feature_alarm_suppress =
     feature boolean_state_configuration_alarm_suppress_id True [Require (Or (Has_Feature
          boolean_state_configuration_visual_id) (Has_Feature boolean_state_configuration_audible_id)),
        Update_Feature_Map,
        Attribute boolean_state_configuration_attribute_alarms_suppressed (Field ''alarms_suppressed''),
        Command boolean_state_configuration_command_suppress_alarm]"

definition boolean_state_configuration_feature_sensitivity_level :: feature_fn where
  "boolean_state_configuration_feature_sensitivity_level =
     feature boolean_state_configuration_sensitivity_level_id True [Update_Feature_Map,
        Attribute boolean_state_configuration_attribute_current_sensitivity_level (Field
          ''current_sensitivity_level''),
        Attribute boolean_state_configuration_attribute_supported_sensitivity_levels (Field
          ''supported_sensitivity_levels'')]"

definition boolean_state_configuration_create :: cluster_fn where
  "boolean_state_configuration_create =
     \<lparr>kf_id = 0x0080,
      kf_revision = 1,
      kf_functions = None,
      kf_function_flags = 0,
      kf_body = [Delegate ''BooleanStateConfigurationDelegateInitCB'',
        Plugin ''MatterBooleanStateConfigurationPluginServerInitCallback'', Functions, Feature_Map 0,
        Cluster_Revision,
        Callbacks ''ESPMatterBooleanStateConfigurationClusterServerInitCallback''
          ''ESPMatterBooleanStateConfigurationClusterServerShutdownCallback''],
      kf_binding = True\<rparr>"

definition boolean_state_configuration_ids :: cluster_ids where
  "boolean_state_configuration_ids =
     \<lparr>ci_cluster = 0x0080,
      ci_features = [(''Visual'', 0x1), (''Audible'', 0x2), (''AlarmSuppress'', 0x4), (''SensitivityLevel'',
        0x8)],
      ci_attributes = [(''CurrentSensitivityLevel'', 0x0000), (''SupportedSensitivityLevels'', 0x0001),
        (''DefaultSensitivityLevel'', 0x0002), (''AlarmsActive'', 0x0003), (''AlarmsSuppressed'', 0x0004),
        (''AlarmsEnabled'', 0x0005), (''AlarmsSupported'', 0x0006), (''SensorFault'', 0x0007)],
      ci_commands = [(''SuppressAlarm'', 0x00), (''EnableDisableAlarm'', 0x01)],
      ci_events = [(''AlarmsStateChanged'', 0x00), (''SensorFault'', 0x01)]\<rparr>"

definition boolean_state_configuration_features :: "feature_fn list" where
  "boolean_state_configuration_features =
     [boolean_state_configuration_feature_visual, boolean_state_configuration_feature_audible,
        boolean_state_configuration_feature_alarm_suppress,
        boolean_state_configuration_feature_sensitivity_level]"

definition boolean_state_configuration_attributes :: "attr_fn list" where
  "boolean_state_configuration_attributes =
     [boolean_state_configuration_attribute_current_sensitivity_level,
        boolean_state_configuration_attribute_supported_sensitivity_levels,
        boolean_state_configuration_attribute_default_sensitivity_level,
        boolean_state_configuration_attribute_alarms_active,
        boolean_state_configuration_attribute_alarms_suppressed,
        boolean_state_configuration_attribute_alarms_enabled,
        boolean_state_configuration_attribute_alarms_supported,
        boolean_state_configuration_attribute_sensor_fault]"

definition boolean_state_configuration_commands :: "cmd_fn list" where
  "boolean_state_configuration_commands =
     [boolean_state_configuration_command_suppress_alarm, boolean_state_configuration_command_enable_disable_alarm]"

definition boolean_state_configuration_events :: "event_fn list" where
  "boolean_state_configuration_events =
     [boolean_state_configuration_event_alarms_state_changed, boolean_state_configuration_event_sensor_fault]"

definition boolean_state_configuration_cluster :: cluster_decl where
  "boolean_state_configuration_cluster =
     \<lparr>cd_ids = boolean_state_configuration_ids,
      cd_callbacks = [],
      cd_features = boolean_state_configuration_features,
      cd_attributes = boolean_state_configuration_attributes,
      cd_commands = boolean_state_configuration_commands,
      cd_events = boolean_state_configuration_events,
      cd_create = Some boolean_state_configuration_create\<rparr>"

section \<open>\<open>bridged_device_basic_information\<close>\<close>

definition bridged_device_basic_information_bridged_icd_support_id :: u32 where
  "bridged_device_basic_information_bridged_icd_support_id = 0x100000"

definition bridged_device_basic_information_attribute_vendor_name :: attr_fn where
  "bridged_device_basic_information_attribute_vendor_name =
     at_most 33 (sized 33 (attr 0x0001 0 VT_CHAR_STRING))"

definition bridged_device_basic_information_attribute_vendor_id :: attr_fn where
  "bridged_device_basic_information_attribute_vendor_id =
     bounded 0 65534 (attr 0x0002 0 VT_UINT16)"

definition bridged_device_basic_information_attribute_product_name :: attr_fn where
  "bridged_device_basic_information_attribute_product_name =
     at_most 33 (sized 33 (attr 0x0003 0 VT_CHAR_STRING))"

definition bridged_device_basic_information_attribute_product_id :: attr_fn where
  "bridged_device_basic_information_attribute_product_id =
     bounded 0 65534 (attr 0x0004 0 VT_UINT16)"

definition bridged_device_basic_information_attribute_node_label :: attr_fn where
  "bridged_device_basic_information_attribute_node_label =
     at_most 33 (sized 33 (attr 0x0005 (ATTRIBUTE_FLAG_WRITABLE OR ATTRIBUTE_FLAG_NONVOLATILE) VT_CHAR_STRING))"

definition bridged_device_basic_information_attribute_hardware_version :: attr_fn where
  "bridged_device_basic_information_attribute_hardware_version =
     bounded 0 65534 (attr 0x0007 0 VT_UINT16)"

definition bridged_device_basic_information_attribute_hardware_version_string :: attr_fn where
  "bridged_device_basic_information_attribute_hardware_version_string =
     sized 65 (attr 0x0008 0 VT_CHAR_STRING)"

definition bridged_device_basic_information_attribute_software_version :: attr_fn where
  "bridged_device_basic_information_attribute_software_version =
     bounded 0 4294967294 (attr 0x0009 0 VT_UINT32)"

definition bridged_device_basic_information_attribute_software_version_string :: attr_fn where
  "bridged_device_basic_information_attribute_software_version_string =
     sized 65 (attr 0x000A 0 VT_CHAR_STRING)"

definition bridged_device_basic_information_attribute_manufacturing_date :: attr_fn where
  "bridged_device_basic_information_attribute_manufacturing_date =
     sized 17 (attr 0x000B 0 VT_CHAR_STRING)"

definition bridged_device_basic_information_attribute_part_number :: attr_fn where
  "bridged_device_basic_information_attribute_part_number =
     at_most 33 (sized 33 (attr 0x000C 0 VT_CHAR_STRING))"

definition bridged_device_basic_information_attribute_product_url :: attr_fn where
  "bridged_device_basic_information_attribute_product_url =
     at_most 257 (sized 257 (attr 0x000D 0 VT_CHAR_STRING))"

definition bridged_device_basic_information_attribute_product_label :: attr_fn where
  "bridged_device_basic_information_attribute_product_label =
     at_most 65 (sized 65 (attr 0x000E 0 VT_CHAR_STRING))"

definition bridged_device_basic_information_attribute_serial_number :: attr_fn where
  "bridged_device_basic_information_attribute_serial_number =
     at_most 33 (sized 33 (attr 0x000F 0 VT_CHAR_STRING))"

definition bridged_device_basic_information_attribute_reachable :: attr_fn where
  "bridged_device_basic_information_attribute_reachable =
     attr 0x0011 0 VT_BOOLEAN"

definition bridged_device_basic_information_attribute_unique_id :: attr_fn where
  "bridged_device_basic_information_attribute_unique_id =
     at_most 33 (sized 33 (attr 0x0012 0 VT_CHAR_STRING))"

definition bridged_device_basic_information_attribute_product_appearance :: attr_fn where
  "bridged_device_basic_information_attribute_product_appearance =
     attr 0x0014 ATTRIBUTE_FLAG_MANAGED_INTERNALLY VT_ARRAY"

definition bridged_device_basic_information_command_keep_active :: cmd_fn where
  "bridged_device_basic_information_command_keep_active =
     guarded_cmd (Has_Feature bridged_device_basic_information_bridged_icd_support_id) (cmd 0x80
          COMMAND_FLAG_ACCEPTED None)"

definition bridged_device_basic_information_event_start_up :: event_fn where
  "bridged_device_basic_information_event_start_up =
     event 0x00"

definition bridged_device_basic_information_event_shut_down :: event_fn where
  "bridged_device_basic_information_event_shut_down =
     event 0x01"

definition bridged_device_basic_information_event_leave :: event_fn where
  "bridged_device_basic_information_event_leave =
     event 0x02"

definition bridged_device_basic_information_event_reachable_changed :: event_fn where
  "bridged_device_basic_information_event_reachable_changed =
     event 0x03"

definition bridged_device_basic_information_event_active_changed :: event_fn where
  "bridged_device_basic_information_event_active_changed =
     guarded_event (Has_Feature bridged_device_basic_information_bridged_icd_support_id) (event 0x80)"

definition bridged_device_basic_information_feature_bridged_icd_support :: feature_fn where
  "bridged_device_basic_information_feature_bridged_icd_support =
     feature bridged_device_basic_information_bridged_icd_support_id False [Update_Feature_Map,
        Command bridged_device_basic_information_command_keep_active,
        Event bridged_device_basic_information_event_active_changed]"

definition bridged_device_basic_information_function_list :: "string list option" where
  "bridged_device_basic_information_function_list =
     Some [''MatterBridgedDeviceBasicInformationClusterServerAttributeChangedCallback'']"

definition bridged_device_basic_information_create :: cluster_fn where
  "bridged_device_basic_information_create =
     \<lparr>kf_id = 0x0039,
      kf_revision = 5,
      kf_functions = bridged_device_basic_information_function_list,
      kf_function_flags = CLUSTER_FLAG_ATTRIBUTE_CHANGED_FUNCTION,
      kf_body = [Plugin ''MatterBridgedDeviceBasicInformationPluginServerInitCallback'', Functions,
        Feature_Map 0, Cluster_Revision,
        Step (Attribute bridged_device_basic_information_attribute_reachable (Field ''reachable'')),
        Step (Attribute bridged_device_basic_information_attribute_unique_id (Field ''unique_id'')),
        Step (Event bridged_device_basic_information_event_reachable_changed)],
      kf_binding = False\<rparr>"

definition bridged_device_basic_information_ids :: cluster_ids where
  "bridged_device_basic_information_ids =
     \<lparr>ci_cluster = 0x0039,
      ci_features = [(''BridgedICDSupport'', 0x100000)],
      ci_attributes = [(''VendorName'', 0x0001), (''VendorID'', 0x0002), (''ProductName'', 0x0003),
        (''ProductID'', 0x0004), (''NodeLabel'', 0x0005), (''HardwareVersion'', 0x0007),
        (''HardwareVersionString'', 0x0008), (''SoftwareVersion'', 0x0009), (''SoftwareVersionString'', 0x000A),
        (''ManufacturingDate'', 0x000B), (''PartNumber'', 0x000C), (''ProductURL'', 0x000D), (''ProductLabel'',
        0x000E), (''SerialNumber'', 0x000F), (''Reachable'', 0x0011), (''UniqueID'', 0x0012),
        (''ProductAppearance'', 0x0014)],
      ci_commands = [(''KeepActive'', 0x80)],
      ci_events = [(''StartUp'', 0x00), (''ShutDown'', 0x01), (''Leave'', 0x02), (''ReachableChanged'', 0x03),
        (''ActiveChanged'', 0x80)]\<rparr>"

definition bridged_device_basic_information_features :: "feature_fn list" where
  "bridged_device_basic_information_features =
     [bridged_device_basic_information_feature_bridged_icd_support]"

definition bridged_device_basic_information_attributes :: "attr_fn list" where
  "bridged_device_basic_information_attributes =
     [bridged_device_basic_information_attribute_vendor_name, bridged_device_basic_information_attribute_vendor_id,
        bridged_device_basic_information_attribute_product_name,
        bridged_device_basic_information_attribute_product_id,
        bridged_device_basic_information_attribute_node_label,
        bridged_device_basic_information_attribute_hardware_version,
        bridged_device_basic_information_attribute_hardware_version_string,
        bridged_device_basic_information_attribute_software_version,
        bridged_device_basic_information_attribute_software_version_string,
        bridged_device_basic_information_attribute_manufacturing_date,
        bridged_device_basic_information_attribute_part_number,
        bridged_device_basic_information_attribute_product_url,
        bridged_device_basic_information_attribute_product_label,
        bridged_device_basic_information_attribute_serial_number,
        bridged_device_basic_information_attribute_reachable,
        bridged_device_basic_information_attribute_unique_id,
        bridged_device_basic_information_attribute_product_appearance]"

definition bridged_device_basic_information_commands :: "cmd_fn list" where
  "bridged_device_basic_information_commands =
     [bridged_device_basic_information_command_keep_active]"

definition bridged_device_basic_information_events :: "event_fn list" where
  "bridged_device_basic_information_events =
     [bridged_device_basic_information_event_start_up, bridged_device_basic_information_event_shut_down,
        bridged_device_basic_information_event_leave, bridged_device_basic_information_event_reachable_changed,
        bridged_device_basic_information_event_active_changed]"

definition bridged_device_basic_information_cluster :: cluster_decl where
  "bridged_device_basic_information_cluster =
     \<lparr>cd_ids = bridged_device_basic_information_ids,
      cd_callbacks = [],
      cd_features = bridged_device_basic_information_features,
      cd_attributes = bridged_device_basic_information_attributes,
      cd_commands = bridged_device_basic_information_commands,
      cd_events = bridged_device_basic_information_events,
      cd_create = Some bridged_device_basic_information_create\<rparr>"

section \<open>Checks\<close>

definition additive_01 :: "cluster_decl list" where
  "additive_01 =
     [access_control_cluster, account_login_cluster, actions_cluster, activated_carbon_filter_monitoring_cluster,
        administrator_commissioning_cluster, air_quality_cluster, alarm_base_cluster, application_basic_cluster,
        application_launcher_cluster, audio_output_cluster, basic_information_cluster, binding_cluster,
        boolean_state_cluster, boolean_state_configuration_cluster, bridged_device_basic_information_cluster]"

lemma additive_01_ok: "list_all decl_ok additive_01"
  by code_simp

lemma additive_01_order: "list_all (\<lambda>d. order_ok (cd_features d)) additive_01"
  by code_simp

end
