(* ===== verification/EM_Clusters_02.thy ===== *)
theory EM_Clusters_02
  imports EM_Order
begin

text \<open>
  The generated clusters \<open>camera_av_settings_user_level_management\<close> to \<open>closure_control\<close>:
  one definition for each function and id table of their files, and the checks of the descriptions.
\<close>

section \<open>\<open>camera_av_settings_user_level_management\<close>\<close>

definition camera_av_settings_user_level_management_digital_ptz_id :: u32 where
  "camera_av_settings_user_level_management_digital_ptz_id = 0x1"

definition camera_av_settings_user_level_management_mechanical_pan_id :: u32 where
  "camera_av_settings_user_level_management_mechanical_pan_id = 0x2"

definition camera_av_settings_user_level_management_mechanical_tilt_id :: u32 where
  "camera_av_settings_user_level_management_mechanical_tilt_id = 0x4"

definition camera_av_settings_user_level_management_mechanical_zoom_id :: u32 where
  "camera_av_settings_user_level_management_mechanical_zoom_id = 0x8"

definition camera_av_settings_user_level_management_mechanical_presets_id :: u32 where
  "camera_av_settings_user_level_management_mechanical_presets_id = 0x10"

definition camera_av_settings_user_level_management_attribute_mptz_position :: attr_fn where
  "camera_av_settings_user_level_management_attribute_mptz_position =
     guarded (Or (Or (Has_Feature camera_av_settings_user_level_management_mechanical_pan_id) (Has_Feature
          camera_av_settings_user_level_management_mechanical_tilt_id)) (Has_Feature
          camera_av_settings_user_level_management_mechanical_zoom_id)) (attr 0x0000
          (ATTRIBUTE_FLAG_MANAGED_INTERNALLY OR ATTRIBUTE_FLAG_NONVOLATILE) VT_ARRAY)"

definition camera_av_settings_user_level_management_attribute_max_presets :: attr_fn where
  "camera_av_settings_user_level_management_attribute_max_presets =
     guarded (Has_Feature camera_av_settings_user_level_management_mechanical_presets_id) (attr 0x0001
          ATTRIBUTE_FLAG_MANAGED_INTERNALLY VT_UINT8)"

definition camera_av_settings_user_level_management_attribute_mptz_presets :: attr_fn where
  "camera_av_settings_user_level_management_attribute_mptz_presets =
     guarded (Has_Feature camera_av_settings_user_level_management_mechanical_presets_id) (attr 0x0002
          (ATTRIBUTE_FLAG_MANAGED_INTERNALLY OR ATTRIBUTE_FLAG_NONVOLATILE) VT_ARRAY)"

definition camera_av_settings_user_level_management_attribute_dptz_streams :: attr_fn where
  "camera_av_settings_user_level_management_attribute_dptz_streams =
     guarded (Has_Feature camera_av_settings_user_level_management_digital_ptz_id) (attr 0x0003
          (ATTRIBUTE_FLAG_MANAGED_INTERNALLY OR ATTRIBUTE_FLAG_NONVOLATILE) VT_ARRAY)"

definition camera_av_settings_user_level_management_attribute_zoom_max :: attr_fn where
  "camera_av_settings_user_level_management_attribute_zoom_max =
     guarded (Has_Feature camera_av_settings_user_level_management_mechanical_zoom_id) (attr 0x0004
          ATTRIBUTE_FLAG_MANAGED_INTERNALLY VT_UINT8)"

definition camera_av_settings_user_level_management_attribute_tilt_min :: attr_fn where
  "camera_av_settings_user_level_management_attribute_tilt_min =
     guarded (Has_Feature camera_av_settings_user_level_management_mechanical_tilt_id) (attr 0x0005
          ATTRIBUTE_FLAG_MANAGED_INTERNALLY VT_INT16)"

definition camera_av_settings_user_level_management_attribute_tilt_max :: attr_fn where
  "camera_av_settings_user_level_management_attribute_tilt_max =
     guarded (Has_Feature camera_av_settings_user_level_management_mechanical_tilt_id) (attr 0x0006
          ATTRIBUTE_FLAG_MANAGED_INTERNALLY VT_INT16)"

definition camera_av_settings_user_level_management_attribute_pan_min :: attr_fn where
  "camera_av_settings_user_level_management_attribute_pan_min =
     guarded (Has_Feature camera_av_settings_user_level_management_mechanical_pan_id) (attr 0x0007
          ATTRIBUTE_FLAG_MANAGED_INTERNALLY VT_INT16)"

definition camera_av_settings_user_level_management_attribute_pan_max :: attr_fn where
  "camera_av_settings_user_level_management_attribute_pan_max =
     guarded (Has_Feature camera_av_settings_user_level_management_mechanical_pan_id) (attr 0x0008
          ATTRIBUTE_FLAG_MANAGED_INTERNALLY VT_INT16)"

definition camera_av_settings_user_level_management_attribute_movement_state :: attr_fn where
  "camera_av_settings_user_level_management_attribute_movement_state =
     guarded (Or (Or (Has_Feature camera_av_settings_user_level_management_mechanical_pan_id) (Has_Feature
          camera_av_settings_user_level_management_mechanical_tilt_id)) (Has_Feature
          camera_av_settings_user_level_management_mechanical_zoom_id)) (attr 0x0009
          ATTRIBUTE_FLAG_MANAGED_INTERNALLY VT_ENUM8)"

definition camera_av_settings_user_level_management_command_mptz_set_position :: cmd_fn where
  "camera_av_settings_user_level_management_command_mptz_set_position =
     guarded_cmd (Or (Or (Has_Feature camera_av_settings_user_level_management_mechanical_pan_id) (Has_Feature
          camera_av_settings_user_level_management_mechanical_tilt_id)) (Has_Feature
          camera_av_settings_user_level_management_mechanical_zoom_id)) (cmd 0x00 COMMAND_FLAG_ACCEPTED None)"

definition camera_av_settings_user_level_management_command_mptz_relative_move :: cmd_fn where
  "camera_av_settings_user_level_management_command_mptz_relative_move =
     guarded_cmd (Or (Or (Has_Feature camera_av_settings_user_level_management_mechanical_pan_id) (Has_Feature
          camera_av_settings_user_level_management_mechanical_tilt_id)) (Has_Feature
          camera_av_settings_user_level_management_mechanical_zoom_id)) (cmd 0x01 COMMAND_FLAG_ACCEPTED None)"

definition camera_av_settings_user_level_management_command_mptz_move_to_preset :: cmd_fn where
  "camera_av_settings_user_level_management_command_mptz_move_to_preset =
     guarded_cmd (Has_Feature camera_av_settings_user_level_management_mechanical_presets_id) (cmd 0x02
          COMMAND_FLAG_ACCEPTED None)"

definition camera_av_settings_user_level_management_command_mptz_save_preset :: cmd_fn where
  "camera_av_settings_user_level_management_command_mptz_save_preset =
     guarded_cmd (Has_Feature camera_av_settings_user_level_management_mechanical_presets_id) (cmd 0x03
          COMMAND_FLAG_ACCEPTED None)"

definition camera_av_settings_user_level_management_command_mptz_remove_preset :: cmd_fn where
  "camera_av_settings_user_level_management_command_mptz_remove_preset =
     guarded_cmd (Has_Feature camera_av_settings_user_level_management_mechanical_presets_id) (cmd 0x04
          COMMAND_FLAG_ACCEPTED None)"

definition camera_av_settings_user_level_management_command_dptz_set_viewport :: cmd_fn where
  "camera_av_settings_user_level_management_command_dptz_set_viewport =
     guarded_cmd (Has_Feature camera_av_settings_user_level_management_digital_ptz_id) (cmd 0x05
          COMMAND_FLAG_ACCEPTED None)"

definition camera_av_settings_user_level_management_command_dptz_relative_move :: cmd_fn where
  "camera_av_settings_user_level_management_command_dptz_relative_move =
     cmd 0x06 COMMAND_FLAG_ACCEPTED None"

definition camera_av_settings_user_level_management_feature_digital_ptz :: feature_fn where
  "camera_av_settings_user_level_management_feature_digital_ptz =
     feature camera_av_settings_user_level_management_digital_ptz_id False [Update_Feature_Map,
        Attribute camera_av_settings_user_level_management_attribute_dptz_streams Null_Arr,
        Command camera_av_settings_user_level_management_command_dptz_set_viewport]"

definition camera_av_settings_user_level_management_feature_mechanical_pan :: feature_fn where
  "camera_av_settings_user_level_management_feature_mechanical_pan =
     feature camera_av_settings_user_level_management_mechanical_pan_id False [Update_Feature_Map,
        Attribute camera_av_settings_user_level_management_attribute_mptz_position Null_Arr,
        Attribute camera_av_settings_user_level_management_attribute_pan_min (Lit 0),
        Attribute camera_av_settings_user_level_management_attribute_pan_max (Lit 0),
        Attribute camera_av_settings_user_level_management_attribute_movement_state (Lit 0),
        Command camera_av_settings_user_level_management_command_mptz_set_position,
        Command camera_av_settings_user_level_management_command_mptz_relative_move]"

definition camera_av_settings_user_level_management_feature_mechanical_tilt :: feature_fn where
  "camera_av_settings_user_level_management_feature_mechanical_tilt =
     feature camera_av_settings_user_level_management_mechanical_tilt_id False [Update_Feature_Map,
        Attribute camera_av_settings_user_level_management_attribute_mptz_position Null_Arr,
        Attribute camera_av_settings_user_level_management_attribute_tilt_min (Lit 0),
        Attribute camera_av_settings_user_level_management_attribute_tilt_max (Lit 0),
        Attribute camera_av_settings_user_level_management_attribute_movement_state (Lit 0),
        Command camera_av_settings_user_level_management_command_mptz_set_position,
        Command camera_av_settings_user_level_management_command_mptz_relative_move]"

definition camera_av_settings_user_level_management_feature_mechanical_zoom :: feature_fn where
  "camera_av_settings_user_level_management_feature_mechanical_zoom =
     feature camera_av_settings_user_level_management_mechanical_zoom_id False [Update_Feature_Map,
        Attribute camera_av_settings_user_level_management_attribute_mptz_position Null_Arr,
        Attribute camera_av_settings_user_level_management_attribute_zoom_max (Lit 0),
        Attribute camera_av_settings_user_level_management_attribute_movement_state (Lit 0),
        Command camera_av_settings_user_level_management_command_mptz_set_position,
        Command camera_av_settings_user_level_management_command_mptz_relative_move]"

definition camera_av_settings_user_level_management_feature_mechanical_presets :: feature_fn where
  "camera_av_settings_user_level_management_feature_mechanical_presets =
     feature camera_av_settings_user_level_management_mechanical_presets_id False [Require (Or (Or (Has_Feature
          camera_av_settings_user_level_management_mechanical_pan_id) (Has_Feature
          camera_av_settings_user_level_management_mechanical_tilt_id)) (Has_Feature
          camera_av_settings_user_level_management_mechanical_zoom_id)), Update_Feature_Map,
        Attribute camera_av_settings_user_level_management_attribute_max_presets (Lit 0),
        Attribute camera_av_settings_user_level_management_attribute_mptz_presets Null_Arr,
        Command camera_av_settings_user_level_management_command_mptz_move_to_preset,
        Command camera_av_settings_user_level_management_command_mptz_save_preset,
        Command camera_av_settings_user_level_management_command_mptz_remove_preset]"

definition camera_av_settings_user_level_management_create :: cluster_fn where
  "camera_av_settings_user_level_management_create =
     \<lparr>kf_id = 0x0552,
      kf_revision = 1,
      kf_functions = None,
      kf_function_flags = 0,
      kf_body = [Plugin ''MatterCameraAvSettingsUserLevelManagementPluginServerInitCallback'', Functions,
        Config_Feature_Map, Cluster_Revision,
        Validate k_at_least_one [camera_av_settings_user_level_management_digital_ptz_id,
        camera_av_settings_user_level_management_mechanical_pan_id,
        camera_av_settings_user_level_management_mechanical_tilt_id,
        camera_av_settings_user_level_management_mechanical_zoom_id],
        If_Feature camera_av_settings_user_level_management_digital_ptz_id [Add_Feature
          camera_av_settings_user_level_management_feature_digital_ptz ''digital_ptz''] [],
        If_Feature camera_av_settings_user_level_management_mechanical_pan_id [Add_Feature
          camera_av_settings_user_level_management_feature_mechanical_pan ''mechanical_pan''] [],
        If_Feature camera_av_settings_user_level_management_mechanical_tilt_id [Add_Feature
          camera_av_settings_user_level_management_feature_mechanical_tilt ''mechanical_tilt''] [],
        If_Feature camera_av_settings_user_level_management_mechanical_zoom_id [Add_Feature
          camera_av_settings_user_level_management_feature_mechanical_zoom ''mechanical_zoom''] [],
        If_Feature camera_av_settings_user_level_management_mechanical_presets_id [Add_Feature
          camera_av_settings_user_level_management_feature_mechanical_presets ''mechanical_presets''] []],
      kf_binding = True\<rparr>"

definition camera_av_settings_user_level_management_ids :: cluster_ids where
  "camera_av_settings_user_level_management_ids =
     \<lparr>ci_cluster = 0x0552,
      ci_features = [(''DigitalPTZ'', 0x1), (''MechanicalPan'', 0x2), (''MechanicalTilt'', 0x4),
        (''MechanicalZoom'', 0x8), (''MechanicalPresets'', 0x10)],
      ci_attributes = [(''MPTZPosition'', 0x0000), (''MaxPresets'', 0x0001), (''MPTZPresets'', 0x0002),
        (''DPTZStreams'', 0x0003), (''ZoomMax'', 0x0004), (''TiltMin'', 0x0005), (''TiltMax'', 0x0006),
        (''PanMin'', 0x0007), (''PanMax'', 0x0008), (''MovementState'', 0x0009)],
      ci_commands = [(''MPTZSetPosition'', 0x00), (''MPTZRelativeMove'', 0x01), (''MPTZMoveToPreset'', 0x02),
        (''MPTZSavePreset'', 0x03), (''MPTZRemovePreset'', 0x04), (''DPTZSetViewport'', 0x05),
        (''DPTZRelativeMove'', 0x06)],
      ci_events = []\<rparr>"

definition camera_av_settings_user_level_management_features :: "feature_fn list" where
  "camera_av_settings_user_level_management_features =
     [camera_av_settings_user_level_management_feature_digital_ptz,
        camera_av_settings_user_level_management_feature_mechanical_pan,
        camera_av_settings_user_level_management_feature_mechanical_tilt,
        camera_av_settings_user_level_management_feature_mechanical_zoom,
        camera_av_settings_user_level_management_feature_mechanical_presets]"

definition camera_av_settings_user_level_management_attributes :: "attr_fn list" where
  "camera_av_settings_user_level_management_attributes =
     [camera_av_settings_user_level_management_attribute_mptz_position,
        camera_av_settings_user_level_management_attribute_max_presets,
        camera_av_settings_user_level_management_attribute_mptz_presets,
        camera_av_settings_user_level_management_attribute_dptz_streams,
        camera_av_settings_user_level_management_attribute_zoom_max,
        camera_av_settings_user_level_management_attribute_tilt_min,
        camera_av_settings_user_level_management_attribute_tilt_max,
        camera_av_settings_user_level_management_attribute_pan_min,
        camera_av_settings_user_level_management_attribute_pan_max,
        camera_av_settings_user_level_management_attribute_movement_state]"

definition camera_av_settings_user_level_management_commands :: "cmd_fn list" where
  "camera_av_settings_user_level_management_commands =
     [camera_av_settings_user_level_management_command_mptz_set_position,
        camera_av_settings_user_level_management_command_mptz_relative_move,
        camera_av_settings_user_level_management_command_mptz_move_to_preset,
        camera_av_settings_user_level_management_command_mptz_save_preset,
        camera_av_settings_user_level_management_command_mptz_remove_preset,
        camera_av_settings_user_level_management_command_dptz_set_viewport,
        camera_av_settings_user_level_management_command_dptz_relative_move]"

definition camera_av_settings_user_level_management_cluster :: cluster_decl where
  "camera_av_settings_user_level_management_cluster =
     \<lparr>cd_ids = camera_av_settings_user_level_management_ids,
      cd_callbacks = [],
      cd_features = camera_av_settings_user_level_management_features,
      cd_attributes = camera_av_settings_user_level_management_attributes,
      cd_commands = camera_av_settings_user_level_management_commands,
      cd_events = [],
      cd_create = Some camera_av_settings_user_level_management_create\<rparr>"

section \<open>\<open>camera_av_stream_management\<close>\<close>

definition camera_av_stream_management_audio_id :: u32 where
  "camera_av_stream_management_audio_id = 0x1"

definition camera_av_stream_management_video_id :: u32 where
  "camera_av_stream_management_video_id = 0x2"

definition camera_av_stream_management_snapshot_id :: u32 where
  "camera_av_stream_management_snapshot_id = 0x4"

definition camera_av_stream_management_privacy_id :: u32 where
  "camera_av_stream_management_privacy_id = 0x8"

definition camera_av_stream_management_speaker_id :: u32 where
  "camera_av_stream_management_speaker_id = 0x10"

definition camera_av_stream_management_image_control_id :: u32 where
  "camera_av_stream_management_image_control_id = 0x20"

definition camera_av_stream_management_watermark_id :: u32 where
  "camera_av_stream_management_watermark_id = 0x40"

definition camera_av_stream_management_on_screen_display_id :: u32 where
  "camera_av_stream_management_on_screen_display_id = 0x80"

definition camera_av_stream_management_local_storage_id :: u32 where
  "camera_av_stream_management_local_storage_id = 0x100"

definition camera_av_stream_management_high_dynamic_range_id :: u32 where
  "camera_av_stream_management_high_dynamic_range_id = 0x200"

definition camera_av_stream_management_night_vision_id :: u32 where
  "camera_av_stream_management_night_vision_id = 0x400"

definition camera_av_stream_management_attribute_max_concurrent_encoders :: attr_fn where
  "camera_av_stream_management_attribute_max_concurrent_encoders =
     guarded (Or (Has_Feature camera_av_stream_management_video_id) (Has_Feature
          camera_av_stream_management_snapshot_id)) (attr 0x0000 ATTRIBUTE_FLAG_MANAGED_INTERNALLY VT_UINT8)"

definition camera_av_stream_management_attribute_max_encoded_pixel_rate :: attr_fn where
  "camera_av_stream_management_attribute_max_encoded_pixel_rate =
     guarded (Or (Has_Feature camera_av_stream_management_video_id) (Has_Feature
          camera_av_stream_management_snapshot_id)) (attr 0x0001 ATTRIBUTE_FLAG_MANAGED_INTERNALLY VT_UINT32)"

definition camera_av_stream_management_attribute_video_sensor_params :: attr_fn where
  "camera_av_stream_management_attribute_video_sensor_params =
     guarded (Has_Feature camera_av_stream_management_video_id) (attr 0x0002 ATTRIBUTE_FLAG_MANAGED_INTERNALLY
          VT_ARRAY)"

definition camera_av_stream_management_attribute_night_vision_uses_infrared :: attr_fn where
  "camera_av_stream_management_attribute_night_vision_uses_infrared =
     guarded (Has_Feature camera_av_stream_management_night_vision_id) (attr 0x0003
          ATTRIBUTE_FLAG_MANAGED_INTERNALLY VT_BOOLEAN)"

definition camera_av_stream_management_attribute_min_viewport_resolution :: attr_fn where
  "camera_av_stream_management_attribute_min_viewport_resolution =
     guarded (Has_Feature camera_av_stream_management_video_id) (attr 0x0004 ATTRIBUTE_FLAG_MANAGED_INTERNALLY
          VT_ARRAY)"

definition camera_av_stream_management_attribute_rate_distortion_trade_off_points :: attr_fn where
  "camera_av_stream_management_attribute_rate_distortion_trade_off_points =
     guarded (Has_Feature camera_av_stream_management_video_id) (attr 0x0005 ATTRIBUTE_FLAG_MANAGED_INTERNALLY
          VT_ARRAY)"

definition camera_av_stream_management_attribute_max_content_buffer_size :: attr_fn where
  "camera_av_stream_management_attribute_max_content_buffer_size =
     attr 0x0006 ATTRIBUTE_FLAG_MANAGED_INTERNALLY VT_UINT32"

definition camera_av_stream_management_attribute_microphone_capabilities :: attr_fn where
  "camera_av_stream_management_attribute_microphone_capabilities =
     guarded (Has_Feature camera_av_stream_management_audio_id) (attr 0x0007 ATTRIBUTE_FLAG_MANAGED_INTERNALLY
          VT_ARRAY)"

definition camera_av_stream_management_attribute_speaker_capabilities :: attr_fn where
  "camera_av_stream_management_attribute_speaker_capabilities =
     guarded (Has_Feature camera_av_stream_management_speaker_id) (attr 0x0008 ATTRIBUTE_FLAG_MANAGED_INTERNALLY
          VT_ARRAY)"

definition camera_av_stream_management_attribute_two_way_talk_support :: attr_fn where
  "camera_av_stream_management_attribute_two_way_talk_support =
     guarded (Has_Feature camera_av_stream_management_speaker_id) (attr 0x0009 ATTRIBUTE_FLAG_MANAGED_INTERNALLY
          VT_ENUM8)"

definition camera_av_stream_management_attribute_snapshot_capabilities :: attr_fn where
  "camera_av_stream_management_attribute_snapshot_capabilities =
     guarded (Has_Feature camera_av_stream_management_snapshot_id) (attr 0x000A ATTRIBUTE_FLAG_MANAGED_INTERNALLY
          VT_ARRAY)"

definition camera_av_stream_management_attribute_max_network_bandwidth :: attr_fn where
  "camera_av_stream_management_attribute_max_network_bandwidth =
     attr 0x000B ATTRIBUTE_FLAG_MANAGED_INTERNALLY VT_UINT32"

definition camera_av_stream_management_attribute_current_frame_rate :: attr_fn where
  "camera_av_stream_management_attribute_current_frame_rate =
     guarded (Has_Feature camera_av_stream_management_video_id) (attr 0x000C ATTRIBUTE_FLAG_MANAGED_INTERNALLY
          VT_UINT16)"

definition camera_av_stream_management_attribute_hdr_mode_enabled :: attr_fn where
  "camera_av_stream_management_attribute_hdr_mode_enabled =
     guarded (Has_Feature camera_av_stream_management_high_dynamic_range_id) (attr 0x000D (ATTRIBUTE_FLAG_WRITABLE
          OR ATTRIBUTE_FLAG_MANAGED_INTERNALLY OR ATTRIBUTE_FLAG_NONVOLATILE) VT_BOOLEAN)"

definition camera_av_stream_management_attribute_supported_stream_usages :: attr_fn where
  "camera_av_stream_management_attribute_supported_stream_usages =
     attr 0x000E ATTRIBUTE_FLAG_MANAGED_INTERNALLY VT_ARRAY"

definition camera_av_stream_management_attribute_allocated_video_streams :: attr_fn where
  "camera_av_stream_management_attribute_allocated_video_streams =
     guarded (Has_Feature camera_av_stream_management_video_id) (attr 0x000F (ATTRIBUTE_FLAG_MANAGED_INTERNALLY OR
          ATTRIBUTE_FLAG_NONVOLATILE) VT_ARRAY)"

definition camera_av_stream_management_attribute_allocated_audio_streams :: attr_fn where
  "camera_av_stream_management_attribute_allocated_audio_streams =
     guarded (Has_Feature camera_av_stream_management_audio_id) (attr 0x0010 (ATTRIBUTE_FLAG_MANAGED_INTERNALLY OR
          ATTRIBUTE_FLAG_NONVOLATILE) VT_ARRAY)"

definition camera_av_stream_management_attribute_allocated_snapshot_streams :: attr_fn where
  "camera_av_stream_management_attribute_allocated_snapshot_streams =
     guarded (Has_Feature camera_av_stream_management_snapshot_id) (attr 0x0011 (ATTRIBUTE_FLAG_MANAGED_INTERNALLY
          OR ATTRIBUTE_FLAG_NONVOLATILE) VT_ARRAY)"

definition camera_av_stream_management_attribute_stream_usage_priorities :: attr_fn where
  "camera_av_stream_management_attribute_stream_usage_priorities =
     attr 0x0012 (ATTRIBUTE_FLAG_MANAGED_INTERNALLY OR ATTRIBUTE_FLAG_NONVOLATILE) VT_ARRAY"

definition camera_av_stream_management_attribute_soft_recording_privacy_mode_enabled :: attr_fn where
  "camera_av_stream_management_attribute_soft_recording_privacy_mode_enabled =
     guarded (Has_Feature camera_av_stream_management_privacy_id) (attr 0x0013 (ATTRIBUTE_FLAG_WRITABLE OR
          ATTRIBUTE_FLAG_MANAGED_INTERNALLY OR ATTRIBUTE_FLAG_NONVOLATILE) VT_BOOLEAN)"

definition camera_av_stream_management_attribute_soft_livestream_privacy_mode_enabled :: attr_fn where
  "camera_av_stream_management_attribute_soft_livestream_privacy_mode_enabled =
     guarded (Has_Feature camera_av_stream_management_privacy_id) (attr 0x0014 (ATTRIBUTE_FLAG_WRITABLE OR
          ATTRIBUTE_FLAG_MANAGED_INTERNALLY OR ATTRIBUTE_FLAG_NONVOLATILE) VT_BOOLEAN)"

definition camera_av_stream_management_attribute_hard_privacy_mode_on :: attr_fn where
  "camera_av_stream_management_attribute_hard_privacy_mode_on =
     attr 0x0015 ATTRIBUTE_FLAG_MANAGED_INTERNALLY VT_BOOLEAN"

definition camera_av_stream_management_attribute_night_vision :: attr_fn where
  "camera_av_stream_management_attribute_night_vision =
     guarded (Has_Feature camera_av_stream_management_night_vision_id) (attr 0x0016 (ATTRIBUTE_FLAG_WRITABLE OR
          ATTRIBUTE_FLAG_MANAGED_INTERNALLY OR ATTRIBUTE_FLAG_NONVOLATILE) VT_ENUM8)"

definition camera_av_stream_management_attribute_night_vision_illum :: attr_fn where
  "camera_av_stream_management_attribute_night_vision_illum =
     attr 0x0017 (ATTRIBUTE_FLAG_WRITABLE OR ATTRIBUTE_FLAG_MANAGED_INTERNALLY OR ATTRIBUTE_FLAG_NONVOLATILE)
          VT_ENUM8"

definition camera_av_stream_management_attribute_viewport :: attr_fn where
  "camera_av_stream_management_attribute_viewport =
     guarded (Has_Feature camera_av_stream_management_video_id) (attr 0x0018 (ATTRIBUTE_FLAG_WRITABLE OR
          ATTRIBUTE_FLAG_MANAGED_INTERNALLY OR ATTRIBUTE_FLAG_NONVOLATILE) VT_ARRAY)"

definition camera_av_stream_management_attribute_speaker_muted :: attr_fn where
  "camera_av_stream_management_attribute_speaker_muted =
     guarded (Has_Feature camera_av_stream_management_speaker_id) (attr 0x0019 (ATTRIBUTE_FLAG_WRITABLE OR
          ATTRIBUTE_FLAG_MANAGED_INTERNALLY OR ATTRIBUTE_FLAG_NONVOLATILE) VT_BOOLEAN)"

definition camera_av_stream_management_attribute_speaker_volume_level :: attr_fn where
  "camera_av_stream_management_attribute_speaker_volume_level =
     guarded (Has_Feature camera_av_stream_management_speaker_id) (attr 0x001A (ATTRIBUTE_FLAG_WRITABLE OR
          ATTRIBUTE_FLAG_MANAGED_INTERNALLY OR ATTRIBUTE_FLAG_NONVOLATILE) VT_UINT8)"

definition camera_av_stream_management_attribute_speaker_max_level :: attr_fn where
  "camera_av_stream_management_attribute_speaker_max_level =
     guarded (Has_Feature camera_av_stream_management_speaker_id) (attr 0x001B ATTRIBUTE_FLAG_MANAGED_INTERNALLY
          VT_UINT8)"

definition camera_av_stream_management_attribute_speaker_min_level :: attr_fn where
  "camera_av_stream_management_attribute_speaker_min_level =
     guarded (Has_Feature camera_av_stream_management_speaker_id) (attr 0x001C ATTRIBUTE_FLAG_MANAGED_INTERNALLY
          VT_UINT8)"

definition camera_av_stream_management_attribute_microphone_muted :: attr_fn where
  "camera_av_stream_management_attribute_microphone_muted =
     guarded (Has_Feature camera_av_stream_management_audio_id) (attr 0x001D (ATTRIBUTE_FLAG_WRITABLE OR
          ATTRIBUTE_FLAG_MANAGED_INTERNALLY OR ATTRIBUTE_FLAG_NONVOLATILE) VT_BOOLEAN)"

definition camera_av_stream_management_attribute_microphone_volume_level :: attr_fn where
  "camera_av_stream_management_attribute_microphone_volume_level =
     guarded (Has_Feature camera_av_stream_management_audio_id) (attr 0x001E (ATTRIBUTE_FLAG_WRITABLE OR
          ATTRIBUTE_FLAG_MANAGED_INTERNALLY OR ATTRIBUTE_FLAG_NONVOLATILE) VT_UINT8)"

definition camera_av_stream_management_attribute_microphone_max_level :: attr_fn where
  "camera_av_stream_management_attribute_microphone_max_level =
     guarded (Has_Feature camera_av_stream_management_audio_id) (attr 0x001F ATTRIBUTE_FLAG_MANAGED_INTERNALLY
          VT_UINT8)"

definition camera_av_stream_management_attribute_microphone_min_level :: attr_fn where
  "camera_av_stream_management_attribute_microphone_min_level =
     guarded (Has_Feature camera_av_stream_management_audio_id) (attr 0x0020 ATTRIBUTE_FLAG_MANAGED_INTERNALLY
          VT_UINT8)"

definition camera_av_stream_management_attribute_microphone_agc_enabled :: attr_fn where
  "camera_av_stream_management_attribute_microphone_agc_enabled =
     attr 0x0021 (ATTRIBUTE_FLAG_WRITABLE OR ATTRIBUTE_FLAG_MANAGED_INTERNALLY OR ATTRIBUTE_FLAG_NONVOLATILE)
          VT_BOOLEAN"

definition camera_av_stream_management_attribute_image_rotation :: attr_fn where
  "camera_av_stream_management_attribute_image_rotation =
     attr 0x0022 (ATTRIBUTE_FLAG_WRITABLE OR ATTRIBUTE_FLAG_MANAGED_INTERNALLY OR ATTRIBUTE_FLAG_NONVOLATILE)
          VT_UINT16"

definition camera_av_stream_management_attribute_image_flip_horizontal :: attr_fn where
  "camera_av_stream_management_attribute_image_flip_horizontal =
     attr 0x0023 (ATTRIBUTE_FLAG_WRITABLE OR ATTRIBUTE_FLAG_MANAGED_INTERNALLY OR ATTRIBUTE_FLAG_NONVOLATILE)
          VT_BOOLEAN"

definition camera_av_stream_management_attribute_image_flip_vertical :: attr_fn where
  "camera_av_stream_management_attribute_image_flip_vertical =
     attr 0x0024 (ATTRIBUTE_FLAG_WRITABLE OR ATTRIBUTE_FLAG_MANAGED_INTERNALLY OR ATTRIBUTE_FLAG_NONVOLATILE)
          VT_BOOLEAN"

definition camera_av_stream_management_attribute_local_video_recording_enabled :: attr_fn where
  "camera_av_stream_management_attribute_local_video_recording_enabled =
     guarded (And (Has_Feature camera_av_stream_management_video_id) (Has_Feature
          camera_av_stream_management_local_storage_id)) (attr 0x0025 (ATTRIBUTE_FLAG_WRITABLE OR
          ATTRIBUTE_FLAG_MANAGED_INTERNALLY OR ATTRIBUTE_FLAG_NONVOLATILE) VT_BOOLEAN)"

definition camera_av_stream_management_attribute_local_snapshot_recording_enabled :: attr_fn where
  "camera_av_stream_management_attribute_local_snapshot_recording_enabled =
     guarded (And (Has_Feature camera_av_stream_management_snapshot_id) (Has_Feature
          camera_av_stream_management_local_storage_id)) (attr 0x0026 (ATTRIBUTE_FLAG_WRITABLE OR
          ATTRIBUTE_FLAG_MANAGED_INTERNALLY OR ATTRIBUTE_FLAG_NONVOLATILE) VT_BOOLEAN)"

definition camera_av_stream_management_attribute_status_light_enabled :: attr_fn where
  "camera_av_stream_management_attribute_status_light_enabled =
     attr 0x0027 (ATTRIBUTE_FLAG_WRITABLE OR ATTRIBUTE_FLAG_MANAGED_INTERNALLY OR ATTRIBUTE_FLAG_NONVOLATILE)
          VT_BOOLEAN"

definition camera_av_stream_management_attribute_status_light_brightness :: attr_fn where
  "camera_av_stream_management_attribute_status_light_brightness =
     attr 0x0028 (ATTRIBUTE_FLAG_WRITABLE OR ATTRIBUTE_FLAG_MANAGED_INTERNALLY OR ATTRIBUTE_FLAG_NONVOLATILE)
          VT_ENUM8"

definition camera_av_stream_management_command_audio_stream_allocate :: cmd_fn where
  "camera_av_stream_management_command_audio_stream_allocate =
     guarded_cmd (Has_Feature camera_av_stream_management_audio_id) (cmd 0x00 COMMAND_FLAG_ACCEPTED None)"

definition camera_av_stream_management_command_audio_stream_allocate_response :: cmd_fn where
  "camera_av_stream_management_command_audio_stream_allocate_response =
     guarded_cmd (Has_Feature camera_av_stream_management_audio_id) (cmd 0x01 COMMAND_FLAG_GENERATED None)"

definition camera_av_stream_management_command_audio_stream_deallocate :: cmd_fn where
  "camera_av_stream_management_command_audio_stream_deallocate =
     guarded_cmd (Has_Feature camera_av_stream_management_audio_id) (cmd 0x02 COMMAND_FLAG_ACCEPTED None)"

definition camera_av_stream_management_command_video_stream_allocate :: cmd_fn where
  "camera_av_stream_management_command_video_stream_allocate =
     guarded_cmd (Has_Feature camera_av_stream_management_video_id) (cmd 0x03 COMMAND_FLAG_ACCEPTED None)"

definition camera_av_stream_management_command_video_stream_allocate_response :: cmd_fn where
  "camera_av_stream_management_command_video_stream_allocate_response =
     guarded_cmd (Has_Feature camera_av_stream_management_video_id) (cmd 0x04 COMMAND_FLAG_GENERATED None)"

definition camera_av_stream_management_command_video_stream_modify :: cmd_fn where
  "camera_av_stream_management_command_video_stream_modify =
     guarded_cmd (And (Has_Feature camera_av_stream_management_video_id) (Or (Has_Feature
          camera_av_stream_management_watermark_id) (Has_Feature
          camera_av_stream_management_on_screen_display_id))) (cmd 0x05 COMMAND_FLAG_ACCEPTED None)"

definition camera_av_stream_management_command_video_stream_deallocate :: cmd_fn where
  "camera_av_stream_management_command_video_stream_deallocate =
     guarded_cmd (Has_Feature camera_av_stream_management_video_id) (cmd 0x06 COMMAND_FLAG_ACCEPTED None)"

definition camera_av_stream_management_command_snapshot_stream_allocate :: cmd_fn where
  "camera_av_stream_management_command_snapshot_stream_allocate =
     guarded_cmd (Has_Feature camera_av_stream_management_snapshot_id) (cmd 0x07 COMMAND_FLAG_ACCEPTED None)"

definition camera_av_stream_management_command_snapshot_stream_allocate_response :: cmd_fn where
  "camera_av_stream_management_command_snapshot_stream_allocate_response =
     guarded_cmd (Has_Feature camera_av_stream_management_snapshot_id) (cmd 0x08 COMMAND_FLAG_GENERATED None)"

definition camera_av_stream_management_command_snapshot_stream_modify :: cmd_fn where
  "camera_av_stream_management_command_snapshot_stream_modify =
     guarded_cmd (And (Has_Feature camera_av_stream_management_snapshot_id) (Or (Has_Feature
          camera_av_stream_management_watermark_id) (Has_Feature
          camera_av_stream_management_on_screen_display_id))) (cmd 0x09 COMMAND_FLAG_ACCEPTED None)"

definition camera_av_stream_management_command_snapshot_stream_deallocate :: cmd_fn where
  "camera_av_stream_management_command_snapshot_stream_deallocate =
     guarded_cmd (Has_Feature camera_av_stream_management_snapshot_id) (cmd 0x0A COMMAND_FLAG_ACCEPTED None)"

definition camera_av_stream_management_command_set_stream_priorities :: cmd_fn where
  "camera_av_stream_management_command_set_stream_priorities =
     cmd 0x0B COMMAND_FLAG_ACCEPTED None"

definition camera_av_stream_management_command_capture_snapshot :: cmd_fn where
  "camera_av_stream_management_command_capture_snapshot =
     guarded_cmd (Has_Feature camera_av_stream_management_snapshot_id) (cmd 0x0C COMMAND_FLAG_ACCEPTED None)"

definition camera_av_stream_management_command_capture_snapshot_response :: cmd_fn where
  "camera_av_stream_management_command_capture_snapshot_response =
     guarded_cmd (Has_Feature camera_av_stream_management_snapshot_id) (cmd 0x0D COMMAND_FLAG_GENERATED None)"

definition camera_av_stream_management_feature_audio :: feature_fn where
  "camera_av_stream_management_feature_audio =
     feature camera_av_stream_management_audio_id False [Update_Feature_Map,
        Attribute camera_av_stream_management_attribute_microphone_capabilities Null_Arr,
        Attribute camera_av_stream_management_attribute_allocated_audio_streams Null_Arr,
        Attribute camera_av_stream_management_attribute_microphone_muted (Lit 0),
        Attribute camera_av_stream_management_attribute_microphone_volume_level (Lit 0),
        Attribute camera_av_stream_management_attribute_microphone_max_level (Lit 0),
        Attribute camera_av_stream_management_attribute_microphone_min_level (Lit 0),
        Command camera_av_stream_management_command_audio_stream_allocate,
        Command camera_av_stream_management_command_audio_stream_allocate_response,
        Command camera_av_stream_management_command_audio_stream_deallocate]"

definition camera_av_stream_management_feature_video :: feature_fn where
  "camera_av_stream_management_feature_video =
     feature camera_av_stream_management_video_id False [Update_Feature_Map,
        Attribute camera_av_stream_management_attribute_max_concurrent_encoders (Lit 0),
        Attribute camera_av_stream_management_attribute_max_encoded_pixel_rate (Lit 0),
        Attribute camera_av_stream_management_attribute_video_sensor_params Null_Arr,
        Attribute camera_av_stream_management_attribute_min_viewport_resolution Null_Arr,
        Attribute camera_av_stream_management_attribute_rate_distortion_trade_off_points Null_Arr,
        Attribute camera_av_stream_management_attribute_current_frame_rate (Lit 0),
        Attribute camera_av_stream_management_attribute_allocated_video_streams Null_Arr,
        Attribute camera_av_stream_management_attribute_viewport Null_Arr,
        Attribute camera_av_stream_management_attribute_local_video_recording_enabled (Lit 0),
        Command camera_av_stream_management_command_video_stream_allocate,
        Command camera_av_stream_management_command_video_stream_allocate_response,
        Command camera_av_stream_management_command_video_stream_modify,
        Command camera_av_stream_management_command_video_stream_deallocate]"

definition camera_av_stream_management_feature_snapshot :: feature_fn where
  "camera_av_stream_management_feature_snapshot =
     feature camera_av_stream_management_snapshot_id False [Update_Feature_Map,
        Attribute camera_av_stream_management_attribute_max_concurrent_encoders (Lit 0),
        Attribute camera_av_stream_management_attribute_max_encoded_pixel_rate (Lit 0),
        Attribute camera_av_stream_management_attribute_snapshot_capabilities Null_Arr,
        Attribute camera_av_stream_management_attribute_allocated_snapshot_streams Null_Arr,
        Attribute camera_av_stream_management_attribute_local_snapshot_recording_enabled (Lit 0),
        Command camera_av_stream_management_command_snapshot_stream_allocate,
        Command camera_av_stream_management_command_snapshot_stream_allocate_response,
        Command camera_av_stream_management_command_snapshot_stream_modify,
        Command camera_av_stream_management_command_snapshot_stream_deallocate,
        Command camera_av_stream_management_command_capture_snapshot,
        Command camera_av_stream_management_command_capture_snapshot_response]"

definition camera_av_stream_management_feature_privacy :: feature_fn where
  "camera_av_stream_management_feature_privacy =
     feature camera_av_stream_management_privacy_id False [Update_Feature_Map,
        Attribute camera_av_stream_management_attribute_soft_recording_privacy_mode_enabled (Lit 0),
        Attribute camera_av_stream_management_attribute_soft_livestream_privacy_mode_enabled (Lit 0)]"

definition camera_av_stream_management_feature_speaker :: feature_fn where
  "camera_av_stream_management_feature_speaker =
     feature camera_av_stream_management_speaker_id False [Require (Has_Feature
          camera_av_stream_management_audio_id), Update_Feature_Map,
        Attribute camera_av_stream_management_attribute_speaker_capabilities Null_Arr,
        Attribute camera_av_stream_management_attribute_two_way_talk_support (Lit 0),
        Attribute camera_av_stream_management_attribute_speaker_muted (Lit 0),
        Attribute camera_av_stream_management_attribute_speaker_volume_level (Lit 0),
        Attribute camera_av_stream_management_attribute_speaker_max_level (Lit 0),
        Attribute camera_av_stream_management_attribute_speaker_min_level (Lit 0)]"

definition camera_av_stream_management_feature_image_control :: feature_fn where
  "camera_av_stream_management_feature_image_control =
     feature camera_av_stream_management_image_control_id False [Require (Or (Has_Feature
          camera_av_stream_management_video_id) (Has_Feature camera_av_stream_management_snapshot_id)),
        Update_Feature_Map]"

definition camera_av_stream_management_feature_watermark :: feature_fn where
  "camera_av_stream_management_feature_watermark =
     feature camera_av_stream_management_watermark_id False [Require (Or (Has_Feature
          camera_av_stream_management_video_id) (Has_Feature camera_av_stream_management_snapshot_id)),
        Update_Feature_Map, Command camera_av_stream_management_command_video_stream_modify,
        Command camera_av_stream_management_command_snapshot_stream_modify]"

definition camera_av_stream_management_feature_on_screen_display :: feature_fn where
  "camera_av_stream_management_feature_on_screen_display =
     feature camera_av_stream_management_on_screen_display_id False [Require (Or (Has_Feature
          camera_av_stream_management_video_id) (Has_Feature camera_av_stream_management_snapshot_id)),
        Update_Feature_Map, Command camera_av_stream_management_command_video_stream_modify,
        Command camera_av_stream_management_command_snapshot_stream_modify]"

definition camera_av_stream_management_feature_local_storage :: feature_fn where
  "camera_av_stream_management_feature_local_storage =
     feature camera_av_stream_management_local_storage_id False [Update_Feature_Map,
        Attribute camera_av_stream_management_attribute_local_video_recording_enabled (Lit 0),
        Attribute camera_av_stream_management_attribute_local_snapshot_recording_enabled (Lit 0)]"

definition camera_av_stream_management_feature_high_dynamic_range :: feature_fn where
  "camera_av_stream_management_feature_high_dynamic_range =
     feature camera_av_stream_management_high_dynamic_range_id False [Require (Or (Has_Feature
          camera_av_stream_management_video_id) (Has_Feature camera_av_stream_management_snapshot_id)),
        Update_Feature_Map, Attribute camera_av_stream_management_attribute_hdr_mode_enabled (Lit 0)]"

definition camera_av_stream_management_feature_night_vision :: feature_fn where
  "camera_av_stream_management_feature_night_vision =
     feature camera_av_stream_management_night_vision_id False [Require (Or (Has_Feature
          camera_av_stream_management_video_id) (Has_Feature camera_av_stream_management_snapshot_id)),
        Update_Feature_Map, Attribute camera_av_stream_management_attribute_night_vision_uses_infrared (Lit 0),
        Attribute camera_av_stream_management_attribute_night_vision (Lit 0)]"

definition camera_av_stream_management_create :: cluster_fn where
  "camera_av_stream_management_create =
     \<lparr>kf_id = 0x0551,
      kf_revision = 1,
      kf_functions = None,
      kf_function_flags = 0,
      kf_body = [Plugin ''MatterCameraAvStreamManagementPluginServerInitCallback'', Functions,
        Config_Feature_Map, Cluster_Revision,
        Step (Attribute camera_av_stream_management_attribute_max_content_buffer_size (Lit 0)),
        Step (Attribute camera_av_stream_management_attribute_max_network_bandwidth (Lit 0)),
        Step (Attribute camera_av_stream_management_attribute_supported_stream_usages Null_Arr),
        Step (Attribute camera_av_stream_management_attribute_stream_usage_priorities Null_Arr),
        Validate k_at_least_one [camera_av_stream_management_audio_id, camera_av_stream_management_video_id,
        camera_av_stream_management_snapshot_id],
        If_Feature camera_av_stream_management_audio_id [Add_Feature camera_av_stream_management_feature_audio
          ''audio''] [],
        If_Feature camera_av_stream_management_video_id [Add_Feature camera_av_stream_management_feature_video
          ''video''] [],
        If_Feature camera_av_stream_management_snapshot_id [Add_Feature
          camera_av_stream_management_feature_snapshot ''snapshot''] [],
        If_Feature camera_av_stream_management_privacy_id [Add_Feature
          camera_av_stream_management_feature_privacy ''privacy''] [],
        If_Feature camera_av_stream_management_speaker_id [Add_Feature
          camera_av_stream_management_feature_speaker ''speaker''] [],
        If_Feature camera_av_stream_management_image_control_id [Add_Feature
          camera_av_stream_management_feature_image_control ''image_control''] [],
        If_Feature camera_av_stream_management_watermark_id [Add_Feature
          camera_av_stream_management_feature_watermark ''watermark''] [],
        If_Feature camera_av_stream_management_on_screen_display_id [Add_Feature
          camera_av_stream_management_feature_on_screen_display ''on_screen_display''] [],
        If_Feature camera_av_stream_management_local_storage_id [Add_Feature
          camera_av_stream_management_feature_local_storage ''local_storage''] [],
        If_Feature camera_av_stream_management_high_dynamic_range_id [Add_Feature
          camera_av_stream_management_feature_high_dynamic_range ''high_dynamic_range''] [],
        If_Feature camera_av_stream_management_night_vision_id [Add_Feature
          camera_av_stream_management_feature_night_vision ''night_vision''] [],
        Step (Command camera_av_stream_management_command_set_stream_priorities)],
      kf_binding = True\<rparr>"

definition camera_av_stream_management_ids :: cluster_ids where
  "camera_av_stream_management_ids =
     \<lparr>ci_cluster = 0x0551,
      ci_features = [(''Audio'', 0x1), (''Video'', 0x2), (''Snapshot'', 0x4), (''Privacy'', 0x8), (''Speaker'',
        0x10), (''ImageControl'', 0x20), (''Watermark'', 0x40), (''OnScreenDisplay'', 0x80), (''LocalStorage'',
        0x100), (''HighDynamicRange'', 0x200), (''NightVision'', 0x400)],
      ci_attributes = [(''MaxConcurrentEncoders'', 0x0000), (''MaxEncodedPixelRate'', 0x0001),
        (''VideoSensorParams'', 0x0002), (''NightVisionUsesInfrared'', 0x0003), (''MinViewportResolution'',
        0x0004), (''RateDistortionTradeOffPoints'', 0x0005), (''MaxContentBufferSize'', 0x0006),
        (''MicrophoneCapabilities'', 0x0007), (''SpeakerCapabilities'', 0x0008), (''TwoWayTalkSupport'',
        0x0009), (''SnapshotCapabilities'', 0x000A), (''MaxNetworkBandwidth'', 0x000B), (''CurrentFrameRate'',
        0x000C), (''HDRModeEnabled'', 0x000D), (''SupportedStreamUsages'', 0x000E), (''AllocatedVideoStreams'',
        0x000F), (''AllocatedAudioStreams'', 0x0010), (''AllocatedSnapshotStreams'', 0x0011),
        (''StreamUsagePriorities'', 0x0012), (''SoftRecordingPrivacyModeEnabled'', 0x0013),
        (''SoftLivestreamPrivacyModeEnabled'', 0x0014), (''HardPrivacyModeOn'', 0x0015), (''NightVision'',
        0x0016), (''NightVisionIllum'', 0x0017), (''Viewport'', 0x0018), (''SpeakerMuted'', 0x0019),
        (''SpeakerVolumeLevel'', 0x001A), (''SpeakerMaxLevel'', 0x001B), (''SpeakerMinLevel'', 0x001C),
        (''MicrophoneMuted'', 0x001D), (''MicrophoneVolumeLevel'', 0x001E), (''MicrophoneMaxLevel'', 0x001F),
        (''MicrophoneMinLevel'', 0x0020), (''MicrophoneAGCEnabled'', 0x0021), (''ImageRotation'', 0x0022),
        (''ImageFlipHorizontal'', 0x0023), (''ImageFlipVertical'', 0x0024), (''LocalVideoRecordingEnabled'',
        0x0025), (''LocalSnapshotRecordingEnabled'', 0x0026), (''StatusLightEnabled'', 0x0027),
        (''StatusLightBrightness'', 0x0028)],
      ci_commands = [(''AudioStreamAllocate'', 0x00), (''AudioStreamAllocateResponse'', 0x01),
        (''AudioStreamDeallocate'', 0x02), (''VideoStreamAllocate'', 0x03), (''VideoStreamAllocateResponse'',
        0x04), (''VideoStreamModify'', 0x05), (''VideoStreamDeallocate'', 0x06), (''SnapshotStreamAllocate'',
        0x07), (''SnapshotStreamAllocateResponse'', 0x08), (''SnapshotStreamModify'', 0x09),
        (''SnapshotStreamDeallocate'', 0x0A), (''SetStreamPriorities'', 0x0B), (''CaptureSnapshot'', 0x0C),
        (''CaptureSnapshotResponse'', 0x0D)],
      ci_events = []\<rparr>"

definition camera_av_stream_management_features :: "feature_fn list" where
  "camera_av_stream_management_features =
     [camera_av_stream_management_feature_audio, camera_av_stream_management_feature_video,
        camera_av_stream_management_feature_snapshot, camera_av_stream_management_feature_privacy,
        camera_av_stream_management_feature_speaker, camera_av_stream_management_feature_image_control,
        camera_av_stream_management_feature_watermark, camera_av_stream_management_feature_on_screen_display,
        camera_av_stream_management_feature_local_storage,
        camera_av_stream_management_feature_high_dynamic_range,
        camera_av_stream_management_feature_night_vision]"

definition camera_av_stream_management_attributes :: "attr_fn list" where
  "camera_av_stream_management_attributes =
     [camera_av_stream_management_attribute_max_concurrent_encoders,
        camera_av_stream_management_attribute_max_encoded_pixel_rate,
        camera_av_stream_management_attribute_video_sensor_params,
        camera_av_stream_management_attribute_night_vision_uses_infrared,
        camera_av_stream_management_attribute_min_viewport_resolution,
        camera_av_stream_management_attribute_rate_distortion_trade_off_points,
        camera_av_stream_management_attribute_max_content_buffer_size,
        camera_av_stream_management_attribute_microphone_capabilities,
        camera_av_stream_management_attribute_speaker_capabilities,
        camera_av_stream_management_attribute_two_way_talk_support,
        camera_av_stream_management_attribute_snapshot_capabilities,
        camera_av_stream_management_attribute_max_network_bandwidth,
        camera_av_stream_management_attribute_current_frame_rate,
        camera_av_stream_management_attribute_hdr_mode_enabled,
        camera_av_stream_management_attribute_supported_stream_usages,
        camera_av_stream_management_attribute_allocated_video_streams,
        camera_av_stream_management_attribute_allocated_audio_streams,
        camera_av_stream_management_attribute_allocated_snapshot_streams,
        camera_av_stream_management_attribute_stream_usage_priorities,
        camera_av_stream_management_attribute_soft_recording_privacy_mode_enabled,
        camera_av_stream_management_attribute_soft_livestream_privacy_mode_enabled,
        camera_av_stream_management_attribute_hard_privacy_mode_on,
        camera_av_stream_management_attribute_night_vision,
        camera_av_stream_management_attribute_night_vision_illum,
        camera_av_stream_management_attribute_viewport, camera_av_stream_management_attribute_speaker_muted,
        camera_av_stream_management_attribute_speaker_volume_level,
        camera_av_stream_management_attribute_speaker_max_level,
        camera_av_stream_management_attribute_speaker_min_level,
        camera_av_stream_management_attribute_microphone_muted,
        camera_av_stream_management_attribute_microphone_volume_level,
        camera_av_stream_management_attribute_microphone_max_level,
        camera_av_stream_management_attribute_microphone_min_level,
        camera_av_stream_management_attribute_microphone_agc_enabled,
        camera_av_stream_management_attribute_image_rotation,
        camera_av_stream_management_attribute_image_flip_horizontal,
        camera_av_stream_management_attribute_image_flip_vertical,
        camera_av_stream_management_attribute_local_video_recording_enabled,
        camera_av_stream_management_attribute_local_snapshot_recording_enabled,
        camera_av_stream_management_attribute_status_light_enabled,
        camera_av_stream_management_attribute_status_light_brightness]"

definition camera_av_stream_management_commands :: "cmd_fn list" where
  "camera_av_stream_management_commands =
     [camera_av_stream_management_command_audio_stream_allocate,
        camera_av_stream_management_command_audio_stream_allocate_response,
        camera_av_stream_management_command_audio_stream_deallocate,
        camera_av_stream_management_command_video_stream_allocate,
        camera_av_stream_management_command_video_stream_allocate_response,
        camera_av_stream_management_command_video_stream_modify,
        camera_av_stream_management_command_video_stream_deallocate,
        camera_av_stream_management_command_snapshot_stream_allocate,
        camera_av_stream_management_command_snapshot_stream_allocate_response,
        camera_av_stream_management_command_snapshot_stream_modify,
        camera_av_stream_management_command_snapshot_stream_deallocate,
        camera_av_stream_management_command_set_stream_priorities,
        camera_av_stream_management_command_capture_snapshot,
        camera_av_stream_management_command_capture_snapshot_response]"

definition camera_av_stream_management_cluster :: cluster_decl where
  "camera_av_stream_management_cluster =
     \<lparr>cd_ids = camera_av_stream_management_ids,
      cd_callbacks = [],
      cd_features = camera_av_stream_management_features,
      cd_attributes = camera_av_stream_management_attributes,
      cd_commands = camera_av_stream_management_commands,
      cd_events = [],
      cd_create = Some camera_av_stream_management_create\<rparr>"

section \<open>\<open>carbon_dioxide_concentration_measurement\<close>\<close>

definition carbon_dioxide_concentration_measurement_numeric_measurement_id :: u32 where
  "carbon_dioxide_concentration_measurement_numeric_measurement_id = 0x1"

definition carbon_dioxide_concentration_measurement_level_indication_id :: u32 where
  "carbon_dioxide_concentration_measurement_level_indication_id = 0x2"

definition carbon_dioxide_concentration_measurement_medium_level_id :: u32 where
  "carbon_dioxide_concentration_measurement_medium_level_id = 0x4"

definition carbon_dioxide_concentration_measurement_critical_level_id :: u32 where
  "carbon_dioxide_concentration_measurement_critical_level_id = 0x8"

definition carbon_dioxide_concentration_measurement_peak_measurement_id :: u32 where
  "carbon_dioxide_concentration_measurement_peak_measurement_id = 0x10"

definition carbon_dioxide_concentration_measurement_average_measurement_id :: u32 where
  "carbon_dioxide_concentration_measurement_average_measurement_id = 0x20"

definition carbon_dioxide_concentration_measurement_attribute_measured_value :: attr_fn where
  "carbon_dioxide_concentration_measurement_attribute_measured_value =
     guarded (Has_Feature carbon_dioxide_concentration_measurement_numeric_measurement_id) (attr 0x0000
          (ATTRIBUTE_FLAG_MANAGED_INTERNALLY OR ATTRIBUTE_FLAG_NULLABLE) VT_NULLABLE_FLOAT)"

definition carbon_dioxide_concentration_measurement_attribute_min_measured_value :: attr_fn where
  "carbon_dioxide_concentration_measurement_attribute_min_measured_value =
     guarded (Has_Feature carbon_dioxide_concentration_measurement_numeric_measurement_id) (attr 0x0001
          (ATTRIBUTE_FLAG_MANAGED_INTERNALLY OR ATTRIBUTE_FLAG_NULLABLE) VT_NULLABLE_FLOAT)"

definition carbon_dioxide_concentration_measurement_attribute_max_measured_value :: attr_fn where
  "carbon_dioxide_concentration_measurement_attribute_max_measured_value =
     guarded (Has_Feature carbon_dioxide_concentration_measurement_numeric_measurement_id) (attr 0x0002
          (ATTRIBUTE_FLAG_MANAGED_INTERNALLY OR ATTRIBUTE_FLAG_NULLABLE) VT_NULLABLE_FLOAT)"

definition carbon_dioxide_concentration_measurement_attribute_peak_measured_value :: attr_fn where
  "carbon_dioxide_concentration_measurement_attribute_peak_measured_value =
     guarded (Has_Feature carbon_dioxide_concentration_measurement_peak_measurement_id) (attr 0x0003
          (ATTRIBUTE_FLAG_MANAGED_INTERNALLY OR ATTRIBUTE_FLAG_NULLABLE) VT_NULLABLE_FLOAT)"

definition carbon_dioxide_concentration_measurement_attribute_peak_measured_value_window :: attr_fn where
  "carbon_dioxide_concentration_measurement_attribute_peak_measured_value_window =
     guarded (Has_Feature carbon_dioxide_concentration_measurement_peak_measurement_id) (attr 0x0004
          ATTRIBUTE_FLAG_MANAGED_INTERNALLY VT_UINT32)"

definition carbon_dioxide_concentration_measurement_attribute_average_measured_value :: attr_fn where
  "carbon_dioxide_concentration_measurement_attribute_average_measured_value =
     guarded (Has_Feature carbon_dioxide_concentration_measurement_average_measurement_id) (attr 0x0005
          (ATTRIBUTE_FLAG_MANAGED_INTERNALLY OR ATTRIBUTE_FLAG_NULLABLE) VT_NULLABLE_FLOAT)"

definition carbon_dioxide_concentration_measurement_attribute_average_measured_value_window :: attr_fn where
  "carbon_dioxide_concentration_measurement_attribute_average_measured_value_window =
     guarded (Has_Feature carbon_dioxide_concentration_measurement_average_measurement_id) (attr 0x0006
          ATTRIBUTE_FLAG_MANAGED_INTERNALLY VT_UINT32)"

definition carbon_dioxide_concentration_measurement_attribute_uncertainty :: attr_fn where
  "carbon_dioxide_concentration_measurement_attribute_uncertainty =
     attr 0x0007 ATTRIBUTE_FLAG_MANAGED_INTERNALLY VT_FLOAT"

definition carbon_dioxide_concentration_measurement_attribute_measurement_unit :: attr_fn where
  "carbon_dioxide_concentration_measurement_attribute_measurement_unit =
     guarded (Has_Feature carbon_dioxide_concentration_measurement_numeric_measurement_id) (attr 0x0008
          ATTRIBUTE_FLAG_MANAGED_INTERNALLY VT_ENUM8)"

definition carbon_dioxide_concentration_measurement_attribute_measurement_medium :: attr_fn where
  "carbon_dioxide_concentration_measurement_attribute_measurement_medium =
     attr 0x0009 ATTRIBUTE_FLAG_MANAGED_INTERNALLY VT_ENUM8"

definition carbon_dioxide_concentration_measurement_attribute_level_value :: attr_fn where
  "carbon_dioxide_concentration_measurement_attribute_level_value =
     guarded (Has_Feature carbon_dioxide_concentration_measurement_level_indication_id) (attr 0x000A
          ATTRIBUTE_FLAG_MANAGED_INTERNALLY VT_ENUM8)"

definition carbon_dioxide_concentration_measurement_feature_numeric_measurement :: feature_fn where
  "carbon_dioxide_concentration_measurement_feature_numeric_measurement =
     feature carbon_dioxide_concentration_measurement_numeric_measurement_id False [Update_Feature_Map,
        Attribute carbon_dioxide_concentration_measurement_attribute_measured_value (Lit 0),
        Attribute carbon_dioxide_concentration_measurement_attribute_min_measured_value (Lit 0),
        Attribute carbon_dioxide_concentration_measurement_attribute_max_measured_value (Lit 0),
        Attribute carbon_dioxide_concentration_measurement_attribute_measurement_unit (Lit 0)]"

definition carbon_dioxide_concentration_measurement_feature_level_indication :: feature_fn where
  "carbon_dioxide_concentration_measurement_feature_level_indication =
     feature carbon_dioxide_concentration_measurement_level_indication_id False [Update_Feature_Map,
        Attribute carbon_dioxide_concentration_measurement_attribute_level_value (Lit 0)]"

definition carbon_dioxide_concentration_measurement_feature_medium_level :: feature_fn where
  "carbon_dioxide_concentration_measurement_feature_medium_level =
     feature carbon_dioxide_concentration_measurement_medium_level_id False [Require (Has_Feature
          carbon_dioxide_concentration_measurement_level_indication_id), Update_Feature_Map]"

definition carbon_dioxide_concentration_measurement_feature_critical_level :: feature_fn where
  "carbon_dioxide_concentration_measurement_feature_critical_level =
     feature carbon_dioxide_concentration_measurement_critical_level_id False [Require (Has_Feature
          carbon_dioxide_concentration_measurement_level_indication_id), Update_Feature_Map]"

definition carbon_dioxide_concentration_measurement_feature_peak_measurement :: feature_fn where
  "carbon_dioxide_concentration_measurement_feature_peak_measurement =
     feature carbon_dioxide_concentration_measurement_peak_measurement_id False [Require (Has_Feature
          carbon_dioxide_concentration_measurement_numeric_measurement_id), Update_Feature_Map,
        Attribute carbon_dioxide_concentration_measurement_attribute_peak_measured_value (Lit 0),
        Attribute carbon_dioxide_concentration_measurement_attribute_peak_measured_value_window (Lit 0)]"

definition carbon_dioxide_concentration_measurement_feature_average_measurement :: feature_fn where
  "carbon_dioxide_concentration_measurement_feature_average_measurement =
     feature carbon_dioxide_concentration_measurement_average_measurement_id False [Require (Has_Feature
          carbon_dioxide_concentration_measurement_numeric_measurement_id), Update_Feature_Map,
        Attribute carbon_dioxide_concentration_measurement_attribute_average_measured_value (Lit 0),
        Attribute carbon_dioxide_concentration_measurement_attribute_average_measured_value_window (Lit 0)]"

definition carbon_dioxide_concentration_measurement_create :: cluster_fn where
  "carbon_dioxide_concentration_measurement_create =
     \<lparr>kf_id = 0x040D,
      kf_revision = 3,
      kf_functions = None,
      kf_function_flags = 0,
      kf_body = [Plugin ''MatterCarbonDioxideConcentrationMeasurementPluginServerInitCallback'', Functions,
        Config_Feature_Map, Cluster_Revision,
        Step (Attribute carbon_dioxide_concentration_measurement_attribute_measurement_medium (Lit 0)),
        Validate k_at_least_one [carbon_dioxide_concentration_measurement_numeric_measurement_id,
        carbon_dioxide_concentration_measurement_level_indication_id],
        If_Feature carbon_dioxide_concentration_measurement_numeric_measurement_id [Add_Feature
          carbon_dioxide_concentration_measurement_feature_numeric_measurement ''numeric_measurement''] [],
        If_Feature carbon_dioxide_concentration_measurement_level_indication_id [Add_Feature
          carbon_dioxide_concentration_measurement_feature_level_indication ''level_indication''] [],
        If_Feature carbon_dioxide_concentration_measurement_medium_level_id [Add_Feature
          carbon_dioxide_concentration_measurement_feature_medium_level ''medium_level''] [],
        If_Feature carbon_dioxide_concentration_measurement_critical_level_id [Add_Feature
          carbon_dioxide_concentration_measurement_feature_critical_level ''critical_level''] [],
        If_Feature carbon_dioxide_concentration_measurement_peak_measurement_id [Add_Feature
          carbon_dioxide_concentration_measurement_feature_peak_measurement ''peak_measurement''] [],
        If_Feature carbon_dioxide_concentration_measurement_average_measurement_id [Add_Feature
          carbon_dioxide_concentration_measurement_feature_average_measurement ''average_measurement''] []],
      kf_binding = True\<rparr>"

definition carbon_dioxide_concentration_measurement_ids :: cluster_ids where
  "carbon_dioxide_concentration_measurement_ids =
     \<lparr>ci_cluster = 0x040D,
      ci_features = [(''NumericMeasurement'', 0x1), (''LevelIndication'', 0x2), (''MediumLevel'', 0x4),
        (''CriticalLevel'', 0x8), (''PeakMeasurement'', 0x10), (''AverageMeasurement'', 0x20)],
      ci_attributes = [(''MeasuredValue'', 0x0000), (''MinMeasuredValue'', 0x0001), (''MaxMeasuredValue'',
        0x0002), (''PeakMeasuredValue'', 0x0003), (''PeakMeasuredValueWindow'', 0x0004),
        (''AverageMeasuredValue'', 0x0005), (''AverageMeasuredValueWindow'', 0x0006), (''Uncertainty'', 0x0007),
        (''MeasurementUnit'', 0x0008), (''MeasurementMedium'', 0x0009), (''LevelValue'', 0x000A)],
      ci_commands = [],
      ci_events = []\<rparr>"

definition carbon_dioxide_concentration_measurement_features :: "feature_fn list" where
  "carbon_dioxide_concentration_measurement_features =
     [carbon_dioxide_concentration_measurement_feature_numeric_measurement,
        carbon_dioxide_concentration_measurement_feature_level_indication,
        carbon_dioxide_concentration_measurement_feature_medium_level,
        carbon_dioxide_concentration_measurement_feature_critical_level,
        carbon_dioxide_concentration_measurement_feature_peak_measurement,
        carbon_dioxide_concentration_measurement_feature_average_measurement]"

definition carbon_dioxide_concentration_measurement_attributes :: "attr_fn list" where
  "carbon_dioxide_concentration_measurement_attributes =
     [carbon_dioxide_concentration_measurement_attribute_measured_value,
        carbon_dioxide_concentration_measurement_attribute_min_measured_value,
        carbon_dioxide_concentration_measurement_attribute_max_measured_value,
        carbon_dioxide_concentration_measurement_attribute_peak_measured_value,
        carbon_dioxide_concentration_measurement_attribute_peak_measured_value_window,
        carbon_dioxide_concentration_measurement_attribute_average_measured_value,
        carbon_dioxide_concentration_measurement_attribute_average_measured_value_window,
        carbon_dioxide_concentration_measurement_attribute_uncertainty,
        carbon_dioxide_concentration_measurement_attribute_measurement_unit,
        carbon_dioxide_concentration_measurement_attribute_measurement_medium,
        carbon_dioxide_concentration_measurement_attribute_level_value]"

definition carbon_dioxide_concentration_measurement_cluster :: cluster_decl where
  "carbon_dioxide_concentration_measurement_cluster =
     \<lparr>cd_ids = carbon_dioxide_concentration_measurement_ids,
      cd_callbacks = [],
      cd_features = carbon_dioxide_concentration_measurement_features,
      cd_attributes = carbon_dioxide_concentration_measurement_attributes,
      cd_commands = [],
      cd_events = [],
      cd_create = Some carbon_dioxide_concentration_measurement_create\<rparr>"

section \<open>\<open>carbon_monoxide_concentration_measurement\<close>\<close>

definition carbon_monoxide_concentration_measurement_numeric_measurement_id :: u32 where
  "carbon_monoxide_concentration_measurement_numeric_measurement_id = 0x1"

definition carbon_monoxide_concentration_measurement_level_indication_id :: u32 where
  "carbon_monoxide_concentration_measurement_level_indication_id = 0x2"

definition carbon_monoxide_concentration_measurement_medium_level_id :: u32 where
  "carbon_monoxide_concentration_measurement_medium_level_id = 0x4"

definition carbon_monoxide_concentration_measurement_critical_level_id :: u32 where
  "carbon_monoxide_concentration_measurement_critical_level_id = 0x8"

definition carbon_monoxide_concentration_measurement_peak_measurement_id :: u32 where
  "carbon_monoxide_concentration_measurement_peak_measurement_id = 0x10"

definition carbon_monoxide_concentration_measurement_average_measurement_id :: u32 where
  "carbon_monoxide_concentration_measurement_average_measurement_id = 0x20"

definition carbon_monoxide_concentration_measurement_attribute_measured_value :: attr_fn where
  "carbon_monoxide_concentration_measurement_attribute_measured_value =
     guarded (Has_Feature carbon_monoxide_concentration_measurement_numeric_measurement_id) (attr 0x0000
          (ATTRIBUTE_FLAG_MANAGED_INTERNALLY OR ATTRIBUTE_FLAG_NULLABLE) VT_NULLABLE_FLOAT)"

definition carbon_monoxide_concentration_measurement_attribute_min_measured_value :: attr_fn where
  "carbon_monoxide_concentration_measurement_attribute_min_measured_value =
     guarded (Has_Feature carbon_monoxide_concentration_measurement_numeric_measurement_id) (attr 0x0001
          (ATTRIBUTE_FLAG_MANAGED_INTERNALLY OR ATTRIBUTE_FLAG_NULLABLE) VT_NULLABLE_FLOAT)"

definition carbon_monoxide_concentration_measurement_attribute_max_measured_value :: attr_fn where
  "carbon_monoxide_concentration_measurement_attribute_max_measured_value =
     guarded (Has_Feature carbon_monoxide_concentration_measurement_numeric_measurement_id) (attr 0x0002
          (ATTRIBUTE_FLAG_MANAGED_INTERNALLY OR ATTRIBUTE_FLAG_NULLABLE) VT_NULLABLE_FLOAT)"

definition carbon_monoxide_concentration_measurement_attribute_peak_measured_value :: attr_fn where
  "carbon_monoxide_concentration_measurement_attribute_peak_measured_value =
     guarded (Has_Feature carbon_monoxide_concentration_measurement_peak_measurement_id) (attr 0x0003
          (ATTRIBUTE_FLAG_MANAGED_INTERNALLY OR ATTRIBUTE_FLAG_NULLABLE) VT_NULLABLE_FLOAT)"

definition carbon_monoxide_concentration_measurement_attribute_peak_measured_value_window :: attr_fn where
  "carbon_monoxide_concentration_measurement_attribute_peak_measured_value_window =
     guarded (Has_Feature carbon_monoxide_concentration_measurement_peak_measurement_id) (attr 0x0004
          ATTRIBUTE_FLAG_MANAGED_INTERNALLY VT_UINT32)"

definition carbon_monoxide_concentration_measurement_attribute_average_measured_value :: attr_fn where
  "carbon_monoxide_concentration_measurement_attribute_average_measured_value =
     guarded (Has_Feature carbon_monoxide_concentration_measurement_average_measurement_id) (attr 0x0005
          (ATTRIBUTE_FLAG_MANAGED_INTERNALLY OR ATTRIBUTE_FLAG_NULLABLE) VT_NULLABLE_FLOAT)"

definition carbon_monoxide_concentration_measurement_attribute_average_measured_value_window :: attr_fn where
  "carbon_monoxide_concentration_measurement_attribute_average_measured_value_window =
     guarded (Has_Feature carbon_monoxide_concentration_measurement_average_measurement_id) (attr 0x0006
          ATTRIBUTE_FLAG_MANAGED_INTERNALLY VT_UINT32)"

definition carbon_monoxide_concentration_measurement_attribute_uncertainty :: attr_fn where
  "carbon_monoxide_concentration_measurement_attribute_uncertainty =
     attr 0x0007 ATTRIBUTE_FLAG_MANAGED_INTERNALLY VT_FLOAT"

definition carbon_monoxide_concentration_measurement_attribute_measurement_unit :: attr_fn where
  "carbon_monoxide_concentration_measurement_attribute_measurement_unit =
     guarded (Has_Feature carbon_monoxide_concentration_measurement_numeric_measurement_id) (attr 0x0008
          ATTRIBUTE_FLAG_MANAGED_INTERNALLY VT_ENUM8)"

definition carbon_monoxide_concentration_measurement_attribute_measurement_medium :: attr_fn where
  "carbon_monoxide_concentration_measurement_attribute_measurement_medium =
     attr 0x0009 ATTRIBUTE_FLAG_MANAGED_INTERNALLY VT_ENUM8"

definition carbon_monoxide_concentration_measurement_attribute_level_value :: attr_fn where
  "carbon_monoxide_concentration_measurement_attribute_level_value =
     guarded (Has_Feature carbon_monoxide_concentration_measurement_level_indication_id) (attr 0x000A
          ATTRIBUTE_FLAG_MANAGED_INTERNALLY VT_ENUM8)"

definition carbon_monoxide_concentration_measurement_feature_numeric_measurement :: feature_fn where
  "carbon_monoxide_concentration_measurement_feature_numeric_measurement =
     feature carbon_monoxide_concentration_measurement_numeric_measurement_id False [Update_Feature_Map,
        Attribute carbon_monoxide_concentration_measurement_attribute_measured_value (Lit 0),
        Attribute carbon_monoxide_concentration_measurement_attribute_min_measured_value (Lit 0),
        Attribute carbon_monoxide_concentration_measurement_attribute_max_measured_value (Lit 0),
        Attribute carbon_monoxide_concentration_measurement_attribute_measurement_unit (Lit 0)]"

definition carbon_monoxide_concentration_measurement_feature_level_indication :: feature_fn where
  "carbon_monoxide_concentration_measurement_feature_level_indication =
     feature carbon_monoxide_concentration_measurement_level_indication_id False [Update_Feature_Map,
        Attribute carbon_monoxide_concentration_measurement_attribute_level_value (Lit 0)]"

definition carbon_monoxide_concentration_measurement_feature_medium_level :: feature_fn where
  "carbon_monoxide_concentration_measurement_feature_medium_level =
     feature carbon_monoxide_concentration_measurement_medium_level_id False [Require (Has_Feature
          carbon_monoxide_concentration_measurement_level_indication_id), Update_Feature_Map]"

definition carbon_monoxide_concentration_measurement_feature_critical_level :: feature_fn where
  "carbon_monoxide_concentration_measurement_feature_critical_level =
     feature carbon_monoxide_concentration_measurement_critical_level_id False [Require (Has_Feature
          carbon_monoxide_concentration_measurement_level_indication_id), Update_Feature_Map]"

definition carbon_monoxide_concentration_measurement_feature_peak_measurement :: feature_fn where
  "carbon_monoxide_concentration_measurement_feature_peak_measurement =
     feature carbon_monoxide_concentration_measurement_peak_measurement_id False [Require (Has_Feature
          carbon_monoxide_concentration_measurement_numeric_measurement_id), Update_Feature_Map,
        Attribute carbon_monoxide_concentration_measurement_attribute_peak_measured_value (Lit 0),
        Attribute carbon_monoxide_concentration_measurement_attribute_peak_measured_value_window (Lit 0)]"

definition carbon_monoxide_concentration_measurement_feature_average_measurement :: feature_fn where
  "carbon_monoxide_concentration_measurement_feature_average_measurement =
     feature carbon_monoxide_concentration_measurement_average_measurement_id False [Require (Has_Feature
          carbon_monoxide_concentration_measurement_numeric_measurement_id), Update_Feature_Map,
        Attribute carbon_monoxide_concentration_measurement_attribute_average_measured_value (Lit 0),
        Attribute carbon_monoxide_concentration_measurement_attribute_average_measured_value_window (Lit 0)]"

definition carbon_monoxide_concentration_measurement_create :: cluster_fn where
  "carbon_monoxide_concentration_measurement_create =
     \<lparr>kf_id = 0x040C,
      kf_revision = 3,
      kf_functions = None,
      kf_function_flags = 0,
      kf_body = [Plugin ''MatterCarbonMonoxideConcentrationMeasurementPluginServerInitCallback'', Functions,
        Config_Feature_Map, Cluster_Revision,
        Step (Attribute carbon_monoxide_concentration_measurement_attribute_measurement_medium (Lit 0)),
        Validate k_at_least_one [carbon_monoxide_concentration_measurement_numeric_measurement_id,
        carbon_monoxide_concentration_measurement_level_indication_id],
        If_Feature carbon_monoxide_concentration_measurement_numeric_measurement_id [Add_Feature
          carbon_monoxide_concentration_measurement_feature_numeric_measurement ''numeric_measurement''] [],
        If_Feature carbon_monoxide_concentration_measurement_level_indication_id [Add_Feature
          carbon_monoxide_concentration_measurement_feature_level_indication ''level_indication''] [],
        If_Feature carbon_monoxide_concentration_measurement_medium_level_id [Add_Feature
          carbon_monoxide_concentration_measurement_feature_medium_level ''medium_level''] [],
        If_Feature carbon_monoxide_concentration_measurement_critical_level_id [Add_Feature
          carbon_monoxide_concentration_measurement_feature_critical_level ''critical_level''] [],
        If_Feature carbon_monoxide_concentration_measurement_peak_measurement_id [Add_Feature
          carbon_monoxide_concentration_measurement_feature_peak_measurement ''peak_measurement''] [],
        If_Feature carbon_monoxide_concentration_measurement_average_measurement_id [Add_Feature
          carbon_monoxide_concentration_measurement_feature_average_measurement ''average_measurement''] []],
      kf_binding = True\<rparr>"

definition carbon_monoxide_concentration_measurement_ids :: cluster_ids where
  "carbon_monoxide_concentration_measurement_ids =
     \<lparr>ci_cluster = 0x040C,
      ci_features = [(''NumericMeasurement'', 0x1), (''LevelIndication'', 0x2), (''MediumLevel'', 0x4),
        (''CriticalLevel'', 0x8), (''PeakMeasurement'', 0x10), (''AverageMeasurement'', 0x20)],
      ci_attributes = [(''MeasuredValue'', 0x0000), (''MinMeasuredValue'', 0x0001), (''MaxMeasuredValue'',
        0x0002), (''PeakMeasuredValue'', 0x0003), (''PeakMeasuredValueWindow'', 0x0004),
        (''AverageMeasuredValue'', 0x0005), (''AverageMeasuredValueWindow'', 0x0006), (''Uncertainty'', 0x0007),
        (''MeasurementUnit'', 0x0008), (''MeasurementMedium'', 0x0009), (''LevelValue'', 0x000A)],
      ci_commands = [],
      ci_events = []\<rparr>"

definition carbon_monoxide_concentration_measurement_features :: "feature_fn list" where
  "carbon_monoxide_concentration_measurement_features =
     [carbon_monoxide_concentration_measurement_feature_numeric_measurement,
        carbon_monoxide_concentration_measurement_feature_level_indication,
        carbon_monoxide_concentration_measurement_feature_medium_level,
        carbon_monoxide_concentration_measurement_feature_critical_level,
        carbon_monoxide_concentration_measurement_feature_peak_measurement,
        carbon_monoxide_concentration_measurement_feature_average_measurement]"

definition carbon_monoxide_concentration_measurement_attributes :: "attr_fn list" where
  "carbon_monoxide_concentration_measurement_attributes =
     [carbon_monoxide_concentration_measurement_attribute_measured_value,
        carbon_monoxide_concentration_measurement_attribute_min_measured_value,
        carbon_monoxide_concentration_measurement_attribute_max_measured_value,
        carbon_monoxide_concentration_measurement_attribute_peak_measured_value,
        carbon_monoxide_concentration_measurement_attribute_peak_measured_value_window,
        carbon_monoxide_concentration_measurement_attribute_average_measured_value,
        carbon_monoxide_concentration_measurement_attribute_average_measured_value_window,
        carbon_monoxide_concentration_measurement_attribute_uncertainty,
        carbon_monoxide_concentration_measurement_attribute_measurement_unit,
        carbon_monoxide_concentration_measurement_attribute_measurement_medium,
        carbon_monoxide_concentration_measurement_attribute_level_value]"

definition carbon_monoxide_concentration_measurement_cluster :: cluster_decl where
  "carbon_monoxide_concentration_measurement_cluster =
     \<lparr>cd_ids = carbon_monoxide_concentration_measurement_ids,
      cd_callbacks = [],
      cd_features = carbon_monoxide_concentration_measurement_features,
      cd_attributes = carbon_monoxide_concentration_measurement_attributes,
      cd_commands = [],
      cd_events = [],
      cd_create = Some carbon_monoxide_concentration_measurement_create\<rparr>"

section \<open>\<open>channel\<close>\<close>

definition channel_channel_list_id :: u32 where
  "channel_channel_list_id = 0x1"

definition channel_lineup_info_id :: u32 where
  "channel_lineup_info_id = 0x2"

definition channel_electronic_guide_id :: u32 where
  "channel_electronic_guide_id = 0x4"

definition channel_record_program_id :: u32 where
  "channel_record_program_id = 0x8"

definition channel_attribute_channel_list :: attr_fn where
  "channel_attribute_channel_list =
     guarded (Has_Feature channel_channel_list_id) (attr 0x0000 ATTRIBUTE_FLAG_MANAGED_INTERNALLY VT_ARRAY)"

definition channel_attribute_lineup :: attr_fn where
  "channel_attribute_lineup =
     guarded (Has_Feature channel_lineup_info_id) (attr 0x0001 (ATTRIBUTE_FLAG_MANAGED_INTERNALLY OR
          ATTRIBUTE_FLAG_NULLABLE) VT_ARRAY)"

definition channel_attribute_current_channel :: attr_fn where
  "channel_attribute_current_channel =
     attr 0x0002 (ATTRIBUTE_FLAG_MANAGED_INTERNALLY OR ATTRIBUTE_FLAG_NULLABLE) VT_ARRAY"

definition channel_callback_change_channel :: callback_fn where
  "channel_callback_change_channel =
     decodes_to ''Channel::Commands::ChangeChannel'' ''emberAfChannelClusterChangeChannelCallback''"

definition channel_callback_change_channel_by_number :: callback_fn where
  "channel_callback_change_channel_by_number =
     decodes_to ''Channel::Commands::ChangeChannelByNumber'' ''emberAfChannelClusterChangeChannelByNumberCallback''"

definition channel_callback_skip_channel :: callback_fn where
  "channel_callback_skip_channel =
     decodes_to ''Channel::Commands::SkipChannel'' ''emberAfChannelClusterSkipChannelCallback''"

definition channel_callback_get_program_guide :: callback_fn where
  "channel_callback_get_program_guide =
     decodes_to ''Channel::Commands::GetProgramGuide'' ''emberAfChannelClusterGetProgramGuideCallback''"

definition channel_callback_record_program :: callback_fn where
  "channel_callback_record_program =
     decodes_to ''Channel::Commands::RecordProgram'' ''emberAfChannelClusterRecordProgramCallback''"

definition channel_callback_cancel_record_program :: callback_fn where
  "channel_callback_cancel_record_program =
     decodes_to ''Channel::Commands::CancelRecordProgram'' ''emberAfChannelClusterCancelRecordProgramCallback''"

definition channel_command_change_channel :: cmd_fn where
  "channel_command_change_channel =
     guarded_cmd (Or (Has_Feature channel_channel_list_id) (Has_Feature channel_lineup_info_id)) (cmd 0x00
          COMMAND_FLAG_ACCEPTED (Some ''channel.esp_matter_command_callback_change_channel''))"

definition channel_command_change_channel_response :: cmd_fn where
  "channel_command_change_channel_response =
     guarded_cmd (Or (Has_Feature channel_channel_list_id) (Has_Feature channel_lineup_info_id)) (cmd 0x01
          COMMAND_FLAG_GENERATED None)"

definition channel_command_change_channel_by_number :: cmd_fn where
  "channel_command_change_channel_by_number =
     cmd 0x02 COMMAND_FLAG_ACCEPTED (Some ''channel.esp_matter_command_callback_change_channel_by_number'')"

definition channel_command_skip_channel :: cmd_fn where
  "channel_command_skip_channel =
     cmd 0x03 COMMAND_FLAG_ACCEPTED (Some ''channel.esp_matter_command_callback_skip_channel'')"

definition channel_command_get_program_guide :: cmd_fn where
  "channel_command_get_program_guide =
     guarded_cmd (Has_Feature channel_electronic_guide_id) (cmd 0x04 COMMAND_FLAG_ACCEPTED (Some
          ''channel.esp_matter_command_callback_get_program_guide''))"

definition channel_command_program_guide_response :: cmd_fn where
  "channel_command_program_guide_response =
     guarded_cmd (Has_Feature channel_electronic_guide_id) (cmd 0x05 COMMAND_FLAG_GENERATED None)"

definition channel_command_record_program :: cmd_fn where
  "channel_command_record_program =
     guarded_cmd (And (Has_Feature channel_record_program_id) (Has_Feature channel_electronic_guide_id)) (cmd 0x06
          COMMAND_FLAG_ACCEPTED (Some ''channel.esp_matter_command_callback_record_program''))"

definition channel_command_cancel_record_program :: cmd_fn where
  "channel_command_cancel_record_program =
     guarded_cmd (And (Has_Feature channel_record_program_id) (Has_Feature channel_electronic_guide_id)) (cmd 0x07
          COMMAND_FLAG_ACCEPTED (Some ''channel.esp_matter_command_callback_cancel_record_program''))"

definition channel_feature_channel_list :: feature_fn where
  "channel_feature_channel_list =
     feature channel_channel_list_id False [Update_Feature_Map, Attribute channel_attribute_channel_list Null_Arr,
        Command channel_command_change_channel, Command channel_command_change_channel_response]"

definition channel_feature_lineup_info :: feature_fn where
  "channel_feature_lineup_info =
     feature channel_lineup_info_id False [Update_Feature_Map, Attribute channel_attribute_lineup Null_Arr,
        Command channel_command_change_channel, Command channel_command_change_channel_response]"

definition channel_feature_electronic_guide :: feature_fn where
  "channel_feature_electronic_guide =
     feature channel_electronic_guide_id False [Update_Feature_Map, Command channel_command_get_program_guide,
        Command channel_command_program_guide_response, Command channel_command_record_program,
        Command channel_command_cancel_record_program]"

definition channel_feature_record_program :: feature_fn where
  "channel_feature_record_program =
     feature channel_record_program_id False [Update_Feature_Map, Command channel_command_record_program,
        Command channel_command_cancel_record_program]"

definition channel_create :: cluster_fn where
  "channel_create =
     \<lparr>kf_id = 0x0504,
      kf_revision = 2,
      kf_functions = None,
      kf_function_flags = 0,
      kf_body = [Delegate ''ChannelDelegateInitCB'', Plugin ''MatterChannelPluginServerInitCallback'',
        Functions, Feature_Map 0, Cluster_Revision, Step (Command channel_command_change_channel_by_number),
        Step (Command channel_command_skip_channel)],
      kf_binding = True\<rparr>"

definition channel_ids :: cluster_ids where
  "channel_ids =
     \<lparr>ci_cluster = 0x0504,
      ci_features = [(''ChannelList'', 0x1), (''LineupInfo'', 0x2), (''ElectronicGuide'', 0x4),
        (''RecordProgram'', 0x8)],
      ci_attributes = [(''ChannelList'', 0x0000), (''Lineup'', 0x0001), (''CurrentChannel'', 0x0002)],
      ci_commands = [(''ChangeChannel'', 0x00), (''ChangeChannelResponse'', 0x01), (''ChangeChannelByNumber'',
        0x02), (''SkipChannel'', 0x03), (''GetProgramGuide'', 0x04), (''ProgramGuideResponse'', 0x05),
        (''RecordProgram'', 0x06), (''CancelRecordProgram'', 0x07)],
      ci_events = []\<rparr>"

definition channel_features :: "feature_fn list" where
  "channel_features =
     [channel_feature_channel_list, channel_feature_lineup_info, channel_feature_electronic_guide,
        channel_feature_record_program]"

definition channel_attributes :: "attr_fn list" where
  "channel_attributes =
     [channel_attribute_channel_list, channel_attribute_lineup, channel_attribute_current_channel]"

definition channel_commands :: "cmd_fn list" where
  "channel_commands =
     [channel_command_change_channel, channel_command_change_channel_response,
        channel_command_change_channel_by_number, channel_command_skip_channel,
        channel_command_get_program_guide, channel_command_program_guide_response,
        channel_command_record_program, channel_command_cancel_record_program]"

definition channel_callbacks :: "(string \<times> callback_fn) list" where
  "channel_callbacks =
     [(''channel.esp_matter_command_callback_change_channel'', channel_callback_change_channel),
        (''channel.esp_matter_command_callback_change_channel_by_number'',
        channel_callback_change_channel_by_number), (''channel.esp_matter_command_callback_skip_channel'',
        channel_callback_skip_channel), (''channel.esp_matter_command_callback_get_program_guide'',
        channel_callback_get_program_guide), (''channel.esp_matter_command_callback_record_program'',
        channel_callback_record_program), (''channel.esp_matter_command_callback_cancel_record_program'',
        channel_callback_cancel_record_program)]"

definition channel_cluster :: cluster_decl where
  "channel_cluster =
     \<lparr>cd_ids = channel_ids,
      cd_callbacks = channel_callbacks,
      cd_features = channel_features,
      cd_attributes = channel_attributes,
      cd_commands = channel_commands,
      cd_events = [],
      cd_create = Some channel_create\<rparr>"

section \<open>\<open>chime\<close>\<close>

definition chime_attribute_installed_chime_sounds :: attr_fn where
  "chime_attribute_installed_chime_sounds =
     attr 0x0000 ATTRIBUTE_FLAG_MANAGED_INTERNALLY VT_ARRAY"

definition chime_attribute_selected_chime :: attr_fn where
  "chime_attribute_selected_chime =
     bounded 0 254 (attr 0x0001 (ATTRIBUTE_FLAG_WRITABLE OR ATTRIBUTE_FLAG_NONVOLATILE) VT_UINT8)"

definition chime_attribute_enabled :: attr_fn where
  "chime_attribute_enabled =
     attr 0x0002 (ATTRIBUTE_FLAG_WRITABLE OR ATTRIBUTE_FLAG_NONVOLATILE) VT_BOOLEAN"

definition chime_command_play_chime_sound :: cmd_fn where
  "chime_command_play_chime_sound =
     cmd 0x00 COMMAND_FLAG_ACCEPTED None"

definition chime_create :: cluster_fn where
  "chime_create =
     \<lparr>kf_id = 0x0556,
      kf_revision = 1,
      kf_functions = None,
      kf_function_flags = 0,
      kf_body = [Delegate ''ChimeDelegateInitCB'', Plugin ''MatterChimePluginServerInitCallback'', Functions,
        Feature_Map 0, Cluster_Revision,
        Step (Attribute chime_attribute_selected_chime (Field ''selected_chime'')),
        Step (Attribute chime_attribute_enabled (Field ''enabled'')),
        Step (Attribute chime_attribute_installed_chime_sounds Null_Arr),
        Step (Command chime_command_play_chime_sound),
        Callbacks ''ESPMatterChimeClusterServerInitCallback'' ''ESPMatterChimeClusterServerShutdownCallback''],
      kf_binding = True\<rparr>"

definition chime_ids :: cluster_ids where
  "chime_ids =
     \<lparr>ci_cluster = 0x0556,
      ci_features = [],
      ci_attributes = [(''InstalledChimeSounds'', 0x0000), (''SelectedChime'', 0x0001), (''Enabled'', 0x0002)],
      ci_commands = [(''PlayChimeSound'', 0x00)],
      ci_events = []\<rparr>"

definition chime_attributes :: "attr_fn list" where
  "chime_attributes =
     [chime_attribute_installed_chime_sounds, chime_attribute_selected_chime, chime_attribute_enabled]"

definition chime_commands :: "cmd_fn list" where
  "chime_commands =
     [chime_command_play_chime_sound]"

definition chime_cluster :: cluster_decl where
  "chime_cluster =
     \<lparr>cd_ids = chime_ids,
      cd_callbacks = [],
      cd_features = [],
      cd_attributes = chime_attributes,
      cd_commands = chime_commands,
      cd_events = [],
      cd_create = Some chime_create\<rparr>"

section \<open>\<open>closure_control\<close>\<close>

definition closure_control_positioning_id :: u32 where
  "closure_control_positioning_id = 0x1"

definition closure_control_motion_latching_id :: u32 where
  "closure_control_motion_latching_id = 0x2"

definition closure_control_instantaneous_id :: u32 where
  "closure_control_instantaneous_id = 0x4"

definition closure_control_speed_id :: u32 where
  "closure_control_speed_id = 0x8"

definition closure_control_ventilation_id :: u32 where
  "closure_control_ventilation_id = 0x10"

definition closure_control_pedestrian_id :: u32 where
  "closure_control_pedestrian_id = 0x20"

definition closure_control_calibration_id :: u32 where
  "closure_control_calibration_id = 0x40"

definition closure_control_protection_id :: u32 where
  "closure_control_protection_id = 0x80"

definition closure_control_manually_operable_id :: u32 where
  "closure_control_manually_operable_id = 0x100"

definition closure_control_attribute_countdown_time :: attr_fn where
  "closure_control_attribute_countdown_time =
     attr 0x0000 (ATTRIBUTE_FLAG_MANAGED_INTERNALLY OR ATTRIBUTE_FLAG_NULLABLE) VT_NULLABLE_UINT32"

definition closure_control_attribute_main_state :: attr_fn where
  "closure_control_attribute_main_state =
     attr 0x0001 ATTRIBUTE_FLAG_MANAGED_INTERNALLY VT_ENUM8"

definition closure_control_attribute_current_error_list :: attr_fn where
  "closure_control_attribute_current_error_list =
     attr 0x0002 ATTRIBUTE_FLAG_MANAGED_INTERNALLY VT_ARRAY"

definition closure_control_attribute_overall_current_state :: attr_fn where
  "closure_control_attribute_overall_current_state =
     attr 0x0003 (ATTRIBUTE_FLAG_MANAGED_INTERNALLY OR ATTRIBUTE_FLAG_NULLABLE) VT_ARRAY"

definition closure_control_attribute_overall_target_state :: attr_fn where
  "closure_control_attribute_overall_target_state =
     attr 0x0004 (ATTRIBUTE_FLAG_MANAGED_INTERNALLY OR ATTRIBUTE_FLAG_NULLABLE) VT_ARRAY"

definition closure_control_attribute_latch_control_modes :: attr_fn where
  "closure_control_attribute_latch_control_modes =
     guarded (Has_Feature closure_control_motion_latching_id) (attr 0x0005 ATTRIBUTE_FLAG_MANAGED_INTERNALLY
          VT_BITMAP8)"

definition closure_control_command_stop :: cmd_fn where
  "closure_control_command_stop =
     guarded_cmd (Not (Has_Feature closure_control_instantaneous_id)) (cmd 0x00 COMMAND_FLAG_ACCEPTED None)"

definition closure_control_command_move_to :: cmd_fn where
  "closure_control_command_move_to =
     cmd 0x01 COMMAND_FLAG_ACCEPTED None"

definition closure_control_command_calibrate :: cmd_fn where
  "closure_control_command_calibrate =
     guarded_cmd (Has_Feature closure_control_calibration_id) (cmd 0x02 COMMAND_FLAG_ACCEPTED None)"

definition closure_control_event_operational_error :: event_fn where
  "closure_control_event_operational_error =
     event 0x00"

definition closure_control_event_movement_completed :: event_fn where
  "closure_control_event_movement_completed =
     guarded_event (Not (Has_Feature closure_control_instantaneous_id)) (event 0x01)"

definition closure_control_event_engage_state_changed :: event_fn where
  "closure_control_event_engage_state_changed =
     guarded_event (Has_Feature closure_control_manually_operable_id) (event 0x02)"

definition closure_control_event_secure_state_changed :: event_fn where
  "closure_control_event_secure_state_changed =
     event 0x03"

definition closure_control_feature_positioning :: feature_fn where
  "closure_control_feature_positioning =
     feature closure_control_positioning_id False [Update_Feature_Map]"

definition closure_control_feature_motion_latching :: feature_fn where
  "closure_control_feature_motion_latching =
     feature closure_control_motion_latching_id False [Update_Feature_Map,
        Attribute closure_control_attribute_latch_control_modes (Lit 0)]"

definition closure_control_feature_instantaneous :: feature_fn where
  "closure_control_feature_instantaneous =
     feature closure_control_instantaneous_id False [Update_Feature_Map, Destroy_Command 0x00, Destroy_Event 0x01]"

definition closure_control_feature_speed :: feature_fn where
  "closure_control_feature_speed =
     feature closure_control_speed_id False [Require (And (Has_Feature closure_control_positioning_id) (Not
          (Has_Feature closure_control_instantaneous_id))), Update_Feature_Map]"

definition closure_control_feature_ventilation :: feature_fn where
  "closure_control_feature_ventilation =
     feature closure_control_ventilation_id False [Require (Has_Feature closure_control_positioning_id),
        Update_Feature_Map]"

definition closure_control_feature_pedestrian :: feature_fn where
  "closure_control_feature_pedestrian =
     feature closure_control_pedestrian_id False [Require (Has_Feature closure_control_positioning_id),
        Update_Feature_Map]"

definition closure_control_feature_calibration :: feature_fn where
  "closure_control_feature_calibration =
     feature closure_control_calibration_id False [Require (Has_Feature closure_control_positioning_id),
        Update_Feature_Map, Command closure_control_command_calibrate]"

definition closure_control_feature_protection :: feature_fn where
  "closure_control_feature_protection =
     feature closure_control_protection_id False [Update_Feature_Map]"

definition closure_control_feature_manually_operable :: feature_fn where
  "closure_control_feature_manually_operable =
     feature closure_control_manually_operable_id False [Update_Feature_Map,
        Event closure_control_event_engage_state_changed]"

definition closure_control_create :: cluster_fn where
  "closure_control_create =
     \<lparr>kf_id = 0x0104,
      kf_revision = 1,
      kf_functions = None,
      kf_function_flags = 0,
      kf_body = [Delegate ''ClosureControlDelegateInitCB'',
        Plugin ''MatterClosureControlPluginServerInitCallback'', Functions, Config_Feature_Map,
        Cluster_Revision, Step (Attribute closure_control_attribute_main_state (Lit 0)),
        Step (Attribute closure_control_attribute_current_error_list Null_Arr),
        Step (Attribute closure_control_attribute_overall_current_state Null_Arr),
        Step (Attribute closure_control_attribute_overall_target_state Null_Arr),
        Validate k_at_least_one [closure_control_positioning_id, closure_control_motion_latching_id],
        If_Feature closure_control_positioning_id [Add_Feature closure_control_feature_positioning
          ''positioning''] [],
        If_Feature closure_control_motion_latching_id [Add_Feature closure_control_feature_motion_latching
          ''motion_latching''] [],
        If_Feature closure_control_instantaneous_id [Add_Feature closure_control_feature_instantaneous
          ''instantaneous''] [],
        If_Feature closure_control_speed_id [Add_Feature closure_control_feature_speed ''speed''] [],
        If_Feature closure_control_ventilation_id [Add_Feature closure_control_feature_ventilation
          ''ventilation''] [],
        If_Feature closure_control_pedestrian_id [Add_Feature closure_control_feature_pedestrian
          ''pedestrian''] [],
        If_Feature closure_control_calibration_id [Add_Feature closure_control_feature_calibration
          ''calibration''] [],
        If_Feature closure_control_protection_id [Add_Feature closure_control_feature_protection
          ''protection''] [],
        If_Feature closure_control_manually_operable_id [Add_Feature closure_control_feature_manually_operable
          ''manually_operable''] [], Step (Command closure_control_command_stop),
        Step (Command closure_control_command_move_to), Step (Event closure_control_event_operational_error),
        Step (Event closure_control_event_movement_completed),
        Step (Event closure_control_event_secure_state_changed)],
      kf_binding = True\<rparr>"

definition closure_control_ids :: cluster_ids where
  "closure_control_ids =
     \<lparr>ci_cluster = 0x0104,
      ci_features = [(''Positioning'', 0x1), (''MotionLatching'', 0x2), (''Instantaneous'', 0x4), (''Speed'',
        0x8), (''Ventilation'', 0x10), (''Pedestrian'', 0x20), (''Calibration'', 0x40), (''Protection'', 0x80),
        (''ManuallyOperable'', 0x100)],
      ci_attributes = [(''CountdownTime'', 0x0000), (''MainState'', 0x0001), (''CurrentErrorList'', 0x0002),
        (''OverallCurrentState'', 0x0003), (''OverallTargetState'', 0x0004), (''LatchControlModes'', 0x0005)],
      ci_commands = [(''Stop'', 0x00), (''MoveTo'', 0x01), (''Calibrate'', 0x02)],
      ci_events = [(''OperationalError'', 0x00), (''MovementCompleted'', 0x01), (''EngageStateChanged'', 0x02),
        (''SecureStateChanged'', 0x03)]\<rparr>"

definition closure_control_features :: "feature_fn list" where
  "closure_control_features =
     [closure_control_feature_positioning, closure_control_feature_motion_latching,
        closure_control_feature_instantaneous, closure_control_feature_speed,
        closure_control_feature_ventilation, closure_control_feature_pedestrian,
        closure_control_feature_calibration, closure_control_feature_protection,
        closure_control_feature_manually_operable]"

definition closure_control_attributes :: "attr_fn list" where
  "closure_control_attributes =
     [closure_control_attribute_countdown_time, closure_control_attribute_main_state,
        closure_control_attribute_current_error_list, closure_control_attribute_overall_current_state,
        closure_control_attribute_overall_target_state, closure_control_attribute_latch_control_modes]"

definition closure_control_commands :: "cmd_fn list" where
  "closure_control_commands =
     [closure_control_command_stop, closure_control_command_move_to, closure_control_command_calibrate]"

definition closure_control_events :: "event_fn list" where
  "closure_control_events =
     [closure_control_event_operational_error, closure_control_event_movement_completed,
        closure_control_event_engage_state_changed, closure_control_event_secure_state_changed]"

definition closure_control_cluster :: cluster_decl where
  "closure_control_cluster =
     \<lparr>cd_ids = closure_control_ids,
      cd_callbacks = [],
      cd_features = closure_control_features,
      cd_attributes = closure_control_attributes,
      cd_commands = closure_control_commands,
      cd_events = closure_control_events,
      cd_create = Some closure_control_create\<rparr>"

section \<open>Checks\<close>

definition additive_02 :: "cluster_decl list" where
  "additive_02 =
     [camera_av_settings_user_level_management_cluster, camera_av_stream_management_cluster,
        carbon_dioxide_concentration_measurement_cluster, carbon_monoxide_concentration_measurement_cluster,
        channel_cluster, chime_cluster]"

lemma additive_02_ok: "list_all decl_ok additive_02"
  by code_simp

lemma additive_02_order: "list_all (\<lambda>d. order_ok (cd_features d)) additive_02"
  by code_simp

lemma closure_control_cluster_ok: "decl_ok closure_control_cluster"
  by code_simp

end
