(* ===== verification/EM_Clusters_03.thy ===== *)
theory EM_Clusters_03
  imports EM_Order
begin

text \<open>
  The generated clusters \<open>closure_dimension\<close> to \<open>content_control\<close>:
  one definition for each function and id table of their files, and the checks of the descriptions.
\<close>

section \<open>\<open>closure_dimension\<close>\<close>

definition closure_dimension_positioning_id :: u32 where
  "closure_dimension_positioning_id = 0x1"

definition closure_dimension_motion_latching_id :: u32 where
  "closure_dimension_motion_latching_id = 0x2"

definition closure_dimension_unit_id :: u32 where
  "closure_dimension_unit_id = 0x4"

definition closure_dimension_limitation_id :: u32 where
  "closure_dimension_limitation_id = 0x8"

definition closure_dimension_speed_id :: u32 where
  "closure_dimension_speed_id = 0x10"

definition closure_dimension_translation_id :: u32 where
  "closure_dimension_translation_id = 0x20"

definition closure_dimension_rotation_id :: u32 where
  "closure_dimension_rotation_id = 0x40"

definition closure_dimension_modulation_id :: u32 where
  "closure_dimension_modulation_id = 0x80"

definition closure_dimension_attribute_current_state :: attr_fn where
  "closure_dimension_attribute_current_state =
     attr 0x0000 (ATTRIBUTE_FLAG_MANAGED_INTERNALLY OR ATTRIBUTE_FLAG_NULLABLE) VT_ARRAY"

definition closure_dimension_attribute_target_state :: attr_fn where
  "closure_dimension_attribute_target_state =
     attr 0x0001 (ATTRIBUTE_FLAG_MANAGED_INTERNALLY OR ATTRIBUTE_FLAG_NULLABLE) VT_ARRAY"

definition closure_dimension_attribute_resolution :: attr_fn where
  "closure_dimension_attribute_resolution =
     guarded (Has_Feature closure_dimension_positioning_id) (attr 0x0002 ATTRIBUTE_FLAG_MANAGED_INTERNALLY VT_UINT16)"

definition closure_dimension_attribute_step_value :: attr_fn where
  "closure_dimension_attribute_step_value =
     guarded (Has_Feature closure_dimension_positioning_id) (attr 0x0003 ATTRIBUTE_FLAG_MANAGED_INTERNALLY VT_UINT16)"

definition closure_dimension_attribute_unit :: attr_fn where
  "closure_dimension_attribute_unit =
     guarded (Has_Feature closure_dimension_unit_id) (attr 0x0004 ATTRIBUTE_FLAG_MANAGED_INTERNALLY VT_ENUM8)"

definition closure_dimension_attribute_unit_range :: attr_fn where
  "closure_dimension_attribute_unit_range =
     guarded (Has_Feature closure_dimension_unit_id) (attr 0x0005 (ATTRIBUTE_FLAG_MANAGED_INTERNALLY OR
          ATTRIBUTE_FLAG_NULLABLE) VT_ARRAY)"

definition closure_dimension_attribute_limit_range :: attr_fn where
  "closure_dimension_attribute_limit_range =
     guarded (Has_Feature closure_dimension_limitation_id) (attr 0x0006 ATTRIBUTE_FLAG_MANAGED_INTERNALLY VT_ARRAY)"

definition closure_dimension_attribute_translation_direction :: attr_fn where
  "closure_dimension_attribute_translation_direction =
     guarded (Has_Feature closure_dimension_translation_id) (attr 0x0007 ATTRIBUTE_FLAG_MANAGED_INTERNALLY VT_ENUM8)"

definition closure_dimension_attribute_rotation_axis :: attr_fn where
  "closure_dimension_attribute_rotation_axis =
     guarded (Has_Feature closure_dimension_rotation_id) (attr 0x0008 ATTRIBUTE_FLAG_MANAGED_INTERNALLY VT_ENUM8)"

definition closure_dimension_attribute_overflow :: attr_fn where
  "closure_dimension_attribute_overflow =
     guarded (Has_Feature closure_dimension_rotation_id) (attr 0x0009 ATTRIBUTE_FLAG_MANAGED_INTERNALLY VT_ENUM8)"

definition closure_dimension_attribute_modulation_type :: attr_fn where
  "closure_dimension_attribute_modulation_type =
     guarded (Has_Feature closure_dimension_modulation_id) (attr 0x000A ATTRIBUTE_FLAG_MANAGED_INTERNALLY VT_ENUM8)"

definition closure_dimension_attribute_latch_control_modes :: attr_fn where
  "closure_dimension_attribute_latch_control_modes =
     guarded (Has_Feature closure_dimension_motion_latching_id) (attr 0x000B ATTRIBUTE_FLAG_MANAGED_INTERNALLY
          VT_BITMAP8)"

definition closure_dimension_command_set_target :: cmd_fn where
  "closure_dimension_command_set_target =
     cmd 0x00 COMMAND_FLAG_ACCEPTED None"

definition closure_dimension_command_step :: cmd_fn where
  "closure_dimension_command_step =
     guarded_cmd (Has_Feature closure_dimension_positioning_id) (cmd 0x01 COMMAND_FLAG_ACCEPTED None)"

definition closure_dimension_feature_positioning :: feature_fn where
  "closure_dimension_feature_positioning =
     feature closure_dimension_positioning_id False [Update_Feature_Map,
        Attribute closure_dimension_attribute_resolution (Lit 0),
        Attribute closure_dimension_attribute_step_value (Lit 0), Command closure_dimension_command_step]"

definition closure_dimension_feature_motion_latching :: feature_fn where
  "closure_dimension_feature_motion_latching =
     feature closure_dimension_motion_latching_id False [Update_Feature_Map,
        Attribute closure_dimension_attribute_latch_control_modes (Lit 0)]"

definition closure_dimension_feature_unit :: feature_fn where
  "closure_dimension_feature_unit =
     feature closure_dimension_unit_id False [Require (Has_Feature closure_dimension_positioning_id),
        Update_Feature_Map, Attribute closure_dimension_attribute_unit (Lit 0),
        Attribute closure_dimension_attribute_unit_range Null_Arr]"

definition closure_dimension_feature_limitation :: feature_fn where
  "closure_dimension_feature_limitation =
     feature closure_dimension_limitation_id False [Require (Has_Feature closure_dimension_positioning_id),
        Update_Feature_Map, Attribute closure_dimension_attribute_limit_range Null_Arr]"

definition closure_dimension_feature_speed :: feature_fn where
  "closure_dimension_feature_speed =
     feature closure_dimension_speed_id False [Require (Has_Feature closure_dimension_positioning_id),
        Update_Feature_Map]"

definition closure_dimension_feature_translation :: feature_fn where
  "closure_dimension_feature_translation =
     feature closure_dimension_translation_id False [Require (Has_Feature closure_dimension_positioning_id),
        Update_Feature_Map, Attribute closure_dimension_attribute_translation_direction (Lit 0)]"

definition closure_dimension_feature_rotation :: feature_fn where
  "closure_dimension_feature_rotation =
     feature closure_dimension_rotation_id False [Require (Has_Feature closure_dimension_positioning_id),
        Update_Feature_Map, Attribute closure_dimension_attribute_rotation_axis (Lit 0),
        Attribute closure_dimension_attribute_overflow (Lit 0)]"

definition closure_dimension_feature_modulation :: feature_fn where
  "closure_dimension_feature_modulation =
     feature closure_dimension_modulation_id False [Require (Has_Feature closure_dimension_positioning_id),
        Update_Feature_Map, Attribute closure_dimension_attribute_modulation_type (Lit 0)]"

definition closure_dimension_create :: cluster_fn where
  "closure_dimension_create =
     \<lparr>kf_id = 0x0105,
      kf_revision = 1,
      kf_functions = None,
      kf_function_flags = 0,
      kf_body = [Delegate ''ClosureDimensionDelegateInitCB'',
        Plugin ''MatterClosureDimensionPluginServerInitCallback'', Functions, Config_Feature_Map,
        Cluster_Revision, Step (Attribute closure_dimension_attribute_current_state Null_Arr),
        Step (Attribute closure_dimension_attribute_target_state Null_Arr),
        If_Feature closure_dimension_positioning_id [Validate k_exact_one [closure_dimension_translation_id,
        closure_dimension_rotation_id, closure_dimension_modulation_id],
        If_Feature closure_dimension_translation_id [Add_Feature closure_dimension_feature_translation
          ''translation''] [],
        If_Feature closure_dimension_rotation_id [Add_Feature closure_dimension_feature_rotation ''rotation'']
          [],
        If_Feature closure_dimension_modulation_id [Add_Feature closure_dimension_feature_modulation
          ''modulation''] []] [], Validate k_at_least_one [closure_dimension_positioning_id,
        closure_dimension_motion_latching_id],
        If_Feature closure_dimension_positioning_id [Add_Feature closure_dimension_feature_positioning
          ''positioning''] [],
        If_Feature closure_dimension_motion_latching_id [Add_Feature closure_dimension_feature_motion_latching
          ''motion_latching''] [],
        If_Feature closure_dimension_unit_id [Add_Feature closure_dimension_feature_unit ''unit''] [],
        If_Feature closure_dimension_limitation_id [Add_Feature closure_dimension_feature_limitation
          ''limitation''] [],
        If_Feature closure_dimension_speed_id [Add_Feature closure_dimension_feature_speed ''speed''] [],
        Step (Command closure_dimension_command_set_target)],
      kf_binding = True\<rparr>"

definition closure_dimension_ids :: cluster_ids where
  "closure_dimension_ids =
     \<lparr>ci_cluster = 0x0105,
      ci_features = [(''Positioning'', 0x1), (''MotionLatching'', 0x2), (''Unit'', 0x4), (''Limitation'', 0x8),
        (''Speed'', 0x10), (''Translation'', 0x20), (''Rotation'', 0x40), (''Modulation'', 0x80)],
      ci_attributes = [(''CurrentState'', 0x0000), (''TargetState'', 0x0001), (''Resolution'', 0x0002),
        (''StepValue'', 0x0003), (''Unit'', 0x0004), (''UnitRange'', 0x0005), (''LimitRange'', 0x0006),
        (''TranslationDirection'', 0x0007), (''RotationAxis'', 0x0008), (''Overflow'', 0x0009),
        (''ModulationType'', 0x000A), (''LatchControlModes'', 0x000B)],
      ci_commands = [(''SetTarget'', 0x00), (''Step'', 0x01)],
      ci_events = []\<rparr>"

definition closure_dimension_features :: "feature_fn list" where
  "closure_dimension_features =
     [closure_dimension_feature_positioning, closure_dimension_feature_motion_latching,
        closure_dimension_feature_unit, closure_dimension_feature_limitation, closure_dimension_feature_speed,
        closure_dimension_feature_translation, closure_dimension_feature_rotation,
        closure_dimension_feature_modulation]"

definition closure_dimension_attributes :: "attr_fn list" where
  "closure_dimension_attributes =
     [closure_dimension_attribute_current_state, closure_dimension_attribute_target_state,
        closure_dimension_attribute_resolution, closure_dimension_attribute_step_value,
        closure_dimension_attribute_unit, closure_dimension_attribute_unit_range,
        closure_dimension_attribute_limit_range, closure_dimension_attribute_translation_direction,
        closure_dimension_attribute_rotation_axis, closure_dimension_attribute_overflow,
        closure_dimension_attribute_modulation_type, closure_dimension_attribute_latch_control_modes]"

definition closure_dimension_commands :: "cmd_fn list" where
  "closure_dimension_commands =
     [closure_dimension_command_set_target, closure_dimension_command_step]"

definition closure_dimension_cluster :: cluster_decl where
  "closure_dimension_cluster =
     \<lparr>cd_ids = closure_dimension_ids,
      cd_callbacks = [],
      cd_features = closure_dimension_features,
      cd_attributes = closure_dimension_attributes,
      cd_commands = closure_dimension_commands,
      cd_events = [],
      cd_create = Some closure_dimension_create\<rparr>"

section \<open>\<open>color_control\<close>\<close>

definition color_control_hue_saturation_id :: u32 where
  "color_control_hue_saturation_id = 0x1"

definition color_control_enhanced_hue_id :: u32 where
  "color_control_enhanced_hue_id = 0x2"

definition color_control_color_loop_id :: u32 where
  "color_control_color_loop_id = 0x4"

definition color_control_xy_id :: u32 where
  "color_control_xy_id = 0x8"

definition color_control_color_temperature_id :: u32 where
  "color_control_color_temperature_id = 0x10"

definition color_control_attribute_current_hue :: attr_fn where
  "color_control_attribute_current_hue =
     guarded (Has_Feature color_control_hue_saturation_id) (bounded 0 254 (attr 0x0000 ATTRIBUTE_FLAG_NONVOLATILE
          VT_UINT8))"

definition color_control_attribute_current_saturation :: attr_fn where
  "color_control_attribute_current_saturation =
     guarded (Has_Feature color_control_hue_saturation_id) (bounded 0 254 (attr 0x0001 ATTRIBUTE_FLAG_NONVOLATILE
          VT_UINT8))"

definition color_control_attribute_remaining_time :: attr_fn where
  "color_control_attribute_remaining_time =
     bounded 0 65534 (attr 0x0002 0 VT_UINT16)"

definition color_control_attribute_current_x :: attr_fn where
  "color_control_attribute_current_x =
     guarded (Has_Feature color_control_xy_id) (bounded 0 65279 (attr 0x0003 ATTRIBUTE_FLAG_NONVOLATILE VT_UINT16))"

definition color_control_attribute_current_y :: attr_fn where
  "color_control_attribute_current_y =
     guarded (Has_Feature color_control_xy_id) (bounded 0 65279 (attr 0x0004 ATTRIBUTE_FLAG_NONVOLATILE VT_UINT16))"

definition color_control_attribute_drift_compensation :: attr_fn where
  "color_control_attribute_drift_compensation =
     bounded 0 4 (attr 0x0005 0 VT_ENUM8)"

definition color_control_attribute_compensation_text :: attr_fn where
  "color_control_attribute_compensation_text =
     at_most 255 (sized 255 (attr 0x0006 0 VT_CHAR_STRING))"

definition color_control_attribute_color_temperature_mireds :: attr_fn where
  "color_control_attribute_color_temperature_mireds =
     guarded (Has_Feature color_control_color_temperature_id) (bounded 0 65279 (attr 0x0007
          ATTRIBUTE_FLAG_NONVOLATILE VT_UINT16))"

definition color_control_attribute_color_mode :: attr_fn where
  "color_control_attribute_color_mode =
     bounded 0 2 (attr 0x0008 ATTRIBUTE_FLAG_NONVOLATILE VT_ENUM8)"

definition color_control_attribute_options :: attr_fn where
  "color_control_attribute_options =
     bounded 0 1 (attr 0x000F ATTRIBUTE_FLAG_WRITABLE VT_BITMAP8)"

definition color_control_attribute_number_of_primaries :: attr_fn where
  "color_control_attribute_number_of_primaries =
     bounded 0 6 (attr 0x0010 ATTRIBUTE_FLAG_NULLABLE VT_NULLABLE_UINT8)"

definition color_control_attribute_primary_1_x :: attr_fn where
  "color_control_attribute_primary_1_x =
     bounded 0 65279 (attr 0x0011 0 VT_UINT16)"

definition color_control_attribute_primary_1_y :: attr_fn where
  "color_control_attribute_primary_1_y =
     bounded 0 65279 (attr 0x0012 0 VT_UINT16)"

definition color_control_attribute_primary_1_intensity :: attr_fn where
  "color_control_attribute_primary_1_intensity =
     bounded 0 254 (attr 0x0013 ATTRIBUTE_FLAG_NULLABLE VT_NULLABLE_UINT8)"

definition color_control_attribute_primary_2_x :: attr_fn where
  "color_control_attribute_primary_2_x =
     bounded 0 65279 (attr 0x0015 0 VT_UINT16)"

definition color_control_attribute_primary_2_y :: attr_fn where
  "color_control_attribute_primary_2_y =
     bounded 0 65279 (attr 0x0016 0 VT_UINT16)"

definition color_control_attribute_primary_2_intensity :: attr_fn where
  "color_control_attribute_primary_2_intensity =
     bounded 0 254 (attr 0x0017 ATTRIBUTE_FLAG_NULLABLE VT_NULLABLE_UINT8)"

definition color_control_attribute_primary_3_x :: attr_fn where
  "color_control_attribute_primary_3_x =
     bounded 0 65279 (attr 0x0019 0 VT_UINT16)"

definition color_control_attribute_primary_3_y :: attr_fn where
  "color_control_attribute_primary_3_y =
     bounded 0 65279 (attr 0x001A 0 VT_UINT16)"

definition color_control_attribute_primary_3_intensity :: attr_fn where
  "color_control_attribute_primary_3_intensity =
     bounded 0 254 (attr 0x001B ATTRIBUTE_FLAG_NULLABLE VT_NULLABLE_UINT8)"

definition color_control_attribute_primary_4_x :: attr_fn where
  "color_control_attribute_primary_4_x =
     bounded 0 65279 (attr 0x0020 0 VT_UINT16)"

definition color_control_attribute_primary_4_y :: attr_fn where
  "color_control_attribute_primary_4_y =
     bounded 0 65279 (attr 0x0021 0 VT_UINT16)"

definition color_control_attribute_primary_4_intensity :: attr_fn where
  "color_control_attribute_primary_4_intensity =
     bounded 0 254 (attr 0x0022 ATTRIBUTE_FLAG_NULLABLE VT_NULLABLE_UINT8)"

definition color_control_attribute_primary_5_x :: attr_fn where
  "color_control_attribute_primary_5_x =
     bounded 0 65279 (attr 0x0024 0 VT_UINT16)"

definition color_control_attribute_primary_5_y :: attr_fn where
  "color_control_attribute_primary_5_y =
     bounded 0 65279 (attr 0x0025 0 VT_UINT16)"

definition color_control_attribute_primary_5_intensity :: attr_fn where
  "color_control_attribute_primary_5_intensity =
     bounded 0 254 (attr 0x0026 ATTRIBUTE_FLAG_NULLABLE VT_NULLABLE_UINT8)"

definition color_control_attribute_primary_6_x :: attr_fn where
  "color_control_attribute_primary_6_x =
     bounded 0 65279 (attr 0x0028 0 VT_UINT16)"

definition color_control_attribute_primary_6_y :: attr_fn where
  "color_control_attribute_primary_6_y =
     bounded 0 65279 (attr 0x0029 0 VT_UINT16)"

definition color_control_attribute_primary_6_intensity :: attr_fn where
  "color_control_attribute_primary_6_intensity =
     bounded 0 254 (attr 0x002A ATTRIBUTE_FLAG_NULLABLE VT_NULLABLE_UINT8)"

definition color_control_attribute_white_point_x :: attr_fn where
  "color_control_attribute_white_point_x =
     bounded 0 65279 (attr 0x0030 0 VT_UINT16)"

definition color_control_attribute_white_point_y :: attr_fn where
  "color_control_attribute_white_point_y =
     bounded 0 65279 (attr 0x0031 0 VT_UINT16)"

definition color_control_attribute_color_point_rx :: attr_fn where
  "color_control_attribute_color_point_rx =
     bounded 0 65279 (attr 0x0032 0 VT_UINT16)"

definition color_control_attribute_color_point_ry :: attr_fn where
  "color_control_attribute_color_point_ry =
     bounded 0 65279 (attr 0x0033 0 VT_UINT16)"

definition color_control_attribute_color_point_r_intensity :: attr_fn where
  "color_control_attribute_color_point_r_intensity =
     bounded 0 254 (attr 0x0034 ATTRIBUTE_FLAG_NULLABLE VT_NULLABLE_UINT8)"

definition color_control_attribute_color_point_gx :: attr_fn where
  "color_control_attribute_color_point_gx =
     bounded 0 65279 (attr 0x0036 0 VT_UINT16)"

definition color_control_attribute_color_point_gy :: attr_fn where
  "color_control_attribute_color_point_gy =
     bounded 0 65279 (attr 0x0037 0 VT_UINT16)"

definition color_control_attribute_color_point_g_intensity :: attr_fn where
  "color_control_attribute_color_point_g_intensity =
     bounded 0 254 (attr 0x0038 ATTRIBUTE_FLAG_NULLABLE VT_NULLABLE_UINT8)"

definition color_control_attribute_color_point_bx :: attr_fn where
  "color_control_attribute_color_point_bx =
     bounded 0 65279 (attr 0x003A 0 VT_UINT16)"

definition color_control_attribute_color_point_by :: attr_fn where
  "color_control_attribute_color_point_by =
     bounded 0 65279 (attr 0x003B 0 VT_UINT16)"

definition color_control_attribute_color_point_b_intensity :: attr_fn where
  "color_control_attribute_color_point_b_intensity =
     bounded 0 254 (attr 0x003C ATTRIBUTE_FLAG_NULLABLE VT_NULLABLE_UINT8)"

definition color_control_attribute_enhanced_current_hue :: attr_fn where
  "color_control_attribute_enhanced_current_hue =
     guarded (Has_Feature color_control_enhanced_hue_id) (bounded 0 65534 (attr 0x4000 ATTRIBUTE_FLAG_NONVOLATILE
          VT_UINT16))"

definition color_control_attribute_enhanced_color_mode :: attr_fn where
  "color_control_attribute_enhanced_color_mode =
     bounded 0 3 (attr 0x4001 ATTRIBUTE_FLAG_NONVOLATILE VT_ENUM8)"

definition color_control_attribute_color_loop_active :: attr_fn where
  "color_control_attribute_color_loop_active =
     guarded (Has_Feature color_control_color_loop_id) (bounded 0 1 (attr 0x4002 ATTRIBUTE_FLAG_NONVOLATILE
          VT_UINT8))"

definition color_control_attribute_color_loop_direction :: attr_fn where
  "color_control_attribute_color_loop_direction =
     guarded (Has_Feature color_control_color_loop_id) (bounded 0 1 (attr 0x4003 ATTRIBUTE_FLAG_NONVOLATILE
          VT_ENUM8))"

definition color_control_attribute_color_loop_time :: attr_fn where
  "color_control_attribute_color_loop_time =
     guarded (Has_Feature color_control_color_loop_id) (bounded 0 65534 (attr 0x4004 ATTRIBUTE_FLAG_NONVOLATILE
          VT_UINT16))"

definition color_control_attribute_color_loop_start_enhanced_hue :: attr_fn where
  "color_control_attribute_color_loop_start_enhanced_hue =
     guarded (Has_Feature color_control_color_loop_id) (bounded 0 65534 (attr 0x4005 0 VT_UINT16))"

definition color_control_attribute_color_loop_stored_enhanced_hue :: attr_fn where
  "color_control_attribute_color_loop_stored_enhanced_hue =
     guarded (Has_Feature color_control_color_loop_id) (bounded 0 65534 (attr 0x4006 0 VT_UINT16))"

definition color_control_attribute_color_capabilities :: attr_fn where
  "color_control_attribute_color_capabilities =
     bounded 0 65535 (attr 0x400A 0 VT_BITMAP16)"

definition color_control_attribute_color_temp_physical_min_mireds :: attr_fn where
  "color_control_attribute_color_temp_physical_min_mireds =
     guarded (Has_Feature color_control_color_temperature_id) (bounded 1 65279 (attr 0x400B 0 VT_UINT16))"

definition color_control_attribute_color_temp_physical_max_mireds :: attr_fn where
  "color_control_attribute_color_temp_physical_max_mireds =
     guarded (Has_Feature color_control_color_temperature_id) (bounded 0 65279 (attr 0x400C 0 VT_UINT16))"

definition color_control_attribute_couple_color_temp_to_level_min_mireds :: attr_fn where
  "color_control_attribute_couple_color_temp_to_level_min_mireds =
     guarded (Has_Feature color_control_color_temperature_id) (bounded 0 65534 (attr 0x400D 0 VT_UINT16))"

definition color_control_attribute_start_up_color_temperature_mireds :: attr_fn where
  "color_control_attribute_start_up_color_temperature_mireds =
     guarded (Has_Feature color_control_color_temperature_id) (bounded 1 65279 (attr 0x4010 (ATTRIBUTE_FLAG_WRITABLE
          OR ATTRIBUTE_FLAG_NULLABLE OR ATTRIBUTE_FLAG_NONVOLATILE) VT_NULLABLE_UINT16))"

definition color_control_callback_move_to_hue :: callback_fn where
  "color_control_callback_move_to_hue =
     decodes_to ''ColorControl::Commands::MoveToHue'' ''emberAfColorControlClusterMoveToHueCallback''"

definition color_control_callback_move_hue :: callback_fn where
  "color_control_callback_move_hue =
     decodes_to ''ColorControl::Commands::MoveHue'' ''emberAfColorControlClusterMoveHueCallback''"

definition color_control_callback_step_hue :: callback_fn where
  "color_control_callback_step_hue =
     decodes_to ''ColorControl::Commands::StepHue'' ''emberAfColorControlClusterStepHueCallback''"

definition color_control_callback_move_to_saturation :: callback_fn where
  "color_control_callback_move_to_saturation =
     decodes_to ''ColorControl::Commands::MoveToSaturation'' ''emberAfColorControlClusterMoveToSaturationCallback''"

definition color_control_callback_move_saturation :: callback_fn where
  "color_control_callback_move_saturation =
     decodes_to ''ColorControl::Commands::MoveSaturation'' ''emberAfColorControlClusterMoveSaturationCallback''"

definition color_control_callback_step_saturation :: callback_fn where
  "color_control_callback_step_saturation =
     decodes_to ''ColorControl::Commands::StepSaturation'' ''emberAfColorControlClusterStepSaturationCallback''"

definition color_control_callback_move_to_hue_and_saturation :: callback_fn where
  "color_control_callback_move_to_hue_and_saturation =
     decodes_to ''ColorControl::Commands::MoveToHueAndSaturation''
          ''emberAfColorControlClusterMoveToHueAndSaturationCallback''"

definition color_control_callback_move_to_color :: callback_fn where
  "color_control_callback_move_to_color =
     decodes_to ''ColorControl::Commands::MoveToColor'' ''emberAfColorControlClusterMoveToColorCallback''"

definition color_control_callback_move_color :: callback_fn where
  "color_control_callback_move_color =
     decodes_to ''ColorControl::Commands::MoveColor'' ''emberAfColorControlClusterMoveColorCallback''"

definition color_control_callback_step_color :: callback_fn where
  "color_control_callback_step_color =
     decodes_to ''ColorControl::Commands::StepColor'' ''emberAfColorControlClusterStepColorCallback''"

definition color_control_callback_move_to_color_temperature :: callback_fn where
  "color_control_callback_move_to_color_temperature =
     decodes_to ''ColorControl::Commands::MoveToColorTemperature''
          ''emberAfColorControlClusterMoveToColorTemperatureCallback''"

definition color_control_callback_enhanced_move_to_hue :: callback_fn where
  "color_control_callback_enhanced_move_to_hue =
     decodes_to ''ColorControl::Commands::EnhancedMoveToHue'' ''emberAfColorControlClusterEnhancedMoveToHueCallback''"

definition color_control_callback_enhanced_move_hue :: callback_fn where
  "color_control_callback_enhanced_move_hue =
     decodes_to ''ColorControl::Commands::EnhancedMoveHue'' ''emberAfColorControlClusterEnhancedMoveHueCallback''"

definition color_control_callback_enhanced_step_hue :: callback_fn where
  "color_control_callback_enhanced_step_hue =
     decodes_to ''ColorControl::Commands::EnhancedStepHue'' ''emberAfColorControlClusterEnhancedStepHueCallback''"

definition color_control_callback_enhanced_move_to_hue_and_saturation :: callback_fn where
  "color_control_callback_enhanced_move_to_hue_and_saturation =
     decodes_to ''ColorControl::Commands::EnhancedMoveToHueAndSaturation''
          ''emberAfColorControlClusterEnhancedMoveToHueAndSaturationCallback''"

definition color_control_callback_color_loop_set :: callback_fn where
  "color_control_callback_color_loop_set =
     decodes_to ''ColorControl::Commands::ColorLoopSet'' ''emberAfColorControlClusterColorLoopSetCallback''"

definition color_control_callback_stop_move_step :: callback_fn where
  "color_control_callback_stop_move_step =
     decodes_to ''ColorControl::Commands::StopMoveStep'' ''emberAfColorControlClusterStopMoveStepCallback''"

definition color_control_callback_move_color_temperature :: callback_fn where
  "color_control_callback_move_color_temperature =
     decodes_to ''ColorControl::Commands::MoveColorTemperature''
          ''emberAfColorControlClusterMoveColorTemperatureCallback''"

definition color_control_callback_step_color_temperature :: callback_fn where
  "color_control_callback_step_color_temperature =
     decodes_to ''ColorControl::Commands::StepColorTemperature''
          ''emberAfColorControlClusterStepColorTemperatureCallback''"

definition color_control_command_move_to_hue :: cmd_fn where
  "color_control_command_move_to_hue =
     guarded_cmd (Has_Feature color_control_hue_saturation_id) (cmd 0x00 COMMAND_FLAG_ACCEPTED (Some
          ''color_control.esp_matter_command_callback_move_to_hue''))"

definition color_control_command_move_hue :: cmd_fn where
  "color_control_command_move_hue =
     guarded_cmd (Has_Feature color_control_hue_saturation_id) (cmd 0x01 COMMAND_FLAG_ACCEPTED (Some
          ''color_control.esp_matter_command_callback_move_hue''))"

definition color_control_command_step_hue :: cmd_fn where
  "color_control_command_step_hue =
     guarded_cmd (Has_Feature color_control_hue_saturation_id) (cmd 0x02 COMMAND_FLAG_ACCEPTED (Some
          ''color_control.esp_matter_command_callback_step_hue''))"

definition color_control_command_move_to_saturation :: cmd_fn where
  "color_control_command_move_to_saturation =
     guarded_cmd (Has_Feature color_control_hue_saturation_id) (cmd 0x03 COMMAND_FLAG_ACCEPTED (Some
          ''color_control.esp_matter_command_callback_move_to_saturation''))"

definition color_control_command_move_saturation :: cmd_fn where
  "color_control_command_move_saturation =
     guarded_cmd (Has_Feature color_control_hue_saturation_id) (cmd 0x04 COMMAND_FLAG_ACCEPTED (Some
          ''color_control.esp_matter_command_callback_move_saturation''))"

definition color_control_command_step_saturation :: cmd_fn where
  "color_control_command_step_saturation =
     guarded_cmd (Has_Feature color_control_hue_saturation_id) (cmd 0x05 COMMAND_FLAG_ACCEPTED (Some
          ''color_control.esp_matter_command_callback_step_saturation''))"

definition color_control_command_move_to_hue_and_saturation :: cmd_fn where
  "color_control_command_move_to_hue_and_saturation =
     guarded_cmd (Has_Feature color_control_hue_saturation_id) (cmd 0x06 COMMAND_FLAG_ACCEPTED (Some
          ''color_control.esp_matter_command_callback_move_to_hue_and_saturation''))"

definition color_control_command_move_to_color :: cmd_fn where
  "color_control_command_move_to_color =
     guarded_cmd (Has_Feature color_control_xy_id) (cmd 0x07 COMMAND_FLAG_ACCEPTED (Some
          ''color_control.esp_matter_command_callback_move_to_color''))"

definition color_control_command_move_color :: cmd_fn where
  "color_control_command_move_color =
     guarded_cmd (Has_Feature color_control_xy_id) (cmd 0x08 COMMAND_FLAG_ACCEPTED (Some
          ''color_control.esp_matter_command_callback_move_color''))"

definition color_control_command_step_color :: cmd_fn where
  "color_control_command_step_color =
     guarded_cmd (Has_Feature color_control_xy_id) (cmd 0x09 COMMAND_FLAG_ACCEPTED (Some
          ''color_control.esp_matter_command_callback_step_color''))"

definition color_control_command_move_to_color_temperature :: cmd_fn where
  "color_control_command_move_to_color_temperature =
     guarded_cmd (Has_Feature color_control_color_temperature_id) (cmd 0x0A COMMAND_FLAG_ACCEPTED (Some
          ''color_control.esp_matter_command_callback_move_to_color_temperature''))"

definition color_control_command_enhanced_move_to_hue :: cmd_fn where
  "color_control_command_enhanced_move_to_hue =
     guarded_cmd (Has_Feature color_control_enhanced_hue_id) (cmd 0x40 COMMAND_FLAG_ACCEPTED (Some
          ''color_control.esp_matter_command_callback_enhanced_move_to_hue''))"

definition color_control_command_enhanced_move_hue :: cmd_fn where
  "color_control_command_enhanced_move_hue =
     guarded_cmd (Has_Feature color_control_enhanced_hue_id) (cmd 0x41 COMMAND_FLAG_ACCEPTED (Some
          ''color_control.esp_matter_command_callback_enhanced_move_hue''))"

definition color_control_command_enhanced_step_hue :: cmd_fn where
  "color_control_command_enhanced_step_hue =
     guarded_cmd (Has_Feature color_control_enhanced_hue_id) (cmd 0x42 COMMAND_FLAG_ACCEPTED (Some
          ''color_control.esp_matter_command_callback_enhanced_step_hue''))"

definition color_control_command_enhanced_move_to_hue_and_saturation :: cmd_fn where
  "color_control_command_enhanced_move_to_hue_and_saturation =
     guarded_cmd (Has_Feature color_control_enhanced_hue_id) (cmd 0x43 COMMAND_FLAG_ACCEPTED (Some
          ''color_control.esp_matter_command_callback_enhanced_move_to_hue_and_saturation''))"

definition color_control_command_color_loop_set :: cmd_fn where
  "color_control_command_color_loop_set =
     guarded_cmd (Has_Feature color_control_color_loop_id) (cmd 0x44 COMMAND_FLAG_ACCEPTED (Some
          ''color_control.esp_matter_command_callback_color_loop_set''))"

definition color_control_command_stop_move_step :: cmd_fn where
  "color_control_command_stop_move_step =
     guarded_cmd (Or (Or (Has_Feature color_control_hue_saturation_id) (Has_Feature color_control_xy_id))
          (Has_Feature color_control_color_temperature_id)) (cmd 0x47 COMMAND_FLAG_ACCEPTED (Some
          ''color_control.esp_matter_command_callback_stop_move_step''))"

definition color_control_command_move_color_temperature :: cmd_fn where
  "color_control_command_move_color_temperature =
     guarded_cmd (Has_Feature color_control_color_temperature_id) (cmd 0x4B COMMAND_FLAG_ACCEPTED (Some
          ''color_control.esp_matter_command_callback_move_color_temperature''))"

definition color_control_command_step_color_temperature :: cmd_fn where
  "color_control_command_step_color_temperature =
     guarded_cmd (Has_Feature color_control_color_temperature_id) (cmd 0x4C COMMAND_FLAG_ACCEPTED (Some
          ''color_control.esp_matter_command_callback_step_color_temperature''))"

definition color_control_feature_hue_saturation :: feature_fn where
  "color_control_feature_hue_saturation =
     feature color_control_hue_saturation_id True [Update_Feature_Map,
        Attribute color_control_attribute_current_hue (Field ''current_hue''),
        Attribute color_control_attribute_current_saturation (Field ''current_saturation''),
        Command color_control_command_move_to_hue, Command color_control_command_move_hue,
        Command color_control_command_step_hue, Command color_control_command_move_to_saturation,
        Command color_control_command_move_saturation, Command color_control_command_step_saturation,
        Command color_control_command_move_to_hue_and_saturation, Command color_control_command_stop_move_step]"

definition color_control_feature_enhanced_hue :: feature_fn where
  "color_control_feature_enhanced_hue =
     feature color_control_enhanced_hue_id True [Update_Feature_Map,
        Attribute color_control_attribute_enhanced_current_hue (Field ''enhanced_current_hue''),
        Command color_control_command_enhanced_move_to_hue, Command color_control_command_enhanced_move_hue,
        Command color_control_command_enhanced_step_hue,
        Command color_control_command_enhanced_move_to_hue_and_saturation]"

definition color_control_feature_color_loop :: feature_fn where
  "color_control_feature_color_loop =
     feature color_control_color_loop_id True [Update_Feature_Map,
        Attribute color_control_attribute_color_loop_active (Field ''color_loop_active''),
        Attribute color_control_attribute_color_loop_direction (Field ''color_loop_direction''),
        Attribute color_control_attribute_color_loop_time (Field ''color_loop_time''),
        Attribute color_control_attribute_color_loop_start_enhanced_hue (Field
          ''color_loop_start_enhanced_hue''),
        Attribute color_control_attribute_color_loop_stored_enhanced_hue (Field
          ''color_loop_stored_enhanced_hue''), Command color_control_command_color_loop_set]"

definition color_control_feature_xy :: feature_fn where
  "color_control_feature_xy =
     feature color_control_xy_id True [Update_Feature_Map,
        Attribute color_control_attribute_current_x (Field ''current_x''),
        Attribute color_control_attribute_current_y (Field ''current_y''),
        Command color_control_command_move_to_color, Command color_control_command_move_color,
        Command color_control_command_step_color, Command color_control_command_stop_move_step]"

definition color_control_feature_color_temperature :: feature_fn where
  "color_control_feature_color_temperature =
     feature color_control_color_temperature_id True [Update_Feature_Map,
        Attribute color_control_attribute_color_temperature_mireds (Field ''color_temperature_mireds''),
        Attribute color_control_attribute_color_temp_physical_min_mireds (Field
          ''color_temp_physical_min_mireds''),
        Attribute color_control_attribute_color_temp_physical_max_mireds (Field
          ''color_temp_physical_max_mireds''),
        Attribute color_control_attribute_couple_color_temp_to_level_min_mireds (Field
          ''couple_color_temp_to_level_min_mireds''),
        Attribute color_control_attribute_start_up_color_temperature_mireds (Field
          ''start_up_color_temperature_mireds''), Command color_control_command_move_to_color_temperature,
        Command color_control_command_stop_move_step, Command color_control_command_move_color_temperature,
        Command color_control_command_step_color_temperature]"

definition color_control_function_list :: "string list option" where
  "color_control_function_list =
     Some [''emberAfColorControlClusterServerInitCallback'', ''MatterColorControlClusterServerShutdownCallback'']"

definition color_control_create :: cluster_fn where
  "color_control_create =
     \<lparr>kf_id = 0x0300,
      kf_revision = 8,
      kf_functions = color_control_function_list,
      kf_function_flags = CLUSTER_FLAG_INIT_FUNCTION OR CLUSTER_FLAG_SHUTDOWN_FUNCTION,
      kf_body = [Plugin ''MatterColorControlPluginServerInitCallback'', Functions, Feature_Map 0,
        Cluster_Revision, Step (Attribute color_control_attribute_color_mode (Field ''color_mode'')),
        Step (Attribute color_control_attribute_options (Field ''options'')),
        Step (Attribute color_control_attribute_number_of_primaries (Field ''number_of_primaries'')),
        Step (Attribute color_control_attribute_primary_1_x (Field ''primary_1_x'')),
        Step (Attribute color_control_attribute_primary_1_y (Field ''primary_1_y'')),
        Step (Attribute color_control_attribute_primary_1_intensity (Field ''primary_1_intensity'')),
        Step (Attribute color_control_attribute_primary_2_x (Field ''primary_2_x'')),
        Step (Attribute color_control_attribute_primary_2_y (Field ''primary_2_y'')),
        Step (Attribute color_control_attribute_primary_2_intensity (Field ''primary_2_intensity'')),
        Step (Attribute color_control_attribute_primary_3_x (Field ''primary_3_x'')),
        Step (Attribute color_control_attribute_primary_3_y (Field ''primary_3_y'')),
        Step (Attribute color_control_attribute_primary_3_intensity (Field ''primary_3_intensity'')),
        Step (Attribute color_control_attribute_primary_4_x (Field ''primary_4_x'')),
        Step (Attribute color_control_attribute_primary_4_y (Field ''primary_4_y'')),
        Step (Attribute color_control_attribute_primary_4_intensity (Field ''primary_4_intensity'')),
        Step (Attribute color_control_attribute_primary_5_x (Field ''primary_5_x'')),
        Step (Attribute color_control_attribute_primary_5_y (Field ''primary_5_y'')),
        Step (Attribute color_control_attribute_primary_5_intensity (Field ''primary_5_intensity'')),
        Step (Attribute color_control_attribute_primary_6_x (Field ''primary_6_x'')),
        Step (Attribute color_control_attribute_primary_6_y (Field ''primary_6_y'')),
        Step (Attribute color_control_attribute_primary_6_intensity (Field ''primary_6_intensity'')),
        Step (Attribute color_control_attribute_enhanced_color_mode (Field ''enhanced_color_mode'')),
        Step (Attribute color_control_attribute_color_capabilities (Field ''color_capabilities''))],
      kf_binding = True\<rparr>"

definition color_control_ids :: cluster_ids where
  "color_control_ids =
     \<lparr>ci_cluster = 0x0300,
      ci_features = [(''HueSaturation'', 0x1), (''EnhancedHue'', 0x2), (''ColorLoop'', 0x4), (''XY'', 0x8),
        (''ColorTemperature'', 0x10)],
      ci_attributes = [(''CurrentHue'', 0x0000), (''CurrentSaturation'', 0x0001), (''RemainingTime'', 0x0002),
        (''CurrentX'', 0x0003), (''CurrentY'', 0x0004), (''DriftCompensation'', 0x0005), (''CompensationText'',
        0x0006), (''ColorTemperatureMireds'', 0x0007), (''ColorMode'', 0x0008), (''Options'', 0x000F),
        (''NumberOfPrimaries'', 0x0010), (''Primary1X'', 0x0011), (''Primary1Y'', 0x0012),
        (''Primary1Intensity'', 0x0013), (''Primary2X'', 0x0015), (''Primary2Y'', 0x0016),
        (''Primary2Intensity'', 0x0017), (''Primary3X'', 0x0019), (''Primary3Y'', 0x001A),
        (''Primary3Intensity'', 0x001B), (''Primary4X'', 0x0020), (''Primary4Y'', 0x0021),
        (''Primary4Intensity'', 0x0022), (''Primary5X'', 0x0024), (''Primary5Y'', 0x0025),
        (''Primary5Intensity'', 0x0026), (''Primary6X'', 0x0028), (''Primary6Y'', 0x0029),
        (''Primary6Intensity'', 0x002A), (''WhitePointX'', 0x0030), (''WhitePointY'', 0x0031),
        (''ColorPointRX'', 0x0032), (''ColorPointRY'', 0x0033), (''ColorPointRIntensity'', 0x0034),
        (''ColorPointGX'', 0x0036), (''ColorPointGY'', 0x0037), (''ColorPointGIntensity'', 0x0038),
        (''ColorPointBX'', 0x003A), (''ColorPointBY'', 0x003B), (''ColorPointBIntensity'', 0x003C),
        (''EnhancedCurrentHue'', 0x4000), (''EnhancedColorMode'', 0x4001), (''ColorLoopActive'', 0x4002),
        (''ColorLoopDirection'', 0x4003), (''ColorLoopTime'', 0x4004), (''ColorLoopStartEnhancedHue'', 0x4005),
        (''ColorLoopStoredEnhancedHue'', 0x4006), (''ColorCapabilities'', 0x400A),
        (''ColorTempPhysicalMinMireds'', 0x400B), (''ColorTempPhysicalMaxMireds'', 0x400C),
        (''CoupleColorTempToLevelMinMireds'', 0x400D), (''StartUpColorTemperatureMireds'', 0x4010)],
      ci_commands = [(''MoveToHue'', 0x00), (''MoveHue'', 0x01), (''StepHue'', 0x02), (''MoveToSaturation'',
        0x03), (''MoveSaturation'', 0x04), (''StepSaturation'', 0x05), (''MoveToHueAndSaturation'', 0x06),
        (''MoveToColor'', 0x07), (''MoveColor'', 0x08), (''StepColor'', 0x09), (''MoveToColorTemperature'',
        0x0A), (''EnhancedMoveToHue'', 0x40), (''EnhancedMoveHue'', 0x41), (''EnhancedStepHue'', 0x42),
        (''EnhancedMoveToHueAndSaturation'', 0x43), (''ColorLoopSet'', 0x44), (''StopMoveStep'', 0x47),
        (''MoveColorTemperature'', 0x4B), (''StepColorTemperature'', 0x4C)],
      ci_events = []\<rparr>"

definition color_control_features :: "feature_fn list" where
  "color_control_features =
     [color_control_feature_hue_saturation, color_control_feature_enhanced_hue, color_control_feature_color_loop,
        color_control_feature_xy, color_control_feature_color_temperature]"

definition color_control_attributes :: "attr_fn list" where
  "color_control_attributes =
     [color_control_attribute_current_hue, color_control_attribute_current_saturation,
        color_control_attribute_remaining_time, color_control_attribute_current_x,
        color_control_attribute_current_y, color_control_attribute_drift_compensation,
        color_control_attribute_compensation_text, color_control_attribute_color_temperature_mireds,
        color_control_attribute_color_mode, color_control_attribute_options,
        color_control_attribute_number_of_primaries, color_control_attribute_primary_1_x,
        color_control_attribute_primary_1_y, color_control_attribute_primary_1_intensity,
        color_control_attribute_primary_2_x, color_control_attribute_primary_2_y,
        color_control_attribute_primary_2_intensity, color_control_attribute_primary_3_x,
        color_control_attribute_primary_3_y, color_control_attribute_primary_3_intensity,
        color_control_attribute_primary_4_x, color_control_attribute_primary_4_y,
        color_control_attribute_primary_4_intensity, color_control_attribute_primary_5_x,
        color_control_attribute_primary_5_y, color_control_attribute_primary_5_intensity,
        color_control_attribute_primary_6_x, color_control_attribute_primary_6_y,
        color_control_attribute_primary_6_intensity, color_control_attribute_white_point_x,
        color_control_attribute_white_point_y, color_control_attribute_color_point_rx,
        color_control_attribute_color_point_ry, color_control_attribute_color_point_r_intensity,
        color_control_attribute_color_point_gx, color_control_attribute_color_point_gy,
        color_control_attribute_color_point_g_intensity, color_control_attribute_color_point_bx,
        color_control_attribute_color_point_by, color_control_attribute_color_point_b_intensity,
        color_control_attribute_enhanced_current_hue, color_control_attribute_enhanced_color_mode,
        color_control_attribute_color_loop_active, color_control_attribute_color_loop_direction,
        color_control_attribute_color_loop_time, color_control_attribute_color_loop_start_enhanced_hue,
        color_control_attribute_color_loop_stored_enhanced_hue, color_control_attribute_color_capabilities,
        color_control_attribute_color_temp_physical_min_mireds,
        color_control_attribute_color_temp_physical_max_mireds,
        color_control_attribute_couple_color_temp_to_level_min_mireds,
        color_control_attribute_start_up_color_temperature_mireds]"

definition color_control_commands :: "cmd_fn list" where
  "color_control_commands =
     [color_control_command_move_to_hue, color_control_command_move_hue, color_control_command_step_hue,
        color_control_command_move_to_saturation, color_control_command_move_saturation,
        color_control_command_step_saturation, color_control_command_move_to_hue_and_saturation,
        color_control_command_move_to_color, color_control_command_move_color, color_control_command_step_color,
        color_control_command_move_to_color_temperature, color_control_command_enhanced_move_to_hue,
        color_control_command_enhanced_move_hue, color_control_command_enhanced_step_hue,
        color_control_command_enhanced_move_to_hue_and_saturation, color_control_command_color_loop_set,
        color_control_command_stop_move_step, color_control_command_move_color_temperature,
        color_control_command_step_color_temperature]"

definition color_control_callbacks :: "(string \<times> callback_fn) list" where
  "color_control_callbacks =
     [(''color_control.esp_matter_command_callback_move_to_hue'', color_control_callback_move_to_hue),
        (''color_control.esp_matter_command_callback_move_hue'', color_control_callback_move_hue),
        (''color_control.esp_matter_command_callback_step_hue'', color_control_callback_step_hue),
        (''color_control.esp_matter_command_callback_move_to_saturation'',
        color_control_callback_move_to_saturation),
        (''color_control.esp_matter_command_callback_move_saturation'', color_control_callback_move_saturation),
        (''color_control.esp_matter_command_callback_step_saturation'', color_control_callback_step_saturation),
        (''color_control.esp_matter_command_callback_move_to_hue_and_saturation'',
        color_control_callback_move_to_hue_and_saturation),
        (''color_control.esp_matter_command_callback_move_to_color'', color_control_callback_move_to_color),
        (''color_control.esp_matter_command_callback_move_color'', color_control_callback_move_color),
        (''color_control.esp_matter_command_callback_step_color'', color_control_callback_step_color),
        (''color_control.esp_matter_command_callback_move_to_color_temperature'',
        color_control_callback_move_to_color_temperature),
        (''color_control.esp_matter_command_callback_enhanced_move_to_hue'',
        color_control_callback_enhanced_move_to_hue),
        (''color_control.esp_matter_command_callback_enhanced_move_hue'',
        color_control_callback_enhanced_move_hue),
        (''color_control.esp_matter_command_callback_enhanced_step_hue'',
        color_control_callback_enhanced_step_hue),
        (''color_control.esp_matter_command_callback_enhanced_move_to_hue_and_saturation'',
        color_control_callback_enhanced_move_to_hue_and_saturation),
        (''color_control.esp_matter_command_callback_color_loop_set'', color_control_callback_color_loop_set),
        (''color_control.esp_matter_command_callback_stop_move_step'', color_control_callback_stop_move_step),
        (''color_control.esp_matter_command_callback_move_color_temperature'',
        color_control_callback_move_color_temperature),
        (''color_control.esp_matter_command_callback_step_color_temperature'',
        color_control_callback_step_color_temperature)]"

definition color_control_cluster :: cluster_decl where
  "color_control_cluster =
     \<lparr>cd_ids = color_control_ids,
      cd_callbacks = color_control_callbacks,
      cd_features = color_control_features,
      cd_attributes = color_control_attributes,
      cd_commands = color_control_commands,
      cd_events = [],
      cd_create = Some color_control_create\<rparr>"

section \<open>\<open>commissioner_control\<close>\<close>

definition commissioner_control_attribute_supported_device_categories :: attr_fn where
  "commissioner_control_attribute_supported_device_categories =
     bounded 0 4294967295 (attr 0x0000 0 VT_BITMAP32)"

definition commissioner_control_command_request_commissioning_approval :: cmd_fn where
  "commissioner_control_command_request_commissioning_approval =
     cmd 0x00 COMMAND_FLAG_ACCEPTED None"

definition commissioner_control_command_commission_node :: cmd_fn where
  "commissioner_control_command_commission_node =
     cmd 0x01 COMMAND_FLAG_ACCEPTED None"

definition commissioner_control_command_reverse_open_commissioning_window :: cmd_fn where
  "commissioner_control_command_reverse_open_commissioning_window =
     cmd 0x02 COMMAND_FLAG_GENERATED None"

definition commissioner_control_event_commissioning_request_result :: event_fn where
  "commissioner_control_event_commissioning_request_result =
     event 0x00"

definition commissioner_control_create :: cluster_fn where
  "commissioner_control_create =
     \<lparr>kf_id = 0x0751,
      kf_revision = 1,
      kf_functions = None,
      kf_function_flags = 0,
      kf_body = [Delegate ''CommissionerControlDelegateInitCB'',
        Plugin ''MatterCommissionerControlPluginServerInitCallback'', Functions, Feature_Map 0,
        Cluster_Revision,
        Step (Attribute commissioner_control_attribute_supported_device_categories (Field
          ''supported_device_categories'')),
        Step (Command commissioner_control_command_request_commissioning_approval),
        Step (Command commissioner_control_command_commission_node),
        Step (Command commissioner_control_command_reverse_open_commissioning_window),
        Step (Event commissioner_control_event_commissioning_request_result)],
      kf_binding = False\<rparr>"

definition commissioner_control_ids :: cluster_ids where
  "commissioner_control_ids =
     \<lparr>ci_cluster = 0x0751,
      ci_features = [],
      ci_attributes = [(''SupportedDeviceCategories'', 0x0000)],
      ci_commands = [(''RequestCommissioningApproval'', 0x00), (''CommissionNode'', 0x01),
        (''ReverseOpenCommissioningWindow'', 0x02)],
      ci_events = [(''CommissioningRequestResult'', 0x00)]\<rparr>"

definition commissioner_control_attributes :: "attr_fn list" where
  "commissioner_control_attributes =
     [commissioner_control_attribute_supported_device_categories]"

definition commissioner_control_commands :: "cmd_fn list" where
  "commissioner_control_commands =
     [commissioner_control_command_request_commissioning_approval, commissioner_control_command_commission_node,
        commissioner_control_command_reverse_open_commissioning_window]"

definition commissioner_control_events :: "event_fn list" where
  "commissioner_control_events =
     [commissioner_control_event_commissioning_request_result]"

definition commissioner_control_cluster :: cluster_decl where
  "commissioner_control_cluster =
     \<lparr>cd_ids = commissioner_control_ids,
      cd_callbacks = [],
      cd_features = [],
      cd_attributes = commissioner_control_attributes,
      cd_commands = commissioner_control_commands,
      cd_events = commissioner_control_events,
      cd_create = Some commissioner_control_create\<rparr>"

section \<open>\<open>commodity_metering\<close>\<close>

definition commodity_metering_attribute_metered_quantity :: attr_fn where
  "commodity_metering_attribute_metered_quantity =
     attr 0x0000 (ATTRIBUTE_FLAG_MANAGED_INTERNALLY OR ATTRIBUTE_FLAG_NULLABLE) VT_ARRAY"

definition commodity_metering_attribute_metered_quantity_timestamp :: attr_fn where
  "commodity_metering_attribute_metered_quantity_timestamp =
     attr 0x0001 (ATTRIBUTE_FLAG_MANAGED_INTERNALLY OR ATTRIBUTE_FLAG_NULLABLE) VT_NULLABLE_UINT32"

definition commodity_metering_attribute_tariff_unit :: attr_fn where
  "commodity_metering_attribute_tariff_unit =
     attr 0x0002 (ATTRIBUTE_FLAG_MANAGED_INTERNALLY OR ATTRIBUTE_FLAG_NULLABLE) VT_NULLABLE_ENUM8"

definition commodity_metering_attribute_maximum_metered_quantities :: attr_fn where
  "commodity_metering_attribute_maximum_metered_quantities =
     attr 0x0003 (ATTRIBUTE_FLAG_MANAGED_INTERNALLY OR ATTRIBUTE_FLAG_NULLABLE) VT_NULLABLE_UINT16"

definition commodity_metering_create :: cluster_fn where
  "commodity_metering_create =
     \<lparr>kf_id = 0x0B07,
      kf_revision = 1,
      kf_functions = None,
      kf_function_flags = 0,
      kf_body = [Plugin ''MatterCommodityMeteringPluginServerInitCallback'', Functions, Feature_Map 0,
        Cluster_Revision, Step (Attribute commodity_metering_attribute_metered_quantity Null_Arr),
        Step (Attribute commodity_metering_attribute_metered_quantity_timestamp (Lit 0)),
        Step (Attribute commodity_metering_attribute_tariff_unit (Lit 0)),
        Step (Attribute commodity_metering_attribute_maximum_metered_quantities (Lit 0))],
      kf_binding = True\<rparr>"

definition commodity_metering_ids :: cluster_ids where
  "commodity_metering_ids =
     \<lparr>ci_cluster = 0x0B07,
      ci_features = [],
      ci_attributes = [(''MeteredQuantity'', 0x0000), (''MeteredQuantityTimestamp'', 0x0001), (''TariffUnit'',
        0x0002), (''MaximumMeteredQuantities'', 0x0003)],
      ci_commands = [],
      ci_events = []\<rparr>"

definition commodity_metering_attributes :: "attr_fn list" where
  "commodity_metering_attributes =
     [commodity_metering_attribute_metered_quantity, commodity_metering_attribute_metered_quantity_timestamp,
        commodity_metering_attribute_tariff_unit, commodity_metering_attribute_maximum_metered_quantities]"

definition commodity_metering_cluster :: cluster_decl where
  "commodity_metering_cluster =
     \<lparr>cd_ids = commodity_metering_ids,
      cd_callbacks = [],
      cd_features = [],
      cd_attributes = commodity_metering_attributes,
      cd_commands = [],
      cd_events = [],
      cd_create = Some commodity_metering_create\<rparr>"

section \<open>\<open>commodity_price\<close>\<close>

definition commodity_price_forecasting_id :: u32 where
  "commodity_price_forecasting_id = 0x1"

definition commodity_price_attribute_tariff_unit :: attr_fn where
  "commodity_price_attribute_tariff_unit =
     attr 0x0000 ATTRIBUTE_FLAG_MANAGED_INTERNALLY VT_ENUM8"

definition commodity_price_attribute_currency :: attr_fn where
  "commodity_price_attribute_currency =
     attr 0x0001 (ATTRIBUTE_FLAG_MANAGED_INTERNALLY OR ATTRIBUTE_FLAG_NULLABLE) VT_ARRAY"

definition commodity_price_attribute_current_price :: attr_fn where
  "commodity_price_attribute_current_price =
     attr 0x0002 (ATTRIBUTE_FLAG_MANAGED_INTERNALLY OR ATTRIBUTE_FLAG_NULLABLE) VT_ARRAY"

definition commodity_price_attribute_price_forecast :: attr_fn where
  "commodity_price_attribute_price_forecast =
     guarded (Has_Feature commodity_price_forecasting_id) (attr 0x0003 ATTRIBUTE_FLAG_MANAGED_INTERNALLY VT_ARRAY)"

definition commodity_price_command_get_detailed_price_request :: cmd_fn where
  "commodity_price_command_get_detailed_price_request =
     cmd 0x00 COMMAND_FLAG_ACCEPTED None"

definition commodity_price_command_get_detailed_price_response :: cmd_fn where
  "commodity_price_command_get_detailed_price_response =
     guarded_cmd (Has_Command 0x00 COMMAND_FLAG_ACCEPTED) (cmd 0x01 COMMAND_FLAG_GENERATED None)"

definition commodity_price_command_get_detailed_forecast_request :: cmd_fn where
  "commodity_price_command_get_detailed_forecast_request =
     cmd 0x02 COMMAND_FLAG_ACCEPTED None"

definition commodity_price_command_get_detailed_forecast_response :: cmd_fn where
  "commodity_price_command_get_detailed_forecast_response =
     guarded_cmd (Has_Command 0x02 COMMAND_FLAG_ACCEPTED) (cmd 0x03 COMMAND_FLAG_GENERATED None)"

definition commodity_price_event_price_change :: event_fn where
  "commodity_price_event_price_change =
     event 0x00"

definition commodity_price_feature_forecasting :: feature_fn where
  "commodity_price_feature_forecasting =
     feature commodity_price_forecasting_id False [Update_Feature_Map,
        Attribute commodity_price_attribute_price_forecast Null_Arr]"

definition commodity_price_create :: cluster_fn where
  "commodity_price_create =
     \<lparr>kf_id = 0x0095,
      kf_revision = 4,
      kf_functions = None,
      kf_function_flags = 0,
      kf_body = [Delegate ''CommodityPriceDelegateInitCB'',
        Plugin ''MatterCommodityPricePluginServerInitCallback'', Functions, Feature_Map 0, Cluster_Revision,
        Step (Attribute commodity_price_attribute_tariff_unit (Lit 0)),
        Step (Attribute commodity_price_attribute_currency Null_Arr),
        Step (Attribute commodity_price_attribute_current_price Null_Arr)],
      kf_binding = True\<rparr>"

definition commodity_price_ids :: cluster_ids where
  "commodity_price_ids =
     \<lparr>ci_cluster = 0x0095,
      ci_features = [(''Forecasting'', 0x1)],
      ci_attributes = [(''TariffUnit'', 0x0000), (''Currency'', 0x0001), (''CurrentPrice'', 0x0002),
        (''PriceForecast'', 0x0003)],
      ci_commands = [(''GetDetailedPriceRequest'', 0x00), (''GetDetailedPriceResponse'', 0x01),
        (''GetDetailedForecastRequest'', 0x02), (''GetDetailedForecastResponse'', 0x03)],
      ci_events = [(''PriceChange'', 0x00)]\<rparr>"

definition commodity_price_features :: "feature_fn list" where
  "commodity_price_features =
     [commodity_price_feature_forecasting]"

definition commodity_price_attributes :: "attr_fn list" where
  "commodity_price_attributes =
     [commodity_price_attribute_tariff_unit, commodity_price_attribute_currency,
        commodity_price_attribute_current_price, commodity_price_attribute_price_forecast]"

definition commodity_price_commands :: "cmd_fn list" where
  "commodity_price_commands =
     [commodity_price_command_get_detailed_price_request, commodity_price_command_get_detailed_price_response,
        commodity_price_command_get_detailed_forecast_request,
        commodity_price_command_get_detailed_forecast_response]"

definition commodity_price_events :: "event_fn list" where
  "commodity_price_events =
     [commodity_price_event_price_change]"

definition commodity_price_cluster :: cluster_decl where
  "commodity_price_cluster =
     \<lparr>cd_ids = commodity_price_ids,
      cd_callbacks = [],
      cd_features = commodity_price_features,
      cd_attributes = commodity_price_attributes,
      cd_commands = commodity_price_commands,
      cd_events = commodity_price_events,
      cd_create = Some commodity_price_create\<rparr>"

section \<open>\<open>commodity_tariff\<close>\<close>

definition commodity_tariff_pricing_id :: u32 where
  "commodity_tariff_pricing_id = 0x1"

definition commodity_tariff_friendly_credit_id :: u32 where
  "commodity_tariff_friendly_credit_id = 0x2"

definition commodity_tariff_auxiliary_load_id :: u32 where
  "commodity_tariff_auxiliary_load_id = 0x4"

definition commodity_tariff_peak_period_id :: u32 where
  "commodity_tariff_peak_period_id = 0x8"

definition commodity_tariff_power_threshold_id :: u32 where
  "commodity_tariff_power_threshold_id = 0x10"

definition commodity_tariff_randomization_id :: u32 where
  "commodity_tariff_randomization_id = 0x20"

definition commodity_tariff_attribute_tariff_info :: attr_fn where
  "commodity_tariff_attribute_tariff_info =
     attr 0x0000 (ATTRIBUTE_FLAG_MANAGED_INTERNALLY OR ATTRIBUTE_FLAG_NULLABLE) VT_ARRAY"

definition commodity_tariff_attribute_tariff_unit :: attr_fn where
  "commodity_tariff_attribute_tariff_unit =
     attr 0x0001 (ATTRIBUTE_FLAG_MANAGED_INTERNALLY OR ATTRIBUTE_FLAG_NULLABLE) VT_NULLABLE_ENUM8"

definition commodity_tariff_attribute_start_date :: attr_fn where
  "commodity_tariff_attribute_start_date =
     attr 0x0002 (ATTRIBUTE_FLAG_MANAGED_INTERNALLY OR ATTRIBUTE_FLAG_NULLABLE) VT_NULLABLE_UINT32"

definition commodity_tariff_attribute_day_entries :: attr_fn where
  "commodity_tariff_attribute_day_entries =
     attr 0x0003 (ATTRIBUTE_FLAG_MANAGED_INTERNALLY OR ATTRIBUTE_FLAG_NULLABLE) VT_ARRAY"

definition commodity_tariff_attribute_day_patterns :: attr_fn where
  "commodity_tariff_attribute_day_patterns =
     attr 0x0004 (ATTRIBUTE_FLAG_MANAGED_INTERNALLY OR ATTRIBUTE_FLAG_NULLABLE) VT_ARRAY"

definition commodity_tariff_attribute_calendar_periods :: attr_fn where
  "commodity_tariff_attribute_calendar_periods =
     attr 0x0005 (ATTRIBUTE_FLAG_MANAGED_INTERNALLY OR ATTRIBUTE_FLAG_NULLABLE) VT_ARRAY"

definition commodity_tariff_attribute_individual_days :: attr_fn where
  "commodity_tariff_attribute_individual_days =
     attr 0x0006 (ATTRIBUTE_FLAG_MANAGED_INTERNALLY OR ATTRIBUTE_FLAG_NULLABLE) VT_ARRAY"

definition commodity_tariff_attribute_current_day :: attr_fn where
  "commodity_tariff_attribute_current_day =
     attr 0x0007 (ATTRIBUTE_FLAG_MANAGED_INTERNALLY OR ATTRIBUTE_FLAG_NULLABLE) VT_ARRAY"

definition commodity_tariff_attribute_next_day :: attr_fn where
  "commodity_tariff_attribute_next_day =
     attr 0x0008 (ATTRIBUTE_FLAG_MANAGED_INTERNALLY OR ATTRIBUTE_FLAG_NULLABLE) VT_ARRAY"

definition commodity_tariff_attribute_current_day_entry :: attr_fn where
  "commodity_tariff_attribute_current_day_entry =
     attr 0x0009 (ATTRIBUTE_FLAG_MANAGED_INTERNALLY OR ATTRIBUTE_FLAG_NULLABLE) VT_ARRAY"

definition commodity_tariff_attribute_current_day_entry_date :: attr_fn where
  "commodity_tariff_attribute_current_day_entry_date =
     attr 0x000A (ATTRIBUTE_FLAG_MANAGED_INTERNALLY OR ATTRIBUTE_FLAG_NULLABLE) VT_NULLABLE_UINT32"

definition commodity_tariff_attribute_next_day_entry :: attr_fn where
  "commodity_tariff_attribute_next_day_entry =
     attr 0x000B (ATTRIBUTE_FLAG_MANAGED_INTERNALLY OR ATTRIBUTE_FLAG_NULLABLE) VT_ARRAY"

definition commodity_tariff_attribute_next_day_entry_date :: attr_fn where
  "commodity_tariff_attribute_next_day_entry_date =
     attr 0x000C (ATTRIBUTE_FLAG_MANAGED_INTERNALLY OR ATTRIBUTE_FLAG_NULLABLE) VT_NULLABLE_UINT32"

definition commodity_tariff_attribute_tariff_components :: attr_fn where
  "commodity_tariff_attribute_tariff_components =
     attr 0x000D (ATTRIBUTE_FLAG_MANAGED_INTERNALLY OR ATTRIBUTE_FLAG_NULLABLE) VT_ARRAY"

definition commodity_tariff_attribute_tariff_periods :: attr_fn where
  "commodity_tariff_attribute_tariff_periods =
     attr 0x000E (ATTRIBUTE_FLAG_MANAGED_INTERNALLY OR ATTRIBUTE_FLAG_NULLABLE) VT_ARRAY"

definition commodity_tariff_attribute_current_tariff_components :: attr_fn where
  "commodity_tariff_attribute_current_tariff_components =
     attr 0x000F (ATTRIBUTE_FLAG_MANAGED_INTERNALLY OR ATTRIBUTE_FLAG_NULLABLE) VT_ARRAY"

definition commodity_tariff_attribute_next_tariff_components :: attr_fn where
  "commodity_tariff_attribute_next_tariff_components =
     attr 0x0010 (ATTRIBUTE_FLAG_MANAGED_INTERNALLY OR ATTRIBUTE_FLAG_NULLABLE) VT_ARRAY"

definition commodity_tariff_attribute_default_randomization_offset :: attr_fn where
  "commodity_tariff_attribute_default_randomization_offset =
     guarded (Has_Feature commodity_tariff_randomization_id) (attr 0x0011 (ATTRIBUTE_FLAG_MANAGED_INTERNALLY OR
          ATTRIBUTE_FLAG_NULLABLE) VT_NULLABLE_INT16)"

definition commodity_tariff_attribute_default_randomization_type :: attr_fn where
  "commodity_tariff_attribute_default_randomization_type =
     guarded (Has_Feature commodity_tariff_randomization_id) (attr 0x0012 (ATTRIBUTE_FLAG_MANAGED_INTERNALLY OR
          ATTRIBUTE_FLAG_NULLABLE) VT_NULLABLE_ENUM8)"

definition commodity_tariff_command_get_tariff_component :: cmd_fn where
  "commodity_tariff_command_get_tariff_component =
     cmd 0x00 COMMAND_FLAG_ACCEPTED None"

definition commodity_tariff_command_get_tariff_component_response :: cmd_fn where
  "commodity_tariff_command_get_tariff_component_response =
     cmd 0x00 COMMAND_FLAG_GENERATED None"

definition commodity_tariff_command_get_day_entry :: cmd_fn where
  "commodity_tariff_command_get_day_entry =
     cmd 0x01 COMMAND_FLAG_ACCEPTED None"

definition commodity_tariff_command_get_day_entry_response :: cmd_fn where
  "commodity_tariff_command_get_day_entry_response =
     cmd 0x01 COMMAND_FLAG_GENERATED None"

definition commodity_tariff_feature_pricing :: feature_fn where
  "commodity_tariff_feature_pricing =
     feature commodity_tariff_pricing_id False [Update_Feature_Map]"

definition commodity_tariff_feature_friendly_credit :: feature_fn where
  "commodity_tariff_feature_friendly_credit =
     feature commodity_tariff_friendly_credit_id False [Update_Feature_Map]"

definition commodity_tariff_feature_auxiliary_load :: feature_fn where
  "commodity_tariff_feature_auxiliary_load =
     feature commodity_tariff_auxiliary_load_id False [Update_Feature_Map]"

definition commodity_tariff_feature_peak_period :: feature_fn where
  "commodity_tariff_feature_peak_period =
     feature commodity_tariff_peak_period_id False [Update_Feature_Map]"

definition commodity_tariff_feature_power_threshold :: feature_fn where
  "commodity_tariff_feature_power_threshold =
     feature commodity_tariff_power_threshold_id False [Update_Feature_Map]"

definition commodity_tariff_feature_randomization :: feature_fn where
  "commodity_tariff_feature_randomization =
     feature commodity_tariff_randomization_id False [Update_Feature_Map,
        Attribute commodity_tariff_attribute_default_randomization_offset (Lit 0),
        Attribute commodity_tariff_attribute_default_randomization_type (Lit 0)]"

definition commodity_tariff_create :: cluster_fn where
  "commodity_tariff_create =
     \<lparr>kf_id = 0x0700,
      kf_revision = 1,
      kf_functions = None,
      kf_function_flags = 0,
      kf_body = [Delegate ''CommodityTariffDelegateInitCB'',
        Plugin ''MatterCommodityTariffPluginServerInitCallback'', Functions, Config_Feature_Map,
        Cluster_Revision, Step (Attribute commodity_tariff_attribute_tariff_info Null_Arr),
        Step (Attribute commodity_tariff_attribute_tariff_unit (Lit 0)),
        Step (Attribute commodity_tariff_attribute_start_date (Lit 0)),
        Step (Attribute commodity_tariff_attribute_day_entries Null_Arr),
        Step (Attribute commodity_tariff_attribute_day_patterns Null_Arr),
        Step (Attribute commodity_tariff_attribute_calendar_periods Null_Arr),
        Step (Attribute commodity_tariff_attribute_individual_days Null_Arr),
        Step (Attribute commodity_tariff_attribute_current_day Null_Arr),
        Step (Attribute commodity_tariff_attribute_next_day Null_Arr),
        Step (Attribute commodity_tariff_attribute_current_day_entry Null_Arr),
        Step (Attribute commodity_tariff_attribute_current_day_entry_date (Lit 0)),
        Step (Attribute commodity_tariff_attribute_next_day_entry Null_Arr),
        Step (Attribute commodity_tariff_attribute_next_day_entry_date (Lit 0)),
        Step (Attribute commodity_tariff_attribute_tariff_components Null_Arr),
        Step (Attribute commodity_tariff_attribute_tariff_periods Null_Arr),
        Step (Attribute commodity_tariff_attribute_current_tariff_components Null_Arr),
        Step (Attribute commodity_tariff_attribute_next_tariff_components Null_Arr),
        Validate k_at_least_one [commodity_tariff_pricing_id, commodity_tariff_friendly_credit_id,
        commodity_tariff_auxiliary_load_id],
        If_Feature commodity_tariff_pricing_id [Add_Feature commodity_tariff_feature_pricing ''pricing''] [],
        If_Feature commodity_tariff_friendly_credit_id [Add_Feature commodity_tariff_feature_friendly_credit
          ''friendly_credit''] [],
        If_Feature commodity_tariff_auxiliary_load_id [Add_Feature commodity_tariff_feature_auxiliary_load
          ''auxiliary_load''] [],
        If_Feature commodity_tariff_peak_period_id [Add_Feature commodity_tariff_feature_peak_period
          ''peak_period''] [],
        If_Feature commodity_tariff_power_threshold_id [Add_Feature commodity_tariff_feature_power_threshold
          ''power_threshold''] [],
        If_Feature commodity_tariff_randomization_id [Add_Feature commodity_tariff_feature_randomization
          ''randomization''] [], Step (Command commodity_tariff_command_get_tariff_component),
        Step (Command commodity_tariff_command_get_tariff_component_response),
        Step (Command commodity_tariff_command_get_day_entry),
        Step (Command commodity_tariff_command_get_day_entry_response)],
      kf_binding = True\<rparr>"

definition commodity_tariff_ids :: cluster_ids where
  "commodity_tariff_ids =
     \<lparr>ci_cluster = 0x0700,
      ci_features = [(''Pricing'', 0x1), (''FriendlyCredit'', 0x2), (''AuxiliaryLoad'', 0x4), (''PeakPeriod'',
        0x8), (''PowerThreshold'', 0x10), (''Randomization'', 0x20)],
      ci_attributes = [(''TariffInfo'', 0x0000), (''TariffUnit'', 0x0001), (''StartDate'', 0x0002),
        (''DayEntries'', 0x0003), (''DayPatterns'', 0x0004), (''CalendarPeriods'', 0x0005), (''IndividualDays'',
        0x0006), (''CurrentDay'', 0x0007), (''NextDay'', 0x0008), (''CurrentDayEntry'', 0x0009),
        (''CurrentDayEntryDate'', 0x000A), (''NextDayEntry'', 0x000B), (''NextDayEntryDate'', 0x000C),
        (''TariffComponents'', 0x000D), (''TariffPeriods'', 0x000E), (''CurrentTariffComponents'', 0x000F),
        (''NextTariffComponents'', 0x0010), (''DefaultRandomizationOffset'', 0x0011),
        (''DefaultRandomizationType'', 0x0012)],
      ci_commands = [(''GetTariffComponent'', 0x00), (''GetTariffComponentResponse'', 0x00), (''GetDayEntry'',
        0x01), (''GetDayEntryResponse'', 0x01)],
      ci_events = []\<rparr>"

definition commodity_tariff_features :: "feature_fn list" where
  "commodity_tariff_features =
     [commodity_tariff_feature_pricing, commodity_tariff_feature_friendly_credit,
        commodity_tariff_feature_auxiliary_load, commodity_tariff_feature_peak_period,
        commodity_tariff_feature_power_threshold, commodity_tariff_feature_randomization]"

definition commodity_tariff_attributes :: "attr_fn list" where
  "commodity_tariff_attributes =
     [commodity_tariff_attribute_tariff_info, commodity_tariff_attribute_tariff_unit,
        commodity_tariff_attribute_start_date, commodity_tariff_attribute_day_entries,
        commodity_tariff_attribute_day_patterns, commodity_tariff_attribute_calendar_periods,
        commodity_tariff_attribute_individual_days, commodity_tariff_attribute_current_day,
        commodity_tariff_attribute_next_day, commodity_tariff_attribute_current_day_entry,
        commodity_tariff_attribute_current_day_entry_date, commodity_tariff_attribute_next_day_entry,
        commodity_tariff_attribute_next_day_entry_date, commodity_tariff_attribute_tariff_components,
        commodity_tariff_attribute_tariff_periods, commodity_tariff_attribute_current_tariff_components,
        commodity_tariff_attribute_next_tariff_components,
        commodity_tariff_attribute_default_randomization_offset,
        commodity_tariff_attribute_default_randomization_type]"

definition commodity_tariff_commands :: "cmd_fn list" where
  "commodity_tariff_commands =
     [commodity_tariff_command_get_tariff_component, commodity_tariff_command_get_tariff_component_response,
        commodity_tariff_command_get_day_entry, commodity_tariff_command_get_day_entry_response]"

definition commodity_tariff_cluster :: cluster_decl where
  "commodity_tariff_cluster =
     \<lparr>cd_ids = commodity_tariff_ids,
      cd_callbacks = [],
      cd_features = commodity_tariff_features,
      cd_attributes = commodity_tariff_attributes,
      cd_commands = commodity_tariff_commands,
      cd_events = [],
      cd_create = Some commodity_tariff_create\<rparr>"

section \<open>\<open>content_app_observer\<close>\<close>

definition content_app_observer_callback_content_app_message :: callback_fn where
  "content_app_observer_callback_content_app_message =
     decodes_to ''ContentAppObserver::Commands::ContentAppMessage''
          ''emberAfContentAppObserverClusterContentAppMessageCallback''"

definition content_app_observer_command_content_app_message :: cmd_fn where
  "content_app_observer_command_content_app_message =
     cmd 0x00 COMMAND_FLAG_ACCEPTED (Some ''content_app_observer.esp_matter_command_callback_content_app_message'')"

definition content_app_observer_command_content_app_message_response :: cmd_fn where
  "content_app_observer_command_content_app_message_response =
     cmd 0x01 COMMAND_FLAG_GENERATED None"

definition content_app_observer_create :: cluster_fn where
  "content_app_observer_create =
     \<lparr>kf_id = 0x0510,
      kf_revision = 1,
      kf_functions = None,
      kf_function_flags = 0,
      kf_body = [Delegate ''ContentAppObserverDelegateInitCB'',
        Plugin ''MatterContentAppObserverPluginServerInitCallback'', Functions, Feature_Map 0, Cluster_Revision,
        Step (Command content_app_observer_command_content_app_message),
        Step (Command content_app_observer_command_content_app_message_response)],
      kf_binding = True\<rparr>"

definition content_app_observer_ids :: cluster_ids where
  "content_app_observer_ids =
     \<lparr>ci_cluster = 0x0510,
      ci_features = [],
      ci_attributes = [],
      ci_commands = [(''ContentAppMessage'', 0x00), (''ContentAppMessageResponse'', 0x01)],
      ci_events = []\<rparr>"

definition content_app_observer_commands :: "cmd_fn list" where
  "content_app_observer_commands =
     [content_app_observer_command_content_app_message, content_app_observer_command_content_app_message_response]"

definition content_app_observer_callbacks :: "(string \<times> callback_fn) list" where
  "content_app_observer_callbacks =
     [(''content_app_observer.esp_matter_command_callback_content_app_message'',
        content_app_observer_callback_content_app_message)]"

definition content_app_observer_cluster :: cluster_decl where
  "content_app_observer_cluster =
     \<lparr>cd_ids = content_app_observer_ids,
      cd_callbacks = content_app_observer_callbacks,
      cd_features = [],
      cd_attributes = [],
      cd_commands = content_app_observer_commands,
      cd_events = [],
      cd_create = Some content_app_observer_create\<rparr>"

section \<open>\<open>content_control\<close>\<close>

definition content_control_screen_time_id :: u32 where
  "content_control_screen_time_id = 0x1"

definition content_control_pin_management_id :: u32 where
  "content_control_pin_management_id = 0x2"

definition content_control_block_unrated_id :: u32 where
  "content_control_block_unrated_id = 0x4"

definition content_control_on_demand_content_rating_id :: u32 where
  "content_control_on_demand_content_rating_id = 0x8"

definition content_control_scheduled_content_rating_id :: u32 where
  "content_control_scheduled_content_rating_id = 0x10"

definition content_control_block_channels_id :: u32 where
  "content_control_block_channels_id = 0x20"

definition content_control_block_applications_id :: u32 where
  "content_control_block_applications_id = 0x40"

definition content_control_block_content_time_window_id :: u32 where
  "content_control_block_content_time_window_id = 0x80"

definition content_control_attribute_enabled :: attr_fn where
  "content_control_attribute_enabled =
     attr 0x0000 0 VT_BOOLEAN"

definition content_control_attribute_on_demand_ratings :: attr_fn where
  "content_control_attribute_on_demand_ratings =
     guarded (Has_Feature content_control_on_demand_content_rating_id) (attr 0x0001
          ATTRIBUTE_FLAG_MANAGED_INTERNALLY VT_ARRAY)"

definition content_control_attribute_on_demand_rating_threshold :: attr_fn where
  "content_control_attribute_on_demand_rating_threshold =
     guarded (Has_Feature content_control_on_demand_content_rating_id) (at_most 9 (sized 9 (attr 0x0002 0
          VT_CHAR_STRING)))"

definition content_control_attribute_scheduled_content_ratings :: attr_fn where
  "content_control_attribute_scheduled_content_ratings =
     guarded (Has_Feature content_control_scheduled_content_rating_id) (attr 0x0003
          ATTRIBUTE_FLAG_MANAGED_INTERNALLY VT_ARRAY)"

definition content_control_attribute_scheduled_content_rating_threshold :: attr_fn where
  "content_control_attribute_scheduled_content_rating_threshold =
     guarded (Has_Feature content_control_scheduled_content_rating_id) (at_most 9 (sized 9 (attr 0x0004 0
          VT_CHAR_STRING)))"

definition content_control_attribute_screen_daily_time :: attr_fn where
  "content_control_attribute_screen_daily_time =
     guarded (Has_Feature content_control_screen_time_id) (bounded 0 86400 (attr 0x0005 0 VT_UINT32))"

definition content_control_attribute_remaining_screen_time :: attr_fn where
  "content_control_attribute_remaining_screen_time =
     guarded (Has_Feature content_control_screen_time_id) (bounded 0 86400 (attr 0x0006 0 VT_UINT32))"

definition content_control_attribute_block_unrated :: attr_fn where
  "content_control_attribute_block_unrated =
     guarded (Has_Feature content_control_block_unrated_id) (attr 0x0007 0 VT_BOOLEAN)"

definition content_control_attribute_block_channel_list :: attr_fn where
  "content_control_attribute_block_channel_list =
     guarded (Has_Feature content_control_block_channels_id) (attr 0x0008 ATTRIBUTE_FLAG_MANAGED_INTERNALLY VT_ARRAY)"

definition content_control_attribute_block_application_list :: attr_fn where
  "content_control_attribute_block_application_list =
     guarded (Has_Feature content_control_block_applications_id) (attr 0x0009 ATTRIBUTE_FLAG_MANAGED_INTERNALLY
          VT_ARRAY)"

definition content_control_attribute_block_content_time_window :: attr_fn where
  "content_control_attribute_block_content_time_window =
     guarded (Has_Feature content_control_block_content_time_window_id) (attr 0x000A
          ATTRIBUTE_FLAG_MANAGED_INTERNALLY VT_ARRAY)"

definition content_control_callback_update_pin :: callback_fn where
  "content_control_callback_update_pin =
     decodes_to ''ContentControl::Commands::UpdatePIN'' ''emberAfContentControlClusterUpdatePINCallback''"

definition content_control_callback_reset_pin :: callback_fn where
  "content_control_callback_reset_pin =
     decodes_to ''ContentControl::Commands::ResetPIN'' ''emberAfContentControlClusterResetPINCallback''"

definition content_control_callback_enable :: callback_fn where
  "content_control_callback_enable =
     decodes_to ''ContentControl::Commands::Enable'' ''emberAfContentControlClusterEnableCallback''"

definition content_control_callback_disable :: callback_fn where
  "content_control_callback_disable =
     decodes_to ''ContentControl::Commands::Disable'' ''emberAfContentControlClusterDisableCallback''"

definition content_control_callback_add_bonus_time :: callback_fn where
  "content_control_callback_add_bonus_time =
     decodes_to ''ContentControl::Commands::AddBonusTime'' ''emberAfContentControlClusterAddBonusTimeCallback''"

definition content_control_callback_set_screen_daily_time :: callback_fn where
  "content_control_callback_set_screen_daily_time =
     decodes_to ''ContentControl::Commands::SetScreenDailyTime''
          ''emberAfContentControlClusterSetScreenDailyTimeCallback''"

definition content_control_callback_block_unrated_content :: callback_fn where
  "content_control_callback_block_unrated_content =
     decodes_to ''ContentControl::Commands::BlockUnratedContent''
          ''emberAfContentControlClusterBlockUnratedContentCallback''"

definition content_control_callback_unblock_unrated_content :: callback_fn where
  "content_control_callback_unblock_unrated_content =
     decodes_to ''ContentControl::Commands::UnblockUnratedContent''
          ''emberAfContentControlClusterUnblockUnratedContentCallback''"

definition content_control_callback_set_on_demand_rating_threshold :: callback_fn where
  "content_control_callback_set_on_demand_rating_threshold =
     decodes_to ''ContentControl::Commands::SetOnDemandRatingThreshold''
          ''emberAfContentControlClusterSetOnDemandRatingThresholdCallback''"

definition content_control_callback_set_scheduled_content_rating_threshold :: callback_fn where
  "content_control_callback_set_scheduled_content_rating_threshold =
     decodes_to ''ContentControl::Commands::SetScheduledContentRatingThreshold''
          ''emberAfContentControlClusterSetScheduledContentRatingThresholdCallback''"

definition content_control_callback_add_block_channels :: callback_fn where
  "content_control_callback_add_block_channels =
     decodes_to ''ContentControl::Commands::AddBlockChannels''
          ''emberAfContentControlClusterAddBlockChannelsCallback''"

definition content_control_callback_remove_block_channels :: callback_fn where
  "content_control_callback_remove_block_channels =
     decodes_to ''ContentControl::Commands::RemoveBlockChannels''
          ''emberAfContentControlClusterRemoveBlockChannelsCallback''"

definition content_control_callback_add_block_applications :: callback_fn where
  "content_control_callback_add_block_applications =
     decodes_to ''ContentControl::Commands::AddBlockApplications''
          ''emberAfContentControlClusterAddBlockApplicationsCallback''"

definition content_control_callback_remove_block_applications :: callback_fn where
  "content_control_callback_remove_block_applications =
     decodes_to ''ContentControl::Commands::RemoveBlockApplications''
          ''emberAfContentControlClusterRemoveBlockApplicationsCallback''"

definition content_control_callback_set_block_content_time_window :: callback_fn where
  "content_control_callback_set_block_content_time_window =
     decodes_to ''ContentControl::Commands::SetBlockContentTimeWindow''
          ''emberAfContentControlClusterSetBlockContentTimeWindowCallback''"

definition content_control_callback_remove_block_content_time_window :: callback_fn where
  "content_control_callback_remove_block_content_time_window =
     decodes_to ''ContentControl::Commands::RemoveBlockContentTimeWindow''
          ''emberAfContentControlClusterRemoveBlockContentTimeWindowCallback''"

definition content_control_command_update_pin :: cmd_fn where
  "content_control_command_update_pin =
     guarded_cmd (Has_Feature content_control_pin_management_id) (cmd 0x00 COMMAND_FLAG_ACCEPTED (Some
          ''content_control.esp_matter_command_callback_update_pin''))"

definition content_control_command_reset_pin :: cmd_fn where
  "content_control_command_reset_pin =
     guarded_cmd (Has_Feature content_control_pin_management_id) (cmd 0x01 COMMAND_FLAG_ACCEPTED (Some
          ''content_control.esp_matter_command_callback_reset_pin''))"

definition content_control_command_reset_pin_response :: cmd_fn where
  "content_control_command_reset_pin_response =
     guarded_cmd (Has_Feature content_control_pin_management_id) (cmd 0x02 COMMAND_FLAG_GENERATED None)"

definition content_control_command_enable :: cmd_fn where
  "content_control_command_enable =
     cmd 0x03 COMMAND_FLAG_ACCEPTED (Some ''content_control.esp_matter_command_callback_enable'')"

definition content_control_command_disable :: cmd_fn where
  "content_control_command_disable =
     cmd 0x04 COMMAND_FLAG_ACCEPTED (Some ''content_control.esp_matter_command_callback_disable'')"

definition content_control_command_add_bonus_time :: cmd_fn where
  "content_control_command_add_bonus_time =
     guarded_cmd (Has_Feature content_control_screen_time_id) (cmd 0x05 COMMAND_FLAG_ACCEPTED (Some
          ''content_control.esp_matter_command_callback_add_bonus_time''))"

definition content_control_command_set_screen_daily_time :: cmd_fn where
  "content_control_command_set_screen_daily_time =
     guarded_cmd (Has_Feature content_control_screen_time_id) (cmd 0x06 COMMAND_FLAG_ACCEPTED (Some
          ''content_control.esp_matter_command_callback_set_screen_daily_time''))"

definition content_control_command_block_unrated_content :: cmd_fn where
  "content_control_command_block_unrated_content =
     guarded_cmd (Has_Feature content_control_block_unrated_id) (cmd 0x07 COMMAND_FLAG_ACCEPTED (Some
          ''content_control.esp_matter_command_callback_block_unrated_content''))"

definition content_control_command_unblock_unrated_content :: cmd_fn where
  "content_control_command_unblock_unrated_content =
     guarded_cmd (Has_Feature content_control_block_unrated_id) (cmd 0x08 COMMAND_FLAG_ACCEPTED (Some
          ''content_control.esp_matter_command_callback_unblock_unrated_content''))"

definition content_control_command_set_on_demand_rating_threshold :: cmd_fn where
  "content_control_command_set_on_demand_rating_threshold =
     guarded_cmd (Has_Feature content_control_on_demand_content_rating_id) (cmd 0x09 COMMAND_FLAG_ACCEPTED (Some
          ''content_control.esp_matter_command_callback_set_on_demand_rating_threshold''))"

definition content_control_command_set_scheduled_content_rating_threshold :: cmd_fn where
  "content_control_command_set_scheduled_content_rating_threshold =
     guarded_cmd (Has_Feature content_control_scheduled_content_rating_id) (cmd 0x0A COMMAND_FLAG_ACCEPTED (Some
          ''content_control.esp_matter_command_callback_set_scheduled_content_rating_threshold''))"

definition content_control_command_add_block_channels :: cmd_fn where
  "content_control_command_add_block_channels =
     guarded_cmd (Has_Feature content_control_block_channels_id) (cmd 0x0B COMMAND_FLAG_ACCEPTED (Some
          ''content_control.esp_matter_command_callback_add_block_channels''))"

definition content_control_command_remove_block_channels :: cmd_fn where
  "content_control_command_remove_block_channels =
     guarded_cmd (Has_Feature content_control_block_channels_id) (cmd 0x0C COMMAND_FLAG_ACCEPTED (Some
          ''content_control.esp_matter_command_callback_remove_block_channels''))"

definition content_control_command_add_block_applications :: cmd_fn where
  "content_control_command_add_block_applications =
     guarded_cmd (Has_Feature content_control_block_applications_id) (cmd 0x0D COMMAND_FLAG_ACCEPTED (Some
          ''content_control.esp_matter_command_callback_add_block_applications''))"

definition content_control_command_remove_block_applications :: cmd_fn where
  "content_control_command_remove_block_applications =
     guarded_cmd (Has_Feature content_control_block_applications_id) (cmd 0x0E COMMAND_FLAG_ACCEPTED (Some
          ''content_control.esp_matter_command_callback_remove_block_applications''))"

definition content_control_command_set_block_content_time_window :: cmd_fn where
  "content_control_command_set_block_content_time_window =
     guarded_cmd (Has_Feature content_control_block_content_time_window_id) (cmd 0x0F COMMAND_FLAG_ACCEPTED (Some
          ''content_control.esp_matter_command_callback_set_block_content_time_window''))"

definition content_control_command_remove_block_content_time_window :: cmd_fn where
  "content_control_command_remove_block_content_time_window =
     guarded_cmd (Has_Feature content_control_block_content_time_window_id) (cmd 0x10 COMMAND_FLAG_ACCEPTED (Some
          ''content_control.esp_matter_command_callback_remove_block_content_time_window''))"

definition content_control_event_remaining_screen_time_expired :: event_fn where
  "content_control_event_remaining_screen_time_expired =
     guarded_event (Has_Feature content_control_screen_time_id) (event 0x00)"

definition content_control_event_entering_block_content_time_window :: event_fn where
  "content_control_event_entering_block_content_time_window =
     guarded_event (Has_Feature content_control_block_content_time_window_id) (event 0x01)"

definition content_control_feature_screen_time :: feature_fn where
  "content_control_feature_screen_time =
     feature content_control_screen_time_id True [Update_Feature_Map,
        Attribute content_control_attribute_screen_daily_time (Field ''screen_daily_time''),
        Attribute content_control_attribute_remaining_screen_time (Field ''remaining_screen_time''),
        Command content_control_command_add_bonus_time, Command content_control_command_set_screen_daily_time,
        Event content_control_event_remaining_screen_time_expired]"

definition content_control_feature_pin_management :: feature_fn where
  "content_control_feature_pin_management =
     feature content_control_pin_management_id False [Update_Feature_Map, Command content_control_command_update_pin,
        Command content_control_command_reset_pin, Command content_control_command_reset_pin_response]"

definition content_control_feature_block_unrated :: feature_fn where
  "content_control_feature_block_unrated =
     feature content_control_block_unrated_id True [Update_Feature_Map,
        Attribute content_control_attribute_block_unrated (Field ''block_unrated''),
        Command content_control_command_block_unrated_content,
        Command content_control_command_unblock_unrated_content]"

definition content_control_feature_on_demand_content_rating :: feature_fn where
  "content_control_feature_on_demand_content_rating =
     feature content_control_on_demand_content_rating_id True [Update_Feature_Map,
        Attribute content_control_attribute_on_demand_rating_threshold (Field ''on_demand_rating_threshold''),
        Attribute content_control_attribute_on_demand_ratings Null_Arr,
        Command content_control_command_set_on_demand_rating_threshold]"

definition content_control_feature_scheduled_content_rating :: feature_fn where
  "content_control_feature_scheduled_content_rating =
     feature content_control_scheduled_content_rating_id True [Update_Feature_Map,
        Attribute content_control_attribute_scheduled_content_rating_threshold (Field
          ''scheduled_content_rating_threshold''),
        Attribute content_control_attribute_scheduled_content_ratings Null_Arr,
        Command content_control_command_set_scheduled_content_rating_threshold]"

definition content_control_feature_block_channels :: feature_fn where
  "content_control_feature_block_channels =
     feature content_control_block_channels_id False [Update_Feature_Map,
        Attribute content_control_attribute_block_channel_list Null_Arr,
        Command content_control_command_add_block_channels,
        Command content_control_command_remove_block_channels]"

definition content_control_feature_block_applications :: feature_fn where
  "content_control_feature_block_applications =
     feature content_control_block_applications_id False [Update_Feature_Map,
        Attribute content_control_attribute_block_application_list Null_Arr,
        Command content_control_command_add_block_applications,
        Command content_control_command_remove_block_applications]"

definition content_control_feature_block_content_time_window :: feature_fn where
  "content_control_feature_block_content_time_window =
     feature content_control_block_content_time_window_id False [Update_Feature_Map,
        Attribute content_control_attribute_block_content_time_window Null_Arr,
        Command content_control_command_set_block_content_time_window,
        Command content_control_command_remove_block_content_time_window,
        Event content_control_event_entering_block_content_time_window]"

definition content_control_create :: cluster_fn where
  "content_control_create =
     \<lparr>kf_id = 0x050F,
      kf_revision = 1,
      kf_functions = None,
      kf_function_flags = 0,
      kf_body = [Delegate ''ContentControlDelegateInitCB'',
        Plugin ''MatterContentControlPluginServerInitCallback'', Functions, Feature_Map 0, Cluster_Revision,
        Step (Attribute content_control_attribute_enabled (Field ''enabled'')),
        Step (Command content_control_command_enable), Step (Command content_control_command_disable)],
      kf_binding = True\<rparr>"

definition content_control_ids :: cluster_ids where
  "content_control_ids =
     \<lparr>ci_cluster = 0x050F,
      ci_features = [(''ScreenTime'', 0x1), (''PINManagement'', 0x2), (''BlockUnrated'', 0x4),
        (''OnDemandContentRating'', 0x8), (''ScheduledContentRating'', 0x10), (''BlockChannels'', 0x20),
        (''BlockApplications'', 0x40), (''BlockContentTimeWindow'', 0x80)],
      ci_attributes = [(''Enabled'', 0x0000), (''OnDemandRatings'', 0x0001), (''OnDemandRatingThreshold'',
        0x0002), (''ScheduledContentRatings'', 0x0003), (''ScheduledContentRatingThreshold'', 0x0004),
        (''ScreenDailyTime'', 0x0005), (''RemainingScreenTime'', 0x0006), (''BlockUnrated'', 0x0007),
        (''BlockChannelList'', 0x0008), (''BlockApplicationList'', 0x0009), (''BlockContentTimeWindow'',
        0x000A)],
      ci_commands = [(''UpdatePIN'', 0x00), (''ResetPIN'', 0x01), (''ResetPINResponse'', 0x02), (''Enable'',
        0x03), (''Disable'', 0x04), (''AddBonusTime'', 0x05), (''SetScreenDailyTime'', 0x06),
        (''BlockUnratedContent'', 0x07), (''UnblockUnratedContent'', 0x08), (''SetOnDemandRatingThreshold'',
        0x09), (''SetScheduledContentRatingThreshold'', 0x0A), (''AddBlockChannels'', 0x0B),
        (''RemoveBlockChannels'', 0x0C), (''AddBlockApplications'', 0x0D), (''RemoveBlockApplications'', 0x0E),
        (''SetBlockContentTimeWindow'', 0x0F), (''RemoveBlockContentTimeWindow'', 0x10)],
      ci_events = [(''RemainingScreenTimeExpired'', 0x00), (''EnteringBlockContentTimeWindow'', 0x01)]\<rparr>"

definition content_control_features :: "feature_fn list" where
  "content_control_features =
     [content_control_feature_screen_time, content_control_feature_pin_management,
        content_control_feature_block_unrated, content_control_feature_on_demand_content_rating,
        content_control_feature_scheduled_content_rating, content_control_feature_block_channels,
        content_control_feature_block_applications, content_control_feature_block_content_time_window]"

definition content_control_attributes :: "attr_fn list" where
  "content_control_attributes =
     [content_control_attribute_enabled, content_control_attribute_on_demand_ratings,
        content_control_attribute_on_demand_rating_threshold,
        content_control_attribute_scheduled_content_ratings,
        content_control_attribute_scheduled_content_rating_threshold,
        content_control_attribute_screen_daily_time, content_control_attribute_remaining_screen_time,
        content_control_attribute_block_unrated, content_control_attribute_block_channel_list,
        content_control_attribute_block_application_list, content_control_attribute_block_content_time_window]"

definition content_control_commands :: "cmd_fn list" where
  "content_control_commands =
     [content_control_command_update_pin, content_control_command_reset_pin,
        content_control_command_reset_pin_response, content_control_command_enable,
        content_control_command_disable, content_control_command_add_bonus_time,
        content_control_command_set_screen_daily_time, content_control_command_block_unrated_content,
        content_control_command_unblock_unrated_content, content_control_command_set_on_demand_rating_threshold,
        content_control_command_set_scheduled_content_rating_threshold,
        content_control_command_add_block_channels, content_control_command_remove_block_channels,
        content_control_command_add_block_applications, content_control_command_remove_block_applications,
        content_control_command_set_block_content_time_window,
        content_control_command_remove_block_content_time_window]"

definition content_control_events :: "event_fn list" where
  "content_control_events =
     [content_control_event_remaining_screen_time_expired, content_control_event_entering_block_content_time_window]"

definition content_control_callbacks :: "(string \<times> callback_fn) list" where
  "content_control_callbacks =
     [(''content_control.esp_matter_command_callback_update_pin'', content_control_callback_update_pin),
        (''content_control.esp_matter_command_callback_reset_pin'', content_control_callback_reset_pin),
        (''content_control.esp_matter_command_callback_enable'', content_control_callback_enable),
        (''content_control.esp_matter_command_callback_disable'', content_control_callback_disable),
        (''content_control.esp_matter_command_callback_add_bonus_time'',
        content_control_callback_add_bonus_time),
        (''content_control.esp_matter_command_callback_set_screen_daily_time'',
        content_control_callback_set_screen_daily_time),
        (''content_control.esp_matter_command_callback_block_unrated_content'',
        content_control_callback_block_unrated_content),
        (''content_control.esp_matter_command_callback_unblock_unrated_content'',
        content_control_callback_unblock_unrated_content),
        (''content_control.esp_matter_command_callback_set_on_demand_rating_threshold'',
        content_control_callback_set_on_demand_rating_threshold),
        (''content_control.esp_matter_command_callback_set_scheduled_content_rating_threshold'',
        content_control_callback_set_scheduled_content_rating_threshold),
        (''content_control.esp_matter_command_callback_add_block_channels'',
        content_control_callback_add_block_channels),
        (''content_control.esp_matter_command_callback_remove_block_channels'',
        content_control_callback_remove_block_channels),
        (''content_control.esp_matter_command_callback_add_block_applications'',
        content_control_callback_add_block_applications),
        (''content_control.esp_matter_command_callback_remove_block_applications'',
        content_control_callback_remove_block_applications),
        (''content_control.esp_matter_command_callback_set_block_content_time_window'',
        content_control_callback_set_block_content_time_window),
        (''content_control.esp_matter_command_callback_remove_block_content_time_window'',
        content_control_callback_remove_block_content_time_window)]"

definition content_control_cluster :: cluster_decl where
  "content_control_cluster =
     \<lparr>cd_ids = content_control_ids,
      cd_callbacks = content_control_callbacks,
      cd_features = content_control_features,
      cd_attributes = content_control_attributes,
      cd_commands = content_control_commands,
      cd_events = content_control_events,
      cd_create = Some content_control_create\<rparr>"

section \<open>Checks\<close>

definition additive_03 :: "cluster_decl list" where
  "additive_03 =
     [closure_dimension_cluster, color_control_cluster, commissioner_control_cluster, commodity_metering_cluster,
        commodity_price_cluster, commodity_tariff_cluster, content_app_observer_cluster,
        content_control_cluster]"

lemma additive_03_ok: "list_all decl_ok additive_03"
  by code_simp

lemma additive_03_order: "list_all (\<lambda>d. order_ok (cd_features d)) additive_03"
  by code_simp

end
