(* ===== verification/EM_Clusters_04.thy ===== *)
theory EM_Clusters_04
  imports EM_Order
begin

text \<open>
  The generated clusters \<open>content_launcher\<close> to \<open>door_lock\<close>:
  one definition for each function and id table of their files, and the checks of the descriptions.
\<close>

section \<open>\<open>content_launcher\<close>\<close>

definition content_launcher_content_search_id :: u32 where
  "content_launcher_content_search_id = 0x1"

definition content_launcher_url_playback_id :: u32 where
  "content_launcher_url_playback_id = 0x2"

definition content_launcher_advanced_seek_id :: u32 where
  "content_launcher_advanced_seek_id = 0x4"

definition content_launcher_text_tracks_id :: u32 where
  "content_launcher_text_tracks_id = 0x8"

definition content_launcher_audio_tracks_id :: u32 where
  "content_launcher_audio_tracks_id = 0x10"

definition content_launcher_attribute_accept_header :: attr_fn where
  "content_launcher_attribute_accept_header =
     guarded (Has_Feature content_launcher_url_playback_id) (attr 0x0000 (ATTRIBUTE_FLAG_MANAGED_INTERNALLY OR
          ATTRIBUTE_FLAG_NONVOLATILE) VT_ARRAY)"

definition content_launcher_attribute_supported_streaming_protocols :: attr_fn where
  "content_launcher_attribute_supported_streaming_protocols =
     guarded (Has_Feature content_launcher_url_playback_id) (bounded 0 3 (attr 0x0001 ATTRIBUTE_FLAG_NONVOLATILE
          VT_BITMAP8))"

definition content_launcher_callback_launch_content :: callback_fn where
  "content_launcher_callback_launch_content =
     decodes_to ''ContentLauncher::Commands::LaunchContent'' ''emberAfContentLauncherClusterLaunchContentCallback''"

definition content_launcher_callback_launch_url :: callback_fn where
  "content_launcher_callback_launch_url =
     decodes_to ''ContentLauncher::Commands::LaunchURL'' ''emberAfContentLauncherClusterLaunchURLCallback''"

definition content_launcher_command_launch_content :: cmd_fn where
  "content_launcher_command_launch_content =
     guarded_cmd (Has_Feature content_launcher_content_search_id) (cmd 0x00 COMMAND_FLAG_ACCEPTED (Some
          ''content_launcher.esp_matter_command_callback_launch_content''))"

definition content_launcher_command_launch_url :: cmd_fn where
  "content_launcher_command_launch_url =
     guarded_cmd (Has_Feature content_launcher_url_playback_id) (cmd 0x01 COMMAND_FLAG_ACCEPTED (Some
          ''content_launcher.esp_matter_command_callback_launch_url''))"

definition content_launcher_command_launcher_response :: cmd_fn where
  "content_launcher_command_launcher_response =
     guarded_cmd (Or (Has_Feature content_launcher_content_search_id) (Has_Feature
          content_launcher_url_playback_id)) (cmd 0x02 COMMAND_FLAG_GENERATED None)"

definition content_launcher_feature_content_search :: feature_fn where
  "content_launcher_feature_content_search =
     feature content_launcher_content_search_id False [Update_Feature_Map,
        Command content_launcher_command_launch_content, Command content_launcher_command_launcher_response]"

definition content_launcher_feature_url_playback :: feature_fn where
  "content_launcher_feature_url_playback =
     feature content_launcher_url_playback_id True [Update_Feature_Map,
        Attribute content_launcher_attribute_supported_streaming_protocols (Field
          ''supported_streaming_protocols''), Attribute content_launcher_attribute_accept_header Null_Arr,
        Command content_launcher_command_launch_url, Command content_launcher_command_launcher_response]"

definition content_launcher_feature_advanced_seek :: feature_fn where
  "content_launcher_feature_advanced_seek =
     feature content_launcher_advanced_seek_id False [Update_Feature_Map]"

definition content_launcher_feature_text_tracks :: feature_fn where
  "content_launcher_feature_text_tracks =
     feature content_launcher_text_tracks_id False [Update_Feature_Map]"

definition content_launcher_feature_audio_tracks :: feature_fn where
  "content_launcher_feature_audio_tracks =
     feature content_launcher_audio_tracks_id False [Update_Feature_Map]"

definition content_launcher_create :: cluster_fn where
  "content_launcher_create =
     \<lparr>kf_id = 0x050A,
      kf_revision = 2,
      kf_functions = None,
      kf_function_flags = 0,
      kf_body = [Plugin ''MatterContentLauncherPluginServerInitCallback'', Functions, Feature_Map 0,
        Cluster_Revision],
      kf_binding = True\<rparr>"

definition content_launcher_ids :: cluster_ids where
  "content_launcher_ids =
     \<lparr>ci_cluster = 0x050A,
      ci_features = [(''ContentSearch'', 0x1), (''URLPlayback'', 0x2), (''AdvancedSeek'', 0x4), (''TextTracks'',
        0x8), (''AudioTracks'', 0x10)],
      ci_attributes = [(''AcceptHeader'', 0x0000), (''SupportedStreamingProtocols'', 0x0001)],
      ci_commands = [(''LaunchContent'', 0x00), (''LaunchURL'', 0x01), (''LauncherResponse'', 0x02)],
      ci_events = []\<rparr>"

definition content_launcher_features :: "feature_fn list" where
  "content_launcher_features =
     [content_launcher_feature_content_search, content_launcher_feature_url_playback,
        content_launcher_feature_advanced_seek, content_launcher_feature_text_tracks,
        content_launcher_feature_audio_tracks]"

definition content_launcher_attributes :: "attr_fn list" where
  "content_launcher_attributes =
     [content_launcher_attribute_accept_header, content_launcher_attribute_supported_streaming_protocols]"

definition content_launcher_commands :: "cmd_fn list" where
  "content_launcher_commands =
     [content_launcher_command_launch_content, content_launcher_command_launch_url,
        content_launcher_command_launcher_response]"

definition content_launcher_callbacks :: "(string \<times> callback_fn) list" where
  "content_launcher_callbacks =
     [(''content_launcher.esp_matter_command_callback_launch_content'', content_launcher_callback_launch_content),
        (''content_launcher.esp_matter_command_callback_launch_url'', content_launcher_callback_launch_url)]"

definition content_launcher_cluster :: cluster_decl where
  "content_launcher_cluster =
     \<lparr>cd_ids = content_launcher_ids,
      cd_callbacks = content_launcher_callbacks,
      cd_features = content_launcher_features,
      cd_attributes = content_launcher_attributes,
      cd_commands = content_launcher_commands,
      cd_events = [],
      cd_create = Some content_launcher_create\<rparr>"

section \<open>\<open>descriptor\<close>\<close>

definition descriptor_tag_list_id :: u32 where
  "descriptor_tag_list_id = 0x1"

definition descriptor_attribute_device_type_list :: attr_fn where
  "descriptor_attribute_device_type_list =
     attr 0x0000 ATTRIBUTE_FLAG_MANAGED_INTERNALLY VT_ARRAY"

definition descriptor_attribute_server_list :: attr_fn where
  "descriptor_attribute_server_list =
     attr 0x0001 ATTRIBUTE_FLAG_MANAGED_INTERNALLY VT_ARRAY"

definition descriptor_attribute_client_list :: attr_fn where
  "descriptor_attribute_client_list =
     attr 0x0002 ATTRIBUTE_FLAG_MANAGED_INTERNALLY VT_ARRAY"

definition descriptor_attribute_parts_list :: attr_fn where
  "descriptor_attribute_parts_list =
     attr 0x0003 ATTRIBUTE_FLAG_MANAGED_INTERNALLY VT_ARRAY"

definition descriptor_attribute_tag_list :: attr_fn where
  "descriptor_attribute_tag_list =
     guarded (Has_Feature descriptor_tag_list_id) (attr 0x0004 ATTRIBUTE_FLAG_MANAGED_INTERNALLY VT_ARRAY)"

definition descriptor_attribute_endpoint_unique_id :: attr_fn where
  "descriptor_attribute_endpoint_unique_id =
     at_most 33 (sized 33 (attr 0x0005 0 VT_CHAR_STRING))"

definition descriptor_feature_tag_list :: feature_fn where
  "descriptor_feature_tag_list =
     feature descriptor_tag_list_id False [Update_Feature_Map, Attribute descriptor_attribute_tag_list Null_Arr]"

definition descriptor_create :: cluster_fn where
  "descriptor_create =
     \<lparr>kf_id = 0x001D,
      kf_revision = 3,
      kf_functions = None,
      kf_function_flags = 0,
      kf_body = [Plugin ''MatterDescriptorPluginServerInitCallback'', Functions, Feature_Map 0,
        Cluster_Revision, Step (Attribute descriptor_attribute_device_type_list Null_Arr),
        Step (Attribute descriptor_attribute_server_list Null_Arr),
        Step (Attribute descriptor_attribute_client_list Null_Arr),
        Step (Attribute descriptor_attribute_parts_list Null_Arr),
        Callbacks ''ESPMatterDescriptorClusterServerInitCallback''
          ''ESPMatterDescriptorClusterServerShutdownCallback''],
      kf_binding = False\<rparr>"

definition descriptor_ids :: cluster_ids where
  "descriptor_ids =
     \<lparr>ci_cluster = 0x001D,
      ci_features = [(''TagList'', 0x1)],
      ci_attributes = [(''DeviceTypeList'', 0x0000), (''ServerList'', 0x0001), (''ClientList'', 0x0002),
        (''PartsList'', 0x0003), (''TagList'', 0x0004), (''EndpointUniqueID'', 0x0005)],
      ci_commands = [],
      ci_events = []\<rparr>"

definition descriptor_features :: "feature_fn list" where
  "descriptor_features =
     [descriptor_feature_tag_list]"

definition descriptor_attributes :: "attr_fn list" where
  "descriptor_attributes =
     [descriptor_attribute_device_type_list, descriptor_attribute_server_list, descriptor_attribute_client_list,
        descriptor_attribute_parts_list, descriptor_attribute_tag_list, descriptor_attribute_endpoint_unique_id]"

definition descriptor_cluster :: cluster_decl where
  "descriptor_cluster =
     \<lparr>cd_ids = descriptor_ids,
      cd_callbacks = [],
      cd_features = descriptor_features,
      cd_attributes = descriptor_attributes,
      cd_commands = [],
      cd_events = [],
      cd_create = Some descriptor_create\<rparr>"

section \<open>\<open>device_energy_management\<close>\<close>

definition device_energy_management_power_adjustment_id :: u32 where
  "device_energy_management_power_adjustment_id = 0x1"

definition device_energy_management_power_forecast_reporting_id :: u32 where
  "device_energy_management_power_forecast_reporting_id = 0x2"

definition device_energy_management_state_forecast_reporting_id :: u32 where
  "device_energy_management_state_forecast_reporting_id = 0x4"

definition device_energy_management_start_time_adjustment_id :: u32 where
  "device_energy_management_start_time_adjustment_id = 0x8"

definition device_energy_management_pausable_id :: u32 where
  "device_energy_management_pausable_id = 0x10"

definition device_energy_management_forecast_adjustment_id :: u32 where
  "device_energy_management_forecast_adjustment_id = 0x20"

definition device_energy_management_constraint_based_adjustment_id :: u32 where
  "device_energy_management_constraint_based_adjustment_id = 0x40"

definition device_energy_management_attribute_esa_type :: attr_fn where
  "device_energy_management_attribute_esa_type =
     bounded 0 14 (attr 0x0000 0 VT_ENUM8)"

definition device_energy_management_attribute_esa_can_generate :: attr_fn where
  "device_energy_management_attribute_esa_can_generate =
     attr 0x0001 0 VT_BOOLEAN"

definition device_energy_management_attribute_esa_state :: attr_fn where
  "device_energy_management_attribute_esa_state =
     bounded 0 4 (attr 0x0002 0 VT_ENUM8)"

definition device_energy_management_attribute_abs_min_power :: attr_fn where
  "device_energy_management_attribute_abs_min_power =
     bounded (- 2147483648) 2147483646 (attr 0x0003 0 VT_INT64)"

definition device_energy_management_attribute_abs_max_power :: attr_fn where
  "device_energy_management_attribute_abs_max_power =
     bounded (- 2147483648) 2147483646 (attr 0x0004 0 VT_INT64)"

definition device_energy_management_attribute_power_adjustment_capability :: attr_fn where
  "device_energy_management_attribute_power_adjustment_capability =
     guarded (Has_Feature device_energy_management_power_adjustment_id) (attr 0x0005
          (ATTRIBUTE_FLAG_MANAGED_INTERNALLY OR ATTRIBUTE_FLAG_NULLABLE) VT_ARRAY)"

definition device_energy_management_attribute_forecast :: attr_fn where
  "device_energy_management_attribute_forecast =
     guarded (Or (Has_Feature device_energy_management_power_forecast_reporting_id) (Has_Feature
          device_energy_management_state_forecast_reporting_id)) (attr 0x0006
          (ATTRIBUTE_FLAG_MANAGED_INTERNALLY OR ATTRIBUTE_FLAG_NULLABLE) VT_ARRAY)"

definition device_energy_management_attribute_opt_out_state :: attr_fn where
  "device_energy_management_attribute_opt_out_state =
     guarded (Or (Or (Or (Or (Has_Feature device_energy_management_power_adjustment_id) (Has_Feature
          device_energy_management_start_time_adjustment_id)) (Has_Feature
          device_energy_management_pausable_id)) (Has_Feature device_energy_management_forecast_adjustment_id))
          (Has_Feature device_energy_management_constraint_based_adjustment_id)) (bounded 0 3 (attr 0x0007 0
          VT_ENUM8))"

definition device_energy_management_command_power_adjust_request :: cmd_fn where
  "device_energy_management_command_power_adjust_request =
     guarded_cmd (Has_Feature device_energy_management_power_adjustment_id) (cmd 0x00 COMMAND_FLAG_ACCEPTED None)"

definition device_energy_management_command_cancel_power_adjust_request :: cmd_fn where
  "device_energy_management_command_cancel_power_adjust_request =
     guarded_cmd (Has_Feature device_energy_management_power_adjustment_id) (cmd 0x01 COMMAND_FLAG_ACCEPTED None)"

definition device_energy_management_command_start_time_adjust_request :: cmd_fn where
  "device_energy_management_command_start_time_adjust_request =
     guarded_cmd (Has_Feature device_energy_management_start_time_adjustment_id) (cmd 0x02 COMMAND_FLAG_ACCEPTED
          None)"

definition device_energy_management_command_pause_request :: cmd_fn where
  "device_energy_management_command_pause_request =
     guarded_cmd (Has_Feature device_energy_management_pausable_id) (cmd 0x03 COMMAND_FLAG_ACCEPTED None)"

definition device_energy_management_command_resume_request :: cmd_fn where
  "device_energy_management_command_resume_request =
     guarded_cmd (Has_Feature device_energy_management_pausable_id) (cmd 0x04 COMMAND_FLAG_ACCEPTED None)"

definition device_energy_management_command_modify_forecast_request :: cmd_fn where
  "device_energy_management_command_modify_forecast_request =
     guarded_cmd (Has_Feature device_energy_management_forecast_adjustment_id) (cmd 0x05 COMMAND_FLAG_ACCEPTED None)"

definition device_energy_management_command_request_constraint_based_forecast :: cmd_fn where
  "device_energy_management_command_request_constraint_based_forecast =
     guarded_cmd (Has_Feature device_energy_management_constraint_based_adjustment_id) (cmd 0x06
          COMMAND_FLAG_ACCEPTED None)"

definition device_energy_management_command_cancel_request :: cmd_fn where
  "device_energy_management_command_cancel_request =
     guarded_cmd (Or (Or (Has_Feature device_energy_management_start_time_adjustment_id) (Has_Feature
          device_energy_management_forecast_adjustment_id)) (Has_Feature
          device_energy_management_constraint_based_adjustment_id)) (cmd 0x07 COMMAND_FLAG_ACCEPTED None)"

definition device_energy_management_event_power_adjust_start :: event_fn where
  "device_energy_management_event_power_adjust_start =
     guarded_event (Has_Feature device_energy_management_power_adjustment_id) (event 0x00)"

definition device_energy_management_event_power_adjust_end :: event_fn where
  "device_energy_management_event_power_adjust_end =
     guarded_event (Has_Feature device_energy_management_power_adjustment_id) (event 0x01)"

definition device_energy_management_event_paused :: event_fn where
  "device_energy_management_event_paused =
     guarded_event (Has_Feature device_energy_management_pausable_id) (event 0x02)"

definition device_energy_management_event_resumed :: event_fn where
  "device_energy_management_event_resumed =
     guarded_event (Has_Feature device_energy_management_pausable_id) (event 0x03)"

definition device_energy_management_feature_power_adjustment :: feature_fn where
  "device_energy_management_feature_power_adjustment =
     feature device_energy_management_power_adjustment_id True [Update_Feature_Map,
        Attribute device_energy_management_attribute_opt_out_state (Field ''opt_out_state''),
        Attribute device_energy_management_attribute_power_adjustment_capability Null_Arr,
        Command device_energy_management_command_power_adjust_request,
        Command device_energy_management_command_cancel_power_adjust_request,
        Event device_energy_management_event_power_adjust_start,
        Event device_energy_management_event_power_adjust_end]"

definition device_energy_management_feature_power_forecast_reporting :: feature_fn where
  "device_energy_management_feature_power_forecast_reporting =
     feature device_energy_management_power_forecast_reporting_id False [Update_Feature_Map,
        Attribute device_energy_management_attribute_forecast Null_Arr]"

definition device_energy_management_feature_state_forecast_reporting :: feature_fn where
  "device_energy_management_feature_state_forecast_reporting =
     feature device_energy_management_state_forecast_reporting_id False [Require (Not (Has_Feature
          device_energy_management_power_adjustment_id)), Update_Feature_Map,
        Attribute device_energy_management_attribute_forecast Null_Arr]"

definition device_energy_management_feature_start_time_adjustment :: feature_fn where
  "device_energy_management_feature_start_time_adjustment =
     feature device_energy_management_start_time_adjustment_id True [Update_Feature_Map,
        Attribute device_energy_management_attribute_opt_out_state (Field ''opt_out_state''),
        Command device_energy_management_command_start_time_adjust_request,
        Command device_energy_management_command_cancel_request]"

definition device_energy_management_feature_pausable :: feature_fn where
  "device_energy_management_feature_pausable =
     feature device_energy_management_pausable_id True [Update_Feature_Map,
        Attribute device_energy_management_attribute_opt_out_state (Field ''opt_out_state''),
        Command device_energy_management_command_pause_request,
        Command device_energy_management_command_resume_request, Event device_energy_management_event_paused,
        Event device_energy_management_event_resumed]"

definition device_energy_management_feature_forecast_adjustment :: feature_fn where
  "device_energy_management_feature_forecast_adjustment =
     feature device_energy_management_forecast_adjustment_id True [Update_Feature_Map,
        Attribute device_energy_management_attribute_opt_out_state (Field ''opt_out_state''),
        Command device_energy_management_command_modify_forecast_request,
        Command device_energy_management_command_cancel_request]"

definition device_energy_management_feature_constraint_based_adjustment :: feature_fn where
  "device_energy_management_feature_constraint_based_adjustment =
     feature device_energy_management_constraint_based_adjustment_id True [Update_Feature_Map,
        Attribute device_energy_management_attribute_opt_out_state (Field ''opt_out_state''),
        Command device_energy_management_command_request_constraint_based_forecast,
        Command device_energy_management_command_cancel_request]"

definition device_energy_management_create :: cluster_fn where
  "device_energy_management_create =
     \<lparr>kf_id = 0x0098,
      kf_revision = 4,
      kf_functions = None,
      kf_function_flags = 0,
      kf_body = [Delegate ''DeviceEnergyManagementDelegateInitCB'',
        Plugin ''MatterDeviceEnergyManagementPluginServerInitCallback'', Functions, Config_Feature_Map,
        Cluster_Revision, Step (Attribute device_energy_management_attribute_esa_type (Field ''esa_type'')),
        Step (Attribute device_energy_management_attribute_esa_can_generate (Field ''esa_can_generate'')),
        Step (Attribute device_energy_management_attribute_esa_state (Field ''esa_state'')),
        Step (Attribute device_energy_management_attribute_abs_min_power (Field ''abs_min_power'')),
        Step (Attribute device_energy_management_attribute_abs_max_power (Field ''abs_max_power'')),
        Validate k_exact_one [device_energy_management_power_forecast_reporting_id,
        device_energy_management_state_forecast_reporting_id],
        If_Feature device_energy_management_power_forecast_reporting_id [Add_Feature
          device_energy_management_feature_power_forecast_reporting ''power_forecast_reporting''] [],
        If_Feature device_energy_management_state_forecast_reporting_id [Add_Feature
          device_energy_management_feature_state_forecast_reporting ''state_forecast_reporting''] [],
        If_Feature device_energy_management_power_adjustment_id [Add_Feature
          device_energy_management_feature_power_adjustment ''power_adjustment''] [],
        If_Feature device_energy_management_start_time_adjustment_id [Add_Feature
          device_energy_management_feature_start_time_adjustment ''start_time_adjustment''] [],
        If_Feature device_energy_management_pausable_id [Add_Feature device_energy_management_feature_pausable
          ''pausable''] [],
        If_Feature device_energy_management_forecast_adjustment_id [Add_Feature
          device_energy_management_feature_forecast_adjustment ''forecast_adjustment''] [],
        If_Feature device_energy_management_constraint_based_adjustment_id [Add_Feature
          device_energy_management_feature_constraint_based_adjustment ''constraint_based_adjustment''] [],
        Callbacks ''ESPMatterDeviceEnergyManagementClusterServerInitCallback''
          ''ESPMatterDeviceEnergyManagementClusterServerShutdownCallback''],
      kf_binding = True\<rparr>"

definition device_energy_management_ids :: cluster_ids where
  "device_energy_management_ids =
     \<lparr>ci_cluster = 0x0098,
      ci_features = [(''PowerAdjustment'', 0x1), (''PowerForecastReporting'', 0x2), (''StateForecastReporting'',
        0x4), (''StartTimeAdjustment'', 0x8), (''Pausable'', 0x10), (''ForecastAdjustment'', 0x20),
        (''ConstraintBasedAdjustment'', 0x40)],
      ci_attributes = [(''ESAType'', 0x0000), (''ESACanGenerate'', 0x0001), (''ESAState'', 0x0002),
        (''AbsMinPower'', 0x0003), (''AbsMaxPower'', 0x0004), (''PowerAdjustmentCapability'', 0x0005),
        (''Forecast'', 0x0006), (''OptOutState'', 0x0007)],
      ci_commands = [(''PowerAdjustRequest'', 0x00), (''CancelPowerAdjustRequest'', 0x01),
        (''StartTimeAdjustRequest'', 0x02), (''PauseRequest'', 0x03), (''ResumeRequest'', 0x04),
        (''ModifyForecastRequest'', 0x05), (''RequestConstraintBasedForecast'', 0x06), (''CancelRequest'',
        0x07)],
      ci_events = [(''PowerAdjustStart'', 0x00), (''PowerAdjustEnd'', 0x01), (''Paused'', 0x02), (''Resumed'',
        0x03)]\<rparr>"

definition device_energy_management_features :: "feature_fn list" where
  "device_energy_management_features =
     [device_energy_management_feature_power_adjustment, device_energy_management_feature_power_forecast_reporting,
        device_energy_management_feature_state_forecast_reporting,
        device_energy_management_feature_start_time_adjustment, device_energy_management_feature_pausable,
        device_energy_management_feature_forecast_adjustment,
        device_energy_management_feature_constraint_based_adjustment]"

definition device_energy_management_attributes :: "attr_fn list" where
  "device_energy_management_attributes =
     [device_energy_management_attribute_esa_type, device_energy_management_attribute_esa_can_generate,
        device_energy_management_attribute_esa_state, device_energy_management_attribute_abs_min_power,
        device_energy_management_attribute_abs_max_power,
        device_energy_management_attribute_power_adjustment_capability,
        device_energy_management_attribute_forecast, device_energy_management_attribute_opt_out_state]"

definition device_energy_management_commands :: "cmd_fn list" where
  "device_energy_management_commands =
     [device_energy_management_command_power_adjust_request,
        device_energy_management_command_cancel_power_adjust_request,
        device_energy_management_command_start_time_adjust_request,
        device_energy_management_command_pause_request, device_energy_management_command_resume_request,
        device_energy_management_command_modify_forecast_request,
        device_energy_management_command_request_constraint_based_forecast,
        device_energy_management_command_cancel_request]"

definition device_energy_management_events :: "event_fn list" where
  "device_energy_management_events =
     [device_energy_management_event_power_adjust_start, device_energy_management_event_power_adjust_end,
        device_energy_management_event_paused, device_energy_management_event_resumed]"

definition device_energy_management_cluster :: cluster_decl where
  "device_energy_management_cluster =
     \<lparr>cd_ids = device_energy_management_ids,
      cd_callbacks = [],
      cd_features = device_energy_management_features,
      cd_attributes = device_energy_management_attributes,
      cd_commands = device_energy_management_commands,
      cd_events = device_energy_management_events,
      cd_create = Some device_energy_management_create\<rparr>"

section \<open>\<open>device_energy_management_mode\<close>\<close>

definition device_energy_management_mode_attribute_supported_modes :: attr_fn where
  "device_energy_management_mode_attribute_supported_modes =
     attr 0x0000 0 VT_ARRAY"

definition device_energy_management_mode_attribute_current_mode :: attr_fn where
  "device_energy_management_mode_attribute_current_mode =
     bounded 0 254 (attr 0x0001 0 VT_UINT8)"

definition device_energy_management_mode_command_change_to_mode :: cmd_fn where
  "device_energy_management_mode_command_change_to_mode =
     cmd 0x00 COMMAND_FLAG_ACCEPTED None"

definition device_energy_management_mode_command_change_to_mode_response :: cmd_fn where
  "device_energy_management_mode_command_change_to_mode_response =
     cmd 0x01 COMMAND_FLAG_GENERATED None"

definition device_energy_management_mode_create :: cluster_fn where
  "device_energy_management_mode_create =
     \<lparr>kf_id = 0x009F,
      kf_revision = 2,
      kf_functions = None,
      kf_function_flags = 0,
      kf_body = [Delegate ''DeviceEnergyManagementModeDelegateInitCB'',
        Plugin ''MatterDeviceEnergyManagementModePluginServerInitCallback'', Functions, Feature_Map 0,
        Cluster_Revision, Step (Command device_energy_management_mode_command_change_to_mode),
        Step (Command device_energy_management_mode_command_change_to_mode_response)],
      kf_binding = False\<rparr>"

definition device_energy_management_mode_ids :: cluster_ids where
  "device_energy_management_mode_ids =
     \<lparr>ci_cluster = 0x009F,
      ci_features = [],
      ci_attributes = [(''SupportedModes'', 0x0000), (''CurrentMode'', 0x0001)],
      ci_commands = [(''ChangeToMode'', 0x00), (''ChangeToModeResponse'', 0x01)],
      ci_events = []\<rparr>"

definition device_energy_management_mode_attributes :: "attr_fn list" where
  "device_energy_management_mode_attributes =
     [device_energy_management_mode_attribute_supported_modes, device_energy_management_mode_attribute_current_mode]"

definition device_energy_management_mode_commands :: "cmd_fn list" where
  "device_energy_management_mode_commands =
     [device_energy_management_mode_command_change_to_mode,
        device_energy_management_mode_command_change_to_mode_response]"

definition device_energy_management_mode_cluster :: cluster_decl where
  "device_energy_management_mode_cluster =
     \<lparr>cd_ids = device_energy_management_mode_ids,
      cd_callbacks = [],
      cd_features = [],
      cd_attributes = device_energy_management_mode_attributes,
      cd_commands = device_energy_management_mode_commands,
      cd_events = [],
      cd_create = Some device_energy_management_mode_create\<rparr>"

section \<open>\<open>diagnostic_logs\<close>\<close>

definition diagnostic_logs_command_retrieve_logs_request :: cmd_fn where
  "diagnostic_logs_command_retrieve_logs_request =
     cmd 0x00 COMMAND_FLAG_ACCEPTED None"

definition diagnostic_logs_command_retrieve_logs_response :: cmd_fn where
  "diagnostic_logs_command_retrieve_logs_response =
     cmd 0x01 COMMAND_FLAG_GENERATED None"

definition diagnostic_logs_create :: cluster_fn where
  "diagnostic_logs_create =
     \<lparr>kf_id = 0x0032,
      kf_revision = 1,
      kf_functions = None,
      kf_function_flags = 0,
      kf_body = [Delegate ''DiagnosticLogsDelegateInitCB'',
        Plugin ''MatterDiagnosticLogsPluginServerInitCallback'', Functions, Feature_Map 0, Cluster_Revision,
        Step (Command diagnostic_logs_command_retrieve_logs_request),
        Step (Command diagnostic_logs_command_retrieve_logs_response),
        Callbacks ''ESPMatterDiagnosticLogsClusterServerInitCallback''
          ''ESPMatterDiagnosticLogsClusterServerShutdownCallback''],
      kf_binding = False\<rparr>"

definition diagnostic_logs_ids :: cluster_ids where
  "diagnostic_logs_ids =
     \<lparr>ci_cluster = 0x0032,
      ci_features = [],
      ci_attributes = [],
      ci_commands = [(''RetrieveLogsRequest'', 0x00), (''RetrieveLogsResponse'', 0x01)],
      ci_events = []\<rparr>"

definition diagnostic_logs_commands :: "cmd_fn list" where
  "diagnostic_logs_commands =
     [diagnostic_logs_command_retrieve_logs_request, diagnostic_logs_command_retrieve_logs_response]"

definition diagnostic_logs_cluster :: cluster_decl where
  "diagnostic_logs_cluster =
     \<lparr>cd_ids = diagnostic_logs_ids,
      cd_callbacks = [],
      cd_features = [],
      cd_attributes = [],
      cd_commands = diagnostic_logs_commands,
      cd_events = [],
      cd_create = Some diagnostic_logs_create\<rparr>"

section \<open>\<open>dish_washer_alarm\<close>\<close>

definition dish_washer_alarm_reset_id :: u32 where
  "dish_washer_alarm_reset_id = 0x1"

definition dish_washer_alarm_attribute_mask :: attr_fn where
  "dish_washer_alarm_attribute_mask =
     bounded 0 4294967295 (attr 0x0000 0 VT_BITMAP32)"

definition dish_washer_alarm_attribute_latch :: attr_fn where
  "dish_washer_alarm_attribute_latch =
     guarded (Has_Feature dish_washer_alarm_reset_id) (bounded 0 4294967295 (attr 0x0001 0 VT_BITMAP32))"

definition dish_washer_alarm_attribute_state :: attr_fn where
  "dish_washer_alarm_attribute_state =
     bounded 0 4294967295 (attr 0x0002 0 VT_BITMAP32)"

definition dish_washer_alarm_attribute_supported :: attr_fn where
  "dish_washer_alarm_attribute_supported =
     bounded 0 4294967295 (attr 0x0003 0 VT_BITMAP32)"

definition dish_washer_alarm_command_reset :: cmd_fn where
  "dish_washer_alarm_command_reset =
     guarded_cmd (Has_Feature dish_washer_alarm_reset_id) (cmd 0x00 COMMAND_FLAG_ACCEPTED None)"

definition dish_washer_alarm_command_modify_enabled_alarms :: cmd_fn where
  "dish_washer_alarm_command_modify_enabled_alarms =
     cmd 0x01 COMMAND_FLAG_ACCEPTED None"

definition dish_washer_alarm_event_notify :: event_fn where
  "dish_washer_alarm_event_notify =
     event 0x00"

definition dish_washer_alarm_feature_reset :: feature_fn where
  "dish_washer_alarm_feature_reset =
     feature dish_washer_alarm_reset_id True [Update_Feature_Map,
        Attribute dish_washer_alarm_attribute_latch (Field ''latch''), Command dish_washer_alarm_command_reset]"

definition dish_washer_alarm_create :: cluster_fn where
  "dish_washer_alarm_create =
     \<lparr>kf_id = 0x005D,
      kf_revision = 1,
      kf_functions = None,
      kf_function_flags = 0,
      kf_body = [Delegate ''DishwasherAlarmDelegateInitCB'',
        Plugin ''MatterDishwasherAlarmPluginServerInitCallback'', Functions, Feature_Map 0, Cluster_Revision,
        Step (Attribute dish_washer_alarm_attribute_mask (Field ''mask'')),
        Step (Attribute dish_washer_alarm_attribute_state (Field ''state'')),
        Step (Attribute dish_washer_alarm_attribute_supported (Field ''supported'')),
        Step (Event dish_washer_alarm_event_notify)],
      kf_binding = False\<rparr>"

definition dish_washer_alarm_ids :: cluster_ids where
  "dish_washer_alarm_ids =
     \<lparr>ci_cluster = 0x005D,
      ci_features = [(''Reset'', 0x1)],
      ci_attributes = [(''Mask'', 0x0000), (''Latch'', 0x0001), (''State'', 0x0002), (''Supported'', 0x0003)],
      ci_commands = [(''Reset'', 0x00), (''ModifyEnabledAlarms'', 0x01)],
      ci_events = [(''Notify'', 0x00)]\<rparr>"

definition dish_washer_alarm_features :: "feature_fn list" where
  "dish_washer_alarm_features =
     [dish_washer_alarm_feature_reset]"

definition dish_washer_alarm_attributes :: "attr_fn list" where
  "dish_washer_alarm_attributes =
     [dish_washer_alarm_attribute_mask, dish_washer_alarm_attribute_latch, dish_washer_alarm_attribute_state,
        dish_washer_alarm_attribute_supported]"

definition dish_washer_alarm_commands :: "cmd_fn list" where
  "dish_washer_alarm_commands =
     [dish_washer_alarm_command_reset, dish_washer_alarm_command_modify_enabled_alarms]"

definition dish_washer_alarm_events :: "event_fn list" where
  "dish_washer_alarm_events =
     [dish_washer_alarm_event_notify]"

definition dish_washer_alarm_cluster :: cluster_decl where
  "dish_washer_alarm_cluster =
     \<lparr>cd_ids = dish_washer_alarm_ids,
      cd_callbacks = [],
      cd_features = dish_washer_alarm_features,
      cd_attributes = dish_washer_alarm_attributes,
      cd_commands = dish_washer_alarm_commands,
      cd_events = dish_washer_alarm_events,
      cd_create = Some dish_washer_alarm_create\<rparr>"

section \<open>\<open>dish_washer_mode\<close>\<close>

definition dish_washer_mode_attribute_supported_modes :: attr_fn where
  "dish_washer_mode_attribute_supported_modes =
     attr 0x0000 0 VT_ARRAY"

definition dish_washer_mode_attribute_current_mode :: attr_fn where
  "dish_washer_mode_attribute_current_mode =
     bounded 0 254 (attr 0x0001 0 VT_UINT8)"

definition dish_washer_mode_command_change_to_mode :: cmd_fn where
  "dish_washer_mode_command_change_to_mode =
     cmd 0x00 COMMAND_FLAG_ACCEPTED None"

definition dish_washer_mode_command_change_to_mode_response :: cmd_fn where
  "dish_washer_mode_command_change_to_mode_response =
     cmd 0x01 COMMAND_FLAG_GENERATED None"

definition dish_washer_mode_create :: cluster_fn where
  "dish_washer_mode_create =
     \<lparr>kf_id = 0x0059,
      kf_revision = 3,
      kf_functions = None,
      kf_function_flags = 0,
      kf_body = [Delegate ''DishwasherModeDelegateInitCB'',
        Plugin ''MatterDishwasherModePluginServerInitCallback'', Functions, Feature_Map 0, Cluster_Revision,
        Step (Attribute dish_washer_mode_attribute_current_mode (Field ''current_mode'')),
        Step (Attribute dish_washer_mode_attribute_supported_modes Null_Arr),
        Step (Command dish_washer_mode_command_change_to_mode),
        Step (Command dish_washer_mode_command_change_to_mode_response)],
      kf_binding = False\<rparr>"

definition dish_washer_mode_ids :: cluster_ids where
  "dish_washer_mode_ids =
     \<lparr>ci_cluster = 0x0059,
      ci_features = [],
      ci_attributes = [(''SupportedModes'', 0x0000), (''CurrentMode'', 0x0001)],
      ci_commands = [(''ChangeToMode'', 0x00), (''ChangeToModeResponse'', 0x01)],
      ci_events = []\<rparr>"

definition dish_washer_mode_attributes :: "attr_fn list" where
  "dish_washer_mode_attributes =
     [dish_washer_mode_attribute_supported_modes, dish_washer_mode_attribute_current_mode]"

definition dish_washer_mode_commands :: "cmd_fn list" where
  "dish_washer_mode_commands =
     [dish_washer_mode_command_change_to_mode, dish_washer_mode_command_change_to_mode_response]"

definition dish_washer_mode_cluster :: cluster_decl where
  "dish_washer_mode_cluster =
     \<lparr>cd_ids = dish_washer_mode_ids,
      cd_callbacks = [],
      cd_features = [],
      cd_attributes = dish_washer_mode_attributes,
      cd_commands = dish_washer_mode_commands,
      cd_events = [],
      cd_create = Some dish_washer_mode_create\<rparr>"

section \<open>\<open>door_lock\<close>\<close>

definition door_lock_pin_credential_id :: u32 where
  "door_lock_pin_credential_id = 0x1"

definition door_lock_rfid_credential_id :: u32 where
  "door_lock_rfid_credential_id = 0x2"

definition door_lock_weekday_access_schedules_id :: u32 where
  "door_lock_weekday_access_schedules_id = 0x10"

definition door_lock_door_position_sensor_id :: u32 where
  "door_lock_door_position_sensor_id = 0x20"

definition door_lock_credential_over_the_air_access_id :: u32 where
  "door_lock_credential_over_the_air_access_id = 0x80"

definition door_lock_user_id :: u32 where
  "door_lock_user_id = 0x100"

definition door_lock_year_day_access_schedules_id :: u32 where
  "door_lock_year_day_access_schedules_id = 0x400"

definition door_lock_holiday_schedules_id :: u32 where
  "door_lock_holiday_schedules_id = 0x800"

definition door_lock_unbolting_id :: u32 where
  "door_lock_unbolting_id = 0x1000"

definition door_lock_aliro_provisioning_id :: u32 where
  "door_lock_aliro_provisioning_id = 0x2000"

definition door_lock_aliro_bleuwb_id :: u32 where
  "door_lock_aliro_bleuwb_id = 0x4000"

definition door_lock_attribute_lock_state :: attr_fn where
  "door_lock_attribute_lock_state =
     bounded 0 3 (attr 0x0000 ATTRIBUTE_FLAG_NULLABLE VT_NULLABLE_ENUM8)"

definition door_lock_attribute_lock_type :: attr_fn where
  "door_lock_attribute_lock_type =
     bounded 0 11 (attr 0x0001 0 VT_ENUM8)"

definition door_lock_attribute_actuator_enabled :: attr_fn where
  "door_lock_attribute_actuator_enabled =
     attr 0x0002 0 VT_BOOLEAN"

definition door_lock_attribute_door_state :: attr_fn where
  "door_lock_attribute_door_state =
     guarded (Has_Feature door_lock_door_position_sensor_id) (bounded 0 5 (attr 0x0003 ATTRIBUTE_FLAG_NULLABLE
          VT_NULLABLE_ENUM8))"

definition door_lock_attribute_door_open_events :: attr_fn where
  "door_lock_attribute_door_open_events =
     bounded 0 4294967294 (attr 0x0004 ATTRIBUTE_FLAG_WRITABLE VT_UINT32)"

definition door_lock_attribute_door_closed_events :: attr_fn where
  "door_lock_attribute_door_closed_events =
     bounded 0 4294967294 (attr 0x0005 ATTRIBUTE_FLAG_WRITABLE VT_UINT32)"

definition door_lock_attribute_open_period :: attr_fn where
  "door_lock_attribute_open_period =
     bounded 0 65534 (attr 0x0006 ATTRIBUTE_FLAG_WRITABLE VT_UINT16)"

definition door_lock_attribute_number_of_total_users_supported :: attr_fn where
  "door_lock_attribute_number_of_total_users_supported =
     guarded (Has_Feature door_lock_user_id) (bounded 0 65534 (attr 0x0011 0 VT_UINT16))"

definition door_lock_attribute_number_of_pin_users_supported :: attr_fn where
  "door_lock_attribute_number_of_pin_users_supported =
     guarded (Has_Feature door_lock_pin_credential_id) (bounded 0 65534 (attr 0x0012 0 VT_UINT16))"

definition door_lock_attribute_number_of_rfid_users_supported :: attr_fn where
  "door_lock_attribute_number_of_rfid_users_supported =
     guarded (Has_Feature door_lock_rfid_credential_id) (bounded 0 65534 (attr 0x0013 0 VT_UINT16))"

definition door_lock_attribute_number_of_week_day_schedules_supported_per_user :: attr_fn where
  "door_lock_attribute_number_of_week_day_schedules_supported_per_user =
     guarded (Has_Feature door_lock_weekday_access_schedules_id) (bounded 0 253 (attr 0x0014 0 VT_UINT8))"

definition door_lock_attribute_number_of_year_day_schedules_supported_per_user :: attr_fn where
  "door_lock_attribute_number_of_year_day_schedules_supported_per_user =
     guarded (Has_Feature door_lock_year_day_access_schedules_id) (bounded 0 253 (attr 0x0015 0 VT_UINT8))"

definition door_lock_attribute_number_of_holiday_schedules_supported :: attr_fn where
  "door_lock_attribute_number_of_holiday_schedules_supported =
     guarded (Has_Feature door_lock_holiday_schedules_id) (bounded 0 253 (attr 0x0016 0 VT_UINT8))"

definition door_lock_attribute_max_pin_code_length :: attr_fn where
  "door_lock_attribute_max_pin_code_length =
     guarded (Has_Feature door_lock_pin_credential_id) (bounded 0 254 (attr 0x0017 0 VT_UINT8))"

definition door_lock_attribute_min_pin_code_length :: attr_fn where
  "door_lock_attribute_min_pin_code_length =
     guarded (Has_Feature door_lock_pin_credential_id) (bounded 0 254 (attr 0x0018 0 VT_UINT8))"

definition door_lock_attribute_max_rfid_code_length :: attr_fn where
  "door_lock_attribute_max_rfid_code_length =
     guarded (Has_Feature door_lock_rfid_credential_id) (bounded 0 254 (attr 0x0019 0 VT_UINT8))"

definition door_lock_attribute_min_rfid_code_length :: attr_fn where
  "door_lock_attribute_min_rfid_code_length =
     guarded (Has_Feature door_lock_rfid_credential_id) (bounded 0 254 (attr 0x001A 0 VT_UINT8))"

definition door_lock_attribute_credential_rules_support :: attr_fn where
  "door_lock_attribute_credential_rules_support =
     guarded (Has_Feature door_lock_user_id) (bounded 0 7 (attr 0x001B 0 VT_BITMAP8))"

definition door_lock_attribute_number_of_credentials_supported_per_user :: attr_fn where
  "door_lock_attribute_number_of_credentials_supported_per_user =
     guarded (Has_Feature door_lock_user_id) (bounded 0 254 (attr 0x001C 0 VT_UINT8))"

definition door_lock_attribute_language :: attr_fn where
  "door_lock_attribute_language =
     at_most 4 (sized 4 (attr 0x0021 ATTRIBUTE_FLAG_WRITABLE VT_CHAR_STRING))"

definition door_lock_attribute_led_settings :: attr_fn where
  "door_lock_attribute_led_settings =
     bounded 0 2 (attr 0x0022 ATTRIBUTE_FLAG_WRITABLE VT_ENUM8)"

definition door_lock_attribute_auto_relock_time :: attr_fn where
  "door_lock_attribute_auto_relock_time =
     bounded 0 4294967294 (attr 0x0023 ATTRIBUTE_FLAG_WRITABLE VT_UINT32)"

definition door_lock_attribute_sound_volume :: attr_fn where
  "door_lock_attribute_sound_volume =
     bounded 0 3 (attr 0x0024 ATTRIBUTE_FLAG_WRITABLE VT_ENUM8)"

definition door_lock_attribute_operating_mode :: attr_fn where
  "door_lock_attribute_operating_mode =
     bounded 0 4 (attr 0x0025 ATTRIBUTE_FLAG_WRITABLE VT_ENUM8)"

definition door_lock_attribute_supported_operating_modes :: attr_fn where
  "door_lock_attribute_supported_operating_modes =
     bounded 0 65535 (attr 0x0026 0 VT_BITMAP16)"

definition door_lock_attribute_default_configuration_register :: attr_fn where
  "door_lock_attribute_default_configuration_register =
     bounded 0 65535 (attr 0x0027 0 VT_BITMAP16)"

definition door_lock_attribute_enable_local_programming :: attr_fn where
  "door_lock_attribute_enable_local_programming =
     attr 0x0028 ATTRIBUTE_FLAG_WRITABLE VT_BOOLEAN"

definition door_lock_attribute_enable_one_touch_locking :: attr_fn where
  "door_lock_attribute_enable_one_touch_locking =
     attr 0x0029 ATTRIBUTE_FLAG_WRITABLE VT_BOOLEAN"

definition door_lock_attribute_enable_inside_status_led :: attr_fn where
  "door_lock_attribute_enable_inside_status_led =
     attr 0x002A ATTRIBUTE_FLAG_WRITABLE VT_BOOLEAN"

definition door_lock_attribute_enable_privacy_mode_button :: attr_fn where
  "door_lock_attribute_enable_privacy_mode_button =
     attr 0x002B ATTRIBUTE_FLAG_WRITABLE VT_BOOLEAN"

definition door_lock_attribute_local_programming_features :: attr_fn where
  "door_lock_attribute_local_programming_features =
     bounded 0 15 (attr 0x002C ATTRIBUTE_FLAG_WRITABLE VT_BITMAP8)"

definition door_lock_attribute_wrong_code_entry_limit :: attr_fn where
  "door_lock_attribute_wrong_code_entry_limit =
     guarded (Or (Has_Feature door_lock_pin_credential_id) (Has_Feature door_lock_rfid_credential_id)) (bounded 1
          255 (attr 0x0030 ATTRIBUTE_FLAG_WRITABLE VT_UINT8))"

definition door_lock_attribute_user_code_temporary_disable_time :: attr_fn where
  "door_lock_attribute_user_code_temporary_disable_time =
     guarded (Or (Has_Feature door_lock_pin_credential_id) (Has_Feature door_lock_rfid_credential_id)) (bounded 1
          255 (attr 0x0031 ATTRIBUTE_FLAG_WRITABLE VT_UINT8))"

definition door_lock_attribute_send_pin_over_the_air :: attr_fn where
  "door_lock_attribute_send_pin_over_the_air =
     attr 0x0032 ATTRIBUTE_FLAG_WRITABLE VT_BOOLEAN"

definition door_lock_attribute_require_pin_for_remote_operation :: attr_fn where
  "door_lock_attribute_require_pin_for_remote_operation =
     guarded (And (Has_Feature door_lock_credential_over_the_air_access_id) (Has_Feature
          door_lock_pin_credential_id)) (attr 0x0033 ATTRIBUTE_FLAG_WRITABLE VT_BOOLEAN)"

definition door_lock_attribute_expiring_user_timeout :: attr_fn where
  "door_lock_attribute_expiring_user_timeout =
     bounded 1 2880 (attr 0x0035 ATTRIBUTE_FLAG_WRITABLE VT_UINT16)"

definition door_lock_attribute_aliro_reader_verification_key :: attr_fn where
  "door_lock_attribute_aliro_reader_verification_key =
     guarded (Has_Feature door_lock_aliro_provisioning_id) (attr 0x0080 (ATTRIBUTE_FLAG_MANAGED_INTERNALLY OR
          ATTRIBUTE_FLAG_NULLABLE) VT_OCTET_STRING)"

definition door_lock_attribute_aliro_reader_group_identifier :: attr_fn where
  "door_lock_attribute_aliro_reader_group_identifier =
     guarded (Has_Feature door_lock_aliro_provisioning_id) (attr 0x0081 (ATTRIBUTE_FLAG_MANAGED_INTERNALLY OR
          ATTRIBUTE_FLAG_NULLABLE) VT_OCTET_STRING)"

definition door_lock_attribute_aliro_reader_group_sub_identifier :: attr_fn where
  "door_lock_attribute_aliro_reader_group_sub_identifier =
     guarded (Has_Feature door_lock_aliro_provisioning_id) (attr 0x0082 ATTRIBUTE_FLAG_MANAGED_INTERNALLY
          VT_OCTET_STRING)"

definition door_lock_attribute_aliro_expedited_transaction_supported_protocol_versions :: attr_fn where
  "door_lock_attribute_aliro_expedited_transaction_supported_protocol_versions =
     guarded (Has_Feature door_lock_aliro_provisioning_id) (attr 0x0083 ATTRIBUTE_FLAG_MANAGED_INTERNALLY VT_ARRAY)"

definition door_lock_attribute_aliro_group_resolving_key :: attr_fn where
  "door_lock_attribute_aliro_group_resolving_key =
     guarded (Has_Feature door_lock_aliro_bleuwb_id) (attr 0x0084 (ATTRIBUTE_FLAG_MANAGED_INTERNALLY OR
          ATTRIBUTE_FLAG_NULLABLE) VT_OCTET_STRING)"

definition door_lock_attribute_aliro_supported_bleuwb_protocol_versions :: attr_fn where
  "door_lock_attribute_aliro_supported_bleuwb_protocol_versions =
     guarded (Has_Feature door_lock_aliro_bleuwb_id) (attr 0x0085 ATTRIBUTE_FLAG_MANAGED_INTERNALLY VT_ARRAY)"

definition door_lock_attribute_aliro_ble_advertising_version :: attr_fn where
  "door_lock_attribute_aliro_ble_advertising_version =
     guarded (Has_Feature door_lock_aliro_bleuwb_id) (attr 0x0086 ATTRIBUTE_FLAG_MANAGED_INTERNALLY VT_UINT8)"

definition door_lock_attribute_number_of_aliro_credential_issuer_keys_supported :: attr_fn where
  "door_lock_attribute_number_of_aliro_credential_issuer_keys_supported =
     guarded (Has_Feature door_lock_aliro_provisioning_id) (attr 0x0087 ATTRIBUTE_FLAG_MANAGED_INTERNALLY VT_UINT16)"

definition door_lock_attribute_number_of_aliro_endpoint_keys_supported :: attr_fn where
  "door_lock_attribute_number_of_aliro_endpoint_keys_supported =
     guarded (Has_Feature door_lock_aliro_provisioning_id) (attr 0x0088 ATTRIBUTE_FLAG_MANAGED_INTERNALLY VT_UINT16)"

definition door_lock_callback_lock_door :: callback_fn where
  "door_lock_callback_lock_door =
     decodes_to ''DoorLock::Commands::LockDoor'' ''emberAfDoorLockClusterLockDoorCallback''"

definition door_lock_callback_unlock_door :: callback_fn where
  "door_lock_callback_unlock_door =
     decodes_to ''DoorLock::Commands::UnlockDoor'' ''emberAfDoorLockClusterUnlockDoorCallback''"

definition door_lock_callback_unlock_with_timeout :: callback_fn where
  "door_lock_callback_unlock_with_timeout =
     decodes_to ''DoorLock::Commands::UnlockWithTimeout'' ''emberAfDoorLockClusterUnlockWithTimeoutCallback''"

definition door_lock_callback_set_week_day_schedule :: callback_fn where
  "door_lock_callback_set_week_day_schedule =
     decodes_to ''DoorLock::Commands::SetWeekDaySchedule'' ''emberAfDoorLockClusterSetWeekDayScheduleCallback''"

definition door_lock_callback_get_week_day_schedule :: callback_fn where
  "door_lock_callback_get_week_day_schedule =
     decodes_to ''DoorLock::Commands::GetWeekDaySchedule'' ''emberAfDoorLockClusterGetWeekDayScheduleCallback''"

definition door_lock_callback_clear_week_day_schedule :: callback_fn where
  "door_lock_callback_clear_week_day_schedule =
     decodes_to ''DoorLock::Commands::ClearWeekDaySchedule'' ''emberAfDoorLockClusterClearWeekDayScheduleCallback''"

definition door_lock_callback_set_year_day_schedule :: callback_fn where
  "door_lock_callback_set_year_day_schedule =
     decodes_to ''DoorLock::Commands::SetYearDaySchedule'' ''emberAfDoorLockClusterSetYearDayScheduleCallback''"

definition door_lock_callback_get_year_day_schedule :: callback_fn where
  "door_lock_callback_get_year_day_schedule =
     decodes_to ''DoorLock::Commands::GetYearDaySchedule'' ''emberAfDoorLockClusterGetYearDayScheduleCallback''"

definition door_lock_callback_clear_year_day_schedule :: callback_fn where
  "door_lock_callback_clear_year_day_schedule =
     decodes_to ''DoorLock::Commands::ClearYearDaySchedule'' ''emberAfDoorLockClusterClearYearDayScheduleCallback''"

definition door_lock_callback_set_holiday_schedule :: callback_fn where
  "door_lock_callback_set_holiday_schedule =
     decodes_to ''DoorLock::Commands::SetHolidaySchedule'' ''emberAfDoorLockClusterSetHolidayScheduleCallback''"

definition door_lock_callback_get_holiday_schedule :: callback_fn where
  "door_lock_callback_get_holiday_schedule =
     decodes_to ''DoorLock::Commands::GetHolidaySchedule'' ''emberAfDoorLockClusterGetHolidayScheduleCallback''"

definition door_lock_callback_clear_holiday_schedule :: callback_fn where
  "door_lock_callback_clear_holiday_schedule =
     decodes_to ''DoorLock::Commands::ClearHolidaySchedule'' ''emberAfDoorLockClusterClearHolidayScheduleCallback''"

definition door_lock_callback_set_user :: callback_fn where
  "door_lock_callback_set_user =
     decodes_to ''DoorLock::Commands::SetUser'' ''emberAfDoorLockClusterSetUserCallback''"

definition door_lock_callback_get_user :: callback_fn where
  "door_lock_callback_get_user =
     decodes_to ''DoorLock::Commands::GetUser'' ''emberAfDoorLockClusterGetUserCallback''"

definition door_lock_callback_clear_user :: callback_fn where
  "door_lock_callback_clear_user =
     decodes_to ''DoorLock::Commands::ClearUser'' ''emberAfDoorLockClusterClearUserCallback''"

definition door_lock_callback_set_credential :: callback_fn where
  "door_lock_callback_set_credential =
     decodes_to ''DoorLock::Commands::SetCredential'' ''emberAfDoorLockClusterSetCredentialCallback''"

definition door_lock_callback_get_credential_status :: callback_fn where
  "door_lock_callback_get_credential_status =
     decodes_to ''DoorLock::Commands::GetCredentialStatus'' ''emberAfDoorLockClusterGetCredentialStatusCallback''"

definition door_lock_callback_clear_credential :: callback_fn where
  "door_lock_callback_clear_credential =
     decodes_to ''DoorLock::Commands::ClearCredential'' ''emberAfDoorLockClusterClearCredentialCallback''"

definition door_lock_callback_unbolt_door :: callback_fn where
  "door_lock_callback_unbolt_door =
     decodes_to ''DoorLock::Commands::UnboltDoor'' ''emberAfDoorLockClusterUnboltDoorCallback''"

definition door_lock_callback_set_aliro_reader_config :: callback_fn where
  "door_lock_callback_set_aliro_reader_config =
     decodes_to ''DoorLock::Commands::SetAliroReaderConfig'' ''emberAfDoorLockClusterSetAliroReaderConfigCallback''"

definition door_lock_callback_clear_aliro_reader_config :: callback_fn where
  "door_lock_callback_clear_aliro_reader_config =
     decodes_to ''DoorLock::Commands::ClearAliroReaderConfig''
          ''emberAfDoorLockClusterClearAliroReaderConfigCallback''"

definition door_lock_command_lock_door :: cmd_fn where
  "door_lock_command_lock_door =
     cmd 0x00 COMMAND_FLAG_ACCEPTED (Some ''door_lock.esp_matter_command_callback_lock_door'')"

definition door_lock_command_unlock_door :: cmd_fn where
  "door_lock_command_unlock_door =
     cmd 0x01 COMMAND_FLAG_ACCEPTED (Some ''door_lock.esp_matter_command_callback_unlock_door'')"

definition door_lock_command_unlock_with_timeout :: cmd_fn where
  "door_lock_command_unlock_with_timeout =
     cmd 0x03 COMMAND_FLAG_ACCEPTED (Some ''door_lock.esp_matter_command_callback_unlock_with_timeout'')"

definition door_lock_command_set_week_day_schedule :: cmd_fn where
  "door_lock_command_set_week_day_schedule =
     guarded_cmd (Has_Feature door_lock_weekday_access_schedules_id) (cmd 0x0B COMMAND_FLAG_ACCEPTED (Some
          ''door_lock.esp_matter_command_callback_set_week_day_schedule''))"

definition door_lock_command_get_week_day_schedule :: cmd_fn where
  "door_lock_command_get_week_day_schedule =
     guarded_cmd (Has_Feature door_lock_weekday_access_schedules_id) (cmd 0x0C COMMAND_FLAG_ACCEPTED (Some
          ''door_lock.esp_matter_command_callback_get_week_day_schedule''))"

definition door_lock_command_get_week_day_schedule_response :: cmd_fn where
  "door_lock_command_get_week_day_schedule_response =
     guarded_cmd (Has_Feature door_lock_weekday_access_schedules_id) (cmd 0x0C COMMAND_FLAG_GENERATED None)"

definition door_lock_command_clear_week_day_schedule :: cmd_fn where
  "door_lock_command_clear_week_day_schedule =
     guarded_cmd (Has_Feature door_lock_weekday_access_schedules_id) (cmd 0x0D COMMAND_FLAG_ACCEPTED (Some
          ''door_lock.esp_matter_command_callback_clear_week_day_schedule''))"

definition door_lock_command_set_year_day_schedule :: cmd_fn where
  "door_lock_command_set_year_day_schedule =
     guarded_cmd (Has_Feature door_lock_year_day_access_schedules_id) (cmd 0x0E COMMAND_FLAG_ACCEPTED (Some
          ''door_lock.esp_matter_command_callback_set_year_day_schedule''))"

definition door_lock_command_get_year_day_schedule :: cmd_fn where
  "door_lock_command_get_year_day_schedule =
     guarded_cmd (Has_Feature door_lock_year_day_access_schedules_id) (cmd 0x0F COMMAND_FLAG_ACCEPTED (Some
          ''door_lock.esp_matter_command_callback_get_year_day_schedule''))"

definition door_lock_command_get_year_day_schedule_response :: cmd_fn where
  "door_lock_command_get_year_day_schedule_response =
     guarded_cmd (Has_Feature door_lock_year_day_access_schedules_id) (cmd 0x0F COMMAND_FLAG_GENERATED None)"

definition door_lock_command_clear_year_day_schedule :: cmd_fn where
  "door_lock_command_clear_year_day_schedule =
     guarded_cmd (Has_Feature door_lock_year_day_access_schedules_id) (cmd 0x10 COMMAND_FLAG_ACCEPTED (Some
          ''door_lock.esp_matter_command_callback_clear_year_day_schedule''))"

definition door_lock_command_set_holiday_schedule :: cmd_fn where
  "door_lock_command_set_holiday_schedule =
     guarded_cmd (Has_Feature door_lock_holiday_schedules_id) (cmd 0x11 COMMAND_FLAG_ACCEPTED (Some
          ''door_lock.esp_matter_command_callback_set_holiday_schedule''))"

definition door_lock_command_get_holiday_schedule :: cmd_fn where
  "door_lock_command_get_holiday_schedule =
     guarded_cmd (Has_Feature door_lock_holiday_schedules_id) (cmd 0x12 COMMAND_FLAG_ACCEPTED (Some
          ''door_lock.esp_matter_command_callback_get_holiday_schedule''))"

definition door_lock_command_get_holiday_schedule_response :: cmd_fn where
  "door_lock_command_get_holiday_schedule_response =
     guarded_cmd (Has_Feature door_lock_holiday_schedules_id) (cmd 0x12 COMMAND_FLAG_GENERATED None)"

definition door_lock_command_clear_holiday_schedule :: cmd_fn where
  "door_lock_command_clear_holiday_schedule =
     guarded_cmd (Has_Feature door_lock_holiday_schedules_id) (cmd 0x13 COMMAND_FLAG_ACCEPTED (Some
          ''door_lock.esp_matter_command_callback_clear_holiday_schedule''))"

definition door_lock_command_set_user :: cmd_fn where
  "door_lock_command_set_user =
     guarded_cmd (Has_Feature door_lock_user_id) (cmd 0x1A COMMAND_FLAG_ACCEPTED (Some
          ''door_lock.esp_matter_command_callback_set_user''))"

definition door_lock_command_get_user :: cmd_fn where
  "door_lock_command_get_user =
     guarded_cmd (Has_Feature door_lock_user_id) (cmd 0x1B COMMAND_FLAG_ACCEPTED (Some
          ''door_lock.esp_matter_command_callback_get_user''))"

definition door_lock_command_get_user_response :: cmd_fn where
  "door_lock_command_get_user_response =
     guarded_cmd (Has_Feature door_lock_user_id) (cmd 0x1C COMMAND_FLAG_GENERATED None)"

definition door_lock_command_clear_user :: cmd_fn where
  "door_lock_command_clear_user =
     guarded_cmd (Has_Feature door_lock_user_id) (cmd 0x1D COMMAND_FLAG_ACCEPTED (Some
          ''door_lock.esp_matter_command_callback_clear_user''))"

definition door_lock_command_set_credential :: cmd_fn where
  "door_lock_command_set_credential =
     guarded_cmd (Has_Feature door_lock_user_id) (cmd 0x22 COMMAND_FLAG_ACCEPTED (Some
          ''door_lock.esp_matter_command_callback_set_credential''))"

definition door_lock_command_set_credential_response :: cmd_fn where
  "door_lock_command_set_credential_response =
     guarded_cmd (Has_Feature door_lock_user_id) (cmd 0x23 COMMAND_FLAG_GENERATED None)"

definition door_lock_command_get_credential_status :: cmd_fn where
  "door_lock_command_get_credential_status =
     guarded_cmd (Has_Feature door_lock_user_id) (cmd 0x24 COMMAND_FLAG_ACCEPTED (Some
          ''door_lock.esp_matter_command_callback_get_credential_status''))"

definition door_lock_command_get_credential_status_response :: cmd_fn where
  "door_lock_command_get_credential_status_response =
     guarded_cmd (Has_Feature door_lock_user_id) (cmd 0x25 COMMAND_FLAG_GENERATED None)"

definition door_lock_command_clear_credential :: cmd_fn where
  "door_lock_command_clear_credential =
     guarded_cmd (Has_Feature door_lock_user_id) (cmd 0x26 COMMAND_FLAG_ACCEPTED (Some
          ''door_lock.esp_matter_command_callback_clear_credential''))"

definition door_lock_command_unbolt_door :: cmd_fn where
  "door_lock_command_unbolt_door =
     guarded_cmd (Has_Feature door_lock_unbolting_id) (cmd 0x27 COMMAND_FLAG_ACCEPTED (Some
          ''door_lock.esp_matter_command_callback_unbolt_door''))"

definition door_lock_command_set_aliro_reader_config :: cmd_fn where
  "door_lock_command_set_aliro_reader_config =
     guarded_cmd (Has_Feature door_lock_aliro_provisioning_id) (cmd 0x28 COMMAND_FLAG_ACCEPTED (Some
          ''door_lock.esp_matter_command_callback_set_aliro_reader_config''))"

definition door_lock_command_clear_aliro_reader_config :: cmd_fn where
  "door_lock_command_clear_aliro_reader_config =
     guarded_cmd (Has_Feature door_lock_aliro_provisioning_id) (cmd 0x29 COMMAND_FLAG_ACCEPTED (Some
          ''door_lock.esp_matter_command_callback_clear_aliro_reader_config''))"

definition door_lock_event_door_lock_alarm :: event_fn where
  "door_lock_event_door_lock_alarm =
     event 0x00"

definition door_lock_event_door_state_change :: event_fn where
  "door_lock_event_door_state_change =
     guarded_event (Has_Feature door_lock_door_position_sensor_id) (event 0x01)"

definition door_lock_event_lock_operation :: event_fn where
  "door_lock_event_lock_operation =
     event 0x02"

definition door_lock_event_lock_operation_error :: event_fn where
  "door_lock_event_lock_operation_error =
     event 0x03"

definition door_lock_event_lock_user_change :: event_fn where
  "door_lock_event_lock_user_change =
     guarded_event (Has_Feature door_lock_user_id) (event 0x04)"

definition door_lock_feature_pin_credential :: feature_fn where
  "door_lock_feature_pin_credential =
     feature door_lock_pin_credential_id True [Update_Feature_Map,
        Attribute door_lock_attribute_number_of_pin_users_supported (Field ''number_of_pin_users_supported''),
        Attribute door_lock_attribute_max_pin_code_length (Field ''max_pin_code_length''),
        Attribute door_lock_attribute_min_pin_code_length (Field ''min_pin_code_length''),
        Attribute door_lock_attribute_wrong_code_entry_limit (Field ''wrong_code_entry_limit''),
        Attribute door_lock_attribute_user_code_temporary_disable_time (Field
          ''user_code_temporary_disable_time''),
        Attribute door_lock_attribute_require_pin_for_remote_operation (Field
          ''require_pin_for_remote_operation'')]"

definition door_lock_feature_rfid_credential :: feature_fn where
  "door_lock_feature_rfid_credential =
     feature door_lock_rfid_credential_id True [Update_Feature_Map,
        Attribute door_lock_attribute_number_of_rfid_users_supported (Field ''number_of_rfid_users_supported''),
        Attribute door_lock_attribute_max_rfid_code_length (Field ''max_rfid_code_length''),
        Attribute door_lock_attribute_min_rfid_code_length (Field ''min_rfid_code_length''),
        Attribute door_lock_attribute_wrong_code_entry_limit (Field ''wrong_code_entry_limit''),
        Attribute door_lock_attribute_user_code_temporary_disable_time (Field
          ''user_code_temporary_disable_time'')]"

definition door_lock_feature_weekday_access_schedules :: feature_fn where
  "door_lock_feature_weekday_access_schedules =
     feature door_lock_weekday_access_schedules_id True [Update_Feature_Map,
        Attribute door_lock_attribute_number_of_week_day_schedules_supported_per_user (Field
          ''number_of_week_day_schedules_supported_per_user''), Command door_lock_command_set_week_day_schedule,
        Command door_lock_command_get_week_day_schedule,
        Command door_lock_command_get_week_day_schedule_response,
        Command door_lock_command_clear_week_day_schedule]"

definition door_lock_feature_door_position_sensor :: feature_fn where
  "door_lock_feature_door_position_sensor =
     feature door_lock_door_position_sensor_id True [Update_Feature_Map,
        Attribute door_lock_attribute_door_state (Field ''door_state''),
        Event door_lock_event_door_state_change]"

definition door_lock_feature_credential_over_the_air_access :: feature_fn where
  "door_lock_feature_credential_over_the_air_access =
     feature door_lock_credential_over_the_air_access_id True [Update_Feature_Map,
        Attribute door_lock_attribute_require_pin_for_remote_operation (Field
          ''require_pin_for_remote_operation'')]"

definition door_lock_feature_user :: feature_fn where
  "door_lock_feature_user =
     feature door_lock_user_id True [Require (Or (Has_Feature door_lock_aliro_provisioning_id) (Or (Has_Feature
          door_lock_pin_credential_id) (Has_Feature door_lock_rfid_credential_id))), Update_Feature_Map,
        Attribute door_lock_attribute_number_of_total_users_supported (Field
          ''number_of_total_users_supported''),
        Attribute door_lock_attribute_credential_rules_support (Field ''credential_rules_support''),
        Attribute door_lock_attribute_number_of_credentials_supported_per_user (Field
          ''number_of_credentials_supported_per_user''), Command door_lock_command_set_user,
        Command door_lock_command_get_user, Command door_lock_command_get_user_response,
        Command door_lock_command_clear_user, Command door_lock_command_set_credential,
        Command door_lock_command_set_credential_response, Command door_lock_command_get_credential_status,
        Command door_lock_command_get_credential_status_response, Command door_lock_command_clear_credential,
        Event door_lock_event_lock_user_change]"

definition door_lock_feature_year_day_access_schedules :: feature_fn where
  "door_lock_feature_year_day_access_schedules =
     feature door_lock_year_day_access_schedules_id True [Update_Feature_Map,
        Attribute door_lock_attribute_number_of_year_day_schedules_supported_per_user (Field
          ''number_of_year_day_schedules_supported_per_user''), Command door_lock_command_set_year_day_schedule,
        Command door_lock_command_get_year_day_schedule,
        Command door_lock_command_get_year_day_schedule_response,
        Command door_lock_command_clear_year_day_schedule]"

definition door_lock_feature_holiday_schedules :: feature_fn where
  "door_lock_feature_holiday_schedules =
     feature door_lock_holiday_schedules_id True [Update_Feature_Map,
        Attribute door_lock_attribute_number_of_holiday_schedules_supported (Field
          ''number_of_holiday_schedules_supported''), Command door_lock_command_set_holiday_schedule,
        Command door_lock_command_get_holiday_schedule, Command door_lock_command_get_holiday_schedule_response,
        Command door_lock_command_clear_holiday_schedule]"

definition door_lock_feature_unbolting :: feature_fn where
  "door_lock_feature_unbolting =
     feature door_lock_unbolting_id False [Update_Feature_Map, Command door_lock_command_unbolt_door]"

definition door_lock_feature_aliro_provisioning :: feature_fn where
  "door_lock_feature_aliro_provisioning =
     feature door_lock_aliro_provisioning_id False [Update_Feature_Map,
        Attribute door_lock_attribute_aliro_reader_verification_key Null_Str,
        Attribute door_lock_attribute_aliro_reader_group_identifier Null_Str,
        Attribute door_lock_attribute_aliro_reader_group_sub_identifier Null_Str,
        Attribute door_lock_attribute_aliro_expedited_transaction_supported_protocol_versions Null_Arr,
        Attribute door_lock_attribute_number_of_aliro_credential_issuer_keys_supported (Lit 0),
        Attribute door_lock_attribute_number_of_aliro_endpoint_keys_supported (Lit 0),
        Command door_lock_command_set_aliro_reader_config, Command door_lock_command_clear_aliro_reader_config]"

definition door_lock_feature_aliro_bleuwb :: feature_fn where
  "door_lock_feature_aliro_bleuwb =
     feature door_lock_aliro_bleuwb_id False [Require (Has_Feature door_lock_aliro_provisioning_id),
        Update_Feature_Map, Attribute door_lock_attribute_aliro_group_resolving_key Null_Str,
        Attribute door_lock_attribute_aliro_supported_bleuwb_protocol_versions Null_Arr,
        Attribute door_lock_attribute_aliro_ble_advertising_version (Lit 0)]"

definition door_lock_function_list :: "string list option" where
  "door_lock_function_list =
     Some [''MatterDoorLockClusterServerAttributeChangedCallback'', ''MatterDoorLockClusterServerShutdownCallback'',
        ''MatterDoorLockClusterServerPreAttributeChangedCallback'']"

definition door_lock_create :: cluster_fn where
  "door_lock_create =
     \<lparr>kf_id = 0x0101,
      kf_revision = 9,
      kf_functions = door_lock_function_list,
      kf_function_flags = CLUSTER_FLAG_ATTRIBUTE_CHANGED_FUNCTION OR CLUSTER_FLAG_SHUTDOWN_FUNCTION OR
          CLUSTER_FLAG_PRE_ATTRIBUTE_CHANGED_FUNCTION,
      kf_body = [Delegate ''DoorLockDelegateInitCB'', Plugin ''MatterDoorLockPluginServerInitCallback'',
        Functions, Feature_Map 0, Cluster_Revision,
        Step (Attribute door_lock_attribute_lock_state (Field ''lock_state'')),
        Step (Attribute door_lock_attribute_lock_type (Field ''lock_type'')),
        Step (Attribute door_lock_attribute_actuator_enabled (Field ''actuator_enabled'')),
        Step (Attribute door_lock_attribute_operating_mode (Field ''operating_mode'')),
        Step (Attribute door_lock_attribute_supported_operating_modes (Field ''supported_operating_modes'')),
        Step (Command door_lock_command_lock_door), Step (Command door_lock_command_unlock_door),
        Step (Event door_lock_event_door_lock_alarm), Step (Event door_lock_event_lock_operation),
        Step (Event door_lock_event_lock_operation_error)],
      kf_binding = True\<rparr>"

definition door_lock_ids :: cluster_ids where
  "door_lock_ids =
     \<lparr>ci_cluster = 0x0101,
      ci_features = [(''PINCredential'', 0x1), (''RFIDCredential'', 0x2), (''WeekdayAccessSchedules'', 0x10),
        (''DoorPositionSensor'', 0x20), (''CredentialOverTheAirAccess'', 0x80), (''User'', 0x100),
        (''YearDayAccessSchedules'', 0x400), (''HolidaySchedules'', 0x800), (''Unbolting'', 0x1000),
        (''AliroProvisioning'', 0x2000), (''AliroBLEUWB'', 0x4000)],
      ci_attributes = [(''LockState'', 0x0000), (''LockType'', 0x0001), (''ActuatorEnabled'', 0x0002),
        (''DoorState'', 0x0003), (''DoorOpenEvents'', 0x0004), (''DoorClosedEvents'', 0x0005), (''OpenPeriod'',
        0x0006), (''NumberOfTotalUsersSupported'', 0x0011), (''NumberOfPINUsersSupported'', 0x0012),
        (''NumberOfRFIDUsersSupported'', 0x0013), (''NumberOfWeekDaySchedulesSupportedPerUser'', 0x0014),
        (''NumberOfYearDaySchedulesSupportedPerUser'', 0x0015), (''NumberOfHolidaySchedulesSupported'', 0x0016),
        (''MaxPINCodeLength'', 0x0017), (''MinPINCodeLength'', 0x0018), (''MaxRFIDCodeLength'', 0x0019),
        (''MinRFIDCodeLength'', 0x001A), (''CredentialRulesSupport'', 0x001B),
        (''NumberOfCredentialsSupportedPerUser'', 0x001C), (''Language'', 0x0021), (''LEDSettings'', 0x0022),
        (''AutoRelockTime'', 0x0023), (''SoundVolume'', 0x0024), (''OperatingMode'', 0x0025),
        (''SupportedOperatingModes'', 0x0026), (''DefaultConfigurationRegister'', 0x0027),
        (''EnableLocalProgramming'', 0x0028), (''EnableOneTouchLocking'', 0x0029), (''EnableInsideStatusLED'',
        0x002A), (''EnablePrivacyModeButton'', 0x002B), (''LocalProgrammingFeatures'', 0x002C),
        (''WrongCodeEntryLimit'', 0x0030), (''UserCodeTemporaryDisableTime'', 0x0031), (''SendPINOverTheAir'',
        0x0032), (''RequirePINforRemoteOperation'', 0x0033), (''ExpiringUserTimeout'', 0x0035),
        (''AliroReaderVerificationKey'', 0x0080), (''AliroReaderGroupIdentifier'', 0x0081),
        (''AliroReaderGroupSubIdentifier'', 0x0082), (''AliroExpeditedTransactionSupportedProtocolVersions'',
        0x0083), (''AliroGroupResolvingKey'', 0x0084), (''AliroSupportedBLEUWBProtocolVersions'', 0x0085),
        (''AliroBLEAdvertisingVersion'', 0x0086), (''NumberOfAliroCredentialIssuerKeysSupported'', 0x0087),
        (''NumberOfAliroEndpointKeysSupported'', 0x0088)],
      ci_commands = [(''LockDoor'', 0x00), (''UnlockDoor'', 0x01), (''UnlockWithTimeout'', 0x03),
        (''SetWeekDaySchedule'', 0x0B), (''GetWeekDaySchedule'', 0x0C), (''GetWeekDayScheduleResponse'', 0x0C),
        (''ClearWeekDaySchedule'', 0x0D), (''SetYearDaySchedule'', 0x0E), (''GetYearDaySchedule'', 0x0F),
        (''GetYearDayScheduleResponse'', 0x0F), (''ClearYearDaySchedule'', 0x10), (''SetHolidaySchedule'',
        0x11), (''GetHolidaySchedule'', 0x12), (''GetHolidayScheduleResponse'', 0x12),
        (''ClearHolidaySchedule'', 0x13), (''SetUser'', 0x1A), (''GetUser'', 0x1B), (''GetUserResponse'', 0x1C),
        (''ClearUser'', 0x1D), (''SetCredential'', 0x22), (''SetCredentialResponse'', 0x23),
        (''GetCredentialStatus'', 0x24), (''GetCredentialStatusResponse'', 0x25), (''ClearCredential'', 0x26),
        (''UnboltDoor'', 0x27), (''SetAliroReaderConfig'', 0x28), (''ClearAliroReaderConfig'', 0x29)],
      ci_events = [(''DoorLockAlarm'', 0x00), (''DoorStateChange'', 0x01), (''LockOperation'', 0x02),
        (''LockOperationError'', 0x03), (''LockUserChange'', 0x04)]\<rparr>"

definition door_lock_features :: "feature_fn list" where
  "door_lock_features =
     [door_lock_feature_pin_credential, door_lock_feature_rfid_credential,
        door_lock_feature_weekday_access_schedules, door_lock_feature_door_position_sensor,
        door_lock_feature_credential_over_the_air_access, door_lock_feature_user,
        door_lock_feature_year_day_access_schedules, door_lock_feature_holiday_schedules,
        door_lock_feature_unbolting, door_lock_feature_aliro_provisioning, door_lock_feature_aliro_bleuwb]"

definition door_lock_attributes :: "attr_fn list" where
  "door_lock_attributes =
     [door_lock_attribute_lock_state, door_lock_attribute_lock_type, door_lock_attribute_actuator_enabled,
        door_lock_attribute_door_state, door_lock_attribute_door_open_events,
        door_lock_attribute_door_closed_events, door_lock_attribute_open_period,
        door_lock_attribute_number_of_total_users_supported, door_lock_attribute_number_of_pin_users_supported,
        door_lock_attribute_number_of_rfid_users_supported,
        door_lock_attribute_number_of_week_day_schedules_supported_per_user,
        door_lock_attribute_number_of_year_day_schedules_supported_per_user,
        door_lock_attribute_number_of_holiday_schedules_supported, door_lock_attribute_max_pin_code_length,
        door_lock_attribute_min_pin_code_length, door_lock_attribute_max_rfid_code_length,
        door_lock_attribute_min_rfid_code_length, door_lock_attribute_credential_rules_support,
        door_lock_attribute_number_of_credentials_supported_per_user, door_lock_attribute_language,
        door_lock_attribute_led_settings, door_lock_attribute_auto_relock_time,
        door_lock_attribute_sound_volume, door_lock_attribute_operating_mode,
        door_lock_attribute_supported_operating_modes, door_lock_attribute_default_configuration_register,
        door_lock_attribute_enable_local_programming, door_lock_attribute_enable_one_touch_locking,
        door_lock_attribute_enable_inside_status_led, door_lock_attribute_enable_privacy_mode_button,
        door_lock_attribute_local_programming_features, door_lock_attribute_wrong_code_entry_limit,
        door_lock_attribute_user_code_temporary_disable_time, door_lock_attribute_send_pin_over_the_air,
        door_lock_attribute_require_pin_for_remote_operation, door_lock_attribute_expiring_user_timeout,
        door_lock_attribute_aliro_reader_verification_key, door_lock_attribute_aliro_reader_group_identifier,
        door_lock_attribute_aliro_reader_group_sub_identifier,
        door_lock_attribute_aliro_expedited_transaction_supported_protocol_versions,
        door_lock_attribute_aliro_group_resolving_key,
        door_lock_attribute_aliro_supported_bleuwb_protocol_versions,
        door_lock_attribute_aliro_ble_advertising_version,
        door_lock_attribute_number_of_aliro_credential_issuer_keys_supported,
        door_lock_attribute_number_of_aliro_endpoint_keys_supported]"

definition door_lock_commands :: "cmd_fn list" where
  "door_lock_commands =
     [door_lock_command_lock_door, door_lock_command_unlock_door, door_lock_command_unlock_with_timeout,
        door_lock_command_set_week_day_schedule, door_lock_command_get_week_day_schedule,
        door_lock_command_get_week_day_schedule_response, door_lock_command_clear_week_day_schedule,
        door_lock_command_set_year_day_schedule, door_lock_command_get_year_day_schedule,
        door_lock_command_get_year_day_schedule_response, door_lock_command_clear_year_day_schedule,
        door_lock_command_set_holiday_schedule, door_lock_command_get_holiday_schedule,
        door_lock_command_get_holiday_schedule_response, door_lock_command_clear_holiday_schedule,
        door_lock_command_set_user, door_lock_command_get_user, door_lock_command_get_user_response,
        door_lock_command_clear_user, door_lock_command_set_credential,
        door_lock_command_set_credential_response, door_lock_command_get_credential_status,
        door_lock_command_get_credential_status_response, door_lock_command_clear_credential,
        door_lock_command_unbolt_door, door_lock_command_set_aliro_reader_config,
        door_lock_command_clear_aliro_reader_config]"

definition door_lock_events :: "event_fn list" where
  "door_lock_events =
     [door_lock_event_door_lock_alarm, door_lock_event_door_state_change, door_lock_event_lock_operation,
        door_lock_event_lock_operation_error, door_lock_event_lock_user_change]"

definition door_lock_callbacks :: "(string \<times> callback_fn) list" where
  "door_lock_callbacks =
     [(''door_lock.esp_matter_command_callback_lock_door'', door_lock_callback_lock_door),
        (''door_lock.esp_matter_command_callback_unlock_door'', door_lock_callback_unlock_door),
        (''door_lock.esp_matter_command_callback_unlock_with_timeout'', door_lock_callback_unlock_with_timeout),
        (''door_lock.esp_matter_command_callback_set_week_day_schedule'',
        door_lock_callback_set_week_day_schedule),
        (''door_lock.esp_matter_command_callback_get_week_day_schedule'',
        door_lock_callback_get_week_day_schedule),
        (''door_lock.esp_matter_command_callback_clear_week_day_schedule'',
        door_lock_callback_clear_week_day_schedule),
        (''door_lock.esp_matter_command_callback_set_year_day_schedule'',
        door_lock_callback_set_year_day_schedule),
        (''door_lock.esp_matter_command_callback_get_year_day_schedule'',
        door_lock_callback_get_year_day_schedule),
        (''door_lock.esp_matter_command_callback_clear_year_day_schedule'',
        door_lock_callback_clear_year_day_schedule),
        (''door_lock.esp_matter_command_callback_set_holiday_schedule'',
        door_lock_callback_set_holiday_schedule),
        (''door_lock.esp_matter_command_callback_get_holiday_schedule'',
        door_lock_callback_get_holiday_schedule),
        (''door_lock.esp_matter_command_callback_clear_holiday_schedule'',
        door_lock_callback_clear_holiday_schedule), (''door_lock.esp_matter_command_callback_set_user'',
        door_lock_callback_set_user), (''door_lock.esp_matter_command_callback_get_user'',
        door_lock_callback_get_user), (''door_lock.esp_matter_command_callback_clear_user'',
        door_lock_callback_clear_user), (''door_lock.esp_matter_command_callback_set_credential'',
        door_lock_callback_set_credential), (''door_lock.esp_matter_command_callback_get_credential_status'',
        door_lock_callback_get_credential_status), (''door_lock.esp_matter_command_callback_clear_credential'',
        door_lock_callback_clear_credential), (''door_lock.esp_matter_command_callback_unbolt_door'',
        door_lock_callback_unbolt_door), (''door_lock.esp_matter_command_callback_set_aliro_reader_config'',
        door_lock_callback_set_aliro_reader_config),
        (''door_lock.esp_matter_command_callback_clear_aliro_reader_config'',
        door_lock_callback_clear_aliro_reader_config)]"

definition door_lock_cluster :: cluster_decl where
  "door_lock_cluster =
     \<lparr>cd_ids = door_lock_ids,
      cd_callbacks = door_lock_callbacks,
      cd_features = door_lock_features,
      cd_attributes = door_lock_attributes,
      cd_commands = door_lock_commands,
      cd_events = door_lock_events,
      cd_create = Some door_lock_create\<rparr>"

section \<open>Checks\<close>

definition additive_04 :: "cluster_decl list" where
  "additive_04 =
     [content_launcher_cluster, descriptor_cluster, device_energy_management_cluster,
        device_energy_management_mode_cluster, diagnostic_logs_cluster, dish_washer_alarm_cluster,
        dish_washer_mode_cluster, door_lock_cluster]"

lemma additive_04_ok: "list_all decl_ok additive_04"
  by code_simp

lemma additive_04_order: "list_all (\<lambda>d. order_ok (cd_features d)) additive_04"
  by code_simp

end
