(* ===== verification/EM_Clusters_05.thy ===== *)
theory EM_Clusters_05
  imports EM_Order
begin

text \<open>
  The generated clusters \<open>ecosystem_information\<close> to \<open>flow_measurement\<close>:
  one definition for each function and id table of their files, and the checks of the descriptions.
\<close>

section \<open>\<open>ecosystem_information\<close>\<close>

definition ecosystem_information_attribute_device_directory :: attr_fn where
  "ecosystem_information_attribute_device_directory =
     attr 0x0000 (ATTRIBUTE_FLAG_MANAGED_INTERNALLY OR ATTRIBUTE_FLAG_NONVOLATILE) VT_ARRAY"

definition ecosystem_information_attribute_location_directory :: attr_fn where
  "ecosystem_information_attribute_location_directory =
     attr 0x0001 (ATTRIBUTE_FLAG_MANAGED_INTERNALLY OR ATTRIBUTE_FLAG_NONVOLATILE) VT_ARRAY"

definition ecosystem_information_create :: cluster_fn where
  "ecosystem_information_create =
     \<lparr>kf_id = 0x0750,
      kf_revision = 1,
      kf_functions = None,
      kf_function_flags = 0,
      kf_body = [Plugin ''MatterEcosystemInformationPluginServerInitCallback'', Functions, Feature_Map 0,
        Cluster_Revision, Step (Attribute ecosystem_information_attribute_device_directory Null_Arr),
        Step (Attribute ecosystem_information_attribute_location_directory Null_Arr)],
      kf_binding = False\<rparr>"

definition ecosystem_information_ids :: cluster_ids where
  "ecosystem_information_ids =
     \<lparr>ci_cluster = 0x0750,
      ci_features = [],
      ci_attributes = [(''DeviceDirectory'', 0x0000), (''LocationDirectory'', 0x0001)],
      ci_commands = [],
      ci_events = []\<rparr>"

definition ecosystem_information_attributes :: "attr_fn list" where
  "ecosystem_information_attributes =
     [ecosystem_information_attribute_device_directory, ecosystem_information_attribute_location_directory]"

definition ecosystem_information_cluster :: cluster_decl where
  "ecosystem_information_cluster =
     \<lparr>cd_ids = ecosystem_information_ids,
      cd_callbacks = [],
      cd_features = [],
      cd_attributes = ecosystem_information_attributes,
      cd_commands = [],
      cd_events = [],
      cd_create = Some ecosystem_information_create\<rparr>"

section \<open>\<open>electrical_energy_measurement\<close>\<close>

definition electrical_energy_measurement_imported_energy_id :: u32 where
  "electrical_energy_measurement_imported_energy_id = 0x1"

definition electrical_energy_measurement_exported_energy_id :: u32 where
  "electrical_energy_measurement_exported_energy_id = 0x2"

definition electrical_energy_measurement_cumulative_energy_id :: u32 where
  "electrical_energy_measurement_cumulative_energy_id = 0x4"

definition electrical_energy_measurement_periodic_energy_id :: u32 where
  "electrical_energy_measurement_periodic_energy_id = 0x8"

definition electrical_energy_measurement_attribute_accuracy :: attr_fn where
  "electrical_energy_measurement_attribute_accuracy =
     attr 0x0000 ATTRIBUTE_FLAG_MANAGED_INTERNALLY VT_ARRAY"

definition electrical_energy_measurement_attribute_cumulative_energy_imported :: attr_fn where
  "electrical_energy_measurement_attribute_cumulative_energy_imported =
     guarded (And (Has_Feature electrical_energy_measurement_imported_energy_id) (Has_Feature
          electrical_energy_measurement_cumulative_energy_id)) (attr 0x0001 (ATTRIBUTE_FLAG_MANAGED_INTERNALLY
          OR ATTRIBUTE_FLAG_NULLABLE) VT_ARRAY)"

definition electrical_energy_measurement_attribute_cumulative_energy_exported :: attr_fn where
  "electrical_energy_measurement_attribute_cumulative_energy_exported =
     guarded (And (Has_Feature electrical_energy_measurement_exported_energy_id) (Has_Feature
          electrical_energy_measurement_cumulative_energy_id)) (attr 0x0002 (ATTRIBUTE_FLAG_MANAGED_INTERNALLY
          OR ATTRIBUTE_FLAG_NULLABLE) VT_ARRAY)"

definition electrical_energy_measurement_attribute_periodic_energy_imported :: attr_fn where
  "electrical_energy_measurement_attribute_periodic_energy_imported =
     guarded (And (Has_Feature electrical_energy_measurement_imported_energy_id) (Has_Feature
          electrical_energy_measurement_periodic_energy_id)) (attr 0x0003 (ATTRIBUTE_FLAG_MANAGED_INTERNALLY OR
          ATTRIBUTE_FLAG_NULLABLE) VT_ARRAY)"

definition electrical_energy_measurement_attribute_periodic_energy_exported :: attr_fn where
  "electrical_energy_measurement_attribute_periodic_energy_exported =
     guarded (And (Has_Feature electrical_energy_measurement_exported_energy_id) (Has_Feature
          electrical_energy_measurement_periodic_energy_id)) (attr 0x0004 (ATTRIBUTE_FLAG_MANAGED_INTERNALLY OR
          ATTRIBUTE_FLAG_NULLABLE) VT_ARRAY)"

definition electrical_energy_measurement_attribute_cumulative_energy_reset :: attr_fn where
  "electrical_energy_measurement_attribute_cumulative_energy_reset =
     attr 0x0005 (ATTRIBUTE_FLAG_MANAGED_INTERNALLY OR ATTRIBUTE_FLAG_NULLABLE) VT_ARRAY"

definition electrical_energy_measurement_event_cumulative_energy_measured :: event_fn where
  "electrical_energy_measurement_event_cumulative_energy_measured =
     guarded_event (Has_Feature electrical_energy_measurement_cumulative_energy_id) (event 0x00)"

definition electrical_energy_measurement_event_periodic_energy_measured :: event_fn where
  "electrical_energy_measurement_event_periodic_energy_measured =
     guarded_event (Has_Feature electrical_energy_measurement_periodic_energy_id) (event 0x01)"

definition electrical_energy_measurement_feature_imported_energy :: feature_fn where
  "electrical_energy_measurement_feature_imported_energy =
     feature electrical_energy_measurement_imported_energy_id False [Update_Feature_Map,
        Attribute electrical_energy_measurement_attribute_cumulative_energy_imported Null_Arr,
        Attribute electrical_energy_measurement_attribute_periodic_energy_imported Null_Arr]"

definition electrical_energy_measurement_feature_exported_energy :: feature_fn where
  "electrical_energy_measurement_feature_exported_energy =
     feature electrical_energy_measurement_exported_energy_id False [Update_Feature_Map,
        Attribute electrical_energy_measurement_attribute_cumulative_energy_exported Null_Arr,
        Attribute electrical_energy_measurement_attribute_periodic_energy_exported Null_Arr]"

definition electrical_energy_measurement_feature_cumulative_energy :: feature_fn where
  "electrical_energy_measurement_feature_cumulative_energy =
     feature electrical_energy_measurement_cumulative_energy_id False [Update_Feature_Map,
        Attribute electrical_energy_measurement_attribute_cumulative_energy_imported Null_Arr,
        Attribute electrical_energy_measurement_attribute_cumulative_energy_exported Null_Arr,
        Event electrical_energy_measurement_event_cumulative_energy_measured]"

definition electrical_energy_measurement_feature_periodic_energy :: feature_fn where
  "electrical_energy_measurement_feature_periodic_energy =
     feature electrical_energy_measurement_periodic_energy_id False [Update_Feature_Map,
        Attribute electrical_energy_measurement_attribute_periodic_energy_imported Null_Arr,
        Attribute electrical_energy_measurement_attribute_periodic_energy_exported Null_Arr,
        Event electrical_energy_measurement_event_periodic_energy_measured]"

definition electrical_energy_measurement_create :: cluster_fn where
  "electrical_energy_measurement_create =
     \<lparr>kf_id = 0x0091,
      kf_revision = 2,
      kf_functions = None,
      kf_function_flags = 0,
      kf_body = [Plugin ''MatterElectricalEnergyMeasurementPluginServerInitCallback'', Functions,
        Config_Feature_Map, Cluster_Revision,
        Step (Attribute electrical_energy_measurement_attribute_accuracy Null_Arr),
        Validate k_at_least_one [electrical_energy_measurement_imported_energy_id,
        electrical_energy_measurement_exported_energy_id],
        If_Feature electrical_energy_measurement_imported_energy_id [Add_Feature
          electrical_energy_measurement_feature_imported_energy ''imported_energy''] [],
        If_Feature electrical_energy_measurement_exported_energy_id [Add_Feature
          electrical_energy_measurement_feature_exported_energy ''exported_energy''] [],
        Validate k_at_least_one [electrical_energy_measurement_cumulative_energy_id,
        electrical_energy_measurement_periodic_energy_id],
        If_Feature electrical_energy_measurement_cumulative_energy_id [Add_Feature
          electrical_energy_measurement_feature_cumulative_energy ''cumulative_energy''] [],
        If_Feature electrical_energy_measurement_periodic_energy_id [Add_Feature
          electrical_energy_measurement_feature_periodic_energy ''periodic_energy''] [],
        Callbacks ''ESPMatterElectricalEnergyMeasurementClusterServerInitCallback''
          ''ESPMatterElectricalEnergyMeasurementClusterServerShutdownCallback''],
      kf_binding = True\<rparr>"

definition electrical_energy_measurement_ids :: cluster_ids where
  "electrical_energy_measurement_ids =
     \<lparr>ci_cluster = 0x0091,
      ci_features = [(''ImportedEnergy'', 0x1), (''ExportedEnergy'', 0x2), (''CumulativeEnergy'', 0x4),
        (''PeriodicEnergy'', 0x8)],
      ci_attributes = [(''Accuracy'', 0x0000), (''CumulativeEnergyImported'', 0x0001),
        (''CumulativeEnergyExported'', 0x0002), (''PeriodicEnergyImported'', 0x0003),
        (''PeriodicEnergyExported'', 0x0004), (''CumulativeEnergyReset'', 0x0005)],
      ci_commands = [],
      ci_events = [(''CumulativeEnergyMeasured'', 0x00), (''PeriodicEnergyMeasured'', 0x01)]\<rparr>"

definition electrical_energy_measurement_features :: "feature_fn list" where
  "electrical_energy_measurement_features =
     [electrical_energy_measurement_feature_imported_energy, electrical_energy_measurement_feature_exported_energy,
        electrical_energy_measurement_feature_cumulative_energy,
        electrical_energy_measurement_feature_periodic_energy]"

definition electrical_energy_measurement_attributes :: "attr_fn list" where
  "electrical_energy_measurement_attributes =
     [electrical_energy_measurement_attribute_accuracy,
        electrical_energy_measurement_attribute_cumulative_energy_imported,
        electrical_energy_measurement_attribute_cumulative_energy_exported,
        electrical_energy_measurement_attribute_periodic_energy_imported,
        electrical_energy_measurement_attribute_periodic_energy_exported,
        electrical_energy_measurement_attribute_cumulative_energy_reset]"

definition electrical_energy_measurement_events :: "event_fn list" where
  "electrical_energy_measurement_events =
     [electrical_energy_measurement_event_cumulative_energy_measured,
        electrical_energy_measurement_event_periodic_energy_measured]"

definition electrical_energy_measurement_cluster :: cluster_decl where
  "electrical_energy_measurement_cluster =
     \<lparr>cd_ids = electrical_energy_measurement_ids,
      cd_callbacks = [],
      cd_features = electrical_energy_measurement_features,
      cd_attributes = electrical_energy_measurement_attributes,
      cd_commands = [],
      cd_events = electrical_energy_measurement_events,
      cd_create = Some electrical_energy_measurement_create\<rparr>"

section \<open>\<open>electrical_grid_conditions\<close>\<close>

definition electrical_grid_conditions_forecasting_id :: u32 where
  "electrical_grid_conditions_forecasting_id = 0x1"

definition electrical_grid_conditions_attribute_local_generation_available :: attr_fn where
  "electrical_grid_conditions_attribute_local_generation_available =
     attr 0x0000 (ATTRIBUTE_FLAG_WRITABLE OR ATTRIBUTE_FLAG_MANAGED_INTERNALLY OR ATTRIBUTE_FLAG_NULLABLE)
          VT_NULLABLE_BOOLEAN"

definition electrical_grid_conditions_attribute_current_conditions :: attr_fn where
  "electrical_grid_conditions_attribute_current_conditions =
     attr 0x0001 (ATTRIBUTE_FLAG_MANAGED_INTERNALLY OR ATTRIBUTE_FLAG_NULLABLE) VT_ARRAY"

definition electrical_grid_conditions_attribute_forecast_conditions :: attr_fn where
  "electrical_grid_conditions_attribute_forecast_conditions =
     guarded (Has_Feature electrical_grid_conditions_forecasting_id) (attr 0x0002 ATTRIBUTE_FLAG_MANAGED_INTERNALLY
          VT_ARRAY)"

definition electrical_grid_conditions_event_current_conditions_changed :: event_fn where
  "electrical_grid_conditions_event_current_conditions_changed =
     event 0x00"

definition electrical_grid_conditions_feature_forecasting :: feature_fn where
  "electrical_grid_conditions_feature_forecasting =
     feature electrical_grid_conditions_forecasting_id False [Update_Feature_Map,
        Attribute electrical_grid_conditions_attribute_forecast_conditions Null_Arr]"

definition electrical_grid_conditions_create :: cluster_fn where
  "electrical_grid_conditions_create =
     \<lparr>kf_id = 0x00A0,
      kf_revision = 1,
      kf_functions = None,
      kf_function_flags = 0,
      kf_body = [Delegate ''ElectricalGridConditionsDelegateInitCB'',
        Plugin ''MatterElectricalGridConditionsPluginServerInitCallback'', Functions, Feature_Map 0,
        Cluster_Revision,
        Step (Attribute electrical_grid_conditions_attribute_local_generation_available (Lit 0)),
        Step (Attribute electrical_grid_conditions_attribute_current_conditions Null_Arr)],
      kf_binding = True\<rparr>"

definition electrical_grid_conditions_ids :: cluster_ids where
  "electrical_grid_conditions_ids =
     \<lparr>ci_cluster = 0x00A0,
      ci_features = [(''Forecasting'', 0x1)],
      ci_attributes = [(''LocalGenerationAvailable'', 0x0000), (''CurrentConditions'', 0x0001),
        (''ForecastConditions'', 0x0002)],
      ci_commands = [],
      ci_events = [(''CurrentConditionsChanged'', 0x00)]\<rparr>"

definition electrical_grid_conditions_features :: "feature_fn list" where
  "electrical_grid_conditions_features =
     [electrical_grid_conditions_feature_forecasting]"

definition electrical_grid_conditions_attributes :: "attr_fn list" where
  "electrical_grid_conditions_attributes =
     [electrical_grid_conditions_attribute_local_generation_available,
        electrical_grid_conditions_attribute_current_conditions,
        electrical_grid_conditions_attribute_forecast_conditions]"

definition electrical_grid_conditions_events :: "event_fn list" where
  "electrical_grid_conditions_events =
     [electrical_grid_conditions_event_current_conditions_changed]"

definition electrical_grid_conditions_cluster :: cluster_decl where
  "electrical_grid_conditions_cluster =
     \<lparr>cd_ids = electrical_grid_conditions_ids,
      cd_callbacks = [],
      cd_features = electrical_grid_conditions_features,
      cd_attributes = electrical_grid_conditions_attributes,
      cd_commands = [],
      cd_events = electrical_grid_conditions_events,
      cd_create = Some electrical_grid_conditions_create\<rparr>"

section \<open>\<open>electrical_power_measurement\<close>\<close>

definition electrical_power_measurement_direct_current_id :: u32 where
  "electrical_power_measurement_direct_current_id = 0x1"

definition electrical_power_measurement_alternating_current_id :: u32 where
  "electrical_power_measurement_alternating_current_id = 0x2"

definition electrical_power_measurement_polyphase_power_id :: u32 where
  "electrical_power_measurement_polyphase_power_id = 0x4"

definition electrical_power_measurement_harmonics_id :: u32 where
  "electrical_power_measurement_harmonics_id = 0x8"

definition electrical_power_measurement_power_quality_id :: u32 where
  "electrical_power_measurement_power_quality_id = 0x10"

definition electrical_power_measurement_attribute_power_mode :: attr_fn where
  "electrical_power_measurement_attribute_power_mode =
     bounded 0 2 (attr 0x0000 0 VT_ENUM8)"

definition electrical_power_measurement_attribute_number_of_measurement_types :: attr_fn where
  "electrical_power_measurement_attribute_number_of_measurement_types =
     bounded 0 32 (attr 0x0001 0 VT_UINT8)"

definition electrical_power_measurement_attribute_accuracy :: attr_fn where
  "electrical_power_measurement_attribute_accuracy =
     attr 0x0002 ATTRIBUTE_FLAG_MANAGED_INTERNALLY VT_ARRAY"

definition electrical_power_measurement_attribute_ranges :: attr_fn where
  "electrical_power_measurement_attribute_ranges =
     attr 0x0003 ATTRIBUTE_FLAG_MANAGED_INTERNALLY VT_ARRAY"

definition electrical_power_measurement_attribute_voltage :: attr_fn where
  "electrical_power_measurement_attribute_voltage =
     bounded (- 4611686018427387904) 4611686018427387904 (attr 0x0004 ATTRIBUTE_FLAG_NULLABLE VT_NULLABLE_INT64)"

definition electrical_power_measurement_attribute_active_current :: attr_fn where
  "electrical_power_measurement_attribute_active_current =
     bounded (- 4611686018427387904) 4611686018427387904 (attr 0x0005 ATTRIBUTE_FLAG_NULLABLE VT_NULLABLE_INT64)"

definition electrical_power_measurement_attribute_reactive_current :: attr_fn where
  "electrical_power_measurement_attribute_reactive_current =
     bounded (- 4611686018427387904) 4611686018427387904 (attr 0x0006 ATTRIBUTE_FLAG_NULLABLE VT_NULLABLE_INT64)"

definition electrical_power_measurement_attribute_apparent_current :: attr_fn where
  "electrical_power_measurement_attribute_apparent_current =
     bounded (- 4611686018427387904) 4611686018427387904 (attr 0x0007 ATTRIBUTE_FLAG_NULLABLE VT_NULLABLE_INT64)"

definition electrical_power_measurement_attribute_active_power :: attr_fn where
  "electrical_power_measurement_attribute_active_power =
     bounded (- 4611686018427387904) 4611686018427387904 (attr 0x0008 ATTRIBUTE_FLAG_NULLABLE VT_NULLABLE_INT64)"

definition electrical_power_measurement_attribute_reactive_power :: attr_fn where
  "electrical_power_measurement_attribute_reactive_power =
     bounded (- 4611686018427387904) 4611686018427387904 (attr 0x0009 ATTRIBUTE_FLAG_NULLABLE VT_NULLABLE_INT64)"

definition electrical_power_measurement_attribute_apparent_power :: attr_fn where
  "electrical_power_measurement_attribute_apparent_power =
     bounded (- 4611686018427387904) 4611686018427387904 (attr 0x000A ATTRIBUTE_FLAG_NULLABLE VT_NULLABLE_INT64)"

definition electrical_power_measurement_attribute_rms_voltage :: attr_fn where
  "electrical_power_measurement_attribute_rms_voltage =
     bounded (- 4611686018427387904) 4611686018427387904 (attr 0x000B ATTRIBUTE_FLAG_NULLABLE VT_NULLABLE_INT64)"

definition electrical_power_measurement_attribute_rms_current :: attr_fn where
  "electrical_power_measurement_attribute_rms_current =
     bounded (- 4611686018427387904) 4611686018427387904 (attr 0x000C ATTRIBUTE_FLAG_NULLABLE VT_NULLABLE_INT64)"

definition electrical_power_measurement_attribute_rms_power :: attr_fn where
  "electrical_power_measurement_attribute_rms_power =
     bounded (- 4611686018427387904) 4611686018427387904 (attr 0x000D ATTRIBUTE_FLAG_NULLABLE VT_NULLABLE_INT64)"

definition electrical_power_measurement_attribute_frequency :: attr_fn where
  "electrical_power_measurement_attribute_frequency =
     bounded 0 1000000 (attr 0x000E ATTRIBUTE_FLAG_NULLABLE VT_NULLABLE_INT64)"

definition electrical_power_measurement_attribute_harmonic_currents :: attr_fn where
  "electrical_power_measurement_attribute_harmonic_currents =
     guarded (Has_Feature electrical_power_measurement_harmonics_id) (attr 0x000F (ATTRIBUTE_FLAG_MANAGED_INTERNALLY
          OR ATTRIBUTE_FLAG_NULLABLE) VT_ARRAY)"

definition electrical_power_measurement_attribute_harmonic_phases :: attr_fn where
  "electrical_power_measurement_attribute_harmonic_phases =
     guarded (Has_Feature electrical_power_measurement_power_quality_id) (attr 0x0010
          (ATTRIBUTE_FLAG_MANAGED_INTERNALLY OR ATTRIBUTE_FLAG_NULLABLE) VT_ARRAY)"

definition electrical_power_measurement_attribute_power_factor :: attr_fn where
  "electrical_power_measurement_attribute_power_factor =
     bounded (- 10000) 10000 (attr 0x0011 ATTRIBUTE_FLAG_NULLABLE VT_NULLABLE_INT64)"

definition electrical_power_measurement_attribute_neutral_current :: attr_fn where
  "electrical_power_measurement_attribute_neutral_current =
     bounded (- 4611686018427387904) 4611686018427387904 (attr 0x0012 ATTRIBUTE_FLAG_NULLABLE VT_NULLABLE_INT64)"

definition electrical_power_measurement_event_measurement_period_ranges :: event_fn where
  "electrical_power_measurement_event_measurement_period_ranges =
     guarded_event (Has_Attribute 0x0003) (event 0x00)"

definition electrical_power_measurement_feature_direct_current :: feature_fn where
  "electrical_power_measurement_feature_direct_current =
     feature electrical_power_measurement_direct_current_id False [Update_Feature_Map]"

definition electrical_power_measurement_feature_alternating_current :: feature_fn where
  "electrical_power_measurement_feature_alternating_current =
     feature electrical_power_measurement_alternating_current_id False [Update_Feature_Map]"

definition electrical_power_measurement_feature_polyphase_power :: feature_fn where
  "electrical_power_measurement_feature_polyphase_power =
     feature electrical_power_measurement_polyphase_power_id False [Require (Has_Feature
          electrical_power_measurement_alternating_current_id), Update_Feature_Map]"

definition electrical_power_measurement_feature_harmonics :: feature_fn where
  "electrical_power_measurement_feature_harmonics =
     feature electrical_power_measurement_harmonics_id False [Require (Has_Feature
          electrical_power_measurement_alternating_current_id), Update_Feature_Map,
        Attribute electrical_power_measurement_attribute_harmonic_currents Null_Arr]"

definition electrical_power_measurement_feature_power_quality :: feature_fn where
  "electrical_power_measurement_feature_power_quality =
     feature electrical_power_measurement_power_quality_id False [Require (Has_Feature
          electrical_power_measurement_alternating_current_id), Update_Feature_Map,
        Attribute electrical_power_measurement_attribute_harmonic_phases Null_Arr]"

definition electrical_power_measurement_create :: cluster_fn where
  "electrical_power_measurement_create =
     \<lparr>kf_id = 0x0090,
      kf_revision = 3,
      kf_functions = None,
      kf_function_flags = 0,
      kf_body = [Delegate ''ElectricalPowerMeasurementDelegateInitCB'',
        Plugin ''MatterElectricalPowerMeasurementPluginServerInitCallback'', Functions, Config_Feature_Map,
        Cluster_Revision,
        Step (Attribute electrical_power_measurement_attribute_power_mode (Field ''power_mode'')),
        Step (Attribute electrical_power_measurement_attribute_number_of_measurement_types (Field
          ''number_of_measurement_types'')),
        Step (Attribute electrical_power_measurement_attribute_active_power (Field ''active_power'')),
        Step (Attribute electrical_power_measurement_attribute_accuracy Null_Arr),
        Validate k_at_least_one [electrical_power_measurement_direct_current_id,
        electrical_power_measurement_alternating_current_id],
        If_Feature electrical_power_measurement_direct_current_id [Add_Feature
          electrical_power_measurement_feature_direct_current ''direct_current''] [],
        If_Feature electrical_power_measurement_alternating_current_id [Add_Feature
          electrical_power_measurement_feature_alternating_current ''alternating_current''] [],
        If_Feature electrical_power_measurement_polyphase_power_id [Add_Feature
          electrical_power_measurement_feature_polyphase_power ''polyphase_power''] [],
        If_Feature electrical_power_measurement_harmonics_id [Add_Feature
          electrical_power_measurement_feature_harmonics ''harmonics''] [],
        If_Feature electrical_power_measurement_power_quality_id [Add_Feature
          electrical_power_measurement_feature_power_quality ''power_quality''] [],
        Callbacks ''ESPMatterElectricalPowerMeasurementClusterServerInitCallback''
          ''ESPMatterElectricalPowerMeasurementClusterServerShutdownCallback''],
      kf_binding = True\<rparr>"

definition electrical_power_measurement_ids :: cluster_ids where
  "electrical_power_measurement_ids =
     \<lparr>ci_cluster = 0x0090,
      ci_features = [(''DirectCurrent'', 0x1), (''AlternatingCurrent'', 0x2), (''PolyphasePower'', 0x4),
        (''Harmonics'', 0x8), (''PowerQuality'', 0x10)],
      ci_attributes = [(''PowerMode'', 0x0000), (''NumberOfMeasurementTypes'', 0x0001), (''Accuracy'', 0x0002),
        (''Ranges'', 0x0003), (''Voltage'', 0x0004), (''ActiveCurrent'', 0x0005), (''ReactiveCurrent'', 0x0006),
        (''ApparentCurrent'', 0x0007), (''ActivePower'', 0x0008), (''ReactivePower'', 0x0009),
        (''ApparentPower'', 0x000A), (''RMSVoltage'', 0x000B), (''RMSCurrent'', 0x000C), (''RMSPower'', 0x000D),
        (''Frequency'', 0x000E), (''HarmonicCurrents'', 0x000F), (''HarmonicPhases'', 0x0010), (''PowerFactor'',
        0x0011), (''NeutralCurrent'', 0x0012)],
      ci_commands = [],
      ci_events = [(''MeasurementPeriodRanges'', 0x00)]\<rparr>"

definition electrical_power_measurement_features :: "feature_fn list" where
  "electrical_power_measurement_features =
     [electrical_power_measurement_feature_direct_current, electrical_power_measurement_feature_alternating_current,
        electrical_power_measurement_feature_polyphase_power, electrical_power_measurement_feature_harmonics,
        electrical_power_measurement_feature_power_quality]"

definition electrical_power_measurement_attributes :: "attr_fn list" where
  "electrical_power_measurement_attributes =
     [electrical_power_measurement_attribute_power_mode,
        electrical_power_measurement_attribute_number_of_measurement_types,
        electrical_power_measurement_attribute_accuracy, electrical_power_measurement_attribute_ranges,
        electrical_power_measurement_attribute_voltage, electrical_power_measurement_attribute_active_current,
        electrical_power_measurement_attribute_reactive_current,
        electrical_power_measurement_attribute_apparent_current,
        electrical_power_measurement_attribute_active_power,
        electrical_power_measurement_attribute_reactive_power,
        electrical_power_measurement_attribute_apparent_power,
        electrical_power_measurement_attribute_rms_voltage, electrical_power_measurement_attribute_rms_current,
        electrical_power_measurement_attribute_rms_power, electrical_power_measurement_attribute_frequency,
        electrical_power_measurement_attribute_harmonic_currents,
        electrical_power_measurement_attribute_harmonic_phases,
        electrical_power_measurement_attribute_power_factor,
        electrical_power_measurement_attribute_neutral_current]"

definition electrical_power_measurement_events :: "event_fn list" where
  "electrical_power_measurement_events =
     [electrical_power_measurement_event_measurement_period_ranges]"

definition electrical_power_measurement_cluster :: cluster_decl where
  "electrical_power_measurement_cluster =
     \<lparr>cd_ids = electrical_power_measurement_ids,
      cd_callbacks = [],
      cd_features = electrical_power_measurement_features,
      cd_attributes = electrical_power_measurement_attributes,
      cd_commands = [],
      cd_events = electrical_power_measurement_events,
      cd_create = Some electrical_power_measurement_create\<rparr>"

section \<open>\<open>energy_evse\<close>\<close>

definition energy_evse_charging_preferences_id :: u32 where
  "energy_evse_charging_preferences_id = 0x1"

definition energy_evse_so_c_reporting_id :: u32 where
  "energy_evse_so_c_reporting_id = 0x2"

definition energy_evse_plug_and_charge_id :: u32 where
  "energy_evse_plug_and_charge_id = 0x4"

definition energy_evse_rfid_id :: u32 where
  "energy_evse_rfid_id = 0x8"

definition energy_evse_v_2_x_id :: u32 where
  "energy_evse_v_2_x_id = 0x10"

definition energy_evse_attribute_state :: attr_fn where
  "energy_evse_attribute_state =
     attr 0x0000 (ATTRIBUTE_FLAG_MANAGED_INTERNALLY OR ATTRIBUTE_FLAG_NULLABLE) VT_NULLABLE_ENUM8"

definition energy_evse_attribute_supply_state :: attr_fn where
  "energy_evse_attribute_supply_state =
     attr 0x0001 ATTRIBUTE_FLAG_MANAGED_INTERNALLY VT_ENUM8"

definition energy_evse_attribute_fault_state :: attr_fn where
  "energy_evse_attribute_fault_state =
     attr 0x0002 ATTRIBUTE_FLAG_MANAGED_INTERNALLY VT_ENUM8"

definition energy_evse_attribute_charging_enabled_until :: attr_fn where
  "energy_evse_attribute_charging_enabled_until =
     attr 0x0003 (ATTRIBUTE_FLAG_MANAGED_INTERNALLY OR ATTRIBUTE_FLAG_NULLABLE OR ATTRIBUTE_FLAG_NONVOLATILE)
          VT_NULLABLE_UINT32"

definition energy_evse_attribute_discharging_enabled_until :: attr_fn where
  "energy_evse_attribute_discharging_enabled_until =
     guarded (Has_Feature energy_evse_v_2_x_id) (attr 0x0004 (ATTRIBUTE_FLAG_MANAGED_INTERNALLY OR
          ATTRIBUTE_FLAG_NULLABLE OR ATTRIBUTE_FLAG_NONVOLATILE) VT_NULLABLE_UINT32)"

definition energy_evse_attribute_circuit_capacity :: attr_fn where
  "energy_evse_attribute_circuit_capacity =
     attr 0x0005 (ATTRIBUTE_FLAG_MANAGED_INTERNALLY OR ATTRIBUTE_FLAG_NONVOLATILE) VT_INT64"

definition energy_evse_attribute_minimum_charge_current :: attr_fn where
  "energy_evse_attribute_minimum_charge_current =
     attr 0x0006 (ATTRIBUTE_FLAG_MANAGED_INTERNALLY OR ATTRIBUTE_FLAG_NONVOLATILE) VT_INT64"

definition energy_evse_attribute_maximum_charge_current :: attr_fn where
  "energy_evse_attribute_maximum_charge_current =
     attr 0x0007 (ATTRIBUTE_FLAG_MANAGED_INTERNALLY OR ATTRIBUTE_FLAG_NONVOLATILE) VT_INT64"

definition energy_evse_attribute_maximum_discharge_current :: attr_fn where
  "energy_evse_attribute_maximum_discharge_current =
     guarded (Has_Feature energy_evse_v_2_x_id) (attr 0x0008 (ATTRIBUTE_FLAG_MANAGED_INTERNALLY OR
          ATTRIBUTE_FLAG_NONVOLATILE) VT_INT64)"

definition energy_evse_attribute_user_maximum_charge_current :: attr_fn where
  "energy_evse_attribute_user_maximum_charge_current =
     attr 0x0009 (ATTRIBUTE_FLAG_WRITABLE OR ATTRIBUTE_FLAG_MANAGED_INTERNALLY OR ATTRIBUTE_FLAG_NONVOLATILE)
          VT_INT64"

definition energy_evse_attribute_randomization_delay_window :: attr_fn where
  "energy_evse_attribute_randomization_delay_window =
     attr 0x000A (ATTRIBUTE_FLAG_WRITABLE OR ATTRIBUTE_FLAG_MANAGED_INTERNALLY OR ATTRIBUTE_FLAG_NONVOLATILE)
          VT_UINT32"

definition energy_evse_attribute_next_charge_start_time :: attr_fn where
  "energy_evse_attribute_next_charge_start_time =
     guarded (Has_Feature energy_evse_charging_preferences_id) (attr 0x0023 (ATTRIBUTE_FLAG_MANAGED_INTERNALLY OR
          ATTRIBUTE_FLAG_NULLABLE) VT_NULLABLE_UINT32)"

definition energy_evse_attribute_next_charge_target_time :: attr_fn where
  "energy_evse_attribute_next_charge_target_time =
     guarded (Has_Feature energy_evse_charging_preferences_id) (attr 0x0024 (ATTRIBUTE_FLAG_MANAGED_INTERNALLY OR
          ATTRIBUTE_FLAG_NULLABLE) VT_NULLABLE_UINT32)"

definition energy_evse_attribute_next_charge_required_energy :: attr_fn where
  "energy_evse_attribute_next_charge_required_energy =
     guarded (Has_Feature energy_evse_charging_preferences_id) (attr 0x0025 (ATTRIBUTE_FLAG_MANAGED_INTERNALLY OR
          ATTRIBUTE_FLAG_NULLABLE) VT_NULLABLE_INT64)"

definition energy_evse_attribute_next_charge_target_soc :: attr_fn where
  "energy_evse_attribute_next_charge_target_soc =
     guarded (Has_Feature energy_evse_charging_preferences_id) (attr 0x0026 (ATTRIBUTE_FLAG_MANAGED_INTERNALLY OR
          ATTRIBUTE_FLAG_NULLABLE) VT_NULLABLE_UINT8)"

definition energy_evse_attribute_approximate_ev_efficiency :: attr_fn where
  "energy_evse_attribute_approximate_ev_efficiency =
     attr 0x0027 (ATTRIBUTE_FLAG_WRITABLE OR ATTRIBUTE_FLAG_MANAGED_INTERNALLY OR ATTRIBUTE_FLAG_NULLABLE OR
          ATTRIBUTE_FLAG_NONVOLATILE) VT_NULLABLE_UINT16"

definition energy_evse_attribute_state_of_charge :: attr_fn where
  "energy_evse_attribute_state_of_charge =
     guarded (Has_Feature energy_evse_so_c_reporting_id) (attr 0x0030 (ATTRIBUTE_FLAG_MANAGED_INTERNALLY OR
          ATTRIBUTE_FLAG_NULLABLE) VT_NULLABLE_UINT8)"

definition energy_evse_attribute_battery_capacity :: attr_fn where
  "energy_evse_attribute_battery_capacity =
     guarded (Has_Feature energy_evse_so_c_reporting_id) (attr 0x0031 (ATTRIBUTE_FLAG_MANAGED_INTERNALLY OR
          ATTRIBUTE_FLAG_NULLABLE) VT_NULLABLE_INT64)"

definition energy_evse_attribute_vehicle_id :: attr_fn where
  "energy_evse_attribute_vehicle_id =
     guarded (Has_Feature energy_evse_plug_and_charge_id) (attr 0x0032 (ATTRIBUTE_FLAG_MANAGED_INTERNALLY OR
          ATTRIBUTE_FLAG_NULLABLE) VT_CHAR_STRING)"

definition energy_evse_attribute_session_id :: attr_fn where
  "energy_evse_attribute_session_id =
     attr 0x0040 (ATTRIBUTE_FLAG_MANAGED_INTERNALLY OR ATTRIBUTE_FLAG_NULLABLE OR ATTRIBUTE_FLAG_NONVOLATILE)
          VT_NULLABLE_UINT32"

definition energy_evse_attribute_session_duration :: attr_fn where
  "energy_evse_attribute_session_duration =
     attr 0x0041 (ATTRIBUTE_FLAG_MANAGED_INTERNALLY OR ATTRIBUTE_FLAG_NULLABLE OR ATTRIBUTE_FLAG_NONVOLATILE)
          VT_NULLABLE_UINT32"

definition energy_evse_attribute_session_energy_charged :: attr_fn where
  "energy_evse_attribute_session_energy_charged =
     attr 0x0042 (ATTRIBUTE_FLAG_MANAGED_INTERNALLY OR ATTRIBUTE_FLAG_NULLABLE OR ATTRIBUTE_FLAG_NONVOLATILE)
          VT_NULLABLE_INT64"

definition energy_evse_attribute_session_energy_discharged :: attr_fn where
  "energy_evse_attribute_session_energy_discharged =
     guarded (Has_Feature energy_evse_v_2_x_id) (attr 0x0043 (ATTRIBUTE_FLAG_MANAGED_INTERNALLY OR
          ATTRIBUTE_FLAG_NULLABLE OR ATTRIBUTE_FLAG_NONVOLATILE) VT_NULLABLE_INT64)"

definition energy_evse_command_get_targets_response :: cmd_fn where
  "energy_evse_command_get_targets_response =
     guarded_cmd (Has_Feature energy_evse_charging_preferences_id) (cmd 0x00 COMMAND_FLAG_GENERATED None)"

definition energy_evse_command_disable :: cmd_fn where
  "energy_evse_command_disable =
     cmd 0x01 COMMAND_FLAG_ACCEPTED None"

definition energy_evse_command_enable_charging :: cmd_fn where
  "energy_evse_command_enable_charging =
     cmd 0x02 COMMAND_FLAG_ACCEPTED None"

definition energy_evse_command_enable_discharging :: cmd_fn where
  "energy_evse_command_enable_discharging =
     guarded_cmd (Has_Feature energy_evse_v_2_x_id) (cmd 0x03 COMMAND_FLAG_ACCEPTED None)"

definition energy_evse_command_start_diagnostics :: cmd_fn where
  "energy_evse_command_start_diagnostics =
     cmd 0x04 COMMAND_FLAG_ACCEPTED None"

definition energy_evse_command_set_targets :: cmd_fn where
  "energy_evse_command_set_targets =
     guarded_cmd (Has_Feature energy_evse_charging_preferences_id) (cmd 0x05 COMMAND_FLAG_ACCEPTED None)"

definition energy_evse_command_get_targets :: cmd_fn where
  "energy_evse_command_get_targets =
     guarded_cmd (Has_Feature energy_evse_charging_preferences_id) (cmd 0x06 COMMAND_FLAG_ACCEPTED None)"

definition energy_evse_command_clear_targets :: cmd_fn where
  "energy_evse_command_clear_targets =
     guarded_cmd (Has_Feature energy_evse_charging_preferences_id) (cmd 0x07 COMMAND_FLAG_ACCEPTED None)"

definition energy_evse_event_ev_connected :: event_fn where
  "energy_evse_event_ev_connected =
     event 0x00"

definition energy_evse_event_ev_not_detected :: event_fn where
  "energy_evse_event_ev_not_detected =
     event 0x01"

definition energy_evse_event_energy_transfer_started :: event_fn where
  "energy_evse_event_energy_transfer_started =
     event 0x02"

definition energy_evse_event_energy_transfer_stopped :: event_fn where
  "energy_evse_event_energy_transfer_stopped =
     event 0x03"

definition energy_evse_event_fault :: event_fn where
  "energy_evse_event_fault =
     event 0x04"

definition energy_evse_event_rfid :: event_fn where
  "energy_evse_event_rfid =
     event 0x05"

definition energy_evse_feature_charging_preferences :: feature_fn where
  "energy_evse_feature_charging_preferences =
     feature energy_evse_charging_preferences_id False [Update_Feature_Map,
        Attribute energy_evse_attribute_next_charge_start_time (Lit 0),
        Attribute energy_evse_attribute_next_charge_target_time (Lit 0),
        Attribute energy_evse_attribute_next_charge_required_energy (Lit 0),
        Attribute energy_evse_attribute_next_charge_target_soc (Lit 0),
        Command energy_evse_command_get_targets_response, Command energy_evse_command_set_targets,
        Command energy_evse_command_get_targets, Command energy_evse_command_clear_targets]"

definition energy_evse_feature_so_c_reporting :: feature_fn where
  "energy_evse_feature_so_c_reporting =
     feature energy_evse_so_c_reporting_id False [Update_Feature_Map,
        Attribute energy_evse_attribute_state_of_charge (Lit 0),
        Attribute energy_evse_attribute_battery_capacity (Lit 0)]"

definition energy_evse_feature_plug_and_charge :: feature_fn where
  "energy_evse_feature_plug_and_charge =
     feature energy_evse_plug_and_charge_id False [Update_Feature_Map,
        Attribute energy_evse_attribute_vehicle_id Null_Str]"

definition energy_evse_feature_rfid :: feature_fn where
  "energy_evse_feature_rfid =
     feature energy_evse_rfid_id False [Update_Feature_Map]"

definition energy_evse_feature_v_2_x :: feature_fn where
  "energy_evse_feature_v_2_x =
     feature energy_evse_v_2_x_id False [Update_Feature_Map,
        Attribute energy_evse_attribute_discharging_enabled_until (Lit 0),
        Attribute energy_evse_attribute_maximum_discharge_current (Lit 0),
        Attribute energy_evse_attribute_session_energy_discharged (Lit 0),
        Command energy_evse_command_enable_discharging]"

definition energy_evse_create :: cluster_fn where
  "energy_evse_create =
     \<lparr>kf_id = 0x0099,
      kf_revision = 4,
      kf_functions = None,
      kf_function_flags = 0,
      kf_body = [Delegate ''EnergyEvseDelegateInitCB'', Plugin ''MatterEnergyEvsePluginServerInitCallback'',
        Functions, Feature_Map 0, Cluster_Revision, Step (Attribute energy_evse_attribute_state (Lit 0)),
        Step (Attribute energy_evse_attribute_supply_state (Lit 0)),
        Step (Attribute energy_evse_attribute_fault_state (Lit 0)),
        Step (Attribute energy_evse_attribute_charging_enabled_until (Lit 0)),
        Step (Attribute energy_evse_attribute_circuit_capacity (Lit 0)),
        Step (Attribute energy_evse_attribute_minimum_charge_current (Lit 0)),
        Step (Attribute energy_evse_attribute_maximum_charge_current (Lit 0)),
        Step (Attribute energy_evse_attribute_session_id (Lit 0)),
        Step (Attribute energy_evse_attribute_session_duration (Lit 0)),
        Step (Attribute energy_evse_attribute_session_energy_charged (Lit 0)),
        Step (Command energy_evse_command_disable), Step (Command energy_evse_command_enable_charging),
        Step (Event energy_evse_event_ev_connected), Step (Event energy_evse_event_ev_not_detected),
        Step (Event energy_evse_event_energy_transfer_started),
        Step (Event energy_evse_event_energy_transfer_stopped), Step (Event energy_evse_event_fault)],
      kf_binding = True\<rparr>"

definition energy_evse_ids :: cluster_ids where
  "energy_evse_ids =
     \<lparr>ci_cluster = 0x0099,
      ci_features = [(''ChargingPreferences'', 0x1), (''SoCReporting'', 0x2), (''PlugAndCharge'', 0x4),
        (''RFID'', 0x8), (''V2X'', 0x10)],
      ci_attributes = [(''State'', 0x0000), (''SupplyState'', 0x0001), (''FaultState'', 0x0002),
        (''ChargingEnabledUntil'', 0x0003), (''DischargingEnabledUntil'', 0x0004), (''CircuitCapacity'',
        0x0005), (''MinimumChargeCurrent'', 0x0006), (''MaximumChargeCurrent'', 0x0007),
        (''MaximumDischargeCurrent'', 0x0008), (''UserMaximumChargeCurrent'', 0x0009),
        (''RandomizationDelayWindow'', 0x000A), (''NextChargeStartTime'', 0x0023), (''NextChargeTargetTime'',
        0x0024), (''NextChargeRequiredEnergy'', 0x0025), (''NextChargeTargetSoC'', 0x0026),
        (''ApproximateEVEfficiency'', 0x0027), (''StateOfCharge'', 0x0030), (''BatteryCapacity'', 0x0031),
        (''VehicleID'', 0x0032), (''SessionID'', 0x0040), (''SessionDuration'', 0x0041),
        (''SessionEnergyCharged'', 0x0042), (''SessionEnergyDischarged'', 0x0043)],
      ci_commands = [(''GetTargetsResponse'', 0x00), (''Disable'', 0x01), (''EnableCharging'', 0x02),
        (''EnableDischarging'', 0x03), (''StartDiagnostics'', 0x04), (''SetTargets'', 0x05), (''GetTargets'',
        0x06), (''ClearTargets'', 0x07)],
      ci_events = [(''EVConnected'', 0x00), (''EVNotDetected'', 0x01), (''EnergyTransferStarted'', 0x02),
        (''EnergyTransferStopped'', 0x03), (''Fault'', 0x04), (''RFID'', 0x05)]\<rparr>"

definition energy_evse_features :: "feature_fn list" where
  "energy_evse_features =
     [energy_evse_feature_charging_preferences, energy_evse_feature_so_c_reporting,
        energy_evse_feature_plug_and_charge, energy_evse_feature_rfid, energy_evse_feature_v_2_x]"

definition energy_evse_attributes :: "attr_fn list" where
  "energy_evse_attributes =
     [energy_evse_attribute_state, energy_evse_attribute_supply_state, energy_evse_attribute_fault_state,
        energy_evse_attribute_charging_enabled_until, energy_evse_attribute_discharging_enabled_until,
        energy_evse_attribute_circuit_capacity, energy_evse_attribute_minimum_charge_current,
        energy_evse_attribute_maximum_charge_current, energy_evse_attribute_maximum_discharge_current,
        energy_evse_attribute_user_maximum_charge_current, energy_evse_attribute_randomization_delay_window,
        energy_evse_attribute_next_charge_start_time, energy_evse_attribute_next_charge_target_time,
        energy_evse_attribute_next_charge_required_energy, energy_evse_attribute_next_charge_target_soc,
        energy_evse_attribute_approximate_ev_efficiency, energy_evse_attribute_state_of_charge,
        energy_evse_attribute_battery_capacity, energy_evse_attribute_vehicle_id,
        energy_evse_attribute_session_id, energy_evse_attribute_session_duration,
        energy_evse_attribute_session_energy_charged, energy_evse_attribute_session_energy_discharged]"

definition energy_evse_commands :: "cmd_fn list" where
  "energy_evse_commands =
     [energy_evse_command_get_targets_response, energy_evse_command_disable, energy_evse_command_enable_charging,
        energy_evse_command_enable_discharging, energy_evse_command_start_diagnostics,
        energy_evse_command_set_targets, energy_evse_command_get_targets, energy_evse_command_clear_targets]"

definition energy_evse_events :: "event_fn list" where
  "energy_evse_events =
     [energy_evse_event_ev_connected, energy_evse_event_ev_not_detected, energy_evse_event_energy_transfer_started,
        energy_evse_event_energy_transfer_stopped, energy_evse_event_fault, energy_evse_event_rfid]"

definition energy_evse_cluster :: cluster_decl where
  "energy_evse_cluster =
     \<lparr>cd_ids = energy_evse_ids,
      cd_callbacks = [],
      cd_features = energy_evse_features,
      cd_attributes = energy_evse_attributes,
      cd_commands = energy_evse_commands,
      cd_events = energy_evse_events,
      cd_create = Some energy_evse_create\<rparr>"

section \<open>\<open>energy_evse_mode\<close>\<close>

definition energy_evse_mode_attribute_supported_modes :: attr_fn where
  "energy_evse_mode_attribute_supported_modes =
     attr 0x0000 0 VT_ARRAY"

definition energy_evse_mode_attribute_current_mode :: attr_fn where
  "energy_evse_mode_attribute_current_mode =
     bounded 0 254 (attr 0x0001 0 VT_UINT8)"

definition energy_evse_mode_command_change_to_mode :: cmd_fn where
  "energy_evse_mode_command_change_to_mode =
     cmd 0x00 COMMAND_FLAG_ACCEPTED None"

definition energy_evse_mode_command_change_to_mode_response :: cmd_fn where
  "energy_evse_mode_command_change_to_mode_response =
     cmd 0x01 COMMAND_FLAG_GENERATED None"

definition energy_evse_mode_create :: cluster_fn where
  "energy_evse_mode_create =
     \<lparr>kf_id = 0x009D,
      kf_revision = 2,
      kf_functions = None,
      kf_function_flags = 0,
      kf_body = [Delegate ''EnergyEvseModeDelegateInitCB'',
        Plugin ''MatterEnergyEvseModePluginServerInitCallback'', Functions, Feature_Map 0, Cluster_Revision,
        Step (Command energy_evse_mode_command_change_to_mode),
        Step (Command energy_evse_mode_command_change_to_mode_response)],
      kf_binding = False\<rparr>"

definition energy_evse_mode_ids :: cluster_ids where
  "energy_evse_mode_ids =
     \<lparr>ci_cluster = 0x009D,
      ci_features = [],
      ci_attributes = [(''SupportedModes'', 0x0000), (''CurrentMode'', 0x0001)],
      ci_commands = [(''ChangeToMode'', 0x00), (''ChangeToModeResponse'', 0x01)],
      ci_events = []\<rparr>"

definition energy_evse_mode_attributes :: "attr_fn list" where
  "energy_evse_mode_attributes =
     [energy_evse_mode_attribute_supported_modes, energy_evse_mode_attribute_current_mode]"

definition energy_evse_mode_commands :: "cmd_fn list" where
  "energy_evse_mode_commands =
     [energy_evse_mode_command_change_to_mode, energy_evse_mode_command_change_to_mode_response]"

definition energy_evse_mode_cluster :: cluster_decl where
  "energy_evse_mode_cluster =
     \<lparr>cd_ids = energy_evse_mode_ids,
      cd_callbacks = [],
      cd_features = [],
      cd_attributes = energy_evse_mode_attributes,
      cd_commands = energy_evse_mode_commands,
      cd_events = [],
      cd_create = Some energy_evse_mode_create\<rparr>"

section \<open>\<open>energy_preference\<close>\<close>

definition energy_preference_energy_balance_id :: u32 where
  "energy_preference_energy_balance_id = 0x1"

definition energy_preference_low_power_mode_sensitivity_id :: u32 where
  "energy_preference_low_power_mode_sensitivity_id = 0x2"

definition energy_preference_attribute_energy_balances :: attr_fn where
  "energy_preference_attribute_energy_balances =
     guarded (Has_Feature energy_preference_energy_balance_id) (attr 0x0000 ATTRIBUTE_FLAG_MANAGED_INTERNALLY
          VT_ARRAY)"

definition energy_preference_attribute_current_energy_balance :: attr_fn where
  "energy_preference_attribute_current_energy_balance =
     guarded (Has_Feature energy_preference_energy_balance_id) (bounded 0 254 (attr 0x0001 (ATTRIBUTE_FLAG_WRITABLE
          OR ATTRIBUTE_FLAG_NONVOLATILE) VT_UINT8))"

definition energy_preference_attribute_energy_priorities :: attr_fn where
  "energy_preference_attribute_energy_priorities =
     guarded (Has_Feature energy_preference_energy_balance_id) (attr 0x0002 ATTRIBUTE_FLAG_MANAGED_INTERNALLY
          VT_ARRAY)"

definition energy_preference_attribute_low_power_mode_sensitivities :: attr_fn where
  "energy_preference_attribute_low_power_mode_sensitivities =
     guarded (Has_Feature energy_preference_low_power_mode_sensitivity_id) (attr 0x0003
          ATTRIBUTE_FLAG_MANAGED_INTERNALLY VT_ARRAY)"

definition energy_preference_attribute_current_low_power_mode_sensitivity :: attr_fn where
  "energy_preference_attribute_current_low_power_mode_sensitivity =
     guarded (Has_Feature energy_preference_low_power_mode_sensitivity_id) (bounded 0 254 (attr 0x0004
          (ATTRIBUTE_FLAG_WRITABLE OR ATTRIBUTE_FLAG_NONVOLATILE) VT_UINT8))"

definition energy_preference_feature_energy_balance :: feature_fn where
  "energy_preference_feature_energy_balance =
     feature energy_preference_energy_balance_id True [Update_Feature_Map,
        Attribute energy_preference_attribute_current_energy_balance (Field ''current_energy_balance''),
        Attribute energy_preference_attribute_energy_balances Null_Arr,
        Attribute energy_preference_attribute_energy_priorities Null_Arr]"

definition energy_preference_feature_low_power_mode_sensitivity :: feature_fn where
  "energy_preference_feature_low_power_mode_sensitivity =
     feature energy_preference_low_power_mode_sensitivity_id True [Update_Feature_Map,
        Attribute energy_preference_attribute_current_low_power_mode_sensitivity (Field
          ''current_low_power_mode_sensitivity''),
        Attribute energy_preference_attribute_low_power_mode_sensitivities Null_Arr]"

definition energy_preference_function_list :: "string list option" where
  "energy_preference_function_list =
     Some [''MatterEnergyPreferenceClusterServerPreAttributeChangedCallback'']"

definition energy_preference_create :: cluster_fn where
  "energy_preference_create =
     \<lparr>kf_id = 0x009B,
      kf_revision = 1,
      kf_functions = energy_preference_function_list,
      kf_function_flags = CLUSTER_FLAG_PRE_ATTRIBUTE_CHANGED_FUNCTION,
      kf_body = [Delegate ''EnergyPreferenceDelegateInitCB'',
        Plugin ''MatterEnergyPreferencePluginServerInitCallback'', Functions, Config_Feature_Map,
        Cluster_Revision, Validate k_at_least_one [energy_preference_energy_balance_id,
        energy_preference_low_power_mode_sensitivity_id],
        If_Feature energy_preference_energy_balance_id [Add_Feature energy_preference_feature_energy_balance
          ''energy_balance''] [],
        If_Feature energy_preference_low_power_mode_sensitivity_id [Add_Feature
          energy_preference_feature_low_power_mode_sensitivity ''low_power_mode_sensitivity''] []],
      kf_binding = True\<rparr>"

definition energy_preference_ids :: cluster_ids where
  "energy_preference_ids =
     \<lparr>ci_cluster = 0x009B,
      ci_features = [(''EnergyBalance'', 0x1), (''LowPowerModeSensitivity'', 0x2)],
      ci_attributes = [(''EnergyBalances'', 0x0000), (''CurrentEnergyBalance'', 0x0001), (''EnergyPriorities'',
        0x0002), (''LowPowerModeSensitivities'', 0x0003), (''CurrentLowPowerModeSensitivity'', 0x0004)],
      ci_commands = [],
      ci_events = []\<rparr>"

definition energy_preference_features :: "feature_fn list" where
  "energy_preference_features =
     [energy_preference_feature_energy_balance, energy_preference_feature_low_power_mode_sensitivity]"

definition energy_preference_attributes :: "attr_fn list" where
  "energy_preference_attributes =
     [energy_preference_attribute_energy_balances, energy_preference_attribute_current_energy_balance,
        energy_preference_attribute_energy_priorities, energy_preference_attribute_low_power_mode_sensitivities,
        energy_preference_attribute_current_low_power_mode_sensitivity]"

definition energy_preference_cluster :: cluster_decl where
  "energy_preference_cluster =
     \<lparr>cd_ids = energy_preference_ids,
      cd_callbacks = [],
      cd_features = energy_preference_features,
      cd_attributes = energy_preference_attributes,
      cd_commands = [],
      cd_events = [],
      cd_create = Some energy_preference_create\<rparr>"

section \<open>\<open>ethernet_network_diagnostics\<close>\<close>

definition ethernet_network_diagnostics_packet_counts_id :: u32 where
  "ethernet_network_diagnostics_packet_counts_id = 0x1"

definition ethernet_network_diagnostics_error_counts_id :: u32 where
  "ethernet_network_diagnostics_error_counts_id = 0x2"

definition ethernet_network_diagnostics_attribute_phy_rate :: attr_fn where
  "ethernet_network_diagnostics_attribute_phy_rate =
     bounded 0 9 (attr 0x0000 ATTRIBUTE_FLAG_NULLABLE VT_NULLABLE_ENUM8)"

definition ethernet_network_diagnostics_attribute_full_duplex :: attr_fn where
  "ethernet_network_diagnostics_attribute_full_duplex =
     attr 0x0001 ATTRIBUTE_FLAG_NULLABLE VT_NULLABLE_BOOLEAN"

definition ethernet_network_diagnostics_attribute_packet_rx_count :: attr_fn where
  "ethernet_network_diagnostics_attribute_packet_rx_count =
     guarded (Has_Feature ethernet_network_diagnostics_packet_counts_id) (bounded 0 4294967294 (attr 0x0002 0
          VT_UINT64))"

definition ethernet_network_diagnostics_attribute_packet_tx_count :: attr_fn where
  "ethernet_network_diagnostics_attribute_packet_tx_count =
     guarded (Has_Feature ethernet_network_diagnostics_packet_counts_id) (bounded 0 4294967294 (attr 0x0003 0
          VT_UINT64))"

definition ethernet_network_diagnostics_attribute_tx_err_count :: attr_fn where
  "ethernet_network_diagnostics_attribute_tx_err_count =
     guarded (Has_Feature ethernet_network_diagnostics_error_counts_id) (bounded 0 4294967294 (attr 0x0004 0
          VT_UINT64))"

definition ethernet_network_diagnostics_attribute_collision_count :: attr_fn where
  "ethernet_network_diagnostics_attribute_collision_count =
     guarded (Has_Feature ethernet_network_diagnostics_error_counts_id) (bounded 0 4294967294 (attr 0x0005 0
          VT_UINT64))"

definition ethernet_network_diagnostics_attribute_overrun_count :: attr_fn where
  "ethernet_network_diagnostics_attribute_overrun_count =
     guarded (Has_Feature ethernet_network_diagnostics_error_counts_id) (bounded 0 4294967294 (attr 0x0006 0
          VT_UINT64))"

definition ethernet_network_diagnostics_attribute_carrier_detect :: attr_fn where
  "ethernet_network_diagnostics_attribute_carrier_detect =
     attr 0x0007 ATTRIBUTE_FLAG_NULLABLE VT_NULLABLE_BOOLEAN"

definition ethernet_network_diagnostics_attribute_time_since_reset :: attr_fn where
  "ethernet_network_diagnostics_attribute_time_since_reset =
     bounded 0 4294967294 (attr 0x0008 0 VT_UINT64)"

definition ethernet_network_diagnostics_command_reset_counts :: cmd_fn where
  "ethernet_network_diagnostics_command_reset_counts =
     guarded_cmd (Or (Has_Feature ethernet_network_diagnostics_packet_counts_id) (Has_Feature
          ethernet_network_diagnostics_error_counts_id)) (cmd 0x00 COMMAND_FLAG_ACCEPTED None)"

definition ethernet_network_diagnostics_feature_packet_counts :: feature_fn where
  "ethernet_network_diagnostics_feature_packet_counts =
     feature ethernet_network_diagnostics_packet_counts_id True [Update_Feature_Map,
        Attribute ethernet_network_diagnostics_attribute_packet_rx_count (Field ''packet_rx_count''),
        Attribute ethernet_network_diagnostics_attribute_packet_tx_count (Field ''packet_tx_count''),
        Command ethernet_network_diagnostics_command_reset_counts]"

definition ethernet_network_diagnostics_feature_error_counts :: feature_fn where
  "ethernet_network_diagnostics_feature_error_counts =
     feature ethernet_network_diagnostics_error_counts_id True [Update_Feature_Map,
        Attribute ethernet_network_diagnostics_attribute_tx_err_count (Field ''tx_err_count''),
        Attribute ethernet_network_diagnostics_attribute_collision_count (Field ''collision_count''),
        Attribute ethernet_network_diagnostics_attribute_overrun_count (Field ''overrun_count''),
        Command ethernet_network_diagnostics_command_reset_counts]"

definition ethernet_network_diagnostics_create :: cluster_fn where
  "ethernet_network_diagnostics_create =
     \<lparr>kf_id = 0x0037,
      kf_revision = 1,
      kf_functions = None,
      kf_function_flags = 0,
      kf_body = [Plugin ''MatterEthernetNetworkDiagnosticsPluginServerInitCallback'', Functions, Feature_Map 0,
        Cluster_Revision,
        Callbacks ''ESPMatterEthernetNetworkDiagnosticsClusterServerInitCallback''
          ''ESPMatterEthernetNetworkDiagnosticsClusterServerShutdownCallback''],
      kf_binding = False\<rparr>"

definition ethernet_network_diagnostics_ids :: cluster_ids where
  "ethernet_network_diagnostics_ids =
     \<lparr>ci_cluster = 0x0037,
      ci_features = [(''PacketCounts'', 0x1), (''ErrorCounts'', 0x2)],
      ci_attributes = [(''PHYRate'', 0x0000), (''FullDuplex'', 0x0001), (''PacketRxCount'', 0x0002),
        (''PacketTxCount'', 0x0003), (''TxErrCount'', 0x0004), (''CollisionCount'', 0x0005), (''OverrunCount'',
        0x0006), (''CarrierDetect'', 0x0007), (''TimeSinceReset'', 0x0008)],
      ci_commands = [(''ResetCounts'', 0x00)],
      ci_events = []\<rparr>"

definition ethernet_network_diagnostics_features :: "feature_fn list" where
  "ethernet_network_diagnostics_features =
     [ethernet_network_diagnostics_feature_packet_counts, ethernet_network_diagnostics_feature_error_counts]"

definition ethernet_network_diagnostics_attributes :: "attr_fn list" where
  "ethernet_network_diagnostics_attributes =
     [ethernet_network_diagnostics_attribute_phy_rate, ethernet_network_diagnostics_attribute_full_duplex,
        ethernet_network_diagnostics_attribute_packet_rx_count,
        ethernet_network_diagnostics_attribute_packet_tx_count,
        ethernet_network_diagnostics_attribute_tx_err_count,
        ethernet_network_diagnostics_attribute_collision_count,
        ethernet_network_diagnostics_attribute_overrun_count,
        ethernet_network_diagnostics_attribute_carrier_detect,
        ethernet_network_diagnostics_attribute_time_since_reset]"

definition ethernet_network_diagnostics_commands :: "cmd_fn list" where
  "ethernet_network_diagnostics_commands =
     [ethernet_network_diagnostics_command_reset_counts]"

definition ethernet_network_diagnostics_cluster :: cluster_decl where
  "ethernet_network_diagnostics_cluster =
     \<lparr>cd_ids = ethernet_network_diagnostics_ids,
      cd_callbacks = [],
      cd_features = ethernet_network_diagnostics_features,
      cd_attributes = ethernet_network_diagnostics_attributes,
      cd_commands = ethernet_network_diagnostics_commands,
      cd_events = [],
      cd_create = Some ethernet_network_diagnostics_create\<rparr>"

section \<open>\<open>fan_control\<close>\<close>

definition fan_control_multi_speed_id :: u32 where
  "fan_control_multi_speed_id = 0x1"

definition fan_control_fan_auto_id :: u32 where
  "fan_control_fan_auto_id = 0x2"

definition fan_control_rocking_id :: u32 where
  "fan_control_rocking_id = 0x4"

definition fan_control_wind_id :: u32 where
  "fan_control_wind_id = 0x8"

definition fan_control_step_id :: u32 where
  "fan_control_step_id = 0x10"

definition fan_control_airflow_direction_id :: u32 where
  "fan_control_airflow_direction_id = 0x20"

definition fan_control_attribute_fan_mode :: attr_fn where
  "fan_control_attribute_fan_mode =
     bounded 0 6 (attr 0x0000 (ATTRIBUTE_FLAG_WRITABLE OR ATTRIBUTE_FLAG_NONVOLATILE) VT_ENUM8)"

definition fan_control_attribute_fan_mode_sequence :: attr_fn where
  "fan_control_attribute_fan_mode_sequence =
     bounded 0 5 (attr 0x0001 0 VT_ENUM8)"

definition fan_control_attribute_percent_setting :: attr_fn where
  "fan_control_attribute_percent_setting =
     bounded 0 100 (attr 0x0002 (ATTRIBUTE_FLAG_WRITABLE OR ATTRIBUTE_FLAG_NULLABLE) VT_NULLABLE_UINT8)"

definition fan_control_attribute_percent_current :: attr_fn where
  "fan_control_attribute_percent_current =
     bounded 0 100 (attr 0x0003 0 VT_UINT8)"

definition fan_control_attribute_speed_max :: attr_fn where
  "fan_control_attribute_speed_max =
     guarded (Has_Feature fan_control_multi_speed_id) (bounded 1 100 (attr 0x0004 0 VT_UINT8))"

definition fan_control_attribute_speed_setting :: attr_fn where
  "fan_control_attribute_speed_setting =
     guarded (Has_Feature fan_control_multi_speed_id) (bounded 0 254 (attr 0x0005 (ATTRIBUTE_FLAG_WRITABLE OR
          ATTRIBUTE_FLAG_NULLABLE) VT_NULLABLE_UINT8))"

definition fan_control_attribute_speed_current :: attr_fn where
  "fan_control_attribute_speed_current =
     guarded (Has_Feature fan_control_multi_speed_id) (bounded 0 254 (attr 0x0006 0 VT_UINT8))"

definition fan_control_attribute_rock_support :: attr_fn where
  "fan_control_attribute_rock_support =
     guarded (Has_Feature fan_control_rocking_id) (bounded 0 7 (attr 0x0007 0 VT_BITMAP8))"

definition fan_control_attribute_rock_setting :: attr_fn where
  "fan_control_attribute_rock_setting =
     guarded (Has_Feature fan_control_rocking_id) (bounded 0 7 (attr 0x0008 ATTRIBUTE_FLAG_WRITABLE VT_BITMAP8))"

definition fan_control_attribute_wind_support :: attr_fn where
  "fan_control_attribute_wind_support =
     guarded (Has_Feature fan_control_wind_id) (bounded 0 3 (attr 0x0009 0 VT_BITMAP8))"

definition fan_control_attribute_wind_setting :: attr_fn where
  "fan_control_attribute_wind_setting =
     guarded (Has_Feature fan_control_wind_id) (bounded 0 3 (attr 0x000A ATTRIBUTE_FLAG_WRITABLE VT_BITMAP8))"

definition fan_control_attribute_airflow_direction :: attr_fn where
  "fan_control_attribute_airflow_direction =
     guarded (Has_Feature fan_control_airflow_direction_id) (bounded 0 1 (attr 0x000B ATTRIBUTE_FLAG_WRITABLE
          VT_ENUM8))"

definition fan_control_callback_step :: callback_fn where
  "fan_control_callback_step =
     decodes_to ''FanControl::Commands::Step'' ''emberAfFanControlClusterStepCallback''"

definition fan_control_command_step :: cmd_fn where
  "fan_control_command_step =
     guarded_cmd (Has_Feature fan_control_step_id) (cmd 0x00 COMMAND_FLAG_ACCEPTED (Some
          ''fan_control.esp_matter_command_callback_step''))"

definition fan_control_feature_multi_speed :: feature_fn where
  "fan_control_feature_multi_speed =
     feature fan_control_multi_speed_id True [Update_Feature_Map,
        Attribute fan_control_attribute_speed_max (Field ''speed_max''),
        Attribute fan_control_attribute_speed_setting (Field ''speed_setting''),
        Attribute fan_control_attribute_speed_current (Field ''speed_current'')]"

definition fan_control_feature_fan_auto :: feature_fn where
  "fan_control_feature_fan_auto =
     feature fan_control_fan_auto_id False [Update_Feature_Map]"

definition fan_control_feature_rocking :: feature_fn where
  "fan_control_feature_rocking =
     feature fan_control_rocking_id True [Update_Feature_Map,
        Attribute fan_control_attribute_rock_support (Field ''rock_support''),
        Attribute fan_control_attribute_rock_setting (Field ''rock_setting'')]"

definition fan_control_feature_wind :: feature_fn where
  "fan_control_feature_wind =
     feature fan_control_wind_id True [Update_Feature_Map,
        Attribute fan_control_attribute_wind_support (Field ''wind_support''),
        Attribute fan_control_attribute_wind_setting (Field ''wind_setting'')]"

definition fan_control_feature_step :: feature_fn where
  "fan_control_feature_step =
     feature fan_control_step_id False [Update_Feature_Map, Command fan_control_command_step]"

definition fan_control_feature_airflow_direction :: feature_fn where
  "fan_control_feature_airflow_direction =
     feature fan_control_airflow_direction_id True [Update_Feature_Map,
        Attribute fan_control_attribute_airflow_direction (Field ''airflow_direction'')]"

definition fan_control_function_list :: "string list option" where
  "fan_control_function_list =
     Some [''MatterFanControlClusterServerAttributeChangedCallback'',
        ''MatterFanControlClusterServerPreAttributeChangedCallback'']"

definition fan_control_create :: cluster_fn where
  "fan_control_create =
     \<lparr>kf_id = 0x0202,
      kf_revision = 5,
      kf_functions = fan_control_function_list,
      kf_function_flags = CLUSTER_FLAG_ATTRIBUTE_CHANGED_FUNCTION OR
          CLUSTER_FLAG_PRE_ATTRIBUTE_CHANGED_FUNCTION,
      kf_body = [Delegate ''FanControlDelegateInitCB'', Plugin ''MatterFanControlPluginServerInitCallback'',
        Functions, Feature_Map 0, Cluster_Revision,
        Step (Attribute fan_control_attribute_fan_mode (Field ''fan_mode'')),
        Step (Attribute fan_control_attribute_fan_mode_sequence (Field ''fan_mode_sequence'')),
        Step (Attribute fan_control_attribute_percent_setting (Field ''percent_setting'')),
        Step (Attribute fan_control_attribute_percent_current (Field ''percent_current''))],
      kf_binding = True\<rparr>"

definition fan_control_ids :: cluster_ids where
  "fan_control_ids =
     \<lparr>ci_cluster = 0x0202,
      ci_features = [(''MultiSpeed'', 0x1), (''FanAuto'', 0x2), (''Rocking'', 0x4), (''Wind'', 0x8), (''Step'',
        0x10), (''AirflowDirection'', 0x20)],
      ci_attributes = [(''FanMode'', 0x0000), (''FanModeSequence'', 0x0001), (''PercentSetting'', 0x0002),
        (''PercentCurrent'', 0x0003), (''SpeedMax'', 0x0004), (''SpeedSetting'', 0x0005), (''SpeedCurrent'',
        0x0006), (''RockSupport'', 0x0007), (''RockSetting'', 0x0008), (''WindSupport'', 0x0009),
        (''WindSetting'', 0x000A), (''AirflowDirection'', 0x000B)],
      ci_commands = [(''Step'', 0x00)],
      ci_events = []\<rparr>"

definition fan_control_features :: "feature_fn list" where
  "fan_control_features =
     [fan_control_feature_multi_speed, fan_control_feature_fan_auto, fan_control_feature_rocking,
        fan_control_feature_wind, fan_control_feature_step, fan_control_feature_airflow_direction]"

definition fan_control_attributes :: "attr_fn list" where
  "fan_control_attributes =
     [fan_control_attribute_fan_mode, fan_control_attribute_fan_mode_sequence, fan_control_attribute_percent_setting,
        fan_control_attribute_percent_current, fan_control_attribute_speed_max,
        fan_control_attribute_speed_setting, fan_control_attribute_speed_current,
        fan_control_attribute_rock_support, fan_control_attribute_rock_setting,
        fan_control_attribute_wind_support, fan_control_attribute_wind_setting,
        fan_control_attribute_airflow_direction]"

definition fan_control_commands :: "cmd_fn list" where
  "fan_control_commands =
     [fan_control_command_step]"

definition fan_control_callbacks :: "(string \<times> callback_fn) list" where
  "fan_control_callbacks =
     [(''fan_control.esp_matter_command_callback_step'', fan_control_callback_step)]"

definition fan_control_cluster :: cluster_decl where
  "fan_control_cluster =
     \<lparr>cd_ids = fan_control_ids,
      cd_callbacks = fan_control_callbacks,
      cd_features = fan_control_features,
      cd_attributes = fan_control_attributes,
      cd_commands = fan_control_commands,
      cd_events = [],
      cd_create = Some fan_control_create\<rparr>"

section \<open>\<open>fixed_label\<close>\<close>

definition fixed_label_attribute_label_list :: attr_fn where
  "fixed_label_attribute_label_list =
     attr 0x0000 (ATTRIBUTE_FLAG_MANAGED_INTERNALLY OR ATTRIBUTE_FLAG_NONVOLATILE) VT_ARRAY"

definition fixed_label_create :: cluster_fn where
  "fixed_label_create =
     \<lparr>kf_id = 0x0040,
      kf_revision = 1,
      kf_functions = None,
      kf_function_flags = 0,
      kf_body = [Plugin ''MatterFixedLabelPluginServerInitCallback'', Functions, Feature_Map 0,
        Cluster_Revision, Step (Attribute fixed_label_attribute_label_list Null_Arr),
        Callbacks ''ESPMatterFixedLabelClusterServerInitCallback''
          ''ESPMatterFixedLabelClusterServerShutdownCallback''],
      kf_binding = False\<rparr>"

definition fixed_label_ids :: cluster_ids where
  "fixed_label_ids =
     \<lparr>ci_cluster = 0x0040,
      ci_features = [],
      ci_attributes = [(''LabelList'', 0x0000)],
      ci_commands = [],
      ci_events = []\<rparr>"

definition fixed_label_attributes :: "attr_fn list" where
  "fixed_label_attributes =
     [fixed_label_attribute_label_list]"

definition fixed_label_cluster :: cluster_decl where
  "fixed_label_cluster =
     \<lparr>cd_ids = fixed_label_ids,
      cd_callbacks = [],
      cd_features = [],
      cd_attributes = fixed_label_attributes,
      cd_commands = [],
      cd_events = [],
      cd_create = Some fixed_label_create\<rparr>"

section \<open>\<open>flow_measurement\<close>\<close>

definition flow_measurement_attribute_measured_value :: attr_fn where
  "flow_measurement_attribute_measured_value =
     bounded 0 65534 (attr 0x0000 ATTRIBUTE_FLAG_NULLABLE VT_NULLABLE_UINT16)"

definition flow_measurement_attribute_min_measured_value :: attr_fn where
  "flow_measurement_attribute_min_measured_value =
     bounded 0 65533 (attr 0x0001 ATTRIBUTE_FLAG_NULLABLE VT_NULLABLE_UINT16)"

definition flow_measurement_attribute_max_measured_value :: attr_fn where
  "flow_measurement_attribute_max_measured_value =
     bounded 0 65534 (attr 0x0002 ATTRIBUTE_FLAG_NULLABLE VT_NULLABLE_UINT16)"

definition flow_measurement_attribute_tolerance :: attr_fn where
  "flow_measurement_attribute_tolerance =
     bounded 0 2048 (attr 0x0003 0 VT_UINT16)"

definition flow_measurement_create :: cluster_fn where
  "flow_measurement_create =
     \<lparr>kf_id = 0x0404,
      kf_revision = 3,
      kf_functions = None,
      kf_function_flags = 0,
      kf_body = [Plugin ''MatterFlowMeasurementPluginServerInitCallback'', Functions, Feature_Map 0,
        Cluster_Revision, Step (Attribute flow_measurement_attribute_measured_value (Field ''measured_value'')),
        Step (Attribute flow_measurement_attribute_min_measured_value (Field ''min_measured_value'')),
        Step (Attribute flow_measurement_attribute_max_measured_value (Field ''max_measured_value''))],
      kf_binding = True\<rparr>"

definition flow_measurement_ids :: cluster_ids where
  "flow_measurement_ids =
     \<lparr>ci_cluster = 0x0404,
      ci_features = [],
      ci_attributes = [(''MeasuredValue'', 0x0000), (''MinMeasuredValue'', 0x0001), (''MaxMeasuredValue'',
        0x0002), (''Tolerance'', 0x0003)],
      ci_commands = [],
      ci_events = []\<rparr>"

definition flow_measurement_attributes :: "attr_fn list" where
  "flow_measurement_attributes =
     [flow_measurement_attribute_measured_value, flow_measurement_attribute_min_measured_value,
        flow_measurement_attribute_max_measured_value, flow_measurement_attribute_tolerance]"

definition flow_measurement_cluster :: cluster_decl where
  "flow_measurement_cluster =
     \<lparr>cd_ids = flow_measurement_ids,
      cd_callbacks = [],
      cd_features = [],
      cd_attributes = flow_measurement_attributes,
      cd_commands = [],
      cd_events = [],
      cd_create = Some flow_measurement_create\<rparr>"

section \<open>Checks\<close>

definition additive_05 :: "cluster_decl list" where
  "additive_05 =
     [ecosystem_information_cluster, electrical_energy_measurement_cluster, electrical_grid_conditions_cluster,
        electrical_power_measurement_cluster, energy_evse_cluster, energy_evse_mode_cluster,
        energy_preference_cluster, ethernet_network_diagnostics_cluster, fan_control_cluster,
        fixed_label_cluster, flow_measurement_cluster]"

lemma additive_05_ok: "list_all decl_ok additive_05"
  by code_simp

lemma additive_05_order: "list_all (\<lambda>d. order_ok (cd_features d)) additive_05"
  by code_simp

end
