(* ===== verification/EM_Clusters_06.thy ===== *)
theory EM_Clusters_06
  imports EM_Order
begin

text \<open>
  The generated clusters \<open>formaldehyde_concentration_measurement\<close> to \<open>level_control\<close>:
  one definition for each function and id table of their files, and the checks of the descriptions.
\<close>

section \<open>\<open>formaldehyde_concentration_measurement\<close>\<close>

definition formaldehyde_concentration_measurement_numeric_measurement_id :: u32 where
  "formaldehyde_concentration_measurement_numeric_measurement_id = 0x1"

definition formaldehyde_concentration_measurement_level_indication_id :: u32 where
  "formaldehyde_concentration_measurement_level_indication_id = 0x2"

definition formaldehyde_concentration_measurement_medium_level_id :: u32 where
  "formaldehyde_concentration_measurement_medium_level_id = 0x4"

definition formaldehyde_concentration_measurement_critical_level_id :: u32 where
  "formaldehyde_concentration_measurement_critical_level_id = 0x8"

definition formaldehyde_concentration_measurement_peak_measurement_id :: u32 where
  "formaldehyde_concentration_measurement_peak_measurement_id = 0x10"

definition formaldehyde_concentration_measurement_average_measurement_id :: u32 where
  "formaldehyde_concentration_measurement_average_measurement_id = 0x20"

definition formaldehyde_concentration_measurement_attribute_measured_value :: attr_fn where
  "formaldehyde_concentration_measurement_attribute_measured_value =
     guarded (Has_Feature formaldehyde_concentration_measurement_numeric_measurement_id) (attr 0x0000
          (ATTRIBUTE_FLAG_MANAGED_INTERNALLY OR ATTRIBUTE_FLAG_NULLABLE) VT_NULLABLE_FLOAT)"

definition formaldehyde_concentration_measurement_attribute_min_measured_value :: attr_fn where
  "formaldehyde_concentration_measurement_attribute_min_measured_value =
     guarded (Has_Feature formaldehyde_concentration_measurement_numeric_measurement_id) (attr 0x0001
          (ATTRIBUTE_FLAG_MANAGED_INTERNALLY OR ATTRIBUTE_FLAG_NULLABLE) VT_NULLABLE_FLOAT)"

definition formaldehyde_concentration_measurement_attribute_max_measured_value :: attr_fn where
  "formaldehyde_concentration_measurement_attribute_max_measured_value =
     guarded (Has_Feature formaldehyde_concentration_measurement_numeric_measurement_id) (attr 0x0002
          (ATTRIBUTE_FLAG_MANAGED_INTERNALLY OR ATTRIBUTE_FLAG_NULLABLE) VT_NULLABLE_FLOAT)"

definition formaldehyde_concentration_measurement_attribute_peak_measured_value :: attr_fn where
  "formaldehyde_concentration_measurement_attribute_peak_measured_value =
     guarded (Has_Feature formaldehyde_concentration_measurement_peak_measurement_id) (attr 0x0003
          (ATTRIBUTE_FLAG_MANAGED_INTERNALLY OR ATTRIBUTE_FLAG_NULLABLE) VT_NULLABLE_FLOAT)"

definition formaldehyde_concentration_measurement_attribute_peak_measured_value_window :: attr_fn where
  "formaldehyde_concentration_measurement_attribute_peak_measured_value_window =
     guarded (Has_Feature formaldehyde_concentration_measurement_peak_measurement_id) (attr 0x0004
          ATTRIBUTE_FLAG_MANAGED_INTERNALLY VT_UINT32)"

definition formaldehyde_concentration_measurement_attribute_average_measured_value :: attr_fn where
  "formaldehyde_concentration_measurement_attribute_average_measured_value =
     guarded (Has_Feature formaldehyde_concentration_measurement_average_measurement_id) (attr 0x0005
          (ATTRIBUTE_FLAG_MANAGED_INTERNALLY OR ATTRIBUTE_FLAG_NULLABLE) VT_NULLABLE_FLOAT)"

definition formaldehyde_concentration_measurement_attribute_average_measured_value_window :: attr_fn where
  "formaldehyde_concentration_measurement_attribute_average_measured_value_window =
     guarded (Has_Feature formaldehyde_concentration_measurement_average_measurement_id) (attr 0x0006
          ATTRIBUTE_FLAG_MANAGED_INTERNALLY VT_UINT32)"

definition formaldehyde_concentration_measurement_attribute_uncertainty :: attr_fn where
  "formaldehyde_concentration_measurement_attribute_uncertainty =
     attr 0x0007 ATTRIBUTE_FLAG_MANAGED_INTERNALLY VT_FLOAT"

definition formaldehyde_concentration_measurement_attribute_measurement_unit :: attr_fn where
  "formaldehyde_concentration_measurement_attribute_measurement_unit =
     guarded (Has_Feature formaldehyde_concentration_measurement_numeric_measurement_id) (attr 0x0008
          ATTRIBUTE_FLAG_MANAGED_INTERNALLY VT_ENUM8)"

definition formaldehyde_concentration_measurement_attribute_measurement_medium :: attr_fn where
  "formaldehyde_concentration_measurement_attribute_measurement_medium =
     attr 0x0009 ATTRIBUTE_FLAG_MANAGED_INTERNALLY VT_ENUM8"

definition formaldehyde_concentration_measurement_attribute_level_value :: attr_fn where
  "formaldehyde_concentration_measurement_attribute_level_value =
     guarded (Has_Feature formaldehyde_concentration_measurement_level_indication_id) (attr 0x000A
          ATTRIBUTE_FLAG_MANAGED_INTERNALLY VT_ENUM8)"

definition formaldehyde_concentration_measurement_feature_numeric_measurement :: feature_fn where
  "formaldehyde_concentration_measurement_feature_numeric_measurement =
     feature formaldehyde_concentration_measurement_numeric_measurement_id False [Update_Feature_Map,
        Attribute formaldehyde_concentration_measurement_attribute_measured_value (Lit 0),
        Attribute formaldehyde_concentration_measurement_attribute_min_measured_value (Lit 0),
        Attribute formaldehyde_concentration_measurement_attribute_max_measured_value (Lit 0),
        Attribute formaldehyde_concentration_measurement_attribute_measurement_unit (Lit 0)]"

definition formaldehyde_concentration_measurement_feature_level_indication :: feature_fn where
  "formaldehyde_concentration_measurement_feature_level_indication =
     feature formaldehyde_concentration_measurement_level_indication_id False [Update_Feature_Map,
        Attribute formaldehyde_concentration_measurement_attribute_level_value (Lit 0)]"

definition formaldehyde_concentration_measurement_feature_medium_level :: feature_fn where
  "formaldehyde_concentration_measurement_feature_medium_level =
     feature formaldehyde_concentration_measurement_medium_level_id False [Require (Has_Feature
          formaldehyde_concentration_measurement_level_indication_id), Update_Feature_Map]"

definition formaldehyde_concentration_measurement_feature_critical_level :: feature_fn where
  "formaldehyde_concentration_measurement_feature_critical_level =
     feature formaldehyde_concentration_measurement_critical_level_id False [Require (Has_Feature
          formaldehyde_concentration_measurement_level_indication_id), Update_Feature_Map]"

definition formaldehyde_concentration_measurement_feature_peak_measurement :: feature_fn where
  "formaldehyde_concentration_measurement_feature_peak_measurement =
     feature formaldehyde_concentration_measurement_peak_measurement_id False [Require (Has_Feature
          formaldehyde_concentration_measurement_numeric_measurement_id), Update_Feature_Map,
        Attribute formaldehyde_concentration_measurement_attribute_peak_measured_value (Lit 0),
        Attribute formaldehyde_concentration_measurement_attribute_peak_measured_value_window (Lit 0)]"

definition formaldehyde_concentration_measurement_feature_average_measurement :: feature_fn where
  "formaldehyde_concentration_measurement_feature_average_measurement =
     feature formaldehyde_concentration_measurement_average_measurement_id False [Require (Has_Feature
          formaldehyde_concentration_measurement_numeric_measurement_id), Update_Feature_Map,
        Attribute formaldehyde_concentration_measurement_attribute_average_measured_value (Lit 0),
        Attribute formaldehyde_concentration_measurement_attribute_average_measured_value_window (Lit 0)]"

definition formaldehyde_concentration_measurement_create :: cluster_fn where
  "formaldehyde_concentration_measurement_create =
     \<lparr>kf_id = 0x042B,
      kf_revision = 3,
      kf_functions = None,
      kf_function_flags = 0,
      kf_body = [Plugin ''MatterFormaldehydeConcentrationMeasurementPluginServerInitCallback'', Functions,
        Config_Feature_Map, Cluster_Revision,
        Step (Attribute formaldehyde_concentration_measurement_attribute_measurement_medium (Lit 0)),
        Validate k_at_least_one [formaldehyde_concentration_measurement_numeric_measurement_id,
        formaldehyde_concentration_measurement_level_indication_id],
        If_Feature formaldehyde_concentration_measurement_numeric_measurement_id [Add_Feature
          formaldehyde_concentration_measurement_feature_numeric_measurement ''numeric_measurement''] [],
        If_Feature formaldehyde_concentration_measurement_level_indication_id [Add_Feature
          formaldehyde_concentration_measurement_feature_level_indication ''level_indication''] [],
        If_Feature formaldehyde_concentration_measurement_medium_level_id [Add_Feature
          formaldehyde_concentration_measurement_feature_medium_level ''medium_level''] [],
        If_Feature formaldehyde_concentration_measurement_critical_level_id [Add_Feature
          formaldehyde_concentration_measurement_feature_critical_level ''critical_level''] [],
        If_Feature formaldehyde_concentration_measurement_peak_measurement_id [Add_Feature
          formaldehyde_concentration_measurement_feature_peak_measurement ''peak_measurement''] [],
        If_Feature formaldehyde_concentration_measurement_average_measurement_id [Add_Feature
          formaldehyde_concentration_measurement_feature_average_measurement ''average_measurement''] []],
      kf_binding = True\<rparr>"

definition formaldehyde_concentration_measurement_ids :: cluster_ids where
  "formaldehyde_concentration_measurement_ids =
     \<lparr>ci_cluster = 0x042B,
      ci_features = [(''NumericMeasurement'', 0x1), (''LevelIndication'', 0x2), (''MediumLevel'', 0x4),
        (''CriticalLevel'', 0x8), (''PeakMeasurement'', 0x10), (''AverageMeasurement'', 0x20)],
      ci_attributes = [(''MeasuredValue'', 0x0000), (''MinMeasuredValue'', 0x0001), (''MaxMeasuredValue'',
        0x0002), (''PeakMeasuredValue'', 0x0003), (''PeakMeasuredValueWindow'', 0x0004),
        (''AverageMeasuredValue'', 0x0005), (''AverageMeasuredValueWindow'', 0x0006), (''Uncertainty'', 0x0007),
        (''MeasurementUnit'', 0x0008), (''MeasurementMedium'', 0x0009), (''LevelValue'', 0x000A)],
      ci_commands = [],
      ci_events = []\<rparr>"

definition formaldehyde_concentration_measurement_features :: "feature_fn list" where
  "formaldehyde_concentration_measurement_features =
     [formaldehyde_concentration_measurement_feature_numeric_measurement,
        formaldehyde_concentration_measurement_feature_level_indication,
        formaldehyde_concentration_measurement_feature_medium_level,
        formaldehyde_concentration_measurement_feature_critical_level,
        formaldehyde_concentration_measurement_feature_peak_measurement,
        formaldehyde_concentration_measurement_feature_average_measurement]"

definition formaldehyde_concentration_measurement_attributes :: "attr_fn list" where
  "formaldehyde_concentration_measurement_attributes =
     [formaldehyde_concentration_measurement_attribute_measured_value,
        formaldehyde_concentration_measurement_attribute_min_measured_value,
        formaldehyde_concentration_measurement_attribute_max_measured_value,
        formaldehyde_concentration_measurement_attribute_peak_measured_value,
        formaldehyde_concentration_measurement_attribute_peak_measured_value_window,
        formaldehyde_concentration_measurement_attribute_average_measured_value,
        formaldehyde_concentration_measurement_attribute_average_measured_value_window,
        formaldehyde_concentration_measurement_attribute_uncertainty,
        formaldehyde_concentration_measurement_attribute_measurement_unit,
        formaldehyde_concentration_measurement_attribute_measurement_medium,
        formaldehyde_concentration_measurement_attribute_level_value]"

definition formaldehyde_concentration_measurement_cluster :: cluster_decl where
  "formaldehyde_concentration_measurement_cluster =
     \<lparr>cd_ids = formaldehyde_concentration_measurement_ids,
      cd_callbacks = [],
      cd_features = formaldehyde_concentration_measurement_features,
      cd_attributes = formaldehyde_concentration_measurement_attributes,
      cd_commands = [],
      cd_events = [],
      cd_create = Some formaldehyde_concentration_measurement_create\<rparr>"

section \<open>\<open>general_commissioning\<close>\<close>

definition general_commissioning_terms_and_conditions_id :: u32 where
  "general_commissioning_terms_and_conditions_id = 0x1"

definition general_commissioning_attribute_breadcrumb :: attr_fn where
  "general_commissioning_attribute_breadcrumb =
     bounded 0 4294967294 (attr 0x0000 ATTRIBUTE_FLAG_WRITABLE VT_UINT64)"

definition general_commissioning_attribute_basic_commissioning_info :: attr_fn where
  "general_commissioning_attribute_basic_commissioning_info =
     attr 0x0001 ATTRIBUTE_FLAG_MANAGED_INTERNALLY VT_ARRAY"

definition general_commissioning_attribute_regulatory_config :: attr_fn where
  "general_commissioning_attribute_regulatory_config =
     bounded 0 2 (attr 0x0002 0 VT_ENUM8)"

definition general_commissioning_attribute_location_capability :: attr_fn where
  "general_commissioning_attribute_location_capability =
     bounded 0 2 (attr 0x0003 0 VT_ENUM8)"

definition general_commissioning_attribute_supports_concurrent_connection :: attr_fn where
  "general_commissioning_attribute_supports_concurrent_connection =
     attr 0x0004 0 VT_BOOLEAN"

definition general_commissioning_attribute_tc_accepted_version :: attr_fn where
  "general_commissioning_attribute_tc_accepted_version =
     guarded (Has_Feature general_commissioning_terms_and_conditions_id) (bounded 0 65534 (attr 0x0005
          ATTRIBUTE_FLAG_NONVOLATILE VT_UINT16))"

definition general_commissioning_attribute_tc_min_required_version :: attr_fn where
  "general_commissioning_attribute_tc_min_required_version =
     guarded (Has_Feature general_commissioning_terms_and_conditions_id) (bounded 0 65534 (attr 0x0006
          ATTRIBUTE_FLAG_NONVOLATILE VT_UINT16))"

definition general_commissioning_attribute_tc_acknowledgements :: attr_fn where
  "general_commissioning_attribute_tc_acknowledgements =
     guarded (Has_Feature general_commissioning_terms_and_conditions_id) (attr 0x0007 ATTRIBUTE_FLAG_NONVOLATILE
          VT_BITMAP16)"

definition general_commissioning_attribute_tc_acknowledgements_required :: attr_fn where
  "general_commissioning_attribute_tc_acknowledgements_required =
     guarded (Has_Feature general_commissioning_terms_and_conditions_id) (attr 0x0008 ATTRIBUTE_FLAG_NONVOLATILE
          VT_BOOLEAN)"

definition general_commissioning_attribute_tc_update_deadline :: attr_fn where
  "general_commissioning_attribute_tc_update_deadline =
     guarded (Has_Feature general_commissioning_terms_and_conditions_id) (bounded 0 4294967294 (attr 0x0009
          (ATTRIBUTE_FLAG_NULLABLE OR ATTRIBUTE_FLAG_NONVOLATILE) VT_NULLABLE_UINT32))"

definition general_commissioning_command_arm_fail_safe :: cmd_fn where
  "general_commissioning_command_arm_fail_safe =
     cmd 0x00 COMMAND_FLAG_ACCEPTED None"

definition general_commissioning_command_arm_fail_safe_response :: cmd_fn where
  "general_commissioning_command_arm_fail_safe_response =
     cmd 0x01 COMMAND_FLAG_GENERATED None"

definition general_commissioning_command_set_regulatory_config :: cmd_fn where
  "general_commissioning_command_set_regulatory_config =
     cmd 0x02 COMMAND_FLAG_ACCEPTED None"

definition general_commissioning_command_set_regulatory_config_response :: cmd_fn where
  "general_commissioning_command_set_regulatory_config_response =
     cmd 0x03 COMMAND_FLAG_GENERATED None"

definition general_commissioning_command_commissioning_complete :: cmd_fn where
  "general_commissioning_command_commissioning_complete =
     cmd 0x04 COMMAND_FLAG_ACCEPTED None"

definition general_commissioning_command_commissioning_complete_response :: cmd_fn where
  "general_commissioning_command_commissioning_complete_response =
     cmd 0x05 COMMAND_FLAG_GENERATED None"

definition general_commissioning_command_set_tc_acknowledgements :: cmd_fn where
  "general_commissioning_command_set_tc_acknowledgements =
     guarded_cmd (Has_Feature general_commissioning_terms_and_conditions_id) (cmd 0x06 COMMAND_FLAG_ACCEPTED None)"

definition general_commissioning_command_set_tc_acknowledgements_response :: cmd_fn where
  "general_commissioning_command_set_tc_acknowledgements_response =
     guarded_cmd (Has_Feature general_commissioning_terms_and_conditions_id) (cmd 0x07 COMMAND_FLAG_GENERATED None)"

definition general_commissioning_feature_terms_and_conditions :: feature_fn where
  "general_commissioning_feature_terms_and_conditions =
     feature general_commissioning_terms_and_conditions_id True [Update_Feature_Map,
        Attribute general_commissioning_attribute_tc_accepted_version (Field ''tc_accepted_version''),
        Attribute general_commissioning_attribute_tc_min_required_version (Field ''tc_min_required_version''),
        Attribute general_commissioning_attribute_tc_acknowledgements (Field ''tc_acknowledgements''),
        Attribute general_commissioning_attribute_tc_acknowledgements_required (Field
          ''tc_acknowledgements_required''),
        Attribute general_commissioning_attribute_tc_update_deadline (Field ''tc_update_deadline''),
        Command general_commissioning_command_set_tc_acknowledgements,
        Command general_commissioning_command_set_tc_acknowledgements_response]"

definition general_commissioning_create :: cluster_fn where
  "general_commissioning_create =
     \<lparr>kf_id = 0x0030,
      kf_revision = 2,
      kf_functions = None,
      kf_function_flags = 0,
      kf_body = [Plugin ''MatterGeneralCommissioningPluginServerInitCallback'', Functions, Feature_Map 0,
        Cluster_Revision, Step (Attribute general_commissioning_attribute_breadcrumb (Field ''breadcrumb'')),
        Step (Attribute general_commissioning_attribute_regulatory_config (Field ''regulatory_config'')),
        Step (Attribute general_commissioning_attribute_location_capability (Field ''location_capability'')),
        Step (Attribute general_commissioning_attribute_supports_concurrent_connection (Field
          ''supports_concurrent_connection'')),
        Step (Attribute general_commissioning_attribute_basic_commissioning_info Null_Arr),
        Step (Command general_commissioning_command_arm_fail_safe),
        Step (Command general_commissioning_command_arm_fail_safe_response),
        Step (Command general_commissioning_command_set_regulatory_config),
        Step (Command general_commissioning_command_set_regulatory_config_response),
        Step (Command general_commissioning_command_commissioning_complete),
        Step (Command general_commissioning_command_commissioning_complete_response),
        Callbacks ''ESPMatterGeneralCommissioningClusterServerInitCallback''
          ''ESPMatterGeneralCommissioningClusterServerShutdownCallback''],
      kf_binding = False\<rparr>"

definition general_commissioning_ids :: cluster_ids where
  "general_commissioning_ids =
     \<lparr>ci_cluster = 0x0030,
      ci_features = [(''TermsAndConditions'', 0x1)],
      ci_attributes = [(''Breadcrumb'', 0x0000), (''BasicCommissioningInfo'', 0x0001), (''RegulatoryConfig'',
        0x0002), (''LocationCapability'', 0x0003), (''SupportsConcurrentConnection'', 0x0004),
        (''TCAcceptedVersion'', 0x0005), (''TCMinRequiredVersion'', 0x0006), (''TCAcknowledgements'', 0x0007),
        (''TCAcknowledgementsRequired'', 0x0008), (''TCUpdateDeadline'', 0x0009)],
      ci_commands = [(''ArmFailSafe'', 0x00), (''ArmFailSafeResponse'', 0x01), (''SetRegulatoryConfig'', 0x02),
        (''SetRegulatoryConfigResponse'', 0x03), (''CommissioningComplete'', 0x04),
        (''CommissioningCompleteResponse'', 0x05), (''SetTCAcknowledgements'', 0x06),
        (''SetTCAcknowledgementsResponse'', 0x07)],
      ci_events = []\<rparr>"

definition general_commissioning_features :: "feature_fn list" where
  "general_commissioning_features =
     [general_commissioning_feature_terms_and_conditions]"

definition general_commissioning_attributes :: "attr_fn list" where
  "general_commissioning_attributes =
     [general_commissioning_attribute_breadcrumb, general_commissioning_attribute_basic_commissioning_info,
        general_commissioning_attribute_regulatory_config, general_commissioning_attribute_location_capability,
        general_commissioning_attribute_supports_concurrent_connection,
        general_commissioning_attribute_tc_accepted_version,
        general_commissioning_attribute_tc_min_required_version,
        general_commissioning_attribute_tc_acknowledgements,
        general_commissioning_attribute_tc_acknowledgements_required,
        general_commissioning_attribute_tc_update_deadline]"

definition general_commissioning_commands :: "cmd_fn list" where
  "general_commissioning_commands =
     [general_commissioning_command_arm_fail_safe, general_commissioning_command_arm_fail_safe_response,
        general_commissioning_command_set_regulatory_config,
        general_commissioning_command_set_regulatory_config_response,
        general_commissioning_command_commissioning_complete,
        general_commissioning_command_commissioning_complete_response,
        general_commissioning_command_set_tc_acknowledgements,
        general_commissioning_command_set_tc_acknowledgements_response]"

definition general_commissioning_cluster :: cluster_decl where
  "general_commissioning_cluster =
     \<lparr>cd_ids = general_commissioning_ids,
      cd_callbacks = [],
      cd_features = general_commissioning_features,
      cd_attributes = general_commissioning_attributes,
      cd_commands = general_commissioning_commands,
      cd_events = [],
      cd_create = Some general_commissioning_create\<rparr>"

section \<open>\<open>general_diagnostics\<close>\<close>

definition general_diagnostics_data_model_test_id :: u32 where
  "general_diagnostics_data_model_test_id = 0x1"

definition general_diagnostics_attribute_network_interfaces :: attr_fn where
  "general_diagnostics_attribute_network_interfaces =
     attr 0x0000 ATTRIBUTE_FLAG_MANAGED_INTERNALLY VT_ARRAY"

definition general_diagnostics_attribute_reboot_count :: attr_fn where
  "general_diagnostics_attribute_reboot_count =
     bounded 0 65534 (attr 0x0001 ATTRIBUTE_FLAG_NONVOLATILE VT_UINT16)"

definition general_diagnostics_attribute_up_time :: attr_fn where
  "general_diagnostics_attribute_up_time =
     bounded 0 4294967294 (attr 0x0002 0 VT_UINT64)"

definition general_diagnostics_attribute_total_operational_hours :: attr_fn where
  "general_diagnostics_attribute_total_operational_hours =
     bounded 0 4294967294 (attr 0x0003 ATTRIBUTE_FLAG_NONVOLATILE VT_UINT32)"

definition general_diagnostics_attribute_boot_reason :: attr_fn where
  "general_diagnostics_attribute_boot_reason =
     bounded 0 6 (attr 0x0004 0 VT_ENUM8)"

definition general_diagnostics_attribute_active_hardware_faults :: attr_fn where
  "general_diagnostics_attribute_active_hardware_faults =
     attr 0x0005 ATTRIBUTE_FLAG_MANAGED_INTERNALLY VT_ARRAY"

definition general_diagnostics_attribute_active_radio_faults :: attr_fn where
  "general_diagnostics_attribute_active_radio_faults =
     attr 0x0006 ATTRIBUTE_FLAG_MANAGED_INTERNALLY VT_ARRAY"

definition general_diagnostics_attribute_active_network_faults :: attr_fn where
  "general_diagnostics_attribute_active_network_faults =
     attr 0x0007 ATTRIBUTE_FLAG_MANAGED_INTERNALLY VT_ARRAY"

definition general_diagnostics_attribute_test_event_triggers_enabled :: attr_fn where
  "general_diagnostics_attribute_test_event_triggers_enabled =
     attr 0x0008 0 VT_BOOLEAN"

definition general_diagnostics_command_test_event_trigger :: cmd_fn where
  "general_diagnostics_command_test_event_trigger =
     cmd 0x00 COMMAND_FLAG_ACCEPTED None"

definition general_diagnostics_command_time_snapshot :: cmd_fn where
  "general_diagnostics_command_time_snapshot =
     cmd 0x01 COMMAND_FLAG_ACCEPTED None"

definition general_diagnostics_command_time_snapshot_response :: cmd_fn where
  "general_diagnostics_command_time_snapshot_response =
     cmd 0x02 COMMAND_FLAG_GENERATED None"

definition general_diagnostics_command_payload_test_request :: cmd_fn where
  "general_diagnostics_command_payload_test_request =
     guarded_cmd (Has_Feature general_diagnostics_data_model_test_id) (cmd 0x03 COMMAND_FLAG_ACCEPTED None)"

definition general_diagnostics_command_payload_test_response :: cmd_fn where
  "general_diagnostics_command_payload_test_response =
     guarded_cmd (Has_Feature general_diagnostics_data_model_test_id) (cmd 0x04 COMMAND_FLAG_GENERATED None)"

definition general_diagnostics_event_hardware_fault_change :: event_fn where
  "general_diagnostics_event_hardware_fault_change =
     event 0x00"

definition general_diagnostics_event_radio_fault_change :: event_fn where
  "general_diagnostics_event_radio_fault_change =
     event 0x01"

definition general_diagnostics_event_network_fault_change :: event_fn where
  "general_diagnostics_event_network_fault_change =
     event 0x02"

definition general_diagnostics_event_boot_reason :: event_fn where
  "general_diagnostics_event_boot_reason =
     event 0x03"

definition general_diagnostics_feature_data_model_test :: feature_fn where
  "general_diagnostics_feature_data_model_test =
     feature general_diagnostics_data_model_test_id False [Update_Feature_Map,
        Command general_diagnostics_command_payload_test_request,
        Command general_diagnostics_command_payload_test_response]"

definition general_diagnostics_create :: cluster_fn where
  "general_diagnostics_create =
     \<lparr>kf_id = 0x0033,
      kf_revision = 2,
      kf_functions = None,
      kf_function_flags = 0,
      kf_body = [Plugin ''MatterGeneralDiagnosticsPluginServerInitCallback'', Functions, Feature_Map 0,
        Cluster_Revision, Step (Attribute general_diagnostics_attribute_reboot_count (Field ''reboot_count'')),
        Step (Attribute general_diagnostics_attribute_up_time (Field ''up_time'')),
        Step (Attribute general_diagnostics_attribute_test_event_triggers_enabled (Field
          ''test_event_triggers_enabled'')),
        Step (Attribute general_diagnostics_attribute_network_interfaces Null_Arr),
        Step (Command general_diagnostics_command_test_event_trigger),
        Step (Command general_diagnostics_command_time_snapshot),
        Step (Command general_diagnostics_command_time_snapshot_response),
        Step (Event general_diagnostics_event_boot_reason),
        Callbacks ''ESPMatterGeneralDiagnosticsClusterServerInitCallback''
          ''ESPMatterGeneralDiagnosticsClusterServerShutdownCallback''],
      kf_binding = False\<rparr>"

definition general_diagnostics_ids :: cluster_ids where
  "general_diagnostics_ids =
     \<lparr>ci_cluster = 0x0033,
      ci_features = [(''DataModelTest'', 0x1)],
      ci_attributes = [(''NetworkInterfaces'', 0x0000), (''RebootCount'', 0x0001), (''UpTime'', 0x0002),
        (''TotalOperationalHours'', 0x0003), (''BootReason'', 0x0004), (''ActiveHardwareFaults'', 0x0005),
        (''ActiveRadioFaults'', 0x0006), (''ActiveNetworkFaults'', 0x0007), (''TestEventTriggersEnabled'',
        0x0008)],
      ci_commands = [(''TestEventTrigger'', 0x00), (''TimeSnapshot'', 0x01), (''TimeSnapshotResponse'', 0x02),
        (''PayloadTestRequest'', 0x03), (''PayloadTestResponse'', 0x04)],
      ci_events = [(''HardwareFaultChange'', 0x00), (''RadioFaultChange'', 0x01), (''NetworkFaultChange'',
        0x02), (''BootReason'', 0x03)]\<rparr>"

definition general_diagnostics_features :: "feature_fn list" where
  "general_diagnostics_features =
     [general_diagnostics_feature_data_model_test]"

definition general_diagnostics_attributes :: "attr_fn list" where
  "general_diagnostics_attributes =
     [general_diagnostics_attribute_network_interfaces, general_diagnostics_attribute_reboot_count,
        general_diagnostics_attribute_up_time, general_diagnostics_attribute_total_operational_hours,
        general_diagnostics_attribute_boot_reason, general_diagnostics_attribute_active_hardware_faults,
        general_diagnostics_attribute_active_radio_faults, general_diagnostics_attribute_active_network_faults,
        general_diagnostics_attribute_test_event_triggers_enabled]"

definition general_diagnostics_commands :: "cmd_fn list" where
  "general_diagnostics_commands =
     [general_diagnostics_command_test_event_trigger, general_diagnostics_command_time_snapshot,
        general_diagnostics_command_time_snapshot_response, general_diagnostics_command_payload_test_request,
        general_diagnostics_command_payload_test_response]"

definition general_diagnostics_events :: "event_fn list" where
  "general_diagnostics_events =
     [general_diagnostics_event_hardware_fault_change, general_diagnostics_event_radio_fault_change,
        general_diagnostics_event_network_fault_change, general_diagnostics_event_boot_reason]"

definition general_diagnostics_cluster :: cluster_decl where
  "general_diagnostics_cluster =
     \<lparr>cd_ids = general_diagnostics_ids,
      cd_callbacks = [],
      cd_features = general_diagnostics_features,
      cd_attributes = general_diagnostics_attributes,
      cd_commands = general_diagnostics_commands,
      cd_events = general_diagnostics_events,
      cd_create = Some general_diagnostics_create\<rparr>"

section \<open>\<open>group_key_management\<close>\<close>

definition group_key_management_attribute_group_key_map :: attr_fn where
  "group_key_management_attribute_group_key_map =
     attr 0x0000 (ATTRIBUTE_FLAG_WRITABLE OR ATTRIBUTE_FLAG_MANAGED_INTERNALLY OR ATTRIBUTE_FLAG_NONVOLATILE)
          VT_ARRAY"

definition group_key_management_attribute_group_table :: attr_fn where
  "group_key_management_attribute_group_table =
     attr 0x0001 ATTRIBUTE_FLAG_MANAGED_INTERNALLY VT_ARRAY"

definition group_key_management_attribute_max_groups_per_fabric :: attr_fn where
  "group_key_management_attribute_max_groups_per_fabric =
     bounded 0 65534 (attr 0x0002 0 VT_UINT16)"

definition group_key_management_attribute_max_group_keys_per_fabric :: attr_fn where
  "group_key_management_attribute_max_group_keys_per_fabric =
     bounded 1 65535 (attr 0x0003 0 VT_UINT16)"

definition group_key_management_command_key_set_write :: cmd_fn where
  "group_key_management_command_key_set_write =
     cmd 0x00 COMMAND_FLAG_ACCEPTED None"

definition group_key_management_command_key_set_read :: cmd_fn where
  "group_key_management_command_key_set_read =
     cmd 0x01 COMMAND_FLAG_ACCEPTED None"

definition group_key_management_command_key_set_read_response :: cmd_fn where
  "group_key_management_command_key_set_read_response =
     cmd 0x02 COMMAND_FLAG_GENERATED None"

definition group_key_management_command_key_set_remove :: cmd_fn where
  "group_key_management_command_key_set_remove =
     cmd 0x03 COMMAND_FLAG_ACCEPTED None"

definition group_key_management_command_key_set_read_all_indices :: cmd_fn where
  "group_key_management_command_key_set_read_all_indices =
     cmd 0x04 COMMAND_FLAG_ACCEPTED None"

definition group_key_management_command_key_set_read_all_indices_response :: cmd_fn where
  "group_key_management_command_key_set_read_all_indices_response =
     cmd 0x05 COMMAND_FLAG_GENERATED None"

definition group_key_management_create :: cluster_fn where
  "group_key_management_create =
     \<lparr>kf_id = 0x003F,
      kf_revision = 2,
      kf_functions = None,
      kf_function_flags = 0,
      kf_body = [Plugin ''MatterGroupKeyManagementPluginServerInitCallback'', Functions, Feature_Map 0,
        Cluster_Revision,
        Step (Attribute group_key_management_attribute_max_groups_per_fabric (Field ''max_groups_per_fabric'')),
        Step (Attribute group_key_management_attribute_max_group_keys_per_fabric (Field
          ''max_group_keys_per_fabric'')),
        Step (Attribute group_key_management_attribute_group_key_map Null_Arr),
        Step (Attribute group_key_management_attribute_group_table Null_Arr),
        Step (Command group_key_management_command_key_set_write),
        Step (Command group_key_management_command_key_set_read),
        Step (Command group_key_management_command_key_set_read_response),
        Step (Command group_key_management_command_key_set_remove),
        Step (Command group_key_management_command_key_set_read_all_indices),
        Step (Command group_key_management_command_key_set_read_all_indices_response),
        Callbacks ''ESPMatterGroupKeyManagementClusterServerInitCallback''
          ''ESPMatterGroupKeyManagementClusterServerShutdownCallback''],
      kf_binding = False\<rparr>"

definition group_key_management_ids :: cluster_ids where
  "group_key_management_ids =
     \<lparr>ci_cluster = 0x003F,
      ci_features = [],
      ci_attributes = [(''GroupKeyMap'', 0x0000), (''GroupTable'', 0x0001), (''MaxGroupsPerFabric'', 0x0002),
        (''MaxGroupKeysPerFabric'', 0x0003)],
      ci_commands = [(''KeySetWrite'', 0x00), (''KeySetRead'', 0x01), (''KeySetReadResponse'', 0x02),
        (''KeySetRemove'', 0x03), (''KeySetReadAllIndices'', 0x04), (''KeySetReadAllIndicesResponse'', 0x05)],
      ci_events = []\<rparr>"

definition group_key_management_attributes :: "attr_fn list" where
  "group_key_management_attributes =
     [group_key_management_attribute_group_key_map, group_key_management_attribute_group_table,
        group_key_management_attribute_max_groups_per_fabric,
        group_key_management_attribute_max_group_keys_per_fabric]"

definition group_key_management_commands :: "cmd_fn list" where
  "group_key_management_commands =
     [group_key_management_command_key_set_write, group_key_management_command_key_set_read,
        group_key_management_command_key_set_read_response, group_key_management_command_key_set_remove,
        group_key_management_command_key_set_read_all_indices,
        group_key_management_command_key_set_read_all_indices_response]"

definition group_key_management_cluster :: cluster_decl where
  "group_key_management_cluster =
     \<lparr>cd_ids = group_key_management_ids,
      cd_callbacks = [],
      cd_features = [],
      cd_attributes = group_key_management_attributes,
      cd_commands = group_key_management_commands,
      cd_events = [],
      cd_create = Some group_key_management_create\<rparr>"

section \<open>\<open>groups\<close>\<close>

definition groups_group_names_id :: u32 where
  "groups_group_names_id = 0x1"

definition groups_attribute_name_support :: attr_fn where
  "groups_attribute_name_support =
     bounded 0 1 (attr 0x0000 0 VT_BITMAP8)"

definition groups_callback_add_group :: callback_fn where
  "groups_callback_add_group =
     decodes_in_fabric ''Groups::Commands::AddGroup'' ''emberAfGroupsClusterAddGroupCallback''"

definition groups_callback_view_group :: callback_fn where
  "groups_callback_view_group =
     decodes_in_fabric ''Groups::Commands::ViewGroup'' ''emberAfGroupsClusterViewGroupCallback''"

definition groups_callback_get_group_membership :: callback_fn where
  "groups_callback_get_group_membership =
     decodes_in_fabric ''Groups::Commands::GetGroupMembership'' ''emberAfGroupsClusterGetGroupMembershipCallback''"

definition groups_callback_remove_group :: callback_fn where
  "groups_callback_remove_group =
     decodes_in_fabric ''Groups::Commands::RemoveGroup'' ''emberAfGroupsClusterRemoveGroupCallback''"

definition groups_callback_remove_all_groups :: callback_fn where
  "groups_callback_remove_all_groups =
     decodes_in_fabric ''Groups::Commands::RemoveAllGroups'' ''emberAfGroupsClusterRemoveAllGroupsCallback''"

definition groups_callback_add_group_if_identifying :: callback_fn where
  "groups_callback_add_group_if_identifying =
     decodes_in_fabric ''Groups::Commands::AddGroupIfIdentifying''
          ''emberAfGroupsClusterAddGroupIfIdentifyingCallback''"

definition groups_command_add_group :: cmd_fn where
  "groups_command_add_group =
     cmd 0x00 COMMAND_FLAG_ACCEPTED (Some ''groups.esp_matter_command_callback_add_group'')"

definition groups_command_add_group_response :: cmd_fn where
  "groups_command_add_group_response =
     cmd 0x00 COMMAND_FLAG_GENERATED None"

definition groups_command_view_group :: cmd_fn where
  "groups_command_view_group =
     cmd 0x01 COMMAND_FLAG_ACCEPTED (Some ''groups.esp_matter_command_callback_view_group'')"

definition groups_command_view_group_response :: cmd_fn where
  "groups_command_view_group_response =
     cmd 0x01 COMMAND_FLAG_GENERATED None"

definition groups_command_get_group_membership :: cmd_fn where
  "groups_command_get_group_membership =
     cmd 0x02 COMMAND_FLAG_ACCEPTED (Some ''groups.esp_matter_command_callback_get_group_membership'')"

definition groups_command_get_group_membership_response :: cmd_fn where
  "groups_command_get_group_membership_response =
     cmd 0x02 COMMAND_FLAG_GENERATED None"

definition groups_command_remove_group :: cmd_fn where
  "groups_command_remove_group =
     cmd 0x03 COMMAND_FLAG_ACCEPTED (Some ''groups.esp_matter_command_callback_remove_group'')"

definition groups_command_remove_group_response :: cmd_fn where
  "groups_command_remove_group_response =
     cmd 0x03 COMMAND_FLAG_GENERATED None"

definition groups_command_remove_all_groups :: cmd_fn where
  "groups_command_remove_all_groups =
     cmd 0x04 COMMAND_FLAG_ACCEPTED (Some ''groups.esp_matter_command_callback_remove_all_groups'')"

definition groups_command_add_group_if_identifying :: cmd_fn where
  "groups_command_add_group_if_identifying =
     cmd 0x05 COMMAND_FLAG_ACCEPTED (Some ''groups.esp_matter_command_callback_add_group_if_identifying'')"

definition groups_feature_group_names :: feature_fn where
  "groups_feature_group_names =
     feature groups_group_names_id False [Update_Feature_Map]"

definition groups_function_list :: "string list option" where
  "groups_function_list =
     Some [''emberAfGroupsClusterServerInitCallback'']"

definition groups_create :: cluster_fn where
  "groups_create =
     \<lparr>kf_id = 0x0004,
      kf_revision = 4,
      kf_functions = groups_function_list,
      kf_function_flags = CLUSTER_FLAG_INIT_FUNCTION,
      kf_body = [Plugin ''MatterGroupsPluginServerInitCallback'', Functions, Feature_Map 0, Cluster_Revision,
        Step (Attribute groups_attribute_name_support (Field ''name_support'')),
        Step (Command groups_command_add_group), Step (Command groups_command_add_group_response),
        Step (Command groups_command_view_group), Step (Command groups_command_view_group_response),
        Step (Command groups_command_get_group_membership),
        Step (Command groups_command_get_group_membership_response), Step (Command groups_command_remove_group),
        Step (Command groups_command_remove_group_response), Step (Command groups_command_remove_all_groups),
        Step (Command groups_command_add_group_if_identifying)],
      kf_binding = False\<rparr>"

definition groups_ids :: cluster_ids where
  "groups_ids =
     \<lparr>ci_cluster = 0x0004,
      ci_features = [(''GroupNames'', 0x1)],
      ci_attributes = [(''NameSupport'', 0x0000)],
      ci_commands = [(''AddGroup'', 0x00), (''AddGroupResponse'', 0x00), (''ViewGroup'', 0x01),
        (''ViewGroupResponse'', 0x01), (''GetGroupMembership'', 0x02), (''GetGroupMembershipResponse'', 0x02),
        (''RemoveGroup'', 0x03), (''RemoveGroupResponse'', 0x03), (''RemoveAllGroups'', 0x04),
        (''AddGroupIfIdentifying'', 0x05)],
      ci_events = []\<rparr>"

definition groups_features :: "feature_fn list" where
  "groups_features =
     [groups_feature_group_names]"

definition groups_attributes :: "attr_fn list" where
  "groups_attributes =
     [groups_attribute_name_support]"

definition groups_commands :: "cmd_fn list" where
  "groups_commands =
     [groups_command_add_group, groups_command_add_group_response, groups_command_view_group,
        groups_command_view_group_response, groups_command_get_group_membership,
        groups_command_get_group_membership_response, groups_command_remove_group,
        groups_command_remove_group_response, groups_command_remove_all_groups,
        groups_command_add_group_if_identifying]"

definition groups_callbacks :: "(string \<times> callback_fn) list" where
  "groups_callbacks =
     [(''groups.esp_matter_command_callback_add_group'', groups_callback_add_group),
        (''groups.esp_matter_command_callback_view_group'', groups_callback_view_group),
        (''groups.esp_matter_command_callback_get_group_membership'', groups_callback_get_group_membership),
        (''groups.esp_matter_command_callback_remove_group'', groups_callback_remove_group),
        (''groups.esp_matter_command_callback_remove_all_groups'', groups_callback_remove_all_groups),
        (''groups.esp_matter_command_callback_add_group_if_identifying'',
        groups_callback_add_group_if_identifying)]"

definition groups_cluster :: cluster_decl where
  "groups_cluster =
     \<lparr>cd_ids = groups_ids,
      cd_callbacks = groups_callbacks,
      cd_features = groups_features,
      cd_attributes = groups_attributes,
      cd_commands = groups_commands,
      cd_events = [],
      cd_create = Some groups_create\<rparr>"

section \<open>\<open>hepa_filter_monitoring\<close>\<close>

definition hepa_filter_monitoring_condition_id :: u32 where
  "hepa_filter_monitoring_condition_id = 0x1"

definition hepa_filter_monitoring_warning_id :: u32 where
  "hepa_filter_monitoring_warning_id = 0x2"

definition hepa_filter_monitoring_replacement_product_list_id :: u32 where
  "hepa_filter_monitoring_replacement_product_list_id = 0x4"

definition hepa_filter_monitoring_attribute_condition :: attr_fn where
  "hepa_filter_monitoring_attribute_condition =
     guarded (Has_Feature hepa_filter_monitoring_condition_id) (bounded 0 254 (attr 0x0000 0 VT_UINT8))"

definition hepa_filter_monitoring_attribute_degradation_direction :: attr_fn where
  "hepa_filter_monitoring_attribute_degradation_direction =
     guarded (Has_Feature hepa_filter_monitoring_condition_id) (bounded 0 1 (attr 0x0001 0 VT_ENUM8))"

definition hepa_filter_monitoring_attribute_change_indication :: attr_fn where
  "hepa_filter_monitoring_attribute_change_indication =
     bounded 0 2 (attr 0x0002 0 VT_ENUM8)"

definition hepa_filter_monitoring_attribute_in_place_indicator :: attr_fn where
  "hepa_filter_monitoring_attribute_in_place_indicator =
     attr 0x0003 0 VT_BOOLEAN"

definition hepa_filter_monitoring_attribute_last_changed_time :: attr_fn where
  "hepa_filter_monitoring_attribute_last_changed_time =
     bounded 0 4294967294 (attr 0x0004 (ATTRIBUTE_FLAG_WRITABLE OR ATTRIBUTE_FLAG_NULLABLE OR
          ATTRIBUTE_FLAG_NONVOLATILE) VT_NULLABLE_UINT32)"

definition hepa_filter_monitoring_attribute_replacement_product_list :: attr_fn where
  "hepa_filter_monitoring_attribute_replacement_product_list =
     guarded (Has_Feature hepa_filter_monitoring_replacement_product_list_id) (attr 0x0005
          ATTRIBUTE_FLAG_MANAGED_INTERNALLY VT_ARRAY)"

definition hepa_filter_monitoring_command_reset_condition :: cmd_fn where
  "hepa_filter_monitoring_command_reset_condition =
     cmd 0x00 COMMAND_FLAG_ACCEPTED None"

definition hepa_filter_monitoring_feature_condition :: feature_fn where
  "hepa_filter_monitoring_feature_condition =
     feature hepa_filter_monitoring_condition_id True [Update_Feature_Map,
        Attribute hepa_filter_monitoring_attribute_condition (Field ''condition''),
        Attribute hepa_filter_monitoring_attribute_degradation_direction (Field ''degradation_direction'')]"

definition hepa_filter_monitoring_feature_warning :: feature_fn where
  "hepa_filter_monitoring_feature_warning =
     feature hepa_filter_monitoring_warning_id False [Update_Feature_Map]"

definition hepa_filter_monitoring_feature_replacement_product_list :: feature_fn where
  "hepa_filter_monitoring_feature_replacement_product_list =
     feature hepa_filter_monitoring_replacement_product_list_id False [Update_Feature_Map,
        Attribute hepa_filter_monitoring_attribute_replacement_product_list Null_Arr]"

definition hepa_filter_monitoring_create :: cluster_fn where
  "hepa_filter_monitoring_create =
     \<lparr>kf_id = 0x0071,
      kf_revision = 1,
      kf_functions = None,
      kf_function_flags = 0,
      kf_body = [Plugin ''MatterHepaFilterMonitoringPluginServerInitCallback'', Functions, Feature_Map 0,
        Cluster_Revision,
        Step (Attribute hepa_filter_monitoring_attribute_change_indication (Field ''change_indication'')),
        Callbacks ''ESPMatterHepaFilterMonitoringClusterServerInitCallback''
          ''ESPMatterHepaFilterMonitoringClusterServerShutdownCallback''],
      kf_binding = True\<rparr>"

definition hepa_filter_monitoring_ids :: cluster_ids where
  "hepa_filter_monitoring_ids =
     \<lparr>ci_cluster = 0x0071,
      ci_features = [(''Condition'', 0x1), (''Warning'', 0x2), (''ReplacementProductList'', 0x4)],
      ci_attributes = [(''Condition'', 0x0000), (''DegradationDirection'', 0x0001), (''ChangeIndication'',
        0x0002), (''InPlaceIndicator'', 0x0003), (''LastChangedTime'', 0x0004), (''ReplacementProductList'',
        0x0005)],
      ci_commands = [(''ResetCondition'', 0x00)],
      ci_events = []\<rparr>"

definition hepa_filter_monitoring_features :: "feature_fn list" where
  "hepa_filter_monitoring_features =
     [hepa_filter_monitoring_feature_condition, hepa_filter_monitoring_feature_warning,
        hepa_filter_monitoring_feature_replacement_product_list]"

definition hepa_filter_monitoring_attributes :: "attr_fn list" where
  "hepa_filter_monitoring_attributes =
     [hepa_filter_monitoring_attribute_condition, hepa_filter_monitoring_attribute_degradation_direction,
        hepa_filter_monitoring_attribute_change_indication, hepa_filter_monitoring_attribute_in_place_indicator,
        hepa_filter_monitoring_attribute_last_changed_time,
        hepa_filter_monitoring_attribute_replacement_product_list]"

definition hepa_filter_monitoring_commands :: "cmd_fn list" where
  "hepa_filter_monitoring_commands =
     [hepa_filter_monitoring_command_reset_condition]"

definition hepa_filter_monitoring_cluster :: cluster_decl where
  "hepa_filter_monitoring_cluster =
     \<lparr>cd_ids = hepa_filter_monitoring_ids,
      cd_callbacks = [],
      cd_features = hepa_filter_monitoring_features,
      cd_attributes = hepa_filter_monitoring_attributes,
      cd_commands = hepa_filter_monitoring_commands,
      cd_events = [],
      cd_create = Some hepa_filter_monitoring_create\<rparr>"

section \<open>\<open>icd_management\<close>\<close>

definition icd_management_check_in_protocol_support_id :: u32 where
  "icd_management_check_in_protocol_support_id = 0x1"

definition icd_management_user_active_mode_trigger_id :: u32 where
  "icd_management_user_active_mode_trigger_id = 0x2"

definition icd_management_long_idle_time_support_id :: u32 where
  "icd_management_long_idle_time_support_id = 0x4"

definition icd_management_dynamic_sit_lit_support_id :: u32 where
  "icd_management_dynamic_sit_lit_support_id = 0x8"

definition icd_management_attribute_idle_mode_duration :: attr_fn where
  "icd_management_attribute_idle_mode_duration =
     bounded 1 64800 (attr 0x0000 0 VT_UINT32)"

definition icd_management_attribute_active_mode_duration :: attr_fn where
  "icd_management_attribute_active_mode_duration =
     bounded 0 4294967294 (attr 0x0001 0 VT_UINT32)"

definition icd_management_attribute_active_mode_threshold :: attr_fn where
  "icd_management_attribute_active_mode_threshold =
     bounded 0 65534 (attr 0x0002 0 VT_UINT16)"

definition icd_management_attribute_registered_clients :: attr_fn where
  "icd_management_attribute_registered_clients =
     guarded (Has_Feature icd_management_check_in_protocol_support_id) (attr 0x0003
          (ATTRIBUTE_FLAG_MANAGED_INTERNALLY OR ATTRIBUTE_FLAG_NONVOLATILE) VT_ARRAY)"

definition icd_management_attribute_icd_counter :: attr_fn where
  "icd_management_attribute_icd_counter =
     guarded (Has_Feature icd_management_check_in_protocol_support_id) (bounded 0 4294967294 (attr 0x0004
          ATTRIBUTE_FLAG_NONVOLATILE VT_UINT32))"

definition icd_management_attribute_clients_supported_per_fabric :: attr_fn where
  "icd_management_attribute_clients_supported_per_fabric =
     guarded (Has_Feature icd_management_check_in_protocol_support_id) (bounded 1 65534 (attr 0x0005 0 VT_UINT16))"

definition icd_management_attribute_user_active_mode_trigger_hint :: attr_fn where
  "icd_management_attribute_user_active_mode_trigger_hint =
     guarded (Has_Feature icd_management_user_active_mode_trigger_id) (bounded 0 131071 (attr 0x0006 0 VT_BITMAP32))"

definition icd_management_attribute_user_active_mode_trigger_instruction :: attr_fn where
  "icd_management_attribute_user_active_mode_trigger_instruction =
     at_most 129 (sized 129 (attr 0x0007 0 VT_CHAR_STRING))"

definition icd_management_attribute_operating_mode :: attr_fn where
  "icd_management_attribute_operating_mode =
     guarded (Has_Feature icd_management_long_idle_time_support_id) (bounded 0 1 (attr 0x0008 0 VT_ENUM8))"

definition icd_management_attribute_maximum_check_in_backoff :: attr_fn where
  "icd_management_attribute_maximum_check_in_backoff =
     guarded (Has_Feature icd_management_check_in_protocol_support_id) (bounded 0 64800 (attr 0x0009 0 VT_UINT32))"

definition icd_management_command_register_client :: cmd_fn where
  "icd_management_command_register_client =
     guarded_cmd (Has_Feature icd_management_check_in_protocol_support_id) (cmd 0x00 COMMAND_FLAG_ACCEPTED None)"

definition icd_management_command_register_client_response :: cmd_fn where
  "icd_management_command_register_client_response =
     guarded_cmd (Has_Feature icd_management_check_in_protocol_support_id) (cmd 0x01 COMMAND_FLAG_GENERATED None)"

definition icd_management_command_unregister_client :: cmd_fn where
  "icd_management_command_unregister_client =
     guarded_cmd (Has_Feature icd_management_check_in_protocol_support_id) (cmd 0x02 COMMAND_FLAG_ACCEPTED None)"

definition icd_management_command_stay_active_request :: cmd_fn where
  "icd_management_command_stay_active_request =
     cmd 0x03 COMMAND_FLAG_ACCEPTED None"

definition icd_management_command_stay_active_response :: cmd_fn where
  "icd_management_command_stay_active_response =
     cmd 0x04 COMMAND_FLAG_GENERATED None"

definition icd_management_feature_check_in_protocol_support :: feature_fn where
  "icd_management_feature_check_in_protocol_support =
     feature icd_management_check_in_protocol_support_id True [Update_Feature_Map,
        Attribute icd_management_attribute_icd_counter (Field ''icd_counter''),
        Attribute icd_management_attribute_clients_supported_per_fabric (Field
          ''clients_supported_per_fabric''),
        Attribute icd_management_attribute_maximum_check_in_backoff (Field ''maximum_check_in_backoff''),
        Attribute icd_management_attribute_registered_clients Null_Arr,
        Command icd_management_command_register_client, Command icd_management_command_register_client_response,
        Command icd_management_command_unregister_client]"

definition icd_management_feature_user_active_mode_trigger :: feature_fn where
  "icd_management_feature_user_active_mode_trigger =
     feature icd_management_user_active_mode_trigger_id True [Update_Feature_Map,
        Attribute icd_management_attribute_user_active_mode_trigger_hint (Field
          ''user_active_mode_trigger_hint'')]"

definition icd_management_feature_long_idle_time_support :: feature_fn where
  "icd_management_feature_long_idle_time_support =
     feature icd_management_long_idle_time_support_id True [Update_Feature_Map,
        Attribute icd_management_attribute_operating_mode (Field ''operating_mode''),
        Command icd_management_command_stay_active_request, Command icd_management_command_stay_active_response]"

definition icd_management_feature_dynamic_sit_lit_support :: feature_fn where
  "icd_management_feature_dynamic_sit_lit_support =
     feature icd_management_dynamic_sit_lit_support_id False [Require (Has_Feature
          icd_management_long_idle_time_support_id), Update_Feature_Map]"

definition icd_management_create :: cluster_fn where
  "icd_management_create =
     \<lparr>kf_id = 0x0046,
      kf_revision = 3,
      kf_functions = None,
      kf_function_flags = 0,
      kf_body = [If_Built_All ''CHIP_CONFIG_ENABLE_ICD_SERVER'' [Functions, Feature_Map 0, Cluster_Revision,
        Step (Attribute icd_management_attribute_idle_mode_duration (Field ''idle_mode_duration'')),
        Step (Attribute icd_management_attribute_active_mode_duration (Field ''active_mode_duration'')),
        Step (Attribute icd_management_attribute_active_mode_threshold (Field ''active_mode_threshold'')),
        Callbacks ''ESPMatterIcdManagementClusterServerInitCallback''
          ''ESPMatterIcdManagementClusterServerShutdownCallback'']],
      kf_binding = False\<rparr>"

definition icd_management_ids :: cluster_ids where
  "icd_management_ids =
     \<lparr>ci_cluster = 0x0046,
      ci_features = [(''CheckInProtocolSupport'', 0x1), (''UserActiveModeTrigger'', 0x2),
        (''LongIdleTimeSupport'', 0x4), (''DynamicSitLitSupport'', 0x8)],
      ci_attributes = [(''IdleModeDuration'', 0x0000), (''ActiveModeDuration'', 0x0001),
        (''ActiveModeThreshold'', 0x0002), (''RegisteredClients'', 0x0003), (''ICDCounter'', 0x0004),
        (''ClientsSupportedPerFabric'', 0x0005), (''UserActiveModeTriggerHint'', 0x0006),
        (''UserActiveModeTriggerInstruction'', 0x0007), (''OperatingMode'', 0x0008), (''MaximumCheckInBackoff'',
        0x0009)],
      ci_commands = [(''RegisterClient'', 0x00), (''RegisterClientResponse'', 0x01), (''UnregisterClient'',
        0x02), (''StayActiveRequest'', 0x03), (''StayActiveResponse'', 0x04)],
      ci_events = []\<rparr>"

definition icd_management_features :: "feature_fn list" where
  "icd_management_features =
     [icd_management_feature_check_in_protocol_support, icd_management_feature_user_active_mode_trigger,
        icd_management_feature_long_idle_time_support, icd_management_feature_dynamic_sit_lit_support]"

definition icd_management_attributes :: "attr_fn list" where
  "icd_management_attributes =
     [icd_management_attribute_idle_mode_duration, icd_management_attribute_active_mode_duration,
        icd_management_attribute_active_mode_threshold, icd_management_attribute_registered_clients,
        icd_management_attribute_icd_counter, icd_management_attribute_clients_supported_per_fabric,
        icd_management_attribute_user_active_mode_trigger_hint,
        icd_management_attribute_user_active_mode_trigger_instruction, icd_management_attribute_operating_mode,
        icd_management_attribute_maximum_check_in_backoff]"

definition icd_management_commands :: "cmd_fn list" where
  "icd_management_commands =
     [icd_management_command_register_client, icd_management_command_register_client_response,
        icd_management_command_unregister_client, icd_management_command_stay_active_request,
        icd_management_command_stay_active_response]"

definition icd_management_cluster :: cluster_decl where
  "icd_management_cluster =
     \<lparr>cd_ids = icd_management_ids,
      cd_callbacks = [],
      cd_features = icd_management_features,
      cd_attributes = icd_management_attributes,
      cd_commands = icd_management_commands,
      cd_events = [],
      cd_create = Some icd_management_create\<rparr>"

section \<open>\<open>identify\<close>\<close>

definition identify_attribute_identify_time :: attr_fn where
  "identify_attribute_identify_time =
     bounded 0 65534 (attr 0x0000 ATTRIBUTE_FLAG_WRITABLE VT_UINT16)"

definition identify_attribute_identify_type :: attr_fn where
  "identify_attribute_identify_type =
     bounded 0 5 (attr 0x0001 0 VT_ENUM8)"

definition identify_command_identify :: cmd_fn where
  "identify_command_identify =
     cmd 0x00 COMMAND_FLAG_ACCEPTED None"

definition identify_command_trigger_effect :: cmd_fn where
  "identify_command_trigger_effect =
     cmd 0x40 COMMAND_FLAG_ACCEPTED None"

definition identify_create :: cluster_fn where
  "identify_create =
     \<lparr>kf_id = 0x0003,
      kf_revision = 6,
      kf_functions = None,
      kf_function_flags = 0,
      kf_body = [Plugin ''MatterIdentifyPluginServerInitCallback'', Functions, Feature_Map 0, Cluster_Revision,
        Step (Attribute identify_attribute_identify_time (Field ''identify_time'')),
        Step (Attribute identify_attribute_identify_type (Field ''identify_type'')),
        Step (Command identify_command_identify),
        Callbacks ''ESPMatterIdentifyClusterServerInitCallback''
          ''ESPMatterIdentifyClusterServerShutdownCallback''],
      kf_binding = False\<rparr>"

definition identify_ids :: cluster_ids where
  "identify_ids =
     \<lparr>ci_cluster = 0x0003,
      ci_features = [],
      ci_attributes = [(''IdentifyTime'', 0x0000), (''IdentifyType'', 0x0001)],
      ci_commands = [(''Identify'', 0x00), (''TriggerEffect'', 0x40)],
      ci_events = []\<rparr>"

definition identify_attributes :: "attr_fn list" where
  "identify_attributes =
     [identify_attribute_identify_time, identify_attribute_identify_type]"

definition identify_commands :: "cmd_fn list" where
  "identify_commands =
     [identify_command_identify, identify_command_trigger_effect]"

definition identify_cluster :: cluster_decl where
  "identify_cluster =
     \<lparr>cd_ids = identify_ids,
      cd_callbacks = [],
      cd_features = [],
      cd_attributes = identify_attributes,
      cd_commands = identify_commands,
      cd_events = [],
      cd_create = Some identify_create\<rparr>"

section \<open>\<open>illuminance_measurement\<close>\<close>

definition illuminance_measurement_attribute_measured_value :: attr_fn where
  "illuminance_measurement_attribute_measured_value =
     bounded 0 65534 (attr 0x0000 ATTRIBUTE_FLAG_NULLABLE VT_NULLABLE_UINT16)"

definition illuminance_measurement_attribute_min_measured_value :: attr_fn where
  "illuminance_measurement_attribute_min_measured_value =
     bounded 1 65533 (attr 0x0001 ATTRIBUTE_FLAG_NULLABLE VT_NULLABLE_UINT16)"

definition illuminance_measurement_attribute_max_measured_value :: attr_fn where
  "illuminance_measurement_attribute_max_measured_value =
     bounded 0 65534 (attr 0x0002 ATTRIBUTE_FLAG_NULLABLE VT_NULLABLE_UINT16)"

definition illuminance_measurement_attribute_tolerance :: attr_fn where
  "illuminance_measurement_attribute_tolerance =
     bounded 0 2048 (attr 0x0003 0 VT_UINT16)"

definition illuminance_measurement_attribute_light_sensor_type :: attr_fn where
  "illuminance_measurement_attribute_light_sensor_type =
     bounded 0 1 (attr 0x0004 ATTRIBUTE_FLAG_NULLABLE VT_NULLABLE_ENUM8)"

definition illuminance_measurement_create :: cluster_fn where
  "illuminance_measurement_create =
     \<lparr>kf_id = 0x0400,
      kf_revision = 3,
      kf_functions = None,
      kf_function_flags = 0,
      kf_body = [Plugin ''MatterIlluminanceMeasurementPluginServerInitCallback'', Functions, Feature_Map 0,
        Cluster_Revision,
        Step (Attribute illuminance_measurement_attribute_measured_value (Field ''measured_value'')),
        Step (Attribute illuminance_measurement_attribute_min_measured_value (Field ''min_measured_value'')),
        Step (Attribute illuminance_measurement_attribute_max_measured_value (Field ''max_measured_value''))],
      kf_binding = True\<rparr>"

definition illuminance_measurement_ids :: cluster_ids where
  "illuminance_measurement_ids =
     \<lparr>ci_cluster = 0x0400,
      ci_features = [],
      ci_attributes = [(''MeasuredValue'', 0x0000), (''MinMeasuredValue'', 0x0001), (''MaxMeasuredValue'',
        0x0002), (''Tolerance'', 0x0003), (''LightSensorType'', 0x0004)],
      ci_commands = [],
      ci_events = []\<rparr>"

definition illuminance_measurement_attributes :: "attr_fn list" where
  "illuminance_measurement_attributes =
     [illuminance_measurement_attribute_measured_value, illuminance_measurement_attribute_min_measured_value,
        illuminance_measurement_attribute_max_measured_value, illuminance_measurement_attribute_tolerance,
        illuminance_measurement_attribute_light_sensor_type]"

definition illuminance_measurement_cluster :: cluster_decl where
  "illuminance_measurement_cluster =
     \<lparr>cd_ids = illuminance_measurement_ids,
      cd_callbacks = [],
      cd_features = [],
      cd_attributes = illuminance_measurement_attributes,
      cd_commands = [],
      cd_events = [],
      cd_create = Some illuminance_measurement_create\<rparr>"

section \<open>\<open>joint_fabric_administrator\<close>\<close>

definition joint_fabric_administrator_create :: cluster_fn where
  "joint_fabric_administrator_create =
     \<lparr>kf_id = 0x0753,
      kf_revision = 1,
      kf_functions = None,
      kf_function_flags = 0,
      kf_body = [Plugin ''MatterJointFabricAdministratorPluginServerInitCallback'', Functions, Feature_Map 0,
        Cluster_Revision],
      kf_binding = False\<rparr>"

definition joint_fabric_administrator_ids :: cluster_ids where
  "joint_fabric_administrator_ids =
     \<lparr>ci_cluster = 0x0753,
      ci_features = [],
      ci_attributes = [],
      ci_commands = [],
      ci_events = []\<rparr>"

definition joint_fabric_administrator_cluster :: cluster_decl where
  "joint_fabric_administrator_cluster =
     \<lparr>cd_ids = joint_fabric_administrator_ids,
      cd_callbacks = [],
      cd_features = [],
      cd_attributes = [],
      cd_commands = [],
      cd_events = [],
      cd_create = Some joint_fabric_administrator_create\<rparr>"

section \<open>\<open>joint_fabric_datastore\<close>\<close>

definition joint_fabric_datastore_create :: cluster_fn where
  "joint_fabric_datastore_create =
     \<lparr>kf_id = 0x0752,
      kf_revision = 1,
      kf_functions = None,
      kf_function_flags = 0,
      kf_body = [Plugin ''MatterJointFabricDatastorePluginServerInitCallback'', Functions, Feature_Map 0,
        Cluster_Revision],
      kf_binding = False\<rparr>"

definition joint_fabric_datastore_ids :: cluster_ids where
  "joint_fabric_datastore_ids =
     \<lparr>ci_cluster = 0x0752,
      ci_features = [],
      ci_attributes = [],
      ci_commands = [],
      ci_events = []\<rparr>"

definition joint_fabric_datastore_cluster :: cluster_decl where
  "joint_fabric_datastore_cluster =
     \<lparr>cd_ids = joint_fabric_datastore_ids,
      cd_callbacks = [],
      cd_features = [],
      cd_attributes = [],
      cd_commands = [],
      cd_events = [],
      cd_create = Some joint_fabric_datastore_create\<rparr>"

section \<open>\<open>keypad_input\<close>\<close>

definition keypad_input_navigation_key_codes_id :: u32 where
  "keypad_input_navigation_key_codes_id = 0x1"

definition keypad_input_location_keys_id :: u32 where
  "keypad_input_location_keys_id = 0x2"

definition keypad_input_number_keys_id :: u32 where
  "keypad_input_number_keys_id = 0x4"

definition keypad_input_callback_send_key :: callback_fn where
  "keypad_input_callback_send_key =
     decodes_to ''KeypadInput::Commands::SendKey'' ''emberAfKeypadInputClusterSendKeyCallback''"

definition keypad_input_command_send_key :: cmd_fn where
  "keypad_input_command_send_key =
     cmd 0x00 COMMAND_FLAG_ACCEPTED (Some ''keypad_input.esp_matter_command_callback_send_key'')"

definition keypad_input_command_send_key_response :: cmd_fn where
  "keypad_input_command_send_key_response =
     cmd 0x01 COMMAND_FLAG_GENERATED None"

definition keypad_input_feature_navigation_key_codes :: feature_fn where
  "keypad_input_feature_navigation_key_codes =
     feature keypad_input_navigation_key_codes_id False [Update_Feature_Map]"

definition keypad_input_feature_location_keys :: feature_fn where
  "keypad_input_feature_location_keys =
     feature keypad_input_location_keys_id False [Update_Feature_Map]"

definition keypad_input_feature_number_keys :: feature_fn where
  "keypad_input_feature_number_keys =
     feature keypad_input_number_keys_id False [Update_Feature_Map]"

definition keypad_input_create :: cluster_fn where
  "keypad_input_create =
     \<lparr>kf_id = 0x0509,
      kf_revision = 1,
      kf_functions = None,
      kf_function_flags = 0,
      kf_body = [Delegate ''KeypadInputDelegateInitCB'', Plugin ''MatterKeypadInputPluginServerInitCallback'',
        Functions, Feature_Map 0, Cluster_Revision, Step (Command keypad_input_command_send_key),
        Step (Command keypad_input_command_send_key_response)],
      kf_binding = True\<rparr>"

definition keypad_input_ids :: cluster_ids where
  "keypad_input_ids =
     \<lparr>ci_cluster = 0x0509,
      ci_features = [(''NavigationKeyCodes'', 0x1), (''LocationKeys'', 0x2), (''NumberKeys'', 0x4)],
      ci_attributes = [],
      ci_commands = [(''SendKey'', 0x00), (''SendKeyResponse'', 0x01)],
      ci_events = []\<rparr>"

definition keypad_input_features :: "feature_fn list" where
  "keypad_input_features =
     [keypad_input_feature_navigation_key_codes, keypad_input_feature_location_keys,
        keypad_input_feature_number_keys]"

definition keypad_input_commands :: "cmd_fn list" where
  "keypad_input_commands =
     [keypad_input_command_send_key, keypad_input_command_send_key_response]"

definition keypad_input_callbacks :: "(string \<times> callback_fn) list" where
  "keypad_input_callbacks =
     [(''keypad_input.esp_matter_command_callback_send_key'', keypad_input_callback_send_key)]"

definition keypad_input_cluster :: cluster_decl where
  "keypad_input_cluster =
     \<lparr>cd_ids = keypad_input_ids,
      cd_callbacks = keypad_input_callbacks,
      cd_features = keypad_input_features,
      cd_attributes = [],
      cd_commands = keypad_input_commands,
      cd_events = [],
      cd_create = Some keypad_input_create\<rparr>"

section \<open>\<open>label\<close>\<close>

definition label_attribute_label_list :: attr_fn where
  "label_attribute_label_list =
     attr 0x0000 0 VT_ARRAY"

definition label_ids :: cluster_ids where
  "label_ids =
     \<lparr>ci_cluster = 0xFFFF,
      ci_features = [],
      ci_attributes = [(''LabelList'', 0x0000)],
      ci_commands = [],
      ci_events = []\<rparr>"

definition label_attributes :: "attr_fn list" where
  "label_attributes =
     [label_attribute_label_list]"

definition label_cluster :: cluster_decl where
  "label_cluster =
     \<lparr>cd_ids = label_ids,
      cd_callbacks = [],
      cd_features = [],
      cd_attributes = label_attributes,
      cd_commands = [],
      cd_events = [],
      cd_create = None\<rparr>"

section \<open>\<open>laundry_dryer_controls\<close>\<close>

definition laundry_dryer_controls_attribute_supported_dryness_levels :: attr_fn where
  "laundry_dryer_controls_attribute_supported_dryness_levels =
     attr 0x0000 ATTRIBUTE_FLAG_MANAGED_INTERNALLY VT_ARRAY"

definition laundry_dryer_controls_attribute_selected_dryness_level :: attr_fn where
  "laundry_dryer_controls_attribute_selected_dryness_level =
     bounded 0 3 (attr 0x0001 (ATTRIBUTE_FLAG_WRITABLE OR ATTRIBUTE_FLAG_NULLABLE) VT_NULLABLE_ENUM8)"

definition laundry_dryer_controls_function_list :: "string list option" where
  "laundry_dryer_controls_function_list =
     Some [''MatterLaundryDryerControlsClusterServerPreAttributeChangedCallback'']"

definition laundry_dryer_controls_create :: cluster_fn where
  "laundry_dryer_controls_create =
     \<lparr>kf_id = 0x004A,
      kf_revision = 1,
      kf_functions = laundry_dryer_controls_function_list,
      kf_function_flags = CLUSTER_FLAG_PRE_ATTRIBUTE_CHANGED_FUNCTION,
      kf_body = [Delegate ''LaundryDryerControlsDelegateInitCB'',
        Plugin ''MatterLaundryDryerControlsPluginServerInitCallback'', Functions, Feature_Map 0,
        Cluster_Revision,
        Step (Attribute laundry_dryer_controls_attribute_selected_dryness_level (Field
          ''selected_dryness_level'')),
        Step (Attribute laundry_dryer_controls_attribute_supported_dryness_levels Null_Arr)],
      kf_binding = True\<rparr>"

definition laundry_dryer_controls_ids :: cluster_ids where
  "laundry_dryer_controls_ids =
     \<lparr>ci_cluster = 0x004A,
      ci_features = [],
      ci_attributes = [(''SupportedDrynessLevels'', 0x0000), (''SelectedDrynessLevel'', 0x0001)],
      ci_commands = [],
      ci_events = []\<rparr>"

definition laundry_dryer_controls_attributes :: "attr_fn list" where
  "laundry_dryer_controls_attributes =
     [laundry_dryer_controls_attribute_supported_dryness_levels,
        laundry_dryer_controls_attribute_selected_dryness_level]"

definition laundry_dryer_controls_cluster :: cluster_decl where
  "laundry_dryer_controls_cluster =
     \<lparr>cd_ids = laundry_dryer_controls_ids,
      cd_callbacks = [],
      cd_features = [],
      cd_attributes = laundry_dryer_controls_attributes,
      cd_commands = [],
      cd_events = [],
      cd_create = Some laundry_dryer_controls_create\<rparr>"

section \<open>\<open>laundry_washer_controls\<close>\<close>

definition laundry_washer_controls_spin_id :: u32 where
  "laundry_washer_controls_spin_id = 0x1"

definition laundry_washer_controls_rinse_id :: u32 where
  "laundry_washer_controls_rinse_id = 0x2"

definition laundry_washer_controls_attribute_spin_speeds :: attr_fn where
  "laundry_washer_controls_attribute_spin_speeds =
     guarded (Has_Feature laundry_washer_controls_spin_id) (attr 0x0000 ATTRIBUTE_FLAG_MANAGED_INTERNALLY VT_ARRAY)"

definition laundry_washer_controls_attribute_spin_speed_current :: attr_fn where
  "laundry_washer_controls_attribute_spin_speed_current =
     guarded (Has_Feature laundry_washer_controls_spin_id) (bounded 0 15 (attr 0x0001 (ATTRIBUTE_FLAG_WRITABLE OR
          ATTRIBUTE_FLAG_NULLABLE) VT_NULLABLE_UINT8))"

definition laundry_washer_controls_attribute_number_of_rinses :: attr_fn where
  "laundry_washer_controls_attribute_number_of_rinses =
     guarded (Has_Feature laundry_washer_controls_rinse_id) (bounded 0 3 (attr 0x0002 ATTRIBUTE_FLAG_WRITABLE
          VT_ENUM8))"

definition laundry_washer_controls_attribute_supported_rinses :: attr_fn where
  "laundry_washer_controls_attribute_supported_rinses =
     guarded (Has_Feature laundry_washer_controls_rinse_id) (attr 0x0003 ATTRIBUTE_FLAG_MANAGED_INTERNALLY VT_ARRAY)"

definition laundry_washer_controls_feature_spin :: feature_fn where
  "laundry_washer_controls_feature_spin =
     feature laundry_washer_controls_spin_id True [Update_Feature_Map,
        Attribute laundry_washer_controls_attribute_spin_speed_current (Field ''spin_speed_current''),
        Attribute laundry_washer_controls_attribute_spin_speeds Null_Arr]"

definition laundry_washer_controls_feature_rinse :: feature_fn where
  "laundry_washer_controls_feature_rinse =
     feature laundry_washer_controls_rinse_id True [Update_Feature_Map,
        Attribute laundry_washer_controls_attribute_number_of_rinses (Field ''number_of_rinses''),
        Attribute laundry_washer_controls_attribute_supported_rinses Null_Arr]"

definition laundry_washer_controls_function_list :: "string list option" where
  "laundry_washer_controls_function_list =
     Some [''MatterLaundryWasherControlsClusterServerPreAttributeChangedCallback'']"

definition laundry_washer_controls_create :: cluster_fn where
  "laundry_washer_controls_create =
     \<lparr>kf_id = 0x0053,
      kf_revision = 2,
      kf_functions = laundry_washer_controls_function_list,
      kf_function_flags = CLUSTER_FLAG_PRE_ATTRIBUTE_CHANGED_FUNCTION,
      kf_body = [Delegate ''LaundryWasherControlsDelegateInitCB'',
        Plugin ''MatterLaundryWasherControlsPluginServerInitCallback'', Functions, Config_Feature_Map,
        Cluster_Revision, Validate k_at_least_one [laundry_washer_controls_spin_id,
        laundry_washer_controls_rinse_id],
        If_Feature laundry_washer_controls_spin_id [Add_Feature laundry_washer_controls_feature_spin ''spin'']
          [],
        If_Feature laundry_washer_controls_rinse_id [Add_Feature laundry_washer_controls_feature_rinse
          ''rinse''] []],
      kf_binding = True\<rparr>"

definition laundry_washer_controls_ids :: cluster_ids where
  "laundry_washer_controls_ids =
     \<lparr>ci_cluster = 0x0053,
      ci_features = [(''Spin'', 0x1), (''Rinse'', 0x2)],
      ci_attributes = [(''SpinSpeeds'', 0x0000), (''SpinSpeedCurrent'', 0x0001), (''NumberOfRinses'', 0x0002),
        (''SupportedRinses'', 0x0003)],
      ci_commands = [],
      ci_events = []\<rparr>"

definition laundry_washer_controls_features :: "feature_fn list" where
  "laundry_washer_controls_features =
     [laundry_washer_controls_feature_spin, laundry_washer_controls_feature_rinse]"

definition laundry_washer_controls_attributes :: "attr_fn list" where
  "laundry_washer_controls_attributes =
     [laundry_washer_controls_attribute_spin_speeds, laundry_washer_controls_attribute_spin_speed_current,
        laundry_washer_controls_attribute_number_of_rinses, laundry_washer_controls_attribute_supported_rinses]"

definition laundry_washer_controls_cluster :: cluster_decl where
  "laundry_washer_controls_cluster =
     \<lparr>cd_ids = laundry_washer_controls_ids,
      cd_callbacks = [],
      cd_features = laundry_washer_controls_features,
      cd_attributes = laundry_washer_controls_attributes,
      cd_commands = [],
      cd_events = [],
      cd_create = Some laundry_washer_controls_create\<rparr>"

section \<open>\<open>laundry_washer_mode\<close>\<close>

definition laundry_washer_mode_attribute_supported_modes :: attr_fn where
  "laundry_washer_mode_attribute_supported_modes =
     attr 0x0000 0 VT_ARRAY"

definition laundry_washer_mode_attribute_current_mode :: attr_fn where
  "laundry_washer_mode_attribute_current_mode =
     bounded 0 254 (attr 0x0001 0 VT_UINT8)"

definition laundry_washer_mode_command_change_to_mode :: cmd_fn where
  "laundry_washer_mode_command_change_to_mode =
     cmd 0x00 COMMAND_FLAG_ACCEPTED None"

definition laundry_washer_mode_command_change_to_mode_response :: cmd_fn where
  "laundry_washer_mode_command_change_to_mode_response =
     cmd 0x01 COMMAND_FLAG_GENERATED None"

definition laundry_washer_mode_create :: cluster_fn where
  "laundry_washer_mode_create =
     \<lparr>kf_id = 0x0051,
      kf_revision = 3,
      kf_functions = None,
      kf_function_flags = 0,
      kf_body = [Delegate ''LaundryWasherModeDelegateInitCB'',
        Plugin ''MatterLaundryWasherModePluginServerInitCallback'', Functions, Feature_Map 0, Cluster_Revision,
        Step (Attribute laundry_washer_mode_attribute_current_mode (Field ''current_mode'')),
        Step (Attribute laundry_washer_mode_attribute_supported_modes Null_Arr),
        Step (Command laundry_washer_mode_command_change_to_mode),
        Step (Command laundry_washer_mode_command_change_to_mode_response)],
      kf_binding = False\<rparr>"

definition laundry_washer_mode_ids :: cluster_ids where
  "laundry_washer_mode_ids =
     \<lparr>ci_cluster = 0x0051,
      ci_features = [],
      ci_attributes = [(''SupportedModes'', 0x0000), (''CurrentMode'', 0x0001)],
      ci_commands = [(''ChangeToMode'', 0x00), (''ChangeToModeResponse'', 0x01)],
      ci_events = []\<rparr>"

definition laundry_washer_mode_attributes :: "attr_fn list" where
  "laundry_washer_mode_attributes =
     [laundry_washer_mode_attribute_supported_modes, laundry_washer_mode_attribute_current_mode]"

definition laundry_washer_mode_commands :: "cmd_fn list" where
  "laundry_washer_mode_commands =
     [laundry_washer_mode_command_change_to_mode, laundry_washer_mode_command_change_to_mode_response]"

definition laundry_washer_mode_cluster :: cluster_decl where
  "laundry_washer_mode_cluster =
     \<lparr>cd_ids = laundry_washer_mode_ids,
      cd_callbacks = [],
      cd_features = [],
      cd_attributes = laundry_washer_mode_attributes,
      cd_commands = laundry_washer_mode_commands,
      cd_events = [],
      cd_create = Some laundry_washer_mode_create\<rparr>"

section \<open>\<open>level_control\<close>\<close>

definition level_control_on_off_id :: u32 where
  "level_control_on_off_id = 0x1"

definition level_control_lighting_id :: u32 where
  "level_control_lighting_id = 0x2"

definition level_control_attribute_current_level :: attr_fn where
  "level_control_attribute_current_level =
     bounded 0 254 (attr 0x0000 (ATTRIBUTE_FLAG_NULLABLE OR ATTRIBUTE_FLAG_NONVOLATILE) VT_NULLABLE_UINT8)"

definition level_control_attribute_remaining_time :: attr_fn where
  "level_control_attribute_remaining_time =
     guarded (Has_Feature level_control_lighting_id) (bounded 0 65534 (attr 0x0001 0 VT_UINT16))"

definition level_control_attribute_min_level :: attr_fn where
  "level_control_attribute_min_level =
     bounded 1 254 (attr 0x0002 0 VT_UINT8)"

definition level_control_attribute_max_level :: attr_fn where
  "level_control_attribute_max_level =
     bounded 0 254 (attr 0x0003 0 VT_UINT8)"

definition level_control_attribute_options :: attr_fn where
  "level_control_attribute_options =
     bounded 0 3 (attr 0x000F ATTRIBUTE_FLAG_WRITABLE VT_BITMAP8)"

definition level_control_attribute_on_off_transition_time :: attr_fn where
  "level_control_attribute_on_off_transition_time =
     bounded 0 65534 (attr 0x0010 ATTRIBUTE_FLAG_WRITABLE VT_UINT16)"

definition level_control_attribute_on_level :: attr_fn where
  "level_control_attribute_on_level =
     bounded 0 254 (attr 0x0011 (ATTRIBUTE_FLAG_WRITABLE OR ATTRIBUTE_FLAG_NULLABLE) VT_NULLABLE_UINT8)"

definition level_control_attribute_on_transition_time :: attr_fn where
  "level_control_attribute_on_transition_time =
     bounded 0 65534 (attr 0x0012 (ATTRIBUTE_FLAG_WRITABLE OR ATTRIBUTE_FLAG_NULLABLE) VT_NULLABLE_UINT16)"

definition level_control_attribute_off_transition_time :: attr_fn where
  "level_control_attribute_off_transition_time =
     bounded 0 65534 (attr 0x0013 (ATTRIBUTE_FLAG_WRITABLE OR ATTRIBUTE_FLAG_NULLABLE) VT_NULLABLE_UINT16)"

definition level_control_attribute_default_move_rate :: attr_fn where
  "level_control_attribute_default_move_rate =
     bounded 1 254 (attr 0x0014 (ATTRIBUTE_FLAG_WRITABLE OR ATTRIBUTE_FLAG_NULLABLE) VT_NULLABLE_UINT8)"

definition level_control_attribute_start_up_current_level :: attr_fn where
  "level_control_attribute_start_up_current_level =
     guarded (Has_Feature level_control_lighting_id) (bounded 0 254 (attr 0x4000 (ATTRIBUTE_FLAG_WRITABLE OR
          ATTRIBUTE_FLAG_NULLABLE OR ATTRIBUTE_FLAG_NONVOLATILE) VT_NULLABLE_UINT8))"

definition level_control_callback_move_to_level :: callback_fn where
  "level_control_callback_move_to_level =
     decodes_to ''LevelControl::Commands::MoveToLevel'' ''emberAfLevelControlClusterMoveToLevelCallback''"

definition level_control_callback_move :: callback_fn where
  "level_control_callback_move =
     decodes_to ''LevelControl::Commands::Move'' ''emberAfLevelControlClusterMoveCallback''"

definition level_control_callback_step :: callback_fn where
  "level_control_callback_step =
     decodes_to ''LevelControl::Commands::Step'' ''emberAfLevelControlClusterStepCallback''"

definition level_control_callback_stop :: callback_fn where
  "level_control_callback_stop =
     decodes_to ''LevelControl::Commands::Stop'' ''emberAfLevelControlClusterStopCallback''"

definition level_control_callback_move_to_level_with_on_off :: callback_fn where
  "level_control_callback_move_to_level_with_on_off =
     decodes_to ''LevelControl::Commands::MoveToLevelWithOnOff''
          ''emberAfLevelControlClusterMoveToLevelWithOnOffCallback''"

definition level_control_callback_move_with_on_off :: callback_fn where
  "level_control_callback_move_with_on_off =
     decodes_to ''LevelControl::Commands::MoveWithOnOff'' ''emberAfLevelControlClusterMoveWithOnOffCallback''"

definition level_control_callback_step_with_on_off :: callback_fn where
  "level_control_callback_step_with_on_off =
     decodes_to ''LevelControl::Commands::StepWithOnOff'' ''emberAfLevelControlClusterStepWithOnOffCallback''"

definition level_control_callback_stop_with_on_off :: callback_fn where
  "level_control_callback_stop_with_on_off =
     decodes_to ''LevelControl::Commands::StopWithOnOff'' ''emberAfLevelControlClusterStopWithOnOffCallback''"

definition level_control_command_move_to_level :: cmd_fn where
  "level_control_command_move_to_level =
     cmd 0x00 COMMAND_FLAG_ACCEPTED (Some ''level_control.esp_matter_command_callback_move_to_level'')"

definition level_control_command_move :: cmd_fn where
  "level_control_command_move =
     cmd 0x01 COMMAND_FLAG_ACCEPTED (Some ''level_control.esp_matter_command_callback_move'')"

definition level_control_command_step :: cmd_fn where
  "level_control_command_step =
     cmd 0x02 COMMAND_FLAG_ACCEPTED (Some ''level_control.esp_matter_command_callback_step'')"

definition level_control_command_stop :: cmd_fn where
  "level_control_command_stop =
     cmd 0x03 COMMAND_FLAG_ACCEPTED (Some ''level_control.esp_matter_command_callback_stop'')"

definition level_control_command_move_to_level_with_on_off :: cmd_fn where
  "level_control_command_move_to_level_with_on_off =
     cmd 0x04 COMMAND_FLAG_ACCEPTED (Some ''level_control.esp_matter_command_callback_move_to_level_with_on_off'')"

definition level_control_command_move_with_on_off :: cmd_fn where
  "level_control_command_move_with_on_off =
     cmd 0x05 COMMAND_FLAG_ACCEPTED (Some ''level_control.esp_matter_command_callback_move_with_on_off'')"

definition level_control_command_step_with_on_off :: cmd_fn where
  "level_control_command_step_with_on_off =
     cmd 0x06 COMMAND_FLAG_ACCEPTED (Some ''level_control.esp_matter_command_callback_step_with_on_off'')"

definition level_control_command_stop_with_on_off :: cmd_fn where
  "level_control_command_stop_with_on_off =
     cmd 0x07 COMMAND_FLAG_ACCEPTED (Some ''level_control.esp_matter_command_callback_stop_with_on_off'')"

definition level_control_feature_on_off :: feature_fn where
  "level_control_feature_on_off =
     feature level_control_on_off_id False [Update_Feature_Map]"

definition level_control_feature_lighting :: feature_fn where
  "level_control_feature_lighting =
     feature level_control_lighting_id True [Update_Feature_Map,
        Attribute level_control_attribute_remaining_time (Field ''remaining_time''),
        Attribute level_control_attribute_start_up_current_level (Field ''start_up_current_level'')]"

definition level_control_function_list :: "string list option" where
  "level_control_function_list =
     Some [''emberAfLevelControlClusterServerInitCallback'', ''MatterLevelControlClusterServerShutdownCallback'']"

definition level_control_create :: cluster_fn where
  "level_control_create =
     \<lparr>kf_id = 0x0008,
      kf_revision = 6,
      kf_functions = level_control_function_list,
      kf_function_flags = CLUSTER_FLAG_INIT_FUNCTION OR CLUSTER_FLAG_SHUTDOWN_FUNCTION,
      kf_body = [Plugin ''MatterLevelControlPluginServerInitCallback'', Functions, Feature_Map 0,
        Cluster_Revision, Step (Attribute level_control_attribute_current_level (Field ''current_level'')),
        Step (Attribute level_control_attribute_options (Field ''options'')),
        Step (Attribute level_control_attribute_on_level (Field ''on_level'')),
        Step (Command level_control_command_move_to_level), Step (Command level_control_command_move),
        Step (Command level_control_command_step), Step (Command level_control_command_stop),
        Step (Command level_control_command_move_to_level_with_on_off),
        Step (Command level_control_command_move_with_on_off),
        Step (Command level_control_command_step_with_on_off),
        Step (Command level_control_command_stop_with_on_off)],
      kf_binding = True\<rparr>"

definition level_control_ids :: cluster_ids where
  "level_control_ids =
     \<lparr>ci_cluster = 0x0008,
      ci_features = [(''OnOff'', 0x1), (''Lighting'', 0x2)],
      ci_attributes = [(''CurrentLevel'', 0x0000), (''RemainingTime'', 0x0001), (''MinLevel'', 0x0002),
        (''MaxLevel'', 0x0003), (''Options'', 0x000F), (''OnOffTransitionTime'', 0x0010), (''OnLevel'', 0x0011),
        (''OnTransitionTime'', 0x0012), (''OffTransitionTime'', 0x0013), (''DefaultMoveRate'', 0x0014),
        (''StartUpCurrentLevel'', 0x4000)],
      ci_commands = [(''MoveToLevel'', 0x00), (''Move'', 0x01), (''Step'', 0x02), (''Stop'', 0x03),
        (''MoveToLevelWithOnOff'', 0x04), (''MoveWithOnOff'', 0x05), (''StepWithOnOff'', 0x06),
        (''StopWithOnOff'', 0x07)],
      ci_events = []\<rparr>"

definition level_control_features :: "feature_fn list" where
  "level_control_features =
     [level_control_feature_on_off, level_control_feature_lighting]"

definition level_control_attributes :: "attr_fn list" where
  "level_control_attributes =
     [level_control_attribute_current_level, level_control_attribute_remaining_time,
        level_control_attribute_min_level, level_control_attribute_max_level, level_control_attribute_options,
        level_control_attribute_on_off_transition_time, level_control_attribute_on_level,
        level_control_attribute_on_transition_time, level_control_attribute_off_transition_time,
        level_control_attribute_default_move_rate, level_control_attribute_start_up_current_level]"

definition level_control_commands :: "cmd_fn list" where
  "level_control_commands =
     [level_control_command_move_to_level, level_control_command_move, level_control_command_step,
        level_control_command_stop, level_control_command_move_to_level_with_on_off,
        level_control_command_move_with_on_off, level_control_command_step_with_on_off,
        level_control_command_stop_with_on_off]"

definition level_control_callbacks :: "(string \<times> callback_fn) list" where
  "level_control_callbacks =
     [(''level_control.esp_matter_command_callback_move_to_level'', level_control_callback_move_to_level),
        (''level_control.esp_matter_command_callback_move'', level_control_callback_move),
        (''level_control.esp_matter_command_callback_step'', level_control_callback_step),
        (''level_control.esp_matter_command_callback_stop'', level_control_callback_stop),
        (''level_control.esp_matter_command_callback_move_to_level_with_on_off'',
        level_control_callback_move_to_level_with_on_off),
        (''level_control.esp_matter_command_callback_move_with_on_off'',
        level_control_callback_move_with_on_off),
        (''level_control.esp_matter_command_callback_step_with_on_off'',
        level_control_callback_step_with_on_off),
        (''level_control.esp_matter_command_callback_stop_with_on_off'',
        level_control_callback_stop_with_on_off)]"

definition level_control_cluster :: cluster_decl where
  "level_control_cluster =
     \<lparr>cd_ids = level_control_ids,
      cd_callbacks = level_control_callbacks,
      cd_features = level_control_features,
      cd_attributes = level_control_attributes,
      cd_commands = level_control_commands,
      cd_events = [],
      cd_create = Some level_control_create\<rparr>"

section \<open>Checks\<close>

definition additive_06 :: "cluster_decl list" where
  "additive_06 =
     [formaldehyde_concentration_measurement_cluster, general_commissioning_cluster, general_diagnostics_cluster,
        group_key_management_cluster, groups_cluster, hepa_filter_monitoring_cluster, icd_management_cluster,
        identify_cluster, illuminance_measurement_cluster, joint_fabric_administrator_cluster,
        joint_fabric_datastore_cluster, keypad_input_cluster, label_cluster, laundry_dryer_controls_cluster,
        laundry_washer_controls_cluster, laundry_washer_mode_cluster, level_control_cluster]"

lemma additive_06_ok: "list_all decl_ok additive_06"
  by code_simp

lemma additive_06_order: "list_all (\<lambda>d. order_ok (cd_features d)) additive_06"
  by code_simp

end
