(* ===== verification/EM_Clusters_07.thy ===== *)
theory EM_Clusters_07
  imports EM_Order
begin

text \<open>
  The generated clusters \<open>localization_configuration\<close> to \<open>occupancy_sensing\<close>:
  one definition for each function and id table of their files, and the checks of the descriptions.
\<close>

section \<open>\<open>localization_configuration\<close>\<close>

definition localization_configuration_attribute_active_locale :: attr_fn where
  "localization_configuration_attribute_active_locale =
     at_most 36 (sized 36 (attr 0x0000 (ATTRIBUTE_FLAG_WRITABLE OR ATTRIBUTE_FLAG_NONVOLATILE) VT_CHAR_STRING))"

definition localization_configuration_attribute_supported_locales :: attr_fn where
  "localization_configuration_attribute_supported_locales =
     attr 0x0001 ATTRIBUTE_FLAG_MANAGED_INTERNALLY VT_ARRAY"

definition localization_configuration_create :: cluster_fn where
  "localization_configuration_create =
     \<lparr>kf_id = 0x002B,
      kf_revision = 1,
      kf_functions = None,
      kf_function_flags = 0,
      kf_body = [Plugin ''MatterLocalizationConfigurationPluginServerInitCallback'', Functions, Feature_Map 0,
        Cluster_Revision,
        Step (Attribute localization_configuration_attribute_active_locale (Field ''active_locale'')),
        Step (Attribute localization_configuration_attribute_supported_locales Null_Arr),
        Callbacks ''ESPMatterLocalizationConfigurationClusterServerInitCallback''
          ''ESPMatterLocalizationConfigurationClusterServerShutdownCallback''],
      kf_binding = False\<rparr>"

definition localization_configuration_ids :: cluster_ids where
  "localization_configuration_ids =
     \<lparr>ci_cluster = 0x002B,
      ci_features = [],
      ci_attributes = [(''ActiveLocale'', 0x0000), (''SupportedLocales'', 0x0001)],
      ci_commands = [],
      ci_events = []\<rparr>"

definition localization_configuration_attributes :: "attr_fn list" where
  "localization_configuration_attributes =
     [localization_configuration_attribute_active_locale, localization_configuration_attribute_supported_locales]"

definition localization_configuration_cluster :: cluster_decl where
  "localization_configuration_cluster =
     \<lparr>cd_ids = localization_configuration_ids,
      cd_callbacks = [],
      cd_features = [],
      cd_attributes = localization_configuration_attributes,
      cd_commands = [],
      cd_events = [],
      cd_create = Some localization_configuration_create\<rparr>"

section \<open>\<open>low_power\<close>\<close>

definition low_power_callback_sleep :: callback_fn where
  "low_power_callback_sleep =
     decodes_to ''LowPower::Commands::Sleep'' ''emberAfLowPowerClusterSleepCallback''"

definition low_power_command_sleep :: cmd_fn where
  "low_power_command_sleep =
     cmd 0x00 COMMAND_FLAG_ACCEPTED (Some ''low_power.esp_matter_command_callback_sleep'')"

definition low_power_create :: cluster_fn where
  "low_power_create =
     \<lparr>kf_id = 0x0508,
      kf_revision = 1,
      kf_functions = None,
      kf_function_flags = 0,
      kf_body = [Delegate ''LowPowerDelegateInitCB'', Plugin ''MatterLowPowerPluginServerInitCallback'',
        Functions, Feature_Map 0, Cluster_Revision, Step (Command low_power_command_sleep)],
      kf_binding = True\<rparr>"

definition low_power_ids :: cluster_ids where
  "low_power_ids =
     \<lparr>ci_cluster = 0x0508,
      ci_features = [],
      ci_attributes = [],
      ci_commands = [(''Sleep'', 0x00)],
      ci_events = []\<rparr>"

definition low_power_commands :: "cmd_fn list" where
  "low_power_commands =
     [low_power_command_sleep]"

definition low_power_callbacks :: "(string \<times> callback_fn) list" where
  "low_power_callbacks =
     [(''low_power.esp_matter_command_callback_sleep'', low_power_callback_sleep)]"

definition low_power_cluster :: cluster_decl where
  "low_power_cluster =
     \<lparr>cd_ids = low_power_ids,
      cd_callbacks = low_power_callbacks,
      cd_features = [],
      cd_attributes = [],
      cd_commands = low_power_commands,
      cd_events = [],
      cd_create = Some low_power_create\<rparr>"

section \<open>\<open>media_input\<close>\<close>

definition media_input_name_updates_id :: u32 where
  "media_input_name_updates_id = 0x1"

definition media_input_attribute_input_list :: attr_fn where
  "media_input_attribute_input_list =
     attr 0x0000 ATTRIBUTE_FLAG_MANAGED_INTERNALLY VT_ARRAY"

definition media_input_attribute_current_input :: attr_fn where
  "media_input_attribute_current_input =
     attr 0x0001 ATTRIBUTE_FLAG_MANAGED_INTERNALLY VT_UINT8"

definition media_input_callback_select_input :: callback_fn where
  "media_input_callback_select_input =
     decodes_to ''MediaInput::Commands::SelectInput'' ''emberAfMediaInputClusterSelectInputCallback''"

definition media_input_callback_show_input_status :: callback_fn where
  "media_input_callback_show_input_status =
     decodes_to ''MediaInput::Commands::ShowInputStatus'' ''emberAfMediaInputClusterShowInputStatusCallback''"

definition media_input_callback_hide_input_status :: callback_fn where
  "media_input_callback_hide_input_status =
     decodes_to ''MediaInput::Commands::HideInputStatus'' ''emberAfMediaInputClusterHideInputStatusCallback''"

definition media_input_callback_rename_input :: callback_fn where
  "media_input_callback_rename_input =
     decodes_to ''MediaInput::Commands::RenameInput'' ''emberAfMediaInputClusterRenameInputCallback''"

definition media_input_command_select_input :: cmd_fn where
  "media_input_command_select_input =
     cmd 0x00 COMMAND_FLAG_ACCEPTED (Some ''media_input.esp_matter_command_callback_select_input'')"

definition media_input_command_show_input_status :: cmd_fn where
  "media_input_command_show_input_status =
     cmd 0x01 COMMAND_FLAG_ACCEPTED (Some ''media_input.esp_matter_command_callback_show_input_status'')"

definition media_input_command_hide_input_status :: cmd_fn where
  "media_input_command_hide_input_status =
     cmd 0x02 COMMAND_FLAG_ACCEPTED (Some ''media_input.esp_matter_command_callback_hide_input_status'')"

definition media_input_command_rename_input :: cmd_fn where
  "media_input_command_rename_input =
     guarded_cmd (Has_Feature media_input_name_updates_id) (cmd 0x03 COMMAND_FLAG_ACCEPTED (Some
          ''media_input.esp_matter_command_callback_rename_input''))"

definition media_input_feature_name_updates :: feature_fn where
  "media_input_feature_name_updates =
     feature media_input_name_updates_id False [Update_Feature_Map, Command media_input_command_rename_input]"

definition media_input_create :: cluster_fn where
  "media_input_create =
     \<lparr>kf_id = 0x0507,
      kf_revision = 1,
      kf_functions = None,
      kf_function_flags = 0,
      kf_body = [Delegate ''MediaInputDelegateInitCB'', Plugin ''MatterMediaInputPluginServerInitCallback'',
        Functions, Feature_Map 0, Cluster_Revision, Step (Attribute media_input_attribute_input_list Null_Arr),
        Step (Attribute media_input_attribute_current_input (Lit 0)),
        Step (Command media_input_command_select_input), Step (Command media_input_command_show_input_status),
        Step (Command media_input_command_hide_input_status)],
      kf_binding = True\<rparr>"

definition media_input_ids :: cluster_ids where
  "media_input_ids =
     \<lparr>ci_cluster = 0x0507,
      ci_features = [(''NameUpdates'', 0x1)],
      ci_attributes = [(''InputList'', 0x0000), (''CurrentInput'', 0x0001)],
      ci_commands = [(''SelectInput'', 0x00), (''ShowInputStatus'', 0x01), (''HideInputStatus'', 0x02),
        (''RenameInput'', 0x03)],
      ci_events = []\<rparr>"

definition media_input_features :: "feature_fn list" where
  "media_input_features =
     [media_input_feature_name_updates]"

definition media_input_attributes :: "attr_fn list" where
  "media_input_attributes =
     [media_input_attribute_input_list, media_input_attribute_current_input]"

definition media_input_commands :: "cmd_fn list" where
  "media_input_commands =
     [media_input_command_select_input, media_input_command_show_input_status, media_input_command_hide_input_status,
        media_input_command_rename_input]"

definition media_input_callbacks :: "(string \<times> callback_fn) list" where
  "media_input_callbacks =
     [(''media_input.esp_matter_command_callback_select_input'', media_input_callback_select_input),
        (''media_input.esp_matter_command_callback_show_input_status'', media_input_callback_show_input_status),
        (''media_input.esp_matter_command_callback_hide_input_status'', media_input_callback_hide_input_status),
        (''media_input.esp_matter_command_callback_rename_input'', media_input_callback_rename_input)]"

definition media_input_cluster :: cluster_decl where
  "media_input_cluster =
     \<lparr>cd_ids = media_input_ids,
      cd_callbacks = media_input_callbacks,
      cd_features = media_input_features,
      cd_attributes = media_input_attributes,
      cd_commands = media_input_commands,
      cd_events = [],
      cd_create = Some media_input_create\<rparr>"

section \<open>\<open>media_playback\<close>\<close>

definition media_playback_advanced_seek_id :: u32 where
  "media_playback_advanced_seek_id = 0x1"

definition media_playback_variable_speed_id :: u32 where
  "media_playback_variable_speed_id = 0x2"

definition media_playback_text_tracks_id :: u32 where
  "media_playback_text_tracks_id = 0x4"

definition media_playback_audio_tracks_id :: u32 where
  "media_playback_audio_tracks_id = 0x8"

definition media_playback_audio_advance_id :: u32 where
  "media_playback_audio_advance_id = 0x10"

definition media_playback_attribute_current_state :: attr_fn where
  "media_playback_attribute_current_state =
     attr 0x0000 ATTRIBUTE_FLAG_MANAGED_INTERNALLY VT_ENUM8"

definition media_playback_attribute_start_time :: attr_fn where
  "media_playback_attribute_start_time =
     guarded (Has_Feature media_playback_advanced_seek_id) (attr 0x0001 (ATTRIBUTE_FLAG_MANAGED_INTERNALLY OR
          ATTRIBUTE_FLAG_NULLABLE) VT_NULLABLE_UINT64)"

definition media_playback_attribute_duration :: attr_fn where
  "media_playback_attribute_duration =
     guarded (Has_Feature media_playback_advanced_seek_id) (attr 0x0002 (ATTRIBUTE_FLAG_MANAGED_INTERNALLY OR
          ATTRIBUTE_FLAG_NULLABLE) VT_NULLABLE_UINT64)"

definition media_playback_attribute_sampled_position :: attr_fn where
  "media_playback_attribute_sampled_position =
     guarded (Has_Feature media_playback_advanced_seek_id) (attr 0x0003 (ATTRIBUTE_FLAG_MANAGED_INTERNALLY OR
          ATTRIBUTE_FLAG_NULLABLE) VT_ARRAY)"

definition media_playback_attribute_playback_speed :: attr_fn where
  "media_playback_attribute_playback_speed =
     guarded (Has_Feature media_playback_advanced_seek_id) (attr 0x0004 ATTRIBUTE_FLAG_MANAGED_INTERNALLY VT_FLOAT)"

definition media_playback_attribute_seek_range_end :: attr_fn where
  "media_playback_attribute_seek_range_end =
     guarded (Has_Feature media_playback_advanced_seek_id) (attr 0x0005 (ATTRIBUTE_FLAG_MANAGED_INTERNALLY OR
          ATTRIBUTE_FLAG_NULLABLE) VT_NULLABLE_UINT64)"

definition media_playback_attribute_seek_range_start :: attr_fn where
  "media_playback_attribute_seek_range_start =
     guarded (Has_Feature media_playback_advanced_seek_id) (attr 0x0006 (ATTRIBUTE_FLAG_MANAGED_INTERNALLY OR
          ATTRIBUTE_FLAG_NULLABLE) VT_NULLABLE_UINT64)"

definition media_playback_attribute_active_audio_track :: attr_fn where
  "media_playback_attribute_active_audio_track =
     guarded (Has_Feature media_playback_audio_tracks_id) (attr 0x0007 (ATTRIBUTE_FLAG_MANAGED_INTERNALLY OR
          ATTRIBUTE_FLAG_NULLABLE) VT_ARRAY)"

definition media_playback_attribute_available_audio_tracks :: attr_fn where
  "media_playback_attribute_available_audio_tracks =
     guarded (Has_Feature media_playback_audio_tracks_id) (attr 0x0008 (ATTRIBUTE_FLAG_MANAGED_INTERNALLY OR
          ATTRIBUTE_FLAG_NULLABLE) VT_ARRAY)"

definition media_playback_attribute_active_text_track :: attr_fn where
  "media_playback_attribute_active_text_track =
     guarded (Has_Feature media_playback_text_tracks_id) (attr 0x0009 (ATTRIBUTE_FLAG_MANAGED_INTERNALLY OR
          ATTRIBUTE_FLAG_NULLABLE) VT_ARRAY)"

definition media_playback_attribute_available_text_tracks :: attr_fn where
  "media_playback_attribute_available_text_tracks =
     guarded (Has_Feature media_playback_text_tracks_id) (attr 0x000A (ATTRIBUTE_FLAG_MANAGED_INTERNALLY OR
          ATTRIBUTE_FLAG_NULLABLE) VT_ARRAY)"

definition media_playback_callback_play :: callback_fn where
  "media_playback_callback_play =
     decodes_to ''MediaPlayback::Commands::Play'' ''emberAfMediaPlaybackClusterPlayCallback''"

definition media_playback_callback_pause :: callback_fn where
  "media_playback_callback_pause =
     decodes_to ''MediaPlayback::Commands::Pause'' ''emberAfMediaPlaybackClusterPauseCallback''"

definition media_playback_callback_stop :: callback_fn where
  "media_playback_callback_stop =
     decodes_to ''MediaPlayback::Commands::Stop'' ''emberAfMediaPlaybackClusterStopCallback''"

definition media_playback_callback_start_over :: callback_fn where
  "media_playback_callback_start_over =
     decodes_to ''MediaPlayback::Commands::StartOver'' ''emberAfMediaPlaybackClusterStartOverCallback''"

definition media_playback_callback_previous :: callback_fn where
  "media_playback_callback_previous =
     decodes_to ''MediaPlayback::Commands::Previous'' ''emberAfMediaPlaybackClusterPreviousCallback''"

definition media_playback_callback_next :: callback_fn where
  "media_playback_callback_next =
     decodes_to ''MediaPlayback::Commands::Next'' ''emberAfMediaPlaybackClusterNextCallback''"

definition media_playback_callback_rewind :: callback_fn where
  "media_playback_callback_rewind =
     decodes_to ''MediaPlayback::Commands::Rewind'' ''emberAfMediaPlaybackClusterRewindCallback''"

definition media_playback_callback_fast_forward :: callback_fn where
  "media_playback_callback_fast_forward =
     decodes_to ''MediaPlayback::Commands::FastForward'' ''emberAfMediaPlaybackClusterFastForwardCallback''"

definition media_playback_callback_skip_forward :: callback_fn where
  "media_playback_callback_skip_forward =
     decodes_to ''MediaPlayback::Commands::SkipForward'' ''emberAfMediaPlaybackClusterSkipForwardCallback''"

definition media_playback_callback_skip_backward :: callback_fn where
  "media_playback_callback_skip_backward =
     decodes_to ''MediaPlayback::Commands::SkipBackward'' ''emberAfMediaPlaybackClusterSkipBackwardCallback''"

definition media_playback_callback_seek :: callback_fn where
  "media_playback_callback_seek =
     decodes_to ''MediaPlayback::Commands::Seek'' ''emberAfMediaPlaybackClusterSeekCallback''"

definition media_playback_callback_activate_audio_track :: callback_fn where
  "media_playback_callback_activate_audio_track =
     decodes_to ''MediaPlayback::Commands::ActivateAudioTrack''
          ''emberAfMediaPlaybackClusterActivateAudioTrackCallback''"

definition media_playback_callback_activate_text_track :: callback_fn where
  "media_playback_callback_activate_text_track =
     decodes_to ''MediaPlayback::Commands::ActivateTextTrack''
          ''emberAfMediaPlaybackClusterActivateTextTrackCallback''"

definition media_playback_callback_deactivate_text_track :: callback_fn where
  "media_playback_callback_deactivate_text_track =
     decodes_to ''MediaPlayback::Commands::DeactivateTextTrack''
          ''emberAfMediaPlaybackClusterDeactivateTextTrackCallback''"

definition media_playback_command_play :: cmd_fn where
  "media_playback_command_play =
     cmd 0x00 COMMAND_FLAG_ACCEPTED (Some ''media_playback.esp_matter_command_callback_play'')"

definition media_playback_command_pause :: cmd_fn where
  "media_playback_command_pause =
     cmd 0x01 COMMAND_FLAG_ACCEPTED (Some ''media_playback.esp_matter_command_callback_pause'')"

definition media_playback_command_stop :: cmd_fn where
  "media_playback_command_stop =
     cmd 0x02 COMMAND_FLAG_ACCEPTED (Some ''media_playback.esp_matter_command_callback_stop'')"

definition media_playback_command_start_over :: cmd_fn where
  "media_playback_command_start_over =
     cmd 0x03 COMMAND_FLAG_ACCEPTED (Some ''media_playback.esp_matter_command_callback_start_over'')"

definition media_playback_command_previous :: cmd_fn where
  "media_playback_command_previous =
     cmd 0x04 COMMAND_FLAG_ACCEPTED (Some ''media_playback.esp_matter_command_callback_previous'')"

definition media_playback_command_next :: cmd_fn where
  "media_playback_command_next =
     cmd 0x05 COMMAND_FLAG_ACCEPTED (Some ''media_playback.esp_matter_command_callback_next'')"

definition media_playback_command_rewind :: cmd_fn where
  "media_playback_command_rewind =
     guarded_cmd (Has_Feature media_playback_variable_speed_id) (cmd 0x06 COMMAND_FLAG_ACCEPTED (Some
          ''media_playback.esp_matter_command_callback_rewind''))"

definition media_playback_command_fast_forward :: cmd_fn where
  "media_playback_command_fast_forward =
     guarded_cmd (Has_Feature media_playback_variable_speed_id) (cmd 0x07 COMMAND_FLAG_ACCEPTED (Some
          ''media_playback.esp_matter_command_callback_fast_forward''))"

definition media_playback_command_skip_forward :: cmd_fn where
  "media_playback_command_skip_forward =
     cmd 0x08 COMMAND_FLAG_ACCEPTED (Some ''media_playback.esp_matter_command_callback_skip_forward'')"

definition media_playback_command_skip_backward :: cmd_fn where
  "media_playback_command_skip_backward =
     cmd 0x09 COMMAND_FLAG_ACCEPTED (Some ''media_playback.esp_matter_command_callback_skip_backward'')"

definition media_playback_command_playback_response :: cmd_fn where
  "media_playback_command_playback_response =
     cmd 0x0A COMMAND_FLAG_GENERATED None"

definition media_playback_command_seek :: cmd_fn where
  "media_playback_command_seek =
     guarded_cmd (Has_Feature media_playback_advanced_seek_id) (cmd 0x0B COMMAND_FLAG_ACCEPTED (Some
          ''media_playback.esp_matter_command_callback_seek''))"

definition media_playback_command_activate_audio_track :: cmd_fn where
  "media_playback_command_activate_audio_track =
     guarded_cmd (Has_Feature media_playback_audio_tracks_id) (cmd 0x0C COMMAND_FLAG_ACCEPTED (Some
          ''media_playback.esp_matter_command_callback_activate_audio_track''))"

definition media_playback_command_activate_text_track :: cmd_fn where
  "media_playback_command_activate_text_track =
     guarded_cmd (Has_Feature media_playback_text_tracks_id) (cmd 0x0D COMMAND_FLAG_ACCEPTED (Some
          ''media_playback.esp_matter_command_callback_activate_text_track''))"

definition media_playback_command_deactivate_text_track :: cmd_fn where
  "media_playback_command_deactivate_text_track =
     guarded_cmd (Has_Feature media_playback_text_tracks_id) (cmd 0x0E COMMAND_FLAG_ACCEPTED (Some
          ''media_playback.esp_matter_command_callback_deactivate_text_track''))"

definition media_playback_event_state_changed :: event_fn where
  "media_playback_event_state_changed =
     event 0x00"

definition media_playback_feature_advanced_seek :: feature_fn where
  "media_playback_feature_advanced_seek =
     feature media_playback_advanced_seek_id False [Update_Feature_Map,
        Attribute media_playback_attribute_start_time (Lit 0),
        Attribute media_playback_attribute_duration (Lit 0),
        Attribute media_playback_attribute_sampled_position Null_Arr,
        Attribute media_playback_attribute_playback_speed (Lit 0),
        Attribute media_playback_attribute_seek_range_end (Lit 0),
        Attribute media_playback_attribute_seek_range_start (Lit 0), Command media_playback_command_seek]"

definition media_playback_feature_variable_speed :: feature_fn where
  "media_playback_feature_variable_speed =
     feature media_playback_variable_speed_id False [Update_Feature_Map, Command media_playback_command_rewind,
        Command media_playback_command_fast_forward]"

definition media_playback_feature_text_tracks :: feature_fn where
  "media_playback_feature_text_tracks =
     feature media_playback_text_tracks_id False [Update_Feature_Map,
        Attribute media_playback_attribute_active_text_track Null_Arr,
        Attribute media_playback_attribute_available_text_tracks Null_Arr,
        Command media_playback_command_activate_text_track,
        Command media_playback_command_deactivate_text_track]"

definition media_playback_feature_audio_tracks :: feature_fn where
  "media_playback_feature_audio_tracks =
     feature media_playback_audio_tracks_id False [Update_Feature_Map,
        Attribute media_playback_attribute_active_audio_track Null_Arr,
        Attribute media_playback_attribute_available_audio_tracks Null_Arr,
        Command media_playback_command_activate_audio_track]"

definition media_playback_feature_audio_advance :: feature_fn where
  "media_playback_feature_audio_advance =
     feature media_playback_audio_advance_id False [Update_Feature_Map]"

definition media_playback_create :: cluster_fn where
  "media_playback_create =
     \<lparr>kf_id = 0x0506,
      kf_revision = 2,
      kf_functions = None,
      kf_function_flags = 0,
      kf_body = [Delegate ''MediaPlaybackDelegateInitCB'',
        Plugin ''MatterMediaPlaybackPluginServerInitCallback'', Functions, Feature_Map 0, Cluster_Revision,
        Step (Attribute media_playback_attribute_current_state (Lit 0)),
        Step (Command media_playback_command_play), Step (Command media_playback_command_pause),
        Step (Command media_playback_command_stop), Step (Command media_playback_command_playback_response)],
      kf_binding = True\<rparr>"

definition media_playback_ids :: cluster_ids where
  "media_playback_ids =
     \<lparr>ci_cluster = 0x0506,
      ci_features = [(''AdvancedSeek'', 0x1), (''VariableSpeed'', 0x2), (''TextTracks'', 0x4), (''AudioTracks'',
        0x8), (''AudioAdvance'', 0x10)],
      ci_attributes = [(''CurrentState'', 0x0000), (''StartTime'', 0x0001), (''Duration'', 0x0002),
        (''SampledPosition'', 0x0003), (''PlaybackSpeed'', 0x0004), (''SeekRangeEnd'', 0x0005),
        (''SeekRangeStart'', 0x0006), (''ActiveAudioTrack'', 0x0007), (''AvailableAudioTracks'', 0x0008),
        (''ActiveTextTrack'', 0x0009), (''AvailableTextTracks'', 0x000A)],
      ci_commands = [(''Play'', 0x00), (''Pause'', 0x01), (''Stop'', 0x02), (''StartOver'', 0x03),
        (''Previous'', 0x04), (''Next'', 0x05), (''Rewind'', 0x06), (''FastForward'', 0x07), (''SkipForward'',
        0x08), (''SkipBackward'', 0x09), (''PlaybackResponse'', 0x0A), (''Seek'', 0x0B),
        (''ActivateAudioTrack'', 0x0C), (''ActivateTextTrack'', 0x0D), (''DeactivateTextTrack'', 0x0E)],
      ci_events = [(''StateChanged'', 0x00)]\<rparr>"

definition media_playback_features :: "feature_fn list" where
  "media_playback_features =
     [media_playback_feature_advanced_seek, media_playback_feature_variable_speed,
        media_playback_feature_text_tracks, media_playback_feature_audio_tracks,
        media_playback_feature_audio_advance]"

definition media_playback_attributes :: "attr_fn list" where
  "media_playback_attributes =
     [media_playback_attribute_current_state, media_playback_attribute_start_time, media_playback_attribute_duration,
        media_playback_attribute_sampled_position, media_playback_attribute_playback_speed,
        media_playback_attribute_seek_range_end, media_playback_attribute_seek_range_start,
        media_playback_attribute_active_audio_track, media_playback_attribute_available_audio_tracks,
        media_playback_attribute_active_text_track, media_playback_attribute_available_text_tracks]"

definition media_playback_commands :: "cmd_fn list" where
  "media_playback_commands =
     [media_playback_command_play, media_playback_command_pause, media_playback_command_stop,
        media_playback_command_start_over, media_playback_command_previous, media_playback_command_next,
        media_playback_command_rewind, media_playback_command_fast_forward, media_playback_command_skip_forward,
        media_playback_command_skip_backward, media_playback_command_playback_response,
        media_playback_command_seek, media_playback_command_activate_audio_track,
        media_playback_command_activate_text_track, media_playback_command_deactivate_text_track]"

definition media_playback_events :: "event_fn list" where
  "media_playback_events =
     [media_playback_event_state_changed]"

definition media_playback_callbacks :: "(string \<times> callback_fn) list" where
  "media_playback_callbacks =
     [(''media_playback.esp_matter_command_callback_play'', media_playback_callback_play),
        (''media_playback.esp_matter_command_callback_pause'', media_playback_callback_pause),
        (''media_playback.esp_matter_command_callback_stop'', media_playback_callback_stop),
        (''media_playback.esp_matter_command_callback_start_over'', media_playback_callback_start_over),
        (''media_playback.esp_matter_command_callback_previous'', media_playback_callback_previous),
        (''media_playback.esp_matter_command_callback_next'', media_playback_callback_next),
        (''media_playback.esp_matter_command_callback_rewind'', media_playback_callback_rewind),
        (''media_playback.esp_matter_command_callback_fast_forward'', media_playback_callback_fast_forward),
        (''media_playback.esp_matter_command_callback_skip_forward'', media_playback_callback_skip_forward),
        (''media_playback.esp_matter_command_callback_skip_backward'', media_playback_callback_skip_backward),
        (''media_playback.esp_matter_command_callback_seek'', media_playback_callback_seek),
        (''media_playback.esp_matter_command_callback_activate_audio_track'',
        media_playback_callback_activate_audio_track),
        (''media_playback.esp_matter_command_callback_activate_text_track'',
        media_playback_callback_activate_text_track),
        (''media_playback.esp_matter_command_callback_deactivate_text_track'',
        media_playback_callback_deactivate_text_track)]"

definition media_playback_cluster :: cluster_decl where
  "media_playback_cluster =
     \<lparr>cd_ids = media_playback_ids,
      cd_callbacks = media_playback_callbacks,
      cd_features = media_playback_features,
      cd_attributes = media_playback_attributes,
      cd_commands = media_playback_commands,
      cd_events = media_playback_events,
      cd_create = Some media_playback_create\<rparr>"

section \<open>\<open>messages\<close>\<close>

definition messages_received_confirmation_id :: u32 where
  "messages_received_confirmation_id = 0x1"

definition messages_confirmation_response_id :: u32 where
  "messages_confirmation_response_id = 0x2"

definition messages_confirmation_reply_id :: u32 where
  "messages_confirmation_reply_id = 0x4"

definition messages_protected_messages_id :: u32 where
  "messages_protected_messages_id = 0x8"

definition messages_attribute_messages :: attr_fn where
  "messages_attribute_messages =
     attr 0x0000 ATTRIBUTE_FLAG_MANAGED_INTERNALLY VT_ARRAY"

definition messages_attribute_active_message_i_ds :: attr_fn where
  "messages_attribute_active_message_i_ds =
     attr 0x0001 ATTRIBUTE_FLAG_MANAGED_INTERNALLY VT_ARRAY"

definition messages_callback_present_messages_request :: callback_fn where
  "messages_callback_present_messages_request =
     decodes_in_fabric ''Messages::Commands::PresentMessagesRequest''
          ''emberAfMessagesClusterPresentMessagesRequestCallback''"

definition messages_callback_cancel_messages_request :: callback_fn where
  "messages_callback_cancel_messages_request =
     decodes_in_fabric ''Messages::Commands::CancelMessagesRequest''
          ''emberAfMessagesClusterCancelMessagesRequestCallback''"

definition messages_command_present_messages_request :: cmd_fn where
  "messages_command_present_messages_request =
     cmd 0x00 COMMAND_FLAG_ACCEPTED (Some ''messages.esp_matter_command_callback_present_messages_request'')"

definition messages_command_cancel_messages_request :: cmd_fn where
  "messages_command_cancel_messages_request =
     cmd 0x01 COMMAND_FLAG_ACCEPTED (Some ''messages.esp_matter_command_callback_cancel_messages_request'')"

definition messages_event_message_queued :: event_fn where
  "messages_event_message_queued =
     event 0x00"

definition messages_event_message_presented :: event_fn where
  "messages_event_message_presented =
     event 0x01"

definition messages_event_message_complete :: event_fn where
  "messages_event_message_complete =
     event 0x02"

definition messages_feature_received_confirmation :: feature_fn where
  "messages_feature_received_confirmation =
     feature messages_received_confirmation_id False [Update_Feature_Map]"

definition messages_feature_confirmation_response :: feature_fn where
  "messages_feature_confirmation_response =
     feature messages_confirmation_response_id False [Require (Has_Feature messages_received_confirmation_id),
        Update_Feature_Map]"

definition messages_feature_confirmation_reply :: feature_fn where
  "messages_feature_confirmation_reply =
     feature messages_confirmation_reply_id False [Require (Has_Feature messages_received_confirmation_id),
        Update_Feature_Map]"

definition messages_feature_protected_messages :: feature_fn where
  "messages_feature_protected_messages =
     feature messages_protected_messages_id False [Update_Feature_Map]"

definition messages_create :: cluster_fn where
  "messages_create =
     \<lparr>kf_id = 0x0097,
      kf_revision = 3,
      kf_functions = None,
      kf_function_flags = 0,
      kf_body = [Delegate ''MessagesDelegateInitCB'', Plugin ''MatterMessagesPluginServerInitCallback'',
        Functions, Feature_Map 0, Cluster_Revision, Step (Attribute messages_attribute_messages Null_Arr),
        Step (Attribute messages_attribute_active_message_i_ds Null_Arr),
        Step (Command messages_command_present_messages_request),
        Step (Command messages_command_cancel_messages_request), Step (Event messages_event_message_queued),
        Step (Event messages_event_message_presented), Step (Event messages_event_message_complete)],
      kf_binding = True\<rparr>"

definition messages_ids :: cluster_ids where
  "messages_ids =
     \<lparr>ci_cluster = 0x0097,
      ci_features = [(''ReceivedConfirmation'', 0x1), (''ConfirmationResponse'', 0x2), (''ConfirmationReply'',
        0x4), (''ProtectedMessages'', 0x8)],
      ci_attributes = [(''Messages'', 0x0000), (''ActiveMessageIDs'', 0x0001)],
      ci_commands = [(''PresentMessagesRequest'', 0x00), (''CancelMessagesRequest'', 0x01)],
      ci_events = [(''MessageQueued'', 0x00), (''MessagePresented'', 0x01), (''MessageComplete'', 0x02)]\<rparr>"

definition messages_features :: "feature_fn list" where
  "messages_features =
     [messages_feature_received_confirmation, messages_feature_confirmation_response,
        messages_feature_confirmation_reply, messages_feature_protected_messages]"

definition messages_attributes :: "attr_fn list" where
  "messages_attributes =
     [messages_attribute_messages, messages_attribute_active_message_i_ds]"

definition messages_commands :: "cmd_fn list" where
  "messages_commands =
     [messages_command_present_messages_request, messages_command_cancel_messages_request]"

definition messages_events :: "event_fn list" where
  "messages_events =
     [messages_event_message_queued, messages_event_message_presented, messages_event_message_complete]"

definition messages_callbacks :: "(string \<times> callback_fn) list" where
  "messages_callbacks =
     [(''messages.esp_matter_command_callback_present_messages_request'',
        messages_callback_present_messages_request),
        (''messages.esp_matter_command_callback_cancel_messages_request'',
        messages_callback_cancel_messages_request)]"

definition messages_cluster :: cluster_decl where
  "messages_cluster =
     \<lparr>cd_ids = messages_ids,
      cd_callbacks = messages_callbacks,
      cd_features = messages_features,
      cd_attributes = messages_attributes,
      cd_commands = messages_commands,
      cd_events = messages_events,
      cd_create = Some messages_create\<rparr>"

section \<open>\<open>meter_identification\<close>\<close>

definition meter_identification_power_threshold_id :: u32 where
  "meter_identification_power_threshold_id = 0x1"

definition meter_identification_attribute_meter_type :: attr_fn where
  "meter_identification_attribute_meter_type =
     attr 0x0000 (ATTRIBUTE_FLAG_MANAGED_INTERNALLY OR ATTRIBUTE_FLAG_NULLABLE) VT_NULLABLE_ENUM8"

definition meter_identification_attribute_point_of_delivery :: attr_fn where
  "meter_identification_attribute_point_of_delivery =
     attr 0x0001 (ATTRIBUTE_FLAG_MANAGED_INTERNALLY OR ATTRIBUTE_FLAG_NULLABLE) VT_CHAR_STRING"

definition meter_identification_attribute_meter_serial_number :: attr_fn where
  "meter_identification_attribute_meter_serial_number =
     attr 0x0002 (ATTRIBUTE_FLAG_MANAGED_INTERNALLY OR ATTRIBUTE_FLAG_NULLABLE) VT_CHAR_STRING"

definition meter_identification_attribute_protocol_version :: attr_fn where
  "meter_identification_attribute_protocol_version =
     attr 0x0003 (ATTRIBUTE_FLAG_MANAGED_INTERNALLY OR ATTRIBUTE_FLAG_NULLABLE) VT_CHAR_STRING"

definition meter_identification_attribute_power_threshold :: attr_fn where
  "meter_identification_attribute_power_threshold =
     guarded (Has_Feature meter_identification_power_threshold_id) (attr 0x0004 (ATTRIBUTE_FLAG_MANAGED_INTERNALLY
          OR ATTRIBUTE_FLAG_NULLABLE) VT_ARRAY)"

definition meter_identification_feature_power_threshold :: feature_fn where
  "meter_identification_feature_power_threshold =
     feature meter_identification_power_threshold_id False [Update_Feature_Map,
        Attribute meter_identification_attribute_power_threshold Null_Arr]"

definition meter_identification_create :: cluster_fn where
  "meter_identification_create =
     \<lparr>kf_id = 0x0B06,
      kf_revision = 1,
      kf_functions = None,
      kf_function_flags = 0,
      kf_body = [Plugin ''MatterMeterIdentificationPluginServerInitCallback'', Functions, Feature_Map 0,
        Cluster_Revision, Step (Attribute meter_identification_attribute_meter_type (Lit 0)),
        Step (Attribute meter_identification_attribute_point_of_delivery Null_Str),
        Step (Attribute meter_identification_attribute_meter_serial_number Null_Str)],
      kf_binding = True\<rparr>"

definition meter_identification_ids :: cluster_ids where
  "meter_identification_ids =
     \<lparr>ci_cluster = 0x0B06,
      ci_features = [(''PowerThreshold'', 0x1)],
      ci_attributes = [(''MeterType'', 0x0000), (''PointOfDelivery'', 0x0001), (''MeterSerialNumber'', 0x0002),
        (''ProtocolVersion'', 0x0003), (''PowerThreshold'', 0x0004)],
      ci_commands = [],
      ci_events = []\<rparr>"

definition meter_identification_features :: "feature_fn list" where
  "meter_identification_features =
     [meter_identification_feature_power_threshold]"

definition meter_identification_attributes :: "attr_fn list" where
  "meter_identification_attributes =
     [meter_identification_attribute_meter_type, meter_identification_attribute_point_of_delivery,
        meter_identification_attribute_meter_serial_number, meter_identification_attribute_protocol_version,
        meter_identification_attribute_power_threshold]"

definition meter_identification_cluster :: cluster_decl where
  "meter_identification_cluster =
     \<lparr>cd_ids = meter_identification_ids,
      cd_callbacks = [],
      cd_features = meter_identification_features,
      cd_attributes = meter_identification_attributes,
      cd_commands = [],
      cd_events = [],
      cd_create = Some meter_identification_create\<rparr>"

section \<open>\<open>microwave_oven_control\<close>\<close>

definition microwave_oven_control_power_as_number_id :: u32 where
  "microwave_oven_control_power_as_number_id = 0x1"

definition microwave_oven_control_power_number_limits_id :: u32 where
  "microwave_oven_control_power_number_limits_id = 0x4"

definition microwave_oven_control_attribute_cook_time :: attr_fn where
  "microwave_oven_control_attribute_cook_time =
     attr 0x0000 ATTRIBUTE_FLAG_MANAGED_INTERNALLY VT_UINT32"

definition microwave_oven_control_attribute_max_cook_time :: attr_fn where
  "microwave_oven_control_attribute_max_cook_time =
     attr 0x0001 ATTRIBUTE_FLAG_MANAGED_INTERNALLY VT_UINT32"

definition microwave_oven_control_attribute_power_setting :: attr_fn where
  "microwave_oven_control_attribute_power_setting =
     guarded (Has_Feature microwave_oven_control_power_as_number_id) (attr 0x0002 ATTRIBUTE_FLAG_MANAGED_INTERNALLY
          VT_UINT8)"

definition microwave_oven_control_attribute_min_power :: attr_fn where
  "microwave_oven_control_attribute_min_power =
     guarded (Has_Feature microwave_oven_control_power_number_limits_id) (attr 0x0003
          ATTRIBUTE_FLAG_MANAGED_INTERNALLY VT_UINT8)"

definition microwave_oven_control_attribute_max_power :: attr_fn where
  "microwave_oven_control_attribute_max_power =
     guarded (Has_Feature microwave_oven_control_power_number_limits_id) (attr 0x0004
          ATTRIBUTE_FLAG_MANAGED_INTERNALLY VT_UINT8)"

definition microwave_oven_control_attribute_power_step :: attr_fn where
  "microwave_oven_control_attribute_power_step =
     guarded (Has_Feature microwave_oven_control_power_number_limits_id) (attr 0x0005
          ATTRIBUTE_FLAG_MANAGED_INTERNALLY VT_UINT8)"

definition microwave_oven_control_attribute_watt_rating :: attr_fn where
  "microwave_oven_control_attribute_watt_rating =
     attr 0x0008 ATTRIBUTE_FLAG_MANAGED_INTERNALLY VT_UINT16"

definition microwave_oven_control_command_set_cooking_parameters :: cmd_fn where
  "microwave_oven_control_command_set_cooking_parameters =
     cmd 0x00 COMMAND_FLAG_ACCEPTED None"

definition microwave_oven_control_command_add_more_time :: cmd_fn where
  "microwave_oven_control_command_add_more_time =
     cmd 0x01 COMMAND_FLAG_ACCEPTED None"

definition microwave_oven_control_feature_power_as_number :: feature_fn where
  "microwave_oven_control_feature_power_as_number =
     feature microwave_oven_control_power_as_number_id False [Update_Feature_Map,
        Attribute microwave_oven_control_attribute_power_setting (Lit 0)]"

definition microwave_oven_control_feature_power_number_limits :: feature_fn where
  "microwave_oven_control_feature_power_number_limits =
     feature microwave_oven_control_power_number_limits_id False [Require (Has_Feature
          microwave_oven_control_power_as_number_id), Update_Feature_Map,
        Attribute microwave_oven_control_attribute_min_power (Lit 0),
        Attribute microwave_oven_control_attribute_max_power (Lit 0),
        Attribute microwave_oven_control_attribute_power_step (Lit 0)]"

definition microwave_oven_control_create :: cluster_fn where
  "microwave_oven_control_create =
     \<lparr>kf_id = 0x005F,
      kf_revision = 1,
      kf_functions = None,
      kf_function_flags = 0,
      kf_body = [Delegate ''MicrowaveOvenControlDelegateInitCB'',
        Plugin ''MatterMicrowaveOvenControlPluginServerInitCallback'', Functions, Config_Feature_Map,
        Cluster_Revision, Step (Attribute microwave_oven_control_attribute_cook_time (Lit 0)),
        Step (Attribute microwave_oven_control_attribute_max_cook_time (Lit 0)),
        Validate k_exact_one [microwave_oven_control_power_as_number_id],
        If_Feature microwave_oven_control_power_as_number_id [Add_Feature
          microwave_oven_control_feature_power_as_number ''power_as_number''] [],
        If_Feature microwave_oven_control_power_number_limits_id [Add_Feature
          microwave_oven_control_feature_power_number_limits ''power_number_limits''] [],
        Step (Command microwave_oven_control_command_set_cooking_parameters)],
      kf_binding = True\<rparr>"

definition microwave_oven_control_ids :: cluster_ids where
  "microwave_oven_control_ids =
     \<lparr>ci_cluster = 0x005F,
      ci_features = [(''PowerAsNumber'', 0x1), (''PowerNumberLimits'', 0x4)],
      ci_attributes = [(''CookTime'', 0x0000), (''MaxCookTime'', 0x0001), (''PowerSetting'', 0x0002),
        (''MinPower'', 0x0003), (''MaxPower'', 0x0004), (''PowerStep'', 0x0005), (''WattRating'', 0x0008)],
      ci_commands = [(''SetCookingParameters'', 0x00), (''AddMoreTime'', 0x01)],
      ci_events = []\<rparr>"

definition microwave_oven_control_features :: "feature_fn list" where
  "microwave_oven_control_features =
     [microwave_oven_control_feature_power_as_number, microwave_oven_control_feature_power_number_limits]"

definition microwave_oven_control_attributes :: "attr_fn list" where
  "microwave_oven_control_attributes =
     [microwave_oven_control_attribute_cook_time, microwave_oven_control_attribute_max_cook_time,
        microwave_oven_control_attribute_power_setting, microwave_oven_control_attribute_min_power,
        microwave_oven_control_attribute_max_power, microwave_oven_control_attribute_power_step,
        microwave_oven_control_attribute_watt_rating]"

definition microwave_oven_control_commands :: "cmd_fn list" where
  "microwave_oven_control_commands =
     [microwave_oven_control_command_set_cooking_parameters, microwave_oven_control_command_add_more_time]"

definition microwave_oven_control_cluster :: cluster_decl where
  "microwave_oven_control_cluster =
     \<lparr>cd_ids = microwave_oven_control_ids,
      cd_callbacks = [],
      cd_features = microwave_oven_control_features,
      cd_attributes = microwave_oven_control_attributes,
      cd_commands = microwave_oven_control_commands,
      cd_events = [],
      cd_create = Some microwave_oven_control_create\<rparr>"

section \<open>\<open>microwave_oven_mode\<close>\<close>

definition microwave_oven_mode_attribute_supported_modes :: attr_fn where
  "microwave_oven_mode_attribute_supported_modes =
     attr 0x0000 0 VT_ARRAY"

definition microwave_oven_mode_attribute_current_mode :: attr_fn where
  "microwave_oven_mode_attribute_current_mode =
     bounded 0 254 (attr 0x0001 0 VT_UINT8)"

definition microwave_oven_mode_create :: cluster_fn where
  "microwave_oven_mode_create =
     \<lparr>kf_id = 0x005E,
      kf_revision = 2,
      kf_functions = None,
      kf_function_flags = 0,
      kf_body = [Delegate ''MicrowaveOvenModeDelegateInitCB'',
        Plugin ''MatterMicrowaveOvenModePluginServerInitCallback'', Functions, Feature_Map 0, Cluster_Revision],
      kf_binding = False\<rparr>"

definition microwave_oven_mode_ids :: cluster_ids where
  "microwave_oven_mode_ids =
     \<lparr>ci_cluster = 0x005E,
      ci_features = [],
      ci_attributes = [(''SupportedModes'', 0x0000), (''CurrentMode'', 0x0001)],
      ci_commands = [],
      ci_events = []\<rparr>"

definition microwave_oven_mode_attributes :: "attr_fn list" where
  "microwave_oven_mode_attributes =
     [microwave_oven_mode_attribute_supported_modes, microwave_oven_mode_attribute_current_mode]"

definition microwave_oven_mode_cluster :: cluster_decl where
  "microwave_oven_mode_cluster =
     \<lparr>cd_ids = microwave_oven_mode_ids,
      cd_callbacks = [],
      cd_features = [],
      cd_attributes = microwave_oven_mode_attributes,
      cd_commands = [],
      cd_events = [],
      cd_create = Some microwave_oven_mode_create\<rparr>"

section \<open>\<open>mode_base\<close>\<close>

definition mode_base_on_off_id :: u32 where
  "mode_base_on_off_id = 0x1"

definition mode_base_attribute_supported_modes :: attr_fn where
  "mode_base_attribute_supported_modes =
     attr 0x0000 ATTRIBUTE_FLAG_MANAGED_INTERNALLY VT_ARRAY"

definition mode_base_attribute_current_mode :: attr_fn where
  "mode_base_attribute_current_mode =
     attr 0x0001 (ATTRIBUTE_FLAG_MANAGED_INTERNALLY OR ATTRIBUTE_FLAG_NONVOLATILE) VT_UINT8"

definition mode_base_attribute_start_up_mode :: attr_fn where
  "mode_base_attribute_start_up_mode =
     attr 0x0002 (ATTRIBUTE_FLAG_WRITABLE OR ATTRIBUTE_FLAG_MANAGED_INTERNALLY OR ATTRIBUTE_FLAG_NULLABLE OR
          ATTRIBUTE_FLAG_NONVOLATILE) VT_NULLABLE_UINT8"

definition mode_base_attribute_on_mode :: attr_fn where
  "mode_base_attribute_on_mode =
     guarded (Has_Feature mode_base_on_off_id) (attr 0x0003 (ATTRIBUTE_FLAG_WRITABLE OR
          ATTRIBUTE_FLAG_MANAGED_INTERNALLY OR ATTRIBUTE_FLAG_NULLABLE OR ATTRIBUTE_FLAG_NONVOLATILE)
          VT_NULLABLE_UINT8)"

definition mode_base_command_change_to_mode :: cmd_fn where
  "mode_base_command_change_to_mode =
     cmd 0x00 COMMAND_FLAG_ACCEPTED None"

definition mode_base_command_change_to_mode_response :: cmd_fn where
  "mode_base_command_change_to_mode_response =
     cmd 0x01 COMMAND_FLAG_GENERATED None"

definition mode_base_feature_on_off :: feature_fn where
  "mode_base_feature_on_off =
     feature mode_base_on_off_id False [Update_Feature_Map, Attribute mode_base_attribute_on_mode (Lit 0)]"

definition mode_base_ids :: cluster_ids where
  "mode_base_ids =
     \<lparr>ci_cluster = 0xFFFF,
      ci_features = [(''OnOff'', 0x1)],
      ci_attributes = [(''SupportedModes'', 0x0000), (''CurrentMode'', 0x0001), (''StartUpMode'', 0x0002),
        (''OnMode'', 0x0003)],
      ci_commands = [(''ChangeToMode'', 0x00), (''ChangeToModeResponse'', 0x01)],
      ci_events = []\<rparr>"

definition mode_base_features :: "feature_fn list" where
  "mode_base_features =
     [mode_base_feature_on_off]"

definition mode_base_attributes :: "attr_fn list" where
  "mode_base_attributes =
     [mode_base_attribute_supported_modes, mode_base_attribute_current_mode, mode_base_attribute_start_up_mode,
        mode_base_attribute_on_mode]"

definition mode_base_commands :: "cmd_fn list" where
  "mode_base_commands =
     [mode_base_command_change_to_mode, mode_base_command_change_to_mode_response]"

definition mode_base_cluster :: cluster_decl where
  "mode_base_cluster =
     \<lparr>cd_ids = mode_base_ids,
      cd_callbacks = [],
      cd_features = mode_base_features,
      cd_attributes = mode_base_attributes,
      cd_commands = mode_base_commands,
      cd_events = [],
      cd_create = None\<rparr>"

section \<open>\<open>mode_select\<close>\<close>

definition mode_select_on_off_id :: u32 where
  "mode_select_on_off_id = 0x1"

definition mode_select_attribute_description :: attr_fn where
  "mode_select_attribute_description =
     at_most 65 (sized 65 (attr 0x0000 0 VT_CHAR_STRING))"

definition mode_select_attribute_standard_namespace :: attr_fn where
  "mode_select_attribute_standard_namespace =
     attr 0x0001 ATTRIBUTE_FLAG_NULLABLE VT_NULLABLE_ENUM16"

definition mode_select_attribute_supported_modes :: attr_fn where
  "mode_select_attribute_supported_modes =
     attr 0x0002 ATTRIBUTE_FLAG_MANAGED_INTERNALLY VT_ARRAY"

definition mode_select_attribute_current_mode :: attr_fn where
  "mode_select_attribute_current_mode =
     bounded 0 254 (attr 0x0003 ATTRIBUTE_FLAG_NONVOLATILE VT_UINT8)"

definition mode_select_attribute_start_up_mode :: attr_fn where
  "mode_select_attribute_start_up_mode =
     bounded 0 254 (attr 0x0004 (ATTRIBUTE_FLAG_WRITABLE OR ATTRIBUTE_FLAG_NULLABLE OR ATTRIBUTE_FLAG_NONVOLATILE)
          VT_NULLABLE_UINT8)"

definition mode_select_attribute_on_mode :: attr_fn where
  "mode_select_attribute_on_mode =
     guarded (Has_Feature mode_select_on_off_id) (bounded 0 254 (attr 0x0005 (ATTRIBUTE_FLAG_WRITABLE OR
          ATTRIBUTE_FLAG_NULLABLE OR ATTRIBUTE_FLAG_NONVOLATILE) VT_NULLABLE_UINT8))"

definition mode_select_callback_change_to_mode :: callback_fn where
  "mode_select_callback_change_to_mode =
     decodes_to ''ModeSelect::Commands::ChangeToMode'' ''emberAfModeSelectClusterChangeToModeCallback''"

definition mode_select_command_change_to_mode :: cmd_fn where
  "mode_select_command_change_to_mode =
     cmd 0x00 COMMAND_FLAG_ACCEPTED (Some ''mode_select.esp_matter_command_callback_change_to_mode'')"

definition mode_select_feature_on_off :: feature_fn where
  "mode_select_feature_on_off =
     feature mode_select_on_off_id True [Update_Feature_Map,
        Attribute mode_select_attribute_on_mode (Field ''on_mode'')]"

definition mode_select_function_list :: "string list option" where
  "mode_select_function_list =
     Some [''emberAfModeSelectClusterServerInitCallback'',
        ''MatterModeSelectClusterServerPreAttributeChangedCallback'']"

definition mode_select_create :: cluster_fn where
  "mode_select_create =
     \<lparr>kf_id = 0x0050,
      kf_revision = 2,
      kf_functions = mode_select_function_list,
      kf_function_flags = CLUSTER_FLAG_INIT_FUNCTION OR CLUSTER_FLAG_PRE_ATTRIBUTE_CHANGED_FUNCTION,
      kf_body = [Delegate ''ModeSelectDelegateInitCB'', Plugin ''MatterModeSelectPluginServerInitCallback'',
        Functions, Feature_Map 0, Cluster_Revision,
        Step (Attribute mode_select_attribute_description (Field ''description'')),
        Step (Attribute mode_select_attribute_standard_namespace (Field ''standard_namespace'')),
        Step (Attribute mode_select_attribute_current_mode (Field ''current_mode'')),
        Step (Attribute mode_select_attribute_supported_modes Null_Arr),
        Step (Command mode_select_command_change_to_mode)],
      kf_binding = True\<rparr>"

definition mode_select_ids :: cluster_ids where
  "mode_select_ids =
     \<lparr>ci_cluster = 0x0050,
      ci_features = [(''OnOff'', 0x1)],
      ci_attributes = [(''Description'', 0x0000), (''StandardNamespace'', 0x0001), (''SupportedModes'', 0x0002),
        (''CurrentMode'', 0x0003), (''StartUpMode'', 0x0004), (''OnMode'', 0x0005)],
      ci_commands = [(''ChangeToMode'', 0x00)],
      ci_events = []\<rparr>"

definition mode_select_features :: "feature_fn list" where
  "mode_select_features =
     [mode_select_feature_on_off]"

definition mode_select_attributes :: "attr_fn list" where
  "mode_select_attributes =
     [mode_select_attribute_description, mode_select_attribute_standard_namespace,
        mode_select_attribute_supported_modes, mode_select_attribute_current_mode,
        mode_select_attribute_start_up_mode, mode_select_attribute_on_mode]"

definition mode_select_commands :: "cmd_fn list" where
  "mode_select_commands =
     [mode_select_command_change_to_mode]"

definition mode_select_callbacks :: "(string \<times> callback_fn) list" where
  "mode_select_callbacks =
     [(''mode_select.esp_matter_command_callback_change_to_mode'', mode_select_callback_change_to_mode)]"

definition mode_select_cluster :: cluster_decl where
  "mode_select_cluster =
     \<lparr>cd_ids = mode_select_ids,
      cd_callbacks = mode_select_callbacks,
      cd_features = mode_select_features,
      cd_attributes = mode_select_attributes,
      cd_commands = mode_select_commands,
      cd_events = [],
      cd_create = Some mode_select_create\<rparr>"

section \<open>\<open>network_commissioning\<close>\<close>

definition network_commissioning_wi_fi_network_interface_id :: u32 where
  "network_commissioning_wi_fi_network_interface_id = 0x1"

definition network_commissioning_thread_network_interface_id :: u32 where
  "network_commissioning_thread_network_interface_id = 0x2"

definition network_commissioning_ethernet_network_interface_id :: u32 where
  "network_commissioning_ethernet_network_interface_id = 0x4"

definition network_commissioning_attribute_max_networks :: attr_fn where
  "network_commissioning_attribute_max_networks =
     bounded 1 254 (attr 0x0000 0 VT_UINT8)"

definition network_commissioning_attribute_networks :: attr_fn where
  "network_commissioning_attribute_networks =
     attr 0x0001 ATTRIBUTE_FLAG_MANAGED_INTERNALLY VT_ARRAY"

definition network_commissioning_attribute_scan_max_time_seconds :: attr_fn where
  "network_commissioning_attribute_scan_max_time_seconds =
     guarded (Or (Has_Feature network_commissioning_wi_fi_network_interface_id) (Has_Feature
          network_commissioning_thread_network_interface_id)) (bounded 0 254 (attr 0x0002 0 VT_UINT8))"

definition network_commissioning_attribute_connect_max_time_seconds :: attr_fn where
  "network_commissioning_attribute_connect_max_time_seconds =
     guarded (Or (Has_Feature network_commissioning_wi_fi_network_interface_id) (Has_Feature
          network_commissioning_thread_network_interface_id)) (bounded 0 254 (attr 0x0003 0 VT_UINT8))"

definition network_commissioning_attribute_interface_enabled :: attr_fn where
  "network_commissioning_attribute_interface_enabled =
     attr 0x0004 (ATTRIBUTE_FLAG_WRITABLE OR ATTRIBUTE_FLAG_NONVOLATILE) VT_BOOLEAN"

definition network_commissioning_attribute_last_networking_status :: attr_fn where
  "network_commissioning_attribute_last_networking_status =
     bounded 0 12 (attr 0x0005 ATTRIBUTE_FLAG_NULLABLE VT_NULLABLE_ENUM8)"

definition network_commissioning_attribute_last_network_id :: attr_fn where
  "network_commissioning_attribute_last_network_id =
     attr 0x0006 ATTRIBUTE_FLAG_NULLABLE VT_OCTET_STRING"

definition network_commissioning_attribute_last_connect_error_value :: attr_fn where
  "network_commissioning_attribute_last_connect_error_value =
     bounded (- 2147483648) 2147483646 (attr 0x0007 ATTRIBUTE_FLAG_NULLABLE VT_NULLABLE_INT32)"

definition network_commissioning_attribute_supported_wi_fi_bands :: attr_fn where
  "network_commissioning_attribute_supported_wi_fi_bands =
     guarded (Has_Feature network_commissioning_wi_fi_network_interface_id) (attr 0x0008
          ATTRIBUTE_FLAG_MANAGED_INTERNALLY VT_ARRAY)"

definition network_commissioning_attribute_supported_thread_features :: attr_fn where
  "network_commissioning_attribute_supported_thread_features =
     guarded (Has_Feature network_commissioning_thread_network_interface_id) (bounded 0 65535 (attr 0x0009 0
          VT_BITMAP16))"

definition network_commissioning_attribute_thread_version :: attr_fn where
  "network_commissioning_attribute_thread_version =
     guarded (Has_Feature network_commissioning_thread_network_interface_id) (bounded 0 65534 (attr 0x000A 0
          VT_UINT16))"

definition network_commissioning_command_scan_networks :: cmd_fn where
  "network_commissioning_command_scan_networks =
     guarded_cmd (Or (Has_Feature network_commissioning_wi_fi_network_interface_id) (Has_Feature
          network_commissioning_thread_network_interface_id)) (cmd 0x00 COMMAND_FLAG_ACCEPTED None)"

definition network_commissioning_command_scan_networks_response :: cmd_fn where
  "network_commissioning_command_scan_networks_response =
     guarded_cmd (Or (Has_Feature network_commissioning_wi_fi_network_interface_id) (Has_Feature
          network_commissioning_thread_network_interface_id)) (cmd 0x01 COMMAND_FLAG_GENERATED None)"

definition network_commissioning_command_add_or_update_wi_fi_network :: cmd_fn where
  "network_commissioning_command_add_or_update_wi_fi_network =
     guarded_cmd (Has_Feature network_commissioning_wi_fi_network_interface_id) (cmd 0x02 COMMAND_FLAG_ACCEPTED None)"

definition network_commissioning_command_add_or_update_thread_network :: cmd_fn where
  "network_commissioning_command_add_or_update_thread_network =
     guarded_cmd (Has_Feature network_commissioning_thread_network_interface_id) (cmd 0x03 COMMAND_FLAG_ACCEPTED
          None)"

definition network_commissioning_command_remove_network :: cmd_fn where
  "network_commissioning_command_remove_network =
     guarded_cmd (Or (Has_Feature network_commissioning_wi_fi_network_interface_id) (Has_Feature
          network_commissioning_thread_network_interface_id)) (cmd 0x04 COMMAND_FLAG_ACCEPTED None)"

definition network_commissioning_command_network_config_response :: cmd_fn where
  "network_commissioning_command_network_config_response =
     guarded_cmd (Or (Has_Feature network_commissioning_wi_fi_network_interface_id) (Has_Feature
          network_commissioning_thread_network_interface_id)) (cmd 0x05 COMMAND_FLAG_GENERATED None)"

definition network_commissioning_command_connect_network :: cmd_fn where
  "network_commissioning_command_connect_network =
     guarded_cmd (Or (Has_Feature network_commissioning_wi_fi_network_interface_id) (Has_Feature
          network_commissioning_thread_network_interface_id)) (cmd 0x06 COMMAND_FLAG_ACCEPTED None)"

definition network_commissioning_command_connect_network_response :: cmd_fn where
  "network_commissioning_command_connect_network_response =
     guarded_cmd (Or (Has_Feature network_commissioning_wi_fi_network_interface_id) (Has_Feature
          network_commissioning_thread_network_interface_id)) (cmd 0x07 COMMAND_FLAG_GENERATED None)"

definition network_commissioning_command_reorder_network :: cmd_fn where
  "network_commissioning_command_reorder_network =
     guarded_cmd (Or (Has_Feature network_commissioning_wi_fi_network_interface_id) (Has_Feature
          network_commissioning_thread_network_interface_id)) (cmd 0x08 COMMAND_FLAG_ACCEPTED None)"

definition network_commissioning_feature_wi_fi_network_interface :: feature_fn where
  "network_commissioning_feature_wi_fi_network_interface =
     feature network_commissioning_wi_fi_network_interface_id True [Update_Feature_Map,
        Attribute network_commissioning_attribute_scan_max_time_seconds (Field ''scan_max_time_seconds''),
        Attribute network_commissioning_attribute_connect_max_time_seconds (Field ''connect_max_time_seconds''),
        Attribute network_commissioning_attribute_supported_wi_fi_bands Null_Arr,
        Command network_commissioning_command_scan_networks,
        Command network_commissioning_command_scan_networks_response,
        Command network_commissioning_command_add_or_update_wi_fi_network,
        Command network_commissioning_command_remove_network,
        Command network_commissioning_command_network_config_response,
        Command network_commissioning_command_connect_network,
        Command network_commissioning_command_connect_network_response,
        Command network_commissioning_command_reorder_network]"

definition network_commissioning_feature_thread_network_interface :: feature_fn where
  "network_commissioning_feature_thread_network_interface =
     feature network_commissioning_thread_network_interface_id True [Update_Feature_Map,
        Attribute network_commissioning_attribute_scan_max_time_seconds (Field ''scan_max_time_seconds''),
        Attribute network_commissioning_attribute_connect_max_time_seconds (Field ''connect_max_time_seconds''),
        Attribute network_commissioning_attribute_supported_thread_features (Field
          ''supported_thread_features''),
        Attribute network_commissioning_attribute_thread_version (Field ''thread_version''),
        Command network_commissioning_command_scan_networks,
        Command network_commissioning_command_scan_networks_response,
        Command network_commissioning_command_add_or_update_thread_network,
        Command network_commissioning_command_remove_network,
        Command network_commissioning_command_network_config_response,
        Command network_commissioning_command_connect_network,
        Command network_commissioning_command_connect_network_response,
        Command network_commissioning_command_reorder_network]"

definition network_commissioning_feature_ethernet_network_interface :: feature_fn where
  "network_commissioning_feature_ethernet_network_interface =
     feature network_commissioning_ethernet_network_interface_id False [Update_Feature_Map]"

definition network_commissioning_create :: cluster_fn where
  "network_commissioning_create =
     \<lparr>kf_id = 0x0031,
      kf_revision = 2,
      kf_functions = None,
      kf_function_flags = 0,
      kf_body = [Plugin ''MatterNetworkCommissioningPluginServerInitCallback'', Functions, Config_Feature_Map,
        Cluster_Revision,
        Step (Attribute network_commissioning_attribute_max_networks (Field ''max_networks'')),
        Step (Attribute network_commissioning_attribute_interface_enabled (Field ''interface_enabled'')),
        Step (Attribute network_commissioning_attribute_last_networking_status (Field
          ''last_networking_status'')),
        Step (Attribute network_commissioning_attribute_last_network_id (Field ''last_network_id'')),
        Step (Attribute network_commissioning_attribute_last_connect_error_value (Field
          ''last_connect_error_value'')), Step (Attribute network_commissioning_attribute_networks Null_Arr),
        Validate k_exact_one [network_commissioning_wi_fi_network_interface_id,
        network_commissioning_thread_network_interface_id, network_commissioning_ethernet_network_interface_id],
        If_Feature network_commissioning_wi_fi_network_interface_id [Add_Feature
          network_commissioning_feature_wi_fi_network_interface ''wi_fi_network_interface''] [],
        If_Feature network_commissioning_thread_network_interface_id [Add_Feature
          network_commissioning_feature_thread_network_interface ''thread_network_interface''] [],
        If_Feature network_commissioning_ethernet_network_interface_id [Add_Feature
          network_commissioning_feature_ethernet_network_interface ''ethernet_network_interface''] [],
        Callbacks ''ESPMatterNetworkCommissioningClusterServerInitCallback''
          ''ESPMatterNetworkCommissioningClusterServerShutdownCallback''],
      kf_binding = False\<rparr>"

definition network_commissioning_ids :: cluster_ids where
  "network_commissioning_ids =
     \<lparr>ci_cluster = 0x0031,
      ci_features = [(''WiFiNetworkInterface'', 0x1), (''ThreadNetworkInterface'', 0x2),
        (''EthernetNetworkInterface'', 0x4)],
      ci_attributes = [(''MaxNetworks'', 0x0000), (''Networks'', 0x0001), (''ScanMaxTimeSeconds'', 0x0002),
        (''ConnectMaxTimeSeconds'', 0x0003), (''InterfaceEnabled'', 0x0004), (''LastNetworkingStatus'', 0x0005),
        (''LastNetworkID'', 0x0006), (''LastConnectErrorValue'', 0x0007), (''SupportedWiFiBands'', 0x0008),
        (''SupportedThreadFeatures'', 0x0009), (''ThreadVersion'', 0x000A)],
      ci_commands = [(''ScanNetworks'', 0x00), (''ScanNetworksResponse'', 0x01), (''AddOrUpdateWiFiNetwork'',
        0x02), (''AddOrUpdateThreadNetwork'', 0x03), (''RemoveNetwork'', 0x04), (''NetworkConfigResponse'',
        0x05), (''ConnectNetwork'', 0x06), (''ConnectNetworkResponse'', 0x07), (''ReorderNetwork'', 0x08)],
      ci_events = []\<rparr>"

definition network_commissioning_features :: "feature_fn list" where
  "network_commissioning_features =
     [network_commissioning_feature_wi_fi_network_interface, network_commissioning_feature_thread_network_interface,
        network_commissioning_feature_ethernet_network_interface]"

definition network_commissioning_attributes :: "attr_fn list" where
  "network_commissioning_attributes =
     [network_commissioning_attribute_max_networks, network_commissioning_attribute_networks,
        network_commissioning_attribute_scan_max_time_seconds,
        network_commissioning_attribute_connect_max_time_seconds,
        network_commissioning_attribute_interface_enabled,
        network_commissioning_attribute_last_networking_status, network_commissioning_attribute_last_network_id,
        network_commissioning_attribute_last_connect_error_value,
        network_commissioning_attribute_supported_wi_fi_bands,
        network_commissioning_attribute_supported_thread_features,
        network_commissioning_attribute_thread_version]"

definition network_commissioning_commands :: "cmd_fn list" where
  "network_commissioning_commands =
     [network_commissioning_command_scan_networks, network_commissioning_command_scan_networks_response,
        network_commissioning_command_add_or_update_wi_fi_network,
        network_commissioning_command_add_or_update_thread_network,
        network_commissioning_command_remove_network, network_commissioning_command_network_config_response,
        network_commissioning_command_connect_network, network_commissioning_command_connect_network_response,
        network_commissioning_command_reorder_network]"

definition network_commissioning_cluster :: cluster_decl where
  "network_commissioning_cluster =
     \<lparr>cd_ids = network_commissioning_ids,
      cd_callbacks = [],
      cd_features = network_commissioning_features,
      cd_attributes = network_commissioning_attributes,
      cd_commands = network_commissioning_commands,
      cd_events = [],
      cd_create = Some network_commissioning_create\<rparr>"

section \<open>\<open>nitrogen_dioxide_concentration_measurement\<close>\<close>

definition nitrogen_dioxide_concentration_measurement_numeric_measurement_id :: u32 where
  "nitrogen_dioxide_concentration_measurement_numeric_measurement_id = 0x1"

definition nitrogen_dioxide_concentration_measurement_level_indication_id :: u32 where
  "nitrogen_dioxide_concentration_measurement_level_indication_id = 0x2"

definition nitrogen_dioxide_concentration_measurement_medium_level_id :: u32 where
  "nitrogen_dioxide_concentration_measurement_medium_level_id = 0x4"

definition nitrogen_dioxide_concentration_measurement_critical_level_id :: u32 where
  "nitrogen_dioxide_concentration_measurement_critical_level_id = 0x8"

definition nitrogen_dioxide_concentration_measurement_peak_measurement_id :: u32 where
  "nitrogen_dioxide_concentration_measurement_peak_measurement_id = 0x10"

definition nitrogen_dioxide_concentration_measurement_average_measurement_id :: u32 where
  "nitrogen_dioxide_concentration_measurement_average_measurement_id = 0x20"

definition nitrogen_dioxide_concentration_measurement_attribute_measured_value :: attr_fn where
  "nitrogen_dioxide_concentration_measurement_attribute_measured_value =
     guarded (Has_Feature nitrogen_dioxide_concentration_measurement_numeric_measurement_id) (attr 0x0000
          (ATTRIBUTE_FLAG_MANAGED_INTERNALLY OR ATTRIBUTE_FLAG_NULLABLE) VT_NULLABLE_FLOAT)"

definition nitrogen_dioxide_concentration_measurement_attribute_min_measured_value :: attr_fn where
  "nitrogen_dioxide_concentration_measurement_attribute_min_measured_value =
     guarded (Has_Feature nitrogen_dioxide_concentration_measurement_numeric_measurement_id) (attr 0x0001
          (ATTRIBUTE_FLAG_MANAGED_INTERNALLY OR ATTRIBUTE_FLAG_NULLABLE) VT_NULLABLE_FLOAT)"

definition nitrogen_dioxide_concentration_measurement_attribute_max_measured_value :: attr_fn where
  "nitrogen_dioxide_concentration_measurement_attribute_max_measured_value =
     guarded (Has_Feature nitrogen_dioxide_concentration_measurement_numeric_measurement_id) (attr 0x0002
          (ATTRIBUTE_FLAG_MANAGED_INTERNALLY OR ATTRIBUTE_FLAG_NULLABLE) VT_NULLABLE_FLOAT)"

definition nitrogen_dioxide_concentration_measurement_attribute_peak_measured_value :: attr_fn where
  "nitrogen_dioxide_concentration_measurement_attribute_peak_measured_value =
     guarded (Has_Feature nitrogen_dioxide_concentration_measurement_peak_measurement_id) (attr 0x0003
          (ATTRIBUTE_FLAG_MANAGED_INTERNALLY OR ATTRIBUTE_FLAG_NULLABLE) VT_NULLABLE_FLOAT)"

definition nitrogen_dioxide_concentration_measurement_attribute_peak_measured_value_window :: attr_fn where
  "nitrogen_dioxide_concentration_measurement_attribute_peak_measured_value_window =
     guarded (Has_Feature nitrogen_dioxide_concentration_measurement_peak_measurement_id) (attr 0x0004
          ATTRIBUTE_FLAG_MANAGED_INTERNALLY VT_UINT32)"

definition nitrogen_dioxide_concentration_measurement_attribute_average_measured_value :: attr_fn where
  "nitrogen_dioxide_concentration_measurement_attribute_average_measured_value =
     guarded (Has_Feature nitrogen_dioxide_concentration_measurement_average_measurement_id) (attr 0x0005
          (ATTRIBUTE_FLAG_MANAGED_INTERNALLY OR ATTRIBUTE_FLAG_NULLABLE) VT_NULLABLE_FLOAT)"

definition nitrogen_dioxide_concentration_measurement_attribute_average_measured_value_window :: attr_fn where
  "nitrogen_dioxide_concentration_measurement_attribute_average_measured_value_window =
     guarded (Has_Feature nitrogen_dioxide_concentration_measurement_average_measurement_id) (attr 0x0006
          ATTRIBUTE_FLAG_MANAGED_INTERNALLY VT_UINT32)"

definition nitrogen_dioxide_concentration_measurement_attribute_uncertainty :: attr_fn where
  "nitrogen_dioxide_concentration_measurement_attribute_uncertainty =
     attr 0x0007 ATTRIBUTE_FLAG_MANAGED_INTERNALLY VT_FLOAT"

definition nitrogen_dioxide_concentration_measurement_attribute_measurement_unit :: attr_fn where
  "nitrogen_dioxide_concentration_measurement_attribute_measurement_unit =
     guarded (Has_Feature nitrogen_dioxide_concentration_measurement_numeric_measurement_id) (attr 0x0008
          ATTRIBUTE_FLAG_MANAGED_INTERNALLY VT_ENUM8)"

definition nitrogen_dioxide_concentration_measurement_attribute_measurement_medium :: attr_fn where
  "nitrogen_dioxide_concentration_measurement_attribute_measurement_medium =
     attr 0x0009 ATTRIBUTE_FLAG_MANAGED_INTERNALLY VT_ENUM8"

definition nitrogen_dioxide_concentration_measurement_attribute_level_value :: attr_fn where
  "nitrogen_dioxide_concentration_measurement_attribute_level_value =
     guarded (Has_Feature nitrogen_dioxide_concentration_measurement_level_indication_id) (attr 0x000A
          ATTRIBUTE_FLAG_MANAGED_INTERNALLY VT_ENUM8)"

definition nitrogen_dioxide_concentration_measurement_feature_numeric_measurement :: feature_fn where
  "nitrogen_dioxide_concentration_measurement_feature_numeric_measurement =
     feature nitrogen_dioxide_concentration_measurement_numeric_measurement_id False [Update_Feature_Map,
        Attribute nitrogen_dioxide_concentration_measurement_attribute_measured_value (Lit 0),
        Attribute nitrogen_dioxide_concentration_measurement_attribute_min_measured_value (Lit 0),
        Attribute nitrogen_dioxide_concentration_measurement_attribute_max_measured_value (Lit 0),
        Attribute nitrogen_dioxide_concentration_measurement_attribute_measurement_unit (Lit 0)]"

definition nitrogen_dioxide_concentration_measurement_feature_level_indication :: feature_fn where
  "nitrogen_dioxide_concentration_measurement_feature_level_indication =
     feature nitrogen_dioxide_concentration_measurement_level_indication_id False [Update_Feature_Map,
        Attribute nitrogen_dioxide_concentration_measurement_attribute_level_value (Lit 0)]"

definition nitrogen_dioxide_concentration_measurement_feature_medium_level :: feature_fn where
  "nitrogen_dioxide_concentration_measurement_feature_medium_level =
     feature nitrogen_dioxide_concentration_measurement_medium_level_id False [Require (Has_Feature
          nitrogen_dioxide_concentration_measurement_level_indication_id), Update_Feature_Map]"

definition nitrogen_dioxide_concentration_measurement_feature_critical_level :: feature_fn where
  "nitrogen_dioxide_concentration_measurement_feature_critical_level =
     feature nitrogen_dioxide_concentration_measurement_critical_level_id False [Require (Has_Feature
          nitrogen_dioxide_concentration_measurement_level_indication_id), Update_Feature_Map]"

definition nitrogen_dioxide_concentration_measurement_feature_peak_measurement :: feature_fn where
  "nitrogen_dioxide_concentration_measurement_feature_peak_measurement =
     feature nitrogen_dioxide_concentration_measurement_peak_measurement_id False [Require (Has_Feature
          nitrogen_dioxide_concentration_measurement_numeric_measurement_id), Update_Feature_Map,
        Attribute nitrogen_dioxide_concentration_measurement_attribute_peak_measured_value (Lit 0),
        Attribute nitrogen_dioxide_concentration_measurement_attribute_peak_measured_value_window (Lit 0)]"

definition nitrogen_dioxide_concentration_measurement_feature_average_measurement :: feature_fn where
  "nitrogen_dioxide_concentration_measurement_feature_average_measurement =
     feature nitrogen_dioxide_concentration_measurement_average_measurement_id False [Require (Has_Feature
          nitrogen_dioxide_concentration_measurement_numeric_measurement_id), Update_Feature_Map,
        Attribute nitrogen_dioxide_concentration_measurement_attribute_average_measured_value (Lit 0),
        Attribute nitrogen_dioxide_concentration_measurement_attribute_average_measured_value_window (Lit 0)]"

definition nitrogen_dioxide_concentration_measurement_create :: cluster_fn where
  "nitrogen_dioxide_concentration_measurement_create =
     \<lparr>kf_id = 0x0413,
      kf_revision = 3,
      kf_functions = None,
      kf_function_flags = 0,
      kf_body = [Plugin ''MatterNitrogenDioxideConcentrationMeasurementPluginServerInitCallback'', Functions,
        Config_Feature_Map, Cluster_Revision,
        Step (Attribute nitrogen_dioxide_concentration_measurement_attribute_measurement_medium (Lit 0)),
        Validate k_at_least_one [nitrogen_dioxide_concentration_measurement_numeric_measurement_id,
        nitrogen_dioxide_concentration_measurement_level_indication_id],
        If_Feature nitrogen_dioxide_concentration_measurement_numeric_measurement_id [Add_Feature
          nitrogen_dioxide_concentration_measurement_feature_numeric_measurement ''numeric_measurement''] [],
        If_Feature nitrogen_dioxide_concentration_measurement_level_indication_id [Add_Feature
          nitrogen_dioxide_concentration_measurement_feature_level_indication ''level_indication''] [],
        If_Feature nitrogen_dioxide_concentration_measurement_medium_level_id [Add_Feature
          nitrogen_dioxide_concentration_measurement_feature_medium_level ''medium_level''] [],
        If_Feature nitrogen_dioxide_concentration_measurement_critical_level_id [Add_Feature
          nitrogen_dioxide_concentration_measurement_feature_critical_level ''critical_level''] [],
        If_Feature nitrogen_dioxide_concentration_measurement_peak_measurement_id [Add_Feature
          nitrogen_dioxide_concentration_measurement_feature_peak_measurement ''peak_measurement''] [],
        If_Feature nitrogen_dioxide_concentration_measurement_average_measurement_id [Add_Feature
          nitrogen_dioxide_concentration_measurement_feature_average_measurement ''average_measurement''] []],
      kf_binding = True\<rparr>"

definition nitrogen_dioxide_concentration_measurement_ids :: cluster_ids where
  "nitrogen_dioxide_concentration_measurement_ids =
     \<lparr>ci_cluster = 0x0413,
      ci_features = [(''NumericMeasurement'', 0x1), (''LevelIndication'', 0x2), (''MediumLevel'', 0x4),
        (''CriticalLevel'', 0x8), (''PeakMeasurement'', 0x10), (''AverageMeasurement'', 0x20)],
      ci_attributes = [(''MeasuredValue'', 0x0000), (''MinMeasuredValue'', 0x0001), (''MaxMeasuredValue'',
        0x0002), (''PeakMeasuredValue'', 0x0003), (''PeakMeasuredValueWindow'', 0x0004),
        (''AverageMeasuredValue'', 0x0005), (''AverageMeasuredValueWindow'', 0x0006), (''Uncertainty'', 0x0007),
        (''MeasurementUnit'', 0x0008), (''MeasurementMedium'', 0x0009), (''LevelValue'', 0x000A)],
      ci_commands = [],
      ci_events = []\<rparr>"

definition nitrogen_dioxide_concentration_measurement_features :: "feature_fn list" where
  "nitrogen_dioxide_concentration_measurement_features =
     [nitrogen_dioxide_concentration_measurement_feature_numeric_measurement,
        nitrogen_dioxide_concentration_measurement_feature_level_indication,
        nitrogen_dioxide_concentration_measurement_feature_medium_level,
        nitrogen_dioxide_concentration_measurement_feature_critical_level,
        nitrogen_dioxide_concentration_measurement_feature_peak_measurement,
        nitrogen_dioxide_concentration_measurement_feature_average_measurement]"

definition nitrogen_dioxide_concentration_measurement_attributes :: "attr_fn list" where
  "nitrogen_dioxide_concentration_measurement_attributes =
     [nitrogen_dioxide_concentration_measurement_attribute_measured_value,
        nitrogen_dioxide_concentration_measurement_attribute_min_measured_value,
        nitrogen_dioxide_concentration_measurement_attribute_max_measured_value,
        nitrogen_dioxide_concentration_measurement_attribute_peak_measured_value,
        nitrogen_dioxide_concentration_measurement_attribute_peak_measured_value_window,
        nitrogen_dioxide_concentration_measurement_attribute_average_measured_value,
        nitrogen_dioxide_concentration_measurement_attribute_average_measured_value_window,
        nitrogen_dioxide_concentration_measurement_attribute_uncertainty,
        nitrogen_dioxide_concentration_measurement_attribute_measurement_unit,
        nitrogen_dioxide_concentration_measurement_attribute_measurement_medium,
        nitrogen_dioxide_concentration_measurement_attribute_level_value]"

definition nitrogen_dioxide_concentration_measurement_cluster :: cluster_decl where
  "nitrogen_dioxide_concentration_measurement_cluster =
     \<lparr>cd_ids = nitrogen_dioxide_concentration_measurement_ids,
      cd_callbacks = [],
      cd_features = nitrogen_dioxide_concentration_measurement_features,
      cd_attributes = nitrogen_dioxide_concentration_measurement_attributes,
      cd_commands = [],
      cd_events = [],
      cd_create = Some nitrogen_dioxide_concentration_measurement_create\<rparr>"

section \<open>\<open>occupancy_sensing\<close>\<close>

definition occupancy_sensing_other_id :: u32 where
  "occupancy_sensing_other_id = 0x1"

definition occupancy_sensing_passive_infrared_id :: u32 where
  "occupancy_sensing_passive_infrared_id = 0x2"

definition occupancy_sensing_ultrasonic_id :: u32 where
  "occupancy_sensing_ultrasonic_id = 0x4"

definition occupancy_sensing_physical_contact_id :: u32 where
  "occupancy_sensing_physical_contact_id = 0x8"

definition occupancy_sensing_active_infrared_id :: u32 where
  "occupancy_sensing_active_infrared_id = 0x10"

definition occupancy_sensing_radar_id :: u32 where
  "occupancy_sensing_radar_id = 0x20"

definition occupancy_sensing_rf_sensing_id :: u32 where
  "occupancy_sensing_rf_sensing_id = 0x40"

definition occupancy_sensing_vision_id :: u32 where
  "occupancy_sensing_vision_id = 0x80"

definition occupancy_sensing_attribute_occupancy :: attr_fn where
  "occupancy_sensing_attribute_occupancy =
     bounded 0 1 (attr 0x0000 0 VT_BITMAP8)"

definition occupancy_sensing_attribute_occupancy_sensor_type :: attr_fn where
  "occupancy_sensing_attribute_occupancy_sensor_type =
     bounded 0 3 (attr 0x0001 0 VT_ENUM8)"

definition occupancy_sensing_attribute_occupancy_sensor_type_bitmap :: attr_fn where
  "occupancy_sensing_attribute_occupancy_sensor_type_bitmap =
     bounded 0 7 (attr 0x0002 0 VT_BITMAP8)"

definition occupancy_sensing_attribute_hold_time :: attr_fn where
  "occupancy_sensing_attribute_hold_time =
     bounded 0 65534 (attr 0x0003 (ATTRIBUTE_FLAG_WRITABLE OR ATTRIBUTE_FLAG_NONVOLATILE) VT_UINT16)"

definition occupancy_sensing_attribute_hold_time_limits :: attr_fn where
  "occupancy_sensing_attribute_hold_time_limits =
     guarded (Has_Attribute 0x0003) (attr 0x0004 ATTRIBUTE_FLAG_MANAGED_INTERNALLY VT_ARRAY)"

definition occupancy_sensing_attribute_pir_occupied_to_unoccupied_delay :: attr_fn where
  "occupancy_sensing_attribute_pir_occupied_to_unoccupied_delay =
     bounded 0 65534 (attr 0x0010 (ATTRIBUTE_FLAG_WRITABLE OR ATTRIBUTE_FLAG_NONVOLATILE) VT_UINT16)"

definition occupancy_sensing_attribute_pir_unoccupied_to_occupied_delay :: attr_fn where
  "occupancy_sensing_attribute_pir_unoccupied_to_occupied_delay =
     bounded 0 65534 (attr 0x0011 (ATTRIBUTE_FLAG_WRITABLE OR ATTRIBUTE_FLAG_NONVOLATILE) VT_UINT16)"

definition occupancy_sensing_attribute_pir_unoccupied_to_occupied_threshold :: attr_fn where
  "occupancy_sensing_attribute_pir_unoccupied_to_occupied_threshold =
     bounded 1 254 (attr 0x0012 (ATTRIBUTE_FLAG_WRITABLE OR ATTRIBUTE_FLAG_NONVOLATILE) VT_UINT8)"

definition occupancy_sensing_attribute_ultrasonic_occupied_to_unoccupied_delay :: attr_fn where
  "occupancy_sensing_attribute_ultrasonic_occupied_to_unoccupied_delay =
     bounded 0 65534 (attr 0x0020 (ATTRIBUTE_FLAG_WRITABLE OR ATTRIBUTE_FLAG_NONVOLATILE) VT_UINT16)"

definition occupancy_sensing_attribute_ultrasonic_unoccupied_to_occupied_delay :: attr_fn where
  "occupancy_sensing_attribute_ultrasonic_unoccupied_to_occupied_delay =
     bounded 0 65534 (attr 0x0021 (ATTRIBUTE_FLAG_WRITABLE OR ATTRIBUTE_FLAG_NONVOLATILE) VT_UINT16)"

definition occupancy_sensing_attribute_ultrasonic_unoccupied_to_occupied_threshold :: attr_fn where
  "occupancy_sensing_attribute_ultrasonic_unoccupied_to_occupied_threshold =
     bounded 1 254 (attr 0x0022 (ATTRIBUTE_FLAG_WRITABLE OR ATTRIBUTE_FLAG_NONVOLATILE) VT_UINT8)"

definition occupancy_sensing_attribute_physical_contact_occupied_to_unoccupied_delay :: attr_fn where
  "occupancy_sensing_attribute_physical_contact_occupied_to_unoccupied_delay =
     bounded 0 65534 (attr 0x0030 (ATTRIBUTE_FLAG_WRITABLE OR ATTRIBUTE_FLAG_NONVOLATILE) VT_UINT16)"

definition occupancy_sensing_attribute_physical_contact_unoccupied_to_occupied_delay :: attr_fn where
  "occupancy_sensing_attribute_physical_contact_unoccupied_to_occupied_delay =
     bounded 0 65534 (attr 0x0031 (ATTRIBUTE_FLAG_WRITABLE OR ATTRIBUTE_FLAG_NONVOLATILE) VT_UINT16)"

definition occupancy_sensing_attribute_physical_contact_unoccupied_to_occupied_threshold :: attr_fn where
  "occupancy_sensing_attribute_physical_contact_unoccupied_to_occupied_threshold =
     bounded 1 254 (attr 0x0032 (ATTRIBUTE_FLAG_WRITABLE OR ATTRIBUTE_FLAG_NONVOLATILE) VT_UINT8)"

definition occupancy_sensing_event_occupancy_changed :: event_fn where
  "occupancy_sensing_event_occupancy_changed =
     event 0x00"

definition occupancy_sensing_feature_other :: feature_fn where
  "occupancy_sensing_feature_other =
     feature occupancy_sensing_other_id False [Update_Feature_Map]"

definition occupancy_sensing_feature_passive_infrared :: feature_fn where
  "occupancy_sensing_feature_passive_infrared =
     feature occupancy_sensing_passive_infrared_id True [Update_Feature_Map,
        Attribute occupancy_sensing_attribute_pir_unoccupied_to_occupied_delay (Field
          ''pir_unoccupied_to_occupied_delay''),
        Attribute occupancy_sensing_attribute_pir_unoccupied_to_occupied_threshold (Field
          ''pir_unoccupied_to_occupied_threshold'')]"

definition occupancy_sensing_feature_ultrasonic :: feature_fn where
  "occupancy_sensing_feature_ultrasonic =
     feature occupancy_sensing_ultrasonic_id True [Update_Feature_Map,
        Attribute occupancy_sensing_attribute_ultrasonic_unoccupied_to_occupied_delay (Field
          ''ultrasonic_unoccupied_to_occupied_delay''),
        Attribute occupancy_sensing_attribute_ultrasonic_unoccupied_to_occupied_threshold (Field
          ''ultrasonic_unoccupied_to_occupied_threshold'')]"

definition occupancy_sensing_feature_physical_contact :: feature_fn where
  "occupancy_sensing_feature_physical_contact =
     feature occupancy_sensing_physical_contact_id True [Update_Feature_Map,
        Attribute occupancy_sensing_attribute_physical_contact_unoccupied_to_occupied_delay (Field
          ''physical_contact_unoccupied_to_occupied_delay''),
        Attribute occupancy_sensing_attribute_physical_contact_unoccupied_to_occupied_threshold (Field
          ''physical_contact_unoccupied_to_occupied_threshold'')]"

definition occupancy_sensing_feature_active_infrared :: feature_fn where
  "occupancy_sensing_feature_active_infrared =
     feature occupancy_sensing_active_infrared_id False [Update_Feature_Map]"

definition occupancy_sensing_feature_radar :: feature_fn where
  "occupancy_sensing_feature_radar =
     feature occupancy_sensing_radar_id False [Update_Feature_Map]"

definition occupancy_sensing_feature_rf_sensing :: feature_fn where
  "occupancy_sensing_feature_rf_sensing =
     feature occupancy_sensing_rf_sensing_id False [Update_Feature_Map]"

definition occupancy_sensing_feature_vision :: feature_fn where
  "occupancy_sensing_feature_vision =
     feature occupancy_sensing_vision_id False [Update_Feature_Map]"

definition occupancy_sensing_create :: cluster_fn where
  "occupancy_sensing_create =
     \<lparr>kf_id = 0x0406,
      kf_revision = 5,
      kf_functions = None,
      kf_function_flags = 0,
      kf_body = [Plugin ''MatterOccupancySensingPluginServerInitCallback'', Functions, Config_Feature_Map,
        Cluster_Revision, Step (Attribute occupancy_sensing_attribute_occupancy (Field ''occupancy'')),
        Step (Attribute occupancy_sensing_attribute_occupancy_sensor_type (Field ''occupancy_sensor_type'')),
        Step (Attribute occupancy_sensing_attribute_occupancy_sensor_type_bitmap (Field
          ''occupancy_sensor_type_bitmap'')), Validate k_at_least_one [occupancy_sensing_other_id,
        occupancy_sensing_active_infrared_id, occupancy_sensing_passive_infrared_id, occupancy_sensing_radar_id,
        occupancy_sensing_ultrasonic_id, occupancy_sensing_rf_sensing_id, occupancy_sensing_physical_contact_id,
        occupancy_sensing_vision_id],
        If_Feature occupancy_sensing_other_id [Add_Feature occupancy_sensing_feature_other ''other''] [],
        If_Feature occupancy_sensing_active_infrared_id [Add_Feature occupancy_sensing_feature_active_infrared
          ''active_infrared''] [],
        If_Feature occupancy_sensing_passive_infrared_id [Add_Feature
          occupancy_sensing_feature_passive_infrared ''passive_infrared''] [],
        If_Feature occupancy_sensing_radar_id [Add_Feature occupancy_sensing_feature_radar ''radar''] [],
        If_Feature occupancy_sensing_ultrasonic_id [Add_Feature occupancy_sensing_feature_ultrasonic
          ''ultrasonic''] [],
        If_Feature occupancy_sensing_rf_sensing_id [Add_Feature occupancy_sensing_feature_rf_sensing
          ''rf_sensing''] [],
        If_Feature occupancy_sensing_physical_contact_id [Add_Feature
          occupancy_sensing_feature_physical_contact ''physical_contact''] [],
        If_Feature occupancy_sensing_vision_id [Add_Feature occupancy_sensing_feature_vision ''vision''] [],
        Callbacks ''ESPMatterOccupancySensingClusterServerInitCallback''
          ''ESPMatterOccupancySensingClusterServerShutdownCallback''],
      kf_binding = True\<rparr>"

definition occupancy_sensing_ids :: cluster_ids where
  "occupancy_sensing_ids =
     \<lparr>ci_cluster = 0x0406,
      ci_features = [(''Other'', 0x1), (''PassiveInfrared'', 0x2), (''Ultrasonic'', 0x4), (''PhysicalContact'',
        0x8), (''ActiveInfrared'', 0x10), (''Radar'', 0x20), (''RFSensing'', 0x40), (''Vision'', 0x80)],
      ci_attributes = [(''Occupancy'', 0x0000), (''OccupancySensorType'', 0x0001),
        (''OccupancySensorTypeBitmap'', 0x0002), (''HoldTime'', 0x0003), (''HoldTimeLimits'', 0x0004),
        (''PIROccupiedToUnoccupiedDelay'', 0x0010), (''PIRUnoccupiedToOccupiedDelay'', 0x0011),
        (''PIRUnoccupiedToOccupiedThreshold'', 0x0012), (''UltrasonicOccupiedToUnoccupiedDelay'', 0x0020),
        (''UltrasonicUnoccupiedToOccupiedDelay'', 0x0021), (''UltrasonicUnoccupiedToOccupiedThreshold'',
        0x0022), (''PhysicalContactOccupiedToUnoccupiedDelay'', 0x0030),
        (''PhysicalContactUnoccupiedToOccupiedDelay'', 0x0031),
        (''PhysicalContactUnoccupiedToOccupiedThreshold'', 0x0032)],
      ci_commands = [],
      ci_events = [(''OccupancyChanged'', 0x00)]\<rparr>"

definition occupancy_sensing_features :: "feature_fn list" where
  "occupancy_sensing_features =
     [occupancy_sensing_feature_other, occupancy_sensing_feature_passive_infrared,
        occupancy_sensing_feature_ultrasonic, occupancy_sensing_feature_physical_contact,
        occupancy_sensing_feature_active_infrared, occupancy_sensing_feature_radar,
        occupancy_sensing_feature_rf_sensing, occupancy_sensing_feature_vision]"

definition occupancy_sensing_attributes :: "attr_fn list" where
  "occupancy_sensing_attributes =
     [occupancy_sensing_attribute_occupancy, occupancy_sensing_attribute_occupancy_sensor_type,
        occupancy_sensing_attribute_occupancy_sensor_type_bitmap, occupancy_sensing_attribute_hold_time,
        occupancy_sensing_attribute_hold_time_limits,
        occupancy_sensing_attribute_pir_occupied_to_unoccupied_delay,
        occupancy_sensing_attribute_pir_unoccupied_to_occupied_delay,
        occupancy_sensing_attribute_pir_unoccupied_to_occupied_threshold,
        occupancy_sensing_attribute_ultrasonic_occupied_to_unoccupied_delay,
        occupancy_sensing_attribute_ultrasonic_unoccupied_to_occupied_delay,
        occupancy_sensing_attribute_ultrasonic_unoccupied_to_occupied_threshold,
        occupancy_sensing_attribute_physical_contact_occupied_to_unoccupied_delay,
        occupancy_sensing_attribute_physical_contact_unoccupied_to_occupied_delay,
        occupancy_sensing_attribute_physical_contact_unoccupied_to_occupied_threshold]"

definition occupancy_sensing_events :: "event_fn list" where
  "occupancy_sensing_events =
     [occupancy_sensing_event_occupancy_changed]"

definition occupancy_sensing_cluster :: cluster_decl where
  "occupancy_sensing_cluster =
     \<lparr>cd_ids = occupancy_sensing_ids,
      cd_callbacks = [],
      cd_features = occupancy_sensing_features,
      cd_attributes = occupancy_sensing_attributes,
      cd_commands = [],
      cd_events = occupancy_sensing_events,
      cd_create = Some occupancy_sensing_create\<rparr>"

section \<open>Checks\<close>

definition additive_07 :: "cluster_decl list" where
  "additive_07 =
     [localization_configuration_cluster, low_power_cluster, media_input_cluster, media_playback_cluster,
        messages_cluster, meter_identification_cluster, microwave_oven_control_cluster,
        microwave_oven_mode_cluster, mode_base_cluster, mode_select_cluster, network_commissioning_cluster,
        nitrogen_dioxide_concentration_measurement_cluster, occupancy_sensing_cluster]"

lemma additive_07_ok: "list_all decl_ok additive_07"
  by code_simp

lemma additive_07_order: "list_all (\<lambda>d. order_ok (cd_features d)) additive_07"
  by code_simp

end
