(* ===== verification/EM_Clusters_08.thy ===== *)
theory EM_Clusters_08
  imports EM_Order
begin

text \<open>
  The generated clusters \<open>on_off\<close> to \<open>pm2_5_concentration_measurement\<close>:
  one definition for each function and id table of their files, and the checks of the descriptions.
\<close>

section \<open>\<open>on_off\<close>\<close>

definition on_off_lighting_id :: u32 where
  "on_off_lighting_id = 0x1"

definition on_off_dead_front_behavior_id :: u32 where
  "on_off_dead_front_behavior_id = 0x2"

definition on_off_off_only_id :: u32 where
  "on_off_off_only_id = 0x4"

definition on_off_attribute_on_off :: attr_fn where
  "on_off_attribute_on_off =
     attr 0x0000 ATTRIBUTE_FLAG_NONVOLATILE VT_BOOLEAN"

definition on_off_attribute_global_scene_control :: attr_fn where
  "on_off_attribute_global_scene_control =
     guarded (Has_Feature on_off_lighting_id) (attr 0x4000 0 VT_BOOLEAN)"

definition on_off_attribute_on_time :: attr_fn where
  "on_off_attribute_on_time =
     guarded (Has_Feature on_off_lighting_id) (bounded 0 65534 (attr 0x4001 ATTRIBUTE_FLAG_WRITABLE VT_UINT16))"

definition on_off_attribute_off_wait_time :: attr_fn where
  "on_off_attribute_off_wait_time =
     guarded (Has_Feature on_off_lighting_id) (bounded 0 65534 (attr 0x4002 ATTRIBUTE_FLAG_WRITABLE VT_UINT16))"

definition on_off_attribute_start_up_on_off :: attr_fn where
  "on_off_attribute_start_up_on_off =
     guarded (Has_Feature on_off_lighting_id) (bounded 0 2 (attr 0x4003 (ATTRIBUTE_FLAG_WRITABLE OR
          ATTRIBUTE_FLAG_NULLABLE OR ATTRIBUTE_FLAG_NONVOLATILE) VT_NULLABLE_ENUM8))"

definition on_off_callback_off :: callback_fn where
  "on_off_callback_off =
     decodes_to ''OnOff::Commands::Off'' ''emberAfOnOffClusterOffCallback''"

definition on_off_callback_on :: callback_fn where
  "on_off_callback_on =
     decodes_to ''OnOff::Commands::On'' ''emberAfOnOffClusterOnCallback''"

definition on_off_callback_toggle :: callback_fn where
  "on_off_callback_toggle =
     decodes_to ''OnOff::Commands::Toggle'' ''emberAfOnOffClusterToggleCallback''"

definition on_off_callback_off_with_effect :: callback_fn where
  "on_off_callback_off_with_effect =
     decodes_to ''OnOff::Commands::OffWithEffect'' ''emberAfOnOffClusterOffWithEffectCallback''"

definition on_off_callback_on_with_recall_global_scene :: callback_fn where
  "on_off_callback_on_with_recall_global_scene =
     decodes_to ''OnOff::Commands::OnWithRecallGlobalScene'' ''emberAfOnOffClusterOnWithRecallGlobalSceneCallback''"

definition on_off_callback_on_with_timed_off :: callback_fn where
  "on_off_callback_on_with_timed_off =
     decodes_to ''OnOff::Commands::OnWithTimedOff'' ''emberAfOnOffClusterOnWithTimedOffCallback''"

definition on_off_command_off :: cmd_fn where
  "on_off_command_off =
     cmd 0x00 COMMAND_FLAG_ACCEPTED (Some ''on_off.esp_matter_command_callback_off'')"

definition on_off_command_on :: cmd_fn where
  "on_off_command_on =
     guarded_cmd (Not (Has_Feature on_off_off_only_id)) (cmd 0x01 COMMAND_FLAG_ACCEPTED (Some
          ''on_off.esp_matter_command_callback_on''))"

definition on_off_command_toggle :: cmd_fn where
  "on_off_command_toggle =
     guarded_cmd (Not (Has_Feature on_off_off_only_id)) (cmd 0x02 COMMAND_FLAG_ACCEPTED (Some
          ''on_off.esp_matter_command_callback_toggle''))"

definition on_off_command_off_with_effect :: cmd_fn where
  "on_off_command_off_with_effect =
     guarded_cmd (Has_Feature on_off_lighting_id) (cmd 0x40 COMMAND_FLAG_ACCEPTED (Some
          ''on_off.esp_matter_command_callback_off_with_effect''))"

definition on_off_command_on_with_recall_global_scene :: cmd_fn where
  "on_off_command_on_with_recall_global_scene =
     guarded_cmd (Has_Feature on_off_lighting_id) (cmd 0x41 COMMAND_FLAG_ACCEPTED (Some
          ''on_off.esp_matter_command_callback_on_with_recall_global_scene''))"

definition on_off_command_on_with_timed_off :: cmd_fn where
  "on_off_command_on_with_timed_off =
     guarded_cmd (Has_Feature on_off_lighting_id) (cmd 0x42 COMMAND_FLAG_ACCEPTED (Some
          ''on_off.esp_matter_command_callback_on_with_timed_off''))"

definition on_off_feature_lighting :: feature_fn where
  "on_off_feature_lighting =
     feature on_off_lighting_id True [Require (Not (Has_Feature on_off_off_only_id)), Update_Feature_Map,
        Attribute on_off_attribute_global_scene_control (Field ''global_scene_control''),
        Attribute on_off_attribute_on_time (Field ''on_time''),
        Attribute on_off_attribute_off_wait_time (Field ''off_wait_time''),
        Attribute on_off_attribute_start_up_on_off (Field ''start_up_on_off''),
        Command on_off_command_off_with_effect, Command on_off_command_on_with_recall_global_scene,
        Command on_off_command_on_with_timed_off]"

definition on_off_feature_dead_front_behavior :: feature_fn where
  "on_off_feature_dead_front_behavior =
     feature on_off_dead_front_behavior_id False [Require (Not (Has_Feature on_off_off_only_id)), Update_Feature_Map]"

definition on_off_feature_off_only :: feature_fn where
  "on_off_feature_off_only =
     feature on_off_off_only_id False [Require (Not (Or (Has_Feature on_off_lighting_id) (Has_Feature
          on_off_dead_front_behavior_id))), Update_Feature_Map, Destroy_Command 0x01, Destroy_Command 0x02]"

definition on_off_function_list :: "string list option" where
  "on_off_function_list =
     Some [''emberAfOnOffClusterServerInitCallback'', ''MatterOnOffClusterServerShutdownCallback'']"

definition on_off_create :: cluster_fn where
  "on_off_create =
     \<lparr>kf_id = 0x0006,
      kf_revision = 6,
      kf_functions = on_off_function_list,
      kf_function_flags = CLUSTER_FLAG_INIT_FUNCTION OR CLUSTER_FLAG_SHUTDOWN_FUNCTION,
      kf_body = [Plugin ''MatterOnOffPluginServerInitCallback'', Functions, Feature_Map 0, Cluster_Revision,
        Step (Attribute on_off_attribute_on_off (Field ''on_off'')), Step (Command on_off_command_off),
        Step (Command on_off_command_on), Step (Command on_off_command_toggle)],
      kf_binding = True\<rparr>"

definition on_off_ids :: cluster_ids where
  "on_off_ids =
     \<lparr>ci_cluster = 0x0006,
      ci_features = [(''Lighting'', 0x1), (''DeadFrontBehavior'', 0x2), (''OffOnly'', 0x4)],
      ci_attributes = [(''OnOff'', 0x0000), (''GlobalSceneControl'', 0x4000), (''OnTime'', 0x4001),
        (''OffWaitTime'', 0x4002), (''StartUpOnOff'', 0x4003)],
      ci_commands = [(''Off'', 0x00), (''On'', 0x01), (''Toggle'', 0x02), (''OffWithEffect'', 0x40),
        (''OnWithRecallGlobalScene'', 0x41), (''OnWithTimedOff'', 0x42)],
      ci_events = []\<rparr>"

definition on_off_features :: "feature_fn list" where
  "on_off_features =
     [on_off_feature_lighting, on_off_feature_dead_front_behavior, on_off_feature_off_only]"

definition on_off_attributes :: "attr_fn list" where
  "on_off_attributes =
     [on_off_attribute_on_off, on_off_attribute_global_scene_control, on_off_attribute_on_time,
        on_off_attribute_off_wait_time, on_off_attribute_start_up_on_off]"

definition on_off_commands :: "cmd_fn list" where
  "on_off_commands =
     [on_off_command_off, on_off_command_on, on_off_command_toggle, on_off_command_off_with_effect,
        on_off_command_on_with_recall_global_scene, on_off_command_on_with_timed_off]"

definition on_off_callbacks :: "(string \<times> callback_fn) list" where
  "on_off_callbacks =
     [(''on_off.esp_matter_command_callback_off'', on_off_callback_off), (''on_off.esp_matter_command_callback_on'',
        on_off_callback_on), (''on_off.esp_matter_command_callback_toggle'', on_off_callback_toggle),
        (''on_off.esp_matter_command_callback_off_with_effect'', on_off_callback_off_with_effect),
        (''on_off.esp_matter_command_callback_on_with_recall_global_scene'',
        on_off_callback_on_with_recall_global_scene), (''on_off.esp_matter_command_callback_on_with_timed_off'',
        on_off_callback_on_with_timed_off)]"

definition on_off_cluster :: cluster_decl where
  "on_off_cluster =
     \<lparr>cd_ids = on_off_ids,
      cd_callbacks = on_off_callbacks,
      cd_features = on_off_features,
      cd_attributes = on_off_attributes,
      cd_commands = on_off_commands,
      cd_events = [],
      cd_create = Some on_off_create\<rparr>"

section \<open>\<open>operational_credentials\<close>\<close>

definition operational_credentials_attribute_no_cs :: attr_fn where
  "operational_credentials_attribute_no_cs =
     attr 0x0000 (ATTRIBUTE_FLAG_MANAGED_INTERNALLY OR ATTRIBUTE_FLAG_NONVOLATILE) VT_ARRAY"

definition operational_credentials_attribute_fabrics :: attr_fn where
  "operational_credentials_attribute_fabrics =
     attr 0x0001 (ATTRIBUTE_FLAG_MANAGED_INTERNALLY OR ATTRIBUTE_FLAG_NONVOLATILE) VT_ARRAY"

definition operational_credentials_attribute_supported_fabrics :: attr_fn where
  "operational_credentials_attribute_supported_fabrics =
     bounded 5 254 (attr 0x0002 0 VT_UINT8)"

definition operational_credentials_attribute_commissioned_fabrics :: attr_fn where
  "operational_credentials_attribute_commissioned_fabrics =
     bounded 0 254 (attr 0x0003 ATTRIBUTE_FLAG_NONVOLATILE VT_UINT8)"

definition operational_credentials_attribute_trusted_root_certificates :: attr_fn where
  "operational_credentials_attribute_trusted_root_certificates =
     attr 0x0004 (ATTRIBUTE_FLAG_MANAGED_INTERNALLY OR ATTRIBUTE_FLAG_NONVOLATILE) VT_ARRAY"

definition operational_credentials_attribute_current_fabric_index :: attr_fn where
  "operational_credentials_attribute_current_fabric_index =
     bounded 0 254 (attr 0x0005 0 VT_UINT8)"

definition operational_credentials_command_attestation_request :: cmd_fn where
  "operational_credentials_command_attestation_request =
     cmd 0x00 COMMAND_FLAG_ACCEPTED None"

definition operational_credentials_command_attestation_response :: cmd_fn where
  "operational_credentials_command_attestation_response =
     cmd 0x01 COMMAND_FLAG_GENERATED None"

definition operational_credentials_command_certificate_chain_request :: cmd_fn where
  "operational_credentials_command_certificate_chain_request =
     cmd 0x02 COMMAND_FLAG_ACCEPTED None"

definition operational_credentials_command_certificate_chain_response :: cmd_fn where
  "operational_credentials_command_certificate_chain_response =
     cmd 0x03 COMMAND_FLAG_GENERATED None"

definition operational_credentials_command_csr_request :: cmd_fn where
  "operational_credentials_command_csr_request =
     cmd 0x04 COMMAND_FLAG_ACCEPTED None"

definition operational_credentials_command_csr_response :: cmd_fn where
  "operational_credentials_command_csr_response =
     cmd 0x05 COMMAND_FLAG_GENERATED None"

definition operational_credentials_command_add_noc :: cmd_fn where
  "operational_credentials_command_add_noc =
     cmd 0x06 COMMAND_FLAG_ACCEPTED None"

definition operational_credentials_command_update_noc :: cmd_fn where
  "operational_credentials_command_update_noc =
     cmd 0x07 COMMAND_FLAG_ACCEPTED None"

definition operational_credentials_command_noc_response :: cmd_fn where
  "operational_credentials_command_noc_response =
     cmd 0x08 COMMAND_FLAG_GENERATED None"

definition operational_credentials_command_update_fabric_label :: cmd_fn where
  "operational_credentials_command_update_fabric_label =
     cmd 0x09 COMMAND_FLAG_ACCEPTED None"

definition operational_credentials_command_remove_fabric :: cmd_fn where
  "operational_credentials_command_remove_fabric =
     cmd 0x0A COMMAND_FLAG_ACCEPTED None"

definition operational_credentials_command_add_trusted_root_certificate :: cmd_fn where
  "operational_credentials_command_add_trusted_root_certificate =
     cmd 0x0B COMMAND_FLAG_ACCEPTED None"

definition operational_credentials_command_set_vid_verification_statement :: cmd_fn where
  "operational_credentials_command_set_vid_verification_statement =
     cmd 0x0C COMMAND_FLAG_ACCEPTED None"

definition operational_credentials_command_sign_vid_verification_request :: cmd_fn where
  "operational_credentials_command_sign_vid_verification_request =
     cmd 0x0D COMMAND_FLAG_ACCEPTED None"

definition operational_credentials_command_sign_vid_verification_response :: cmd_fn where
  "operational_credentials_command_sign_vid_verification_response =
     cmd 0x0E COMMAND_FLAG_GENERATED None"

definition operational_credentials_create :: cluster_fn where
  "operational_credentials_create =
     \<lparr>kf_id = 0x003E,
      kf_revision = 2,
      kf_functions = None,
      kf_function_flags = 0,
      kf_body = [Plugin ''MatterOperationalCredentialsPluginServerInitCallback'', Functions, Feature_Map 0,
        Cluster_Revision,
        Step (Attribute operational_credentials_attribute_supported_fabrics (Field ''supported_fabrics'')),
        Step (Attribute operational_credentials_attribute_commissioned_fabrics (Field
          ''commissioned_fabrics'')),
        Step (Attribute operational_credentials_attribute_current_fabric_index (Field
          ''current_fabric_index'')), Step (Attribute operational_credentials_attribute_no_cs Null_Arr),
        Step (Attribute operational_credentials_attribute_fabrics Null_Arr),
        Step (Attribute operational_credentials_attribute_trusted_root_certificates Null_Arr),
        Step (Command operational_credentials_command_attestation_request),
        Step (Command operational_credentials_command_attestation_response),
        Step (Command operational_credentials_command_certificate_chain_request),
        Step (Command operational_credentials_command_certificate_chain_response),
        Step (Command operational_credentials_command_csr_request),
        Step (Command operational_credentials_command_csr_response),
        Step (Command operational_credentials_command_add_noc),
        Step (Command operational_credentials_command_update_noc),
        Step (Command operational_credentials_command_noc_response),
        Step (Command operational_credentials_command_update_fabric_label),
        Step (Command operational_credentials_command_remove_fabric),
        Step (Command operational_credentials_command_add_trusted_root_certificate),
        Step (Command operational_credentials_command_set_vid_verification_statement),
        Step (Command operational_credentials_command_sign_vid_verification_request),
        Step (Command operational_credentials_command_sign_vid_verification_response),
        Callbacks ''ESPMatterOperationalCredentialsClusterServerInitCallback''
          ''ESPMatterOperationalCredentialsClusterServerShutdownCallback''],
      kf_binding = False\<rparr>"

definition operational_credentials_ids :: cluster_ids where
  "operational_credentials_ids =
     \<lparr>ci_cluster = 0x003E,
      ci_features = [],
      ci_attributes = [(''NOCs'', 0x0000), (''Fabrics'', 0x0001), (''SupportedFabrics'', 0x0002),
        (''CommissionedFabrics'', 0x0003), (''TrustedRootCertificates'', 0x0004), (''CurrentFabricIndex'',
        0x0005)],
      ci_commands = [(''AttestationRequest'', 0x00), (''AttestationResponse'', 0x01),
        (''CertificateChainRequest'', 0x02), (''CertificateChainResponse'', 0x03), (''CSRRequest'', 0x04),
        (''CSRResponse'', 0x05), (''AddNOC'', 0x06), (''UpdateNOC'', 0x07), (''NOCResponse'', 0x08),
        (''UpdateFabricLabel'', 0x09), (''RemoveFabric'', 0x0A), (''AddTrustedRootCertificate'', 0x0B),
        (''SetVIDVerificationStatement'', 0x0C), (''SignVIDVerificationRequest'', 0x0D),
        (''SignVIDVerificationResponse'', 0x0E)],
      ci_events = []\<rparr>"

definition operational_credentials_attributes :: "attr_fn list" where
  "operational_credentials_attributes =
     [operational_credentials_attribute_no_cs, operational_credentials_attribute_fabrics,
        operational_credentials_attribute_supported_fabrics,
        operational_credentials_attribute_commissioned_fabrics,
        operational_credentials_attribute_trusted_root_certificates,
        operational_credentials_attribute_current_fabric_index]"

definition operational_credentials_commands :: "cmd_fn list" where
  "operational_credentials_commands =
     [operational_credentials_command_attestation_request, operational_credentials_command_attestation_response,
        operational_credentials_command_certificate_chain_request,
        operational_credentials_command_certificate_chain_response, operational_credentials_command_csr_request,
        operational_credentials_command_csr_response, operational_credentials_command_add_noc,
        operational_credentials_command_update_noc, operational_credentials_command_noc_response,
        operational_credentials_command_update_fabric_label, operational_credentials_command_remove_fabric,
        operational_credentials_command_add_trusted_root_certificate,
        operational_credentials_command_set_vid_verification_statement,
        operational_credentials_command_sign_vid_verification_request,
        operational_credentials_command_sign_vid_verification_response]"

definition operational_credentials_cluster :: cluster_decl where
  "operational_credentials_cluster =
     \<lparr>cd_ids = operational_credentials_ids,
      cd_callbacks = [],
      cd_features = [],
      cd_attributes = operational_credentials_attributes,
      cd_commands = operational_credentials_commands,
      cd_events = [],
      cd_create = Some operational_credentials_create\<rparr>"

section \<open>\<open>operational_state\<close>\<close>

definition operational_state_attribute_phase_list :: attr_fn where
  "operational_state_attribute_phase_list =
     attr 0x0000 (ATTRIBUTE_FLAG_MANAGED_INTERNALLY OR ATTRIBUTE_FLAG_NULLABLE) VT_ARRAY"

definition operational_state_attribute_current_phase :: attr_fn where
  "operational_state_attribute_current_phase =
     attr 0x0001 (ATTRIBUTE_FLAG_MANAGED_INTERNALLY OR ATTRIBUTE_FLAG_NULLABLE) VT_NULLABLE_UINT8"

definition operational_state_attribute_countdown_time :: attr_fn where
  "operational_state_attribute_countdown_time =
     attr 0x0002 (ATTRIBUTE_FLAG_MANAGED_INTERNALLY OR ATTRIBUTE_FLAG_NULLABLE) VT_NULLABLE_UINT32"

definition operational_state_attribute_operational_state_list :: attr_fn where
  "operational_state_attribute_operational_state_list =
     attr 0x0003 ATTRIBUTE_FLAG_MANAGED_INTERNALLY VT_ARRAY"

definition operational_state_attribute_operational_state :: attr_fn where
  "operational_state_attribute_operational_state =
     attr 0x0004 ATTRIBUTE_FLAG_MANAGED_INTERNALLY VT_ENUM8"

definition operational_state_attribute_operational_error :: attr_fn where
  "operational_state_attribute_operational_error =
     attr 0x0005 ATTRIBUTE_FLAG_MANAGED_INTERNALLY VT_ARRAY"

definition operational_state_command_pause :: cmd_fn where
  "operational_state_command_pause =
     cmd 0x00 COMMAND_FLAG_ACCEPTED None"

definition operational_state_command_stop :: cmd_fn where
  "operational_state_command_stop =
     cmd 0x01 COMMAND_FLAG_ACCEPTED None"

definition operational_state_command_start :: cmd_fn where
  "operational_state_command_start =
     cmd 0x02 COMMAND_FLAG_ACCEPTED None"

definition operational_state_command_resume :: cmd_fn where
  "operational_state_command_resume =
     cmd 0x03 COMMAND_FLAG_ACCEPTED None"

definition operational_state_command_operational_command_response :: cmd_fn where
  "operational_state_command_operational_command_response =
     guarded_cmd (Or (Or (Or (Has_Command 0x00 COMMAND_FLAG_ACCEPTED) (Has_Command 0x01 COMMAND_FLAG_ACCEPTED))
          (Has_Command 0x02 COMMAND_FLAG_ACCEPTED)) (Has_Command 0x03 COMMAND_FLAG_ACCEPTED)) (cmd 0x04
          COMMAND_FLAG_GENERATED None)"

definition operational_state_event_operational_error :: event_fn where
  "operational_state_event_operational_error =
     event 0x00"

definition operational_state_event_operation_completion :: event_fn where
  "operational_state_event_operation_completion =
     event 0x01"

definition operational_state_create :: cluster_fn where
  "operational_state_create =
     \<lparr>kf_id = 0x0060,
      kf_revision = 3,
      kf_functions = None,
      kf_function_flags = 0,
      kf_body = [Delegate ''OperationalStateDelegateInitCB'',
        Plugin ''MatterOperationalStatePluginServerInitCallback'', Functions, Feature_Map 0, Cluster_Revision,
        Step (Attribute operational_state_attribute_phase_list Null_Arr),
        Step (Attribute operational_state_attribute_current_phase (Lit 0)),
        Step (Attribute operational_state_attribute_operational_state_list Null_Arr),
        Step (Attribute operational_state_attribute_operational_state (Lit 0)),
        Step (Attribute operational_state_attribute_operational_error Null_Arr),
        Step (Event operational_state_event_operational_error)],
      kf_binding = True\<rparr>"

definition operational_state_ids :: cluster_ids where
  "operational_state_ids =
     \<lparr>ci_cluster = 0x0060,
      ci_features = [],
      ci_attributes = [(''PhaseList'', 0x0000), (''CurrentPhase'', 0x0001), (''CountdownTime'', 0x0002),
        (''OperationalStateList'', 0x0003), (''OperationalState'', 0x0004), (''OperationalError'', 0x0005)],
      ci_commands = [(''Pause'', 0x00), (''Stop'', 0x01), (''Start'', 0x02), (''Resume'', 0x03),
        (''OperationalCommandResponse'', 0x04)],
      ci_events = [(''OperationalError'', 0x00), (''OperationCompletion'', 0x01)]\<rparr>"

definition operational_state_attributes :: "attr_fn list" where
  "operational_state_attributes =
     [operational_state_attribute_phase_list, operational_state_attribute_current_phase,
        operational_state_attribute_countdown_time, operational_state_attribute_operational_state_list,
        operational_state_attribute_operational_state, operational_state_attribute_operational_error]"

definition operational_state_commands :: "cmd_fn list" where
  "operational_state_commands =
     [operational_state_command_pause, operational_state_command_stop, operational_state_command_start,
        operational_state_command_resume, operational_state_command_operational_command_response]"

definition operational_state_events :: "event_fn list" where
  "operational_state_events =
     [operational_state_event_operational_error, operational_state_event_operation_completion]"

definition operational_state_cluster :: cluster_decl where
  "operational_state_cluster =
     \<lparr>cd_ids = operational_state_ids,
      cd_callbacks = [],
      cd_features = [],
      cd_attributes = operational_state_attributes,
      cd_commands = operational_state_commands,
      cd_events = operational_state_events,
      cd_create = Some operational_state_create\<rparr>"

section \<open>\<open>ota_software_update_provider\<close>\<close>

definition ota_software_update_provider_command_query_image :: cmd_fn where
  "ota_software_update_provider_command_query_image =
     cmd 0x00 COMMAND_FLAG_ACCEPTED None"

definition ota_software_update_provider_command_query_image_response :: cmd_fn where
  "ota_software_update_provider_command_query_image_response =
     cmd 0x01 COMMAND_FLAG_GENERATED None"

definition ota_software_update_provider_command_apply_update_request :: cmd_fn where
  "ota_software_update_provider_command_apply_update_request =
     cmd 0x02 COMMAND_FLAG_ACCEPTED None"

definition ota_software_update_provider_command_apply_update_response :: cmd_fn where
  "ota_software_update_provider_command_apply_update_response =
     cmd 0x03 COMMAND_FLAG_GENERATED None"

definition ota_software_update_provider_command_notify_update_applied :: cmd_fn where
  "ota_software_update_provider_command_notify_update_applied =
     cmd 0x04 COMMAND_FLAG_ACCEPTED None"

definition ota_software_update_provider_create :: cluster_fn where
  "ota_software_update_provider_create =
     \<lparr>kf_id = 0x0029,
      kf_revision = 1,
      kf_functions = None,
      kf_function_flags = 0,
      kf_body = [Delegate ''OtaSoftwareUpdateProviderDelegateInitCB'',
        Plugin ''MatterOtaSoftwareUpdateProviderPluginServerInitCallback'', Functions, Feature_Map 0,
        Cluster_Revision, Step (Command ota_software_update_provider_command_query_image),
        Step (Command ota_software_update_provider_command_query_image_response),
        Step (Command ota_software_update_provider_command_apply_update_request),
        Step (Command ota_software_update_provider_command_apply_update_response),
        Step (Command ota_software_update_provider_command_notify_update_applied),
        Callbacks ''ESPMatterOtaSoftwareUpdateProviderClusterServerInitCallback''
          ''ESPMatterOtaSoftwareUpdateProviderClusterServerShutdownCallback''],
      kf_binding = False\<rparr>"

definition ota_software_update_provider_ids :: cluster_ids where
  "ota_software_update_provider_ids =
     \<lparr>ci_cluster = 0x0029,
      ci_features = [],
      ci_attributes = [],
      ci_commands = [(''QueryImage'', 0x00), (''QueryImageResponse'', 0x01), (''ApplyUpdateRequest'', 0x02),
        (''ApplyUpdateResponse'', 0x03), (''NotifyUpdateApplied'', 0x04)],
      ci_events = []\<rparr>"

definition ota_software_update_provider_commands :: "cmd_fn list" where
  "ota_software_update_provider_commands =
     [ota_software_update_provider_command_query_image, ota_software_update_provider_command_query_image_response,
        ota_software_update_provider_command_apply_update_request,
        ota_software_update_provider_command_apply_update_response,
        ota_software_update_provider_command_notify_update_applied]"

definition ota_software_update_provider_cluster :: cluster_decl where
  "ota_software_update_provider_cluster =
     \<lparr>cd_ids = ota_software_update_provider_ids,
      cd_callbacks = [],
      cd_features = [],
      cd_attributes = [],
      cd_commands = ota_software_update_provider_commands,
      cd_events = [],
      cd_create = Some ota_software_update_provider_create\<rparr>"

section \<open>\<open>ota_software_update_requestor\<close>\<close>

definition ota_software_update_requestor_attribute_default_ota_providers :: attr_fn where
  "ota_software_update_requestor_attribute_default_ota_providers =
     attr 0x0000 (ATTRIBUTE_FLAG_WRITABLE OR ATTRIBUTE_FLAG_MANAGED_INTERNALLY OR ATTRIBUTE_FLAG_NONVOLATILE)
          VT_ARRAY"

definition ota_software_update_requestor_attribute_update_possible :: attr_fn where
  "ota_software_update_requestor_attribute_update_possible =
     attr 0x0001 0 VT_BOOLEAN"

definition ota_software_update_requestor_attribute_update_state :: attr_fn where
  "ota_software_update_requestor_attribute_update_state =
     bounded 0 8 (attr 0x0002 0 VT_ENUM8)"

definition ota_software_update_requestor_attribute_update_state_progress :: attr_fn where
  "ota_software_update_requestor_attribute_update_state_progress =
     bounded 0 100 (attr 0x0003 ATTRIBUTE_FLAG_NULLABLE VT_NULLABLE_UINT8)"

definition ota_software_update_requestor_callback_announce_ota_provider :: callback_fn where
  "ota_software_update_requestor_callback_announce_ota_provider =
     decodes_to ''OtaSoftwareUpdateRequestor::Commands::AnnounceOTAProvider''
          ''emberAfOtaSoftwareUpdateRequestorClusterAnnounceOTAProviderCallback''"

definition ota_software_update_requestor_command_announce_ota_provider :: cmd_fn where
  "ota_software_update_requestor_command_announce_ota_provider =
     cmd 0x00 COMMAND_FLAG_ACCEPTED (Some
          ''ota_software_update_requestor.esp_matter_command_callback_announce_ota_provider'')"

definition ota_software_update_requestor_event_state_transition :: event_fn where
  "ota_software_update_requestor_event_state_transition =
     event 0x00"

definition ota_software_update_requestor_event_version_applied :: event_fn where
  "ota_software_update_requestor_event_version_applied =
     event 0x01"

definition ota_software_update_requestor_event_download_error :: event_fn where
  "ota_software_update_requestor_event_download_error =
     event 0x02"

definition ota_software_update_requestor_create :: cluster_fn where
  "ota_software_update_requestor_create =
     \<lparr>kf_id = 0x002A,
      kf_revision = 1,
      kf_functions = None,
      kf_function_flags = 0,
      kf_body = [Plugin ''MatterOtaSoftwareUpdateRequestorPluginServerInitCallback'', Functions, Feature_Map 0,
        Cluster_Revision,
        Step (Attribute ota_software_update_requestor_attribute_update_possible (Field ''update_possible'')),
        Step (Attribute ota_software_update_requestor_attribute_update_state (Field ''update_state'')),
        Step (Attribute ota_software_update_requestor_attribute_update_state_progress (Field
          ''update_state_progress'')),
        Step (Attribute ota_software_update_requestor_attribute_default_ota_providers Null_Arr),
        Step (Event ota_software_update_requestor_event_state_transition),
        Step (Event ota_software_update_requestor_event_version_applied),
        Step (Event ota_software_update_requestor_event_download_error)],
      kf_binding = False\<rparr>"

definition ota_software_update_requestor_ids :: cluster_ids where
  "ota_software_update_requestor_ids =
     \<lparr>ci_cluster = 0x002A,
      ci_features = [],
      ci_attributes = [(''DefaultOTAProviders'', 0x0000), (''UpdatePossible'', 0x0001), (''UpdateState'',
        0x0002), (''UpdateStateProgress'', 0x0003)],
      ci_commands = [(''AnnounceOTAProvider'', 0x00)],
      ci_events = [(''StateTransition'', 0x00), (''VersionApplied'', 0x01), (''DownloadError'', 0x02)]\<rparr>"

definition ota_software_update_requestor_attributes :: "attr_fn list" where
  "ota_software_update_requestor_attributes =
     [ota_software_update_requestor_attribute_default_ota_providers,
        ota_software_update_requestor_attribute_update_possible,
        ota_software_update_requestor_attribute_update_state,
        ota_software_update_requestor_attribute_update_state_progress]"

definition ota_software_update_requestor_commands :: "cmd_fn list" where
  "ota_software_update_requestor_commands =
     [ota_software_update_requestor_command_announce_ota_provider]"

definition ota_software_update_requestor_events :: "event_fn list" where
  "ota_software_update_requestor_events =
     [ota_software_update_requestor_event_state_transition, ota_software_update_requestor_event_version_applied,
        ota_software_update_requestor_event_download_error]"

definition ota_software_update_requestor_callbacks :: "(string \<times> callback_fn) list" where
  "ota_software_update_requestor_callbacks =
     [(''ota_software_update_requestor.esp_matter_command_callback_announce_ota_provider'',
        ota_software_update_requestor_callback_announce_ota_provider)]"

definition ota_software_update_requestor_cluster :: cluster_decl where
  "ota_software_update_requestor_cluster =
     \<lparr>cd_ids = ota_software_update_requestor_ids,
      cd_callbacks = ota_software_update_requestor_callbacks,
      cd_features = [],
      cd_attributes = ota_software_update_requestor_attributes,
      cd_commands = ota_software_update_requestor_commands,
      cd_events = ota_software_update_requestor_events,
      cd_create = Some ota_software_update_requestor_create\<rparr>"

section \<open>\<open>oven_cavity_operational_state\<close>\<close>

definition oven_cavity_operational_state_attribute_phase_list :: attr_fn where
  "oven_cavity_operational_state_attribute_phase_list =
     attr 0x0000 (ATTRIBUTE_FLAG_MANAGED_INTERNALLY OR ATTRIBUTE_FLAG_NULLABLE) VT_ARRAY"

definition oven_cavity_operational_state_attribute_current_phase :: attr_fn where
  "oven_cavity_operational_state_attribute_current_phase =
     attr 0x0001 (ATTRIBUTE_FLAG_MANAGED_INTERNALLY OR ATTRIBUTE_FLAG_NULLABLE) VT_NULLABLE_UINT8"

definition oven_cavity_operational_state_attribute_countdown_time :: attr_fn where
  "oven_cavity_operational_state_attribute_countdown_time =
     attr 0x0002 (ATTRIBUTE_FLAG_MANAGED_INTERNALLY OR ATTRIBUTE_FLAG_NULLABLE) VT_NULLABLE_UINT32"

definition oven_cavity_operational_state_attribute_operational_state_list :: attr_fn where
  "oven_cavity_operational_state_attribute_operational_state_list =
     attr 0x0003 ATTRIBUTE_FLAG_MANAGED_INTERNALLY VT_ARRAY"

definition oven_cavity_operational_state_attribute_operational_state :: attr_fn where
  "oven_cavity_operational_state_attribute_operational_state =
     attr 0x0004 ATTRIBUTE_FLAG_MANAGED_INTERNALLY VT_ENUM8"

definition oven_cavity_operational_state_attribute_operational_error :: attr_fn where
  "oven_cavity_operational_state_attribute_operational_error =
     attr 0x0005 ATTRIBUTE_FLAG_MANAGED_INTERNALLY VT_ARRAY"

definition oven_cavity_operational_state_command_stop :: cmd_fn where
  "oven_cavity_operational_state_command_stop =
     cmd 0x01 0 None"

definition oven_cavity_operational_state_command_start :: cmd_fn where
  "oven_cavity_operational_state_command_start =
     cmd 0x02 0 None"

definition oven_cavity_operational_state_command_operational_command_response :: cmd_fn where
  "oven_cavity_operational_state_command_operational_command_response =
     cmd 0x04 0 None"

definition oven_cavity_operational_state_event_operational_error :: event_fn where
  "oven_cavity_operational_state_event_operational_error =
     event 0x00"

definition oven_cavity_operational_state_event_operation_completion :: event_fn where
  "oven_cavity_operational_state_event_operation_completion =
     event 0x01"

definition oven_cavity_operational_state_create :: cluster_fn where
  "oven_cavity_operational_state_create =
     \<lparr>kf_id = 0x0048,
      kf_revision = 2,
      kf_functions = None,
      kf_function_flags = 0,
      kf_body = [Delegate ''OvenCavityOperationalStateDelegateInitCB'',
        Plugin ''MatterOvenCavityOperationalStatePluginServerInitCallback'', Functions, Feature_Map 0,
        Cluster_Revision, Step (Attribute oven_cavity_operational_state_attribute_phase_list Null_Arr),
        Step (Attribute oven_cavity_operational_state_attribute_current_phase (Lit 0)),
        Step (Attribute oven_cavity_operational_state_attribute_operational_state_list Null_Arr),
        Step (Attribute oven_cavity_operational_state_attribute_operational_state (Lit 0)),
        Step (Attribute oven_cavity_operational_state_attribute_operational_error Null_Arr),
        Step (Event oven_cavity_operational_state_event_operational_error)],
      kf_binding = False\<rparr>"

definition oven_cavity_operational_state_ids :: cluster_ids where
  "oven_cavity_operational_state_ids =
     \<lparr>ci_cluster = 0x0048,
      ci_features = [],
      ci_attributes = [(''PhaseList'', 0x0000), (''CurrentPhase'', 0x0001), (''CountdownTime'', 0x0002),
        (''OperationalStateList'', 0x0003), (''OperationalState'', 0x0004), (''OperationalError'', 0x0005)],
      ci_commands = [(''Stop'', 0x01), (''Start'', 0x02), (''OperationalCommandResponse'', 0x04)],
      ci_events = [(''OperationalError'', 0x00), (''OperationCompletion'', 0x01)]\<rparr>"

definition oven_cavity_operational_state_attributes :: "attr_fn list" where
  "oven_cavity_operational_state_attributes =
     [oven_cavity_operational_state_attribute_phase_list, oven_cavity_operational_state_attribute_current_phase,
        oven_cavity_operational_state_attribute_countdown_time,
        oven_cavity_operational_state_attribute_operational_state_list,
        oven_cavity_operational_state_attribute_operational_state,
        oven_cavity_operational_state_attribute_operational_error]"

definition oven_cavity_operational_state_commands :: "cmd_fn list" where
  "oven_cavity_operational_state_commands =
     [oven_cavity_operational_state_command_stop, oven_cavity_operational_state_command_start,
        oven_cavity_operational_state_command_operational_command_response]"

definition oven_cavity_operational_state_events :: "event_fn list" where
  "oven_cavity_operational_state_events =
     [oven_cavity_operational_state_event_operational_error,
        oven_cavity_operational_state_event_operation_completion]"

definition oven_cavity_operational_state_cluster :: cluster_decl where
  "oven_cavity_operational_state_cluster =
     \<lparr>cd_ids = oven_cavity_operational_state_ids,
      cd_callbacks = [],
      cd_features = [],
      cd_attributes = oven_cavity_operational_state_attributes,
      cd_commands = oven_cavity_operational_state_commands,
      cd_events = oven_cavity_operational_state_events,
      cd_create = Some oven_cavity_operational_state_create\<rparr>"

section \<open>\<open>oven_mode\<close>\<close>

definition oven_mode_attribute_supported_modes :: attr_fn where
  "oven_mode_attribute_supported_modes =
     attr 0x0000 0 VT_ARRAY"

definition oven_mode_attribute_current_mode :: attr_fn where
  "oven_mode_attribute_current_mode =
     bounded 0 254 (attr 0x0001 0 VT_UINT8)"

definition oven_mode_command_change_to_mode :: cmd_fn where
  "oven_mode_command_change_to_mode =
     cmd 0x00 COMMAND_FLAG_ACCEPTED None"

definition oven_mode_command_change_to_mode_response :: cmd_fn where
  "oven_mode_command_change_to_mode_response =
     cmd 0x01 COMMAND_FLAG_GENERATED None"

definition oven_mode_create :: cluster_fn where
  "oven_mode_create =
     \<lparr>kf_id = 0x0049,
      kf_revision = 2,
      kf_functions = None,
      kf_function_flags = 0,
      kf_body = [Delegate ''OvenModeDelegateInitCB'', Plugin ''MatterOvenModePluginServerInitCallback'',
        Functions, Feature_Map 0, Cluster_Revision, Step (Command oven_mode_command_change_to_mode),
        Step (Command oven_mode_command_change_to_mode_response)],
      kf_binding = False\<rparr>"

definition oven_mode_ids :: cluster_ids where
  "oven_mode_ids =
     \<lparr>ci_cluster = 0x0049,
      ci_features = [],
      ci_attributes = [(''SupportedModes'', 0x0000), (''CurrentMode'', 0x0001)],
      ci_commands = [(''ChangeToMode'', 0x00), (''ChangeToModeResponse'', 0x01)],
      ci_events = []\<rparr>"

definition oven_mode_attributes :: "attr_fn list" where
  "oven_mode_attributes =
     [oven_mode_attribute_supported_modes, oven_mode_attribute_current_mode]"

definition oven_mode_commands :: "cmd_fn list" where
  "oven_mode_commands =
     [oven_mode_command_change_to_mode, oven_mode_command_change_to_mode_response]"

definition oven_mode_cluster :: cluster_decl where
  "oven_mode_cluster =
     \<lparr>cd_ids = oven_mode_ids,
      cd_callbacks = [],
      cd_features = [],
      cd_attributes = oven_mode_attributes,
      cd_commands = oven_mode_commands,
      cd_events = [],
      cd_create = Some oven_mode_create\<rparr>"

section \<open>\<open>ozone_concentration_measurement\<close>\<close>

definition ozone_concentration_measurement_numeric_measurement_id :: u32 where
  "ozone_concentration_measurement_numeric_measurement_id = 0x1"

definition ozone_concentration_measurement_level_indication_id :: u32 where
  "ozone_concentration_measurement_level_indication_id = 0x2"

definition ozone_concentration_measurement_medium_level_id :: u32 where
  "ozone_concentration_measurement_medium_level_id = 0x4"

definition ozone_concentration_measurement_critical_level_id :: u32 where
  "ozone_concentration_measurement_critical_level_id = 0x8"

definition ozone_concentration_measurement_peak_measurement_id :: u32 where
  "ozone_concentration_measurement_peak_measurement_id = 0x10"

definition ozone_concentration_measurement_average_measurement_id :: u32 where
  "ozone_concentration_measurement_average_measurement_id = 0x20"

definition ozone_concentration_measurement_attribute_measured_value :: attr_fn where
  "ozone_concentration_measurement_attribute_measured_value =
     guarded (Has_Feature ozone_concentration_measurement_numeric_measurement_id) (attr 0x0000
          (ATTRIBUTE_FLAG_MANAGED_INTERNALLY OR ATTRIBUTE_FLAG_NULLABLE) VT_NULLABLE_FLOAT)"

definition ozone_concentration_measurement_attribute_min_measured_value :: attr_fn where
  "ozone_concentration_measurement_attribute_min_measured_value =
     guarded (Has_Feature ozone_concentration_measurement_numeric_measurement_id) (attr 0x0001
          (ATTRIBUTE_FLAG_MANAGED_INTERNALLY OR ATTRIBUTE_FLAG_NULLABLE) VT_NULLABLE_FLOAT)"

definition ozone_concentration_measurement_attribute_max_measured_value :: attr_fn where
  "ozone_concentration_measurement_attribute_max_measured_value =
     guarded (Has_Feature ozone_concentration_measurement_numeric_measurement_id) (attr 0x0002
          (ATTRIBUTE_FLAG_MANAGED_INTERNALLY OR ATTRIBUTE_FLAG_NULLABLE) VT_NULLABLE_FLOAT)"

definition ozone_concentration_measurement_attribute_peak_measured_value :: attr_fn where
  "ozone_concentration_measurement_attribute_peak_measured_value =
     guarded (Has_Feature ozone_concentration_measurement_peak_measurement_id) (attr 0x0003
          (ATTRIBUTE_FLAG_MANAGED_INTERNALLY OR ATTRIBUTE_FLAG_NULLABLE) VT_NULLABLE_FLOAT)"

definition ozone_concentration_measurement_attribute_peak_measured_value_window :: attr_fn where
  "ozone_concentration_measurement_attribute_peak_measured_value_window =
     guarded (Has_Feature ozone_concentration_measurement_peak_measurement_id) (attr 0x0004
          ATTRIBUTE_FLAG_MANAGED_INTERNALLY VT_UINT32)"

definition ozone_concentration_measurement_attribute_average_measured_value :: attr_fn where
  "ozone_concentration_measurement_attribute_average_measured_value =
     guarded (Has_Feature ozone_concentration_measurement_average_measurement_id) (attr 0x0005
          (ATTRIBUTE_FLAG_MANAGED_INTERNALLY OR ATTRIBUTE_FLAG_NULLABLE) VT_NULLABLE_FLOAT)"

definition ozone_concentration_measurement_attribute_average_measured_value_window :: attr_fn where
  "ozone_concentration_measurement_attribute_average_measured_value_window =
     guarded (Has_Feature ozone_concentration_measurement_average_measurement_id) (attr 0x0006
          ATTRIBUTE_FLAG_MANAGED_INTERNALLY VT_UINT32)"

definition ozone_concentration_measurement_attribute_uncertainty :: attr_fn where
  "ozone_concentration_measurement_attribute_uncertainty =
     attr 0x0007 ATTRIBUTE_FLAG_MANAGED_INTERNALLY VT_FLOAT"

definition ozone_concentration_measurement_attribute_measurement_unit :: attr_fn where
  "ozone_concentration_measurement_attribute_measurement_unit =
     guarded (Has_Feature ozone_concentration_measurement_numeric_measurement_id) (attr 0x0008
          ATTRIBUTE_FLAG_MANAGED_INTERNALLY VT_ENUM8)"

definition ozone_concentration_measurement_attribute_measurement_medium :: attr_fn where
  "ozone_concentration_measurement_attribute_measurement_medium =
     attr 0x0009 ATTRIBUTE_FLAG_MANAGED_INTERNALLY VT_ENUM8"

definition ozone_concentration_measurement_attribute_level_value :: attr_fn where
  "ozone_concentration_measurement_attribute_level_value =
     guarded (Has_Feature ozone_concentration_measurement_level_indication_id) (attr 0x000A
          ATTRIBUTE_FLAG_MANAGED_INTERNALLY VT_ENUM8)"

definition ozone_concentration_measurement_feature_numeric_measurement :: feature_fn where
  "ozone_concentration_measurement_feature_numeric_measurement =
     feature ozone_concentration_measurement_numeric_measurement_id False [Update_Feature_Map,
        Attribute ozone_concentration_measurement_attribute_measured_value (Lit 0),
        Attribute ozone_concentration_measurement_attribute_min_measured_value (Lit 0),
        Attribute ozone_concentration_measurement_attribute_max_measured_value (Lit 0),
        Attribute ozone_concentration_measurement_attribute_measurement_unit (Lit 0)]"

definition ozone_concentration_measurement_feature_level_indication :: feature_fn where
  "ozone_concentration_measurement_feature_level_indication =
     feature ozone_concentration_measurement_level_indication_id False [Update_Feature_Map,
        Attribute ozone_concentration_measurement_attribute_level_value (Lit 0)]"

definition ozone_concentration_measurement_feature_medium_level :: feature_fn where
  "ozone_concentration_measurement_feature_medium_level =
     feature ozone_concentration_measurement_medium_level_id False [Require (Has_Feature
          ozone_concentration_measurement_level_indication_id), Update_Feature_Map]"

definition ozone_concentration_measurement_feature_critical_level :: feature_fn where
  "ozone_concentration_measurement_feature_critical_level =
     feature ozone_concentration_measurement_critical_level_id False [Require (Has_Feature
          ozone_concentration_measurement_level_indication_id), Update_Feature_Map]"

definition ozone_concentration_measurement_feature_peak_measurement :: feature_fn where
  "ozone_concentration_measurement_feature_peak_measurement =
     feature ozone_concentration_measurement_peak_measurement_id False [Require (Has_Feature
          ozone_concentration_measurement_numeric_measurement_id), Update_Feature_Map,
        Attribute ozone_concentration_measurement_attribute_peak_measured_value (Lit 0),
        Attribute ozone_concentration_measurement_attribute_peak_measured_value_window (Lit 0)]"

definition ozone_concentration_measurement_feature_average_measurement :: feature_fn where
  "ozone_concentration_measurement_feature_average_measurement =
     feature ozone_concentration_measurement_average_measurement_id False [Require (Has_Feature
          ozone_concentration_measurement_numeric_measurement_id), Update_Feature_Map,
        Attribute ozone_concentration_measurement_attribute_average_measured_value (Lit 0),
        Attribute ozone_concentration_measurement_attribute_average_measured_value_window (Lit 0)]"

definition ozone_concentration_measurement_create :: cluster_fn where
  "ozone_concentration_measurement_create =
     \<lparr>kf_id = 0x0415,
      kf_revision = 3,
      kf_functions = None,
      kf_function_flags = 0,
      kf_body = [Plugin ''MatterOzoneConcentrationMeasurementPluginServerInitCallback'', Functions,
        Config_Feature_Map, Cluster_Revision,
        Step (Attribute ozone_concentration_measurement_attribute_measurement_medium (Lit 0)),
        Validate k_at_least_one [ozone_concentration_measurement_numeric_measurement_id,
        ozone_concentration_measurement_level_indication_id],
        If_Feature ozone_concentration_measurement_numeric_measurement_id [Add_Feature
          ozone_concentration_measurement_feature_numeric_measurement ''numeric_measurement''] [],
        If_Feature ozone_concentration_measurement_level_indication_id [Add_Feature
          ozone_concentration_measurement_feature_level_indication ''level_indication''] [],
        If_Feature ozone_concentration_measurement_medium_level_id [Add_Feature
          ozone_concentration_measurement_feature_medium_level ''medium_level''] [],
        If_Feature ozone_concentration_measurement_critical_level_id [Add_Feature
          ozone_concentration_measurement_feature_critical_level ''critical_level''] [],
        If_Feature ozone_concentration_measurement_peak_measurement_id [Add_Feature
          ozone_concentration_measurement_feature_peak_measurement ''peak_measurement''] [],
        If_Feature ozone_concentration_measurement_average_measurement_id [Add_Feature
          ozone_concentration_measurement_feature_average_measurement ''average_measurement''] []],
      kf_binding = True\<rparr>"

definition ozone_concentration_measurement_ids :: cluster_ids where
  "ozone_concentration_measurement_ids =
     \<lparr>ci_cluster = 0x0415,
      ci_features = [(''NumericMeasurement'', 0x1), (''LevelIndication'', 0x2), (''MediumLevel'', 0x4),
        (''CriticalLevel'', 0x8), (''PeakMeasurement'', 0x10), (''AverageMeasurement'', 0x20)],
      ci_attributes = [(''MeasuredValue'', 0x0000), (''MinMeasuredValue'', 0x0001), (''MaxMeasuredValue'',
        0x0002), (''PeakMeasuredValue'', 0x0003), (''PeakMeasuredValueWindow'', 0x0004),
        (''AverageMeasuredValue'', 0x0005), (''AverageMeasuredValueWindow'', 0x0006), (''Uncertainty'', 0x0007),
        (''MeasurementUnit'', 0x0008), (''MeasurementMedium'', 0x0009), (''LevelValue'', 0x000A)],
      ci_commands = [],
      ci_events = []\<rparr>"

definition ozone_concentration_measurement_features :: "feature_fn list" where
  "ozone_concentration_measurement_features =
     [ozone_concentration_measurement_feature_numeric_measurement,
        ozone_concentration_measurement_feature_level_indication,
        ozone_concentration_measurement_feature_medium_level,
        ozone_concentration_measurement_feature_critical_level,
        ozone_concentration_measurement_feature_peak_measurement,
        ozone_concentration_measurement_feature_average_measurement]"

definition ozone_concentration_measurement_attributes :: "attr_fn list" where
  "ozone_concentration_measurement_attributes =
     [ozone_concentration_measurement_attribute_measured_value,
        ozone_concentration_measurement_attribute_min_measured_value,
        ozone_concentration_measurement_attribute_max_measured_value,
        ozone_concentration_measurement_attribute_peak_measured_value,
        ozone_concentration_measurement_attribute_peak_measured_value_window,
        ozone_concentration_measurement_attribute_average_measured_value,
        ozone_concentration_measurement_attribute_average_measured_value_window,
        ozone_concentration_measurement_attribute_uncertainty,
        ozone_concentration_measurement_attribute_measurement_unit,
        ozone_concentration_measurement_attribute_measurement_medium,
        ozone_concentration_measurement_attribute_level_value]"

definition ozone_concentration_measurement_cluster :: cluster_decl where
  "ozone_concentration_measurement_cluster =
     \<lparr>cd_ids = ozone_concentration_measurement_ids,
      cd_callbacks = [],
      cd_features = ozone_concentration_measurement_features,
      cd_attributes = ozone_concentration_measurement_attributes,
      cd_commands = [],
      cd_events = [],
      cd_create = Some ozone_concentration_measurement_create\<rparr>"

section \<open>\<open>pm10_concentration_measurement\<close>\<close>

definition pm10_concentration_measurement_numeric_measurement_id :: u32 where
  "pm10_concentration_measurement_numeric_measurement_id = 0x1"

definition pm10_concentration_measurement_level_indication_id :: u32 where
  "pm10_concentration_measurement_level_indication_id = 0x2"

definition pm10_concentration_measurement_medium_level_id :: u32 where
  "pm10_concentration_measurement_medium_level_id = 0x4"

definition pm10_concentration_measurement_critical_level_id :: u32 where
  "pm10_concentration_measurement_critical_level_id = 0x8"

definition pm10_concentration_measurement_peak_measurement_id :: u32 where
  "pm10_concentration_measurement_peak_measurement_id = 0x10"

definition pm10_concentration_measurement_average_measurement_id :: u32 where
  "pm10_concentration_measurement_average_measurement_id = 0x20"

definition pm10_concentration_measurement_attribute_measured_value :: attr_fn where
  "pm10_concentration_measurement_attribute_measured_value =
     guarded (Has_Feature pm10_concentration_measurement_numeric_measurement_id) (attr 0x0000
          ATTRIBUTE_FLAG_NULLABLE VT_NULLABLE_FLOAT)"

definition pm10_concentration_measurement_attribute_min_measured_value :: attr_fn where
  "pm10_concentration_measurement_attribute_min_measured_value =
     guarded (Has_Feature pm10_concentration_measurement_numeric_measurement_id) (attr 0x0001
          ATTRIBUTE_FLAG_NULLABLE VT_NULLABLE_FLOAT)"

definition pm10_concentration_measurement_attribute_max_measured_value :: attr_fn where
  "pm10_concentration_measurement_attribute_max_measured_value =
     guarded (Has_Feature pm10_concentration_measurement_numeric_measurement_id) (attr 0x0002
          ATTRIBUTE_FLAG_NULLABLE VT_NULLABLE_FLOAT)"

definition pm10_concentration_measurement_attribute_peak_measured_value :: attr_fn where
  "pm10_concentration_measurement_attribute_peak_measured_value =
     guarded (Has_Feature pm10_concentration_measurement_peak_measurement_id) (attr 0x0003 ATTRIBUTE_FLAG_NULLABLE
          VT_NULLABLE_FLOAT)"

definition pm10_concentration_measurement_attribute_peak_measured_value_window :: attr_fn where
  "pm10_concentration_measurement_attribute_peak_measured_value_window =
     guarded (Has_Feature pm10_concentration_measurement_peak_measurement_id) (bounded 0 604800 (attr 0x0004 0
          VT_UINT32))"

definition pm10_concentration_measurement_attribute_average_measured_value :: attr_fn where
  "pm10_concentration_measurement_attribute_average_measured_value =
     guarded (Has_Feature pm10_concentration_measurement_average_measurement_id) (attr 0x0005
          ATTRIBUTE_FLAG_NULLABLE VT_NULLABLE_FLOAT)"

definition pm10_concentration_measurement_attribute_average_measured_value_window :: attr_fn where
  "pm10_concentration_measurement_attribute_average_measured_value_window =
     guarded (Has_Feature pm10_concentration_measurement_average_measurement_id) (bounded 0 604800 (attr 0x0006 0
          VT_UINT32))"

definition pm10_concentration_measurement_attribute_uncertainty :: attr_fn where
  "pm10_concentration_measurement_attribute_uncertainty =
     attr 0x0007 0 VT_FLOAT"

definition pm10_concentration_measurement_attribute_measurement_unit :: attr_fn where
  "pm10_concentration_measurement_attribute_measurement_unit =
     guarded (Has_Feature pm10_concentration_measurement_numeric_measurement_id) (bounded 0 7 (attr 0x0008 0
          VT_ENUM8))"

definition pm10_concentration_measurement_attribute_measurement_medium :: attr_fn where
  "pm10_concentration_measurement_attribute_measurement_medium =
     bounded 0 2 (attr 0x0009 0 VT_ENUM8)"

definition pm10_concentration_measurement_attribute_level_value :: attr_fn where
  "pm10_concentration_measurement_attribute_level_value =
     guarded (Has_Feature pm10_concentration_measurement_level_indication_id) (bounded 0 4 (attr 0x000A 0 VT_ENUM8))"

definition pm10_concentration_measurement_feature_numeric_measurement :: feature_fn where
  "pm10_concentration_measurement_feature_numeric_measurement =
     feature pm10_concentration_measurement_numeric_measurement_id True [Update_Feature_Map,
        Attribute pm10_concentration_measurement_attribute_measured_value (Field ''measured_value''),
        Attribute pm10_concentration_measurement_attribute_min_measured_value (Field ''min_measured_value''),
        Attribute pm10_concentration_measurement_attribute_max_measured_value (Field ''max_measured_value''),
        Attribute pm10_concentration_measurement_attribute_measurement_unit (Field ''measurement_unit'')]"

definition pm10_concentration_measurement_feature_level_indication :: feature_fn where
  "pm10_concentration_measurement_feature_level_indication =
     feature pm10_concentration_measurement_level_indication_id True [Update_Feature_Map,
        Attribute pm10_concentration_measurement_attribute_level_value (Field ''level_value'')]"

definition pm10_concentration_measurement_feature_medium_level :: feature_fn where
  "pm10_concentration_measurement_feature_medium_level =
     feature pm10_concentration_measurement_medium_level_id False [Require (Has_Feature
          pm10_concentration_measurement_level_indication_id), Update_Feature_Map]"

definition pm10_concentration_measurement_feature_critical_level :: feature_fn where
  "pm10_concentration_measurement_feature_critical_level =
     feature pm10_concentration_measurement_critical_level_id False [Require (Has_Feature
          pm10_concentration_measurement_level_indication_id), Update_Feature_Map]"

definition pm10_concentration_measurement_feature_peak_measurement :: feature_fn where
  "pm10_concentration_measurement_feature_peak_measurement =
     feature pm10_concentration_measurement_peak_measurement_id True [Require (Has_Feature
          pm10_concentration_measurement_numeric_measurement_id), Update_Feature_Map,
        Attribute pm10_concentration_measurement_attribute_peak_measured_value (Field ''peak_measured_value''),
        Attribute pm10_concentration_measurement_attribute_peak_measured_value_window (Field
          ''peak_measured_value_window'')]"

definition pm10_concentration_measurement_feature_average_measurement :: feature_fn where
  "pm10_concentration_measurement_feature_average_measurement =
     feature pm10_concentration_measurement_average_measurement_id True [Require (Has_Feature
          pm10_concentration_measurement_numeric_measurement_id), Update_Feature_Map,
        Attribute pm10_concentration_measurement_attribute_average_measured_value (Field
          ''average_measured_value''),
        Attribute pm10_concentration_measurement_attribute_average_measured_value_window (Field
          ''average_measured_value_window'')]"

definition pm10_concentration_measurement_create :: cluster_fn where
  "pm10_concentration_measurement_create =
     \<lparr>kf_id = 0x042D,
      kf_revision = 3,
      kf_functions = None,
      kf_function_flags = 0,
      kf_body = [Functions, Config_Feature_Map, Cluster_Revision,
        Step (Attribute pm10_concentration_measurement_attribute_measurement_medium (Field
          ''measurement_medium'')),
        Validate k_at_least_one [pm10_concentration_measurement_numeric_measurement_id,
        pm10_concentration_measurement_level_indication_id],
        If_Feature pm10_concentration_measurement_numeric_measurement_id [Add_Feature
          pm10_concentration_measurement_feature_numeric_measurement ''numeric_measurement''] [],
        If_Feature pm10_concentration_measurement_level_indication_id [Add_Feature
          pm10_concentration_measurement_feature_level_indication ''level_indication''] [],
        If_Feature pm10_concentration_measurement_medium_level_id [Add_Feature
          pm10_concentration_measurement_feature_medium_level ''medium_level''] [],
        If_Feature pm10_concentration_measurement_critical_level_id [Add_Feature
          pm10_concentration_measurement_feature_critical_level ''critical_level''] [],
        If_Feature pm10_concentration_measurement_peak_measurement_id [Add_Feature
          pm10_concentration_measurement_feature_peak_measurement ''peak_measurement''] [],
        If_Feature pm10_concentration_measurement_average_measurement_id [Add_Feature
          pm10_concentration_measurement_feature_average_measurement ''average_measurement''] []],
      kf_binding = True\<rparr>"

definition pm10_concentration_measurement_ids :: cluster_ids where
  "pm10_concentration_measurement_ids =
     \<lparr>ci_cluster = 0x042D,
      ci_features = [(''NumericMeasurement'', 0x1), (''LevelIndication'', 0x2), (''MediumLevel'', 0x4),
        (''CriticalLevel'', 0x8), (''PeakMeasurement'', 0x10), (''AverageMeasurement'', 0x20)],
      ci_attributes = [(''MeasuredValue'', 0x0000), (''MinMeasuredValue'', 0x0001), (''MaxMeasuredValue'',
        0x0002), (''PeakMeasuredValue'', 0x0003), (''PeakMeasuredValueWindow'', 0x0004),
        (''AverageMeasuredValue'', 0x0005), (''AverageMeasuredValueWindow'', 0x0006), (''Uncertainty'', 0x0007),
        (''MeasurementUnit'', 0x0008), (''MeasurementMedium'', 0x0009), (''LevelValue'', 0x000A)],
      ci_commands = [],
      ci_events = []\<rparr>"

definition pm10_concentration_measurement_features :: "feature_fn list" where
  "pm10_concentration_measurement_features =
     [pm10_concentration_measurement_feature_numeric_measurement,
        pm10_concentration_measurement_feature_level_indication,
        pm10_concentration_measurement_feature_medium_level,
        pm10_concentration_measurement_feature_critical_level,
        pm10_concentration_measurement_feature_peak_measurement,
        pm10_concentration_measurement_feature_average_measurement]"

definition pm10_concentration_measurement_attributes :: "attr_fn list" where
  "pm10_concentration_measurement_attributes =
     [pm10_concentration_measurement_attribute_measured_value,
        pm10_concentration_measurement_attribute_min_measured_value,
        pm10_concentration_measurement_attribute_max_measured_value,
        pm10_concentration_measurement_attribute_peak_measured_value,
        pm10_concentration_measurement_attribute_peak_measured_value_window,
        pm10_concentration_measurement_attribute_average_measured_value,
        pm10_concentration_measurement_attribute_average_measured_value_window,
        pm10_concentration_measurement_attribute_uncertainty,
        pm10_concentration_measurement_attribute_measurement_unit,
        pm10_concentration_measurement_attribute_measurement_medium,
        pm10_concentration_measurement_attribute_level_value]"

definition pm10_concentration_measurement_cluster :: cluster_decl where
  "pm10_concentration_measurement_cluster =
     \<lparr>cd_ids = pm10_concentration_measurement_ids,
      cd_callbacks = [],
      cd_features = pm10_concentration_measurement_features,
      cd_attributes = pm10_concentration_measurement_attributes,
      cd_commands = [],
      cd_events = [],
      cd_create = Some pm10_concentration_measurement_create\<rparr>"

section \<open>\<open>pm1_concentration_measurement\<close>\<close>

definition pm1_concentration_measurement_numeric_measurement_id :: u32 where
  "pm1_concentration_measurement_numeric_measurement_id = 0x1"

definition pm1_concentration_measurement_level_indication_id :: u32 where
  "pm1_concentration_measurement_level_indication_id = 0x2"

definition pm1_concentration_measurement_medium_level_id :: u32 where
  "pm1_concentration_measurement_medium_level_id = 0x4"

definition pm1_concentration_measurement_critical_level_id :: u32 where
  "pm1_concentration_measurement_critical_level_id = 0x8"

definition pm1_concentration_measurement_peak_measurement_id :: u32 where
  "pm1_concentration_measurement_peak_measurement_id = 0x10"

definition pm1_concentration_measurement_average_measurement_id :: u32 where
  "pm1_concentration_measurement_average_measurement_id = 0x20"

definition pm1_concentration_measurement_attribute_measured_value :: attr_fn where
  "pm1_concentration_measurement_attribute_measured_value =
     guarded (Has_Feature pm1_concentration_measurement_numeric_measurement_id) (attr 0x0000 ATTRIBUTE_FLAG_NULLABLE
          VT_NULLABLE_FLOAT)"

definition pm1_concentration_measurement_attribute_min_measured_value :: attr_fn where
  "pm1_concentration_measurement_attribute_min_measured_value =
     guarded (Has_Feature pm1_concentration_measurement_numeric_measurement_id) (attr 0x0001 ATTRIBUTE_FLAG_NULLABLE
          VT_NULLABLE_FLOAT)"

definition pm1_concentration_measurement_attribute_max_measured_value :: attr_fn where
  "pm1_concentration_measurement_attribute_max_measured_value =
     guarded (Has_Feature pm1_concentration_measurement_numeric_measurement_id) (attr 0x0002 ATTRIBUTE_FLAG_NULLABLE
          VT_NULLABLE_FLOAT)"

definition pm1_concentration_measurement_attribute_peak_measured_value :: attr_fn where
  "pm1_concentration_measurement_attribute_peak_measured_value =
     guarded (Has_Feature pm1_concentration_measurement_peak_measurement_id) (attr 0x0003 ATTRIBUTE_FLAG_NULLABLE
          VT_NULLABLE_FLOAT)"

definition pm1_concentration_measurement_attribute_peak_measured_value_window :: attr_fn where
  "pm1_concentration_measurement_attribute_peak_measured_value_window =
     guarded (Has_Feature pm1_concentration_measurement_peak_measurement_id) (bounded 0 604800 (attr 0x0004 0
          VT_UINT32))"

definition pm1_concentration_measurement_attribute_average_measured_value :: attr_fn where
  "pm1_concentration_measurement_attribute_average_measured_value =
     guarded (Has_Feature pm1_concentration_measurement_average_measurement_id) (attr 0x0005 ATTRIBUTE_FLAG_NULLABLE
          VT_NULLABLE_FLOAT)"

definition pm1_concentration_measurement_attribute_average_measured_value_window :: attr_fn where
  "pm1_concentration_measurement_attribute_average_measured_value_window =
     guarded (Has_Feature pm1_concentration_measurement_average_measurement_id) (bounded 0 604800 (attr 0x0006 0
          VT_UINT32))"

definition pm1_concentration_measurement_attribute_uncertainty :: attr_fn where
  "pm1_concentration_measurement_attribute_uncertainty =
     attr 0x0007 0 VT_FLOAT"

definition pm1_concentration_measurement_attribute_measurement_unit :: attr_fn where
  "pm1_concentration_measurement_attribute_measurement_unit =
     guarded (Has_Feature pm1_concentration_measurement_numeric_measurement_id) (bounded 0 7 (attr 0x0008 0
          VT_ENUM8))"

definition pm1_concentration_measurement_attribute_measurement_medium :: attr_fn where
  "pm1_concentration_measurement_attribute_measurement_medium =
     bounded 0 2 (attr 0x0009 0 VT_ENUM8)"

definition pm1_concentration_measurement_attribute_level_value :: attr_fn where
  "pm1_concentration_measurement_attribute_level_value =
     guarded (Has_Feature pm1_concentration_measurement_level_indication_id) (bounded 0 4 (attr 0x000A 0 VT_ENUM8))"

definition pm1_concentration_measurement_feature_numeric_measurement :: feature_fn where
  "pm1_concentration_measurement_feature_numeric_measurement =
     feature pm1_concentration_measurement_numeric_measurement_id True [Update_Feature_Map,
        Attribute pm1_concentration_measurement_attribute_measured_value (Field ''measured_value''),
        Attribute pm1_concentration_measurement_attribute_min_measured_value (Field ''min_measured_value''),
        Attribute pm1_concentration_measurement_attribute_max_measured_value (Field ''max_measured_value''),
        Attribute pm1_concentration_measurement_attribute_measurement_unit (Field ''measurement_unit'')]"

definition pm1_concentration_measurement_feature_level_indication :: feature_fn where
  "pm1_concentration_measurement_feature_level_indication =
     feature pm1_concentration_measurement_level_indication_id True [Update_Feature_Map,
        Attribute pm1_concentration_measurement_attribute_level_value (Field ''level_value'')]"

definition pm1_concentration_measurement_feature_medium_level :: feature_fn where
  "pm1_concentration_measurement_feature_medium_level =
     feature pm1_concentration_measurement_medium_level_id False [Require (Has_Feature
          pm1_concentration_measurement_level_indication_id), Update_Feature_Map]"

definition pm1_concentration_measurement_feature_critical_level :: feature_fn where
  "pm1_concentration_measurement_feature_critical_level =
     feature pm1_concentration_measurement_critical_level_id False [Require (Has_Feature
          pm1_concentration_measurement_level_indication_id), Update_Feature_Map]"

definition pm1_concentration_measurement_feature_peak_measurement :: feature_fn where
  "pm1_concentration_measurement_feature_peak_measurement =
     feature pm1_concentration_measurement_peak_measurement_id True [Require (Has_Feature
          pm1_concentration_measurement_numeric_measurement_id), Update_Feature_Map,
        Attribute pm1_concentration_measurement_attribute_peak_measured_value (Field ''peak_measured_value''),
        Attribute pm1_concentration_measurement_attribute_peak_measured_value_window (Field
          ''peak_measured_value_window'')]"

definition pm1_concentration_measurement_feature_average_measurement :: feature_fn where
  "pm1_concentration_measurement_feature_average_measurement =
     feature pm1_concentration_measurement_average_measurement_id True [Require (Has_Feature
          pm1_concentration_measurement_numeric_measurement_id), Update_Feature_Map,
        Attribute pm1_concentration_measurement_attribute_average_measured_value (Field
          ''average_measured_value''),
        Attribute pm1_concentration_measurement_attribute_average_measured_value_window (Field
          ''average_measured_value_window'')]"

definition pm1_concentration_measurement_create :: cluster_fn where
  "pm1_concentration_measurement_create =
     \<lparr>kf_id = 0x042C,
      kf_revision = 3,
      kf_functions = None,
      kf_function_flags = 0,
      kf_body = [Functions, Config_Feature_Map, Cluster_Revision,
        Step (Attribute pm1_concentration_measurement_attribute_measurement_medium (Field
          ''measurement_medium'')),
        Validate k_at_least_one [pm1_concentration_measurement_numeric_measurement_id,
        pm1_concentration_measurement_level_indication_id],
        If_Feature pm1_concentration_measurement_numeric_measurement_id [Add_Feature
          pm1_concentration_measurement_feature_numeric_measurement ''numeric_measurement''] [],
        If_Feature pm1_concentration_measurement_level_indication_id [Add_Feature
          pm1_concentration_measurement_feature_level_indication ''level_indication''] [],
        If_Feature pm1_concentration_measurement_medium_level_id [Add_Feature
          pm1_concentration_measurement_feature_medium_level ''medium_level''] [],
        If_Feature pm1_concentration_measurement_critical_level_id [Add_Feature
          pm1_concentration_measurement_feature_critical_level ''critical_level''] [],
        If_Feature pm1_concentration_measurement_peak_measurement_id [Add_Feature
          pm1_concentration_measurement_feature_peak_measurement ''peak_measurement''] [],
        If_Feature pm1_concentration_measurement_average_measurement_id [Add_Feature
          pm1_concentration_measurement_feature_average_measurement ''average_measurement''] []],
      kf_binding = True\<rparr>"

definition pm1_concentration_measurement_ids :: cluster_ids where
  "pm1_concentration_measurement_ids =
     \<lparr>ci_cluster = 0x042C,
      ci_features = [(''NumericMeasurement'', 0x1), (''LevelIndication'', 0x2), (''MediumLevel'', 0x4),
        (''CriticalLevel'', 0x8), (''PeakMeasurement'', 0x10), (''AverageMeasurement'', 0x20)],
      ci_attributes = [(''MeasuredValue'', 0x0000), (''MinMeasuredValue'', 0x0001), (''MaxMeasuredValue'',
        0x0002), (''PeakMeasuredValue'', 0x0003), (''PeakMeasuredValueWindow'', 0x0004),
        (''AverageMeasuredValue'', 0x0005), (''AverageMeasuredValueWindow'', 0x0006), (''Uncertainty'', 0x0007),
        (''MeasurementUnit'', 0x0008), (''MeasurementMedium'', 0x0009), (''LevelValue'', 0x000A)],
      ci_commands = [],
      ci_events = []\<rparr>"

definition pm1_concentration_measurement_features :: "feature_fn list" where
  "pm1_concentration_measurement_features =
     [pm1_concentration_measurement_feature_numeric_measurement,
        pm1_concentration_measurement_feature_level_indication,
        pm1_concentration_measurement_feature_medium_level,
        pm1_concentration_measurement_feature_critical_level,
        pm1_concentration_measurement_feature_peak_measurement,
        pm1_concentration_measurement_feature_average_measurement]"

definition pm1_concentration_measurement_attributes :: "attr_fn list" where
  "pm1_concentration_measurement_attributes =
     [pm1_concentration_measurement_attribute_measured_value,
        pm1_concentration_measurement_attribute_min_measured_value,
        pm1_concentration_measurement_attribute_max_measured_value,
        pm1_concentration_measurement_attribute_peak_measured_value,
        pm1_concentration_measurement_attribute_peak_measured_value_window,
        pm1_concentration_measurement_attribute_average_measured_value,
        pm1_concentration_measurement_attribute_average_measured_value_window,
        pm1_concentration_measurement_attribute_uncertainty,
        pm1_concentration_measurement_attribute_measurement_unit,
        pm1_concentration_measurement_attribute_measurement_medium,
        pm1_concentration_measurement_attribute_level_value]"

definition pm1_concentration_measurement_cluster :: cluster_decl where
  "pm1_concentration_measurement_cluster =
     \<lparr>cd_ids = pm1_concentration_measurement_ids,
      cd_callbacks = [],
      cd_features = pm1_concentration_measurement_features,
      cd_attributes = pm1_concentration_measurement_attributes,
      cd_commands = [],
      cd_events = [],
      cd_create = Some pm1_concentration_measurement_create\<rparr>"

section \<open>\<open>pm2_5_concentration_measurement\<close>\<close>

definition pm2_5_concentration_measurement_numeric_measurement_id :: u32 where
  "pm2_5_concentration_measurement_numeric_measurement_id = 0x1"

definition pm2_5_concentration_measurement_level_indication_id :: u32 where
  "pm2_5_concentration_measurement_level_indication_id = 0x2"

definition pm2_5_concentration_measurement_medium_level_id :: u32 where
  "pm2_5_concentration_measurement_medium_level_id = 0x4"

definition pm2_5_concentration_measurement_critical_level_id :: u32 where
  "pm2_5_concentration_measurement_critical_level_id = 0x8"

definition pm2_5_concentration_measurement_peak_measurement_id :: u32 where
  "pm2_5_concentration_measurement_peak_measurement_id = 0x10"

definition pm2_5_concentration_measurement_average_measurement_id :: u32 where
  "pm2_5_concentration_measurement_average_measurement_id = 0x20"

definition pm2_5_concentration_measurement_attribute_measured_value :: attr_fn where
  "pm2_5_concentration_measurement_attribute_measured_value =
     guarded (Has_Feature pm2_5_concentration_measurement_numeric_measurement_id) (attr 0x0000
          ATTRIBUTE_FLAG_NULLABLE VT_NULLABLE_FLOAT)"

definition pm2_5_concentration_measurement_attribute_min_measured_value :: attr_fn where
  "pm2_5_concentration_measurement_attribute_min_measured_value =
     guarded (Has_Feature pm2_5_concentration_measurement_numeric_measurement_id) (attr 0x0001
          ATTRIBUTE_FLAG_NULLABLE VT_NULLABLE_FLOAT)"

definition pm2_5_concentration_measurement_attribute_max_measured_value :: attr_fn where
  "pm2_5_concentration_measurement_attribute_max_measured_value =
     guarded (Has_Feature pm2_5_concentration_measurement_numeric_measurement_id) (attr 0x0002
          ATTRIBUTE_FLAG_NULLABLE VT_NULLABLE_FLOAT)"

definition pm2_5_concentration_measurement_attribute_peak_measured_value :: attr_fn where
  "pm2_5_concentration_measurement_attribute_peak_measured_value =
     guarded (Has_Feature pm2_5_concentration_measurement_peak_measurement_id) (attr 0x0003 ATTRIBUTE_FLAG_NULLABLE
          VT_NULLABLE_FLOAT)"

definition pm2_5_concentration_measurement_attribute_peak_measured_value_window :: attr_fn where
  "pm2_5_concentration_measurement_attribute_peak_measured_value_window =
     guarded (Has_Feature pm2_5_concentration_measurement_peak_measurement_id) (bounded 0 604800 (attr 0x0004 0
          VT_UINT32))"

definition pm2_5_concentration_measurement_attribute_average_measured_value :: attr_fn where
  "pm2_5_concentration_measurement_attribute_average_measured_value =
     guarded (Has_Feature pm2_5_concentration_measurement_average_measurement_id) (attr 0x0005
          ATTRIBUTE_FLAG_NULLABLE VT_NULLABLE_FLOAT)"

definition pm2_5_concentration_measurement_attribute_average_measured_value_window :: attr_fn where
  "pm2_5_concentration_measurement_attribute_average_measured_value_window =
     guarded (Has_Feature pm2_5_concentration_measurement_average_measurement_id) (bounded 0 604800 (attr 0x0006 0
          VT_UINT32))"

definition pm2_5_concentration_measurement_attribute_uncertainty :: attr_fn where
  "pm2_5_concentration_measurement_attribute_uncertainty =
     attr 0x0007 0 VT_FLOAT"

definition pm2_5_concentration_measurement_attribute_measurement_unit :: attr_fn where
  "pm2_5_concentration_measurement_attribute_measurement_unit =
     guarded (Has_Feature pm2_5_concentration_measurement_numeric_measurement_id) (bounded 0 7 (attr 0x0008 0
          VT_ENUM8))"

definition pm2_5_concentration_measurement_attribute_measurement_medium :: attr_fn where
  "pm2_5_concentration_measurement_attribute_measurement_medium =
     bounded 0 2 (attr 0x0009 0 VT_ENUM8)"

definition pm2_5_concentration_measurement_attribute_level_value :: attr_fn where
  "pm2_5_concentration_measurement_attribute_level_value =
     guarded (Has_Feature pm2_5_concentration_measurement_level_indication_id) (bounded 0 4 (attr 0x000A 0 VT_ENUM8))"

definition pm2_5_concentration_measurement_feature_numeric_measurement :: feature_fn where
  "pm2_5_concentration_measurement_feature_numeric_measurement =
     feature pm2_5_concentration_measurement_numeric_measurement_id True [Update_Feature_Map,
        Attribute pm2_5_concentration_measurement_attribute_measured_value (Field ''measured_value''),
        Attribute pm2_5_concentration_measurement_attribute_min_measured_value (Field ''min_measured_value''),
        Attribute pm2_5_concentration_measurement_attribute_max_measured_value (Field ''max_measured_value''),
        Attribute pm2_5_concentration_measurement_attribute_measurement_unit (Field ''measurement_unit'')]"

definition pm2_5_concentration_measurement_feature_level_indication :: feature_fn where
  "pm2_5_concentration_measurement_feature_level_indication =
     feature pm2_5_concentration_measurement_level_indication_id True [Update_Feature_Map,
        Attribute pm2_5_concentration_measurement_attribute_level_value (Field ''level_value'')]"

definition pm2_5_concentration_measurement_feature_medium_level :: feature_fn where
  "pm2_5_concentration_measurement_feature_medium_level =
     feature pm2_5_concentration_measurement_medium_level_id False [Require (Has_Feature
          pm2_5_concentration_measurement_level_indication_id), Update_Feature_Map]"

definition pm2_5_concentration_measurement_feature_critical_level :: feature_fn where
  "pm2_5_concentration_measurement_feature_critical_level =
     feature pm2_5_concentration_measurement_critical_level_id False [Require (Has_Feature
          pm2_5_concentration_measurement_level_indication_id), Update_Feature_Map]"

definition pm2_5_concentration_measurement_feature_peak_measurement :: feature_fn where
  "pm2_5_concentration_measurement_feature_peak_measurement =
     feature pm2_5_concentration_measurement_peak_measurement_id True [Require (Has_Feature
          pm2_5_concentration_measurement_numeric_measurement_id), Update_Feature_Map,
        Attribute pm2_5_concentration_measurement_attribute_peak_measured_value (Field ''peak_measured_value''),
        Attribute pm2_5_concentration_measurement_attribute_peak_measured_value_window (Field
          ''peak_measured_value_window'')]"

definition pm2_5_concentration_measurement_feature_average_measurement :: feature_fn where
  "pm2_5_concentration_measurement_feature_average_measurement =
     feature pm2_5_concentration_measurement_average_measurement_id True [Require (Has_Feature
          pm2_5_concentration_measurement_numeric_measurement_id), Update_Feature_Map,
        Attribute pm2_5_concentration_measurement_attribute_average_measured_value (Field
          ''average_measured_value''),
        Attribute pm2_5_concentration_measurement_attribute_average_measured_value_window (Field
          ''average_measured_value_window'')]"

definition pm2_5_concentration_measurement_create :: cluster_fn where
  "pm2_5_concentration_measurement_create =
     \<lparr>kf_id = 0x042A,
      kf_revision = 3,
      kf_functions = None,
      kf_function_flags = 0,
      kf_body = [Functions, Config_Feature_Map, Cluster_Revision,
        Step (Attribute pm2_5_concentration_measurement_attribute_measurement_medium (Field
          ''measurement_medium'')),
        Validate k_at_least_one [pm2_5_concentration_measurement_numeric_measurement_id,
        pm2_5_concentration_measurement_level_indication_id],
        If_Feature pm2_5_concentration_measurement_numeric_measurement_id [Add_Feature
          pm2_5_concentration_measurement_feature_numeric_measurement ''numeric_measurement''] [],
        If_Feature pm2_5_concentration_measurement_level_indication_id [Add_Feature
          pm2_5_concentration_measurement_feature_level_indication ''level_indication''] [],
        If_Feature pm2_5_concentration_measurement_medium_level_id [Add_Feature
          pm2_5_concentration_measurement_feature_medium_level ''medium_level''] [],
        If_Feature pm2_5_concentration_measurement_critical_level_id [Add_Feature
          pm2_5_concentration_measurement_feature_critical_level ''critical_level''] [],
        If_Feature pm2_5_concentration_measurement_peak_measurement_id [Add_Feature
          pm2_5_concentration_measurement_feature_peak_measurement ''peak_measurement''] [],
        If_Feature pm2_5_concentration_measurement_average_measurement_id [Add_Feature
          pm2_5_concentration_measurement_feature_average_measurement ''average_measurement''] []],
      kf_binding = True\<rparr>"

definition pm2_5_concentration_measurement_ids :: cluster_ids where
  "pm2_5_concentration_measurement_ids =
     \<lparr>ci_cluster = 0x042A,
      ci_features = [(''NumericMeasurement'', 0x1), (''LevelIndication'', 0x2), (''MediumLevel'', 0x4),
        (''CriticalLevel'', 0x8), (''PeakMeasurement'', 0x10), (''AverageMeasurement'', 0x20)],
      ci_attributes = [(''MeasuredValue'', 0x0000), (''MinMeasuredValue'', 0x0001), (''MaxMeasuredValue'',
        0x0002), (''PeakMeasuredValue'', 0x0003), (''PeakMeasuredValueWindow'', 0x0004),
        (''AverageMeasuredValue'', 0x0005), (''AverageMeasuredValueWindow'', 0x0006), (''Uncertainty'', 0x0007),
        (''MeasurementUnit'', 0x0008), (''MeasurementMedium'', 0x0009), (''LevelValue'', 0x000A)],
      ci_commands = [],
      ci_events = []\<rparr>"

definition pm2_5_concentration_measurement_features :: "feature_fn list" where
  "pm2_5_concentration_measurement_features =
     [pm2_5_concentration_measurement_feature_numeric_measurement,
        pm2_5_concentration_measurement_feature_level_indication,
        pm2_5_concentration_measurement_feature_medium_level,
        pm2_5_concentration_measurement_feature_critical_level,
        pm2_5_concentration_measurement_feature_peak_measurement,
        pm2_5_concentration_measurement_feature_average_measurement]"

definition pm2_5_concentration_measurement_attributes :: "attr_fn list" where
  "pm2_5_concentration_measurement_attributes =
     [pm2_5_concentration_measurement_attribute_measured_value,
        pm2_5_concentration_measurement_attribute_min_measured_value,
        pm2_5_concentration_measurement_attribute_max_measured_value,
        pm2_5_concentration_measurement_attribute_peak_measured_value,
        pm2_5_concentration_measurement_attribute_peak_measured_value_window,
        pm2_5_concentration_measurement_attribute_average_measured_value,
        pm2_5_concentration_measurement_attribute_average_measured_value_window,
        pm2_5_concentration_measurement_attribute_uncertainty,
        pm2_5_concentration_measurement_attribute_measurement_unit,
        pm2_5_concentration_measurement_attribute_measurement_medium,
        pm2_5_concentration_measurement_attribute_level_value]"

definition pm2_5_concentration_measurement_cluster :: cluster_decl where
  "pm2_5_concentration_measurement_cluster =
     \<lparr>cd_ids = pm2_5_concentration_measurement_ids,
      cd_callbacks = [],
      cd_features = pm2_5_concentration_measurement_features,
      cd_attributes = pm2_5_concentration_measurement_attributes,
      cd_commands = [],
      cd_events = [],
      cd_create = Some pm2_5_concentration_measurement_create\<rparr>"

section \<open>Checks\<close>

definition additive_08 :: "cluster_decl list" where
  "additive_08 =
     [operational_credentials_cluster, operational_state_cluster, ota_software_update_provider_cluster,
        ota_software_update_requestor_cluster, oven_cavity_operational_state_cluster, oven_mode_cluster,
        ozone_concentration_measurement_cluster, pm10_concentration_measurement_cluster,
        pm1_concentration_measurement_cluster, pm2_5_concentration_measurement_cluster]"

lemma additive_08_ok: "list_all decl_ok additive_08"
  by code_simp

lemma additive_08_order: "list_all (\<lambda>d. order_ok (cd_features d)) additive_08"
  by code_simp

lemma on_off_cluster_ok: "decl_ok on_off_cluster"
  by code_simp

end
