(* ===== verification/EM_Clusters_09.thy ===== *)
theory EM_Clusters_09
  imports EM_Order
begin

text \<open>
  The generated clusters \<open>power_source\<close> to \<open>rvc_operational_state\<close>:
  one definition for each function and id table of their files, and the checks of the descriptions.
\<close>

section \<open>\<open>power_source\<close>\<close>

definition power_source_wired_id :: u32 where
  "power_source_wired_id = 0x1"

definition power_source_battery_id :: u32 where
  "power_source_battery_id = 0x2"

definition power_source_rechargeable_id :: u32 where
  "power_source_rechargeable_id = 0x4"

definition power_source_replaceable_id :: u32 where
  "power_source_replaceable_id = 0x8"

definition power_source_attribute_status :: attr_fn where
  "power_source_attribute_status =
     bounded 0 3 (attr 0x0000 0 VT_ENUM8)"

definition power_source_attribute_order :: attr_fn where
  "power_source_attribute_order =
     bounded 0 254 (attr 0x0001 ATTRIBUTE_FLAG_NONVOLATILE VT_UINT8)"

definition power_source_attribute_description :: attr_fn where
  "power_source_attribute_description =
     at_most 61 (sized 61 (attr 0x0002 0 VT_CHAR_STRING))"

definition power_source_attribute_wired_assessed_input_voltage :: attr_fn where
  "power_source_attribute_wired_assessed_input_voltage =
     bounded 0 4294967294 (attr 0x0003 ATTRIBUTE_FLAG_NULLABLE VT_NULLABLE_UINT32)"

definition power_source_attribute_wired_assessed_input_frequency :: attr_fn where
  "power_source_attribute_wired_assessed_input_frequency =
     bounded 0 65534 (attr 0x0004 ATTRIBUTE_FLAG_NULLABLE VT_NULLABLE_UINT16)"

definition power_source_attribute_wired_current_type :: attr_fn where
  "power_source_attribute_wired_current_type =
     guarded (Has_Feature power_source_wired_id) (bounded 0 1 (attr 0x0005 0 VT_ENUM8))"

definition power_source_attribute_wired_assessed_current :: attr_fn where
  "power_source_attribute_wired_assessed_current =
     bounded 0 4294967294 (attr 0x0006 ATTRIBUTE_FLAG_NULLABLE VT_NULLABLE_UINT32)"

definition power_source_attribute_wired_nominal_voltage :: attr_fn where
  "power_source_attribute_wired_nominal_voltage =
     bounded 0 4294967294 (attr 0x0007 0 VT_UINT32)"

definition power_source_attribute_wired_maximum_current :: attr_fn where
  "power_source_attribute_wired_maximum_current =
     bounded 0 4294967294 (attr 0x0008 0 VT_UINT32)"

definition power_source_attribute_wired_present :: attr_fn where
  "power_source_attribute_wired_present =
     attr 0x0009 0 VT_BOOLEAN"

definition power_source_attribute_active_wired_faults :: attr_fn where
  "power_source_attribute_active_wired_faults =
     attr 0x000A ATTRIBUTE_FLAG_MANAGED_INTERNALLY VT_ARRAY"

definition power_source_attribute_bat_voltage :: attr_fn where
  "power_source_attribute_bat_voltage =
     bounded 0 4294967294 (attr 0x000B ATTRIBUTE_FLAG_NULLABLE VT_NULLABLE_UINT32)"

definition power_source_attribute_bat_percent_remaining :: attr_fn where
  "power_source_attribute_bat_percent_remaining =
     bounded 0 200 (attr 0x000C ATTRIBUTE_FLAG_NULLABLE VT_NULLABLE_UINT8)"

definition power_source_attribute_bat_time_remaining :: attr_fn where
  "power_source_attribute_bat_time_remaining =
     bounded 0 4294967294 (attr 0x000D ATTRIBUTE_FLAG_NULLABLE VT_NULLABLE_UINT32)"

definition power_source_attribute_bat_charge_level :: attr_fn where
  "power_source_attribute_bat_charge_level =
     guarded (Has_Feature power_source_battery_id) (bounded 0 2 (attr 0x000E 0 VT_ENUM8))"

definition power_source_attribute_bat_replacement_needed :: attr_fn where
  "power_source_attribute_bat_replacement_needed =
     guarded (Has_Feature power_source_battery_id) (attr 0x000F 0 VT_BOOLEAN)"

definition power_source_attribute_bat_replaceability :: attr_fn where
  "power_source_attribute_bat_replaceability =
     guarded (Has_Feature power_source_battery_id) (bounded 0 3 (attr 0x0010 0 VT_ENUM8))"

definition power_source_attribute_bat_present :: attr_fn where
  "power_source_attribute_bat_present =
     attr 0x0011 0 VT_BOOLEAN"

definition power_source_attribute_active_bat_faults :: attr_fn where
  "power_source_attribute_active_bat_faults =
     attr 0x0012 ATTRIBUTE_FLAG_MANAGED_INTERNALLY VT_ARRAY"

definition power_source_attribute_bat_replacement_description :: attr_fn where
  "power_source_attribute_bat_replacement_description =
     guarded (Has_Feature power_source_replaceable_id) (at_most 61 (sized 61 (attr 0x0013 0 VT_CHAR_STRING)))"

definition power_source_attribute_bat_common_designation :: attr_fn where
  "power_source_attribute_bat_common_designation =
     bounded 0 80 (attr 0x0014 0 VT_ENUM8)"

definition power_source_attribute_bat_ansi_designation :: attr_fn where
  "power_source_attribute_bat_ansi_designation =
     at_most 21 (sized 21 (attr 0x0015 0 VT_CHAR_STRING))"

definition power_source_attribute_bat_iec_designation :: attr_fn where
  "power_source_attribute_bat_iec_designation =
     at_most 21 (sized 21 (attr 0x0016 0 VT_CHAR_STRING))"

definition power_source_attribute_bat_approved_chemistry :: attr_fn where
  "power_source_attribute_bat_approved_chemistry =
     bounded 0 32 (attr 0x0017 0 VT_ENUM8)"

definition power_source_attribute_bat_capacity :: attr_fn where
  "power_source_attribute_bat_capacity =
     bounded 0 4294967294 (attr 0x0018 0 VT_UINT32)"

definition power_source_attribute_bat_quantity :: attr_fn where
  "power_source_attribute_bat_quantity =
     guarded (Has_Feature power_source_replaceable_id) (bounded 0 254 (attr 0x0019 0 VT_UINT8))"

definition power_source_attribute_bat_charge_state :: attr_fn where
  "power_source_attribute_bat_charge_state =
     guarded (Has_Feature power_source_rechargeable_id) (bounded 0 3 (attr 0x001A 0 VT_ENUM8))"

definition power_source_attribute_bat_time_to_full_charge :: attr_fn where
  "power_source_attribute_bat_time_to_full_charge =
     bounded 0 4294967294 (attr 0x001B ATTRIBUTE_FLAG_NULLABLE VT_NULLABLE_UINT32)"

definition power_source_attribute_bat_functional_while_charging :: attr_fn where
  "power_source_attribute_bat_functional_while_charging =
     guarded (Has_Feature power_source_rechargeable_id) (attr 0x001C 0 VT_BOOLEAN)"

definition power_source_attribute_bat_charging_current :: attr_fn where
  "power_source_attribute_bat_charging_current =
     bounded 0 4294967294 (attr 0x001D ATTRIBUTE_FLAG_NULLABLE VT_NULLABLE_UINT32)"

definition power_source_attribute_active_bat_charge_faults :: attr_fn where
  "power_source_attribute_active_bat_charge_faults =
     attr 0x001E ATTRIBUTE_FLAG_MANAGED_INTERNALLY VT_ARRAY"

definition power_source_attribute_endpoint_list :: attr_fn where
  "power_source_attribute_endpoint_list =
     attr 0x001F ATTRIBUTE_FLAG_MANAGED_INTERNALLY VT_ARRAY"

definition power_source_event_wired_fault_change :: event_fn where
  "power_source_event_wired_fault_change =
     event 0x00"

definition power_source_event_bat_fault_change :: event_fn where
  "power_source_event_bat_fault_change =
     event 0x01"

definition power_source_event_bat_charge_fault_change :: event_fn where
  "power_source_event_bat_charge_fault_change =
     event 0x02"

definition power_source_feature_wired :: feature_fn where
  "power_source_feature_wired =
     feature power_source_wired_id True [Update_Feature_Map,
        Attribute power_source_attribute_wired_current_type (Field ''wired_current_type'')]"

definition power_source_feature_battery :: feature_fn where
  "power_source_feature_battery =
     feature power_source_battery_id True [Update_Feature_Map,
        Attribute power_source_attribute_bat_charge_level (Field ''bat_charge_level''),
        Attribute power_source_attribute_bat_replacement_needed (Field ''bat_replacement_needed''),
        Attribute power_source_attribute_bat_replaceability (Field ''bat_replaceability'')]"

definition power_source_feature_rechargeable :: feature_fn where
  "power_source_feature_rechargeable =
     feature power_source_rechargeable_id True [Require (Has_Feature power_source_battery_id), Update_Feature_Map,
        Attribute power_source_attribute_bat_charge_state (Field ''bat_charge_state''),
        Attribute power_source_attribute_bat_functional_while_charging (Field
          ''bat_functional_while_charging'')]"

definition power_source_feature_replaceable :: feature_fn where
  "power_source_feature_replaceable =
     feature power_source_replaceable_id True [Require (Has_Feature power_source_battery_id), Update_Feature_Map,
        Attribute power_source_attribute_bat_replacement_description (Field ''bat_replacement_description''),
        Attribute power_source_attribute_bat_quantity (Field ''bat_quantity'')]"

definition power_source_create :: cluster_fn where
  "power_source_create =
     \<lparr>kf_id = 0x002F,
      kf_revision = 3,
      kf_functions = None,
      kf_function_flags = 0,
      kf_body = [Plugin ''MatterPowerSourcePluginServerInitCallback'', Functions, Config_Feature_Map,
        Cluster_Revision, Step (Attribute power_source_attribute_status (Field ''status'')),
        Step (Attribute power_source_attribute_order (Field ''order'')),
        Step (Attribute power_source_attribute_description (Field ''description'')),
        Step (Attribute power_source_attribute_endpoint_list Null_Arr),
        Validate k_exact_one [power_source_wired_id, power_source_battery_id],
        If_Feature power_source_wired_id [Add_Feature power_source_feature_wired ''wired''] [],
        If_Feature power_source_battery_id [Add_Feature power_source_feature_battery ''battery''] [],
        If_Feature power_source_rechargeable_id [Add_Feature power_source_feature_rechargeable
          ''rechargeable''] [],
        If_Feature power_source_replaceable_id [Add_Feature power_source_feature_replaceable ''replaceable'']
          []],
      kf_binding = False\<rparr>"

definition power_source_ids :: cluster_ids where
  "power_source_ids =
     \<lparr>ci_cluster = 0x002F,
      ci_features = [(''Wired'', 0x1), (''Battery'', 0x2), (''Rechargeable'', 0x4), (''Replaceable'', 0x8)],
      ci_attributes = [(''Status'', 0x0000), (''Order'', 0x0001), (''Description'', 0x0002),
        (''WiredAssessedInputVoltage'', 0x0003), (''WiredAssessedInputFrequency'', 0x0004),
        (''WiredCurrentType'', 0x0005), (''WiredAssessedCurrent'', 0x0006), (''WiredNominalVoltage'', 0x0007),
        (''WiredMaximumCurrent'', 0x0008), (''WiredPresent'', 0x0009), (''ActiveWiredFaults'', 0x000A),
        (''BatVoltage'', 0x000B), (''BatPercentRemaining'', 0x000C), (''BatTimeRemaining'', 0x000D),
        (''BatChargeLevel'', 0x000E), (''BatReplacementNeeded'', 0x000F), (''BatReplaceability'', 0x0010),
        (''BatPresent'', 0x0011), (''ActiveBatFaults'', 0x0012), (''BatReplacementDescription'', 0x0013),
        (''BatCommonDesignation'', 0x0014), (''BatANSIDesignation'', 0x0015), (''BatIECDesignation'', 0x0016),
        (''BatApprovedChemistry'', 0x0017), (''BatCapacity'', 0x0018), (''BatQuantity'', 0x0019),
        (''BatChargeState'', 0x001A), (''BatTimeToFullCharge'', 0x001B), (''BatFunctionalWhileCharging'',
        0x001C), (''BatChargingCurrent'', 0x001D), (''ActiveBatChargeFaults'', 0x001E), (''EndpointList'',
        0x001F)],
      ci_commands = [],
      ci_events = [(''WiredFaultChange'', 0x00), (''BatFaultChange'', 0x01), (''BatChargeFaultChange'',
        0x02)]\<rparr>"

definition power_source_features :: "feature_fn list" where
  "power_source_features =
     [power_source_feature_wired, power_source_feature_battery, power_source_feature_rechargeable,
        power_source_feature_replaceable]"

definition power_source_attributes :: "attr_fn list" where
  "power_source_attributes =
     [power_source_attribute_status, power_source_attribute_order, power_source_attribute_description,
        power_source_attribute_wired_assessed_input_voltage,
        power_source_attribute_wired_assessed_input_frequency, power_source_attribute_wired_current_type,
        power_source_attribute_wired_assessed_current, power_source_attribute_wired_nominal_voltage,
        power_source_attribute_wired_maximum_current, power_source_attribute_wired_present,
        power_source_attribute_active_wired_faults, power_source_attribute_bat_voltage,
        power_source_attribute_bat_percent_remaining, power_source_attribute_bat_time_remaining,
        power_source_attribute_bat_charge_level, power_source_attribute_bat_replacement_needed,
        power_source_attribute_bat_replaceability, power_source_attribute_bat_present,
        power_source_attribute_active_bat_faults, power_source_attribute_bat_replacement_description,
        power_source_attribute_bat_common_designation, power_source_attribute_bat_ansi_designation,
        power_source_attribute_bat_iec_designation, power_source_attribute_bat_approved_chemistry,
        power_source_attribute_bat_capacity, power_source_attribute_bat_quantity,
        power_source_attribute_bat_charge_state, power_source_attribute_bat_time_to_full_charge,
        power_source_attribute_bat_functional_while_charging, power_source_attribute_bat_charging_current,
        power_source_attribute_active_bat_charge_faults, power_source_attribute_endpoint_list]"

definition power_source_events :: "event_fn list" where
  "power_source_events =
     [power_source_event_wired_fault_change, power_source_event_bat_fault_change,
        power_source_event_bat_charge_fault_change]"

definition power_source_cluster :: cluster_decl where
  "power_source_cluster =
     \<lparr>cd_ids = power_source_ids,
      cd_callbacks = [],
      cd_features = power_source_features,
      cd_attributes = power_source_attributes,
      cd_commands = [],
      cd_events = power_source_events,
      cd_create = Some power_source_create\<rparr>"

section \<open>\<open>power_source_configuration\<close>\<close>

definition power_source_configuration_attribute_sources :: attr_fn where
  "power_source_configuration_attribute_sources =
     attr 0x0000 (ATTRIBUTE_FLAG_MANAGED_INTERNALLY OR ATTRIBUTE_FLAG_NONVOLATILE) VT_ARRAY"

definition power_source_configuration_create :: cluster_fn where
  "power_source_configuration_create =
     \<lparr>kf_id = 0x002E,
      kf_revision = 1,
      kf_functions = None,
      kf_function_flags = 0,
      kf_body = [Plugin ''MatterPowerSourceConfigurationPluginServerInitCallback'', Functions, Feature_Map 0,
        Cluster_Revision, Step (Attribute power_source_configuration_attribute_sources Null_Arr)],
      kf_binding = False\<rparr>"

definition power_source_configuration_ids :: cluster_ids where
  "power_source_configuration_ids =
     \<lparr>ci_cluster = 0x002E,
      ci_features = [],
      ci_attributes = [(''Sources'', 0x0000)],
      ci_commands = [],
      ci_events = []\<rparr>"

definition power_source_configuration_attributes :: "attr_fn list" where
  "power_source_configuration_attributes =
     [power_source_configuration_attribute_sources]"

definition power_source_configuration_cluster :: cluster_decl where
  "power_source_configuration_cluster =
     \<lparr>cd_ids = power_source_configuration_ids,
      cd_callbacks = [],
      cd_features = [],
      cd_attributes = power_source_configuration_attributes,
      cd_commands = [],
      cd_events = [],
      cd_create = Some power_source_configuration_create\<rparr>"

section \<open>\<open>power_topology\<close>\<close>

definition power_topology_node_topology_id :: u32 where
  "power_topology_node_topology_id = 0x1"

definition power_topology_tree_topology_id :: u32 where
  "power_topology_tree_topology_id = 0x2"

definition power_topology_set_topology_id :: u32 where
  "power_topology_set_topology_id = 0x4"

definition power_topology_dynamic_power_flow_id :: u32 where
  "power_topology_dynamic_power_flow_id = 0x8"

definition power_topology_attribute_available_endpoints :: attr_fn where
  "power_topology_attribute_available_endpoints =
     guarded (Has_Feature power_topology_set_topology_id) (attr 0x0000 ATTRIBUTE_FLAG_MANAGED_INTERNALLY VT_ARRAY)"

definition power_topology_attribute_active_endpoints :: attr_fn where
  "power_topology_attribute_active_endpoints =
     guarded (Has_Feature power_topology_dynamic_power_flow_id) (attr 0x0001 (ATTRIBUTE_FLAG_MANAGED_INTERNALLY OR
          ATTRIBUTE_FLAG_NONVOLATILE) VT_ARRAY)"

definition power_topology_feature_node_topology :: feature_fn where
  "power_topology_feature_node_topology =
     feature power_topology_node_topology_id False [Update_Feature_Map]"

definition power_topology_feature_tree_topology :: feature_fn where
  "power_topology_feature_tree_topology =
     feature power_topology_tree_topology_id False [Update_Feature_Map]"

definition power_topology_feature_set_topology :: feature_fn where
  "power_topology_feature_set_topology =
     feature power_topology_set_topology_id False [Update_Feature_Map,
        Attribute power_topology_attribute_available_endpoints Null_Arr]"

definition power_topology_feature_dynamic_power_flow :: feature_fn where
  "power_topology_feature_dynamic_power_flow =
     feature power_topology_dynamic_power_flow_id False [Require (Has_Feature power_topology_set_topology_id),
        Update_Feature_Map, Attribute power_topology_attribute_active_endpoints Null_Arr]"

definition power_topology_create :: cluster_fn where
  "power_topology_create =
     \<lparr>kf_id = 0x009C,
      kf_revision = 1,
      kf_functions = None,
      kf_function_flags = 0,
      kf_body = [Delegate ''PowerTopologyDelegateInitCB'',
        Plugin ''MatterPowerTopologyPluginServerInitCallback'', Functions, Config_Feature_Map, Cluster_Revision,
        Validate k_exact_one [power_topology_node_topology_id, power_topology_tree_topology_id,
        power_topology_set_topology_id],
        If_Feature power_topology_node_topology_id [Add_Feature power_topology_feature_node_topology
          ''node_topology''] [],
        If_Feature power_topology_tree_topology_id [Add_Feature power_topology_feature_tree_topology
          ''tree_topology''] [],
        If_Feature power_topology_set_topology_id [Add_Feature power_topology_feature_set_topology
          ''set_topology''] [],
        If_Feature power_topology_dynamic_power_flow_id [Add_Feature power_topology_feature_dynamic_power_flow
          ''dynamic_power_flow''] [],
        Callbacks ''ESPMatterPowerTopologyClusterServerInitCallback''
          ''ESPMatterPowerTopologyClusterServerShutdownCallback''],
      kf_binding = True\<rparr>"

definition power_topology_ids :: cluster_ids where
  "power_topology_ids =
     \<lparr>ci_cluster = 0x009C,
      ci_features = [(''NodeTopology'', 0x1), (''TreeTopology'', 0x2), (''SetTopology'', 0x4),
        (''DynamicPowerFlow'', 0x8)],
      ci_attributes = [(''AvailableEndpoints'', 0x0000), (''ActiveEndpoints'', 0x0001)],
      ci_commands = [],
      ci_events = []\<rparr>"

definition power_topology_features :: "feature_fn list" where
  "power_topology_features =
     [power_topology_feature_node_topology, power_topology_feature_tree_topology,
        power_topology_feature_set_topology, power_topology_feature_dynamic_power_flow]"

definition power_topology_attributes :: "attr_fn list" where
  "power_topology_attributes =
     [power_topology_attribute_available_endpoints, power_topology_attribute_active_endpoints]"

definition power_topology_cluster :: cluster_decl where
  "power_topology_cluster =
     \<lparr>cd_ids = power_topology_ids,
      cd_callbacks = [],
      cd_features = power_topology_features,
      cd_attributes = power_topology_attributes,
      cd_commands = [],
      cd_events = [],
      cd_create = Some power_topology_create\<rparr>"

section \<open>\<open>pressure_measurement\<close>\<close>

definition pressure_measurement_extended_id :: u32 where
  "pressure_measurement_extended_id = 0x1"

definition pressure_measurement_attribute_measured_value :: attr_fn where
  "pressure_measurement_attribute_measured_value =
     bounded (- 32768) 32766 (attr 0x0000 ATTRIBUTE_FLAG_NULLABLE VT_NULLABLE_INT16)"

definition pressure_measurement_attribute_min_measured_value :: attr_fn where
  "pressure_measurement_attribute_min_measured_value =
     bounded (- 32768) 32766 (attr 0x0001 ATTRIBUTE_FLAG_NULLABLE VT_NULLABLE_INT16)"

definition pressure_measurement_attribute_max_measured_value :: attr_fn where
  "pressure_measurement_attribute_max_measured_value =
     bounded (- 32768) 32767 (attr 0x0002 ATTRIBUTE_FLAG_NULLABLE VT_NULLABLE_INT16)"

definition pressure_measurement_attribute_tolerance :: attr_fn where
  "pressure_measurement_attribute_tolerance =
     bounded 0 2048 (attr 0x0003 0 VT_UINT16)"

definition pressure_measurement_attribute_scaled_value :: attr_fn where
  "pressure_measurement_attribute_scaled_value =
     guarded (Has_Feature pressure_measurement_extended_id) (bounded (- 32768) 32766 (attr 0x0010
          ATTRIBUTE_FLAG_NULLABLE VT_NULLABLE_INT16))"

definition pressure_measurement_attribute_min_scaled_value :: attr_fn where
  "pressure_measurement_attribute_min_scaled_value =
     guarded (Has_Feature pressure_measurement_extended_id) (bounded (- 32768) 32766 (attr 0x0011
          ATTRIBUTE_FLAG_NULLABLE VT_NULLABLE_INT16))"

definition pressure_measurement_attribute_max_scaled_value :: attr_fn where
  "pressure_measurement_attribute_max_scaled_value =
     guarded (Has_Feature pressure_measurement_extended_id) (bounded (- 32768) 32767 (attr 0x0012
          ATTRIBUTE_FLAG_NULLABLE VT_NULLABLE_INT16))"

definition pressure_measurement_attribute_scaled_tolerance :: attr_fn where
  "pressure_measurement_attribute_scaled_tolerance =
     bounded 0 2048 (attr 0x0013 0 VT_UINT16)"

definition pressure_measurement_attribute_scale :: attr_fn where
  "pressure_measurement_attribute_scale =
     guarded (Has_Feature pressure_measurement_extended_id) (bounded (- 127) 126 (attr 0x0014 0 VT_INT8))"

definition pressure_measurement_feature_extended :: feature_fn where
  "pressure_measurement_feature_extended =
     feature pressure_measurement_extended_id True [Update_Feature_Map,
        Attribute pressure_measurement_attribute_scaled_value (Field ''scaled_value''),
        Attribute pressure_measurement_attribute_min_scaled_value (Field ''min_scaled_value''),
        Attribute pressure_measurement_attribute_max_scaled_value (Field ''max_scaled_value''),
        Attribute pressure_measurement_attribute_scale (Field ''scale'')]"

definition pressure_measurement_create :: cluster_fn where
  "pressure_measurement_create =
     \<lparr>kf_id = 0x0403,
      kf_revision = 3,
      kf_functions = None,
      kf_function_flags = 0,
      kf_body = [Plugin ''MatterPressureMeasurementPluginServerInitCallback'', Functions, Feature_Map 0,
        Cluster_Revision,
        Step (Attribute pressure_measurement_attribute_measured_value (Field ''measured_value'')),
        Step (Attribute pressure_measurement_attribute_min_measured_value (Field ''min_measured_value'')),
        Step (Attribute pressure_measurement_attribute_max_measured_value (Field ''max_measured_value''))],
      kf_binding = True\<rparr>"

definition pressure_measurement_ids :: cluster_ids where
  "pressure_measurement_ids =
     \<lparr>ci_cluster = 0x0403,
      ci_features = [(''Extended'', 0x1)],
      ci_attributes = [(''MeasuredValue'', 0x0000), (''MinMeasuredValue'', 0x0001), (''MaxMeasuredValue'',
        0x0002), (''Tolerance'', 0x0003), (''ScaledValue'', 0x0010), (''MinScaledValue'', 0x0011),
        (''MaxScaledValue'', 0x0012), (''ScaledTolerance'', 0x0013), (''Scale'', 0x0014)],
      ci_commands = [],
      ci_events = []\<rparr>"

definition pressure_measurement_features :: "feature_fn list" where
  "pressure_measurement_features =
     [pressure_measurement_feature_extended]"

definition pressure_measurement_attributes :: "attr_fn list" where
  "pressure_measurement_attributes =
     [pressure_measurement_attribute_measured_value, pressure_measurement_attribute_min_measured_value,
        pressure_measurement_attribute_max_measured_value, pressure_measurement_attribute_tolerance,
        pressure_measurement_attribute_scaled_value, pressure_measurement_attribute_min_scaled_value,
        pressure_measurement_attribute_max_scaled_value, pressure_measurement_attribute_scaled_tolerance,
        pressure_measurement_attribute_scale]"

definition pressure_measurement_cluster :: cluster_decl where
  "pressure_measurement_cluster =
     \<lparr>cd_ids = pressure_measurement_ids,
      cd_callbacks = [],
      cd_features = pressure_measurement_features,
      cd_attributes = pressure_measurement_attributes,
      cd_commands = [],
      cd_events = [],
      cd_create = Some pressure_measurement_create\<rparr>"

section \<open>\<open>pump_configuration_and_control\<close>\<close>

definition pump_configuration_and_control_constant_pressure_id :: u32 where
  "pump_configuration_and_control_constant_pressure_id = 0x1"

definition pump_configuration_and_control_compensated_pressure_id :: u32 where
  "pump_configuration_and_control_compensated_pressure_id = 0x2"

definition pump_configuration_and_control_constant_flow_id :: u32 where
  "pump_configuration_and_control_constant_flow_id = 0x4"

definition pump_configuration_and_control_constant_speed_id :: u32 where
  "pump_configuration_and_control_constant_speed_id = 0x8"

definition pump_configuration_and_control_constant_temperature_id :: u32 where
  "pump_configuration_and_control_constant_temperature_id = 0x10"

definition pump_configuration_and_control_automatic_id :: u32 where
  "pump_configuration_and_control_automatic_id = 0x20"

definition pump_configuration_and_control_local_operation_id :: u32 where
  "pump_configuration_and_control_local_operation_id = 0x40"

definition pump_configuration_and_control_attribute_max_pressure :: attr_fn where
  "pump_configuration_and_control_attribute_max_pressure =
     bounded (- 32768) 32766 (attr 0x0000 ATTRIBUTE_FLAG_NULLABLE VT_NULLABLE_INT16)"

definition pump_configuration_and_control_attribute_max_speed :: attr_fn where
  "pump_configuration_and_control_attribute_max_speed =
     bounded 0 65534 (attr 0x0001 ATTRIBUTE_FLAG_NULLABLE VT_NULLABLE_UINT16)"

definition pump_configuration_and_control_attribute_max_flow :: attr_fn where
  "pump_configuration_and_control_attribute_max_flow =
     bounded 0 65534 (attr 0x0002 ATTRIBUTE_FLAG_NULLABLE VT_NULLABLE_UINT16)"

definition pump_configuration_and_control_attribute_min_const_pressure :: attr_fn where
  "pump_configuration_and_control_attribute_min_const_pressure =
     bounded (- 32768) 32766 (attr 0x0003 ATTRIBUTE_FLAG_NULLABLE VT_NULLABLE_INT16)"

definition pump_configuration_and_control_attribute_max_const_pressure :: attr_fn where
  "pump_configuration_and_control_attribute_max_const_pressure =
     bounded (- 32768) 32766 (attr 0x0004 ATTRIBUTE_FLAG_NULLABLE VT_NULLABLE_INT16)"

definition pump_configuration_and_control_attribute_min_comp_pressure :: attr_fn where
  "pump_configuration_and_control_attribute_min_comp_pressure =
     bounded (- 32768) 32766 (attr 0x0005 ATTRIBUTE_FLAG_NULLABLE VT_NULLABLE_INT16)"

definition pump_configuration_and_control_attribute_max_comp_pressure :: attr_fn where
  "pump_configuration_and_control_attribute_max_comp_pressure =
     bounded (- 32768) 32766 (attr 0x0006 ATTRIBUTE_FLAG_NULLABLE VT_NULLABLE_INT16)"

definition pump_configuration_and_control_attribute_min_const_speed :: attr_fn where
  "pump_configuration_and_control_attribute_min_const_speed =
     bounded 0 65534 (attr 0x0007 ATTRIBUTE_FLAG_NULLABLE VT_NULLABLE_UINT16)"

definition pump_configuration_and_control_attribute_max_const_speed :: attr_fn where
  "pump_configuration_and_control_attribute_max_const_speed =
     bounded 0 65534 (attr 0x0008 ATTRIBUTE_FLAG_NULLABLE VT_NULLABLE_UINT16)"

definition pump_configuration_and_control_attribute_min_const_flow :: attr_fn where
  "pump_configuration_and_control_attribute_min_const_flow =
     bounded 0 65534 (attr 0x0009 ATTRIBUTE_FLAG_NULLABLE VT_NULLABLE_UINT16)"

definition pump_configuration_and_control_attribute_max_const_flow :: attr_fn where
  "pump_configuration_and_control_attribute_max_const_flow =
     bounded 0 65534 (attr 0x000A ATTRIBUTE_FLAG_NULLABLE VT_NULLABLE_UINT16)"

definition pump_configuration_and_control_attribute_min_const_temp :: attr_fn where
  "pump_configuration_and_control_attribute_min_const_temp =
     bounded (- 27315) 32766 (attr 0x000B ATTRIBUTE_FLAG_NULLABLE VT_NULLABLE_INT16)"

definition pump_configuration_and_control_attribute_max_const_temp :: attr_fn where
  "pump_configuration_and_control_attribute_max_const_temp =
     bounded (- 27315) 32766 (attr 0x000C ATTRIBUTE_FLAG_NULLABLE VT_NULLABLE_INT16)"

definition pump_configuration_and_control_attribute_pump_status :: attr_fn where
  "pump_configuration_and_control_attribute_pump_status =
     bounded 0 511 (attr 0x0010 0 VT_BITMAP16)"

definition pump_configuration_and_control_attribute_effective_operation_mode :: attr_fn where
  "pump_configuration_and_control_attribute_effective_operation_mode =
     bounded 0 3 (attr 0x0011 ATTRIBUTE_FLAG_NONVOLATILE VT_ENUM8)"

definition pump_configuration_and_control_attribute_effective_control_mode :: attr_fn where
  "pump_configuration_and_control_attribute_effective_control_mode =
     bounded 0 5 (attr 0x0012 ATTRIBUTE_FLAG_NONVOLATILE VT_ENUM8)"

definition pump_configuration_and_control_attribute_capacity :: attr_fn where
  "pump_configuration_and_control_attribute_capacity =
     bounded (- 32768) 32766 (attr 0x0013 ATTRIBUTE_FLAG_NULLABLE VT_NULLABLE_INT16)"

definition pump_configuration_and_control_attribute_speed :: attr_fn where
  "pump_configuration_and_control_attribute_speed =
     bounded 0 65534 (attr 0x0014 ATTRIBUTE_FLAG_NULLABLE VT_NULLABLE_UINT16)"

definition pump_configuration_and_control_attribute_lifetime_running_hours :: attr_fn where
  "pump_configuration_and_control_attribute_lifetime_running_hours =
     bounded 0 4294967294 (attr 0x0015 (ATTRIBUTE_FLAG_WRITABLE OR ATTRIBUTE_FLAG_NULLABLE OR
          ATTRIBUTE_FLAG_NONVOLATILE) VT_NULLABLE_UINT32)"

definition pump_configuration_and_control_attribute_power :: attr_fn where
  "pump_configuration_and_control_attribute_power =
     bounded 0 4294967294 (attr 0x0016 ATTRIBUTE_FLAG_NULLABLE VT_NULLABLE_UINT32)"

definition pump_configuration_and_control_attribute_lifetime_energy_consumed :: attr_fn where
  "pump_configuration_and_control_attribute_lifetime_energy_consumed =
     bounded 0 4294967294 (attr 0x0017 (ATTRIBUTE_FLAG_WRITABLE OR ATTRIBUTE_FLAG_NULLABLE OR
          ATTRIBUTE_FLAG_NONVOLATILE) VT_NULLABLE_UINT32)"

definition pump_configuration_and_control_attribute_operation_mode :: attr_fn where
  "pump_configuration_and_control_attribute_operation_mode =
     bounded 0 3 (attr 0x0020 (ATTRIBUTE_FLAG_WRITABLE OR ATTRIBUTE_FLAG_NONVOLATILE) VT_ENUM8)"

definition pump_configuration_and_control_attribute_control_mode :: attr_fn where
  "pump_configuration_and_control_attribute_control_mode =
     bounded 0 5 (attr 0x0021 (ATTRIBUTE_FLAG_WRITABLE OR ATTRIBUTE_FLAG_NONVOLATILE) VT_ENUM8)"

definition pump_configuration_and_control_event_supply_voltage_low :: event_fn where
  "pump_configuration_and_control_event_supply_voltage_low =
     event 0x00"

definition pump_configuration_and_control_event_supply_voltage_high :: event_fn where
  "pump_configuration_and_control_event_supply_voltage_high =
     event 0x01"

definition pump_configuration_and_control_event_power_missing_phase :: event_fn where
  "pump_configuration_and_control_event_power_missing_phase =
     event 0x02"

definition pump_configuration_and_control_event_system_pressure_low :: event_fn where
  "pump_configuration_and_control_event_system_pressure_low =
     event 0x03"

definition pump_configuration_and_control_event_system_pressure_high :: event_fn where
  "pump_configuration_and_control_event_system_pressure_high =
     event 0x04"

definition pump_configuration_and_control_event_dry_running :: event_fn where
  "pump_configuration_and_control_event_dry_running =
     event 0x05"

definition pump_configuration_and_control_event_motor_temperature_high :: event_fn where
  "pump_configuration_and_control_event_motor_temperature_high =
     event 0x06"

definition pump_configuration_and_control_event_pump_motor_fatal_failure :: event_fn where
  "pump_configuration_and_control_event_pump_motor_fatal_failure =
     event 0x07"

definition pump_configuration_and_control_event_electronic_temperature_high :: event_fn where
  "pump_configuration_and_control_event_electronic_temperature_high =
     event 0x08"

definition pump_configuration_and_control_event_pump_blocked :: event_fn where
  "pump_configuration_and_control_event_pump_blocked =
     event 0x09"

definition pump_configuration_and_control_event_sensor_failure :: event_fn where
  "pump_configuration_and_control_event_sensor_failure =
     event 0x0A"

definition pump_configuration_and_control_event_electronic_non_fatal_failure :: event_fn where
  "pump_configuration_and_control_event_electronic_non_fatal_failure =
     event 0x0B"

definition pump_configuration_and_control_event_electronic_fatal_failure :: event_fn where
  "pump_configuration_and_control_event_electronic_fatal_failure =
     event 0x0C"

definition pump_configuration_and_control_event_general_fault :: event_fn where
  "pump_configuration_and_control_event_general_fault =
     event 0x0D"

definition pump_configuration_and_control_event_leakage :: event_fn where
  "pump_configuration_and_control_event_leakage =
     event 0x0E"

definition pump_configuration_and_control_event_air_detection :: event_fn where
  "pump_configuration_and_control_event_air_detection =
     event 0x0F"

definition pump_configuration_and_control_event_turbine_operation :: event_fn where
  "pump_configuration_and_control_event_turbine_operation =
     event 0x10"

definition pump_configuration_and_control_feature_constant_pressure :: feature_fn where
  "pump_configuration_and_control_feature_constant_pressure =
     feature pump_configuration_and_control_constant_pressure_id True [Update_Feature_Map,
        Attribute pump_configuration_and_control_attribute_min_const_pressure (Field ''min_const_pressure''),
        Attribute pump_configuration_and_control_attribute_max_const_pressure (Field ''max_const_pressure'')]"

definition pump_configuration_and_control_feature_compensated_pressure :: feature_fn where
  "pump_configuration_and_control_feature_compensated_pressure =
     feature pump_configuration_and_control_compensated_pressure_id True [Update_Feature_Map,
        Attribute pump_configuration_and_control_attribute_min_comp_pressure (Field ''min_comp_pressure''),
        Attribute pump_configuration_and_control_attribute_max_comp_pressure (Field ''max_comp_pressure'')]"

definition pump_configuration_and_control_feature_constant_flow :: feature_fn where
  "pump_configuration_and_control_feature_constant_flow =
     feature pump_configuration_and_control_constant_flow_id True [Update_Feature_Map,
        Attribute pump_configuration_and_control_attribute_min_const_flow (Field ''min_const_flow''),
        Attribute pump_configuration_and_control_attribute_max_const_flow (Field ''max_const_flow'')]"

definition pump_configuration_and_control_feature_constant_speed :: feature_fn where
  "pump_configuration_and_control_feature_constant_speed =
     feature pump_configuration_and_control_constant_speed_id True [Update_Feature_Map,
        Attribute pump_configuration_and_control_attribute_min_const_speed (Field ''min_const_speed''),
        Attribute pump_configuration_and_control_attribute_max_const_speed (Field ''max_const_speed'')]"

definition pump_configuration_and_control_feature_constant_temperature :: feature_fn where
  "pump_configuration_and_control_feature_constant_temperature =
     feature pump_configuration_and_control_constant_temperature_id True [Update_Feature_Map,
        Attribute pump_configuration_and_control_attribute_min_const_temp (Field ''min_const_temp''),
        Attribute pump_configuration_and_control_attribute_max_const_temp (Field ''max_const_temp'')]"

definition pump_configuration_and_control_feature_automatic :: feature_fn where
  "pump_configuration_and_control_feature_automatic =
     feature pump_configuration_and_control_automatic_id True [Update_Feature_Map,
        Attribute pump_configuration_and_control_attribute_min_const_pressure (Field ''min_const_pressure''),
        Attribute pump_configuration_and_control_attribute_max_const_pressure (Field ''max_const_pressure''),
        Attribute pump_configuration_and_control_attribute_min_comp_pressure (Field ''min_comp_pressure''),
        Attribute pump_configuration_and_control_attribute_max_comp_pressure (Field ''max_comp_pressure''),
        Attribute pump_configuration_and_control_attribute_min_const_speed (Field ''min_const_speed''),
        Attribute pump_configuration_and_control_attribute_max_const_speed (Field ''max_const_speed''),
        Attribute pump_configuration_and_control_attribute_min_const_flow (Field ''min_const_flow''),
        Attribute pump_configuration_and_control_attribute_max_const_flow (Field ''max_const_flow''),
        Attribute pump_configuration_and_control_attribute_min_const_temp (Field ''min_const_temp''),
        Attribute pump_configuration_and_control_attribute_max_const_temp (Field ''max_const_temp'')]"

definition pump_configuration_and_control_feature_local_operation :: feature_fn where
  "pump_configuration_and_control_feature_local_operation =
     feature pump_configuration_and_control_local_operation_id False [Update_Feature_Map]"

definition pump_configuration_and_control_function_list :: "string list option" where
  "pump_configuration_and_control_function_list =
     Some [''emberAfPumpConfigurationAndControlClusterServerInitCallback'',
        ''MatterPumpConfigurationAndControlClusterServerAttributeChangedCallback'',
        ''MatterPumpConfigurationAndControlClusterServerPreAttributeChangedCallback'']"

definition pump_configuration_and_control_create :: cluster_fn where
  "pump_configuration_and_control_create =
     \<lparr>kf_id = 0x0200,
      kf_revision = 4,
      kf_functions = pump_configuration_and_control_function_list,
      kf_function_flags = CLUSTER_FLAG_INIT_FUNCTION OR CLUSTER_FLAG_ATTRIBUTE_CHANGED_FUNCTION OR
          CLUSTER_FLAG_PRE_ATTRIBUTE_CHANGED_FUNCTION,
      kf_body = [Plugin ''MatterPumpConfigurationAndControlPluginServerInitCallback'', Functions,
        Config_Feature_Map, Cluster_Revision,
        Step (Attribute pump_configuration_and_control_attribute_max_pressure (Field ''max_pressure'')),
        Step (Attribute pump_configuration_and_control_attribute_max_speed (Field ''max_speed'')),
        Step (Attribute pump_configuration_and_control_attribute_max_flow (Field ''max_flow'')),
        Step (Attribute pump_configuration_and_control_attribute_effective_operation_mode (Field
          ''effective_operation_mode'')),
        Step (Attribute pump_configuration_and_control_attribute_effective_control_mode (Field
          ''effective_control_mode'')),
        Step (Attribute pump_configuration_and_control_attribute_capacity (Field ''capacity'')),
        Step (Attribute pump_configuration_and_control_attribute_operation_mode (Field ''operation_mode'')),
        Validate k_at_least_one [pump_configuration_and_control_constant_pressure_id,
        pump_configuration_and_control_constant_temperature_id,
        pump_configuration_and_control_compensated_pressure_id, pump_configuration_and_control_constant_flow_id,
        pump_configuration_and_control_constant_speed_id],
        If_Feature pump_configuration_and_control_constant_pressure_id [Add_Feature
          pump_configuration_and_control_feature_constant_pressure ''constant_pressure''] [],
        If_Feature pump_configuration_and_control_constant_temperature_id [Add_Feature
          pump_configuration_and_control_feature_constant_temperature ''constant_temperature''] [],
        If_Feature pump_configuration_and_control_compensated_pressure_id [Add_Feature
          pump_configuration_and_control_feature_compensated_pressure ''compensated_pressure''] [],
        If_Feature pump_configuration_and_control_constant_flow_id [Add_Feature
          pump_configuration_and_control_feature_constant_flow ''constant_flow''] [],
        If_Feature pump_configuration_and_control_constant_speed_id [Add_Feature
          pump_configuration_and_control_feature_constant_speed ''constant_speed''] [],
        If_Feature pump_configuration_and_control_automatic_id [Add_Feature
          pump_configuration_and_control_feature_automatic ''automatic''] [],
        If_Feature pump_configuration_and_control_local_operation_id [Add_Feature
          pump_configuration_and_control_feature_local_operation ''local_operation''] []],
      kf_binding = True\<rparr>"

definition pump_configuration_and_control_ids :: cluster_ids where
  "pump_configuration_and_control_ids =
     \<lparr>ci_cluster = 0x0200,
      ci_features = [(''ConstantPressure'', 0x1), (''CompensatedPressure'', 0x2), (''ConstantFlow'', 0x4),
        (''ConstantSpeed'', 0x8), (''ConstantTemperature'', 0x10), (''Automatic'', 0x20), (''LocalOperation'',
        0x40)],
      ci_attributes = [(''MaxPressure'', 0x0000), (''MaxSpeed'', 0x0001), (''MaxFlow'', 0x0002),
        (''MinConstPressure'', 0x0003), (''MaxConstPressure'', 0x0004), (''MinCompPressure'', 0x0005),
        (''MaxCompPressure'', 0x0006), (''MinConstSpeed'', 0x0007), (''MaxConstSpeed'', 0x0008),
        (''MinConstFlow'', 0x0009), (''MaxConstFlow'', 0x000A), (''MinConstTemp'', 0x000B), (''MaxConstTemp'',
        0x000C), (''PumpStatus'', 0x0010), (''EffectiveOperationMode'', 0x0011), (''EffectiveControlMode'',
        0x0012), (''Capacity'', 0x0013), (''Speed'', 0x0014), (''LifetimeRunningHours'', 0x0015), (''Power'',
        0x0016), (''LifetimeEnergyConsumed'', 0x0017), (''OperationMode'', 0x0020), (''ControlMode'', 0x0021)],
      ci_commands = [],
      ci_events = [(''SupplyVoltageLow'', 0x00), (''SupplyVoltageHigh'', 0x01), (''PowerMissingPhase'', 0x02),
        (''SystemPressureLow'', 0x03), (''SystemPressureHigh'', 0x04), (''DryRunning'', 0x05),
        (''MotorTemperatureHigh'', 0x06), (''PumpMotorFatalFailure'', 0x07), (''ElectronicTemperatureHigh'',
        0x08), (''PumpBlocked'', 0x09), (''SensorFailure'', 0x0A), (''ElectronicNonFatalFailure'', 0x0B),
        (''ElectronicFatalFailure'', 0x0C), (''GeneralFault'', 0x0D), (''Leakage'', 0x0E), (''AirDetection'',
        0x0F), (''TurbineOperation'', 0x10)]\<rparr>"

definition pump_configuration_and_control_features :: "feature_fn list" where
  "pump_configuration_and_control_features =
     [pump_configuration_and_control_feature_constant_pressure,
        pump_configuration_and_control_feature_compensated_pressure,
        pump_configuration_and_control_feature_constant_flow,
        pump_configuration_and_control_feature_constant_speed,
        pump_configuration_and_control_feature_constant_temperature,
        pump_configuration_and_control_feature_automatic,
        pump_configuration_and_control_feature_local_operation]"

definition pump_configuration_and_control_attributes :: "attr_fn list" where
  "pump_configuration_and_control_attributes =
     [pump_configuration_and_control_attribute_max_pressure, pump_configuration_and_control_attribute_max_speed,
        pump_configuration_and_control_attribute_max_flow,
        pump_configuration_and_control_attribute_min_const_pressure,
        pump_configuration_and_control_attribute_max_const_pressure,
        pump_configuration_and_control_attribute_min_comp_pressure,
        pump_configuration_and_control_attribute_max_comp_pressure,
        pump_configuration_and_control_attribute_min_const_speed,
        pump_configuration_and_control_attribute_max_const_speed,
        pump_configuration_and_control_attribute_min_const_flow,
        pump_configuration_and_control_attribute_max_const_flow,
        pump_configuration_and_control_attribute_min_const_temp,
        pump_configuration_and_control_attribute_max_const_temp,
        pump_configuration_and_control_attribute_pump_status,
        pump_configuration_and_control_attribute_effective_operation_mode,
        pump_configuration_and_control_attribute_effective_control_mode,
        pump_configuration_and_control_attribute_capacity, pump_configuration_and_control_attribute_speed,
        pump_configuration_and_control_attribute_lifetime_running_hours,
        pump_configuration_and_control_attribute_power,
        pump_configuration_and_control_attribute_lifetime_energy_consumed,
        pump_configuration_and_control_attribute_operation_mode,
        pump_configuration_and_control_attribute_control_mode]"

definition pump_configuration_and_control_events :: "event_fn list" where
  "pump_configuration_and_control_events =
     [pump_configuration_and_control_event_supply_voltage_low,
        pump_configuration_and_control_event_supply_voltage_high,
        pump_configuration_and_control_event_power_missing_phase,
        pump_configuration_and_control_event_system_pressure_low,
        pump_configuration_and_control_event_system_pressure_high,
        pump_configuration_and_control_event_dry_running,
        pump_configuration_and_control_event_motor_temperature_high,
        pump_configuration_and_control_event_pump_motor_fatal_failure,
        pump_configuration_and_control_event_electronic_temperature_high,
        pump_configuration_and_control_event_pump_blocked, pump_configuration_and_control_event_sensor_failure,
        pump_configuration_and_control_event_electronic_non_fatal_failure,
        pump_configuration_and_control_event_electronic_fatal_failure,
        pump_configuration_and_control_event_general_fault, pump_configuration_and_control_event_leakage,
        pump_configuration_and_control_event_air_detection,
        pump_configuration_and_control_event_turbine_operation]"

definition pump_configuration_and_control_cluster :: cluster_decl where
  "pump_configuration_and_control_cluster =
     \<lparr>cd_ids = pump_configuration_and_control_ids,
      cd_callbacks = [],
      cd_features = pump_configuration_and_control_features,
      cd_attributes = pump_configuration_and_control_attributes,
      cd_commands = [],
      cd_events = pump_configuration_and_control_events,
      cd_create = Some pump_configuration_and_control_create\<rparr>"

section \<open>\<open>push_av_stream_transport\<close>\<close>

definition push_av_stream_transport_per_zone_sensitivity_id :: u32 where
  "push_av_stream_transport_per_zone_sensitivity_id = 0x1"

definition push_av_stream_transport_attribute_supported_formats :: attr_fn where
  "push_av_stream_transport_attribute_supported_formats =
     attr 0x0000 ATTRIBUTE_FLAG_MANAGED_INTERNALLY VT_ARRAY"

definition push_av_stream_transport_attribute_current_connections :: attr_fn where
  "push_av_stream_transport_attribute_current_connections =
     attr 0x0001 (ATTRIBUTE_FLAG_MANAGED_INTERNALLY OR ATTRIBUTE_FLAG_NONVOLATILE) VT_ARRAY"

definition push_av_stream_transport_command_allocate_push_transport :: cmd_fn where
  "push_av_stream_transport_command_allocate_push_transport =
     cmd 0x00 COMMAND_FLAG_ACCEPTED None"

definition push_av_stream_transport_command_allocate_push_transport_response :: cmd_fn where
  "push_av_stream_transport_command_allocate_push_transport_response =
     cmd 0x01 COMMAND_FLAG_GENERATED None"

definition push_av_stream_transport_command_deallocate_push_transport :: cmd_fn where
  "push_av_stream_transport_command_deallocate_push_transport =
     cmd 0x02 COMMAND_FLAG_ACCEPTED None"

definition push_av_stream_transport_command_modify_push_transport :: cmd_fn where
  "push_av_stream_transport_command_modify_push_transport =
     cmd 0x03 COMMAND_FLAG_ACCEPTED None"

definition push_av_stream_transport_command_set_transport_status :: cmd_fn where
  "push_av_stream_transport_command_set_transport_status =
     cmd 0x04 COMMAND_FLAG_ACCEPTED None"

definition push_av_stream_transport_command_manually_trigger_transport :: cmd_fn where
  "push_av_stream_transport_command_manually_trigger_transport =
     cmd 0x05 COMMAND_FLAG_ACCEPTED None"

definition push_av_stream_transport_command_find_transport :: cmd_fn where
  "push_av_stream_transport_command_find_transport =
     cmd 0x06 COMMAND_FLAG_ACCEPTED None"

definition push_av_stream_transport_command_find_transport_response :: cmd_fn where
  "push_av_stream_transport_command_find_transport_response =
     cmd 0x07 COMMAND_FLAG_GENERATED None"

definition push_av_stream_transport_event_push_transport_begin :: event_fn where
  "push_av_stream_transport_event_push_transport_begin =
     event 0x00"

definition push_av_stream_transport_event_push_transport_end :: event_fn where
  "push_av_stream_transport_event_push_transport_end =
     event 0x01"

definition push_av_stream_transport_feature_per_zone_sensitivity :: feature_fn where
  "push_av_stream_transport_feature_per_zone_sensitivity =
     feature push_av_stream_transport_per_zone_sensitivity_id False [Update_Feature_Map]"

definition push_av_stream_transport_create :: cluster_fn where
  "push_av_stream_transport_create =
     \<lparr>kf_id = 0x0555,
      kf_revision = 1,
      kf_functions = None,
      kf_function_flags = 0,
      kf_body = [Delegate ''PushAvStreamTransportDelegateInitCB'',
        Plugin ''MatterPushAvStreamTransportPluginServerInitCallback'', Functions, Feature_Map 0,
        Cluster_Revision, Step (Attribute push_av_stream_transport_attribute_supported_formats Null_Arr),
        Step (Attribute push_av_stream_transport_attribute_current_connections Null_Arr),
        Step (Command push_av_stream_transport_command_allocate_push_transport),
        Step (Command push_av_stream_transport_command_allocate_push_transport_response),
        Step (Command push_av_stream_transport_command_deallocate_push_transport),
        Step (Command push_av_stream_transport_command_modify_push_transport),
        Step (Command push_av_stream_transport_command_set_transport_status),
        Step (Command push_av_stream_transport_command_manually_trigger_transport),
        Step (Command push_av_stream_transport_command_find_transport),
        Step (Command push_av_stream_transport_command_find_transport_response),
        Step (Event push_av_stream_transport_event_push_transport_begin),
        Step (Event push_av_stream_transport_event_push_transport_end),
        Callbacks ''ESPMatterPushAvStreamTransportClusterServerInitCallback''
          ''ESPMatterPushAvStreamTransportClusterServerShutdownCallback''],
      kf_binding = True\<rparr>"

definition push_av_stream_transport_ids :: cluster_ids where
  "push_av_stream_transport_ids =
     \<lparr>ci_cluster = 0x0555,
      ci_features = [(''PerZoneSensitivity'', 0x1)],
      ci_attributes = [(''SupportedFormats'', 0x0000), (''CurrentConnections'', 0x0001)],
      ci_commands = [(''AllocatePushTransport'', 0x00), (''AllocatePushTransportResponse'', 0x01),
        (''DeallocatePushTransport'', 0x02), (''ModifyPushTransport'', 0x03), (''SetTransportStatus'', 0x04),
        (''ManuallyTriggerTransport'', 0x05), (''FindTransport'', 0x06), (''FindTransportResponse'', 0x07)],
      ci_events = [(''PushTransportBegin'', 0x00), (''PushTransportEnd'', 0x01)]\<rparr>"

definition push_av_stream_transport_features :: "feature_fn list" where
  "push_av_stream_transport_features =
     [push_av_stream_transport_feature_per_zone_sensitivity]"

definition push_av_stream_transport_attributes :: "attr_fn list" where
  "push_av_stream_transport_attributes =
     [push_av_stream_transport_attribute_supported_formats, push_av_stream_transport_attribute_current_connections]"

definition push_av_stream_transport_commands :: "cmd_fn list" where
  "push_av_stream_transport_commands =
     [push_av_stream_transport_command_allocate_push_transport,
        push_av_stream_transport_command_allocate_push_transport_response,
        push_av_stream_transport_command_deallocate_push_transport,
        push_av_stream_transport_command_modify_push_transport,
        push_av_stream_transport_command_set_transport_status,
        push_av_stream_transport_command_manually_trigger_transport,
        push_av_stream_transport_command_find_transport,
        push_av_stream_transport_command_find_transport_response]"

definition push_av_stream_transport_events :: "event_fn list" where
  "push_av_stream_transport_events =
     [push_av_stream_transport_event_push_transport_begin, push_av_stream_transport_event_push_transport_end]"

definition push_av_stream_transport_cluster :: cluster_decl where
  "push_av_stream_transport_cluster =
     \<lparr>cd_ids = push_av_stream_transport_ids,
      cd_callbacks = [],
      cd_features = push_av_stream_transport_features,
      cd_attributes = push_av_stream_transport_attributes,
      cd_commands = push_av_stream_transport_commands,
      cd_events = push_av_stream_transport_events,
      cd_create = Some push_av_stream_transport_create\<rparr>"

section \<open>\<open>radon_concentration_measurement\<close>\<close>

definition radon_concentration_measurement_numeric_measurement_id :: u32 where
  "radon_concentration_measurement_numeric_measurement_id = 0x1"

definition radon_concentration_measurement_level_indication_id :: u32 where
  "radon_concentration_measurement_level_indication_id = 0x2"

definition radon_concentration_measurement_medium_level_id :: u32 where
  "radon_concentration_measurement_medium_level_id = 0x4"

definition radon_concentration_measurement_critical_level_id :: u32 where
  "radon_concentration_measurement_critical_level_id = 0x8"

definition radon_concentration_measurement_peak_measurement_id :: u32 where
  "radon_concentration_measurement_peak_measurement_id = 0x10"

definition radon_concentration_measurement_average_measurement_id :: u32 where
  "radon_concentration_measurement_average_measurement_id = 0x20"

definition radon_concentration_measurement_attribute_measured_value :: attr_fn where
  "radon_concentration_measurement_attribute_measured_value =
     guarded (Has_Feature radon_concentration_measurement_numeric_measurement_id) (attr 0x0000
          (ATTRIBUTE_FLAG_MANAGED_INTERNALLY OR ATTRIBUTE_FLAG_NULLABLE) VT_NULLABLE_FLOAT)"

definition radon_concentration_measurement_attribute_min_measured_value :: attr_fn where
  "radon_concentration_measurement_attribute_min_measured_value =
     guarded (Has_Feature radon_concentration_measurement_numeric_measurement_id) (attr 0x0001
          (ATTRIBUTE_FLAG_MANAGED_INTERNALLY OR ATTRIBUTE_FLAG_NULLABLE) VT_NULLABLE_FLOAT)"

definition radon_concentration_measurement_attribute_max_measured_value :: attr_fn where
  "radon_concentration_measurement_attribute_max_measured_value =
     guarded (Has_Feature radon_concentration_measurement_numeric_measurement_id) (attr 0x0002
          (ATTRIBUTE_FLAG_MANAGED_INTERNALLY OR ATTRIBUTE_FLAG_NULLABLE) VT_NULLABLE_FLOAT)"

definition radon_concentration_measurement_attribute_peak_measured_value :: attr_fn where
  "radon_concentration_measurement_attribute_peak_measured_value =
     guarded (Has_Feature radon_concentration_measurement_peak_measurement_id) (attr 0x0003
          (ATTRIBUTE_FLAG_MANAGED_INTERNALLY OR ATTRIBUTE_FLAG_NULLABLE) VT_NULLABLE_FLOAT)"

definition radon_concentration_measurement_attribute_peak_measured_value_window :: attr_fn where
  "radon_concentration_measurement_attribute_peak_measured_value_window =
     guarded (Has_Feature radon_concentration_measurement_peak_measurement_id) (attr 0x0004
          ATTRIBUTE_FLAG_MANAGED_INTERNALLY VT_UINT32)"

definition radon_concentration_measurement_attribute_average_measured_value :: attr_fn where
  "radon_concentration_measurement_attribute_average_measured_value =
     guarded (Has_Feature radon_concentration_measurement_average_measurement_id) (attr 0x0005
          (ATTRIBUTE_FLAG_MANAGED_INTERNALLY OR ATTRIBUTE_FLAG_NULLABLE) VT_NULLABLE_FLOAT)"

definition radon_concentration_measurement_attribute_average_measured_value_window :: attr_fn where
  "radon_concentration_measurement_attribute_average_measured_value_window =
     guarded (Has_Feature radon_concentration_measurement_average_measurement_id) (attr 0x0006
          ATTRIBUTE_FLAG_MANAGED_INTERNALLY VT_UINT32)"

definition radon_concentration_measurement_attribute_uncertainty :: attr_fn where
  "radon_concentration_measurement_attribute_uncertainty =
     attr 0x0007 ATTRIBUTE_FLAG_MANAGED_INTERNALLY VT_FLOAT"

definition radon_concentration_measurement_attribute_measurement_unit :: attr_fn where
  "radon_concentration_measurement_attribute_measurement_unit =
     guarded (Has_Feature radon_concentration_measurement_numeric_measurement_id) (attr 0x0008
          ATTRIBUTE_FLAG_MANAGED_INTERNALLY VT_ENUM8)"

definition radon_concentration_measurement_attribute_measurement_medium :: attr_fn where
  "radon_concentration_measurement_attribute_measurement_medium =
     attr 0x0009 ATTRIBUTE_FLAG_MANAGED_INTERNALLY VT_ENUM8"

definition radon_concentration_measurement_attribute_level_value :: attr_fn where
  "radon_concentration_measurement_attribute_level_value =
     guarded (Has_Feature radon_concentration_measurement_level_indication_id) (attr 0x000A
          ATTRIBUTE_FLAG_MANAGED_INTERNALLY VT_ENUM8)"

definition radon_concentration_measurement_feature_numeric_measurement :: feature_fn where
  "radon_concentration_measurement_feature_numeric_measurement =
     feature radon_concentration_measurement_numeric_measurement_id False [Update_Feature_Map,
        Attribute radon_concentration_measurement_attribute_measured_value (Lit 0),
        Attribute radon_concentration_measurement_attribute_min_measured_value (Lit 0),
        Attribute radon_concentration_measurement_attribute_max_measured_value (Lit 0),
        Attribute radon_concentration_measurement_attribute_measurement_unit (Lit 0)]"

definition radon_concentration_measurement_feature_level_indication :: feature_fn where
  "radon_concentration_measurement_feature_level_indication =
     feature radon_concentration_measurement_level_indication_id False [Update_Feature_Map,
        Attribute radon_concentration_measurement_attribute_level_value (Lit 0)]"

definition radon_concentration_measurement_feature_medium_level :: feature_fn where
  "radon_concentration_measurement_feature_medium_level =
     feature radon_concentration_measurement_medium_level_id False [Require (Has_Feature
          radon_concentration_measurement_level_indication_id), Update_Feature_Map]"

definition radon_concentration_measurement_feature_critical_level :: feature_fn where
  "radon_concentration_measurement_feature_critical_level =
     feature radon_concentration_measurement_critical_level_id False [Require (Has_Feature
          radon_concentration_measurement_level_indication_id), Update_Feature_Map]"

definition radon_concentration_measurement_feature_peak_measurement :: feature_fn where
  "radon_concentration_measurement_feature_peak_measurement =
     feature radon_concentration_measurement_peak_measurement_id False [Require (Has_Feature
          radon_concentration_measurement_numeric_measurement_id), Update_Feature_Map,
        Attribute radon_concentration_measurement_attribute_peak_measured_value (Lit 0),
        Attribute radon_concentration_measurement_attribute_peak_measured_value_window (Lit 0)]"

definition radon_concentration_measurement_feature_average_measurement :: feature_fn where
  "radon_concentration_measurement_feature_average_measurement =
     feature radon_concentration_measurement_average_measurement_id False [Require (Has_Feature
          radon_concentration_measurement_numeric_measurement_id), Update_Feature_Map,
        Attribute radon_concentration_measurement_attribute_average_measured_value (Lit 0),
        Attribute radon_concentration_measurement_attribute_average_measured_value_window (Lit 0)]"

definition radon_concentration_measurement_create :: cluster_fn where
  "radon_concentration_measurement_create =
     \<lparr>kf_id = 0x042F,
      kf_revision = 3,
      kf_functions = None,
      kf_function_flags = 0,
      kf_body = [Plugin ''MatterRadonConcentrationMeasurementPluginServerInitCallback'', Functions,
        Config_Feature_Map, Cluster_Revision,
        Step (Attribute radon_concentration_measurement_attribute_measurement_medium (Lit 0)),
        Validate k_at_least_one [radon_concentration_measurement_numeric_measurement_id,
        radon_concentration_measurement_level_indication_id],
        If_Feature radon_concentration_measurement_numeric_measurement_id [Add_Feature
          radon_concentration_measurement_feature_numeric_measurement ''numeric_measurement''] [],
        If_Feature radon_concentration_measurement_level_indication_id [Add_Feature
          radon_concentration_measurement_feature_level_indication ''level_indication''] [],
        If_Feature radon_concentration_measurement_medium_level_id [Add_Feature
          radon_concentration_measurement_feature_medium_level ''medium_level''] [],
        If_Feature radon_concentration_measurement_critical_level_id [Add_Feature
          radon_concentration_measurement_feature_critical_level ''critical_level''] [],
        If_Feature radon_concentration_measurement_peak_measurement_id [Add_Feature
          radon_concentration_measurement_feature_peak_measurement ''peak_measurement''] [],
        If_Feature radon_concentration_measurement_average_measurement_id [Add_Feature
          radon_concentration_measurement_feature_average_measurement ''average_measurement''] []],
      kf_binding = True\<rparr>"

definition radon_concentration_measurement_ids :: cluster_ids where
  "radon_concentration_measurement_ids =
     \<lparr>ci_cluster = 0x042F,
      ci_features = [(''NumericMeasurement'', 0x1), (''LevelIndication'', 0x2), (''MediumLevel'', 0x4),
        (''CriticalLevel'', 0x8), (''PeakMeasurement'', 0x10), (''AverageMeasurement'', 0x20)],
      ci_attributes = [(''MeasuredValue'', 0x0000), (''MinMeasuredValue'', 0x0001), (''MaxMeasuredValue'',
        0x0002), (''PeakMeasuredValue'', 0x0003), (''PeakMeasuredValueWindow'', 0x0004),
        (''AverageMeasuredValue'', 0x0005), (''AverageMeasuredValueWindow'', 0x0006), (''Uncertainty'', 0x0007),
        (''MeasurementUnit'', 0x0008), (''MeasurementMedium'', 0x0009), (''LevelValue'', 0x000A)],
      ci_commands = [],
      ci_events = []\<rparr>"

definition radon_concentration_measurement_features :: "feature_fn list" where
  "radon_concentration_measurement_features =
     [radon_concentration_measurement_feature_numeric_measurement,
        radon_concentration_measurement_feature_level_indication,
        radon_concentration_measurement_feature_medium_level,
        radon_concentration_measurement_feature_critical_level,
        radon_concentration_measurement_feature_peak_measurement,
        radon_concentration_measurement_feature_average_measurement]"

definition radon_concentration_measurement_attributes :: "attr_fn list" where
  "radon_concentration_measurement_attributes =
     [radon_concentration_measurement_attribute_measured_value,
        radon_concentration_measurement_attribute_min_measured_value,
        radon_concentration_measurement_attribute_max_measured_value,
        radon_concentration_measurement_attribute_peak_measured_value,
        radon_concentration_measurement_attribute_peak_measured_value_window,
        radon_concentration_measurement_attribute_average_measured_value,
        radon_concentration_measurement_attribute_average_measured_value_window,
        radon_concentration_measurement_attribute_uncertainty,
        radon_concentration_measurement_attribute_measurement_unit,
        radon_concentration_measurement_attribute_measurement_medium,
        radon_concentration_measurement_attribute_level_value]"

definition radon_concentration_measurement_cluster :: cluster_decl where
  "radon_concentration_measurement_cluster =
     \<lparr>cd_ids = radon_concentration_measurement_ids,
      cd_callbacks = [],
      cd_features = radon_concentration_measurement_features,
      cd_attributes = radon_concentration_measurement_attributes,
      cd_commands = [],
      cd_events = [],
      cd_create = Some radon_concentration_measurement_create\<rparr>"

section \<open>\<open>refrigerator_alarm\<close>\<close>

definition refrigerator_alarm_attribute_mask :: attr_fn where
  "refrigerator_alarm_attribute_mask =
     bounded 0 4294967295 (attr 0x0000 0 VT_BITMAP32)"

definition refrigerator_alarm_attribute_state :: attr_fn where
  "refrigerator_alarm_attribute_state =
     bounded 0 4294967295 (attr 0x0002 0 VT_BITMAP32)"

definition refrigerator_alarm_attribute_supported :: attr_fn where
  "refrigerator_alarm_attribute_supported =
     bounded 0 4294967295 (attr 0x0003 0 VT_BITMAP32)"

definition refrigerator_alarm_event_notify :: event_fn where
  "refrigerator_alarm_event_notify =
     event 0x00"

definition refrigerator_alarm_create :: cluster_fn where
  "refrigerator_alarm_create =
     \<lparr>kf_id = 0x0057,
      kf_revision = 1,
      kf_functions = None,
      kf_function_flags = 0,
      kf_body = [Plugin ''MatterRefrigeratorAlarmPluginServerInitCallback'', Functions, Feature_Map 0,
        Cluster_Revision, Step (Attribute refrigerator_alarm_attribute_mask (Field ''mask'')),
        Step (Attribute refrigerator_alarm_attribute_state (Field ''state'')),
        Step (Attribute refrigerator_alarm_attribute_supported (Field ''supported'')),
        Step (Event refrigerator_alarm_event_notify)],
      kf_binding = False\<rparr>"

definition refrigerator_alarm_ids :: cluster_ids where
  "refrigerator_alarm_ids =
     \<lparr>ci_cluster = 0x0057,
      ci_features = [],
      ci_attributes = [(''Mask'', 0x0000), (''State'', 0x0002), (''Supported'', 0x0003)],
      ci_commands = [],
      ci_events = [(''Notify'', 0x00)]\<rparr>"

definition refrigerator_alarm_attributes :: "attr_fn list" where
  "refrigerator_alarm_attributes =
     [refrigerator_alarm_attribute_mask, refrigerator_alarm_attribute_state, refrigerator_alarm_attribute_supported]"

definition refrigerator_alarm_events :: "event_fn list" where
  "refrigerator_alarm_events =
     [refrigerator_alarm_event_notify]"

definition refrigerator_alarm_cluster :: cluster_decl where
  "refrigerator_alarm_cluster =
     \<lparr>cd_ids = refrigerator_alarm_ids,
      cd_callbacks = [],
      cd_features = [],
      cd_attributes = refrigerator_alarm_attributes,
      cd_commands = [],
      cd_events = refrigerator_alarm_events,
      cd_create = Some refrigerator_alarm_create\<rparr>"

section \<open>\<open>refrigerator_and_temperature_controlled_cabinet_mode\<close>\<close>

definition refrigerator_and_temperature_controlled_cabinet_mode_attribute_supported_modes :: attr_fn where
  "refrigerator_and_temperature_controlled_cabinet_mode_attribute_supported_modes =
     attr 0x0000 0 VT_ARRAY"

definition refrigerator_and_temperature_controlled_cabinet_mode_attribute_current_mode :: attr_fn where
  "refrigerator_and_temperature_controlled_cabinet_mode_attribute_current_mode =
     bounded 0 254 (attr 0x0001 0 VT_UINT8)"

definition refrigerator_and_temperature_controlled_cabinet_mode_command_change_to_mode :: cmd_fn where
  "refrigerator_and_temperature_controlled_cabinet_mode_command_change_to_mode =
     cmd 0x00 COMMAND_FLAG_ACCEPTED None"

definition refrigerator_and_temperature_controlled_cabinet_mode_command_change_to_mode_response :: cmd_fn where
  "refrigerator_and_temperature_controlled_cabinet_mode_command_change_to_mode_response =
     cmd 0x01 COMMAND_FLAG_GENERATED None"

definition refrigerator_and_temperature_controlled_cabinet_mode_create :: cluster_fn where
  "refrigerator_and_temperature_controlled_cabinet_mode_create =
     \<lparr>kf_id = 0x0052,
      kf_revision = 3,
      kf_functions = None,
      kf_function_flags = 0,
      kf_body = [Delegate ''RefrigeratorAndTemperatureControlledCabinetModeDelegateInitCB'',
        Plugin ''MatterRefrigeratorAndTemperatureControlledCabinetModePluginServerInitCallback'', Functions,
        Feature_Map 0, Cluster_Revision,
        Step (Attribute refrigerator_and_temperature_controlled_cabinet_mode_attribute_current_mode (Field
          ''current_mode'')),
        Step (Attribute refrigerator_and_temperature_controlled_cabinet_mode_attribute_supported_modes
          Null_Arr), Step (Command refrigerator_and_temperature_controlled_cabinet_mode_command_change_to_mode),
        Step (Command refrigerator_and_temperature_controlled_cabinet_mode_command_change_to_mode_response)],
      kf_binding = False\<rparr>"

definition refrigerator_and_temperature_controlled_cabinet_mode_ids :: cluster_ids where
  "refrigerator_and_temperature_controlled_cabinet_mode_ids =
     \<lparr>ci_cluster = 0x0052,
      ci_features = [],
      ci_attributes = [(''SupportedModes'', 0x0000), (''CurrentMode'', 0x0001)],
      ci_commands = [(''ChangeToMode'', 0x00), (''ChangeToModeResponse'', 0x01)],
      ci_events = []\<rparr>"

definition refrigerator_and_temperature_controlled_cabinet_mode_attributes :: "attr_fn list" where
  "refrigerator_and_temperature_controlled_cabinet_mode_attributes =
     [refrigerator_and_temperature_controlled_cabinet_mode_attribute_supported_modes,
        refrigerator_and_temperature_controlled_cabinet_mode_attribute_current_mode]"

definition refrigerator_and_temperature_controlled_cabinet_mode_commands :: "cmd_fn list" where
  "refrigerator_and_temperature_controlled_cabinet_mode_commands =
     [refrigerator_and_temperature_controlled_cabinet_mode_command_change_to_mode,
        refrigerator_and_temperature_controlled_cabinet_mode_command_change_to_mode_response]"

definition refrigerator_and_temperature_controlled_cabinet_mode_cluster :: cluster_decl where
  "refrigerator_and_temperature_controlled_cabinet_mode_cluster =
     \<lparr>cd_ids = refrigerator_and_temperature_controlled_cabinet_mode_ids,
      cd_callbacks = [],
      cd_features = [],
      cd_attributes = refrigerator_and_temperature_controlled_cabinet_mode_attributes,
      cd_commands = refrigerator_and_temperature_controlled_cabinet_mode_commands,
      cd_events = [],
      cd_create = Some refrigerator_and_temperature_controlled_cabinet_mode_create\<rparr>"

section \<open>\<open>relative_humidity_measurement\<close>\<close>

definition relative_humidity_measurement_attribute_measured_value :: attr_fn where
  "relative_humidity_measurement_attribute_measured_value =
     bounded 0 65534 (attr 0x0000 ATTRIBUTE_FLAG_NULLABLE VT_NULLABLE_UINT16)"

definition relative_humidity_measurement_attribute_min_measured_value :: attr_fn where
  "relative_humidity_measurement_attribute_min_measured_value =
     bounded 0 9999 (attr 0x0001 ATTRIBUTE_FLAG_NULLABLE VT_NULLABLE_UINT16)"

definition relative_humidity_measurement_attribute_max_measured_value :: attr_fn where
  "relative_humidity_measurement_attribute_max_measured_value =
     bounded 0 10000 (attr 0x0002 ATTRIBUTE_FLAG_NULLABLE VT_NULLABLE_UINT16)"

definition relative_humidity_measurement_attribute_tolerance :: attr_fn where
  "relative_humidity_measurement_attribute_tolerance =
     bounded 0 2048 (attr 0x0003 0 VT_UINT16)"

definition relative_humidity_measurement_create :: cluster_fn where
  "relative_humidity_measurement_create =
     \<lparr>kf_id = 0x0405,
      kf_revision = 3,
      kf_functions = None,
      kf_function_flags = 0,
      kf_body = [Plugin ''MatterRelativeHumidityMeasurementPluginServerInitCallback'', Functions, Feature_Map 0,
        Cluster_Revision,
        Step (Attribute relative_humidity_measurement_attribute_measured_value (Field ''measured_value'')),
        Step (Attribute relative_humidity_measurement_attribute_min_measured_value (Field
          ''min_measured_value'')),
        Step (Attribute relative_humidity_measurement_attribute_max_measured_value (Field
          ''max_measured_value''))],
      kf_binding = True\<rparr>"

definition relative_humidity_measurement_ids :: cluster_ids where
  "relative_humidity_measurement_ids =
     \<lparr>ci_cluster = 0x0405,
      ci_features = [],
      ci_attributes = [(''MeasuredValue'', 0x0000), (''MinMeasuredValue'', 0x0001), (''MaxMeasuredValue'',
        0x0002), (''Tolerance'', 0x0003)],
      ci_commands = [],
      ci_events = []\<rparr>"

definition relative_humidity_measurement_attributes :: "attr_fn list" where
  "relative_humidity_measurement_attributes =
     [relative_humidity_measurement_attribute_measured_value,
        relative_humidity_measurement_attribute_min_measured_value,
        relative_humidity_measurement_attribute_max_measured_value,
        relative_humidity_measurement_attribute_tolerance]"

definition relative_humidity_measurement_cluster :: cluster_decl where
  "relative_humidity_measurement_cluster =
     \<lparr>cd_ids = relative_humidity_measurement_ids,
      cd_callbacks = [],
      cd_features = [],
      cd_attributes = relative_humidity_measurement_attributes,
      cd_commands = [],
      cd_events = [],
      cd_create = Some relative_humidity_measurement_create\<rparr>"

section \<open>\<open>rvc_clean_mode\<close>\<close>

definition rvc_clean_mode_direct_mode_change_id :: u32 where
  "rvc_clean_mode_direct_mode_change_id = 0x100000"

definition rvc_clean_mode_attribute_supported_modes :: attr_fn where
  "rvc_clean_mode_attribute_supported_modes =
     attr 0x0000 0 VT_ARRAY"

definition rvc_clean_mode_attribute_current_mode :: attr_fn where
  "rvc_clean_mode_attribute_current_mode =
     bounded 0 254 (attr 0x0001 0 VT_UINT8)"

definition rvc_clean_mode_command_change_to_mode :: cmd_fn where
  "rvc_clean_mode_command_change_to_mode =
     cmd 0x00 COMMAND_FLAG_ACCEPTED None"

definition rvc_clean_mode_command_change_to_mode_response :: cmd_fn where
  "rvc_clean_mode_command_change_to_mode_response =
     cmd 0x01 COMMAND_FLAG_GENERATED None"

definition rvc_clean_mode_feature_direct_mode_change :: feature_fn where
  "rvc_clean_mode_feature_direct_mode_change =
     feature rvc_clean_mode_direct_mode_change_id False [Update_Feature_Map]"

definition rvc_clean_mode_create :: cluster_fn where
  "rvc_clean_mode_create =
     \<lparr>kf_id = 0x0055,
      kf_revision = 5,
      kf_functions = None,
      kf_function_flags = 0,
      kf_body = [Delegate ''RvcCleanModeDelegateInitCB'', Plugin ''MatterRvcCleanModePluginServerInitCallback'',
        Functions, Feature_Map 0, Cluster_Revision, Step (Command rvc_clean_mode_command_change_to_mode),
        Step (Command rvc_clean_mode_command_change_to_mode_response)],
      kf_binding = False\<rparr>"

definition rvc_clean_mode_ids :: cluster_ids where
  "rvc_clean_mode_ids =
     \<lparr>ci_cluster = 0x0055,
      ci_features = [(''DirectModeChange'', 0x100000)],
      ci_attributes = [(''SupportedModes'', 0x0000), (''CurrentMode'', 0x0001)],
      ci_commands = [(''ChangeToMode'', 0x00), (''ChangeToModeResponse'', 0x01)],
      ci_events = []\<rparr>"

definition rvc_clean_mode_features :: "feature_fn list" where
  "rvc_clean_mode_features =
     [rvc_clean_mode_feature_direct_mode_change]"

definition rvc_clean_mode_attributes :: "attr_fn list" where
  "rvc_clean_mode_attributes =
     [rvc_clean_mode_attribute_supported_modes, rvc_clean_mode_attribute_current_mode]"

definition rvc_clean_mode_commands :: "cmd_fn list" where
  "rvc_clean_mode_commands =
     [rvc_clean_mode_command_change_to_mode, rvc_clean_mode_command_change_to_mode_response]"

definition rvc_clean_mode_cluster :: cluster_decl where
  "rvc_clean_mode_cluster =
     \<lparr>cd_ids = rvc_clean_mode_ids,
      cd_callbacks = [],
      cd_features = rvc_clean_mode_features,
      cd_attributes = rvc_clean_mode_attributes,
      cd_commands = rvc_clean_mode_commands,
      cd_events = [],
      cd_create = Some rvc_clean_mode_create\<rparr>"

section \<open>\<open>rvc_operational_state\<close>\<close>

definition rvc_operational_state_attribute_phase_list :: attr_fn where
  "rvc_operational_state_attribute_phase_list =
     attr 0x0000 (ATTRIBUTE_FLAG_MANAGED_INTERNALLY OR ATTRIBUTE_FLAG_NULLABLE) VT_ARRAY"

definition rvc_operational_state_attribute_current_phase :: attr_fn where
  "rvc_operational_state_attribute_current_phase =
     attr 0x0001 (ATTRIBUTE_FLAG_MANAGED_INTERNALLY OR ATTRIBUTE_FLAG_NULLABLE) VT_NULLABLE_UINT8"

definition rvc_operational_state_attribute_countdown_time :: attr_fn where
  "rvc_operational_state_attribute_countdown_time =
     attr 0x0002 (ATTRIBUTE_FLAG_MANAGED_INTERNALLY OR ATTRIBUTE_FLAG_NULLABLE) VT_NULLABLE_UINT32"

definition rvc_operational_state_attribute_operational_state_list :: attr_fn where
  "rvc_operational_state_attribute_operational_state_list =
     attr 0x0003 ATTRIBUTE_FLAG_MANAGED_INTERNALLY VT_ARRAY"

definition rvc_operational_state_attribute_operational_state :: attr_fn where
  "rvc_operational_state_attribute_operational_state =
     attr 0x0004 ATTRIBUTE_FLAG_MANAGED_INTERNALLY VT_ENUM8"

definition rvc_operational_state_attribute_operational_error :: attr_fn where
  "rvc_operational_state_attribute_operational_error =
     attr 0x0005 ATTRIBUTE_FLAG_MANAGED_INTERNALLY VT_ARRAY"

definition rvc_operational_state_command_pause :: cmd_fn where
  "rvc_operational_state_command_pause =
     cmd 0x00 0 None"

definition rvc_operational_state_command_resume :: cmd_fn where
  "rvc_operational_state_command_resume =
     cmd 0x03 0 None"

definition rvc_operational_state_command_operational_command_response :: cmd_fn where
  "rvc_operational_state_command_operational_command_response =
     cmd 0x04 0 None"

definition rvc_operational_state_command_go_home :: cmd_fn where
  "rvc_operational_state_command_go_home =
     cmd 0x80 COMMAND_FLAG_ACCEPTED None"

definition rvc_operational_state_event_operational_error :: event_fn where
  "rvc_operational_state_event_operational_error =
     event 0x00"

definition rvc_operational_state_event_operation_completion :: event_fn where
  "rvc_operational_state_event_operation_completion =
     event 0x01"

definition rvc_operational_state_create :: cluster_fn where
  "rvc_operational_state_create =
     \<lparr>kf_id = 0x0061,
      kf_revision = 3,
      kf_functions = None,
      kf_function_flags = 0,
      kf_body = [Delegate ''RvcOperationalStateDelegateInitCB'',
        Plugin ''MatterRvcOperationalStatePluginServerInitCallback'', Functions, Feature_Map 0,
        Cluster_Revision, Step (Attribute rvc_operational_state_attribute_phase_list Null_Arr),
        Step (Attribute rvc_operational_state_attribute_current_phase (Lit 0)),
        Step (Attribute rvc_operational_state_attribute_operational_state_list Null_Arr),
        Step (Attribute rvc_operational_state_attribute_operational_state (Lit 0)),
        Step (Attribute rvc_operational_state_attribute_operational_error Null_Arr),
        Step (Event rvc_operational_state_event_operational_error)],
      kf_binding = False\<rparr>"

definition rvc_operational_state_ids :: cluster_ids where
  "rvc_operational_state_ids =
     \<lparr>ci_cluster = 0x0061,
      ci_features = [],
      ci_attributes = [(''PhaseList'', 0x0000), (''CurrentPhase'', 0x0001), (''CountdownTime'', 0x0002),
        (''OperationalStateList'', 0x0003), (''OperationalState'', 0x0004), (''OperationalError'', 0x0005)],
      ci_commands = [(''Pause'', 0x00), (''Resume'', 0x03), (''OperationalCommandResponse'', 0x04), (''GoHome'',
        0x80)],
      ci_events = [(''OperationalError'', 0x00), (''OperationCompletion'', 0x01)]\<rparr>"

definition rvc_operational_state_attributes :: "attr_fn list" where
  "rvc_operational_state_attributes =
     [rvc_operational_state_attribute_phase_list, rvc_operational_state_attribute_current_phase,
        rvc_operational_state_attribute_countdown_time, rvc_operational_state_attribute_operational_state_list,
        rvc_operational_state_attribute_operational_state, rvc_operational_state_attribute_operational_error]"

definition rvc_operational_state_commands :: "cmd_fn list" where
  "rvc_operational_state_commands =
     [rvc_operational_state_command_pause, rvc_operational_state_command_resume,
        rvc_operational_state_command_operational_command_response, rvc_operational_state_command_go_home]"

definition rvc_operational_state_events :: "event_fn list" where
  "rvc_operational_state_events =
     [rvc_operational_state_event_operational_error, rvc_operational_state_event_operation_completion]"

definition rvc_operational_state_cluster :: cluster_decl where
  "rvc_operational_state_cluster =
     \<lparr>cd_ids = rvc_operational_state_ids,
      cd_callbacks = [],
      cd_features = [],
      cd_attributes = rvc_operational_state_attributes,
      cd_commands = rvc_operational_state_commands,
      cd_events = rvc_operational_state_events,
      cd_create = Some rvc_operational_state_create\<rparr>"

section \<open>Checks\<close>

definition additive_09 :: "cluster_decl list" where
  "additive_09 =
     [power_source_cluster, power_source_configuration_cluster, power_topology_cluster, pressure_measurement_cluster,
        pump_configuration_and_control_cluster, push_av_stream_transport_cluster,
        radon_concentration_measurement_cluster, refrigerator_alarm_cluster,
        refrigerator_and_temperature_controlled_cabinet_mode_cluster, relative_humidity_measurement_cluster,
        rvc_clean_mode_cluster, rvc_operational_state_cluster]"

lemma additive_09_ok: "list_all decl_ok additive_09"
  by code_simp

lemma additive_09_order: "list_all (\<lambda>d. order_ok (cd_features d)) additive_09"
  by code_simp

end
