(* ===== verification/EM_Clusters_10.thy ===== *)
theory EM_Clusters_10
  imports EM_Order
begin

text \<open>
  The generated clusters \<open>rvc_run_mode\<close> to \<open>thermostat\<close>:
  one definition for each function and id table of their files, and the checks of the descriptions.
\<close>

section \<open>\<open>rvc_run_mode\<close>\<close>

definition rvc_run_mode_direct_mode_change_id :: u32 where
  "rvc_run_mode_direct_mode_change_id = 0x100000"

definition rvc_run_mode_attribute_supported_modes :: attr_fn where
  "rvc_run_mode_attribute_supported_modes =
     attr 0x0000 0 VT_ARRAY"

definition rvc_run_mode_attribute_current_mode :: attr_fn where
  "rvc_run_mode_attribute_current_mode =
     bounded 0 254 (attr 0x0001 0 VT_UINT8)"

definition rvc_run_mode_command_change_to_mode :: cmd_fn where
  "rvc_run_mode_command_change_to_mode =
     cmd 0x00 COMMAND_FLAG_ACCEPTED None"

definition rvc_run_mode_command_change_to_mode_response :: cmd_fn where
  "rvc_run_mode_command_change_to_mode_response =
     cmd 0x01 COMMAND_FLAG_GENERATED None"

definition rvc_run_mode_feature_direct_mode_change :: feature_fn where
  "rvc_run_mode_feature_direct_mode_change =
     feature rvc_run_mode_direct_mode_change_id False [Update_Feature_Map]"

definition rvc_run_mode_create :: cluster_fn where
  "rvc_run_mode_create =
     \<lparr>kf_id = 0x0054,
      kf_revision = 4,
      kf_functions = None,
      kf_function_flags = 0,
      kf_body = [Delegate ''RvcRunModeDelegateInitCB'', Plugin ''MatterRvcRunModePluginServerInitCallback'',
        Functions, Feature_Map 0, Cluster_Revision, Step (Command rvc_run_mode_command_change_to_mode),
        Step (Command rvc_run_mode_command_change_to_mode_response)],
      kf_binding = False\<rparr>"

definition rvc_run_mode_ids :: cluster_ids where
  "rvc_run_mode_ids =
     \<lparr>ci_cluster = 0x0054,
      ci_features = [(''DirectModeChange'', 0x100000)],
      ci_attributes = [(''SupportedModes'', 0x0000), (''CurrentMode'', 0x0001)],
      ci_commands = [(''ChangeToMode'', 0x00), (''ChangeToModeResponse'', 0x01)],
      ci_events = []\<rparr>"

definition rvc_run_mode_features :: "feature_fn list" where
  "rvc_run_mode_features =
     [rvc_run_mode_feature_direct_mode_change]"

definition rvc_run_mode_attributes :: "attr_fn list" where
  "rvc_run_mode_attributes =
     [rvc_run_mode_attribute_supported_modes, rvc_run_mode_attribute_current_mode]"

definition rvc_run_mode_commands :: "cmd_fn list" where
  "rvc_run_mode_commands =
     [rvc_run_mode_command_change_to_mode, rvc_run_mode_command_change_to_mode_response]"

definition rvc_run_mode_cluster :: cluster_decl where
  "rvc_run_mode_cluster =
     \<lparr>cd_ids = rvc_run_mode_ids,
      cd_callbacks = [],
      cd_features = rvc_run_mode_features,
      cd_attributes = rvc_run_mode_attributes,
      cd_commands = rvc_run_mode_commands,
      cd_events = [],
      cd_create = Some rvc_run_mode_create\<rparr>"

section \<open>\<open>scenes_management\<close>\<close>

definition scenes_management_scene_names_id :: u32 where
  "scenes_management_scene_names_id = 0x1"

definition scenes_management_attribute_scene_table_size :: attr_fn where
  "scenes_management_attribute_scene_table_size =
     bounded 0 65534 (attr 0x0001 0 VT_UINT16)"

definition scenes_management_attribute_fabric_scene_info :: attr_fn where
  "scenes_management_attribute_fabric_scene_info =
     attr 0x0002 ATTRIBUTE_FLAG_MANAGED_INTERNALLY VT_ARRAY"

definition scenes_management_command_add_scene :: cmd_fn where
  "scenes_management_command_add_scene =
     cmd 0x00 COMMAND_FLAG_ACCEPTED None"

definition scenes_management_command_add_scene_response :: cmd_fn where
  "scenes_management_command_add_scene_response =
     cmd 0x00 COMMAND_FLAG_GENERATED None"

definition scenes_management_command_view_scene :: cmd_fn where
  "scenes_management_command_view_scene =
     cmd 0x01 COMMAND_FLAG_ACCEPTED None"

definition scenes_management_command_view_scene_response :: cmd_fn where
  "scenes_management_command_view_scene_response =
     cmd 0x01 COMMAND_FLAG_GENERATED None"

definition scenes_management_command_remove_scene :: cmd_fn where
  "scenes_management_command_remove_scene =
     cmd 0x02 COMMAND_FLAG_ACCEPTED None"

definition scenes_management_command_remove_scene_response :: cmd_fn where
  "scenes_management_command_remove_scene_response =
     cmd 0x02 COMMAND_FLAG_GENERATED None"

definition scenes_management_command_remove_all_scenes :: cmd_fn where
  "scenes_management_command_remove_all_scenes =
     cmd 0x03 COMMAND_FLAG_ACCEPTED None"

definition scenes_management_command_remove_all_scenes_response :: cmd_fn where
  "scenes_management_command_remove_all_scenes_response =
     cmd 0x03 COMMAND_FLAG_GENERATED None"

definition scenes_management_command_store_scene :: cmd_fn where
  "scenes_management_command_store_scene =
     cmd 0x04 COMMAND_FLAG_ACCEPTED None"

definition scenes_management_command_store_scene_response :: cmd_fn where
  "scenes_management_command_store_scene_response =
     cmd 0x04 COMMAND_FLAG_GENERATED None"

definition scenes_management_command_recall_scene :: cmd_fn where
  "scenes_management_command_recall_scene =
     cmd 0x05 COMMAND_FLAG_ACCEPTED None"

definition scenes_management_command_get_scene_membership :: cmd_fn where
  "scenes_management_command_get_scene_membership =
     cmd 0x06 COMMAND_FLAG_ACCEPTED None"

definition scenes_management_command_get_scene_membership_response :: cmd_fn where
  "scenes_management_command_get_scene_membership_response =
     cmd 0x06 COMMAND_FLAG_GENERATED None"

definition scenes_management_command_copy_scene :: cmd_fn where
  "scenes_management_command_copy_scene =
     cmd 0x40 COMMAND_FLAG_ACCEPTED None"

definition scenes_management_command_copy_scene_response :: cmd_fn where
  "scenes_management_command_copy_scene_response =
     guarded_cmd (Has_Command 0x40 COMMAND_FLAG_ACCEPTED) (cmd 0x40 COMMAND_FLAG_GENERATED None)"

definition scenes_management_feature_scene_names :: feature_fn where
  "scenes_management_feature_scene_names =
     feature scenes_management_scene_names_id False [Update_Feature_Map]"

definition scenes_management_create :: cluster_fn where
  "scenes_management_create =
     \<lparr>kf_id = 0x0062,
      kf_revision = 1,
      kf_functions = None,
      kf_function_flags = 0,
      kf_body = [Plugin ''MatterScenesManagementPluginServerInitCallback'', Functions, Feature_Map 0,
        Cluster_Revision,
        Step (Attribute scenes_management_attribute_scene_table_size (Field ''scene_table_size'')),
        Step (Attribute scenes_management_attribute_fabric_scene_info Null_Arr),
        Step (Command scenes_management_command_add_scene),
        Step (Command scenes_management_command_add_scene_response),
        Step (Command scenes_management_command_view_scene),
        Step (Command scenes_management_command_view_scene_response),
        Step (Command scenes_management_command_remove_scene),
        Step (Command scenes_management_command_remove_scene_response),
        Step (Command scenes_management_command_remove_all_scenes),
        Step (Command scenes_management_command_remove_all_scenes_response),
        Step (Command scenes_management_command_store_scene),
        Step (Command scenes_management_command_store_scene_response),
        Step (Command scenes_management_command_recall_scene),
        Step (Command scenes_management_command_get_scene_membership),
        Step (Command scenes_management_command_get_scene_membership_response),
        Callbacks ''ESPMatterScenesManagementClusterServerInitCallback''
          ''ESPMatterScenesManagementClusterServerShutdownCallback''],
      kf_binding = True\<rparr>"

definition scenes_management_ids :: cluster_ids where
  "scenes_management_ids =
     \<lparr>ci_cluster = 0x0062,
      ci_features = [(''SceneNames'', 0x1)],
      ci_attributes = [(''SceneTableSize'', 0x0001), (''FabricSceneInfo'', 0x0002)],
      ci_commands = [(''AddScene'', 0x00), (''AddSceneResponse'', 0x00), (''ViewScene'', 0x01),
        (''ViewSceneResponse'', 0x01), (''RemoveScene'', 0x02), (''RemoveSceneResponse'', 0x02),
        (''RemoveAllScenes'', 0x03), (''RemoveAllScenesResponse'', 0x03), (''StoreScene'', 0x04),
        (''StoreSceneResponse'', 0x04), (''RecallScene'', 0x05), (''GetSceneMembership'', 0x06),
        (''GetSceneMembershipResponse'', 0x06), (''CopyScene'', 0x40), (''CopySceneResponse'', 0x40)],
      ci_events = []\<rparr>"

definition scenes_management_features :: "feature_fn list" where
  "scenes_management_features =
     [scenes_management_feature_scene_names]"

definition scenes_management_attributes :: "attr_fn list" where
  "scenes_management_attributes =
     [scenes_management_attribute_scene_table_size, scenes_management_attribute_fabric_scene_info]"

definition scenes_management_commands :: "cmd_fn list" where
  "scenes_management_commands =
     [scenes_management_command_add_scene, scenes_management_command_add_scene_response,
        scenes_management_command_view_scene, scenes_management_command_view_scene_response,
        scenes_management_command_remove_scene, scenes_management_command_remove_scene_response,
        scenes_management_command_remove_all_scenes, scenes_management_command_remove_all_scenes_response,
        scenes_management_command_store_scene, scenes_management_command_store_scene_response,
        scenes_management_command_recall_scene, scenes_management_command_get_scene_membership,
        scenes_management_command_get_scene_membership_response, scenes_management_command_copy_scene,
        scenes_management_command_copy_scene_response]"

definition scenes_management_cluster :: cluster_decl where
  "scenes_management_cluster =
     \<lparr>cd_ids = scenes_management_ids,
      cd_callbacks = [],
      cd_features = scenes_management_features,
      cd_attributes = scenes_management_attributes,
      cd_commands = scenes_management_commands,
      cd_events = [],
      cd_create = Some scenes_management_create\<rparr>"

section \<open>\<open>service_area\<close>\<close>

definition service_area_select_while_running_id :: u32 where
  "service_area_select_while_running_id = 0x1"

definition service_area_progress_reporting_id :: u32 where
  "service_area_progress_reporting_id = 0x2"

definition service_area_maps_id :: u32 where
  "service_area_maps_id = 0x4"

definition service_area_attribute_supported_areas :: attr_fn where
  "service_area_attribute_supported_areas =
     attr 0x0000 ATTRIBUTE_FLAG_MANAGED_INTERNALLY VT_ARRAY"

definition service_area_attribute_supported_maps :: attr_fn where
  "service_area_attribute_supported_maps =
     guarded (Has_Feature service_area_maps_id) (attr 0x0001 ATTRIBUTE_FLAG_MANAGED_INTERNALLY VT_ARRAY)"

definition service_area_attribute_selected_areas :: attr_fn where
  "service_area_attribute_selected_areas =
     attr 0x0002 ATTRIBUTE_FLAG_MANAGED_INTERNALLY VT_ARRAY"

definition service_area_attribute_current_area :: attr_fn where
  "service_area_attribute_current_area =
     attr 0x0003 (ATTRIBUTE_FLAG_MANAGED_INTERNALLY OR ATTRIBUTE_FLAG_NULLABLE) VT_NULLABLE_UINT32"

definition service_area_attribute_estimated_end_time :: attr_fn where
  "service_area_attribute_estimated_end_time =
     attr 0x0004 (ATTRIBUTE_FLAG_MANAGED_INTERNALLY OR ATTRIBUTE_FLAG_NULLABLE) VT_NULLABLE_UINT32"

definition service_area_attribute_progress :: attr_fn where
  "service_area_attribute_progress =
     guarded (Has_Feature service_area_progress_reporting_id) (attr 0x0005 ATTRIBUTE_FLAG_MANAGED_INTERNALLY
          VT_ARRAY)"

definition service_area_command_select_areas :: cmd_fn where
  "service_area_command_select_areas =
     cmd 0x00 COMMAND_FLAG_ACCEPTED None"

definition service_area_command_select_areas_response :: cmd_fn where
  "service_area_command_select_areas_response =
     cmd 0x01 COMMAND_FLAG_GENERATED None"

definition service_area_command_skip_area :: cmd_fn where
  "service_area_command_skip_area =
     cmd 0x02 COMMAND_FLAG_ACCEPTED None"

definition service_area_command_skip_area_response :: cmd_fn where
  "service_area_command_skip_area_response =
     guarded_cmd (Has_Command 0x02 COMMAND_FLAG_ACCEPTED) (cmd 0x03 COMMAND_FLAG_GENERATED None)"

definition service_area_feature_select_while_running :: feature_fn where
  "service_area_feature_select_while_running =
     feature service_area_select_while_running_id False [Update_Feature_Map]"

definition service_area_feature_progress_reporting :: feature_fn where
  "service_area_feature_progress_reporting =
     feature service_area_progress_reporting_id False [Update_Feature_Map,
        Attribute service_area_attribute_progress Null_Arr]"

definition service_area_feature_maps :: feature_fn where
  "service_area_feature_maps =
     feature service_area_maps_id False [Update_Feature_Map,
        Attribute service_area_attribute_supported_maps Null_Arr]"

definition service_area_create :: cluster_fn where
  "service_area_create =
     \<lparr>kf_id = 0x0150,
      kf_revision = 2,
      kf_functions = None,
      kf_function_flags = 0,
      kf_body = [Delegate ''ServiceAreaDelegateInitCB'', Plugin ''MatterServiceAreaPluginServerInitCallback'',
        Functions, Feature_Map 0, Cluster_Revision,
        Step (Attribute service_area_attribute_supported_areas Null_Arr),
        Step (Attribute service_area_attribute_selected_areas Null_Arr),
        Step (Command service_area_command_select_areas),
        Step (Command service_area_command_select_areas_response)],
      kf_binding = True\<rparr>"

definition service_area_ids :: cluster_ids where
  "service_area_ids =
     \<lparr>ci_cluster = 0x0150,
      ci_features = [(''SelectWhileRunning'', 0x1), (''ProgressReporting'', 0x2), (''Maps'', 0x4)],
      ci_attributes = [(''SupportedAreas'', 0x0000), (''SupportedMaps'', 0x0001), (''SelectedAreas'', 0x0002),
        (''CurrentArea'', 0x0003), (''EstimatedEndTime'', 0x0004), (''Progress'', 0x0005)],
      ci_commands = [(''SelectAreas'', 0x00), (''SelectAreasResponse'', 0x01), (''SkipArea'', 0x02),
        (''SkipAreaResponse'', 0x03)],
      ci_events = []\<rparr>"

definition service_area_features :: "feature_fn list" where
  "service_area_features =
     [service_area_feature_select_while_running, service_area_feature_progress_reporting, service_area_feature_maps]"

definition service_area_attributes :: "attr_fn list" where
  "service_area_attributes =
     [service_area_attribute_supported_areas, service_area_attribute_supported_maps,
        service_area_attribute_selected_areas, service_area_attribute_current_area,
        service_area_attribute_estimated_end_time, service_area_attribute_progress]"

definition service_area_commands :: "cmd_fn list" where
  "service_area_commands =
     [service_area_command_select_areas, service_area_command_select_areas_response, service_area_command_skip_area,
        service_area_command_skip_area_response]"

definition service_area_cluster :: cluster_decl where
  "service_area_cluster =
     \<lparr>cd_ids = service_area_ids,
      cd_callbacks = [],
      cd_features = service_area_features,
      cd_attributes = service_area_attributes,
      cd_commands = service_area_commands,
      cd_events = [],
      cd_create = Some service_area_create\<rparr>"

section \<open>\<open>smoke_co_alarm\<close>\<close>

definition smoke_co_alarm_smoke_alarm_id :: u32 where
  "smoke_co_alarm_smoke_alarm_id = 0x1"

definition smoke_co_alarm_co_alarm_id :: u32 where
  "smoke_co_alarm_co_alarm_id = 0x2"

definition smoke_co_alarm_attribute_expressed_state :: attr_fn where
  "smoke_co_alarm_attribute_expressed_state =
     bounded 0 8 (attr 0x0000 ATTRIBUTE_FLAG_NONVOLATILE VT_ENUM8)"

definition smoke_co_alarm_attribute_smoke_state :: attr_fn where
  "smoke_co_alarm_attribute_smoke_state =
     guarded (Has_Feature smoke_co_alarm_smoke_alarm_id) (bounded 0 2 (attr 0x0001 ATTRIBUTE_FLAG_NONVOLATILE
          VT_ENUM8))"

definition smoke_co_alarm_attribute_co_state :: attr_fn where
  "smoke_co_alarm_attribute_co_state =
     guarded (Has_Feature smoke_co_alarm_co_alarm_id) (bounded 0 2 (attr 0x0002 ATTRIBUTE_FLAG_NONVOLATILE VT_ENUM8))"

definition smoke_co_alarm_attribute_battery_alert :: attr_fn where
  "smoke_co_alarm_attribute_battery_alert =
     bounded 0 2 (attr 0x0003 ATTRIBUTE_FLAG_NONVOLATILE VT_ENUM8)"

definition smoke_co_alarm_attribute_device_muted :: attr_fn where
  "smoke_co_alarm_attribute_device_muted =
     bounded 0 1 (attr 0x0004 ATTRIBUTE_FLAG_NONVOLATILE VT_ENUM8)"

definition smoke_co_alarm_attribute_test_in_progress :: attr_fn where
  "smoke_co_alarm_attribute_test_in_progress =
     attr 0x0005 0 VT_BOOLEAN"

definition smoke_co_alarm_attribute_hardware_fault_alert :: attr_fn where
  "smoke_co_alarm_attribute_hardware_fault_alert =
     attr 0x0006 ATTRIBUTE_FLAG_NONVOLATILE VT_BOOLEAN"

definition smoke_co_alarm_attribute_end_of_service_alert :: attr_fn where
  "smoke_co_alarm_attribute_end_of_service_alert =
     bounded 0 1 (attr 0x0007 ATTRIBUTE_FLAG_NONVOLATILE VT_ENUM8)"

definition smoke_co_alarm_attribute_interconnect_smoke_alarm :: attr_fn where
  "smoke_co_alarm_attribute_interconnect_smoke_alarm =
     bounded 0 2 (attr 0x0008 0 VT_ENUM8)"

definition smoke_co_alarm_attribute_interconnect_co_alarm :: attr_fn where
  "smoke_co_alarm_attribute_interconnect_co_alarm =
     bounded 0 2 (attr 0x0009 0 VT_ENUM8)"

definition smoke_co_alarm_attribute_contamination_state :: attr_fn where
  "smoke_co_alarm_attribute_contamination_state =
     bounded 0 3 (attr 0x000A 0 VT_ENUM8)"

definition smoke_co_alarm_attribute_smoke_sensitivity_level :: attr_fn where
  "smoke_co_alarm_attribute_smoke_sensitivity_level =
     bounded 0 2 (attr 0x000B ATTRIBUTE_FLAG_WRITABLE VT_ENUM8)"

definition smoke_co_alarm_attribute_expiry_date :: attr_fn where
  "smoke_co_alarm_attribute_expiry_date =
     bounded 0 4294967294 (attr 0x000C 0 VT_UINT32)"

definition smoke_co_alarm_callback_self_test_request :: callback_fn where
  "smoke_co_alarm_callback_self_test_request =
     decodes_to ''SmokeCoAlarm::Commands::SelfTestRequest'' ''emberAfSmokeCoAlarmClusterSelfTestRequestCallback''"

definition smoke_co_alarm_command_self_test_request :: cmd_fn where
  "smoke_co_alarm_command_self_test_request =
     cmd 0x00 COMMAND_FLAG_ACCEPTED (Some ''smoke_co_alarm.esp_matter_command_callback_self_test_request'')"

definition smoke_co_alarm_event_smoke_alarm :: event_fn where
  "smoke_co_alarm_event_smoke_alarm =
     guarded_event (Has_Feature smoke_co_alarm_smoke_alarm_id) (event 0x00)"

definition smoke_co_alarm_event_co_alarm :: event_fn where
  "smoke_co_alarm_event_co_alarm =
     guarded_event (Has_Feature smoke_co_alarm_co_alarm_id) (event 0x01)"

definition smoke_co_alarm_event_low_battery :: event_fn where
  "smoke_co_alarm_event_low_battery =
     event 0x02"

definition smoke_co_alarm_event_hardware_fault :: event_fn where
  "smoke_co_alarm_event_hardware_fault =
     event 0x03"

definition smoke_co_alarm_event_end_of_service :: event_fn where
  "smoke_co_alarm_event_end_of_service =
     event 0x04"

definition smoke_co_alarm_event_self_test_complete :: event_fn where
  "smoke_co_alarm_event_self_test_complete =
     event 0x05"

definition smoke_co_alarm_event_alarm_muted :: event_fn where
  "smoke_co_alarm_event_alarm_muted =
     event 0x06"

definition smoke_co_alarm_event_mute_ended :: event_fn where
  "smoke_co_alarm_event_mute_ended =
     event 0x07"

definition smoke_co_alarm_event_interconnect_smoke_alarm :: event_fn where
  "smoke_co_alarm_event_interconnect_smoke_alarm =
     event 0x08"

definition smoke_co_alarm_event_interconnect_co_alarm :: event_fn where
  "smoke_co_alarm_event_interconnect_co_alarm =
     event 0x09"

definition smoke_co_alarm_event_all_clear :: event_fn where
  "smoke_co_alarm_event_all_clear =
     event 0x0A"

definition smoke_co_alarm_feature_smoke_alarm :: feature_fn where
  "smoke_co_alarm_feature_smoke_alarm =
     feature smoke_co_alarm_smoke_alarm_id True [Update_Feature_Map,
        Attribute smoke_co_alarm_attribute_smoke_state (Field ''smoke_state''),
        Event smoke_co_alarm_event_smoke_alarm]"

definition smoke_co_alarm_feature_co_alarm :: feature_fn where
  "smoke_co_alarm_feature_co_alarm =
     feature smoke_co_alarm_co_alarm_id True [Update_Feature_Map,
        Attribute smoke_co_alarm_attribute_co_state (Field ''co_state''), Event smoke_co_alarm_event_co_alarm]"

definition smoke_co_alarm_create :: cluster_fn where
  "smoke_co_alarm_create =
     \<lparr>kf_id = 0x005C,
      kf_revision = 1,
      kf_functions = None,
      kf_function_flags = 0,
      kf_body = [Plugin ''MatterSmokeCoAlarmPluginServerInitCallback'', Functions, Config_Feature_Map,
        Cluster_Revision, Step (Attribute smoke_co_alarm_attribute_expressed_state (Field ''expressed_state'')),
        Step (Attribute smoke_co_alarm_attribute_battery_alert (Field ''battery_alert'')),
        Step (Attribute smoke_co_alarm_attribute_test_in_progress (Field ''test_in_progress'')),
        Step (Attribute smoke_co_alarm_attribute_hardware_fault_alert (Field ''hardware_fault_alert'')),
        Step (Attribute smoke_co_alarm_attribute_end_of_service_alert (Field ''end_of_service_alert'')),
        Validate k_at_least_one [smoke_co_alarm_smoke_alarm_id, smoke_co_alarm_co_alarm_id],
        If_Feature smoke_co_alarm_smoke_alarm_id [Add_Feature smoke_co_alarm_feature_smoke_alarm
          ''smoke_alarm''] [],
        If_Feature smoke_co_alarm_co_alarm_id [Add_Feature smoke_co_alarm_feature_co_alarm ''co_alarm''] [],
        Step (Event smoke_co_alarm_event_low_battery), Step (Event smoke_co_alarm_event_hardware_fault),
        Step (Event smoke_co_alarm_event_end_of_service), Step (Event smoke_co_alarm_event_self_test_complete),
        Step (Event smoke_co_alarm_event_all_clear)],
      kf_binding = True\<rparr>"

definition smoke_co_alarm_ids :: cluster_ids where
  "smoke_co_alarm_ids =
     \<lparr>ci_cluster = 0x005C,
      ci_features = [(''SmokeAlarm'', 0x1), (''COAlarm'', 0x2)],
      ci_attributes = [(''ExpressedState'', 0x0000), (''SmokeState'', 0x0001), (''COState'', 0x0002),
        (''BatteryAlert'', 0x0003), (''DeviceMuted'', 0x0004), (''TestInProgress'', 0x0005),
        (''HardwareFaultAlert'', 0x0006), (''EndOfServiceAlert'', 0x0007), (''InterconnectSmokeAlarm'', 0x0008),
        (''InterconnectCOAlarm'', 0x0009), (''ContaminationState'', 0x000A), (''SmokeSensitivityLevel'',
        0x000B), (''ExpiryDate'', 0x000C)],
      ci_commands = [(''SelfTestRequest'', 0x00)],
      ci_events = [(''SmokeAlarm'', 0x00), (''COAlarm'', 0x01), (''LowBattery'', 0x02), (''HardwareFault'',
        0x03), (''EndOfService'', 0x04), (''SelfTestComplete'', 0x05), (''AlarmMuted'', 0x06), (''MuteEnded'',
        0x07), (''InterconnectSmokeAlarm'', 0x08), (''InterconnectCOAlarm'', 0x09), (''AllClear'',
        0x0A)]\<rparr>"

definition smoke_co_alarm_features :: "feature_fn list" where
  "smoke_co_alarm_features =
     [smoke_co_alarm_feature_smoke_alarm, smoke_co_alarm_feature_co_alarm]"

definition smoke_co_alarm_attributes :: "attr_fn list" where
  "smoke_co_alarm_attributes =
     [smoke_co_alarm_attribute_expressed_state, smoke_co_alarm_attribute_smoke_state,
        smoke_co_alarm_attribute_co_state, smoke_co_alarm_attribute_battery_alert,
        smoke_co_alarm_attribute_device_muted, smoke_co_alarm_attribute_test_in_progress,
        smoke_co_alarm_attribute_hardware_fault_alert, smoke_co_alarm_attribute_end_of_service_alert,
        smoke_co_alarm_attribute_interconnect_smoke_alarm, smoke_co_alarm_attribute_interconnect_co_alarm,
        smoke_co_alarm_attribute_contamination_state, smoke_co_alarm_attribute_smoke_sensitivity_level,
        smoke_co_alarm_attribute_expiry_date]"

definition smoke_co_alarm_commands :: "cmd_fn list" where
  "smoke_co_alarm_commands =
     [smoke_co_alarm_command_self_test_request]"

definition smoke_co_alarm_events :: "event_fn list" where
  "smoke_co_alarm_events =
     [smoke_co_alarm_event_smoke_alarm, smoke_co_alarm_event_co_alarm, smoke_co_alarm_event_low_battery,
        smoke_co_alarm_event_hardware_fault, smoke_co_alarm_event_end_of_service,
        smoke_co_alarm_event_self_test_complete, smoke_co_alarm_event_alarm_muted,
        smoke_co_alarm_event_mute_ended, smoke_co_alarm_event_interconnect_smoke_alarm,
        smoke_co_alarm_event_interconnect_co_alarm, smoke_co_alarm_event_all_clear]"

definition smoke_co_alarm_callbacks :: "(string \<times> callback_fn) list" where
  "smoke_co_alarm_callbacks =
     [(''smoke_co_alarm.esp_matter_command_callback_self_test_request'', smoke_co_alarm_callback_self_test_request)]"

definition smoke_co_alarm_cluster :: cluster_decl where
  "smoke_co_alarm_cluster =
     \<lparr>cd_ids = smoke_co_alarm_ids,
      cd_callbacks = smoke_co_alarm_callbacks,
      cd_features = smoke_co_alarm_features,
      cd_attributes = smoke_co_alarm_attributes,
      cd_commands = smoke_co_alarm_commands,
      cd_events = smoke_co_alarm_events,
      cd_create = Some smoke_co_alarm_create\<rparr>"

section \<open>\<open>software_diagnostics\<close>\<close>

definition software_diagnostics_watermarks_id :: u32 where
  "software_diagnostics_watermarks_id = 0x1"

definition software_diagnostics_attribute_thread_metrics :: attr_fn where
  "software_diagnostics_attribute_thread_metrics =
     attr 0x0000 ATTRIBUTE_FLAG_MANAGED_INTERNALLY VT_ARRAY"

definition software_diagnostics_attribute_current_heap_free :: attr_fn where
  "software_diagnostics_attribute_current_heap_free =
     bounded 0 4294967294 (attr 0x0001 0 VT_UINT64)"

definition software_diagnostics_attribute_current_heap_used :: attr_fn where
  "software_diagnostics_attribute_current_heap_used =
     bounded 0 4294967294 (attr 0x0002 0 VT_UINT64)"

definition software_diagnostics_attribute_current_heap_high_watermark :: attr_fn where
  "software_diagnostics_attribute_current_heap_high_watermark =
     guarded (Has_Feature software_diagnostics_watermarks_id) (bounded 0 4294967294 (attr 0x0003 0 VT_UINT64))"

definition software_diagnostics_command_reset_watermarks :: cmd_fn where
  "software_diagnostics_command_reset_watermarks =
     guarded_cmd (Has_Feature software_diagnostics_watermarks_id) (cmd 0x00 COMMAND_FLAG_ACCEPTED None)"

definition software_diagnostics_event_software_fault :: event_fn where
  "software_diagnostics_event_software_fault =
     event 0x00"

definition software_diagnostics_feature_watermarks :: feature_fn where
  "software_diagnostics_feature_watermarks =
     feature software_diagnostics_watermarks_id True [Update_Feature_Map,
        Attribute software_diagnostics_attribute_current_heap_high_watermark (Field
          ''current_heap_high_watermark''), Command software_diagnostics_command_reset_watermarks]"

definition software_diagnostics_create :: cluster_fn where
  "software_diagnostics_create =
     \<lparr>kf_id = 0x0034,
      kf_revision = 1,
      kf_functions = None,
      kf_function_flags = 0,
      kf_body = [Plugin ''MatterSoftwareDiagnosticsPluginServerInitCallback'', Functions, Feature_Map 0,
        Cluster_Revision,
        Callbacks ''ESPMatterSoftwareDiagnosticsClusterServerInitCallback''
          ''ESPMatterSoftwareDiagnosticsClusterServerShutdownCallback''],
      kf_binding = False\<rparr>"

definition software_diagnostics_ids :: cluster_ids where
  "software_diagnostics_ids =
     \<lparr>ci_cluster = 0x0034,
      ci_features = [(''Watermarks'', 0x1)],
      ci_attributes = [(''ThreadMetrics'', 0x0000), (''CurrentHeapFree'', 0x0001), (''CurrentHeapUsed'',
        0x0002), (''CurrentHeapHighWatermark'', 0x0003)],
      ci_commands = [(''ResetWatermarks'', 0x00)],
      ci_events = [(''SoftwareFault'', 0x00)]\<rparr>"

definition software_diagnostics_features :: "feature_fn list" where
  "software_diagnostics_features =
     [software_diagnostics_feature_watermarks]"

definition software_diagnostics_attributes :: "attr_fn list" where
  "software_diagnostics_attributes =
     [software_diagnostics_attribute_thread_metrics, software_diagnostics_attribute_current_heap_free,
        software_diagnostics_attribute_current_heap_used,
        software_diagnostics_attribute_current_heap_high_watermark]"

definition software_diagnostics_commands :: "cmd_fn list" where
  "software_diagnostics_commands =
     [software_diagnostics_command_reset_watermarks]"

definition software_diagnostics_events :: "event_fn list" where
  "software_diagnostics_events =
     [software_diagnostics_event_software_fault]"

definition software_diagnostics_cluster :: cluster_decl where
  "software_diagnostics_cluster =
     \<lparr>cd_ids = software_diagnostics_ids,
      cd_callbacks = [],
      cd_features = software_diagnostics_features,
      cd_attributes = software_diagnostics_attributes,
      cd_commands = software_diagnostics_commands,
      cd_events = software_diagnostics_events,
      cd_create = Some software_diagnostics_create\<rparr>"

section \<open>\<open>soil_measurement\<close>\<close>

definition soil_measurement_attribute_soil_moisture_measurement_limits :: attr_fn where
  "soil_measurement_attribute_soil_moisture_measurement_limits =
     attr 0x0000 ATTRIBUTE_FLAG_MANAGED_INTERNALLY VT_ARRAY"

definition soil_measurement_attribute_soil_moisture_measured_value :: attr_fn where
  "soil_measurement_attribute_soil_moisture_measured_value =
     bounded 0 254 (attr 0x0001 ATTRIBUTE_FLAG_NULLABLE VT_NULLABLE_UINT8)"

definition soil_measurement_create :: cluster_fn where
  "soil_measurement_create =
     \<lparr>kf_id = 0x0430,
      kf_revision = 1,
      kf_functions = None,
      kf_function_flags = 0,
      kf_body = [Plugin ''MatterSoilMeasurementPluginServerInitCallback'', Functions, Feature_Map 0,
        Cluster_Revision,
        Step (Attribute soil_measurement_attribute_soil_moisture_measured_value (Field
          ''soil_moisture_measured_value'')),
        Step (Attribute soil_measurement_attribute_soil_moisture_measurement_limits Null_Arr),
        Callbacks ''ESPMatterSoilMeasurementClusterServerInitCallback''
          ''ESPMatterSoilMeasurementClusterServerShutdownCallback''],
      kf_binding = True\<rparr>"

definition soil_measurement_ids :: cluster_ids where
  "soil_measurement_ids =
     \<lparr>ci_cluster = 0x0430,
      ci_features = [],
      ci_attributes = [(''SoilMoistureMeasurementLimits'', 0x0000), (''SoilMoistureMeasuredValue'', 0x0001)],
      ci_commands = [],
      ci_events = []\<rparr>"

definition soil_measurement_attributes :: "attr_fn list" where
  "soil_measurement_attributes =
     [soil_measurement_attribute_soil_moisture_measurement_limits,
        soil_measurement_attribute_soil_moisture_measured_value]"

definition soil_measurement_cluster :: cluster_decl where
  "soil_measurement_cluster =
     \<lparr>cd_ids = soil_measurement_ids,
      cd_callbacks = [],
      cd_features = [],
      cd_attributes = soil_measurement_attributes,
      cd_commands = [],
      cd_events = [],
      cd_create = Some soil_measurement_create\<rparr>"

section \<open>\<open>switch_cluster\<close>\<close>

definition switch_cluster_latching_switch_id :: u32 where
  "switch_cluster_latching_switch_id = 0x1"

definition switch_cluster_momentary_switch_id :: u32 where
  "switch_cluster_momentary_switch_id = 0x2"

definition switch_cluster_momentary_switch_release_id :: u32 where
  "switch_cluster_momentary_switch_release_id = 0x4"

definition switch_cluster_momentary_switch_long_press_id :: u32 where
  "switch_cluster_momentary_switch_long_press_id = 0x8"

definition switch_cluster_momentary_switch_multi_press_id :: u32 where
  "switch_cluster_momentary_switch_multi_press_id = 0x10"

definition switch_cluster_action_switch_id :: u32 where
  "switch_cluster_action_switch_id = 0x20"

definition switch_cluster_attribute_number_of_positions :: attr_fn where
  "switch_cluster_attribute_number_of_positions =
     bounded 2 254 (attr 0x0000 0 VT_UINT8)"

definition switch_cluster_attribute_current_position :: attr_fn where
  "switch_cluster_attribute_current_position =
     bounded 0 254 (attr 0x0001 ATTRIBUTE_FLAG_NONVOLATILE VT_UINT8)"

definition switch_cluster_attribute_multi_press_max :: attr_fn where
  "switch_cluster_attribute_multi_press_max =
     guarded (Has_Feature switch_cluster_momentary_switch_multi_press_id) (bounded 2 254 (attr 0x0002 0 VT_UINT8))"

definition switch_cluster_event_switch_latched :: event_fn where
  "switch_cluster_event_switch_latched =
     guarded_event (Has_Feature switch_cluster_latching_switch_id) (event 0x00)"

definition switch_cluster_event_initial_press :: event_fn where
  "switch_cluster_event_initial_press =
     guarded_event (Has_Feature switch_cluster_momentary_switch_id) (event 0x01)"

definition switch_cluster_event_long_press :: event_fn where
  "switch_cluster_event_long_press =
     guarded_event (Has_Feature switch_cluster_momentary_switch_long_press_id) (event 0x02)"

definition switch_cluster_event_short_release :: event_fn where
  "switch_cluster_event_short_release =
     guarded_event (Has_Feature switch_cluster_momentary_switch_release_id) (event 0x03)"

definition switch_cluster_event_long_release :: event_fn where
  "switch_cluster_event_long_release =
     guarded_event (Has_Feature switch_cluster_momentary_switch_long_press_id) (event 0x04)"

definition switch_cluster_event_multi_press_ongoing :: event_fn where
  "switch_cluster_event_multi_press_ongoing =
     guarded_event (And (Has_Feature switch_cluster_momentary_switch_multi_press_id) (Not (Has_Feature
          switch_cluster_action_switch_id))) (event 0x05)"

definition switch_cluster_event_multi_press_complete :: event_fn where
  "switch_cluster_event_multi_press_complete =
     guarded_event (Has_Feature switch_cluster_momentary_switch_multi_press_id) (event 0x06)"

definition switch_cluster_feature_latching_switch :: feature_fn where
  "switch_cluster_feature_latching_switch =
     feature switch_cluster_latching_switch_id False [Update_Feature_Map, Event switch_cluster_event_switch_latched]"

definition switch_cluster_feature_momentary_switch :: feature_fn where
  "switch_cluster_feature_momentary_switch =
     feature switch_cluster_momentary_switch_id False [Update_Feature_Map, Event switch_cluster_event_initial_press]"

definition switch_cluster_feature_momentary_switch_release :: feature_fn where
  "switch_cluster_feature_momentary_switch_release =
     feature switch_cluster_momentary_switch_release_id False [Require (And (Has_Feature
          switch_cluster_momentary_switch_id) (Not (Has_Feature switch_cluster_action_switch_id))),
        Update_Feature_Map, Event switch_cluster_event_short_release]"

definition switch_cluster_feature_momentary_switch_long_press :: feature_fn where
  "switch_cluster_feature_momentary_switch_long_press =
     feature switch_cluster_momentary_switch_long_press_id False [Require (And (Has_Feature
          switch_cluster_momentary_switch_id) (Or (Has_Feature switch_cluster_momentary_switch_release_id)
          (Has_Feature switch_cluster_action_switch_id))), Update_Feature_Map,
        Event switch_cluster_event_long_press, Event switch_cluster_event_long_release]"

definition switch_cluster_feature_momentary_switch_multi_press :: feature_fn where
  "switch_cluster_feature_momentary_switch_multi_press =
     feature switch_cluster_momentary_switch_multi_press_id True [Require (Or (Has_Feature
          switch_cluster_action_switch_id) (And (Has_Feature switch_cluster_momentary_switch_id) (Has_Feature
          switch_cluster_momentary_switch_release_id))), Update_Feature_Map,
        Attribute switch_cluster_attribute_multi_press_max (Field ''multi_press_max''),
        Event switch_cluster_event_multi_press_ongoing, Event switch_cluster_event_multi_press_complete]"

definition switch_cluster_feature_action_switch :: feature_fn where
  "switch_cluster_feature_action_switch =
     feature switch_cluster_action_switch_id False [Require (Has_Feature switch_cluster_momentary_switch_id),
        Update_Feature_Map, Destroy_Event 0x05]"

definition switch_cluster_create :: cluster_fn where
  "switch_cluster_create =
     \<lparr>kf_id = 0x003B,
      kf_revision = 2,
      kf_functions = None,
      kf_function_flags = 0,
      kf_body = [Functions, Config_Feature_Map, Cluster_Revision,
        Step (Attribute switch_cluster_attribute_number_of_positions (Field ''number_of_positions'')),
        Step (Attribute switch_cluster_attribute_current_position (Field ''current_position'')),
        If_Feature switch_cluster_action_switch_id [Add_Feature switch_cluster_feature_action_switch
          ''action_switch'',
        Add_Feature switch_cluster_feature_momentary_switch_multi_press ''momentary_switch_multi_press'']
          [If_Feature switch_cluster_momentary_switch_multi_press_id [Add_Feature
          switch_cluster_feature_momentary_switch_multi_press ''momentary_switch_multi_press''] []],
        Validate k_exact_one [switch_cluster_latching_switch_id, switch_cluster_momentary_switch_id],
        If_Feature switch_cluster_latching_switch_id [Add_Feature switch_cluster_feature_latching_switch
          ''latching_switch''] [],
        If_Feature switch_cluster_momentary_switch_id [Add_Feature switch_cluster_feature_momentary_switch
          ''momentary_switch''] [],
        If_Feature switch_cluster_momentary_switch_release_id [Add_Feature
          switch_cluster_feature_momentary_switch_release ''momentary_switch_release''] [],
        If_Feature switch_cluster_momentary_switch_long_press_id [Add_Feature
          switch_cluster_feature_momentary_switch_long_press ''momentary_switch_long_press''] [],
        Step (Event switch_cluster_event_multi_press_ongoing)],
      kf_binding = True\<rparr>"

definition switch_cluster_ids :: cluster_ids where
  "switch_cluster_ids =
     \<lparr>ci_cluster = 0x003B,
      ci_features = [(''LatchingSwitch'', 0x1), (''MomentarySwitch'', 0x2), (''MomentarySwitchRelease'', 0x4),
        (''MomentarySwitchLongPress'', 0x8), (''MomentarySwitchMultiPress'', 0x10), (''ActionSwitch'', 0x20)],
      ci_attributes = [(''NumberOfPositions'', 0x0000), (''CurrentPosition'', 0x0001), (''MultiPressMax'',
        0x0002)],
      ci_commands = [],
      ci_events = [(''SwitchLatched'', 0x00), (''InitialPress'', 0x01), (''LongPress'', 0x02),
        (''ShortRelease'', 0x03), (''LongRelease'', 0x04), (''MultiPressOngoing'', 0x05),
        (''MultiPressComplete'', 0x06)]\<rparr>"

definition switch_cluster_features :: "feature_fn list" where
  "switch_cluster_features =
     [switch_cluster_feature_latching_switch, switch_cluster_feature_momentary_switch,
        switch_cluster_feature_momentary_switch_release, switch_cluster_feature_momentary_switch_long_press,
        switch_cluster_feature_momentary_switch_multi_press, switch_cluster_feature_action_switch]"

definition switch_cluster_attributes :: "attr_fn list" where
  "switch_cluster_attributes =
     [switch_cluster_attribute_number_of_positions, switch_cluster_attribute_current_position,
        switch_cluster_attribute_multi_press_max]"

definition switch_cluster_events :: "event_fn list" where
  "switch_cluster_events =
     [switch_cluster_event_switch_latched, switch_cluster_event_initial_press, switch_cluster_event_long_press,
        switch_cluster_event_short_release, switch_cluster_event_long_release,
        switch_cluster_event_multi_press_ongoing, switch_cluster_event_multi_press_complete]"

definition switch_cluster_cluster :: cluster_decl where
  "switch_cluster_cluster =
     \<lparr>cd_ids = switch_cluster_ids,
      cd_callbacks = [],
      cd_features = switch_cluster_features,
      cd_attributes = switch_cluster_attributes,
      cd_commands = [],
      cd_events = switch_cluster_events,
      cd_create = Some switch_cluster_create\<rparr>"

section \<open>\<open>target_navigator\<close>\<close>

definition target_navigator_attribute_target_list :: attr_fn where
  "target_navigator_attribute_target_list =
     attr 0x0000 ATTRIBUTE_FLAG_MANAGED_INTERNALLY VT_ARRAY"

definition target_navigator_attribute_current_target :: attr_fn where
  "target_navigator_attribute_current_target =
     attr 0x0001 ATTRIBUTE_FLAG_MANAGED_INTERNALLY VT_UINT8"

definition target_navigator_callback_navigate_target :: callback_fn where
  "target_navigator_callback_navigate_target =
     decodes_to ''TargetNavigator::Commands::NavigateTarget'' ''emberAfTargetNavigatorClusterNavigateTargetCallback''"

definition target_navigator_command_navigate_target :: cmd_fn where
  "target_navigator_command_navigate_target =
     cmd 0x00 COMMAND_FLAG_ACCEPTED (Some ''target_navigator.esp_matter_command_callback_navigate_target'')"

definition target_navigator_command_navigate_target_response :: cmd_fn where
  "target_navigator_command_navigate_target_response =
     cmd 0x01 COMMAND_FLAG_GENERATED None"

definition target_navigator_event_target_updated :: event_fn where
  "target_navigator_event_target_updated =
     event 0x00"

definition target_navigator_create :: cluster_fn where
  "target_navigator_create =
     \<lparr>kf_id = 0x0505,
      kf_revision = 2,
      kf_functions = None,
      kf_function_flags = 0,
      kf_body = [Delegate ''TargetNavigatorDelegateInitCB'',
        Plugin ''MatterTargetNavigatorPluginServerInitCallback'', Functions, Feature_Map 0, Cluster_Revision,
        Step (Attribute target_navigator_attribute_target_list Null_Arr),
        Step (Command target_navigator_command_navigate_target),
        Step (Command target_navigator_command_navigate_target_response)],
      kf_binding = True\<rparr>"

definition target_navigator_ids :: cluster_ids where
  "target_navigator_ids =
     \<lparr>ci_cluster = 0x0505,
      ci_features = [],
      ci_attributes = [(''TargetList'', 0x0000), (''CurrentTarget'', 0x0001)],
      ci_commands = [(''NavigateTarget'', 0x00), (''NavigateTargetResponse'', 0x01)],
      ci_events = [(''TargetUpdated'', 0x00)]\<rparr>"

definition target_navigator_attributes :: "attr_fn list" where
  "target_navigator_attributes =
     [target_navigator_attribute_target_list, target_navigator_attribute_current_target]"

definition target_navigator_commands :: "cmd_fn list" where
  "target_navigator_commands =
     [target_navigator_command_navigate_target, target_navigator_command_navigate_target_response]"

definition target_navigator_events :: "event_fn list" where
  "target_navigator_events =
     [target_navigator_event_target_updated]"

definition target_navigator_callbacks :: "(string \<times> callback_fn) list" where
  "target_navigator_callbacks =
     [(''target_navigator.esp_matter_command_callback_navigate_target'', target_navigator_callback_navigate_target)]"

definition target_navigator_cluster :: cluster_decl where
  "target_navigator_cluster =
     \<lparr>cd_ids = target_navigator_ids,
      cd_callbacks = target_navigator_callbacks,
      cd_features = [],
      cd_attributes = target_navigator_attributes,
      cd_commands = target_navigator_commands,
      cd_events = target_navigator_events,
      cd_create = Some target_navigator_create\<rparr>"

section \<open>\<open>temperature_control\<close>\<close>

definition temperature_control_temperature_number_id :: u32 where
  "temperature_control_temperature_number_id = 0x1"

definition temperature_control_temperature_level_id :: u32 where
  "temperature_control_temperature_level_id = 0x2"

definition temperature_control_temperature_step_id :: u32 where
  "temperature_control_temperature_step_id = 0x4"

definition temperature_control_attribute_temperature_setpoint :: attr_fn where
  "temperature_control_attribute_temperature_setpoint =
     guarded (Has_Feature temperature_control_temperature_number_id) (bounded (- 32768) 32766 (attr 0x0000 0
          VT_INT16))"

definition temperature_control_attribute_min_temperature :: attr_fn where
  "temperature_control_attribute_min_temperature =
     guarded (Has_Feature temperature_control_temperature_number_id) (bounded (- 32768) 32766 (attr 0x0001 0
          VT_INT16))"

definition temperature_control_attribute_max_temperature :: attr_fn where
  "temperature_control_attribute_max_temperature =
     guarded (Has_Feature temperature_control_temperature_number_id) (bounded (- 32768) 32766 (attr 0x0002 0
          VT_INT16))"

definition temperature_control_attribute_step :: attr_fn where
  "temperature_control_attribute_step =
     guarded (Has_Feature temperature_control_temperature_step_id) (bounded 1 32766 (attr 0x0003 0 VT_INT16))"

definition temperature_control_attribute_selected_temperature_level :: attr_fn where
  "temperature_control_attribute_selected_temperature_level =
     guarded (Has_Feature temperature_control_temperature_level_id) (bounded 0 31 (attr 0x0004 0 VT_UINT8))"

definition temperature_control_attribute_supported_temperature_levels :: attr_fn where
  "temperature_control_attribute_supported_temperature_levels =
     guarded (Has_Feature temperature_control_temperature_level_id) (attr 0x0005 ATTRIBUTE_FLAG_MANAGED_INTERNALLY
          VT_ARRAY)"

definition temperature_control_callback_set_temperature :: callback_fn where
  "temperature_control_callback_set_temperature =
     decodes_to ''TemperatureControl::Commands::SetTemperature''
          ''emberAfTemperatureControlClusterSetTemperatureCallback''"

definition temperature_control_command_set_temperature :: cmd_fn where
  "temperature_control_command_set_temperature =
     cmd 0x00 COMMAND_FLAG_ACCEPTED (Some ''temperature_control.esp_matter_command_callback_set_temperature'')"

definition temperature_control_feature_temperature_number :: feature_fn where
  "temperature_control_feature_temperature_number =
     feature temperature_control_temperature_number_id True [Update_Feature_Map,
        Attribute temperature_control_attribute_temperature_setpoint (Field ''temperature_setpoint''),
        Attribute temperature_control_attribute_min_temperature (Field ''min_temperature''),
        Attribute temperature_control_attribute_max_temperature (Field ''max_temperature'')]"

definition temperature_control_feature_temperature_level :: feature_fn where
  "temperature_control_feature_temperature_level =
     feature temperature_control_temperature_level_id True [Update_Feature_Map,
        Attribute temperature_control_attribute_selected_temperature_level (Field
          ''selected_temperature_level''),
        Attribute temperature_control_attribute_supported_temperature_levels Null_Arr]"

definition temperature_control_feature_temperature_step :: feature_fn where
  "temperature_control_feature_temperature_step =
     feature temperature_control_temperature_step_id True [Require (Has_Feature
          temperature_control_temperature_number_id), Update_Feature_Map,
        Attribute temperature_control_attribute_step (Field ''step'')]"

definition temperature_control_create :: cluster_fn where
  "temperature_control_create =
     \<lparr>kf_id = 0x0056,
      kf_revision = 1,
      kf_functions = None,
      kf_function_flags = 0,
      kf_body = [Plugin ''MatterTemperatureControlPluginServerInitCallback'', Functions, Config_Feature_Map,
        Cluster_Revision, Validate k_exact_one [temperature_control_temperature_number_id,
        temperature_control_temperature_level_id],
        If_Feature temperature_control_temperature_number_id [Add_Feature
          temperature_control_feature_temperature_number ''temperature_number''] [],
        If_Feature temperature_control_temperature_level_id [Add_Feature
          temperature_control_feature_temperature_level ''temperature_level''] [],
        If_Feature temperature_control_temperature_step_id [Add_Feature
          temperature_control_feature_temperature_step ''temperature_step''] [],
        Step (Command temperature_control_command_set_temperature)],
      kf_binding = True\<rparr>"

definition temperature_control_ids :: cluster_ids where
  "temperature_control_ids =
     \<lparr>ci_cluster = 0x0056,
      ci_features = [(''TemperatureNumber'', 0x1), (''TemperatureLevel'', 0x2), (''TemperatureStep'', 0x4)],
      ci_attributes = [(''TemperatureSetpoint'', 0x0000), (''MinTemperature'', 0x0001), (''MaxTemperature'',
        0x0002), (''Step'', 0x0003), (''SelectedTemperatureLevel'', 0x0004), (''SupportedTemperatureLevels'',
        0x0005)],
      ci_commands = [(''SetTemperature'', 0x00)],
      ci_events = []\<rparr>"

definition temperature_control_features :: "feature_fn list" where
  "temperature_control_features =
     [temperature_control_feature_temperature_number, temperature_control_feature_temperature_level,
        temperature_control_feature_temperature_step]"

definition temperature_control_attributes :: "attr_fn list" where
  "temperature_control_attributes =
     [temperature_control_attribute_temperature_setpoint, temperature_control_attribute_min_temperature,
        temperature_control_attribute_max_temperature, temperature_control_attribute_step,
        temperature_control_attribute_selected_temperature_level,
        temperature_control_attribute_supported_temperature_levels]"

definition temperature_control_commands :: "cmd_fn list" where
  "temperature_control_commands =
     [temperature_control_command_set_temperature]"

definition temperature_control_callbacks :: "(string \<times> callback_fn) list" where
  "temperature_control_callbacks =
     [(''temperature_control.esp_matter_command_callback_set_temperature'',
        temperature_control_callback_set_temperature)]"

definition temperature_control_cluster :: cluster_decl where
  "temperature_control_cluster =
     \<lparr>cd_ids = temperature_control_ids,
      cd_callbacks = temperature_control_callbacks,
      cd_features = temperature_control_features,
      cd_attributes = temperature_control_attributes,
      cd_commands = temperature_control_commands,
      cd_events = [],
      cd_create = Some temperature_control_create\<rparr>"

section \<open>\<open>temperature_measurement\<close>\<close>

definition temperature_measurement_attribute_measured_value :: attr_fn where
  "temperature_measurement_attribute_measured_value =
     bounded (- 32768) 32766 (attr 0x0000 ATTRIBUTE_FLAG_NULLABLE VT_NULLABLE_INT16)"

definition temperature_measurement_attribute_min_measured_value :: attr_fn where
  "temperature_measurement_attribute_min_measured_value =
     bounded (- 27315) 32766 (attr 0x0001 ATTRIBUTE_FLAG_NULLABLE VT_NULLABLE_INT16)"

definition temperature_measurement_attribute_max_measured_value :: attr_fn where
  "temperature_measurement_attribute_max_measured_value =
     bounded (- 32768) 32766 (attr 0x0002 ATTRIBUTE_FLAG_NULLABLE VT_NULLABLE_INT16)"

definition temperature_measurement_attribute_tolerance :: attr_fn where
  "temperature_measurement_attribute_tolerance =
     bounded 0 2048 (attr 0x0003 0 VT_UINT16)"

definition temperature_measurement_create :: cluster_fn where
  "temperature_measurement_create =
     \<lparr>kf_id = 0x0402,
      kf_revision = 4,
      kf_functions = None,
      kf_function_flags = 0,
      kf_body = [Plugin ''MatterTemperatureMeasurementPluginServerInitCallback'', Functions, Feature_Map 0,
        Cluster_Revision,
        Step (Attribute temperature_measurement_attribute_measured_value (Field ''measured_value'')),
        Step (Attribute temperature_measurement_attribute_min_measured_value (Field ''min_measured_value'')),
        Step (Attribute temperature_measurement_attribute_max_measured_value (Field ''max_measured_value''))],
      kf_binding = True\<rparr>"

definition temperature_measurement_ids :: cluster_ids where
  "temperature_measurement_ids =
     \<lparr>ci_cluster = 0x0402,
      ci_features = [],
      ci_attributes = [(''MeasuredValue'', 0x0000), (''MinMeasuredValue'', 0x0001), (''MaxMeasuredValue'',
        0x0002), (''Tolerance'', 0x0003)],
      ci_commands = [],
      ci_events = []\<rparr>"

definition temperature_measurement_attributes :: "attr_fn list" where
  "temperature_measurement_attributes =
     [temperature_measurement_attribute_measured_value, temperature_measurement_attribute_min_measured_value,
        temperature_measurement_attribute_max_measured_value, temperature_measurement_attribute_tolerance]"

definition temperature_measurement_cluster :: cluster_decl where
  "temperature_measurement_cluster =
     \<lparr>cd_ids = temperature_measurement_ids,
      cd_callbacks = [],
      cd_features = [],
      cd_attributes = temperature_measurement_attributes,
      cd_commands = [],
      cd_events = [],
      cd_create = Some temperature_measurement_create\<rparr>"

section \<open>\<open>thermostat\<close>\<close>

definition thermostat_heating_id :: u32 where
  "thermostat_heating_id = 0x1"

definition thermostat_cooling_id :: u32 where
  "thermostat_cooling_id = 0x2"

definition thermostat_occupancy_id :: u32 where
  "thermostat_occupancy_id = 0x4"

definition thermostat_setback_id :: u32 where
  "thermostat_setback_id = 0x10"

definition thermostat_auto_mode_id :: u32 where
  "thermostat_auto_mode_id = 0x20"

definition thermostat_local_temperature_not_exposed_id :: u32 where
  "thermostat_local_temperature_not_exposed_id = 0x40"

definition thermostat_matter_schedule_configuration_id :: u32 where
  "thermostat_matter_schedule_configuration_id = 0x80"

definition thermostat_presets_id :: u32 where
  "thermostat_presets_id = 0x100"

definition thermostat_attribute_local_temperature :: attr_fn where
  "thermostat_attribute_local_temperature =
     bounded (- 32768) 32766 (attr 0x0000 ATTRIBUTE_FLAG_NULLABLE VT_NULLABLE_INT16)"

definition thermostat_attribute_outdoor_temperature :: attr_fn where
  "thermostat_attribute_outdoor_temperature =
     bounded (- 32768) 32766 (attr 0x0001 ATTRIBUTE_FLAG_NULLABLE VT_NULLABLE_INT16)"

definition thermostat_attribute_occupancy :: attr_fn where
  "thermostat_attribute_occupancy =
     guarded (Has_Feature thermostat_occupancy_id) (bounded 0 1 (attr 0x0002 0 VT_BITMAP8))"

definition thermostat_attribute_abs_min_heat_setpoint_limit :: attr_fn where
  "thermostat_attribute_abs_min_heat_setpoint_limit =
     bounded (- 32768) 32766 (attr 0x0003 0 VT_INT16)"

definition thermostat_attribute_abs_max_heat_setpoint_limit :: attr_fn where
  "thermostat_attribute_abs_max_heat_setpoint_limit =
     bounded (- 32768) 32766 (attr 0x0004 0 VT_INT16)"

definition thermostat_attribute_abs_min_cool_setpoint_limit :: attr_fn where
  "thermostat_attribute_abs_min_cool_setpoint_limit =
     bounded (- 32768) 32766 (attr 0x0005 0 VT_INT16)"

definition thermostat_attribute_abs_max_cool_setpoint_limit :: attr_fn where
  "thermostat_attribute_abs_max_cool_setpoint_limit =
     bounded (- 32768) 32766 (attr 0x0006 0 VT_INT16)"

definition thermostat_attribute_pi_cooling_demand :: attr_fn where
  "thermostat_attribute_pi_cooling_demand =
     bounded 0 100 (attr 0x0007 0 VT_UINT8)"

definition thermostat_attribute_pi_heating_demand :: attr_fn where
  "thermostat_attribute_pi_heating_demand =
     bounded 0 100 (attr 0x0008 0 VT_UINT8)"

definition thermostat_attribute_local_temperature_calibration :: attr_fn where
  "thermostat_attribute_local_temperature_calibration =
     bounded (- 128) 126 (attr 0x0010 (ATTRIBUTE_FLAG_WRITABLE OR ATTRIBUTE_FLAG_NONVOLATILE) VT_INT8)"

definition thermostat_attribute_occupied_cooling_setpoint :: attr_fn where
  "thermostat_attribute_occupied_cooling_setpoint =
     guarded (Has_Feature thermostat_cooling_id) (bounded (- 32768) 32766 (attr 0x0011 (ATTRIBUTE_FLAG_WRITABLE OR
          ATTRIBUTE_FLAG_NONVOLATILE) VT_INT16))"

definition thermostat_attribute_occupied_heating_setpoint :: attr_fn where
  "thermostat_attribute_occupied_heating_setpoint =
     guarded (Has_Feature thermostat_heating_id) (bounded (- 32768) 32766 (attr 0x0012 (ATTRIBUTE_FLAG_WRITABLE OR
          ATTRIBUTE_FLAG_NONVOLATILE) VT_INT16))"

definition thermostat_attribute_unoccupied_cooling_setpoint :: attr_fn where
  "thermostat_attribute_unoccupied_cooling_setpoint =
     guarded (And (Has_Feature thermostat_cooling_id) (Has_Feature thermostat_occupancy_id)) (bounded (- 32768)
          32766 (attr 0x0013 (ATTRIBUTE_FLAG_WRITABLE OR ATTRIBUTE_FLAG_NONVOLATILE) VT_INT16))"

definition thermostat_attribute_unoccupied_heating_setpoint :: attr_fn where
  "thermostat_attribute_unoccupied_heating_setpoint =
     guarded (And (Has_Feature thermostat_heating_id) (Has_Feature thermostat_occupancy_id)) (bounded (- 32768)
          32766 (attr 0x0014 (ATTRIBUTE_FLAG_WRITABLE OR ATTRIBUTE_FLAG_NONVOLATILE) VT_INT16))"

definition thermostat_attribute_min_heat_setpoint_limit :: attr_fn where
  "thermostat_attribute_min_heat_setpoint_limit =
     bounded (- 32768) 32766 (attr 0x0015 (ATTRIBUTE_FLAG_WRITABLE OR ATTRIBUTE_FLAG_NONVOLATILE) VT_INT16)"

definition thermostat_attribute_max_heat_setpoint_limit :: attr_fn where
  "thermostat_attribute_max_heat_setpoint_limit =
     bounded (- 32768) 32766 (attr 0x0016 (ATTRIBUTE_FLAG_WRITABLE OR ATTRIBUTE_FLAG_NONVOLATILE) VT_INT16)"

definition thermostat_attribute_min_cool_setpoint_limit :: attr_fn where
  "thermostat_attribute_min_cool_setpoint_limit =
     bounded (- 32768) 32766 (attr 0x0017 (ATTRIBUTE_FLAG_WRITABLE OR ATTRIBUTE_FLAG_NONVOLATILE) VT_INT16)"

definition thermostat_attribute_max_cool_setpoint_limit :: attr_fn where
  "thermostat_attribute_max_cool_setpoint_limit =
     bounded (- 32768) 32766 (attr 0x0018 (ATTRIBUTE_FLAG_WRITABLE OR ATTRIBUTE_FLAG_NONVOLATILE) VT_INT16)"

definition thermostat_attribute_min_setpoint_dead_band :: attr_fn where
  "thermostat_attribute_min_setpoint_dead_band =
     guarded (Has_Feature thermostat_auto_mode_id) (bounded 0 127 (attr 0x0019 (ATTRIBUTE_FLAG_WRITABLE OR
          ATTRIBUTE_FLAG_NONVOLATILE) VT_INT8))"

definition thermostat_attribute_remote_sensing :: attr_fn where
  "thermostat_attribute_remote_sensing =
     bounded 0 7 (attr 0x001A (ATTRIBUTE_FLAG_WRITABLE OR ATTRIBUTE_FLAG_NONVOLATILE) VT_BITMAP8)"

definition thermostat_attribute_control_sequence_of_operation :: attr_fn where
  "thermostat_attribute_control_sequence_of_operation =
     bounded 0 5 (attr 0x001B (ATTRIBUTE_FLAG_WRITABLE OR ATTRIBUTE_FLAG_NONVOLATILE) VT_ENUM8)"

definition thermostat_attribute_system_mode :: attr_fn where
  "thermostat_attribute_system_mode =
     bounded 0 8 (attr 0x001C (ATTRIBUTE_FLAG_WRITABLE OR ATTRIBUTE_FLAG_NONVOLATILE) VT_ENUM8)"

definition thermostat_attribute_thermostat_running_mode :: attr_fn where
  "thermostat_attribute_thermostat_running_mode =
     bounded 0 2 (attr 0x001E 0 VT_ENUM8)"

definition thermostat_attribute_temperature_setpoint_hold :: attr_fn where
  "thermostat_attribute_temperature_setpoint_hold =
     bounded 0 1 (attr 0x0023 (ATTRIBUTE_FLAG_WRITABLE OR ATTRIBUTE_FLAG_NONVOLATILE) VT_ENUM8)"

definition thermostat_attribute_temperature_setpoint_hold_duration :: attr_fn where
  "thermostat_attribute_temperature_setpoint_hold_duration =
     bounded 0 1440 (attr 0x0024 (ATTRIBUTE_FLAG_WRITABLE OR ATTRIBUTE_FLAG_NULLABLE OR ATTRIBUTE_FLAG_NONVOLATILE)
          VT_NULLABLE_UINT16)"

definition thermostat_attribute_thermostat_programming_operation_mode :: attr_fn where
  "thermostat_attribute_thermostat_programming_operation_mode =
     bounded 0 7 (attr 0x0025 ATTRIBUTE_FLAG_WRITABLE VT_BITMAP8)"

definition thermostat_attribute_thermostat_running_state :: attr_fn where
  "thermostat_attribute_thermostat_running_state =
     bounded 0 65535 (attr 0x0029 0 VT_BITMAP16)"

definition thermostat_attribute_setpoint_change_source :: attr_fn where
  "thermostat_attribute_setpoint_change_source =
     bounded 0 2 (attr 0x0030 0 VT_ENUM8)"

definition thermostat_attribute_setpoint_change_amount :: attr_fn where
  "thermostat_attribute_setpoint_change_amount =
     bounded (- 32768) 32766 (attr 0x0031 ATTRIBUTE_FLAG_NULLABLE VT_NULLABLE_INT16)"

definition thermostat_attribute_setpoint_change_source_timestamp :: attr_fn where
  "thermostat_attribute_setpoint_change_source_timestamp =
     bounded 0 4294967294 (attr 0x0032 0 VT_UINT32)"

definition thermostat_attribute_occupied_setback :: attr_fn where
  "thermostat_attribute_occupied_setback =
     guarded (Has_Feature thermostat_setback_id) (bounded 0 254 (attr 0x0034 (ATTRIBUTE_FLAG_WRITABLE OR
          ATTRIBUTE_FLAG_NULLABLE OR ATTRIBUTE_FLAG_NONVOLATILE) VT_NULLABLE_UINT8))"

definition thermostat_attribute_occupied_setback_min :: attr_fn where
  "thermostat_attribute_occupied_setback_min =
     guarded (Has_Feature thermostat_setback_id) (bounded 0 254 (attr 0x0035 ATTRIBUTE_FLAG_NULLABLE
          VT_NULLABLE_UINT8))"

definition thermostat_attribute_occupied_setback_max :: attr_fn where
  "thermostat_attribute_occupied_setback_max =
     guarded (Has_Feature thermostat_setback_id) (bounded 0 254 (attr 0x0036 ATTRIBUTE_FLAG_NULLABLE
          VT_NULLABLE_UINT8))"

definition thermostat_attribute_unoccupied_setback :: attr_fn where
  "thermostat_attribute_unoccupied_setback =
     guarded (And (Has_Feature thermostat_setback_id) (Has_Feature thermostat_occupancy_id)) (bounded 0 254 (attr
          0x0037 (ATTRIBUTE_FLAG_WRITABLE OR ATTRIBUTE_FLAG_NULLABLE OR ATTRIBUTE_FLAG_NONVOLATILE)
          VT_NULLABLE_UINT8))"

definition thermostat_attribute_unoccupied_setback_min :: attr_fn where
  "thermostat_attribute_unoccupied_setback_min =
     guarded (And (Has_Feature thermostat_setback_id) (Has_Feature thermostat_occupancy_id)) (bounded 0 254 (attr
          0x0038 ATTRIBUTE_FLAG_NULLABLE VT_NULLABLE_UINT8))"

definition thermostat_attribute_unoccupied_setback_max :: attr_fn where
  "thermostat_attribute_unoccupied_setback_max =
     guarded (And (Has_Feature thermostat_setback_id) (Has_Feature thermostat_occupancy_id)) (bounded 0 254 (attr
          0x0039 ATTRIBUTE_FLAG_NULLABLE VT_NULLABLE_UINT8))"

definition thermostat_attribute_emergency_heat_delta :: attr_fn where
  "thermostat_attribute_emergency_heat_delta =
     bounded 0 254 (attr 0x003A (ATTRIBUTE_FLAG_WRITABLE OR ATTRIBUTE_FLAG_NONVOLATILE) VT_UINT8)"

definition thermostat_attribute_ac_type :: attr_fn where
  "thermostat_attribute_ac_type =
     bounded 0 4 (attr 0x0040 (ATTRIBUTE_FLAG_WRITABLE OR ATTRIBUTE_FLAG_NONVOLATILE) VT_ENUM8)"

definition thermostat_attribute_ac_capacity :: attr_fn where
  "thermostat_attribute_ac_capacity =
     bounded 0 65534 (attr 0x0041 (ATTRIBUTE_FLAG_WRITABLE OR ATTRIBUTE_FLAG_NONVOLATILE) VT_UINT16)"

definition thermostat_attribute_ac_refrigerant_type :: attr_fn where
  "thermostat_attribute_ac_refrigerant_type =
     bounded 0 3 (attr 0x0042 (ATTRIBUTE_FLAG_WRITABLE OR ATTRIBUTE_FLAG_NONVOLATILE) VT_ENUM8)"

definition thermostat_attribute_ac_compressor_type :: attr_fn where
  "thermostat_attribute_ac_compressor_type =
     bounded 0 3 (attr 0x0043 (ATTRIBUTE_FLAG_WRITABLE OR ATTRIBUTE_FLAG_NONVOLATILE) VT_ENUM8)"

definition thermostat_attribute_ac_error_code :: attr_fn where
  "thermostat_attribute_ac_error_code =
     bounded 0 4294967295 (attr 0x0044 ATTRIBUTE_FLAG_WRITABLE VT_BITMAP32)"

definition thermostat_attribute_ac_louver_position :: attr_fn where
  "thermostat_attribute_ac_louver_position =
     bounded 0 4 (attr 0x0045 (ATTRIBUTE_FLAG_WRITABLE OR ATTRIBUTE_FLAG_NONVOLATILE) VT_ENUM8)"

definition thermostat_attribute_ac_coil_temperature :: attr_fn where
  "thermostat_attribute_ac_coil_temperature =
     bounded (- 32768) 32766 (attr 0x0046 ATTRIBUTE_FLAG_NULLABLE VT_NULLABLE_INT16)"

definition thermostat_attribute_ac_capacity_format :: attr_fn where
  "thermostat_attribute_ac_capacity_format =
     bounded 0 0 (attr 0x0047 (ATTRIBUTE_FLAG_WRITABLE OR ATTRIBUTE_FLAG_NONVOLATILE) VT_ENUM8)"

definition thermostat_attribute_preset_types :: attr_fn where
  "thermostat_attribute_preset_types =
     guarded (Has_Feature thermostat_presets_id) (attr 0x0048 ATTRIBUTE_FLAG_MANAGED_INTERNALLY VT_ARRAY)"

definition thermostat_attribute_schedule_types :: attr_fn where
  "thermostat_attribute_schedule_types =
     guarded (Has_Feature thermostat_matter_schedule_configuration_id) (attr 0x0049
          ATTRIBUTE_FLAG_MANAGED_INTERNALLY VT_ARRAY)"

definition thermostat_attribute_number_of_presets :: attr_fn where
  "thermostat_attribute_number_of_presets =
     guarded (Has_Feature thermostat_presets_id) (attr 0x004A ATTRIBUTE_FLAG_MANAGED_INTERNALLY VT_UINT8)"

definition thermostat_attribute_number_of_schedules :: attr_fn where
  "thermostat_attribute_number_of_schedules =
     guarded (Has_Feature thermostat_matter_schedule_configuration_id) (bounded 1 254 (attr 0x004B 0 VT_UINT8))"

definition thermostat_attribute_number_of_schedule_transitions :: attr_fn where
  "thermostat_attribute_number_of_schedule_transitions =
     guarded (Has_Feature thermostat_matter_schedule_configuration_id) (bounded 1 254 (attr 0x004C 0 VT_UINT8))"

definition thermostat_attribute_number_of_schedule_transition_per_day :: attr_fn where
  "thermostat_attribute_number_of_schedule_transition_per_day =
     guarded (Has_Feature thermostat_matter_schedule_configuration_id) (bounded 1 254 (attr 0x004D
          ATTRIBUTE_FLAG_NULLABLE VT_NULLABLE_UINT8))"

definition thermostat_attribute_active_preset_handle :: attr_fn where
  "thermostat_attribute_active_preset_handle =
     guarded (Has_Feature thermostat_presets_id) (attr 0x004E (ATTRIBUTE_FLAG_MANAGED_INTERNALLY OR
          ATTRIBUTE_FLAG_NULLABLE OR ATTRIBUTE_FLAG_NONVOLATILE) VT_OCTET_STRING)"

definition thermostat_attribute_active_schedule_handle :: attr_fn where
  "thermostat_attribute_active_schedule_handle =
     guarded (Has_Feature thermostat_matter_schedule_configuration_id) (at_most 17 (attr 0x004F
          (ATTRIBUTE_FLAG_NULLABLE OR ATTRIBUTE_FLAG_NONVOLATILE) VT_OCTET_STRING))"

definition thermostat_attribute_presets :: attr_fn where
  "thermostat_attribute_presets =
     guarded (Has_Feature thermostat_presets_id) (attr 0x0050 (ATTRIBUTE_FLAG_WRITABLE OR
          ATTRIBUTE_FLAG_MANAGED_INTERNALLY OR ATTRIBUTE_FLAG_NONVOLATILE) VT_ARRAY)"

definition thermostat_attribute_schedules :: attr_fn where
  "thermostat_attribute_schedules =
     guarded (Has_Feature thermostat_matter_schedule_configuration_id) (attr 0x0051 (ATTRIBUTE_FLAG_WRITABLE OR
          ATTRIBUTE_FLAG_MANAGED_INTERNALLY OR ATTRIBUTE_FLAG_NONVOLATILE) VT_ARRAY)"

definition thermostat_attribute_setpoint_hold_expiry_timestamp :: attr_fn where
  "thermostat_attribute_setpoint_hold_expiry_timestamp =
     bounded 0 4294967294 (attr 0x0052 (ATTRIBUTE_FLAG_NULLABLE OR ATTRIBUTE_FLAG_NONVOLATILE) VT_NULLABLE_UINT32)"

definition thermostat_callback_setpoint_raise_lower :: callback_fn where
  "thermostat_callback_setpoint_raise_lower =
     decodes_to ''Thermostat::Commands::SetpointRaiseLower'' ''emberAfThermostatClusterSetpointRaiseLowerCallback''"

definition thermostat_callback_set_active_schedule_request :: callback_fn where
  "thermostat_callback_set_active_schedule_request =
     decodes_to ''Thermostat::Commands::SetActiveScheduleRequest''
          ''emberAfThermostatClusterSetActiveScheduleRequestCallback''"

definition thermostat_callback_set_active_preset_request :: callback_fn where
  "thermostat_callback_set_active_preset_request =
     decodes_to ''Thermostat::Commands::SetActivePresetRequest''
          ''emberAfThermostatClusterSetActivePresetRequestCallback''"

definition thermostat_command_setpoint_raise_lower :: cmd_fn where
  "thermostat_command_setpoint_raise_lower =
     cmd 0x00 COMMAND_FLAG_ACCEPTED (Some ''thermostat.esp_matter_command_callback_setpoint_raise_lower'')"

definition thermostat_command_set_active_schedule_request :: cmd_fn where
  "thermostat_command_set_active_schedule_request =
     guarded_cmd (Has_Feature thermostat_matter_schedule_configuration_id) (cmd 0x05 COMMAND_FLAG_ACCEPTED (Some
          ''thermostat.esp_matter_command_callback_set_active_schedule_request''))"

definition thermostat_command_set_active_preset_request :: cmd_fn where
  "thermostat_command_set_active_preset_request =
     guarded_cmd (Has_Feature thermostat_presets_id) (cmd 0x06 COMMAND_FLAG_ACCEPTED (Some
          ''thermostat.esp_matter_command_callback_set_active_preset_request''))"

definition thermostat_feature_heating :: feature_fn where
  "thermostat_feature_heating =
     feature thermostat_heating_id True [Update_Feature_Map,
        Attribute thermostat_attribute_occupied_heating_setpoint (Field ''occupied_heating_setpoint''),
        Attribute thermostat_attribute_unoccupied_heating_setpoint (Field ''unoccupied_heating_setpoint'')]"

definition thermostat_feature_cooling :: feature_fn where
  "thermostat_feature_cooling =
     feature thermostat_cooling_id True [Update_Feature_Map,
        Attribute thermostat_attribute_occupied_cooling_setpoint (Field ''occupied_cooling_setpoint''),
        Attribute thermostat_attribute_unoccupied_cooling_setpoint (Field ''unoccupied_cooling_setpoint'')]"

definition thermostat_feature_occupancy :: feature_fn where
  "thermostat_feature_occupancy =
     feature thermostat_occupancy_id True [Update_Feature_Map,
        Attribute thermostat_attribute_occupancy (Field ''occupancy''),
        Attribute thermostat_attribute_unoccupied_cooling_setpoint (Field ''unoccupied_cooling_setpoint''),
        Attribute thermostat_attribute_unoccupied_heating_setpoint (Field ''unoccupied_heating_setpoint''),
        Attribute thermostat_attribute_unoccupied_setback (Field ''unoccupied_setback''),
        Attribute thermostat_attribute_unoccupied_setback_min (Field ''unoccupied_setback_min''),
        Attribute thermostat_attribute_unoccupied_setback_max (Field ''unoccupied_setback_max'')]"

definition thermostat_feature_setback :: feature_fn where
  "thermostat_feature_setback =
     feature thermostat_setback_id True [Update_Feature_Map,
        Attribute thermostat_attribute_occupied_setback (Field ''occupied_setback''),
        Attribute thermostat_attribute_occupied_setback_min (Field ''occupied_setback_min''),
        Attribute thermostat_attribute_occupied_setback_max (Field ''occupied_setback_max''),
        Attribute thermostat_attribute_unoccupied_setback (Field ''unoccupied_setback''),
        Attribute thermostat_attribute_unoccupied_setback_min (Field ''unoccupied_setback_min''),
        Attribute thermostat_attribute_unoccupied_setback_max (Field ''unoccupied_setback_max'')]"

definition thermostat_feature_auto_mode :: feature_fn where
  "thermostat_feature_auto_mode =
     feature thermostat_auto_mode_id True [Update_Feature_Map,
        Attribute thermostat_attribute_min_setpoint_dead_band (Field ''min_setpoint_dead_band'')]"

definition thermostat_feature_local_temperature_not_exposed :: feature_fn where
  "thermostat_feature_local_temperature_not_exposed =
     feature thermostat_local_temperature_not_exposed_id False [Update_Feature_Map]"

definition thermostat_feature_matter_schedule_configuration :: feature_fn where
  "thermostat_feature_matter_schedule_configuration =
     feature thermostat_matter_schedule_configuration_id True [Update_Feature_Map,
        Attribute thermostat_attribute_number_of_schedules (Field ''number_of_schedules''),
        Attribute thermostat_attribute_number_of_schedule_transitions (Field
          ''number_of_schedule_transitions''),
        Attribute thermostat_attribute_number_of_schedule_transition_per_day (Field
          ''number_of_schedule_transition_per_day''),
        Attribute thermostat_attribute_active_schedule_handle (Field ''active_schedule_handle''),
        Attribute thermostat_attribute_schedule_types Null_Arr,
        Attribute thermostat_attribute_schedules Null_Arr,
        Command thermostat_command_set_active_schedule_request]"

definition thermostat_feature_presets :: feature_fn where
  "thermostat_feature_presets =
     feature thermostat_presets_id False [Update_Feature_Map, Attribute thermostat_attribute_preset_types Null_Arr,
        Attribute thermostat_attribute_number_of_presets (Lit 0),
        Attribute thermostat_attribute_active_preset_handle Null_Str,
        Attribute thermostat_attribute_presets Null_Arr, Command thermostat_command_set_active_preset_request]"

definition thermostat_function_list :: "string list option" where
  "thermostat_function_list =
     Some [''emberAfThermostatClusterServerInitCallback'', ''MatterThermostatClusterServerAttributeChangedCallback'',
        ''MatterThermostatClusterServerShutdownCallback'',
        ''MatterThermostatClusterServerPreAttributeChangedCallback'']"

definition thermostat_create :: cluster_fn where
  "thermostat_create =
     \<lparr>kf_id = 0x0201,
      kf_revision = 9,
      kf_functions = thermostat_function_list,
      kf_function_flags = CLUSTER_FLAG_INIT_FUNCTION OR CLUSTER_FLAG_ATTRIBUTE_CHANGED_FUNCTION OR
          CLUSTER_FLAG_SHUTDOWN_FUNCTION OR CLUSTER_FLAG_PRE_ATTRIBUTE_CHANGED_FUNCTION,
      kf_body = [Delegate ''ThermostatDelegateInitCB'', Plugin ''MatterThermostatPluginServerInitCallback'',
        Functions, Config_Feature_Map, Cluster_Revision,
        Step (Attribute thermostat_attribute_local_temperature (Field ''local_temperature'')),
        Step (Attribute thermostat_attribute_control_sequence_of_operation (Field
          ''control_sequence_of_operation'')),
        Step (Attribute thermostat_attribute_system_mode (Field ''system_mode'')),
        If_Feature thermostat_auto_mode_id [Add_Feature thermostat_feature_auto_mode ''auto_mode'',
        Add_Feature thermostat_feature_heating ''heating'',
        Add_Feature thermostat_feature_cooling ''cooling''] [Validate k_at_least_one [thermostat_heating_id,
        thermostat_cooling_id],
        If_Feature thermostat_heating_id [Add_Feature thermostat_feature_heating ''heating''] [],
        If_Feature thermostat_cooling_id [Add_Feature thermostat_feature_cooling ''cooling''] []],
        If_Feature thermostat_occupancy_id [Add_Feature thermostat_feature_occupancy ''occupancy''] [],
        If_Feature thermostat_setback_id [Add_Feature thermostat_feature_setback ''setback''] [],
        If_Feature thermostat_local_temperature_not_exposed_id [Add_Feature
          thermostat_feature_local_temperature_not_exposed ''local_temperature_not_exposed''] [],
        If_Feature thermostat_matter_schedule_configuration_id [Add_Feature
          thermostat_feature_matter_schedule_configuration ''matter_schedule_configuration''] [],
        If_Feature thermostat_presets_id [Add_Feature thermostat_feature_presets ''presets''] [],
        Step (Command thermostat_command_setpoint_raise_lower)],
      kf_binding = True\<rparr>"

definition thermostat_ids :: cluster_ids where
  "thermostat_ids =
     \<lparr>ci_cluster = 0x0201,
      ci_features = [(''Heating'', 0x1), (''Cooling'', 0x2), (''Occupancy'', 0x4), (''Setback'', 0x10),
        (''AutoMode'', 0x20), (''LocalTemperatureNotExposed'', 0x40), (''MatterScheduleConfiguration'', 0x80),
        (''Presets'', 0x100)],
      ci_attributes = [(''LocalTemperature'', 0x0000), (''OutdoorTemperature'', 0x0001), (''Occupancy'',
        0x0002), (''AbsMinHeatSetpointLimit'', 0x0003), (''AbsMaxHeatSetpointLimit'', 0x0004),
        (''AbsMinCoolSetpointLimit'', 0x0005), (''AbsMaxCoolSetpointLimit'', 0x0006), (''PICoolingDemand'',
        0x0007), (''PIHeatingDemand'', 0x0008), (''LocalTemperatureCalibration'', 0x0010),
        (''OccupiedCoolingSetpoint'', 0x0011), (''OccupiedHeatingSetpoint'', 0x0012),
        (''UnoccupiedCoolingSetpoint'', 0x0013), (''UnoccupiedHeatingSetpoint'', 0x0014),
        (''MinHeatSetpointLimit'', 0x0015), (''MaxHeatSetpointLimit'', 0x0016), (''MinCoolSetpointLimit'',
        0x0017), (''MaxCoolSetpointLimit'', 0x0018), (''MinSetpointDeadBand'', 0x0019), (''RemoteSensing'',
        0x001A), (''ControlSequenceOfOperation'', 0x001B), (''SystemMode'', 0x001C), (''ThermostatRunningMode'',
        0x001E), (''TemperatureSetpointHold'', 0x0023), (''TemperatureSetpointHoldDuration'', 0x0024),
        (''ThermostatProgrammingOperationMode'', 0x0025), (''ThermostatRunningState'', 0x0029),
        (''SetpointChangeSource'', 0x0030), (''SetpointChangeAmount'', 0x0031),
        (''SetpointChangeSourceTimestamp'', 0x0032), (''OccupiedSetback'', 0x0034), (''OccupiedSetbackMin'',
        0x0035), (''OccupiedSetbackMax'', 0x0036), (''UnoccupiedSetback'', 0x0037), (''UnoccupiedSetbackMin'',
        0x0038), (''UnoccupiedSetbackMax'', 0x0039), (''EmergencyHeatDelta'', 0x003A), (''ACType'', 0x0040),
        (''ACCapacity'', 0x0041), (''ACRefrigerantType'', 0x0042), (''ACCompressorType'', 0x0043),
        (''ACErrorCode'', 0x0044), (''ACLouverPosition'', 0x0045), (''ACCoilTemperature'', 0x0046),
        (''ACCapacityFormat'', 0x0047), (''PresetTypes'', 0x0048), (''ScheduleTypes'', 0x0049),
        (''NumberOfPresets'', 0x004A), (''NumberOfSchedules'', 0x004B), (''NumberOfScheduleTransitions'',
        0x004C), (''NumberOfScheduleTransitionPerDay'', 0x004D), (''ActivePresetHandle'', 0x004E),
        (''ActiveScheduleHandle'', 0x004F), (''Presets'', 0x0050), (''Schedules'', 0x0051),
        (''SetpointHoldExpiryTimestamp'', 0x0052)],
      ci_commands = [(''SetpointRaiseLower'', 0x00), (''SetActiveScheduleRequest'', 0x05),
        (''SetActivePresetRequest'', 0x06)],
      ci_events = []\<rparr>"

definition thermostat_features :: "feature_fn list" where
  "thermostat_features =
     [thermostat_feature_heating, thermostat_feature_cooling, thermostat_feature_occupancy,
        thermostat_feature_setback, thermostat_feature_auto_mode,
        thermostat_feature_local_temperature_not_exposed, thermostat_feature_matter_schedule_configuration,
        thermostat_feature_presets]"

definition thermostat_attributes :: "attr_fn list" where
  "thermostat_attributes =
     [thermostat_attribute_local_temperature, thermostat_attribute_outdoor_temperature,
        thermostat_attribute_occupancy, thermostat_attribute_abs_min_heat_setpoint_limit,
        thermostat_attribute_abs_max_heat_setpoint_limit, thermostat_attribute_abs_min_cool_setpoint_limit,
        thermostat_attribute_abs_max_cool_setpoint_limit, thermostat_attribute_pi_cooling_demand,
        thermostat_attribute_pi_heating_demand, thermostat_attribute_local_temperature_calibration,
        thermostat_attribute_occupied_cooling_setpoint, thermostat_attribute_occupied_heating_setpoint,
        thermostat_attribute_unoccupied_cooling_setpoint, thermostat_attribute_unoccupied_heating_setpoint,
        thermostat_attribute_min_heat_setpoint_limit, thermostat_attribute_max_heat_setpoint_limit,
        thermostat_attribute_min_cool_setpoint_limit, thermostat_attribute_max_cool_setpoint_limit,
        thermostat_attribute_min_setpoint_dead_band, thermostat_attribute_remote_sensing,
        thermostat_attribute_control_sequence_of_operation, thermostat_attribute_system_mode,
        thermostat_attribute_thermostat_running_mode, thermostat_attribute_temperature_setpoint_hold,
        thermostat_attribute_temperature_setpoint_hold_duration,
        thermostat_attribute_thermostat_programming_operation_mode,
        thermostat_attribute_thermostat_running_state, thermostat_attribute_setpoint_change_source,
        thermostat_attribute_setpoint_change_amount, thermostat_attribute_setpoint_change_source_timestamp,
        thermostat_attribute_occupied_setback, thermostat_attribute_occupied_setback_min,
        thermostat_attribute_occupied_setback_max, thermostat_attribute_unoccupied_setback,
        thermostat_attribute_unoccupied_setback_min, thermostat_attribute_unoccupied_setback_max,
        thermostat_attribute_emergency_heat_delta, thermostat_attribute_ac_type,
        thermostat_attribute_ac_capacity, thermostat_attribute_ac_refrigerant_type,
        thermostat_attribute_ac_compressor_type, thermostat_attribute_ac_error_code,
        thermostat_attribute_ac_louver_position, thermostat_attribute_ac_coil_temperature,
        thermostat_attribute_ac_capacity_format, thermostat_attribute_preset_types,
        thermostat_attribute_schedule_types, thermostat_attribute_number_of_presets,
        thermostat_attribute_number_of_schedules, thermostat_attribute_number_of_schedule_transitions,
        thermostat_attribute_number_of_schedule_transition_per_day, thermostat_attribute_active_preset_handle,
        thermostat_attribute_active_schedule_handle, thermostat_attribute_presets,
        thermostat_attribute_schedules, thermostat_attribute_setpoint_hold_expiry_timestamp]"

definition thermostat_commands :: "cmd_fn list" where
  "thermostat_commands =
     [thermostat_command_setpoint_raise_lower, thermostat_command_set_active_schedule_request,
        thermostat_command_set_active_preset_request]"

definition thermostat_callbacks :: "(string \<times> callback_fn) list" where
  "thermostat_callbacks =
     [(''thermostat.esp_matter_command_callback_setpoint_raise_lower'', thermostat_callback_setpoint_raise_lower),
        (''thermostat.esp_matter_command_callback_set_active_schedule_request'',
        thermostat_callback_set_active_schedule_request),
        (''thermostat.esp_matter_command_callback_set_active_preset_request'',
        thermostat_callback_set_active_preset_request)]"

definition thermostat_cluster :: cluster_decl where
  "thermostat_cluster =
     \<lparr>cd_ids = thermostat_ids,
      cd_callbacks = thermostat_callbacks,
      cd_features = thermostat_features,
      cd_attributes = thermostat_attributes,
      cd_commands = thermostat_commands,
      cd_events = [],
      cd_create = Some thermostat_create\<rparr>"

section \<open>Checks\<close>

definition additive_10 :: "cluster_decl list" where
  "additive_10 =
     [rvc_run_mode_cluster, scenes_management_cluster, service_area_cluster, smoke_co_alarm_cluster,
        software_diagnostics_cluster, soil_measurement_cluster, target_navigator_cluster,
        temperature_control_cluster, temperature_measurement_cluster, thermostat_cluster]"

lemma additive_10_ok: "list_all decl_ok additive_10"
  by code_simp

lemma additive_10_order: "list_all (\<lambda>d. order_ok (cd_features d)) additive_10"
  by code_simp

lemma switch_cluster_cluster_ok: "decl_ok switch_cluster_cluster"
  by code_simp

end
