(* ===== verification/EM_Clusters_11.thy ===== *)
theory EM_Clusters_11
  imports EM_Order
begin

text \<open>
  The generated clusters \<open>thermostat_user_interface_configuration\<close> to \<open>tls_client_management\<close>:
  one definition for each function and id table of their files, and the checks of the descriptions.
\<close>

section \<open>\<open>thermostat_user_interface_configuration\<close>\<close>

definition thermostat_user_interface_configuration_attribute_temperature_display_mode :: attr_fn where
  "thermostat_user_interface_configuration_attribute_temperature_display_mode =
     bounded 0 1 (attr 0x0000 ATTRIBUTE_FLAG_WRITABLE VT_ENUM8)"

definition thermostat_user_interface_configuration_attribute_keypad_lockout :: attr_fn where
  "thermostat_user_interface_configuration_attribute_keypad_lockout =
     bounded 0 5 (attr 0x0001 ATTRIBUTE_FLAG_WRITABLE VT_ENUM8)"

definition thermostat_user_interface_configuration_attribute_schedule_programming_visibility :: attr_fn where
  "thermostat_user_interface_configuration_attribute_schedule_programming_visibility =
     bounded 0 1 (attr 0x0002 ATTRIBUTE_FLAG_WRITABLE VT_ENUM8)"

definition thermostat_user_interface_configuration_function_list :: "string list option" where
  "thermostat_user_interface_configuration_function_list =
     Some [''MatterThermostatUserInterfaceConfigurationClusterServerPreAttributeChangedCallback'']"

definition thermostat_user_interface_configuration_create :: cluster_fn where
  "thermostat_user_interface_configuration_create =
     \<lparr>kf_id = 0x0204,
      kf_revision = 2,
      kf_functions = thermostat_user_interface_configuration_function_list,
      kf_function_flags = CLUSTER_FLAG_PRE_ATTRIBUTE_CHANGED_FUNCTION,
      kf_body = [Plugin ''MatterThermostatUserInterfaceConfigurationPluginServerInitCallback'', Functions,
        Feature_Map 0, Cluster_Revision,
        Step (Attribute thermostat_user_interface_configuration_attribute_temperature_display_mode (Field
          ''temperature_display_mode'')),
        Step (Attribute thermostat_user_interface_configuration_attribute_keypad_lockout (Field
          ''keypad_lockout''))],
      kf_binding = True\<rparr>"

definition thermostat_user_interface_configuration_ids :: cluster_ids where
  "thermostat_user_interface_configuration_ids =
     \<lparr>ci_cluster = 0x0204,
      ci_features = [],
      ci_attributes = [(''TemperatureDisplayMode'', 0x0000), (''KeypadLockout'', 0x0001),
        (''ScheduleProgrammingVisibility'', 0x0002)],
      ci_commands = [],
      ci_events = []\<rparr>"

definition thermostat_user_interface_configuration_attributes :: "attr_fn list" where
  "thermostat_user_interface_configuration_attributes =
     [thermostat_user_interface_configuration_attribute_temperature_display_mode,
        thermostat_user_interface_configuration_attribute_keypad_lockout,
        thermostat_user_interface_configuration_attribute_schedule_programming_visibility]"

definition thermostat_user_interface_configuration_cluster :: cluster_decl where
  "thermostat_user_interface_configuration_cluster =
     \<lparr>cd_ids = thermostat_user_interface_configuration_ids,
      cd_callbacks = [],
      cd_features = [],
      cd_attributes = thermostat_user_interface_configuration_attributes,
      cd_commands = [],
      cd_events = [],
      cd_create = Some thermostat_user_interface_configuration_create\<rparr>"

section \<open>\<open>thread_border_router_management\<close>\<close>

definition thread_border_router_management_pan_change_id :: u32 where
  "thread_border_router_management_pan_change_id = 0x1"

definition thread_border_router_management_attribute_border_router_name :: attr_fn where
  "thread_border_router_management_attribute_border_router_name =
     attr 0x0000 ATTRIBUTE_FLAG_MANAGED_INTERNALLY VT_CHAR_STRING"

definition thread_border_router_management_attribute_border_agent_id :: attr_fn where
  "thread_border_router_management_attribute_border_agent_id =
     attr 0x0001 ATTRIBUTE_FLAG_MANAGED_INTERNALLY VT_OCTET_STRING"

definition thread_border_router_management_attribute_thread_version :: attr_fn where
  "thread_border_router_management_attribute_thread_version =
     attr 0x0002 ATTRIBUTE_FLAG_MANAGED_INTERNALLY VT_UINT16"

definition thread_border_router_management_attribute_interface_enabled :: attr_fn where
  "thread_border_router_management_attribute_interface_enabled =
     attr 0x0003 (ATTRIBUTE_FLAG_MANAGED_INTERNALLY OR ATTRIBUTE_FLAG_NONVOLATILE) VT_BOOLEAN"

definition thread_border_router_management_attribute_active_dataset_timestamp :: attr_fn where
  "thread_border_router_management_attribute_active_dataset_timestamp =
     attr 0x0004 (ATTRIBUTE_FLAG_MANAGED_INTERNALLY OR ATTRIBUTE_FLAG_NULLABLE OR ATTRIBUTE_FLAG_NONVOLATILE)
          VT_NULLABLE_UINT64"

definition thread_border_router_management_attribute_pending_dataset_timestamp :: attr_fn where
  "thread_border_router_management_attribute_pending_dataset_timestamp =
     attr 0x0005 (ATTRIBUTE_FLAG_MANAGED_INTERNALLY OR ATTRIBUTE_FLAG_NULLABLE OR ATTRIBUTE_FLAG_NONVOLATILE)
          VT_NULLABLE_UINT64"

definition thread_border_router_management_command_get_active_dataset_request :: cmd_fn where
  "thread_border_router_management_command_get_active_dataset_request =
     cmd 0x00 COMMAND_FLAG_ACCEPTED None"

definition thread_border_router_management_command_get_pending_dataset_request :: cmd_fn where
  "thread_border_router_management_command_get_pending_dataset_request =
     cmd 0x01 COMMAND_FLAG_ACCEPTED None"

definition thread_border_router_management_command_dataset_response :: cmd_fn where
  "thread_border_router_management_command_dataset_response =
     cmd 0x02 COMMAND_FLAG_GENERATED None"

definition thread_border_router_management_command_set_active_dataset_request :: cmd_fn where
  "thread_border_router_management_command_set_active_dataset_request =
     cmd 0x03 COMMAND_FLAG_ACCEPTED None"

definition thread_border_router_management_command_set_pending_dataset_request :: cmd_fn where
  "thread_border_router_management_command_set_pending_dataset_request =
     guarded_cmd (Has_Feature thread_border_router_management_pan_change_id) (cmd 0x04 COMMAND_FLAG_ACCEPTED None)"

definition thread_border_router_management_feature_pan_change :: feature_fn where
  "thread_border_router_management_feature_pan_change =
     feature thread_border_router_management_pan_change_id False [Update_Feature_Map,
        Command thread_border_router_management_command_set_pending_dataset_request]"

definition thread_border_router_management_create :: cluster_fn where
  "thread_border_router_management_create =
     \<lparr>kf_id = 0x0452,
      kf_revision = 1,
      kf_functions = None,
      kf_function_flags = 0,
      kf_body = [Delegate ''ThreadBorderRouterManagementDelegateInitCB'',
        Plugin ''MatterThreadBorderRouterManagementPluginServerInitCallback'', Functions, Feature_Map 0,
        Cluster_Revision,
        Step (Attribute thread_border_router_management_attribute_border_router_name Null_Str),
        Step (Attribute thread_border_router_management_attribute_border_agent_id Null_Str),
        Step (Attribute thread_border_router_management_attribute_thread_version (Lit 0)),
        Step (Attribute thread_border_router_management_attribute_interface_enabled (Lit 0)),
        Step (Attribute thread_border_router_management_attribute_active_dataset_timestamp (Lit 0)),
        Step (Attribute thread_border_router_management_attribute_pending_dataset_timestamp (Lit 0)),
        Step (Command thread_border_router_management_command_get_active_dataset_request),
        Step (Command thread_border_router_management_command_get_pending_dataset_request),
        Step (Command thread_border_router_management_command_dataset_response),
        Step (Command thread_border_router_management_command_set_active_dataset_request)],
      kf_binding = True\<rparr>"

definition thread_border_router_management_ids :: cluster_ids where
  "thread_border_router_management_ids =
     \<lparr>ci_cluster = 0x0452,
      ci_features = [(''PANChange'', 0x1)],
      ci_attributes = [(''BorderRouterName'', 0x0000), (''BorderAgentID'', 0x0001), (''ThreadVersion'', 0x0002),
        (''InterfaceEnabled'', 0x0003), (''ActiveDatasetTimestamp'', 0x0004), (''PendingDatasetTimestamp'',
        0x0005)],
      ci_commands = [(''GetActiveDatasetRequest'', 0x00), (''GetPendingDatasetRequest'', 0x01),
        (''DatasetResponse'', 0x02), (''SetActiveDatasetRequest'', 0x03), (''SetPendingDatasetRequest'', 0x04)],
      ci_events = []\<rparr>"

definition thread_border_router_management_features :: "feature_fn list" where
  "thread_border_router_management_features =
     [thread_border_router_management_feature_pan_change]"

definition thread_border_router_management_attributes :: "attr_fn list" where
  "thread_border_router_management_attributes =
     [thread_border_router_management_attribute_border_router_name,
        thread_border_router_management_attribute_border_agent_id,
        thread_border_router_management_attribute_thread_version,
        thread_border_router_management_attribute_interface_enabled,
        thread_border_router_management_attribute_active_dataset_timestamp,
        thread_border_router_management_attribute_pending_dataset_timestamp]"

definition thread_border_router_management_commands :: "cmd_fn list" where
  "thread_border_router_management_commands =
     [thread_border_router_management_command_get_active_dataset_request,
        thread_border_router_management_command_get_pending_dataset_request,
        thread_border_router_management_command_dataset_response,
        thread_border_router_management_command_set_active_dataset_request,
        thread_border_router_management_command_set_pending_dataset_request]"

definition thread_border_router_management_cluster :: cluster_decl where
  "thread_border_router_management_cluster =
     \<lparr>cd_ids = thread_border_router_management_ids,
      cd_callbacks = [],
      cd_features = thread_border_router_management_features,
      cd_attributes = thread_border_router_management_attributes,
      cd_commands = thread_border_router_management_commands,
      cd_events = [],
      cd_create = Some thread_border_router_management_create\<rparr>"

section \<open>\<open>thread_network_diagnostics\<close>\<close>

definition thread_network_diagnostics_packet_counts_id :: u32 where
  "thread_network_diagnostics_packet_counts_id = 0x1"

definition thread_network_diagnostics_error_counts_id :: u32 where
  "thread_network_diagnostics_error_counts_id = 0x2"

definition thread_network_diagnostics_mle_counts_id :: u32 where
  "thread_network_diagnostics_mle_counts_id = 0x4"

definition thread_network_diagnostics_mac_counts_id :: u32 where
  "thread_network_diagnostics_mac_counts_id = 0x8"

definition thread_network_diagnostics_attribute_channel :: attr_fn where
  "thread_network_diagnostics_attribute_channel =
     attr 0x0000 (ATTRIBUTE_FLAG_MANAGED_INTERNALLY OR ATTRIBUTE_FLAG_NULLABLE) VT_NULLABLE_UINT16"

definition thread_network_diagnostics_attribute_routing_role :: attr_fn where
  "thread_network_diagnostics_attribute_routing_role =
     attr 0x0001 (ATTRIBUTE_FLAG_MANAGED_INTERNALLY OR ATTRIBUTE_FLAG_NULLABLE) VT_NULLABLE_ENUM8"

definition thread_network_diagnostics_attribute_network_name :: attr_fn where
  "thread_network_diagnostics_attribute_network_name =
     attr 0x0002 (ATTRIBUTE_FLAG_MANAGED_INTERNALLY OR ATTRIBUTE_FLAG_NULLABLE) VT_CHAR_STRING"

definition thread_network_diagnostics_attribute_pan_id :: attr_fn where
  "thread_network_diagnostics_attribute_pan_id =
     attr 0x0003 (ATTRIBUTE_FLAG_MANAGED_INTERNALLY OR ATTRIBUTE_FLAG_NULLABLE) VT_NULLABLE_UINT16"

definition thread_network_diagnostics_attribute_extended_pan_id :: attr_fn where
  "thread_network_diagnostics_attribute_extended_pan_id =
     attr 0x0004 (ATTRIBUTE_FLAG_MANAGED_INTERNALLY OR ATTRIBUTE_FLAG_NULLABLE) VT_NULLABLE_UINT64"

definition thread_network_diagnostics_attribute_mesh_local_prefix :: attr_fn where
  "thread_network_diagnostics_attribute_mesh_local_prefix =
     attr 0x0005 (ATTRIBUTE_FLAG_MANAGED_INTERNALLY OR ATTRIBUTE_FLAG_NULLABLE) VT_OCTET_STRING"

definition thread_network_diagnostics_attribute_overrun_count :: attr_fn where
  "thread_network_diagnostics_attribute_overrun_count =
     guarded (Has_Feature thread_network_diagnostics_error_counts_id) (attr 0x0006 ATTRIBUTE_FLAG_MANAGED_INTERNALLY
          VT_UINT64)"

definition thread_network_diagnostics_attribute_neighbor_table :: attr_fn where
  "thread_network_diagnostics_attribute_neighbor_table =
     attr 0x0007 ATTRIBUTE_FLAG_MANAGED_INTERNALLY VT_ARRAY"

definition thread_network_diagnostics_attribute_route_table :: attr_fn where
  "thread_network_diagnostics_attribute_route_table =
     attr 0x0008 ATTRIBUTE_FLAG_MANAGED_INTERNALLY VT_ARRAY"

definition thread_network_diagnostics_attribute_partition_id :: attr_fn where
  "thread_network_diagnostics_attribute_partition_id =
     attr 0x0009 (ATTRIBUTE_FLAG_MANAGED_INTERNALLY OR ATTRIBUTE_FLAG_NULLABLE) VT_NULLABLE_UINT32"

definition thread_network_diagnostics_attribute_weighting :: attr_fn where
  "thread_network_diagnostics_attribute_weighting =
     attr 0x000A (ATTRIBUTE_FLAG_MANAGED_INTERNALLY OR ATTRIBUTE_FLAG_NULLABLE) VT_NULLABLE_UINT16"

definition thread_network_diagnostics_attribute_data_version :: attr_fn where
  "thread_network_diagnostics_attribute_data_version =
     attr 0x000B (ATTRIBUTE_FLAG_MANAGED_INTERNALLY OR ATTRIBUTE_FLAG_NULLABLE) VT_NULLABLE_UINT16"

definition thread_network_diagnostics_attribute_stable_data_version :: attr_fn where
  "thread_network_diagnostics_attribute_stable_data_version =
     attr 0x000C (ATTRIBUTE_FLAG_MANAGED_INTERNALLY OR ATTRIBUTE_FLAG_NULLABLE) VT_NULLABLE_UINT16"

definition thread_network_diagnostics_attribute_leader_router_id :: attr_fn where
  "thread_network_diagnostics_attribute_leader_router_id =
     attr 0x000D (ATTRIBUTE_FLAG_MANAGED_INTERNALLY OR ATTRIBUTE_FLAG_NULLABLE) VT_NULLABLE_UINT8"

definition thread_network_diagnostics_attribute_detached_role_count :: attr_fn where
  "thread_network_diagnostics_attribute_detached_role_count =
     attr 0x000E ATTRIBUTE_FLAG_MANAGED_INTERNALLY VT_UINT16"

definition thread_network_diagnostics_attribute_child_role_count :: attr_fn where
  "thread_network_diagnostics_attribute_child_role_count =
     attr 0x000F ATTRIBUTE_FLAG_MANAGED_INTERNALLY VT_UINT16"

definition thread_network_diagnostics_attribute_router_role_count :: attr_fn where
  "thread_network_diagnostics_attribute_router_role_count =
     attr 0x0010 ATTRIBUTE_FLAG_MANAGED_INTERNALLY VT_UINT16"

definition thread_network_diagnostics_attribute_leader_role_count :: attr_fn where
  "thread_network_diagnostics_attribute_leader_role_count =
     attr 0x0011 ATTRIBUTE_FLAG_MANAGED_INTERNALLY VT_UINT16"

definition thread_network_diagnostics_attribute_attach_attempt_count :: attr_fn where
  "thread_network_diagnostics_attribute_attach_attempt_count =
     attr 0x0012 ATTRIBUTE_FLAG_MANAGED_INTERNALLY VT_UINT16"

definition thread_network_diagnostics_attribute_partition_id_change_count :: attr_fn where
  "thread_network_diagnostics_attribute_partition_id_change_count =
     attr 0x0013 ATTRIBUTE_FLAG_MANAGED_INTERNALLY VT_UINT16"

definition thread_network_diagnostics_attribute_better_partition_attach_attempt_count :: attr_fn where
  "thread_network_diagnostics_attribute_better_partition_attach_attempt_count =
     attr 0x0014 ATTRIBUTE_FLAG_MANAGED_INTERNALLY VT_UINT16"

definition thread_network_diagnostics_attribute_parent_change_count :: attr_fn where
  "thread_network_diagnostics_attribute_parent_change_count =
     attr 0x0015 ATTRIBUTE_FLAG_MANAGED_INTERNALLY VT_UINT16"

definition thread_network_diagnostics_attribute_tx_total_count :: attr_fn where
  "thread_network_diagnostics_attribute_tx_total_count =
     attr 0x0016 ATTRIBUTE_FLAG_MANAGED_INTERNALLY VT_UINT32"

definition thread_network_diagnostics_attribute_tx_unicast_count :: attr_fn where
  "thread_network_diagnostics_attribute_tx_unicast_count =
     attr 0x0017 ATTRIBUTE_FLAG_MANAGED_INTERNALLY VT_UINT32"

definition thread_network_diagnostics_attribute_tx_broadcast_count :: attr_fn where
  "thread_network_diagnostics_attribute_tx_broadcast_count =
     attr 0x0018 ATTRIBUTE_FLAG_MANAGED_INTERNALLY VT_UINT32"

definition thread_network_diagnostics_attribute_tx_ack_requested_count :: attr_fn where
  "thread_network_diagnostics_attribute_tx_ack_requested_count =
     attr 0x0019 ATTRIBUTE_FLAG_MANAGED_INTERNALLY VT_UINT32"

definition thread_network_diagnostics_attribute_tx_acked_count :: attr_fn where
  "thread_network_diagnostics_attribute_tx_acked_count =
     attr 0x001A ATTRIBUTE_FLAG_MANAGED_INTERNALLY VT_UINT32"

definition thread_network_diagnostics_attribute_tx_no_ack_requested_count :: attr_fn where
  "thread_network_diagnostics_attribute_tx_no_ack_requested_count =
     attr 0x001B ATTRIBUTE_FLAG_MANAGED_INTERNALLY VT_UINT32"

definition thread_network_diagnostics_attribute_tx_data_count :: attr_fn where
  "thread_network_diagnostics_attribute_tx_data_count =
     attr 0x001C ATTRIBUTE_FLAG_MANAGED_INTERNALLY VT_UINT32"

definition thread_network_diagnostics_attribute_tx_data_poll_count :: attr_fn where
  "thread_network_diagnostics_attribute_tx_data_poll_count =
     attr 0x001D ATTRIBUTE_FLAG_MANAGED_INTERNALLY VT_UINT32"

definition thread_network_diagnostics_attribute_tx_beacon_count :: attr_fn where
  "thread_network_diagnostics_attribute_tx_beacon_count =
     attr 0x001E ATTRIBUTE_FLAG_MANAGED_INTERNALLY VT_UINT32"

definition thread_network_diagnostics_attribute_tx_beacon_request_count :: attr_fn where
  "thread_network_diagnostics_attribute_tx_beacon_request_count =
     attr 0x001F ATTRIBUTE_FLAG_MANAGED_INTERNALLY VT_UINT32"

definition thread_network_diagnostics_attribute_tx_other_count :: attr_fn where
  "thread_network_diagnostics_attribute_tx_other_count =
     attr 0x0020 ATTRIBUTE_FLAG_MANAGED_INTERNALLY VT_UINT32"

definition thread_network_diagnostics_attribute_tx_retry_count :: attr_fn where
  "thread_network_diagnostics_attribute_tx_retry_count =
     attr 0x0021 ATTRIBUTE_FLAG_MANAGED_INTERNALLY VT_UINT32"

definition thread_network_diagnostics_attribute_tx_direct_max_retry_expiry_count :: attr_fn where
  "thread_network_diagnostics_attribute_tx_direct_max_retry_expiry_count =
     attr 0x0022 ATTRIBUTE_FLAG_MANAGED_INTERNALLY VT_UINT32"

definition thread_network_diagnostics_attribute_tx_indirect_max_retry_expiry_count :: attr_fn where
  "thread_network_diagnostics_attribute_tx_indirect_max_retry_expiry_count =
     attr 0x0023 ATTRIBUTE_FLAG_MANAGED_INTERNALLY VT_UINT32"

definition thread_network_diagnostics_attribute_tx_err_cca_count :: attr_fn where
  "thread_network_diagnostics_attribute_tx_err_cca_count =
     attr 0x0024 ATTRIBUTE_FLAG_MANAGED_INTERNALLY VT_UINT32"

definition thread_network_diagnostics_attribute_tx_err_abort_count :: attr_fn where
  "thread_network_diagnostics_attribute_tx_err_abort_count =
     attr 0x0025 ATTRIBUTE_FLAG_MANAGED_INTERNALLY VT_UINT32"

definition thread_network_diagnostics_attribute_tx_err_busy_channel_count :: attr_fn where
  "thread_network_diagnostics_attribute_tx_err_busy_channel_count =
     attr 0x0026 ATTRIBUTE_FLAG_MANAGED_INTERNALLY VT_UINT32"

definition thread_network_diagnostics_attribute_rx_total_count :: attr_fn where
  "thread_network_diagnostics_attribute_rx_total_count =
     attr 0x0027 ATTRIBUTE_FLAG_MANAGED_INTERNALLY VT_UINT32"

definition thread_network_diagnostics_attribute_rx_unicast_count :: attr_fn where
  "thread_network_diagnostics_attribute_rx_unicast_count =
     attr 0x0028 ATTRIBUTE_FLAG_MANAGED_INTERNALLY VT_UINT32"

definition thread_network_diagnostics_attribute_rx_broadcast_count :: attr_fn where
  "thread_network_diagnostics_attribute_rx_broadcast_count =
     attr 0x0029 ATTRIBUTE_FLAG_MANAGED_INTERNALLY VT_UINT32"

definition thread_network_diagnostics_attribute_rx_data_count :: attr_fn where
  "thread_network_diagnostics_attribute_rx_data_count =
     attr 0x002A ATTRIBUTE_FLAG_MANAGED_INTERNALLY VT_UINT32"

definition thread_network_diagnostics_attribute_rx_data_poll_count :: attr_fn where
  "thread_network_diagnostics_attribute_rx_data_poll_count =
     attr 0x002B ATTRIBUTE_FLAG_MANAGED_INTERNALLY VT_UINT32"

definition thread_network_diagnostics_attribute_rx_beacon_count :: attr_fn where
  "thread_network_diagnostics_attribute_rx_beacon_count =
     attr 0x002C ATTRIBUTE_FLAG_MANAGED_INTERNALLY VT_UINT32"

definition thread_network_diagnostics_attribute_rx_beacon_request_count :: attr_fn where
  "thread_network_diagnostics_attribute_rx_beacon_request_count =
     attr 0x002D ATTRIBUTE_FLAG_MANAGED_INTERNALLY VT_UINT32"

definition thread_network_diagnostics_attribute_rx_other_count :: attr_fn where
  "thread_network_diagnostics_attribute_rx_other_count =
     attr 0x002E ATTRIBUTE_FLAG_MANAGED_INTERNALLY VT_UINT32"

definition thread_network_diagnostics_attribute_rx_address_filtered_count :: attr_fn where
  "thread_network_diagnostics_attribute_rx_address_filtered_count =
     attr 0x002F ATTRIBUTE_FLAG_MANAGED_INTERNALLY VT_UINT32"

definition thread_network_diagnostics_attribute_rx_dest_addr_filtered_count :: attr_fn where
  "thread_network_diagnostics_attribute_rx_dest_addr_filtered_count =
     attr 0x0030 ATTRIBUTE_FLAG_MANAGED_INTERNALLY VT_UINT32"

definition thread_network_diagnostics_attribute_rx_duplicated_count :: attr_fn where
  "thread_network_diagnostics_attribute_rx_duplicated_count =
     attr 0x0031 ATTRIBUTE_FLAG_MANAGED_INTERNALLY VT_UINT32"

definition thread_network_diagnostics_attribute_rx_err_no_frame_count :: attr_fn where
  "thread_network_diagnostics_attribute_rx_err_no_frame_count =
     attr 0x0032 ATTRIBUTE_FLAG_MANAGED_INTERNALLY VT_UINT32"

definition thread_network_diagnostics_attribute_rx_err_unknown_neighbor_count :: attr_fn where
  "thread_network_diagnostics_attribute_rx_err_unknown_neighbor_count =
     attr 0x0033 ATTRIBUTE_FLAG_MANAGED_INTERNALLY VT_UINT32"

definition thread_network_diagnostics_attribute_rx_err_invalid_src_addr_count :: attr_fn where
  "thread_network_diagnostics_attribute_rx_err_invalid_src_addr_count =
     attr 0x0034 ATTRIBUTE_FLAG_MANAGED_INTERNALLY VT_UINT32"

definition thread_network_diagnostics_attribute_rx_err_sec_count :: attr_fn where
  "thread_network_diagnostics_attribute_rx_err_sec_count =
     attr 0x0035 ATTRIBUTE_FLAG_MANAGED_INTERNALLY VT_UINT32"

definition thread_network_diagnostics_attribute_rx_err_fcs_count :: attr_fn where
  "thread_network_diagnostics_attribute_rx_err_fcs_count =
     attr 0x0036 ATTRIBUTE_FLAG_MANAGED_INTERNALLY VT_UINT32"

definition thread_network_diagnostics_attribute_rx_err_other_count :: attr_fn where
  "thread_network_diagnostics_attribute_rx_err_other_count =
     attr 0x0037 ATTRIBUTE_FLAG_MANAGED_INTERNALLY VT_UINT32"

definition thread_network_diagnostics_attribute_active_timestamp :: attr_fn where
  "thread_network_diagnostics_attribute_active_timestamp =
     attr 0x0038 (ATTRIBUTE_FLAG_MANAGED_INTERNALLY OR ATTRIBUTE_FLAG_NULLABLE) VT_NULLABLE_UINT64"

definition thread_network_diagnostics_attribute_pending_timestamp :: attr_fn where
  "thread_network_diagnostics_attribute_pending_timestamp =
     attr 0x0039 (ATTRIBUTE_FLAG_MANAGED_INTERNALLY OR ATTRIBUTE_FLAG_NULLABLE) VT_NULLABLE_UINT64"

definition thread_network_diagnostics_attribute_delay :: attr_fn where
  "thread_network_diagnostics_attribute_delay =
     attr 0x003A (ATTRIBUTE_FLAG_MANAGED_INTERNALLY OR ATTRIBUTE_FLAG_NULLABLE) VT_NULLABLE_UINT32"

definition thread_network_diagnostics_attribute_security_policy :: attr_fn where
  "thread_network_diagnostics_attribute_security_policy =
     attr 0x003B (ATTRIBUTE_FLAG_MANAGED_INTERNALLY OR ATTRIBUTE_FLAG_NULLABLE) VT_ARRAY"

definition thread_network_diagnostics_attribute_channel_page_0_mask :: attr_fn where
  "thread_network_diagnostics_attribute_channel_page_0_mask =
     attr 0x003C (ATTRIBUTE_FLAG_MANAGED_INTERNALLY OR ATTRIBUTE_FLAG_NULLABLE) VT_OCTET_STRING"

definition thread_network_diagnostics_attribute_operational_dataset_components :: attr_fn where
  "thread_network_diagnostics_attribute_operational_dataset_components =
     attr 0x003D (ATTRIBUTE_FLAG_MANAGED_INTERNALLY OR ATTRIBUTE_FLAG_NULLABLE) VT_ARRAY"

definition thread_network_diagnostics_attribute_active_network_faults_list :: attr_fn where
  "thread_network_diagnostics_attribute_active_network_faults_list =
     attr 0x003E ATTRIBUTE_FLAG_MANAGED_INTERNALLY VT_ARRAY"

definition thread_network_diagnostics_callback_reset_counts :: callback_fn where
  "thread_network_diagnostics_callback_reset_counts =
     decodes_to ''ThreadNetworkDiagnostics::Commands::ResetCounts''
          ''emberAfThreadNetworkDiagnosticsClusterResetCountsCallback''"

definition thread_network_diagnostics_command_reset_counts :: cmd_fn where
  "thread_network_diagnostics_command_reset_counts =
     guarded_cmd (Has_Feature thread_network_diagnostics_error_counts_id) (cmd 0x00 COMMAND_FLAG_ACCEPTED (Some
          ''thread_network_diagnostics.esp_matter_command_callback_reset_counts''))"

definition thread_network_diagnostics_event_connection_status :: event_fn where
  "thread_network_diagnostics_event_connection_status =
     event 0x00"

definition thread_network_diagnostics_event_network_fault_change :: event_fn where
  "thread_network_diagnostics_event_network_fault_change =
     event 0x01"

definition thread_network_diagnostics_feature_packet_counts :: feature_fn where
  "thread_network_diagnostics_feature_packet_counts =
     feature thread_network_diagnostics_packet_counts_id False [Update_Feature_Map]"

definition thread_network_diagnostics_feature_error_counts :: feature_fn where
  "thread_network_diagnostics_feature_error_counts =
     feature thread_network_diagnostics_error_counts_id False [Update_Feature_Map,
        Attribute thread_network_diagnostics_attribute_overrun_count (Lit 0),
        Command thread_network_diagnostics_command_reset_counts]"

definition thread_network_diagnostics_feature_mle_counts :: feature_fn where
  "thread_network_diagnostics_feature_mle_counts =
     feature thread_network_diagnostics_mle_counts_id False [Update_Feature_Map]"

definition thread_network_diagnostics_feature_mac_counts :: feature_fn where
  "thread_network_diagnostics_feature_mac_counts =
     feature thread_network_diagnostics_mac_counts_id False [Update_Feature_Map]"

definition thread_network_diagnostics_create :: cluster_fn where
  "thread_network_diagnostics_create =
     \<lparr>kf_id = 0x0035,
      kf_revision = 3,
      kf_functions = None,
      kf_function_flags = 0,
      kf_body = [Plugin ''MatterThreadNetworkDiagnosticsPluginServerInitCallback'', Functions, Feature_Map 0,
        Cluster_Revision, Step (Attribute thread_network_diagnostics_attribute_channel (Lit 0)),
        Step (Attribute thread_network_diagnostics_attribute_routing_role (Lit 0)),
        Step (Attribute thread_network_diagnostics_attribute_network_name Null_Str),
        Step (Attribute thread_network_diagnostics_attribute_pan_id (Lit 0)),
        Step (Attribute thread_network_diagnostics_attribute_extended_pan_id (Lit 0)),
        Step (Attribute thread_network_diagnostics_attribute_mesh_local_prefix Null_Str),
        Step (Attribute thread_network_diagnostics_attribute_neighbor_table Null_Arr),
        Step (Attribute thread_network_diagnostics_attribute_route_table Null_Arr),
        Step (Attribute thread_network_diagnostics_attribute_partition_id (Lit 0)),
        Step (Attribute thread_network_diagnostics_attribute_weighting (Lit 0)),
        Step (Attribute thread_network_diagnostics_attribute_data_version (Lit 0)),
        Step (Attribute thread_network_diagnostics_attribute_stable_data_version (Lit 0)),
        Step (Attribute thread_network_diagnostics_attribute_leader_router_id (Lit 0)),
        Step (Attribute thread_network_diagnostics_attribute_security_policy Null_Arr),
        Step (Attribute thread_network_diagnostics_attribute_channel_page_0_mask Null_Str),
        Step (Attribute thread_network_diagnostics_attribute_operational_dataset_components Null_Arr),
        Step (Attribute thread_network_diagnostics_attribute_active_network_faults_list Null_Arr)],
      kf_binding = False\<rparr>"

definition thread_network_diagnostics_ids :: cluster_ids where
  "thread_network_diagnostics_ids =
     \<lparr>ci_cluster = 0x0035,
      ci_features = [(''PacketCounts'', 0x1), (''ErrorCounts'', 0x2), (''MLECounts'', 0x4), (''MACCounts'',
        0x8)],
      ci_attributes = [(''Channel'', 0x0000), (''RoutingRole'', 0x0001), (''NetworkName'', 0x0002), (''PanId'',
        0x0003), (''ExtendedPanId'', 0x0004), (''MeshLocalPrefix'', 0x0005), (''OverrunCount'', 0x0006),
        (''NeighborTable'', 0x0007), (''RouteTable'', 0x0008), (''PartitionId'', 0x0009), (''Weighting'',
        0x000A), (''DataVersion'', 0x000B), (''StableDataVersion'', 0x000C), (''LeaderRouterId'', 0x000D),
        (''DetachedRoleCount'', 0x000E), (''ChildRoleCount'', 0x000F), (''RouterRoleCount'', 0x0010),
        (''LeaderRoleCount'', 0x0011), (''AttachAttemptCount'', 0x0012), (''PartitionIdChangeCount'', 0x0013),
        (''BetterPartitionAttachAttemptCount'', 0x0014), (''ParentChangeCount'', 0x0015), (''TxTotalCount'',
        0x0016), (''TxUnicastCount'', 0x0017), (''TxBroadcastCount'', 0x0018), (''TxAckRequestedCount'',
        0x0019), (''TxAckedCount'', 0x001A), (''TxNoAckRequestedCount'', 0x001B), (''TxDataCount'', 0x001C),
        (''TxDataPollCount'', 0x001D), (''TxBeaconCount'', 0x001E), (''TxBeaconRequestCount'', 0x001F),
        (''TxOtherCount'', 0x0020), (''TxRetryCount'', 0x0021), (''TxDirectMaxRetryExpiryCount'', 0x0022),
        (''TxIndirectMaxRetryExpiryCount'', 0x0023), (''TxErrCcaCount'', 0x0024), (''TxErrAbortCount'', 0x0025),
        (''TxErrBusyChannelCount'', 0x0026), (''RxTotalCount'', 0x0027), (''RxUnicastCount'', 0x0028),
        (''RxBroadcastCount'', 0x0029), (''RxDataCount'', 0x002A), (''RxDataPollCount'', 0x002B),
        (''RxBeaconCount'', 0x002C), (''RxBeaconRequestCount'', 0x002D), (''RxOtherCount'', 0x002E),
        (''RxAddressFilteredCount'', 0x002F), (''RxDestAddrFilteredCount'', 0x0030), (''RxDuplicatedCount'',
        0x0031), (''RxErrNoFrameCount'', 0x0032), (''RxErrUnknownNeighborCount'', 0x0033),
        (''RxErrInvalidSrcAddrCount'', 0x0034), (''RxErrSecCount'', 0x0035), (''RxErrFcsCount'', 0x0036),
        (''RxErrOtherCount'', 0x0037), (''ActiveTimestamp'', 0x0038), (''PendingTimestamp'', 0x0039),
        (''Delay'', 0x003A), (''SecurityPolicy'', 0x003B), (''ChannelPage0Mask'', 0x003C),
        (''OperationalDatasetComponents'', 0x003D), (''ActiveNetworkFaultsList'', 0x003E)],
      ci_commands = [(''ResetCounts'', 0x00)],
      ci_events = [(''ConnectionStatus'', 0x00), (''NetworkFaultChange'', 0x01)]\<rparr>"

definition thread_network_diagnostics_features :: "feature_fn list" where
  "thread_network_diagnostics_features =
     [thread_network_diagnostics_feature_packet_counts, thread_network_diagnostics_feature_error_counts,
        thread_network_diagnostics_feature_mle_counts, thread_network_diagnostics_feature_mac_counts]"

definition thread_network_diagnostics_attributes :: "attr_fn list" where
  "thread_network_diagnostics_attributes =
     [thread_network_diagnostics_attribute_channel, thread_network_diagnostics_attribute_routing_role,
        thread_network_diagnostics_attribute_network_name, thread_network_diagnostics_attribute_pan_id,
        thread_network_diagnostics_attribute_extended_pan_id,
        thread_network_diagnostics_attribute_mesh_local_prefix,
        thread_network_diagnostics_attribute_overrun_count, thread_network_diagnostics_attribute_neighbor_table,
        thread_network_diagnostics_attribute_route_table, thread_network_diagnostics_attribute_partition_id,
        thread_network_diagnostics_attribute_weighting, thread_network_diagnostics_attribute_data_version,
        thread_network_diagnostics_attribute_stable_data_version,
        thread_network_diagnostics_attribute_leader_router_id,
        thread_network_diagnostics_attribute_detached_role_count,
        thread_network_diagnostics_attribute_child_role_count,
        thread_network_diagnostics_attribute_router_role_count,
        thread_network_diagnostics_attribute_leader_role_count,
        thread_network_diagnostics_attribute_attach_attempt_count,
        thread_network_diagnostics_attribute_partition_id_change_count,
        thread_network_diagnostics_attribute_better_partition_attach_attempt_count,
        thread_network_diagnostics_attribute_parent_change_count,
        thread_network_diagnostics_attribute_tx_total_count,
        thread_network_diagnostics_attribute_tx_unicast_count,
        thread_network_diagnostics_attribute_tx_broadcast_count,
        thread_network_diagnostics_attribute_tx_ack_requested_count,
        thread_network_diagnostics_attribute_tx_acked_count,
        thread_network_diagnostics_attribute_tx_no_ack_requested_count,
        thread_network_diagnostics_attribute_tx_data_count,
        thread_network_diagnostics_attribute_tx_data_poll_count,
        thread_network_diagnostics_attribute_tx_beacon_count,
        thread_network_diagnostics_attribute_tx_beacon_request_count,
        thread_network_diagnostics_attribute_tx_other_count,
        thread_network_diagnostics_attribute_tx_retry_count,
        thread_network_diagnostics_attribute_tx_direct_max_retry_expiry_count,
        thread_network_diagnostics_attribute_tx_indirect_max_retry_expiry_count,
        thread_network_diagnostics_attribute_tx_err_cca_count,
        thread_network_diagnostics_attribute_tx_err_abort_count,
        thread_network_diagnostics_attribute_tx_err_busy_channel_count,
        thread_network_diagnostics_attribute_rx_total_count,
        thread_network_diagnostics_attribute_rx_unicast_count,
        thread_network_diagnostics_attribute_rx_broadcast_count,
        thread_network_diagnostics_attribute_rx_data_count,
        thread_network_diagnostics_attribute_rx_data_poll_count,
        thread_network_diagnostics_attribute_rx_beacon_count,
        thread_network_diagnostics_attribute_rx_beacon_request_count,
        thread_network_diagnostics_attribute_rx_other_count,
        thread_network_diagnostics_attribute_rx_address_filtered_count,
        thread_network_diagnostics_attribute_rx_dest_addr_filtered_count,
        thread_network_diagnostics_attribute_rx_duplicated_count,
        thread_network_diagnostics_attribute_rx_err_no_frame_count,
        thread_network_diagnostics_attribute_rx_err_unknown_neighbor_count,
        thread_network_diagnostics_attribute_rx_err_invalid_src_addr_count,
        thread_network_diagnostics_attribute_rx_err_sec_count,
        thread_network_diagnostics_attribute_rx_err_fcs_count,
        thread_network_diagnostics_attribute_rx_err_other_count,
        thread_network_diagnostics_attribute_active_timestamp,
        thread_network_diagnostics_attribute_pending_timestamp, thread_network_diagnostics_attribute_delay,
        thread_network_diagnostics_attribute_security_policy,
        thread_network_diagnostics_attribute_channel_page_0_mask,
        thread_network_diagnostics_attribute_operational_dataset_components,
        thread_network_diagnostics_attribute_active_network_faults_list]"

definition thread_network_diagnostics_commands :: "cmd_fn list" where
  "thread_network_diagnostics_commands =
     [thread_network_diagnostics_command_reset_counts]"

definition thread_network_diagnostics_events :: "event_fn list" where
  "thread_network_diagnostics_events =
     [thread_network_diagnostics_event_connection_status, thread_network_diagnostics_event_network_fault_change]"

definition thread_network_diagnostics_callbacks :: "(string \<times> callback_fn) list" where
  "thread_network_diagnostics_callbacks =
     [(''thread_network_diagnostics.esp_matter_command_callback_reset_counts'',
        thread_network_diagnostics_callback_reset_counts)]"

definition thread_network_diagnostics_cluster :: cluster_decl where
  "thread_network_diagnostics_cluster =
     \<lparr>cd_ids = thread_network_diagnostics_ids,
      cd_callbacks = thread_network_diagnostics_callbacks,
      cd_features = thread_network_diagnostics_features,
      cd_attributes = thread_network_diagnostics_attributes,
      cd_commands = thread_network_diagnostics_commands,
      cd_events = thread_network_diagnostics_events,
      cd_create = Some thread_network_diagnostics_create\<rparr>"

section \<open>\<open>thread_network_directory\<close>\<close>

definition thread_network_directory_attribute_preferred_extended_pan_id :: attr_fn where
  "thread_network_directory_attribute_preferred_extended_pan_id =
     attr 0x0000 (ATTRIBUTE_FLAG_WRITABLE OR ATTRIBUTE_FLAG_MANAGED_INTERNALLY OR ATTRIBUTE_FLAG_NULLABLE OR
          ATTRIBUTE_FLAG_NONVOLATILE) VT_OCTET_STRING"

definition thread_network_directory_attribute_thread_networks :: attr_fn where
  "thread_network_directory_attribute_thread_networks =
     attr 0x0001 (ATTRIBUTE_FLAG_MANAGED_INTERNALLY OR ATTRIBUTE_FLAG_NONVOLATILE) VT_ARRAY"

definition thread_network_directory_attribute_thread_network_table_size :: attr_fn where
  "thread_network_directory_attribute_thread_network_table_size =
     attr 0x0002 ATTRIBUTE_FLAG_MANAGED_INTERNALLY VT_UINT8"

definition thread_network_directory_command_add_network :: cmd_fn where
  "thread_network_directory_command_add_network =
     cmd 0x00 COMMAND_FLAG_ACCEPTED None"

definition thread_network_directory_command_remove_network :: cmd_fn where
  "thread_network_directory_command_remove_network =
     cmd 0x01 COMMAND_FLAG_ACCEPTED None"

definition thread_network_directory_command_get_operational_dataset :: cmd_fn where
  "thread_network_directory_command_get_operational_dataset =
     cmd 0x02 COMMAND_FLAG_ACCEPTED None"

definition thread_network_directory_command_operational_dataset_response :: cmd_fn where
  "thread_network_directory_command_operational_dataset_response =
     cmd 0x03 COMMAND_FLAG_GENERATED None"

definition thread_network_directory_create :: cluster_fn where
  "thread_network_directory_create =
     \<lparr>kf_id = 0x0453,
      kf_revision = 1,
      kf_functions = None,
      kf_function_flags = 0,
      kf_body = [Plugin ''MatterThreadNetworkDirectoryPluginServerInitCallback'', Functions, Feature_Map 0,
        Cluster_Revision,
        Step (Attribute thread_network_directory_attribute_preferred_extended_pan_id Null_Str),
        Step (Attribute thread_network_directory_attribute_thread_networks Null_Arr),
        Step (Attribute thread_network_directory_attribute_thread_network_table_size (Lit 0)),
        Step (Command thread_network_directory_command_add_network),
        Step (Command thread_network_directory_command_remove_network),
        Step (Command thread_network_directory_command_get_operational_dataset),
        Step (Command thread_network_directory_command_operational_dataset_response)],
      kf_binding = True\<rparr>"

definition thread_network_directory_ids :: cluster_ids where
  "thread_network_directory_ids =
     \<lparr>ci_cluster = 0x0453,
      ci_features = [],
      ci_attributes = [(''PreferredExtendedPanID'', 0x0000), (''ThreadNetworks'', 0x0001),
        (''ThreadNetworkTableSize'', 0x0002)],
      ci_commands = [(''AddNetwork'', 0x00), (''RemoveNetwork'', 0x01), (''GetOperationalDataset'', 0x02),
        (''OperationalDatasetResponse'', 0x03)],
      ci_events = []\<rparr>"

definition thread_network_directory_attributes :: "attr_fn list" where
  "thread_network_directory_attributes =
     [thread_network_directory_attribute_preferred_extended_pan_id,
        thread_network_directory_attribute_thread_networks,
        thread_network_directory_attribute_thread_network_table_size]"

definition thread_network_directory_commands :: "cmd_fn list" where
  "thread_network_directory_commands =
     [thread_network_directory_command_add_network, thread_network_directory_command_remove_network,
        thread_network_directory_command_get_operational_dataset,
        thread_network_directory_command_operational_dataset_response]"

definition thread_network_directory_cluster :: cluster_decl where
  "thread_network_directory_cluster =
     \<lparr>cd_ids = thread_network_directory_ids,
      cd_callbacks = [],
      cd_features = [],
      cd_attributes = thread_network_directory_attributes,
      cd_commands = thread_network_directory_commands,
      cd_events = [],
      cd_create = Some thread_network_directory_create\<rparr>"

section \<open>\<open>time_format_localization\<close>\<close>

definition time_format_localization_calendar_format_id :: u32 where
  "time_format_localization_calendar_format_id = 0x1"

definition time_format_localization_attribute_hour_format :: attr_fn where
  "time_format_localization_attribute_hour_format =
     bounded 0 2 (attr 0x0000 (ATTRIBUTE_FLAG_WRITABLE OR ATTRIBUTE_FLAG_NONVOLATILE) VT_ENUM8)"

definition time_format_localization_attribute_active_calendar_type :: attr_fn where
  "time_format_localization_attribute_active_calendar_type =
     guarded (Has_Feature time_format_localization_calendar_format_id) (bounded 0 12 (attr 0x0001
          (ATTRIBUTE_FLAG_WRITABLE OR ATTRIBUTE_FLAG_NONVOLATILE) VT_ENUM8))"

definition time_format_localization_attribute_supported_calendar_types :: attr_fn where
  "time_format_localization_attribute_supported_calendar_types =
     guarded (Has_Feature time_format_localization_calendar_format_id) (attr 0x0002
          ATTRIBUTE_FLAG_MANAGED_INTERNALLY VT_ARRAY)"

definition time_format_localization_feature_calendar_format :: feature_fn where
  "time_format_localization_feature_calendar_format =
     feature time_format_localization_calendar_format_id True [Update_Feature_Map,
        Attribute time_format_localization_attribute_active_calendar_type (Field ''active_calendar_type''),
        Attribute time_format_localization_attribute_supported_calendar_types Null_Arr]"

definition time_format_localization_create :: cluster_fn where
  "time_format_localization_create =
     \<lparr>kf_id = 0x002C,
      kf_revision = 1,
      kf_functions = None,
      kf_function_flags = 0,
      kf_body = [Plugin ''MatterTimeFormatLocalizationPluginServerInitCallback'', Functions, Feature_Map 0,
        Cluster_Revision,
        Step (Attribute time_format_localization_attribute_hour_format (Field ''hour_format'')),
        Callbacks ''ESPMatterTimeFormatLocalizationClusterServerInitCallback''
          ''ESPMatterTimeFormatLocalizationClusterServerShutdownCallback''],
      kf_binding = False\<rparr>"

definition time_format_localization_ids :: cluster_ids where
  "time_format_localization_ids =
     \<lparr>ci_cluster = 0x002C,
      ci_features = [(''CalendarFormat'', 0x1)],
      ci_attributes = [(''HourFormat'', 0x0000), (''ActiveCalendarType'', 0x0001), (''SupportedCalendarTypes'',
        0x0002)],
      ci_commands = [],
      ci_events = []\<rparr>"

definition time_format_localization_features :: "feature_fn list" where
  "time_format_localization_features =
     [time_format_localization_feature_calendar_format]"

definition time_format_localization_attributes :: "attr_fn list" where
  "time_format_localization_attributes =
     [time_format_localization_attribute_hour_format, time_format_localization_attribute_active_calendar_type,
        time_format_localization_attribute_supported_calendar_types]"

definition time_format_localization_cluster :: cluster_decl where
  "time_format_localization_cluster =
     \<lparr>cd_ids = time_format_localization_ids,
      cd_callbacks = [],
      cd_features = time_format_localization_features,
      cd_attributes = time_format_localization_attributes,
      cd_commands = [],
      cd_events = [],
      cd_create = Some time_format_localization_create\<rparr>"

section \<open>\<open>time_synchronization\<close>\<close>

definition time_synchronization_time_zone_id :: u32 where
  "time_synchronization_time_zone_id = 0x1"

definition time_synchronization_ntp_client_id :: u32 where
  "time_synchronization_ntp_client_id = 0x2"

definition time_synchronization_ntp_server_id :: u32 where
  "time_synchronization_ntp_server_id = 0x4"

definition time_synchronization_time_sync_client_id :: u32 where
  "time_synchronization_time_sync_client_id = 0x8"

definition time_synchronization_attribute_utc_time :: attr_fn where
  "time_synchronization_attribute_utc_time =
     bounded 0 4294967294 (attr 0x0000 ATTRIBUTE_FLAG_NULLABLE VT_NULLABLE_UINT64)"

definition time_synchronization_attribute_granularity :: attr_fn where
  "time_synchronization_attribute_granularity =
     bounded 0 4 (attr 0x0001 0 VT_ENUM8)"

definition time_synchronization_attribute_time_source :: attr_fn where
  "time_synchronization_attribute_time_source =
     bounded 0 16 (attr 0x0002 0 VT_ENUM8)"

definition time_synchronization_attribute_trusted_time_source :: attr_fn where
  "time_synchronization_attribute_trusted_time_source =
     guarded (Has_Feature time_synchronization_time_sync_client_id) (attr 0x0003 (ATTRIBUTE_FLAG_MANAGED_INTERNALLY
          OR ATTRIBUTE_FLAG_NULLABLE OR ATTRIBUTE_FLAG_NONVOLATILE) VT_ARRAY)"

definition time_synchronization_attribute_default_ntp :: attr_fn where
  "time_synchronization_attribute_default_ntp =
     guarded (Has_Feature time_synchronization_ntp_client_id) (at_most 129 (sized 129 (attr 0x0004
          (ATTRIBUTE_FLAG_NULLABLE OR ATTRIBUTE_FLAG_NONVOLATILE) VT_CHAR_STRING)))"

definition time_synchronization_attribute_time_zone :: attr_fn where
  "time_synchronization_attribute_time_zone =
     guarded (Has_Feature time_synchronization_time_zone_id) (attr 0x0005 (ATTRIBUTE_FLAG_MANAGED_INTERNALLY OR
          ATTRIBUTE_FLAG_NONVOLATILE) VT_ARRAY)"

definition time_synchronization_attribute_dst_offset :: attr_fn where
  "time_synchronization_attribute_dst_offset =
     guarded (Has_Feature time_synchronization_time_zone_id) (attr 0x0006 (ATTRIBUTE_FLAG_MANAGED_INTERNALLY OR
          ATTRIBUTE_FLAG_NONVOLATILE) VT_ARRAY)"

definition time_synchronization_attribute_local_time :: attr_fn where
  "time_synchronization_attribute_local_time =
     guarded (Has_Feature time_synchronization_time_zone_id) (bounded 0 4294967294 (attr 0x0007
          ATTRIBUTE_FLAG_NULLABLE VT_NULLABLE_UINT64))"

definition time_synchronization_attribute_time_zone_database :: attr_fn where
  "time_synchronization_attribute_time_zone_database =
     guarded (Has_Feature time_synchronization_time_zone_id) (bounded 0 2 (attr 0x0008 0 VT_ENUM8))"

definition time_synchronization_attribute_ntp_server_available :: attr_fn where
  "time_synchronization_attribute_ntp_server_available =
     guarded (Has_Feature time_synchronization_ntp_server_id) (attr 0x0009 0 VT_BOOLEAN)"

definition time_synchronization_attribute_time_zone_list_max_size :: attr_fn where
  "time_synchronization_attribute_time_zone_list_max_size =
     guarded (Has_Feature time_synchronization_time_zone_id) (bounded 1 2 (attr 0x000A 0 VT_UINT8))"

definition time_synchronization_attribute_dst_offset_list_max_size :: attr_fn where
  "time_synchronization_attribute_dst_offset_list_max_size =
     guarded (Has_Feature time_synchronization_time_zone_id) (bounded 1 254 (attr 0x000B 0 VT_UINT8))"

definition time_synchronization_attribute_supports_dns_resolve :: attr_fn where
  "time_synchronization_attribute_supports_dns_resolve =
     guarded (Has_Feature time_synchronization_ntp_client_id) (attr 0x000C 0 VT_BOOLEAN)"

definition time_synchronization_command_set_utc_time :: cmd_fn where
  "time_synchronization_command_set_utc_time =
     cmd 0x00 COMMAND_FLAG_ACCEPTED None"

definition time_synchronization_command_set_trusted_time_source :: cmd_fn where
  "time_synchronization_command_set_trusted_time_source =
     guarded_cmd (Has_Feature time_synchronization_time_sync_client_id) (cmd 0x01 COMMAND_FLAG_ACCEPTED None)"

definition time_synchronization_command_set_time_zone :: cmd_fn where
  "time_synchronization_command_set_time_zone =
     guarded_cmd (Has_Feature time_synchronization_time_zone_id) (cmd 0x02 COMMAND_FLAG_ACCEPTED None)"

definition time_synchronization_command_set_time_zone_response :: cmd_fn where
  "time_synchronization_command_set_time_zone_response =
     guarded_cmd (Has_Feature time_synchronization_time_zone_id) (cmd 0x03 COMMAND_FLAG_GENERATED None)"

definition time_synchronization_command_set_dst_offset :: cmd_fn where
  "time_synchronization_command_set_dst_offset =
     guarded_cmd (Has_Feature time_synchronization_time_zone_id) (cmd 0x04 COMMAND_FLAG_ACCEPTED None)"

definition time_synchronization_command_set_default_ntp :: cmd_fn where
  "time_synchronization_command_set_default_ntp =
     guarded_cmd (Has_Feature time_synchronization_ntp_client_id) (cmd 0x05 COMMAND_FLAG_ACCEPTED None)"

definition time_synchronization_event_dst_table_empty :: event_fn where
  "time_synchronization_event_dst_table_empty =
     guarded_event (Has_Feature time_synchronization_time_zone_id) (event 0x00)"

definition time_synchronization_event_dst_status :: event_fn where
  "time_synchronization_event_dst_status =
     guarded_event (Has_Feature time_synchronization_time_zone_id) (event 0x01)"

definition time_synchronization_event_time_zone_status :: event_fn where
  "time_synchronization_event_time_zone_status =
     guarded_event (Has_Feature time_synchronization_time_zone_id) (event 0x02)"

definition time_synchronization_event_time_failure :: event_fn where
  "time_synchronization_event_time_failure =
     event 0x03"

definition time_synchronization_event_missing_trusted_time_source :: event_fn where
  "time_synchronization_event_missing_trusted_time_source =
     guarded_event (Has_Feature time_synchronization_time_sync_client_id) (event 0x04)"

definition time_synchronization_feature_time_zone :: feature_fn where
  "time_synchronization_feature_time_zone =
     feature time_synchronization_time_zone_id True [Update_Feature_Map,
        Attribute time_synchronization_attribute_local_time (Field ''local_time''),
        Attribute time_synchronization_attribute_time_zone_database (Field ''time_zone_database''),
        Attribute time_synchronization_attribute_time_zone_list_max_size (Field ''time_zone_list_max_size''),
        Attribute time_synchronization_attribute_dst_offset_list_max_size (Field ''dst_offset_list_max_size''),
        Attribute time_synchronization_attribute_time_zone Null_Arr,
        Attribute time_synchronization_attribute_dst_offset Null_Arr,
        Command time_synchronization_command_set_time_zone,
        Command time_synchronization_command_set_time_zone_response,
        Command time_synchronization_command_set_dst_offset, Event time_synchronization_event_dst_table_empty,
        Event time_synchronization_event_dst_status, Event time_synchronization_event_time_zone_status]"

definition time_synchronization_feature_ntp_client :: feature_fn where
  "time_synchronization_feature_ntp_client =
     feature time_synchronization_ntp_client_id True [Update_Feature_Map,
        Attribute time_synchronization_attribute_default_ntp (Field ''default_ntp''),
        Attribute time_synchronization_attribute_supports_dns_resolve (Field ''supports_dns_resolve''),
        Command time_synchronization_command_set_default_ntp]"

definition time_synchronization_feature_ntp_server :: feature_fn where
  "time_synchronization_feature_ntp_server =
     feature time_synchronization_ntp_server_id True [Update_Feature_Map,
        Attribute time_synchronization_attribute_ntp_server_available (Field ''ntp_server_available'')]"

definition time_synchronization_feature_time_sync_client :: feature_fn where
  "time_synchronization_feature_time_sync_client =
     feature time_synchronization_time_sync_client_id False [Update_Feature_Map,
        Attribute time_synchronization_attribute_trusted_time_source Null_Arr,
        Command time_synchronization_command_set_trusted_time_source,
        Event time_synchronization_event_missing_trusted_time_source]"

definition time_synchronization_create :: cluster_fn where
  "time_synchronization_create =
     \<lparr>kf_id = 0x0038,
      kf_revision = 2,
      kf_functions = None,
      kf_function_flags = 0,
      kf_body = [Delegate ''TimeSynchronizationDelegateInitCB'',
        Plugin ''MatterTimeSynchronizationPluginServerInitCallback'', Functions, Feature_Map 0,
        Cluster_Revision, Step (Attribute time_synchronization_attribute_utc_time (Field ''utc_time'')),
        Step (Attribute time_synchronization_attribute_granularity (Field ''granularity'')),
        Step (Command time_synchronization_command_set_utc_time),
        Step (Event time_synchronization_event_time_failure),
        Callbacks ''ESPMatterTimeSynchronizationClusterServerInitCallback''
          ''ESPMatterTimeSynchronizationClusterServerShutdownCallback''],
      kf_binding = False\<rparr>"

definition time_synchronization_ids :: cluster_ids where
  "time_synchronization_ids =
     \<lparr>ci_cluster = 0x0038,
      ci_features = [(''TimeZone'', 0x1), (''NTPClient'', 0x2), (''NTPServer'', 0x4), (''TimeSyncClient'',
        0x8)],
      ci_attributes = [(''UTCTime'', 0x0000), (''Granularity'', 0x0001), (''TimeSource'', 0x0002),
        (''TrustedTimeSource'', 0x0003), (''DefaultNTP'', 0x0004), (''TimeZone'', 0x0005), (''DSTOffset'',
        0x0006), (''LocalTime'', 0x0007), (''TimeZoneDatabase'', 0x0008), (''NTPServerAvailable'', 0x0009),
        (''TimeZoneListMaxSize'', 0x000A), (''DSTOffsetListMaxSize'', 0x000B), (''SupportsDNSResolve'',
        0x000C)],
      ci_commands = [(''SetUTCTime'', 0x00), (''SetTrustedTimeSource'', 0x01), (''SetTimeZone'', 0x02),
        (''SetTimeZoneResponse'', 0x03), (''SetDSTOffset'', 0x04), (''SetDefaultNTP'', 0x05)],
      ci_events = [(''DSTTableEmpty'', 0x00), (''DSTStatus'', 0x01), (''TimeZoneStatus'', 0x02),
        (''TimeFailure'', 0x03), (''MissingTrustedTimeSource'', 0x04)]\<rparr>"

definition time_synchronization_features :: "feature_fn list" where
  "time_synchronization_features =
     [time_synchronization_feature_time_zone, time_synchronization_feature_ntp_client,
        time_synchronization_feature_ntp_server, time_synchronization_feature_time_sync_client]"

definition time_synchronization_attributes :: "attr_fn list" where
  "time_synchronization_attributes =
     [time_synchronization_attribute_utc_time, time_synchronization_attribute_granularity,
        time_synchronization_attribute_time_source, time_synchronization_attribute_trusted_time_source,
        time_synchronization_attribute_default_ntp, time_synchronization_attribute_time_zone,
        time_synchronization_attribute_dst_offset, time_synchronization_attribute_local_time,
        time_synchronization_attribute_time_zone_database, time_synchronization_attribute_ntp_server_available,
        time_synchronization_attribute_time_zone_list_max_size,
        time_synchronization_attribute_dst_offset_list_max_size,
        time_synchronization_attribute_supports_dns_resolve]"

definition time_synchronization_commands :: "cmd_fn list" where
  "time_synchronization_commands =
     [time_synchronization_command_set_utc_time, time_synchronization_command_set_trusted_time_source,
        time_synchronization_command_set_time_zone, time_synchronization_command_set_time_zone_response,
        time_synchronization_command_set_dst_offset, time_synchronization_command_set_default_ntp]"

definition time_synchronization_events :: "event_fn list" where
  "time_synchronization_events =
     [time_synchronization_event_dst_table_empty, time_synchronization_event_dst_status,
        time_synchronization_event_time_zone_status, time_synchronization_event_time_failure,
        time_synchronization_event_missing_trusted_time_source]"

definition time_synchronization_cluster :: cluster_decl where
  "time_synchronization_cluster =
     \<lparr>cd_ids = time_synchronization_ids,
      cd_callbacks = [],
      cd_features = time_synchronization_features,
      cd_attributes = time_synchronization_attributes,
      cd_commands = time_synchronization_commands,
      cd_events = time_synchronization_events,
      cd_create = Some time_synchronization_create\<rparr>"

section \<open>\<open>tls_certificate_management\<close>\<close>

definition tls_certificate_management_attribute_max_root_certificates :: attr_fn where
  "tls_certificate_management_attribute_max_root_certificates =
     attr 0x0000 ATTRIBUTE_FLAG_MANAGED_INTERNALLY VT_UINT8"

definition tls_certificate_management_attribute_provisioned_root_certificates :: attr_fn where
  "tls_certificate_management_attribute_provisioned_root_certificates =
     attr 0x0001 (ATTRIBUTE_FLAG_MANAGED_INTERNALLY OR ATTRIBUTE_FLAG_NONVOLATILE) VT_ARRAY"

definition tls_certificate_management_attribute_max_client_certificates :: attr_fn where
  "tls_certificate_management_attribute_max_client_certificates =
     attr 0x0002 ATTRIBUTE_FLAG_MANAGED_INTERNALLY VT_UINT8"

definition tls_certificate_management_attribute_provisioned_client_certificates :: attr_fn where
  "tls_certificate_management_attribute_provisioned_client_certificates =
     attr 0x0003 (ATTRIBUTE_FLAG_MANAGED_INTERNALLY OR ATTRIBUTE_FLAG_NONVOLATILE) VT_ARRAY"

definition tls_certificate_management_command_provision_root_certificate :: cmd_fn where
  "tls_certificate_management_command_provision_root_certificate =
     cmd 0x00 COMMAND_FLAG_ACCEPTED None"

definition tls_certificate_management_command_provision_root_certificate_response :: cmd_fn where
  "tls_certificate_management_command_provision_root_certificate_response =
     cmd 0x01 COMMAND_FLAG_GENERATED None"

definition tls_certificate_management_command_find_root_certificate :: cmd_fn where
  "tls_certificate_management_command_find_root_certificate =
     cmd 0x02 COMMAND_FLAG_ACCEPTED None"

definition tls_certificate_management_command_find_root_certificate_response :: cmd_fn where
  "tls_certificate_management_command_find_root_certificate_response =
     cmd 0x03 COMMAND_FLAG_GENERATED None"

definition tls_certificate_management_command_lookup_root_certificate :: cmd_fn where
  "tls_certificate_management_command_lookup_root_certificate =
     cmd 0x04 COMMAND_FLAG_ACCEPTED None"

definition tls_certificate_management_command_lookup_root_certificate_response :: cmd_fn where
  "tls_certificate_management_command_lookup_root_certificate_response =
     cmd 0x05 COMMAND_FLAG_GENERATED None"

definition tls_certificate_management_command_remove_root_certificate :: cmd_fn where
  "tls_certificate_management_command_remove_root_certificate =
     cmd 0x06 COMMAND_FLAG_ACCEPTED None"

definition tls_certificate_management_command_client_csr :: cmd_fn where
  "tls_certificate_management_command_client_csr =
     cmd 0x07 COMMAND_FLAG_ACCEPTED None"

definition tls_certificate_management_command_client_csr_response :: cmd_fn where
  "tls_certificate_management_command_client_csr_response =
     cmd 0x08 COMMAND_FLAG_GENERATED None"

definition tls_certificate_management_command_provision_client_certificate :: cmd_fn where
  "tls_certificate_management_command_provision_client_certificate =
     cmd 0x09 COMMAND_FLAG_ACCEPTED None"

definition tls_certificate_management_command_find_client_certificate :: cmd_fn where
  "tls_certificate_management_command_find_client_certificate =
     cmd 0x0A COMMAND_FLAG_ACCEPTED None"

definition tls_certificate_management_command_find_client_certificate_response :: cmd_fn where
  "tls_certificate_management_command_find_client_certificate_response =
     cmd 0x0B COMMAND_FLAG_GENERATED None"

definition tls_certificate_management_command_lookup_client_certificate :: cmd_fn where
  "tls_certificate_management_command_lookup_client_certificate =
     cmd 0x0C COMMAND_FLAG_ACCEPTED None"

definition tls_certificate_management_command_lookup_client_certificate_response :: cmd_fn where
  "tls_certificate_management_command_lookup_client_certificate_response =
     cmd 0x0D COMMAND_FLAG_GENERATED None"

definition tls_certificate_management_command_remove_client_certificate :: cmd_fn where
  "tls_certificate_management_command_remove_client_certificate =
     cmd 0x0E COMMAND_FLAG_ACCEPTED None"

definition tls_certificate_management_create :: cluster_fn where
  "tls_certificate_management_create =
     \<lparr>kf_id = 0x0801,
      kf_revision = 1,
      kf_functions = None,
      kf_function_flags = 0,
      kf_body = [Plugin ''MatterTlsCertificateManagementPluginServerInitCallback'', Functions, Feature_Map 0,
        Cluster_Revision, Step (Attribute tls_certificate_management_attribute_max_root_certificates (Lit 0)),
        Step (Attribute tls_certificate_management_attribute_provisioned_root_certificates Null_Arr),
        Step (Attribute tls_certificate_management_attribute_max_client_certificates (Lit 0)),
        Step (Attribute tls_certificate_management_attribute_provisioned_client_certificates Null_Arr),
        Step (Command tls_certificate_management_command_provision_root_certificate),
        Step (Command tls_certificate_management_command_provision_root_certificate_response),
        Step (Command tls_certificate_management_command_find_root_certificate),
        Step (Command tls_certificate_management_command_find_root_certificate_response),
        Step (Command tls_certificate_management_command_lookup_root_certificate),
        Step (Command tls_certificate_management_command_lookup_root_certificate_response),
        Step (Command tls_certificate_management_command_remove_root_certificate),
        Step (Command tls_certificate_management_command_client_csr),
        Step (Command tls_certificate_management_command_client_csr_response),
        Step (Command tls_certificate_management_command_provision_client_certificate),
        Step (Command tls_certificate_management_command_find_client_certificate),
        Step (Command tls_certificate_management_command_find_client_certificate_response),
        Step (Command tls_certificate_management_command_lookup_client_certificate),
        Step (Command tls_certificate_management_command_lookup_client_certificate_response),
        Step (Command tls_certificate_management_command_remove_client_certificate)],
      kf_binding = False\<rparr>"

definition tls_certificate_management_ids :: cluster_ids where
  "tls_certificate_management_ids =
     \<lparr>ci_cluster = 0x0801,
      ci_features = [],
      ci_attributes = [(''MaxRootCertificates'', 0x0000), (''ProvisionedRootCertificates'', 0x0001),
        (''MaxClientCertificates'', 0x0002), (''ProvisionedClientCertificates'', 0x0003)],
      ci_commands = [(''ProvisionRootCertificate'', 0x00), (''ProvisionRootCertificateResponse'', 0x01),
        (''FindRootCertificate'', 0x02), (''FindRootCertificateResponse'', 0x03), (''LookupRootCertificate'',
        0x04), (''LookupRootCertificateResponse'', 0x05), (''RemoveRootCertificate'', 0x06), (''ClientCSR'',
        0x07), (''ClientCSRResponse'', 0x08), (''ProvisionClientCertificate'', 0x09),
        (''FindClientCertificate'', 0x0A), (''FindClientCertificateResponse'', 0x0B),
        (''LookupClientCertificate'', 0x0C), (''LookupClientCertificateResponse'', 0x0D),
        (''RemoveClientCertificate'', 0x0E)],
      ci_events = []\<rparr>"

definition tls_certificate_management_attributes :: "attr_fn list" where
  "tls_certificate_management_attributes =
     [tls_certificate_management_attribute_max_root_certificates,
        tls_certificate_management_attribute_provisioned_root_certificates,
        tls_certificate_management_attribute_max_client_certificates,
        tls_certificate_management_attribute_provisioned_client_certificates]"

definition tls_certificate_management_commands :: "cmd_fn list" where
  "tls_certificate_management_commands =
     [tls_certificate_management_command_provision_root_certificate,
        tls_certificate_management_command_provision_root_certificate_response,
        tls_certificate_management_command_find_root_certificate,
        tls_certificate_management_command_find_root_certificate_response,
        tls_certificate_management_command_lookup_root_certificate,
        tls_certificate_management_command_lookup_root_certificate_response,
        tls_certificate_management_command_remove_root_certificate,
        tls_certificate_management_command_client_csr, tls_certificate_management_command_client_csr_response,
        tls_certificate_management_command_provision_client_certificate,
        tls_certificate_management_command_find_client_certificate,
        tls_certificate_management_command_find_client_certificate_response,
        tls_certificate_management_command_lookup_client_certificate,
        tls_certificate_management_command_lookup_client_certificate_response,
        tls_certificate_management_command_remove_client_certificate]"

definition tls_certificate_management_cluster :: cluster_decl where
  "tls_certificate_management_cluster =
     \<lparr>cd_ids = tls_certificate_management_ids,
      cd_callbacks = [],
      cd_features = [],
      cd_attributes = tls_certificate_management_attributes,
      cd_commands = tls_certificate_management_commands,
      cd_events = [],
      cd_create = Some tls_certificate_management_create\<rparr>"

section \<open>\<open>tls_client_management\<close>\<close>

definition tls_client_management_attribute_max_provisioned :: attr_fn where
  "tls_client_management_attribute_max_provisioned =
     attr 0x0000 ATTRIBUTE_FLAG_MANAGED_INTERNALLY VT_UINT8"

definition tls_client_management_attribute_provisioned_endpoints :: attr_fn where
  "tls_client_management_attribute_provisioned_endpoints =
     attr 0x0001 (ATTRIBUTE_FLAG_MANAGED_INTERNALLY OR ATTRIBUTE_FLAG_NONVOLATILE) VT_ARRAY"

definition tls_client_management_command_provision_endpoint :: cmd_fn where
  "tls_client_management_command_provision_endpoint =
     cmd 0x00 COMMAND_FLAG_ACCEPTED None"

definition tls_client_management_command_provision_endpoint_response :: cmd_fn where
  "tls_client_management_command_provision_endpoint_response =
     cmd 0x01 COMMAND_FLAG_GENERATED None"

definition tls_client_management_command_find_endpoint :: cmd_fn where
  "tls_client_management_command_find_endpoint =
     cmd 0x02 COMMAND_FLAG_ACCEPTED None"

definition tls_client_management_command_find_endpoint_response :: cmd_fn where
  "tls_client_management_command_find_endpoint_response =
     cmd 0x03 COMMAND_FLAG_GENERATED None"

definition tls_client_management_command_remove_endpoint :: cmd_fn where
  "tls_client_management_command_remove_endpoint =
     cmd 0x04 COMMAND_FLAG_ACCEPTED None"

definition tls_client_management_create :: cluster_fn where
  "tls_client_management_create =
     \<lparr>kf_id = 0x0802,
      kf_revision = 1,
      kf_functions = None,
      kf_function_flags = 0,
      kf_body = [Plugin ''MatterTlsClientManagementPluginServerInitCallback'', Functions, Feature_Map 0,
        Cluster_Revision, Step (Attribute tls_client_management_attribute_max_provisioned (Lit 0)),
        Step (Attribute tls_client_management_attribute_provisioned_endpoints Null_Arr),
        Step (Command tls_client_management_command_provision_endpoint),
        Step (Command tls_client_management_command_provision_endpoint_response),
        Step (Command tls_client_management_command_find_endpoint),
        Step (Command tls_client_management_command_find_endpoint_response),
        Step (Command tls_client_management_command_remove_endpoint)],
      kf_binding = False\<rparr>"

definition tls_client_management_ids :: cluster_ids where
  "tls_client_management_ids =
     \<lparr>ci_cluster = 0x0802,
      ci_features = [],
      ci_attributes = [(''MaxProvisioned'', 0x0000), (''ProvisionedEndpoints'', 0x0001)],
      ci_commands = [(''ProvisionEndpoint'', 0x00), (''ProvisionEndpointResponse'', 0x01), (''FindEndpoint'',
        0x02), (''FindEndpointResponse'', 0x03), (''RemoveEndpoint'', 0x04)],
      ci_events = []\<rparr>"

definition tls_client_management_attributes :: "attr_fn list" where
  "tls_client_management_attributes =
     [tls_client_management_attribute_max_provisioned, tls_client_management_attribute_provisioned_endpoints]"

definition tls_client_management_commands :: "cmd_fn list" where
  "tls_client_management_commands =
     [tls_client_management_command_provision_endpoint, tls_client_management_command_provision_endpoint_response,
        tls_client_management_command_find_endpoint, tls_client_management_command_find_endpoint_response,
        tls_client_management_command_remove_endpoint]"

definition tls_client_management_cluster :: cluster_decl where
  "tls_client_management_cluster =
     \<lparr>cd_ids = tls_client_management_ids,
      cd_callbacks = [],
      cd_features = [],
      cd_attributes = tls_client_management_attributes,
      cd_commands = tls_client_management_commands,
      cd_events = [],
      cd_create = Some tls_client_management_create\<rparr>"

section \<open>Checks\<close>

definition additive_11 :: "cluster_decl list" where
  "additive_11 =
     [thermostat_user_interface_configuration_cluster, thread_border_router_management_cluster,
        thread_network_diagnostics_cluster, thread_network_directory_cluster, time_format_localization_cluster,
        time_synchronization_cluster, tls_certificate_management_cluster, tls_client_management_cluster]"

lemma additive_11_ok: "list_all decl_ok additive_11"
  by code_simp

lemma additive_11_order: "list_all (\<lambda>d. order_ok (cd_features d)) additive_11"
  by code_simp

end
