(* ===== verification/EM_Clusters_12.thy ===== *)
theory EM_Clusters_12
  imports EM_Order
begin

text \<open>
  The generated clusters \<open>total_volatile_organic_compounds_concentration_measurement\<close> to \<open>zone_management\<close>:
  one definition for each function and id table of their files, and the checks of the descriptions.
\<close>

section \<open>\<open>total_volatile_organic_compounds_concentration_measurement\<close>\<close>

definition total_volatile_organic_compounds_concentration_measurement_numeric_measurement_id :: u32 where
  "total_volatile_organic_compounds_concentration_measurement_numeric_measurement_id = 0x1"

definition total_volatile_organic_compounds_concentration_measurement_level_indication_id :: u32 where
  "total_volatile_organic_compounds_concentration_measurement_level_indication_id = 0x2"

definition total_volatile_organic_compounds_concentration_measurement_medium_level_id :: u32 where
  "total_volatile_organic_compounds_concentration_measurement_medium_level_id = 0x4"

definition total_volatile_organic_compounds_concentration_measurement_critical_level_id :: u32 where
  "total_volatile_organic_compounds_concentration_measurement_critical_level_id = 0x8"

definition total_volatile_organic_compounds_concentration_measurement_peak_measurement_id :: u32 where
  "total_volatile_organic_compounds_concentration_measurement_peak_measurement_id = 0x10"

definition total_volatile_organic_compounds_concentration_measurement_average_measurement_id :: u32 where
  "total_volatile_organic_compounds_concentration_measurement_average_measurement_id = 0x20"

definition total_volatile_organic_compounds_concentration_measurement_attribute_measured_value :: attr_fn where
  "total_volatile_organic_compounds_concentration_measurement_attribute_measured_value =
     guarded (Has_Feature total_volatile_organic_compounds_concentration_measurement_numeric_measurement_id) (attr
          0x0000 (ATTRIBUTE_FLAG_MANAGED_INTERNALLY OR ATTRIBUTE_FLAG_NULLABLE) VT_NULLABLE_FLOAT)"

definition total_volatile_organic_compounds_concentration_measurement_attribute_min_measured_value :: attr_fn where
  "total_volatile_organic_compounds_concentration_measurement_attribute_min_measured_value =
     guarded (Has_Feature total_volatile_organic_compounds_concentration_measurement_numeric_measurement_id) (attr
          0x0001 (ATTRIBUTE_FLAG_MANAGED_INTERNALLY OR ATTRIBUTE_FLAG_NULLABLE) VT_NULLABLE_FLOAT)"

definition total_volatile_organic_compounds_concentration_measurement_attribute_max_measured_value :: attr_fn where
  "total_volatile_organic_compounds_concentration_measurement_attribute_max_measured_value =
     guarded (Has_Feature total_volatile_organic_compounds_concentration_measurement_numeric_measurement_id) (attr
          0x0002 (ATTRIBUTE_FLAG_MANAGED_INTERNALLY OR ATTRIBUTE_FLAG_NULLABLE) VT_NULLABLE_FLOAT)"

definition total_volatile_organic_compounds_concentration_measurement_attribute_peak_measured_value :: attr_fn where
  "total_volatile_organic_compounds_concentration_measurement_attribute_peak_measured_value =
     guarded (Has_Feature total_volatile_organic_compounds_concentration_measurement_peak_measurement_id) (attr
          0x0003 (ATTRIBUTE_FLAG_MANAGED_INTERNALLY OR ATTRIBUTE_FLAG_NULLABLE) VT_NULLABLE_FLOAT)"

definition total_volatile_organic_compounds_concentration_measurement_attribute_peak_measured_value_window :: attr_fn where
  "total_volatile_organic_compounds_concentration_measurement_attribute_peak_measured_value_window =
     guarded (Has_Feature total_volatile_organic_compounds_concentration_measurement_peak_measurement_id) (attr
          0x0004 ATTRIBUTE_FLAG_MANAGED_INTERNALLY VT_UINT32)"

definition total_volatile_organic_compounds_concentration_measurement_attribute_average_measured_value :: attr_fn where
  "total_volatile_organic_compounds_concentration_measurement_attribute_average_measured_value =
     guarded (Has_Feature total_volatile_organic_compounds_concentration_measurement_average_measurement_id) (attr
          0x0005 (ATTRIBUTE_FLAG_MANAGED_INTERNALLY OR ATTRIBUTE_FLAG_NULLABLE) VT_NULLABLE_FLOAT)"

definition total_volatile_organic_compounds_concentration_measurement_attribute_average_measured_value_window :: attr_fn where
  "total_volatile_organic_compounds_concentration_measurement_attribute_average_measured_value_window =
     guarded (Has_Feature total_volatile_organic_compounds_concentration_measurement_average_measurement_id) (attr
          0x0006 ATTRIBUTE_FLAG_MANAGED_INTERNALLY VT_UINT32)"

definition total_volatile_organic_compounds_concentration_measurement_attribute_uncertainty :: attr_fn where
  "total_volatile_organic_compounds_concentration_measurement_attribute_uncertainty =
     attr 0x0007 ATTRIBUTE_FLAG_MANAGED_INTERNALLY VT_FLOAT"

definition total_volatile_organic_compounds_concentration_measurement_attribute_measurement_unit :: attr_fn where
  "total_volatile_organic_compounds_concentration_measurement_attribute_measurement_unit =
     guarded (Has_Feature total_volatile_organic_compounds_concentration_measurement_numeric_measurement_id) (attr
          0x0008 ATTRIBUTE_FLAG_MANAGED_INTERNALLY VT_ENUM8)"

definition total_volatile_organic_compounds_concentration_measurement_attribute_measurement_medium :: attr_fn where
  "total_volatile_organic_compounds_concentration_measurement_attribute_measurement_medium =
     attr 0x0009 ATTRIBUTE_FLAG_MANAGED_INTERNALLY VT_ENUM8"

definition total_volatile_organic_compounds_concentration_measurement_attribute_level_value :: attr_fn where
  "total_volatile_organic_compounds_concentration_measurement_attribute_level_value =
     guarded (Has_Feature total_volatile_organic_compounds_concentration_measurement_level_indication_id) (attr
          0x000A ATTRIBUTE_FLAG_MANAGED_INTERNALLY VT_ENUM8)"

definition total_volatile_organic_compounds_concentration_measurement_feature_numeric_measurement :: feature_fn where
  "total_volatile_organic_compounds_concentration_measurement_feature_numeric_measurement =
     feature total_volatile_organic_compounds_concentration_measurement_numeric_measurement_id False
          [Update_Feature_Map,
        Attribute total_volatile_organic_compounds_concentration_measurement_attribute_measured_value (Lit 0),
        Attribute total_volatile_organic_compounds_concentration_measurement_attribute_min_measured_value (Lit
          0),
        Attribute total_volatile_organic_compounds_concentration_measurement_attribute_max_measured_value (Lit
          0),
        Attribute total_volatile_organic_compounds_concentration_measurement_attribute_measurement_unit (Lit 0)]"

definition total_volatile_organic_compounds_concentration_measurement_feature_level_indication :: feature_fn where
  "total_volatile_organic_compounds_concentration_measurement_feature_level_indication =
     feature total_volatile_organic_compounds_concentration_measurement_level_indication_id False
          [Update_Feature_Map,
        Attribute total_volatile_organic_compounds_concentration_measurement_attribute_level_value (Lit 0)]"

definition total_volatile_organic_compounds_concentration_measurement_feature_medium_level :: feature_fn where
  "total_volatile_organic_compounds_concentration_measurement_feature_medium_level =
     feature total_volatile_organic_compounds_concentration_measurement_medium_level_id False [Require (Has_Feature
          total_volatile_organic_compounds_concentration_measurement_level_indication_id), Update_Feature_Map]"

definition total_volatile_organic_compounds_concentration_measurement_feature_critical_level :: feature_fn where
  "total_volatile_organic_compounds_concentration_measurement_feature_critical_level =
     feature total_volatile_organic_compounds_concentration_measurement_critical_level_id False [Require
          (Has_Feature total_volatile_organic_compounds_concentration_measurement_level_indication_id),
        Update_Feature_Map]"

definition total_volatile_organic_compounds_concentration_measurement_feature_peak_measurement :: feature_fn where
  "total_volatile_organic_compounds_concentration_measurement_feature_peak_measurement =
     feature total_volatile_organic_compounds_concentration_measurement_peak_measurement_id False [Require
          (Has_Feature total_volatile_organic_compounds_concentration_measurement_numeric_measurement_id),
        Update_Feature_Map,
        Attribute total_volatile_organic_compounds_concentration_measurement_attribute_peak_measured_value (Lit
          0),
        Attribute
          total_volatile_organic_compounds_concentration_measurement_attribute_peak_measured_value_window (Lit
          0)]"

definition total_volatile_organic_compounds_concentration_measurement_feature_average_measurement :: feature_fn where
  "total_volatile_organic_compounds_concentration_measurement_feature_average_measurement =
     feature total_volatile_organic_compounds_concentration_measurement_average_measurement_id False [Require
          (Has_Feature total_volatile_organic_compounds_concentration_measurement_numeric_measurement_id),
        Update_Feature_Map,
        Attribute total_volatile_organic_compounds_concentration_measurement_attribute_average_measured_value
          (Lit 0),
        Attribute
          total_volatile_organic_compounds_concentration_measurement_attribute_average_measured_value_window
          (Lit 0)]"

definition total_volatile_organic_compounds_concentration_measurement_create :: cluster_fn where
  "total_volatile_organic_compounds_concentration_measurement_create =
     \<lparr>kf_id = 0x042E,
      kf_revision = 3,
      kf_functions = None,
      kf_function_flags = 0,
      kf_body = [Plugin ''MatterTotalVolatileOrganicCompoundsConcentrationMeasurementPluginServerInitCallback'',
        Functions, Config_Feature_Map, Cluster_Revision,
        Step (Attribute total_volatile_organic_compounds_concentration_measurement_attribute_measurement_medium
          (Lit 0)),
        Validate k_at_least_one
          [total_volatile_organic_compounds_concentration_measurement_numeric_measurement_id,
        total_volatile_organic_compounds_concentration_measurement_level_indication_id],
        If_Feature total_volatile_organic_compounds_concentration_measurement_numeric_measurement_id
          [Add_Feature total_volatile_organic_compounds_concentration_measurement_feature_numeric_measurement
          ''numeric_measurement''] [],
        If_Feature total_volatile_organic_compounds_concentration_measurement_level_indication_id [Add_Feature
          total_volatile_organic_compounds_concentration_measurement_feature_level_indication
          ''level_indication''] [],
        If_Feature total_volatile_organic_compounds_concentration_measurement_medium_level_id [Add_Feature
          total_volatile_organic_compounds_concentration_measurement_feature_medium_level ''medium_level''] [],
        If_Feature total_volatile_organic_compounds_concentration_measurement_critical_level_id [Add_Feature
          total_volatile_organic_compounds_concentration_measurement_feature_critical_level ''critical_level'']
          [],
        If_Feature total_volatile_organic_compounds_concentration_measurement_peak_measurement_id [Add_Feature
          total_volatile_organic_compounds_concentration_measurement_feature_peak_measurement
          ''peak_measurement''] [],
        If_Feature total_volatile_organic_compounds_concentration_measurement_average_measurement_id
          [Add_Feature total_volatile_organic_compounds_concentration_measurement_feature_average_measurement
          ''average_measurement''] []],
      kf_binding = True\<rparr>"

definition total_volatile_organic_compounds_concentration_measurement_ids :: cluster_ids where
  "total_volatile_organic_compounds_concentration_measurement_ids =
     \<lparr>ci_cluster = 0x042E,
      ci_features = [(''NumericMeasurement'', 0x1), (''LevelIndication'', 0x2), (''MediumLevel'', 0x4),
        (''CriticalLevel'', 0x8), (''PeakMeasurement'', 0x10), (''AverageMeasurement'', 0x20)],
      ci_attributes = [(''MeasuredValue'', 0x0000), (''MinMeasuredValue'', 0x0001), (''MaxMeasuredValue'',
        0x0002), (''PeakMeasuredValue'', 0x0003), (''PeakMeasuredValueWindow'', 0x0004),
        (''AverageMeasuredValue'', 0x0005), (''AverageMeasuredValueWindow'', 0x0006), (''Uncertainty'', 0x0007),
        (''MeasurementUnit'', 0x0008), (''MeasurementMedium'', 0x0009), (''LevelValue'', 0x000A)],
      ci_commands = [],
      ci_events = []\<rparr>"

definition total_volatile_organic_compounds_concentration_measurement_features :: "feature_fn list" where
  "total_volatile_organic_compounds_concentration_measurement_features =
     [total_volatile_organic_compounds_concentration_measurement_feature_numeric_measurement,
        total_volatile_organic_compounds_concentration_measurement_feature_level_indication,
        total_volatile_organic_compounds_concentration_measurement_feature_medium_level,
        total_volatile_organic_compounds_concentration_measurement_feature_critical_level,
        total_volatile_organic_compounds_concentration_measurement_feature_peak_measurement,
        total_volatile_organic_compounds_concentration_measurement_feature_average_measurement]"

definition total_volatile_organic_compounds_concentration_measurement_attributes :: "attr_fn list" where
  "total_volatile_organic_compounds_concentration_measurement_attributes =
     [total_volatile_organic_compounds_concentration_measurement_attribute_measured_value,
        total_volatile_organic_compounds_concentration_measurement_attribute_min_measured_value,
        total_volatile_organic_compounds_concentration_measurement_attribute_max_measured_value,
        total_volatile_organic_compounds_concentration_measurement_attribute_peak_measured_value,
        total_volatile_organic_compounds_concentration_measurement_attribute_peak_measured_value_window,
        total_volatile_organic_compounds_concentration_measurement_attribute_average_measured_value,
        total_volatile_organic_compounds_concentration_measurement_attribute_average_measured_value_window,
        total_volatile_organic_compounds_concentration_measurement_attribute_uncertainty,
        total_volatile_organic_compounds_concentration_measurement_attribute_measurement_unit,
        total_volatile_organic_compounds_concentration_measurement_attribute_measurement_medium,
        total_volatile_organic_compounds_concentration_measurement_attribute_level_value]"

definition total_volatile_organic_compounds_concentration_measurement_cluster :: cluster_decl where
  "total_volatile_organic_compounds_concentration_measurement_cluster =
     \<lparr>cd_ids = total_volatile_organic_compounds_concentration_measurement_ids,
      cd_callbacks = [],
      cd_features = total_volatile_organic_compounds_concentration_measurement_features,
      cd_attributes = total_volatile_organic_compounds_concentration_measurement_attributes,
      cd_commands = [],
      cd_events = [],
      cd_create = Some total_volatile_organic_compounds_concentration_measurement_create\<rparr>"

section \<open>\<open>unit_localization\<close>\<close>

definition unit_localization_temperature_unit_id :: u32 where
  "unit_localization_temperature_unit_id = 0x1"

definition unit_localization_attribute_temperature_unit :: attr_fn where
  "unit_localization_attribute_temperature_unit =
     guarded (Has_Feature unit_localization_temperature_unit_id) (bounded 0 2 (attr 0x0000 (ATTRIBUTE_FLAG_WRITABLE
          OR ATTRIBUTE_FLAG_NONVOLATILE) VT_ENUM8))"

definition unit_localization_attribute_supported_temperature_units :: attr_fn where
  "unit_localization_attribute_supported_temperature_units =
     guarded (Has_Feature unit_localization_temperature_unit_id) (attr 0x0001 ATTRIBUTE_FLAG_MANAGED_INTERNALLY
          VT_ARRAY)"

definition unit_localization_feature_temperature_unit :: feature_fn where
  "unit_localization_feature_temperature_unit =
     feature unit_localization_temperature_unit_id True [Update_Feature_Map,
        Attribute unit_localization_attribute_temperature_unit (Field ''temperature_unit''),
        Attribute unit_localization_attribute_supported_temperature_units Null_Arr]"

definition unit_localization_create :: cluster_fn where
  "unit_localization_create =
     \<lparr>kf_id = 0x002D,
      kf_revision = 2,
      kf_functions = None,
      kf_function_flags = 0,
      kf_body = [Plugin ''MatterUnitLocalizationPluginServerInitCallback'', Functions, Feature_Map 0,
        Cluster_Revision,
        Callbacks ''ESPMatterUnitLocalizationClusterServerInitCallback''
          ''ESPMatterUnitLocalizationClusterServerShutdownCallback''],
      kf_binding = False\<rparr>"

definition unit_localization_ids :: cluster_ids where
  "unit_localization_ids =
     \<lparr>ci_cluster = 0x002D,
      ci_features = [(''TemperatureUnit'', 0x1)],
      ci_attributes = [(''TemperatureUnit'', 0x0000), (''SupportedTemperatureUnits'', 0x0001)],
      ci_commands = [],
      ci_events = []\<rparr>"

definition unit_localization_features :: "feature_fn list" where
  "unit_localization_features =
     [unit_localization_feature_temperature_unit]"

definition unit_localization_attributes :: "attr_fn list" where
  "unit_localization_attributes =
     [unit_localization_attribute_temperature_unit, unit_localization_attribute_supported_temperature_units]"

definition unit_localization_cluster :: cluster_decl where
  "unit_localization_cluster =
     \<lparr>cd_ids = unit_localization_ids,
      cd_callbacks = [],
      cd_features = unit_localization_features,
      cd_attributes = unit_localization_attributes,
      cd_commands = [],
      cd_events = [],
      cd_create = Some unit_localization_create\<rparr>"

section \<open>\<open>user_label\<close>\<close>

definition user_label_attribute_label_list :: attr_fn where
  "user_label_attribute_label_list =
     attr 0x0000 (ATTRIBUTE_FLAG_WRITABLE OR ATTRIBUTE_FLAG_MANAGED_INTERNALLY OR ATTRIBUTE_FLAG_NONVOLATILE)
          VT_ARRAY"

definition user_label_create :: cluster_fn where
  "user_label_create =
     \<lparr>kf_id = 0x0041,
      kf_revision = 1,
      kf_functions = None,
      kf_function_flags = 0,
      kf_body = [Plugin ''MatterUserLabelPluginServerInitCallback'', Functions, Feature_Map 0, Cluster_Revision,
        Step (Attribute user_label_attribute_label_list Null_Arr),
        Callbacks ''ESPMatterUserLabelClusterServerInitCallback''
          ''ESPMatterUserLabelClusterServerShutdownCallback''],
      kf_binding = False\<rparr>"

definition user_label_ids :: cluster_ids where
  "user_label_ids =
     \<lparr>ci_cluster = 0x0041,
      ci_features = [],
      ci_attributes = [(''LabelList'', 0x0000)],
      ci_commands = [],
      ci_events = []\<rparr>"

definition user_label_attributes :: "attr_fn list" where
  "user_label_attributes =
     [user_label_attribute_label_list]"

definition user_label_cluster :: cluster_decl where
  "user_label_cluster =
     \<lparr>cd_ids = user_label_ids,
      cd_callbacks = [],
      cd_features = [],
      cd_attributes = user_label_attributes,
      cd_commands = [],
      cd_events = [],
      cd_create = Some user_label_create\<rparr>"

section \<open>\<open>valve_configuration_and_control\<close>\<close>

definition valve_configuration_and_control_time_sync_id :: u32 where
  "valve_configuration_and_control_time_sync_id = 0x1"

definition valve_configuration_and_control_level_id :: u32 where
  "valve_configuration_and_control_level_id = 0x2"

definition valve_configuration_and_control_attribute_open_duration :: attr_fn where
  "valve_configuration_and_control_attribute_open_duration =
     bounded 1 4294967294 (attr 0x0000 ATTRIBUTE_FLAG_NULLABLE VT_NULLABLE_UINT32)"

definition valve_configuration_and_control_attribute_default_open_duration :: attr_fn where
  "valve_configuration_and_control_attribute_default_open_duration =
     bounded 1 4294967294 (attr 0x0001 (ATTRIBUTE_FLAG_WRITABLE OR ATTRIBUTE_FLAG_NULLABLE OR
          ATTRIBUTE_FLAG_NONVOLATILE) VT_NULLABLE_UINT32)"

definition valve_configuration_and_control_attribute_auto_close_time :: attr_fn where
  "valve_configuration_and_control_attribute_auto_close_time =
     guarded (Has_Feature valve_configuration_and_control_time_sync_id) (bounded 0 4294967294 (attr 0x0002
          ATTRIBUTE_FLAG_NULLABLE VT_NULLABLE_UINT64))"

definition valve_configuration_and_control_attribute_remaining_duration :: attr_fn where
  "valve_configuration_and_control_attribute_remaining_duration =
     attr 0x0003 (ATTRIBUTE_FLAG_MANAGED_INTERNALLY OR ATTRIBUTE_FLAG_NULLABLE) VT_NULLABLE_UINT32"

definition valve_configuration_and_control_attribute_current_state :: attr_fn where
  "valve_configuration_and_control_attribute_current_state =
     bounded 0 2 (attr 0x0004 ATTRIBUTE_FLAG_NULLABLE VT_NULLABLE_ENUM8)"

definition valve_configuration_and_control_attribute_target_state :: attr_fn where
  "valve_configuration_and_control_attribute_target_state =
     bounded 0 2 (attr 0x0005 ATTRIBUTE_FLAG_NULLABLE VT_NULLABLE_ENUM8)"

definition valve_configuration_and_control_attribute_current_level :: attr_fn where
  "valve_configuration_and_control_attribute_current_level =
     guarded (Has_Feature valve_configuration_and_control_level_id) (bounded 0 254 (attr 0x0006
          ATTRIBUTE_FLAG_NULLABLE VT_NULLABLE_UINT8))"

definition valve_configuration_and_control_attribute_target_level :: attr_fn where
  "valve_configuration_and_control_attribute_target_level =
     guarded (Has_Feature valve_configuration_and_control_level_id) (bounded 0 254 (attr 0x0007
          ATTRIBUTE_FLAG_NULLABLE VT_NULLABLE_UINT8))"

definition valve_configuration_and_control_attribute_default_open_level :: attr_fn where
  "valve_configuration_and_control_attribute_default_open_level =
     bounded 1 100 (attr 0x0008 (ATTRIBUTE_FLAG_WRITABLE OR ATTRIBUTE_FLAG_NONVOLATILE) VT_UINT8)"

definition valve_configuration_and_control_attribute_valve_fault :: attr_fn where
  "valve_configuration_and_control_attribute_valve_fault =
     bounded 0 65535 (attr 0x0009 0 VT_BITMAP16)"

definition valve_configuration_and_control_attribute_level_step :: attr_fn where
  "valve_configuration_and_control_attribute_level_step =
     bounded 1 50 (attr 0x000A 0 VT_UINT8)"

definition valve_configuration_and_control_callback_open :: callback_fn where
  "valve_configuration_and_control_callback_open =
     decodes_to ''ValveConfigurationAndControl::Commands::Open''
          ''emberAfValveConfigurationAndControlClusterOpenCallback''"

definition valve_configuration_and_control_callback_close :: callback_fn where
  "valve_configuration_and_control_callback_close =
     decodes_to ''ValveConfigurationAndControl::Commands::Close''
          ''emberAfValveConfigurationAndControlClusterCloseCallback''"

definition valve_configuration_and_control_command_open :: cmd_fn where
  "valve_configuration_and_control_command_open =
     cmd 0x00 COMMAND_FLAG_ACCEPTED (Some ''valve_configuration_and_control.esp_matter_command_callback_open'')"

definition valve_configuration_and_control_command_close :: cmd_fn where
  "valve_configuration_and_control_command_close =
     cmd 0x01 COMMAND_FLAG_ACCEPTED (Some ''valve_configuration_and_control.esp_matter_command_callback_close'')"

definition valve_configuration_and_control_event_valve_state_changed :: event_fn where
  "valve_configuration_and_control_event_valve_state_changed =
     event 0x00"

definition valve_configuration_and_control_event_valve_fault :: event_fn where
  "valve_configuration_and_control_event_valve_fault =
     event 0x01"

definition valve_configuration_and_control_feature_time_sync :: feature_fn where
  "valve_configuration_and_control_feature_time_sync =
     feature valve_configuration_and_control_time_sync_id True [Update_Feature_Map,
        Attribute valve_configuration_and_control_attribute_auto_close_time (Field ''auto_close_time'')]"

definition valve_configuration_and_control_feature_level :: feature_fn where
  "valve_configuration_and_control_feature_level =
     feature valve_configuration_and_control_level_id True [Update_Feature_Map,
        Attribute valve_configuration_and_control_attribute_current_level (Field ''current_level''),
        Attribute valve_configuration_and_control_attribute_target_level (Field ''target_level'')]"

definition valve_configuration_and_control_create :: cluster_fn where
  "valve_configuration_and_control_create =
     \<lparr>kf_id = 0x0081,
      kf_revision = 1,
      kf_functions = None,
      kf_function_flags = 0,
      kf_body = [Delegate ''ValveConfigurationAndControlDelegateInitCB'',
        Plugin ''MatterValveConfigurationAndControlPluginServerInitCallback'', Functions, Feature_Map 0,
        Cluster_Revision,
        Step (Attribute valve_configuration_and_control_attribute_open_duration (Field ''open_duration'')),
        Step (Attribute valve_configuration_and_control_attribute_default_open_duration (Field
          ''default_open_duration'')),
        Step (Attribute valve_configuration_and_control_attribute_current_state (Field ''current_state'')),
        Step (Attribute valve_configuration_and_control_attribute_target_state (Field ''target_state'')),
        Step (Attribute valve_configuration_and_control_attribute_remaining_duration (Lit 0)),
        Step (Command valve_configuration_and_control_command_open),
        Step (Command valve_configuration_and_control_command_close)],
      kf_binding = True\<rparr>"

definition valve_configuration_and_control_ids :: cluster_ids where
  "valve_configuration_and_control_ids =
     \<lparr>ci_cluster = 0x0081,
      ci_features = [(''TimeSync'', 0x1), (''Level'', 0x2)],
      ci_attributes = [(''OpenDuration'', 0x0000), (''DefaultOpenDuration'', 0x0001), (''AutoCloseTime'',
        0x0002), (''RemainingDuration'', 0x0003), (''CurrentState'', 0x0004), (''TargetState'', 0x0005),
        (''CurrentLevel'', 0x0006), (''TargetLevel'', 0x0007), (''DefaultOpenLevel'', 0x0008), (''ValveFault'',
        0x0009), (''LevelStep'', 0x000A)],
      ci_commands = [(''Open'', 0x00), (''Close'', 0x01)],
      ci_events = [(''ValveStateChanged'', 0x00), (''ValveFault'', 0x01)]\<rparr>"

definition valve_configuration_and_control_features :: "feature_fn list" where
  "valve_configuration_and_control_features =
     [valve_configuration_and_control_feature_time_sync, valve_configuration_and_control_feature_level]"

definition valve_configuration_and_control_attributes :: "attr_fn list" where
  "valve_configuration_and_control_attributes =
     [valve_configuration_and_control_attribute_open_duration,
        valve_configuration_and_control_attribute_default_open_duration,
        valve_configuration_and_control_attribute_auto_close_time,
        valve_configuration_and_control_attribute_remaining_duration,
        valve_configuration_and_control_attribute_current_state,
        valve_configuration_and_control_attribute_target_state,
        valve_configuration_and_control_attribute_current_level,
        valve_configuration_and_control_attribute_target_level,
        valve_configuration_and_control_attribute_default_open_level,
        valve_configuration_and_control_attribute_valve_fault,
        valve_configuration_and_control_attribute_level_step]"

definition valve_configuration_and_control_commands :: "cmd_fn list" where
  "valve_configuration_and_control_commands =
     [valve_configuration_and_control_command_open, valve_configuration_and_control_command_close]"

definition valve_configuration_and_control_events :: "event_fn list" where
  "valve_configuration_and_control_events =
     [valve_configuration_and_control_event_valve_state_changed, valve_configuration_and_control_event_valve_fault]"

definition valve_configuration_and_control_callbacks :: "(string \<times> callback_fn) list" where
  "valve_configuration_and_control_callbacks =
     [(''valve_configuration_and_control.esp_matter_command_callback_open'',
        valve_configuration_and_control_callback_open),
        (''valve_configuration_and_control.esp_matter_command_callback_close'',
        valve_configuration_and_control_callback_close)]"

definition valve_configuration_and_control_cluster :: cluster_decl where
  "valve_configuration_and_control_cluster =
     \<lparr>cd_ids = valve_configuration_and_control_ids,
      cd_callbacks = valve_configuration_and_control_callbacks,
      cd_features = valve_configuration_and_control_features,
      cd_attributes = valve_configuration_and_control_attributes,
      cd_commands = valve_configuration_and_control_commands,
      cd_events = valve_configuration_and_control_events,
      cd_create = Some valve_configuration_and_control_create\<rparr>"

section \<open>\<open>wake_on_lan\<close>\<close>

definition wake_on_lan_attribute_mac_address :: attr_fn where
  "wake_on_lan_attribute_mac_address =
     attr 0x0000 ATTRIBUTE_FLAG_MANAGED_INTERNALLY VT_CHAR_STRING"

definition wake_on_lan_attribute_link_local_address :: attr_fn where
  "wake_on_lan_attribute_link_local_address =
     attr 0x0001 0 VT_OCTET_STRING"

definition wake_on_lan_create :: cluster_fn where
  "wake_on_lan_create =
     \<lparr>kf_id = 0x0503,
      kf_revision = 1,
      kf_functions = None,
      kf_function_flags = 0,
      kf_body = [Delegate ''WakeOnLanDelegateInitCB'', Plugin ''MatterWakeOnLanPluginServerInitCallback'',
        Functions, Feature_Map 0, Cluster_Revision],
      kf_binding = True\<rparr>"

definition wake_on_lan_ids :: cluster_ids where
  "wake_on_lan_ids =
     \<lparr>ci_cluster = 0x0503,
      ci_features = [],
      ci_attributes = [(''MACAddress'', 0x0000), (''LinkLocalAddress'', 0x0001)],
      ci_commands = [],
      ci_events = []\<rparr>"

definition wake_on_lan_attributes :: "attr_fn list" where
  "wake_on_lan_attributes =
     [wake_on_lan_attribute_mac_address, wake_on_lan_attribute_link_local_address]"

definition wake_on_lan_cluster :: cluster_decl where
  "wake_on_lan_cluster =
     \<lparr>cd_ids = wake_on_lan_ids,
      cd_callbacks = [],
      cd_features = [],
      cd_attributes = wake_on_lan_attributes,
      cd_commands = [],
      cd_events = [],
      cd_create = Some wake_on_lan_create\<rparr>"

section \<open>\<open>water_heater_management\<close>\<close>

definition water_heater_management_energy_management_id :: u32 where
  "water_heater_management_energy_management_id = 0x1"

definition water_heater_management_tank_percent_id :: u32 where
  "water_heater_management_tank_percent_id = 0x2"

definition water_heater_management_attribute_heater_types :: attr_fn where
  "water_heater_management_attribute_heater_types =
     attr 0x0000 ATTRIBUTE_FLAG_MANAGED_INTERNALLY VT_BITMAP8"

definition water_heater_management_attribute_heat_demand :: attr_fn where
  "water_heater_management_attribute_heat_demand =
     attr 0x0001 ATTRIBUTE_FLAG_MANAGED_INTERNALLY VT_BITMAP8"

definition water_heater_management_attribute_tank_volume :: attr_fn where
  "water_heater_management_attribute_tank_volume =
     guarded (Has_Feature water_heater_management_energy_management_id) (attr 0x0002
          ATTRIBUTE_FLAG_MANAGED_INTERNALLY VT_UINT16)"

definition water_heater_management_attribute_estimated_heat_required :: attr_fn where
  "water_heater_management_attribute_estimated_heat_required =
     guarded (Has_Feature water_heater_management_energy_management_id) (attr 0x0003
          ATTRIBUTE_FLAG_MANAGED_INTERNALLY VT_INT64)"

definition water_heater_management_attribute_tank_percentage :: attr_fn where
  "water_heater_management_attribute_tank_percentage =
     guarded (Has_Feature water_heater_management_tank_percent_id) (attr 0x0004 ATTRIBUTE_FLAG_MANAGED_INTERNALLY
          VT_UINT8)"

definition water_heater_management_attribute_boost_state :: attr_fn where
  "water_heater_management_attribute_boost_state =
     attr 0x0005 ATTRIBUTE_FLAG_MANAGED_INTERNALLY VT_ENUM8"

definition water_heater_management_command_boost :: cmd_fn where
  "water_heater_management_command_boost =
     cmd 0x00 COMMAND_FLAG_ACCEPTED None"

definition water_heater_management_command_cancel_boost :: cmd_fn where
  "water_heater_management_command_cancel_boost =
     cmd 0x01 COMMAND_FLAG_ACCEPTED None"

definition water_heater_management_event_boost_started :: event_fn where
  "water_heater_management_event_boost_started =
     event 0x00"

definition water_heater_management_event_boost_ended :: event_fn where
  "water_heater_management_event_boost_ended =
     event 0x01"

definition water_heater_management_feature_energy_management :: feature_fn where
  "water_heater_management_feature_energy_management =
     feature water_heater_management_energy_management_id False [Update_Feature_Map,
        Attribute water_heater_management_attribute_tank_volume (Lit 0),
        Attribute water_heater_management_attribute_estimated_heat_required (Lit 0)]"

definition water_heater_management_feature_tank_percent :: feature_fn where
  "water_heater_management_feature_tank_percent =
     feature water_heater_management_tank_percent_id False [Update_Feature_Map,
        Attribute water_heater_management_attribute_tank_percentage (Lit 0)]"

definition water_heater_management_create :: cluster_fn where
  "water_heater_management_create =
     \<lparr>kf_id = 0x0094,
      kf_revision = 2,
      kf_functions = None,
      kf_function_flags = 0,
      kf_body = [Delegate ''WaterHeaterManagementDelegateInitCB'',
        Plugin ''MatterWaterHeaterManagementPluginServerInitCallback'', Functions, Feature_Map 0,
        Cluster_Revision, Step (Attribute water_heater_management_attribute_heater_types (Lit 0)),
        Step (Attribute water_heater_management_attribute_heat_demand (Lit 0)),
        Step (Attribute water_heater_management_attribute_boost_state (Lit 0)),
        Step (Command water_heater_management_command_boost),
        Step (Command water_heater_management_command_cancel_boost),
        Step (Event water_heater_management_event_boost_started),
        Step (Event water_heater_management_event_boost_ended)],
      kf_binding = True\<rparr>"

definition water_heater_management_ids :: cluster_ids where
  "water_heater_management_ids =
     \<lparr>ci_cluster = 0x0094,
      ci_features = [(''EnergyManagement'', 0x1), (''TankPercent'', 0x2)],
      ci_attributes = [(''HeaterTypes'', 0x0000), (''HeatDemand'', 0x0001), (''TankVolume'', 0x0002),
        (''EstimatedHeatRequired'', 0x0003), (''TankPercentage'', 0x0004), (''BoostState'', 0x0005)],
      ci_commands = [(''Boost'', 0x00), (''CancelBoost'', 0x01)],
      ci_events = [(''BoostStarted'', 0x00), (''BoostEnded'', 0x01)]\<rparr>"

definition water_heater_management_features :: "feature_fn list" where
  "water_heater_management_features =
     [water_heater_management_feature_energy_management, water_heater_management_feature_tank_percent]"

definition water_heater_management_attributes :: "attr_fn list" where
  "water_heater_management_attributes =
     [water_heater_management_attribute_heater_types, water_heater_management_attribute_heat_demand,
        water_heater_management_attribute_tank_volume,
        water_heater_management_attribute_estimated_heat_required,
        water_heater_management_attribute_tank_percentage, water_heater_management_attribute_boost_state]"

definition water_heater_management_commands :: "cmd_fn list" where
  "water_heater_management_commands =
     [water_heater_management_command_boost, water_heater_management_command_cancel_boost]"

definition water_heater_management_events :: "event_fn list" where
  "water_heater_management_events =
     [water_heater_management_event_boost_started, water_heater_management_event_boost_ended]"

definition water_heater_management_cluster :: cluster_decl where
  "water_heater_management_cluster =
     \<lparr>cd_ids = water_heater_management_ids,
      cd_callbacks = [],
      cd_features = water_heater_management_features,
      cd_attributes = water_heater_management_attributes,
      cd_commands = water_heater_management_commands,
      cd_events = water_heater_management_events,
      cd_create = Some water_heater_management_create\<rparr>"

section \<open>\<open>water_heater_mode\<close>\<close>

definition water_heater_mode_attribute_supported_modes :: attr_fn where
  "water_heater_mode_attribute_supported_modes =
     attr 0x0000 0 VT_ARRAY"

definition water_heater_mode_attribute_current_mode :: attr_fn where
  "water_heater_mode_attribute_current_mode =
     bounded 0 254 (attr 0x0001 0 VT_UINT8)"

definition water_heater_mode_command_change_to_mode :: cmd_fn where
  "water_heater_mode_command_change_to_mode =
     cmd 0x00 COMMAND_FLAG_ACCEPTED None"

definition water_heater_mode_command_change_to_mode_response :: cmd_fn where
  "water_heater_mode_command_change_to_mode_response =
     cmd 0x01 COMMAND_FLAG_GENERATED None"

definition water_heater_mode_create :: cluster_fn where
  "water_heater_mode_create =
     \<lparr>kf_id = 0x009E,
      kf_revision = 1,
      kf_functions = None,
      kf_function_flags = 0,
      kf_body = [Delegate ''WaterHeaterModeDelegateInitCB'',
        Plugin ''MatterWaterHeaterModePluginServerInitCallback'', Functions, Feature_Map 0, Cluster_Revision,
        Step (Command water_heater_mode_command_change_to_mode),
        Step (Command water_heater_mode_command_change_to_mode_response)],
      kf_binding = False\<rparr>"

definition water_heater_mode_ids :: cluster_ids where
  "water_heater_mode_ids =
     \<lparr>ci_cluster = 0x009E,
      ci_features = [],
      ci_attributes = [(''SupportedModes'', 0x0000), (''CurrentMode'', 0x0001)],
      ci_commands = [(''ChangeToMode'', 0x00), (''ChangeToModeResponse'', 0x01)],
      ci_events = []\<rparr>"

definition water_heater_mode_attributes :: "attr_fn list" where
  "water_heater_mode_attributes =
     [water_heater_mode_attribute_supported_modes, water_heater_mode_attribute_current_mode]"

definition water_heater_mode_commands :: "cmd_fn list" where
  "water_heater_mode_commands =
     [water_heater_mode_command_change_to_mode, water_heater_mode_command_change_to_mode_response]"

definition water_heater_mode_cluster :: cluster_decl where
  "water_heater_mode_cluster =
     \<lparr>cd_ids = water_heater_mode_ids,
      cd_callbacks = [],
      cd_features = [],
      cd_attributes = water_heater_mode_attributes,
      cd_commands = water_heater_mode_commands,
      cd_events = [],
      cd_create = Some water_heater_mode_create\<rparr>"

section \<open>\<open>water_tank_level_monitoring\<close>\<close>

definition water_tank_level_monitoring_condition_id :: u32 where
  "water_tank_level_monitoring_condition_id = 0x1"

definition water_tank_level_monitoring_warning_id :: u32 where
  "water_tank_level_monitoring_warning_id = 0x2"

definition water_tank_level_monitoring_replacement_product_list_id :: u32 where
  "water_tank_level_monitoring_replacement_product_list_id = 0x4"

definition water_tank_level_monitoring_attribute_condition :: attr_fn where
  "water_tank_level_monitoring_attribute_condition =
     guarded (Has_Feature water_tank_level_monitoring_condition_id) (bounded 0 254 (attr 0x0000 0 VT_UINT8))"

definition water_tank_level_monitoring_attribute_degradation_direction :: attr_fn where
  "water_tank_level_monitoring_attribute_degradation_direction =
     guarded (Has_Feature water_tank_level_monitoring_condition_id) (bounded 0 1 (attr 0x0001 0 VT_ENUM8))"

definition water_tank_level_monitoring_attribute_change_indication :: attr_fn where
  "water_tank_level_monitoring_attribute_change_indication =
     bounded 0 2 (attr 0x0002 0 VT_ENUM8)"

definition water_tank_level_monitoring_attribute_in_place_indicator :: attr_fn where
  "water_tank_level_monitoring_attribute_in_place_indicator =
     attr 0x0003 0 VT_BOOLEAN"

definition water_tank_level_monitoring_attribute_last_changed_time :: attr_fn where
  "water_tank_level_monitoring_attribute_last_changed_time =
     bounded 0 4294967294 (attr 0x0004 (ATTRIBUTE_FLAG_WRITABLE OR ATTRIBUTE_FLAG_NULLABLE OR
          ATTRIBUTE_FLAG_NONVOLATILE) VT_NULLABLE_UINT32)"

definition water_tank_level_monitoring_attribute_replacement_product_list :: attr_fn where
  "water_tank_level_monitoring_attribute_replacement_product_list =
     guarded (Has_Feature water_tank_level_monitoring_replacement_product_list_id) (attr 0x0005
          ATTRIBUTE_FLAG_MANAGED_INTERNALLY VT_ARRAY)"

definition water_tank_level_monitoring_command_reset_condition :: cmd_fn where
  "water_tank_level_monitoring_command_reset_condition =
     cmd 0x00 COMMAND_FLAG_ACCEPTED None"

definition water_tank_level_monitoring_feature_condition :: feature_fn where
  "water_tank_level_monitoring_feature_condition =
     feature water_tank_level_monitoring_condition_id True [Update_Feature_Map,
        Attribute water_tank_level_monitoring_attribute_condition (Field ''condition''),
        Attribute water_tank_level_monitoring_attribute_degradation_direction (Field ''degradation_direction'')]"

definition water_tank_level_monitoring_feature_warning :: feature_fn where
  "water_tank_level_monitoring_feature_warning =
     feature water_tank_level_monitoring_warning_id False [Update_Feature_Map]"

definition water_tank_level_monitoring_feature_replacement_product_list :: feature_fn where
  "water_tank_level_monitoring_feature_replacement_product_list =
     feature water_tank_level_monitoring_replacement_product_list_id False [Update_Feature_Map,
        Attribute water_tank_level_monitoring_attribute_replacement_product_list Null_Arr]"

definition water_tank_level_monitoring_create :: cluster_fn where
  "water_tank_level_monitoring_create =
     \<lparr>kf_id = 0x0079,
      kf_revision = 1,
      kf_functions = None,
      kf_function_flags = 0,
      kf_body = [Plugin ''MatterWaterTankLevelMonitoringPluginServerInitCallback'', Functions, Feature_Map 0,
        Cluster_Revision,
        Step (Attribute water_tank_level_monitoring_attribute_change_indication (Field ''change_indication''))],
      kf_binding = True\<rparr>"

definition water_tank_level_monitoring_ids :: cluster_ids where
  "water_tank_level_monitoring_ids =
     \<lparr>ci_cluster = 0x0079,
      ci_features = [(''Condition'', 0x1), (''Warning'', 0x2), (''ReplacementProductList'', 0x4)],
      ci_attributes = [(''Condition'', 0x0000), (''DegradationDirection'', 0x0001), (''ChangeIndication'',
        0x0002), (''InPlaceIndicator'', 0x0003), (''LastChangedTime'', 0x0004), (''ReplacementProductList'',
        0x0005)],
      ci_commands = [(''ResetCondition'', 0x00)],
      ci_events = []\<rparr>"

definition water_tank_level_monitoring_features :: "feature_fn list" where
  "water_tank_level_monitoring_features =
     [water_tank_level_monitoring_feature_condition, water_tank_level_monitoring_feature_warning,
        water_tank_level_monitoring_feature_replacement_product_list]"

definition water_tank_level_monitoring_attributes :: "attr_fn list" where
  "water_tank_level_monitoring_attributes =
     [water_tank_level_monitoring_attribute_condition, water_tank_level_monitoring_attribute_degradation_direction,
        water_tank_level_monitoring_attribute_change_indication,
        water_tank_level_monitoring_attribute_in_place_indicator,
        water_tank_level_monitoring_attribute_last_changed_time,
        water_tank_level_monitoring_attribute_replacement_product_list]"

definition water_tank_level_monitoring_commands :: "cmd_fn list" where
  "water_tank_level_monitoring_commands =
     [water_tank_level_monitoring_command_reset_condition]"

definition water_tank_level_monitoring_cluster :: cluster_decl where
  "water_tank_level_monitoring_cluster =
     \<lparr>cd_ids = water_tank_level_monitoring_ids,
      cd_callbacks = [],
      cd_features = water_tank_level_monitoring_features,
      cd_attributes = water_tank_level_monitoring_attributes,
      cd_commands = water_tank_level_monitoring_commands,
      cd_events = [],
      cd_create = Some water_tank_level_monitoring_create\<rparr>"

section \<open>\<open>webrtc_transport_provider\<close>\<close>

definition webrtc_transport_provider_attribute_current_sessions :: attr_fn where
  "webrtc_transport_provider_attribute_current_sessions =
     attr 0x0000 ATTRIBUTE_FLAG_MANAGED_INTERNALLY VT_ARRAY"

definition webrtc_transport_provider_command_solicit_offer :: cmd_fn where
  "webrtc_transport_provider_command_solicit_offer =
     cmd 0x00 COMMAND_FLAG_ACCEPTED None"

definition webrtc_transport_provider_command_solicit_offer_response :: cmd_fn where
  "webrtc_transport_provider_command_solicit_offer_response =
     cmd 0x01 COMMAND_FLAG_GENERATED None"

definition webrtc_transport_provider_command_provide_offer :: cmd_fn where
  "webrtc_transport_provider_command_provide_offer =
     cmd 0x02 COMMAND_FLAG_ACCEPTED None"

definition webrtc_transport_provider_command_provide_offer_response :: cmd_fn where
  "webrtc_transport_provider_command_provide_offer_response =
     cmd 0x03 COMMAND_FLAG_GENERATED None"

definition webrtc_transport_provider_command_provide_answer :: cmd_fn where
  "webrtc_transport_provider_command_provide_answer =
     cmd 0x04 COMMAND_FLAG_ACCEPTED None"

definition webrtc_transport_provider_command_provide_ice_candidates :: cmd_fn where
  "webrtc_transport_provider_command_provide_ice_candidates =
     cmd 0x05 COMMAND_FLAG_ACCEPTED None"

definition webrtc_transport_provider_command_end_session :: cmd_fn where
  "webrtc_transport_provider_command_end_session =
     cmd 0x06 COMMAND_FLAG_ACCEPTED None"

definition webrtc_transport_provider_create :: cluster_fn where
  "webrtc_transport_provider_create =
     \<lparr>kf_id = 0x0553,
      kf_revision = 1,
      kf_functions = None,
      kf_function_flags = 0,
      kf_body = [Functions, Feature_Map 0, Cluster_Revision,
        Step (Attribute webrtc_transport_provider_attribute_current_sessions Null_Arr),
        Step (Command webrtc_transport_provider_command_solicit_offer),
        Step (Command webrtc_transport_provider_command_solicit_offer_response),
        Step (Command webrtc_transport_provider_command_provide_offer),
        Step (Command webrtc_transport_provider_command_provide_offer_response),
        Step (Command webrtc_transport_provider_command_provide_answer),
        Step (Command webrtc_transport_provider_command_provide_ice_candidates),
        Step (Command webrtc_transport_provider_command_end_session),
        Callbacks ''ESPMatterWebRTCTransportProviderClusterServerInitCallback''
          ''ESPMatterWebRTCTransportProviderClusterServerShutdownCallback''],
      kf_binding = True\<rparr>"

definition webrtc_transport_provider_ids :: cluster_ids where
  "webrtc_transport_provider_ids =
     \<lparr>ci_cluster = 0x0553,
      ci_features = [],
      ci_attributes = [(''CurrentSessions'', 0x0000)],
      ci_commands = [(''SolicitOffer'', 0x00), (''SolicitOfferResponse'', 0x01), (''ProvideOffer'', 0x02),
        (''ProvideOfferResponse'', 0x03), (''ProvideAnswer'', 0x04), (''ProvideICECandidates'', 0x05),
        (''EndSession'', 0x06)],
      ci_events = []\<rparr>"

definition webrtc_transport_provider_attributes :: "attr_fn list" where
  "webrtc_transport_provider_attributes =
     [webrtc_transport_provider_attribute_current_sessions]"

definition webrtc_transport_provider_commands :: "cmd_fn list" where
  "webrtc_transport_provider_commands =
     [webrtc_transport_provider_command_solicit_offer, webrtc_transport_provider_command_solicit_offer_response,
        webrtc_transport_provider_command_provide_offer,
        webrtc_transport_provider_command_provide_offer_response,
        webrtc_transport_provider_command_provide_answer,
        webrtc_transport_provider_command_provide_ice_candidates, webrtc_transport_provider_command_end_session]"

definition webrtc_transport_provider_cluster :: cluster_decl where
  "webrtc_transport_provider_cluster =
     \<lparr>cd_ids = webrtc_transport_provider_ids,
      cd_callbacks = [],
      cd_features = [],
      cd_attributes = webrtc_transport_provider_attributes,
      cd_commands = webrtc_transport_provider_commands,
      cd_events = [],
      cd_create = Some webrtc_transport_provider_create\<rparr>"

section \<open>\<open>webrtc_transport_requestor\<close>\<close>

definition webrtc_transport_requestor_attribute_current_sessions :: attr_fn where
  "webrtc_transport_requestor_attribute_current_sessions =
     attr 0x0000 ATTRIBUTE_FLAG_MANAGED_INTERNALLY VT_ARRAY"

definition webrtc_transport_requestor_command_offer :: cmd_fn where
  "webrtc_transport_requestor_command_offer =
     cmd 0x00 COMMAND_FLAG_ACCEPTED None"

definition webrtc_transport_requestor_command_answer :: cmd_fn where
  "webrtc_transport_requestor_command_answer =
     cmd 0x01 COMMAND_FLAG_ACCEPTED None"

definition webrtc_transport_requestor_command_ice_candidates :: cmd_fn where
  "webrtc_transport_requestor_command_ice_candidates =
     cmd 0x02 COMMAND_FLAG_ACCEPTED None"

definition webrtc_transport_requestor_command_end :: cmd_fn where
  "webrtc_transport_requestor_command_end =
     cmd 0x03 COMMAND_FLAG_ACCEPTED None"

definition webrtc_transport_requestor_create :: cluster_fn where
  "webrtc_transport_requestor_create =
     \<lparr>kf_id = 0x0554,
      kf_revision = 1,
      kf_functions = None,
      kf_function_flags = 0,
      kf_body = [Functions, Feature_Map 0, Cluster_Revision,
        Step (Attribute webrtc_transport_requestor_attribute_current_sessions Null_Arr),
        Step (Command webrtc_transport_requestor_command_offer),
        Step (Command webrtc_transport_requestor_command_answer),
        Step (Command webrtc_transport_requestor_command_ice_candidates),
        Step (Command webrtc_transport_requestor_command_end),
        Callbacks ''ESPMatterWebRTCTransportRequestorClusterServerInitCallback''
          ''ESPMatterWebRTCTransportRequestorClusterServerShutdownCallback''],
      kf_binding = True\<rparr>"

definition webrtc_transport_requestor_ids :: cluster_ids where
  "webrtc_transport_requestor_ids =
     \<lparr>ci_cluster = 0x0554,
      ci_features = [],
      ci_attributes = [(''CurrentSessions'', 0x0000)],
      ci_commands = [(''Offer'', 0x00), (''Answer'', 0x01), (''ICECandidates'', 0x02), (''End'', 0x03)],
      ci_events = []\<rparr>"

definition webrtc_transport_requestor_attributes :: "attr_fn list" where
  "webrtc_transport_requestor_attributes =
     [webrtc_transport_requestor_attribute_current_sessions]"

definition webrtc_transport_requestor_commands :: "cmd_fn list" where
  "webrtc_transport_requestor_commands =
     [webrtc_transport_requestor_command_offer, webrtc_transport_requestor_command_answer,
        webrtc_transport_requestor_command_ice_candidates, webrtc_transport_requestor_command_end]"

definition webrtc_transport_requestor_cluster :: cluster_decl where
  "webrtc_transport_requestor_cluster =
     \<lparr>cd_ids = webrtc_transport_requestor_ids,
      cd_callbacks = [],
      cd_features = [],
      cd_attributes = webrtc_transport_requestor_attributes,
      cd_commands = webrtc_transport_requestor_commands,
      cd_events = [],
      cd_create = Some webrtc_transport_requestor_create\<rparr>"

section \<open>\<open>wi_fi_network_diagnostics\<close>\<close>

definition wi_fi_network_diagnostics_packet_counts_id :: u32 where
  "wi_fi_network_diagnostics_packet_counts_id = 0x1"

definition wi_fi_network_diagnostics_error_counts_id :: u32 where
  "wi_fi_network_diagnostics_error_counts_id = 0x2"

definition wi_fi_network_diagnostics_attribute_bssid :: attr_fn where
  "wi_fi_network_diagnostics_attribute_bssid =
     attr 0x0000 ATTRIBUTE_FLAG_NULLABLE VT_OCTET_STRING"

definition wi_fi_network_diagnostics_attribute_security_type :: attr_fn where
  "wi_fi_network_diagnostics_attribute_security_type =
     bounded 0 5 (attr 0x0001 ATTRIBUTE_FLAG_NULLABLE VT_NULLABLE_ENUM8)"

definition wi_fi_network_diagnostics_attribute_wi_fi_version :: attr_fn where
  "wi_fi_network_diagnostics_attribute_wi_fi_version =
     bounded 0 6 (attr 0x0002 ATTRIBUTE_FLAG_NULLABLE VT_NULLABLE_ENUM8)"

definition wi_fi_network_diagnostics_attribute_channel_number :: attr_fn where
  "wi_fi_network_diagnostics_attribute_channel_number =
     bounded 0 65534 (attr 0x0003 ATTRIBUTE_FLAG_NULLABLE VT_NULLABLE_UINT16)"

definition wi_fi_network_diagnostics_attribute_rssi :: attr_fn where
  "wi_fi_network_diagnostics_attribute_rssi =
     bounded (- 120) 0 (attr 0x0004 ATTRIBUTE_FLAG_NULLABLE VT_NULLABLE_INT8)"

definition wi_fi_network_diagnostics_attribute_beacon_lost_count :: attr_fn where
  "wi_fi_network_diagnostics_attribute_beacon_lost_count =
     guarded (Has_Feature wi_fi_network_diagnostics_error_counts_id) (bounded 0 4294967294 (attr 0x0005
          ATTRIBUTE_FLAG_NULLABLE VT_NULLABLE_UINT32))"

definition wi_fi_network_diagnostics_attribute_beacon_rx_count :: attr_fn where
  "wi_fi_network_diagnostics_attribute_beacon_rx_count =
     guarded (Has_Feature wi_fi_network_diagnostics_packet_counts_id) (bounded 0 4294967294 (attr 0x0006
          ATTRIBUTE_FLAG_NULLABLE VT_NULLABLE_UINT32))"

definition wi_fi_network_diagnostics_attribute_packet_multicast_rx_count :: attr_fn where
  "wi_fi_network_diagnostics_attribute_packet_multicast_rx_count =
     guarded (Has_Feature wi_fi_network_diagnostics_packet_counts_id) (bounded 0 4294967294 (attr 0x0007
          ATTRIBUTE_FLAG_NULLABLE VT_NULLABLE_UINT32))"

definition wi_fi_network_diagnostics_attribute_packet_multicast_tx_count :: attr_fn where
  "wi_fi_network_diagnostics_attribute_packet_multicast_tx_count =
     guarded (Has_Feature wi_fi_network_diagnostics_packet_counts_id) (bounded 0 4294967294 (attr 0x0008
          ATTRIBUTE_FLAG_NULLABLE VT_NULLABLE_UINT32))"

definition wi_fi_network_diagnostics_attribute_packet_unicast_rx_count :: attr_fn where
  "wi_fi_network_diagnostics_attribute_packet_unicast_rx_count =
     guarded (Has_Feature wi_fi_network_diagnostics_packet_counts_id) (bounded 0 4294967294 (attr 0x0009
          ATTRIBUTE_FLAG_NULLABLE VT_NULLABLE_UINT32))"

definition wi_fi_network_diagnostics_attribute_packet_unicast_tx_count :: attr_fn where
  "wi_fi_network_diagnostics_attribute_packet_unicast_tx_count =
     guarded (Has_Feature wi_fi_network_diagnostics_packet_counts_id) (bounded 0 4294967294 (attr 0x000A
          ATTRIBUTE_FLAG_NULLABLE VT_NULLABLE_UINT32))"

definition wi_fi_network_diagnostics_attribute_current_max_rate :: attr_fn where
  "wi_fi_network_diagnostics_attribute_current_max_rate =
     bounded 0 4294967294 (attr 0x000B ATTRIBUTE_FLAG_NULLABLE VT_NULLABLE_UINT64)"

definition wi_fi_network_diagnostics_attribute_overrun_count :: attr_fn where
  "wi_fi_network_diagnostics_attribute_overrun_count =
     guarded (Has_Feature wi_fi_network_diagnostics_error_counts_id) (bounded 0 4294967294 (attr 0x000C
          ATTRIBUTE_FLAG_NULLABLE VT_NULLABLE_UINT64))"

definition wi_fi_network_diagnostics_command_reset_counts :: cmd_fn where
  "wi_fi_network_diagnostics_command_reset_counts =
     guarded_cmd (Has_Feature wi_fi_network_diagnostics_error_counts_id) (cmd 0x00 COMMAND_FLAG_ACCEPTED None)"

definition wi_fi_network_diagnostics_event_disconnection :: event_fn where
  "wi_fi_network_diagnostics_event_disconnection =
     event 0x00"

definition wi_fi_network_diagnostics_event_association_failure :: event_fn where
  "wi_fi_network_diagnostics_event_association_failure =
     event 0x01"

definition wi_fi_network_diagnostics_event_connection_status :: event_fn where
  "wi_fi_network_diagnostics_event_connection_status =
     event 0x02"

definition wi_fi_network_diagnostics_feature_packet_counts :: feature_fn where
  "wi_fi_network_diagnostics_feature_packet_counts =
     feature wi_fi_network_diagnostics_packet_counts_id True [Update_Feature_Map,
        Attribute wi_fi_network_diagnostics_attribute_beacon_rx_count (Field ''beacon_rx_count''),
        Attribute wi_fi_network_diagnostics_attribute_packet_multicast_rx_count (Field
          ''packet_multicast_rx_count''),
        Attribute wi_fi_network_diagnostics_attribute_packet_multicast_tx_count (Field
          ''packet_multicast_tx_count''),
        Attribute wi_fi_network_diagnostics_attribute_packet_unicast_rx_count (Field
          ''packet_unicast_rx_count''),
        Attribute wi_fi_network_diagnostics_attribute_packet_unicast_tx_count (Field
          ''packet_unicast_tx_count'')]"

definition wi_fi_network_diagnostics_feature_error_counts :: feature_fn where
  "wi_fi_network_diagnostics_feature_error_counts =
     feature wi_fi_network_diagnostics_error_counts_id True [Update_Feature_Map,
        Attribute wi_fi_network_diagnostics_attribute_beacon_lost_count (Field ''beacon_lost_count''),
        Attribute wi_fi_network_diagnostics_attribute_overrun_count (Field ''overrun_count''),
        Command wi_fi_network_diagnostics_command_reset_counts]"

definition wi_fi_network_diagnostics_create :: cluster_fn where
  "wi_fi_network_diagnostics_create =
     \<lparr>kf_id = 0x0036,
      kf_revision = 1,
      kf_functions = None,
      kf_function_flags = 0,
      kf_body = [Plugin ''MatterWiFiNetworkDiagnosticsPluginServerInitCallback'', Functions, Feature_Map 0,
        Cluster_Revision, Step (Attribute wi_fi_network_diagnostics_attribute_bssid (Field ''bssid'')),
        Step (Attribute wi_fi_network_diagnostics_attribute_security_type (Field ''security_type'')),
        Step (Attribute wi_fi_network_diagnostics_attribute_wi_fi_version (Field ''wi_fi_version'')),
        Step (Attribute wi_fi_network_diagnostics_attribute_channel_number (Field ''channel_number'')),
        Step (Attribute wi_fi_network_diagnostics_attribute_rssi (Field ''rssi'')),
        Callbacks ''ESPMatterWiFiNetworkDiagnosticsClusterServerInitCallback''
          ''ESPMatterWiFiNetworkDiagnosticsClusterServerShutdownCallback''],
      kf_binding = False\<rparr>"

definition wi_fi_network_diagnostics_ids :: cluster_ids where
  "wi_fi_network_diagnostics_ids =
     \<lparr>ci_cluster = 0x0036,
      ci_features = [(''PacketCounts'', 0x1), (''ErrorCounts'', 0x2)],
      ci_attributes = [(''BSSID'', 0x0000), (''SecurityType'', 0x0001), (''WiFiVersion'', 0x0002),
        (''ChannelNumber'', 0x0003), (''RSSI'', 0x0004), (''BeaconLostCount'', 0x0005), (''BeaconRxCount'',
        0x0006), (''PacketMulticastRxCount'', 0x0007), (''PacketMulticastTxCount'', 0x0008),
        (''PacketUnicastRxCount'', 0x0009), (''PacketUnicastTxCount'', 0x000A), (''CurrentMaxRate'', 0x000B),
        (''OverrunCount'', 0x000C)],
      ci_commands = [(''ResetCounts'', 0x00)],
      ci_events = [(''Disconnection'', 0x00), (''AssociationFailure'', 0x01), (''ConnectionStatus'',
        0x02)]\<rparr>"

definition wi_fi_network_diagnostics_features :: "feature_fn list" where
  "wi_fi_network_diagnostics_features =
     [wi_fi_network_diagnostics_feature_packet_counts, wi_fi_network_diagnostics_feature_error_counts]"

definition wi_fi_network_diagnostics_attributes :: "attr_fn list" where
  "wi_fi_network_diagnostics_attributes =
     [wi_fi_network_diagnostics_attribute_bssid, wi_fi_network_diagnostics_attribute_security_type,
        wi_fi_network_diagnostics_attribute_wi_fi_version, wi_fi_network_diagnostics_attribute_channel_number,
        wi_fi_network_diagnostics_attribute_rssi, wi_fi_network_diagnostics_attribute_beacon_lost_count,
        wi_fi_network_diagnostics_attribute_beacon_rx_count,
        wi_fi_network_diagnostics_attribute_packet_multicast_rx_count,
        wi_fi_network_diagnostics_attribute_packet_multicast_tx_count,
        wi_fi_network_diagnostics_attribute_packet_unicast_rx_count,
        wi_fi_network_diagnostics_attribute_packet_unicast_tx_count,
        wi_fi_network_diagnostics_attribute_current_max_rate, wi_fi_network_diagnostics_attribute_overrun_count]"

definition wi_fi_network_diagnostics_commands :: "cmd_fn list" where
  "wi_fi_network_diagnostics_commands =
     [wi_fi_network_diagnostics_command_reset_counts]"

definition wi_fi_network_diagnostics_events :: "event_fn list" where
  "wi_fi_network_diagnostics_events =
     [wi_fi_network_diagnostics_event_disconnection, wi_fi_network_diagnostics_event_association_failure,
        wi_fi_network_diagnostics_event_connection_status]"

definition wi_fi_network_diagnostics_cluster :: cluster_decl where
  "wi_fi_network_diagnostics_cluster =
     \<lparr>cd_ids = wi_fi_network_diagnostics_ids,
      cd_callbacks = [],
      cd_features = wi_fi_network_diagnostics_features,
      cd_attributes = wi_fi_network_diagnostics_attributes,
      cd_commands = wi_fi_network_diagnostics_commands,
      cd_events = wi_fi_network_diagnostics_events,
      cd_create = Some wi_fi_network_diagnostics_create\<rparr>"

section \<open>\<open>wi_fi_network_management\<close>\<close>

definition wi_fi_network_management_attribute_ssid :: attr_fn where
  "wi_fi_network_management_attribute_ssid =
     attr 0x0000 (ATTRIBUTE_FLAG_MANAGED_INTERNALLY OR ATTRIBUTE_FLAG_NULLABLE OR ATTRIBUTE_FLAG_NONVOLATILE)
          VT_OCTET_STRING"

definition wi_fi_network_management_attribute_passphrase_surrogate :: attr_fn where
  "wi_fi_network_management_attribute_passphrase_surrogate =
     attr 0x0001 (ATTRIBUTE_FLAG_MANAGED_INTERNALLY OR ATTRIBUTE_FLAG_NULLABLE OR ATTRIBUTE_FLAG_NONVOLATILE)
          VT_NULLABLE_UINT64"

definition wi_fi_network_management_command_network_passphrase_request :: cmd_fn where
  "wi_fi_network_management_command_network_passphrase_request =
     cmd 0x00 COMMAND_FLAG_ACCEPTED None"

definition wi_fi_network_management_command_network_passphrase_response :: cmd_fn where
  "wi_fi_network_management_command_network_passphrase_response =
     cmd 0x01 COMMAND_FLAG_GENERATED None"

definition wi_fi_network_management_create :: cluster_fn where
  "wi_fi_network_management_create =
     \<lparr>kf_id = 0x0451,
      kf_revision = 1,
      kf_functions = None,
      kf_function_flags = 0,
      kf_body = [Plugin ''MatterWiFiNetworkManagementPluginServerInitCallback'', Functions, Feature_Map 0,
        Cluster_Revision, Step (Attribute wi_fi_network_management_attribute_ssid Null_Str),
        Step (Attribute wi_fi_network_management_attribute_passphrase_surrogate (Lit 0)),
        Step (Command wi_fi_network_management_command_network_passphrase_request),
        Step (Command wi_fi_network_management_command_network_passphrase_response)],
      kf_binding = True\<rparr>"

definition wi_fi_network_management_ids :: cluster_ids where
  "wi_fi_network_management_ids =
     \<lparr>ci_cluster = 0x0451,
      ci_features = [],
      ci_attributes = [(''SSID'', 0x0000), (''PassphraseSurrogate'', 0x0001)],
      ci_commands = [(''NetworkPassphraseRequest'', 0x00), (''NetworkPassphraseResponse'', 0x01)],
      ci_events = []\<rparr>"

definition wi_fi_network_management_attributes :: "attr_fn list" where
  "wi_fi_network_management_attributes =
     [wi_fi_network_management_attribute_ssid, wi_fi_network_management_attribute_passphrase_surrogate]"

definition wi_fi_network_management_commands :: "cmd_fn list" where
  "wi_fi_network_management_commands =
     [wi_fi_network_management_command_network_passphrase_request,
        wi_fi_network_management_command_network_passphrase_response]"

definition wi_fi_network_management_cluster :: cluster_decl where
  "wi_fi_network_management_cluster =
     \<lparr>cd_ids = wi_fi_network_management_ids,
      cd_callbacks = [],
      cd_features = [],
      cd_attributes = wi_fi_network_management_attributes,
      cd_commands = wi_fi_network_management_commands,
      cd_events = [],
      cd_create = Some wi_fi_network_management_create\<rparr>"

section \<open>\<open>window_covering\<close>\<close>

definition window_covering_lift_id :: u32 where
  "window_covering_lift_id = 0x1"

definition window_covering_tilt_id :: u32 where
  "window_covering_tilt_id = 0x2"

definition window_covering_position_aware_lift_id :: u32 where
  "window_covering_position_aware_lift_id = 0x4"

definition window_covering_position_aware_tilt_id :: u32 where
  "window_covering_position_aware_tilt_id = 0x10"

definition window_covering_attribute_type :: attr_fn where
  "window_covering_attribute_type =
     bounded 0 10 (attr 0x0000 0 VT_ENUM8)"

definition window_covering_attribute_number_of_actuations_lift :: attr_fn where
  "window_covering_attribute_number_of_actuations_lift =
     bounded 0 65534 (attr 0x0005 ATTRIBUTE_FLAG_NONVOLATILE VT_UINT16)"

definition window_covering_attribute_number_of_actuations_tilt :: attr_fn where
  "window_covering_attribute_number_of_actuations_tilt =
     bounded 0 65534 (attr 0x0006 ATTRIBUTE_FLAG_NONVOLATILE VT_UINT16)"

definition window_covering_attribute_config_status :: attr_fn where
  "window_covering_attribute_config_status =
     bounded 0 127 (attr 0x0007 ATTRIBUTE_FLAG_NONVOLATILE VT_BITMAP8)"

definition window_covering_attribute_current_position_lift_percentage :: attr_fn where
  "window_covering_attribute_current_position_lift_percentage =
     bounded 0 254 (attr 0x0008 (ATTRIBUTE_FLAG_NULLABLE OR ATTRIBUTE_FLAG_NONVOLATILE) VT_NULLABLE_UINT8)"

definition window_covering_attribute_current_position_tilt_percentage :: attr_fn where
  "window_covering_attribute_current_position_tilt_percentage =
     bounded 0 254 (attr 0x0009 (ATTRIBUTE_FLAG_NULLABLE OR ATTRIBUTE_FLAG_NONVOLATILE) VT_NULLABLE_UINT8)"

definition window_covering_attribute_operational_status :: attr_fn where
  "window_covering_attribute_operational_status =
     bounded 0 7 (attr 0x000A 0 VT_BITMAP8)"

definition window_covering_attribute_target_position_lift_percent_100ths :: attr_fn where
  "window_covering_attribute_target_position_lift_percent_100ths =
     guarded (And (Has_Feature window_covering_lift_id) (Has_Feature window_covering_position_aware_lift_id))
          (bounded 0 65534 (attr 0x000B ATTRIBUTE_FLAG_NULLABLE VT_NULLABLE_UINT16))"

definition window_covering_attribute_target_position_tilt_percent_100ths :: attr_fn where
  "window_covering_attribute_target_position_tilt_percent_100ths =
     guarded (And (Has_Feature window_covering_tilt_id) (Has_Feature window_covering_position_aware_tilt_id))
          (bounded 0 65534 (attr 0x000C ATTRIBUTE_FLAG_NULLABLE VT_NULLABLE_UINT16))"

definition window_covering_attribute_end_product_type :: attr_fn where
  "window_covering_attribute_end_product_type =
     bounded 0 24 (attr 0x000D 0 VT_ENUM8)"

definition window_covering_attribute_current_position_lift_percent_100ths :: attr_fn where
  "window_covering_attribute_current_position_lift_percent_100ths =
     guarded (And (Has_Feature window_covering_lift_id) (Has_Feature window_covering_position_aware_lift_id))
          (bounded 0 10000 (attr 0x000E (ATTRIBUTE_FLAG_NULLABLE OR ATTRIBUTE_FLAG_NONVOLATILE)
          VT_NULLABLE_UINT16))"

definition window_covering_attribute_current_position_tilt_percent_100ths :: attr_fn where
  "window_covering_attribute_current_position_tilt_percent_100ths =
     guarded (And (Has_Feature window_covering_tilt_id) (Has_Feature window_covering_position_aware_tilt_id))
          (bounded 0 10000 (attr 0x000F (ATTRIBUTE_FLAG_NULLABLE OR ATTRIBUTE_FLAG_NONVOLATILE)
          VT_NULLABLE_UINT16))"

definition window_covering_attribute_mode :: attr_fn where
  "window_covering_attribute_mode =
     bounded 0 15 (attr 0x0017 (ATTRIBUTE_FLAG_WRITABLE OR ATTRIBUTE_FLAG_NONVOLATILE) VT_BITMAP8)"

definition window_covering_attribute_safety_status :: attr_fn where
  "window_covering_attribute_safety_status =
     bounded 0 4095 (attr 0x001A 0 VT_BITMAP16)"

definition window_covering_callback_up_or_open :: callback_fn where
  "window_covering_callback_up_or_open =
     decodes_to ''WindowCovering::Commands::UpOrOpen'' ''emberAfWindowCoveringClusterUpOrOpenCallback''"

definition window_covering_callback_down_or_close :: callback_fn where
  "window_covering_callback_down_or_close =
     decodes_to ''WindowCovering::Commands::DownOrClose'' ''emberAfWindowCoveringClusterDownOrCloseCallback''"

definition window_covering_callback_stop_motion :: callback_fn where
  "window_covering_callback_stop_motion =
     decodes_to ''WindowCovering::Commands::StopMotion'' ''emberAfWindowCoveringClusterStopMotionCallback''"

definition window_covering_callback_go_to_lift_percentage :: callback_fn where
  "window_covering_callback_go_to_lift_percentage =
     decodes_to ''WindowCovering::Commands::GoToLiftPercentage''
          ''emberAfWindowCoveringClusterGoToLiftPercentageCallback''"

definition window_covering_callback_go_to_tilt_percentage :: callback_fn where
  "window_covering_callback_go_to_tilt_percentage =
     decodes_to ''WindowCovering::Commands::GoToTiltPercentage''
          ''emberAfWindowCoveringClusterGoToTiltPercentageCallback''"

definition window_covering_command_up_or_open :: cmd_fn where
  "window_covering_command_up_or_open =
     cmd 0x00 COMMAND_FLAG_ACCEPTED (Some ''window_covering.esp_matter_command_callback_up_or_open'')"

definition window_covering_command_down_or_close :: cmd_fn where
  "window_covering_command_down_or_close =
     cmd 0x01 COMMAND_FLAG_ACCEPTED (Some ''window_covering.esp_matter_command_callback_down_or_close'')"

definition window_covering_command_stop_motion :: cmd_fn where
  "window_covering_command_stop_motion =
     cmd 0x02 COMMAND_FLAG_ACCEPTED (Some ''window_covering.esp_matter_command_callback_stop_motion'')"

definition window_covering_command_go_to_lift_percentage :: cmd_fn where
  "window_covering_command_go_to_lift_percentage =
     cmd 0x05 COMMAND_FLAG_ACCEPTED (Some ''window_covering.esp_matter_command_callback_go_to_lift_percentage'')"

definition window_covering_command_go_to_tilt_percentage :: cmd_fn where
  "window_covering_command_go_to_tilt_percentage =
     cmd 0x08 COMMAND_FLAG_ACCEPTED (Some ''window_covering.esp_matter_command_callback_go_to_tilt_percentage'')"

definition window_covering_feature_lift :: feature_fn where
  "window_covering_feature_lift =
     feature window_covering_lift_id True [Update_Feature_Map,
        Attribute window_covering_attribute_target_position_lift_percent_100ths (Field
          ''target_position_lift_percent_100ths''),
        Attribute window_covering_attribute_current_position_lift_percent_100ths (Field
          ''current_position_lift_percent_100ths''), Command window_covering_command_go_to_lift_percentage]"

definition window_covering_feature_tilt :: feature_fn where
  "window_covering_feature_tilt =
     feature window_covering_tilt_id True [Update_Feature_Map,
        Attribute window_covering_attribute_target_position_tilt_percent_100ths (Field
          ''target_position_tilt_percent_100ths''),
        Attribute window_covering_attribute_current_position_tilt_percent_100ths (Field
          ''current_position_tilt_percent_100ths''), Command window_covering_command_go_to_tilt_percentage]"

definition window_covering_feature_position_aware_lift :: feature_fn where
  "window_covering_feature_position_aware_lift =
     feature window_covering_position_aware_lift_id True [Require (Has_Feature window_covering_lift_id),
        Update_Feature_Map,
        Attribute window_covering_attribute_target_position_lift_percent_100ths (Field
          ''target_position_lift_percent_100ths''),
        Attribute window_covering_attribute_current_position_lift_percent_100ths (Field
          ''current_position_lift_percent_100ths''), Command window_covering_command_go_to_lift_percentage]"

definition window_covering_feature_position_aware_tilt :: feature_fn where
  "window_covering_feature_position_aware_tilt =
     feature window_covering_position_aware_tilt_id True [Require (Has_Feature window_covering_tilt_id),
        Update_Feature_Map,
        Attribute window_covering_attribute_target_position_tilt_percent_100ths (Field
          ''target_position_tilt_percent_100ths''),
        Attribute window_covering_attribute_current_position_tilt_percent_100ths (Field
          ''current_position_tilt_percent_100ths''), Command window_covering_command_go_to_tilt_percentage]"

definition window_covering_function_list :: "string list option" where
  "window_covering_function_list =
     Some [''MatterWindowCoveringClusterServerAttributeChangedCallback'']"

definition window_covering_create :: cluster_fn where
  "window_covering_create =
     \<lparr>kf_id = 0x0102,
      kf_revision = 7,
      kf_functions = window_covering_function_list,
      kf_function_flags = CLUSTER_FLAG_ATTRIBUTE_CHANGED_FUNCTION,
      kf_body = [Delegate ''WindowCoveringDelegateInitCB'',
        Plugin ''MatterWindowCoveringPluginServerInitCallback'', Functions, Config_Feature_Map,
        Cluster_Revision, Step (Attribute window_covering_attribute_type (Field ''type'')),
        Step (Attribute window_covering_attribute_config_status (Field ''config_status'')),
        Step (Attribute window_covering_attribute_operational_status (Field ''operational_status'')),
        Step (Attribute window_covering_attribute_end_product_type (Field ''end_product_type'')),
        Step (Attribute window_covering_attribute_mode (Field ''mode'')),
        Validate k_at_least_one [window_covering_lift_id, window_covering_tilt_id],
        If_Feature window_covering_lift_id [Add_Feature window_covering_feature_lift ''lift''] [],
        If_Feature window_covering_tilt_id [Add_Feature window_covering_feature_tilt ''tilt''] [],
        If_Feature window_covering_position_aware_lift_id [Add_Feature
          window_covering_feature_position_aware_lift ''position_aware_lift''] [],
        If_Feature window_covering_position_aware_tilt_id [Add_Feature
          window_covering_feature_position_aware_tilt ''position_aware_tilt''] [],
        Step (Command window_covering_command_up_or_open), Step (Command window_covering_command_down_or_close),
        Step (Command window_covering_command_stop_motion)],
      kf_binding = True\<rparr>"

definition window_covering_ids :: cluster_ids where
  "window_covering_ids =
     \<lparr>ci_cluster = 0x0102,
      ci_features = [(''Lift'', 0x1), (''Tilt'', 0x2), (''PositionAwareLift'', 0x4), (''PositionAwareTilt'',
        0x10)],
      ci_attributes = [(''Type'', 0x0000), (''NumberOfActuationsLift'', 0x0005), (''NumberOfActuationsTilt'',
        0x0006), (''ConfigStatus'', 0x0007), (''CurrentPositionLiftPercentage'', 0x0008),
        (''CurrentPositionTiltPercentage'', 0x0009), (''OperationalStatus'', 0x000A),
        (''TargetPositionLiftPercent100ths'', 0x000B), (''TargetPositionTiltPercent100ths'', 0x000C),
        (''EndProductType'', 0x000D), (''CurrentPositionLiftPercent100ths'', 0x000E),
        (''CurrentPositionTiltPercent100ths'', 0x000F), (''Mode'', 0x0017), (''SafetyStatus'', 0x001A)],
      ci_commands = [(''UpOrOpen'', 0x00), (''DownOrClose'', 0x01), (''StopMotion'', 0x02),
        (''GoToLiftPercentage'', 0x05), (''GoToTiltPercentage'', 0x08)],
      ci_events = []\<rparr>"

definition window_covering_features :: "feature_fn list" where
  "window_covering_features =
     [window_covering_feature_lift, window_covering_feature_tilt, window_covering_feature_position_aware_lift,
        window_covering_feature_position_aware_tilt]"

definition window_covering_attributes :: "attr_fn list" where
  "window_covering_attributes =
     [window_covering_attribute_type, window_covering_attribute_number_of_actuations_lift,
        window_covering_attribute_number_of_actuations_tilt, window_covering_attribute_config_status,
        window_covering_attribute_current_position_lift_percentage,
        window_covering_attribute_current_position_tilt_percentage,
        window_covering_attribute_operational_status,
        window_covering_attribute_target_position_lift_percent_100ths,
        window_covering_attribute_target_position_tilt_percent_100ths,
        window_covering_attribute_end_product_type,
        window_covering_attribute_current_position_lift_percent_100ths,
        window_covering_attribute_current_position_tilt_percent_100ths, window_covering_attribute_mode,
        window_covering_attribute_safety_status]"

definition window_covering_commands :: "cmd_fn list" where
  "window_covering_commands =
     [window_covering_command_up_or_open, window_covering_command_down_or_close, window_covering_command_stop_motion,
        window_covering_command_go_to_lift_percentage, window_covering_command_go_to_tilt_percentage]"

definition window_covering_callbacks :: "(string \<times> callback_fn) list" where
  "window_covering_callbacks =
     [(''window_covering.esp_matter_command_callback_up_or_open'', window_covering_callback_up_or_open),
        (''window_covering.esp_matter_command_callback_down_or_close'', window_covering_callback_down_or_close),
        (''window_covering.esp_matter_command_callback_stop_motion'', window_covering_callback_stop_motion),
        (''window_covering.esp_matter_command_callback_go_to_lift_percentage'',
        window_covering_callback_go_to_lift_percentage),
        (''window_covering.esp_matter_command_callback_go_to_tilt_percentage'',
        window_covering_callback_go_to_tilt_percentage)]"

definition window_covering_cluster :: cluster_decl where
  "window_covering_cluster =
     \<lparr>cd_ids = window_covering_ids,
      cd_callbacks = window_covering_callbacks,
      cd_features = window_covering_features,
      cd_attributes = window_covering_attributes,
      cd_commands = window_covering_commands,
      cd_events = [],
      cd_create = Some window_covering_create\<rparr>"

section \<open>\<open>zone_management\<close>\<close>

definition zone_management_two_dimensional_cartesian_zone_id :: u32 where
  "zone_management_two_dimensional_cartesian_zone_id = 0x1"

definition zone_management_per_zone_sensitivity_id :: u32 where
  "zone_management_per_zone_sensitivity_id = 0x2"

definition zone_management_user_defined_id :: u32 where
  "zone_management_user_defined_id = 0x4"

definition zone_management_focus_zones_id :: u32 where
  "zone_management_focus_zones_id = 0x8"

definition zone_management_attribute_max_user_defined_zones :: attr_fn where
  "zone_management_attribute_max_user_defined_zones =
     guarded (Has_Feature zone_management_user_defined_id) (attr 0x0000 ATTRIBUTE_FLAG_MANAGED_INTERNALLY VT_UINT8)"

definition zone_management_attribute_max_zones :: attr_fn where
  "zone_management_attribute_max_zones =
     attr 0x0001 ATTRIBUTE_FLAG_MANAGED_INTERNALLY VT_UINT8"

definition zone_management_attribute_zones :: attr_fn where
  "zone_management_attribute_zones =
     attr 0x0002 (ATTRIBUTE_FLAG_MANAGED_INTERNALLY OR ATTRIBUTE_FLAG_NONVOLATILE) VT_ARRAY"

definition zone_management_attribute_triggers :: attr_fn where
  "zone_management_attribute_triggers =
     attr 0x0003 (ATTRIBUTE_FLAG_MANAGED_INTERNALLY OR ATTRIBUTE_FLAG_NONVOLATILE) VT_ARRAY"

definition zone_management_attribute_sensitivity_max :: attr_fn where
  "zone_management_attribute_sensitivity_max =
     attr 0x0004 ATTRIBUTE_FLAG_MANAGED_INTERNALLY VT_UINT8"

definition zone_management_attribute_sensitivity :: attr_fn where
  "zone_management_attribute_sensitivity =
     guarded (Not (Has_Feature zone_management_per_zone_sensitivity_id)) (attr 0x0005 (ATTRIBUTE_FLAG_WRITABLE OR
          ATTRIBUTE_FLAG_MANAGED_INTERNALLY OR ATTRIBUTE_FLAG_NONVOLATILE) VT_UINT8)"

definition zone_management_attribute_two_d_cartesian_max :: attr_fn where
  "zone_management_attribute_two_d_cartesian_max =
     guarded (Has_Feature zone_management_two_dimensional_cartesian_zone_id) (attr 0x0006
          ATTRIBUTE_FLAG_MANAGED_INTERNALLY VT_ARRAY)"

definition zone_management_command_create_two_d_cartesian_zone :: cmd_fn where
  "zone_management_command_create_two_d_cartesian_zone =
     guarded_cmd (And (Has_Feature zone_management_two_dimensional_cartesian_zone_id) (Has_Feature
          zone_management_user_defined_id)) (cmd 0x00 COMMAND_FLAG_ACCEPTED None)"

definition zone_management_command_create_two_d_cartesian_zone_response :: cmd_fn where
  "zone_management_command_create_two_d_cartesian_zone_response =
     guarded_cmd (And (Has_Feature zone_management_two_dimensional_cartesian_zone_id) (Has_Feature
          zone_management_user_defined_id)) (cmd 0x01 COMMAND_FLAG_GENERATED None)"

definition zone_management_command_update_two_d_cartesian_zone :: cmd_fn where
  "zone_management_command_update_two_d_cartesian_zone =
     guarded_cmd (And (Has_Feature zone_management_two_dimensional_cartesian_zone_id) (Has_Feature
          zone_management_user_defined_id)) (cmd 0x02 COMMAND_FLAG_ACCEPTED None)"

definition zone_management_command_remove_zone :: cmd_fn where
  "zone_management_command_remove_zone =
     guarded_cmd (Has_Feature zone_management_user_defined_id) (cmd 0x03 COMMAND_FLAG_ACCEPTED None)"

definition zone_management_command_create_or_update_trigger :: cmd_fn where
  "zone_management_command_create_or_update_trigger =
     cmd 0x04 COMMAND_FLAG_ACCEPTED None"

definition zone_management_command_remove_trigger :: cmd_fn where
  "zone_management_command_remove_trigger =
     cmd 0x05 COMMAND_FLAG_ACCEPTED None"

definition zone_management_event_zone_triggered :: event_fn where
  "zone_management_event_zone_triggered =
     event 0x00"

definition zone_management_event_zone_stopped :: event_fn where
  "zone_management_event_zone_stopped =
     event 0x01"

definition zone_management_feature_two_dimensional_cartesian_zone :: feature_fn where
  "zone_management_feature_two_dimensional_cartesian_zone =
     feature zone_management_two_dimensional_cartesian_zone_id False [Update_Feature_Map,
        Attribute zone_management_attribute_two_d_cartesian_max Null_Arr,
        Command zone_management_command_create_two_d_cartesian_zone,
        Command zone_management_command_create_two_d_cartesian_zone_response,
        Command zone_management_command_update_two_d_cartesian_zone]"

definition zone_management_feature_per_zone_sensitivity :: feature_fn where
  "zone_management_feature_per_zone_sensitivity =
     feature zone_management_per_zone_sensitivity_id False [Require (Has_Feature
          zone_management_two_dimensional_cartesian_zone_id), Update_Feature_Map, Destroy_Attribute 0x05]"

definition zone_management_feature_user_defined :: feature_fn where
  "zone_management_feature_user_defined =
     feature zone_management_user_defined_id False [Require (Has_Feature
          zone_management_two_dimensional_cartesian_zone_id), Update_Feature_Map,
        Attribute zone_management_attribute_max_user_defined_zones (Lit 0),
        Command zone_management_command_create_two_d_cartesian_zone,
        Command zone_management_command_create_two_d_cartesian_zone_response,
        Command zone_management_command_update_two_d_cartesian_zone,
        Command zone_management_command_remove_zone]"

definition zone_management_feature_focus_zones :: feature_fn where
  "zone_management_feature_focus_zones =
     feature zone_management_focus_zones_id False [Require (Has_Feature zone_management_user_defined_id),
        Update_Feature_Map]"

definition zone_management_create :: cluster_fn where
  "zone_management_create =
     \<lparr>kf_id = 0x0550,
      kf_revision = 1,
      kf_functions = None,
      kf_function_flags = 0,
      kf_body = [Plugin ''MatterZoneManagementPluginServerInitCallback'', Functions, Feature_Map 0,
        Cluster_Revision, Step (Attribute zone_management_attribute_max_zones (Lit 0)),
        Step (Attribute zone_management_attribute_zones Null_Arr),
        Step (Attribute zone_management_attribute_triggers Null_Arr),
        Step (Attribute zone_management_attribute_sensitivity_max (Lit 0)),
        Step (Attribute zone_management_attribute_sensitivity (Lit 0)),
        Step (Command zone_management_command_create_or_update_trigger),
        Step (Command zone_management_command_remove_trigger),
        Step (Event zone_management_event_zone_triggered), Step (Event zone_management_event_zone_stopped)],
      kf_binding = True\<rparr>"

definition zone_management_ids :: cluster_ids where
  "zone_management_ids =
     \<lparr>ci_cluster = 0x0550,
      ci_features = [(''TwoDimensionalCartesianZone'', 0x1), (''PerZoneSensitivity'', 0x2), (''UserDefined'',
        0x4), (''FocusZones'', 0x8)],
      ci_attributes = [(''MaxUserDefinedZones'', 0x0000), (''MaxZones'', 0x0001), (''Zones'', 0x0002),
        (''Triggers'', 0x0003), (''SensitivityMax'', 0x0004), (''Sensitivity'', 0x0005), (''TwoDCartesianMax'',
        0x0006)],
      ci_commands = [(''CreateTwoDCartesianZone'', 0x00), (''CreateTwoDCartesianZoneResponse'', 0x01),
        (''UpdateTwoDCartesianZone'', 0x02), (''RemoveZone'', 0x03), (''CreateOrUpdateTrigger'', 0x04),
        (''RemoveTrigger'', 0x05)],
      ci_events = [(''ZoneTriggered'', 0x00), (''ZoneStopped'', 0x01)]\<rparr>"

definition zone_management_features :: "feature_fn list" where
  "zone_management_features =
     [zone_management_feature_two_dimensional_cartesian_zone, zone_management_feature_per_zone_sensitivity,
        zone_management_feature_user_defined, zone_management_feature_focus_zones]"

definition zone_management_attributes :: "attr_fn list" where
  "zone_management_attributes =
     [zone_management_attribute_max_user_defined_zones, zone_management_attribute_max_zones,
        zone_management_attribute_zones, zone_management_attribute_triggers,
        zone_management_attribute_sensitivity_max, zone_management_attribute_sensitivity,
        zone_management_attribute_two_d_cartesian_max]"

definition zone_management_commands :: "cmd_fn list" where
  "zone_management_commands =
     [zone_management_command_create_two_d_cartesian_zone,
        zone_management_command_create_two_d_cartesian_zone_response,
        zone_management_command_update_two_d_cartesian_zone, zone_management_command_remove_zone,
        zone_management_command_create_or_update_trigger, zone_management_command_remove_trigger]"

definition zone_management_events :: "event_fn list" where
  "zone_management_events =
     [zone_management_event_zone_triggered, zone_management_event_zone_stopped]"

definition zone_management_cluster :: cluster_decl where
  "zone_management_cluster =
     \<lparr>cd_ids = zone_management_ids,
      cd_callbacks = [],
      cd_features = zone_management_features,
      cd_attributes = zone_management_attributes,
      cd_commands = zone_management_commands,
      cd_events = zone_management_events,
      cd_create = Some zone_management_create\<rparr>"

section \<open>Checks\<close>

definition additive_12 :: "cluster_decl list" where
  "additive_12 =
     [total_volatile_organic_compounds_concentration_measurement_cluster, unit_localization_cluster,
        user_label_cluster, valve_configuration_and_control_cluster, wake_on_lan_cluster,
        water_heater_management_cluster, water_heater_mode_cluster, water_tank_level_monitoring_cluster,
        webrtc_transport_provider_cluster, webrtc_transport_requestor_cluster,
        wi_fi_network_diagnostics_cluster, wi_fi_network_management_cluster, window_covering_cluster]"

lemma additive_12_ok: "list_all decl_ok additive_12"
  by code_simp

lemma additive_12_order: "list_all (\<lambda>d. order_ok (cd_features d)) additive_12"
  by code_simp

lemma zone_management_cluster_ok: "decl_ok zone_management_cluster"
  by code_simp

end
