(* ===== verification/EM_Clusters.thy ===== *)
theory EM_Clusters
  imports EM_Clusters_01 EM_Clusters_02 EM_Clusters_03 EM_Clusters_04 EM_Clusters_05 EM_Clusters_06
    EM_Clusters_07 EM_Clusters_08 EM_Clusters_09 EM_Clusters_10 EM_Clusters_11 EM_Clusters_12
begin

text \<open>
  The catalogue of the generated clusters as a whole, and what holds of every cluster in it: \<open>create\<close>
  computes the described cluster, attributes are created with the declared type and within the
  declared bounds, and the order in which features are added makes no difference.
\<close>

section \<open>The catalogue\<close>

text \<open>The clusters whose features only add elements, and those with a feature that removes some.\<close>

definition additive_clusters :: "cluster_decl list" where
  "additive_clusters =
     additive_01 @ additive_02 @ additive_03 @ additive_04 @ additive_05 @ additive_06 @
     additive_07 @ additive_08 @ additive_09 @ additive_10 @ additive_11 @ additive_12"

definition subtractive_clusters :: "cluster_decl list" where
  "subtractive_clusters =
     [closure_control_cluster, on_off_cluster, switch_cluster_cluster, zone_management_cluster]"

definition generated_clusters :: "cluster_decl list" where
  "generated_clusters = additive_clusters @ subtractive_clusters"

lemmas additive_ok =
  additive_01_ok additive_02_ok additive_03_ok additive_04_ok additive_05_ok additive_06_ok
  additive_07_ok additive_08_ok additive_09_ok additive_10_ok additive_11_ok additive_12_ok

lemmas additive_order =
  additive_01_order additive_02_order additive_03_order additive_04_order additive_05_order additive_06_order
  additive_07_order additive_08_order additive_09_order additive_10_order additive_11_order additive_12_order

lemma additive_clusters_ok: "list_all decl_ok additive_clusters"
  by (simp add: additive_clusters_def additive_ok)

lemma additive_clusters_order: "list_all (\<lambda>d. order_ok (cd_features d)) additive_clusters"
  by (simp add: additive_clusters_def additive_order)

lemma subtractive_clusters_ok: "list_all decl_ok subtractive_clusters"
  by (simp add: subtractive_clusters_def closure_control_cluster_ok on_off_cluster_ok switch_cluster_cluster_ok
      zone_management_cluster_ok)

lemma generated_ok:
  assumes "d \<in> set generated_clusters"
  shows "decl_ok d"
proof -
  have "list_all decl_ok generated_clusters"
    using additive_clusters_ok subtractive_clusters_ok by (simp add: generated_clusters_def)
  then show ?thesis using assms by (auto simp: list_all_iff)
qed

lemma additive_ordered:
  assumes "d \<in> set additive_clusters"
  shows "order_ok (cd_features d)" "decl_ok d"
  using additive_clusters_order additive_clusters_ok assms by (auto simp: list_all_iff)

section \<open>Concrete instance\<close>

definition demo_gen :: "(flash, tlv_elem) gen" where
  "demo_gen =
     \<lparr>g_env = demo_env, g_prov = demo_prov, g_write = set_val_via_write_attribute demo_env demo_prov demo_change demo_metadata,
      g_symbol = (\<lambda>f. 1), g_built = (\<lambda>m. False),
      g_asserts = False\<rparr>"

lemma demo_gen_simps [simp]:
  "g_env demo_gen = demo_env" "g_prov demo_gen = demo_prov" "g_built demo_gen m = False" "\<not> g_asserts demo_gen"
  by (simp_all add: demo_gen_def)

lemma demo_gen_ok: "gen_ok demo_gen"
  by (simp add: gen_ok_def std_traits_ok elem_api_ok app_accepts_def demo_keeps_value) (simp add: elem_api_def)

lemma demo_eps: "eps demo 2 = Some demo_endpoint" "ep_id demo_endpoint = 1" "ep_clusters demo_endpoint = [3]"
  by (simp_all add: demo_endpoint_def)

section \<open>Creation of a cluster\<close>

text \<open>C1: the \<open>create\<close> function of every generated cluster computes the cluster it describes.  On a
  well-formed store in which memory does not run out and the endpoint has no such cluster yet, it
  ends; when the description on shapes succeeds, the new cluster has exactly the feature map,
  attributes, commands and events of the description and the other clusters of the node are as before.
  When it gives up, the program aborts, or without assertions the call returns \<open>NULL\<close> and leaves the
  endpoints and clusters as they were.\<close>

theorem cluster_create_refines:
  assumes "d \<in> set generated_clusters" "cd_create d = Some k"
    and "gen_ok G" "dm_inv s" "never_fails (mem s)"
    and "eps s p = Some e" "cluster_get s (Some p) (kf_id k) = Some None" "plain_path (g_prov G) (ep_id e) (kf_id k)"
    and "list_all (cargs_ok config) (kf_body k)"
    and "has_flag flags CLUSTER_FLAG_SERVER" "low_flags flags = 0" "\<not> has_flag flags CLUSTER_FLAG_CLIENT"
  shows "if fst (sh_create (g_built G) k config) then
      \<exists>c s'. create G binding_create k (Some p) (Some config) flags s = Some (Some c, s') \<and> dm_inv s' \<and> cls s c = None \<and>
        eps s' = (eps s)(p \<mapsto> e\<lparr>ep_clusters := ep_clusters e @ [c]\<rparr>) \<and>
        ready G s' c \<and> cl_id (the (cls s' c)) = kf_id k \<and> node s' = node s \<and>
        shape s' c = snd (sh_create (g_built G) k config) \<and>
        (\<forall>d. cls s d \<noteq> None \<longrightarrow> cls s' d = cls s d \<and> shape s' d = shape s d)
    else if g_asserts G then create G binding_create k (Some p) (Some config) flags s = None
    else \<exists>s'. create G binding_create k (Some p) (Some config) flags s = Some (None, s') \<and> dm_inv s' \<and>
        eps s' = eps s \<and> cls s' = cls s \<and> (\<forall>d. cls s d \<noteq> None \<longrightarrow> shape s' d = shape s d)"
proof -
  have "cluster_ok k" using generated_ok[OF assms(1)] assms(2) by (simp add: decl_ok_def)
  then show ?thesis by (rule create_refines[OF assms(3-8) _ assms(9-)])
qed

text \<open>The laundry washer controls, whose \<open>create\<close> asks for one of two features.\<close>

definition demo_features :: "u32 \<Rightarrow> config" where
  "demo_features v = empty_config\<lparr>co_feature_flags := v\<rparr>"

lemma washer_generated:
  "laundry_washer_controls_cluster \<in> set generated_clusters"
  "cd_create laundry_washer_controls_cluster = Some laundry_washer_controls_create"
  by (simp_all add: generated_clusters_def additive_clusters_def additive_06_def laundry_washer_controls_cluster_def)

lemma number_args_ok: "args_ok (\<lambda>_. Num 0) st"
  by (induction st) (simp_all add: arg_ok_def split: argx.splits)

lemma demo_features_ok: "cargs_ok (demo_features v) st"
  by (induction "demo_features v" st rule: cargs_ok.induct)
     (simp_all add: demo_features_def empty_config_def number_args_ok list_all_iff)

definition outline :: "cluster_fn \<Rightarrow> u32 \<Rightarrow> bool \<times> u32 option \<times> u32 list" where
  "outline k v =
     (case sh_create (\<lambda>m. False) k (demo_features v) of (ok, sh) \<Rightarrow> (ok, sh_feature_map sh, map fst (sh_attributes sh)))"

lemma washer_outline:
  "outline laundry_washer_controls_create 1 = (True, Some (1 OR 1), [0xFFFC, 0xFFFD, 1, 0])"
  "outline laundry_washer_controls_create 4 = (False, Some 4, [0xFFFC, 0xFFFD])"
  "kf_id laundry_washer_controls_create = 0x53"
  by code_simp+

theorem cluster_create_refines_witness:
  "(\<exists>c s'. create demo_gen binding_create laundry_washer_controls_create (Some 2) (Some (demo_features 1)) CLUSTER_FLAG_SERVER demo =
      Some (Some c, s') \<and> sh_feature_map (shape s' c) = Some 1 \<and> map fst (sh_attributes (shape s' c)) = [0xFFFC, 0xFFFD, 1, 0]) \<and>
   (\<exists>s'. create demo_gen binding_create laundry_washer_controls_create (Some 2) (Some (demo_features 4)) CLUSTER_FLAG_SERVER demo =
      Some (None, s') \<and> cls s' = cls demo)"
proof -
  let ?k = laundry_washer_controls_create
  have g: "g_built demo_gen = (\<lambda>m. False)" by (simp add: demo_gen_def)
  have fl: "has_flag CLUSTER_FLAG_SERVER CLUSTER_FLAG_SERVER" "low_flags CLUSTER_FLAG_SERVER = 0"
      "\<not> has_flag CLUSTER_FLAG_SERVER CLUSTER_FLAG_CLIENT"
    by (simp_all add: has_flag_def low_flags_def flag_defs)
  have get: "cluster_get demo (Some 2) (kf_id ?k) = Some None"
    by (simp add: cluster_get_def demo_endpoint_def demo_cluster_def washer_outline(3))
  have path: "plain_path (g_prov demo_gen) (ep_id demo_endpoint) (kf_id ?k)"
    by (simp add: plain_path_def washer_outline(3))
  have ok: "list_all (cargs_ok (demo_features v)) (kf_body ?k)" for v by (simp add: list_all_iff demo_features_ok)
  note r = cluster_create_refines[OF washer_generated demo_gen_ok demo_inv demo_never_fails demo_eps(1) get path ok fl, unfolded g]
  have sh: "fst (sh_create (\<lambda>m. False) ?k (demo_features 1))"
      "sh_feature_map (snd (sh_create (\<lambda>m. False) ?k (demo_features 1))) = Some 1"
      "map fst (sh_attributes (snd (sh_create (\<lambda>m. False) ?k (demo_features 1)))) = [0xFFFC, 0xFFFD, 1, 0]"
      "\<not> fst (sh_create (\<lambda>m. False) ?k (demo_features 4))"
    using washer_outline(1,2) by (simp_all add: outline_def case_prod_beta)
  show ?thesis using r[of 1] r[of 4] sh by auto
qed

section \<open>Attributes\<close>

text \<open>C6: every attribute function of the generated clusters creates a well-typed attribute.  When the condition of
  the function holds, the cluster does not have the attribute yet and the string fits, the function
  returns an attribute with the declared id and type; a nullable type comes with the flag that
  admits null, and where the function declares bounds the value is null or a number from the lower to
  the upper bound, whatever value was asked for or restored from storage.\<close>

theorem generated_attribute_typed:
  assumes "d \<in> set generated_clusters" "f \<in> set (cd_attributes d)"
    and "gen_ok G" "e_traits (g_env G) = std_traits" "ready G s c"
    and "sh_guard_opt (shape s c) (af_guard f)" "af_id f \<notin> sh_attr_ids (shape s c)"
    and "arg_ok (af_type f) x" "fits f x"
  shows "\<exists>a s' at. create_attribute G f (Some c) x s = Some (Some a, s') \<and> ats s' a = Some at \<and>
    at_id at = af_id f \<and> at_type at = af_type f \<and>
    (nullable_type (at_type at) \<longrightarrow> has_flag (at_flags at) ATTRIBUTE_FLAG_NULLABLE) \<and>
    (case af_bounds f of None \<Rightarrow> True | Some (lo, hi) \<Rightarrow> value_between lo hi at)"
proof -
  have "attr_fn_ok f" using generated_ok[OF assms(1)] assms(2) by (auto simp: decl_ok_def list_all_iff)
  then show ?thesis by (rule create_attribute_typed[OF assms(3,4,5) _ assms(6-9)])
qed

text \<open>A cluster that can be extended: that of the example, with an ordinary feature map.\<close>

definition demo_map :: "u32 \<Rightarrow> attribute_t" where
  "demo_map v = \<lparr>at_flags = 0, at_type = VT_BITMAP32, at_id = FeatureMap_Id,
     at_ext = Some \<lparr>x_val = av_val (esp_matter_bitmap32 v), x_bounds = None, x_ep = 1, x_cl = 6, x_override = None\<rparr>\<rparr>"

definition demo_plain :: "u32 \<Rightarrow> flash dm" where
  "demo_plain v = put_attr 6 (demo_map v) demo"

lemma demo_plain_simps [simp]:
  "cls (demo_plain v) = [3 \<mapsto> demo_cluster]" "ats (demo_plain v) = [4 \<mapsto> demo_number, 5 \<mapsto> demo_string, 6 \<mapsto> demo_map v]"
  "mem (demo_plain v) = mem demo" "cms (demo_plain v) = cms demo" "evs (demo_plain v) = evs demo"
  by (simp_all add: demo_plain_def)

lemma demo_plain_ready: "ready demo_gen (demo_plain v) 3"
proof -
  have "at_layer (demo_plain v)" unfolding at_layer_def
    by (rule ownsI) (auto simp: demo_cluster_def demo_attr_defs demo_map_def at_ok_def FeatureMap_Id_def has_flag_def[of 0] split: if_splits)
  moreover have "fresh_above (demo_plain v)" by (auto simp: fresh_above_def demo_plain_def)
  ultimately have "dm_inv (demo_plain v)"
    using demo_inv by (simp add: dm_inv_def demo_plain_def ep_layer_def cl_layer_def cm_layer_def ev_layer_def)
  moreover have "changed_ok demo_cluster" by (simp add: changed_ok_def demo_cluster_def function_slot_1)
  moreover have "plain_feature_map (demo_plain v) demo_cluster"
    by (auto simp: plain_feature_map_def demo_cluster_def demo_attr_defs demo_map_def FeatureMap_Id_def)
  moreover have "plain_path (g_prov demo_gen) (cl_ep demo_cluster) (cl_id demo_cluster)" by (simp add: plain_path_def demo_cluster_def)
  moreover have "never_fails (mem (demo_plain v))" using demo_never_fails by simp
  ultimately show ?thesis unfolding ready_def by simp
qed

lemma demo_plain_shape:
  "shape (demo_plain v) 3 = \<lparr>sh_feature_map = Some v,
     sh_attributes = [(0, VT_UINT8, 0x23), (1, VT_CHAR_STRING, 0x21), (0xFFFC, VT_BITMAP32, 0)], sh_commands = [(0, 2)], sh_events = [0]\<rparr>"
proof -
  have "ucast (trunc KU32 (trunc KU32 (ucast v))) = v" by (rule bit_word_eqI) (simp add: trunc_def bit_ucast_iff bit_take_bit_iff)
  then show ?thesis
    by (simp add: shape_def shape_of_def demo_cluster_def demo_attr_defs demo_map_def attr_decl_def FeatureMap_Id_def stored_u32_def
      num_member_def esp_matter_bitmap32_def num_attr_val_def)
qed

lemma washer_rinses_simps:
  "af_id laundry_washer_controls_attribute_number_of_rinses = 2"
  "af_guard laundry_washer_controls_attribute_number_of_rinses = Some (Has_Feature 2)"
  "af_type laundry_washer_controls_attribute_number_of_rinses = VT_ENUM8"
  "af_max_length laundry_washer_controls_attribute_number_of_rinses = None"
  "af_bounds laundry_washer_controls_attribute_number_of_rinses = Some (0, 3)"
  "laundry_washer_controls_attribute_number_of_rinses \<in> set (cd_attributes laundry_washer_controls_cluster)"
  by (simp_all add: laundry_washer_controls_attribute_number_of_rinses_def laundry_washer_controls_rinse_id_def attr_fn_defs
      laundry_washer_controls_cluster_def laundry_washer_controls_attributes_def)

theorem generated_attribute_typed_witness:
  "\<exists>a s' at. create_attribute demo_gen laundry_washer_controls_attribute_number_of_rinses (Some 3) (Num 200) (demo_plain 2) =
       Some (Some a, s') \<and> ats s' a = Some at \<and> at_type at = VT_ENUM8 \<and> value_between 0 3 at"
  using generated_attribute_typed[OF washer_generated(1) washer_rinses_simps(6) demo_gen_ok _ demo_plain_ready, of 2 "Num 200"]
  by (simp add: washer_rinses_simps demo_plain_shape sh_guard_opt_def sh_fm_def has_flag_def sh_attr_ids_def arg_ok_def fits_def) blast

section \<open>Features\<close>

text \<open>C5: the order of the features makes no difference.  On a cluster of the catalogue whose features only
  add elements, adding the same features in two orders ends both times, and when every requirement is
  met along both ways the two results have the same feature map, attributes, commands and events.\<close>

theorem feature_order_irrelevant:
  assumes "d \<in> set additive_clusters" "set (map fst fs) \<subseteq> set (cd_features d)" "set gs = set fs"
    and "gen_ok G" "ready G s c" "sh_feature_map (shape s c) \<noteq> None"
    and "lengths_fit fs" "\<forall>fc \<in> set fs. list_all (args_ok (snd fc)) (ff_body (fst fc))"
  shows "\<exists>r1 s1 r2 s2. add_features G fs (Some c) s = Some (r1, s1) \<and> add_features G gs (Some c) s = Some (r2, s2) \<and>
    (r1 = ESP_OK \<and> r2 = ESP_OK \<longrightarrow> same_elements (shape s1 c) (shape s2 c))"
proof -
  note d = additive_ordered[OF assms(1)]
  have ok: "\<forall>fc \<in> set fs. list_all stmt_ok (ff_body (fst fc)) \<and> list_all (args_ok (snd fc)) (ff_body (fst fc))"
    using d(2) assms(2,8) by (auto simp: decl_ok_def list_all_iff)
  let ?f = "sh_add_features (g_built G) fs (shape s c)" and ?g = "sh_add_features (g_built G) gs (shape s c)"
  obtain s1 where s1: "add_features G fs (Some c) s = Some (ok_result (fst ?f), s1)" "shape s1 c = snd ?f"
    using add_features_refines[OF assms(4,5) ok] by (auto simp: refines_def)
  obtain s2 where s2: "add_features G gs (Some c) s = Some (ok_result (fst ?g), s2)" "shape s2 c = snd ?g"
    using add_features_refines[OF assms(4,5), of gs] ok assms(3) by (auto simp: refines_def)
  have "same_elements (snd ?f) (snd ?g)" if "fst ?f" "fst ?g"
    by (rule features_order[OF d(1) assms(2,7,6,3)]) (use that in \<open>simp_all add: prod_eq_iff\<close>)
  then show ?thesis using s1 s2 by (auto simp: ok_result_def split: if_splits)
qed

lemma washer_features:
  "set (cd_features laundry_washer_controls_cluster) = {laundry_washer_controls_feature_spin, laundry_washer_controls_feature_rinse}"
  "laundry_washer_controls_cluster \<in> set additive_clusters"
  by (simp_all add: laundry_washer_controls_cluster_def laundry_washer_controls_features_def additive_clusters_def additive_06_def)

definition washer_sequence :: "bool \<Rightarrow> (feature_fn \<times> fields) list" where
  "washer_sequence b =
     (let fs = [(laundry_washer_controls_feature_spin, \<lambda>_. Num 0), (laundry_washer_controls_feature_rinse, \<lambda>_. Num 0)] in
      if b then fs else rev fs)"

lemma washer_sequence_runs:
  "fst (sh_add_features (\<lambda>m. False) (washer_sequence True) \<lparr>sh_feature_map = Some 0,
     sh_attributes = [(0, VT_UINT8, 0x23), (1, VT_CHAR_STRING, 0x21), (0xFFFC, VT_BITMAP32, 0)], sh_commands = [(0, 2)], sh_events = [0]\<rparr>)"
  "fst (sh_add_features (\<lambda>m. False) (washer_sequence False) \<lparr>sh_feature_map = Some 0,
     sh_attributes = [(0, VT_UINT8, 0x23), (1, VT_CHAR_STRING, 0x21), (0xFFFC, VT_BITMAP32, 0)], sh_commands = [(0, 2)], sh_events = [0]\<rparr>)"
  by code_simp+

theorem feature_order_irrelevant_witness:
  "\<exists>s1 s2. add_features demo_gen (washer_sequence True) (Some 3) (demo_plain 0) = Some (ESP_OK, s1) \<and>
     add_features demo_gen (washer_sequence False) (Some 3) (demo_plain 0) = Some (ESP_OK, s2) \<and>
     same_elements (shape s1 3) (shape s2 3)"
proof -
  have fs: "set (map fst (washer_sequence b)) \<subseteq> set (cd_features laundry_washer_controls_cluster)"
      "set (washer_sequence False) = set (washer_sequence True)" for b
    by (auto simp: washer_sequence_def washer_features(1) Let_def split: if_splits)
  have num: "snd fc = (\<lambda>_. Num 0)" if "fc \<in> set (washer_sequence b)" for fc b
    using that by (auto simp: washer_sequence_def Let_def split: if_splits)
  have zero: "argx_length (\<lambda>_. Num 0) x = 0" for x by (cases x) simp_all
  have len: "lengths_ok (\<lambda>_. Num 0) st" for st
    by (induction st) (auto simp: zero split: option.splits)
  have fit: "lengths_fit (washer_sequence b)" "\<forall>fc \<in> set (washer_sequence b). list_all (args_ok (snd fc)) (ff_body (fst fc))" for b
    using num by (auto simp: lengths_fit_def list_all_iff len number_args_ok)
  have ok: "\<forall>fc \<in> set (washer_sequence b). list_all stmt_ok (ff_body (fst fc)) \<and> list_all (args_ok (snd fc)) (ff_body (fst fc))" for b
    using fs(1)[of b] additive_ordered(2)[OF washer_features(2)] fit(2)[of b] by (auto simp: decl_ok_def list_all_iff)
  have g: "g_built demo_gen = (\<lambda>m. False)" by (simp add: demo_gen_def)
  have runs: "\<exists>s1. add_features demo_gen (washer_sequence b) (Some 3) (demo_plain 0) = Some (ESP_OK, s1)" for b
    using add_features_refines[OF demo_gen_ok demo_plain_ready[of 0] ok[of b]] washer_sequence_runs
    by (cases b) (auto simp: refines_def ok_result_def g demo_plain_shape)
  show ?thesis
    using feature_order_irrelevant[OF washer_features(2) fs(1)[of True] fs(2) demo_gen_ok demo_plain_ready _ fit(1) fit(2), of 0]
      runs[of True] runs[of False] by (auto simp: demo_plain_shape)
qed

section \<open>Commands without a direction\<close>

text \<open>The commands two clusters create with \<open>COMMAND_FLAG_NONE\<close>.\<close>

definition flagless_commands :: "cmd_fn list" where
  "flagless_commands =
     [oven_cavity_operational_state_command_stop, oven_cavity_operational_state_command_start,
      oven_cavity_operational_state_command_operational_command_response,
      rvc_operational_state_command_pause, rvc_operational_state_command_resume,
      rvc_operational_state_command_operational_command_response]"

text \<open>C38: the commands the oven cavity and the robotic vacuum cleaner create with no direction flag cannot be
  found.  Each call adds one more command to the cluster, even when one with the id is there, and
  afterwards a search for the id finds something with some flags only if it did before: a request for the
  command never reaches it.\<close>

theorem flagless_commands_unreachable:
  assumes "f \<in> set flagless_commands" "ready G s c"
  shows "\<exists>h s'. create_command G f (Some c) s = Some (h, s') \<and>
    sh_commands (shape s' c) = sh_commands (shape s c) @ [(mf_id f, 0)] \<and>
    (\<forall>i fl. command_get s (Some c) i fl = Some None \<longrightarrow> command_get s' (Some c) i fl = Some None)"
proof -
  have f: "mf_guard f = None" "mf_flags f = 0"
    using assms(1) by (auto simp: flagless_commands_def element_fn_defs
      oven_cavity_operational_state_command_stop_def oven_cavity_operational_state_command_start_def
      oven_cavity_operational_state_command_operational_command_response_def rvc_operational_state_command_pause_def
      rvc_operational_state_command_resume_def rvc_operational_state_command_operational_command_response_def)
  let ?i = "mf_id f"
  have none: "\<not> sh_has_command (shape s c) ?i 0" by (auto simp: sh_has_command_def list_ex_iff has_flag_def)
  obtain h s' where s': "create_command G f (Some c) s = Some (h, s')" "ready G s' c"
      "shape s' c = (shape s c)\<lparr>sh_commands := sh_commands (shape s c) @ [(?i, 0)]\<rparr>"
    using command_create_refines[OF assms(2), of ?i 0 "map_option (g_symbol G) (mf_callback f)"] none f
    by (auto simp: refines_def create_command_def check_guard_opt_def)
  obtain cl cl' where cl: "cls s c = Some cl" "dm_inv s" "cls s' c = Some cl'" "dm_inv s'"
    using assms(2) s'(2) by (auto simp: ready_def)
  have same: "sh_has_command (shape s' c) j fl = sh_has_command (shape s c) j fl" for j fl
    using s'(3) by (auto simp: sh_has_command_def has_flag_def)
  have "command_get s' (Some c) j fl = Some None" if none: "command_get s (Some c) j fl = Some None" for j fl
  proof -
    obtain h where "command_get s' (Some c) j fl = Some h" "h \<noteq> None \<longleftrightarrow> sh_has_command (shape s' c) j fl"
      using command_get_shape[OF cl(4,3)] by blast
    moreover have "\<not> sh_has_command (shape s c) j fl" using command_get_shape[OF cl(2,1), of j fl] none by auto
    ultimately show ?thesis using same by auto
  qed
  then show ?thesis using s' by auto
qed

theorem flagless_commands_unreachable_witness:
  "\<exists>h s'. create_command demo_gen rvc_operational_state_command_pause (Some 3) (demo_plain 0) = Some (h, s') \<and>
     sh_commands (shape s' 3) = [(0, 2), (0, 0)]"
  using flagless_commands_unreachable[of rvc_operational_state_command_pause, OF _ demo_plain_ready[of 0]]
  by (auto simp: flagless_commands_def demo_plain_shape rvc_operational_state_command_pause_def element_fn_defs)

end
