(* ===== verification/EM_Device.thy ===== *)
theory EM_Device
  imports EM_Order
begin

text \<open>
  Generated device types: \<open>data_model/generated/device_types\<close>.  The \<open>create\<close> function of a device type
  makes an endpoint with a descriptor cluster and calls \<open>add\<close>, which registers the type and creates its
  clusters, features, commands, events and attributes.  As for clusters, a device type is a value, the
  statements of its \<open>add\<close>, and this theory gives it its meaning on the store and on shapes.
\<close>

section \<open>Device types\<close>

text \<open>The configuration of a device type holds one for each cluster, those of the features and a few fields.\<close>

record device_config =
  dc_clusters :: "string \<Rightarrow> config"
  dc_features :: "string \<Rightarrow> fields"
  dc_fields :: fields

text \<open>
  A cluster is created from a field of the configuration; the flag says whether the result is checked.
  The other statements name a cluster created before by its id.
\<close>

datatype dstmt =
    Use_Cluster cluster_fn string bool
  | Client_Cluster cluster_fn
  | On_Feature u32 feature_fn "string option"
  | On_Command u32 cmd_fn
  | On_Event u32 event_fn
  | On_Attribute u32 attr_fn argx
  | Set_Feature_Flags string u32
  | If_Built_Device string "dstmt list" "dstmt list"

record device_fn =
  dv_id :: u32
  dv_version :: u8
  dv_body :: "dstmt list"

type_synonym 'n device_state = "device_config \<times> (u32 \<Rightarrow> handle) \<times> 'n dm"

definition set_feature_flags :: "string \<Rightarrow> u32 \<Rightarrow> device_config \<Rightarrow> device_config" where
  "set_feature_flags x v config =
     config\<lparr>dc_clusters := (dc_clusters config)(x := (dc_clusters config x)
       \<lparr>co_feature_flags := co_feature_flags (dc_clusters config x) OR v\<rparr>)\<rparr>"

fun exec_device :: "('n, 't) gen \<Rightarrow> cluster_fn \<Rightarrow> handle \<Rightarrow> dstmt \<Rightarrow> 'n device_state \<Rightarrow> (esp_err \<times> 'n device_state) option"
and execs_device :: "('n, 't) gen \<Rightarrow> cluster_fn \<Rightarrow> handle \<Rightarrow> dstmt list \<Rightarrow> 'n device_state \<Rightarrow> (esp_err \<times> 'n device_state) option" where
  "exec_device G binding eh (Use_Cluster k x checked) (config, vars, s) = do {
     (ch, s1) \<leftarrow> create G binding k eh (Some (dc_clusters config x)) CLUSTER_FLAG_SERVER s;
     Some (if checked \<and> ch = None then ESP_FAIL else ESP_OK, config, vars(kf_id k := ch), s1) }"
| "exec_device G binding eh (Client_Cluster k) (config, vars, s) = do {
     (_, s1) \<leftarrow> create G binding k eh None CLUSTER_FLAG_CLIENT s;
     Some (ESP_OK, config, vars, s1) }"
| "exec_device G binding eh (On_Feature i f x) (config, vars, s) = do {
     (_, s1) \<leftarrow> add_feature G f (vars i) (map_option (dc_features config) x) s;
     Some (ESP_OK, config, vars, s1) }"
| "exec_device G binding eh (On_Command i f) (config, vars, s) = do {
     (_, s1) \<leftarrow> create_command G f (vars i) s;
     Some (ESP_OK, config, vars, s1) }"
| "exec_device G binding eh (On_Event i f) (config, vars, s) = do {
     (_, s1) \<leftarrow> create_event G f (vars i) s;
     Some (ESP_OK, config, vars, s1) }"
| "exec_device G binding eh (On_Attribute i f x) (config, vars, s) = do {
     (_, s1) \<leftarrow> create_attribute G f (vars i) (eval_arg (e_traits (g_env G)) (af_type f) (dc_fields config) x) s;
     Some (ESP_OK, config, vars, s1) }"
| "exec_device G binding eh (Set_Feature_Flags x v) (config, vars, s) =
     Some (ESP_OK, set_feature_flags x v config, vars, s)"
| "exec_device G binding eh (If_Built_Device m ts es) st =
     (if g_built G m then execs_device G binding eh ts st else execs_device G binding eh es st)"
| "execs_device G binding eh [] st = Some (ESP_OK, st)"
| "execs_device G binding eh (d # ds) st = do {
     (err, st1) \<leftarrow> exec_device G binding eh d st;
     if err = ESP_OK then execs_device G binding eh ds st1 else Some (err, st1) }"

definition device_add ::
    "('n, 't) gen \<Rightarrow> cluster_fn \<Rightarrow> device_fn \<Rightarrow> handle \<Rightarrow> device_config \<Rightarrow> 'n dm \<Rightarrow> (esp_err \<times> 'n dm) option" where
  "device_add G binding d eh config s = do {
     (err, s1) \<leftarrow> add_device_type (g_env G) eh (dv_id d) (dv_version d) s;
     if err \<noteq> ESP_OK then Some (err, s1)
     else do {
       (err, _, _, s2) \<leftarrow> execs_device G binding eh (dv_body d) (config, (\<lambda>_. None), s1);
       Some (err, s2) } }"

text \<open>What \<open>create\<close> and \<open>resume\<close> do once they have an endpoint.\<close>

definition device_populate ::
    "('n, 't) gen \<Rightarrow> cluster_fn \<Rightarrow> cluster_fn \<Rightarrow> device_fn \<Rightarrow> handle \<Rightarrow> device_config \<Rightarrow> 'n dm \<Rightarrow> (handle \<times> 'n dm) option" where
  "device_populate G binding descriptor d eh config s =
     (if eh = None then Some (None, s)
      else do {
        (ch, s1) \<leftarrow> create G binding descriptor eh (Some (dc_clusters config ''descriptor'')) CLUSTER_FLAG_SERVER s;
        if ch = None then Some (None, s1)
        else do {
          (err, s2) \<leftarrow> device_add G binding d eh config s1;
          Some (if err = ESP_OK then eh else None, s2) } })"

definition device_create ::
    "('n, 't) gen \<Rightarrow> cluster_fn \<Rightarrow> cluster_fn \<Rightarrow> device_fn \<Rightarrow> handle \<Rightarrow> device_config \<Rightarrow> u8 \<Rightarrow> handle \<Rightarrow> 'n dm \<Rightarrow>
     (handle \<times> 'n dm) option" where
  "device_create G binding descriptor d nh config flags priv_data s = do {
     (eh, s1) \<leftarrow> endpoint_create (g_env G) nh flags priv_data s;
     device_populate G binding descriptor d eh config s1 }"

definition device_resume ::
    "('n, 't) gen \<Rightarrow> cluster_fn \<Rightarrow> cluster_fn \<Rightarrow> device_fn \<Rightarrow> handle \<Rightarrow> device_config \<Rightarrow> u8 \<Rightarrow> u16 \<Rightarrow> handle \<Rightarrow> 'n dm \<Rightarrow>
     (handle \<times> 'n dm) option" where
  "device_resume G binding descriptor d nh config flags endpoint_id priv_data s = do {
     (eh, s1) \<leftarrow> endpoint_resume (g_env G) nh (ucast (ucast flags OR ENDPOINT_FLAG_DESTROYABLE)) endpoint_id priv_data s;
     device_populate G binding descriptor d eh config s1 }"

text \<open>The creation of a node with its root endpoint; \<open>nvs_init\<close> is the result of opening the partition.\<close>

definition node_create ::
    "('n, 't) gen \<Rightarrow> cluster_fn \<Rightarrow> cluster_fn \<Rightarrow> device_fn \<Rightarrow> esp_err \<Rightarrow> device_config \<Rightarrow> fnptr option \<Rightarrow> fnptr option \<Rightarrow>
     handle \<Rightarrow> 'n dm \<Rightarrow> (handle \<times> 'n dm) option" where
  "node_create G binding descriptor root_node nvs_init config attribute_cb identification_cb priv_data s =
     (let (n, s1) = create_raw s in
      if nvs_init \<noteq> ESP_OK then Some (None, s1)
      else if n = None then Some (None, s1)
      else do {
        (eh, s2) \<leftarrow> device_create G binding descriptor root_node n config 0 priv_data s1;
        if eh = None then Some (None, snd (destroy_raw s2))
        else Some (n, identification_set_callback identification_cb (snd (set_callback attribute_cb s2))) })"

section \<open>Device types on shapes\<close>

text \<open>
  The clusters that \<open>add\<close> creates, with their ids, in order.  \<open>ids\<close> are the ids of the clusters the endpoint
  has before.  The result is true when every cluster was described by its own \<open>create\<close>, was new, and the
  statements about a cluster come after its creation.
\<close>

type_synonym device_shape = "device_config \<times> (u32 \<times> shape) list"

definition on_cluster :: "u32 \<Rightarrow> (shape \<Rightarrow> shape) \<Rightarrow> (u32 \<times> shape) list \<Rightarrow> (u32 \<times> shape) list" where
  "on_cluster i g cs = map (\<lambda>(j, sh). (j, if j = i then g sh else sh)) cs"

definition optional_fields :: "device_config \<Rightarrow> string option \<Rightarrow> fields" where
  "optional_fields config x = (case x of None \<Rightarrow> (\<lambda>_. Num 0) | Some y \<Rightarrow> dc_features config y)"

fun sh_device :: "(string \<Rightarrow> bool) \<Rightarrow> u32 list \<Rightarrow> dstmt \<Rightarrow> device_shape \<Rightarrow> bool \<times> device_shape"
and sh_devices :: "(string \<Rightarrow> bool) \<Rightarrow> u32 list \<Rightarrow> dstmt list \<Rightarrow> device_shape \<Rightarrow> bool \<times> device_shape" where
  "sh_device built ids (Use_Cluster k x checked) (config, cs) =
     (case sh_create built k (dc_clusters config x) of
        (ok, sh) \<Rightarrow> (ok \<and> kf_id k \<notin> set ids \<and> kf_id k \<notin> set (map fst cs), config, cs @ [(kf_id k, sh)]))"
| "sh_device built ids (Client_Cluster k) (config, cs) = (False, config, cs)"
| "sh_device built ids (On_Feature i f x) (config, cs) =
     (i \<in> set (map fst cs), config, on_cluster i (\<lambda>sh. snd (sh_add_feature built f (optional_fields config x) sh)) cs)"
| "sh_device built ids (On_Command i f) (config, cs) = (i \<in> set (map fst cs), config, on_cluster i (sh_command f) cs)"
| "sh_device built ids (On_Event i f) (config, cs) = (i \<in> set (map fst cs), config, on_cluster i (sh_event f) cs)"
| "sh_device built ids (On_Attribute i f x) (config, cs) =
     (i \<in> set (map fst cs), config, on_cluster i (sh_attribute f (argx_length (dc_fields config) x)) cs)"
| "sh_device built ids (Set_Feature_Flags x v) (config, cs) = (True, set_feature_flags x v config, cs)"
| "sh_device built ids (If_Built_Device m ts es) st =
     (if built m then sh_devices built ids ts st else sh_devices built ids es st)"
| "sh_devices built ids [] st = (True, st)"
| "sh_devices built ids (d # ds) st =
     (case sh_device built ids d st of (ok, st1) \<Rightarrow> if ok then sh_devices built ids ds st1 else (False, st1))"

section \<open>Well-formed device types and configurations\<close>

fun dstmt_ok :: "dstmt \<Rightarrow> bool" where
  "dstmt_ok (Use_Cluster k x checked) = cluster_ok k"
| "dstmt_ok (On_Feature i f x) = (list_all stmt_ok (ff_body f) \<and> (ff_config f \<longrightarrow> x \<noteq> None))"
| "dstmt_ok (On_Attribute i f x) = (af_id f \<noteq> FeatureMap_Id)"
| "dstmt_ok (If_Built_Device m ts es) = (list_all dstmt_ok ts \<and> list_all dstmt_ok es)"
| "dstmt_ok _ = True"

text \<open>The arguments do not depend on the feature flags, which \<open>add\<close> may change.\<close>

fun dargs_ok :: "device_config \<Rightarrow> dstmt \<Rightarrow> bool" where
  "dargs_ok config (Use_Cluster k x checked) = list_all (cargs_ok (dc_clusters config x)) (kf_body k)"
| "dargs_ok config (On_Feature i f x) = list_all (args_ok (optional_fields config x)) (ff_body f)"
| "dargs_ok config (On_Attribute i f x) = args_ok (dc_fields config) (Attribute f x)"
| "dargs_ok config (If_Built_Device m ts es) = (list_all (dargs_ok config) ts \<and> list_all (dargs_ok config) es)"
| "dargs_ok config _ = True"

lemma cargs_ok_flags: "cargs_ok (c\<lparr>co_feature_flags := v\<rparr>) st = cargs_ok c st"
  by (induction c st rule: cargs_ok.induct) (auto simp: list_all_iff)

lemma dargs_ok_flags: "dargs_ok (set_feature_flags x v config) st = dargs_ok config st"
  by (induction config st rule: dargs_ok.induct)
     (auto simp: set_feature_flags_def cargs_ok_flags optional_fields_def list_all_iff split: option.splits)

section \<open>Populated endpoints\<close>

text \<open>A cluster with the given id and shape, whose handle is in the variables.\<close>

definition holds :: "('n, 't) gen \<Rightarrow> 'n dm \<Rightarrow> (u32 \<Rightarrow> handle) \<Rightarrow> addr \<Rightarrow> u32 \<times> shape \<Rightarrow> bool" where
  "holds G s vars c d \<longleftrightarrow> vars (fst d) = Some c \<and> ready G s c \<and> cl_id (the (cls s c)) = fst d \<and> shape s c = snd d"

text \<open>
  Between the start \<open>s0\<close> and \<open>s\<close> the clusters \<open>cs\<close> were added to the endpoint at \<open>p\<close>, after those it had, \<open>pre\<close>;
  the node, the other endpoints and the clusters there were are the same.
\<close>

definition grown ::
    "('n, 't) gen \<Rightarrow> addr \<Rightarrow> u32 list \<Rightarrow> 'n dm \<Rightarrow> 'n dm \<Rightarrow> (u32 \<Rightarrow> handle) \<Rightarrow> (u32 \<times> shape) list \<Rightarrow> bool" where
  "grown G p ids s0 s vars cs \<longleftrightarrow>
     dm_inv s \<and> never_fails (mem s) \<and> node s = node s0 \<and> (\<forall>q. q \<noteq> p \<longrightarrow> eps s q = eps s0 q) \<and>
     (\<forall>d. cls s0 d \<noteq> None \<longrightarrow> cls s d = cls s0 d \<and> shape s d = shape s0 d) \<and>
     (\<exists>e qs. eps s0 p = Some e \<and> eps s p = Some (e\<lparr>ep_clusters := ep_clusters e @ qs\<rparr>) \<and>
        (\<forall>c \<in> set (ep_clusters e). cls s0 c \<noteq> None \<and> cl_id (the (cls s0 c)) \<in> set ids) \<and>
        (\<forall>c \<in> set qs. cls s0 c = None) \<and> list_all2 (holds G s vars) qs cs)"

lemma ready_shape:
  assumes "ready G s c" "cls t c = cls s c" "shape t c = shape s c" "dm_inv t" "never_fails (mem t)"
  shows "ready G t c"
proof -
  obtain cl where cl: "cls s c = Some cl" "plain_path (g_prov G) (cl_ep cl) (cl_id cl)" "changed_ok cl" "plain_feature_map s cl" "dm_inv s"
    using assms(1) by (auto simp: ready_def)
  have at: "map (\<lambda>a. attr_decl (the (ats t a))) (cl_attributes cl) = map (\<lambda>a. attr_decl (the (ats s a))) (cl_attributes cl)"
    using assms(2,3) cl(1) by (simp add: shape_def shape_of_def comp_def)
  have "plain_feature_map t cl" unfolding plain_feature_map_def
  proof (intro ballI allI impI)
    fix a at assume a: "a \<in> set (cl_attributes cl)" "ats t a = Some at" "at_id at = FeatureMap_Id"
    obtain bt where b: "ats s a = Some bt"
      using owns_live[OF inv_at[OF cl(5), unfolded at_layer_def] cl(1) a(1)] by blast
    have "attr_decl at = attr_decl bt" using at a(1,2) b by auto
    then show "at_type at = VT_BITMAP32 \<and> at_flags at = 0"
      using cl(4) a(1,3) b unfolding plain_feature_map_def attr_decl_def by auto
  qed
  then show ?thesis using cl(1-3) assms(2,4,5) by (auto simp: ready_def)
qed

lemma server_flags:
  "has_flag CLUSTER_FLAG_SERVER CLUSTER_FLAG_SERVER" "low_flags CLUSTER_FLAG_SERVER = 0"
  "\<not> has_flag CLUSTER_FLAG_SERVER CLUSTER_FLAG_CLIENT"
  by (simp_all add: has_flag_def low_flags_def flag_defs)

lemma list_all2_left: "list_all2 P xs ys \<Longrightarrow> x \<in> set xs \<Longrightarrow> \<exists>y \<in> set ys. P x y"
  by (induction rule: list_all2_induct) auto

lemma list_all2_right: "list_all2 P xs ys \<Longrightarrow> y \<in> set ys \<Longrightarrow> \<exists>x \<in> set xs. P x y"
  by (induction rule: list_all2_induct) auto

lemma use_cluster_grown:
  assumes g: "grown G p ids s0 s vars cs" and G: "gen_ok G" and k: "cluster_ok k" "list_all (cargs_ok config) (kf_body k)"
    and pp: "plain_path (g_prov G) (ep_id (the (eps s0 p))) (kf_id k)"
    and new: "kf_id k \<notin> set ids" "kf_id k \<notin> set (map fst cs)" and sh: "sh_create (g_built G) k config = (True, sh)"
  shows "\<exists>c s'. create G binding k (Some p) (Some config) CLUSTER_FLAG_SERVER s = Some (Some c, s') \<and>
    grown G p ids s0 s' (vars(kf_id k := Some c)) (cs @ [(kf_id k, sh)])"
proof -
  obtain e qs where e: "eps s0 p = Some e" "eps s p = Some (e\<lparr>ep_clusters := ep_clusters e @ qs\<rparr>)"
      "\<forall>c \<in> set (ep_clusters e). cls s0 c \<noteq> None \<and> cl_id (the (cls s0 c)) \<in> set ids" "\<forall>c \<in> set qs. cls s0 c = None"
      "list_all2 (holds G s vars) qs cs"
    and inv: "dm_inv s" "never_fails (mem s)" "node s = node s0" "\<forall>q. q \<noteq> p \<longrightarrow> eps s q = eps s0 q"
      "\<forall>d. cls s0 d \<noteq> None \<longrightarrow> cls s d = cls s0 d \<and> shape s d = shape s0 d"
    using g by (auto simp: grown_def)
  let ?e = "e\<lparr>ep_clusters := ep_clusters e @ qs\<rparr>"
  note q = list_all2_left[OF e(5)]
  have other: "cl_id cl \<noteq> kf_id k" if "c \<in> set (ep_clusters ?e)" "cls s c = Some cl" for c cl
  proof (cases "c \<in> set qs")
    case True
    then show ?thesis using q[OF True] new(2) that(2) by (force simp: holds_def)
  next
    case False
    then have "c \<in> set (ep_clusters e)" using that(1) by simp
    then show ?thesis using e(3) inv(5) new(1) that(2) by force
  qed
  have get: "cluster_get s (Some p) (kf_id k) = Some None"
    using cluster_get_exact[OF inv(1) e(2), of "kf_id k"] other by (metis not_None_eq)
  have pp': "plain_path (g_prov G) (ep_id ?e) (kf_id k)" using pp e(1) by simp
  obtain c s' where s': "create G binding k (Some p) (Some config) CLUSTER_FLAG_SERVER s = Some (Some c, s')" "dm_inv s'" "cls s c = None"
      "eps s' = (eps s)(p \<mapsto> ?e\<lparr>ep_clusters := ep_clusters ?e @ [c]\<rparr>)" "ready G s' c" "cl_id (the (cls s' c)) = kf_id k" "node s' = node s"
      "shape s' c = sh" "\<forall>d. cls s d \<noteq> None \<longrightarrow> cls s' d = cls s d \<and> shape s' d = shape s d"
    using create_refines[OF G inv(1,2) e(2) get pp' k server_flags, of binding] sh by auto
  have nf: "never_fails (mem s')" using s'(5) by (simp add: ready_def)
  let ?v = "vars(kf_id k := Some c)"
  have keep: "holds G s' ?v b d" if h: "holds G s vars b d" "d \<in> set cs" for b d
  proof -
    have live: "cls s b \<noteq> None" "ready G s b" using h(1) by (auto simp: holds_def ready_def)
    then have "cls s' b = cls s b" "shape s' b = shape s b" using s'(9) by blast+
    moreover from this have "ready G s' b" using ready_shape[OF live(2) _ _ s'(2) nf] by blast
    moreover have "fst d \<noteq> kf_id k" using new(2) imageI[OF h(2), of fst] unfolding set_map by metis
    ultimately show ?thesis using h(1) by (simp add: holds_def)
  qed
  have all: "list_all2 (holds G s' ?v) qs cs"
    using e(5) by (rule list.rel_mono_strong) (use keep in blast)
  have "cls s0 c = None" using inv(5) s'(3) by (metis (no_types))
  moreover have "holds G s' ?v c (kf_id k, sh)" using s'(5,6,8) by (simp add: holds_def)
  ultimately have "grown G p ids s0 s' ?v (cs @ [(kf_id k, sh)])"
    unfolding grown_def using s'(2,4,7,9) nf inv(3-5) e(1,3,4) all
    by (auto intro!: exI[of _ "qs @ [c]"] list_all2_appendI)
  then show ?thesis using s'(1) by blast
qed

lemma on_cluster_grown:
  assumes g: "grown G p ids s0 s vars cs" and i: "i \<in> set (map fst cs)"
    and step: "\<And>c. vars i = Some c \<Longrightarrow> ready G s c \<Longrightarrow> \<exists>r. refines G c s P r (f (shape s c))"
  shows "\<exists>r s'. P = Some (r, s') \<and> grown G p ids s0 s' vars (on_cluster i f cs)"
proof -
  obtain e qs where e: "eps s0 p = Some e" "eps s p = Some (e\<lparr>ep_clusters := ep_clusters e @ qs\<rparr>)"
      "\<forall>c \<in> set (ep_clusters e). cls s0 c \<noteq> None \<and> cl_id (the (cls s0 c)) \<in> set ids" "\<forall>c \<in> set qs. cls s0 c = None"
      "list_all2 (holds G s vars) qs cs"
    and inv: "dm_inv s" "never_fails (mem s)" "node s = node s0" "\<forall>q. q \<noteq> p \<longrightarrow> eps s q = eps s0 q"
      "\<forall>d. cls s0 d \<noteq> None \<longrightarrow> cls s d = cls s0 d \<and> shape s d = shape s0 d"
    using g by (auto simp: grown_def)
  obtain sh where "(i, sh) \<in> set cs" using i by auto
  then obtain c where c: "c \<in> set qs" "holds G s vars c (i, sh)"
    using list_all2_right[OF e(5)] by blast
  then obtain r s' where s': "P = Some (r, s')" "ready G s' c" "inside c s s'" "shape s' c = f (shape s c)"
    using step[of c] by (auto simp: holds_def refines_def)
  have inv': "dm_inv s'" "never_fails (mem s')" using s'(2) by (simp_all add: ready_def)
  obtain cl' where ins: "node s' = node s" "eps s' = eps s" "cls s' = (cls s)(c \<mapsto> cl')" "cl_id cl' = cl_id (the (cls s c))"
    using s'(3) by (auto simp: inside_def)
  have same: "cls s' d = cls s d \<and> shape s' d = shape s d" if "d \<noteq> c" "cls s d \<noteq> None" for d
    using that ins(3) inside_shape[OF s'(3) inv(1) that(1)] by auto
  have keep: "holds G s' vars b (fst d, if fst d = i then f (snd d) else snd d)" if h: "holds G s vars b d" for b d
  proof (cases "fst d = i")
    case True
    then have "b = c" using h c(2) by (simp add: holds_def)
    then show ?thesis using h True s'(2,4) ins(3,4) c(2) by (auto simp: holds_def)
  next
    case False
    then have b: "b \<noteq> c" using h c(2) by (auto simp: holds_def)
    have live: "cls s b \<noteq> None" "ready G s b" using h by (auto simp: holds_def ready_def)
    then show ?thesis using h False same[OF b live(1)] ready_shape[OF live(2) _ _ inv'] by (auto simp: holds_def)
  qed
  have "list_all2 (holds G s' vars) qs (on_cluster i f cs)"
    unfolding on_cluster_def list.rel_map case_prod_beta using e(5) by (rule list.rel_mono_strong) (use keep in blast)
  moreover have "\<forall>d. cls s0 d \<noteq> None \<longrightarrow> cls s' d = cls s0 d \<and> shape s' d = shape s0 d"
  proof (intro allI impI)
    fix d assume d: "cls s0 d \<noteq> None"
    then have "d \<noteq> c" "cls s d \<noteq> None" using e(4) c(1) inv(5) by auto
    then show "cls s' d = cls s0 d \<and> shape s' d = shape s0 d" using same[of d] inv(5) d by simp
  qed
  ultimately have "grown G p ids s0 s' vars (on_cluster i f cs)"
    unfolding grown_def using inv' ins(1,2) inv(3,4) e(1-4) by auto
  then show ?thesis using s'(1) by blast
qed

section \<open>Statements\<close>

definition device_step ::
    "('n, 't) gen \<Rightarrow> addr \<Rightarrow> u32 list \<Rightarrow> 'n dm \<Rightarrow> (esp_err \<times> 'n device_state) option \<Rightarrow> device_config \<Rightarrow> device_shape \<Rightarrow> bool" where
  "device_step G p ids s0 r config d \<longleftrightarrow>
     (\<exists>vars s. r = Some (ESP_OK, fst d, vars, s) \<and> grown G p ids s0 s vars (snd d) \<and>
        (\<forall>st. dargs_ok (fst d) st = dargs_ok config st))"

lemma device_step_on:
  assumes g: "grown G p ids s0 s vars cs" and i: "i \<in> set (map fst cs)"
    and step: "\<And>c. vars i = Some c \<Longrightarrow> ready G s c \<Longrightarrow> \<exists>r. refines G c s P r (f (shape s c))"
  shows "device_step G p ids s0 (do { (_, s1) \<leftarrow> P; Some (ESP_OK, config, vars, s1) }) config (config, on_cluster i f cs)"
proof -
  obtain r s' where "P = Some (r, s')" "grown G p ids s0 s' vars (on_cluster i f cs)" using on_cluster_grown[OF g i step] by blast
  then show ?thesis by (simp add: device_step_def)
qed

lemma exec_device_steps:
  assumes G: "gen_ok G" and pp: "\<And>j. plain_path (g_prov G) (ep_id (the (eps s0 p))) j"
  shows "grown G p ids s0 s vars (snd st) \<Longrightarrow> dstmt_ok d \<Longrightarrow> dargs_ok (fst st) d \<Longrightarrow>
      sh_device (g_built G) ids d st = (True, st') \<Longrightarrow>
      device_step G p ids s0 (exec_device G binding (Some p) d (fst st, vars, s)) (fst st) st'"
    and "grown G p ids s0 s vars (snd st) \<Longrightarrow> list_all dstmt_ok ds \<Longrightarrow> list_all (dargs_ok (fst st)) ds \<Longrightarrow>
      sh_devices (g_built G) ids ds st = (True, st') \<Longrightarrow>
      device_step G p ids s0 (execs_device G binding (Some p) ds (fst st, vars, s)) (fst st) st'"
proof (induction "g_built G" ids d st and "g_built G" ids ds st arbitrary: vars s st' and vars s st' rule: sh_device_sh_devices.induct)
  case (1 ids k x checked config cs)
  obtain sh where sh: "sh_create (g_built G) k (dc_clusters config x) = (True, sh)" "kf_id k \<notin> set ids" "kf_id k \<notin> set (map fst cs)"
      "st' = (config, cs @ [(kf_id k, sh)])"
    using 1(4) by (auto split: prod.splits)
  obtain c s' where s': "create G binding k (Some p) (Some (dc_clusters config x)) CLUSTER_FLAG_SERVER s = Some (Some c, s')"
      "grown G p ids s0 s' (vars(kf_id k := Some c)) (cs @ [(kf_id k, sh)])"
    using use_cluster_grown[OF _ G _ _ pp sh(2,3,1), of s vars binding] 1(1-3) by auto
  then show ?case using sh(4) by (auto simp: device_step_def)
next
  case (3 ids i f x config cs)
  have i: "i \<in> set (map fst cs)" and st': "st' = (config, on_cluster i (\<lambda>sh. snd (sh_add_feature (g_built G) f (optional_fields config x) sh)) cs)"
    using 3(4) by auto
  have P: "add_feature G f h (map_option (dc_features config) x) t = add_feature G f h (Some (optional_fields config x)) t" for h and t :: "'a dm"
    using 3(2) by (auto simp: add_feature_def optional_fields_def split: option.splits)
  show ?case unfolding st' exec_device.simps fst_conv P
    by (rule device_step_on[OF _ i]) (use 3(1-3) add_feature_refines[OF G] in \<open>auto intro!: exI\<close>)
next
  case (4 ids i f config cs)
  have i: "i \<in> set (map fst cs)" and st': "st' = (config, on_cluster i (sh_command f) cs)" using 4(4) by auto
  show ?case unfolding st' exec_device.simps fst_conv
    by (rule device_step_on[OF _ i]) (use 4(1) create_command_refines[OF G] in auto)
next
  case (5 ids i f config cs)
  have i: "i \<in> set (map fst cs)" and st': "st' = (config, on_cluster i (sh_event f) cs)" using 5(4) by auto
  show ?case unfolding st' exec_device.simps fst_conv
    by (rule device_step_on[OF _ i]) (use 5(1) create_event_refines[OF G] in auto)
next
  case (6 ids i f x config cs)
  have i: "i \<in> set (map fst cs)" and st': "st' = (config, on_cluster i (sh_attribute f (argx_length (dc_fields config) x)) cs)"
    using 6(4) by auto
  have arg: "args_ok (dc_fields config) (Attribute f x)" using 6(3) by simp
  have id: "af_id f \<noteq> FeatureMap_Id" using 6(2) by simp
  show ?case unfolding st' exec_device.simps fst_conv
  proof (rule device_step_on[OF _ i])
    show "grown G p ids s0 s vars cs" using 6(1) by simp
    fix c assume c: "vars i = Some c" "ready G s c"
    show "\<exists>r. refines G c s (create_attribute G f (vars i) (eval_arg (e_traits (g_env G)) (af_type f) (dc_fields config) x) s) r
        (sh_attribute f (argx_length (dc_fields config) x) (shape s c))"
      using create_attribute_refines[OF G c(2) id eval_arg_ok(1)[OF arg]] c(1) eval_arg_ok(2)[OF arg] by simp
  qed
next
  case (7 ids x v config cs)
  then show ?case by (auto simp: device_step_def dargs_ok_flags)
next
  case (8 ids m ts es st)
  then show ?case by (cases st) (auto split: if_splits)
next
  case (9 ids st)
  then show ?case by (cases st) (auto simp: device_step_def)
next
  case (10 ids d ds st)
  obtain st1 where st1: "sh_device (g_built G) ids d st = (True, st1)" "sh_devices (g_built G) ids ds st1 = (True, st')"
    using 10(6) by (auto split: prod.splits if_splits)
  obtain vars1 s1 where s1: "exec_device G binding (Some p) d (fst st, vars, s) = Some (ESP_OK, fst st1, vars1, s1)"
      "grown G p ids s0 s1 vars1 (snd st1)" "\<forall>st2. dargs_ok (fst st1) st2 = dargs_ok (fst st) st2"
    using 10(1)[OF 10(3) _ _ st1(1)] 10(4,5) by (auto simp: device_step_def)
  have "device_step G p ids s0 (execs_device G binding (Some p) ds (fst st1, vars1, s1)) (fst st1) st'"
    using 10(2)[OF st1(1)[symmetric] TrueI] s1(2,3) 10(4,5) st1(2) by (simp add: list_all_iff)
  then show ?case using s1(1,3) by (simp add: device_step_def)
qed simp_all

section \<open>The endpoint as a whole\<close>

definition sh_device_type ::
    "(string \<Rightarrow> bool) \<Rightarrow> cluster_fn \<Rightarrow> device_fn \<Rightarrow> device_config \<Rightarrow> bool \<times> (u32 \<times> shape) list" where
  "sh_device_type built descriptor d config =
     (case sh_create built descriptor (dc_clusters config ''descriptor'') of
        (ok, sh) \<Rightarrow> (case sh_devices built [kf_id descriptor] (dv_body d) (config, []) of
           (ok', _, cs) \<Rightarrow> (ok \<and> ok', (kf_id descriptor, sh) # cs)))"

lemma grown_start:
  assumes "dm_inv s" "never_fails (mem s)" "eps s p = Some e" "\<forall>c \<in> set (ep_clusters e). cls s c \<noteq> None \<and> cl_id (the (cls s c)) \<in> set ids"
  shows "grown G p ids s s vars []"
  using assms by (auto simp: grown_def)

lemma grown_end:
  assumes "grown G p ids s0 s vars cs" "eps s0 p = Some e"
  obtains qs where "eps s p = Some (e\<lparr>ep_clusters := ep_clusters e @ qs\<rparr>)" "map (\<lambda>c. (cl_id (the (cls s c)), shape s c)) qs = cs"
    "\<forall>c \<in> set qs. cls s c \<noteq> None"
proof -
  obtain qs where qs: "eps s p = Some (e\<lparr>ep_clusters := ep_clusters e @ qs\<rparr>)" "list_all2 (holds G s vars) qs cs"
    using assms by (auto simp: grown_def)
  have "map (\<lambda>c. (cl_id (the (cls s c)), shape s c)) qs = cs \<and> (\<forall>c \<in> set qs. cls s c \<noteq> None)"
    using qs(2) by (induction rule: list_all2_induct) (auto simp: holds_def ready_def)
  then show thesis using that qs(1) by blast
qed

lemma device_populate_builds:
  assumes G: "gen_ok G" and pp: "\<And>j. plain_path (g_prov G) (ep_id e) j" and inv: "dm_inv s" "never_fails (mem s)"
    and e: "eps s p = Some e" "ep_clusters e = []" "ep_device_type_count e = 0" "ep_device_types e \<noteq> []" "0 < e_max_device_types (g_env G)"
    and d: "list_all dstmt_ok (dv_body d)" "list_all (dargs_ok config) (dv_body d)"
    and k: "cluster_ok descriptor" "list_all (cargs_ok (dc_clusters config ''descriptor'')) (kf_body descriptor)"
    and sh: "sh_device_type (g_built G) descriptor d config = (True, cs)"
  shows "\<exists>s' qs. device_populate G binding descriptor d (Some p) config s = Some (Some p, s') \<and> dm_inv s' \<and> node s' = node s \<and>
    eps s' = (eps s)(p \<mapsto> e\<lparr>ep_clusters := qs, ep_device_types := (ep_device_types e)[0 := \<lparr>dt_version = dv_version d, dt_id = dv_id d\<rparr>],
      ep_device_type_count := 1\<rparr>) \<and>
    map (\<lambda>c. (cl_id (the (cls s' c)), shape s' c)) qs = cs \<and>
    (\<forall>d. cls s d \<noteq> None \<longrightarrow> cls s' d = cls s d \<and> shape s' d = shape s d)"
proof -
  obtain shd config' cs' where shd: "sh_create (g_built G) descriptor (dc_clusters config ''descriptor'') = (True, shd)"
      "sh_devices (g_built G) [kf_id descriptor] (dv_body d) (config, []) = (True, config', cs')" "cs = (kf_id descriptor, shd) # cs'"
    using sh by (auto simp: sh_device_type_def split: prod.splits)
  have g: "grown G p [] s s (\<lambda>_. None) []" by (rule grown_start[OF inv e(1)]) (simp add: e(2))
  have pp1: "plain_path (g_prov G) (ep_id (the (eps s p))) j" for j using pp e(1) by simp
  obtain c s1 where s1: "create G binding descriptor (Some p) (Some (dc_clusters config ''descriptor'')) CLUSTER_FLAG_SERVER s = Some (Some c, s1)"
      "grown G p [] s s1 ((\<lambda>_. None)(kf_id descriptor := Some c)) [(kf_id descriptor, shd)]"
    using use_cluster_grown[OF g G k pp1 _ _ shd(1), of binding] by auto
  obtain qs1 where qs1: "eps s1 p = Some (e\<lparr>ep_clusters := ep_clusters e @ qs1\<rparr>)"
      "map (\<lambda>c. (cl_id (the (cls s1 c)), shape s1 c)) qs1 = [(kf_id descriptor, shd)]" "\<forall>c \<in> set qs1. cls s1 c \<noteq> None"
    by (rule grown_end[OF s1(2) e(1)])
  obtain q1 where "qs1 = [q1]" using qs1(2) by (cases qs1) auto
  then have q1: "eps s1 p = Some (e\<lparr>ep_clusters := [q1]\<rparr>)" "cl_id (the (cls s1 q1)) = kf_id descriptor" "shape s1 q1 = shd" "cls s1 q1 \<noteq> None"
    using qs1 e(2) by simp_all
  have f1: "dm_inv s1" "never_fails (mem s1)" "node s1 = node s" "\<forall>q. q \<noteq> p \<longrightarrow> eps s1 q = eps s q"
      "\<forall>d. cls s d \<noteq> None \<longrightarrow> cls s1 d = cls s d \<and> shape s1 d = shape s d"
    using s1(2) by (auto simp: grown_def)
  let ?e = "e\<lparr>ep_clusters := [q1], ep_device_types := (ep_device_types e)[0 := \<lparr>dt_version = dv_version d, dt_id = dv_id d\<rparr>],
      ep_device_type_count := 1\<rparr>"
  let ?t = "put_endpoint p ?e s1"
  have add: "add_device_type (g_env G) (Some p) (dv_id d) (dv_version d) s1 = Some (ESP_OK, ?t)"
    using q1(1) e(3-5) by (simp add: add_device_type_def)
  have invt: "dm_inv ?t" using keeps_endpoint_setters(2)[OF add] f1(1) by (simp add: keeps_def)
  have gt: "grown G p [kf_id descriptor] ?t ?t (\<lambda>_. None) []"
    by (rule grown_start[OF invt, of p ?e]) (use f1(2) q1 in auto)
  have ppt: "plain_path (g_prov G) (ep_id (the (eps ?t p))) j" for j using pp by simp
  have "device_step G p [kf_id descriptor] ?t (execs_device G binding (Some p) (dv_body d) (fst (config, [] :: (u32 \<times> shape) list), (\<lambda>_. None), ?t))
      (fst (config, [] :: (u32 \<times> shape) list)) (config', cs')"
    by (rule exec_device_steps(2)[OF G ppt]) (use gt d shd(2) in simp_all)
  then obtain vars' s2 where s2: "execs_device G binding (Some p) (dv_body d) (config, (\<lambda>_. None), ?t) = Some (ESP_OK, config', vars', s2)"
      "grown G p [kf_id descriptor] ?t s2 vars' cs'"
    by (auto simp: device_step_def)
  obtain q2 where q2: "eps s2 p = Some (?e\<lparr>ep_clusters := [q1] @ q2\<rparr>)" "map (\<lambda>c. (cl_id (the (cls s2 c)), shape s2 c)) q2 = cs'"
    by (rule grown_end[OF s2(2), of ?e]) simp_all
  have f2: "dm_inv s2" "node s2 = node ?t" "\<forall>q. q \<noteq> p \<longrightarrow> eps s2 q = eps ?t q"
      "\<forall>d. cls ?t d \<noteq> None \<longrightarrow> cls s2 d = cls ?t d \<and> shape s2 d = shape ?t d"
    using s2(2) by (auto simp: grown_def)
  have st: "shape ?t d = shape s1 d" for d by (simp add: shape_def)
  have "device_populate G binding descriptor d (Some p) config s = Some (Some p, s2)"
    using s1(1) add s2(1) by (simp add: device_populate_def device_add_def)
  moreover have "node s2 = node s" using f2(2) f1(3) by simp
  moreover have "eps s2 = (eps s)(p \<mapsto> e\<lparr>ep_clusters := q1 # q2, ep_device_types := (ep_device_types e)[0 := \<lparr>dt_version = dv_version d, dt_id = dv_id d\<rparr>],
      ep_device_type_count := 1\<rparr>)"
    using q2(1) f2(3) f1(4) by (auto simp: fun_eq_iff)
  moreover have "map (\<lambda>c. (cl_id (the (cls s2 c)), shape s2 c)) (q1 # q2) = cs"
    using q2(2) q1(2-4) f2(4) st shd(3) by simp
  moreover have "\<forall>d. cls s d \<noteq> None \<longrightarrow> cls s2 d = cls s d \<and> shape s2 d = shape s d" using f1(5) f2(4) st by simp
  ultimately show ?thesis using f2(1) by blast
qed

lemma endpoint_create_succeeds:
  assumes inv: "dm_inv s" "never_fails (mem s)" and nd: "node s = Some nd" and room: "length (nd_endpoints nd) < e_max_endpoints E"
  shows "\<exists>a s1. endpoint_create E (Some (nd_addr nd)) flags pd s = Some (Some a, s1) \<and> never_fails (mem s1)"
proof -
  have count: "endpoint_get_count s (Some (nd_addr nd)) = Some (of_nat (length (nd_endpoints nd)))"
    using endpoints_live(1)[OF inv(1) nd] nd by (simp add: endpoint_get_count_def node_at_def)
  have "unat (of_nat (length (nd_endpoints nd)) :: u16) \<le> length (nd_endpoints nd)"
    by (simp add: unsigned_of_nat take_bit_eq_mod)
  then have u: "unat (of_nat (length (nd_endpoints nd)) :: u16) < e_max_endpoints E" using room by linarith
  obtain a t where "alloc s = (Some a, t)" "never_fails (mem t)" "started t = started s"
    using inv(2) by (simp add: alloc_def mem_calloc_def never_fails_def Let_def)
  then show ?thesis using count nd u by (simp add: endpoint_create_def node_at_def link_endpoint_def Let_def)
qed

lemma device_create_endpoint:
  assumes G: "gen_ok G" and pp: "\<And>j. plain_path (g_prov G) (nd_min_unused nd) j"
    and inv: "dm_inv s" "ids_below s" "never_fails (mem s)" and nd: "node s = Some nd"
    and room: "length (nd_endpoints nd) < e_max_endpoints (g_env G)" "0 < e_max_device_types (g_env G)"
    and d: "list_all dstmt_ok (dv_body d)" "list_all (dargs_ok config) (dv_body d)"
    and k: "cluster_ok descriptor" "list_all (cargs_ok (dc_clusters config ''descriptor'')) (kf_body descriptor)"
    and sh: "sh_device_type (g_built G) descriptor d config = (True, cs)"
  shows "\<exists>p s' e. device_create G binding descriptor d (Some (nd_addr nd)) config flags pd s = Some (Some p, s') \<and> dm_inv s' \<and>
    node s' = Some (nd\<lparr>nd_min_unused := nd_min_unused nd + 1, nd_endpoints := nd_endpoints nd @ [p]\<rparr>) \<and>
    eps s p = None \<and> eps s' = (eps s)(p \<mapsto> e) \<and> ep_id e = nd_min_unused nd \<and>
    ep_device_type_count e = 1 \<and> ep_device_types e ! 0 = \<lparr>dt_version = dv_version d, dt_id = dv_id d\<rparr> \<and>
    map (\<lambda>c. (cl_id (the (cls s' c)), shape s' c)) (ep_clusters e) = cs \<and>
    (\<forall>c. cls s c \<noteq> None \<longrightarrow> cls s' c = cls s c \<and> shape s' c = shape s c)"
proof -
  let ?E = "g_env G" and ?f = "(new_endpoint (g_env G) (nd_min_unused nd) flags pd)\<lparr>ep_parent := kInvalidEndpointId, ep_enabled := True\<rparr>"
  obtain a s1 where s1: "endpoint_create ?E (Some (nd_addr nd)) flags pd s = Some (Some a, s1)" "never_fails (mem s1)"
    using endpoint_create_succeeds[OF inv(1,3) nd room(1)] by blast
  have a: "a = mem_next (mem s)" "eps s1 = (eps s)(a \<mapsto> ?f)" "cls s1 = cls s" "ats s1 = ats s" "cms s1 = cms s" "evs s1 = evs s"
      "node s1 = Some (nd\<lparr>nd_min_unused := nd_min_unused nd + 1, nd_endpoints := nd_endpoints nd @ [a]\<rparr>)"
    by (rule endpoint_create_cases[OF s1(1) inv(1) nd]; simp)+
  have inv1: "dm_inv s1" by (rule endpoint_create_inv(1)[OF s1(1) inv(1,2) nd])
  have sh1: "shape s1 c = shape s c" for c by (simp add: shape_def shape_of_def a)
  have f: "eps s1 a = Some ?f" "ep_clusters ?f = []" "ep_device_type_count ?f = 0" "ep_device_types ?f \<noteq> []"
    using room(2) by (simp_all add: a(2) new_endpoint_def)
  have ppf: "plain_path (g_prov G) (ep_id ?f) j" for j using pp by (simp add: new_endpoint_def)
  obtain s' qs where s': "device_populate G binding descriptor d (Some a) config s1 = Some (Some a, s')" "dm_inv s'" "node s' = node s1"
      "eps s' = (eps s1)(a \<mapsto> ?f\<lparr>ep_clusters := qs, ep_device_types := (ep_device_types ?f)[0 := \<lparr>dt_version = dv_version d, dt_id = dv_id d\<rparr>],
        ep_device_type_count := 1\<rparr>)"
      "map (\<lambda>c. (cl_id (the (cls s' c)), shape s' c)) qs = cs" "\<forall>c. cls s1 c \<noteq> None \<longrightarrow> cls s' c = cls s1 c \<and> shape s' c = shape s1 c"
    using device_populate_builds[OF G ppf inv1 s1(2) f room(2) d k sh, of binding] by blast
  have "eps s a = None" using inv_next_free(1)[OF inv(1)] a(1) by simp
  moreover have "eps s' = (eps s)(a \<mapsto> ?f\<lparr>ep_clusters := qs, ep_device_types := (ep_device_types ?f)[0 := \<lparr>dt_version = dv_version d, dt_id = dv_id d\<rparr>],
        ep_device_type_count := 1\<rparr>)" using s'(4) a(2) by simp
  moreover have "device_create G binding descriptor d (Some (nd_addr nd)) config flags pd s = Some (Some a, s')"
    using s1(1) s'(1) by (simp add: device_create_def)
  ultimately show ?thesis using s'(2,3,5,6) a(3,7) sh1 f(4) by (fastforce simp: new_endpoint_def)
qed

end
