(* ===== verification/EM_Devices.thy ===== *)
theory EM_Devices
  imports EM_Clusters EM_Device
begin

text \<open>
  The device types of \<open>data_model/generated/device_types\<close>, one definition for each, in the order of
  their directories: the id and version of the header and the statements of \<open>add\<close>.
\<close>

section \<open>Device types\<close>

definition aggregator_device :: device_fn where
  "aggregator_device =
     \<lparr>dv_id = 0x000e,
      dv_version = 2,
      dv_body = []\<rparr>"

definition air_purifier_device :: device_fn where
  "air_purifier_device =
     \<lparr>dv_id = 0x002d,
      dv_version = 2,
      dv_body = [Use_Cluster identify_create ''identify'' False,
         Use_Cluster fan_control_create ''fan_control'' False]\<rparr>"

definition air_quality_sensor_device :: device_fn where
  "air_quality_sensor_device =
     \<lparr>dv_id = 0x002c,
      dv_version = 1,
      dv_body = [Use_Cluster identify_create ''identify'' False,
         Use_Cluster air_quality_create ''air_quality'' False]\<rparr>"

definition audio_doorbell_device :: device_fn where
  "audio_doorbell_device =
     \<lparr>dv_id = 0x0141,
      dv_version = 1,
      dv_body = [Use_Cluster identify_create ''identify'' False,
         Use_Cluster switch_cluster_create ''switch_cluster'' False,
         Set_Feature_Flags ''camera_av_stream_management'' camera_av_stream_management_audio_id,
         Use_Cluster camera_av_stream_management_create ''camera_av_stream_management'' False,
         Use_Cluster webrtc_transport_provider_create ''webrtc_transport_provider'' False,
         Client_Cluster webrtc_transport_requestor_create, Client_Cluster chime_create,
         Use_Cluster binding_create ''binding'' False]\<rparr>"

definition basic_video_player_device :: device_fn where
  "basic_video_player_device =
     \<lparr>dv_id = 0x0028,
      dv_version = 2,
      dv_body = [Use_Cluster on_off_create ''on_off'' False,
         Use_Cluster media_playback_create ''media_playback'' False,
         Use_Cluster keypad_input_create ''keypad_input'' False]\<rparr>"

definition battery_storage_device :: device_fn where
  "battery_storage_device =
     \<lparr>dv_id = 0x0018,
      dv_version = 2,
      dv_body = []\<rparr>"

definition bridged_node_device :: device_fn where
  "bridged_node_device =
     \<lparr>dv_id = 0x0013,
      dv_version = 3,
      dv_body = [Use_Cluster bridged_device_basic_information_create ''bridged_device_basic_information''
           False]\<rparr>"

definition camera_controller_device :: device_fn where
  "camera_controller_device =
     \<lparr>dv_id = 0x0147,
      dv_version = 1,
      dv_body = [Client_Cluster webrtc_transport_provider_create,
         Use_Cluster webrtc_transport_requestor_create ''webrtc_transport_requestor'' False,
         Use_Cluster binding_create ''binding'' False]\<rparr>"

definition camera_device :: device_fn where
  "camera_device =
     \<lparr>dv_id = 0x0142,
      dv_version = 1,
      dv_body = [Set_Feature_Flags ''camera_av_stream_management'' (camera_av_stream_management_audio_id OR
           camera_av_stream_management_video_id OR camera_av_stream_management_snapshot_id),
         Use_Cluster camera_av_stream_management_create ''camera_av_stream_management'' False,
         Use_Cluster webrtc_transport_provider_create ''webrtc_transport_provider'' False,
         Client_Cluster webrtc_transport_requestor_create, Use_Cluster binding_create ''binding'' False]\<rparr>"

definition casting_video_client_device :: device_fn where
  "casting_video_client_device =
     \<lparr>dv_id = 0x0029,
      dv_version = 2,
      dv_body = [Client_Cluster on_off_create, Client_Cluster keypad_input_create,
         Client_Cluster content_launcher_create, Client_Cluster application_basic_create,
         Use_Cluster binding_create ''binding'' False]\<rparr>"

definition casting_video_player_device :: device_fn where
  "casting_video_player_device =
     \<lparr>dv_id = 0x0023,
      dv_version = 2,
      dv_body = [Use_Cluster on_off_create ''on_off'' False,
         Use_Cluster media_playback_create ''media_playback'' False,
         Use_Cluster keypad_input_create ''keypad_input'' False,
         Use_Cluster content_launcher_create ''content_launcher'' False]\<rparr>"

definition chime_device :: device_fn where
  "chime_device =
     \<lparr>dv_id = 0x0146,
      dv_version = 1,
      dv_body = [Use_Cluster chime_create ''chime'' False]\<rparr>"

definition closure_controller_device :: device_fn where
  "closure_controller_device =
     \<lparr>dv_id = 0x023e,
      dv_version = 1,
      dv_body = [Client_Cluster closure_control_create, Use_Cluster binding_create ''binding'' False]\<rparr>"

definition closure_device :: device_fn where
  "closure_device =
     \<lparr>dv_id = 0x0230,
      dv_version = 1,
      dv_body = [Use_Cluster identify_create ''identify'' False,
         Use_Cluster closure_control_create ''closure_control'' False]\<rparr>"

definition closure_panel_device :: device_fn where
  "closure_panel_device =
     \<lparr>dv_id = 0x0231,
      dv_version = 1,
      dv_body = [Use_Cluster closure_dimension_create ''closure_dimension'' False]\<rparr>"

definition color_dimmer_switch_device :: device_fn where
  "color_dimmer_switch_device =
     \<lparr>dv_id = 0x0105,
      dv_version = 3,
      dv_body = [Use_Cluster identify_create ''identify'' False, Client_Cluster identify_create,
         Client_Cluster on_off_create, Client_Cluster level_control_create, Client_Cluster color_control_create,
         Use_Cluster binding_create ''binding'' False]\<rparr>"

definition color_temperature_light_device :: device_fn where
  "color_temperature_light_device =
     \<lparr>dv_id = 0x010c,
      dv_version = 4,
      dv_body = [Use_Cluster identify_create ''identify'' True, On_Command 0x0003 identify_command_trigger_effect,
         Use_Cluster groups_create ''groups'' False, Use_Cluster on_off_create ''on_off'' True,
         On_Feature 0x0006 on_off_feature_lighting (Some ''on_off_lighting''),
         Use_Cluster level_control_create ''level_control'' True,
         On_Feature 0x0008 level_control_feature_on_off None,
         On_Feature 0x0008 level_control_feature_lighting (Some ''level_control_lighting''),
         Use_Cluster scenes_management_create ''scenes_management'' True,
         On_Command 0x0062 scenes_management_command_copy_scene,
         Use_Cluster color_control_create ''color_control'' True,
         On_Attribute 0x0300 color_control_attribute_remaining_time (Field ''remaining_time''),
         On_Feature 0x0300 color_control_feature_color_temperature (Some
           ''color_control_color_temperature'')]\<rparr>"

definition contact_sensor_device :: device_fn where
  "contact_sensor_device =
     \<lparr>dv_id = 0x0015,
      dv_version = 2,
      dv_body = [Use_Cluster identify_create ''identify'' False,
         Use_Cluster boolean_state_create ''boolean_state'' False]\<rparr>"

definition content_app_device :: device_fn where
  "content_app_device =
     \<lparr>dv_id = 0x0024,
      dv_version = 2,
      dv_body = [Use_Cluster keypad_input_create ''keypad_input'' False,
         Use_Cluster application_launcher_create ''application_launcher'' False,
         Use_Cluster application_basic_create ''application_basic'' False]\<rparr>"

definition control_bridge_device :: device_fn where
  "control_bridge_device =
     \<lparr>dv_id = 0x0840,
      dv_version = 3,
      dv_body = [Use_Cluster identify_create ''identify'' False, Client_Cluster identify_create,
         Client_Cluster groups_create, Client_Cluster on_off_create, Client_Cluster level_control_create,
         Client_Cluster scenes_management_create, Client_Cluster color_control_create,
         Use_Cluster binding_create ''binding'' False]\<rparr>"

definition cook_surface_device :: device_fn where
  "cook_surface_device =
     \<lparr>dv_id = 0x0077,
      dv_version = 2,
      dv_body = []\<rparr>"

definition cooktop_device :: device_fn where
  "cooktop_device =
     \<lparr>dv_id = 0x0078,
      dv_version = 1,
      dv_body = [Use_Cluster on_off_create ''on_off'' True, On_Feature 0x0006 on_off_feature_off_only None]\<rparr>"

definition device_energy_management_device :: device_fn where
  "device_energy_management_device =
     \<lparr>dv_id = 0x050d,
      dv_version = 3,
      dv_body = [Use_Cluster device_energy_management_create ''device_energy_management'' False]\<rparr>"

definition dimmable_light_device :: device_fn where
  "dimmable_light_device =
     \<lparr>dv_id = 0x0101,
      dv_version = 3,
      dv_body = [Use_Cluster identify_create ''identify'' True, On_Command 0x0003 identify_command_trigger_effect,
         Use_Cluster groups_create ''groups'' False, Use_Cluster on_off_create ''on_off'' True,
         On_Feature 0x0006 on_off_feature_lighting (Some ''on_off_lighting''),
         Use_Cluster level_control_create ''level_control'' True,
         On_Feature 0x0008 level_control_feature_on_off None,
         On_Feature 0x0008 level_control_feature_lighting (Some ''level_control_lighting''),
         Use_Cluster scenes_management_create ''scenes_management'' True,
         On_Command 0x0062 scenes_management_command_copy_scene]\<rparr>"

definition dimmable_plug_in_unit_device :: device_fn where
  "dimmable_plug_in_unit_device =
     \<lparr>dv_id = 0x010b,
      dv_version = 5,
      dv_body = [Use_Cluster identify_create ''identify'' True, On_Command 0x0003 identify_command_trigger_effect,
         Use_Cluster groups_create ''groups'' False, Use_Cluster on_off_create ''on_off'' True,
         On_Feature 0x0006 on_off_feature_lighting (Some ''on_off_lighting''),
         Use_Cluster level_control_create ''level_control'' True,
         On_Feature 0x0008 level_control_feature_on_off None,
         On_Feature 0x0008 level_control_feature_lighting (Some ''level_control_lighting''),
         Use_Cluster scenes_management_create ''scenes_management'' True,
         On_Command 0x0062 scenes_management_command_copy_scene]\<rparr>"

definition dimmer_switch_device :: device_fn where
  "dimmer_switch_device =
     \<lparr>dv_id = 0x0104,
      dv_version = 3,
      dv_body = [Use_Cluster identify_create ''identify'' False, Client_Cluster identify_create,
         Client_Cluster on_off_create, Client_Cluster level_control_create,
         Use_Cluster binding_create ''binding'' False]\<rparr>"

definition dish_washer_device :: device_fn where
  "dish_washer_device =
     \<lparr>dv_id = 0x0075,
      dv_version = 2,
      dv_body = [Use_Cluster operational_state_create ''operational_state'' True,
         On_Event 0x0060 operational_state_event_operation_completion]\<rparr>"

definition door_lock_controller_device :: device_fn where
  "door_lock_controller_device =
     \<lparr>dv_id = 0x000b,
      dv_version = 3,
      dv_body = [Client_Cluster door_lock_create, Use_Cluster binding_create ''binding'' False]\<rparr>"

definition door_lock_device :: device_fn where
  "door_lock_device =
     \<lparr>dv_id = 0x000a,
      dv_version = 3,
      dv_body = [Use_Cluster identify_create ''identify'' False,
         Use_Cluster door_lock_create ''door_lock'' False]\<rparr>"

definition doorbell_device :: device_fn where
  "doorbell_device =
     \<lparr>dv_id = 0x0148,
      dv_version = 1,
      dv_body = [Use_Cluster identify_create ''identify'' False,
         Set_Feature_Flags ''switch_cluster'' switch_cluster_momentary_switch_id,
         Use_Cluster switch_cluster_create ''switch_cluster'' False, Client_Cluster chime_create,
         Use_Cluster binding_create ''binding'' False]\<rparr>"

definition electrical_energy_tariff_device :: device_fn where
  "electrical_energy_tariff_device =
     \<lparr>dv_id = 0x0513,
      dv_version = 1,
      dv_body = []\<rparr>"

definition electrical_meter_device :: device_fn where
  "electrical_meter_device =
     \<lparr>dv_id = 0x0514,
      dv_version = 1,
      dv_body = [Use_Cluster electrical_power_measurement_create ''electrical_power_measurement'' False,
         Use_Cluster electrical_energy_measurement_create ''electrical_energy_measurement'' False]\<rparr>"

definition electrical_sensor_device :: device_fn where
  "electrical_sensor_device =
     \<lparr>dv_id = 0x0510,
      dv_version = 1,
      dv_body = [Use_Cluster power_topology_create ''power_topology'' False]\<rparr>"

definition electrical_utility_meter_device :: device_fn where
  "electrical_utility_meter_device =
     \<lparr>dv_id = 0x0511,
      dv_version = 1,
      dv_body = [Use_Cluster meter_identification_create ''meter_identification'' False]\<rparr>"

definition energy_evse_device :: device_fn where
  "energy_evse_device =
     \<lparr>dv_id = 0x050c,
      dv_version = 2,
      dv_body = [Use_Cluster energy_evse_create ''energy_evse'' False,
         Use_Cluster energy_evse_mode_create ''energy_evse_mode'' False]\<rparr>"

definition extended_color_light_device :: device_fn where
  "extended_color_light_device =
     \<lparr>dv_id = 0x010d,
      dv_version = 4,
      dv_body = [Use_Cluster identify_create ''identify'' True, On_Command 0x0003 identify_command_trigger_effect,
         Use_Cluster groups_create ''groups'' False, Use_Cluster on_off_create ''on_off'' True,
         On_Feature 0x0006 on_off_feature_lighting (Some ''on_off_lighting''),
         Use_Cluster level_control_create ''level_control'' True,
         On_Feature 0x0008 level_control_feature_on_off None,
         On_Feature 0x0008 level_control_feature_lighting (Some ''level_control_lighting''),
         Use_Cluster scenes_management_create ''scenes_management'' True,
         On_Command 0x0062 scenes_management_command_copy_scene,
         Use_Cluster color_control_create ''color_control'' True,
         On_Attribute 0x0300 color_control_attribute_remaining_time (Field ''remaining_time''),
         On_Feature 0x0300 color_control_feature_color_temperature (Some ''color_control_color_temperature''),
         On_Feature 0x0300 color_control_feature_xy (Some ''color_control_xy'')]\<rparr>"

definition extractor_hood_device :: device_fn where
  "extractor_hood_device =
     \<lparr>dv_id = 0x007a,
      dv_version = 1,
      dv_body = [Use_Cluster fan_control_create ''fan_control'' False]\<rparr>"

definition fan_device :: device_fn where
  "fan_device =
     \<lparr>dv_id = 0x002b,
      dv_version = 4,
      dv_body = [Use_Cluster identify_create ''identify'' False, Use_Cluster groups_create ''groups'' False,
         Use_Cluster fan_control_create ''fan_control'' False]\<rparr>"

definition floodlight_camera_device :: device_fn where
  "floodlight_camera_device =
     \<lparr>dv_id = 0x0144,
      dv_version = 1,
      dv_body = []\<rparr>"

definition flow_sensor_device :: device_fn where
  "flow_sensor_device =
     \<lparr>dv_id = 0x0306,
      dv_version = 2,
      dv_body = [Use_Cluster identify_create ''identify'' False,
         Use_Cluster flow_measurement_create ''flow_measurement'' False]\<rparr>"

definition generic_switch_device :: device_fn where
  "generic_switch_device =
     \<lparr>dv_id = 0x000f,
      dv_version = 3,
      dv_body = [Use_Cluster identify_create ''identify'' False,
         Use_Cluster switch_cluster_create ''switch_cluster'' False]\<rparr>"

definition heat_pump_device :: device_fn where
  "heat_pump_device =
     \<lparr>dv_id = 0x0309,
      dv_version = 1,
      dv_body = []\<rparr>"

definition humidity_sensor_device :: device_fn where
  "humidity_sensor_device =
     \<lparr>dv_id = 0x0307,
      dv_version = 2,
      dv_body = [Use_Cluster identify_create ''identify'' False,
         Use_Cluster relative_humidity_measurement_create ''relative_humidity_measurement'' False]\<rparr>"

definition intercom_device :: device_fn where
  "intercom_device =
     \<lparr>dv_id = 0x0140,
      dv_version = 1,
      dv_body = [Set_Feature_Flags ''camera_av_stream_management'' camera_av_stream_management_audio_id,
         Use_Cluster camera_av_stream_management_create ''camera_av_stream_management'' False,
         Use_Cluster webrtc_transport_provider_create ''webrtc_transport_provider'' False,
         Client_Cluster webrtc_transport_provider_create,
         Use_Cluster webrtc_transport_requestor_create ''webrtc_transport_requestor'' False,
         Client_Cluster webrtc_transport_requestor_create, Use_Cluster binding_create ''binding'' False]\<rparr>"

definition irrigation_system_device :: device_fn where
  "irrigation_system_device =
     \<lparr>dv_id = 0x0040,
      dv_version = 1,
      dv_body = []\<rparr>"

definition joint_fabric_administrator_device :: device_fn where
  "joint_fabric_administrator_device =
     \<lparr>dv_id = 0x0130,
      dv_version = 1,
      dv_body = [Use_Cluster joint_fabric_datastore_create ''joint_fabric_datastore'' False,
         Use_Cluster joint_fabric_administrator_create ''joint_fabric_administrator'' False]\<rparr>"

definition laundry_dryer_device :: device_fn where
  "laundry_dryer_device =
     \<lparr>dv_id = 0x007c,
      dv_version = 2,
      dv_body = [Use_Cluster operational_state_create ''operational_state'' True,
         On_Event 0x0060 operational_state_event_operation_completion]\<rparr>"

definition laundry_washer_device :: device_fn where
  "laundry_washer_device =
     \<lparr>dv_id = 0x0073,
      dv_version = 2,
      dv_body = [Use_Cluster operational_state_create ''operational_state'' True,
         On_Event 0x0060 operational_state_event_operation_completion]\<rparr>"

definition light_sensor_device :: device_fn where
  "light_sensor_device =
     \<lparr>dv_id = 0x0106,
      dv_version = 3,
      dv_body = [Use_Cluster identify_create ''identify'' False,
         Use_Cluster illuminance_measurement_create ''illuminance_measurement'' False]\<rparr>"

definition meter_reference_point_device :: device_fn where
  "meter_reference_point_device =
     \<lparr>dv_id = 0x0512,
      dv_version = 1,
      dv_body = [Use_Cluster identify_create ''identify'' False]\<rparr>"

definition microwave_oven_device :: device_fn where
  "microwave_oven_device =
     \<lparr>dv_id = 0x0079,
      dv_version = 2,
      dv_body = [Use_Cluster microwave_oven_mode_create ''microwave_oven_mode'' False,
         Use_Cluster microwave_oven_control_create ''microwave_oven_control'' False,
         Use_Cluster operational_state_create ''operational_state'' True,
         On_Attribute 0x0060 operational_state_attribute_countdown_time (Lit 0),
         On_Event 0x0060 operational_state_event_operation_completion]\<rparr>"

definition mode_select_device :: device_fn where
  "mode_select_device =
     \<lparr>dv_id = 0x0027,
      dv_version = 1,
      dv_body = [Use_Cluster mode_select_create ''mode_select'' False]\<rparr>"

definition mounted_dimmable_load_control_device :: device_fn where
  "mounted_dimmable_load_control_device =
     \<lparr>dv_id = 0x0110,
      dv_version = 2,
      dv_body = [Use_Cluster identify_create ''identify'' True, On_Command 0x0003 identify_command_trigger_effect,
         Use_Cluster groups_create ''groups'' False, Use_Cluster on_off_create ''on_off'' True,
         On_Feature 0x0006 on_off_feature_lighting (Some ''on_off_lighting''),
         Use_Cluster level_control_create ''level_control'' True,
         On_Feature 0x0008 level_control_feature_on_off None,
         On_Feature 0x0008 level_control_feature_lighting (Some ''level_control_lighting''),
         Use_Cluster scenes_management_create ''scenes_management'' True,
         On_Command 0x0062 scenes_management_command_copy_scene]\<rparr>"

definition mounted_on_off_control_device :: device_fn where
  "mounted_on_off_control_device =
     \<lparr>dv_id = 0x010f,
      dv_version = 2,
      dv_body = [Use_Cluster identify_create ''identify'' True, On_Command 0x0003 identify_command_trigger_effect,
         Use_Cluster groups_create ''groups'' False, Use_Cluster on_off_create ''on_off'' True,
         On_Feature 0x0006 on_off_feature_lighting (Some ''on_off_lighting''),
         Use_Cluster scenes_management_create ''scenes_management'' True,
         On_Command 0x0062 scenes_management_command_copy_scene]\<rparr>"

definition network_infrastructure_manager_device :: device_fn where
  "network_infrastructure_manager_device =
     \<lparr>dv_id = 0x0090,
      dv_version = 2,
      dv_body = [Use_Cluster thread_network_diagnostics_create ''thread_network_diagnostics'' False,
         Use_Cluster wi_fi_network_management_create ''wi_fi_network_management'' False,
         Use_Cluster thread_border_router_management_create ''thread_border_router_management'' False,
         Use_Cluster thread_network_directory_create ''thread_network_directory'' False]\<rparr>"

definition occupancy_sensor_device :: device_fn where
  "occupancy_sensor_device =
     \<lparr>dv_id = 0x0107,
      dv_version = 4,
      dv_body = [Use_Cluster identify_create ''identify'' False,
         Use_Cluster occupancy_sensing_create ''occupancy_sensing'' False]\<rparr>"

definition on_off_light_device :: device_fn where
  "on_off_light_device =
     \<lparr>dv_id = 0x0100,
      dv_version = 3,
      dv_body = [Use_Cluster identify_create ''identify'' True, On_Command 0x0003 identify_command_trigger_effect,
         Use_Cluster groups_create ''groups'' False, Use_Cluster on_off_create ''on_off'' True,
         On_Feature 0x0006 on_off_feature_lighting (Some ''on_off_lighting''),
         Use_Cluster scenes_management_create ''scenes_management'' True,
         On_Command 0x0062 scenes_management_command_copy_scene]\<rparr>"

definition on_off_light_switch_device :: device_fn where
  "on_off_light_switch_device =
     \<lparr>dv_id = 0x0103,
      dv_version = 3,
      dv_body = [Use_Cluster identify_create ''identify'' False, Client_Cluster identify_create,
         Client_Cluster on_off_create, Use_Cluster binding_create ''binding'' False]\<rparr>"

definition on_off_plug_in_unit_device :: device_fn where
  "on_off_plug_in_unit_device =
     \<lparr>dv_id = 0x010a,
      dv_version = 4,
      dv_body = [Use_Cluster identify_create ''identify'' True, On_Command 0x0003 identify_command_trigger_effect,
         Use_Cluster groups_create ''groups'' False, Use_Cluster on_off_create ''on_off'' True,
         On_Feature 0x0006 on_off_feature_lighting (Some ''on_off_lighting''),
         Use_Cluster scenes_management_create ''scenes_management'' True,
         On_Command 0x0062 scenes_management_command_copy_scene]\<rparr>"

definition on_off_sensor_device :: device_fn where
  "on_off_sensor_device =
     \<lparr>dv_id = 0x0850,
      dv_version = 3,
      dv_body = [Use_Cluster identify_create ''identify'' False, Client_Cluster identify_create,
         Client_Cluster on_off_create, Use_Cluster binding_create ''binding'' False]\<rparr>"

definition ota_provider_device :: device_fn where
  "ota_provider_device =
     \<lparr>dv_id = 0x0014,
      dv_version = 1,
      dv_body = [Use_Cluster ota_software_update_provider_create ''ota_software_update_provider'' False]\<rparr>"

definition ota_requestor_device :: device_fn where
  "ota_requestor_device =
     \<lparr>dv_id = 0x0012,
      dv_version = 1,
      dv_body = [Client_Cluster ota_software_update_provider_create,
         Use_Cluster ota_software_update_requestor_create ''ota_software_update_requestor'' False,
         Use_Cluster binding_create ''binding'' False]\<rparr>"

definition oven_device :: device_fn where
  "oven_device =
     \<lparr>dv_id = 0x007b,
      dv_version = 2,
      dv_body = []\<rparr>"

definition power_source_device :: device_fn where
  "power_source_device =
     \<lparr>dv_id = 0x0011,
      dv_version = 1,
      dv_body = [Use_Cluster power_source_create ''power_source'' False]\<rparr>"

definition pressure_sensor_device :: device_fn where
  "pressure_sensor_device =
     \<lparr>dv_id = 0x0305,
      dv_version = 2,
      dv_body = [Use_Cluster identify_create ''identify'' False,
         Use_Cluster pressure_measurement_create ''pressure_measurement'' False]\<rparr>"

definition pump_controller_device :: device_fn where
  "pump_controller_device =
     \<lparr>dv_id = 0x0304,
      dv_version = 4,
      dv_body = [Use_Cluster identify_create ''identify'' False, Client_Cluster on_off_create,
         Client_Cluster pump_configuration_and_control_create,
         Use_Cluster binding_create ''binding'' False]\<rparr>"

definition pump_device :: device_fn where
  "pump_device =
     \<lparr>dv_id = 0x0303,
      dv_version = 3,
      dv_body = [Use_Cluster identify_create ''identify'' False, Use_Cluster on_off_create ''on_off'' False,
         Use_Cluster pump_configuration_and_control_create ''pump_configuration_and_control'' False]\<rparr>"

definition rain_sensor_device :: device_fn where
  "rain_sensor_device =
     \<lparr>dv_id = 0x0044,
      dv_version = 1,
      dv_body = [Use_Cluster identify_create ''identify'' False,
         Use_Cluster boolean_state_create ''boolean_state'' True,
         On_Event 0x0045 boolean_state_event_state_change]\<rparr>"

definition refrigerator_device :: device_fn where
  "refrigerator_device =
     \<lparr>dv_id = 0x0070,
      dv_version = 2,
      dv_body = []\<rparr>"

definition robotic_vacuum_cleaner_device :: device_fn where
  "robotic_vacuum_cleaner_device =
     \<lparr>dv_id = 0x0074,
      dv_version = 4,
      dv_body = [Use_Cluster identify_create ''identify'' False,
         Use_Cluster rvc_run_mode_create ''rvc_run_mode'' False,
         Use_Cluster rvc_operational_state_create ''rvc_operational_state'' True,
         On_Event 0x0061 rvc_operational_state_event_operation_completion]\<rparr>"

definition room_air_conditioner_device :: device_fn where
  "room_air_conditioner_device =
     \<lparr>dv_id = 0x0072,
      dv_version = 3,
      dv_body = [Use_Cluster identify_create ''identify'' False, Use_Cluster on_off_create ''on_off'' True,
         On_Feature 0x0006 on_off_feature_dead_front_behavior None,
         Use_Cluster thermostat_create ''thermostat'' False]\<rparr>"

definition root_node_device :: device_fn where
  "root_node_device =
     \<lparr>dv_id = 0x0016,
      dv_version = 4,
      dv_body = [Use_Cluster access_control_create ''access_control'' False,
         Use_Cluster basic_information_create ''basic_information'' False,
         Use_Cluster general_commissioning_create ''general_commissioning'' False,
         If_Built_Device ''CONFIG_CUSTOM_NETWORK_CONFIG'' [] [If_Built_Device
           ''CHIP_DEVICE_CONFIG_ENABLE_WIFI'' [Set_Feature_Flags ''network_commissioning''
           network_commissioning_wi_fi_network_interface_id] [If_Built_Device
           ''CHIP_DEVICE_CONFIG_ENABLE_THREAD'' [Set_Feature_Flags ''network_commissioning''
           network_commissioning_thread_network_interface_id] [Set_Feature_Flags ''network_commissioning''
           network_commissioning_ethernet_network_interface_id]],
         Use_Cluster network_commissioning_create ''network_commissioning'' False],
         Use_Cluster general_diagnostics_create ''general_diagnostics'' False,
         Use_Cluster administrator_commissioning_create ''administrator_commissioning'' False,
         Use_Cluster operational_credentials_create ''operational_credentials'' False,
         Use_Cluster group_key_management_create ''group_key_management'' False,
         If_Built_Device ''CHIP_CONFIG_ENABLE_ICD_SERVER'' [Use_Cluster icd_management_create
           ''icd_management'' False] []]\<rparr>"

definition secondary_network_interface_device :: device_fn where
  "secondary_network_interface_device =
     \<lparr>dv_id = 0x0019,
      dv_version = 1,
      dv_body = [If_Built_Device ''CONFIG_CUSTOM_NETWORK_CONFIG'' [] [If_Built_Device
           ''CHIP_DEVICE_CONFIG_ENABLE_WIFI'' [Set_Feature_Flags ''network_commissioning''
           network_commissioning_wi_fi_network_interface_id] [If_Built_Device
           ''CHIP_DEVICE_CONFIG_ENABLE_THREAD'' [Set_Feature_Flags ''network_commissioning''
           network_commissioning_thread_network_interface_id] [Set_Feature_Flags ''network_commissioning''
           network_commissioning_ethernet_network_interface_id]],
         Use_Cluster network_commissioning_create ''network_commissioning'' False]]\<rparr>"

definition smoke_co_alarm_device :: device_fn where
  "smoke_co_alarm_device =
     \<lparr>dv_id = 0x0076,
      dv_version = 1,
      dv_body = [Use_Cluster identify_create ''identify'' False,
         Use_Cluster smoke_co_alarm_create ''smoke_co_alarm'' False]\<rparr>"

definition snapshot_camera_device :: device_fn where
  "snapshot_camera_device =
     \<lparr>dv_id = 0x0145,
      dv_version = 1,
      dv_body = [Set_Feature_Flags ''camera_av_stream_management'' camera_av_stream_management_snapshot_id,
         Use_Cluster camera_av_stream_management_create ''camera_av_stream_management'' False]\<rparr>"

definition soil_sensor_device :: device_fn where
  "soil_sensor_device =
     \<lparr>dv_id = 0x0045,
      dv_version = 1,
      dv_body = [Use_Cluster identify_create ''identify'' False,
         Use_Cluster soil_measurement_create ''soil_measurement'' False]\<rparr>"

definition solar_power_device :: device_fn where
  "solar_power_device =
     \<lparr>dv_id = 0x0017,
      dv_version = 1,
      dv_body = []\<rparr>"

definition speaker_device :: device_fn where
  "speaker_device =
     \<lparr>dv_id = 0x0022,
      dv_version = 1,
      dv_body = [Use_Cluster on_off_create ''on_off'' False,
         Use_Cluster level_control_create ''level_control'' False]\<rparr>"

definition temperature_controlled_cabinet_device :: device_fn where
  "temperature_controlled_cabinet_device =
     \<lparr>dv_id = 0x0071,
      dv_version = 5,
      dv_body = [Set_Feature_Flags ''temperature_control'' temperature_control_temperature_number_id,
         Use_Cluster temperature_control_create ''temperature_control'' False]\<rparr>"

definition temperature_sensor_device :: device_fn where
  "temperature_sensor_device =
     \<lparr>dv_id = 0x0302,
      dv_version = 3,
      dv_body = [Use_Cluster identify_create ''identify'' False,
         Use_Cluster temperature_measurement_create ''temperature_measurement'' False]\<rparr>"

definition thermostat_controller_device :: device_fn where
  "thermostat_controller_device =
     \<lparr>dv_id = 0x030a,
      dv_version = 1,
      dv_body = [Client_Cluster thermostat_create, Use_Cluster binding_create ''binding'' False]\<rparr>"

definition thermostat_device :: device_fn where
  "thermostat_device =
     \<lparr>dv_id = 0x0301,
      dv_version = 4,
      dv_body = [Use_Cluster identify_create ''identify'' False,
         Use_Cluster thermostat_create ''thermostat'' False]\<rparr>"

definition thread_border_router_device :: device_fn where
  "thread_border_router_device =
     \<lparr>dv_id = 0x0091,
      dv_version = 2,
      dv_body = [Use_Cluster thread_network_diagnostics_create ''thread_network_diagnostics'' False,
         Use_Cluster thread_border_router_management_create ''thread_border_router_management'' False]\<rparr>"

definition video_doorbell_device :: device_fn where
  "video_doorbell_device =
     \<lparr>dv_id = 0x0143,
      dv_version = 1,
      dv_body = []\<rparr>"

definition video_remote_control_device :: device_fn where
  "video_remote_control_device =
     \<lparr>dv_id = 0x002a,
      dv_version = 2,
      dv_body = [Client_Cluster on_off_create, Client_Cluster media_playback_create,
         Client_Cluster keypad_input_create, Use_Cluster binding_create ''binding'' False]\<rparr>"

definition water_freeze_detector_device :: device_fn where
  "water_freeze_detector_device =
     \<lparr>dv_id = 0x0041,
      dv_version = 1,
      dv_body = [Use_Cluster identify_create ''identify'' False,
         Use_Cluster boolean_state_create ''boolean_state'' True,
         On_Event 0x0045 boolean_state_event_state_change]\<rparr>"

definition water_heater_device :: device_fn where
  "water_heater_device =
     \<lparr>dv_id = 0x050f,
      dv_version = 1,
      dv_body = [Use_Cluster water_heater_management_create ''water_heater_management'' False,
         Use_Cluster water_heater_mode_create ''water_heater_mode'' False,
         Set_Feature_Flags ''thermostat'' thermostat_heating_id,
         Use_Cluster thermostat_create ''thermostat'' False]\<rparr>"

definition water_leak_detector_device :: device_fn where
  "water_leak_detector_device =
     \<lparr>dv_id = 0x0043,
      dv_version = 1,
      dv_body = [Use_Cluster identify_create ''identify'' False,
         Use_Cluster boolean_state_create ''boolean_state'' True,
         On_Event 0x0045 boolean_state_event_state_change]\<rparr>"

definition water_valve_device :: device_fn where
  "water_valve_device =
     \<lparr>dv_id = 0x0042,
      dv_version = 1,
      dv_body = [Use_Cluster identify_create ''identify'' False,
         Use_Cluster valve_configuration_and_control_create ''valve_configuration_and_control'' False]\<rparr>"

definition window_covering_controller_device :: device_fn where
  "window_covering_controller_device =
     \<lparr>dv_id = 0x0203,
      dv_version = 4,
      dv_body = [Client_Cluster window_covering_create, Use_Cluster binding_create ''binding'' False]\<rparr>"

definition window_covering_device :: device_fn where
  "window_covering_device =
     \<lparr>dv_id = 0x0202,
      dv_version = 5,
      dv_body = [Use_Cluster identify_create ''identify'' False,
         Use_Cluster window_covering_create ''window_covering'' False]\<rparr>"

text \<open>The device types that create servers only, and those with a client cluster.\<close>

definition server_devices :: "device_fn list" where
  "server_devices =
     [aggregator_device, air_purifier_device, air_quality_sensor_device, basic_video_player_device,
      battery_storage_device, bridged_node_device, casting_video_player_device, chime_device, closure_device,
      closure_panel_device, color_temperature_light_device, contact_sensor_device, content_app_device,
      cook_surface_device, cooktop_device, device_energy_management_device, dimmable_light_device,
      dimmable_plug_in_unit_device, dish_washer_device, door_lock_device, electrical_energy_tariff_device,
      electrical_meter_device, electrical_sensor_device, electrical_utility_meter_device, energy_evse_device,
      extended_color_light_device, extractor_hood_device, fan_device, floodlight_camera_device,
      flow_sensor_device, generic_switch_device, heat_pump_device, humidity_sensor_device,
      irrigation_system_device, joint_fabric_administrator_device, laundry_dryer_device, laundry_washer_device,
      light_sensor_device, meter_reference_point_device, microwave_oven_device, mode_select_device,
      mounted_dimmable_load_control_device, mounted_on_off_control_device,
      network_infrastructure_manager_device, occupancy_sensor_device, on_off_light_device,
      on_off_plug_in_unit_device, ota_provider_device, oven_device, power_source_device,
      pressure_sensor_device, pump_device, rain_sensor_device, refrigerator_device,
      robotic_vacuum_cleaner_device, room_air_conditioner_device, root_node_device,
      secondary_network_interface_device, smoke_co_alarm_device, snapshot_camera_device, soil_sensor_device,
      solar_power_device, speaker_device, temperature_controlled_cabinet_device, temperature_sensor_device,
      thermostat_device, thread_border_router_device, video_doorbell_device, water_freeze_detector_device,
      water_heater_device, water_leak_detector_device, water_valve_device, window_covering_device]"

definition client_devices :: "device_fn list" where
  "client_devices =
     [audio_doorbell_device, camera_controller_device, camera_device, casting_video_client_device,
      closure_controller_device, color_dimmer_switch_device, control_bridge_device, dimmer_switch_device,
      door_lock_controller_device, doorbell_device, intercom_device, on_off_light_switch_device,
      on_off_sensor_device, ota_requestor_device, pump_controller_device, thermostat_controller_device,
      video_remote_control_device, window_covering_controller_device]"

lemma server_devices_ok: "list_all (\<lambda>d. list_all dstmt_ok (dv_body d)) server_devices"
  by code_simp

section \<open>Creation of a device\<close>

lemma descriptor_ok: "cluster_ok descriptor_create"
proof -
  have "descriptor_cluster \<in> set generated_clusters" "cd_create descriptor_cluster = Some descriptor_create"
    by (simp_all add: generated_clusters_def additive_clusters_def additive_04_def descriptor_cluster_def)
  then show ?thesis using generated_ok[of descriptor_cluster] by (simp add: decl_ok_def)
qed

text \<open>C3: the \<open>create\<close> function of every device type without client clusters builds the endpoint it
  describes.  On a well-formed store in which memory does not run out and the node has room, and when
  the description on shapes succeeds for the configuration, it returns an endpoint with the next id of
  the node, listed last, on which its device type is the one registered, and which has exactly the
  described clusters in order, the descriptor first, each with the described feature map, attributes,
  commands and events.  The other endpoints and clusters are as before.\<close>

theorem device_create_builds:
  assumes "d \<in> set server_devices" "gen_ok G" "\<forall>j. plain_path (g_prov G) (nd_min_unused nd) j"
    and "dm_inv s" "ids_below s" "never_fails (mem s)" "node s = Some nd"
    and "length (nd_endpoints nd) < e_max_endpoints (g_env G)" "0 < e_max_device_types (g_env G)"
    and "list_all (dargs_ok config) (dv_body d)" "list_all (cargs_ok (dc_clusters config ''descriptor'')) (kf_body descriptor_create)"
    and "sh_device_type (g_built G) descriptor_create d config = (True, cs)"
  shows "\<exists>p s' e. device_create G binding_create descriptor_create d (Some (nd_addr nd)) config flags pd s = Some (Some p, s') \<and> dm_inv s' \<and>
    node s' = Some (nd\<lparr>nd_min_unused := nd_min_unused nd + 1, nd_endpoints := nd_endpoints nd @ [p]\<rparr>) \<and>
    eps s p = None \<and> eps s' = (eps s)(p \<mapsto> e) \<and> ep_id e = nd_min_unused nd \<and>
    ep_device_type_count e = 1 \<and> ep_device_types e ! 0 = \<lparr>dt_version = dv_version d, dt_id = dv_id d\<rparr> \<and>
    map (\<lambda>c. (cl_id (the (cls s' c)), shape s' c)) (ep_clusters e) = cs \<and>
    (\<forall>c. cls s c \<noteq> None \<longrightarrow> cls s' c = cls s c \<and> shape s' c = shape s c)"
proof -
  have "list_all dstmt_ok (dv_body d)" using server_devices_ok assms(1) by (auto simp: list_all_iff)
  then show ?thesis using assms(3) by (intro device_create_endpoint[OF assms(2) _ assms(4-9) _ assms(10) descriptor_ok assms(11,12)]) auto
qed

text \<open>A contact sensor on the node of the example, with no cluster registered elsewhere.\<close>

definition demo_open :: "(flash, tlv_elem) gen" where
  "demo_open = demo_gen\<lparr>g_prov := demo_prov\<lparr>p_registered := \<lambda>i j. False\<rparr>\<rparr>"

lemma demo_open_simps [simp]:
  "g_env demo_open = demo_env" "g_built demo_open = (\<lambda>m. False)" "plain_path (g_prov demo_open) i j" "gen_ok demo_open"
  using demo_gen_ok by (simp_all add: demo_open_def demo_gen_def plain_path_def gen_ok_def)

definition demo_device :: device_config where
  "demo_device = \<lparr>dc_clusters = \<lambda>x. demo_features 0, dc_features = \<lambda>x y. Num 0, dc_fields = \<lambda>x. Num 0\<rparr>"

lemma demo_ids_below: "ids_below demo"
  by (auto simp: ids_below_def demo_endpoint_def split: if_splits)

lemma sensor_outline:
  "(case sh_device_type (\<lambda>m. False) descriptor_create contact_sensor_device demo_device of (ok, cs) \<Rightarrow> (ok, map fst cs)) =
     (True, [0x1D, 3, 0x45])"
  by code_simp

theorem device_create_builds_witness:
  "\<exists>p s' e. device_create demo_open binding_create descriptor_create contact_sensor_device (Some 1) demo_device 0 None demo =
      Some (Some p, s') \<and> eps s' p = Some e \<and> ep_id e = 2 \<and> ep_device_types e ! 0 = \<lparr>dt_version = 2, dt_id = 0x15\<rparr> \<and>
      map (\<lambda>c. cl_id (the (cls s' c))) (ep_clusters e) = [0x1D, 3, 0x45]"
proof -
  let ?nd = "\<lparr>nd_addr = 1, nd_endpoints = [2], nd_min_unused = 2\<rparr>"
  obtain cs where cs: "sh_device_type (g_built demo_open) descriptor_create contact_sensor_device demo_device = (True, cs)"
      "map fst cs = [0x1D, 3, 0x45]"
    using sensor_outline by (auto split: prod.splits)
  have d: "contact_sensor_device \<in> set server_devices" by (simp add: server_devices_def)
  have a: "list_all (dargs_ok demo_device) (dv_body contact_sensor_device)"
      "list_all (cargs_ok (dc_clusters demo_device ''descriptor'')) (kf_body descriptor_create)"
    by (simp_all add: contact_sensor_device_def demo_device_def list_all_iff demo_features_ok)
  have n: "node demo = Some ?nd" "length (nd_endpoints ?nd) < e_max_endpoints (g_env demo_open)" "0 < e_max_device_types (g_env demo_open)"
    by (simp_all add: demo_def demo_env_def)
  obtain p s' e where r: "device_create demo_open binding_create descriptor_create contact_sensor_device (Some 1) demo_device 0 None demo =
      Some (Some p, s')" "eps s' p = Some e" "ep_id e = 2" "ep_device_types e ! 0 = \<lparr>dt_version = 2, dt_id = 0x15\<rparr>"
      "map (\<lambda>c. (cl_id (the (cls s' c)), shape s' c)) (ep_clusters e) = cs"
    using device_create_builds[OF d demo_open_simps(4) _ demo_inv demo_ids_below demo_never_fails n a cs(1), of 0 None]
    by (auto simp: contact_sensor_device_def)
  have "map (\<lambda>c. cl_id (the (cls s' c))) (ep_clusters e) = map fst cs" using r(5) by (auto simp: comp_def)
  then show ?thesis using r(1-4) cs(2) by auto
qed

end
