(* ===== verification/Spec2Isabelle.thy ===== *)
theory Spec2Isabelle
  imports EM_LinkedList EM_Interfaces EM_Runs EM_Devices
begin

text \<open>
  A verification development for the data model of esp-matter.

  \<^bold>\<open>The program.\<close>  esp-matter lets an application describe a Matter device.  A node has endpoints, an
  endpoint has clusters, a cluster has attributes, commands and events; all are heap structures in
  intrusive linked lists, reached through handles (\<open>data_model/esp_matter_data_model.cpp\<close>).  Values of
  attributes are tagged unions (\<open>data_model/esp_matter_attribute_utils.cpp\<close>), kept in flash when they are
  non-volatile (\<open>data_model/private/esp_matter_nvs.cpp\<close>).  The stack of connectedhomeip reads, writes and
  lists the data model through the provider and a few functions of the older ember interface
  (\<open>data_model_provider\<close>).  Applications rarely build clusters by hand: they call the functions under
  \<open>data_model/generated\<close>, one file for each cluster and each device type, all produced from one template.
  Paths are relative to \<open>src/components/esp_matter\<close>.

  \<^bold>\<open>Style of the model.\<close>  An operation takes the state, a record \<open>dm\<close> of stores (maps from addresses to
  structures), and returns \<open>Some\<close> of its result and the new state.  \<open>None\<close> is a run that goes wrong: a
  dangling handle or null pointer is read, an index is out of range, an assertion aborts the program, or a
  loop does not end.  Error codes and null handles are ordinary results.  Integers have the width of
  the code.  Memory may run out at any allocation, as \<open>mem_fail\<close> decides.

  \<^bold>\<open>The theories.\<close>

  \<^item> \<open>EM_Prelude\<close>: integer types, error codes, flags, the allocator (\<open>utils/esp_matter_mem.cpp\<close>) and shared
    lemmas.
  \<^item> \<open>EM_LinkedList\<close>: \<open>data_model/private/singly_linked_list.h\<close> at the level of pointers.  The locale
    \<open>handle_list\<close> is the contract the rest of the code relies on; its interpretation shows that the pointer
    code appends, removes and empties a sequence, which is why the other theories keep lists of addresses.
  \<^item> \<open>EM_Values\<close>: \<open>esp_matter_val_t\<close>, its constructors, \<open>val_is_null\<close> and \<open>val_compare\<close>, which is shown to be
    an equivalence on the values of a type.
  \<^item> \<open>EM_Nvs\<close>: \<open>esp_matter_nvs.cpp\<close>.  A stored value is read back, entries of different attributes do not
    disturb each other, entries of the older key format are migrated; types without a case are not stored.
  \<^item> \<open>EM_State\<close>, \<open>EM_Tree\<close>: the structures and lookups of \<open>esp_matter_data_model.cpp\<close> and the invariant
    \<open>dm_inv\<close>: everything live has exactly one live owner and siblings have different ids.
  \<^item> \<open>EM_Attribute\<close>, \<open>EM_AttributeProps\<close>, \<open>EM_AttributeLife\<close>, \<open>EM_AttributeBounds\<close>: namespace \<open>attribute\<close>.  What is
    set is read, a bounded value stays within its bounds through every sequence of attribute operations,
    a persistent value survives a restart.
  \<^item> \<open>EM_Command\<close>, \<open>EM_Cluster\<close>, \<open>EM_Endpoint\<close>: namespaces \<open>command\<close>, \<open>event\<close>, \<open>cluster\<close>, \<open>endpoint\<close> and \<open>node\<close>.
    \<open>EM_EndpointProps\<close>, \<open>EM_EndpointLife\<close>, \<open>EM_EndpointEnable\<close> show that creation hands out fresh ids, that
    destruction frees exactly what the object owns, that enabling and disabling run all callbacks in order
    and end when the parents have no cycle, and what the counting functions count.
  \<^item> \<open>EM_Interfaces\<close>: the locales \<open>child_table\<close> and \<open>quiet_child_table\<close>, the contract of a table of children that
    are created and found by id, interpreted on attributes, events and clusters in their theories.
  \<^item> \<open>EM_DataBuffer\<close>, \<open>EM_Ember\<close>, \<open>EM_EmberProps\<close>, \<open>EM_Provider\<close>, \<open>EM_ProviderProps\<close>: the directory
    \<open>data_model_provider\<close>.  Values survive encoding and decoding, both as TLV elements and as raw bytes; a reported value is
    the one read by path; listings contain exactly the enabled server clusters.
  \<^item> \<open>EM_System\<close>, \<open>EM_Runs\<close>: an inductive step relation over all operations above; every reachable state
    satisfies \<open>dm_inv\<close>.
  \<^item> \<open>EM_Generated\<close>: the template of \<open>data_model/generated/clusters\<close>.  A generated function is a value that holds what the
    template filled in (ids, flags, types, bounds, conditions and the statements of its body), and
    \<open>create_attribute\<close>, \<open>create_command\<close>, \<open>create_event\<close>, \<open>add_feature\<close> and \<open>create\<close> run such a value on the store.
    The shared functions of \<open>esp_matter_data_model_utils.cpp\<close> are here too.
  \<^item> \<open>EM_Shape\<close>, \<open>EM_Refine\<close>, \<open>EM_Create\<close>: the specification.  The \<open>shape\<close> of a cluster is its feature map and the
    declarations of its elements, in order.  Functions whose names start with \<open>sh_\<close> run the same values on shapes.  The
    refinement says that the code on the store ends, keeps \<open>dm_inv\<close>, changes no other cluster, and that
    \<open>shape\<close> of its result is the result on shapes.
  \<^item> \<open>EM_Describe\<close>, \<open>EM_Order\<close>: checks of a description.  Types, flags and bounds of its attributes fit each
    other, and features may be added in any order.
  \<^item> \<open>EM_Clusters_01\<close> to \<open>EM_Clusters_12\<close>: the 135 generated clusters, one definition for each function of their
    files, with the checks evaluated on each.  \<open>EM_Clusters\<close> states what follows for the whole
    catalogue: creation refines its description, attributes are well typed, order makes no difference for the
    clusters whose features only add.
  \<^item> \<open>EM_Device\<close>, \<open>EM_Devices\<close>: \<open>data_model/generated/device_types\<close> in the same way, the 91 device types with
    \<open>create\<close>, \<open>add\<close> and \<open>resume\<close>, and \<open>node::create\<close>.  A device type that creates servers only yields an endpoint
    with exactly the described clusters.  For the eighteen with client clusters the functions are defined, the
    theorem does not cover them.
  \<^item> \<open>EM_Example\<close>: a small concrete store and environment; with \<open>map_api\<close>, \<open>base64_encode\<close>, \<open>std_traits\<close> and \<open>elem_api\<close>
    it shows that the hypotheses used below can hold together.

  \<^bold>\<open>Code outside the repository.\<close>  It enters as parameters: the flash library (\<open>nvs_api\<close>, hypothesis
  \<open>nvs_ok\<close>), base64 (\<open>b64_ok\<close>), the numeric traits of connectedhomeip (\<open>traits_ok\<close>), its TLV reader and writer
  (\<open>tlv_ok\<close>), its registries, access tables and list builders (record \<open>prov\<close>), the callbacks of the application and of
  plugins (record \<open>env\<close>).  A call whose result the code ignores is an entry in the \<open>log\<close>.  Callbacks are
  assumed not to call back into the data model.

  \<^bold>\<open>Loops.\<close>  There is no fuel.  Loops over lists are recursive functions.  Loops that may run for ever, over
  \<open>next\<close> pointers, over parents of endpoints and over the bits of a function table, are partial functions
  with \<open>None\<close> for a run that does not end; where the code does end this is proved, and the two cases in
  which it does not (an endpoint that is its own parent, the lookup of a combination of function flags above 0x80) are proved as well.

  \<^bold>\<open>Not modelled.\<close>

  \<^item> The default values in the \<open>config_t\<close> structures of the generated headers: a configuration is an arbitrary
    map from field names to values, and the theorems hold for each.
  \<^item> \<open>data_model/legacy\<close>, the hand-written predecessor that a build option selects instead of the generated
    files, apart from its dispatch of commands.
  \<^item> \<open>esp_matter_delegate_callbacks.cpp\<close> and \<open>data_model_provider/clusters\<close>, which construct and register objects of
    connectedhomeip; a callback is a function pointer here, and the registry is a parameter.
  \<^item> Start-up, the event loop, the stack lock, commissioning, OTA, ICD, client commands and subscriptions: calls into
    connectedhomeip and ESP-IDF with no state of their own in the data model.
  \<^item> \<open>utils/jsontlv\<close>, which works on the cursors of cJSON and of the TLV writer, both outside the repository.
  \<^item> \<open>val_print\<close> and other logging; \<open>realloc\<close> and the choice of a heap by build options.
  \<^item> The other components (bridge, console, controller, OTA provider, RainMaker), drivers, examples, tests and tools.
\<close>

end
